(* ===== verification/Tsm_Prelude.thy ===== *)
theory Tsm_Prelude
  imports "HOL-Library.Word" "HOL-Library.Monad_Syntax"
begin

text \<open>
  Shared vocabulary of the development: the machine integer types of the code, byte
  buffers with checked reads and writes (an access outside a buffer is the value
  \<open>None\<close>, because C gives it no meaning), big-endian byte strings of words, and the
  result codes of the software stack.
\<close>

unbundle bit_operations_syntax

section \<open>Machine integers and result codes\<close>

type_synonym u8 = "8 word"
type_synonym u16 = "16 word"
type_synonym u32 = "32 word"
type_synonym u64 = "64 word"

text \<open>Result codes (\<open>include/tss/tss_error.h\<close>, \<open>tcs_error.h\<close>, \<open>tpm_error.h\<close>); the two
  macros put the layer into the code (\<open>include/trousers_types.h\<close>).\<close>

abbreviation (input) TSS_SUCCESS :: u32 where "TSS_SUCCESS \<equiv> 0"
abbreviation (input) TSS_E_FAIL :: u32 where "TSS_E_FAIL \<equiv> 0x002"
abbreviation (input) TSS_E_BAD_PARAMETER :: u32 where "TSS_E_BAD_PARAMETER \<equiv> 0x003"
abbreviation (input) TSS_E_INTERNAL_ERROR :: u32 where "TSS_E_INTERNAL_ERROR \<equiv> 0x004"
abbreviation (input) TSS_E_OUTOFMEMORY :: u32 where "TSS_E_OUTOFMEMORY \<equiv> 0x005"

definition TSPERR :: "u32 \<Rightarrow> u32" where "TSPERR x = x OR 0x3000"
definition TCSERR :: "u32 \<Rightarrow> u32" where "TCSERR x = x OR 0x2000"

lemma TCSERR_nonzero [simp]: "TCSERR x \<noteq> 0"
proof
  assume "TCSERR x = 0"
  then have "bit (TCSERR x) 13 = bit (0 :: u32) 13" by simp
  then show False by (simp add: TCSERR_def bit_simps)
qed

lemma TSPERR_nonzero [simp]: "TSPERR x \<noteq> 0"
proof
  assume "TSPERR x = 0"
  then have "bit (TSPERR x) 13 = bit (0 :: u32) 13" by simp
  then show False by (simp add: TSPERR_def bit_simps)
qed

text \<open>The largest value of a C \<open>int\<close>; a signed result beyond it is undefined.\<close>

abbreviation (input) INT_MAX :: int where "INT_MAX \<equiv> 2147483647"

section \<open>Byte buffers\<close>

definition read_at :: "'a list \<Rightarrow> nat \<Rightarrow> nat \<Rightarrow> 'a list" where
  "read_at b off n = take n (drop off b)"

definition write_at :: "'a list \<Rightarrow> nat \<Rightarrow> 'a list \<Rightarrow> 'a list" where
  "write_at b off xs = take off b @ xs @ drop (off + length xs) b"

text \<open>\<open>memcpy\<close> out of and into a buffer; \<open>None\<close> outside its bounds.\<close>

definition rd :: "'a list \<Rightarrow> nat \<Rightarrow> nat \<Rightarrow> 'a list option" where
  "rd b off n = (if off + n \<le> length b then Some (read_at b off n) else None)"

definition wr :: "'a list \<Rightarrow> nat \<Rightarrow> 'a list \<Rightarrow> 'a list option" where
  "wr b off xs = (if off + length xs \<le> length b then Some (write_at b off xs) else None)"

named_theorems buf_simps \<open>reads and writes of buffers\<close>

lemma length_read_at [simp]: "off + n \<le> length b \<Longrightarrow> length (read_at b off n) = n"
  by (simp add: read_at_def)

lemma length_write_at [simp]:
  "off + length xs \<le> length b \<Longrightarrow> length (write_at b off xs) = length b"
  by (simp add: write_at_def)

lemma read_write_same [buf_simps]:
  "off + length xs \<le> length b \<Longrightarrow> read_at (write_at b off xs) off (length xs) = xs"
  by (simp add: read_at_def write_at_def)

lemma read_at_split:
  "read_at b off (m + n) = read_at b off m @ read_at b (off + m) n"
  by (simp add: read_at_def take_add add.commute)

lemma read_at_16:
  "read_at b off 16 = read_at b off 4 @ read_at b (off + 4) 4 @ read_at b (off + 8) 4
     @ read_at b (off + 12) 4"
  using read_at_split [of b off 4 12] read_at_split [of b "off + 4" 4 8]
    read_at_split [of b "off + 8" 4 4] by (simp add: add.assoc)

lemma write_at_append:
  "off + length xs + length ys \<le> length b \<Longrightarrow>
   write_at (write_at b off xs) (off + length xs) ys = write_at b off (xs @ ys)"
  by (simp add: write_at_def ac_simps)

lemma write_at_Nil [simp]: "write_at b off [] = b"
  by (simp add: write_at_def)

lemma read_write_before:
  "o' + n \<le> off \<Longrightarrow> off + length xs \<le> length b \<Longrightarrow>
   read_at (write_at b off xs) o' n = read_at b o' n"
  by (simp add: read_at_def write_at_def take_drop)

lemma read_write_after:
  "off + length xs \<le> o' \<Longrightarrow> off + length xs \<le> length b \<Longrightarrow>
   read_at (write_at b off xs) o' n = read_at b o' n"
  by (simp add: read_at_def write_at_def)

lemma nth_write_at:
  "off + length xs \<le> length b \<Longrightarrow> i < length b \<Longrightarrow>
   write_at b off xs ! i = (if off \<le> i \<and> i < off + length xs then xs ! (i - off) else b ! i)"
  by (auto simp: write_at_def nth_append)

lemma read_at_zero [simp]: "read_at b off 0 = []"
  by (simp add: read_at_def)

lemma read_at_all [simp]: "length b = n \<Longrightarrow> read_at b 0 n = b"
  by (auto simp: read_at_def)

lemma write_at_again [simp]:
  "length xs = length ys \<Longrightarrow> off + length xs \<le> length b \<Longrightarrow>
   write_at (write_at b off xs) off ys = write_at b off ys"
  by (simp add: write_at_def)

lemma read_at_append1: "off + n \<le> length xs \<Longrightarrow> read_at (xs @ ys) off n = read_at xs off n"
  by (simp add: read_at_def)

lemma read_at_append2: "length xs \<le> off \<Longrightarrow> read_at (xs @ ys) off n = read_at ys (off - length xs) n"
  by (simp add: read_at_def)

section \<open>Big-endian byte strings\<close>

definition be8 :: "u8 \<Rightarrow> u8 list" where
  "be8 w = [w]"

definition be16 :: "u16 \<Rightarrow> u8 list" where
  "be16 w = [ucast (drop_bit 8 w), ucast w]"

definition be32 :: "u32 \<Rightarrow> u8 list" where
  "be32 w = [ucast (drop_bit 24 w), ucast (drop_bit 16 w), ucast (drop_bit 8 w), ucast w]"

definition be64 :: "u64 \<Rightarrow> u8 list" where
  "be64 w = [ucast (drop_bit 56 w), ucast (drop_bit 48 w), ucast (drop_bit 40 w),
     ucast (drop_bit 32 w), ucast (drop_bit 24 w), ucast (drop_bit 16 w),
     ucast (drop_bit 8 w), ucast w]"

lemma length_be [simp]:
  "length (be8 x) = 1" "length (be16 a) = 2" "length (be32 b) = 4" "length (be64 c) = 8"
  by (simp_all add: be8_def be16_def be32_def be64_def)

lemma be_not_Nil [simp]: "be8 x \<noteq> []" "be16 a \<noteq> []" "be32 b \<noteq> []" "be64 c \<noteq> []"
  by (simp_all add: be8_def be16_def be32_def be64_def)

lemma add3: "i + 3 = Suc (Suc (Suc i))" and add4: "i + 4 = Suc (Suc (Suc (Suc i)))" for i :: nat
  by simp_all

lemma list4: "length b = 4 \<Longrightarrow> b = [b ! 0, b ! 1, b ! 2, b ! 3]"
  by (rule nth_equalityI) (auto simp: less_Suc_eq numeral_eq_Suc)

lemma update4: "length c = 4 \<Longrightarrow> c[0 := w, Suc 0 := x, 2 := y, 3 := z] = [w, x, y, z]"
  by (rule nth_equalityI) (auto simp: nth_list_update less_Suc_eq numeral_eq_Suc)

end
