(* ===== verification/Sms4.thy ===== *)
theory Sms4
  imports Tsm_Prelude
begin

text \<open>
  The SMS4 block cipher and its modes, \<open>tcmalg/sms4.c\<close> and \<open>tcmalg/tcm_sms4.c\<close>.

  The C code reads and writes 32-bit words through \<open>BYTE *\<close> casts, so the byte order of
  the host takes part in it: \<open>host_bytes\<close> gives the memory image of a word, and every
  definition that stores words has the host's byte order as its argument \<open>le\<close>.
  Buffers are byte lists; \<open>M\<close> and \<open>S\<close> are different objects in memory.  A read or a write
  outside a buffer, and a signed overflow, is \<open>None\<close>.
\<close>

section \<open>Bytes and words\<close>

text \<open>The word at an address, most significant byte first (\<open>Unpack32\<close>).\<close>

definition Unpack32 :: "u8 list \<Rightarrow> u32" where
  "Unpack32 src = push_bit 24 (ucast (src ! 0)) OR push_bit 16 (ucast (src ! 1))
     OR push_bit 8 (ucast (src ! 2)) OR ucast (src ! 3)"

text \<open>The four bytes a \<open>UINT32\<close> object occupies on a little- or big-endian host.\<close>

definition host_bytes :: "bool \<Rightarrow> u32 \<Rightarrow> u8 list" where
  "host_bytes le w = (if le then rev (be32 w) else be32 w)"

definition ROTATE_LEFT :: "u32 \<Rightarrow> nat \<Rightarrow> u32" where
  "ROTATE_LEFT x n = push_bit n x OR drop_bit (32 - n) x"

section \<open>Tables and the round functions\<close>

definition SBX :: "u8 list list" where
  "SBX = [
   [0xd6, 0x90, 0xe9, 0xfe, 0xcc, 0xe1, 0x3d, 0xb7,
    0x16, 0xb6, 0x14, 0xc2, 0x28, 0xfb, 0x2c, 0x05],
   [0x2b, 0x67, 0x9a, 0x76, 0x2a, 0xbe, 0x04, 0xc3,
    0xaa, 0x44, 0x13, 0x26, 0x49, 0x86, 0x06, 0x99],
   [0x9c, 0x42, 0x50, 0xf4, 0x91, 0xef, 0x98, 0x7a,
    0x33, 0x54, 0x0b, 0x43, 0xed, 0xcf, 0xac, 0x62],
   [0xe4, 0xb3, 0x1c, 0xa9, 0xc9, 0x08, 0xe8, 0x95,
    0x80, 0xdf, 0x94, 0xfa, 0x75, 0x8f, 0x3f, 0xa6],
   [0x47, 0x07, 0xa7, 0xfc, 0xf3, 0x73, 0x17, 0xba,
    0x83, 0x59, 0x3c, 0x19, 0xe6, 0x85, 0x4f, 0xa8],
   [0x68, 0x6b, 0x81, 0xb2, 0x71, 0x64, 0xda, 0x8b,
    0xf8, 0xeb, 0x0f, 0x4b, 0x70, 0x56, 0x9d, 0x35],
   [0x1e, 0x24, 0x0e, 0x5e, 0x63, 0x58, 0xd1, 0xa2,
    0x25, 0x22, 0x7c, 0x3b, 0x01, 0x21, 0x78, 0x87],
   [0xd4, 0x00, 0x46, 0x57, 0x9f, 0xd3, 0x27, 0x52,
    0x4c, 0x36, 0x02, 0xe7, 0xa0, 0xc4, 0xc8, 0x9e],
   [0xea, 0xbf, 0x8a, 0xd2, 0x40, 0xc7, 0x38, 0xb5,
    0xa3, 0xf7, 0xf2, 0xce, 0xf9, 0x61, 0x15, 0xa1],
   [0xe0, 0xae, 0x5d, 0xa4, 0x9b, 0x34, 0x1a, 0x55,
    0xad, 0x93, 0x32, 0x30, 0xf5, 0x8c, 0xb1, 0xe3],
   [0x1d, 0xf6, 0xe2, 0x2e, 0x82, 0x66, 0xca, 0x60,
    0xc0, 0x29, 0x23, 0xab, 0x0d, 0x53, 0x4e, 0x6f],
   [0xd5, 0xdb, 0x37, 0x45, 0xde, 0xfd, 0x8e, 0x2f,
    0x03, 0xff, 0x6a, 0x72, 0x6d, 0x6c, 0x5b, 0x51],
   [0x8d, 0x1b, 0xaf, 0x92, 0xbb, 0xdd, 0xbc, 0x7f,
    0x11, 0xd9, 0x5c, 0x41, 0x1f, 0x10, 0x5a, 0xd8],
   [0x0a, 0xc1, 0x31, 0x88, 0xa5, 0xcd, 0x7b, 0xbd,
    0x2d, 0x74, 0xd0, 0x12, 0xb8, 0xe5, 0xb4, 0xb0],
   [0x89, 0x69, 0x97, 0x4a, 0x0c, 0x96, 0x77, 0x7e,
    0x65, 0xb9, 0xf1, 0x09, 0xc5, 0x6e, 0xc6, 0x84],
   [0x18, 0xf0, 0x7d, 0xec, 0x3a, 0xdc, 0x4d, 0x20,
    0x79, 0xee, 0x5f, 0x3e, 0xd7, 0xcb, 0x39, 0x48]]"

definition SBox :: "u8 \<Rightarrow> u8" where
  "SBox into = (let h = drop_bit 4 into in SBX ! unat h ! unat (into XOR push_bit 4 h))"

definition sbox_word :: "u32 \<Rightarrow> u32" where
  "sbox_word A =
    (let b0 = SBox (ucast (drop_bit 24 A)); b1 = SBox (ucast (drop_bit 16 A));
         b2 = SBox (ucast (drop_bit 8 A)); b3 = SBox (ucast A)
     in push_bit 24 (ucast b0) OR push_bit 16 (ucast b1) OR push_bit 8 (ucast b2) OR ucast b3)"

definition T :: "u32 \<Rightarrow> u32" where
  "T A = (let B = sbox_word A in
     B XOR ROTATE_LEFT B 2 XOR ROTATE_LEFT B 10 XOR ROTATE_LEFT B 18 XOR ROTATE_LEFT B 24)"

definition KT :: "u32 \<Rightarrow> u32" where
  "KT A = (let B = sbox_word A in B XOR ROTATE_LEFT B 13 XOR ROTATE_LEFT B 23)"

definition FK :: "u32 list" where
  "FK = [0xA3B1BAC6, 0x56AA3350, 0x677D9197, 0xB27022DC]"

definition CK :: "u32 list" where
  "CK = [
   0x00070e15, 0x1c232a31, 0x383f464d, 0x545b6269,
   0x70777e85, 0x8c939aa1, 0xa8afb6bd, 0xc4cbd2d9,
   0xe0e7eef5, 0xfc030a11, 0x181f262d, 0x343b4249,
   0x50575e65, 0x6c737a81, 0x888f969d, 0xa4abb2b9,
   0xc0c7ced5, 0xdce3eaf1, 0xf8ff060d, 0x141b2229,
   0x30373e45, 0x4c535a61, 0x686f767d, 0x848b9299,
   0xa0a7aeb5, 0xbcc3cad1, 0xd8dfe6ed, 0xf4fb0209,
   0x10171e25, 0x2c333a41, 0x484f565d, 0x646b7279]"

section \<open>Key schedule and block functions\<close>

text \<open>
  The four words of a 16-byte block, read through \<open>Unpack32\<close>; the array \<open>K\<close> (\<open>X\<close>) of 36
  words starts with them and is filled by the loop over \<open>i\<close>.
\<close>

definition block_words :: "u8 list \<Rightarrow> u32 list" where
  "block_words b = [Unpack32 (read_at b 0 4), Unpack32 (read_at b 4 4),
     Unpack32 (read_at b 8 4), Unpack32 (read_at b 12 4)]"

definition key_body :: "nat \<Rightarrow> u32 list \<times> u32 list \<Rightarrow> u32 list \<times> u32 list" where
  "key_body i = (\<lambda>(K, rk).
     let r = K ! i XOR KT (K ! (i + 1) XOR K ! (i + 2) XOR K ! (i + 3) XOR CK ! i)
     in (K[i + 4 := r], rk[i := r]))"

definition SMS4Key :: "u8 list \<Rightarrow> u32 list" where
  "SMS4Key MK = (let t = block_words MK in
     snd (fold key_body [0..<32]
       ([t ! 0 XOR FK ! 0, t ! 1 XOR FK ! 1, t ! 2 XOR FK ! 2, t ! 3 XOR FK ! 3]
          @ replicate 32 0, replicate 32 0)))"

definition enc_body :: "u32 list \<Rightarrow> nat \<Rightarrow> u32 list \<Rightarrow> u32 list" where
  "enc_body rk i X =
     (let X = X[i := X ! i XOR T (X ! (i + 1) XOR X ! (i + 2) XOR X ! (i + 3) XOR rk ! i)]
      in X[i + 4 := X ! i])"

definition SMS4Enc :: "bool \<Rightarrow> u8 list \<Rightarrow> u32 list \<Rightarrow> u8 list" where
  "SMS4Enc le Plain rk =
     (let X = fold (enc_body rk) [0..<32] (block_words Plain @ replicate 32 0);
          out = (\<lambda>w. host_bytes le (Unpack32 (host_bytes le w)))
      in out (X ! 35) @ out (X ! 34) @ out (X ! 33) @ out (X ! 32))"

definition dec_body :: "u32 list \<Rightarrow> nat \<Rightarrow> u32 list \<Rightarrow> u32 list" where
  "dec_body rk i X =
     (let X = X[i := X ! i XOR T (X ! (i + 1) XOR X ! (i + 2) XOR X ! (i + 3) XOR rk ! (31 - i))]
      in X[i + 4 := X ! i])"

definition SMS4Dec :: "bool \<Rightarrow> u8 list \<Rightarrow> u32 list \<Rightarrow> u8 list" where
  "SMS4Dec le Cipher rk =
     (let X = fold (dec_body rk) [0..<32] (block_words Cipher @ replicate 32 0);
          out = (\<lambda>w. host_bytes le (Unpack32 (host_bytes le w)))
      in out (X ! 35) @ out (X ! 34) @ out (X ! 33) @ out (X ! 32))"

section \<open>The cipher as a Feistel network\<close>

lemma Unpack32_be32 [simp]: "Unpack32 (be32 w) = w"
proof (rule bit_word_eqI)
  fix n assume "n < LENGTH(32)"
  then consider "n < 8" | "8 \<le> n" "n < 16" | "16 \<le> n" "n < 24" | "24 \<le> n" "n < 32"
    by fastforce
  then show "bit (Unpack32 (be32 w)) n = bit w n"
    by cases (auto simp: Unpack32_def be32_def bit_simps)
qed

lemma be32_Unpack32_4: "be32 (Unpack32 [a, b, c, d]) = [a, b, c, d]"
  by (simp add: Unpack32_def be32_def; intro conjI bit_word_eqI;
      auto simp: bit_simps dest: bit_imp_le_length)

lemma be32_Unpack32: "length b = 4 \<Longrightarrow> be32 (Unpack32 b) = b"
  using be32_Unpack32_4 list4 by metis

text \<open>The byte order of the host cancels: what is stored is the big-endian word.\<close>

lemma host_out [simp]: "host_bytes le (Unpack32 (host_bytes le w)) = be32 w"
  by (simp add: host_bytes_def Unpack32_def be32_def; intro impI conjI bit_word_eqI;
      auto simp: bit_simps)

text \<open>
  The specification of the block functions: 32 rounds on four words, then the words in
  reverse order.  Decryption is the same network with the round keys reversed.
\<close>

type_synonym quad = "u32 \<times> u32 \<times> u32 \<times> u32"

fun sms4_round :: "u32 \<Rightarrow> quad \<Rightarrow> quad" where
  "sms4_round k (a, b, c, d) = (b, c, d, a XOR T (b XOR c XOR d XOR k))"

fun quad_rev :: "quad \<Rightarrow> quad" where
  "quad_rev (a, b, c, d) = (d, c, b, a)"

definition quad_of :: "u8 list \<Rightarrow> quad" where
  "quad_of b = (Unpack32 (read_at b 0 4), Unpack32 (read_at b 4 4),
     Unpack32 (read_at b 8 4), Unpack32 (read_at b 12 4))"

definition quad_bytes :: "quad \<Rightarrow> u8 list" where
  "quad_bytes q = (case q of (a, b, c, d) \<Rightarrow> be32 a @ be32 b @ be32 c @ be32 d)"

definition sms4_spec :: "u32 list \<Rightarrow> u8 list \<Rightarrow> u8 list" where
  "sms4_spec ks b = quad_bytes (quad_rev (fold sms4_round ks (quad_of b)))"

lemma quad_rev_rev [simp]: "quad_rev (quad_rev q) = q"
  by (cases q) simp

lemma sms4_round_inverse: "sms4_round k (quad_rev (sms4_round k q)) = quad_rev q"
  by (cases q) (simp add: ac_simps)

lemma sms4_rounds_inverse:
  "fold sms4_round (rev ks) (quad_rev (fold sms4_round ks q)) = quad_rev q"
proof (induction ks arbitrary: q)
  case (Cons k ks)
  then show ?case by (simp add: sms4_round_inverse)
qed simp

lemma quad_of_bytes [simp]: "quad_of (quad_bytes q) = q"
  by (cases q) (simp add: quad_of_def quad_bytes_def read_at_def)

lemma quad_bytes_of: "length b = 16 \<Longrightarrow> quad_bytes (quad_of b) = b"
  using read_at_16 [of b 0] read_at_all [of b 16]
  by (simp add: quad_bytes_def quad_of_def be32_Unpack32)

lemma length_quad_bytes [simp]: "length (quad_bytes q) = 16"
  by (cases q) (simp add: quad_bytes_def)

lemma length_sms4_spec [simp]: "length (sms4_spec ks b) = 16"
  by (simp add: sms4_spec_def)

lemma sms4_spec_inverse: "length b = 16 \<Longrightarrow> sms4_spec (rev ks) (sms4_spec ks b) = b"
  by (simp add: sms4_spec_def sms4_rounds_inverse quad_bytes_of)

subsection \<open>The array loops implement the network\<close>

text \<open>The four words of the array the next round reads.\<close>

definition window :: "nat \<Rightarrow> u32 list \<Rightarrow> quad" where
  "window i X = (X ! i, X ! (i + 1), X ! (i + 2), X ! (i + 3))"

lemma length_enc_fold [simp]: "length (fold (enc_body rk) xs X) = length X"
  by (induction xs arbitrary: X) (simp_all add: enc_body_def Let_def)

lemma window_enc_body:
  "i + 4 < length X \<Longrightarrow> window (Suc i) (enc_body rk i X) = sms4_round (rk ! i) (window i X)"
  by (simp add: window_def enc_body_def Let_def nth_list_update add3 add4)

lemma window_enc_fold:
  assumes "n + 4 \<le> length X" and "n \<le> length rk"
  shows "window n (fold (enc_body rk) [0..<n] X) = fold sms4_round (take n rk) (window 0 X)"
  using assms
proof (induction n)
  case (Suc n)
  then show ?case by (simp add: window_enc_body take_Suc_conv_app_nth)
qed simp

lemma dec_fold_enc_fold:
  "length rk = 32 \<Longrightarrow> n \<le> 32 \<Longrightarrow>
   fold (dec_body rk) [0..<n] X = fold (enc_body (rev rk)) [0..<n] X"
  by (induction n) (simp_all add: dec_body_def enc_body_def rev_nth)

lemma length_block_words [simp]: "length (block_words b) = 4"
  by (simp add: block_words_def)

lemma window_block: "window 0 (block_words b @ xs) = quad_of b"
  by (simp add: window_def block_words_def quad_of_def)

lemma SMS4Enc_spec:
  assumes "length rk = 32"
  shows "SMS4Enc le b rk = sms4_spec rk b"
proof -
  let ?X = "fold (enc_body rk) [0..<32] (block_words b @ replicate 32 0)"
  have "window 32 ?X = fold sms4_round rk (quad_of b)"
    using assms window_enc_fold [of 32 "block_words b @ replicate 32 0" rk]
    by (simp add: window_block)
  moreover have "SMS4Enc le b rk = quad_bytes (quad_rev (window 32 ?X))"
    by (simp add: SMS4Enc_def window_def quad_bytes_def Let_def)
  ultimately show ?thesis by (simp add: sms4_spec_def)
qed

lemma SMS4Dec_Enc_rev: "length rk = 32 \<Longrightarrow> SMS4Dec le b rk = SMS4Enc le b (rev rk)"
  by (simp add: SMS4Dec_def SMS4Enc_def dec_fold_enc_fold)

lemma length_key_fold:
  "length (snd (fold key_body xs s)) = length (snd s)"
  by (induction xs arbitrary: s) (simp_all add: key_body_def Let_def split: prod.splits)

lemma length_SMS4Key [simp]: "length (SMS4Key MK) = 32"
  by (simp add: SMS4Key_def length_key_fold Let_def)

lemma length_SMS4Enc [simp]: "length (SMS4Enc le b rk) = 16"
  by (simp add: SMS4Enc_def Let_def)

lemma length_SMS4Dec [simp]: "length (SMS4Dec le b rk) = 16"
  by (simp add: SMS4Dec_def Let_def)

lemma SMS4Dec_Enc:
  "length rk = 32 \<Longrightarrow> length b = 16 \<Longrightarrow> SMS4Dec le (SMS4Enc le' b rk) rk = b"
  by (simp add: SMS4Dec_Enc_rev SMS4Enc_spec sms4_spec_inverse)

section \<open>Modes of operation\<close>

abbreviation (input) SMS4_MODE_CBC :: u8 where "SMS4_MODE_CBC \<equiv> 0"
abbreviation (input) SMS4_MODE_ECB :: u8 where "SMS4_MODE_ECB \<equiv> 1"

definition sms4CBC_xor :: "u8 list \<Rightarrow> u8 list \<Rightarrow> nat \<Rightarrow> u8 list" where
  "sms4CBC_xor str1 str2 len = map (\<lambda>i. str1 ! i XOR str2 ! i) [0..<len]"

text \<open>
  The loops advance \<open>tmpM\<close>, \<open>tmpS\<close> and \<open>i\<close> together by the block size, so the pointers
  are \<open>M + i\<close> and \<open>S + i\<close>.
\<close>

function Sms4CBC_E_loop ::
  "bool \<Rightarrow> u32 list \<Rightarrow> u8 list \<Rightarrow> int \<Rightarrow> int \<Rightarrow> u8 list \<Rightarrow> u8 list \<Rightarrow> (int \<times> u8 list) option" where
  "Sms4CBC_E_loop le rk M mLen i buf S =
     (if 0 < mLen - i then do {
        blk \<leftarrow> rd M (nat i) 16;
        let buf = sms4CBC_xor blk buf 16;
        S \<leftarrow> wr S (nat i) (SMS4Enc le buf rk);
        buf \<leftarrow> rd S (nat i) 16;
        if i + 16 > INT_MAX then None else Sms4CBC_E_loop le rk M mLen (i + 16) buf S
      } else Some (i, S))"
  by pat_completeness auto
termination by (relation "measure (\<lambda>(le, rk, M, mLen, i, buf, S). nat (mLen - i))") auto

function Sms4CBC_D_loop ::
  "bool \<Rightarrow> u32 list \<Rightarrow> u8 list \<Rightarrow> int \<Rightarrow> int \<Rightarrow> u8 list \<Rightarrow> u8 list \<Rightarrow> (int \<times> u8 list) option" where
  "Sms4CBC_D_loop le rk S mLen i buf M =
     (if 0 < mLen - i then do {
        blk \<leftarrow> rd S (nat i) 16;
        M \<leftarrow> wr M (nat i) (SMS4Dec le blk rk);
        p \<leftarrow> rd M (nat i) 16;
        M \<leftarrow> wr M (nat i) (sms4CBC_xor p buf 16);
        buf \<leftarrow> rd S (nat i) 16;
        if i + 16 > INT_MAX then None else Sms4CBC_D_loop le rk S mLen (i + 16) buf M
      } else Some (i, M))"
  by pat_completeness auto
termination by (relation "measure (\<lambda>(le, rk, S, mLen, i, buf, M). nat (mLen - i))") auto

function Sms4ECB_E_loop ::
  "bool \<Rightarrow> u32 list \<Rightarrow> u8 list \<Rightarrow> int \<Rightarrow> int \<Rightarrow> u8 list \<Rightarrow> (int \<times> u8 list) option" where
  "Sms4ECB_E_loop le rk M mLen i S =
     (if 0 < mLen - i then do {
        blk \<leftarrow> rd M (nat i) 16;
        S \<leftarrow> wr S (nat i) (SMS4Enc le blk rk);
        if i + 16 > INT_MAX then None else Sms4ECB_E_loop le rk M mLen (i + 16) S
      } else Some (i, S))"
  by pat_completeness auto
termination by (relation "measure (\<lambda>(le, rk, M, mLen, i, S). nat (mLen - i))") auto

function Sms4ECB_D_loop ::
  "bool \<Rightarrow> u32 list \<Rightarrow> u8 list \<Rightarrow> int \<Rightarrow> int \<Rightarrow> u8 list \<Rightarrow> (int \<times> u8 list) option" where
  "Sms4ECB_D_loop le rk S mLen i M =
     (if 0 < mLen - i then do {
        blk \<leftarrow> rd S (nat i) 16;
        M \<leftarrow> wr M (nat i) (SMS4Dec le blk rk);
        if i + 16 > INT_MAX then None else Sms4ECB_D_loop le rk S mLen (i + 16) M
      } else Some (i, M))"
  by pat_completeness auto
termination by (relation "measure (\<lambda>(le, rk, S, mLen, i, M). nat (mLen - i))") auto

text \<open>The results are the returned length and the output buffer.\<close>

definition Sms4CBC_E ::
  "bool \<Rightarrow> u8 list \<Rightarrow> u8 list \<Rightarrow> int \<Rightarrow> u8 list \<Rightarrow> u8 list \<Rightarrow> (int \<times> u8 list) option" where
  "Sms4CBC_E le IV M mLen S pucKey = do {
     k \<leftarrow> rd pucKey 0 16;
     let smsKey = SMS4Key k;
     sms4Buff \<leftarrow> rd IV 0 16;
     Sms4CBC_E_loop le smsKey M mLen 0 sms4Buff S
   }"

definition Sms4CBC_D ::
  "bool \<Rightarrow> u8 list \<Rightarrow> u8 list \<Rightarrow> int \<Rightarrow> u8 list \<Rightarrow> u8 list \<Rightarrow> (int \<times> u8 list) option" where
  "Sms4CBC_D le IV M mLen S pucKey = do {
     k \<leftarrow> rd pucKey 0 16;
     let smsKey = SMS4Key k;
     sms4Buff \<leftarrow> rd IV 0 16;
     Sms4CBC_D_loop le smsKey S mLen 0 sms4Buff M
   }"

definition Sms4ECB_E ::
  "bool \<Rightarrow> u8 list \<Rightarrow> int \<Rightarrow> u8 list \<Rightarrow> u8 list \<Rightarrow> (int \<times> u8 list) option" where
  "Sms4ECB_E le M mLen S pucKey = do {
     k \<leftarrow> rd pucKey 0 16;
     let smsKey = SMS4Key k;
     Sms4ECB_E_loop le smsKey M mLen 0 S
   }"

definition Sms4ECB_D ::
  "bool \<Rightarrow> u8 list \<Rightarrow> int \<Rightarrow> u8 list \<Rightarrow> u8 list \<Rightarrow> (int \<times> u8 list) option" where
  "Sms4ECB_D le M mLen S pucKey = do {
     k \<leftarrow> rd pucKey 0 16;
     let smsKey = SMS4Key k;
     Sms4ECB_D_loop le smsKey S mLen 0 M
   }"

definition SMS4_fill :: "u8 list \<Rightarrow> int \<Rightarrow> (u8 list \<times> int) option" where
  "SMS4_fill inb len =
     (let fillByte = (if len AND 0x0f \<noteq> 0 then 16 - (len AND 0x0f) else 16) in do {
        inb \<leftarrow> wr inb (nat len) (replicate (nat fillByte) (word_of_int fillByte));
        if len + fillByte > INT_MAX then None else Some (inb, len + fillByte)
      })"

text \<open>
  The public entry points; a \<open>NULL\<close> pointer is \<open>None\<close>.  The result is the return value
  with the two buffers.
\<close>

definition SMS4_E ::
  "bool \<Rightarrow> u8 list option \<Rightarrow> u8 list option \<Rightarrow> int \<Rightarrow> u8 list option \<Rightarrow> u8 list option \<Rightarrow> u8
     \<Rightarrow> (int \<times> u8 list option \<times> u8 list option) option" where
  "SMS4_E le IV M mLen S key mode =
     (if M = None \<or> S = None \<or> key = None \<or> mLen \<le> 0 then Some (-1, M, S)
      else do {
        (m, tmpLen) \<leftarrow> SMS4_fill (the M) mLen;
        if tmpLen AND 0x0f \<noteq> 0 then Some (-1, Some m, S)
        else if mode = SMS4_MODE_ECB then do {
          (r, s) \<leftarrow> Sms4ECB_E le m tmpLen (the S) (the key);
          Some (r, Some m, Some s) }
        else if mode = SMS4_MODE_CBC then
          (case IV of
             None \<Rightarrow> Some (-1, Some m, S)
           | Some iv \<Rightarrow> do {
               (r, s) \<leftarrow> Sms4CBC_E le iv m tmpLen (the S) (the key);
               Some (r, Some m, Some s) })
        else Some (-1, Some m, S)
      })"

definition strip_fill :: "int \<Rightarrow> u8 list \<Rightarrow> u8 list option \<Rightarrow>
    (int \<times> u8 list option \<times> u8 list option) option" where
  "strip_fill tmpLen m S = do {
     lst \<leftarrow> (if tmpLen \<le> 0 then None else rd m (nat (tmpLen - 1)) 1);
     Some (tmpLen - uint (lst ! 0), Some m, S)
   }"

definition SMS4_D ::
  "bool \<Rightarrow> u8 list option \<Rightarrow> u8 list option \<Rightarrow> int \<Rightarrow> u8 list option \<Rightarrow> u8 list option \<Rightarrow> u8
     \<Rightarrow> (int \<times> u8 list option \<times> u8 list option) option" where
  "SMS4_D le IV M mLen S key mode =
     (if M = None \<or> S = None \<or> key = None \<or> mLen \<le> 0 then Some (-1, M, S)
      else if mLen AND 0x0f \<noteq> 0 then Some (-1, M, S)
      else if mode = SMS4_MODE_ECB then do {
        (tmpLen, m) \<leftarrow> Sms4ECB_D le (the M) mLen (the S) (the key);
        strip_fill tmpLen m S }
      else if mode = SMS4_MODE_CBC then
        (case IV of
           None \<Rightarrow> Some (-1, M, S)
         | Some iv \<Rightarrow> do {
             (tmpLen, m) \<leftarrow> Sms4CBC_D le iv (the M) mLen (the S) (the key);
             strip_fill tmpLen m S })
      else Some (-1, M, S))"

text \<open>
  \<open>tcm_sms4.c\<close>: the plaintext is copied to a fresh buffer with room for the fill; \<open>alloc\<close>
  says whether \<open>malloc\<close> succeeds.  A negative length reaches \<open>memcpy\<close> as a huge size.
\<close>

definition tcm_sms4_encrypt ::
  "bool \<Rightarrow> bool \<Rightarrow> u8 list option \<Rightarrow> u8 list \<Rightarrow> int \<Rightarrow> u8 list option \<Rightarrow> u8 list option
     \<Rightarrow> (int \<times> u8 list option) option" where
  "tcm_sms4_encrypt alloc le IV M mLen S key =
     (if mLen + 16 > INT_MAX then None
      else if \<not> alloc then Some (-1, S)
      else if mLen < 0 then None
      else do {
        src \<leftarrow> rd M 0 (nat mLen);
        pTempM \<leftarrow> wr (replicate (nat mLen + 16) 0) 0 src;
        (iret, _, s) \<leftarrow> SMS4_E le IV (Some pTempM) mLen S key SMS4_MODE_CBC;
        Some (iret, s)
      })"

definition tcm_sms4_decrypt ::
  "bool \<Rightarrow> u8 list option \<Rightarrow> u8 list option \<Rightarrow> int \<Rightarrow> u8 list option \<Rightarrow> u8 list option
     \<Rightarrow> (int \<times> u8 list option \<times> u8 list option) option" where
  "tcm_sms4_decrypt le IV M mLen S key = SMS4_D le IV M mLen S key SMS4_MODE_CBC"


declare Sms4CBC_E_loop.simps [simp del] Sms4CBC_D_loop.simps [simp del]
  Sms4ECB_E_loop.simps [simp del] Sms4ECB_D_loop.simps [simp del]

section \<open>What the modes compute\<close>

definition blocks :: "nat \<Rightarrow> nat \<Rightarrow> u8 list \<Rightarrow> u8 list list" where
  "blocks k n X = map (\<lambda>j. read_at X (16 * j) 16) [k..<k + n]"

fun cbc_enc :: "(u8 list \<Rightarrow> u8 list) \<Rightarrow> u8 list \<Rightarrow> u8 list list \<Rightarrow> u8 list list" where
  "cbc_enc E iv [] = []"
| "cbc_enc E iv (b # bs) = (let c = E (sms4CBC_xor b iv 16) in c # cbc_enc E c bs)"

fun cbc_dec :: "(u8 list \<Rightarrow> u8 list) \<Rightarrow> u8 list \<Rightarrow> u8 list list \<Rightarrow> u8 list list" where
  "cbc_dec D iv [] = []"
| "cbc_dec D iv (c # cs) = sms4CBC_xor (D c) iv 16 # cbc_dec D c cs"

text \<open>The fill of \<open>SMS4_fill\<close>: 1 to 16 bytes, each the number of bytes added.\<close>

definition fill_len :: "nat \<Rightarrow> nat" where
  "fill_len n = 16 - n mod 16"

definition filled :: "u8 list \<Rightarrow> u8 list" where
  "filled m = m @ replicate (fill_len (length m)) (of_nat (fill_len (length m)))"

lemma length_xor [simp]: "length (sms4CBC_xor a b n) = n"
  by (simp add: sms4CBC_xor_def)

lemma xor_involution:
  "length a = 16 \<Longrightarrow> sms4CBC_xor (sms4CBC_xor a b 16) b 16 = a"
  by (rule nth_equalityI) (simp_all add: sms4CBC_xor_def xor.assoc)

lemma blocks_0 [simp]: "blocks k 0 X = []"
  by (simp add: blocks_def)

lemma blocks_Suc: "blocks k (Suc n) X = read_at X (16 * k) 16 # blocks (Suc k) n X"
  by (simp add: blocks_def upt_conv_Cons del: upt_Suc)

lemma length_blocks [simp]: "length (blocks k n X) = n"
  by (simp add: blocks_def)

lemma blocks_length_16: "16 * (k + n) \<le> length X \<Longrightarrow> b \<in> set (blocks k n X) \<Longrightarrow> length b = 16"
  by (auto simp: blocks_def)

lemma concat_blocks: "16 * (k + n) \<le> length X \<Longrightarrow> concat (blocks k n X) = read_at X (16 * k) (16 * n)"
proof (induction n arbitrary: k)
  case (Suc n)
  then show ?case by (simp add: blocks_Suc read_at_split [of X "16 * k" 16 "16 * n"] add.commute)
qed simp

lemma blocks_concat:
  "\<forall>c \<in> set cs. length c = 16 \<Longrightarrow> length pre = 16 * k \<Longrightarrow>
   blocks k (length cs) (pre @ concat cs @ rest) = cs"
proof (induction cs arbitrary: k pre)
  case (Cons c cs)
  have "blocks (Suc k) (length cs) ((pre @ c) @ concat cs @ rest) = cs"
    using Cons.prems by (intro Cons.IH) auto
  then show ?case using Cons.prems by (simp add: blocks_Suc read_at_append2 read_at_append1)
qed simp

lemma length_concat_16: "\<forall>c \<in> set cs. length c = 16 \<Longrightarrow> length (concat cs) = 16 * length cs"
  by (induction cs) auto

lemma length_cbc_enc [simp]: "length (cbc_enc E iv bs) = length bs"
  by (induction bs arbitrary: iv) (simp_all add: Let_def)

lemma length_cbc_dec [simp]: "length (cbc_dec D iv bs) = length bs"
  by (induction bs arbitrary: iv) simp_all

lemma cbc_dec_length_16: "c \<in> set (cbc_dec D iv bs) \<Longrightarrow> length c = 16"
  by (induction bs arbitrary: iv) auto

text \<open>
  What the modes need of the block functions: blocks of 16 bytes, and \<open>D\<close> undoes \<open>E\<close>.
\<close>

locale block_cipher =
  fixes E :: "u8 list \<Rightarrow> u8 list" and D :: "u8 list \<Rightarrow> u8 list"
  assumes length_E: "length (E b) = 16"
    and length_D: "length (D b) = 16"
    and D_E: "length b = 16 \<Longrightarrow> D (E b) = b"
begin

lemma ecb_inverse: "\<forall>b \<in> set bs. length b = 16 \<Longrightarrow> map D (map E bs) = bs"
  by (induction bs) (simp_all add: D_E)

lemma cbc_inverse:
  "\<forall>b \<in> set bs. length b = 16 \<Longrightarrow> cbc_dec D iv (cbc_enc E iv bs) = bs"
  by (induction bs arbitrary: iv) (simp_all add: D_E xor_involution Let_def)

lemma cbc_enc_length_16: "c \<in> set (cbc_enc E iv bs) \<Longrightarrow> length c = 16"
  by (induction bs arbitrary: iv) (auto simp: Let_def length_E)

lemma length_concat_cbc_enc: "length (concat (cbc_enc E iv bs)) = 16 * length bs"
  using cbc_enc_length_16 by (subst length_concat_16) auto

lemma blocks_cbc_enc: "blocks 0 (length bs) (concat (cbc_enc E iv bs) @ rest) = cbc_enc E iv bs"
  using blocks_concat [of "cbc_enc E iv bs" "[]" 0] cbc_enc_length_16 by simp

lemma blocks_ecb: "blocks 0 (length bs) (concat (map E bs) @ rest) = map E bs"
  using blocks_concat [of "map E bs" "[]" 0] by (simp add: length_E)

end

interpretation sms4: block_cipher "\<lambda>b. SMS4Enc le b (SMS4Key k)" "\<lambda>b. SMS4Dec le' b (SMS4Key k)"
  for le le' k
  by unfold_locales (simp_all add: SMS4Dec_Enc)

subsection \<open>The loops\<close>

lemma length_concat_map_16:
  "(\<And>b. length (F b) = 16) \<Longrightarrow> length (concat (map F bs)) = 16 * length bs"
  by (induction bs) simp_all

lemma write_next_block:
  assumes "length c = 16" "length ys = 16 * n" "16 * (k + Suc n) \<le> length S"
  shows "write_at (write_at S (16 * k) c) (16 * Suc k) ys = write_at S (16 * k) (c @ ys)"
  using assms write_at_append [of "16 * k" c ys S] by (simp add: add.commute)

lemma ECB_E_loop:
  assumes "16 * (k + n) \<le> length M" "16 * (k + n) \<le> length S" "16 * int (k + n) \<le> INT_MAX"
  shows "Sms4ECB_E_loop le rk M (16 * int (k + n)) (16 * int k) S = Some (16 * int (k + n),
     write_at S (16 * k) (concat (map (\<lambda>b. SMS4Enc le b rk) (blocks k n M))))"
  using assms
proof (induction n arbitrary: k S)
  case 0
  then show ?case by (simp add: Sms4ECB_E_loop.simps)
next
  case (Suc n)
  let ?c = "SMS4Enc le (read_at M (16 * k) 16) rk"
  have "Sms4ECB_E_loop le rk M (16 * int (k + Suc n)) (16 * int k) S =
      Sms4ECB_E_loop le rk M (16 * int (Suc k + n)) (16 * int (Suc k)) (write_at S (16 * k) ?c)"
    using Suc.prems
    by (subst Sms4ECB_E_loop.simps) (simp add: rd_def wr_def nat_mult_distrib algebra_simps)
  also have "\<dots> = Some (16 * int (Suc k + n), write_at (write_at S (16 * k) ?c) (16 * Suc k)
      (concat (map (\<lambda>b. SMS4Enc le b rk) (blocks (Suc k) n M))))"
    using Suc.prems by (intro Suc.IH) simp_all
  finally show ?case
    using Suc.prems by (simp add: blocks_Suc write_next_block length_concat_map_16 del: mult_Suc_right)
qed

lemma ECB_D_loop:
  assumes "16 * (k + n) \<le> length M" "16 * (k + n) \<le> length S" "16 * int (k + n) \<le> INT_MAX"
  shows "Sms4ECB_D_loop le rk S (16 * int (k + n)) (16 * int k) M = Some (16 * int (k + n),
     write_at M (16 * k) (concat (map (\<lambda>b. SMS4Dec le b rk) (blocks k n S))))"
  using assms
proof (induction n arbitrary: k M)
  case 0
  then show ?case by (simp add: Sms4ECB_D_loop.simps)
next
  case (Suc n)
  let ?p = "SMS4Dec le (read_at S (16 * k) 16) rk"
  have "Sms4ECB_D_loop le rk S (16 * int (k + Suc n)) (16 * int k) M =
      Sms4ECB_D_loop le rk S (16 * int (Suc k + n)) (16 * int (Suc k)) (write_at M (16 * k) ?p)"
    using Suc.prems
    by (subst Sms4ECB_D_loop.simps) (simp add: rd_def wr_def nat_mult_distrib algebra_simps)
  also have "\<dots> = Some (16 * int (Suc k + n), write_at (write_at M (16 * k) ?p) (16 * Suc k)
      (concat (map (\<lambda>b. SMS4Dec le b rk) (blocks (Suc k) n S))))"
    using Suc.prems by (intro Suc.IH) simp_all
  finally show ?case
    using Suc.prems by (simp add: blocks_Suc write_next_block length_concat_map_16 del: mult_Suc_right)
qed

lemma length_concat_cbc_Enc:
  "length (concat (cbc_enc (\<lambda>b. SMS4Enc le b rk) iv bs)) = 16 * length bs"
  by (induction bs arbitrary: iv) (simp_all add: Let_def)

lemma length_concat_cbc_dec: "length (concat (cbc_dec D iv bs)) = 16 * length bs"
  by (induction bs arbitrary: iv) simp_all

lemma CBC_E_loop:
  assumes "16 * (k + n) \<le> length M" "16 * (k + n) \<le> length S" "16 * int (k + n) \<le> INT_MAX"
  shows "Sms4CBC_E_loop le rk M (16 * int (k + n)) (16 * int k) buf S = Some (16 * int (k + n),
     write_at S (16 * k) (concat (cbc_enc (\<lambda>b. SMS4Enc le b rk) buf (blocks k n M))))"
  using assms
proof (induction n arbitrary: k buf S)
  case 0
  then show ?case by (simp add: Sms4CBC_E_loop.simps)
next
  case (Suc n)
  let ?c = "SMS4Enc le (sms4CBC_xor (read_at M (16 * k) 16) buf 16) rk"
  have "read_at (write_at S (16 * k) ?c) (16 * k) 16 = ?c"
    using Suc.prems read_write_same [of "16 * k" ?c S] by simp
  then have "Sms4CBC_E_loop le rk M (16 * int (k + Suc n)) (16 * int k) buf S =
      Sms4CBC_E_loop le rk M (16 * int (Suc k + n)) (16 * int (Suc k)) ?c (write_at S (16 * k) ?c)"
    using Suc.prems
    by (subst Sms4CBC_E_loop.simps) (simp add: rd_def wr_def Let_def nat_mult_distrib algebra_simps)
  also have "\<dots> = Some (16 * int (Suc k + n), write_at (write_at S (16 * k) ?c) (16 * Suc k)
      (concat (cbc_enc (\<lambda>b. SMS4Enc le b rk) ?c (blocks (Suc k) n M))))"
    using Suc.prems by (intro Suc.IH) simp_all
  finally show ?case
    using Suc.prems
    by (simp add: blocks_Suc write_next_block length_concat_cbc_Enc Let_def del: mult_Suc_right)
qed

lemma CBC_D_loop:
  assumes "16 * (k + n) \<le> length M" "16 * (k + n) \<le> length S" "16 * int (k + n) \<le> INT_MAX"
  shows "Sms4CBC_D_loop le rk S (16 * int (k + n)) (16 * int k) buf M = Some (16 * int (k + n),
     write_at M (16 * k) (concat (cbc_dec (\<lambda>b. SMS4Dec le b rk) buf (blocks k n S))))"
  using assms
proof (induction n arbitrary: k buf M)
  case 0
  then show ?case by (simp add: Sms4CBC_D_loop.simps)
next
  case (Suc n)
  let ?d = "SMS4Dec le (read_at S (16 * k) 16) rk"
  let ?p = "sms4CBC_xor ?d buf 16" and ?c = "read_at S (16 * k) 16"
  have "read_at (write_at M (16 * k) ?d) (16 * k) 16 = ?d"
    using Suc.prems read_write_same [of "16 * k" ?d M] by simp
  then have "Sms4CBC_D_loop le rk S (16 * int (k + Suc n)) (16 * int k) buf M =
      Sms4CBC_D_loop le rk S (16 * int (Suc k + n)) (16 * int (Suc k)) ?c (write_at M (16 * k) ?p)"
    using Suc.prems
    by (subst Sms4CBC_D_loop.simps) (simp add: rd_def wr_def Let_def nat_mult_distrib algebra_simps)
  also have "\<dots> = Some (16 * int (Suc k + n), write_at (write_at M (16 * k) ?p) (16 * Suc k)
      (concat (cbc_dec (\<lambda>b. SMS4Dec le b rk) ?c (blocks (Suc k) n S))))"
    using Suc.prems by (intro Suc.IH) simp_all
  finally show ?case
    using Suc.prems
    by (simp add: blocks_Suc write_next_block length_concat_cbc_dec Let_def del: mult_Suc_right)
qed

lemma and_15: "x AND 15 = x mod 16" for x :: int
proof -
  have "x AND mask 4 = x mod 2 ^ 4" by (simp only: take_bit_eq_mask [symmetric] take_bit_eq_mod)
  then show ?thesis by (simp add: mask_eq_exp_minus_1)
qed


subsection \<open>Fill, encryption and decryption\<close>

lemma fill_len_bounds: "0 < fill_len n" "fill_len n \<le> 16"
  by (simp_all add: fill_len_def)

lemma fill_len_total: "n + fill_len n = 16 * Suc (n div 16)"
proof -
  have "n + (16 - r) = 16 * Suc q" if "r < 16" "16 * q + r = n" for q r :: nat
    using that by simp
  then show ?thesis by (simp add: fill_len_def)
qed

lemma length_filled [simp]: "length (filled m) = 16 * Suc (length m div 16)"
  by (simp only: filled_def length_append length_replicate fill_len_total)

lemma last_filled: "filled m ! (length (filled m) - 1) = of_nat (fill_len (length m))"
proof -
  have "\<not> length m + fill_len (length m) - 1 < length m" using fill_len_bounds [of "length m"] by linarith
  then show ?thesis
    using fill_len_bounds [of "length m"] by (simp add: filled_def nth_append)
qed

lemma SMS4_fill_ok:
  assumes "take n buf = m" "n + fill_len n \<le> length buf" "int n + 16 \<le> INT_MAX"
  shows "SMS4_fill buf (int n) =
    Some (filled m @ drop (n + fill_len n) buf, int (n + fill_len n))"
proof -
  have n: "length m = n" using assms by auto
  have f: "(if int n AND 15 \<noteq> 0 then 16 - (int n AND 15) else 16) = int (fill_len n)"
    by (auto simp: and_15 fill_len_def zmod_int of_nat_diff)
  have "int n + int (fill_len n) \<le> INT_MAX" using assms(3) fill_len_bounds [of n] by linarith
  then show ?thesis
    using assms n unfolding SMS4_fill_def f
    by (simp add: Let_def wr_def write_at_def filled_def)
qed

text \<open>Encryption in the two modes, on a buffer that has room for the fill.\<close>

lemma SMS4_E_CBC:
  assumes "take n buf = m" "0 < n" "16 * Suc (n div 16) \<le> length buf"
    "16 * Suc (n div 16) \<le> length S" "int n + 16 \<le> INT_MAX" "16 \<le> length key" "16 \<le> length iv"
  shows "SMS4_E le (Some iv) (Some buf) (int n) (Some S) (Some key) SMS4_MODE_CBC =
    Some (16 * int (Suc (n div 16)), Some (filled m @ drop (16 * Suc (n div 16)) buf),
      Some (write_at S 0 (concat (cbc_enc (\<lambda>b. SMS4Enc le b (SMS4Key (take 16 key))) (take 16 iv)
        (blocks 0 (Suc (n div 16)) (filled m))))))"
proof -
  let ?N = "Suc (n div 16)" and ?m = "filled m @ drop (16 * Suc (n div 16)) buf"
  have n: "length m = n" using assms by auto
  have b: "blocks 0 ?N ?m = blocks 0 ?N (filled m)"
    by (auto simp: blocks_def n intro!: read_at_append1)
  have fill: "SMS4_fill buf (int n) = Some (?m, 16 * int ?N)"
    using SMS4_fill_ok [of n buf m] assms fill_len_total [of n] by simp
  have "int (16 * (n div 16)) \<le> int n" by (subst of_nat_le_iff) simp
  then have bnd: "16 * int ?N \<le> INT_MAX" using assms(5) by simp
  have "Sms4CBC_E le iv ?m (16 * int ?N) S key = Some (16 * int ?N,
      write_at S 0 (concat (cbc_enc (\<lambda>b. SMS4Enc le b (SMS4Key (take 16 key))) (take 16 iv)
        (blocks 0 ?N (filled m)))))"
    using CBC_E_loop [of 0 ?N ?m S le] assms bnd n
    by (simp add: Sms4CBC_E_def rd_def read_at_def b del: of_nat_Suc mult_Suc_right)
  then show ?thesis
    using assms(2) fill by (simp add: SMS4_E_def and_15 del: of_nat_Suc mult_Suc_right)
qed

lemma SMS4_D_CBC:
  assumes "0 < N" "16 * N \<le> length M" "16 * N \<le> length S" "16 * int N \<le> INT_MAX"
    "16 \<le> length key" "16 \<le> length iv"
    and pt: "pt = concat (cbc_dec (\<lambda>b. SMS4Dec le b (SMS4Key (take 16 key))) (take 16 iv)
      (blocks 0 N S))"
  shows "SMS4_D le (Some iv) (Some M) (16 * int N) (Some S) (Some key) SMS4_MODE_CBC =
    Some (16 * int N - uint (pt ! (16 * N - 1)), Some (write_at M 0 pt), Some S)"
proof -
  have l: "length pt = 16 * N" by (simp add: pt length_concat_cbc_dec)
  have "Sms4CBC_D le iv M (16 * int N) S key = Some (16 * int N, write_at M 0 pt)"
    using CBC_D_loop [of 0 N M S le] assms
    by (simp add: Sms4CBC_D_def rd_def read_at_def)
  moreover have "strip_fill (16 * int N) (write_at M 0 pt) (Some S) =
      Some (16 * int N - uint (pt ! (16 * N - 1)), Some (write_at M 0 pt), Some S)"
    using assms(1,2) l
    by (simp add: strip_fill_def rd_def read_at_def nat_diff_distrib nat_mult_distrib
        write_at_def hd_drop_conv_nth nth_append take_Suc_conv_app_nth)
  ultimately show ?thesis using assms(1) by (simp add: SMS4_D_def and_15)
qed

subsection \<open>The key schedule as a recurrence\<close>

fun key_spec :: "u32 list \<Rightarrow> quad \<Rightarrow> u32 list" where
  "key_spec [] q = []"
| "key_spec (k # ks) (a, b, c, d) =
     (let r = a XOR KT (b XOR c XOR d XOR k) in r # key_spec ks (b, c, d, r))"

lemma length_key_body: "length (fst (key_body i s)) = length (fst s)"
  "length (snd (key_body i s)) = length (snd s)"
  by (simp_all add: key_body_def Let_def split: prod.splits)

lemma key_fold:
  assumes "n + i \<le> 32" "length K = 36" "length rk = 32"
  shows "drop i (take (n + i) (snd (fold key_body [i..<n + i] (K, rk)))) =
      key_spec (take n (drop i CK)) (window i K)
    \<and> take i (snd (fold key_body [i..<n + i] (K, rk))) = take i rk"
  using assms
proof (induction n arbitrary: i K rk)
  case (Suc n)
  let ?r = "K ! i XOR KT (K ! (i + 1) XOR K ! (i + 2) XOR K ! (i + 3) XOR CK ! i)"
  let ?K = "K[i + 4 := ?r]" and ?rk = "rk[i := ?r]"
  let ?f = "snd (fold key_body [Suc i..<n + Suc i] (?K, ?rk))"
  have IH: "drop (Suc i) (take (n + Suc i) ?f) = key_spec (take n (drop (Suc i) CK)) (window (Suc i) ?K)"
    "take (Suc i) ?f = take (Suc i) ?rk"
    using Suc.IH [of "Suc i" ?K ?rk] Suc.prems by auto
  have f: "fold key_body [i..<Suc n + i] (K, rk) = fold key_body [Suc i..<n + Suc i] (?K, ?rk)"
    by (simp add: upt_conv_Cons key_body_def Let_def del: upt_Suc)
  have w: "window (Suc i) ?K = (K ! (i + 1), K ! (i + 2), K ! (i + 3), ?r)"
    using Suc.prems by (simp add: window_def add3 add4)
  have i: "i < length ?f" "i < 32" using Suc.prems by (simp_all add: length_key_fold)
  then have "?f ! i = ?r" using arg_cong [OF IH(2), of "\<lambda>xs. xs ! i"] Suc.prems by simp
  then have "drop i (take (Suc n + i) ?f) = ?r # drop (Suc i) (take (n + Suc i) ?f)"
    using i by (simp add: Cons_nth_drop_Suc [symmetric])
  moreover have "take (Suc n) (drop i CK) = CK ! i # take n (drop (Suc i) CK)"
    using i by (simp add: Cons_nth_drop_Suc [symmetric] CK_def)
  moreover have "take i ?f = take i rk"
    using arg_cong [OF IH(2), of "take i"] by simp
  ultimately show ?case using f IH(1) w by (simp add: window_def Let_def)
qed simp

lemma SMS4Key_spec:
  "SMS4Key MK = key_spec CK (case quad_of MK of (a, b, c, d) \<Rightarrow>
     (a XOR FK ! 0, b XOR FK ! 1, c XOR FK ! 2, d XOR FK ! 3))"
proof -
  let ?t = "block_words MK"
  let ?K = "[?t ! 0 XOR FK ! 0, ?t ! 1 XOR FK ! 1, ?t ! 2 XOR FK ! 2, ?t ! 3 XOR FK ! 3] @ replicate 32 0"
  have "length CK = 32" by (simp add: CK_def)
  then show ?thesis
    using key_fold [of 32 0 ?K "replicate 32 0"]
    by (simp add: SMS4Key_def Let_def length_key_fold window_def quad_of_def block_words_def)
qed
definition std_block :: "u8 list" where
  "std_block = [0x01, 0x23, 0x45, 0x67, 0x89, 0xAB, 0xCD, 0xEF,
     0xFE, 0xDC, 0xBA, 0x98, 0x76, 0x54, 0x32, 0x10]"

text \<open>The rows of the table, so that an evaluation does not open the whole of it.\<close>

lemma SBX_rows:
  "SBX ! 0 = [0xd6, 0x90, 0xe9, 0xfe, 0xcc, 0xe1, 0x3d, 0xb7,
     0x16, 0xb6, 0x14, 0xc2, 0x28, 0xfb, 0x2c, 0x05]"
  "SBX ! (Suc 0) = [0x2b, 0x67, 0x9a, 0x76, 0x2a, 0xbe, 0x04, 0xc3,
     0xaa, 0x44, 0x13, 0x26, 0x49, 0x86, 0x06, 0x99]"
  "SBX ! 2 = [0x9c, 0x42, 0x50, 0xf4, 0x91, 0xef, 0x98, 0x7a,
     0x33, 0x54, 0x0b, 0x43, 0xed, 0xcf, 0xac, 0x62]"
  "SBX ! 3 = [0xe4, 0xb3, 0x1c, 0xa9, 0xc9, 0x08, 0xe8, 0x95,
     0x80, 0xdf, 0x94, 0xfa, 0x75, 0x8f, 0x3f, 0xa6]"
  "SBX ! 4 = [0x47, 0x07, 0xa7, 0xfc, 0xf3, 0x73, 0x17, 0xba,
     0x83, 0x59, 0x3c, 0x19, 0xe6, 0x85, 0x4f, 0xa8]"
  "SBX ! 5 = [0x68, 0x6b, 0x81, 0xb2, 0x71, 0x64, 0xda, 0x8b,
     0xf8, 0xeb, 0x0f, 0x4b, 0x70, 0x56, 0x9d, 0x35]"
  "SBX ! 6 = [0x1e, 0x24, 0x0e, 0x5e, 0x63, 0x58, 0xd1, 0xa2,
     0x25, 0x22, 0x7c, 0x3b, 0x01, 0x21, 0x78, 0x87]"
  "SBX ! 7 = [0xd4, 0x00, 0x46, 0x57, 0x9f, 0xd3, 0x27, 0x52,
     0x4c, 0x36, 0x02, 0xe7, 0xa0, 0xc4, 0xc8, 0x9e]"
  "SBX ! 8 = [0xea, 0xbf, 0x8a, 0xd2, 0x40, 0xc7, 0x38, 0xb5,
     0xa3, 0xf7, 0xf2, 0xce, 0xf9, 0x61, 0x15, 0xa1]"
  "SBX ! 9 = [0xe0, 0xae, 0x5d, 0xa4, 0x9b, 0x34, 0x1a, 0x55,
     0xad, 0x93, 0x32, 0x30, 0xf5, 0x8c, 0xb1, 0xe3]"
  "SBX ! 10 = [0x1d, 0xf6, 0xe2, 0x2e, 0x82, 0x66, 0xca, 0x60,
     0xc0, 0x29, 0x23, 0xab, 0x0d, 0x53, 0x4e, 0x6f]"
  "SBX ! 11 = [0xd5, 0xdb, 0x37, 0x45, 0xde, 0xfd, 0x8e, 0x2f,
     0x03, 0xff, 0x6a, 0x72, 0x6d, 0x6c, 0x5b, 0x51]"
  "SBX ! 12 = [0x8d, 0x1b, 0xaf, 0x92, 0xbb, 0xdd, 0xbc, 0x7f,
     0x11, 0xd9, 0x5c, 0x41, 0x1f, 0x10, 0x5a, 0xd8]"
  "SBX ! 13 = [0x0a, 0xc1, 0x31, 0x88, 0xa5, 0xcd, 0x7b, 0xbd,
     0x2d, 0x74, 0xd0, 0x12, 0xb8, 0xe5, 0xb4, 0xb0]"
  "SBX ! 14 = [0x89, 0x69, 0x97, 0x4a, 0x0c, 0x96, 0x77, 0x7e,
     0x65, 0xb9, 0xf1, 0x09, 0xc5, 0x6e, 0xc6, 0x84]"
  "SBX ! 15 = [0x18, 0xf0, 0x7d, 0xec, 0x3a, 0xdc, 0x4d, 0x20,
     0x79, 0xee, 0x5f, 0x3e, 0xd7, 0xcb, 0x39, 0x48]"
  by (simp_all add: SBX_def)

lemmas sms4_eval = sbox_word_def SBox_def SBX_rows ROTATE_LEFT_def

section \<open>Properties\<close>

text \<open>C1: a message encrypted with \<open>tcm_sms4_encrypt\<close> on one host and decrypted with
  \<open>tcm_sms4_decrypt\<close> on another, of either byte order, with the same key and initial vector, is
  the message, with its length.  The ciphertext is the message length rounded up to the next
  multiple of 16, always longer than the message.\<close>

theorem tcm_sms4_roundtrip:
  assumes "0 < length m" "int (length m) + 16 \<le> INT_MAX" "16 \<le> length key" "16 \<le> length iv"
    and "16 * Suc (length m div 16) \<le> length S" "16 * Suc (length m div 16) \<le> length M"
  shows "\<exists>ct M'.
    tcm_sms4_encrypt True le (Some iv) m (int (length m)) (Some S) (Some key) =
      Some (16 * int (Suc (length m div 16)), Some ct) \<and>
    tcm_sms4_decrypt le' (Some iv) (Some M) (16 * int (Suc (length m div 16))) (Some ct) (Some key) =
      Some (int (length m), Some M', Some ct) \<and>
    take (length m) M' = m"
proof -
  let ?N = "Suc (length m div 16)" and ?k = "SMS4Key (take 16 key)"
  let ?E = "\<lambda>b. SMS4Enc le b ?k" and ?D = "\<lambda>b. SMS4Dec le' b ?k"
  let ?bs = "blocks 0 ?N (filled m)"
  let ?cs = "cbc_enc ?E (take 16 iv) ?bs"
  let ?ct = "write_at S 0 (concat ?cs)"
  have "write_at (replicate (length m + 16) 0) 0 m = m @ replicate 16 (0 :: u8)"
    by (simp add: write_at_def)
  then have enc: "tcm_sms4_encrypt True le (Some iv) m (int (length m)) (Some S) (Some key) =
      Some (16 * int ?N, Some ?ct)"
    using SMS4_E_CBC [of "length m" "m @ replicate 16 0" m S key iv le] assms
    by (simp add: tcm_sms4_encrypt_def rd_def wr_def del: of_nat_Suc)
  have bs16: "\<forall>b \<in> set ?bs. length b = 16"
    by (intro ballI blocks_length_16 [of 0 ?N "filled m"]) simp_all
  have cc: "concat ?bs = filled m" using concat_blocks [of 0 ?N "filled m"] by simp
  have "?ct = concat ?cs @ drop (16 * ?N) S"
    using sms4.length_concat_cbc_enc [of le "take 16 key" "take 16 iv" ?bs]
    by (simp add: write_at_def)
  then have "blocks 0 ?N ?ct = ?cs" using sms4.blocks_cbc_enc [of ?bs] by simp
  then have pt: "concat (cbc_dec ?D (take 16 iv) (blocks 0 ?N ?ct)) = filled m"
    using sms4.cbc_inverse [OF bs16] cc by simp
  have "length ?ct = length S"
    using assms sms4.length_concat_cbc_enc [of le "take 16 key" "take 16 iv" ?bs] by simp
  moreover have "int (16 * (length m div 16)) \<le> int (length m)" by (subst of_nat_le_iff) simp
  moreover have "uint (of_nat (fill_len (length m)) :: u8) = int (fill_len (length m))"
    using fill_len_bounds [of "length m"] by (simp add: unsigned_of_nat take_bit_nat_eq_self)
  moreover have "16 * int ?N - int (fill_len (length m)) = int (length m)"
    using arg_cong [OF fill_len_total [of "length m"], of int] by simp
  ultimately have dec: "tcm_sms4_decrypt le' (Some iv) (Some M) (16 * int ?N) (Some ?ct) (Some key) =
      Some (int (length m), Some (write_at M 0 (filled m)), Some ?ct)"
    using SMS4_D_CBC [of ?N M ?ct key iv "filled m" le'] assms pt last_filled [of m]
    by (simp add: tcm_sms4_decrypt_def)
  have "take (length m) (write_at M 0 (filled m)) = m"
    by (simp add: write_at_def filled_def)
  with enc dec show ?thesis by blast
qed

text \<open>The hypotheses hold for a 5-byte message.\<close>

theorem tcm_sms4_roundtrip_witness:
  "\<exists>ct M'.
    tcm_sms4_encrypt True True (Some (replicate 16 7)) [1, 2, 3, 4, 5] 5 (Some (replicate 16 0))
      (Some (replicate 16 9)) = Some (16, Some ct) \<and>
    tcm_sms4_decrypt False (Some (replicate 16 7)) (Some (replicate 16 0)) 16 (Some ct)
      (Some (replicate 16 9)) = Some (5, Some M', Some ct) \<and>
    take 5 M' = [1, 2, 3, 4, 5]"
proof -
  have l: "length [1, 2, 3, 4, 5 :: u8] = 5" by simp
  show ?thesis
    using tcm_sms4_roundtrip [of "[1, 2, 3, 4, 5]" "replicate 16 9" "replicate 16 7"
        "replicate 16 0" "replicate 16 0" True False, unfolded l] by simp
qed

text \<open>C17: on a host of either byte order the two block functions are the 32-round network and the
  network with reversed round keys, so that decryption undoes encryption for every key and block.\<close>

theorem SMS4_block_refinement:
  "SMS4Enc le b (SMS4Key k) = sms4_spec (SMS4Key k) b \<and>
   SMS4Dec le b (SMS4Key k) = sms4_spec (rev (SMS4Key k)) b \<and>
   SMS4Dec le' (SMS4Enc le (quad_bytes q) (SMS4Key k)) (SMS4Key k) = quad_bytes q"
  by (simp add: SMS4Enc_spec SMS4Dec_Enc_rev sms4_spec_inverse)

lemma SMS4Key_std: "SMS4Key std_block =
    [0xF12186F9, 0x41662B61, 0x5A6AB19A, 0x7BA92077,
     0x367360F4, 0x776A0C61, 0xB6BB89B3, 0x24763151,
     0xA520307C, 0xB7584DBD, 0xC30753ED, 0x7EE55B57,
     0x6988608C, 0x30D895B7, 0x44BA14AF, 0x104495A1,
     0xD120B428, 0x73B55FA3, 0xCC874966, 0x92244439,
     0xE89E641F, 0x98CA015A, 0xC7159060, 0x99E1FD2E,
     0xB79BD80C, 0x1D2115B0, 0x0E228AEB, 0xF1780C81,
     0x428D3654, 0x62293496, 0x01CF72E5, 0x9124A012]"
  by (simp cong: let_weak_cong add: SMS4Key_spec CK_def FK_def quad_of_def std_block_def
      read_at_def Unpack32_def Let_def KT_def sms4_eval)

text \<open>The published known answer of the cipher (GB/T 32907, example 1).\<close>

theorem SMS4_known_answer:
  "SMS4Enc le std_block (SMS4Key std_block) =
    [0x68, 0x1E, 0xDF, 0x34, 0xD2, 0x06, 0x96, 0x5E, 0x86, 0xB3, 0xE9, 0x4F, 0x53, 0x6E, 0x42, 0x46]"
proof -
  have "SMS4Enc le std_block (SMS4Key std_block) = sms4_spec (SMS4Key std_block) std_block"
    by (simp add: SMS4Enc_spec)
  then show ?thesis
    unfolding SMS4Key_std
    by (simp cong: let_weak_cong add: sms4_spec_def quad_of_def std_block_def
        read_at_def Unpack32_def Let_def T_def sms4_eval quad_bytes_def be32_def)
qed

text \<open>\<open>tcm_sms4_encrypt\<close> computes the CBC chain of the filled message: nothing of the output
  buffer beyond the ciphertext changes, and a failed allocation leaves it as it was.\<close>

theorem tcm_sms4_encrypt_cbc:
  assumes "0 < length m" "int (length m) + 16 \<le> INT_MAX" "16 \<le> length key" "16 \<le> length iv"
    and "16 * Suc (length m div 16) \<le> length S"
  shows "tcm_sms4_encrypt True le (Some iv) m (int (length m)) (Some S) (Some key) =
      Some (16 * int (Suc (length m div 16)), Some (
        concat (cbc_enc (sms4_spec (SMS4Key (take 16 key))) (take 16 iv)
          (blocks 0 (Suc (length m div 16)) (filled m)))
        @ drop (16 * Suc (length m div 16)) S))
    \<and> tcm_sms4_encrypt False le (Some iv) m (int (length m)) (Some S) (Some key) = Some (-1, Some S)"
proof -
  let ?N = "Suc (length m div 16)"
  have "write_at (replicate (length m + 16) 0) 0 m = m @ replicate 16 (0 :: u8)"
    by (simp add: write_at_def)
  moreover have "16 * ?N \<le> length m + 16"
    using fill_len_total [of "length m"] fill_len_bounds [of "length m"] by linarith
  moreover have "(\<lambda>b. SMS4Enc le b (SMS4Key (take 16 key))) = sms4_spec (SMS4Key (take 16 key))"
    by (simp add: SMS4Enc_spec)
  ultimately show ?thesis
    using SMS4_E_CBC [of "length m" "m @ replicate 16 0" m S key iv le] assms
      length_concat_cbc_Enc [of le "SMS4Key (take 16 key)" "take 16 iv" "blocks 0 ?N (filled m)"]
    by (simp add: tcm_sms4_encrypt_def rd_def wr_def write_at_def [of S] del: of_nat_Suc mult_Suc_right)
qed

theorem tcm_sms4_encrypt_cbc_witness:
  "tcm_sms4_encrypt False True (Some (replicate 16 7)) [1, 2, 3] 3 (Some (replicate 16 0))
     (Some (replicate 16 9)) = Some (-1, Some (replicate 16 0))"
  using tcm_sms4_encrypt_cbc [of "[1, 2, 3]" "replicate 16 9" "replicate 16 7" "replicate 16 0" True]
  by simp

text \<open>Decryption trusts the last byte it decrypts: the fill is not checked, so a ciphertext block
  whose plaintext ends in a byte above 16 gives a negative length that is not the error code -1.\<close>

theorem SMS4_D_fill_unchecked:
  "\<exists>ct r M'. SMS4_D le None (Some (replicate 16 0)) 16 (Some ct) (Some (replicate 16 k)) SMS4_MODE_ECB
     = Some (r, Some M', Some ct) \<and> r < -1"
proof -
  let ?k = "SMS4Key (replicate 16 k)" and ?ct = "SMS4Enc le (replicate 16 255) (SMS4Key (replicate 16 k))"
  have "Sms4ECB_D_loop le ?k ?ct 16 0 (replicate 16 0) =
      Some (16, write_at (replicate 16 0) 0 (replicate 16 255))"
    using ECB_D_loop [of 0 1 "replicate 16 0" ?ct le ?k]
    by (simp add: blocks_def SMS4Dec_Enc)
  then have "SMS4_D le None (Some (replicate 16 0)) 16 (Some ?ct) (Some (replicate 16 k)) SMS4_MODE_ECB
      = Some (-239, Some (replicate 16 255), Some ?ct)"
    by (simp add: SMS4_D_def and_15 Sms4ECB_D_def rd_def read_at_def write_at_def strip_fill_def
        take_replicate drop_replicate)
  then show ?thesis by (intro exI conjI) auto
qed

end
