(* ===== verification/Sch.thy ===== *)
theory Sch
  imports Tsm_Prelude
begin

text \<open>
  The SCH hash function, \<open>tcmalg/sch.c\<close>: the context with its byte counter, chaining value
  and buffer, absorption of input in pieces of any length, and the digests of 256, 192 and
  160 bits.  A C pair (pointer, length) is a byte list of that length, which the theorems
  bound by \<open>2 ^ 32\<close>.

  \<open>ROTL\<close> shifts a 32-bit word by \<open>n\<close> and by \<open>32 - n\<close>.  \<open>sch_process\<close> uses it with \<open>n\<close> from 0
  to 63, where one of the two shift counts is out of the range C defines; the model takes the
  shift count modulo 32, as the x86 and ARM shift instructions the code is built for do.
\<close>

section \<open>The context and its operations\<close>

record sch_context =
  total0 :: u32
  total1 :: u32
  chain :: "u32 list"
  buffer :: "u8 list"

definition GET_UINT32 :: "u8 list \<Rightarrow> nat \<Rightarrow> u32" where
  "GET_UINT32 b i = push_bit 24 (ucast (b ! i)) OR push_bit 16 (ucast (b ! (i + 1)))
     OR push_bit 8 (ucast (b ! (i + 2))) OR ucast (b ! (i + 3))"

definition PUT_UINT32 :: "u32 \<Rightarrow> u8 list \<Rightarrow> nat \<Rightarrow> u8 list" where
  "PUT_UINT32 n b i = b[i := ucast (drop_bit 24 n), i + 1 := ucast (drop_bit 16 n),
     i + 2 := ucast (drop_bit 8 n), i + 3 := ucast n]"

definition sch_starts :: "sch_context \<Rightarrow> sch_context" where
  "sch_starts ctx = ctx\<lparr>total0 := 0, total1 := 0,
     chain := [0x7380166F, 0x4914B2B9, 0x172442D7, 0xDA8A0600,
               0xA96F30BC, 0x163138AA, 0xE38DEE4D, 0xB0FB0E4E]\<rparr>"

definition ROTL :: "u32 \<Rightarrow> nat \<Rightarrow> u32" where
  "ROTL x n = push_bit (n mod 32) x OR drop_bit ((32 - n mod 32) mod 32) x"

definition P0 :: "u32 \<Rightarrow> u32" where "P0 x = x XOR ROTL x 9 XOR ROTL x 17"
definition P1 :: "u32 \<Rightarrow> u32" where "P1 x = x XOR ROTL x 15 XOR ROTL x 23"

text \<open>The message expansion: the loops that fill \<open>W\<close> and \<open>W1\<close>.\<close>

definition W_body :: "nat \<Rightarrow> u32 list \<Rightarrow> u32 list" where
  "W_body j W =
     (let temp = W ! (j - 16) XOR W ! (j - 9) XOR ROTL (W ! (j - 3)) 15
      in W[j := P1 temp XOR ROTL (W ! (j - 13)) 7 XOR W ! (j - 6)])"

definition expand_W :: "u8 list \<Rightarrow> u32 list" where
  "expand_W data = fold W_body [16..<68]
     (map (\<lambda>i. GET_UINT32 data (4 * i)) [0..<16] @ replicate 52 0)"

definition expand_W1 :: "u32 list \<Rightarrow> u32 list" where
  "expand_W1 W = map (\<lambda>j. W ! j XOR W ! (j + 4)) [0..<64]"

type_synonym oct = "u32 \<times> u32 \<times> u32 \<times> u32 \<times> u32 \<times> u32 \<times> u32 \<times> u32"

definition round_body :: "u32 list \<Rightarrow> u32 list \<Rightarrow> nat \<Rightarrow> oct \<Rightarrow> oct" where
  "round_body W W1 j = (\<lambda>(A, B, C, D, E, F, G, H).
     let T = (if j < 16 then 0x79CC4519 else 0x7A879D8A);
         SS1 = ROTL (ROTL A 12 + E + ROTL T j) 7;
         SS2 = SS1 XOR ROTL A 12;
         FF = (if j < 16 then A XOR B XOR C else (A AND B) OR (A AND C) OR (B AND C));
         GG = (if j < 16 then E XOR F XOR G else (E AND F) OR (NOT E AND G));
         TT1 = FF + D + SS2 + W1 ! j;
         TT2 = GG + H + SS1 + W ! j
     in (TT1, A, ROTL B 9, C, P0 TT2, E, ROTL F 19, G))"

definition sch_compress :: "u32 list \<Rightarrow> u8 list \<Rightarrow> u32 list" where
  "sch_compress st data =
     (let W = expand_W data; W1 = expand_W1 W in
      case fold (round_body W W1) [0..<64]
        (st ! 0, st ! 1, st ! 2, st ! 3, st ! 4, st ! 5, st ! 6, st ! 7)
      of (A, B, C, D, E, F, G, H) \<Rightarrow>
        [st ! 0 XOR A, st ! 1 XOR B, st ! 2 XOR C, st ! 3 XOR D,
         st ! 4 XOR E, st ! 5 XOR F, st ! 6 XOR G, st ! 7 XOR H])"

definition sch_process :: "sch_context \<Rightarrow> u8 list \<Rightarrow> sch_context" where
  "sch_process ctx data = ctx\<lparr>chain := sch_compress (chain ctx) data\<rparr>"

text \<open>The \<open>while (length >= 64)\<close> loop of \<open>sch_update\<close>: the context and the input left over.\<close>

function update_loop :: "sch_context \<Rightarrow> u8 list \<Rightarrow> sch_context \<times> u8 list" where
  "update_loop ctx input =
     (if 64 \<le> length input then update_loop (sch_process ctx (take 64 input)) (drop 64 input)
      else (ctx, input))"
  by pat_completeness auto
termination by (relation "measure (\<lambda>(ctx, input). length input)") auto

declare update_loop.simps [simp del]

definition sch_update :: "sch_context \<Rightarrow> u8 list \<Rightarrow> sch_context" where
  "sch_update ctx input =
     (if input = [] then ctx
      else let len = (of_nat (length input) :: u32);
               left = unat (total0 ctx AND 0x3F);
               fill = 64 - left;
               ctx = ctx\<lparr>total0 := (total0 ctx + len) AND 0xFFFFFFFF\<rparr>;
               ctx = (if total0 ctx < len then ctx\<lparr>total1 := total1 ctx + 1\<rparr> else ctx);
               (ctx, input, left) =
                 (if left \<noteq> 0 \<and> fill \<le> length input then
                    let ctx = ctx\<lparr>buffer := write_at (buffer ctx) left (take fill input)\<rparr>
                    in (sch_process ctx (buffer ctx), drop fill input, 0)
                  else (ctx, input, left));
               (ctx, input) = update_loop ctx input
           in if input \<noteq> [] then ctx\<lparr>buffer := write_at (buffer ctx) left input\<rparr> else ctx)"

definition sch_padding :: "u8 list" where
  "sch_padding = 0x80 # replicate 63 0"

text \<open>
  \<open>sch_finish\<close> returns the context and the digest buffer.  A digest length that is none of
  32, 24, 20 leaves the digest unwritten.
\<close>

definition put_words :: "u32 list \<Rightarrow> u8 list \<Rightarrow> u8 list" where
  "put_words ws digest = fold (\<lambda>(i, w) d. PUT_UINT32 w d (4 * i)) (enumerate 0 ws) digest"

definition sch_finish :: "sch_context \<Rightarrow> nat \<Rightarrow> u8 list \<Rightarrow> sch_context \<times> u8 list" where
  "sch_finish ctx diglen digest =
     (let high = drop_bit 29 (total0 ctx) OR push_bit 3 (total1 ctx);
          low = push_bit 3 (total0 ctx);
          msglen = PUT_UINT32 low (PUT_UINT32 high (replicate 8 0) 0) 4;
          last = unat (total0 ctx AND 0x3F);
          padn = (if last < 56 then 56 - last else 120 - last);
          ctx = sch_update ctx (take padn sch_padding);
          ctx = sch_update ctx msglen;
          s = chain ctx
      in if diglen = 32 then (ctx, put_words s digest)
         else if diglen = 24 then
           (ctx, put_words [s ! 0 XOR s ! 1 XOR s ! 4, s ! 1 XOR s ! 5, s ! 2 XOR s ! 6,
              s ! 3 XOR s ! 7, s ! 5 XOR s ! 2, s ! 3 XOR s ! 6] digest)
         else if diglen = 20 then
           (ctx, put_words [s ! 0 XOR s ! 1 XOR s ! 4, s ! 1 XOR s ! 5 XOR s ! 2, s ! 2 XOR s ! 6,
              s ! 3 XOR s ! 7, s ! 3 XOR s ! 6] digest)
         else (ctx, digest))"

section \<open>Specification: padded message, block by block\<close>

definition rest :: "u8 list \<Rightarrow> u8 list" where
  "rest xs = drop (64 * (length xs div 64)) xs"

function absorb :: "u32 list \<Rightarrow> u8 list \<Rightarrow> u32 list" where
  "absorb st xs =
     (if 64 \<le> length xs then absorb (sch_compress st (take 64 xs)) (drop 64 xs) else st)"
  by pat_completeness auto
termination by (relation "measure (\<lambda>(st, xs). length xs)") auto

declare absorb.simps [simp del]

definition sch_IV :: "u32 list" where
  "sch_IV = [0x7380166F, 0x4914B2B9, 0x172442D7, 0xDA8A0600,
     0xA96F30BC, 0x163138AA, 0xE38DEE4D, 0xB0FB0E4E]"

definition pad_len :: "nat \<Rightarrow> nat" where
  "pad_len n = (let r = n mod 64 in if r < 56 then 56 - r else 120 - r)"

definition sch_pad :: "u8 list \<Rightarrow> u8 list" where
  "sch_pad m = 0x80 # replicate (pad_len (length m) - 1) 0 @ be64 (of_nat (8 * length m))"

text \<open>The final chaining value and the three digests of a message.\<close>

definition sch_chain :: "u8 list \<Rightarrow> u32 list" where
  "sch_chain m = absorb sch_IV (m @ sch_pad m)"

definition sch_hash :: "nat \<Rightarrow> u8 list \<Rightarrow> u8 list" where
  "sch_hash diglen m = (let s = sch_chain m in concat (map be32
     (if diglen = 32 then s
      else if diglen = 24 then [s ! 0 XOR s ! 1 XOR s ! 4, s ! 1 XOR s ! 5, s ! 2 XOR s ! 6,
              s ! 3 XOR s ! 7, s ! 5 XOR s ! 2, s ! 3 XOR s ! 6]
      else [s ! 0 XOR s ! 1 XOR s ! 4, s ! 1 XOR s ! 5 XOR s ! 2, s ! 2 XOR s ! 6,
              s ! 3 XOR s ! 7, s ! 3 XOR s ! 6])))"

lemma rest_short [simp]: "length xs < 64 \<Longrightarrow> rest xs = xs"
  by (simp add: rest_def)

lemma rest_block: "length b = 64 \<Longrightarrow> rest (b @ xs) = rest xs"
proof -
  assume b: "length b = 64"
  have "(64 + length xs) div 64 = Suc (length xs div 64)" using div_add_self1 [of 64 "length xs"] by simp
  with b show ?thesis by (simp add: rest_def)
qed

lemma length_rest [simp]: "length (rest xs) = length xs mod 64"
  by (simp add: rest_def minus_mult_div_eq_mod)

lemma absorb_short [simp]: "length xs < 64 \<Longrightarrow> absorb st xs = st"
  by (subst absorb.simps) simp

lemma absorb_block: "length b = 64 \<Longrightarrow> absorb st (b @ xs) = absorb (sch_compress st b) xs"
  by (subst absorb.simps) simp

lemma absorb_append:
  "absorb st (xs @ ys) = absorb (absorb st xs) (rest xs @ ys) \<and> rest (xs @ ys) = rest (rest xs @ ys)"
proof (induction st xs rule: absorb.induct)
  case (1 st xs)
  show ?case
  proof (cases "64 \<le> length xs")
    case True
    define b where "b = take 64 xs"
    define zs where "zs = drop 64 xs"
    have xs: "xs = b @ zs" and b: "length b = 64" using True by (simp_all add: b_def zs_def)
    have "absorb (sch_compress st b) (zs @ ys) =
        absorb (absorb (sch_compress st b) zs) (rest zs @ ys) \<and> rest (zs @ ys) = rest (rest zs @ ys)"
      using 1 [OF True] by (simp add: b_def zs_def)
    then show ?thesis by (simp add: xs absorb_block [OF b] rest_block [OF b])
  qed simp
qed

lemma length_compress [simp]: "length (sch_compress st b) = 8"
  by (simp add: sch_compress_def Let_def split: prod.split)

lemma length_absorb [simp]: "length st = 8 \<Longrightarrow> length (absorb st xs) = 8"
  by (induction st xs rule: absorb.induct) (subst absorb.simps, simp)

lemma length_sch_chain [simp]: "length (sch_chain m) = 8"
  by (simp add: sch_chain_def sch_IV_def)

lemma update_loop_absorb:
  "update_loop ctx xs = (ctx\<lparr>chain := absorb (chain ctx) xs\<rparr>, rest xs)"
proof (induction ctx xs rule: update_loop.induct)
  case (1 ctx xs)
  show ?case
  proof (cases "64 \<le> length xs")
    case True
    then have "rest xs = rest (drop 64 xs)" using rest_block [of "take 64 xs" "drop 64 xs"] by simp
    then show ?thesis
      using True 1 by (subst update_loop.simps, subst absorb.simps) (simp add: sch_process_def)
  qed (simp add: update_loop.simps)
qed

section \<open>The context represents the bytes it has absorbed\<close>

definition byte_count :: "sch_context \<Rightarrow> nat" where
  "byte_count ctx = unat (total0 ctx) + 2 ^ 32 * unat (total1 ctx)"

definition absorbed :: "sch_context \<Rightarrow> u8 list \<Rightarrow> bool" where
  "absorbed ctx m \<longleftrightarrow> chain ctx = absorb sch_IV m
     \<and> byte_count ctx = length m mod 2 ^ 64
     \<and> length (buffer ctx) = 64
     \<and> take (length m mod 64) (buffer ctx) = rest m"

lemma absorbed_starts: "length (buffer ctx) = 64 \<Longrightarrow> absorbed (sch_starts ctx) []"
  by (simp add: absorbed_def sch_starts_def byte_count_def sch_IV_def)

lemma unat_and_63: "unat (w AND 0x3F) = unat w mod 64" for w :: u32
proof -
  have "w AND 0x3F = take_bit 6 w" by (simp add: take_bit_eq_mask mask_eq_exp_minus_1)
  then have "unat (w AND 0x3F) = take_bit 6 (unat w)" by (simp only: unsigned_take_bit_eq)
  then show ?thesis by (simp add: take_bit_eq_mod)
qed

lemma and_32_ones: "w AND 0xFFFFFFFF = w" for w :: u32
proof -
  have "(0xFFFFFFFF :: u32) = - 1" by simp
  then show ?thesis by (simp only: and.right_neutral)
qed

lemma carry:
  fixes a b l :: u32
  shows "unat (a + l) + 2 ^ 32 * unat (if a + l < l then b + 1 else b) =
    (unat a + 2 ^ 32 * unat b + unat l) mod 2 ^ 64"
proof -
  have bd: "unat a < 4294967296" "unat b < 4294967296" "unat l < 4294967296"
    using unsigned_less [of a, where 'a = nat] unsigned_less [of b, where 'a = nat]
      unsigned_less [of l, where 'a = nat] by simp_all
  have s: "unat (a + l) = (unat a + unat l) mod 4294967296"
    "unat (b + 1) = (unat b + 1) mod 4294967296" by (simp_all add: unat_word_ariths)
  show ?thesis
  proof (cases "unat a + unat l < 4294967296")
    case True
    then show ?thesis using bd s by (simp add: word_less_nat_alt)
  next
    case False
    then have u: "unat (a + l) = unat a + unat l - 4294967296"
      using bd s by (simp add: mod_if)
    then have lt: "a + l < l" using bd False by (simp add: word_less_nat_alt)
    show ?thesis
    proof (cases "unat b + 1 < 4294967296")
      case True
      then show ?thesis using lt u s bd False by simp
    next
      case b: False
      then have "unat b = 4294967295" using bd by simp
      then show ?thesis using lt u s bd False by (simp add: mod_if)
    qed
  qed
qed

lemma byte_count_mod_64: "byte_count ctx = n mod 2 ^ 64 \<Longrightarrow> unat (total0 ctx) mod 64 = n mod 64"
proof -
  assume "byte_count ctx = n mod 2 ^ 64"
  then have "byte_count ctx mod 64 = n mod 64" by (simp add: mod_mod_cancel)
  then show ?thesis by (simp add: byte_count_def mod_add_eq [symmetric] mod_mult_left_eq)
qed

lemma sch_update_absorbed:
  assumes a: "absorbed ctx m" and len: "length xs < 2 ^ 32"
  shows "absorbed (sch_update ctx xs) (m @ xs)"
proof (cases "xs = []")
  case True
  with a show ?thesis by (simp add: sch_update_def)
next
  case ne: False
  define left where "left = length m mod 64"
  define pend where "pend = take left (buffer ctx)"
  define fill where "fill = 64 - left"
  let ?l = "of_nat (length xs) :: u32"
  let ?t0 = "total0 ctx + ?l"
  define c1 where "c1 = ctx\<lparr>total0 := ?t0, total1 := (if ?t0 < ?l then total1 ctx + 1 else total1 ctx)\<rparr>"
  from a have ch: "chain ctx = absorb sch_IV m" and bc: "byte_count ctx = length m mod 2 ^ 64"
    and lb: "length (buffer ctx) = 64" and pm: "pend = rest m"
    by (simp_all add: absorbed_def pend_def left_def)
  have l64: "left < 64" by (simp add: left_def)
  have lp: "length pend = left" using l64 lb by (simp add: pend_def)
  have cu: "unat (total0 ctx AND 0x3F) = left"
    using byte_count_mod_64 [OF bc] by (simp add: unat_and_63 left_def)
  have ul: "unat ?l = length xs" using len by (simp add: unsigned_of_nat take_bit_nat_eq_self)
  have bc1: "byte_count c1 = (length m + length xs) mod 2 ^ 64"
    using carry [of "total0 ctx" ?l "total1 ctx"] bc ul
    by (simp add: c1_def byte_count_def mod_add_left_eq)
  have ab: "absorb sch_IV (m @ xs) = absorb (chain ctx) (pend @ xs)" "rest (m @ xs) = rest (pend @ xs)"
    using absorb_append [of sch_IV m xs] by (simp_all add: ch pm)
  have lr: "length (rest (pend @ xs)) = length (m @ xs) mod 64"
    using lp by (simp add: left_def mod_add_left_eq)
  have upd: "sch_update ctx xs =
     (let (ctx, input, left) =
        (if left \<noteq> 0 \<and> fill \<le> length xs then
           let ctx = c1\<lparr>buffer := write_at (buffer c1) left (take fill xs)\<rparr>
           in (sch_process ctx (buffer ctx), drop fill xs, 0)
         else (c1, xs, left));
        (ctx, input) = update_loop ctx input
      in if input \<noteq> [] then ctx\<lparr>buffer := write_at (buffer ctx) left input\<rparr> else ctx)"
    using ne by (cases "left = 0") (simp_all add: sch_update_def cu and_32_ones c1_def fill_def Let_def)
  show ?thesis
  proof (cases "left \<noteq> 0 \<and> fill \<le> length xs")
    case True
    let ?b = "pend @ take fill xs" and ?r = "drop fill xs"
    have b: "length ?b = 64" "write_at (buffer ctx) left (take fill xs) = ?b"
      using True l64 lb lp by (simp_all add: fill_def write_at_def pend_def)
    have px: "pend @ xs = ?b @ ?r" by simp
    have "chain (sch_update ctx xs) = absorb (sch_compress (chain ctx) ?b) ?r"
      "byte_count (sch_update ctx xs) = byte_count c1"
      "buffer (sch_update ctx xs) = write_at ?b 0 (rest ?r)"
      using True b(2)
      by (simp_all add: upd Let_def update_loop_absorb sch_process_def byte_count_def c1_def)
    moreover have "rest (m @ xs) = rest ?r" "absorb sch_IV (m @ xs) = absorb (sch_compress (chain ctx) ?b) ?r"
      using ab px b(1) by (metis rest_block, metis absorb_block)
    moreover have "length (rest ?r) \<le> 64" using mod_less_divisor [of 64 "length ?r"] by (simp add: less_imp_le)
    then have "length (write_at ?b 0 (rest ?r)) = 64"
      and "take (length (rest ?r)) (write_at ?b 0 (rest ?r)) = rest ?r"
      using b(1) length_write_at [of 0 "rest ?r" ?b] by (simp_all add: write_at_def)
    ultimately show ?thesis
      using bc1 lr ab unfolding absorbed_def by (metis length_append)
  next
    case False
    have f: "chain (sch_update ctx xs) = absorb (chain ctx) xs"
      "byte_count (sch_update ctx xs) = byte_count c1"
      "buffer (sch_update ctx xs) = (if rest xs \<noteq> [] then write_at (buffer ctx) left (rest xs) else buffer ctx)"
      using False by (auto simp: upd Let_def update_loop_absorb byte_count_def c1_def)
    show ?thesis
    proof (cases "left = 0")
      case True
      then have "pend = []" using lp by simp
      moreover have "rest xs = [] \<longleftrightarrow> length xs mod 64 = 0" by (metis length_0_conv length_rest)
      ultimately show ?thesis using f bc1 ab lr lb True
        by (auto simp: absorbed_def write_at_def)
    next
      case nz: False
      then have sh: "length (pend @ xs) < 64" "length xs < 64" using False lp l64 by (auto simp: fill_def)
      then show ?thesis using f bc1 ab lr lb ne l64 lp
        by (simp add: absorbed_def write_at_def pend_def)
    qed
  qed
qed

text \<open>Any sequence of updates absorbs the concatenation of its pieces.\<close>

lemma fold_update_absorbed:
  "absorbed ctx m \<Longrightarrow> \<forall>p \<in> set ps. length p < 2 ^ 32 \<Longrightarrow>
   absorbed (fold (\<lambda>p c. sch_update c p) ps ctx) (m @ concat ps)"
proof (induction ps arbitrary: ctx m)
  case (Cons p ps)
  have "absorbed (sch_update ctx p) (m @ p)" using Cons.prems by (intro sch_update_absorbed) auto
  then show ?case using Cons.IH Cons.prems by fastforce
qed simp

lemma PUT_be32: "length b = n \<Longrightarrow> i + 4 \<le> n \<Longrightarrow> PUT_UINT32 w b i = write_at b i (be32 w)"
  by (rule nth_equalityI)
    (auto simp: PUT_UINT32_def nth_write_at be32_def nth_list_update less_Suc_eq_le
      nth_Cons' split: if_splits)

lemma count_word:
  assumes "byte_count ctx = n mod 2 ^ 64"
  shows "(of_nat n :: u64) = ucast (total0 ctx) OR push_bit 32 (ucast (total1 ctx))"
proof -
  have "(of_nat n :: u64) = of_nat (n mod 2 ^ 64)"
    by (simp add: word_of_nat_eq_iff take_bit_eq_mod)
  also have "\<dots> = of_nat (byte_count ctx)" by (simp only: assms)
  also have "\<dots> = ucast (total0 ctx) + push_bit 32 (ucast (total1 ctx))"
    by (simp add: byte_count_def push_bit_eq_mult mult.commute)
  also have "\<dots> = ucast (total0 ctx) OR push_bit 32 (ucast (total1 ctx))"
    by (rule disjunctive_add) (auto simp: bit_simps dest: bit_imp_le_length)
  finally show ?thesis .
qed

lemma msglen_be64:
  assumes "byte_count ctx = n mod 2 ^ 64"
  shows "PUT_UINT32 (push_bit 3 (total0 ctx)) (PUT_UINT32 (drop_bit 29 (total0 ctx) OR
     push_bit 3 (total1 ctx)) (replicate 8 0) 0) 4 = be64 (of_nat (8 * n))"
proof -
  have e: "of_nat (8 * n) = push_bit 3 (of_nat n :: u64)" by (simp add: push_bit_eq_mult)
  have "PUT_UINT32 lo (PUT_UINT32 hi (replicate 8 0) 0) 4 = be32 hi @ be32 lo" for hi lo
    by (simp add: PUT_be32 [where n = 8] write_at_def)
  then show ?thesis unfolding e count_word [OF assms]
    by (simp add: be32_def be64_def; intro conjI bit_word_eqI;
        auto simp: bit_simps dest: bit_imp_le_length)
qed

section \<open>Digests\<close>

definition diglen_ok :: "nat \<Rightarrow> bool" where
  "diglen_ok d \<longleftrightarrow> d = 32 \<or> d = 24 \<or> d = 20"

lemma put_words_be32:
  "length digest = 4 * (k + length ws) \<Longrightarrow>
   fold (\<lambda>(i, w) d. PUT_UINT32 w d (4 * i)) (enumerate k ws) digest =
     take (4 * k) digest @ concat (map be32 ws)"
proof (induction ws arbitrary: k digest)
  case (Cons w ws)
  let ?d = "PUT_UINT32 w digest (4 * k)"
  have d: "?d = write_at digest (4 * k) (be32 w)" using Cons.prems by (intro PUT_be32) auto
  have "fold (\<lambda>(i, w) d. PUT_UINT32 w d (4 * i)) (enumerate (Suc k) ws) ?d =
      take (4 * Suc k) ?d @ concat (map be32 ws)"
    using Cons.prems by (intro Cons.IH) (simp add: d)
  moreover have "take (4 * Suc k) ?d = take (4 * k) digest @ be32 w"
    using Cons.prems unfolding d write_at_def by simp
  ultimately show ?case by simp
qed simp

lemma put_words_concat: "length digest = 4 * length ws \<Longrightarrow> put_words ws digest = concat (map be32 ws)"
  using put_words_be32 [of digest 0 ws] by (simp add: put_words_def)

lemma padding_take: "0 < n \<Longrightarrow> n \<le> 64 \<Longrightarrow> take n sch_padding = 0x80 # replicate (n - 1) 0"
  by (cases n) (simp_all add: sch_padding_def min_absorb1)

lemma pad_len_bounds: "0 < pad_len n" "pad_len n \<le> 64"
proof -
  have "n mod 64 < 64" by simp
  then show "0 < pad_len n" "pad_len n \<le> 64" by (auto simp: pad_len_def Let_def)
qed

lemma sch_finish_digest:
  assumes a: "absorbed ctx m" and d: "diglen_ok d" "length digest = d"
  shows "snd (sch_finish ctx d digest) = sch_hash d m"
proof -
  have bc: "byte_count ctx = length m mod 2 ^ 64" using a by (simp add: absorbed_def)
  have last: "unat (total0 ctx AND 0x3F) = length m mod 64"
    using byte_count_mod_64 [OF bc] by (simp add: unat_and_63)
  let ?p = "take (pad_len (length m)) sch_padding"
  let ?q = "be64 (of_nat (8 * length m))"
  have "absorbed (sch_update ctx ?p) (m @ ?p)"
    using a by (rule sch_update_absorbed) (use pad_len_bounds [of "length m"] in \<open>simp add: sch_padding_def\<close>)
  then have "absorbed (sch_update (sch_update ctx ?p) ?q) ((m @ ?p) @ ?q)"
    by (rule sch_update_absorbed) simp
  moreover have "(m @ ?p) @ ?q = m @ sch_pad m"
    using pad_len_bounds [of "length m"] by (simp add: sch_pad_def padding_take)
  ultimately have ch: "chain (sch_update (sch_update ctx ?p) ?q) = sch_chain m"
    by (simp add: absorbed_def sch_chain_def)
  have pl: "(if length m mod 64 < 56 then 56 - length m mod 64 else 120 - length m mod 64)
      = pad_len (length m)" by (simp add: pad_len_def Let_def)
  show ?thesis
    using d(1) d(2) unfolding sch_finish_def Let_def last pl msglen_be64 [OF bc] ch
    by (auto simp: diglen_ok_def put_words_concat sch_hash_def Let_def)
qed

lemma sch_finish_buffer:
  assumes a: "absorbed ctx m"
  shows "length (buffer (fst (sch_finish ctx d digest))) = 64"
proof -
  have bc: "byte_count ctx = length m mod 2 ^ 64" using a by (simp add: absorbed_def)
  have "absorbed (sch_update (sch_update ctx (take n sch_padding)) (be64 w))
      ((m @ take n sch_padding) @ be64 w)" for n w
    by (intro sch_update_absorbed a) (simp_all add: sch_padding_def min_def)
  then have "length (buffer (sch_update (sch_update ctx (take n sch_padding)) (be64 w))) = 64" for n w
    by (simp add: absorbed_def)
  then show ?thesis
    unfolding sch_finish_def Let_def msglen_be64 [OF bc] by simp
qed

section \<open>The interface the clients of the hash rely on\<close>

text \<open>
  A context that can be started, fed and finished, the message it stands for, and the hash
  the digest has to be.  The clients (\<open>Tcm_Hash\<close>) use it through the two lemmas.
\<close>

locale hash_stream =
  fixes starts :: "'c \<Rightarrow> 'c" and update :: "'c \<Rightarrow> u8 list \<Rightarrow> 'c"
    and finish :: "'c \<Rightarrow> nat \<Rightarrow> u8 list \<Rightarrow> 'c \<times> u8 list"
    and stands_for :: "'c \<Rightarrow> u8 list \<Rightarrow> bool" and raw :: "'c \<Rightarrow> bool"
    and supported :: "nat \<Rightarrow> bool" and H :: "nat \<Rightarrow> u8 list \<Rightarrow> u8 list"
  assumes starts_empty: "raw c \<Longrightarrow> stands_for (starts c) []"
    and update_append: "stands_for c m \<Longrightarrow> length xs < 2 ^ 32 \<Longrightarrow> stands_for (update c xs) (m @ xs)"
    and finish_hash: "stands_for c m \<Longrightarrow> supported d \<Longrightarrow> length out = d \<Longrightarrow> snd (finish c d out) = H d m"
    and finish_raw: "stands_for c m \<Longrightarrow> raw (fst (finish c d out))"
begin

lemma stream_from:
  "stands_for c m \<Longrightarrow> \<forall>p \<in> set ps. length p < 2 ^ 32 \<Longrightarrow>
   stands_for (fold (\<lambda>p c. update c p) ps c) (m @ concat ps)"
proof (induction ps arbitrary: c m)
  case (Cons p ps)
  have "stands_for (update c p) (m @ p)" using Cons.prems by (intro update_append) auto
  then show ?case using Cons.IH Cons.prems by fastforce
qed simp

lemma stream:
  assumes "raw c" "\<forall>p \<in> set ps. length p < 2 ^ 32" "supported d" "length out = d"
  shows "snd (finish (fold (\<lambda>p c. update c p) ps (starts c)) d out) = H d (concat ps)"
proof -
  have "stands_for (fold (\<lambda>p c. update c p) ps (starts c)) ([] @ concat ps)"
    using assms starts_empty by (intro stream_from) auto
  with assms show ?thesis by (intro finish_hash) auto
qed

lemma one_shot:
  "raw c \<Longrightarrow> length m < 2 ^ 32 \<Longrightarrow> supported d \<Longrightarrow> length out = d \<Longrightarrow>
   snd (finish (update (starts c) m) d out) = H d m"
  using stream [of c "[m]" d out] by simp

lemma two_part:
  "raw c \<Longrightarrow> length a < 2 ^ 32 \<Longrightarrow> length b < 2 ^ 32 \<Longrightarrow> supported d \<Longrightarrow> length out = d \<Longrightarrow>
   snd (finish (update (update (starts c) a) b) d out) = H d (a @ b)"
  using stream [of c "[a, b]" d out] by simp

end

text \<open>A context is reusable after it has been finished.\<close>

context hash_stream begin

lemma two_part_raw:
  assumes "raw c" "length a < 2 ^ 32" "length b < 2 ^ 32"
  shows "raw (fst (finish (update (update (starts c) a) b) d out))"
  using stream_from [of "starts c" "[]" "[a, b]"] assms starts_empty [of c]
  by (auto intro!: finish_raw)

end

text \<open>Any context object is raw storage: only its 64-byte buffer has to be there.\<close>

definition sch_raw :: "sch_context \<Rightarrow> bool" where
  "sch_raw ctx \<longleftrightarrow> length (buffer ctx) = 64"

interpretation sch: hash_stream sch_starts sch_update sch_finish absorbed sch_raw diglen_ok sch_hash
  by unfold_locales (simp_all add: absorbed_starts sch_raw_def sch_update_absorbed
      sch_finish_digest sch_finish_buffer)

lemma length_concat_be32: "length (concat (map be32 ws)) = 4 * length ws"
  by (induction ws) simp_all

lemma length_sch_hash_32 [simp]: "length (sch_hash 32 m) = 32"
  by (simp add: sch_hash_def Let_def length_concat_be32)

section \<open>Properties\<close>

text \<open>The raw context the applications below start from.\<close>

definition raw_ctx :: sch_context where
  "raw_ctx = \<lparr>total0 = 7, total1 = 9, chain = [], buffer = replicate 64 0xCC\<rparr>"

lemma raw_ctx_raw [simp]: "sch_raw raw_ctx"
  by (simp add: sch_raw_def raw_ctx_def)

text \<open>C6: starting any context object, feeding it any sequence of pieces and finishing it gives
  the digest of the concatenated message, padded and compressed block by block: the way a
  message is cut into updates does not matter, for all three digest lengths.\<close>

theorem sch_streaming:
  assumes "sch_raw c" "\<forall>p \<in> set ps. length p < 2 ^ 32" "diglen_ok d" "length out = d"
  shows "snd (sch_finish (fold (\<lambda>p c. sch_update c p) ps (sch_starts c)) d out) = sch_hash d (concat ps)"
  by (rule sch.stream [OF assms])

theorem sch_streaming_witness:
  "snd (sch_finish (fold (\<lambda>p c. sch_update c p) [replicate 70 1, [2], replicate 60 3] (sch_starts raw_ctx))
     24 (replicate 24 0)) = sch_hash 24 (replicate 70 1 @ [2] @ replicate 60 3)"
  using sch_streaming [of raw_ctx "[replicate 70 1, [2], replicate 60 3]" 24 "replicate 24 0"]
  by (simp add: diglen_ok_def)

text \<open>\<open>sch_update\<close> keeps the representation: the chaining value covers the whole blocks of
  the message so far, the 64-bit byte count (with its carry from \<open>total0\<close> to \<open>total1\<close>) is the
  message length, and the buffer begins with the bytes that do not fill a block.\<close>

theorem sch_update_represents:
  assumes "absorbed ctx m" "length xs < 2 ^ 32"
  shows "absorbed (sch_update ctx xs) (m @ xs)"
  by (rule sch_update_absorbed [OF assms])

theorem sch_update_represents_witness:
  "absorbed (sch_update (sch_starts raw_ctx) (replicate 130 5)) (replicate 130 5)"
  using sch_update_represents [of "sch_starts raw_ctx" "[]" "replicate 130 5"]
    absorbed_starts [of raw_ctx] by (simp add: raw_ctx_def)

end
