(* ===== verification/Tcm_Hash.thy ===== *)
theory Tcm_Hash
  imports Sch "HOL-Library.Signed_Division"
begin

text \<open>
  The functions built on the hash, \<open>tcmalg/tcm_hash.c\<close>: one-shot digests, the key derivation
  function and the keyed hash.  The local objects a C function declares without initialising
  are arguments of the model (\<open>g\<close> the hash context, \<open>sch256\<close>, \<open>T\<close> and so on the byte arrays), so
  that the theorems hold for any content they may have.  \<open>alloc\<close> says whether \<open>malloc\<close>
  succeeds.  \<open>None\<close> is an access outside an object.
\<close>

definition tcm_sch_starts :: "sch_context \<Rightarrow> sch_context" where
  "tcm_sch_starts ctx = sch_starts ctx"

definition tcm_sch_update :: "sch_context \<Rightarrow> u8 list \<Rightarrow> sch_context" where
  "tcm_sch_update ctx input = sch_update ctx input"

definition tcm_sch_finish :: "sch_context \<Rightarrow> u8 list \<Rightarrow> sch_context \<times> u8 list" where
  "tcm_sch_finish ctx digest = sch_finish ctx 32 digest"

definition tcm_sch_256 :: "sch_context \<Rightarrow> u8 list \<Rightarrow> u8 list \<Rightarrow> u8 list" where
  "tcm_sch_256 g sch256 pdata_in =
     (let ctx = sch_starts g; ctx = sch_update ctx pdata_in; (ctx, sch256) = sch_finish ctx 32 sch256
      in sch256)"

definition tcm_sch_192 :: "sch_context \<Rightarrow> u8 list \<Rightarrow> u8 list \<Rightarrow> u8 list" where
  "tcm_sch_192 g sch192 pdata_in =
     (let ctx = sch_starts g; ctx = sch_update ctx pdata_in; (ctx, sch192) = sch_finish ctx 24 sch192
      in sch192)"

definition tcm_sch_160 :: "sch_context \<Rightarrow> u8 list \<Rightarrow> u8 list \<Rightarrow> u8 list" where
  "tcm_sch_160 g sch160 pdata_in =
     (let ctx = sch_starts g; ctx = sch_update ctx pdata_in; (ctx, sch160) = sch_finish ctx 20 sch160
      in sch160)"

definition tcm_sch_hash :: "sch_context \<Rightarrow> u8 list \<Rightarrow> u8 list \<Rightarrow> u8 list" where
  "tcm_sch_hash g sch256 pdata_in = tcm_sch_256 g sch256 pdata_in"

section \<open>Key derivation\<close>

text \<open>The counter \<open>ct + 1\<close> behind the shared secret, most significant byte first.\<close>

definition kdf_seed :: "u8 list \<Rightarrow> nat \<Rightarrow> int \<Rightarrow> u8 list" where
  "kdf_seed seed zlen ct = (let c = (of_int (ct + 1) :: u32) in
     seed[zlen := ucast (drop_bit 24 c), zlen + 1 := ucast (drop_bit 16 c),
       zlen + 2 := ucast (drop_bit 8 c), zlen + 3 := ucast c])"

function kdf_loop ::
  "sch_context \<Rightarrow> u8 list \<Rightarrow> nat \<Rightarrow> int \<Rightarrow> int \<Rightarrow> u8 list \<Rightarrow> u8 list \<Rightarrow> (int \<times> u8 list \<times> u8 list) option"
where
  "kdf_loop g T zlen n ct seed msk =
     (if ct < n then do {
        let seed = kdf_seed seed zlen ct;
        msk \<leftarrow> wr msk (nat (ct * 32)) (tcm_sch_256 g T seed);
        kdf_loop g T zlen n (ct + 1) seed msk
      } else Some (ct, seed, msk))"
  by pat_completeness auto
termination by (relation "measure (\<lambda>(g, T, zlen, n, ct, seed, msk). nat (n - ct))") auto

declare kdf_loop.simps [simp del]

definition tcm_kdf ::
  "bool \<Rightarrow> sch_context \<Rightarrow> u8 list \<Rightarrow> u8 list \<Rightarrow> int \<Rightarrow> u8 list \<Rightarrow> (u32 \<times> u8 list) option" where
  "tcm_kdf alloc g T msk klen z =
     (if \<not> alloc then Some (1, msk)
      else do {
        let zlen = length z;
        let seed = write_at (replicate (zlen + 4) 0) 0 z;
        (ct, seed, msk) \<leftarrow> kdf_loop g T zlen (klen sdiv 32) 0 seed msk;
        msk \<leftarrow> (if klen smod 32 \<noteq> 0 then
            let seed = kdf_seed seed zlen ct; T = tcm_sch_256 g T seed
            in wr msk (nat (ct * 32)) (take (nat (klen - ct * 32)) T)
          else Some msk);
        Some (0, msk)
      })"

section \<open>Keyed hash\<close>

definition xor_pad :: "u8 \<Rightarrow> u8 list \<Rightarrow> u8 list" where
  "xor_pad x k = fold (\<lambda>i k. k[i := k ! i XOR x]) [0..<64] k"

definition tcm_hmac ::
  "sch_context \<Rightarrow> u8 list \<Rightarrow> u8 list \<Rightarrow> u8 list \<Rightarrow> u8 list \<Rightarrow> u8 list \<Rightarrow> (u32 \<times> u8 list) option" where
  "tcm_hmac g tempkey t32 text key digest = do {
     tempkey \<leftarrow> wr tempkey 0 key;
     let key_len = length key;
     (tempkey, key_len) \<leftarrow>
       (if 64 < key_len then do {
          let tctx = sch_starts g;
          let tctx = sch_update tctx (take key_len tempkey);
          let tk = snd (sch_finish tctx 32 t32);
          tempkey \<leftarrow> wr tempkey 0 tk;
          Some (tempkey, 32)
        } else Some (tempkey, key_len));
     let k_ipad = write_at (replicate 65 0) 0 (take key_len tempkey);
     let k_opad = write_at (replicate 65 0) 0 (take key_len tempkey);
     let k_ipad = xor_pad 0x36 k_ipad;
     let k_opad = xor_pad 0x5c k_opad;
     let context = sch_starts g;
     let context = sch_update context (take 64 k_ipad);
     let context = sch_update context text;
     let (context, tempdigest) = sch_finish context 32 t32;
     let context = sch_starts context;
     let context = sch_update context (take 64 k_opad);
     let context = sch_update context tempdigest;
     let (context, tempdigest) = sch_finish context 32 tempdigest;
     digest \<leftarrow> wr digest 0 tempdigest;
     Some (0, digest)
   }"

section \<open>Correctness\<close>

lemma one_shot_digests:
  assumes "sch_raw g" "length m < 2 ^ 32"
  shows "length d = 32 \<Longrightarrow> tcm_sch_256 g d m = sch_hash 32 m"
    and "length d = 24 \<Longrightarrow> tcm_sch_192 g d m = sch_hash 24 m"
    and "length d = 20 \<Longrightarrow> tcm_sch_160 g d m = sch_hash 20 m"
  using sch.one_shot [OF assms, of _ d]
  by (simp_all add: tcm_sch_256_def tcm_sch_192_def tcm_sch_160_def diglen_ok_def Let_def
      split_beta)

subsection \<open>Key derivation\<close>

text \<open>The specification: the hashes of \<open>z\<close> followed by the counters 1, 2, \dots, concatenated.\<close>

definition kdf_block :: "u8 list \<Rightarrow> nat \<Rightarrow> u8 list" where
  "kdf_block z ct = sch_hash 32 (z @ be32 (of_nat (ct + 1)))"

definition kdf_spec :: "u8 list \<Rightarrow> nat \<Rightarrow> u8 list" where
  "kdf_spec z klen = take klen (concat (map (kdf_block z) [0..<Suc (klen div 32)]))"

lemma kdf_seed_eq:
  assumes "length c = 4"
  shows "kdf_seed (z @ c) (length z) (int ct) = z @ be32 (of_nat (ct + 1))"
proof -
  have "(of_int (int ct + 1) :: u32) = of_nat (ct + 1)" by (simp add: algebra_simps)
  then show ?thesis
    using update4 [OF assms]
    by (simp add: kdf_seed_def be32_def list_update_append Let_def add.commute)
qed

lemma kdf_loop_blocks:
  assumes g: "sch_raw g" "length T = 32" "length z + 4 < 2 ^ 32"
    and "length c = 4" "32 * (k + n) \<le> length msk"
  shows "\<exists>c'. length c' = 4 \<and> kdf_loop g T (length z) (int (k + n)) (int k) (z @ c) msk =
    Some (int (k + n), z @ c', write_at msk (32 * k) (concat (map (kdf_block z) [k..<k + n])))"
  using assms(4,5)
proof (induction n arbitrary: k c msk)
  case 0
  then show ?case by (auto simp: kdf_loop.simps)
next
  case (Suc n)
  let ?c = "be32 (of_nat (k + 1))" and ?b = "kdf_block z k"
  have b: "tcm_sch_256 g T (z @ ?c) = ?b"
    using one_shot_digests(1) [of g "z @ ?c" T] g by (simp add: kdf_block_def)
  have lb: "length ?b = 32" by (simp add: kdf_block_def)
  have "kdf_loop g T (length z) (int (k + Suc n)) (int k) (z @ c) msk =
      kdf_loop g T (length z) (int (Suc k + n)) (int (Suc k)) (z @ ?c) (write_at msk (32 * k) ?b)"
    using Suc.prems b lb
    by (subst kdf_loop.simps)
      (simp add: kdf_seed_eq wr_def Let_def nat_mult_distrib algebra_simps)
  moreover obtain c' where "length c' = 4"
    "kdf_loop g T (length z) (int (Suc k + n)) (int (Suc k)) (z @ ?c) (write_at msk (32 * k) ?b) =
     Some (int (Suc k + n), z @ c', write_at (write_at msk (32 * k) ?b) (32 * Suc k)
       (concat (map (kdf_block z) [Suc k..<Suc k + n])))"
    using Suc.IH [of ?c "Suc k" "write_at msk (32 * k) ?b"] Suc.prems lb by auto
  moreover have "length (concat (map (kdf_block z) [Suc k..<Suc k + n])) = 32 * n"
    by (simp add: length_concat kdf_block_def comp_def sum_list_triv)
  ultimately show ?case
    using Suc.prems lb write_at_append [of "32 * k" ?b "concat (map (kdf_block z) [Suc k..<Suc k + n])" msk]
    by (auto simp: upt_conv_Cons add.commute simp del: upt_Suc)
qed

lemma kdf_seed_last:
  assumes "sch_raw g" "length T = 32" "length z + 4 < 2 ^ 32" "length c = 4"
  shows "tcm_sch_256 g T (kdf_seed (z @ c) (length z) (int ct)) = kdf_block z ct"
  using one_shot_digests(1) [of g "z @ be32 (of_nat (ct + 1))" T] assms
  by (simp add: kdf_seed_eq kdf_block_def)

lemma length_kdf_blocks [simp]: "length (concat (map (kdf_block z) xs)) = 32 * length xs"
  by (induction xs) (simp_all add: kdf_block_def)

lemma kdf_spec_split:
  "kdf_spec z n = concat (map (kdf_block z) [0..<n div 32]) @ take (n mod 32) (kdf_block z (n div 32))"
proof -
  have "n = 32 * (n div 32) + n mod 32" by simp
  then have "kdf_spec z n = take (32 * (n div 32) + n mod 32)
      (concat (map (kdf_block z) [0..<n div 32]) @ kdf_block z (n div 32))"
    by (simp add: kdf_spec_def)
  then show ?thesis by (simp add: minus_mult_div_eq_mod)
qed

lemma int_sdiv_smod: "int n sdiv 32 = int (n div 32)" "int n smod 32 = int (n mod 32)"
  by (cases "n = 0"; simp add: signed_divide_int_def signed_modulo_int_def zdiv_int zmod_int
      minus_mult_div_eq_mod)+

text \<open>C39: \<open>tcm_kdf\<close> fills exactly the first \<open>klen\<close> bytes of the mask with the hashes of
  \<open>z || 1, z || 2, ...\<close>, whatever the uninitialised locals hold, and leaves the rest of the
  mask alone; when the allocation fails it returns 1 and leaves the whole mask alone.\<close>

theorem tcm_kdf_correct:
  assumes "sch_raw g" "length T = 32" "length z + 4 < 2 ^ 32" "klen \<le> length msk"
  shows "tcm_kdf True g T msk (int klen) z = Some (0, kdf_spec z klen @ drop klen msk)
    \<and> tcm_kdf False g T msk (int klen) z = Some (1, msk)"
proof -
  let ?n = "klen div 32" and ?bs = "concat (map (kdf_block z) [0..<klen div 32])"
  have seed: "write_at (replicate (length z + 4) 0) 0 z = z @ replicate 4 (0 :: u8)"
    by (simp add: write_at_def)
  obtain c where c: "length c = 4" "kdf_loop g T (length z) (int ?n) 0 (z @ replicate 4 0) msk =
      Some (int ?n, z @ c, write_at msk 0 ?bs)"
    using kdf_loop_blocks [of g T z "replicate 4 0" 0 ?n msk] assms
      le_trans [OF times_div_less_eq_dividend assms(4), of 32] by auto
  let ?l = "take (klen mod 32) (kdf_block z ?n)"
  have ll: "length ?l = klen mod 32" by (simp add: kdf_block_def)
  have kl: "klen - 32 * ?n = klen mod 32" by (simp add: minus_mult_div_eq_mod)
  have "write_at (write_at msk 0 ?bs) (32 * ?n) ?l = write_at msk 0 (kdf_spec z klen)"
    using write_at_append [of 0 ?bs ?l msk] assms(4) ll by (simp add: kdf_spec_split)
  moreover have "length (kdf_spec z klen) = klen" using ll by (simp add: kdf_spec_split)
  moreover have "write_at msk 0 ?bs = write_at msk 0 (kdf_spec z klen)" if "klen mod 32 = 0"
    using that by (simp add: kdf_spec_split)
  moreover have "nat (int klen - int ?n * 32) = klen mod 32"
    using kl by (simp add: nat_diff_distrib nat_mult_distrib mult.commute)
  ultimately show ?thesis
    using assms c ll kdf_seed_last [OF assms(1-3) c(1)]
    by (auto simp: tcm_kdf_def seed int_sdiv_smod wr_def write_at_def [of msk] Let_def
        nat_mult_distrib mult.commute)
qed

theorem tcm_kdf_correct_witness:
  "tcm_kdf True raw_ctx (replicate 32 7) (replicate 50 9) 40 [1, 2, 3] =
     Some (0, kdf_spec [1, 2, 3] 40 @ replicate 10 9)"
  using tcm_kdf_correct [of raw_ctx "replicate 32 7" "[1, 2, 3]" 40 "replicate 50 9"] by simp

subsection \<open>Keyed hash\<close>

definition hmac_key :: "u8 list \<Rightarrow> u8 list" where
  "hmac_key key = (let k = (if 64 < length key then sch_hash 32 key else key)
     in k @ replicate (64 - length k) 0)"

definition hmac_spec :: "u8 list \<Rightarrow> u8 list \<Rightarrow> u8 list" where
  "hmac_spec key text =
     sch_hash 32 (map (\<lambda>b. b XOR 0x5c) (hmac_key key)
       @ sch_hash 32 (map (\<lambda>b. b XOR 0x36) (hmac_key key) @ text))"

lemma fold_update_map:
  "n \<le> length k \<Longrightarrow> fold (\<lambda>i k. k[i := f (k ! i)]) [0..<n] k = map f (take n k) @ drop n k"
proof (induction n)
  case (Suc n)
  then show ?case
    by (simp add: nth_append list_update_append take_Suc_conv_app_nth
        Cons_nth_drop_Suc [symmetric])
qed simp

lemma xor_pad_map: "64 \<le> length k \<Longrightarrow> take 64 (xor_pad x k) = map (\<lambda>b. b XOR x) (take 64 k)"
  using fold_update_map [of 64 k "\<lambda>b. b XOR x"] by (simp add: xor_pad_def)

lemma length_hmac_key: "length (hmac_key key) = 64"
  by (simp add: hmac_key_def Let_def)

lemma hmac_passes:
  assumes g: "sch_raw g" "length t32 = 32" "length text + 64 < 2 ^ 32"
    and c1: "sch_finish (sch_update (sch_update (sch_starts g) (map (\<lambda>b. b XOR 0x36) (hmac_key key))) text)
      32 t32 = (c1, t1)"
  shows "snd (sch_finish (sch_update (sch_update (sch_starts c1) (map (\<lambda>b. b XOR 0x5c) (hmac_key key))) t1)
      32 t1) = hmac_spec key text"
proof -
  let ?in = "map (\<lambda>b. b XOR 0x36) (hmac_key key)"
  have "t1 = sch_hash 32 (?in @ text)"
    using sch.two_part [of g ?in "text" 32 t32] c1 g by (simp add: diglen_ok_def length_hmac_key)
  moreover have "sch_raw c1"
    using sch.two_part_raw [of g ?in "text" 32 t32] c1 g by (simp add: length_hmac_key)
  ultimately show ?thesis
    using sch.two_part [of c1 "map (\<lambda>b. b XOR 0x5c) (hmac_key key)" t1 32 t1]
    by (simp add: diglen_ok_def length_hmac_key hmac_spec_def)
qed

lemma hmac_pads:
  assumes "take n k = (if 64 < length key then sch_hash 32 key else key)" "n \<le> length k"
  shows "take 64 (xor_pad x (write_at (replicate 65 0) 0 (take n k))) = map (\<lambda>b. b XOR x) (hmac_key key)"
  unfolding assms(1)
  by (subst xor_pad_map)
    (auto simp: hmac_key_def write_at_def Let_def take_replicate min_def)

text \<open>C25: for a key of at most 256 bytes \<open>tcm_hmac\<close> is the keyed hash
  \<open>H(K xor opad || H(K xor ipad || text))\<close>, with the key hashed first when it is longer than a
  block; a longer key overruns the local array \<open>tempkey\<close>.\<close>

theorem tcm_hmac_correct:
  assumes "sch_raw g" "length tempkey = 256" "length t32 = 32" "length digest = 32"
    and "length text + 64 < 2 ^ 32"
  shows "tcm_hmac g tempkey t32 text key digest =
    (if length key \<le> 256 then Some (0, hmac_spec key text) else None)"
proof (cases "length key \<le> 256")
  case True
  let ?tk = "write_at tempkey 0 key"
  obtain c1 t1 where f1: "sch_finish (sch_update (sch_update (sch_starts g)
      (map (\<lambda>b. b XOR 0x36) (hmac_key key))) text) 32 t32 = (c1, t1)" by fastforce
  note f2 = hmac_passes [OF assms(1,3,5) f1]
  have lt: "length (hmac_spec key text) = 32" by (simp add: hmac_spec_def)
  have tk: "take (length key) ?tk = key" "length ?tk = 256"
    using True assms by (simp_all add: write_at_def)
  obtain c2 where fin: "sch_finish (sch_update (sch_update (sch_starts c1)
      (map (\<lambda>b. b XOR 0x5c) (hmac_key key))) t1) 32 t1 = (c2, hmac_spec key text)"
    using f2 by (metis prod.collapse)
  have w: "wr digest 0 (hmac_spec key text) = Some (hmac_spec key text)"
    using lt assms by (simp add: wr_def write_at_def)
  have o: "wr tempkey 0 xs = (if length xs \<le> 256 then Some (write_at tempkey 0 xs) else None)" for xs
    using assms(2) by (simp add: wr_def)
  show ?thesis
  proof (cases "64 < length key")
    case long: True
    have h: "snd (sch_finish (sch_update (sch_starts g) key) 32 t32) = sch_hash 32 key"
      using sch.one_shot [of g key 32 t32] True assms by (simp add: diglen_ok_def)
    let ?tk2 = "write_at ?tk 0 (sch_hash 32 key)"
    have "take 32 ?tk2 = sch_hash 32 key" "32 \<le> length ?tk2"
      using tk by (simp_all add: write_at_def)
    note pads = hmac_pads [of 32 ?tk2 key, OF _ this(2)]
    have p: "take 64 (xor_pad x (write_at (replicate 65 0) 0 (take 32 ?tk2)))
        = map (\<lambda>b. b XOR x) (hmac_key key)" for x
      using pads long by (simp add: write_at_def)
    show ?thesis
      using True assms(2) long tk h p f1 fin w
      by (simp add: tcm_hmac_def o wr_def [of ?tk] Let_def)
  next
    case short: False
    have p: "take 64 (xor_pad x (write_at (replicate 65 0) 0 (take (length key) ?tk)))
        = map (\<lambda>b. b XOR x) (hmac_key key)" for x
      using hmac_pads [of "length key" ?tk key] short tk True by simp
    show ?thesis
      using True assms(2) short p f1 fin w
      by (simp add: tcm_hmac_def o Let_def)
  qed
qed (use assms(2) in \<open>simp add: tcm_hmac_def wr_def\<close>)

theorem tcm_hmac_correct_witness:
  "tcm_hmac raw_ctx (replicate 256 0) (replicate 32 0) [1, 2] (replicate 70 4) (replicate 32 0) =
     Some (0, hmac_spec (replicate 70 4) [1, 2])
   \<and> tcm_hmac raw_ctx (replicate 256 0) (replicate 32 0) [1, 2] (replicate 257 4) (replicate 32 0) = None"
  using tcm_hmac_correct [of raw_ctx "replicate 256 0" "replicate 32 0" "replicate 32 0" "[1, 2]"
      "replicate 70 4"]
    tcm_hmac_correct [of raw_ctx "replicate 256 0" "replicate 32 0" "replicate 32 0" "[1, 2]"
      "replicate 257 4"] by simp

end
