(* ===== verification/Trspi_Blob.thy ===== *)
theory Trspi_Blob
  imports Tsm_Prelude
begin

text \<open>
  The primitives of the marshalling layer (\<open>trspi/trousers.c\<close>, with the integer conversions
  of \<open>tspi/spi_utils.c\<close>), and the interface \<open>blob_codec\<close> that every marshalled structure
  satisfies.

  A writer gets the pair of \<open>*offset\<close> and the blob, where the blob \<open>None\<close> is the C pointer
  NULL: then nothing is stored and only the offset moves, which is how the callers measure a
  structure.  A reader gets the blob and the state \<open>rst\<close>: the offset and the allocator.  The
  result \<open>None\<close> of either is an access outside an object (or through a freed pointer).
\<close>

section \<open>Pointers and the allocator\<close>

text \<open>The pointer fields of the structures: \<open>NULL\<close>, a heap object, or one already freed.\<close>

datatype ptr = NULL | Buf "u8 list" | Freed

text \<open>\<open>alloc_ok n\<close> says whether the \<open>n\<close>-th call of \<open>malloc\<close> succeeds; \<open>live\<close> counts the objects
  allocated and not freed.\<close>

record rst =
  offset :: u64
  alloc_ok :: "nat \<Rightarrow> bool"
  nalloc :: nat
  live :: nat

definition malloc :: "nat \<Rightarrow> rst \<Rightarrow> ptr \<times> rst" where
  "malloc sz st =
     (if alloc_ok st (nalloc st)
      then (Buf (replicate sz 0), st\<lparr>nalloc := Suc (nalloc st), live := Suc (live st)\<rparr>)
      else (NULL, st\<lparr>nalloc := Suc (nalloc st)\<rparr>))"

fun free :: "ptr \<Rightarrow> rst \<Rightarrow> rst option" where
  "free NULL st = Some st"
| "free (Buf d) st = Some (st\<lparr>live := live st - 1\<rparr>)"
| "free Freed st = None"

text \<open>The value of a pointer field whose object has been freed without resetting the field.\<close>

fun dangle :: "ptr \<Rightarrow> ptr" where
  "dangle (Buf d) = Freed"
| "dangle NULL = NULL"
| "dangle Freed = Freed"

section \<open>Integers and byte arrays\<close>

definition UINT16ToArray :: "u16 \<Rightarrow> u8 list" where
  "UINT16ToArray i = [ucast (drop_bit 8 i AND 0xFF), ucast (i AND 0xFF)]"

definition UINT32ToArray :: "u32 \<Rightarrow> u8 list" where
  "UINT32ToArray i = [ucast (drop_bit 24 i AND 0xFF), ucast (drop_bit 16 i AND 0xFF),
     ucast (drop_bit 8 i AND 0xFF), ucast i AND 0xFF]"

definition UINT64ToArray :: "u64 \<Rightarrow> u8 list" where
  "UINT64ToArray i = [ucast (drop_bit 56 i AND 0xFF), ucast (drop_bit 48 i AND 0xFF),
     ucast (drop_bit 40 i AND 0xFF), ucast (drop_bit 32 i AND 0xFF),
     ucast (drop_bit 24 i AND 0xFF), ucast (drop_bit 16 i AND 0xFF),
     ucast (drop_bit 8 i AND 0xFF), ucast i AND 0xFF]"

definition Decode_UINT16 :: "u8 list \<Rightarrow> u16" where
  "Decode_UINT16 b = (let temp = ucast (b ! 1 AND 0xFF) in temp OR push_bit 8 (ucast (b ! 0)))"

definition Decode_UINT32 :: "u8 list \<Rightarrow> u32" where
  "Decode_UINT32 y =
     (let x = ucast (y ! 0);
          x = push_bit 8 x OR ucast (y ! 1 AND 0xFF);
          x = push_bit 8 x OR ucast (y ! 2 AND 0xFF);
          x = push_bit 8 x OR ucast (y ! 3 AND 0xFF)
      in x)"

definition Decode_UINT64 :: "u8 list \<Rightarrow> u64" where
  "Decode_UINT64 y =
     (let x = ucast (y ! 0);
          x = push_bit 8 x OR ucast (y ! 1 AND 0xFF);
          x = push_bit 8 x OR ucast (y ! 2 AND 0xFF);
          x = push_bit 8 x OR ucast (y ! 3 AND 0xFF);
          x = push_bit 8 x OR ucast (y ! 4 AND 0xFF);
          x = push_bit 8 x OR ucast (y ! 5 AND 0xFF);
          x = push_bit 8 x OR ucast (y ! 6 AND 0xFF);
          x = push_bit 8 x OR ucast (y ! 7 AND 0xFF)
      in x)"

lemma and_ff: "w AND 0xFF = w" for w :: u8
proof -
  have "(0xFF :: u8) = - 1" by simp
  then show ?thesis by (simp only: and.right_neutral)
qed

lemma and_ff_take_bit: "w AND 0xFF = take_bit 8 w" for w :: "'a :: len word"
  by (simp add: take_bit_eq_mask mask_eq_exp_minus_1)

lemma ucast_byte: "ucast (w AND 0xFF) = (ucast w :: u8)" for w :: "'a :: len word"
  by (rule bit_word_eqI) (auto simp: and_ff_take_bit bit_simps dest: bit_imp_le_length)

lemma ToArray_be [simp]:
  "UINT16ToArray a = be16 a" "UINT32ToArray b = be32 b" "UINT64ToArray c = be64 c"
  by (simp_all only: UINT16ToArray_def be16_def UINT32ToArray_def be32_def UINT64ToArray_def be64_def
      and_ff ucast_byte)

lemma join_byte:
  "push_bit 8 (drop_bit (n + 8) w) OR ucast (ucast (drop_bit n w) :: u8) = drop_bit n w"
  for w :: "'a :: len word"
  by (rule bit_word_eqI) (auto simp: bit_simps le_add_diff_inverse2 dest: bit_imp_le_length)

lemma top_byte:
  "ucast (ucast (drop_bit 24 b) :: u8) = drop_bit 24 b" for b :: u32
  by (rule bit_word_eqI) (auto simp: bit_simps dest: bit_imp_le_length)

lemma top_byte64:
  "ucast (ucast (drop_bit 56 b) :: u8) = drop_bit 56 b" for b :: u64
  by (rule bit_word_eqI) (auto simp: bit_simps dest: bit_imp_le_length)

lemma top_byte16:
  "ucast (ucast (drop_bit 8 b) :: u8) = drop_bit 8 b" for b :: u16
  by (rule bit_word_eqI) (auto simp: bit_simps dest: bit_imp_le_length)

lemmas join_bytes =
  join_byte [of 0, simplified] join_byte [of 8, simplified] join_byte [of 16, simplified]
  join_byte [of 24, simplified] join_byte [of 32, simplified] join_byte [of 40, simplified]
  join_byte [of 48, simplified]

lemma Decode_be [simp]:
  "Decode_UINT16 (be16 a) = a" "Decode_UINT32 (be32 b) = b" "Decode_UINT64 (be64 c) = c"
  by (simp_all add: Decode_UINT16_def be16_def Decode_UINT32_def be32_def Decode_UINT64_def be64_def
      and_ff Let_def top_byte top_byte16 top_byte64 join_bytes or.commute [of _ "push_bit 8 _"]
      del: push_bit_or push_bit_push_bit)

section \<open>Writers\<close>

type_synonym wst = "u64 \<times> u8 list option"

text \<open>A store into the blob, and reading \<open>n\<close> bytes through a pointer.  No C object has \<open>2 ^ 64\<close>
  bytes.\<close>

definition poke :: "u64 \<Rightarrow> u8 list \<Rightarrow> u8 list option \<Rightarrow> u8 list option option" where
  "poke off bs blob = (case blob of None \<Rightarrow> Some None
     | Some b \<Rightarrow> if length b < 2 ^ 64 then map_option Some (wr b (unat off) bs) else None)"

fun deref :: "ptr \<Rightarrow> nat \<Rightarrow> u8 list option" where
  "deref (Buf d) n = rd d 0 n"
| "deref NULL n = None"
| "deref Freed n = None"

fun Trspi_LoadBlob :: "nat \<Rightarrow> ptr \<Rightarrow> wst \<Rightarrow> wst option" where
  "Trspi_LoadBlob sz src (off, dst) =
     (if sz = 0 then Some (off, dst)
      else do {
        dst \<leftarrow> (if dst = None then Some None
                else do { bs \<leftarrow> deref src sz; poke off bs dst });
        Some (off + of_nat sz, dst)
      })"

fun Trspi_LoadBlob_BYTE :: "u8 \<Rightarrow> wst \<Rightarrow> wst option" where
  "Trspi_LoadBlob_BYTE data (off, blob) =
     do { blob \<leftarrow> poke off [data] blob; Some (off + 1, blob) }"

fun Trspi_LoadBlob_BOOL :: "u8 \<Rightarrow> wst \<Rightarrow> wst option" where
  "Trspi_LoadBlob_BOOL data (off, blob) =
     do { blob \<leftarrow> poke off [data] blob; Some (off + 1, blob) }"

fun Trspi_LoadBlob_UINT64 :: "u64 \<Rightarrow> wst \<Rightarrow> wst option" where
  "Trspi_LoadBlob_UINT64 i (off, blob) =
     do { blob \<leftarrow> poke off (UINT64ToArray i) blob; Some (off + 8, blob) }"

fun Trspi_LoadBlob_UINT32 :: "u32 \<Rightarrow> wst \<Rightarrow> wst option" where
  "Trspi_LoadBlob_UINT32 i (off, blob) =
     do { blob \<leftarrow> poke off (UINT32ToArray i) blob; Some (off + 4, blob) }"

fun Trspi_LoadBlob_UINT16 :: "u16 \<Rightarrow> wst \<Rightarrow> wst option" where
  "Trspi_LoadBlob_UINT16 i (off, blob) =
     do { blob \<leftarrow> poke off (UINT16ToArray i) blob; Some (off + 2, blob) }"

text \<open>Writing a byte string: the common form of all writers.\<close>

fun put :: "u8 list \<Rightarrow> wst \<Rightarrow> wst option" where
  "put bs (off, blob) = (if bs = [] then Some (off, blob)
     else do { blob \<leftarrow> poke off bs blob; Some (off + of_nat (length bs), blob) })"

named_theorems put_simps \<open>writers as \<open>put\<close>\<close>

lemma put_Nil [simp]: "put [] s = Some s"
  by (cases s) simp

lemma poke_append:
  "poke off bs blob \<bind> (\<lambda>blob. poke (off + of_nat (length bs)) cs blob) = poke off (bs @ cs) blob"
  if "bs \<noteq> []" "cs \<noteq> []"
proof (cases blob)
  case (Some b)
  show ?thesis
  proof (cases "length b < 2 ^ 64 \<and> unat off + length bs \<le> length b")
    case True
    then have "length bs < 2 ^ 64" by simp
    then have "unat (of_nat (length bs) :: u64) = length bs"
      by (simp add: unsigned_of_nat take_bit_nat_eq_self)
    moreover have "unat off + length bs < 2 ^ 64" using True by linarith
    ultimately have "unat (off + of_nat (length bs)) = unat off + length bs"
      by (simp add: unat_word_ariths)
    then show ?thesis using True Some
      by (auto simp: poke_def wr_def write_at_append add.assoc)
  qed (use Some in \<open>auto simp: poke_def wr_def\<close>)
qed (simp add: poke_def)

lemma put_put [put_simps]: "put a s \<bind> put b = put (a @ b) s"
proof (cases s)
  case (Pair off blob)
  show ?thesis
  proof (cases "a = [] \<or> b = []")
    case False
    then show ?thesis
      using poke_append [of a b off blob] unfolding Pair
      by (cases "poke off a blob") (auto simp: add.assoc)
  qed (cases "a = []"; cases "put a s"; auto simp: Pair)
qed

lemma put_put_bind [put_simps]: "put a s \<bind> (\<lambda>s. put b s \<bind> f) = put (a @ b) s \<bind> f"
  by (simp flip: put_put add: bind_assoc)

lemma load_prims [put_simps]:
  "Trspi_LoadBlob_BYTE x s = put (be8 x) s"
  "Trspi_LoadBlob_BOOL x s = put (be8 x) s"
  "Trspi_LoadBlob_UINT16 h s = put (be16 h) s"
  "Trspi_LoadBlob_UINT32 w s = put (be32 w) s"
  "Trspi_LoadBlob_UINT64 q s = put (be64 q) s"
  by (cases s; simp add: be8_def be16_def be32_def be64_def)+

text \<open>A pointer field owns exactly the bytes its size field says.\<close>

fun owns :: "nat \<Rightarrow> ptr \<Rightarrow> bool" where
  "owns n NULL = (n = 0)"
| "owns n (Buf d) = (n \<noteq> 0 \<and> length d = n)"
| "owns n Freed = False"

fun pbytes :: "ptr \<Rightarrow> u8 list" where
  "pbytes (Buf d) = d"
| "pbytes NULL = []"
| "pbytes Freed = []"

fun pallocs :: "ptr \<Rightarrow> nat" where
  "pallocs (Buf d) = 1"
| "pallocs NULL = 0"
| "pallocs Freed = 0"

lemma length_pbytes: "owns n p \<Longrightarrow> length (pbytes p) = n"
  by (cases p) auto

lemma load_owned [put_simps]: "owns n p \<Longrightarrow> Trspi_LoadBlob n p s = put (pbytes p) s"
  by (cases s; cases p) (auto simp: rd_def poke_def)

lemma load_array [put_simps]: "length d = n \<Longrightarrow> Trspi_LoadBlob n (Buf d) s = put d s"
  by (cases s) (auto simp: rd_def poke_def)

lemma load_owned_if [put_simps]:
  "owns (unat w) p \<Longrightarrow> (if 0 < w then Trspi_LoadBlob (unat w) p s else Some s) = put (pbytes p) s"
  for w :: "'a :: len word"
  by (cases p) (auto simp: load_owned word_gt_0 unat_eq_zero)

section \<open>Readers\<close>

definition adv :: "nat \<Rightarrow> rst \<Rightarrow> rst" where
  "adv n st = st\<lparr>offset := offset st + of_nat n\<rparr>"

text \<open>Reading out of the blob at the offset.\<close>

definition fetch :: "nat \<Rightarrow> u8 list \<Rightarrow> rst \<Rightarrow> u8 list option" where
  "fetch n blob st = (if length blob < 2 ^ 64 then rd blob (unat (offset st)) n else None)"

fun Trspi_UnloadBlob :: "nat \<Rightarrow> u8 list \<Rightarrow> ptr \<Rightarrow> rst \<Rightarrow> (ptr \<times> rst) option" where
  "Trspi_UnloadBlob sz blob NULL st = Some (NULL, if sz = 0 then st else adv sz st)"
| "Trspi_UnloadBlob sz blob (Buf d) st =
     (if sz = 0 then Some (Buf d, st)
      else do { bs \<leftarrow> fetch sz blob st; d \<leftarrow> wr d 0 bs; Some (Buf d, adv sz st) })"
| "Trspi_UnloadBlob sz blob Freed st = (if sz = 0 then Some (Freed, st) else None)"

text \<open>The same with an array inside a structure as the destination.\<close>

definition UnloadBlob_array :: "nat \<Rightarrow> u8 list \<Rightarrow> u8 list \<Rightarrow> rst \<Rightarrow> (u8 list \<times> rst) option" where
  "UnloadBlob_array sz blob d st =
     do { (p, st) \<leftarrow> Trspi_UnloadBlob sz blob (Buf d) st; Some (pbytes p, st) }"

definition Trspi_UnloadBlob_BYTE :: "u8 list \<Rightarrow> rst \<Rightarrow> (u8 \<times> rst) option" where
  "Trspi_UnloadBlob_BYTE blob st = do { bs \<leftarrow> fetch 1 blob st; Some (bs ! 0, adv 1 st) }"

definition Trspi_UnloadBlob_BOOL :: "u8 list \<Rightarrow> rst \<Rightarrow> (u8 \<times> rst) option" where
  "Trspi_UnloadBlob_BOOL blob st = do { bs \<leftarrow> fetch 1 blob st; Some (bs ! 0, adv 1 st) }"

definition Trspi_UnloadBlob_UINT64 :: "u8 list \<Rightarrow> rst \<Rightarrow> (u64 \<times> rst) option" where
  "Trspi_UnloadBlob_UINT64 blob st =
     do { bs \<leftarrow> fetch 8 blob st; Some (Decode_UINT64 bs, adv 8 st) }"

definition Trspi_UnloadBlob_UINT32 :: "u8 list \<Rightarrow> rst \<Rightarrow> (u32 \<times> rst) option" where
  "Trspi_UnloadBlob_UINT32 blob st =
     do { bs \<leftarrow> fetch 4 blob st; Some (Decode_UINT32 bs, adv 4 st) }"

definition Trspi_UnloadBlob_UINT16 :: "u8 list \<Rightarrow> rst \<Rightarrow> (u16 \<times> rst) option" where
  "Trspi_UnloadBlob_UINT16 blob st =
     do { bs \<leftarrow> fetch 2 blob st; Some (Decode_UINT16 bs, adv 2 st) }"

text \<open>The same readers with NULL as the place for the value: only the offset moves.\<close>

definition Trspi_UnloadBlob_BYTE_NULL :: "u8 list \<Rightarrow> rst \<Rightarrow> rst option" where
  "Trspi_UnloadBlob_BYTE_NULL blob st = Some (adv 1 st)"

definition Trspi_UnloadBlob_BOOL_NULL :: "u8 list \<Rightarrow> rst \<Rightarrow> rst option" where
  "Trspi_UnloadBlob_BOOL_NULL blob st = Some (adv 1 st)"

definition Trspi_UnloadBlob_UINT64_NULL :: "u8 list \<Rightarrow> rst \<Rightarrow> rst option" where
  "Trspi_UnloadBlob_UINT64_NULL blob st = Some (adv 8 st)"

definition Trspi_UnloadBlob_UINT32_NULL :: "u8 list \<Rightarrow> rst \<Rightarrow> rst option" where
  "Trspi_UnloadBlob_UINT32_NULL blob st = Some (adv 4 st)"

definition Trspi_UnloadBlob_UINT16_NULL :: "u8 list \<Rightarrow> rst \<Rightarrow> rst option" where
  "Trspi_UnloadBlob_UINT16_NULL blob st = Some (adv 2 st)"

text \<open>
  The code shared by the readers of a field whose size has just been read: allocate that many
  bytes and copy them, or set the pointer to NULL when the size is 0.
\<close>

definition malloc_UnloadBlob :: "nat \<Rightarrow> u8 list \<Rightarrow> rst \<Rightarrow> (u32 \<times> ptr \<times> rst) option" where
  "malloc_UnloadBlob sz blob st =
     (if 0 < sz then
        let (p, st) = malloc sz st
        in if p = NULL then Some (TSPERR TSS_E_OUTOFMEMORY, NULL, st)
           else do { (p, st) \<leftarrow> Trspi_UnloadBlob sz blob p st; Some (TSS_SUCCESS, p, st) }
      else Some (TSS_SUCCESS, NULL, st))"

text \<open>The bytes \<open>bs\<close> lie at the offset; the state behind them; enough memory.\<close>

definition lies :: "u8 list \<Rightarrow> rst \<Rightarrow> u8 list \<Rightarrow> bool" where
  "lies blob st bs \<longleftrightarrow> (bs \<noteq> [] \<longrightarrow> fetch (length bs) blob st = Some bs)"

definition behind :: "u8 list \<Rightarrow> rst \<Rightarrow> rst" where
  "behind bs st = adv (length bs) st"

definition charge :: "nat \<Rightarrow> rst \<Rightarrow> rst" where
  "charge k st = st\<lparr>nalloc := nalloc st + k, live := live st + k\<rparr>"

definition plenty :: "rst \<Rightarrow> bool" where
  "plenty st \<longleftrightarrow> (\<forall>n. alloc_ok st (nalloc st + n))"

named_theorems get_simps \<open>readers over the bytes that lie at the offset\<close>

lemma adv_0 [simp]: "adv 0 st = st"
  by (simp add: adv_def)

lemma adv_adv: "adv n (adv m st) = adv (m + n) st"
  by (simp add: adv_def add.assoc)

lemma charge_simps [get_simps]:
  "charge 0 st = st" "charge j (charge k st) = charge (k + j) st"
  "behind bs (charge k st) = charge k (behind bs st)"
  "lies blob (charge k st) bs = lies blob st bs"
  by (simp_all add: charge_def behind_def adv_def lies_def fetch_def add.assoc)

lemma plenty_simps [get_simps]: "plenty (behind bs st) = plenty st"
  "plenty st \<Longrightarrow> plenty (charge k st)"
  by (simp_all add: plenty_def behind_def adv_def charge_def add.assoc)

lemma behind_Nil [get_simps]: "behind [] st = st"
  by (simp add: behind_def)

lemma lies_Nil [get_simps]: "lies blob st []"
  by (simp add: lies_def)

lemma behind_append [get_simps]: "behind (a @ b) st = behind b (behind a st)"
  by (simp add: behind_def adv_adv)

lemma fetch_append:
  assumes "a \<noteq> []" "b \<noteq> []"
  shows "fetch (length (a @ b)) blob st = Some (a @ b) \<longleftrightarrow>
    fetch (length a) blob st = Some a \<and> fetch (length b) blob (behind a st) = Some b"
proof (cases "length blob < 2 ^ 64 \<and> unat (offset st) + length a \<le> length blob")
  case True
  then have "length a < 2 ^ 64" "unat (offset st) + length a < 2 ^ 64" by linarith+
  then have "unat (offset (behind a st)) = unat (offset st) + length a"
    by (simp add: behind_def adv_def unat_word_ariths unsigned_of_nat take_bit_nat_eq_self)
  moreover have "unat (offset st) + length a \<le> length blob" using True by simp
  ultimately show ?thesis
    using True read_at_split [of blob "unat (offset st)" "length a" "length b"]
    by (auto simp: fetch_def rd_def add.assoc)
qed (auto simp: fetch_def rd_def)

lemma lies_append [get_simps]:
  "lies blob st (a @ b) \<longleftrightarrow> lies blob st a \<and> lies blob (behind a st) b"
  using fetch_append [of a b blob st]
  by (cases "a = []"; cases "b = []") (auto simp: lies_def behind_Nil)

lemma lies_bytes: "lies blob st bs \<Longrightarrow> bs \<noteq> [] \<Longrightarrow> fetch (length bs) blob st = Some bs"
  by (simp add: lies_def)

lemma unload_prims [get_simps]:
  "lies blob st (be8 x) \<Longrightarrow> Trspi_UnloadBlob_BYTE blob st = Some (x, behind (be8 x) st)"
  "lies blob st (be8 x) \<Longrightarrow> Trspi_UnloadBlob_BOOL blob st = Some (x, behind (be8 x) st)"
  "lies blob st (be16 h) \<Longrightarrow> Trspi_UnloadBlob_UINT16 blob st = Some (h, behind (be16 h) st)"
  "lies blob st (be32 w) \<Longrightarrow> Trspi_UnloadBlob_UINT32 blob st = Some (w, behind (be32 w) st)"
  "lies blob st (be64 q) \<Longrightarrow> Trspi_UnloadBlob_UINT64 blob st = Some (q, behind (be64 q) st)"
  using lies_bytes [of blob st "be8 x"] lies_bytes [of blob st "be16 h"]
    lies_bytes [of blob st "be32 w"] lies_bytes [of blob st "be64 q"]
  by (simp_all add: Trspi_UnloadBlob_BYTE_def Trspi_UnloadBlob_BOOL_def Trspi_UnloadBlob_UINT16_def
      Trspi_UnloadBlob_UINT32_def Trspi_UnloadBlob_UINT64_def behind_def be8_def)

lemma unload_NULL_prims [get_simps]:
  "lies blob st (be8 x) \<Longrightarrow> Trspi_UnloadBlob_BYTE_NULL blob st = Some (behind (be8 x) st)"
  "lies blob st (be8 x) \<Longrightarrow> Trspi_UnloadBlob_BOOL_NULL blob st = Some (behind (be8 x) st)"
  "lies blob st (be16 h) \<Longrightarrow> Trspi_UnloadBlob_UINT16_NULL blob st = Some (behind (be16 h) st)"
  "lies blob st (be32 w) \<Longrightarrow> Trspi_UnloadBlob_UINT32_NULL blob st = Some (behind (be32 w) st)"
  "lies blob st (be64 q) \<Longrightarrow> Trspi_UnloadBlob_UINT64_NULL blob st = Some (behind (be64 q) st)"
  by (simp_all add: Trspi_UnloadBlob_BYTE_NULL_def Trspi_UnloadBlob_BOOL_NULL_def behind_def
      Trspi_UnloadBlob_UINT16_NULL_def Trspi_UnloadBlob_UINT32_NULL_def Trspi_UnloadBlob_UINT64_NULL_def)

lemma unload_skip [get_simps]:
  "lies blob st (pbytes p) \<Longrightarrow> owns n p \<Longrightarrow>
   Trspi_UnloadBlob n blob NULL st = Some (NULL, behind (pbytes p) st)"
  "lies blob st (pbytes p) \<Longrightarrow> owns n p \<Longrightarrow> adv n st = behind (pbytes p) st"
  "lies blob st d \<Longrightarrow> length d = n \<Longrightarrow> Trspi_UnloadBlob n blob NULL st = Some (NULL, behind d st)"
  by (simp_all add: behind_def length_pbytes)

lemma unload_array [get_simps]:
  assumes "lies blob st d" "length d = n" "length d0 = n"
  shows "UnloadBlob_array n blob d0 st = Some (d, behind d st)"
  using lies_bytes [OF assms(1)] assms(2,3)
  by (cases "d = []") (auto simp: UnloadBlob_array_def behind_def wr_def write_at_def)

lemma unload_malloc [get_simps]:
  assumes "lies blob st (pbytes p)" "owns n p" "plenty st"
  shows "malloc_UnloadBlob n blob st = Some (0, p, charge (pallocs p) (behind (pbytes p) st))"
proof (cases p)
  case (Buf d)
  have "alloc_ok st (nalloc st)" using assms(3) by (metis add_0_right plenty_def)
  moreover have "fetch n blob (st\<lparr>nalloc := k, live := l\<rparr>) = Some d" for k l
    using lies_bytes [of blob st d] assms Buf by (auto simp: fetch_def split: if_splits)
  ultimately show ?thesis using assms Buf
    by (auto simp: malloc_UnloadBlob_def malloc_def wr_def write_at_def behind_def adv_def charge_def)
qed (use assms in \<open>auto simp: malloc_UnloadBlob_def get_simps\<close>)

text \<open>A reader of the code that returns \<open>void\<close>, with the result code of success.\<close>

definition void_result :: "('a \<times> rst) option \<Rightarrow> (u32 \<times> 'a \<times> rst) option" where
  "void_result r = map_option (\<lambda>(x, st). (0, x, st)) r"

lemma void_result_Some [get_simps]: "void_result (Some (x, st)) = Some (0, x, st)"
  by (simp add: void_result_def)

lemma void_resultD: "void_result r = Some (0, x, st) \<Longrightarrow> r = Some (x, st)"
  by (auto simp: void_result_def)

declare Trspi_UnloadBlob.simps [simp del]

section \<open>The interface of a marshalled structure\<close>

text \<open>A writer stores the encoding \<open>enc\<close> of a well-formed structure.\<close>

locale blob_writer =
  fixes load :: "'a \<Rightarrow> wst \<Rightarrow> wst option"
    and enc :: "'a \<Rightarrow> u8 list" and wf :: "'a \<Rightarrow> bool"
  assumes load_put: "wf x \<Longrightarrow> load x s = put (enc x) s"
    and enc_nonempty: "wf x \<Longrightarrow> enc x \<noteq> []"
begin

text \<open>Measuring: with a NULL blob the writer only computes the size.\<close>

lemma measure: "wf x \<Longrightarrow> load x (off, None) = Some (off + of_nat (length (enc x)), None)"
  by (simp add: load_put poke_def)

text \<open>Writing: exactly the bytes of the encoding change, or the write is out of bounds.\<close>

lemma write_exact:
  assumes "wf x" "length b < 2 ^ 64"
  shows "load x (off, Some b) =
    (if unat off + length (enc x) \<le> length b
     then Some (off + of_nat (length (enc x)), Some (write_at b (unat off) (enc x))) else None)"
  using assms by (simp add: load_put poke_def wr_def enc_nonempty)

text \<open>The two passes of the callers: the measured size is the size of the buffer to allocate,
  and the second pass fills it.\<close>

lemma two_pass:
  assumes "wf x" "length (enc x) < 2 ^ 64"
  shows "\<exists>n. load x (0, None) = Some (n, None) \<and>
    (\<forall>b. length b = unat n \<longrightarrow> load x (0, Some b) = Some (n, Some (enc x)))"
proof -
  have "unat (of_nat (length (enc x)) :: u64) = length (enc x)"
    using assms by (simp add: unsigned_of_nat take_bit_nat_eq_self)
  then show ?thesis
    using assms measure [of x 0] write_exact [of x _ 0] by (auto simp: write_at_def)
qed

end

text \<open>A reader gets a structure back from its encoding, whatever the output structure held,
  allocating \<open>allocs\<close> objects, and with a NULL output skips the encoding.\<close>

locale blob_reader =
  fixes unload :: "u8 list \<Rightarrow> 'a \<Rightarrow> rst \<Rightarrow> (u32 \<times> 'a \<times> rst) option"
    and unload_NULL :: "u8 list \<Rightarrow> rst \<Rightarrow> rst option"
    and enc :: "'a \<Rightarrow> u8 list" and wf :: "'a \<Rightarrow> bool" and room :: "'a \<Rightarrow> bool"
    and allocs :: "'a \<Rightarrow> nat"
  assumes unload_lies: "lies blob st (enc x) \<Longrightarrow> wf x \<Longrightarrow> room y \<Longrightarrow> plenty st \<Longrightarrow>
      unload blob y st = Some (0, x, charge (allocs x) (behind (enc x) st))"
    and unload_NULL_lies: "lies blob st (enc x) \<Longrightarrow> wf x \<Longrightarrow>
      unload_NULL blob st = Some (behind (enc x) st)"
begin

text \<open>The encoding determines the structure: two structures that begin the same blob are equal.\<close>

lemma prefix_free:
  assumes "wf x" "wf y" "room z" "enc x @ as = enc y @ bs" "length (enc x @ as) < 2 ^ 64"
  shows "x = y"
proof -
  let ?b = "enc x @ as" and ?st = "\<lparr>offset = 0, alloc_ok = \<lambda>n. True, nalloc = 0, live = 0\<rparr>"
  have l: "lies (xs @ ys) ?st xs" if "length (xs @ ys) < 2 ^ 64" for xs ys
    using that by (simp add: lies_def fetch_def rd_def read_at_def)
  have "lies ?b ?st (enc x)" using assms(5) by (rule l)
  moreover have "lies ?b ?st (enc y)" using assms(5) unfolding assms(4) by (rule l)
  moreover have "plenty ?st" by (simp add: plenty_def)
  ultimately show ?thesis
    using unload_lies [of ?b ?st x z] unload_lies [of ?b ?st y z] assms by simp
qed

end

text \<open>A structure that is written and read back.\<close>

locale blob_codec = blob_writer load enc wf + blob_reader unload unload_NULL enc wf room allocs
  for load :: "'a \<Rightarrow> wst \<Rightarrow> wst option"
    and unload :: "u8 list \<Rightarrow> 'a \<Rightarrow> rst \<Rightarrow> (u32 \<times> 'a \<times> rst) option"
    and unload_NULL :: "u8 list \<Rightarrow> rst \<Rightarrow> rst option"
    and enc :: "'a \<Rightarrow> u8 list" and wf :: "'a \<Rightarrow> bool" and room :: "'a \<Rightarrow> bool"
    and allocs :: "'a \<Rightarrow> nat"
begin

lemma written_lies:
  assumes "wf x" "length b < 2 ^ 64" "load x (off, Some b) = Some (off', Some b')" "offset st = off"
  shows "lies b' st (enc x)" "off' = off + of_nat (length (enc x))"
  using assms write_exact [of x b off]
  by (auto simp: lies_def fetch_def rd_def buf_simps split: if_splits)

lemma roundtrip:
  assumes "wf x" "length b < 2 ^ 64" "load x (off, Some b) = Some (off', Some b')" "offset st = off"
  shows "room y \<Longrightarrow> plenty st \<Longrightarrow> unload b' y st = Some (0, x, charge (allocs x) (st\<lparr>offset := off'\<rparr>))"
    and "unload_NULL b' st = Some (st\<lparr>offset := off'\<rparr>)"
  using written_lies [OF assms] assms unload_lies [of b' st x y] unload_NULL_lies [of b' st x]
  by (simp_all add: behind_def adv_def)

text \<open>Two structures that leave the same bytes at the same place are equal.\<close>

lemma injective:
  assumes "wf x" "wf y" "room z" "length b < 2 ^ 64" "length c < 2 ^ 64"
    and "load x (off, Some b) = Some (n, Some d)" "load y (off, Some c) = Some (m, Some d)"
  shows "x = y \<and> n = m"
proof -
  let ?st = "\<lparr>offset = off, alloc_ok = \<lambda>n. True, nalloc = 0, live = 0\<rparr>"
  have p: "plenty ?st" "offset ?st = off" by (simp_all add: plenty_def)
  show ?thesis
    using roundtrip(1) [OF assms(1,4,6) p(2) assms(3) p(1)]
      roundtrip(1) [OF assms(2,5,7) p(2) assms(3) p(1)] by (simp add: charge_def)
qed

end

declare put.simps [simp del]

end
