(* ===== verification/Trspi_Structs.thy ===== *)
theory Trspi_Structs
  imports Trspi_Blob
begin

text \<open>
  The marshalled structures that are not keys (\<open>trspi/trousers.c\<close>): versions, UUIDs, nonces
  and digests, PCR selections and PCR information, key registry entries, PCR events and the
  structures of the tick counter, the monotonic counter and the transport session.

  A structure is a \<open>record\<close> with the fields of the C structure (\<open>include/tss/tpm.h\<close>,
  \<open>tss_structs.h\<close>) in their order, each field with a prefix for its structure because C
  structures share field names.  For a structure \<open>X\<close> the section gives its writer
  \<open>Trspi_LoadBlob_X\<close>, its reader \<open>Trspi_UnloadBlob_X\<close> and, as \<open>Trspi_UnloadBlob_X_NULL\<close>, the
  branch of the reader for a NULL output; then the encoding \<open>enc_X\<close>, the well-formedness
  \<open>wf_X\<close> (sizes agree with the objects the pointers own, arrays have their length), what an
  output structure must offer (\<open>room_X\<close>) and the number of objects the reader allocates
  (\<open>allocs_X\<close>); last the interpretation of the interface.
\<close>

section \<open>Versions and UUIDs\<close>

record TSS_VERSION =
  tv_bMajor :: u8
  tv_bMinor :: u8
  tv_bRevMajor :: u8
  tv_bRevMinor :: u8

definition Trspi_LoadBlob_TSS_VERSION :: "TSS_VERSION \<Rightarrow> wst \<Rightarrow> wst option" where
  "Trspi_LoadBlob_TSS_VERSION version s = do {
     s \<leftarrow> Trspi_LoadBlob_BYTE (tv_bMajor version) s;
     s \<leftarrow> Trspi_LoadBlob_BYTE (tv_bMinor version) s;
     s \<leftarrow> Trspi_LoadBlob_BYTE (tv_bRevMajor version) s;
     Trspi_LoadBlob_BYTE (tv_bRevMinor version) s
   }"

definition Trspi_UnloadBlob_TSS_VERSION :: "u8 list \<Rightarrow> TSS_VERSION \<Rightarrow> rst \<Rightarrow> (TSS_VERSION \<times> rst) option" where
  "Trspi_UnloadBlob_TSS_VERSION blob out st = do {
     (x, st) \<leftarrow> Trspi_UnloadBlob_BYTE blob st;
     let out = out\<lparr>tv_bMajor := x\<rparr>;
     (x, st) \<leftarrow> Trspi_UnloadBlob_BYTE blob st;
     let out = out\<lparr>tv_bMinor := x\<rparr>;
     (x, st) \<leftarrow> Trspi_UnloadBlob_BYTE blob st;
     let out = out\<lparr>tv_bRevMajor := x\<rparr>;
     (x, st) \<leftarrow> Trspi_UnloadBlob_BYTE blob st;
     let out = out\<lparr>tv_bRevMinor := x\<rparr>;
     Some (out, st)
   }"

definition Trspi_UnloadBlob_TSS_VERSION_NULL :: "u8 list \<Rightarrow> rst \<Rightarrow> rst option" where
  "Trspi_UnloadBlob_TSS_VERSION_NULL blob st = do {
     st \<leftarrow> Trspi_UnloadBlob_BYTE_NULL blob st;
     st \<leftarrow> Trspi_UnloadBlob_BYTE_NULL blob st;
     st \<leftarrow> Trspi_UnloadBlob_BYTE_NULL blob st;
     st \<leftarrow> Trspi_UnloadBlob_BYTE_NULL blob st;
     Some st
   }"

definition enc_TSS_VERSION :: "TSS_VERSION \<Rightarrow> u8 list" where
  "enc_TSS_VERSION version =
     be8 (tv_bMajor version) @ be8 (tv_bMinor version) @ be8 (tv_bRevMajor version) @
       be8 (tv_bRevMinor version)"

interpretation tss_version_codec: blob_codec Trspi_LoadBlob_TSS_VERSION
    "\<lambda>blob y st. void_result (Trspi_UnloadBlob_TSS_VERSION blob y st)"
    Trspi_UnloadBlob_TSS_VERSION_NULL enc_TSS_VERSION "\<lambda>_. True" "\<lambda>_. True" "\<lambda>_. 0"
  by unfold_locales
    (auto simp: Trspi_LoadBlob_TSS_VERSION_def Trspi_UnloadBlob_TSS_VERSION_def
      Trspi_UnloadBlob_TSS_VERSION_NULL_def enc_TSS_VERSION_def put_simps
      get_simps Let_def intro!: TSS_VERSION.equality)

lemmas tss_version_codec_put [put_simps] = tss_version_codec.load_put tss_version_codec.enc_nonempty
lemmas tss_version_codec_get [get_simps] = tss_version_codec.unload_lies [THEN void_resultD, unfolded charge_simps] tss_version_codec.unload_NULL_lies

record TCPA_VERSION =
  ver_major :: u8
  ver_minor :: u8
  ver_revMajor :: u8
  ver_revMinor :: u8

definition Trspi_LoadBlob_TCPA_VERSION :: "TCPA_VERSION \<Rightarrow> wst \<Rightarrow> wst option" where
  "Trspi_LoadBlob_TCPA_VERSION version s = do {
     s \<leftarrow> Trspi_LoadBlob_BYTE (ver_major version) s;
     s \<leftarrow> Trspi_LoadBlob_BYTE (ver_minor version) s;
     s \<leftarrow> Trspi_LoadBlob_BYTE (ver_revMajor version) s;
     Trspi_LoadBlob_BYTE (ver_revMinor version) s
   }"

definition Trspi_UnloadBlob_TCPA_VERSION :: "u8 list \<Rightarrow> TCPA_VERSION \<Rightarrow> rst \<Rightarrow> (TCPA_VERSION \<times> rst) option" where
  "Trspi_UnloadBlob_TCPA_VERSION blob out st = do {
     (x, st) \<leftarrow> Trspi_UnloadBlob_BYTE blob st;
     let out = out\<lparr>ver_major := x\<rparr>;
     (x, st) \<leftarrow> Trspi_UnloadBlob_BYTE blob st;
     let out = out\<lparr>ver_minor := x\<rparr>;
     (x, st) \<leftarrow> Trspi_UnloadBlob_BYTE blob st;
     let out = out\<lparr>ver_revMajor := x\<rparr>;
     (x, st) \<leftarrow> Trspi_UnloadBlob_BYTE blob st;
     let out = out\<lparr>ver_revMinor := x\<rparr>;
     Some (out, st)
   }"

definition Trspi_UnloadBlob_TCPA_VERSION_NULL :: "u8 list \<Rightarrow> rst \<Rightarrow> rst option" where
  "Trspi_UnloadBlob_TCPA_VERSION_NULL blob st = do {
     st \<leftarrow> Trspi_UnloadBlob_BYTE_NULL blob st;
     st \<leftarrow> Trspi_UnloadBlob_BYTE_NULL blob st;
     st \<leftarrow> Trspi_UnloadBlob_BYTE_NULL blob st;
     st \<leftarrow> Trspi_UnloadBlob_BYTE_NULL blob st;
     Some st
   }"

definition enc_TCPA_VERSION :: "TCPA_VERSION \<Rightarrow> u8 list" where
  "enc_TCPA_VERSION version =
     be8 (ver_major version) @ be8 (ver_minor version) @ be8 (ver_revMajor version) @
       be8 (ver_revMinor version)"

interpretation tcpa_version_codec: blob_codec Trspi_LoadBlob_TCPA_VERSION
    "\<lambda>blob y st. void_result (Trspi_UnloadBlob_TCPA_VERSION blob y st)"
    Trspi_UnloadBlob_TCPA_VERSION_NULL enc_TCPA_VERSION "\<lambda>_. True" "\<lambda>_. True" "\<lambda>_. 0"
  by unfold_locales
    (auto simp: Trspi_LoadBlob_TCPA_VERSION_def Trspi_UnloadBlob_TCPA_VERSION_def
      Trspi_UnloadBlob_TCPA_VERSION_NULL_def enc_TCPA_VERSION_def put_simps
      get_simps Let_def intro!: TCPA_VERSION.equality)

lemmas tcpa_version_codec_put [put_simps] = tcpa_version_codec.load_put tcpa_version_codec.enc_nonempty
lemmas tcpa_version_codec_get [get_simps] = tcpa_version_codec.unload_lies [THEN void_resultD, unfolded charge_simps] tcpa_version_codec.unload_NULL_lies

text \<open>The same reader under its second name.\<close>

definition Trspi_UnloadBlob_VERSION :: "u8 list \<Rightarrow> TCPA_VERSION \<Rightarrow> rst \<Rightarrow> (TCPA_VERSION \<times> rst) option" where
  "Trspi_UnloadBlob_VERSION blob out st = do {
     (x, st) \<leftarrow> Trspi_UnloadBlob_BYTE blob st;
     let out = out\<lparr>ver_major := x\<rparr>;
     (x, st) \<leftarrow> Trspi_UnloadBlob_BYTE blob st;
     let out = out\<lparr>ver_minor := x\<rparr>;
     (x, st) \<leftarrow> Trspi_UnloadBlob_BYTE blob st;
     let out = out\<lparr>ver_revMajor := x\<rparr>;
     (x, st) \<leftarrow> Trspi_UnloadBlob_BYTE blob st;
     let out = out\<lparr>ver_revMinor := x\<rparr>;
     Some (out, st)
   }"

definition Trspi_UnloadBlob_VERSION_NULL :: "u8 list \<Rightarrow> rst \<Rightarrow> rst option" where
  "Trspi_UnloadBlob_VERSION_NULL blob st = do {
     st \<leftarrow> Trspi_UnloadBlob_BYTE_NULL blob st;
     st \<leftarrow> Trspi_UnloadBlob_BYTE_NULL blob st;
     st \<leftarrow> Trspi_UnloadBlob_BYTE_NULL blob st;
     st \<leftarrow> Trspi_UnloadBlob_BYTE_NULL blob st;
     Some st
   }"

lemma version_reader [get_simps]:
  "Trspi_UnloadBlob_VERSION = Trspi_UnloadBlob_TCPA_VERSION"
  "Trspi_UnloadBlob_VERSION_NULL = Trspi_UnloadBlob_TCPA_VERSION_NULL"
  by (intro ext; simp add: Trspi_UnloadBlob_VERSION_def Trspi_UnloadBlob_TCPA_VERSION_def
      Trspi_UnloadBlob_VERSION_NULL_def Trspi_UnloadBlob_TCPA_VERSION_NULL_def)+

text \<open>The casts between the two version structures, which have the same layout.\<close>

definition as_TCPA_VERSION :: "TSS_VERSION \<Rightarrow> TCPA_VERSION" where
  "as_TCPA_VERSION v = \<lparr>ver_major = tv_bMajor v, ver_minor = tv_bMinor v,
     ver_revMajor = tv_bRevMajor v, ver_revMinor = tv_bRevMinor v\<rparr>"

definition as_TSS_VERSION :: "TCPA_VERSION \<Rightarrow> TSS_VERSION" where
  "as_TSS_VERSION v = \<lparr>tv_bMajor = ver_major v, tv_bMinor = ver_minor v,
     tv_bRevMajor = ver_revMajor v, tv_bRevMinor = ver_revMinor v\<rparr>"

lemma as_VERSION [simp]: "as_TSS_VERSION (as_TCPA_VERSION v) = v" "as_TCPA_VERSION (as_TSS_VERSION w) = w"
  by (simp_all add: as_TSS_VERSION_def as_TCPA_VERSION_def)

record TSS_UUID =
  uuid_ulTimeLow :: u32
  uuid_usTimeMid :: u16
  uuid_usTimeHigh :: u16
  uuid_bClockSeqHigh :: u8
  uuid_bClockSeqLow :: u8
  uuid_rgbNode :: "u8 list"

definition zero_UUID :: TSS_UUID where
  "zero_UUID = \<lparr>uuid_ulTimeLow = 0, uuid_usTimeMid = 0, uuid_usTimeHigh = 0,
     uuid_bClockSeqHigh = 0, uuid_bClockSeqLow = 0, uuid_rgbNode = replicate 6 0\<rparr>"

definition Trspi_LoadBlob_UUID :: "TSS_UUID \<Rightarrow> wst \<Rightarrow> wst option" where
  "Trspi_LoadBlob_UUID uuid s = do {
     s \<leftarrow> Trspi_LoadBlob_UINT32 (uuid_ulTimeLow uuid) s;
     s \<leftarrow> Trspi_LoadBlob_UINT16 (uuid_usTimeMid uuid) s;
     s \<leftarrow> Trspi_LoadBlob_UINT16 (uuid_usTimeHigh uuid) s;
     s \<leftarrow> Trspi_LoadBlob_BYTE (uuid_bClockSeqHigh uuid) s;
     s \<leftarrow> Trspi_LoadBlob_BYTE (uuid_bClockSeqLow uuid) s;
     Trspi_LoadBlob 6 (Buf (uuid_rgbNode uuid)) s
   }"

definition Trspi_UnloadBlob_UUID :: "u8 list \<Rightarrow> TSS_UUID \<Rightarrow> rst \<Rightarrow> (TSS_UUID \<times> rst) option" where
  "Trspi_UnloadBlob_UUID blob uuid st = do {
     let uuid = zero_UUID;
     (x, st) \<leftarrow> Trspi_UnloadBlob_UINT32 blob st;
     let uuid = uuid\<lparr>uuid_ulTimeLow := x\<rparr>;
     (x, st) \<leftarrow> Trspi_UnloadBlob_UINT16 blob st;
     let uuid = uuid\<lparr>uuid_usTimeMid := x\<rparr>;
     (x, st) \<leftarrow> Trspi_UnloadBlob_UINT16 blob st;
     let uuid = uuid\<lparr>uuid_usTimeHigh := x\<rparr>;
     (x, st) \<leftarrow> Trspi_UnloadBlob_BYTE blob st;
     let uuid = uuid\<lparr>uuid_bClockSeqHigh := x\<rparr>;
     (x, st) \<leftarrow> Trspi_UnloadBlob_BYTE blob st;
     let uuid = uuid\<lparr>uuid_bClockSeqLow := x\<rparr>;
     (x, st) \<leftarrow> UnloadBlob_array 6 blob (uuid_rgbNode uuid) st;
     let uuid = uuid\<lparr>uuid_rgbNode := x\<rparr>;
     Some (uuid, st)
   }"

definition Trspi_UnloadBlob_UUID_NULL :: "u8 list \<Rightarrow> rst \<Rightarrow> rst option" where
  "Trspi_UnloadBlob_UUID_NULL blob st = do {
     st \<leftarrow> Trspi_UnloadBlob_UINT32_NULL blob st;
     st \<leftarrow> Trspi_UnloadBlob_UINT16_NULL blob st;
     st \<leftarrow> Trspi_UnloadBlob_UINT16_NULL blob st;
     st \<leftarrow> Trspi_UnloadBlob_BYTE_NULL blob st;
     st \<leftarrow> Trspi_UnloadBlob_BYTE_NULL blob st;
     (_, st) \<leftarrow> Trspi_UnloadBlob 6 blob NULL st;
     Some st
   }"

definition enc_UUID :: "TSS_UUID \<Rightarrow> u8 list" where
  "enc_UUID uuid =
     be32 (uuid_ulTimeLow uuid) @ be16 (uuid_usTimeMid uuid) @
       be16 (uuid_usTimeHigh uuid) @ be8 (uuid_bClockSeqHigh uuid) @
       be8 (uuid_bClockSeqLow uuid) @ uuid_rgbNode uuid"

definition wf_UUID :: "TSS_UUID \<Rightarrow> bool" where
  "wf_UUID uuid \<longleftrightarrow> length (uuid_rgbNode uuid) = 6"

interpretation uuid_codec: blob_codec Trspi_LoadBlob_UUID
    "\<lambda>blob y st. void_result (Trspi_UnloadBlob_UUID blob y st)"
    Trspi_UnloadBlob_UUID_NULL enc_UUID wf_UUID "\<lambda>_. True" "\<lambda>_. 0"
  by unfold_locales
    (auto simp: Trspi_LoadBlob_UUID_def Trspi_UnloadBlob_UUID_def
      Trspi_UnloadBlob_UUID_NULL_def enc_UUID_def wf_UUID_def zero_UUID_def put_simps get_simps
      Let_def intro!: TSS_UUID.equality)

lemmas uuid_codec_put [put_simps] = uuid_codec.load_put uuid_codec.enc_nonempty
lemmas uuid_codec_get [get_simps] = uuid_codec.unload_lies [THEN void_resultD, unfolded charge_simps] uuid_codec.unload_NULL_lies

section \<open>Nonces and digests\<close>

text \<open>\<open>TPM_NONCE\<close> and \<open>TPM_DIGEST\<close> are structures around one array of 32 bytes.\<close>

definition Trspi_UnloadBlob_NONCE :: "u8 list \<Rightarrow> u8 list \<Rightarrow> rst \<Rightarrow> (u8 list \<times> rst) option" where
  "Trspi_UnloadBlob_NONCE blob n st = UnloadBlob_array 32 blob n st"

definition Trspi_UnloadBlob_NONCE_NULL :: "u8 list \<Rightarrow> rst \<Rightarrow> rst option" where
  "Trspi_UnloadBlob_NONCE_NULL blob st = Some (adv 32 st)"

definition Trspi_LoadBlob_NONCE :: "u8 list \<Rightarrow> wst \<Rightarrow> wst option" where
  "Trspi_LoadBlob_NONCE n s = Trspi_LoadBlob 32 (Buf n) s"

definition Trspi_LoadBlob_DIGEST :: "u8 list \<Rightarrow> wst \<Rightarrow> wst option" where
  "Trspi_LoadBlob_DIGEST digest s = Trspi_LoadBlob 32 (Buf digest) s"

definition Trspi_UnloadBlob_DIGEST :: "u8 list \<Rightarrow> u8 list \<Rightarrow> rst \<Rightarrow> (u8 list \<times> rst) option" where
  "Trspi_UnloadBlob_DIGEST blob digest st = UnloadBlob_array 32 blob digest st"

definition Trspi_UnloadBlob_DIGEST_NULL :: "u8 list \<Rightarrow> rst \<Rightarrow> rst option" where
  "Trspi_UnloadBlob_DIGEST_NULL blob st = Some (adv 32 st)"

lemma digest_put [put_simps]:
  "length d = 32 \<Longrightarrow> Trspi_LoadBlob_NONCE d s = put d s"
  "length d = 32 \<Longrightarrow> Trspi_LoadBlob_DIGEST d s = put d s"
  by (simp_all add: Trspi_LoadBlob_NONCE_def Trspi_LoadBlob_DIGEST_def load_array)

lemma digest_get [get_simps]:
  "lies blob st d \<Longrightarrow> length d = 32 \<Longrightarrow> length d0 = 32 \<Longrightarrow>
   Trspi_UnloadBlob_NONCE blob d0 st = Some (d, behind d st)"
  "lies blob st d \<Longrightarrow> length d = 32 \<Longrightarrow> length d0 = 32 \<Longrightarrow>
   Trspi_UnloadBlob_DIGEST blob d0 st = Some (d, behind d st)"
  "lies blob st d \<Longrightarrow> length d = 32 \<Longrightarrow> Trspi_UnloadBlob_NONCE_NULL blob st = Some (behind d st)"
  "lies blob st d \<Longrightarrow> length d = 32 \<Longrightarrow> Trspi_UnloadBlob_DIGEST_NULL blob st = Some (behind d st)"
  by (simp_all add: Trspi_UnloadBlob_NONCE_def Trspi_UnloadBlob_DIGEST_def unload_array
      Trspi_UnloadBlob_NONCE_NULL_def Trspi_UnloadBlob_DIGEST_NULL_def behind_def)

section \<open>PCR selections and PCR information\<close>

record TCPA_PCR_SELECTION =
  sel_sizeOfSelect :: u16
  sel_pcrSelect :: ptr

text \<open>The bytes of the selection are written one by one; \<open>nth_byte\<close> is the read through the
  pointer, which faults outside the object.\<close>

fun nth_byte :: "ptr \<Rightarrow> nat \<Rightarrow> u8 option" where
  "nth_byte (Buf d) i = (if i < length d then Some (d ! i) else None)"
| "nth_byte NULL i = None"
| "nth_byte Freed i = None"

definition Trspi_LoadBlob_PCR_SELECTION :: "TCPA_PCR_SELECTION \<Rightarrow> wst \<Rightarrow> wst option" where
  "Trspi_LoadBlob_PCR_SELECTION pcr s = do {
     s \<leftarrow> Trspi_LoadBlob_UINT16 (sel_sizeOfSelect pcr) s;
     fold (\<lambda>i r. do { s \<leftarrow> r; b \<leftarrow> nth_byte (sel_pcrSelect pcr) i; Trspi_LoadBlob_BYTE b s })
       [0..<unat (sel_sizeOfSelect pcr)] (Some s)
   }"

definition Trspi_UnloadBlob_PCR_SELECTION :: "u8 list \<Rightarrow> TCPA_PCR_SELECTION \<Rightarrow> rst \<Rightarrow> (u32 \<times> TCPA_PCR_SELECTION \<times> rst) option" where
  "Trspi_UnloadBlob_PCR_SELECTION blob pcr st = do {
     (x, st) \<leftarrow> Trspi_UnloadBlob_UINT16 blob st;
     let pcr = pcr\<lparr>sel_sizeOfSelect := x\<rparr>;
     (result, p, st) \<leftarrow> malloc_UnloadBlob (unat (sel_sizeOfSelect pcr)) blob st;
     let pcr = pcr\<lparr>sel_pcrSelect := p\<rparr>;
     if result \<noteq> 0 then Some (result, pcr, st) else do {
       Some (TSS_SUCCESS, pcr, st) }
   }"

definition Trspi_UnloadBlob_PCR_SELECTION_NULL :: "u8 list \<Rightarrow> rst \<Rightarrow> rst option" where
  "Trspi_UnloadBlob_PCR_SELECTION_NULL blob st = do {
     (sizeOfSelect, st) \<leftarrow> Trspi_UnloadBlob_UINT16 blob st;
     (_, st) \<leftarrow> Trspi_UnloadBlob (unat sizeOfSelect) blob NULL st;
     Some st
   }"

definition enc_PCR_SELECTION :: "TCPA_PCR_SELECTION \<Rightarrow> u8 list" where
  "enc_PCR_SELECTION pcr =
     be16 (sel_sizeOfSelect pcr) @ pbytes (sel_pcrSelect pcr)"

definition wf_PCR_SELECTION :: "TCPA_PCR_SELECTION \<Rightarrow> bool" where
  "wf_PCR_SELECTION pcr \<longleftrightarrow> owns (unat (sel_sizeOfSelect pcr)) (sel_pcrSelect pcr)"

definition allocs_PCR_SELECTION :: "TCPA_PCR_SELECTION \<Rightarrow> nat" where
  "allocs_PCR_SELECTION pcr = pallocs (sel_pcrSelect pcr)"

lemma put_bytes:
  "owns n p \<Longrightarrow> k \<le> n \<Longrightarrow>
   fold (\<lambda>i r. do { s \<leftarrow> r; b \<leftarrow> nth_byte p i; Trspi_LoadBlob_BYTE b s }) [0..<k] (Some s) =
     put (take k (pbytes p)) s"
proof (induction k)
  case (Suc k)
  then obtain d where d: "p = Buf d" "k < length d" by (cases p) auto
  have "put (take k d) s \<bind> put (be8 (d ! k)) = put (take (Suc k) d) s"
    using d by (simp add: put_put take_Suc_conv_app_nth be8_def)
  then show ?case using Suc d by (simp add: load_prims)
qed simp

lemma load_PCR_SELECTION:
  "wf_PCR_SELECTION pcr \<Longrightarrow> Trspi_LoadBlob_PCR_SELECTION pcr s = put (enc_PCR_SELECTION pcr) s"
  using put_bytes [of "unat (sel_sizeOfSelect pcr)" "sel_pcrSelect pcr" "unat (sel_sizeOfSelect pcr)"]
  by (simp add: Trspi_LoadBlob_PCR_SELECTION_def wf_PCR_SELECTION_def enc_PCR_SELECTION_def
      put_simps length_pbytes)

interpretation pcr_selection_codec: blob_codec Trspi_LoadBlob_PCR_SELECTION
    Trspi_UnloadBlob_PCR_SELECTION
    Trspi_UnloadBlob_PCR_SELECTION_NULL enc_PCR_SELECTION wf_PCR_SELECTION "\<lambda>_. True" allocs_PCR_SELECTION
  by unfold_locales
    (auto simp: load_PCR_SELECTION Trspi_UnloadBlob_PCR_SELECTION_def
      Trspi_UnloadBlob_PCR_SELECTION_NULL_def enc_PCR_SELECTION_def
      wf_PCR_SELECTION_def allocs_PCR_SELECTION_def put_simps get_simps Let_def
      intro!: TCPA_PCR_SELECTION.equality)

lemmas pcr_selection_codec_put [put_simps] = pcr_selection_codec.load_put pcr_selection_codec.enc_nonempty
lemmas pcr_selection_codec_get [get_simps] = pcr_selection_codec.unload_lies pcr_selection_codec.unload_NULL_lies

record TCPA_PCR_INFO =
  pi_pcrSelection :: TCPA_PCR_SELECTION
  pi_digestAtRelease :: "u8 list"
  pi_digestAtCreation :: "u8 list"

definition Trspi_LoadBlob_PCR_INFO :: "TCPA_PCR_INFO \<Rightarrow> wst \<Rightarrow> wst option" where
  "Trspi_LoadBlob_PCR_INFO pcr s = do {
     s \<leftarrow> Trspi_LoadBlob_PCR_SELECTION (pi_pcrSelection pcr) s;
     s \<leftarrow> Trspi_LoadBlob_DIGEST (pi_digestAtRelease pcr) s;
     Trspi_LoadBlob_DIGEST (pi_digestAtCreation pcr) s
   }"

definition Trspi_UnloadBlob_PCR_INFO :: "u8 list \<Rightarrow> TCPA_PCR_INFO \<Rightarrow> rst \<Rightarrow> (u32 \<times> TCPA_PCR_INFO \<times> rst) option" where
  "Trspi_UnloadBlob_PCR_INFO blob pcr st = do {
     (result, x, st) \<leftarrow> Trspi_UnloadBlob_PCR_SELECTION blob (pi_pcrSelection pcr) st;
     let pcr = pcr\<lparr>pi_pcrSelection := x\<rparr>;
     if result \<noteq> 0 then Some (result, pcr, st) else do {
       (x, st) \<leftarrow> Trspi_UnloadBlob_DIGEST blob (pi_digestAtRelease pcr) st;
       let pcr = pcr\<lparr>pi_digestAtRelease := x\<rparr>;
       (x, st) \<leftarrow> Trspi_UnloadBlob_DIGEST blob (pi_digestAtCreation pcr) st;
       let pcr = pcr\<lparr>pi_digestAtCreation := x\<rparr>;
       Some (TSS_SUCCESS, pcr, st) }
   }"

definition Trspi_UnloadBlob_PCR_INFO_NULL :: "u8 list \<Rightarrow> rst \<Rightarrow> rst option" where
  "Trspi_UnloadBlob_PCR_INFO_NULL blob st = do {
     st \<leftarrow> Trspi_UnloadBlob_PCR_SELECTION_NULL blob st;
     st \<leftarrow> Trspi_UnloadBlob_DIGEST_NULL blob st;
     st \<leftarrow> Trspi_UnloadBlob_DIGEST_NULL blob st;
     Some st
   }"

definition enc_PCR_INFO :: "TCPA_PCR_INFO \<Rightarrow> u8 list" where
  "enc_PCR_INFO pcr =
     enc_PCR_SELECTION (pi_pcrSelection pcr) @ pi_digestAtRelease pcr @
       pi_digestAtCreation pcr"

definition wf_PCR_INFO :: "TCPA_PCR_INFO \<Rightarrow> bool" where
  "wf_PCR_INFO pcr \<longleftrightarrow> wf_PCR_SELECTION (pi_pcrSelection pcr)
     \<and> length (pi_digestAtRelease pcr) = 32
     \<and> length (pi_digestAtCreation pcr) = 32"

definition room_PCR_INFO :: "TCPA_PCR_INFO \<Rightarrow> bool" where
  "room_PCR_INFO pcr \<longleftrightarrow> length (pi_digestAtRelease pcr) = 32
     \<and> length (pi_digestAtCreation pcr) = 32"

definition allocs_PCR_INFO :: "TCPA_PCR_INFO \<Rightarrow> nat" where
  "allocs_PCR_INFO pcr = allocs_PCR_SELECTION (pi_pcrSelection pcr)"

interpretation pcr_info_codec: blob_codec Trspi_LoadBlob_PCR_INFO
    Trspi_UnloadBlob_PCR_INFO
    Trspi_UnloadBlob_PCR_INFO_NULL enc_PCR_INFO wf_PCR_INFO room_PCR_INFO allocs_PCR_INFO
  by unfold_locales
    (auto simp: Trspi_LoadBlob_PCR_INFO_def Trspi_UnloadBlob_PCR_INFO_def
      Trspi_UnloadBlob_PCR_INFO_NULL_def enc_PCR_INFO_def wf_PCR_INFO_def
      room_PCR_INFO_def allocs_PCR_INFO_def put_simps get_simps Let_def
      intro!: TCPA_PCR_INFO.equality)

lemmas pcr_info_codec_put [put_simps] = pcr_info_codec.load_put pcr_info_codec.enc_nonempty
lemmas pcr_info_codec_get [get_simps] = pcr_info_codec.unload_lies pcr_info_codec.unload_NULL_lies

record TPM_PCR_INFO_LONG =
  pil_tag :: u16
  pil_localityAtCreation :: u8
  pil_localityAtRelease :: u8
  pil_creationPCRSelection :: TCPA_PCR_SELECTION
  pil_releasePCRSelection :: TCPA_PCR_SELECTION
  pil_digestAtCreation :: "u8 list"
  pil_digestAtRelease :: "u8 list"

definition Trspi_LoadBlob_PCR_INFO_LONG :: "TPM_PCR_INFO_LONG \<Rightarrow> wst \<Rightarrow> wst option" where
  "Trspi_LoadBlob_PCR_INFO_LONG pcr s = do {
     s \<leftarrow> Trspi_LoadBlob_UINT16 (pil_tag pcr) s;
     s \<leftarrow> Trspi_LoadBlob_BYTE (pil_localityAtCreation pcr) s;
     s \<leftarrow> Trspi_LoadBlob_BYTE (pil_localityAtRelease pcr) s;
     s \<leftarrow> Trspi_LoadBlob_PCR_SELECTION (pil_creationPCRSelection pcr) s;
     s \<leftarrow> Trspi_LoadBlob_PCR_SELECTION (pil_releasePCRSelection pcr) s;
     s \<leftarrow> Trspi_LoadBlob_DIGEST (pil_digestAtCreation pcr) s;
     Trspi_LoadBlob_DIGEST (pil_digestAtRelease pcr) s
   }"

definition Trspi_UnloadBlob_PCR_INFO_LONG :: "u8 list \<Rightarrow> TPM_PCR_INFO_LONG \<Rightarrow> rst \<Rightarrow> (u32 \<times> TPM_PCR_INFO_LONG \<times> rst) option" where
  "Trspi_UnloadBlob_PCR_INFO_LONG blob pcr st = do {
     (x, st) \<leftarrow> Trspi_UnloadBlob_UINT16 blob st;
     let pcr = pcr\<lparr>pil_tag := x\<rparr>;
     (x, st) \<leftarrow> Trspi_UnloadBlob_BYTE blob st;
     let pcr = pcr\<lparr>pil_localityAtCreation := x\<rparr>;
     (x, st) \<leftarrow> Trspi_UnloadBlob_BYTE blob st;
     let pcr = pcr\<lparr>pil_localityAtRelease := x\<rparr>;
     (result, x, st) \<leftarrow> Trspi_UnloadBlob_PCR_SELECTION blob (pil_creationPCRSelection pcr) st;
     let pcr = pcr\<lparr>pil_creationPCRSelection := x\<rparr>;
     if result \<noteq> 0 then Some (result, pcr, st) else do {
       (result, x, st) \<leftarrow> Trspi_UnloadBlob_PCR_SELECTION blob (pil_releasePCRSelection pcr) st;
       let pcr = pcr\<lparr>pil_releasePCRSelection := x\<rparr>;
       if result \<noteq> 0 then Some (result, pcr, st) else do {
         (x, st) \<leftarrow> Trspi_UnloadBlob_DIGEST blob (pil_digestAtCreation pcr) st;
         let pcr = pcr\<lparr>pil_digestAtCreation := x\<rparr>;
         (x, st) \<leftarrow> Trspi_UnloadBlob_DIGEST blob (pil_digestAtRelease pcr) st;
         let pcr = pcr\<lparr>pil_digestAtRelease := x\<rparr>;
         Some (TSS_SUCCESS, pcr, st) } }
   }"

definition Trspi_UnloadBlob_PCR_INFO_LONG_NULL :: "u8 list \<Rightarrow> rst \<Rightarrow> rst option" where
  "Trspi_UnloadBlob_PCR_INFO_LONG_NULL blob st = do {
     st \<leftarrow> Trspi_UnloadBlob_UINT16_NULL blob st;
     st \<leftarrow> Trspi_UnloadBlob_BYTE_NULL blob st;
     st \<leftarrow> Trspi_UnloadBlob_BYTE_NULL blob st;
     st \<leftarrow> Trspi_UnloadBlob_PCR_SELECTION_NULL blob st;
     st \<leftarrow> Trspi_UnloadBlob_PCR_SELECTION_NULL blob st;
     st \<leftarrow> Trspi_UnloadBlob_DIGEST_NULL blob st;
     st \<leftarrow> Trspi_UnloadBlob_DIGEST_NULL blob st;
     Some st
   }"

definition enc_PCR_INFO_LONG :: "TPM_PCR_INFO_LONG \<Rightarrow> u8 list" where
  "enc_PCR_INFO_LONG pcr =
     be16 (pil_tag pcr) @ be8 (pil_localityAtCreation pcr) @
       be8 (pil_localityAtRelease pcr) @ enc_PCR_SELECTION (pil_creationPCRSelection pcr) @
       enc_PCR_SELECTION (pil_releasePCRSelection pcr) @ pil_digestAtCreation pcr @
       pil_digestAtRelease pcr"

definition wf_PCR_INFO_LONG :: "TPM_PCR_INFO_LONG \<Rightarrow> bool" where
  "wf_PCR_INFO_LONG pcr \<longleftrightarrow> wf_PCR_SELECTION (pil_creationPCRSelection pcr)
     \<and> wf_PCR_SELECTION (pil_releasePCRSelection pcr)
     \<and> length (pil_digestAtCreation pcr) = 32
     \<and> length (pil_digestAtRelease pcr) = 32"

definition room_PCR_INFO_LONG :: "TPM_PCR_INFO_LONG \<Rightarrow> bool" where
  "room_PCR_INFO_LONG pcr \<longleftrightarrow> length (pil_digestAtCreation pcr) = 32
     \<and> length (pil_digestAtRelease pcr) = 32"

definition allocs_PCR_INFO_LONG :: "TPM_PCR_INFO_LONG \<Rightarrow> nat" where
  "allocs_PCR_INFO_LONG pcr = allocs_PCR_SELECTION (pil_creationPCRSelection pcr)
     + allocs_PCR_SELECTION (pil_releasePCRSelection pcr)"

interpretation pcr_info_long_codec: blob_codec Trspi_LoadBlob_PCR_INFO_LONG
    Trspi_UnloadBlob_PCR_INFO_LONG
    Trspi_UnloadBlob_PCR_INFO_LONG_NULL enc_PCR_INFO_LONG wf_PCR_INFO_LONG room_PCR_INFO_LONG allocs_PCR_INFO_LONG
  by unfold_locales
    (auto simp: Trspi_LoadBlob_PCR_INFO_LONG_def Trspi_UnloadBlob_PCR_INFO_LONG_def
      Trspi_UnloadBlob_PCR_INFO_LONG_NULL_def enc_PCR_INFO_LONG_def
      wf_PCR_INFO_LONG_def room_PCR_INFO_LONG_def allocs_PCR_INFO_LONG_def
      put_simps get_simps Let_def intro!: TPM_PCR_INFO_LONG.equality)

lemmas pcr_info_long_codec_put [put_simps] = pcr_info_long_codec.load_put pcr_info_long_codec.enc_nonempty
lemmas pcr_info_long_codec_get [get_simps] = pcr_info_long_codec.unload_lies pcr_info_long_codec.unload_NULL_lies

record TPM_PCR_INFO_SHORT =
  pis_pcrSelection :: TCPA_PCR_SELECTION
  pis_localityAtRelease :: u8
  pis_digestAtRelease :: "u8 list"

definition Trspi_LoadBlob_PCR_INFO_SHORT :: "TPM_PCR_INFO_SHORT \<Rightarrow> wst \<Rightarrow> wst option" where
  "Trspi_LoadBlob_PCR_INFO_SHORT pcr s = do {
     s \<leftarrow> Trspi_LoadBlob_PCR_SELECTION (pis_pcrSelection pcr) s;
     s \<leftarrow> Trspi_LoadBlob_BYTE (pis_localityAtRelease pcr) s;
     Trspi_LoadBlob_DIGEST (pis_digestAtRelease pcr) s
   }"

definition Trspi_UnloadBlob_PCR_INFO_SHORT :: "u8 list \<Rightarrow> TPM_PCR_INFO_SHORT \<Rightarrow> rst \<Rightarrow> (u32 \<times> TPM_PCR_INFO_SHORT \<times> rst) option" where
  "Trspi_UnloadBlob_PCR_INFO_SHORT blob pcr st = do {
     (result, x, st) \<leftarrow> Trspi_UnloadBlob_PCR_SELECTION blob (pis_pcrSelection pcr) st;
     let pcr = pcr\<lparr>pis_pcrSelection := x\<rparr>;
     if result \<noteq> 0 then Some (result, pcr, st) else do {
       (x, st) \<leftarrow> Trspi_UnloadBlob_BYTE blob st;
       let pcr = pcr\<lparr>pis_localityAtRelease := x\<rparr>;
       (x, st) \<leftarrow> Trspi_UnloadBlob_DIGEST blob (pis_digestAtRelease pcr) st;
       let pcr = pcr\<lparr>pis_digestAtRelease := x\<rparr>;
       Some (TSS_SUCCESS, pcr, st) }
   }"

definition Trspi_UnloadBlob_PCR_INFO_SHORT_NULL :: "u8 list \<Rightarrow> rst \<Rightarrow> rst option" where
  "Trspi_UnloadBlob_PCR_INFO_SHORT_NULL blob st = do {
     st \<leftarrow> Trspi_UnloadBlob_PCR_SELECTION_NULL blob st;
     st \<leftarrow> Trspi_UnloadBlob_BYTE_NULL blob st;
     st \<leftarrow> Trspi_UnloadBlob_DIGEST_NULL blob st;
     Some st
   }"

definition enc_PCR_INFO_SHORT :: "TPM_PCR_INFO_SHORT \<Rightarrow> u8 list" where
  "enc_PCR_INFO_SHORT pcr =
     enc_PCR_SELECTION (pis_pcrSelection pcr) @ be8 (pis_localityAtRelease pcr) @
       pis_digestAtRelease pcr"

definition wf_PCR_INFO_SHORT :: "TPM_PCR_INFO_SHORT \<Rightarrow> bool" where
  "wf_PCR_INFO_SHORT pcr \<longleftrightarrow> wf_PCR_SELECTION (pis_pcrSelection pcr)
     \<and> length (pis_digestAtRelease pcr) = 32"

definition room_PCR_INFO_SHORT :: "TPM_PCR_INFO_SHORT \<Rightarrow> bool" where
  "room_PCR_INFO_SHORT pcr \<longleftrightarrow> length (pis_digestAtRelease pcr) = 32"

definition allocs_PCR_INFO_SHORT :: "TPM_PCR_INFO_SHORT \<Rightarrow> nat" where
  "allocs_PCR_INFO_SHORT pcr = allocs_PCR_SELECTION (pis_pcrSelection pcr)"

interpretation pcr_info_short_codec: blob_codec Trspi_LoadBlob_PCR_INFO_SHORT
    Trspi_UnloadBlob_PCR_INFO_SHORT
    Trspi_UnloadBlob_PCR_INFO_SHORT_NULL enc_PCR_INFO_SHORT wf_PCR_INFO_SHORT room_PCR_INFO_SHORT allocs_PCR_INFO_SHORT
  by unfold_locales
    (auto simp: Trspi_LoadBlob_PCR_INFO_SHORT_def Trspi_UnloadBlob_PCR_INFO_SHORT_def
      Trspi_UnloadBlob_PCR_INFO_SHORT_NULL_def enc_PCR_INFO_SHORT_def
      wf_PCR_INFO_SHORT_def room_PCR_INFO_SHORT_def allocs_PCR_INFO_SHORT_def
      put_simps get_simps Let_def intro!: TPM_PCR_INFO_SHORT.equality)

lemmas pcr_info_short_codec_put [put_simps] = pcr_info_short_codec.load_put pcr_info_short_codec.enc_nonempty
lemmas pcr_info_short_codec_get [get_simps] = pcr_info_short_codec.unload_lies pcr_info_short_codec.unload_NULL_lies

section \<open>Key registry entries and PCR events\<close>

record TSS_KM_KEYINFO =
  ki_versionInfo :: TSS_VERSION
  ki_keyUUID :: TSS_UUID
  ki_parentKeyUUID :: TSS_UUID
  ki_bAuthDataUsage :: u8
  ki_fIsLoaded :: u8
  ki_ulVendorDataLength :: u32
  ki_rgbVendorData :: ptr

definition Trspi_UnloadBlob_KM_KEYINFO :: "u8 list \<Rightarrow> TSS_KM_KEYINFO \<Rightarrow> rst \<Rightarrow> (u32 \<times> TSS_KM_KEYINFO \<times> rst) option" where
  "Trspi_UnloadBlob_KM_KEYINFO blob info st = do {
     (x, st) \<leftarrow> Trspi_UnloadBlob_TSS_VERSION blob (ki_versionInfo info) st;
     let info = info\<lparr>ki_versionInfo := x\<rparr>;
     (x, st) \<leftarrow> Trspi_UnloadBlob_UUID blob (ki_keyUUID info) st;
     let info = info\<lparr>ki_keyUUID := x\<rparr>;
     (x, st) \<leftarrow> Trspi_UnloadBlob_UUID blob (ki_parentKeyUUID info) st;
     let info = info\<lparr>ki_parentKeyUUID := x\<rparr>;
     (x, st) \<leftarrow> Trspi_UnloadBlob_BYTE blob st;
     let info = info\<lparr>ki_bAuthDataUsage := x\<rparr>;
     (x, st) \<leftarrow> Trspi_UnloadBlob_BOOL blob st;
     let info = info\<lparr>ki_fIsLoaded := x\<rparr>;
     (x, st) \<leftarrow> Trspi_UnloadBlob_UINT32 blob st;
     let info = info\<lparr>ki_ulVendorDataLength := x\<rparr>;
     (result, p, st) \<leftarrow> malloc_UnloadBlob (unat (ki_ulVendorDataLength info)) blob st;
     let info = info\<lparr>ki_rgbVendorData := p\<rparr>;
     if result \<noteq> 0 then Some (result, info, st) else do {
       Some (TSS_SUCCESS, info, st) }
   }"

definition Trspi_UnloadBlob_KM_KEYINFO_NULL :: "u8 list \<Rightarrow> rst \<Rightarrow> rst option" where
  "Trspi_UnloadBlob_KM_KEYINFO_NULL blob st = do {
     st \<leftarrow> Trspi_UnloadBlob_TSS_VERSION_NULL blob st;
     st \<leftarrow> Trspi_UnloadBlob_UUID_NULL blob st;
     st \<leftarrow> Trspi_UnloadBlob_UUID_NULL blob st;
     st \<leftarrow> Trspi_UnloadBlob_BYTE_NULL blob st;
     st \<leftarrow> Trspi_UnloadBlob_BOOL_NULL blob st;
     (ulVendorDataLength, st) \<leftarrow> Trspi_UnloadBlob_UINT32 blob st;
     let st = adv (unat ulVendorDataLength) st;
     Some st
   }"

definition enc_KM_KEYINFO :: "TSS_KM_KEYINFO \<Rightarrow> u8 list" where
  "enc_KM_KEYINFO info =
     enc_TSS_VERSION (ki_versionInfo info) @ enc_UUID (ki_keyUUID info) @
       enc_UUID (ki_parentKeyUUID info) @ be8 (ki_bAuthDataUsage info) @
       be8 (ki_fIsLoaded info) @ be32 (ki_ulVendorDataLength info) @
       pbytes (ki_rgbVendorData info)"

definition wf_KM_KEYINFO :: "TSS_KM_KEYINFO \<Rightarrow> bool" where
  "wf_KM_KEYINFO info \<longleftrightarrow> wf_UUID (ki_keyUUID info)
     \<and> wf_UUID (ki_parentKeyUUID info)
     \<and> owns (unat (ki_ulVendorDataLength info)) (ki_rgbVendorData info)"

definition allocs_KM_KEYINFO :: "TSS_KM_KEYINFO \<Rightarrow> nat" where
  "allocs_KM_KEYINFO info = pallocs (ki_rgbVendorData info)"

interpretation km_keyinfo_codec: blob_reader
    Trspi_UnloadBlob_KM_KEYINFO
    Trspi_UnloadBlob_KM_KEYINFO_NULL enc_KM_KEYINFO wf_KM_KEYINFO "\<lambda>_. True" allocs_KM_KEYINFO
  by unfold_locales
    (auto simp: Trspi_UnloadBlob_KM_KEYINFO_def Trspi_UnloadBlob_KM_KEYINFO_NULL_def
      enc_KM_KEYINFO_def wf_KM_KEYINFO_def allocs_KM_KEYINFO_def get_simps Let_def
      intro!: TSS_KM_KEYINFO.equality)
lemmas km_keyinfo_codec_get [get_simps] = km_keyinfo_codec.unload_lies km_keyinfo_codec.unload_NULL_lies

record TSS_KM_KEYINFO2 =
  ki2_versionInfo :: TSS_VERSION
  ki2_keyUUID :: TSS_UUID
  ki2_parentKeyUUID :: TSS_UUID
  ki2_bAuthDataUsage :: u8
  ki2_persistentStorageType :: u32
  ki2_persistentStorageTypeParent :: u32
  ki2_fIsLoaded :: u8
  ki2_ulVendorDataLength :: u32
  ki2_rgbVendorData :: ptr

definition Trspi_UnloadBlob_KM_KEYINFO2 :: "u8 list \<Rightarrow> TSS_KM_KEYINFO2 \<Rightarrow> rst \<Rightarrow> (u32 \<times> TSS_KM_KEYINFO2 \<times> rst) option" where
  "Trspi_UnloadBlob_KM_KEYINFO2 blob info st = do {
     (x, st) \<leftarrow> Trspi_UnloadBlob_TSS_VERSION blob (ki2_versionInfo info) st;
     let info = info\<lparr>ki2_versionInfo := x\<rparr>;
     (x, st) \<leftarrow> Trspi_UnloadBlob_UUID blob (ki2_keyUUID info) st;
     let info = info\<lparr>ki2_keyUUID := x\<rparr>;
     (x, st) \<leftarrow> Trspi_UnloadBlob_UUID blob (ki2_parentKeyUUID info) st;
     let info = info\<lparr>ki2_parentKeyUUID := x\<rparr>;
     (x, st) \<leftarrow> Trspi_UnloadBlob_BYTE blob st;
     let info = info\<lparr>ki2_bAuthDataUsage := x\<rparr>;
     (x, st) \<leftarrow> Trspi_UnloadBlob_UINT32 blob st;
     let info = info\<lparr>ki2_persistentStorageType := x\<rparr>;
     (x, st) \<leftarrow> Trspi_UnloadBlob_UINT32 blob st;
     let info = info\<lparr>ki2_persistentStorageTypeParent := x\<rparr>;
     (x, st) \<leftarrow> Trspi_UnloadBlob_BOOL blob st;
     let info = info\<lparr>ki2_fIsLoaded := x\<rparr>;
     (x, st) \<leftarrow> Trspi_UnloadBlob_UINT32 blob st;
     let info = info\<lparr>ki2_ulVendorDataLength := x\<rparr>;
     (result, p, st) \<leftarrow> malloc_UnloadBlob (unat (ki2_ulVendorDataLength info)) blob st;
     let info = info\<lparr>ki2_rgbVendorData := p\<rparr>;
     if result \<noteq> 0 then Some (result, info, st) else do {
       Some (TSS_SUCCESS, info, st) }
   }"

definition Trspi_UnloadBlob_KM_KEYINFO2_NULL :: "u8 list \<Rightarrow> rst \<Rightarrow> rst option" where
  "Trspi_UnloadBlob_KM_KEYINFO2_NULL blob st = do {
     st \<leftarrow> Trspi_UnloadBlob_TSS_VERSION_NULL blob st;
     st \<leftarrow> Trspi_UnloadBlob_UUID_NULL blob st;
     st \<leftarrow> Trspi_UnloadBlob_UUID_NULL blob st;
     st \<leftarrow> Trspi_UnloadBlob_BYTE_NULL blob st;
     st \<leftarrow> Trspi_UnloadBlob_UINT32_NULL blob st;
     st \<leftarrow> Trspi_UnloadBlob_UINT32_NULL blob st;
     st \<leftarrow> Trspi_UnloadBlob_BOOL_NULL blob st;
     (ulVendorDataLength, st) \<leftarrow> Trspi_UnloadBlob_UINT32 blob st;
     let st = adv (unat ulVendorDataLength) st;
     Some st
   }"

definition enc_KM_KEYINFO2 :: "TSS_KM_KEYINFO2 \<Rightarrow> u8 list" where
  "enc_KM_KEYINFO2 info =
     enc_TSS_VERSION (ki2_versionInfo info) @ enc_UUID (ki2_keyUUID info) @
       enc_UUID (ki2_parentKeyUUID info) @ be8 (ki2_bAuthDataUsage info) @
       be32 (ki2_persistentStorageType info) @ be32 (ki2_persistentStorageTypeParent info) @
       be8 (ki2_fIsLoaded info) @ be32 (ki2_ulVendorDataLength info) @
       pbytes (ki2_rgbVendorData info)"

definition wf_KM_KEYINFO2 :: "TSS_KM_KEYINFO2 \<Rightarrow> bool" where
  "wf_KM_KEYINFO2 info \<longleftrightarrow> wf_UUID (ki2_keyUUID info)
     \<and> wf_UUID (ki2_parentKeyUUID info)
     \<and> owns (unat (ki2_ulVendorDataLength info)) (ki2_rgbVendorData info)"

definition allocs_KM_KEYINFO2 :: "TSS_KM_KEYINFO2 \<Rightarrow> nat" where
  "allocs_KM_KEYINFO2 info = pallocs (ki2_rgbVendorData info)"

interpretation km_keyinfo2_codec: blob_reader
    Trspi_UnloadBlob_KM_KEYINFO2
    Trspi_UnloadBlob_KM_KEYINFO2_NULL enc_KM_KEYINFO2 wf_KM_KEYINFO2 "\<lambda>_. True" allocs_KM_KEYINFO2
  by unfold_locales
    (auto simp: Trspi_UnloadBlob_KM_KEYINFO2_def Trspi_UnloadBlob_KM_KEYINFO2_NULL_def
      enc_KM_KEYINFO2_def wf_KM_KEYINFO2_def allocs_KM_KEYINFO2_def get_simps
      Let_def intro!: TSS_KM_KEYINFO2.equality)
lemmas km_keyinfo2_codec_get [get_simps] = km_keyinfo2_codec.unload_lies km_keyinfo2_codec.unload_NULL_lies

record TSS_PCR_EVENT =
  ev_versionInfo :: TSS_VERSION
  ev_ulPcrIndex :: u32
  ev_eventType :: u32
  ev_ulPcrValueLength :: u32
  ev_rgbPcrValue :: ptr
  ev_ulEventLength :: u32
  ev_rgbEvent :: ptr

definition Trspi_LoadBlob_PCR_EVENT :: "TSS_PCR_EVENT \<Rightarrow> wst \<Rightarrow> wst option" where
  "Trspi_LoadBlob_PCR_EVENT event s = do {
     s \<leftarrow> Trspi_LoadBlob_TCPA_VERSION (as_TCPA_VERSION (ev_versionInfo event)) s;
     s \<leftarrow> Trspi_LoadBlob_UINT32 (ev_ulPcrIndex event) s;
     s \<leftarrow> Trspi_LoadBlob_UINT32 (ev_eventType event) s;
     s \<leftarrow> Trspi_LoadBlob_UINT32 (ev_ulPcrValueLength event) s;
     s \<leftarrow> (if 0 < ev_ulPcrValueLength event then Trspi_LoadBlob (unat (ev_ulPcrValueLength event)) (ev_rgbPcrValue event) s else Some s);
     s \<leftarrow> Trspi_LoadBlob_UINT32 (ev_ulEventLength event) s;
     (if 0 < ev_ulEventLength event then Trspi_LoadBlob (unat (ev_ulEventLength event)) (ev_rgbEvent event) s else Some s)
   }"

definition Trspi_UnloadBlob_PCR_EVENT :: "u8 list \<Rightarrow> TSS_PCR_EVENT \<Rightarrow> rst \<Rightarrow> (u32 \<times> TSS_PCR_EVENT \<times> rst) option" where
  "Trspi_UnloadBlob_PCR_EVENT blob event st = do {
     (x, st) \<leftarrow> Trspi_UnloadBlob_VERSION blob (as_TCPA_VERSION (ev_versionInfo event)) st;
     let event = event\<lparr>ev_versionInfo := as_TSS_VERSION x\<rparr>;
     (x, st) \<leftarrow> Trspi_UnloadBlob_UINT32 blob st;
     let event = event\<lparr>ev_ulPcrIndex := x\<rparr>;
     (x, st) \<leftarrow> Trspi_UnloadBlob_UINT32 blob st;
     let event = event\<lparr>ev_eventType := x\<rparr>;
     (x, st) \<leftarrow> Trspi_UnloadBlob_UINT32 blob st;
     let event = event\<lparr>ev_ulPcrValueLength := x\<rparr>;
     (result, p, st) \<leftarrow> malloc_UnloadBlob (unat (ev_ulPcrValueLength event)) blob st;
     let event = event\<lparr>ev_rgbPcrValue := p\<rparr>;
     if result \<noteq> 0 then Some (result, event, st) else do {
       (x, st) \<leftarrow> Trspi_UnloadBlob_UINT32 blob st;
       let event = event\<lparr>ev_ulEventLength := x\<rparr>;
       (result, p, st) \<leftarrow> malloc_UnloadBlob (unat (ev_ulEventLength event)) blob st;
       let event = event\<lparr>ev_rgbEvent := p\<rparr>;
       if result \<noteq> 0 then Some (result, event, st) else do {
         Some (TSS_SUCCESS, event, st) } }
   }"

definition Trspi_UnloadBlob_PCR_EVENT_NULL :: "u8 list \<Rightarrow> rst \<Rightarrow> rst option" where
  "Trspi_UnloadBlob_PCR_EVENT_NULL blob st = do {
     st \<leftarrow> Trspi_UnloadBlob_VERSION_NULL blob st;
     st \<leftarrow> Trspi_UnloadBlob_UINT32_NULL blob st;
     st \<leftarrow> Trspi_UnloadBlob_UINT32_NULL blob st;
     (ulPcrValueLength, st) \<leftarrow> Trspi_UnloadBlob_UINT32 blob st;
     let st = adv (unat ulPcrValueLength) st;
     (ulEventLength, st) \<leftarrow> Trspi_UnloadBlob_UINT32 blob st;
     let st = adv (unat ulEventLength) st;
     Some st
   }"

definition enc_PCR_EVENT :: "TSS_PCR_EVENT \<Rightarrow> u8 list" where
  "enc_PCR_EVENT event =
     enc_TCPA_VERSION (as_TCPA_VERSION (ev_versionInfo event)) @
       be32 (ev_ulPcrIndex event) @ be32 (ev_eventType event) @
       be32 (ev_ulPcrValueLength event) @ pbytes (ev_rgbPcrValue event) @
       be32 (ev_ulEventLength event) @ pbytes (ev_rgbEvent event)"

definition wf_PCR_EVENT :: "TSS_PCR_EVENT \<Rightarrow> bool" where
  "wf_PCR_EVENT event \<longleftrightarrow> owns (unat (ev_ulPcrValueLength event)) (ev_rgbPcrValue event)
     \<and> owns (unat (ev_ulEventLength event)) (ev_rgbEvent event)"

definition allocs_PCR_EVENT :: "TSS_PCR_EVENT \<Rightarrow> nat" where
  "allocs_PCR_EVENT event = pallocs (ev_rgbPcrValue event)
     + pallocs (ev_rgbEvent event)"

interpretation pcr_event_codec: blob_codec Trspi_LoadBlob_PCR_EVENT
    Trspi_UnloadBlob_PCR_EVENT
    Trspi_UnloadBlob_PCR_EVENT_NULL enc_PCR_EVENT wf_PCR_EVENT "\<lambda>_. True" allocs_PCR_EVENT
  by unfold_locales
    (auto simp: Trspi_LoadBlob_PCR_EVENT_def Trspi_UnloadBlob_PCR_EVENT_def
      Trspi_UnloadBlob_PCR_EVENT_NULL_def enc_PCR_EVENT_def wf_PCR_EVENT_def
      allocs_PCR_EVENT_def put_simps get_simps Let_def
      intro!: TSS_PCR_EVENT.equality)

lemmas pcr_event_codec_put [put_simps] = pcr_event_codec.load_put pcr_event_codec.enc_nonempty
lemmas pcr_event_codec_get [get_simps] = pcr_event_codec.unload_lies pcr_event_codec.unload_NULL_lies

section \<open>Counters, ticks and transport sessions\<close>

record TPM_COUNTER_VALUE =
  cv_tag :: u16
  cv_label :: "u8 list"
  cv_counter :: u32

definition Trspi_LoadBlob_COUNTER_VALUE :: "TPM_COUNTER_VALUE \<Rightarrow> wst \<Rightarrow> wst option" where
  "Trspi_LoadBlob_COUNTER_VALUE ctr s = do {
     s \<leftarrow> Trspi_LoadBlob_UINT16 (cv_tag ctr) s;
     s \<leftarrow> Trspi_LoadBlob 4 (Buf (cv_label ctr)) s;
     Trspi_LoadBlob_UINT32 (cv_counter ctr) s
   }"

definition Trspi_UnloadBlob_COUNTER_VALUE :: "u8 list \<Rightarrow> TPM_COUNTER_VALUE \<Rightarrow> rst \<Rightarrow> (TPM_COUNTER_VALUE \<times> rst) option" where
  "Trspi_UnloadBlob_COUNTER_VALUE blob ctr st = do {
     (x, st) \<leftarrow> Trspi_UnloadBlob_UINT16 blob st;
     let ctr = ctr\<lparr>cv_tag := x\<rparr>;
     (x, st) \<leftarrow> UnloadBlob_array 4 blob (cv_label ctr) st;
     let ctr = ctr\<lparr>cv_label := x\<rparr>;
     (x, st) \<leftarrow> Trspi_UnloadBlob_UINT32 blob st;
     let ctr = ctr\<lparr>cv_counter := x\<rparr>;
     Some (ctr, st)
   }"

definition Trspi_UnloadBlob_COUNTER_VALUE_NULL :: "u8 list \<Rightarrow> rst \<Rightarrow> rst option" where
  "Trspi_UnloadBlob_COUNTER_VALUE_NULL blob st = do {
     st \<leftarrow> Trspi_UnloadBlob_UINT16_NULL blob st;
     (_, st) \<leftarrow> Trspi_UnloadBlob 4 blob NULL st;
     st \<leftarrow> Trspi_UnloadBlob_UINT32_NULL blob st;
     Some st
   }"

definition enc_COUNTER_VALUE :: "TPM_COUNTER_VALUE \<Rightarrow> u8 list" where
  "enc_COUNTER_VALUE ctr =
     be16 (cv_tag ctr) @ cv_label ctr @ be32 (cv_counter ctr)"

definition wf_COUNTER_VALUE :: "TPM_COUNTER_VALUE \<Rightarrow> bool" where
  "wf_COUNTER_VALUE ctr \<longleftrightarrow> length (cv_label ctr) = 4"

definition room_COUNTER_VALUE :: "TPM_COUNTER_VALUE \<Rightarrow> bool" where
  "room_COUNTER_VALUE ctr \<longleftrightarrow> length (cv_label ctr) = 4"

interpretation counter_value_codec: blob_codec Trspi_LoadBlob_COUNTER_VALUE
    "\<lambda>blob y st. void_result (Trspi_UnloadBlob_COUNTER_VALUE blob y st)"
    Trspi_UnloadBlob_COUNTER_VALUE_NULL enc_COUNTER_VALUE wf_COUNTER_VALUE room_COUNTER_VALUE "\<lambda>_. 0"
  by unfold_locales
    (auto simp: Trspi_LoadBlob_COUNTER_VALUE_def Trspi_UnloadBlob_COUNTER_VALUE_def
      Trspi_UnloadBlob_COUNTER_VALUE_NULL_def enc_COUNTER_VALUE_def
      wf_COUNTER_VALUE_def room_COUNTER_VALUE_def put_simps get_simps Let_def
      intro!: TPM_COUNTER_VALUE.equality)

lemmas counter_value_codec_put [put_simps] = counter_value_codec.load_put counter_value_codec.enc_nonempty
lemmas counter_value_codec_get [get_simps] = counter_value_codec.unload_lies [THEN void_resultD, unfolded charge_simps] counter_value_codec.unload_NULL_lies

record TPM_CURRENT_TICKS =
  ct_tag :: u16
  ct_currentTicks :: u64
  ct_tickRate :: u16
  ct_tickNonce :: "u8 list"

definition Trspi_UnloadBlob_CURRENT_TICKS :: "u8 list \<Rightarrow> TPM_CURRENT_TICKS \<Rightarrow> rst \<Rightarrow> (TPM_CURRENT_TICKS \<times> rst) option" where
  "Trspi_UnloadBlob_CURRENT_TICKS blob ticks st = do {
     (x, st) \<leftarrow> Trspi_UnloadBlob_UINT16 blob st;
     let ticks = ticks\<lparr>ct_tag := x\<rparr>;
     (x, st) \<leftarrow> Trspi_UnloadBlob_UINT64 blob st;
     let ticks = ticks\<lparr>ct_currentTicks := x\<rparr>;
     (x, st) \<leftarrow> Trspi_UnloadBlob_UINT16 blob st;
     let ticks = ticks\<lparr>ct_tickRate := x\<rparr>;
     (x, st) \<leftarrow> UnloadBlob_array 32 blob (ct_tickNonce ticks) st;
     let ticks = ticks\<lparr>ct_tickNonce := x\<rparr>;
     Some (ticks, st)
   }"

definition Trspi_UnloadBlob_CURRENT_TICKS_NULL :: "u8 list \<Rightarrow> rst \<Rightarrow> rst option" where
  "Trspi_UnloadBlob_CURRENT_TICKS_NULL blob st = do {
     st \<leftarrow> Trspi_UnloadBlob_UINT16_NULL blob st;
     st \<leftarrow> Trspi_UnloadBlob_UINT64_NULL blob st;
     st \<leftarrow> Trspi_UnloadBlob_UINT16_NULL blob st;
     (_, st) \<leftarrow> Trspi_UnloadBlob 32 blob NULL st;
     Some st
   }"

definition enc_CURRENT_TICKS :: "TPM_CURRENT_TICKS \<Rightarrow> u8 list" where
  "enc_CURRENT_TICKS ticks =
     be16 (ct_tag ticks) @ be64 (ct_currentTicks ticks) @ be16 (ct_tickRate ticks) @
       ct_tickNonce ticks"

definition wf_CURRENT_TICKS :: "TPM_CURRENT_TICKS \<Rightarrow> bool" where
  "wf_CURRENT_TICKS ticks \<longleftrightarrow> length (ct_tickNonce ticks) = 32"

definition room_CURRENT_TICKS :: "TPM_CURRENT_TICKS \<Rightarrow> bool" where
  "room_CURRENT_TICKS ticks \<longleftrightarrow> length (ct_tickNonce ticks) = 32"

interpretation current_ticks_codec: blob_reader
    "\<lambda>blob y st. void_result (Trspi_UnloadBlob_CURRENT_TICKS blob y st)"
    Trspi_UnloadBlob_CURRENT_TICKS_NULL enc_CURRENT_TICKS wf_CURRENT_TICKS room_CURRENT_TICKS "\<lambda>_. 0"
  by unfold_locales
    (auto simp: Trspi_UnloadBlob_CURRENT_TICKS_def Trspi_UnloadBlob_CURRENT_TICKS_NULL_def
      enc_CURRENT_TICKS_def wf_CURRENT_TICKS_def room_CURRENT_TICKS_def get_simps
      Let_def intro!: TPM_CURRENT_TICKS.equality)
lemmas current_ticks_codec_get [get_simps] = current_ticks_codec.unload_lies [THEN void_resultD, unfolded charge_simps] current_ticks_codec.unload_NULL_lies

record TPM_TRANSPORT_PUBLIC =
  tp_tag :: u16
  tp_transAttributes :: u32
  tp_algId :: u32
  tp_encScheme :: u16

definition Trspi_LoadBlob_TRANSPORT_PUBLIC :: "TPM_TRANSPORT_PUBLIC \<Rightarrow> wst \<Rightarrow> wst option" where
  "Trspi_LoadBlob_TRANSPORT_PUBLIC t s = do {
     s \<leftarrow> Trspi_LoadBlob_UINT16 (tp_tag t) s;
     s \<leftarrow> Trspi_LoadBlob_UINT32 (tp_transAttributes t) s;
     s \<leftarrow> Trspi_LoadBlob_UINT32 (tp_algId t) s;
     Trspi_LoadBlob_UINT16 (tp_encScheme t) s
   }"

definition Trspi_UnloadBlob_TRANSPORT_PUBLIC :: "u8 list \<Rightarrow> TPM_TRANSPORT_PUBLIC \<Rightarrow> rst \<Rightarrow> (TPM_TRANSPORT_PUBLIC \<times> rst) option" where
  "Trspi_UnloadBlob_TRANSPORT_PUBLIC blob t st = do {
     (x, st) \<leftarrow> Trspi_UnloadBlob_UINT16 blob st;
     let t = t\<lparr>tp_tag := x\<rparr>;
     (x, st) \<leftarrow> Trspi_UnloadBlob_UINT32 blob st;
     let t = t\<lparr>tp_transAttributes := x\<rparr>;
     (x, st) \<leftarrow> Trspi_UnloadBlob_UINT32 blob st;
     let t = t\<lparr>tp_algId := x\<rparr>;
     (x, st) \<leftarrow> Trspi_UnloadBlob_UINT16 blob st;
     let t = t\<lparr>tp_encScheme := x\<rparr>;
     Some (t, st)
   }"

definition enc_TRANSPORT_PUBLIC :: "TPM_TRANSPORT_PUBLIC \<Rightarrow> u8 list" where
  "enc_TRANSPORT_PUBLIC t =
     be16 (tp_tag t) @ be32 (tp_transAttributes t) @ be32 (tp_algId t) @
       be16 (tp_encScheme t)"

text \<open>This reader has no branch for a NULL output.\<close>

interpretation transport_public_codec: blob_writer Trspi_LoadBlob_TRANSPORT_PUBLIC enc_TRANSPORT_PUBLIC "\<lambda>_. True"
  by unfold_locales
    (auto simp: Trspi_LoadBlob_TRANSPORT_PUBLIC_def enc_TRANSPORT_PUBLIC_def put_simps
      Let_def)

lemma transport_public_read:
  assumes "lies blob st (enc_TRANSPORT_PUBLIC t)"
  shows "Trspi_UnloadBlob_TRANSPORT_PUBLIC blob y st = Some (t, behind (enc_TRANSPORT_PUBLIC t) st)"
  using assms
  by (auto simp: Trspi_UnloadBlob_TRANSPORT_PUBLIC_def enc_TRANSPORT_PUBLIC_def get_simps Let_def
      intro!: TPM_TRANSPORT_PUBLIC.equality)

end
