(* ===== verification/Trspi_Keys.thy ===== *)
theory Trspi_Keys
  imports Trspi_Structs
begin

text \<open>
  The key structures of \<open>trspi/trousers.c\<close>: key parameters, public keys, the key blobs of the
  1.1 and 1.2 formats, the private key digests, symmetric keys, and the structures of the
  identity protocol.  The conventions are those of \<open>Trspi_Structs\<close>.  The readers that give
  up in the middle are modelled with the objects they free and the fields they reset; a
  pointer that has been freed and not reset is \<open>Freed\<close>.
\<close>

section \<open>Key parameters and public keys\<close>

record TCPA_RSA_KEY_PARMS =
  rsa_keyLength :: u32
  rsa_numPrimes :: u32
  rsa_exponentSize :: u32
  rsa_exponent :: ptr

definition Trspi_LoadBlob_RSA_KEY_PARMS :: "TCPA_RSA_KEY_PARMS \<Rightarrow> wst \<Rightarrow> wst option" where
  "Trspi_LoadBlob_RSA_KEY_PARMS parms s = do {
     s \<leftarrow> Trspi_LoadBlob_UINT32 (rsa_keyLength parms) s;
     s \<leftarrow> Trspi_LoadBlob_UINT32 (rsa_numPrimes parms) s;
     s \<leftarrow> Trspi_LoadBlob_UINT32 (rsa_exponentSize parms) s;
     (if 0 < rsa_exponentSize parms then Trspi_LoadBlob (unat (rsa_exponentSize parms)) (rsa_exponent parms) s else Some s)
   }"

definition enc_RSA_KEY_PARMS :: "TCPA_RSA_KEY_PARMS \<Rightarrow> u8 list" where
  "enc_RSA_KEY_PARMS parms =
     be32 (rsa_keyLength parms) @ be32 (rsa_numPrimes parms) @
       be32 (rsa_exponentSize parms) @ pbytes (rsa_exponent parms)"

definition wf_RSA_KEY_PARMS :: "TCPA_RSA_KEY_PARMS \<Rightarrow> bool" where
  "wf_RSA_KEY_PARMS parms \<longleftrightarrow> owns (unat (rsa_exponentSize parms)) (rsa_exponent parms)"

definition allocs_RSA_KEY_PARMS :: "TCPA_RSA_KEY_PARMS \<Rightarrow> nat" where
  "allocs_RSA_KEY_PARMS parms = pallocs (rsa_exponent parms)"

interpretation rsa_key_parms_codec: blob_writer Trspi_LoadBlob_RSA_KEY_PARMS enc_RSA_KEY_PARMS wf_RSA_KEY_PARMS
  by unfold_locales
    (auto simp: Trspi_LoadBlob_RSA_KEY_PARMS_def enc_RSA_KEY_PARMS_def wf_RSA_KEY_PARMS_def
      allocs_RSA_KEY_PARMS_def put_simps Let_def)

lemmas rsa_key_parms_codec_put [put_simps] = rsa_key_parms_codec.load_put rsa_key_parms_codec.enc_nonempty

definition Trspi_LoadBlob_KEY_FLAGS :: "u32 \<Rightarrow> wst \<Rightarrow> wst option" where
  "Trspi_LoadBlob_KEY_FLAGS flags s = Trspi_LoadBlob_UINT32 flags s"

definition Trspi_UnloadBlob_KEY_FLAGS :: "u8 list \<Rightarrow> rst \<Rightarrow> (u32 \<times> rst) option" where
  "Trspi_UnloadBlob_KEY_FLAGS blob st = Trspi_UnloadBlob_UINT32 blob st"

definition Trspi_UnloadBlob_KEY_FLAGS_NULL :: "u8 list \<Rightarrow> rst \<Rightarrow> rst option" where
  "Trspi_UnloadBlob_KEY_FLAGS_NULL blob st = Trspi_UnloadBlob_UINT32_NULL blob st"

lemmas key_flags_codec [put_simps, get_simps] =
  Trspi_LoadBlob_KEY_FLAGS_def Trspi_UnloadBlob_KEY_FLAGS_def Trspi_UnloadBlob_KEY_FLAGS_NULL_def

record TCPA_KEY_PARMS =
  kp_algorithmID :: u32
  kp_encScheme :: u16
  kp_sigScheme :: u16
  kp_parmSize :: u32
  kp_parms :: ptr

definition Trspi_LoadBlob_KEY_PARMS :: "TCPA_KEY_PARMS \<Rightarrow> wst \<Rightarrow> wst option" where
  "Trspi_LoadBlob_KEY_PARMS keyInfo s = do {
     s \<leftarrow> Trspi_LoadBlob_UINT32 (kp_algorithmID keyInfo) s;
     s \<leftarrow> Trspi_LoadBlob_UINT16 (kp_encScheme keyInfo) s;
     s \<leftarrow> Trspi_LoadBlob_UINT16 (kp_sigScheme keyInfo) s;
     s \<leftarrow> Trspi_LoadBlob_UINT32 (kp_parmSize keyInfo) s;
     (if 0 < kp_parmSize keyInfo then Trspi_LoadBlob (unat (kp_parmSize keyInfo)) (kp_parms keyInfo) s else Some s)
   }"

definition Trspi_UnloadBlob_KEY_PARMS :: "u8 list \<Rightarrow> TCPA_KEY_PARMS \<Rightarrow> rst \<Rightarrow> (u32 \<times> TCPA_KEY_PARMS \<times> rst) option" where
  "Trspi_UnloadBlob_KEY_PARMS blob keyParms st = do {
     (x, st) \<leftarrow> Trspi_UnloadBlob_UINT32 blob st;
     let keyParms = keyParms\<lparr>kp_algorithmID := x\<rparr>;
     (x, st) \<leftarrow> Trspi_UnloadBlob_UINT16 blob st;
     let keyParms = keyParms\<lparr>kp_encScheme := x\<rparr>;
     (x, st) \<leftarrow> Trspi_UnloadBlob_UINT16 blob st;
     let keyParms = keyParms\<lparr>kp_sigScheme := x\<rparr>;
     (x, st) \<leftarrow> Trspi_UnloadBlob_UINT32 blob st;
     let keyParms = keyParms\<lparr>kp_parmSize := x\<rparr>;
     (result, p, st) \<leftarrow> malloc_UnloadBlob (unat (kp_parmSize keyParms)) blob st;
     let keyParms = keyParms\<lparr>kp_parms := p\<rparr>;
     if result \<noteq> 0 then Some (result, keyParms, st) else do {
       Some (TSS_SUCCESS, keyParms, st) }
   }"

definition Trspi_UnloadBlob_KEY_PARMS_NULL :: "u8 list \<Rightarrow> rst \<Rightarrow> rst option" where
  "Trspi_UnloadBlob_KEY_PARMS_NULL blob st = do {
     st \<leftarrow> Trspi_UnloadBlob_UINT32_NULL blob st;
     st \<leftarrow> Trspi_UnloadBlob_UINT16_NULL blob st;
     st \<leftarrow> Trspi_UnloadBlob_UINT16_NULL blob st;
     (parmSize, st) \<leftarrow> Trspi_UnloadBlob_UINT32 blob st;
     let st = adv (unat parmSize) st;
     Some st
   }"

definition enc_KEY_PARMS :: "TCPA_KEY_PARMS \<Rightarrow> u8 list" where
  "enc_KEY_PARMS keyInfo =
     be32 (kp_algorithmID keyInfo) @ be16 (kp_encScheme keyInfo) @
       be16 (kp_sigScheme keyInfo) @ be32 (kp_parmSize keyInfo) @ pbytes (kp_parms keyInfo)"

definition wf_KEY_PARMS :: "TCPA_KEY_PARMS \<Rightarrow> bool" where
  "wf_KEY_PARMS keyInfo \<longleftrightarrow> owns (unat (kp_parmSize keyInfo)) (kp_parms keyInfo)"

definition allocs_KEY_PARMS :: "TCPA_KEY_PARMS \<Rightarrow> nat" where
  "allocs_KEY_PARMS keyInfo = pallocs (kp_parms keyInfo)"

interpretation key_parms_codec: blob_codec Trspi_LoadBlob_KEY_PARMS
    Trspi_UnloadBlob_KEY_PARMS
    Trspi_UnloadBlob_KEY_PARMS_NULL enc_KEY_PARMS wf_KEY_PARMS "\<lambda>_. True" allocs_KEY_PARMS
  by unfold_locales
    (auto simp: Trspi_LoadBlob_KEY_PARMS_def Trspi_UnloadBlob_KEY_PARMS_def
      Trspi_UnloadBlob_KEY_PARMS_NULL_def enc_KEY_PARMS_def wf_KEY_PARMS_def
      allocs_KEY_PARMS_def put_simps get_simps Let_def
      intro!: TCPA_KEY_PARMS.equality)

lemmas key_parms_codec_put [put_simps] = key_parms_codec.load_put key_parms_codec.enc_nonempty
lemmas key_parms_codec_get [get_simps] = key_parms_codec.unload_lies key_parms_codec.unload_NULL_lies

record TCPA_STORE_PUBKEY =
  sp_keyLength :: u32
  sp_key :: ptr

definition Trspi_LoadBlob_STORE_PUBKEY :: "TCPA_STORE_PUBKEY \<Rightarrow> wst \<Rightarrow> wst option" where
  "Trspi_LoadBlob_STORE_PUBKEY store s = do {
     s \<leftarrow> Trspi_LoadBlob_UINT32 (sp_keyLength store) s;
     Trspi_LoadBlob (unat (sp_keyLength store)) (sp_key store) s
   }"

definition Trspi_UnloadBlob_STORE_PUBKEY :: "u8 list \<Rightarrow> TCPA_STORE_PUBKEY \<Rightarrow> rst \<Rightarrow> (u32 \<times> TCPA_STORE_PUBKEY \<times> rst) option" where
  "Trspi_UnloadBlob_STORE_PUBKEY blob store st = do {
     (x, st) \<leftarrow> Trspi_UnloadBlob_UINT32 blob st;
     let store = store\<lparr>sp_keyLength := x\<rparr>;
     (result, p, st) \<leftarrow> malloc_UnloadBlob (unat (sp_keyLength store)) blob st;
     let store = store\<lparr>sp_key := p\<rparr>;
     if result \<noteq> 0 then Some (result, store, st) else do {
       Some (TSS_SUCCESS, store, st) }
   }"

definition Trspi_UnloadBlob_STORE_PUBKEY_NULL :: "u8 list \<Rightarrow> rst \<Rightarrow> rst option" where
  "Trspi_UnloadBlob_STORE_PUBKEY_NULL blob st = do {
     (keyLength, st) \<leftarrow> Trspi_UnloadBlob_UINT32 blob st;
     (_, st) \<leftarrow> Trspi_UnloadBlob (unat keyLength) blob NULL st;
     Some st
   }"

definition enc_STORE_PUBKEY :: "TCPA_STORE_PUBKEY \<Rightarrow> u8 list" where
  "enc_STORE_PUBKEY store =
     be32 (sp_keyLength store) @ pbytes (sp_key store)"

definition wf_STORE_PUBKEY :: "TCPA_STORE_PUBKEY \<Rightarrow> bool" where
  "wf_STORE_PUBKEY store \<longleftrightarrow> owns (unat (sp_keyLength store)) (sp_key store)"

definition allocs_STORE_PUBKEY :: "TCPA_STORE_PUBKEY \<Rightarrow> nat" where
  "allocs_STORE_PUBKEY store = pallocs (sp_key store)"

interpretation store_pubkey_codec: blob_codec Trspi_LoadBlob_STORE_PUBKEY
    Trspi_UnloadBlob_STORE_PUBKEY
    Trspi_UnloadBlob_STORE_PUBKEY_NULL enc_STORE_PUBKEY wf_STORE_PUBKEY "\<lambda>_. True" allocs_STORE_PUBKEY
  by unfold_locales
    (auto simp: Trspi_LoadBlob_STORE_PUBKEY_def Trspi_UnloadBlob_STORE_PUBKEY_def
      Trspi_UnloadBlob_STORE_PUBKEY_NULL_def enc_STORE_PUBKEY_def
      wf_STORE_PUBKEY_def allocs_STORE_PUBKEY_def put_simps get_simps Let_def
      intro!: TCPA_STORE_PUBKEY.equality)

lemmas store_pubkey_codec_put [put_simps] = store_pubkey_codec.load_put store_pubkey_codec.enc_nonempty
lemmas store_pubkey_codec_get [get_simps] = store_pubkey_codec.unload_lies store_pubkey_codec.unload_NULL_lies

record TCPA_PUBKEY =
  pk_algorithmParms :: TCPA_KEY_PARMS
  pk_pubKey :: TCPA_STORE_PUBKEY

definition Trspi_LoadBlob_PUBKEY :: "TCPA_PUBKEY \<Rightarrow> wst \<Rightarrow> wst option" where
  "Trspi_LoadBlob_PUBKEY pubKey s = do {
     s \<leftarrow> Trspi_LoadBlob_KEY_PARMS (pk_algorithmParms pubKey) s;
     Trspi_LoadBlob_STORE_PUBKEY (pk_pubKey pubKey) s
   }"

definition Trspi_UnloadBlob_PUBKEY :: "u8 list \<Rightarrow> TCPA_PUBKEY \<Rightarrow> rst \<Rightarrow> (u32 \<times> TCPA_PUBKEY \<times> rst) option" where
  "Trspi_UnloadBlob_PUBKEY blob pubKey st = do {
     (result, x, st) \<leftarrow> Trspi_UnloadBlob_KEY_PARMS blob (pk_algorithmParms pubKey) st;
     let pubKey = pubKey\<lparr>pk_algorithmParms := x\<rparr>;
     if result \<noteq> 0 then Some (result, pubKey, st) else do {
       (result, x, st) \<leftarrow> Trspi_UnloadBlob_STORE_PUBKEY blob (pk_pubKey pubKey) st;
       let pubKey = pubKey\<lparr>pk_pubKey := x\<rparr>;
       if result \<noteq> 0 then do {
         st \<leftarrow> free (sp_key (pk_pubKey pubKey)) st;
         st \<leftarrow> free (kp_parms (pk_algorithmParms pubKey)) st;
         let pubKey = pubKey\<lparr>pk_pubKey := (pk_pubKey pubKey)\<lparr>sp_key := NULL, sp_keyLength := 0\<rparr>,
           pk_algorithmParms := (pk_algorithmParms pubKey)\<lparr>kp_parms := NULL, kp_parmSize := 0\<rparr>\<rparr>;
         Some (result, pubKey, st) }
       else Some (TSS_SUCCESS, pubKey, st) }
   }"

definition Trspi_UnloadBlob_PUBKEY_NULL :: "u8 list \<Rightarrow> rst \<Rightarrow> rst option" where
  "Trspi_UnloadBlob_PUBKEY_NULL blob st = do {
     st \<leftarrow> Trspi_UnloadBlob_KEY_PARMS_NULL blob st;
     st \<leftarrow> Trspi_UnloadBlob_STORE_PUBKEY_NULL blob st;
     Some st
   }"

definition enc_PUBKEY :: "TCPA_PUBKEY \<Rightarrow> u8 list" where
  "enc_PUBKEY pubKey =
     enc_KEY_PARMS (pk_algorithmParms pubKey) @ enc_STORE_PUBKEY (pk_pubKey pubKey)"

definition wf_PUBKEY :: "TCPA_PUBKEY \<Rightarrow> bool" where
  "wf_PUBKEY pubKey \<longleftrightarrow> wf_KEY_PARMS (pk_algorithmParms pubKey)
     \<and> wf_STORE_PUBKEY (pk_pubKey pubKey)"

definition allocs_PUBKEY :: "TCPA_PUBKEY \<Rightarrow> nat" where
  "allocs_PUBKEY pubKey = allocs_KEY_PARMS (pk_algorithmParms pubKey)
     + allocs_STORE_PUBKEY (pk_pubKey pubKey)"

interpretation pubkey_codec: blob_codec Trspi_LoadBlob_PUBKEY
    Trspi_UnloadBlob_PUBKEY
    Trspi_UnloadBlob_PUBKEY_NULL enc_PUBKEY wf_PUBKEY "\<lambda>_. True" allocs_PUBKEY
  by unfold_locales
    (auto simp: Trspi_LoadBlob_PUBKEY_def Trspi_UnloadBlob_PUBKEY_def
      Trspi_UnloadBlob_PUBKEY_NULL_def enc_PUBKEY_def wf_PUBKEY_def
      allocs_PUBKEY_def put_simps get_simps Let_def intro!: TCPA_PUBKEY.equality)

lemmas pubkey_codec_put [put_simps] = pubkey_codec.load_put pubkey_codec.enc_nonempty
lemmas pubkey_codec_get [get_simps] = pubkey_codec.unload_lies pubkey_codec.unload_NULL_lies

section \<open>Key blobs\<close>

record TPM_KEY12 =
  k12_tag :: u16
  k12_fill :: u16
  k12_keyUsage :: u16
  k12_keyFlags :: u32
  k12_authDataUsage :: u8
  k12_algorithmParms :: TCPA_KEY_PARMS
  k12_PCRInfoSize :: u32
  k12_PCRInfo :: ptr
  k12_pubKey :: TCPA_STORE_PUBKEY
  k12_encSize :: u32
  k12_encData :: ptr

definition Trspi_LoadBlob_KEY12 :: "TPM_KEY12 \<Rightarrow> wst \<Rightarrow> wst option" where
  "Trspi_LoadBlob_KEY12 key s = do {
     s \<leftarrow> Trspi_LoadBlob_UINT16 (k12_tag key) s;
     s \<leftarrow> Trspi_LoadBlob_UINT16 (k12_fill key) s;
     s \<leftarrow> Trspi_LoadBlob_UINT16 (k12_keyUsage key) s;
     s \<leftarrow> Trspi_LoadBlob_KEY_FLAGS (k12_keyFlags key) s;
     s \<leftarrow> Trspi_LoadBlob_BYTE (k12_authDataUsage key) s;
     s \<leftarrow> Trspi_LoadBlob_KEY_PARMS (k12_algorithmParms key) s;
     s \<leftarrow> Trspi_LoadBlob_UINT32 (k12_PCRInfoSize key) s;
     s \<leftarrow> Trspi_LoadBlob (unat (k12_PCRInfoSize key)) (k12_PCRInfo key) s;
     s \<leftarrow> Trspi_LoadBlob_STORE_PUBKEY (k12_pubKey key) s;
     s \<leftarrow> Trspi_LoadBlob_UINT32 (k12_encSize key) s;
     Trspi_LoadBlob (unat (k12_encSize key)) (k12_encData key) s
   }"

definition Trspi_UnloadBlob_KEY12 :: "u8 list \<Rightarrow> TPM_KEY12 \<Rightarrow> rst \<Rightarrow> (u32 \<times> TPM_KEY12 \<times> rst) option" where
  "Trspi_UnloadBlob_KEY12 blob key st = do {
     (x, st) \<leftarrow> Trspi_UnloadBlob_UINT16 blob st;
     let key = key\<lparr>k12_tag := x\<rparr>;
     (x, st) \<leftarrow> Trspi_UnloadBlob_UINT16 blob st;
     let key = key\<lparr>k12_fill := x\<rparr>;
     (x, st) \<leftarrow> Trspi_UnloadBlob_UINT16 blob st;
     let key = key\<lparr>k12_keyUsage := x\<rparr>;
     (x, st) \<leftarrow> Trspi_UnloadBlob_KEY_FLAGS blob st;
     let key = key\<lparr>k12_keyFlags := x\<rparr>;
     (x, st) \<leftarrow> Trspi_UnloadBlob_BYTE blob st;
     let key = key\<lparr>k12_authDataUsage := x\<rparr>;
     (result, x, st) \<leftarrow> Trspi_UnloadBlob_KEY_PARMS blob (k12_algorithmParms key) st;
     let key = key\<lparr>k12_algorithmParms := x\<rparr>;
     if result \<noteq> 0 then Some (result, key, st) else do {
       (x, st) \<leftarrow> Trspi_UnloadBlob_UINT32 blob st;
       let key = key\<lparr>k12_PCRInfoSize := x\<rparr>;
       (result, p, st) \<leftarrow> malloc_UnloadBlob (unat (k12_PCRInfoSize key)) blob st;
       let key = key\<lparr>k12_PCRInfo := p\<rparr>;
       if result \<noteq> 0 then Some (result, key, st) else do {
         (result, x, st) \<leftarrow> Trspi_UnloadBlob_STORE_PUBKEY blob (k12_pubKey key) st;
         let key = key\<lparr>k12_pubKey := x\<rparr>;
         if result \<noteq> 0 then Some (result, key, st) else do {
           (x, st) \<leftarrow> Trspi_UnloadBlob_UINT32 blob st;
           let key = key\<lparr>k12_encSize := x\<rparr>;
           (result, p, st) \<leftarrow> malloc_UnloadBlob (unat (k12_encSize key)) blob st;
           let key = key\<lparr>k12_encData := p\<rparr>;
           if result \<noteq> 0 then Some (result, key, st) else do {
             Some (TSS_SUCCESS, key, st) } } } }
   }"

definition Trspi_UnloadBlob_KEY12_NULL :: "u8 list \<Rightarrow> rst \<Rightarrow> rst option" where
  "Trspi_UnloadBlob_KEY12_NULL blob st = do {
     st \<leftarrow> Trspi_UnloadBlob_UINT16_NULL blob st;
     st \<leftarrow> Trspi_UnloadBlob_UINT16_NULL blob st;
     st \<leftarrow> Trspi_UnloadBlob_UINT16_NULL blob st;
     st \<leftarrow> Trspi_UnloadBlob_KEY_FLAGS_NULL blob st;
     st \<leftarrow> Trspi_UnloadBlob_BYTE_NULL blob st;
     st \<leftarrow> Trspi_UnloadBlob_KEY_PARMS_NULL blob st;
     (PCRInfoSize, st) \<leftarrow> Trspi_UnloadBlob_UINT32 blob st;
     (_, st) \<leftarrow> Trspi_UnloadBlob (unat PCRInfoSize) blob NULL st;
     st \<leftarrow> Trspi_UnloadBlob_STORE_PUBKEY_NULL blob st;
     (encSize, st) \<leftarrow> Trspi_UnloadBlob_UINT32 blob st;
     (_, st) \<leftarrow> Trspi_UnloadBlob (unat encSize) blob NULL st;
     Some st
   }"

definition enc_KEY12 :: "TPM_KEY12 \<Rightarrow> u8 list" where
  "enc_KEY12 key =
     be16 (k12_tag key) @ be16 (k12_fill key) @ be16 (k12_keyUsage key) @
       be32 (k12_keyFlags key) @ be8 (k12_authDataUsage key) @
       enc_KEY_PARMS (k12_algorithmParms key) @ be32 (k12_PCRInfoSize key) @
       pbytes (k12_PCRInfo key) @ enc_STORE_PUBKEY (k12_pubKey key) @
       be32 (k12_encSize key) @ pbytes (k12_encData key)"

definition wf_KEY12 :: "TPM_KEY12 \<Rightarrow> bool" where
  "wf_KEY12 key \<longleftrightarrow> wf_KEY_PARMS (k12_algorithmParms key)
     \<and> owns (unat (k12_PCRInfoSize key)) (k12_PCRInfo key)
     \<and> wf_STORE_PUBKEY (k12_pubKey key)
     \<and> owns (unat (k12_encSize key)) (k12_encData key)"

definition allocs_KEY12 :: "TPM_KEY12 \<Rightarrow> nat" where
  "allocs_KEY12 key = allocs_KEY_PARMS (k12_algorithmParms key)
     + pallocs (k12_PCRInfo key)
     + allocs_STORE_PUBKEY (k12_pubKey key)
     + pallocs (k12_encData key)"

interpretation key12_codec: blob_codec Trspi_LoadBlob_KEY12
    Trspi_UnloadBlob_KEY12
    Trspi_UnloadBlob_KEY12_NULL enc_KEY12 wf_KEY12 "\<lambda>_. True" allocs_KEY12
  by unfold_locales
    (auto simp: Trspi_LoadBlob_KEY12_def Trspi_UnloadBlob_KEY12_def
      Trspi_UnloadBlob_KEY12_NULL_def enc_KEY12_def wf_KEY12_def allocs_KEY12_def
      put_simps get_simps Let_def intro!: TPM_KEY12.equality)

lemmas key12_codec_put [put_simps] = key12_codec.load_put key12_codec.enc_nonempty
lemmas key12_codec_get [get_simps] = key12_codec.unload_lies key12_codec.unload_NULL_lies

record TCPA_KEY =
  key_ver :: TCPA_VERSION
  key_keyUsage :: u16
  key_keyFlags :: u32
  key_authDataUsage :: u8
  key_algorithmParms :: TCPA_KEY_PARMS
  key_PCRInfoSize :: u32
  key_PCRInfo :: ptr
  key_pubKey :: TCPA_STORE_PUBKEY
  key_encSize :: u32
  key_encData :: ptr

definition Trspi_LoadBlob_KEY :: "TCPA_KEY \<Rightarrow> wst \<Rightarrow> wst option" where
  "Trspi_LoadBlob_KEY key s = do {
     s \<leftarrow> Trspi_LoadBlob_TCPA_VERSION (key_ver key) s;
     s \<leftarrow> Trspi_LoadBlob_UINT16 (key_keyUsage key) s;
     s \<leftarrow> Trspi_LoadBlob_KEY_FLAGS (key_keyFlags key) s;
     s \<leftarrow> Trspi_LoadBlob_BYTE (key_authDataUsage key) s;
     s \<leftarrow> Trspi_LoadBlob_KEY_PARMS (key_algorithmParms key) s;
     s \<leftarrow> Trspi_LoadBlob_UINT32 (key_PCRInfoSize key) s;
     s \<leftarrow> Trspi_LoadBlob (unat (key_PCRInfoSize key)) (key_PCRInfo key) s;
     s \<leftarrow> Trspi_LoadBlob_STORE_PUBKEY (key_pubKey key) s;
     s \<leftarrow> Trspi_LoadBlob_UINT32 (key_encSize key) s;
     Trspi_LoadBlob (unat (key_encSize key)) (key_encData key) s
   }"

definition Trspi_UnloadBlob_KEY :: "u8 list \<Rightarrow> TCPA_KEY \<Rightarrow> rst \<Rightarrow> (u32 \<times> TCPA_KEY \<times> rst) option" where
  "Trspi_UnloadBlob_KEY blob key st = do {
     (x, st) \<leftarrow> Trspi_UnloadBlob_TCPA_VERSION blob (key_ver key) st;
     let key = key\<lparr>key_ver := x\<rparr>;
     (x, st) \<leftarrow> Trspi_UnloadBlob_UINT16 blob st;
     let key = key\<lparr>key_keyUsage := x\<rparr>;
     (x, st) \<leftarrow> Trspi_UnloadBlob_KEY_FLAGS blob st;
     let key = key\<lparr>key_keyFlags := x\<rparr>;
     (x, st) \<leftarrow> Trspi_UnloadBlob_BYTE blob st;
     let key = key\<lparr>key_authDataUsage := x\<rparr>;
     (result, x, st) \<leftarrow> Trspi_UnloadBlob_KEY_PARMS blob (key_algorithmParms key) st;
     let key = key\<lparr>key_algorithmParms := x\<rparr>;
     if result \<noteq> 0 then Some (result, key, st) else do {
       (x, st) \<leftarrow> Trspi_UnloadBlob_UINT32 blob st;
       let key = key\<lparr>key_PCRInfoSize := x\<rparr>;
       (result, p, st) \<leftarrow> malloc_UnloadBlob (unat (key_PCRInfoSize key)) blob st;
       let key = key\<lparr>key_PCRInfo := p\<rparr>;
       if result \<noteq> 0 then Some (result, key, st) else do {
         (result, x, st) \<leftarrow> Trspi_UnloadBlob_STORE_PUBKEY blob (key_pubKey key) st;
         let key = key\<lparr>key_pubKey := x\<rparr>;
         if result \<noteq> 0 then Some (result, key, st) else do {
           (x, st) \<leftarrow> Trspi_UnloadBlob_UINT32 blob st;
           let key = key\<lparr>key_encSize := x\<rparr>;
           (result, p, st) \<leftarrow> malloc_UnloadBlob (unat (key_encSize key)) blob st;
           let key = key\<lparr>key_encData := p\<rparr>;
           if result \<noteq> 0 then Some (result, key, st) else do {
             Some (TSS_SUCCESS, key, st) } } } }
   }"

definition Trspi_UnloadBlob_KEY_NULL :: "u8 list \<Rightarrow> rst \<Rightarrow> rst option" where
  "Trspi_UnloadBlob_KEY_NULL blob st = do {
     st \<leftarrow> Trspi_UnloadBlob_TCPA_VERSION_NULL blob st;
     st \<leftarrow> Trspi_UnloadBlob_UINT16_NULL blob st;
     st \<leftarrow> Trspi_UnloadBlob_KEY_FLAGS_NULL blob st;
     st \<leftarrow> Trspi_UnloadBlob_BYTE_NULL blob st;
     st \<leftarrow> Trspi_UnloadBlob_KEY_PARMS_NULL blob st;
     (PCRInfoSize, st) \<leftarrow> Trspi_UnloadBlob_UINT32 blob st;
     (_, st) \<leftarrow> Trspi_UnloadBlob (unat PCRInfoSize) blob NULL st;
     st \<leftarrow> Trspi_UnloadBlob_STORE_PUBKEY_NULL blob st;
     (encSize, st) \<leftarrow> Trspi_UnloadBlob_UINT32 blob st;
     (_, st) \<leftarrow> Trspi_UnloadBlob (unat encSize) blob NULL st;
     Some st
   }"

definition enc_KEY :: "TCPA_KEY \<Rightarrow> u8 list" where
  "enc_KEY key =
     enc_TCPA_VERSION (key_ver key) @ be16 (key_keyUsage key) @ be32 (key_keyFlags key) @
       be8 (key_authDataUsage key) @ enc_KEY_PARMS (key_algorithmParms key) @
       be32 (key_PCRInfoSize key) @ pbytes (key_PCRInfo key) @
       enc_STORE_PUBKEY (key_pubKey key) @ be32 (key_encSize key) @ pbytes (key_encData key)"

definition wf_KEY :: "TCPA_KEY \<Rightarrow> bool" where
  "wf_KEY key \<longleftrightarrow> wf_KEY_PARMS (key_algorithmParms key)
     \<and> owns (unat (key_PCRInfoSize key)) (key_PCRInfo key)
     \<and> wf_STORE_PUBKEY (key_pubKey key)
     \<and> owns (unat (key_encSize key)) (key_encData key)"

definition allocs_KEY :: "TCPA_KEY \<Rightarrow> nat" where
  "allocs_KEY key = allocs_KEY_PARMS (key_algorithmParms key)
     + pallocs (key_PCRInfo key)
     + allocs_STORE_PUBKEY (key_pubKey key)
     + pallocs (key_encData key)"

interpretation key_codec: blob_codec Trspi_LoadBlob_KEY
    Trspi_UnloadBlob_KEY
    Trspi_UnloadBlob_KEY_NULL enc_KEY wf_KEY "\<lambda>_. True" allocs_KEY
  by unfold_locales
    (auto simp: Trspi_LoadBlob_KEY_def Trspi_UnloadBlob_KEY_def
      Trspi_UnloadBlob_KEY_NULL_def enc_KEY_def wf_KEY_def allocs_KEY_def
      put_simps get_simps Let_def intro!: TCPA_KEY.equality)

lemmas key_codec_put [put_simps] = key_codec.load_put key_codec.enc_nonempty
lemmas key_codec_get [get_simps] = key_codec.unload_lies key_codec.unload_NULL_lies

text \<open>The private key digests are taken over the key without its encrypted part.\<close>

definition Trspi_LoadBlob_PRIVKEY_DIGEST12 :: "TPM_KEY12 \<Rightarrow> wst \<Rightarrow> wst option" where
  "Trspi_LoadBlob_PRIVKEY_DIGEST12 key s = do {
     s \<leftarrow> Trspi_LoadBlob_UINT16 (k12_tag key) s;
     s \<leftarrow> Trspi_LoadBlob_UINT16 (k12_fill key) s;
     s \<leftarrow> Trspi_LoadBlob_UINT16 (k12_keyUsage key) s;
     s \<leftarrow> Trspi_LoadBlob_KEY_FLAGS (k12_keyFlags key) s;
     s \<leftarrow> Trspi_LoadBlob_BYTE (k12_authDataUsage key) s;
     s \<leftarrow> Trspi_LoadBlob_KEY_PARMS (k12_algorithmParms key) s;
     s \<leftarrow> Trspi_LoadBlob_UINT32 (k12_PCRInfoSize key) s;
     s \<leftarrow> (if 0 < k12_PCRInfoSize key then Trspi_LoadBlob (unat (k12_PCRInfoSize key)) (k12_PCRInfo key) s else Some s);
     Trspi_LoadBlob_STORE_PUBKEY (k12_pubKey key) s
   }"

definition Trspi_LoadBlob_PRIVKEY_DIGEST :: "TCPA_KEY \<Rightarrow> wst \<Rightarrow> wst option" where
  "Trspi_LoadBlob_PRIVKEY_DIGEST key s = do {
     s \<leftarrow> Trspi_LoadBlob_TCPA_VERSION (key_ver key) s;
     s \<leftarrow> Trspi_LoadBlob_UINT16 (key_keyUsage key) s;
     s \<leftarrow> Trspi_LoadBlob_KEY_FLAGS (key_keyFlags key) s;
     s \<leftarrow> Trspi_LoadBlob_BYTE (key_authDataUsage key) s;
     s \<leftarrow> Trspi_LoadBlob_KEY_PARMS (key_algorithmParms key) s;
     s \<leftarrow> Trspi_LoadBlob_UINT32 (key_PCRInfoSize key) s;
     s \<leftarrow> (if 0 < key_PCRInfoSize key then Trspi_LoadBlob (unat (key_PCRInfoSize key)) (key_PCRInfo key) s else Some s);
     Trspi_LoadBlob_STORE_PUBKEY (key_pubKey key) s
   }"

section \<open>Symmetric keys\<close>

record TCPA_SYMMETRIC_KEY =
  sym_algId :: u32
  sym_encScheme :: u16
  sym_size :: u16
  sym_data :: ptr

definition Trspi_LoadBlob_SYMMETRIC_KEY :: "TCPA_SYMMETRIC_KEY \<Rightarrow> wst \<Rightarrow> wst option" where
  "Trspi_LoadBlob_SYMMETRIC_KEY key s = do {
     s \<leftarrow> Trspi_LoadBlob_UINT32 (sym_algId key) s;
     s \<leftarrow> Trspi_LoadBlob_UINT16 (sym_encScheme key) s;
     s \<leftarrow> Trspi_LoadBlob_UINT16 (sym_size key) s;
     (if 0 < sym_size key then Trspi_LoadBlob (unat (sym_size key)) (sym_data key) s else Some s)
   }"

definition Trspi_UnloadBlob_SYMMETRIC_KEY :: "u8 list \<Rightarrow> TCPA_SYMMETRIC_KEY \<Rightarrow> rst \<Rightarrow> (u32 \<times> TCPA_SYMMETRIC_KEY \<times> rst) option" where
  "Trspi_UnloadBlob_SYMMETRIC_KEY blob key st = do {
     (x, st) \<leftarrow> Trspi_UnloadBlob_UINT32 blob st;
     let key = key\<lparr>sym_algId := x\<rparr>;
     (x, st) \<leftarrow> Trspi_UnloadBlob_UINT16 blob st;
     let key = key\<lparr>sym_encScheme := x\<rparr>;
     (x, st) \<leftarrow> Trspi_UnloadBlob_UINT16 blob st;
     let key = key\<lparr>sym_size := x\<rparr>;
     (result, p, st) \<leftarrow> malloc_UnloadBlob (unat (sym_size key)) blob st;
     let key = key\<lparr>sym_data := p\<rparr>;
     if result \<noteq> 0 then Some (result, key\<lparr>sym_size := 0\<rparr>, st) else do {
       Some (TSS_SUCCESS, key, st) }
   }"

definition Trspi_UnloadBlob_SYMMETRIC_KEY_NULL :: "u8 list \<Rightarrow> rst \<Rightarrow> rst option" where
  "Trspi_UnloadBlob_SYMMETRIC_KEY_NULL blob st = do {
     st \<leftarrow> Trspi_UnloadBlob_UINT32_NULL blob st;
     st \<leftarrow> Trspi_UnloadBlob_UINT16_NULL blob st;
     (size, st) \<leftarrow> Trspi_UnloadBlob_UINT16 blob st;
     let st = adv (unat size) st;
     Some st
   }"

definition enc_SYMMETRIC_KEY :: "TCPA_SYMMETRIC_KEY \<Rightarrow> u8 list" where
  "enc_SYMMETRIC_KEY key =
     be32 (sym_algId key) @ be16 (sym_encScheme key) @ be16 (sym_size key) @
       pbytes (sym_data key)"

definition wf_SYMMETRIC_KEY :: "TCPA_SYMMETRIC_KEY \<Rightarrow> bool" where
  "wf_SYMMETRIC_KEY key \<longleftrightarrow> owns (unat (sym_size key)) (sym_data key)"

definition allocs_SYMMETRIC_KEY :: "TCPA_SYMMETRIC_KEY \<Rightarrow> nat" where
  "allocs_SYMMETRIC_KEY key = pallocs (sym_data key)"

interpretation symmetric_key_codec: blob_codec Trspi_LoadBlob_SYMMETRIC_KEY
    Trspi_UnloadBlob_SYMMETRIC_KEY
    Trspi_UnloadBlob_SYMMETRIC_KEY_NULL enc_SYMMETRIC_KEY wf_SYMMETRIC_KEY "\<lambda>_. True" allocs_SYMMETRIC_KEY
  by unfold_locales
    (auto simp: Trspi_LoadBlob_SYMMETRIC_KEY_def Trspi_UnloadBlob_SYMMETRIC_KEY_def
      Trspi_UnloadBlob_SYMMETRIC_KEY_NULL_def enc_SYMMETRIC_KEY_def
      wf_SYMMETRIC_KEY_def allocs_SYMMETRIC_KEY_def put_simps get_simps Let_def
      intro!: TCPA_SYMMETRIC_KEY.equality)

lemmas symmetric_key_codec_put [put_simps] = symmetric_key_codec.load_put symmetric_key_codec.enc_nonempty
lemmas symmetric_key_codec_get [get_simps] = symmetric_key_codec.unload_lies symmetric_key_codec.unload_NULL_lies

section \<open>The identity protocol\<close>

record TCPA_IDENTITY_REQ =
  idr_asymSize :: u32
  idr_symSize :: u32
  idr_asymAlgorithm :: TCPA_KEY_PARMS
  idr_symAlgorithm :: TCPA_KEY_PARMS
  idr_asymBlob :: ptr
  idr_symBlob :: ptr

definition Trspi_LoadBlob_IDENTITY_REQ :: "TCPA_IDENTITY_REQ \<Rightarrow> wst \<Rightarrow> wst option" where
  "Trspi_LoadBlob_IDENTITY_REQ req s = do {
     s \<leftarrow> Trspi_LoadBlob_UINT32 (idr_asymSize req) s;
     s \<leftarrow> Trspi_LoadBlob_UINT32 (idr_symSize req) s;
     s \<leftarrow> Trspi_LoadBlob_KEY_PARMS (idr_asymAlgorithm req) s;
     s \<leftarrow> Trspi_LoadBlob_KEY_PARMS (idr_symAlgorithm req) s;
     s \<leftarrow> Trspi_LoadBlob (unat (idr_asymSize req)) (idr_asymBlob req) s;
     Trspi_LoadBlob (unat (idr_symSize req)) (idr_symBlob req) s
   }"

text \<open>When the second key parameters cannot be read, the code returns \<open>result\<close>, which the
  preceding call has set to success.\<close>

definition Trspi_UnloadBlob_IDENTITY_REQ ::
  "u8 list \<Rightarrow> TCPA_IDENTITY_REQ \<Rightarrow> rst \<Rightarrow> (u32 \<times> TCPA_IDENTITY_REQ \<times> rst) option" where
  "Trspi_UnloadBlob_IDENTITY_REQ blob req st = do {
     (x, st) \<leftarrow> Trspi_UnloadBlob_UINT32 blob st;
     let req = req\<lparr>idr_asymSize := x\<rparr>;
     (x, st) \<leftarrow> Trspi_UnloadBlob_UINT32 blob st;
     let req = req\<lparr>idr_symSize := x\<rparr>;
     (result, x, st) \<leftarrow> Trspi_UnloadBlob_KEY_PARMS blob (idr_asymAlgorithm req) st;
     let req = req\<lparr>idr_asymAlgorithm := x\<rparr>;
     if result \<noteq> 0 then Some (result, req, st) else do {
       (r, x, st) \<leftarrow> Trspi_UnloadBlob_KEY_PARMS blob (idr_symAlgorithm req) st;
       let req = req\<lparr>idr_symAlgorithm := x\<rparr>;
       if r \<noteq> 0 then do {
         st \<leftarrow> free (kp_parms (idr_asymAlgorithm req)) st;
         let req = req\<lparr>idr_asymAlgorithm := (idr_asymAlgorithm req)\<lparr>
           kp_parms := dangle (kp_parms (idr_asymAlgorithm req)), kp_parmSize := 0\<rparr>\<rparr>;
         Some (result, req, st) }
       else do {
         (r, p, st) \<leftarrow> malloc_UnloadBlob (unat (idr_asymSize req)) blob st;
         let req = req\<lparr>idr_asymBlob := p\<rparr>;
         if r \<noteq> 0 then do {
           st \<leftarrow> free (kp_parms (idr_asymAlgorithm req)) st;
           st \<leftarrow> free (kp_parms (idr_symAlgorithm req)) st;
           let req = req\<lparr>idr_asymSize := 0,
             idr_asymAlgorithm := (idr_asymAlgorithm req)\<lparr>kp_parmSize := 0,
               kp_parms := dangle (kp_parms (idr_asymAlgorithm req))\<rparr>,
             idr_symAlgorithm := (idr_symAlgorithm req)\<lparr>kp_parmSize := 0,
               kp_parms := dangle (kp_parms (idr_symAlgorithm req))\<rparr>\<rparr>;
           Some (TSPERR TSS_E_OUTOFMEMORY, req, st) }
         else do {
           (r, p, st) \<leftarrow> malloc_UnloadBlob (unat (idr_symSize req)) blob st;
           let req = req\<lparr>idr_symBlob := p\<rparr>;
           if r \<noteq> 0 then do {
             st \<leftarrow> free (idr_asymBlob req) st;
             st \<leftarrow> free (kp_parms (idr_asymAlgorithm req)) st;
             st \<leftarrow> free (kp_parms (idr_symAlgorithm req)) st;
             let req = req\<lparr>idr_symSize := 0, idr_asymSize := 0, idr_asymBlob := NULL,
               idr_asymAlgorithm := (idr_asymAlgorithm req)\<lparr>kp_parmSize := 0,
                 kp_parms := dangle (kp_parms (idr_asymAlgorithm req))\<rparr>,
               idr_symAlgorithm := (idr_symAlgorithm req)\<lparr>kp_parmSize := 0,
                 kp_parms := dangle (kp_parms (idr_symAlgorithm req))\<rparr>\<rparr>;
             Some (TSPERR TSS_E_OUTOFMEMORY, req, st) }
           else Some (TSS_SUCCESS, req, st) } } }
   }"

definition Trspi_UnloadBlob_IDENTITY_REQ_NULL :: "u8 list \<Rightarrow> rst \<Rightarrow> rst option" where
  "Trspi_UnloadBlob_IDENTITY_REQ_NULL blob st = do {
     (asymSize, st) \<leftarrow> Trspi_UnloadBlob_UINT32 blob st;
     (symSize, st) \<leftarrow> Trspi_UnloadBlob_UINT32 blob st;
     st \<leftarrow> Trspi_UnloadBlob_KEY_PARMS_NULL blob st;
     st \<leftarrow> Trspi_UnloadBlob_KEY_PARMS_NULL blob st;
     let st = adv (unat asymSize) st;
     let st = adv (unat symSize) st;
     Some st
   }"

definition enc_IDENTITY_REQ :: "TCPA_IDENTITY_REQ \<Rightarrow> u8 list" where
  "enc_IDENTITY_REQ req =
     be32 (idr_asymSize req) @ be32 (idr_symSize req) @
       enc_KEY_PARMS (idr_asymAlgorithm req) @ enc_KEY_PARMS (idr_symAlgorithm req) @
       pbytes (idr_asymBlob req) @ pbytes (idr_symBlob req)"

definition wf_IDENTITY_REQ :: "TCPA_IDENTITY_REQ \<Rightarrow> bool" where
  "wf_IDENTITY_REQ req \<longleftrightarrow> wf_KEY_PARMS (idr_asymAlgorithm req)
     \<and> wf_KEY_PARMS (idr_symAlgorithm req)
     \<and> owns (unat (idr_asymSize req)) (idr_asymBlob req)
     \<and> owns (unat (idr_symSize req)) (idr_symBlob req)"

definition allocs_IDENTITY_REQ :: "TCPA_IDENTITY_REQ \<Rightarrow> nat" where
  "allocs_IDENTITY_REQ req = allocs_KEY_PARMS (idr_asymAlgorithm req)
     + allocs_KEY_PARMS (idr_symAlgorithm req)
     + pallocs (idr_asymBlob req)
     + pallocs (idr_symBlob req)"

interpretation identity_req_codec: blob_codec Trspi_LoadBlob_IDENTITY_REQ
    Trspi_UnloadBlob_IDENTITY_REQ
    Trspi_UnloadBlob_IDENTITY_REQ_NULL enc_IDENTITY_REQ wf_IDENTITY_REQ "\<lambda>_. True" allocs_IDENTITY_REQ
  by unfold_locales
    (auto simp: Trspi_LoadBlob_IDENTITY_REQ_def Trspi_UnloadBlob_IDENTITY_REQ_def
      Trspi_UnloadBlob_IDENTITY_REQ_NULL_def enc_IDENTITY_REQ_def
      wf_IDENTITY_REQ_def allocs_IDENTITY_REQ_def put_simps get_simps Let_def
      intro!: TCPA_IDENTITY_REQ.equality)

lemmas identity_req_codec_put [put_simps] = identity_req_codec.load_put identity_req_codec.enc_nonempty
lemmas identity_req_codec_get [get_simps] = identity_req_codec.unload_lies identity_req_codec.unload_NULL_lies

record TCPA_SYM_CA_ATTESTATION =
  sca_credSize :: u32
  sca_algorithm :: TCPA_KEY_PARMS
  sca_credential :: ptr

definition Trspi_LoadBlob_SYM_CA_ATTESTATION :: "TCPA_SYM_CA_ATTESTATION \<Rightarrow> wst \<Rightarrow> wst option" where
  "Trspi_LoadBlob_SYM_CA_ATTESTATION sca s = do {
     s \<leftarrow> Trspi_LoadBlob_UINT32 (sca_credSize sca) s;
     s \<leftarrow> Trspi_LoadBlob_KEY_PARMS (sca_algorithm sca) s;
     Trspi_LoadBlob (unat (sca_credSize sca)) (sca_credential sca) s
   }"

definition Trspi_UnloadBlob_SYM_CA_ATTESTATION ::
  "u8 list \<Rightarrow> TCPA_SYM_CA_ATTESTATION \<Rightarrow> rst \<Rightarrow> (u32 \<times> TCPA_SYM_CA_ATTESTATION \<times> rst) option" where
  "Trspi_UnloadBlob_SYM_CA_ATTESTATION blob sca st = do {
     (x, st) \<leftarrow> Trspi_UnloadBlob_UINT32 blob st;
     let sca = sca\<lparr>sca_credSize := x\<rparr>;
     (result, x, st) \<leftarrow> Trspi_UnloadBlob_KEY_PARMS blob (sca_algorithm sca) st;
     let sca = sca\<lparr>sca_algorithm := x\<rparr>;
     if result \<noteq> 0 then Some (result, sca\<lparr>sca_credSize := 0\<rparr>, st) else do {
       (r, p, st) \<leftarrow> malloc_UnloadBlob (unat (sca_credSize sca)) blob st;
       let sca = sca\<lparr>sca_credential := p\<rparr>;
       if r \<noteq> 0 then do {
         st \<leftarrow> free (kp_parms (sca_algorithm sca)) st;
         let sca = sca\<lparr>sca_algorithm := (sca_algorithm sca)\<lparr>kp_parmSize := 0,
             kp_parms := dangle (kp_parms (sca_algorithm sca))\<rparr>, sca_credSize := 0\<rparr>;
         Some (TSPERR TSS_E_OUTOFMEMORY, sca, st) }
       else Some (TSS_SUCCESS, sca, st) }
   }"

definition Trspi_UnloadBlob_SYM_CA_ATTESTATION_NULL :: "u8 list \<Rightarrow> rst \<Rightarrow> rst option" where
  "Trspi_UnloadBlob_SYM_CA_ATTESTATION_NULL blob st = do {
     (credSize, st) \<leftarrow> Trspi_UnloadBlob_UINT32 blob st;
     st \<leftarrow> Trspi_UnloadBlob_KEY_PARMS_NULL blob st;
     let st = adv (unat credSize) st;
     Some st
   }"

definition enc_SYM_CA_ATTESTATION :: "TCPA_SYM_CA_ATTESTATION \<Rightarrow> u8 list" where
  "enc_SYM_CA_ATTESTATION sca =
     be32 (sca_credSize sca) @ enc_KEY_PARMS (sca_algorithm sca) @
       pbytes (sca_credential sca)"

definition wf_SYM_CA_ATTESTATION :: "TCPA_SYM_CA_ATTESTATION \<Rightarrow> bool" where
  "wf_SYM_CA_ATTESTATION sca \<longleftrightarrow> wf_KEY_PARMS (sca_algorithm sca)
     \<and> owns (unat (sca_credSize sca)) (sca_credential sca)"

definition allocs_SYM_CA_ATTESTATION :: "TCPA_SYM_CA_ATTESTATION \<Rightarrow> nat" where
  "allocs_SYM_CA_ATTESTATION sca = allocs_KEY_PARMS (sca_algorithm sca)
     + pallocs (sca_credential sca)"

interpretation sym_ca_attestation_codec: blob_codec Trspi_LoadBlob_SYM_CA_ATTESTATION
    Trspi_UnloadBlob_SYM_CA_ATTESTATION
    Trspi_UnloadBlob_SYM_CA_ATTESTATION_NULL enc_SYM_CA_ATTESTATION wf_SYM_CA_ATTESTATION "\<lambda>_. True" allocs_SYM_CA_ATTESTATION
  by unfold_locales
    (auto simp: Trspi_LoadBlob_SYM_CA_ATTESTATION_def
      Trspi_UnloadBlob_SYM_CA_ATTESTATION_def
      Trspi_UnloadBlob_SYM_CA_ATTESTATION_NULL_def enc_SYM_CA_ATTESTATION_def
      wf_SYM_CA_ATTESTATION_def allocs_SYM_CA_ATTESTATION_def put_simps get_simps
      Let_def intro!: TCPA_SYM_CA_ATTESTATION.equality)

lemmas sym_ca_attestation_codec_put [put_simps] = sym_ca_attestation_codec.load_put sym_ca_attestation_codec.enc_nonempty
lemmas sym_ca_attestation_codec_get [get_simps] = sym_ca_attestation_codec.unload_lies sym_ca_attestation_codec.unload_NULL_lies

section \<open>Migration and version information\<close>

record TPM_MIGRATIONKEYAUTH =
  mka_migrationKey :: TCPA_PUBKEY
  mka_migrationScheme :: u16
  mka_digest :: "u8 list"

definition Trspi_LoadBlob_MIGRATIONKEYAUTH :: "TPM_MIGRATIONKEYAUTH \<Rightarrow> wst \<Rightarrow> wst option" where
  "Trspi_LoadBlob_MIGRATIONKEYAUTH migAuth s = do {
     s \<leftarrow> Trspi_LoadBlob_PUBKEY (mka_migrationKey migAuth) s;
     s \<leftarrow> Trspi_LoadBlob_UINT16 (mka_migrationScheme migAuth) s;
     Trspi_LoadBlob_DIGEST (mka_digest migAuth) s
   }"

definition Trspi_UnloadBlob_MIGRATIONKEYAUTH :: "u8 list \<Rightarrow> TPM_MIGRATIONKEYAUTH \<Rightarrow> rst \<Rightarrow> (u32 \<times> TPM_MIGRATIONKEYAUTH \<times> rst) option" where
  "Trspi_UnloadBlob_MIGRATIONKEYAUTH blob migAuth st = do {
     (result, x, st) \<leftarrow> Trspi_UnloadBlob_PUBKEY blob (mka_migrationKey migAuth) st;
     let migAuth = migAuth\<lparr>mka_migrationKey := x\<rparr>;
     if result \<noteq> 0 then Some (result, migAuth, st) else do {
       (x, st) \<leftarrow> Trspi_UnloadBlob_UINT16 blob st;
       let migAuth = migAuth\<lparr>mka_migrationScheme := x\<rparr>;
       (x, st) \<leftarrow> Trspi_UnloadBlob_DIGEST blob (mka_digest migAuth) st;
       let migAuth = migAuth\<lparr>mka_digest := x\<rparr>;
       Some (TSS_SUCCESS, migAuth, st) }
   }"

definition Trspi_UnloadBlob_MIGRATIONKEYAUTH_NULL :: "u8 list \<Rightarrow> rst \<Rightarrow> rst option" where
  "Trspi_UnloadBlob_MIGRATIONKEYAUTH_NULL blob st = do {
     st \<leftarrow> Trspi_UnloadBlob_PUBKEY_NULL blob st;
     st \<leftarrow> Trspi_UnloadBlob_UINT16_NULL blob st;
     st \<leftarrow> Trspi_UnloadBlob_DIGEST_NULL blob st;
     Some st
   }"

definition enc_MIGRATIONKEYAUTH :: "TPM_MIGRATIONKEYAUTH \<Rightarrow> u8 list" where
  "enc_MIGRATIONKEYAUTH migAuth =
     enc_PUBKEY (mka_migrationKey migAuth) @ be16 (mka_migrationScheme migAuth) @
       mka_digest migAuth"

definition wf_MIGRATIONKEYAUTH :: "TPM_MIGRATIONKEYAUTH \<Rightarrow> bool" where
  "wf_MIGRATIONKEYAUTH migAuth \<longleftrightarrow> wf_PUBKEY (mka_migrationKey migAuth)
     \<and> length (mka_digest migAuth) = 32"

definition room_MIGRATIONKEYAUTH :: "TPM_MIGRATIONKEYAUTH \<Rightarrow> bool" where
  "room_MIGRATIONKEYAUTH migAuth \<longleftrightarrow> length (mka_digest migAuth) = 32"

definition allocs_MIGRATIONKEYAUTH :: "TPM_MIGRATIONKEYAUTH \<Rightarrow> nat" where
  "allocs_MIGRATIONKEYAUTH migAuth = allocs_PUBKEY (mka_migrationKey migAuth)"

interpretation migrationkeyauth_codec: blob_codec Trspi_LoadBlob_MIGRATIONKEYAUTH
    Trspi_UnloadBlob_MIGRATIONKEYAUTH
    Trspi_UnloadBlob_MIGRATIONKEYAUTH_NULL enc_MIGRATIONKEYAUTH wf_MIGRATIONKEYAUTH room_MIGRATIONKEYAUTH allocs_MIGRATIONKEYAUTH
  by unfold_locales
    (auto simp: Trspi_LoadBlob_MIGRATIONKEYAUTH_def Trspi_UnloadBlob_MIGRATIONKEYAUTH_def
      Trspi_UnloadBlob_MIGRATIONKEYAUTH_NULL_def enc_MIGRATIONKEYAUTH_def
      wf_MIGRATIONKEYAUTH_def room_MIGRATIONKEYAUTH_def
      allocs_MIGRATIONKEYAUTH_def put_simps get_simps Let_def
      intro!: TPM_MIGRATIONKEYAUTH.equality)

lemmas migrationkeyauth_codec_put [put_simps] = migrationkeyauth_codec.load_put migrationkeyauth_codec.enc_nonempty
lemmas migrationkeyauth_codec_get [get_simps] = migrationkeyauth_codec.unload_lies migrationkeyauth_codec.unload_NULL_lies

record TPM_CMK_AUTH =
  cmk_migrationAuthorityDigest :: "u8 list"
  cmk_destinationKeyDigest :: "u8 list"
  cmk_sourceKeyDigest :: "u8 list"

definition Trspi_LoadBlob_CMK_AUTH :: "TPM_CMK_AUTH \<Rightarrow> wst \<Rightarrow> wst option" where
  "Trspi_LoadBlob_CMK_AUTH cmkAuth s = do {
     s \<leftarrow> Trspi_LoadBlob_DIGEST (cmk_migrationAuthorityDigest cmkAuth) s;
     s \<leftarrow> Trspi_LoadBlob_DIGEST (cmk_destinationKeyDigest cmkAuth) s;
     Trspi_LoadBlob_DIGEST (cmk_sourceKeyDigest cmkAuth) s
   }"

definition enc_CMK_AUTH :: "TPM_CMK_AUTH \<Rightarrow> u8 list" where
  "enc_CMK_AUTH cmkAuth =
     cmk_migrationAuthorityDigest cmkAuth @ cmk_destinationKeyDigest cmkAuth @
       cmk_sourceKeyDigest cmkAuth"

definition wf_CMK_AUTH :: "TPM_CMK_AUTH \<Rightarrow> bool" where
  "wf_CMK_AUTH cmkAuth \<longleftrightarrow> length (cmk_migrationAuthorityDigest cmkAuth) = 32
     \<and> length (cmk_destinationKeyDigest cmkAuth) = 32
     \<and> length (cmk_sourceKeyDigest cmkAuth) = 32"

definition room_CMK_AUTH :: "TPM_CMK_AUTH \<Rightarrow> bool" where
  "room_CMK_AUTH cmkAuth \<longleftrightarrow> length (cmk_migrationAuthorityDigest cmkAuth) = 32
     \<and> length (cmk_destinationKeyDigest cmkAuth) = 32
     \<and> length (cmk_sourceKeyDigest cmkAuth) = 32"

interpretation cmk_auth_codec: blob_writer Trspi_LoadBlob_CMK_AUTH enc_CMK_AUTH wf_CMK_AUTH
  by unfold_locales
    (auto simp: Trspi_LoadBlob_CMK_AUTH_def enc_CMK_AUTH_def wf_CMK_AUTH_def
      room_CMK_AUTH_def put_simps Let_def)

lemmas cmk_auth_codec_put [put_simps] = cmk_auth_codec.load_put cmk_auth_codec.enc_nonempty

record TPM_CAP_VERSION_INFO =
  cap_tag :: u16
  cap_version :: TCPA_VERSION
  cap_specLevel :: u16
  cap_errataRev :: u8
  cap_tpmVendorID :: "u8 list"
  cap_vendorSpecificSize :: u16
  cap_vendorSpecific :: ptr

definition Trspi_LoadBlob_CAP_VERSION_INFO :: "TPM_CAP_VERSION_INFO \<Rightarrow> wst \<Rightarrow> wst option" where
  "Trspi_LoadBlob_CAP_VERSION_INFO v s = do {
     s \<leftarrow> Trspi_LoadBlob_UINT16 (cap_tag v) s;
     s \<leftarrow> Trspi_LoadBlob_TCPA_VERSION (cap_version v) s;
     s \<leftarrow> Trspi_LoadBlob_UINT16 (cap_specLevel v) s;
     s \<leftarrow> Trspi_LoadBlob_BYTE (cap_errataRev v) s;
     s \<leftarrow> Trspi_LoadBlob 4 (Buf (cap_tpmVendorID v)) s;
     s \<leftarrow> Trspi_LoadBlob_UINT16 (cap_vendorSpecificSize v) s;
     Trspi_LoadBlob (unat (cap_vendorSpecificSize v)) (cap_vendorSpecific v) s
   }"

definition Trspi_UnloadBlob_CAP_VERSION_INFO :: "u8 list \<Rightarrow> TPM_CAP_VERSION_INFO \<Rightarrow> rst \<Rightarrow> (u32 \<times> TPM_CAP_VERSION_INFO \<times> rst) option" where
  "Trspi_UnloadBlob_CAP_VERSION_INFO blob v st = do {
     (x, st) \<leftarrow> Trspi_UnloadBlob_UINT16 blob st;
     let v = v\<lparr>cap_tag := x\<rparr>;
     (x, st) \<leftarrow> Trspi_UnloadBlob_VERSION blob (cap_version v) st;
     let v = v\<lparr>cap_version := x\<rparr>;
     (x, st) \<leftarrow> Trspi_UnloadBlob_UINT16 blob st;
     let v = v\<lparr>cap_specLevel := x\<rparr>;
     (x, st) \<leftarrow> Trspi_UnloadBlob_BYTE blob st;
     let v = v\<lparr>cap_errataRev := x\<rparr>;
     (x, st) \<leftarrow> UnloadBlob_array 4 blob (cap_tpmVendorID v) st;
     let v = v\<lparr>cap_tpmVendorID := x\<rparr>;
     (x, st) \<leftarrow> Trspi_UnloadBlob_UINT16 blob st;
     let v = v\<lparr>cap_vendorSpecificSize := x\<rparr>;
     (result, p, st) \<leftarrow> malloc_UnloadBlob (unat (cap_vendorSpecificSize v)) blob st;
     let v = v\<lparr>cap_vendorSpecific := p\<rparr>;
     if result \<noteq> 0 then Some (result, v, st) else do {
       Some (TSS_SUCCESS, v, st) }
   }"

definition Trspi_UnloadBlob_CAP_VERSION_INFO_NULL :: "u8 list \<Rightarrow> rst \<Rightarrow> rst option" where
  "Trspi_UnloadBlob_CAP_VERSION_INFO_NULL blob st = do {
     st \<leftarrow> Trspi_UnloadBlob_UINT16_NULL blob st;
     st \<leftarrow> Trspi_UnloadBlob_VERSION_NULL blob st;
     st \<leftarrow> Trspi_UnloadBlob_UINT16_NULL blob st;
     st \<leftarrow> Trspi_UnloadBlob_BYTE_NULL blob st;
     (_, st) \<leftarrow> Trspi_UnloadBlob 4 blob NULL st;
     (vendorSpecificSize, st) \<leftarrow> Trspi_UnloadBlob_UINT16 blob st;
     let st = adv (unat vendorSpecificSize) st;
     Some st
   }"

definition enc_CAP_VERSION_INFO :: "TPM_CAP_VERSION_INFO \<Rightarrow> u8 list" where
  "enc_CAP_VERSION_INFO v =
     be16 (cap_tag v) @ enc_TCPA_VERSION (cap_version v) @ be16 (cap_specLevel v) @
       be8 (cap_errataRev v) @ cap_tpmVendorID v @ be16 (cap_vendorSpecificSize v) @
       pbytes (cap_vendorSpecific v)"

definition wf_CAP_VERSION_INFO :: "TPM_CAP_VERSION_INFO \<Rightarrow> bool" where
  "wf_CAP_VERSION_INFO v \<longleftrightarrow> length (cap_tpmVendorID v) = 4
     \<and> owns (unat (cap_vendorSpecificSize v)) (cap_vendorSpecific v)"

definition room_CAP_VERSION_INFO :: "TPM_CAP_VERSION_INFO \<Rightarrow> bool" where
  "room_CAP_VERSION_INFO v \<longleftrightarrow> length (cap_tpmVendorID v) = 4"

definition allocs_CAP_VERSION_INFO :: "TPM_CAP_VERSION_INFO \<Rightarrow> nat" where
  "allocs_CAP_VERSION_INFO v = pallocs (cap_vendorSpecific v)"

interpretation cap_version_info_codec: blob_codec Trspi_LoadBlob_CAP_VERSION_INFO
    Trspi_UnloadBlob_CAP_VERSION_INFO
    Trspi_UnloadBlob_CAP_VERSION_INFO_NULL enc_CAP_VERSION_INFO wf_CAP_VERSION_INFO room_CAP_VERSION_INFO allocs_CAP_VERSION_INFO
  by unfold_locales
    (auto simp: Trspi_LoadBlob_CAP_VERSION_INFO_def Trspi_UnloadBlob_CAP_VERSION_INFO_def
      Trspi_UnloadBlob_CAP_VERSION_INFO_NULL_def enc_CAP_VERSION_INFO_def
      wf_CAP_VERSION_INFO_def room_CAP_VERSION_INFO_def
      allocs_CAP_VERSION_INFO_def put_simps get_simps Let_def
      intro!: TPM_CAP_VERSION_INFO.equality)

lemmas cap_version_info_codec_put [put_simps] = cap_version_info_codec.load_put cap_version_info_codec.enc_nonempty
lemmas cap_version_info_codec_get [get_simps] = cap_version_info_codec.unload_lies cap_version_info_codec.unload_NULL_lies

end
