(* ===== verification/Trspi_Delegate.thy ===== *)
theory Trspi_Delegate
  imports Trspi_Structs
begin

text \<open>
  The delegation structures of \<open>trspi/trousers.c\<close>: family and delegation tables, the public
  part of a delegation, and the owner and key delegation blobs.  The conventions are those of
  \<open>Trspi_Structs\<close>.
\<close>

section \<open>Families\<close>

text \<open>\<open>TPM_FAMILY_LABEL\<close> and \<open>TPM_DELEGATE_LABEL\<close> are structures around one byte.\<close>

definition Trspi_UnloadBlob_TPM_FAMILY_LABEL :: "u8 list \<Rightarrow> rst \<Rightarrow> (u8 \<times> rst) option" where
  "Trspi_UnloadBlob_TPM_FAMILY_LABEL blob st = Trspi_UnloadBlob_BYTE blob st"

definition Trspi_UnloadBlob_TPM_FAMILY_LABEL_NULL :: "u8 list \<Rightarrow> rst \<Rightarrow> rst option" where
  "Trspi_UnloadBlob_TPM_FAMILY_LABEL_NULL blob st = Trspi_UnloadBlob_BYTE_NULL blob st"

definition Trspi_LoadBlob_TPM_FAMILY_LABEL :: "u8 \<Rightarrow> wst \<Rightarrow> wst option" where
  "Trspi_LoadBlob_TPM_FAMILY_LABEL label s = Trspi_LoadBlob_BYTE label s"

definition Trspi_UnloadBlob_TPM_DELEGATE_LABEL :: "u8 list \<Rightarrow> rst \<Rightarrow> (u8 \<times> rst) option" where
  "Trspi_UnloadBlob_TPM_DELEGATE_LABEL blob st = Trspi_UnloadBlob_BYTE blob st"

definition Trspi_UnloadBlob_TPM_DELEGATE_LABEL_NULL :: "u8 list \<Rightarrow> rst \<Rightarrow> rst option" where
  "Trspi_UnloadBlob_TPM_DELEGATE_LABEL_NULL blob st = Trspi_UnloadBlob_BYTE_NULL blob st"

definition Trspi_LoadBlob_TPM_DELEGATE_LABEL :: "u8 \<Rightarrow> wst \<Rightarrow> wst option" where
  "Trspi_LoadBlob_TPM_DELEGATE_LABEL label s = Trspi_LoadBlob_BYTE label s"

lemmas label_codec [put_simps, get_simps] =
  Trspi_UnloadBlob_TPM_FAMILY_LABEL_def Trspi_UnloadBlob_TPM_FAMILY_LABEL_NULL_def
  Trspi_LoadBlob_TPM_FAMILY_LABEL_def Trspi_UnloadBlob_TPM_DELEGATE_LABEL_def
  Trspi_UnloadBlob_TPM_DELEGATE_LABEL_NULL_def Trspi_LoadBlob_TPM_DELEGATE_LABEL_def

record TPM_FAMILY_TABLE_ENTRY =
  fte_tag :: u16
  fte_label :: u8
  fte_familyID :: u32
  fte_verificationCount :: u32
  fte_flags :: u32

definition Trspi_LoadBlob_TPM_FAMILY_TABLE_ENTRY :: "TPM_FAMILY_TABLE_ENTRY \<Rightarrow> wst \<Rightarrow> wst option" where
  "Trspi_LoadBlob_TPM_FAMILY_TABLE_ENTRY entry s = do {
     s \<leftarrow> Trspi_LoadBlob_UINT16 (fte_tag entry) s;
     s \<leftarrow> Trspi_LoadBlob_TPM_FAMILY_LABEL (fte_label entry) s;
     s \<leftarrow> Trspi_LoadBlob_UINT32 (fte_familyID entry) s;
     s \<leftarrow> Trspi_LoadBlob_UINT32 (fte_verificationCount entry) s;
     Trspi_LoadBlob_UINT32 (fte_flags entry) s
   }"

definition Trspi_UnloadBlob_TPM_FAMILY_TABLE_ENTRY :: "u8 list \<Rightarrow> TPM_FAMILY_TABLE_ENTRY \<Rightarrow> rst \<Rightarrow> (TPM_FAMILY_TABLE_ENTRY \<times> rst) option" where
  "Trspi_UnloadBlob_TPM_FAMILY_TABLE_ENTRY blob entry st = do {
     (x, st) \<leftarrow> Trspi_UnloadBlob_UINT16 blob st;
     let entry = entry\<lparr>fte_tag := x\<rparr>;
     (x, st) \<leftarrow> Trspi_UnloadBlob_TPM_FAMILY_LABEL blob st;
     let entry = entry\<lparr>fte_label := x\<rparr>;
     (x, st) \<leftarrow> Trspi_UnloadBlob_UINT32 blob st;
     let entry = entry\<lparr>fte_familyID := x\<rparr>;
     (x, st) \<leftarrow> Trspi_UnloadBlob_UINT32 blob st;
     let entry = entry\<lparr>fte_verificationCount := x\<rparr>;
     (x, st) \<leftarrow> Trspi_UnloadBlob_UINT32 blob st;
     let entry = entry\<lparr>fte_flags := x\<rparr>;
     Some (entry, st)
   }"

definition Trspi_UnloadBlob_TPM_FAMILY_TABLE_ENTRY_NULL :: "u8 list \<Rightarrow> rst \<Rightarrow> rst option" where
  "Trspi_UnloadBlob_TPM_FAMILY_TABLE_ENTRY_NULL blob st = do {
     st \<leftarrow> Trspi_UnloadBlob_UINT16_NULL blob st;
     st \<leftarrow> Trspi_UnloadBlob_TPM_FAMILY_LABEL_NULL blob st;
     st \<leftarrow> Trspi_UnloadBlob_UINT32_NULL blob st;
     st \<leftarrow> Trspi_UnloadBlob_UINT32_NULL blob st;
     st \<leftarrow> Trspi_UnloadBlob_UINT32_NULL blob st;
     Some st
   }"

definition enc_TPM_FAMILY_TABLE_ENTRY :: "TPM_FAMILY_TABLE_ENTRY \<Rightarrow> u8 list" where
  "enc_TPM_FAMILY_TABLE_ENTRY entry =
     be16 (fte_tag entry) @ be8 (fte_label entry) @ be32 (fte_familyID entry) @
       be32 (fte_verificationCount entry) @ be32 (fte_flags entry)"

interpretation tpm_family_table_entry_codec: blob_codec Trspi_LoadBlob_TPM_FAMILY_TABLE_ENTRY
    "\<lambda>blob y st. void_result (Trspi_UnloadBlob_TPM_FAMILY_TABLE_ENTRY blob y st)"
    Trspi_UnloadBlob_TPM_FAMILY_TABLE_ENTRY_NULL enc_TPM_FAMILY_TABLE_ENTRY "\<lambda>_. True" "\<lambda>_. True" "\<lambda>_. 0"
  by unfold_locales
    (auto simp: Trspi_LoadBlob_TPM_FAMILY_TABLE_ENTRY_def
      Trspi_UnloadBlob_TPM_FAMILY_TABLE_ENTRY_def
      Trspi_UnloadBlob_TPM_FAMILY_TABLE_ENTRY_NULL_def
      enc_TPM_FAMILY_TABLE_ENTRY_def put_simps get_simps Let_def
      intro!: TPM_FAMILY_TABLE_ENTRY.equality)

lemmas tpm_family_table_entry_codec_put [put_simps] = tpm_family_table_entry_codec.load_put tpm_family_table_entry_codec.enc_nonempty
lemmas tpm_family_table_entry_codec_get [get_simps] = tpm_family_table_entry_codec.unload_lies [THEN void_resultD, unfolded charge_simps] tpm_family_table_entry_codec.unload_NULL_lies

section \<open>Delegations\<close>

record TPM_DELEGATIONS =
  dg_tag :: u16
  dg_delegateType :: u32
  dg_per1 :: u32
  dg_per2 :: u32

definition Trspi_LoadBlob_TPM_DELEGATIONS :: "TPM_DELEGATIONS \<Rightarrow> wst \<Rightarrow> wst option" where
  "Trspi_LoadBlob_TPM_DELEGATIONS delegations s = do {
     s \<leftarrow> Trspi_LoadBlob_UINT16 (dg_tag delegations) s;
     s \<leftarrow> Trspi_LoadBlob_UINT32 (dg_delegateType delegations) s;
     s \<leftarrow> Trspi_LoadBlob_UINT32 (dg_per1 delegations) s;
     Trspi_LoadBlob_UINT32 (dg_per2 delegations) s
   }"

definition Trspi_UnloadBlob_TPM_DELEGATIONS :: "u8 list \<Rightarrow> TPM_DELEGATIONS \<Rightarrow> rst \<Rightarrow> (TPM_DELEGATIONS \<times> rst) option" where
  "Trspi_UnloadBlob_TPM_DELEGATIONS blob delegations st = do {
     (x, st) \<leftarrow> Trspi_UnloadBlob_UINT16 blob st;
     let delegations = delegations\<lparr>dg_tag := x\<rparr>;
     (x, st) \<leftarrow> Trspi_UnloadBlob_UINT32 blob st;
     let delegations = delegations\<lparr>dg_delegateType := x\<rparr>;
     (x, st) \<leftarrow> Trspi_UnloadBlob_UINT32 blob st;
     let delegations = delegations\<lparr>dg_per1 := x\<rparr>;
     (x, st) \<leftarrow> Trspi_UnloadBlob_UINT32 blob st;
     let delegations = delegations\<lparr>dg_per2 := x\<rparr>;
     Some (delegations, st)
   }"

definition Trspi_UnloadBlob_TPM_DELEGATIONS_NULL :: "u8 list \<Rightarrow> rst \<Rightarrow> rst option" where
  "Trspi_UnloadBlob_TPM_DELEGATIONS_NULL blob st = do {
     st \<leftarrow> Trspi_UnloadBlob_UINT16_NULL blob st;
     st \<leftarrow> Trspi_UnloadBlob_UINT32_NULL blob st;
     st \<leftarrow> Trspi_UnloadBlob_UINT32_NULL blob st;
     st \<leftarrow> Trspi_UnloadBlob_UINT32_NULL blob st;
     Some st
   }"

definition enc_TPM_DELEGATIONS :: "TPM_DELEGATIONS \<Rightarrow> u8 list" where
  "enc_TPM_DELEGATIONS delegations =
     be16 (dg_tag delegations) @ be32 (dg_delegateType delegations) @
       be32 (dg_per1 delegations) @ be32 (dg_per2 delegations)"

interpretation tpm_delegations_codec: blob_codec Trspi_LoadBlob_TPM_DELEGATIONS
    "\<lambda>blob y st. void_result (Trspi_UnloadBlob_TPM_DELEGATIONS blob y st)"
    Trspi_UnloadBlob_TPM_DELEGATIONS_NULL enc_TPM_DELEGATIONS "\<lambda>_. True" "\<lambda>_. True" "\<lambda>_. 0"
  by unfold_locales
    (auto simp: Trspi_LoadBlob_TPM_DELEGATIONS_def Trspi_UnloadBlob_TPM_DELEGATIONS_def
      Trspi_UnloadBlob_TPM_DELEGATIONS_NULL_def enc_TPM_DELEGATIONS_def put_simps
      get_simps Let_def intro!: TPM_DELEGATIONS.equality)

lemmas tpm_delegations_codec_put [put_simps] = tpm_delegations_codec.load_put tpm_delegations_codec.enc_nonempty
lemmas tpm_delegations_codec_get [get_simps] = tpm_delegations_codec.unload_lies [THEN void_resultD, unfolded charge_simps] tpm_delegations_codec.unload_NULL_lies

record TPM_DELEGATE_PUBLIC =
  dp_tag :: u16
  dp_label :: u8
  dp_pcrInfo :: TPM_PCR_INFO_SHORT
  dp_permissions :: TPM_DELEGATIONS
  dp_familyID :: u32
  dp_verificationCount :: u32

definition Trspi_LoadBlob_TPM_DELEGATE_PUBLIC :: "TPM_DELEGATE_PUBLIC \<Rightarrow> wst \<Rightarrow> wst option" where
  "Trspi_LoadBlob_TPM_DELEGATE_PUBLIC pub s = do {
     s \<leftarrow> Trspi_LoadBlob_UINT16 (dp_tag pub) s;
     s \<leftarrow> Trspi_LoadBlob_TPM_DELEGATE_LABEL (dp_label pub) s;
     s \<leftarrow> Trspi_LoadBlob_PCR_INFO_SHORT (dp_pcrInfo pub) s;
     s \<leftarrow> Trspi_LoadBlob_TPM_DELEGATIONS (dp_permissions pub) s;
     s \<leftarrow> Trspi_LoadBlob_UINT32 (dp_familyID pub) s;
     Trspi_LoadBlob_UINT32 (dp_verificationCount pub) s
   }"

definition Trspi_UnloadBlob_TPM_DELEGATE_PUBLIC :: "u8 list \<Rightarrow> TPM_DELEGATE_PUBLIC \<Rightarrow> rst \<Rightarrow> (u32 \<times> TPM_DELEGATE_PUBLIC \<times> rst) option" where
  "Trspi_UnloadBlob_TPM_DELEGATE_PUBLIC blob pub st = do {
     (x, st) \<leftarrow> Trspi_UnloadBlob_UINT16 blob st;
     let pub = pub\<lparr>dp_tag := x\<rparr>;
     (x, st) \<leftarrow> Trspi_UnloadBlob_TPM_DELEGATE_LABEL blob st;
     let pub = pub\<lparr>dp_label := x\<rparr>;
     (result, x, st) \<leftarrow> Trspi_UnloadBlob_PCR_INFO_SHORT blob (dp_pcrInfo pub) st;
     let pub = pub\<lparr>dp_pcrInfo := x\<rparr>;
     if result \<noteq> 0 then Some (result, pub, st) else do {
       (x, st) \<leftarrow> Trspi_UnloadBlob_TPM_DELEGATIONS blob (dp_permissions pub) st;
       let pub = pub\<lparr>dp_permissions := x\<rparr>;
       (x, st) \<leftarrow> Trspi_UnloadBlob_UINT32 blob st;
       let pub = pub\<lparr>dp_familyID := x\<rparr>;
       (x, st) \<leftarrow> Trspi_UnloadBlob_UINT32 blob st;
       let pub = pub\<lparr>dp_verificationCount := x\<rparr>;
       Some (TSS_SUCCESS, pub, st) }
   }"

definition Trspi_UnloadBlob_TPM_DELEGATE_PUBLIC_NULL :: "u8 list \<Rightarrow> rst \<Rightarrow> rst option" where
  "Trspi_UnloadBlob_TPM_DELEGATE_PUBLIC_NULL blob st = do {
     st \<leftarrow> Trspi_UnloadBlob_UINT16_NULL blob st;
     st \<leftarrow> Trspi_UnloadBlob_TPM_DELEGATE_LABEL_NULL blob st;
     st \<leftarrow> Trspi_UnloadBlob_PCR_INFO_SHORT_NULL blob st;
     st \<leftarrow> Trspi_UnloadBlob_TPM_DELEGATIONS_NULL blob st;
     st \<leftarrow> Trspi_UnloadBlob_UINT32_NULL blob st;
     st \<leftarrow> Trspi_UnloadBlob_UINT32_NULL blob st;
     Some st
   }"

definition enc_TPM_DELEGATE_PUBLIC :: "TPM_DELEGATE_PUBLIC \<Rightarrow> u8 list" where
  "enc_TPM_DELEGATE_PUBLIC pub =
     be16 (dp_tag pub) @ be8 (dp_label pub) @ enc_PCR_INFO_SHORT (dp_pcrInfo pub) @
       enc_TPM_DELEGATIONS (dp_permissions pub) @ be32 (dp_familyID pub) @
       be32 (dp_verificationCount pub)"

definition wf_TPM_DELEGATE_PUBLIC :: "TPM_DELEGATE_PUBLIC \<Rightarrow> bool" where
  "wf_TPM_DELEGATE_PUBLIC pub \<longleftrightarrow> wf_PCR_INFO_SHORT (dp_pcrInfo pub)"

definition room_TPM_DELEGATE_PUBLIC :: "TPM_DELEGATE_PUBLIC \<Rightarrow> bool" where
  "room_TPM_DELEGATE_PUBLIC pub \<longleftrightarrow> room_PCR_INFO_SHORT (dp_pcrInfo pub)"

definition allocs_TPM_DELEGATE_PUBLIC :: "TPM_DELEGATE_PUBLIC \<Rightarrow> nat" where
  "allocs_TPM_DELEGATE_PUBLIC pub = allocs_PCR_INFO_SHORT (dp_pcrInfo pub)"

interpretation tpm_delegate_public_codec: blob_codec Trspi_LoadBlob_TPM_DELEGATE_PUBLIC
    Trspi_UnloadBlob_TPM_DELEGATE_PUBLIC
    Trspi_UnloadBlob_TPM_DELEGATE_PUBLIC_NULL enc_TPM_DELEGATE_PUBLIC wf_TPM_DELEGATE_PUBLIC room_TPM_DELEGATE_PUBLIC allocs_TPM_DELEGATE_PUBLIC
  by unfold_locales
    (auto simp: Trspi_LoadBlob_TPM_DELEGATE_PUBLIC_def
      Trspi_UnloadBlob_TPM_DELEGATE_PUBLIC_def
      Trspi_UnloadBlob_TPM_DELEGATE_PUBLIC_NULL_def enc_TPM_DELEGATE_PUBLIC_def
      wf_TPM_DELEGATE_PUBLIC_def room_TPM_DELEGATE_PUBLIC_def
      allocs_TPM_DELEGATE_PUBLIC_def put_simps get_simps Let_def
      intro!: TPM_DELEGATE_PUBLIC.equality)

lemmas tpm_delegate_public_codec_put [put_simps] = tpm_delegate_public_codec.load_put tpm_delegate_public_codec.enc_nonempty
lemmas tpm_delegate_public_codec_get [get_simps] = tpm_delegate_public_codec.unload_lies tpm_delegate_public_codec.unload_NULL_lies

text \<open>The delegation blobs leave a pointer field as it was when its size is 0.\<close>

definition keep_UnloadBlob :: "nat \<Rightarrow> u8 list \<Rightarrow> ptr \<Rightarrow> rst \<Rightarrow> (u32 \<times> ptr \<times> rst) option" where
  "keep_UnloadBlob sz blob old st =
     (if 0 < sz then malloc_UnloadBlob sz blob st else Some (TSS_SUCCESS, old, st))"

lemma unload_keep [get_simps]:
  "lies blob st (pbytes p) \<Longrightarrow> owns n p \<Longrightarrow> plenty st \<Longrightarrow>
   keep_UnloadBlob n blob NULL st = Some (0, p, charge (pallocs p) (behind (pbytes p) st))"
  using unload_malloc [of blob st p n] by (cases "n = 0"; cases p) (auto simp: keep_UnloadBlob_def get_simps)

text \<open>The object the error paths of the delegation blobs free first, and the structure after it.\<close>

definition pub_select :: "TPM_DELEGATE_PUBLIC \<Rightarrow> ptr" where
  "pub_select pub = sel_pcrSelect (pis_pcrSelection (dp_pcrInfo pub))"

definition dangle_select :: "TPM_DELEGATE_PUBLIC \<Rightarrow> TPM_DELEGATE_PUBLIC" where
  "dangle_select pub = pub\<lparr>dp_pcrInfo := (dp_pcrInfo pub)\<lparr>pis_pcrSelection :=
     (pis_pcrSelection (dp_pcrInfo pub))\<lparr>sel_pcrSelect := dangle (pub_select pub)\<rparr>\<rparr>\<rparr>"

record TPM_DELEGATE_OWNER_BLOB =
  dob_tag :: u16
  dob_pub :: TPM_DELEGATE_PUBLIC
  dob_integrityDigest :: "u8 list"
  dob_additionalSize :: u32
  dob_additionalArea :: ptr
  dob_sensitiveSize :: u32
  dob_sensitiveArea :: ptr

definition Trspi_LoadBlob_TPM_DELEGATE_OWNER_BLOB :: "TPM_DELEGATE_OWNER_BLOB \<Rightarrow> wst \<Rightarrow> wst option" where
  "Trspi_LoadBlob_TPM_DELEGATE_OWNER_BLOB owner s = do {
     s \<leftarrow> Trspi_LoadBlob_UINT16 (dob_tag owner) s;
     s \<leftarrow> Trspi_LoadBlob_TPM_DELEGATE_PUBLIC (dob_pub owner) s;
     s \<leftarrow> Trspi_LoadBlob_DIGEST (dob_integrityDigest owner) s;
     s \<leftarrow> Trspi_LoadBlob_UINT32 (dob_additionalSize owner) s;
     s \<leftarrow> Trspi_LoadBlob (unat (dob_additionalSize owner)) (dob_additionalArea owner) s;
     s \<leftarrow> Trspi_LoadBlob_UINT32 (dob_sensitiveSize owner) s;
     Trspi_LoadBlob (unat (dob_sensitiveSize owner)) (dob_sensitiveArea owner) s
   }"

definition Trspi_UnloadBlob_TPM_DELEGATE_OWNER_BLOB ::
  "u8 list \<Rightarrow> TPM_DELEGATE_OWNER_BLOB \<Rightarrow> rst \<Rightarrow> (u32 \<times> TPM_DELEGATE_OWNER_BLOB \<times> rst) option" where
  "Trspi_UnloadBlob_TPM_DELEGATE_OWNER_BLOB blob owner st = do {
     (x, st) \<leftarrow> Trspi_UnloadBlob_UINT16 blob st;
     let owner = owner\<lparr>dob_tag := x\<rparr>;
     (result, x, st) \<leftarrow> Trspi_UnloadBlob_TPM_DELEGATE_PUBLIC blob (dob_pub owner) st;
     let owner = owner\<lparr>dob_pub := x\<rparr>;
     if result \<noteq> 0 then Some (result, owner, st) else do {
       (x, st) \<leftarrow> Trspi_UnloadBlob_DIGEST blob (dob_integrityDigest owner) st;
       let owner = owner\<lparr>dob_integrityDigest := x\<rparr>;
       (x, st) \<leftarrow> Trspi_UnloadBlob_UINT32 blob st;
       let owner = owner\<lparr>dob_additionalSize := x\<rparr>;
       (r, p, st) \<leftarrow> keep_UnloadBlob (unat (dob_additionalSize owner)) blob (dob_additionalArea owner) st;
       let owner = owner\<lparr>dob_additionalArea := p\<rparr>;
       if r \<noteq> 0 then do {
         st \<leftarrow> free (pub_select (dob_pub owner)) st;
         Some (TSPERR TSS_E_OUTOFMEMORY, owner\<lparr>dob_pub := dangle_select (dob_pub owner)\<rparr>, st) }
       else do {
         (x, st) \<leftarrow> Trspi_UnloadBlob_UINT32 blob st;
         let owner = owner\<lparr>dob_sensitiveSize := x\<rparr>;
         (r, p, st) \<leftarrow> keep_UnloadBlob (unat (dob_sensitiveSize owner)) blob (dob_sensitiveArea owner) st;
         let owner = owner\<lparr>dob_sensitiveArea := p\<rparr>;
         if r \<noteq> 0 then do {
           st \<leftarrow> free (pub_select (dob_pub owner)) st;
           st \<leftarrow> free (dob_additionalArea owner) st;
           Some (TSPERR TSS_E_OUTOFMEMORY, owner\<lparr>dob_pub := dangle_select (dob_pub owner),
             dob_additionalArea := dangle (dob_additionalArea owner)\<rparr>, st) }
         else Some (TSS_SUCCESS, owner, st) } }
   }"

definition Trspi_UnloadBlob_TPM_DELEGATE_OWNER_BLOB_NULL :: "u8 list \<Rightarrow> rst \<Rightarrow> rst option" where
  "Trspi_UnloadBlob_TPM_DELEGATE_OWNER_BLOB_NULL blob st = do {
     st \<leftarrow> Trspi_UnloadBlob_UINT16_NULL blob st;
     st \<leftarrow> Trspi_UnloadBlob_TPM_DELEGATE_PUBLIC_NULL blob st;
     st \<leftarrow> Trspi_UnloadBlob_DIGEST_NULL blob st;
     (additionalSize, st) \<leftarrow> Trspi_UnloadBlob_UINT32 blob st;
     (_, st) \<leftarrow> Trspi_UnloadBlob (unat additionalSize) blob NULL st;
     (sensitiveSize, st) \<leftarrow> Trspi_UnloadBlob_UINT32 blob st;
     (_, st) \<leftarrow> Trspi_UnloadBlob (unat sensitiveSize) blob NULL st;
     Some st
   }"

definition enc_TPM_DELEGATE_OWNER_BLOB :: "TPM_DELEGATE_OWNER_BLOB \<Rightarrow> u8 list" where
  "enc_TPM_DELEGATE_OWNER_BLOB owner =
     be16 (dob_tag owner) @ enc_TPM_DELEGATE_PUBLIC (dob_pub owner) @
       dob_integrityDigest owner @ be32 (dob_additionalSize owner) @
       pbytes (dob_additionalArea owner) @ be32 (dob_sensitiveSize owner) @
       pbytes (dob_sensitiveArea owner)"

definition wf_TPM_DELEGATE_OWNER_BLOB :: "TPM_DELEGATE_OWNER_BLOB \<Rightarrow> bool" where
  "wf_TPM_DELEGATE_OWNER_BLOB owner \<longleftrightarrow> wf_TPM_DELEGATE_PUBLIC (dob_pub owner)
     \<and> length (dob_integrityDigest owner) = 32
     \<and> owns (unat (dob_additionalSize owner)) (dob_additionalArea owner)
     \<and> owns (unat (dob_sensitiveSize owner)) (dob_sensitiveArea owner)"

definition room_TPM_DELEGATE_OWNER_BLOB :: "TPM_DELEGATE_OWNER_BLOB \<Rightarrow> bool" where
  "room_TPM_DELEGATE_OWNER_BLOB owner \<longleftrightarrow> dob_additionalArea owner = NULL \<and> dob_sensitiveArea owner = NULL
     \<and> room_TPM_DELEGATE_PUBLIC (dob_pub owner)
     \<and> length (dob_integrityDigest owner) = 32"

definition allocs_TPM_DELEGATE_OWNER_BLOB :: "TPM_DELEGATE_OWNER_BLOB \<Rightarrow> nat" where
  "allocs_TPM_DELEGATE_OWNER_BLOB owner = allocs_TPM_DELEGATE_PUBLIC (dob_pub owner)
     + pallocs (dob_additionalArea owner)
     + pallocs (dob_sensitiveArea owner)"

interpretation tpm_delegate_owner_blob_codec: blob_codec Trspi_LoadBlob_TPM_DELEGATE_OWNER_BLOB
    Trspi_UnloadBlob_TPM_DELEGATE_OWNER_BLOB
    Trspi_UnloadBlob_TPM_DELEGATE_OWNER_BLOB_NULL enc_TPM_DELEGATE_OWNER_BLOB wf_TPM_DELEGATE_OWNER_BLOB room_TPM_DELEGATE_OWNER_BLOB allocs_TPM_DELEGATE_OWNER_BLOB
  by unfold_locales
    (auto simp: Trspi_LoadBlob_TPM_DELEGATE_OWNER_BLOB_def
      Trspi_UnloadBlob_TPM_DELEGATE_OWNER_BLOB_def
      Trspi_UnloadBlob_TPM_DELEGATE_OWNER_BLOB_NULL_def
      enc_TPM_DELEGATE_OWNER_BLOB_def wf_TPM_DELEGATE_OWNER_BLOB_def
      room_TPM_DELEGATE_OWNER_BLOB_def allocs_TPM_DELEGATE_OWNER_BLOB_def
      put_simps get_simps Let_def intro!: TPM_DELEGATE_OWNER_BLOB.equality)

lemmas tpm_delegate_owner_blob_codec_put [put_simps] = tpm_delegate_owner_blob_codec.load_put tpm_delegate_owner_blob_codec.enc_nonempty
lemmas tpm_delegate_owner_blob_codec_get [get_simps] = tpm_delegate_owner_blob_codec.unload_lies tpm_delegate_owner_blob_codec.unload_NULL_lies

record TPM_DELEGATE_KEY_BLOB =
  dkb_tag :: u16
  dkb_pub :: TPM_DELEGATE_PUBLIC
  dkb_integrityDigest :: "u8 list"
  dkb_pubKeyDigest :: "u8 list"
  dkb_additionalSize :: u32
  dkb_additionalArea :: ptr
  dkb_sensitiveSize :: u32
  dkb_sensitiveArea :: ptr

definition Trspi_LoadBlob_TPM_DELEGATE_KEY_BLOB :: "TPM_DELEGATE_KEY_BLOB \<Rightarrow> wst \<Rightarrow> wst option" where
  "Trspi_LoadBlob_TPM_DELEGATE_KEY_BLOB key s = do {
     s \<leftarrow> Trspi_LoadBlob_UINT16 (dkb_tag key) s;
     s \<leftarrow> Trspi_LoadBlob_TPM_DELEGATE_PUBLIC (dkb_pub key) s;
     s \<leftarrow> Trspi_LoadBlob_DIGEST (dkb_integrityDigest key) s;
     s \<leftarrow> Trspi_LoadBlob_DIGEST (dkb_pubKeyDigest key) s;
     s \<leftarrow> Trspi_LoadBlob_UINT32 (dkb_additionalSize key) s;
     s \<leftarrow> Trspi_LoadBlob (unat (dkb_additionalSize key)) (dkb_additionalArea key) s;
     s \<leftarrow> Trspi_LoadBlob_UINT32 (dkb_sensitiveSize key) s;
     Trspi_LoadBlob (unat (dkb_sensitiveSize key)) (dkb_sensitiveArea key) s
   }"

definition Trspi_UnloadBlob_TPM_DELEGATE_KEY_BLOB ::
  "u8 list \<Rightarrow> TPM_DELEGATE_KEY_BLOB \<Rightarrow> rst \<Rightarrow> (u32 \<times> TPM_DELEGATE_KEY_BLOB \<times> rst) option" where
  "Trspi_UnloadBlob_TPM_DELEGATE_KEY_BLOB blob key st = do {
     (x, st) \<leftarrow> Trspi_UnloadBlob_UINT16 blob st;
     let key = key\<lparr>dkb_tag := x\<rparr>;
     (result, x, st) \<leftarrow> Trspi_UnloadBlob_TPM_DELEGATE_PUBLIC blob (dkb_pub key) st;
     let key = key\<lparr>dkb_pub := x\<rparr>;
     if result \<noteq> 0 then Some (result, key, st) else do {
       (x, st) \<leftarrow> Trspi_UnloadBlob_DIGEST blob (dkb_integrityDigest key) st;
       let key = key\<lparr>dkb_integrityDigest := x\<rparr>;
       (x, st) \<leftarrow> Trspi_UnloadBlob_DIGEST blob (dkb_pubKeyDigest key) st;
       let key = key\<lparr>dkb_pubKeyDigest := x\<rparr>;
       (x, st) \<leftarrow> Trspi_UnloadBlob_UINT32 blob st;
       let key = key\<lparr>dkb_additionalSize := x\<rparr>;
       (r, p, st) \<leftarrow> keep_UnloadBlob (unat (dkb_additionalSize key)) blob (dkb_additionalArea key) st;
       let key = key\<lparr>dkb_additionalArea := p\<rparr>;
       if r \<noteq> 0 then do {
         st \<leftarrow> free (pub_select (dkb_pub key)) st;
         Some (TSPERR TSS_E_OUTOFMEMORY, key\<lparr>dkb_pub := dangle_select (dkb_pub key)\<rparr>, st) }
       else do {
         (x, st) \<leftarrow> Trspi_UnloadBlob_UINT32 blob st;
         let key = key\<lparr>dkb_sensitiveSize := x\<rparr>;
         (r, p, st) \<leftarrow> keep_UnloadBlob (unat (dkb_sensitiveSize key)) blob (dkb_sensitiveArea key) st;
         let key = key\<lparr>dkb_sensitiveArea := p\<rparr>;
         if r \<noteq> 0 then do {
           st \<leftarrow> free (pub_select (dkb_pub key)) st;
           st \<leftarrow> free (dkb_additionalArea key) st;
           Some (TSPERR TSS_E_OUTOFMEMORY, key\<lparr>dkb_pub := dangle_select (dkb_pub key),
             dkb_additionalArea := dangle (dkb_additionalArea key)\<rparr>, st) }
         else Some (TSS_SUCCESS, key, st) } }
   }"

definition Trspi_UnloadBlob_TPM_DELEGATE_KEY_BLOB_NULL :: "u8 list \<Rightarrow> rst \<Rightarrow> rst option" where
  "Trspi_UnloadBlob_TPM_DELEGATE_KEY_BLOB_NULL blob st = do {
     st \<leftarrow> Trspi_UnloadBlob_UINT16_NULL blob st;
     st \<leftarrow> Trspi_UnloadBlob_TPM_DELEGATE_PUBLIC_NULL blob st;
     st \<leftarrow> Trspi_UnloadBlob_DIGEST_NULL blob st;
     st \<leftarrow> Trspi_UnloadBlob_DIGEST_NULL blob st;
     (additionalSize, st) \<leftarrow> Trspi_UnloadBlob_UINT32 blob st;
     (_, st) \<leftarrow> Trspi_UnloadBlob (unat additionalSize) blob NULL st;
     (sensitiveSize, st) \<leftarrow> Trspi_UnloadBlob_UINT32 blob st;
     (_, st) \<leftarrow> Trspi_UnloadBlob (unat sensitiveSize) blob NULL st;
     Some st
   }"

definition enc_TPM_DELEGATE_KEY_BLOB :: "TPM_DELEGATE_KEY_BLOB \<Rightarrow> u8 list" where
  "enc_TPM_DELEGATE_KEY_BLOB key =
     be16 (dkb_tag key) @ enc_TPM_DELEGATE_PUBLIC (dkb_pub key) @
       dkb_integrityDigest key @ dkb_pubKeyDigest key @ be32 (dkb_additionalSize key) @
       pbytes (dkb_additionalArea key) @ be32 (dkb_sensitiveSize key) @
       pbytes (dkb_sensitiveArea key)"

definition wf_TPM_DELEGATE_KEY_BLOB :: "TPM_DELEGATE_KEY_BLOB \<Rightarrow> bool" where
  "wf_TPM_DELEGATE_KEY_BLOB key \<longleftrightarrow> wf_TPM_DELEGATE_PUBLIC (dkb_pub key)
     \<and> length (dkb_integrityDigest key) = 32
     \<and> length (dkb_pubKeyDigest key) = 32
     \<and> owns (unat (dkb_additionalSize key)) (dkb_additionalArea key)
     \<and> owns (unat (dkb_sensitiveSize key)) (dkb_sensitiveArea key)"

definition room_TPM_DELEGATE_KEY_BLOB :: "TPM_DELEGATE_KEY_BLOB \<Rightarrow> bool" where
  "room_TPM_DELEGATE_KEY_BLOB key \<longleftrightarrow> dkb_additionalArea key = NULL \<and> dkb_sensitiveArea key = NULL
     \<and> room_TPM_DELEGATE_PUBLIC (dkb_pub key)
     \<and> length (dkb_integrityDigest key) = 32
     \<and> length (dkb_pubKeyDigest key) = 32"

definition allocs_TPM_DELEGATE_KEY_BLOB :: "TPM_DELEGATE_KEY_BLOB \<Rightarrow> nat" where
  "allocs_TPM_DELEGATE_KEY_BLOB key = allocs_TPM_DELEGATE_PUBLIC (dkb_pub key)
     + pallocs (dkb_additionalArea key)
     + pallocs (dkb_sensitiveArea key)"

interpretation tpm_delegate_key_blob_codec: blob_codec Trspi_LoadBlob_TPM_DELEGATE_KEY_BLOB
    Trspi_UnloadBlob_TPM_DELEGATE_KEY_BLOB
    Trspi_UnloadBlob_TPM_DELEGATE_KEY_BLOB_NULL enc_TPM_DELEGATE_KEY_BLOB wf_TPM_DELEGATE_KEY_BLOB room_TPM_DELEGATE_KEY_BLOB allocs_TPM_DELEGATE_KEY_BLOB
  by unfold_locales
    (auto simp: Trspi_LoadBlob_TPM_DELEGATE_KEY_BLOB_def
      Trspi_UnloadBlob_TPM_DELEGATE_KEY_BLOB_def
      Trspi_UnloadBlob_TPM_DELEGATE_KEY_BLOB_NULL_def
      enc_TPM_DELEGATE_KEY_BLOB_def wf_TPM_DELEGATE_KEY_BLOB_def
      room_TPM_DELEGATE_KEY_BLOB_def allocs_TPM_DELEGATE_KEY_BLOB_def put_simps
      get_simps Let_def intro!: TPM_DELEGATE_KEY_BLOB.equality)

lemmas tpm_delegate_key_blob_codec_put [put_simps] = tpm_delegate_key_blob_codec.load_put tpm_delegate_key_blob_codec.enc_nonempty
lemmas tpm_delegate_key_blob_codec_get [get_simps] = tpm_delegate_key_blob_codec.unload_lies tpm_delegate_key_blob_codec.unload_NULL_lies

section \<open>The tables of the service provider interface\<close>

record TSS_FAMILY_TABLE_ENTRY =
  tfe_familyID :: u32
  tfe_label :: u8
  tfe_verificationCount :: u32
  tfe_enabled :: u8
  tfe_locked :: u8

definition Trspi_LoadBlob_TSS_FAMILY_TABLE_ENTRY :: "TSS_FAMILY_TABLE_ENTRY \<Rightarrow> wst \<Rightarrow> wst option" where
  "Trspi_LoadBlob_TSS_FAMILY_TABLE_ENTRY entry s = do {
     s \<leftarrow> Trspi_LoadBlob_UINT32 (tfe_familyID entry) s;
     s \<leftarrow> Trspi_LoadBlob_BYTE (tfe_label entry) s;
     s \<leftarrow> Trspi_LoadBlob_UINT32 (tfe_verificationCount entry) s;
     s \<leftarrow> Trspi_LoadBlob_BOOL (tfe_enabled entry) s;
     Trspi_LoadBlob_BOOL (tfe_locked entry) s
   }"

definition Trspi_UnloadBlob_TSS_FAMILY_TABLE_ENTRY :: "u8 list \<Rightarrow> TSS_FAMILY_TABLE_ENTRY \<Rightarrow> rst \<Rightarrow> (TSS_FAMILY_TABLE_ENTRY \<times> rst) option" where
  "Trspi_UnloadBlob_TSS_FAMILY_TABLE_ENTRY blob entry st = do {
     (x, st) \<leftarrow> Trspi_UnloadBlob_UINT32 blob st;
     let entry = entry\<lparr>tfe_familyID := x\<rparr>;
     (x, st) \<leftarrow> Trspi_UnloadBlob_BYTE blob st;
     let entry = entry\<lparr>tfe_label := x\<rparr>;
     (x, st) \<leftarrow> Trspi_UnloadBlob_UINT32 blob st;
     let entry = entry\<lparr>tfe_verificationCount := x\<rparr>;
     (x, st) \<leftarrow> Trspi_UnloadBlob_BOOL blob st;
     let entry = entry\<lparr>tfe_enabled := x\<rparr>;
     (x, st) \<leftarrow> Trspi_UnloadBlob_BOOL blob st;
     let entry = entry\<lparr>tfe_locked := x\<rparr>;
     Some (entry, st)
   }"

definition Trspi_UnloadBlob_TSS_FAMILY_TABLE_ENTRY_NULL :: "u8 list \<Rightarrow> rst \<Rightarrow> rst option" where
  "Trspi_UnloadBlob_TSS_FAMILY_TABLE_ENTRY_NULL blob st = do {
     st \<leftarrow> Trspi_UnloadBlob_UINT32_NULL blob st;
     st \<leftarrow> Trspi_UnloadBlob_BYTE_NULL blob st;
     st \<leftarrow> Trspi_UnloadBlob_UINT32_NULL blob st;
     st \<leftarrow> Trspi_UnloadBlob_BOOL_NULL blob st;
     st \<leftarrow> Trspi_UnloadBlob_BOOL_NULL blob st;
     Some st
   }"

definition enc_TSS_FAMILY_TABLE_ENTRY :: "TSS_FAMILY_TABLE_ENTRY \<Rightarrow> u8 list" where
  "enc_TSS_FAMILY_TABLE_ENTRY entry =
     be32 (tfe_familyID entry) @ be8 (tfe_label entry) @
       be32 (tfe_verificationCount entry) @ be8 (tfe_enabled entry) @ be8 (tfe_locked entry)"

interpretation tss_family_table_entry_codec: blob_codec Trspi_LoadBlob_TSS_FAMILY_TABLE_ENTRY
    "\<lambda>blob y st. void_result (Trspi_UnloadBlob_TSS_FAMILY_TABLE_ENTRY blob y st)"
    Trspi_UnloadBlob_TSS_FAMILY_TABLE_ENTRY_NULL enc_TSS_FAMILY_TABLE_ENTRY "\<lambda>_. True" "\<lambda>_. True" "\<lambda>_. 0"
  by unfold_locales
    (auto simp: Trspi_LoadBlob_TSS_FAMILY_TABLE_ENTRY_def
      Trspi_UnloadBlob_TSS_FAMILY_TABLE_ENTRY_def
      Trspi_UnloadBlob_TSS_FAMILY_TABLE_ENTRY_NULL_def
      enc_TSS_FAMILY_TABLE_ENTRY_def put_simps get_simps Let_def
      intro!: TSS_FAMILY_TABLE_ENTRY.equality)

lemmas tss_family_table_entry_codec_put [put_simps] = tss_family_table_entry_codec.load_put tss_family_table_entry_codec.enc_nonempty
lemmas tss_family_table_entry_codec_get [get_simps] = tss_family_table_entry_codec.unload_lies [THEN void_resultD, unfolded charge_simps] tss_family_table_entry_codec.unload_NULL_lies

record TSS_PCR_INFO_SHORT =
  tpis_sizeOfSelect :: u32
  tpis_selection :: ptr
  tpis_localityAtRelease :: u8
  tpis_sizeOfDigestAtRelease :: u32
  tpis_digestAtRelease :: ptr

definition Trspi_LoadBlob_TSS_PCR_INFO_SHORT :: "TSS_PCR_INFO_SHORT \<Rightarrow> wst \<Rightarrow> wst option" where
  "Trspi_LoadBlob_TSS_PCR_INFO_SHORT pcr s = do {
     s \<leftarrow> Trspi_LoadBlob_UINT32 (tpis_sizeOfSelect pcr) s;
     s \<leftarrow> Trspi_LoadBlob (unat (tpis_sizeOfSelect pcr)) (tpis_selection pcr) s;
     s \<leftarrow> Trspi_LoadBlob_BYTE (tpis_localityAtRelease pcr) s;
     s \<leftarrow> Trspi_LoadBlob_UINT32 (tpis_sizeOfDigestAtRelease pcr) s;
     Trspi_LoadBlob (unat (tpis_sizeOfDigestAtRelease pcr)) (tpis_digestAtRelease pcr) s
   }"

definition Trspi_UnloadBlob_TSS_PCR_INFO_SHORT ::
  "u8 list \<Rightarrow> TSS_PCR_INFO_SHORT \<Rightarrow> rst \<Rightarrow> (u32 \<times> TSS_PCR_INFO_SHORT \<times> rst) option" where
  "Trspi_UnloadBlob_TSS_PCR_INFO_SHORT blob pcr st = do {
     (x, st) \<leftarrow> Trspi_UnloadBlob_UINT32 blob st;
     let pcr = pcr\<lparr>tpis_sizeOfSelect := x\<rparr>;
     (r, p, st) \<leftarrow> malloc_UnloadBlob (unat (tpis_sizeOfSelect pcr)) blob st;
     let pcr = pcr\<lparr>tpis_selection := p\<rparr>;
     if r \<noteq> 0 then Some (TSPERR TSS_E_OUTOFMEMORY, pcr, st) else do {
       (x, st) \<leftarrow> Trspi_UnloadBlob_BYTE blob st;
       let pcr = pcr\<lparr>tpis_localityAtRelease := x\<rparr>;
       (x, st) \<leftarrow> Trspi_UnloadBlob_UINT32 blob st;
       let pcr = pcr\<lparr>tpis_sizeOfDigestAtRelease := x\<rparr>;
       (r, p, st) \<leftarrow> malloc_UnloadBlob (unat (tpis_sizeOfDigestAtRelease pcr)) blob st;
       let pcr = pcr\<lparr>tpis_digestAtRelease := p\<rparr>;
       if r \<noteq> 0 then do {
         st \<leftarrow> free (tpis_selection pcr) st;
         Some (TSPERR TSS_E_OUTOFMEMORY, pcr\<lparr>tpis_selection := dangle (tpis_selection pcr)\<rparr>, st) }
       else Some (TSS_SUCCESS, pcr, st) }
   }"

definition Trspi_UnloadBlob_TSS_PCR_INFO_SHORT_NULL :: "u8 list \<Rightarrow> rst \<Rightarrow> rst option" where
  "Trspi_UnloadBlob_TSS_PCR_INFO_SHORT_NULL blob st = do {
     (sizeOfSelect, st) \<leftarrow> Trspi_UnloadBlob_UINT32 blob st;
     (_, st) \<leftarrow> Trspi_UnloadBlob (unat sizeOfSelect) blob NULL st;
     st \<leftarrow> Trspi_UnloadBlob_BYTE_NULL blob st;
     (sizeOfDigestAtRelease, st) \<leftarrow> Trspi_UnloadBlob_UINT32 blob st;
     (_, st) \<leftarrow> Trspi_UnloadBlob (unat sizeOfDigestAtRelease) blob NULL st;
     Some st
   }"

definition enc_TSS_PCR_INFO_SHORT :: "TSS_PCR_INFO_SHORT \<Rightarrow> u8 list" where
  "enc_TSS_PCR_INFO_SHORT pcr =
     be32 (tpis_sizeOfSelect pcr) @ pbytes (tpis_selection pcr) @
       be8 (tpis_localityAtRelease pcr) @ be32 (tpis_sizeOfDigestAtRelease pcr) @
       pbytes (tpis_digestAtRelease pcr)"

definition wf_TSS_PCR_INFO_SHORT :: "TSS_PCR_INFO_SHORT \<Rightarrow> bool" where
  "wf_TSS_PCR_INFO_SHORT pcr \<longleftrightarrow> owns (unat (tpis_sizeOfSelect pcr)) (tpis_selection pcr)
     \<and> owns (unat (tpis_sizeOfDigestAtRelease pcr)) (tpis_digestAtRelease pcr)"

definition allocs_TSS_PCR_INFO_SHORT :: "TSS_PCR_INFO_SHORT \<Rightarrow> nat" where
  "allocs_TSS_PCR_INFO_SHORT pcr = pallocs (tpis_selection pcr)
     + pallocs (tpis_digestAtRelease pcr)"

interpretation tss_pcr_info_short_codec: blob_codec Trspi_LoadBlob_TSS_PCR_INFO_SHORT
    Trspi_UnloadBlob_TSS_PCR_INFO_SHORT
    Trspi_UnloadBlob_TSS_PCR_INFO_SHORT_NULL enc_TSS_PCR_INFO_SHORT wf_TSS_PCR_INFO_SHORT "\<lambda>_. True" allocs_TSS_PCR_INFO_SHORT
  by unfold_locales
    (auto simp: Trspi_LoadBlob_TSS_PCR_INFO_SHORT_def
      Trspi_UnloadBlob_TSS_PCR_INFO_SHORT_def
      Trspi_UnloadBlob_TSS_PCR_INFO_SHORT_NULL_def enc_TSS_PCR_INFO_SHORT_def
      wf_TSS_PCR_INFO_SHORT_def allocs_TSS_PCR_INFO_SHORT_def put_simps get_simps
      Let_def intro!: TSS_PCR_INFO_SHORT.equality)

lemmas tss_pcr_info_short_codec_put [put_simps] = tss_pcr_info_short_codec.load_put tss_pcr_info_short_codec.enc_nonempty
lemmas tss_pcr_info_short_codec_get [get_simps] = tss_pcr_info_short_codec.unload_lies tss_pcr_info_short_codec.unload_NULL_lies

record TSS_DELEGATION_TABLE_ENTRY =
  tde_tableIndex :: u32
  tde_label :: u8
  tde_pcrInfo :: TSS_PCR_INFO_SHORT
  tde_per1 :: u32
  tde_per2 :: u32
  tde_familyID :: u32
  tde_verificationCount :: u32

definition Trspi_LoadBlob_TSS_DELEGATION_TABLE_ENTRY :: "TSS_DELEGATION_TABLE_ENTRY \<Rightarrow> wst \<Rightarrow> wst option" where
  "Trspi_LoadBlob_TSS_DELEGATION_TABLE_ENTRY entry s = do {
     s \<leftarrow> Trspi_LoadBlob_UINT32 (tde_tableIndex entry) s;
     s \<leftarrow> Trspi_LoadBlob_BYTE (tde_label entry) s;
     s \<leftarrow> Trspi_LoadBlob_TSS_PCR_INFO_SHORT (tde_pcrInfo entry) s;
     s \<leftarrow> Trspi_LoadBlob_UINT32 (tde_per1 entry) s;
     s \<leftarrow> Trspi_LoadBlob_UINT32 (tde_per2 entry) s;
     s \<leftarrow> Trspi_LoadBlob_UINT32 (tde_familyID entry) s;
     Trspi_LoadBlob_UINT32 (tde_verificationCount entry) s
   }"

definition Trspi_UnloadBlob_TSS_DELEGATION_TABLE_ENTRY :: "u8 list \<Rightarrow> TSS_DELEGATION_TABLE_ENTRY \<Rightarrow> rst \<Rightarrow> (u32 \<times> TSS_DELEGATION_TABLE_ENTRY \<times> rst) option" where
  "Trspi_UnloadBlob_TSS_DELEGATION_TABLE_ENTRY blob entry st = do {
     (x, st) \<leftarrow> Trspi_UnloadBlob_UINT32 blob st;
     let entry = entry\<lparr>tde_tableIndex := x\<rparr>;
     (x, st) \<leftarrow> Trspi_UnloadBlob_BYTE blob st;
     let entry = entry\<lparr>tde_label := x\<rparr>;
     (result, x, st) \<leftarrow> Trspi_UnloadBlob_TSS_PCR_INFO_SHORT blob (tde_pcrInfo entry) st;
     let entry = entry\<lparr>tde_pcrInfo := x\<rparr>;
     if result \<noteq> 0 then Some (result, entry, st) else do {
       (x, st) \<leftarrow> Trspi_UnloadBlob_UINT32 blob st;
       let entry = entry\<lparr>tde_per1 := x\<rparr>;
       (x, st) \<leftarrow> Trspi_UnloadBlob_UINT32 blob st;
       let entry = entry\<lparr>tde_per2 := x\<rparr>;
       (x, st) \<leftarrow> Trspi_UnloadBlob_UINT32 blob st;
       let entry = entry\<lparr>tde_familyID := x\<rparr>;
       (x, st) \<leftarrow> Trspi_UnloadBlob_UINT32 blob st;
       let entry = entry\<lparr>tde_verificationCount := x\<rparr>;
       Some (TSS_SUCCESS, entry, st) }
   }"

definition Trspi_UnloadBlob_TSS_DELEGATION_TABLE_ENTRY_NULL :: "u8 list \<Rightarrow> rst \<Rightarrow> rst option" where
  "Trspi_UnloadBlob_TSS_DELEGATION_TABLE_ENTRY_NULL blob st = do {
     st \<leftarrow> Trspi_UnloadBlob_UINT32_NULL blob st;
     st \<leftarrow> Trspi_UnloadBlob_BYTE_NULL blob st;
     st \<leftarrow> Trspi_UnloadBlob_TSS_PCR_INFO_SHORT_NULL blob st;
     st \<leftarrow> Trspi_UnloadBlob_UINT32_NULL blob st;
     st \<leftarrow> Trspi_UnloadBlob_UINT32_NULL blob st;
     st \<leftarrow> Trspi_UnloadBlob_UINT32_NULL blob st;
     st \<leftarrow> Trspi_UnloadBlob_UINT32_NULL blob st;
     Some st
   }"

definition enc_TSS_DELEGATION_TABLE_ENTRY :: "TSS_DELEGATION_TABLE_ENTRY \<Rightarrow> u8 list" where
  "enc_TSS_DELEGATION_TABLE_ENTRY entry =
     be32 (tde_tableIndex entry) @ be8 (tde_label entry) @
       enc_TSS_PCR_INFO_SHORT (tde_pcrInfo entry) @ be32 (tde_per1 entry) @
       be32 (tde_per2 entry) @ be32 (tde_familyID entry) @ be32 (tde_verificationCount entry)"

definition wf_TSS_DELEGATION_TABLE_ENTRY :: "TSS_DELEGATION_TABLE_ENTRY \<Rightarrow> bool" where
  "wf_TSS_DELEGATION_TABLE_ENTRY entry \<longleftrightarrow> wf_TSS_PCR_INFO_SHORT (tde_pcrInfo entry)"

definition allocs_TSS_DELEGATION_TABLE_ENTRY :: "TSS_DELEGATION_TABLE_ENTRY \<Rightarrow> nat" where
  "allocs_TSS_DELEGATION_TABLE_ENTRY entry = allocs_TSS_PCR_INFO_SHORT (tde_pcrInfo entry)"

interpretation tss_delegation_table_entry_codec: blob_codec Trspi_LoadBlob_TSS_DELEGATION_TABLE_ENTRY
    Trspi_UnloadBlob_TSS_DELEGATION_TABLE_ENTRY
    Trspi_UnloadBlob_TSS_DELEGATION_TABLE_ENTRY_NULL enc_TSS_DELEGATION_TABLE_ENTRY wf_TSS_DELEGATION_TABLE_ENTRY "\<lambda>_. True" allocs_TSS_DELEGATION_TABLE_ENTRY
  by unfold_locales
    (auto simp: Trspi_LoadBlob_TSS_DELEGATION_TABLE_ENTRY_def
      Trspi_UnloadBlob_TSS_DELEGATION_TABLE_ENTRY_def
      Trspi_UnloadBlob_TSS_DELEGATION_TABLE_ENTRY_NULL_def
      enc_TSS_DELEGATION_TABLE_ENTRY_def wf_TSS_DELEGATION_TABLE_ENTRY_def
      allocs_TSS_DELEGATION_TABLE_ENTRY_def put_simps get_simps Let_def
      intro!: TSS_DELEGATION_TABLE_ENTRY.equality)

lemmas tss_delegation_table_entry_codec_put [put_simps] = tss_delegation_table_entry_codec.load_put tss_delegation_table_entry_codec.enc_nonempty
lemmas tss_delegation_table_entry_codec_get [get_simps] = tss_delegation_table_entry_codec.unload_lies tss_delegation_table_entry_codec.unload_NULL_lies

end
