(* ===== verification/Trspi_Hash.thy ===== *)
theory Trspi_Hash
  imports Trspi_Keys Sch
begin

text \<open>
  The incremental hash functions of \<open>trspi/trousers.c\<close> over \<open>Trspi_HashUpdate\<close> of
  \<open>trspi/crypto/openssl/hash.c\<close>.  The digest itself is the crypto library's
  \<open>EVP_DigestUpdate\<close>, which is not part of the repository: it is the parameter \<open>upd\<close>, from a
  digest state and bytes to the next state, or \<open>None\<close> when it fails.  A hash context is the
  pointer to the digest state, \<open>None\<close> for NULL.  \<open>chunks_X\<close> are the byte strings the function
  for \<open>X\<close> hands to the digest; the lemmas say that their concatenation is the encoding of
  \<open>X\<close>, so that hashing field by field is hashing the marshalled structure.
\<close>

section \<open>Updating the digest\<close>

definition Trspi_HashUpdate ::
  "('m \<Rightarrow> u8 list \<Rightarrow> 'm option) \<Rightarrow> nat \<Rightarrow> ptr \<Rightarrow> 'm option \<Rightarrow> (u32 \<times> 'm option) option" where
  "Trspi_HashUpdate upd sz data c =
     (case c of None \<Rightarrow> Some (TSPERR TSS_E_INTERNAL_ERROR, c)
      | Some ctx \<Rightarrow>
          if data = NULL \<and> sz \<noteq> 0 then Some (TSPERR TSS_E_BAD_PARAMETER, c)
          else if sz = 0 then Some (TSS_SUCCESS, c)
          else do {
            bs \<leftarrow> deref data sz;
            case upd ctx bs of None \<Rightarrow> Some (TSPERR TSS_E_INTERNAL_ERROR, None)
            | Some ctx \<Rightarrow> Some (TSS_SUCCESS, Some ctx) })"

definition Trspi_Hash_UINT16 ::
  "('m \<Rightarrow> u8 list \<Rightarrow> 'm option) \<Rightarrow> u16 \<Rightarrow> 'm option \<Rightarrow> (u32 \<times> 'm option) option" where
  "Trspi_Hash_UINT16 upd i c = Trspi_HashUpdate upd 2 (Buf (UINT16ToArray i)) c"

definition Trspi_Hash_UINT32 ::
  "('m \<Rightarrow> u8 list \<Rightarrow> 'm option) \<Rightarrow> u32 \<Rightarrow> 'm option \<Rightarrow> (u32 \<times> 'm option) option" where
  "Trspi_Hash_UINT32 upd i c = Trspi_HashUpdate upd 4 (Buf (UINT32ToArray i)) c"

definition Trspi_Hash_UINT64 ::
  "('m \<Rightarrow> u8 list \<Rightarrow> 'm option) \<Rightarrow> u64 \<Rightarrow> 'm option \<Rightarrow> (u32 \<times> 'm option) option" where
  "Trspi_Hash_UINT64 upd i c = Trspi_HashUpdate upd 8 (Buf (UINT64ToArray i)) c"

definition Trspi_Hash_BYTE ::
  "('m \<Rightarrow> u8 list \<Rightarrow> 'm option) \<Rightarrow> u8 \<Rightarrow> 'm option \<Rightarrow> (u32 \<times> 'm option) option" where
  "Trspi_Hash_BYTE upd data c = Trspi_HashUpdate upd 1 (Buf [data]) c"

definition Trspi_Hash_BOOL ::
  "('m \<Rightarrow> u8 list \<Rightarrow> 'm option) \<Rightarrow> u8 \<Rightarrow> 'm option \<Rightarrow> (u32 \<times> 'm option) option" where
  "Trspi_Hash_BOOL upd data c = Trspi_HashUpdate upd 1 (Buf [data]) c"

text \<open>The macro for nonces, whose length is that of a SHA-1 digest.\<close>

definition Trspi_Hash_NONCE ::
  "('m \<Rightarrow> u8 list \<Rightarrow> 'm option) \<Rightarrow> u8 list \<Rightarrow> 'm option \<Rightarrow> (u32 \<times> 'm option) option" where
  "Trspi_Hash_NONCE upd d c = Trspi_HashUpdate upd 20 (Buf d) c"

definition Trspi_Hash_KEY_FLAGS ::
  "('m \<Rightarrow> u8 list \<Rightarrow> 'm option) \<Rightarrow> u32 \<Rightarrow> 'm option \<Rightarrow> (u32 \<times> 'm option) option" where
  "Trspi_Hash_KEY_FLAGS upd flags c = Trspi_Hash_UINT32 upd flags c"

text \<open>A digest that never fails, fed with a list of byte strings; an empty one is not passed on.\<close>

fun feed :: "('m \<Rightarrow> u8 list \<Rightarrow> 'm) \<Rightarrow> u8 list list \<Rightarrow> 'm \<Rightarrow> 'm" where
  "feed u [] c = c"
| "feed u (bs # bss) c = feed u bss (if bs = [] then c else u c bs)"

named_theorems hash_simps \<open>hash functions as chunks fed to the digest\<close>

lemma feed_append [hash_simps]: "feed u (xs @ ys) c = feed u ys (feed u xs c)"
  by (induction xs arbitrary: c) auto

lemma hash_owned [hash_simps]:
  "owns n p \<Longrightarrow> Trspi_HashUpdate (\<lambda>c bs. Some (u c bs)) n p (Some c) = Some (0, Some (feed u [pbytes p] c))"
  by (cases p) (auto simp: Trspi_HashUpdate_def rd_def)

lemma hash_array:
  "d \<noteq> [] \<Longrightarrow> length d = n \<Longrightarrow>
   Trspi_HashUpdate (\<lambda>c bs. Some (u c bs)) n (Buf d) (Some c) = Some (0, Some (feed u [d] c))"
  by (auto simp: Trspi_HashUpdate_def rd_def)

lemma hash_owned_if [hash_simps]:
  "owns (unat w) p \<Longrightarrow>
   (if 0 < w then Trspi_HashUpdate (\<lambda>c bs. Some (u c bs)) (unat w) p (Some c) else Some (0, Some c)) =
     Some (0, Some (feed u [pbytes p] c))"
  for w :: "'a :: len word"
  using hash_owned [of "unat w" p u c] by (cases p) (auto simp: word_gt_0 unat_eq_zero)

lemma hash_prims [hash_simps]:
  "Trspi_Hash_BYTE (\<lambda>c bs. Some (u c bs)) x (Some c) = Some (0, Some (feed u [be8 x] c))"
  "Trspi_Hash_BOOL (\<lambda>c bs. Some (u c bs)) x (Some c) = Some (0, Some (feed u [be8 x] c))"
  "Trspi_Hash_UINT16 (\<lambda>c bs. Some (u c bs)) h (Some c) = Some (0, Some (feed u [be16 h] c))"
  "Trspi_Hash_UINT32 (\<lambda>c bs. Some (u c bs)) w (Some c) = Some (0, Some (feed u [be32 w] c))"
  "Trspi_Hash_UINT64 (\<lambda>c bs. Some (u c bs)) q (Some c) = Some (0, Some (feed u [be64 q] c))"
  "Trspi_Hash_KEY_FLAGS (\<lambda>c bs. Some (u c bs)) w (Some c) = Some (0, Some (feed u [be32 w] c))"
  using hash_array [of "be8 x" 1 u c] hash_array [of "be16 h" 2 u c] hash_array [of "be32 w" 4 u c]
    hash_array [of "be64 q" 8 u c]
  by (simp_all add: Trspi_Hash_BYTE_def Trspi_Hash_BOOL_def Trspi_Hash_UINT16_def Trspi_Hash_UINT32_def
      Trspi_Hash_UINT64_def Trspi_Hash_KEY_FLAGS_def be8_def)

lemma hash_nonce [hash_simps]:
  "length d = 32 \<Longrightarrow>
   Trspi_Hash_NONCE (\<lambda>c bs. Some (u c bs)) d (Some c) = Some (0, Some (feed u [take 20 d] c))"
  by (auto simp: Trspi_Hash_NONCE_def Trspi_HashUpdate_def rd_def read_at_def)

section \<open>The structures\<close>

definition Trspi_Hash_VERSION ::
  "('m \<Rightarrow> u8 list \<Rightarrow> 'm option) \<Rightarrow> TSS_VERSION \<Rightarrow> 'm option \<Rightarrow> (u32 \<times> 'm option) option" where
  "Trspi_Hash_VERSION upd version c = do {
     (result, c) \<leftarrow> Trspi_Hash_BYTE upd (tv_bMajor version) c;
     (r, c) \<leftarrow> Trspi_Hash_BYTE upd (tv_bMinor version) c;
     let result = result OR r;
     (r, c) \<leftarrow> Trspi_Hash_BYTE upd (tv_bRevMajor version) c;
     let result = result OR r;
     (r, c) \<leftarrow> Trspi_Hash_BYTE upd (tv_bRevMinor version) c;
     let result = result OR r;
     Some (result, c)
   }"

definition chunks_VERSION :: "TSS_VERSION \<Rightarrow> u8 list list" where
  "chunks_VERSION version =
     [be8 (tv_bMajor version)] @ [be8 (tv_bMinor version)] @
       [be8 (tv_bRevMajor version)] @ [be8 (tv_bRevMinor version)]"

lemma hash_VERSION [hash_simps]:
  "Trspi_Hash_VERSION (\<lambda>c bs. Some (u c bs)) version (Some c) =
     Some (0, Some (feed u (chunks_VERSION version) c))"
  by (simp add: Trspi_Hash_VERSION_def chunks_VERSION_def hash_simps Let_def)

definition Trspi_Hash_RSA_KEY_PARMS ::
  "('m \<Rightarrow> u8 list \<Rightarrow> 'm option) \<Rightarrow> TCPA_RSA_KEY_PARMS \<Rightarrow> 'm option \<Rightarrow> (u32 \<times> 'm option) option" where
  "Trspi_Hash_RSA_KEY_PARMS upd parms c = do {
     (result, c) \<leftarrow> Trspi_Hash_UINT32 upd (rsa_keyLength parms) c;
     (r, c) \<leftarrow> Trspi_Hash_UINT32 upd (rsa_numPrimes parms) c;
     let result = result OR r;
     (r, c) \<leftarrow> Trspi_Hash_UINT32 upd (rsa_exponentSize parms) c;
     let result = result OR r;
     (r, c) \<leftarrow> (if 0 < rsa_exponentSize parms then Trspi_HashUpdate upd (unat (rsa_exponentSize parms)) (rsa_exponent parms) c else Some (0, c));
     let result = result OR r;
     Some (result, c)
   }"

definition chunks_RSA_KEY_PARMS :: "TCPA_RSA_KEY_PARMS \<Rightarrow> u8 list list" where
  "chunks_RSA_KEY_PARMS parms =
     [be32 (rsa_keyLength parms)] @ [be32 (rsa_numPrimes parms)] @
       [be32 (rsa_exponentSize parms)] @ [pbytes (rsa_exponent parms)]"

lemma hash_RSA_KEY_PARMS [hash_simps]:
  "wf_RSA_KEY_PARMS parms \<Longrightarrow> Trspi_Hash_RSA_KEY_PARMS (\<lambda>c bs. Some (u c bs)) parms (Some c) =
     Some (0, Some (feed u (chunks_RSA_KEY_PARMS parms) c))"
  by (simp add: Trspi_Hash_RSA_KEY_PARMS_def chunks_RSA_KEY_PARMS_def hash_simps Let_def wf_RSA_KEY_PARMS_def)

definition Trspi_Hash_STORE_PUBKEY ::
  "('m \<Rightarrow> u8 list \<Rightarrow> 'm option) \<Rightarrow> TCPA_STORE_PUBKEY \<Rightarrow> 'm option \<Rightarrow> (u32 \<times> 'm option) option" where
  "Trspi_Hash_STORE_PUBKEY upd store c = do {
     (result, c) \<leftarrow> Trspi_Hash_UINT32 upd (sp_keyLength store) c;
     (r, c) \<leftarrow> Trspi_HashUpdate upd (unat (sp_keyLength store)) (sp_key store) c;
     let result = result OR r;
     Some (result, c)
   }"

definition chunks_STORE_PUBKEY :: "TCPA_STORE_PUBKEY \<Rightarrow> u8 list list" where
  "chunks_STORE_PUBKEY store =
     [be32 (sp_keyLength store)] @ [pbytes (sp_key store)]"

lemma hash_STORE_PUBKEY [hash_simps]:
  "wf_STORE_PUBKEY store \<Longrightarrow> Trspi_Hash_STORE_PUBKEY (\<lambda>c bs. Some (u c bs)) store (Some c) =
     Some (0, Some (feed u (chunks_STORE_PUBKEY store) c))"
  by (simp add: Trspi_Hash_STORE_PUBKEY_def chunks_STORE_PUBKEY_def hash_simps Let_def wf_STORE_PUBKEY_def)

definition Trspi_Hash_KEY_PARMS ::
  "('m \<Rightarrow> u8 list \<Rightarrow> 'm option) \<Rightarrow> TCPA_KEY_PARMS \<Rightarrow> 'm option \<Rightarrow> (u32 \<times> 'm option) option" where
  "Trspi_Hash_KEY_PARMS upd keyInfo c = do {
     (result, c) \<leftarrow> Trspi_Hash_UINT32 upd (kp_algorithmID keyInfo) c;
     (r, c) \<leftarrow> Trspi_Hash_UINT16 upd (kp_encScheme keyInfo) c;
     let result = result OR r;
     (r, c) \<leftarrow> Trspi_Hash_UINT16 upd (kp_sigScheme keyInfo) c;
     let result = result OR r;
     (r, c) \<leftarrow> Trspi_Hash_UINT32 upd (kp_parmSize keyInfo) c;
     let result = result OR r;
     (r, c) \<leftarrow> (if 0 < kp_parmSize keyInfo then Trspi_HashUpdate upd (unat (kp_parmSize keyInfo)) (kp_parms keyInfo) c else Some (0, c));
     let result = result OR r;
     Some (result, c)
   }"

definition chunks_KEY_PARMS :: "TCPA_KEY_PARMS \<Rightarrow> u8 list list" where
  "chunks_KEY_PARMS keyInfo =
     [be32 (kp_algorithmID keyInfo)] @ [be16 (kp_encScheme keyInfo)] @
       [be16 (kp_sigScheme keyInfo)] @ [be32 (kp_parmSize keyInfo)] @
       [pbytes (kp_parms keyInfo)]"

lemma hash_KEY_PARMS [hash_simps]:
  "wf_KEY_PARMS keyInfo \<Longrightarrow> Trspi_Hash_KEY_PARMS (\<lambda>c bs. Some (u c bs)) keyInfo (Some c) =
     Some (0, Some (feed u (chunks_KEY_PARMS keyInfo) c))"
  by (simp add: Trspi_Hash_KEY_PARMS_def chunks_KEY_PARMS_def hash_simps Let_def wf_KEY_PARMS_def)

definition Trspi_Hash_PUBKEY ::
  "('m \<Rightarrow> u8 list \<Rightarrow> 'm option) \<Rightarrow> TCPA_PUBKEY \<Rightarrow> 'm option \<Rightarrow> (u32 \<times> 'm option) option" where
  "Trspi_Hash_PUBKEY upd pubKey c = do {
     (result, c) \<leftarrow> Trspi_Hash_KEY_PARMS upd (pk_algorithmParms pubKey) c;
     (r, c) \<leftarrow> Trspi_Hash_STORE_PUBKEY upd (pk_pubKey pubKey) c;
     let result = result OR r;
     Some (result, c)
   }"

definition chunks_PUBKEY :: "TCPA_PUBKEY \<Rightarrow> u8 list list" where
  "chunks_PUBKEY pubKey =
     chunks_KEY_PARMS (pk_algorithmParms pubKey) @ chunks_STORE_PUBKEY (pk_pubKey pubKey)"

lemma hash_PUBKEY [hash_simps]:
  "wf_PUBKEY pubKey \<Longrightarrow> Trspi_Hash_PUBKEY (\<lambda>c bs. Some (u c bs)) pubKey (Some c) =
     Some (0, Some (feed u (chunks_PUBKEY pubKey) c))"
  by (simp add: Trspi_Hash_PUBKEY_def chunks_PUBKEY_def hash_simps Let_def wf_PUBKEY_def)

text \<open>The selection is hashed byte by byte.\<close>

definition Trspi_Hash_PCR_SELECTION ::
  "('m \<Rightarrow> u8 list \<Rightarrow> 'm option) \<Rightarrow> TCPA_PCR_SELECTION \<Rightarrow> 'm option \<Rightarrow> (u32 \<times> 'm option) option" where
  "Trspi_Hash_PCR_SELECTION upd pcr c = do {
     (result, c) \<leftarrow> Trspi_Hash_UINT16 upd (sel_sizeOfSelect pcr) c;
     fold (\<lambda>i acc. do {
         (result, c) \<leftarrow> acc;
         b \<leftarrow> nth_byte (sel_pcrSelect pcr) i;
         (r, c) \<leftarrow> Trspi_Hash_BYTE upd b c;
         Some (result OR r, c) }) [0..<unat (sel_sizeOfSelect pcr)] (Some (result, c))
   }"

definition chunks_PCR_SELECTION :: "TCPA_PCR_SELECTION \<Rightarrow> u8 list list" where
  "chunks_PCR_SELECTION pcr = [be16 (sel_sizeOfSelect pcr)] @ map be8 (pbytes (sel_pcrSelect pcr))"

lemma hash_bytes:
  "owns n p \<Longrightarrow> k \<le> n \<Longrightarrow>
   fold (\<lambda>i acc. do {
       (result, c) \<leftarrow> acc;
       b \<leftarrow> nth_byte p i;
       (r, c) \<leftarrow> Trspi_Hash_BYTE (\<lambda>c bs. Some (u c bs)) b c;
       Some (result OR r, c) }) [0..<k] (Some (0, Some c)) =
     Some (0, Some (feed u (map be8 (take k (pbytes p))) c))"
proof (induction k)
  case (Suc k)
  then obtain d where "p = Buf d" "k < length d" by (cases p) auto
  then show ?case using Suc by (simp add: hash_simps take_Suc_conv_app_nth)
qed simp

lemma hash_PCR_SELECTION [hash_simps]:
  "wf_PCR_SELECTION pcr \<Longrightarrow> Trspi_Hash_PCR_SELECTION (\<lambda>c bs. Some (u c bs)) pcr (Some c) =
     Some (0, Some (feed u (chunks_PCR_SELECTION pcr) c))"
  by (simp add: Trspi_Hash_PCR_SELECTION_def chunks_PCR_SELECTION_def hash_simps wf_PCR_SELECTION_def
      hash_bytes length_pbytes)

definition Trspi_Hash_KEY12 ::
  "('m \<Rightarrow> u8 list \<Rightarrow> 'm option) \<Rightarrow> TPM_KEY12 \<Rightarrow> 'm option \<Rightarrow> (u32 \<times> 'm option) option" where
  "Trspi_Hash_KEY12 upd key c = do {
     (result, c) \<leftarrow> Trspi_Hash_UINT16 upd (k12_tag key) c;
     (r, c) \<leftarrow> Trspi_Hash_UINT16 upd (k12_fill key) c;
     let result = result OR r;
     (r, c) \<leftarrow> Trspi_Hash_UINT16 upd (k12_keyUsage key) c;
     let result = result OR r;
     (r, c) \<leftarrow> Trspi_Hash_KEY_FLAGS upd (k12_keyFlags key) c;
     let result = result OR r;
     (r, c) \<leftarrow> Trspi_Hash_BYTE upd (k12_authDataUsage key) c;
     let result = result OR r;
     (r, c) \<leftarrow> Trspi_Hash_KEY_PARMS upd (k12_algorithmParms key) c;
     let result = result OR r;
     (r, c) \<leftarrow> Trspi_Hash_UINT32 upd (k12_PCRInfoSize key) c;
     let result = result OR r;
     (r, c) \<leftarrow> Trspi_HashUpdate upd (unat (k12_PCRInfoSize key)) (k12_PCRInfo key) c;
     let result = result OR r;
     (r, c) \<leftarrow> Trspi_Hash_STORE_PUBKEY upd (k12_pubKey key) c;
     let result = result OR r;
     (r, c) \<leftarrow> Trspi_Hash_UINT32 upd (k12_encSize key) c;
     let result = result OR r;
     (r, c) \<leftarrow> Trspi_HashUpdate upd (unat (k12_encSize key)) (k12_encData key) c;
     let result = result OR r;
     Some (result, c)
   }"

definition chunks_KEY12 :: "TPM_KEY12 \<Rightarrow> u8 list list" where
  "chunks_KEY12 key =
     [be16 (k12_tag key)] @ [be16 (k12_fill key)] @ [be16 (k12_keyUsage key)] @
       [be32 (k12_keyFlags key)] @ [be8 (k12_authDataUsage key)] @
       chunks_KEY_PARMS (k12_algorithmParms key) @ [be32 (k12_PCRInfoSize key)] @
       [pbytes (k12_PCRInfo key)] @ chunks_STORE_PUBKEY (k12_pubKey key) @
       [be32 (k12_encSize key)] @ [pbytes (k12_encData key)]"

lemma hash_KEY12 [hash_simps]:
  "wf_KEY12 key \<Longrightarrow> Trspi_Hash_KEY12 (\<lambda>c bs. Some (u c bs)) key (Some c) =
     Some (0, Some (feed u (chunks_KEY12 key) c))"
  by (simp add: Trspi_Hash_KEY12_def chunks_KEY12_def hash_simps Let_def wf_KEY12_def)

definition Trspi_Hash_KEY ::
  "('m \<Rightarrow> u8 list \<Rightarrow> 'm option) \<Rightarrow> TCPA_KEY \<Rightarrow> 'm option \<Rightarrow> (u32 \<times> 'm option) option" where
  "Trspi_Hash_KEY upd key c = do {
     (result, c) \<leftarrow> Trspi_Hash_VERSION upd (as_TSS_VERSION (key_ver key)) c;
     (r, c) \<leftarrow> Trspi_Hash_UINT16 upd (key_keyUsage key) c;
     let result = result OR r;
     (r, c) \<leftarrow> Trspi_Hash_KEY_FLAGS upd (key_keyFlags key) c;
     let result = result OR r;
     (r, c) \<leftarrow> Trspi_Hash_BYTE upd (key_authDataUsage key) c;
     let result = result OR r;
     (r, c) \<leftarrow> Trspi_Hash_KEY_PARMS upd (key_algorithmParms key) c;
     let result = result OR r;
     (r, c) \<leftarrow> Trspi_Hash_UINT32 upd (key_PCRInfoSize key) c;
     let result = result OR r;
     (r, c) \<leftarrow> Trspi_HashUpdate upd (unat (key_PCRInfoSize key)) (key_PCRInfo key) c;
     let result = result OR r;
     (r, c) \<leftarrow> Trspi_Hash_STORE_PUBKEY upd (key_pubKey key) c;
     let result = result OR r;
     (r, c) \<leftarrow> Trspi_Hash_UINT32 upd (key_encSize key) c;
     let result = result OR r;
     (r, c) \<leftarrow> Trspi_HashUpdate upd (unat (key_encSize key)) (key_encData key) c;
     let result = result OR r;
     Some (result, c)
   }"

definition chunks_KEY :: "TCPA_KEY \<Rightarrow> u8 list list" where
  "chunks_KEY key =
     chunks_VERSION (as_TSS_VERSION (key_ver key)) @ [be16 (key_keyUsage key)] @
       [be32 (key_keyFlags key)] @ [be8 (key_authDataUsage key)] @
       chunks_KEY_PARMS (key_algorithmParms key) @ [be32 (key_PCRInfoSize key)] @
       [pbytes (key_PCRInfo key)] @ chunks_STORE_PUBKEY (key_pubKey key) @
       [be32 (key_encSize key)] @ [pbytes (key_encData key)]"

lemma hash_KEY [hash_simps]:
  "wf_KEY key \<Longrightarrow> Trspi_Hash_KEY (\<lambda>c bs. Some (u c bs)) key (Some c) =
     Some (0, Some (feed u (chunks_KEY key) c))"
  by (simp add: Trspi_Hash_KEY_def chunks_KEY_def hash_simps Let_def wf_KEY_def)

definition Trspi_Hash_UUID ::
  "('m \<Rightarrow> u8 list \<Rightarrow> 'm option) \<Rightarrow> TSS_UUID \<Rightarrow> 'm option \<Rightarrow> (u32 \<times> 'm option) option" where
  "Trspi_Hash_UUID upd uuid c = do {
     (result, c) \<leftarrow> Trspi_Hash_UINT32 upd (uuid_ulTimeLow uuid) c;
     (r, c) \<leftarrow> Trspi_Hash_UINT16 upd (uuid_usTimeMid uuid) c;
     let result = result OR r;
     (r, c) \<leftarrow> Trspi_Hash_UINT16 upd (uuid_usTimeHigh uuid) c;
     let result = result OR r;
     (r, c) \<leftarrow> Trspi_Hash_BYTE upd (uuid_bClockSeqHigh uuid) c;
     let result = result OR r;
     (r, c) \<leftarrow> Trspi_Hash_BYTE upd (uuid_bClockSeqLow uuid) c;
     let result = result OR r;
     (r, c) \<leftarrow> Trspi_HashUpdate upd 6 (Buf (uuid_rgbNode uuid)) c;
     let result = result OR r;
     Some (result, c)
   }"

definition chunks_UUID :: "TSS_UUID \<Rightarrow> u8 list list" where
  "chunks_UUID uuid =
     [be32 (uuid_ulTimeLow uuid)] @ [be16 (uuid_usTimeMid uuid)] @
       [be16 (uuid_usTimeHigh uuid)] @ [be8 (uuid_bClockSeqHigh uuid)] @
       [be8 (uuid_bClockSeqLow uuid)] @ [uuid_rgbNode uuid]"

lemma hash_UUID [hash_simps]:
  "wf_UUID uuid \<Longrightarrow> Trspi_Hash_UUID (\<lambda>c bs. Some (u c bs)) uuid (Some c) =
     Some (0, Some (feed u (chunks_UUID uuid) c))"
  by (simp add: Trspi_Hash_UUID_def chunks_UUID_def hash_simps hash_array Let_def wf_UUID_def)

definition Trspi_Hash_PCR_EVENT ::
  "('m \<Rightarrow> u8 list \<Rightarrow> 'm option) \<Rightarrow> TSS_PCR_EVENT \<Rightarrow> 'm option \<Rightarrow> (u32 \<times> 'm option) option" where
  "Trspi_Hash_PCR_EVENT upd event c = do {
     (result, c) \<leftarrow> Trspi_Hash_VERSION upd (ev_versionInfo event) c;
     (r, c) \<leftarrow> Trspi_Hash_UINT32 upd (ev_ulPcrIndex event) c;
     let result = result OR r;
     (r, c) \<leftarrow> Trspi_Hash_UINT32 upd (ev_eventType event) c;
     let result = result OR r;
     (_, c) \<leftarrow> Trspi_Hash_UINT32 upd (ev_ulPcrValueLength event) c;
     (r, c) \<leftarrow> (if 0 < ev_ulPcrValueLength event then Trspi_HashUpdate upd (unat (ev_ulPcrValueLength event)) (ev_rgbPcrValue event) c else Some (0, c));
     let result = result OR r;
     (r, c) \<leftarrow> Trspi_Hash_UINT32 upd (ev_ulEventLength event) c;
     let result = result OR r;
     (r, c) \<leftarrow> (if 0 < ev_ulEventLength event then Trspi_HashUpdate upd (unat (ev_ulEventLength event)) (ev_rgbEvent event) c else Some (0, c));
     let result = result OR r;
     Some (result, c)
   }"

definition chunks_PCR_EVENT :: "TSS_PCR_EVENT \<Rightarrow> u8 list list" where
  "chunks_PCR_EVENT event =
     chunks_VERSION (ev_versionInfo event) @ [be32 (ev_ulPcrIndex event)] @
       [be32 (ev_eventType event)] @ [be32 (ev_ulPcrValueLength event)] @
       [pbytes (ev_rgbPcrValue event)] @ [be32 (ev_ulEventLength event)] @
       [pbytes (ev_rgbEvent event)]"

lemma hash_PCR_EVENT [hash_simps]:
  "wf_PCR_EVENT event \<Longrightarrow> Trspi_Hash_PCR_EVENT (\<lambda>c bs. Some (u c bs)) event (Some c) =
     Some (0, Some (feed u (chunks_PCR_EVENT event) c))"
  by (simp add: Trspi_Hash_PCR_EVENT_def chunks_PCR_EVENT_def hash_simps Let_def wf_PCR_EVENT_def)

definition Trspi_Hash_PRIVKEY_DIGEST12 ::
  "('m \<Rightarrow> u8 list \<Rightarrow> 'm option) \<Rightarrow> TPM_KEY12 \<Rightarrow> 'm option \<Rightarrow> (u32 \<times> 'm option) option" where
  "Trspi_Hash_PRIVKEY_DIGEST12 upd key c = do {
     (result, c) \<leftarrow> Trspi_Hash_UINT16 upd (k12_tag key) c;
     (r, c) \<leftarrow> Trspi_Hash_UINT16 upd (k12_fill key) c;
     let result = result OR r;
     (r, c) \<leftarrow> Trspi_Hash_UINT16 upd (k12_keyUsage key) c;
     let result = result OR r;
     (r, c) \<leftarrow> Trspi_Hash_KEY_FLAGS upd (k12_keyFlags key) c;
     let result = result OR r;
     (r, c) \<leftarrow> Trspi_Hash_BYTE upd (k12_authDataUsage key) c;
     let result = result OR r;
     (r, c) \<leftarrow> Trspi_Hash_KEY_PARMS upd (k12_algorithmParms key) c;
     let result = result OR r;
     (r, c) \<leftarrow> Trspi_Hash_UINT32 upd (k12_PCRInfoSize key) c;
     let result = result OR r;
     (r, c) \<leftarrow> (if 0 < k12_PCRInfoSize key then Trspi_HashUpdate upd (unat (k12_PCRInfoSize key)) (k12_PCRInfo key) c else Some (0, c));
     let result = result OR r;
     (_, c) \<leftarrow> Trspi_Hash_STORE_PUBKEY upd (k12_pubKey key) c;
     Some (result, c)
   }"

definition chunks_PRIVKEY_DIGEST12 :: "TPM_KEY12 \<Rightarrow> u8 list list" where
  "chunks_PRIVKEY_DIGEST12 key =
     [be16 (k12_tag key)] @ [be16 (k12_fill key)] @ [be16 (k12_keyUsage key)] @
       [be32 (k12_keyFlags key)] @ [be8 (k12_authDataUsage key)] @
       chunks_KEY_PARMS (k12_algorithmParms key) @ [be32 (k12_PCRInfoSize key)] @
       [pbytes (k12_PCRInfo key)] @ chunks_STORE_PUBKEY (k12_pubKey key)"

lemma hash_PRIVKEY_DIGEST12 [hash_simps]:
  "wf_KEY12 key \<Longrightarrow> Trspi_Hash_PRIVKEY_DIGEST12 (\<lambda>c bs. Some (u c bs)) key (Some c) =
     Some (0, Some (feed u (chunks_PRIVKEY_DIGEST12 key) c))"
  by (simp add: Trspi_Hash_PRIVKEY_DIGEST12_def chunks_PRIVKEY_DIGEST12_def hash_simps Let_def wf_KEY12_def)

definition Trspi_Hash_PRIVKEY_DIGEST ::
  "('m \<Rightarrow> u8 list \<Rightarrow> 'm option) \<Rightarrow> TCPA_KEY \<Rightarrow> 'm option \<Rightarrow> (u32 \<times> 'm option) option" where
  "Trspi_Hash_PRIVKEY_DIGEST upd key c = do {
     (result, c) \<leftarrow> Trspi_Hash_VERSION upd (as_TSS_VERSION (key_ver key)) c;
     (r, c) \<leftarrow> Trspi_Hash_UINT16 upd (key_keyUsage key) c;
     let result = result OR r;
     (r, c) \<leftarrow> Trspi_Hash_KEY_FLAGS upd (key_keyFlags key) c;
     let result = result OR r;
     (r, c) \<leftarrow> Trspi_Hash_BYTE upd (key_authDataUsage key) c;
     let result = result OR r;
     (r, c) \<leftarrow> Trspi_Hash_KEY_PARMS upd (key_algorithmParms key) c;
     let result = result OR r;
     (r, c) \<leftarrow> Trspi_Hash_UINT32 upd (key_PCRInfoSize key) c;
     let result = result OR r;
     (r, c) \<leftarrow> (if 0 < key_PCRInfoSize key then Trspi_HashUpdate upd (unat (key_PCRInfoSize key)) (key_PCRInfo key) c else Some (0, c));
     let result = result OR r;
     (_, c) \<leftarrow> Trspi_Hash_STORE_PUBKEY upd (key_pubKey key) c;
     Some (result, c)
   }"

definition chunks_PRIVKEY_DIGEST :: "TCPA_KEY \<Rightarrow> u8 list list" where
  "chunks_PRIVKEY_DIGEST key =
     chunks_VERSION (as_TSS_VERSION (key_ver key)) @ [be16 (key_keyUsage key)] @
       [be32 (key_keyFlags key)] @ [be8 (key_authDataUsage key)] @
       chunks_KEY_PARMS (key_algorithmParms key) @ [be32 (key_PCRInfoSize key)] @
       [pbytes (key_PCRInfo key)] @ chunks_STORE_PUBKEY (key_pubKey key)"

lemma hash_PRIVKEY_DIGEST [hash_simps]:
  "wf_KEY key \<Longrightarrow> Trspi_Hash_PRIVKEY_DIGEST (\<lambda>c bs. Some (u c bs)) key (Some c) =
     Some (0, Some (feed u (chunks_PRIVKEY_DIGEST key) c))"
  by (simp add: Trspi_Hash_PRIVKEY_DIGEST_def chunks_PRIVKEY_DIGEST_def hash_simps Let_def wf_KEY_def)

definition Trspi_Hash_SYMMETRIC_KEY ::
  "('m \<Rightarrow> u8 list \<Rightarrow> 'm option) \<Rightarrow> TCPA_SYMMETRIC_KEY \<Rightarrow> 'm option \<Rightarrow> (u32 \<times> 'm option) option" where
  "Trspi_Hash_SYMMETRIC_KEY upd key c = do {
     (result, c) \<leftarrow> Trspi_Hash_UINT32 upd (sym_algId key) c;
     (r, c) \<leftarrow> Trspi_Hash_UINT16 upd (sym_encScheme key) c;
     let result = result OR r;
     (r, c) \<leftarrow> Trspi_Hash_UINT16 upd (sym_size key) c;
     let result = result OR r;
     (r, c) \<leftarrow> (if 0 < sym_size key then Trspi_HashUpdate upd (unat (sym_size key)) (sym_data key) c else Some (0, c));
     let result = result OR r;
     Some (result, c)
   }"

definition chunks_SYMMETRIC_KEY :: "TCPA_SYMMETRIC_KEY \<Rightarrow> u8 list list" where
  "chunks_SYMMETRIC_KEY key =
     [be32 (sym_algId key)] @ [be16 (sym_encScheme key)] @ [be16 (sym_size key)] @
       [pbytes (sym_data key)]"

lemma hash_SYMMETRIC_KEY [hash_simps]:
  "wf_SYMMETRIC_KEY key \<Longrightarrow> Trspi_Hash_SYMMETRIC_KEY (\<lambda>c bs. Some (u c bs)) key (Some c) =
     Some (0, Some (feed u (chunks_SYMMETRIC_KEY key) c))"
  by (simp add: Trspi_Hash_SYMMETRIC_KEY_def chunks_SYMMETRIC_KEY_def hash_simps Let_def wf_SYMMETRIC_KEY_def)

definition Trspi_Hash_IDENTITY_REQ ::
  "('m \<Rightarrow> u8 list \<Rightarrow> 'm option) \<Rightarrow> TCPA_IDENTITY_REQ \<Rightarrow> 'm option \<Rightarrow> (u32 \<times> 'm option) option" where
  "Trspi_Hash_IDENTITY_REQ upd req c = do {
     (result, c) \<leftarrow> Trspi_Hash_UINT32 upd (idr_asymSize req) c;
     (r, c) \<leftarrow> Trspi_Hash_UINT32 upd (idr_symSize req) c;
     let result = result OR r;
     (r, c) \<leftarrow> Trspi_Hash_KEY_PARMS upd (idr_asymAlgorithm req) c;
     let result = result OR r;
     (r, c) \<leftarrow> Trspi_Hash_KEY_PARMS upd (idr_symAlgorithm req) c;
     let result = result OR r;
     (r, c) \<leftarrow> Trspi_HashUpdate upd (unat (idr_asymSize req)) (idr_asymBlob req) c;
     let result = result OR r;
     (r, c) \<leftarrow> Trspi_HashUpdate upd (unat (idr_symSize req)) (idr_symBlob req) c;
     let result = result OR r;
     Some (result, c)
   }"

definition chunks_IDENTITY_REQ :: "TCPA_IDENTITY_REQ \<Rightarrow> u8 list list" where
  "chunks_IDENTITY_REQ req =
     [be32 (idr_asymSize req)] @ [be32 (idr_symSize req)] @
       chunks_KEY_PARMS (idr_asymAlgorithm req) @ chunks_KEY_PARMS (idr_symAlgorithm req) @
       [pbytes (idr_asymBlob req)] @ [pbytes (idr_symBlob req)]"

lemma hash_IDENTITY_REQ [hash_simps]:
  "wf_IDENTITY_REQ req \<Longrightarrow> Trspi_Hash_IDENTITY_REQ (\<lambda>c bs. Some (u c bs)) req (Some c) =
     Some (0, Some (feed u (chunks_IDENTITY_REQ req) c))"
  by (simp add: Trspi_Hash_IDENTITY_REQ_def chunks_IDENTITY_REQ_def hash_simps Let_def wf_IDENTITY_REQ_def)

definition Trspi_Hash_SYM_CA_ATTESTATION ::
  "('m \<Rightarrow> u8 list \<Rightarrow> 'm option) \<Rightarrow> TCPA_SYM_CA_ATTESTATION \<Rightarrow> 'm option \<Rightarrow> (u32 \<times> 'm option) option" where
  "Trspi_Hash_SYM_CA_ATTESTATION upd sca c = do {
     (result, c) \<leftarrow> Trspi_Hash_UINT32 upd (sca_credSize sca) c;
     (r, c) \<leftarrow> Trspi_Hash_KEY_PARMS upd (sca_algorithm sca) c;
     let result = result OR r;
     (r, c) \<leftarrow> Trspi_HashUpdate upd (unat (sca_credSize sca)) (sca_credential sca) c;
     let result = result OR r;
     Some (result, c)
   }"

definition chunks_SYM_CA_ATTESTATION :: "TCPA_SYM_CA_ATTESTATION \<Rightarrow> u8 list list" where
  "chunks_SYM_CA_ATTESTATION sca =
     [be32 (sca_credSize sca)] @ chunks_KEY_PARMS (sca_algorithm sca) @
       [pbytes (sca_credential sca)]"

lemma hash_SYM_CA_ATTESTATION [hash_simps]:
  "wf_SYM_CA_ATTESTATION sca \<Longrightarrow> Trspi_Hash_SYM_CA_ATTESTATION (\<lambda>c bs. Some (u c bs)) sca (Some c) =
     Some (0, Some (feed u (chunks_SYM_CA_ATTESTATION sca) c))"
  by (simp add: Trspi_Hash_SYM_CA_ATTESTATION_def chunks_SYM_CA_ATTESTATION_def hash_simps Let_def wf_SYM_CA_ATTESTATION_def)

definition Trspi_Hash_CURRENT_TICKS ::
  "('m \<Rightarrow> u8 list \<Rightarrow> 'm option) \<Rightarrow> TPM_CURRENT_TICKS \<Rightarrow> 'm option \<Rightarrow> (u32 \<times> 'm option) option" where
  "Trspi_Hash_CURRENT_TICKS upd t c = do {
     (result, c) \<leftarrow> Trspi_Hash_UINT16 upd (ct_tag t) c;
     (r, c) \<leftarrow> Trspi_Hash_UINT64 upd (ct_currentTicks t) c;
     let result = result OR r;
     (r, c) \<leftarrow> Trspi_Hash_UINT16 upd (ct_tickRate t) c;
     let result = result OR r;
     (r, c) \<leftarrow> Trspi_Hash_NONCE upd (ct_tickNonce t) c;
     let result = result OR r;
     Some (result, c)
   }"

definition chunks_CURRENT_TICKS :: "TPM_CURRENT_TICKS \<Rightarrow> u8 list list" where
  "chunks_CURRENT_TICKS t =
     [be16 (ct_tag t)] @ [be64 (ct_currentTicks t)] @ [be16 (ct_tickRate t)] @
       [take 20 (ct_tickNonce t)]"

lemma hash_CURRENT_TICKS [hash_simps]:
  "wf_CURRENT_TICKS t \<Longrightarrow> Trspi_Hash_CURRENT_TICKS (\<lambda>c bs. Some (u c bs)) t (Some c) =
     Some (0, Some (feed u (chunks_CURRENT_TICKS t) c))"
  by (simp add: Trspi_Hash_CURRENT_TICKS_def chunks_CURRENT_TICKS_def hash_simps Let_def wf_CURRENT_TICKS_def)

end
