(* ===== verification/Trspi_Properties.thy ===== *)
theory Trspi_Properties
  imports Trspi_Keys Trspi_Delegate Trspi_Hash
begin

text \<open>
  The properties of the marshalling layer: round trips, the two passes of its callers,
  unambiguous encodings, what the readers do when memory runs out, and hashing a structure
  field by field.
\<close>

section \<open>Concrete structures and states\<close>

definition ex_parms :: TCPA_KEY_PARMS where
  "ex_parms = \<lparr>kp_algorithmID = 1, kp_encScheme = 3, kp_sigScheme = 2, kp_parmSize = 2,
     kp_parms = Buf [7, 8]\<rparr>"

definition ex_store :: TCPA_STORE_PUBKEY where
  "ex_store = \<lparr>sp_keyLength = 3, sp_key = Buf [1, 2, 3]\<rparr>"

definition ex_key :: TCPA_KEY where
  "ex_key = \<lparr>key_ver = \<lparr>ver_major = 1, ver_minor = 1, ver_revMajor = 0, ver_revMinor = 0\<rparr>,
     key_keyUsage = 0x11, key_keyFlags = 0, key_authDataUsage = 1, key_algorithmParms = ex_parms,
     key_PCRInfoSize = 0, key_PCRInfo = NULL, key_pubKey = ex_store, key_encSize = 1,
     key_encData = Buf [9]\<rparr>"

definition ex_key12 :: TPM_KEY12 where
  "ex_key12 = \<lparr>k12_tag = 0x28, k12_fill = 0, k12_keyUsage = 0x11, k12_keyFlags = 0,
     k12_authDataUsage = 1, k12_algorithmParms = ex_parms, k12_PCRInfoSize = 0, k12_PCRInfo = NULL,
     k12_pubKey = ex_store, k12_encSize = 1, k12_encData = Buf [9]\<rparr>"

text \<open>A reader at the start of a blob whose allocator succeeds \<open>n\<close> times.\<close>

definition ex_st :: "nat \<Rightarrow> rst" where
  "ex_st n = \<lparr>offset = 0, alloc_ok = (\<lambda>i. i < n), nalloc = 0, live = 0\<rparr>"

definition rich_st :: rst where
  "rich_st = \<lparr>offset = 0, alloc_ok = (\<lambda>i. True), nalloc = 0, live = 0\<rparr>"

lemmas ex_defs = ex_parms_def ex_store_def ex_key_def ex_key12_def rich_st_def

lemma ex_wf [simp]: "wf_KEY ex_key" "wf_KEY12 ex_key12" "wf_KEY_PARMS ex_parms" "wf_STORE_PUBKEY ex_store"
  by (simp_all add: ex_defs wf_KEY_def wf_KEY12_def wf_KEY_PARMS_def wf_STORE_PUBKEY_def)

lemma rich_st_simps [simp]: "plenty rich_st" "offset rich_st = 0"
  by (simp_all add: plenty_def rich_st_def)

lemma length_ex [simp]: "length (enc_KEY ex_key) = 41" "length (enc_KEY12 ex_key12) = 41"
  by (simp_all add: ex_defs enc_KEY_def enc_KEY12_def enc_KEY_PARMS_def enc_STORE_PUBKEY_def
      enc_TCPA_VERSION_def)

lemma ex_key12_simps [simp]: "k12_encSize ex_key12 = 1" "k12_encData ex_key12 = Buf [9]"
  by (simp_all add: ex_key12_def)

section \<open>Key blobs\<close>

text \<open>C9: a key blob of the 1.2 format that has been written into a buffer is read back from
  the same place as the same structure, whatever the output structure held, with one heap
  object for each nonempty field; the reader without an output ends at the same offset.\<close>

theorem KEY12_roundtrip:
  assumes "wf_KEY12 k" "length b < 2 ^ 64"
    and "Trspi_LoadBlob_KEY12 k (off, Some b) = Some (off', Some b')"
    and "offset st = off" "plenty st"
  shows "Trspi_UnloadBlob_KEY12 b' y st = Some (0, k, charge (allocs_KEY12 k) (st\<lparr>offset := off'\<rparr>))
    \<and> Trspi_UnloadBlob_KEY12_NULL b' st = Some (st\<lparr>offset := off'\<rparr>)"
  using key12_codec.roundtrip(1) [OF assms(1-4), of y] key12_codec.roundtrip(2) [OF assms(1-4)] assms(5) by simp

theorem KEY12_roundtrip_witness:
  "Trspi_UnloadBlob_KEY12 (enc_KEY12 ex_key12 @ [5]) ex_key12 rich_st =
     Some (0, ex_key12, charge 3 (rich_st\<lparr>offset := 41\<rparr>))"
proof -
  have "Trspi_LoadBlob_KEY12 ex_key12 (0, Some (replicate 41 0 @ [5])) =
      Some (41, Some (enc_KEY12 ex_key12 @ [5]))"
    by (simp add: key12_codec.write_exact write_at_def)
  moreover have "allocs_KEY12 ex_key12 = 3"
    by (simp add: allocs_KEY12_def ex_defs allocs_KEY_PARMS_def allocs_STORE_PUBKEY_def)
  ultimately show ?thesis
    using KEY12_roundtrip [of ex_key12 "replicate 41 0 @ [5]" 0 41 _ rich_st ex_key12] by simp
qed

text \<open>the two passes of the callers: measuring a key with a NULL blob gives a size such that
  writing the key into any buffer of that size succeeds and fills it exactly.\<close>

theorem KEY_two_pass:
  assumes "wf_KEY k" "length (enc_KEY k) < 2 ^ 64"
  shows "\<exists>n. Trspi_LoadBlob_KEY k (0, None) = Some (n, None) \<and>
    (\<forall>b. length b = unat n \<longrightarrow> Trspi_LoadBlob_KEY k (0, Some b) = Some (n, Some (enc_KEY k)))"
  by (rule key_codec.two_pass [OF assms])

theorem KEY_two_pass_witness:
  "\<exists>n. Trspi_LoadBlob_KEY ex_key (0, None) = Some (n, None) \<and>
    (\<forall>b. length b = unat n \<longrightarrow> Trspi_LoadBlob_KEY ex_key (0, Some b) = Some (n, Some (enc_KEY ex_key)))"
  using KEY_two_pass [of ex_key] by simp

text \<open>The marshalled form of a key determines the key: two well-formed keys that leave the same
  bytes in a buffer, whatever the buffers held before, are equal and have the same size.\<close>

theorem KEY_unambiguous:
  assumes "wf_KEY k" "wf_KEY k'" "length b < 2 ^ 64" "length c < 2 ^ 64"
    and "Trspi_LoadBlob_KEY k (off, Some b) = Some (n, Some d)"
    and "Trspi_LoadBlob_KEY k' (off, Some c) = Some (m, Some d)"
  shows "k = k' \<and> n = m"
  by (rule key_codec.injective [OF assms(1,2) TrueI assms(3-6)])

theorem KEY_unambiguous_witness:
  "Trspi_LoadBlob_KEY ex_key (0, Some (replicate 41 0)) = Some (41, Some (enc_KEY ex_key))
    \<and> Trspi_LoadBlob_KEY ex_key (0, Some (replicate 41 1)) = Some (41, Some (enc_KEY ex_key))
    \<and> ex_key = ex_key \<and> (41 :: u64) = 41"
proof -
  have w: "Trspi_LoadBlob_KEY ex_key (0, Some (replicate 41 x)) = Some (41, Some (enc_KEY ex_key))" for x
    using key_codec.write_exact [of ex_key "replicate 41 x" 0] by (simp add: write_at_def)
  from KEY_unambiguous [OF _ _ _ _ w [of 0] w [of 1]] w show ?thesis by simp
qed

text \<open>The writer for the digest over the private part writes exactly the key blob without the
  size and the bytes of the encrypted part.\<close>

theorem PRIVKEY_DIGEST12_prefix:
  assumes "wf_KEY12 k"
  shows "\<exists>p. (\<forall>s. Trspi_LoadBlob_PRIVKEY_DIGEST12 k s = put p s)
    \<and> enc_KEY12 k = p @ be32 (k12_encSize k) @ pbytes (k12_encData k)"
  using assms
  by (intro exI [of _ "be16 (k12_tag k) @ be16 (k12_fill k) @ be16 (k12_keyUsage k) @
        be32 (k12_keyFlags k) @ be8 (k12_authDataUsage k) @ enc_KEY_PARMS (k12_algorithmParms k) @
        be32 (k12_PCRInfoSize k) @ pbytes (k12_PCRInfo k) @ enc_STORE_PUBKEY (k12_pubKey k)"])
    (simp add: Trspi_LoadBlob_PRIVKEY_DIGEST12_def enc_KEY12_def wf_KEY12_def put_simps)

theorem PRIVKEY_DIGEST12_prefix_witness:
  "\<exists>p. (\<forall>s. Trspi_LoadBlob_PRIVKEY_DIGEST12 ex_key12 s = put p s)
    \<and> enc_KEY12 ex_key12 = p @ be32 1 @ [9]"
  using PRIVKEY_DIGEST12_prefix [of ex_key12] by simp

section \<open>Running out of memory\<close>

lemma live_adv [simp]: "live (adv n st) = live st"
  by (simp add: adv_def)

lemma reads_live:
  "Trspi_UnloadBlob_UINT32 blob st = Some (w, st') \<Longrightarrow> live st' = live st"
  "Trspi_UnloadBlob_UINT16 blob st = Some (h, st') \<Longrightarrow> live st' = live st"
  "Trspi_UnloadBlob_BYTE blob st = Some (x, st') \<Longrightarrow> live st' = live st"
  by (auto simp: Trspi_UnloadBlob_UINT32_def Trspi_UnloadBlob_UINT16_def Trspi_UnloadBlob_BYTE_def
      split: bind_splits)

lemma malloc_UnloadBlob_cases:
  assumes "malloc_UnloadBlob n blob st = Some (r, p, st')"
  shows "r = 0 \<and> owns n p \<and> live st' = live st + pallocs p
    \<or> r = TSPERR TSS_E_OUTOFMEMORY \<and> p = NULL \<and> live st' = live st"
  using assms
  by (auto simp: malloc_UnloadBlob_def malloc_def Trspi_UnloadBlob.simps wr_def fetch_def rd_def
      split: if_splits bind_splits)

lemma KEY_PARMS_cases:
  assumes "Trspi_UnloadBlob_KEY_PARMS blob y st = Some (r, k, st')"
  shows "r = 0 \<and> wf_KEY_PARMS k \<and> live st' = live st + allocs_KEY_PARMS k
    \<or> r = TSPERR TSS_E_OUTOFMEMORY \<and> kp_parms k = NULL \<and> live st' = live st"
  using assms
  by (auto simp: Trspi_UnloadBlob_KEY_PARMS_def wf_KEY_PARMS_def allocs_KEY_PARMS_def Let_def
      dest!: reads_live malloc_UnloadBlob_cases split: bind_splits if_splits)

lemma STORE_PUBKEY_cases:
  assumes "Trspi_UnloadBlob_STORE_PUBKEY blob y st = Some (r, k, st')"
  shows "r = 0 \<and> wf_STORE_PUBKEY k \<and> live st' = live st + allocs_STORE_PUBKEY k
    \<or> r = TSPERR TSS_E_OUTOFMEMORY \<and> sp_key k = NULL \<and> live st' = live st"
  using assms
  by (auto simp: Trspi_UnloadBlob_STORE_PUBKEY_def wf_STORE_PUBKEY_def allocs_STORE_PUBKEY_def Let_def
      dest!: reads_live malloc_UnloadBlob_cases split: bind_splits if_splits)

lemma free_live:
  "free p st = Some st' \<Longrightarrow> live st = n + pallocs p \<Longrightarrow> live st' = n"
  by (cases p) auto


lemmas read_eval =
  Trspi_UnloadBlob_UINT32_def Trspi_UnloadBlob_UINT16_def Trspi_UnloadBlob_BYTE_def
  Trspi_UnloadBlob.simps fetch_def rd_def read_at_def wr_def write_at_def adv_def
  malloc_UnloadBlob_def malloc_def Decode_UINT16_def Decode_UINT32_def


text \<open>The readers of whole key blobs do not free what they have read when a later allocation
  fails: on this blob the second allocation fails, and the key parameters stay allocated.\<close>

theorem KEY_leaks:
  "\<exists>k st'. Trspi_UnloadBlob_KEY (enc_KEY ex_key) ex_key (ex_st 1) = Some (TSPERR TSS_E_OUTOFMEMORY, k, st')
     \<and> live st' = 1"
  by (simp add: Trspi_UnloadBlob_KEY_def Trspi_UnloadBlob_KEY_PARMS_def Trspi_UnloadBlob_STORE_PUBKEY_def
      Trspi_UnloadBlob_TCPA_VERSION_def Trspi_UnloadBlob_KEY_FLAGS_def enc_TCPA_VERSION_def
      ex_st_def ex_defs enc_KEY_def enc_KEY_PARMS_def enc_STORE_PUBKEY_def be8_def be16_def be32_def
      read_eval Let_def)

definition ex_req :: TCPA_IDENTITY_REQ where
  "ex_req = \<lparr>idr_asymSize = 0, idr_symSize = 0, idr_asymAlgorithm = ex_parms,
     idr_symAlgorithm = ex_parms, idr_asymBlob = NULL, idr_symBlob = NULL\<rparr>"

text \<open>The reader of an identity request reports success when memory runs out in its second
  key parameters, and leaves the pointer of the first ones dangling.\<close>

theorem IDENTITY_REQ_success_with_dangling_pointer:
  "\<exists>req st'. Trspi_UnloadBlob_IDENTITY_REQ (enc_IDENTITY_REQ ex_req) ex_req (ex_st 1) =
       Some (TSS_SUCCESS, req, st')
     \<and> kp_parms (idr_asymAlgorithm req) = Freed \<and> kp_parms (idr_symAlgorithm req) = NULL"
  by (simp add: Trspi_UnloadBlob_IDENTITY_REQ_def Trspi_UnloadBlob_KEY_PARMS_def ex_req_def
      ex_st_def ex_defs enc_IDENTITY_REQ_def enc_KEY_PARMS_def be16_def be32_def read_eval Let_def)

section \<open>Other structures\<close>

text \<open>PCR events, with the version of the event cast between the two version structures:
  what has been written is read back, and skipped by the reader without an output.\<close>

theorem PCR_EVENT_roundtrip:
  assumes "wf_PCR_EVENT e" "length b < 2 ^ 64"
    and "Trspi_LoadBlob_PCR_EVENT e (off, Some b) = Some (off', Some b')"
    and "offset st = off" "plenty st"
  shows "Trspi_UnloadBlob_PCR_EVENT b' y st = Some (0, e, charge (allocs_PCR_EVENT e) (st\<lparr>offset := off'\<rparr>))
    \<and> Trspi_UnloadBlob_PCR_EVENT_NULL b' st = Some (st\<lparr>offset := off'\<rparr>)"
  using pcr_event_codec.roundtrip(1) [OF assms(1-4), of y] pcr_event_codec.roundtrip(2) [OF assms(1-4)]
    assms(5) by simp

definition ex_event :: TSS_PCR_EVENT where
  "ex_event = \<lparr>ev_versionInfo = \<lparr>tv_bMajor = 1, tv_bMinor = 1, tv_bRevMajor = 0, tv_bRevMinor = 0\<rparr>,
     ev_ulPcrIndex = 8, ev_eventType = 1, ev_ulPcrValueLength = 0, ev_rgbPcrValue = NULL,
     ev_ulEventLength = 2, ev_rgbEvent = Buf [4, 5]\<rparr>"

lemma ex_event [simp]: "wf_PCR_EVENT ex_event" "length (enc_PCR_EVENT ex_event) = 22"
  by (simp_all add: ex_event_def wf_PCR_EVENT_def enc_PCR_EVENT_def enc_TCPA_VERSION_def)

theorem PCR_EVENT_roundtrip_witness:
  "\<exists>st'. Trspi_UnloadBlob_PCR_EVENT (enc_PCR_EVENT ex_event) ex_event rich_st = Some (0, ex_event, st')
     \<and> Trspi_UnloadBlob_PCR_EVENT_NULL (enc_PCR_EVENT ex_event) rich_st = Some (rich_st\<lparr>offset := 22\<rparr>)"
proof -
  have "Trspi_LoadBlob_PCR_EVENT ex_event (0, Some (replicate 22 0)) = Some (22, Some (enc_PCR_EVENT ex_event))"
    by (simp add: pcr_event_codec.write_exact write_at_def)
  then show ?thesis
    using PCR_EVENT_roundtrip [of ex_event "replicate 22 0" 0 22 _ rich_st ex_event] by simp
qed

text \<open>Key delegation blobs, with the public part and its PCR selection nested in them: what
  has been written is read back into a structure whose areas are NULL.\<close>

theorem DELEGATE_KEY_BLOB_roundtrip:
  assumes "wf_TPM_DELEGATE_KEY_BLOB d" "length b < 2 ^ 64"
    and "Trspi_LoadBlob_TPM_DELEGATE_KEY_BLOB d (off, Some b) = Some (off', Some b')"
    and "offset st = off" "plenty st" "room_TPM_DELEGATE_KEY_BLOB y"
  shows "Trspi_UnloadBlob_TPM_DELEGATE_KEY_BLOB b' y st =
      Some (0, d, charge (allocs_TPM_DELEGATE_KEY_BLOB d) (st\<lparr>offset := off'\<rparr>))
    \<and> Trspi_UnloadBlob_TPM_DELEGATE_KEY_BLOB_NULL b' st = Some (st\<lparr>offset := off'\<rparr>)"
  using tpm_delegate_key_blob_codec.roundtrip(1) [OF assms(1-4) assms(6)]
    tpm_delegate_key_blob_codec.roundtrip(2) [OF assms(1-4)] assms(5) by simp

definition ex_dkb :: "ptr \<Rightarrow> u32 \<Rightarrow> TPM_DELEGATE_KEY_BLOB" where
  "ex_dkb p n = \<lparr>dkb_tag = 0x2d, dkb_pub = \<lparr>dp_tag = 0x2b, dp_label = 1,
       dp_pcrInfo = \<lparr>pis_pcrSelection = \<lparr>sel_sizeOfSelect = 2, sel_pcrSelect = Buf [1, 2]\<rparr>,
         pis_localityAtRelease = 1, pis_digestAtRelease = replicate 32 3\<rparr>,
       dp_permissions = \<lparr>dg_tag = 0x2c, dg_delegateType = 2, dg_per1 = 1, dg_per2 = 0\<rparr>,
       dp_familyID = 4, dp_verificationCount = 5\<rparr>,
     dkb_integrityDigest = replicate 32 6, dkb_pubKeyDigest = replicate 32 7, dkb_additionalSize = n,
     dkb_additionalArea = p, dkb_sensitiveSize = 0, dkb_sensitiveArea = NULL\<rparr>"

lemma ex_dkb [simp]: "wf_TPM_DELEGATE_KEY_BLOB (ex_dkb (Buf [8]) 1)" "room_TPM_DELEGATE_KEY_BLOB (ex_dkb NULL 0)"
  "length (enc_TPM_DELEGATE_KEY_BLOB (ex_dkb (Buf [8]) 1)) = 137"
  by (simp_all add: ex_dkb_def wf_TPM_DELEGATE_KEY_BLOB_def wf_TPM_DELEGATE_PUBLIC_def
      wf_PCR_INFO_SHORT_def wf_PCR_SELECTION_def room_TPM_DELEGATE_KEY_BLOB_def
      room_TPM_DELEGATE_PUBLIC_def room_PCR_INFO_SHORT_def enc_TPM_DELEGATE_KEY_BLOB_def
      enc_TPM_DELEGATE_PUBLIC_def enc_PCR_INFO_SHORT_def enc_PCR_SELECTION_def enc_TPM_DELEGATIONS_def)

theorem DELEGATE_KEY_BLOB_roundtrip_witness:
  "\<exists>st'. Trspi_UnloadBlob_TPM_DELEGATE_KEY_BLOB (enc_TPM_DELEGATE_KEY_BLOB (ex_dkb (Buf [8]) 1))
     (ex_dkb NULL 0) rich_st = Some (0, ex_dkb (Buf [8]) 1, st')"
proof -
  have "Trspi_LoadBlob_TPM_DELEGATE_KEY_BLOB (ex_dkb (Buf [8]) 1) (0, Some (replicate 137 0)) =
      Some (137, Some (enc_TPM_DELEGATE_KEY_BLOB (ex_dkb (Buf [8]) 1)))"
    by (simp add: tpm_delegate_key_blob_codec.write_exact write_at_def)
  then show ?thesis
    using DELEGATE_KEY_BLOB_roundtrip [of "ex_dkb (Buf [8]) 1" "replicate 137 0" 0 137 _ rich_st "ex_dkb NULL 0"]
    by simp
qed

section \<open>Hashing field by field\<close>

lemma feed_absorbed:
  assumes "\<forall>c m xs. S c m \<longrightarrow> length xs < 2 ^ 32 \<longrightarrow> S (u c xs) (m @ xs)"
  shows "S c m \<Longrightarrow> \<forall>bs \<in> set bss. length bs < 2 ^ 32 \<Longrightarrow> S (feed u bss c) (m @ concat bss)"
  using assms by (induction bss arbitrary: c m) (auto, fastforce)

lemma be_short: "length (be8 x) < 2 ^ 32" "length (be16 h) < 2 ^ 32" "length (be32 w) < 2 ^ 32"
  by simp_all

lemma owned_short: "owns (unat w) p \<Longrightarrow> length (pbytes p) < 2 ^ 32" for w :: u32
  using unsigned_less [of w, where 'a = nat] by (simp add: length_pbytes)

lemma KEY12_chunks:
  assumes "wf_KEY12 k"
  shows "concat (chunks_KEY12 k) = enc_KEY12 k" "\<forall>bs \<in> set (chunks_KEY12 k). length bs < 2 ^ 32"
  using assms owned_short
  by (auto simp: chunks_KEY12_def enc_KEY12_def chunks_KEY_PARMS_def enc_KEY_PARMS_def
      chunks_STORE_PUBKEY_def enc_STORE_PUBKEY_def wf_KEY12_def wf_KEY_PARMS_def wf_STORE_PUBKEY_def)

text \<open>For a digest whose updates never fail and add their bytes to the message (\<open>S c m\<close>: the
  digest state \<open>c\<close> has been fed \<open>m\<close>), hashing a key field by field succeeds and feeds exactly the
  marshalled key.\<close>

theorem Hash_KEY12_marshalled:
  assumes "\<forall>c m xs. S c m \<longrightarrow> length xs < 2 ^ 32 \<longrightarrow> S (u c xs) (m @ xs)"
    and "S c m" "wf_KEY12 k"
  shows "\<exists>c'. Trspi_Hash_KEY12 (\<lambda>c bs. Some (u c bs)) k (Some c) = Some (TSS_SUCCESS, Some c')
    \<and> S c' (m @ enc_KEY12 k)"
  using feed_absorbed [of S u, OF assms(1,2), of "chunks_KEY12 k"] KEY12_chunks [OF assms(3)] assms(3)
  by (simp add: hash_simps)

theorem Hash_KEY12_marshalled_witness:
  "\<exists>c'. Trspi_Hash_KEY12 (\<lambda>c bs. Some (sch_update c bs)) ex_key12 (Some (sch_starts raw_ctx)) =
     Some (TSS_SUCCESS, Some c') \<and> absorbed c' (enc_KEY12 ex_key12)"
  using Hash_KEY12_marshalled [of absorbed sch_update "sch_starts raw_ctx" "[]" ex_key12]
    absorbed_starts [of raw_ctx] sch_update_absorbed
  by (simp add: raw_ctx_def)

text \<open>The hash of the tick counter covers only the first 20 of the 32 bytes of its nonce: two
  tick counters with nonces that differ behind byte 20 have the same hash.\<close>

theorem Hash_CURRENT_TICKS_ignores_nonce_tail:
  assumes "length (ct_tickNonce t) = 32" "length n = 32" "take 20 n = take 20 (ct_tickNonce t)"
  shows "Trspi_Hash_CURRENT_TICKS upd (t\<lparr>ct_tickNonce := n\<rparr>) c = Trspi_Hash_CURRENT_TICKS upd t c"
proof -
  have "Trspi_Hash_NONCE upd n c = Trspi_Hash_NONCE upd (ct_tickNonce t) c" for c
    using assms
    by (simp add: Trspi_Hash_NONCE_def Trspi_HashUpdate_def rd_def read_at_def split: option.split)
  then show ?thesis by (simp add: Trspi_Hash_CURRENT_TICKS_def)
qed

theorem Hash_CURRENT_TICKS_ignores_nonce_tail_witness:
  "Trspi_Hash_CURRENT_TICKS (\<lambda>c bs. Some (c @ bs))
     \<lparr>ct_tag = 0x14, ct_currentTicks = 5, ct_tickRate = 1, ct_tickNonce = replicate 20 1 @ replicate 12 2\<rparr> (Some []) =
   Trspi_Hash_CURRENT_TICKS (\<lambda>c bs. Some (c @ bs))
     \<lparr>ct_tag = 0x14, ct_currentTicks = 5, ct_tickRate = 1, ct_tickNonce = replicate 20 1 @ replicate 12 3\<rparr> (Some [])"
  using Hash_CURRENT_TICKS_ignores_nonce_tail [of "\<lparr>ct_tag = 0x14, ct_currentTicks = 5, ct_tickRate = 1,
      ct_tickNonce = replicate 20 1 @ replicate 12 3\<rparr>" "replicate 20 1 @ replicate 12 2"
      "\<lambda>c bs. Some (c @ bs)" "Some []"] by simp

end
