(* ===== verification/Tcs_Key_Cache.thy ===== *)
theory Tcs_Key_Cache
  imports Trspi_Keys
begin

text \<open>
  The key cache of the core service daemon (\<open>tcs/tcs_key_mem_cache.c\<close>, with
  \<open>clearUnknownKeys\<close> and \<open>destroy_key_refs\<close> of \<open>tcs/tcs_key.c\<close>): the list of all keys that
  have been loaded into the TPM, from the front, with their handles, reference counts and time
  stamps.

  An entry has the address \<open>kc_addr\<close> of its heap object; the parent pointer is such an
  address, and reading through it when no entry has the address is a use after free, the value
  \<open>None\<close>.  \<open>kc_ok n\<close> says whether the \<open>n\<close>-th allocation succeeds, and \<open>kc_live\<close> counts the live
  heap objects.  The TPM is outside: the handles it reports and its answers to eviction are
  arguments.  The locks are not modelled: each operation runs under the lock the code takes.
\<close>

section \<open>State\<close>

abbreviation (input) NULL_HANDLE :: u32 where "NULL_HANDLE \<equiv> 0xFFFFFFFF"
abbreviation (input) SRK_TPM_HANDLE :: u32 where "SRK_TPM_HANDLE \<equiv> 0x40000000"

record TSS_KEY =
  tk_hdr :: "u8 list"
  tk_keyUsage :: u16
  tk_keyFlags :: u32
  tk_authDataUsage :: u8
  tk_algorithmParms :: TCPA_KEY_PARMS
  tk_PCRInfoSize :: u32
  tk_PCRInfo :: ptr
  tk_pubKey :: TCPA_STORE_PUBKEY
  tk_encSize :: u32
  tk_encData :: ptr

record key_mem_cache =
  kc_addr :: nat
  kc_tpm_handle :: u32
  kc_tcs_handle :: u32
  kc_ref_cnt :: int
  kc_time_stamp :: u32
  kc_uuid :: TSS_UUID
  kc_blob :: "TSS_KEY option"
  kc_parent :: "nat option"

record kstate =
  cache :: "key_mem_cache list"
  NextTcsKeyHandle :: u32
  next_stamp :: u32
  next_addr :: nat
  kc_ok :: "nat \<Rightarrow> bool"
  kc_count :: nat
  kc_live :: nat

text \<open>One \<open>malloc\<close>; \<open>free\<close> of \<open>n\<close> objects.\<close>

definition kalloc :: "'a kstate_scheme \<Rightarrow> bool \<times> 'a kstate_scheme" where
  "kalloc st =
     (if kc_ok st (kc_count st)
      then (True, st\<lparr>kc_count := Suc (kc_count st), kc_live := Suc (kc_live st)\<rparr>)
      else (False, st\<lparr>kc_count := Suc (kc_count st)\<rparr>))"

definition kfree :: "nat \<Rightarrow> 'a kstate_scheme \<Rightarrow> 'a kstate_scheme" where
  "kfree n st = st\<lparr>kc_live := kc_live st - n\<rparr>"

text \<open>The objects a key owns, released by \<open>destroy_key_refs\<close>, and those of an entry.\<close>

definition key_objs :: "TSS_KEY \<Rightarrow> nat" where
  "key_objs key = pallocs (kp_parms (tk_algorithmParms key)) + pallocs (sp_key (tk_pubKey key))
     + pallocs (tk_encData key) + pallocs (tk_PCRInfo key)"

definition blob_objs :: "TSS_KEY option \<Rightarrow> nat" where
  "blob_objs blob = (case blob of None \<Rightarrow> 1 | Some key \<Rightarrow> Suc (Suc (key_objs key)))"

definition entry_objs :: "key_mem_cache \<Rightarrow> nat" where
  "entry_objs e = blob_objs (kc_blob e)"

text \<open>The first entry with a property, and an update of it.\<close>

fun update_first :: "('e \<Rightarrow> bool) \<Rightarrow> ('e \<Rightarrow> 'e) \<Rightarrow> 'e list \<Rightarrow> 'e list" where
  "update_first P f [] = []"
| "update_first P f (e # es) = (if P e then f e # es else e # update_first P f es)"

fun remove_first :: "('e \<Rightarrow> bool) \<Rightarrow> 'e list \<Rightarrow> 'e list" where
  "remove_first P [] = []"
| "remove_first P (e # es) = (if P e then es else e # remove_first P es)"

text \<open>The same search when testing an entry can fault.\<close>

fun find_opt :: "('e \<Rightarrow> bool option) \<Rightarrow> 'e list \<Rightarrow> 'e option option" where
  "find_opt P [] = Some None"
| "find_opt P (e # es) = do { b \<leftarrow> P e; if b then Some (Some e) else find_opt P es }"

text \<open>\<open>memcmp\<close> of \<open>n\<close> bytes through two pointers.\<close>

definition mem_eq :: "ptr \<Rightarrow> ptr \<Rightarrow> nat \<Rightarrow> bool option" where
  "mem_eq p q n = (if n = 0 then Some True
     else do { a \<leftarrow> deref p n; b \<leftarrow> deref q n; Some (a = b) })"

section \<open>Handles and time stamps\<close>

text \<open>The loop of \<open>getNextTcsKeyHandle\<close> tests the next handle, not the one it returns; it runs at
  most twice, since two reserved handles never follow each other.\<close>

definition reserved :: "u32 \<Rightarrow> bool" where
  "reserved h \<longleftrightarrow> h = SRK_TPM_HANDLE \<or> h = NULL_HANDLE"

definition getNextTcsKeyHandle :: "'a kstate_scheme \<Rightarrow> u32 \<times> 'a kstate_scheme" where
  "getNextTcsKeyHandle st =
     (let ret = NextTcsKeyHandle st; next = ret + 1
      in if reserved next then let ret = next; next = ret + 1 in (ret, st\<lparr>NextTcsKeyHandle := next\<rparr>)
         else (ret, st\<lparr>NextTcsKeyHandle := next\<rparr>))"

definition getNextTimeStamp :: "'a kstate_scheme \<Rightarrow> u32 \<times> 'a kstate_scheme" where
  "getNextTimeStamp st = (next_stamp st, st\<lparr>next_stamp := next_stamp st + 1\<rparr>)"

section \<open>Looking keys up\<close>

definition mc_get_pub_by_slot :: "u32 \<Rightarrow> 'a kstate_scheme \<Rightarrow> TCPA_STORE_PUBKEY option" where
  "mc_get_pub_by_slot tpm_handle st =
     (if tpm_handle = NULL_HANDLE then None
      else case List.find (\<lambda>tmp. kc_tpm_handle tmp = tpm_handle) (cache st) of
        Some tmp \<Rightarrow> map_option tk_pubKey (kc_blob tmp)
      | None \<Rightarrow> None)"

definition mc_get_pub_by_handle :: "u32 \<Rightarrow> 'a kstate_scheme \<Rightarrow> TCPA_STORE_PUBKEY option" where
  "mc_get_pub_by_handle tcs_handle st =
     (case List.find (\<lambda>tmp. kc_tcs_handle tmp = tcs_handle) (cache st) of
        Some tmp \<Rightarrow> map_option tk_pubKey (kc_blob tmp)
      | None \<Rightarrow> None)"

definition mc_get_handles_by_uuid :: "TSS_UUID \<Rightarrow> 'a kstate_scheme \<Rightarrow> (u32 \<times> u32) option" where
  "mc_get_handles_by_uuid uuid st =
     map_option (\<lambda>tmp. (kc_tcs_handle tmp, kc_tpm_handle tmp))
       (List.find (\<lambda>tmp. kc_uuid tmp = uuid) (cache st))"

definition mc_get_slot_by_handle :: "u32 \<Rightarrow> 'a kstate_scheme \<Rightarrow> u32" where
  "mc_get_slot_by_handle tcs_handle st =
     (case List.find (\<lambda>tmp. kc_tcs_handle tmp = tcs_handle) (cache st) of
        Some tmp \<Rightarrow> kc_tpm_handle tmp | None \<Rightarrow> NULL_HANDLE)"

definition mc_get_slot_by_handle_lock :: "u32 \<Rightarrow> 'a kstate_scheme \<Rightarrow> u32" where
  "mc_get_slot_by_handle_lock tcs_handle st =
     (case List.find (\<lambda>tmp. kc_tcs_handle tmp = tcs_handle) (cache st) of
        Some tmp \<Rightarrow> kc_tpm_handle tmp | None \<Rightarrow> NULL_HANDLE)"

definition mc_get_handle_by_slot :: "u32 \<Rightarrow> 'a kstate_scheme \<Rightarrow> u32" where
  "mc_get_handle_by_slot tpm_handle st =
     (case List.find (\<lambda>tmp. kc_tpm_handle tmp = tpm_handle) (cache st) of
        Some tmp \<Rightarrow> kc_tcs_handle tmp | None \<Rightarrow> NULL_HANDLE)"

text \<open>The look-ups by public key: three of them compare without comparing the lengths first.\<close>

definition pub_match :: "TCPA_STORE_PUBKEY \<Rightarrow> key_mem_cache \<Rightarrow> bool option" where
  "pub_match pub tmp = (case kc_blob tmp of None \<Rightarrow> Some False
     | Some key \<Rightarrow> mem_eq (sp_key (tk_pubKey key)) (sp_key pub) (unat (sp_keyLength pub)))"

definition pub_match_len :: "TCPA_STORE_PUBKEY \<Rightarrow> key_mem_cache \<Rightarrow> bool option" where
  "pub_match_len pub tmp = (case kc_blob tmp of None \<Rightarrow> Some False
     | Some key \<Rightarrow>
         if sp_keyLength (tk_pubKey key) = sp_keyLength pub
         then mem_eq (sp_key (tk_pubKey key)) (sp_key pub) (unat (sp_keyLength pub))
         else Some False)"

definition mc_get_uuid_by_pub :: "TCPA_STORE_PUBKEY \<Rightarrow> 'a kstate_scheme \<Rightarrow> TSS_UUID option option" where
  "mc_get_uuid_by_pub pub st =
     map_option (map_option kc_uuid) (find_opt (pub_match_len pub) (cache st))"

definition mc_get_slot_by_pub :: "TCPA_STORE_PUBKEY \<Rightarrow> 'a kstate_scheme \<Rightarrow> u32 option" where
  "mc_get_slot_by_pub pub st = do {
     r \<leftarrow> find_opt (pub_match pub) (cache st);
     Some (case r of Some tmp \<Rightarrow> kc_tpm_handle tmp | None \<Rightarrow> NULL_HANDLE) }"

text \<open>Reading through a parent pointer.\<close>

definition entry_at :: "nat \<Rightarrow> 'a kstate_scheme \<Rightarrow> key_mem_cache option" where
  "entry_at a st = List.find (\<lambda>tmp. kc_addr tmp = a) (cache st)"

definition mc_get_handle_by_pub :: "TCPA_STORE_PUBKEY \<Rightarrow> u32 \<Rightarrow> 'a kstate_scheme \<Rightarrow> u32 option" where
  "mc_get_handle_by_pub pub parent st = do {
     r \<leftarrow> find_opt (\<lambda>tmp. do {
         b \<leftarrow> pub_match_len pub tmp;
         if \<not> b then Some False
         else if parent \<noteq> 0 then
           (case kc_parent tmp of None \<Rightarrow> Some False
            | Some a \<Rightarrow> do { p \<leftarrow> entry_at a st; Some (parent = kc_tcs_handle p) })
         else Some True }) (cache st);
     Some (case r of Some tmp \<Rightarrow> kc_tcs_handle tmp | None \<Rightarrow> NULL_HANDLE) }"

definition mc_get_parent_pub_by_pub ::
  "TCPA_STORE_PUBKEY \<Rightarrow> 'a kstate_scheme \<Rightarrow> TCPA_STORE_PUBKEY option option" where
  "mc_get_parent_pub_by_pub pub st = do {
     r \<leftarrow> find_opt (\<lambda>tmp. if kc_tcs_handle tmp = SRK_TPM_HANDLE then Some False else pub_match pub tmp)
            (cache st);
     case r of None \<Rightarrow> Some None
     | Some tmp \<Rightarrow>
         (case kc_parent tmp of None \<Rightarrow> Some None
          | Some a \<Rightarrow> do { p \<leftarrow> entry_at a st; Some (map_option tk_pubKey (kc_blob p)) }) }"

definition mc_get_blob_by_pub :: "TCPA_STORE_PUBKEY \<Rightarrow> 'a kstate_scheme \<Rightarrow> (u32 \<times> TSS_KEY option) option" where
  "mc_get_blob_by_pub pub st = do {
     r \<leftarrow> find_opt (pub_match pub) (cache st);
     Some (case r of Some tmp \<Rightarrow> (TSS_SUCCESS, kc_blob tmp) | None \<Rightarrow> (TCSERR TSS_E_FAIL, None)) }"

definition enc_match :: "ptr \<Rightarrow> key_mem_cache \<Rightarrow> bool option" where
  "enc_match encData tmp = (case kc_blob tmp of None \<Rightarrow> Some False
     | Some key \<Rightarrow> if tk_encSize key = 0 then Some False
         else mem_eq (tk_encData key) encData (unat (tk_encSize key)))"

definition mc_get_handle_by_encdata :: "ptr \<Rightarrow> 'a kstate_scheme \<Rightarrow> u32 option" where
  "mc_get_handle_by_encdata encData st = do {
     r \<leftarrow> find_opt (enc_match encData) (cache st);
     Some (case r of Some tmp \<Rightarrow> kc_tcs_handle tmp | None \<Rightarrow> 0) }"

section \<open>Changing entries\<close>

definition mc_update_encdata ::
  "ptr \<Rightarrow> ptr \<Rightarrow> 'a kstate_scheme \<Rightarrow> (u32 \<times> 'a kstate_scheme) option" where
  "mc_update_encdata encData newEncData st = do {
     r \<leftarrow> find_opt (enc_match encData) (cache st);
     case r of None \<Rightarrow> Some (TCSERR TSS_E_INTERNAL_ERROR, st)
     | Some tmp \<Rightarrow>
         let (ok, st) = kalloc st
         in if \<not> ok then Some (TCSERR TSS_E_OUTOFMEMORY, st)
            else do {
              bs \<leftarrow> deref newEncData (unat (tk_encSize (the (kc_blob tmp))));
              let st = kfree 1 st;
              Some (TSS_SUCCESS, st\<lparr>cache := update_first (\<lambda>e. kc_addr e = kc_addr tmp)
                (\<lambda>e. e\<lparr>kc_blob := map_option (\<lambda>key. key\<lparr>tk_encData := Buf bs\<rparr>) (kc_blob e)\<rparr>) (cache st)\<rparr>) } }"

definition mc_set_parent_by_handle :: "u32 \<Rightarrow> u32 \<Rightarrow> 'a kstate_scheme \<Rightarrow> u32 \<times> 'a kstate_scheme" where
  "mc_set_parent_by_handle tcs_handle p_tcs_handle st =
     (case List.find (\<lambda>tmp. kc_tcs_handle tmp = p_tcs_handle) (cache st) of
        None \<Rightarrow> (TCSERR TSS_E_FAIL, st)
      | Some parent \<Rightarrow>
          if \<exists>tmp \<in> set (cache st). kc_tcs_handle tmp = tcs_handle
          then (TSS_SUCCESS, st\<lparr>cache := update_first (\<lambda>tmp. kc_tcs_handle tmp = tcs_handle)
                 (\<lambda>tmp. tmp\<lparr>kc_parent := Some (kc_addr parent)\<rparr>) (cache st)\<rparr>)
          else (TCSERR TSS_E_FAIL, st))"

text \<open>The time stamp and the slot that \<open>mc_set_slot_by_slot\<close> and \<open>mc_set_slot_by_handle\<close> give to
  the entry they find.\<close>

definition set_slot :: "(key_mem_cache \<Rightarrow> bool) \<Rightarrow> u32 \<Rightarrow> 'a kstate_scheme \<Rightarrow> u32 \<times> 'a kstate_scheme" where
  "set_slot P slot st =
     (if \<exists>tmp \<in> set (cache st). P tmp then
        let (stamp, st) = (if slot = NULL_HANDLE then (0, st) else getNextTimeStamp st)
        in (TSS_SUCCESS, st\<lparr>cache := update_first P
             (\<lambda>tmp. tmp\<lparr>kc_time_stamp := stamp, kc_tpm_handle := slot\<rparr>) (cache st)\<rparr>)
      else (TCSERR TSS_E_FAIL, st))"

definition mc_set_slot_by_slot :: "u32 \<Rightarrow> u32 \<Rightarrow> 'a kstate_scheme \<Rightarrow> u32 \<times> 'a kstate_scheme" where
  "mc_set_slot_by_slot old_handle new_handle st =
     set_slot (\<lambda>tmp. kc_tpm_handle tmp = old_handle) new_handle st"

definition mc_set_slot_by_handle :: "u32 \<Rightarrow> u32 \<Rightarrow> 'a kstate_scheme \<Rightarrow> u32 \<times> 'a kstate_scheme" where
  "mc_set_slot_by_handle tcs_handle tpm_handle st =
     set_slot (\<lambda>tmp. kc_tcs_handle tmp = tcs_handle) tpm_handle st"

definition mc_update_time_stamp :: "u32 \<Rightarrow> 'a kstate_scheme \<Rightarrow> u32 \<times> 'a kstate_scheme" where
  "mc_update_time_stamp tpm_handle st =
     (if \<exists>tmp \<in> set (cache st). kc_tpm_handle tmp = tpm_handle then
        let (stamp, st) = getNextTimeStamp st
        in (TSS_SUCCESS, st\<lparr>cache := update_first (\<lambda>tmp. kc_tpm_handle tmp = tpm_handle)
             (\<lambda>tmp. tmp\<lparr>kc_time_stamp := stamp\<rparr>) (cache st)\<rparr>)
      else (TCSERR TSS_E_FAIL, st))"

definition mc_set_uuid :: "u32 \<Rightarrow> TSS_UUID \<Rightarrow> 'a kstate_scheme \<Rightarrow> u32 \<times> 'a kstate_scheme" where
  "mc_set_uuid tcs_handle uuid st =
     (if \<exists>tmp \<in> set (cache st). kc_tcs_handle tmp = tcs_handle
      then (TSS_SUCCESS, st\<lparr>cache := update_first (\<lambda>tmp. kc_tcs_handle tmp = tcs_handle)
             (\<lambda>tmp. tmp\<lparr>kc_uuid := uuid\<rparr>) (cache st)\<rparr>)
      else (TCSERR TSS_E_FAIL, st))"

text \<open>The UUIDs of owner-evict keys, \<open>TSS_UUID_OWNEREVICT\<close>.\<close>

definition OWNEREVICT :: "nat \<Rightarrow> TSS_UUID" where
  "OWNEREVICT i = \<lparr>uuid_ulTimeLow = 0, uuid_usTimeMid = 0, uuid_usTimeHigh = 0,
     uuid_bClockSeqHigh = 0, uuid_bClockSeqLow = 0, uuid_rgbNode = [0, 0, 0, 0, 1, of_nat i]\<rparr>"

definition mc_find_next_ownerevict_uuid :: "'a kstate_scheme \<Rightarrow> TSS_UUID option" where
  "mc_find_next_ownerevict_uuid st =
     map_option OWNEREVICT
       (List.find (\<lambda>seed. mc_get_handles_by_uuid (OWNEREVICT seed) st = None) [0..<256])"

section \<open>Adding and removing entries\<close>

text \<open>A pointer field of the new entry: a copy of the caller's bytes when the size is positive,
  else the caller's pointer.\<close>

definition copy_field :: "u32 \<Rightarrow> ptr \<Rightarrow> 'a kstate_scheme \<Rightarrow> (bool \<times> ptr \<times> 'a kstate_scheme) option" where
  "copy_field sz p st =
     (if 0 < sz then
        let (ok, st) = kalloc st
        in if ok then do { bs \<leftarrow> deref p (unat sz); Some (True, Buf bs, st) } else Some (False, NULL, st)
      else Some (True, p, st))"

definition zero_uuid :: TSS_UUID where
  "zero_uuid = \<lparr>uuid_ulTimeLow = 0, uuid_usTimeMid = 0, uuid_usTimeHigh = 0,
     uuid_bClockSeqHigh = 0, uuid_bClockSeqLow = 0, uuid_rgbNode = replicate 6 0\<rparr>"

text \<open>The copy of the key blob, with the error paths of the code: what is freed on each.\<close>

definition copy_blob :: "TSS_KEY \<Rightarrow> 'a kstate_scheme \<Rightarrow> (TSS_KEY option \<times> 'a kstate_scheme) option" where
  "copy_blob key_blob st =
     (let (ok, st) = kalloc st
      in if \<not> ok then Some (None, kfree 1 st)
         else do {
           (ok, parms, st) \<leftarrow> copy_field (kp_parmSize (tk_algorithmParms key_blob))
             (kp_parms (tk_algorithmParms key_blob)) st;
           if \<not> ok then Some (None, kfree 2 st) else do {
           (ok, key, st) \<leftarrow> copy_field (sp_keyLength (tk_pubKey key_blob)) (sp_key (tk_pubKey key_blob)) st;
           if \<not> ok then Some (None, kfree (2 + pallocs parms) st) else do {
           (ok, info, st) \<leftarrow> copy_field (tk_PCRInfoSize key_blob) (tk_PCRInfo key_blob) st;
           if \<not> ok then Some (None, kfree (2 + pallocs key + pallocs parms) st) else do {
           (ok, encData, st) \<leftarrow> copy_field (tk_encSize key_blob) (tk_encData key_blob) st;
           if \<not> ok then Some (None, kfree (2 + pallocs info + pallocs key + pallocs parms) st) else
           Some (Some (key_blob\<lparr>tk_algorithmParms := (tk_algorithmParms key_blob)\<lparr>kp_parms := parms\<rparr>,
             tk_pubKey := (tk_pubKey key_blob)\<lparr>sp_key := key\<rparr>, tk_PCRInfo := info,
             tk_encData := encData\<rparr>), st) } } } })"

text \<open>The new entry goes to the front; the first entry of all is the storage root key and starts
  with one reference.\<close>

definition push_entry :: "u32 \<Rightarrow> u32 \<Rightarrow> u32 \<Rightarrow> TSS_KEY option \<Rightarrow> 'a kstate_scheme \<Rightarrow> 'a kstate_scheme" where
  "push_entry tcs_handle tpm_handle stamp blob st =
     st\<lparr>cache := \<lparr>kc_addr = next_addr st, kc_tpm_handle = tpm_handle, kc_tcs_handle = tcs_handle,
            kc_ref_cnt = (if cache st = [] then 1 else 0), kc_time_stamp = stamp, kc_uuid = zero_uuid,
            kc_blob = blob, kc_parent = None\<rparr> # cache st,
        next_addr := Suc (next_addr st)\<rparr>"

definition mc_add_entry ::
  "u32 \<Rightarrow> u32 \<Rightarrow> TSS_KEY option \<Rightarrow> 'a kstate_scheme \<Rightarrow> (u32 \<times> 'a kstate_scheme) option" where
  "mc_add_entry tcs_handle tpm_handle key_blob st =
     (if \<exists>tmp \<in> set (cache st). tcs_handle = kc_tcs_handle tmp then Some (TSS_SUCCESS, st)
      else let (ok, st) = kalloc st
        in if \<not> ok then Some (TCSERR TSS_E_OUTOFMEMORY, st)
           else let (stamp, st) = (if tpm_handle \<noteq> NULL_HANDLE then getNextTimeStamp st else (0, st))
             in case key_blob of
                  None \<Rightarrow> Some (TSS_SUCCESS, push_entry tcs_handle tpm_handle stamp None st)
                | Some blob \<Rightarrow> do {
                    (r, st) \<leftarrow> copy_blob blob st;
                    case r of None \<Rightarrow> Some (TCSERR TSS_E_OUTOFMEMORY, st)
                    | Some key \<Rightarrow> Some (TSS_SUCCESS, push_entry tcs_handle tpm_handle stamp (Some key) st) })"

text \<open>
  The variant for start-up.  An entry with the same handle is removed in the middle of the walk
  over the list, which goes on from the freed entry: a use after free.  The PCR information is
  not copied, so the new entry keeps the caller's pointer, and two error paths forget the copy
  of the key parameters.
\<close>

definition init_blob :: "TSS_KEY \<Rightarrow> 'a kstate_scheme \<Rightarrow> (TSS_KEY option \<times> 'a kstate_scheme) option" where
  "init_blob key_blob st =
     (let (ok, st) = kalloc st
      in if \<not> ok then Some (None, kfree 1 st)
         else do {
           (ok, parms, st) \<leftarrow> copy_field (kp_parmSize (tk_algorithmParms key_blob))
             (kp_parms (tk_algorithmParms key_blob)) st;
           if \<not> ok then Some (None, kfree 2 st) else
           let (ok, st) = kalloc st
           in if \<not> ok then Some (None, kfree 2 st) else do {
           key \<leftarrow> deref (sp_key (tk_pubKey key_blob)) (unat (sp_keyLength (tk_pubKey key_blob)));
           (ok, encData, st) \<leftarrow> copy_field (tk_encSize key_blob) (tk_encData key_blob) st;
           if \<not> ok then Some (None, kfree 3 st) else
           Some (Some (key_blob\<lparr>tk_algorithmParms := (tk_algorithmParms key_blob)\<lparr>kp_parms := parms\<rparr>,
             tk_pubKey := (tk_pubKey key_blob)\<lparr>sp_key := Buf key\<rparr>, tk_encData := encData\<rparr>), st) } })"

definition mc_add_entry_init ::
  "u32 \<Rightarrow> u32 \<Rightarrow> TSS_KEY option \<Rightarrow> TSS_UUID \<Rightarrow> 'a kstate_scheme \<Rightarrow> (u32 \<times> 'a kstate_scheme) option" where
  "mc_add_entry_init tcs_handle tpm_handle key_blob uuid st =
     (if \<exists>tmp \<in> set (cache st). tcs_handle = kc_tcs_handle tmp then None
      else let (ok, st) = kalloc st
        in if \<not> ok then Some (TCSERR TSS_E_OUTOFMEMORY, st)
           else let (stamp, st) = (if tpm_handle \<noteq> NULL_HANDLE then getNextTimeStamp st else (0, st));
                    add = (\<lambda>blob st. let st = push_entry tcs_handle tpm_handle stamp blob st
                      in st\<lparr>cache := (hd (cache st))\<lparr>kc_uuid := uuid, kc_ref_cnt := 1\<rparr> # tl (cache st)\<rparr>)
             in case key_blob of
                  None \<Rightarrow> Some (TSS_SUCCESS, add None st)
                | Some blob \<Rightarrow> do {
                    (r, st) \<leftarrow> init_blob blob st;
                    case r of None \<Rightarrow> Some (TCSERR TSS_E_OUTOFMEMORY, st)
                    | Some key \<Rightarrow> Some (TSS_SUCCESS, add (Some key) st) })"

definition mc_remove_entry :: "u32 \<Rightarrow> 'a kstate_scheme \<Rightarrow> u32 \<times> 'a kstate_scheme" where
  "mc_remove_entry tcs_handle st =
     (case List.find (\<lambda>cur. kc_tcs_handle cur = tcs_handle) (cache st) of
        None \<Rightarrow> (TCSERR TSS_E_FAIL, st)
      | Some cur \<Rightarrow> (TSS_SUCCESS, kfree (entry_objs cur)
          (st\<lparr>cache := remove_first (\<lambda>cur. kc_tcs_handle cur = tcs_handle) (cache st)\<rparr>)))"

section \<open>Reference counts\<close>

definition key_mgr_inc_ref_count :: "u32 \<Rightarrow> 'a kstate_scheme \<Rightarrow> u32 \<times> 'a kstate_scheme" where
  "key_mgr_inc_ref_count key_handle st =
     (if \<exists>cur \<in> set (cache st). kc_tcs_handle cur = key_handle
      then (TSS_SUCCESS, st\<lparr>cache := update_first (\<lambda>cur. kc_tcs_handle cur = key_handle)
             (\<lambda>cur. cur\<lparr>kc_ref_cnt := kc_ref_cnt cur + 1\<rparr>) (cache st)\<rparr>)
      else (TCSERR TSS_E_FAIL, st))"

definition key_mgr_dec_ref_count :: "u32 \<Rightarrow> 'a kstate_scheme \<Rightarrow> u32 \<times> 'a kstate_scheme" where
  "key_mgr_dec_ref_count key_handle st =
     (if \<exists>cur \<in> set (cache st). kc_tcs_handle cur = key_handle
      then (TSS_SUCCESS, st\<lparr>cache := update_first (\<lambda>cur. kc_tcs_handle cur = key_handle)
             (\<lambda>cur. cur\<lparr>kc_ref_cnt := kc_ref_cnt cur - 1\<rparr>) (cache st)\<rparr>)
      else (TCSERR TSS_E_FAIL, st))"

text \<open>The sweep: the new state and the slots the TPM is told to evict, in order.  The answers of
  the TPM are ignored.\<close>

definition key_mgr_ref_count :: "'a kstate_scheme \<Rightarrow> u32 list \<times> 'a kstate_scheme" where
  "key_mgr_ref_count st =
     (let dead = filter (\<lambda>cur. kc_ref_cnt cur = 0) (cache st)
      in (filter (\<lambda>slot. slot \<noteq> NULL_HANDLE) (map kc_tpm_handle dead),
          kfree (sum_list (map entry_objs dead))
            (st\<lparr>cache := filter (\<lambda>cur. kc_ref_cnt cur \<noteq> 0) (cache st)\<rparr>)))"

section \<open>Eviction\<close>

text \<open>
  \<open>clearUnknownKeys\<close> asks the TPM for its loaded keys (\<open>loaded\<close>: a result code, a response
  that cannot be parsed, or the handles) and evicts those that have no entry; \<open>evict\<close> gives the TPM's answers.  The result is the code,
  the count if it has been stored, and the slots evicted.  A failing eviction ends the loop but
  not with an error.
\<close>

fun clear_loop :: "(u32 \<Rightarrow> u32) \<Rightarrow> 'a kstate_scheme \<Rightarrow> u32 list \<Rightarrow> u32 \<Rightarrow> u32 option \<times> u32 list" where
  "clear_loop evict st [] count = (Some count, [])"
| "clear_loop evict st (h # hs) count =
     (if \<exists>tmp \<in> set (cache st). kc_tpm_handle tmp = h then clear_loop evict st hs count
      else if evict h \<noteq> 0 then (None, [])
      else let (c, es) = clear_loop evict st hs (count + 1) in (c, h # es))"

definition clearUnknownKeys ::
  "(u32 + u32 list option) \<Rightarrow> (u32 \<Rightarrow> u32) \<Rightarrow> 'a kstate_scheme \<Rightarrow> u32 \<times> u32 option \<times> u32 list" where
  "clearUnknownKeys loaded evict st =
     (case loaded of Inl result \<Rightarrow> (result, None, [])
      | Inr None \<Rightarrow> (TSS_SUCCESS, None, [])
      | Inr (Some handles) \<Rightarrow> (TSS_SUCCESS, clear_loop evict st handles 0))"

text \<open>The search of \<open>evictFirstKey\<close> for the least recently used key.\<close>

definition lru_step :: "u32 \<Rightarrow> key_mem_cache \<Rightarrow> u32 \<times> u32 \<Rightarrow> u32 \<times> u32" where
  "lru_step parent_tcs_handle tmp = (\<lambda>(tpm_handle_to_evict, smallestTimeStamp).
     if kc_tpm_handle tmp \<noteq> NULL_HANDLE \<and> kc_tpm_handle tmp \<noteq> SRK_TPM_HANDLE
        \<and> kc_tcs_handle tmp \<noteq> parent_tcs_handle \<and> kc_time_stamp tmp < smallestTimeStamp
     then (kc_tpm_handle tmp, kc_time_stamp tmp)
     else (tpm_handle_to_evict, smallestTimeStamp))"

text \<open>\<open>None\<close> is the use of the count that \<open>clearUnknownKeys\<close> has not stored.\<close>

definition evictFirstKey ::
  "(u32 + u32 list option) \<Rightarrow> (u32 \<Rightarrow> u32) \<Rightarrow> u32 \<Rightarrow> 'a kstate_scheme \<Rightarrow> (u32 \<times> 'a kstate_scheme) option" where
  "evictFirstKey loaded evict parent_tcs_handle st =
     (let (result, count, es) = clearUnknownKeys loaded evict st
      in if result \<noteq> 0 then Some (result, st)
         else do {
           count \<leftarrow> count;
           if 0 < count then Some (TSS_SUCCESS, st)
           else
             let (tpm_handle_to_evict, smallestTimeStamp) =
               fold (lru_step parent_tcs_handle) (cache st) (NULL_HANDLE, 0xFFFFFFFF)
             in if tpm_handle_to_evict \<noteq> NULL_HANDLE then
                  (if evict tpm_handle_to_evict \<noteq> 0 then Some (evict tpm_handle_to_evict, st)
                   else Some (mc_set_slot_by_slot tpm_handle_to_evict NULL_HANDLE st))
                else Some (TSS_SUCCESS, st) })"

section \<open>Searching and updating lists\<close>

lemma find_first_some: "List.find P xs = Some x \<Longrightarrow> x \<in> set xs \<and> P x"
  by (metis find_Some_iff nth_mem)

lemma find_first_none: "List.find P xs = None \<longleftrightarrow> (\<forall>x \<in> set xs. \<not> P x)"
  by (auto simp: find_None_iff)

lemma find_opt_total:
  "\<forall>e \<in> set es. P e = Some (Q e) \<Longrightarrow> find_opt P es = Some (List.find Q es)"
  by (induction es) auto

text \<open>With keys that identify the entries, an update of the first match is a map.\<close>

lemma update_first_key:
  "distinct (map k es) \<Longrightarrow> update_first (\<lambda>e. k e = h) f es = map (\<lambda>e. if k e = h then f e else e) es"
proof (induction es)
  case (Cons e es)
  then have "k e = h \<Longrightarrow> map (\<lambda>e. if k e = h then f e else e) es = es"
    by (intro map_idI) (auto simp: image_iff)
  then show ?case using Cons by simp
qed simp

lemma remove_first_key:
  "distinct (map k es) \<Longrightarrow> remove_first (\<lambda>e. k e = h) es = filter (\<lambda>e. k e \<noteq> h) es"
  by (induction es) (auto simp: image_iff intro!: filter_True [symmetric])

lemma map_update_first: "(\<And>e. g (f e) = g e) \<Longrightarrow> map g (update_first P f es) = map g es"
  by (induction es) auto

lemma set_update_first: "set (update_first P f es) \<subseteq> set es \<union> f ` {e \<in> set es. P e}"
  by (induction es) auto

lemma sum_remove_first:
  "List.find P es = Some e \<Longrightarrow>
   sum_list (map w es) = (w e :: nat) + sum_list (map w (remove_first P es))"
  by (induction es) (auto split: if_splits)

lemma sum_filter_split:
  "sum_list (map w es) = sum_list (map w (filter P es)) + (sum_list (map w (filter (\<lambda>e. \<not> P e) es)) :: nat)"
  by (induction es) auto

section \<open>Invariant: distinct handles, and every heap object accounted for\<close>

definition cache_ok :: "'a kstate_scheme \<Rightarrow> bool" where
  "cache_ok st \<longleftrightarrow> distinct (map kc_tcs_handle (cache st)) \<and> distinct (map kc_addr (cache st))
     \<and> (\<forall>e \<in> set (cache st). kc_addr e < next_addr st)"

definition accounted :: "nat \<Rightarrow> 'a kstate_scheme \<Rightarrow> bool" where
  "accounted others st \<longleftrightarrow> kc_live st = others + sum_list (map entry_objs (cache st))"

definition wf_TSS_KEY :: "TSS_KEY \<Rightarrow> bool" where
  "wf_TSS_KEY key \<longleftrightarrow> wf_KEY_PARMS (tk_algorithmParms key) \<and> wf_STORE_PUBKEY (tk_pubKey key)
     \<and> owns (unat (tk_PCRInfoSize key)) (tk_PCRInfo key) \<and> owns (unat (tk_encSize key)) (tk_encData key)"

text \<open>Only the allocator's counters change.\<close>

definition heap_only :: "'a kstate_scheme \<Rightarrow> 'a kstate_scheme \<Rightarrow> bool" where
  "heap_only st st' \<longleftrightarrow> cache st' = cache st \<and> NextTcsKeyHandle st' = NextTcsKeyHandle st
     \<and> next_stamp st' = next_stamp st \<and> next_addr st' = next_addr st \<and> kc_ok st' = kc_ok st
     \<and> kstate.more st' = kstate.more st"

lemma kalloc_cases:
  "kalloc st = (ok, st') \<Longrightarrow> heap_only st st' \<and> kc_live st' = kc_live st + (if ok then 1 else 0)"
  by (auto simp: kalloc_def heap_only_def split: if_splits)

lemma heap_only_free [simp]: "heap_only st (kfree n st') = heap_only st st'"
  by (simp add: heap_only_def kfree_def)

lemma kfree_simps [simp]: "kc_live (kfree n st) = kc_live st - n" "cache (kfree n st) = cache st"
  "next_addr (kfree n st) = next_addr st" "kstate.more (kfree n st) = kstate.more st"
  "NextTcsKeyHandle (kfree n st) = NextTcsKeyHandle st" "next_stamp (kfree n st) = next_stamp st"
  "kc_ok (kfree n st) = kc_ok st"
  by (simp_all add: kfree_def)

lemma copy_field_cases:
  assumes "copy_field sz p st = Some (ok, q, st')" "owns (unat sz) p"
  shows "heap_only st st' \<and> (if ok then q = p \<and> kc_live st' = kc_live st + pallocs p
    else kc_live st' = kc_live st)"
  using assms
  by (cases p) (auto simp: copy_field_def rd_def heap_only_def word_gt_0 unat_eq_zero
      dest!: kalloc_cases split: if_splits prod.splits)

text \<open>Copying a well-formed key gives the same key with its own objects, or, when memory runs out,
  frees all of them and the new entry.\<close>

lemma copy_blob_cases:
  assumes "copy_blob key st = Some (r, st')" "wf_TSS_KEY key"
  shows "heap_only st st' \<and> (case r of Some key' \<Rightarrow> key' = key \<and> kc_live st' = kc_live st + Suc (key_objs key)
    | None \<Rightarrow> kc_live st' = kc_live st - 1)"
proof -
  have o: "owns (unat (kp_parmSize (tk_algorithmParms key))) (kp_parms (tk_algorithmParms key))"
    "owns (unat (sp_keyLength (tk_pubKey key))) (sp_key (tk_pubKey key))"
    "owns (unat (tk_PCRInfoSize key)) (tk_PCRInfo key)" "owns (unat (tk_encSize key)) (tk_encData key)"
    using assms(2) by (simp_all add: wf_TSS_KEY_def wf_KEY_PARMS_def wf_STORE_PUBKEY_def)
  show ?thesis
    using assms(1)
    by (auto simp: copy_blob_def key_objs_def heap_only_def
        dest!: kalloc_cases copy_field_cases [OF _ o(1)] copy_field_cases [OF _ o(2)]
          copy_field_cases [OF _ o(3)] copy_field_cases [OF _ o(4)]
        split: if_splits prod.splits bind_splits)
qed

text \<open>Operations that change entries in place keep handles, addresses and objects.\<close>

definition in_place :: "'a kstate_scheme \<Rightarrow> 'a kstate_scheme \<Rightarrow> bool" where
  "in_place st st' \<longleftrightarrow> map kc_tcs_handle (cache st') = map kc_tcs_handle (cache st)
     \<and> map kc_addr (cache st') = map kc_addr (cache st)
     \<and> map entry_objs (cache st') = map entry_objs (cache st)
     \<and> next_addr st' = next_addr st \<and> kc_live st' = kc_live st"

lemma in_place_keeps: "in_place st st' \<Longrightarrow> cache_ok st' = cache_ok st \<and> accounted b st' = accounted b st"
proof -
  assume i: "in_place st st'"
  then have "kc_addr ` set (cache st') = kc_addr ` set (cache st)"
    by (metis in_place_def list.set_map)
  then have "(\<forall>e \<in> set (cache st'). kc_addr e < n) \<longleftrightarrow> (\<forall>e \<in> set (cache st). kc_addr e < n)" for n
    by (metis (no_types, lifting) imageE imageI)
  with i show ?thesis by (simp add: cache_ok_def accounted_def in_place_def)
qed

lemma in_place_simps [simp]: "in_place st st"
  "(\<And>e. kc_tcs_handle (f e) = kc_tcs_handle e) \<Longrightarrow> (\<And>e. kc_addr (f e) = kc_addr e) \<Longrightarrow>
   (\<And>e. kc_blob (f e) = kc_blob e) \<Longrightarrow> in_place st (st\<lparr>cache := update_first P f (cache st)\<rparr>)"
  "(\<And>e. kc_tcs_handle (f e) = kc_tcs_handle e) \<Longrightarrow> (\<And>e. kc_addr (f e) = kc_addr e) \<Longrightarrow>
   (\<And>e. kc_blob (f e) = kc_blob e) \<Longrightarrow>
   in_place st (st\<lparr>next_stamp := n, cache := update_first P f (cache st)\<rparr>)"
  by (simp_all add: in_place_def map_update_first entry_objs_def)

lemma in_place_ops:
  "in_place st (snd (mc_set_slot_by_slot a b st))" "in_place st (snd (mc_set_slot_by_handle a b st))"
  "in_place st (snd (mc_update_time_stamp a st))" "in_place st (snd (mc_set_uuid a u st))"
  "in_place st (snd (mc_set_parent_by_handle a b st))" "in_place st (snd (key_mgr_inc_ref_count a st))"
  "in_place st (snd (key_mgr_dec_ref_count a st))" "in_place st (snd (getNextTimeStamp st))"
  by (simp_all add: mc_set_slot_by_slot_def mc_set_slot_by_handle_def set_slot_def
      mc_update_time_stamp_def getNextTimeStamp_def mc_set_uuid_def mc_set_parent_by_handle_def
      key_mgr_inc_ref_count_def key_mgr_dec_ref_count_def Let_def split: option.split)
    (simp add: in_place_def)

lemma mc_add_entry_cases:
  assumes "mc_add_entry h slot blob st = Some (r, st')" "\<And>key. blob = Some key \<Longrightarrow> wf_TSS_KEY key"
  shows "(h \<in> kc_tcs_handle ` set (cache st) \<and> r = 0 \<and> st' = st)
    \<or> (h \<notin> kc_tcs_handle ` set (cache st) \<and> r = 0
        \<and> (\<exists>e. cache st' = e # cache st \<and> kc_tcs_handle e = h \<and> kc_tpm_handle e = slot
             \<and> kc_blob e = blob \<and> kc_addr e = next_addr st \<and> kc_parent e = None
             \<and> kc_ref_cnt e = (if cache st = [] then 1 else 0)
             \<and> next_addr st' = Suc (next_addr st) \<and> kc_live st' = kc_live st + blob_objs blob))
    \<or> (h \<notin> kc_tcs_handle ` set (cache st) \<and> r = TCSERR TSS_E_OUTOFMEMORY
        \<and> cache st' = cache st \<and> next_addr st' = next_addr st \<and> kc_live st' = kc_live st)"
proof (cases "h \<in> kc_tcs_handle ` set (cache st)")
  case True
  then show ?thesis using assms(1) by (auto simp: mc_add_entry_def image_iff)
next
  case False
  then have "\<not> (\<exists>tmp \<in> set (cache st). h = kc_tcs_handle tmp)" by auto
  then show ?thesis
    using assms(1) False
    by (auto simp: mc_add_entry_def push_entry_def getNextTimeStamp_def heap_only_def blob_objs_def
        dest!: kalloc_cases copy_blob_cases [OF _ assms(2)]
        split: if_splits prod.splits option.splits bind_splits)
qed

lemma mc_remove_entry_cases:
  "mc_remove_entry h st = (r, st') \<Longrightarrow>
   (h \<notin> kc_tcs_handle ` set (cache st) \<and> r = TCSERR TSS_E_FAIL \<and> st' = st)
   \<or> (\<exists>e \<in> set (cache st). kc_tcs_handle e = h \<and> r = 0 \<and> kc_live st' = kc_live st - entry_objs e
       \<and> List.find (\<lambda>cur. kc_tcs_handle cur = h) (cache st) = Some e
       \<and> next_addr st' = next_addr st
       \<and> cache st' = remove_first (\<lambda>cur. kc_tcs_handle cur = h) (cache st))"
  by (auto simp: mc_remove_entry_def find_first_none dest: find_first_some split: option.splits)

lemma distinct_filter_map: "distinct (map k es) \<Longrightarrow> distinct (map k (filter P es))"
  by (simp add: distinct_map_filter)

lemma sweep_cases:
  "key_mgr_ref_count st = (es, st') \<Longrightarrow>
   cache st' = filter (\<lambda>cur. kc_ref_cnt cur \<noteq> 0) (cache st) \<and> next_addr st' = next_addr st
   \<and> kc_live st' = kc_live st - sum_list (map entry_objs (filter (\<lambda>cur. kc_ref_cnt cur = 0) (cache st)))"
  by (auto simp: key_mgr_ref_count_def Let_def)

lemma filter_keeps:
  assumes "cache_ok st" "accounted b st" "cache st' = filter P (cache st)" "next_addr st' = next_addr st"
    and "kc_live st' = kc_live st - sum_list (map entry_objs (filter (\<lambda>e. \<not> P e) (cache st)))"
  shows "cache_ok st' \<and> accounted b st'"
  using assms sum_filter_split [of entry_objs "cache st" P]
  by (auto simp: cache_ok_def accounted_def distinct_filter_map)

lemma evictFirstKey_cases:
  assumes "evictFirstKey loaded evict p st = Some (r, st')"
  shows "st' = st \<or> (\<exists>h. (r, st') = mc_set_slot_by_slot h NULL_HANDLE st)"
  using assms
  by (auto simp: evictFirstKey_def Let_def split: if_splits prod.splits bind_splits) metis

lemma add_keeps:
  assumes "cache_ok st" "accounted b st" "mc_add_entry h slot blob st = Some (r, st')"
    and "\<forall>key. blob = Some key \<longrightarrow> wf_TSS_KEY key"
  shows "cache_ok st' \<and> accounted b st'"
  using mc_add_entry_cases [OF assms(3)] assms
  by (fastforce simp: cache_ok_def accounted_def entry_objs_def)

lemma remove_keeps:
  assumes "cache_ok st" "accounted b st" "mc_remove_entry h st = (r, st')"
  shows "cache_ok st' \<and> accounted b st'"
proof (cases "st' = st")
  case False
  then obtain e where e: "List.find (\<lambda>cur. kc_tcs_handle cur = h) (cache st) = Some e"
    "cache st' = remove_first (\<lambda>cur. kc_tcs_handle cur = h) (cache st)"
    "next_addr st' = next_addr st" "kc_live st' = kc_live st - entry_objs e"
    using mc_remove_entry_cases [OF assms(3)] by blast
  have "remove_first (\<lambda>cur. kc_tcs_handle cur = h) (cache st) =
      filter (\<lambda>cur. kc_tcs_handle cur \<noteq> h) (cache st)"
    using assms(1) by (intro remove_first_key) (simp add: cache_ok_def)
  then show ?thesis
    using e assms sum_remove_first [OF e(1), of entry_objs]
    by (auto simp: cache_ok_def accounted_def distinct_filter_map)
qed (use assms in simp)

lemma sweep_keeps:
  "cache_ok st \<Longrightarrow> accounted b st \<Longrightarrow> key_mgr_ref_count st = (es, st') \<Longrightarrow> cache_ok st' \<and> accounted b st'"
  using sweep_cases [of st es st'] filter_keeps [of st b st' "\<lambda>cur. kc_ref_cnt cur \<noteq> 0"] by simp

lemma evict_keeps:
  "cache_ok st \<Longrightarrow> accounted b st \<Longrightarrow> evictFirstKey loaded evict h st = Some (r, st') \<Longrightarrow>
   cache_ok st' \<and> accounted b st'"
  using evictFirstKey_cases [of loaded evict h st r st'] in_place_keeps [OF in_place_ops(1)]
  by (metis snd_conv)

section \<open>Least recently used\<close>

definition candidate :: "u32 \<Rightarrow> key_mem_cache \<Rightarrow> bool" where
  "candidate parent e \<longleftrightarrow> kc_tpm_handle e \<noteq> NULL_HANDLE \<and> kc_tpm_handle e \<noteq> SRK_TPM_HANDLE
     \<and> kc_tcs_handle e \<noteq> parent"

lemma fold_lru:
  "fold (lru_step p) es (s0, t0) = (s, t) \<Longrightarrow>
   (s = s0 \<and> t = t0 \<and> (\<forall>e \<in> set es. candidate p e \<longrightarrow> t0 \<le> kc_time_stamp e))
   \<or> (\<exists>e \<in> set es. candidate p e \<and> s = kc_tpm_handle e \<and> t = kc_time_stamp e \<and> t < t0
        \<and> (\<forall>e' \<in> set es. candidate p e' \<longrightarrow> t \<le> kc_time_stamp e'))"
proof (induction es arbitrary: s0 t0)
  case (Cons e es)
  define a where "a = lru_step p e (s0, t0)"
  have a: "(candidate p e \<and> kc_time_stamp e < t0 \<and> a = (kc_tpm_handle e, kc_time_stamp e))
      \<or> (\<not> (candidate p e \<and> kc_time_stamp e < t0) \<and> a = (s0, t0))"
    by (auto simp: a_def lru_step_def candidate_def)
  have f: "fold (lru_step p) es (fst a, snd a) = (s, t)" using Cons.prems by (simp add: a_def)
  from Cons.IH [OF f] a show ?case by (auto simp: not_less intro: order.strict_implies_order)
qed simp

section \<open>Properties\<close>

text \<open>C18: handles stay distinct and every live heap object stays accounted for by an entry, under
  adding an entry (when memory runs out in any of its allocations too), removing one, the sweep
  of unreferenced keys and the eviction of a key from the TPM.\<close>

theorem key_cache_accounting:
  assumes "cache_ok st" "accounted b st"
  shows "(mc_add_entry h slot blob st = Some (r, st') \<and> (\<forall>key. blob = Some key \<longrightarrow> wf_TSS_KEY key)
        \<longrightarrow> cache_ok st' \<and> accounted b st')
    \<and> (mc_remove_entry h st = (r, st') \<longrightarrow> cache_ok st' \<and> accounted b st')
    \<and> (key_mgr_ref_count st = (es, st') \<longrightarrow> cache_ok st' \<and> accounted b st')
    \<and> (evictFirstKey loaded evict h st = Some (r, st') \<longrightarrow> cache_ok st' \<and> accounted b st')"
  using add_keeps [OF assms] remove_keeps [OF assms] sweep_keeps [OF assms] evict_keeps [OF assms]
  by blast

text \<open>A cache with the storage root key, a parent and a child, for the applications.\<close>

definition ex_tss_key :: "u8 list \<Rightarrow> TSS_KEY" where
  "ex_tss_key d = \<lparr>tk_hdr = [1, 1, 0, 0], tk_keyUsage = 0x11, tk_keyFlags = 0, tk_authDataUsage = 1,
     tk_algorithmParms = \<lparr>kp_algorithmID = 1, kp_encScheme = 3, kp_sigScheme = 1, kp_parmSize = 0,
       kp_parms = NULL\<rparr>,
     tk_PCRInfoSize = 0, tk_PCRInfo = NULL,
     tk_pubKey = \<lparr>sp_keyLength = of_nat (length d), sp_key = Buf d\<rparr>, tk_encSize = 1, tk_encData = Buf [9]\<rparr>"

definition ex_entry :: "nat \<Rightarrow> u32 \<Rightarrow> u32 \<Rightarrow> int \<Rightarrow> u32 \<Rightarrow> u8 list \<Rightarrow> nat option \<Rightarrow> key_mem_cache" where
  "ex_entry a slot h n ts d p = \<lparr>kc_addr = a, kc_tpm_handle = slot, kc_tcs_handle = h, kc_ref_cnt = n,
     kc_time_stamp = ts, kc_uuid = zero_uuid, kc_blob = Some (ex_tss_key d), kc_parent = p\<rparr>"

definition ex_cache :: kstate where
  "ex_cache = \<lparr>cache = [ex_entry 2 0x51 0x22330002 1 7 [4, 5] (Some 1),
       ex_entry 1 0x50 0x22330001 1 5 [1, 2, 3] (Some 0), ex_entry 0 0x40000000 0x40000000 1 1 [6] None],
     NextTcsKeyHandle = 0x22330003, next_stamp = 8, next_addr = 3, kc_ok = \<lambda>n. n < 3, kc_count = 0,
     kc_live = 12\<rparr>"

lemma ex_cache_ok [simp]: "cache_ok ex_cache" "accounted 0 ex_cache"
  by (simp_all add: cache_ok_def accounted_def ex_cache_def ex_entry_def entry_objs_def blob_objs_def
      key_objs_def ex_tss_key_def)

lemma ex_tss_key_wf [simp]: "wf_TSS_KEY (ex_tss_key [7])"
  by (simp add: ex_tss_key_def wf_TSS_KEY_def wf_KEY_PARMS_def wf_STORE_PUBKEY_def)

theorem key_cache_accounting_witness:
  "\<exists>r st'. mc_add_entry 0x22330009 0x52 (Some (ex_tss_key [7])) ex_cache = Some (r, st')
     \<and> r = TCSERR TSS_E_OUTOFMEMORY \<and> accounted 0 st'"
proof -
  obtain r st' where a: "mc_add_entry 0x22330009 0x52 (Some (ex_tss_key [7])) ex_cache = Some (r, st')"
    and r: "r = TCSERR TSS_E_OUTOFMEMORY"
    by (simp add: mc_add_entry_def copy_blob_def copy_field_def kalloc_def getNextTimeStamp_def
        ex_cache_def ex_entry_def ex_tss_key_def rd_def kfree_def Let_def)
  then show ?thesis
    using key_cache_accounting [where st = ex_cache and b = 0 and h = "0x22330009" and slot = "0x52"
      and blob = "Some (ex_tss_key [7])" and r = r and st' = st'] by auto
qed

text \<open>when every key in the TPM is known and the TPM accepts the eviction,
  \<open>evictFirstKey\<close> either finds no key that is in the TPM, is not the storage root key and is not
  the parent (or only ones with the largest time stamp), and changes nothing; or it marks one
  such key, whose time stamp is the least, as no longer in the TPM.\<close>

theorem evictFirstKey_lru:
  assumes "evictFirstKey (Inr (Some handles)) evict parent st = Some (r, st')"
    and "\<forall>h \<in> set handles. \<exists>e \<in> set (cache st). kc_tpm_handle e = h" "\<forall>h. evict h = 0"
  shows "r = TSS_SUCCESS \<and>
    (st' = st \<and> (\<forall>e \<in> set (cache st). candidate parent e \<longrightarrow> kc_time_stamp e = 0xFFFFFFFF)
     \<or> (\<exists>e \<in> set (cache st). candidate parent e
          \<and> (\<forall>e' \<in> set (cache st). candidate parent e' \<longrightarrow> kc_time_stamp e \<le> kc_time_stamp e')
          \<and> st' = st\<lparr>cache := update_first (\<lambda>tmp. kc_tpm_handle tmp = kc_tpm_handle e)
               (\<lambda>tmp. tmp\<lparr>kc_time_stamp := 0, kc_tpm_handle := NULL_HANDLE\<rparr>) (cache st)\<rparr>))"
proof -
  have c: "clear_loop evict st hs n = (Some n, [])"
    if "\<forall>h \<in> set hs. \<exists>e \<in> set (cache st). kc_tpm_handle e = h" for hs n
    using that by (induction hs) auto
  obtain s t where f: "fold (lru_step parent) (cache st) (NULL_HANDLE, 0xFFFFFFFF) = (s, t)" by fastforce
  have m: "0xFFFFFFFF \<le> x \<longleftrightarrow> x = 0xFFFFFFFF" for x :: u32
    using unsigned_less [of x, where 'a = nat] by (auto simp: word_le_nat_alt word_unat_eq_iff)
  have e: "Some (r, st') = (if s \<noteq> NULL_HANDLE then Some (mc_set_slot_by_slot s NULL_HANDLE st) else Some (TSS_SUCCESS, st))"
    using assms(1,3) c [OF assms(2)] f by (auto simp: evictFirstKey_def clearUnknownKeys_def)
  from fold_lru [OF f] show ?thesis
  proof (elim disjE)
    assume "s = NULL_HANDLE \<and> t = 0xFFFFFFFF \<and>
      (\<forall>e \<in> set (cache st). candidate parent e \<longrightarrow> 0xFFFFFFFF \<le> kc_time_stamp e)"
    then show ?thesis using e m by simp
  next
    assume "\<exists>e \<in> set (cache st). candidate parent e \<and> s = kc_tpm_handle e \<and> t = kc_time_stamp e \<and>
      t < 0xFFFFFFFF \<and> (\<forall>e' \<in> set (cache st). candidate parent e' \<longrightarrow> t \<le> kc_time_stamp e')"
    then obtain v where v: "v \<in> set (cache st)" "candidate parent v" "s = kc_tpm_handle v"
      "\<forall>e' \<in> set (cache st). candidate parent e' \<longrightarrow> kc_time_stamp v \<le> kc_time_stamp e'" by blast
    then show ?thesis
      using e by (auto simp: candidate_def mc_set_slot_by_slot_def set_slot_def split: if_splits
          intro!: bexI [of _ v])
  qed
qed

theorem evictFirstKey_lru_witness:
  "\<exists>st'. evictFirstKey (Inr (Some [0x50, 0x51])) (\<lambda>h. 0) 0x40000000 ex_cache = Some (TSS_SUCCESS, st')
     \<and> map kc_tpm_handle (cache st') = [0x51, NULL_HANDLE, 0x40000000]"
proof -
  have "fold (lru_step 0x40000000) (cache ex_cache) (NULL_HANDLE, 0xFFFFFFFF) = (0x50, 5)"
    by (simp add: lru_step_def ex_cache_def ex_entry_def)
  moreover have "clear_loop (\<lambda>h. 0) ex_cache [0x50, 0x51] 0 = (Some 0, [])"
    by (simp add: ex_cache_def ex_entry_def)
  ultimately have "evictFirstKey (Inr (Some [0x50, 0x51])) (\<lambda>h. 0) 0x40000000 ex_cache =
      Some (mc_set_slot_by_slot 0x50 NULL_HANDLE ex_cache)"
    by (simp add: evictFirstKey_def clearUnknownKeys_def)
  moreover have m: "map kc_tpm_handle (cache (snd (mc_set_slot_by_slot 0x50 NULL_HANDLE ex_cache))) =
      [0x51, NULL_HANDLE, 0x40000000]"
    by (simp add: mc_set_slot_by_slot_def set_slot_def ex_cache_def ex_entry_def)
  ultimately have a: "evictFirstKey (Inr (Some [0x50, 0x51])) (\<lambda>h. 0) 0x40000000 ex_cache =
      Some (fst (mc_set_slot_by_slot 0x50 NULL_HANDLE ex_cache), snd (mc_set_slot_by_slot 0x50 NULL_HANDLE ex_cache))"
    by simp
  have "\<forall>h \<in> set [0x50, 0x51]. \<exists>e \<in> set (cache ex_cache). kc_tpm_handle e = h"
    by (simp add: ex_cache_def ex_entry_def)
  from evictFirstKey_lru [OF a this] m a show ?thesis by auto
qed

text \<open>The look-up by public key without a length test reads outside the key of an entry that is
  shorter than the one looked for, while the look-up with the test never faults on well-formed
  entries.\<close>

theorem pub_lookup_bounds:
  assumes "owns (unat (sp_keyLength pub)) (sp_key pub)"
    and "\<forall>e \<in> set (cache st). \<forall>key. kc_blob e = Some key \<longrightarrow> wf_TSS_KEY key"
  shows "mc_get_uuid_by_pub pub st \<noteq> None
    \<and> (cache st = e # es \<and> kc_blob e = Some key \<and> sp_keyLength (tk_pubKey key) < sp_keyLength pub
        \<longrightarrow> mc_get_slot_by_pub pub st = None)"
proof -
  have r: "owns n p \<Longrightarrow> owns n q \<Longrightarrow> mem_eq p q n \<noteq> None" for n p q
    by (cases p; cases q) (auto simp: mem_eq_def rd_def)
  have "pub_match_len pub e \<noteq> None" if "e \<in> set (cache st)" for e
  proof (cases "kc_blob e")
    case (Some key)
    then have "owns (unat (sp_keyLength (tk_pubKey key))) (sp_key (tk_pubKey key))"
      using that assms(2) by (simp add: wf_TSS_KEY_def wf_STORE_PUBKEY_def)
    then show ?thesis using Some r [OF _ assms(1)] by (auto simp: pub_match_len_def)
  qed (simp add: pub_match_len_def)
  then have "\<forall>e \<in> set (cache st). pub_match_len pub e = Some (the (pub_match_len pub e))" by auto
  from find_opt_total [OF this] have 1: "mc_get_uuid_by_pub pub st \<noteq> None"
    by (simp add: mc_get_uuid_by_pub_def)
  have "mc_get_slot_by_pub pub st = None"
    if "cache st = e # es" "kc_blob e = Some key" "sp_keyLength (tk_pubKey key) < sp_keyLength pub"
  proof -
    have "owns (unat (sp_keyLength (tk_pubKey key))) (sp_key (tk_pubKey key))"
      using that assms(2) by (simp add: wf_TSS_KEY_def wf_STORE_PUBKEY_def)
    moreover have "unat (sp_keyLength (tk_pubKey key)) < unat (sp_keyLength pub)"
      using that(3) by (simp add: word_less_nat_alt)
    ultimately have "mem_eq (sp_key (tk_pubKey key)) (sp_key pub) (unat (sp_keyLength pub)) = None"
      by (cases "sp_key (tk_pubKey key)") (auto simp: mem_eq_def rd_def)
    then show ?thesis using that by (simp add: mc_get_slot_by_pub_def pub_match_def)
  qed
  with 1 show ?thesis by blast
qed

theorem pub_lookup_bounds_witness:
  "mc_get_slot_by_pub \<lparr>sp_keyLength = 3, sp_key = Buf [1, 2, 3]\<rparr> ex_cache = None"
proof -
  let ?pub = "\<lparr>sp_keyLength = 3, sp_key = Buf [1, 2, 3]\<rparr>"
  have "\<forall>e \<in> set (cache ex_cache). \<forall>key. kc_blob e = Some key \<longrightarrow> wf_TSS_KEY key"
    by (simp add: ex_cache_def ex_entry_def ex_tss_key_def wf_TSS_KEY_def wf_KEY_PARMS_def wf_STORE_PUBKEY_def)
  then show ?thesis
    using pub_lookup_bounds [of ?pub ex_cache "hd (cache ex_cache)" "tl (cache ex_cache)" "ex_tss_key [4, 5]"]
    by (simp add: ex_cache_def ex_entry_def ex_tss_key_def)
qed

text \<open>The handle generator is meant to skip the two reserved handles; it returns each of them,
  instead of the ordinary handle before it.\<close>

theorem getNextTcsKeyHandle_returns_reserved:
  "fst (getNextTcsKeyHandle (st\<lparr>NextTcsKeyHandle := SRK_TPM_HANDLE - 1\<rparr>)) = SRK_TPM_HANDLE
   \<and> fst (getNextTcsKeyHandle (st\<lparr>NextTcsKeyHandle := NULL_HANDLE - 1\<rparr>)) = NULL_HANDLE"
  by (simp add: getNextTcsKeyHandle_def reserved_def)

text \<open>A key that has just been added is found by its handle, with its slot, its public key and
  no references yet, and every other handle is looked up as before.\<close>

theorem mc_add_entry_lookup:
  assumes "mc_add_entry h slot (Some key) st = Some (TSS_SUCCESS, st')" "wf_TSS_KEY key"
    and "h \<notin> kc_tcs_handle ` set (cache st)"
  shows "mc_get_slot_by_handle h st' = slot \<and> mc_get_pub_by_handle h st' = Some (tk_pubKey key)
    \<and> (\<forall>h'. h' \<noteq> h \<longrightarrow> mc_get_slot_by_handle h' st' = mc_get_slot_by_handle h' st
         \<and> mc_get_pub_by_handle h' st' = mc_get_pub_by_handle h' st)"
  using mc_add_entry_cases [OF assms(1)] assms(2,3)
  by (auto simp: mc_get_slot_by_handle_def mc_get_pub_by_handle_def)

theorem mc_add_entry_lookup_witness:
  "\<exists>st'. mc_add_entry 0x22330009 0x52 (Some (ex_tss_key [7])) (ex_cache\<lparr>kc_ok := \<lambda>n. True\<rparr>) = Some (TSS_SUCCESS, st')
     \<and> mc_get_slot_by_handle 0x22330009 st' = 0x52 \<and> mc_get_slot_by_handle 0x22330001 st' = 0x50"
proof -
  let ?st = "ex_cache\<lparr>kc_ok := \<lambda>n. True\<rparr>"
  obtain st' where a: "mc_add_entry 0x22330009 0x52 (Some (ex_tss_key [7])) ?st = Some (TSS_SUCCESS, st')"
    by (simp add: mc_add_entry_def copy_blob_def copy_field_def kalloc_def getNextTimeStamp_def
        ex_cache_def ex_entry_def ex_tss_key_def rd_def kfree_def Let_def)
  have "mc_get_slot_by_handle 0x22330001 ?st = 0x50"
    by (simp add: mc_get_slot_by_handle_def ex_cache_def ex_entry_def)
  then show ?thesis using a mc_add_entry_lookup [OF a] by (simp add: ex_cache_def ex_entry_def)
qed

end
