(* ===== verification/Tcs_Context.thy ===== *)
theory Tcs_Context
  imports Tcs_Key_Cache
begin

text \<open>
  The contexts of the core service daemon (\<open>tcs/tcs_context.c\<close>) and the keys each has loaded
  (\<open>tcs/tcs_context_key.c\<close>, with \<open>key_mgr_evict\<close> of \<open>tcs/tcs_key_mem_cache.c\<close>): creation and
  destruction of contexts, the transport flags, and the lists of loaded keys that hold the
  reference counts of the key cache.

  The state extends that of the key cache by the list of contexts, in the order of the C list,
  and the handle generator.  The values of \<open>rand\<close> are arguments.  The result \<open>None\<close> is a crash:
  a NULL dereference, an endless recursion, or a list tied into a cycle.
\<close>

section \<open>State\<close>

abbreviation (input) TCS_E_INVALID_CONTEXTHANDLE :: u32 where "TCS_E_INVALID_CONTEXTHANDLE \<equiv> 0x0C1"
abbreviation (input) TCS_E_INVALID_KEY :: u32 where "TCS_E_INVALID_KEY \<equiv> 0x0C5"
abbreviation (input) InternalContext :: u32 where "InternalContext \<equiv> 0x30000000"
abbreviation (input) TRANSPORT_EXCLUSIVE :: u32 where "TRANSPORT_EXCLUSIVE \<equiv> 1"
abbreviation (input) TRANSPORT_ENABLED :: u32 where "TRANSPORT_ENABLED \<equiv> 4"

record tcs_context =
  tc_flags :: u32
  tc_transHandle :: u32
  tc_handle :: u32
  tc_keys :: "u32 list"

record tcs_state = kstate +
  tcs_context_table :: "tcs_context list"
  nextContextHandle :: u64
  initContextHandle :: bool

fun first_index :: "('e \<Rightarrow> bool) \<Rightarrow> 'e list \<Rightarrow> nat option" where
  "first_index P [] = None"
| "first_index P (e # es) = (if P e then Some 0 else map_option Suc (first_index P es))"

section \<open>Handles\<close>

text \<open>The first call seeds bits 16 to 23 of the counter; each call puts a random byte into bits
  8 to 15 of the handle with \<open>|\<close>.  A counter of 0 would make the function call itself forever.\<close>

definition getNextHandle :: "u32 \<Rightarrow> u32 \<Rightarrow> tcs_state \<Rightarrow> (u32 \<times> tcs_state) option" where
  "getNextHandle r1 r2 st =
     (let st = (if initContextHandle st
                then st\<lparr>nextContextHandle := nextContextHandle st OR ucast (push_bit 16 r1 AND 0x00FF0000),
                        initContextHandle := False\<rparr>
                else st);
          tempRand = push_bit 8 r2 AND 0x0000FF00
      in if nextContextHandle st = 0 then None
         else Some (ucast (nextContextHandle st OR ucast tempRand),
                    st\<lparr>nextContextHandle := nextContextHandle st + 1\<rparr>))"

definition create_tcs_context :: "u32 \<Rightarrow> u32 \<Rightarrow> tcs_state \<Rightarrow> (tcs_context option \<times> tcs_state) option" where
  "create_tcs_context r1 r2 st =
     (let (ok, st) = kalloc st
      in if ok then do {
           (h, st) \<leftarrow> getNextHandle r1 r2 st;
           Some (Some \<lparr>tc_flags = 0, tc_transHandle = 0, tc_handle = h, tc_keys = []\<rparr>, st)
         } else Some (None, st))"

definition make_context :: "u32 \<Rightarrow> u32 \<Rightarrow> tcs_state \<Rightarrow> (u32 \<times> tcs_state) option" where
  "make_context r1 r2 st = do {
     (c, st) \<leftarrow> create_tcs_context r1 r2 st;
     case c of None \<Rightarrow> Some (0, st)
     | Some c \<Rightarrow> Some (tc_handle c, st\<lparr>tcs_context_table := tcs_context_table st @ [c]\<rparr>)
   }"

section \<open>Finding contexts\<close>

definition get_context :: "u32 \<Rightarrow> tcs_state \<Rightarrow> tcs_context option" where
  "get_context handle st = List.find (\<lambda>c. tc_handle c = handle) (tcs_context_table st)"

text \<open>The position of the first context whose successor has the handle.\<close>

definition get_previous_context :: "u32 \<Rightarrow> tcs_state \<Rightarrow> nat option" where
  "get_previous_context handle st =
     first_index (\<lambda>c. tc_handle c = handle) (tl (tcs_context_table st))"

definition ctx_verify_context :: "u32 \<Rightarrow> tcs_state \<Rightarrow> u32" where
  "ctx_verify_context tcsContext st =
     (if tcsContext = InternalContext then TSS_SUCCESS
      else if get_context tcsContext st = None then TCSERR TCS_E_INVALID_CONTEXTHANDLE
      else TSS_SUCCESS)"

text \<open>The condition variable of a context, named by the handle of its owner.\<close>

definition ctx_get_cond_var :: "u32 \<Rightarrow> tcs_state \<Rightarrow> u32 option" where
  "ctx_get_cond_var tcs_handle st = map_option tc_handle (get_context tcs_handle st)"

section \<open>Loaded keys\<close>

text \<open>Releasing the references of a dying context, and the nodes of its list.\<close>

fun ctx_ref_count_keys :: "u32 list \<Rightarrow> tcs_state \<Rightarrow> tcs_state" where
  "ctx_ref_count_keys [] st = st"
| "ctx_ref_count_keys (k # ks) st = ctx_ref_count_keys ks (kfree 1 (snd (key_mgr_dec_ref_count k st)))"

definition ctx_has_key_loaded :: "u32 \<Rightarrow> u32 \<Rightarrow> tcs_state \<Rightarrow> bool" where
  "ctx_has_key_loaded ctx_handle key_handle st =
     (case get_context ctx_handle st of None \<Rightarrow> False | Some c \<Rightarrow> key_handle \<in> set (tc_keys c))"

text \<open>
  Taking a key out of the list: \<open>prev\<close> is the node before the match, or the match itself when it
  is the first one.  The code tests \<open>prev == c->keys\<close>, which is also true when the match is the
  second node; then both nodes leave the list.
\<close>

definition unlink_key :: "nat \<Rightarrow> u32 list \<Rightarrow> u32 list" where
  "unlink_key i ks =
     (let prev = i - 1
      in if prev = 0 then drop (Suc i) ks
         else take (Suc prev) ks @ drop (Suc i) ks)"

definition ctx_remove_key_loaded :: "u32 \<Rightarrow> u32 \<Rightarrow> tcs_state \<Rightarrow> u32 \<times> tcs_state" where
  "ctx_remove_key_loaded ctx_handle key_handle st =
     (case get_context ctx_handle st of
        None \<Rightarrow> (TCSERR TCS_E_INVALID_CONTEXTHANDLE, st)
      | Some c \<Rightarrow>
          (case first_index (\<lambda>k. k = key_handle) (tc_keys c) of
             None \<Rightarrow> (TCSERR TCS_E_INVALID_KEY, st)
           | Some i \<Rightarrow> (TSS_SUCCESS, kfree 1 (st\<lparr>tcs_context_table :=
               update_first (\<lambda>c. tc_handle c = ctx_handle) (\<lambda>c. c\<lparr>tc_keys := unlink_key i (tc_keys c)\<rparr>)
                 (tcs_context_table st)\<rparr>))))"

definition ctx_mark_key_loaded :: "u32 \<Rightarrow> u32 \<Rightarrow> tcs_state \<Rightarrow> u32 \<times> tcs_state" where
  "ctx_mark_key_loaded ctx_handle key_handle st =
     (case get_context ctx_handle st of
        None \<Rightarrow> (TCSERR TSS_E_FAIL, st)
      | Some c \<Rightarrow>
          if key_handle \<in> set (tc_keys c) then (TSS_SUCCESS, st)
          else let (ok, st) = kalloc st
            in if \<not> ok then (TCSERR TSS_E_OUTOFMEMORY, st)
               else let st = st\<lparr>tcs_context_table :=
                   update_first (\<lambda>c. tc_handle c = ctx_handle) (\<lambda>c. c\<lparr>tc_keys := key_handle # tc_keys c\<rparr>)
                     (tcs_context_table st)\<rparr>
                 in key_mgr_inc_ref_count key_handle st)"

definition key_mgr_evict :: "u32 \<Rightarrow> u32 \<Rightarrow> tcs_state \<Rightarrow> u32 \<times> tcs_state" where
  "key_mgr_evict hContext hKey st =
     (let (result, st) = ctx_remove_key_loaded hContext hKey st
      in if result \<noteq> 0 then (result, st)
         else let (result, st) = key_mgr_dec_ref_count hKey st
           in if result \<noteq> 0 then (result, st)
              else (result, snd (key_mgr_ref_count st)))"

section \<open>Destruction\<close>

text \<open>The transport session to flush in the TPM, and the new state.\<close>

definition kill :: "tcs_context \<Rightarrow> tcs_state \<Rightarrow> u32 option \<times> tcs_state" where
  "kill toKill st =
     (let st = ctx_ref_count_keys (tc_keys toKill) st
      in (if tc_transHandle toKill \<noteq> 0 then Some (tc_transHandle toKill) else None, kfree 1 st))"

definition destroy_context :: "u32 \<Rightarrow> tcs_state \<Rightarrow> (u32 option \<times> tcs_state) option" where
  "destroy_context handle st =
     (let t = tcs_context_table st
      in case get_previous_context handle st of
           None \<Rightarrow>
             if t = [] then None
             else if tc_handle (hd t) = handle
             then Some (kill (hd t) (st\<lparr>tcs_context_table := tl t\<rparr>))
             else Some (None, st)
         | Some p \<Rightarrow>
             if tc_handle (hd t) = handle then None
             else Some (kill (t ! Suc p) (st\<lparr>tcs_context_table := take (Suc p) t @ drop (Suc (Suc p)) t\<rparr>)))"

section \<open>Transport sessions\<close>

text \<open>The walk ends at a context that already is exclusive, else \<open>self\<close> is the last context with
  the handle.\<close>

definition ctx_req_exclusive_transport :: "bool \<Rightarrow> u32 \<Rightarrow> tcs_state \<Rightarrow> u32 \<times> tcs_state" where
  "ctx_req_exclusive_transport exclusive_transport tcsContext st =
     (if \<not> exclusive_transport then (TSS_SUCCESS, st)
      else if \<exists>tmp \<in> set (tcs_context_table st). tc_flags tmp AND TRANSPORT_EXCLUSIVE \<noteq> 0
      then (TCSERR TSS_E_INTERNAL_ERROR, st)
      else if \<exists>tmp \<in> set (tcs_context_table st). tc_handle tmp = tcsContext
      then (TSS_SUCCESS, st\<lparr>tcs_context_table := rev (update_first (\<lambda>c. tc_handle c = tcsContext)
              (\<lambda>c. c\<lparr>tc_flags := tc_flags c OR TRANSPORT_EXCLUSIVE\<rparr>) (rev (tcs_context_table st)))\<rparr>)
      else (TCSERR TCS_E_INVALID_CONTEXTHANDLE, st))"

definition ctx_set_transport_enabled :: "u32 \<Rightarrow> u32 \<Rightarrow> tcs_state \<Rightarrow> u32 \<times> tcs_state" where
  "ctx_set_transport_enabled tcsContext hTransHandle st =
     (if \<exists>tmp \<in> set (tcs_context_table st). tc_handle tmp = tcsContext
      then (TSS_SUCCESS, st\<lparr>tcs_context_table := update_first (\<lambda>c. tc_handle c = tcsContext)
              (\<lambda>c. c\<lparr>tc_flags := tc_flags c OR TRANSPORT_ENABLED, tc_transHandle := hTransHandle\<rparr>)
              (tcs_context_table st)\<rparr>)
      else (TCSERR TCS_E_INVALID_CONTEXTHANDLE, st))"

definition ctx_set_transport_disabled :: "u32 \<Rightarrow> u32 option \<Rightarrow> tcs_state \<Rightarrow> u32 \<times> tcs_state" where
  "ctx_set_transport_disabled tcsContext transHandle st =
     (case get_context tcsContext st of
        None \<Rightarrow> (TCSERR TCS_E_INVALID_CONTEXTHANDLE, st)
      | Some self \<Rightarrow>
          if transHandle = None \<or> transHandle = Some (tc_transHandle self)
          then (TSS_SUCCESS, st\<lparr>tcs_context_table := update_first (\<lambda>c. tc_handle c = tcsContext)
                 (\<lambda>c. c\<lparr>tc_transHandle := 0, tc_flags := tc_flags c AND NOT TRANSPORT_ENABLED\<rparr>)
                 (tcs_context_table st)\<rparr>)
          else (TSS_SUCCESS, st))"

section \<open>Reference counting\<close>

text \<open>The contract between the contexts and the key cache: \<open>inc\<close> and \<open>dec\<close> move the count of a known
  key by one and leave every other count alone; unknown keys have no references.\<close>

locale ref_counter =
  fixes known :: "'s \<Rightarrow> 'h \<Rightarrow> bool"
    and refs :: "'s \<Rightarrow> 'h \<Rightarrow> int"
    and inc :: "'h \<Rightarrow> 's \<Rightarrow> 's"
    and dec :: "'h \<Rightarrow> 's \<Rightarrow> 's"
  assumes known_inc: "known (inc h s) h' = known s h'"
    and known_dec: "known (dec h s) h' = known s h'"
    and refs_unknown: "\<not> known s h \<Longrightarrow> refs s h = 0"
    and refs_inc: "refs (inc h s) h' = refs s h' + (if h' = h \<and> known s h then 1 else 0)"
    and refs_dec: "refs (dec h s) h' = refs s h' - (if h' = h \<and> known s h then 1 else 0)"
begin

lemma known_release: "known (fold dec hs s) h = known s h"
  by (induction hs arbitrary: s) (auto simp: known_dec)

lemma refs_release:
  "refs (fold dec hs s) h = refs s h - (if known s h then int (count_list hs h) else 0)"
  by (induction hs arbitrary: s) (auto simp: refs_dec known_dec)

lemma refs_acquire:
  "refs (fold inc hs s) h = refs s h + (if known s h then int (count_list hs h) else 0)"
  by (induction hs arbitrary: s) (auto simp: refs_inc known_inc)

lemma known_acquire: "known (fold inc hs s) h = known s h"
  by (induction hs arbitrary: s) (auto simp: known_inc)

text \<open>Releasing what has been acquired restores every count.\<close>

lemma release_acquire: "refs (fold dec hs (fold inc hs s)) h = refs s h"
  by (simp add: refs_release refs_acquire known_acquire)

end

definition cached :: "'a kstate_scheme \<Rightarrow> u32 \<Rightarrow> bool" where
  "cached st h \<longleftrightarrow> h \<in> kc_tcs_handle ` set (cache st)"

definition refs :: "'a kstate_scheme \<Rightarrow> u32 \<Rightarrow> int" where
  "refs st h = (case List.find (\<lambda>cur. kc_tcs_handle cur = h) (cache st) of
     None \<Rightarrow> 0 | Some cur \<Rightarrow> kc_ref_cnt cur)"

definition acquire :: "u32 \<Rightarrow> 'a kstate_scheme \<Rightarrow> 'a kstate_scheme" where
  "acquire h st = snd (key_mgr_inc_ref_count h st)"

definition release :: "u32 \<Rightarrow> 'a kstate_scheme \<Rightarrow> 'a kstate_scheme" where
  "release h st = kfree 1 (snd (key_mgr_dec_ref_count h st))"

lemma find_update_first:
  assumes "\<And>e. kc_tcs_handle (f e) = kc_tcs_handle e"
  shows "List.find (\<lambda>e. kc_tcs_handle e = h') (update_first (\<lambda>e. kc_tcs_handle e = h) f es) =
    map_option (\<lambda>e. if h' = h then f e else e) (List.find (\<lambda>e. kc_tcs_handle e = h') es)"
  using assms by (induction es) (auto simp: option.map_ident)

lemma find_cached: "cached st h \<longleftrightarrow> List.find (\<lambda>cur. kc_tcs_handle cur = h) (cache st) \<noteq> None"
  by (auto simp: cached_def find_None_iff)

lemma cached_iff: "cached st h \<longleftrightarrow> (\<exists>cur \<in> set (cache st). kc_tcs_handle cur = h)"
  by (auto simp: cached_def)

lemma cached_in_place: "in_place st st' \<Longrightarrow> cached st' = cached st"
  unfolding cached_def in_place_def by (metis list.set_map)

lemma refs_eq: "cache st' = cache st \<Longrightarrow> refs st' = refs st"
  "cache st' = cache st \<Longrightarrow> cached st' = cached st"
  by (simp_all add: refs_def cached_def fun_eq_iff)

lemma refs_unknown: "\<not> cached st h \<Longrightarrow> refs st h = 0"
  by (simp add: refs_def find_cached)

lemma refs_after_acquire: "refs (acquire h st) h' = refs st h' + (if h' = h \<and> cached st h then 1 else 0)"
  by (cases "cached st h")
    (auto simp: acquire_def key_mgr_inc_ref_count_def refs_def find_update_first find_cached
      cached_iff [symmetric] split: option.split)

lemma refs_after_release: "refs (release h st) h' = refs st h' - (if h' = h \<and> cached st h then 1 else 0)"
  by (cases "cached st h")
    (auto simp: release_def key_mgr_dec_ref_count_def refs_def find_update_first find_cached
      cached_iff [symmetric] split: option.split)

lemma cached_acquire: "cached (acquire h st) h' = cached st h'"
  by (simp add: acquire_def cached_in_place [OF in_place_ops(6)])

lemma cached_release: "cached (release h st) h' = cached st h'"
  using cached_in_place [OF in_place_ops(7), of h st] by (simp add: release_def cached_def fun_eq_iff)

interpretation keys: ref_counter cached refs acquire release
  by unfold_locales (simp_all add: refs_unknown refs_after_acquire refs_after_release cached_acquire cached_release)

lemma ctx_ref_count_keys_fold: "ctx_ref_count_keys ks st = fold release ks st"
  by (induction ks arbitrary: st) (simp_all add: release_def)

section \<open>Invariant\<close>

text \<open>How many contexts list a key.  The invariant: each context lists a key once, and the cache
  counts at least as many references as there are contexts that list the key; a key that is
  listed is therefore in the cache.\<close>

definition held :: "tcs_context list \<Rightarrow> u32 \<Rightarrow> nat" where
  "held t h = (\<Sum>c\<leftarrow>t. count_list (tc_keys c) h)"

definition exclusive :: "tcs_context \<Rightarrow> bool" where
  "exclusive c \<longleftrightarrow> tc_flags c AND TRANSPORT_EXCLUSIVE \<noteq> 0"

definition refs_ok :: "tcs_state \<Rightarrow> bool" where
  "refs_ok st \<longleftrightarrow> cache_ok st \<and> (\<forall>c \<in> set (tcs_context_table st). distinct (tc_keys c))
     \<and> (\<forall>h. int (held (tcs_context_table st) h) \<le> refs st h)
     \<and> length (filter exclusive (tcs_context_table st)) \<le> 1"

lemma held_simps [simp]: "held [] h = 0" "held (c # t) h = count_list (tc_keys c) h + held t h"
  "held (t @ t') h = held t h + held t' h"
  by (simp_all add: held_def)

lemma held_pos: "c \<in> set t \<Longrightarrow> h \<in> set (tc_keys c) \<Longrightarrow> 0 < held t h"
  by (auto dest!: split_list simp: count_list_0_iff)

lemma held_cached:
  assumes "refs_ok st" "c \<in> set (tcs_context_table st)" "h \<in> set (tc_keys c)"
  shows "cached st h \<and> 1 \<le> refs st h"
proof -
  have "1 \<le> refs st h"
    using assms held_pos [OF assms(2,3)] unfolding refs_ok_def
    by (metis (no_types, lifting) One_nat_def Suc_leI nat_int_comparison(3) of_nat_1 order_trans)
  then show ?thesis using refs_unknown [of st h] by fastforce
qed

lemma update_first_split:
  "List.find P t = Some c \<Longrightarrow>
   \<exists>xs ys. t = xs @ c # ys \<and> update_first P f t = xs @ f c # ys \<and> P c \<and> (\<forall>x \<in> set xs. \<not> P x)"
proof (induction t)
  case (Cons a t)
  show ?case
  proof (cases "P a")
    case False
    then obtain xs ys where "t = xs @ c # ys \<and> update_first P f t = xs @ f c # ys \<and> P c \<and> (\<forall>x \<in> set xs. \<not> P x)"
      using Cons by auto
    then show ?thesis using False by (intro exI [of _ "a # xs"] exI [of _ ys]) auto
  qed (use Cons.prems in \<open>auto intro: exI [of _ "[]"]\<close>)
qed simp

text \<open>The table and the key cache are separate parts of the state.\<close>

lemma table_of_more: "kstate.more st = kstate.more st' \<Longrightarrow> tcs_context_table st = tcs_context_table st'"
  by (cases st; cases st') simp

lemma more_ops [simp]: "kstate.more (acquire h st) = kstate.more st" "kstate.more (release h st) = kstate.more st"
  "kstate.more (snd (key_mgr_ref_count st)) = kstate.more st"
  by (simp_all add: acquire_def release_def key_mgr_inc_ref_count_def key_mgr_dec_ref_count_def
      key_mgr_ref_count_def Let_def)

lemma more_release [simp]: "kstate.more (fold release ks st) = kstate.more st"
  by (induction ks arbitrary: st) simp_all

lemma cache_ok_kfree [simp]: "cache_ok (kfree n st) = cache_ok st"
  by (simp add: cache_ok_def)

lemma cache_ok_release [simp]: "cache_ok (release h st) = cache_ok st" "cache_ok (acquire h st) = cache_ok st"
proof -
  show "cache_ok (release h st) = cache_ok st"
    using in_place_keeps [OF in_place_ops(7), of h st 0] by (simp add: release_def)
  show "cache_ok (acquire h st) = cache_ok st"
    using in_place_keeps [OF in_place_ops(6), of h st 0] by (simp add: acquire_def)
qed

lemma cache_ok_release_all [simp]: "cache_ok (fold release ks st) = cache_ok st"
  by (induction ks arbitrary: st) simp_all

lemma kalloc_more: "kalloc st = (ok, st') \<Longrightarrow> cache st' = cache st \<and> kstate.more st' = kstate.more st
    \<and> next_addr st' = next_addr st"
  using kalloc_cases by (auto simp: heap_only_def)

section \<open>What each operation does to the two parts of the state\<close>

lemma refs_ok_cong:
  assumes "refs_ok st" "cache_ok st'" "refs st' = refs st"
    and "\<forall>h. held (tcs_context_table st') h \<le> held (tcs_context_table st) h"
    and "\<forall>c \<in> set (tcs_context_table st'). distinct (tc_keys c)"
    and "length (filter exclusive (tcs_context_table st')) \<le> 1"
  shows "refs_ok st'"
  using assms unfolding refs_ok_def by (metis (no_types, lifting) of_nat_le_iff order_trans)

lemma make_context_cases:
  "make_context r1 r2 st = Some (h, st') \<Longrightarrow> cache st' = cache st \<and> next_addr st' = next_addr st
   \<and> (tcs_context_table st' = tcs_context_table st \<and> h = 0
      \<or> tcs_context_table st' = tcs_context_table st
          @ [\<lparr>tc_flags = 0, tc_transHandle = 0, tc_handle = h, tc_keys = []\<rparr>])"
  by (auto simp: make_context_def create_tcs_context_def getNextHandle_def Let_def
      dest!: kalloc_more table_of_more split: if_splits prod.splits bind_splits)

lemma first_index_some:
  "first_index P es = Some i \<Longrightarrow> i < length es \<and> P (es ! i) \<and> (\<forall>x \<in> set (take i es). \<not> P x)"
  by (induction es arbitrary: i) (auto split: if_splits)

lemma first_index_none: "first_index P es = None \<longleftrightarrow> (\<forall>x \<in> set es. \<not> P x)"
  by (induction es) auto

text \<open>A destroyed context is the first with its handle; its keys are released and it leaves the table.\<close>

lemma destroy_context_cases:
  assumes "destroy_context h st = Some (fl, st')"
  shows "(st' = st \<and> fl = None \<and> get_context h st = None)
    \<or> (\<exists>xs c ys. tcs_context_table st = xs @ c # ys \<and> tc_handle c = h \<and> (\<forall>x \<in> set xs. tc_handle x \<noteq> h)
         \<and> fl = (if tc_transHandle c \<noteq> 0 then Some (tc_transHandle c) else None)
         \<and> st' = kfree 1 (fold release (tc_keys c) (st\<lparr>tcs_context_table := xs @ ys\<rparr>)))"
proof (cases "tcs_context_table st")
  case (Cons a t)
  show ?thesis
  proof (cases "get_previous_context h st")
    case None
    then have n: "\<forall>x \<in> set t. tc_handle x \<noteq> h"
      using Cons by (simp add: get_previous_context_def first_index_none)
    show ?thesis
    proof (cases "tc_handle a = h")
      case True
      then have "fl = (if tc_transHandle a \<noteq> 0 then Some (tc_transHandle a) else None)"
        "st' = kfree 1 (fold release (tc_keys a) (st\<lparr>tcs_context_table := [] @ t\<rparr>))"
        using assms None Cons by (simp_all add: destroy_context_def kill_def ctx_ref_count_keys_fold Let_def)
      moreover have "tcs_context_table st = [] @ a # t" "\<forall>x \<in> set []. tc_handle x \<noteq> h" using Cons by simp_all
      ultimately show ?thesis using True by blast
    next
      case False
      then show ?thesis
        using assms None Cons n by (simp add: destroy_context_def get_context_def find_first_none)
    qed
  next
    case (Some p)
    then have p: "p < length t" "tc_handle (t ! p) = h" "\<forall>x \<in> set (take p t). tc_handle x \<noteq> h"
      using Cons first_index_some [of _ t p] by (auto simp: get_previous_context_def)
    then have "tcs_context_table st = (a # take p t) @ t ! p # drop (Suc p) t"
      using Cons by (simp add: id_take_nth_drop)
    moreover have "tc_handle a \<noteq> h" using assms Some Cons by (auto simp: destroy_context_def)
    moreover have "fl = (if tc_transHandle (t ! p) \<noteq> 0 then Some (tc_transHandle (t ! p)) else None)"
      "st' = kfree 1 (fold release (tc_keys (t ! p)) (st\<lparr>tcs_context_table := (a # take p t) @ drop (Suc p) t\<rparr>))"
      using assms Some Cons
      by (auto simp: destroy_context_def kill_def ctx_ref_count_keys_fold Let_def split: if_splits)
    ultimately show ?thesis using p by (metis set_ConsD)
  qed
qed (use assms in \<open>simp add: destroy_context_def get_previous_context_def\<close>)

text \<open>Marking a key that is in the cache.\<close>

lemma mark_cases:
  assumes "ctx_mark_key_loaded ch h st = (r, st')"
  shows "cache st' = cache st \<and> next_addr st' = next_addr st \<and> tcs_context_table st' = tcs_context_table st
    \<or> (\<exists>xs c ys st1. tcs_context_table st = xs @ c # ys \<and> h \<notin> set (tc_keys c)
         \<and> cache st1 = cache st \<and> next_addr st1 = next_addr st
         \<and> tcs_context_table st1 = xs @ c\<lparr>tc_keys := h # tc_keys c\<rparr> # ys \<and> st' = acquire h st1)"
proof (cases "get_context ch st")
  case (Some c)
  let ?f = "\<lambda>c. c\<lparr>tc_keys := h # tc_keys c\<rparr>"
  have "List.find (\<lambda>c. tc_handle c = ch) (tcs_context_table st) = Some c"
    using Some by (simp add: get_context_def)
  from update_first_split [OF this, of ?f]
  obtain xs ys where t: "tcs_context_table st = xs @ c # ys" and
    u: "update_first (\<lambda>c. tc_handle c = ch) ?f (tcs_context_table st) = xs @ ?f c # ys"
    by blast
  obtain ok st0 where k: "kalloc st = (ok, st0)" by fastforce
  then have st0: "cache st0 = cache st" "next_addr st0 = next_addr st"
    "tcs_context_table st0 = tcs_context_table st"
    using kalloc_more [OF k] table_of_more by auto
  show ?thesis
  proof (cases "h \<in> set (tc_keys c) \<or> \<not> ok")
    case True
    then have "st' = st \<or> st' = st0"
      using assms Some k by (auto simp: ctx_mark_key_loaded_def split: if_splits)
    then show ?thesis using st0 by auto
  next
    case False
    then have "st' = acquire h (st0\<lparr>tcs_context_table := xs @ ?f c # ys\<rparr>)"
      using assms Some k st0 u by (simp add: ctx_mark_key_loaded_def acquire_def)
    then show ?thesis using False t st0
      by (intro disjI2 exI [of _ xs] exI [of _ c] exI [of _ ys]
          exI [of _ "st0\<lparr>tcs_context_table := xs @ ?f c # ys\<rparr>"]) simp
  qed
qed (use assms in \<open>simp add: ctx_mark_key_loaded_def\<close>)

text \<open>Unlinking the second key of a list takes the first one with it.\<close>

lemma unlink_count:
  assumes "i < length ks" "distinct ks"
  shows "count_list (unlink_key i ks) h \<le> count_list ks h" "count_list (unlink_key i ks) (ks ! i) = 0"
    "distinct (unlink_key i ks)"
proof -
  have s: "ks = take i ks @ ks ! i # drop (Suc i) ks" using assms(1) by (simp add: id_take_nth_drop)
  have u: "unlink_key i ks = (if i \<le> 1 then drop (Suc i) ks else take i ks @ drop (Suc i) ks)"
    by (simp add: unlink_key_def Let_def)
  have d: "distinct (take i ks @ ks ! i # drop (Suc i) ks)" using assms(2) s by metis
  show "count_list (unlink_key i ks) h \<le> count_list ks h"
    by (subst (2) s) (simp add: u)
  show "count_list (unlink_key i ks) (ks ! i) = 0" "distinct (unlink_key i ks)"
    using d by (auto simp: u count_list_0_iff)
qed

lemma refs_sweep:
  assumes "cache_ok st"
  shows "refs (snd (key_mgr_ref_count st)) h = refs st h"
proof -
  have "distinct (map kc_tcs_handle es) \<Longrightarrow>
      (case List.find (\<lambda>cur. kc_tcs_handle cur = h) (filter (\<lambda>cur. kc_ref_cnt cur \<noteq> 0) es) of
         None \<Rightarrow> 0 | Some cur \<Rightarrow> kc_ref_cnt cur) =
      (case List.find (\<lambda>cur. kc_tcs_handle cur = h) es of None \<Rightarrow> 0 | Some cur \<Rightarrow> kc_ref_cnt cur)" for es
  proof (induction es)
    case (Cons e es)
    show ?case
    proof (cases "kc_tcs_handle e = h")
      case True
      then have "\<forall>x \<in> set es. kc_tcs_handle x \<noteq> h" using Cons.prems by (auto simp: image_iff)
      then have "List.find (\<lambda>cur. kc_tcs_handle cur = h) es = None"
        "List.find (\<lambda>cur. kc_tcs_handle cur = h) (filter (\<lambda>cur. kc_ref_cnt cur \<noteq> 0) es) = None"
        by (simp_all add: find_first_none)
      with True show ?thesis by simp
    qed (use Cons in simp)
  qed simp
  from this [of "cache st"] assms show ?thesis
    by (simp only: cache_ok_def refs_def key_mgr_ref_count_def Let_def snd_conv kfree_simps) simp
qed

lemma cache_ok_sweep: "cache_ok st \<Longrightarrow> cache_ok (snd (key_mgr_ref_count st))"
  by (auto simp: key_mgr_ref_count_def Let_def cache_ok_def distinct_filter_map)

section \<open>Every operation keeps the invariant\<close>

lemma cache_ok_cong:
  "cache st' = cache st \<Longrightarrow> next_addr st' = next_addr st \<Longrightarrow> cache_ok st' = cache_ok st"
  by (simp add: cache_ok_def)

lemma refs_ok_same_cache:
  assumes "refs_ok st" "cache st' = cache st" "next_addr st' = next_addr st"
    and "map tc_keys (tcs_context_table st') = map tc_keys (tcs_context_table st)"
    and "length (filter exclusive (tcs_context_table st')) \<le> 1"
  shows "refs_ok st'"
proof -
  have h: "held t k = (\<Sum>ks\<leftarrow>map tc_keys t. count_list ks k)" for t k by (simp add: held_def o_def)
  have d: "(\<forall>c \<in> set t. distinct (tc_keys c)) \<longleftrightarrow> (\<forall>ks \<in> set (map tc_keys t). distinct ks)" for t by simp
  show ?thesis
    using assms cache_ok_cong [OF assms(2,3)] refs_eq(1) [OF assms(2)]
    unfolding refs_ok_def h d by (elim conjE) (simp only: simp_thms)
qed

lemma make_context_keeps:
  assumes "refs_ok st" "make_context r1 r2 st = Some (h, st')"
  shows "refs_ok st'"
proof -
  from make_context_cases [OF assms(2)] have c: "cache st' = cache st" "next_addr st' = next_addr st"
    and t: "tcs_context_table st' = tcs_context_table st
      \<or> tcs_context_table st' = tcs_context_table st
          @ [\<lparr>tc_flags = 0, tc_transHandle = 0, tc_handle = h, tc_keys = []\<rparr>]" by auto
  from t show ?thesis
  proof
    assume "tcs_context_table st' = tcs_context_table st"
    then show ?thesis using assms(1) c by (intro refs_ok_same_cache [OF assms(1)]) (simp_all add: refs_ok_def)
  next
    assume "tcs_context_table st' = tcs_context_table st
      @ [\<lparr>tc_flags = 0, tc_transHandle = 0, tc_handle = h, tc_keys = []\<rparr>]"
    then show ?thesis
      using assms(1) c cache_ok_cong [OF c] by (simp add: refs_ok_def refs_eq(1) [OF c(1)] exclusive_def)
  qed
qed

lemma destroy_context_keeps:
  assumes "refs_ok st" "destroy_context h st = Some (fl, st')"
  shows "refs_ok st'"
  using destroy_context_cases [OF assms(2)]
proof (elim disjE exE conjE)
  fix xs c ys
  assume t: "tcs_context_table st = xs @ c # ys"
    and s: "st' = kfree 1 (fold release (tc_keys c) (st\<lparr>tcs_context_table := xs @ ys\<rparr>))"
  let ?s = "st\<lparr>tcs_context_table := xs @ ys\<rparr>"
  have t': "tcs_context_table st' = xs @ ys"
    using s table_of_more [of st' ?s] by simp
  have r: "refs st' k = refs st k - (if cached st k then int (count_list (tc_keys c) k) else 0)" for k
    using s keys.refs_release [of "tc_keys c" ?s k] refs_eq [of ?s st]
      refs_eq(1) [of st' "fold release (tc_keys c) ?s"] by simp
  have "int (held (xs @ ys) k) \<le> refs st' k" for k
    using assms(1) r [of k] t by (auto simp: refs_ok_def dest: spec [of _ k])
  moreover have "cache_ok st'" using assms(1) s by (simp add: refs_ok_def) (simp add: cache_ok_def)
  ultimately show ?thesis
    using assms(1) t t' by (auto simp: refs_ok_def split: if_splits)
qed (use assms in simp)

lemma mark_keeps:
  assumes "refs_ok st" "cached st h" "ctx_mark_key_loaded ch h st = (r, st')"
  shows "refs_ok st'"
  using mark_cases [OF assms(3)]
proof (elim disjE exE conjE)
  fix xs c ys st1
  assume t: "tcs_context_table st = xs @ c # ys" "h \<notin> set (tc_keys c)"
    and s: "cache st1 = cache st" "next_addr st1 = next_addr st" "st' = acquire h st1"
      "tcs_context_table st1 = xs @ c\<lparr>tc_keys := h # tc_keys c\<rparr> # ys"
  have t': "tcs_context_table st' = xs @ c\<lparr>tc_keys := h # tc_keys c\<rparr> # ys"
    using s table_of_more [of st' st1] by simp
  have r: "refs st' k = refs st k + (if k = h then 1 else 0)" for k
    using s assms(2) refs_eq [of st1 st] by (simp add: refs_after_acquire)
  have "int (held (tcs_context_table st') k) \<le> refs st' k" for k
    using assms(1) r [of k] t t' by (auto simp: refs_ok_def dest: spec [of _ k])
  moreover have "cache_ok st'" using assms(1) s cache_ok_cong [of st1 st] by (simp add: refs_ok_def)
  ultimately show ?thesis
    using assms(1) t t' by (auto simp: refs_ok_def exclusive_def split: if_splits)
next
  assume "cache st' = cache st" "next_addr st' = next_addr st" "tcs_context_table st' = tcs_context_table st"
  then show ?thesis using assms(1) by (simp add: refs_ok_def refs_eq(1) [of st' st] cache_ok_def)
qed

lemma sweep_keeps_refs: "refs_ok st \<Longrightarrow> refs_ok (snd (key_mgr_ref_count st))"
  using table_of_more [of "snd (key_mgr_ref_count st)" st]
  by (simp add: refs_ok_def cache_ok_sweep refs_sweep)

text \<open>Evicting a key of a context: the list loses the key, the cache a reference.\<close>

lemma remove_loaded_cases:
  assumes "ctx_remove_key_loaded ch h st = (r, st')"
  shows "(r \<noteq> 0 \<and> st' = st) \<or> (r = 0 \<and> (\<exists>xs c ys i. tcs_context_table st = xs @ c # ys
     \<and> i < length (tc_keys c) \<and> tc_keys c ! i = h
     \<and> st' = kfree 1 (st\<lparr>tcs_context_table := xs @ c\<lparr>tc_keys := unlink_key i (tc_keys c)\<rparr> # ys\<rparr>)))"
proof (cases "get_context ch st")
  case (Some c)
  show ?thesis
  proof (cases "first_index (\<lambda>k. k = h) (tc_keys c)")
    case None
    then show ?thesis using assms Some by (auto simp: ctx_remove_key_loaded_def)
  next
    case (Some i)
    let ?f = "\<lambda>c. c\<lparr>tc_keys := unlink_key i (tc_keys c)\<rparr>"
    have "List.find (\<lambda>c. tc_handle c = ch) (tcs_context_table st) = Some c"
      using \<open>get_context ch st = Some c\<close> by (simp add: get_context_def)
    from update_first_split [OF this, of ?f]
    obtain xs ys where "tcs_context_table st = xs @ c # ys"
      "update_first (\<lambda>c. tc_handle c = ch) ?f (tcs_context_table st) = xs @ ?f c # ys" by blast
    then have "r = 0 \<and> tcs_context_table st = xs @ c # ys \<and> i < length (tc_keys c) \<and> tc_keys c ! i = h
        \<and> st' = kfree 1 (st\<lparr>tcs_context_table := xs @ ?f c # ys\<rparr>)"
      using assms Some \<open>get_context ch st = Some c\<close> first_index_some [OF Some]
      by (simp add: ctx_remove_key_loaded_def)
    then show ?thesis by blast
  qed
qed (use assms in \<open>auto simp: ctx_remove_key_loaded_def\<close>)

lemma drop_key_keeps:
  assumes "refs_ok st" "tcs_context_table st = xs @ c # ys" "i < length (tc_keys c)"
    and "st1 = st\<lparr>tcs_context_table := xs @ c\<lparr>tc_keys := unlink_key i (tc_keys c)\<rparr> # ys\<rparr>"
  shows "refs_ok (release (tc_keys c ! i) st1)"
proof -
  let ?h = "tc_keys c ! i"
  have d: "distinct (tc_keys c)" using assms by (simp add: refs_ok_def)
  have u: "count_list (unlink_key i (tc_keys c)) k + (if k = ?h then 1 else 0) \<le> count_list (tc_keys c) k" for k
    using unlink_count(1) [OF assms(3) d, of k] unlink_count(2) [OF assms(3) d]
      count_list_0_iff [of "tc_keys c" ?h] nth_mem [OF assms(3)] by (auto simp: Suc_le_eq)
  have t: "tcs_context_table (release ?h st1) = xs @ c\<lparr>tc_keys := unlink_key i (tc_keys c)\<rparr> # ys"
    using assms(4) table_of_more [of "release ?h st1" st1] by simp
  have c: "cached st ?h"
    using held_cached [OF assms(1), of c ?h] assms(2) nth_mem [OF assms(3)] by simp
  have "refs (release ?h st1) k = refs st k - (if k = ?h then 1 else 0)" for k
    using c assms(4) refs_eq [of st1 st] by (simp add: refs_after_release)
  then have "int (held (tcs_context_table (release ?h st1)) k) \<le> refs (release ?h st1) k" for k
    using assms(1,2) u [of k] t by (auto simp: refs_ok_def dest!: spec [of _ k] split: if_splits)
  moreover have "cache_ok (release ?h st1)" using assms(1,4) by (simp add: refs_ok_def) (simp add: cache_ok_def)
  ultimately show ?thesis
    using assms(1,2) t unlink_count(3) [OF assms(3) d]
    by (auto simp: refs_ok_def exclusive_def split: if_splits)
qed

lemma dec_kfree: "snd (key_mgr_dec_ref_count h (kfree (Suc 0) st)) = release h st"
  by (simp add: release_def key_mgr_dec_ref_count_def kfree_def)

lemma evict_keeps_refs:
  assumes "refs_ok st" "key_mgr_evict ch h st = (r, st')"
  shows "refs_ok st'"
proof -
  obtain r1 st1 where e: "ctx_remove_key_loaded ch h st = (r1, st1)" by fastforce
  show ?thesis
  proof (cases "r1 = 0")
    case True
    then obtain xs c ys i where t: "tcs_context_table st = xs @ c # ys" "i < length (tc_keys c)"
      "tc_keys c ! i = h"
      and s: "st1 = kfree 1 (st\<lparr>tcs_context_table := xs @ c\<lparr>tc_keys := unlink_key i (tc_keys c)\<rparr> # ys\<rparr>)"
      using remove_loaded_cases [OF e] by auto
    let ?s = "st\<lparr>tcs_context_table := xs @ c\<lparr>tc_keys := unlink_key i (tc_keys c)\<rparr> # ys\<rparr>"
    have k: "refs_ok (release h ?s)" using drop_key_keeps [OF assms(1) t(1,2), of ?s] t(3) by simp
    then have "refs_ok (snd (key_mgr_dec_ref_count h st1))" using s by (simp add: dec_kfree)
    then show ?thesis
      using assms(2) e True sweep_keeps_refs by (auto simp: key_mgr_evict_def split: prod.splits if_splits)
  next
    case False
    then show ?thesis using assms e remove_loaded_cases [OF e] by (auto simp: key_mgr_evict_def)
  qed
qed

lemma add_entry_more:
  "mc_add_entry h slot blob st = Some (r, st') \<Longrightarrow> (\<And>key. blob = Some key \<Longrightarrow> wf_TSS_KEY key) \<Longrightarrow>
   kstate.more st' = kstate.more st"
  by (auto simp: mc_add_entry_def push_entry_def getNextTimeStamp_def heap_only_def
      dest!: kalloc_cases copy_blob_cases split: if_splits prod.splits option.splits bind_splits)

text \<open>A new entry has no more references than it needs: no context lists its handle.\<close>

lemma refs_push: "\<not> cached st (kc_tcs_handle e) \<Longrightarrow> cache st' = e # cache st \<Longrightarrow>
   refs st' h = (if h = kc_tcs_handle e then kc_ref_cnt e else refs st h)"
  by (simp add: refs_def)

lemma push_keeps:
  assumes "refs_ok st" "cache_ok st'" "cache st' = e # cache st" "kstate.more st' = kstate.more st"
    and "\<not> cached st (kc_tcs_handle e)" "0 \<le> kc_ref_cnt e"
  shows "refs_ok st'"
proof -
  have "int (held (tcs_context_table st) h) \<le> refs st' h" for h
    using assms(1,6) refs_push [OF assms(5,3), of h] refs_unknown [OF assms(5)]
    by (auto simp: refs_ok_def dest: spec [of _ h] spec [of _ "kc_tcs_handle e"])
  then show ?thesis using assms table_of_more [OF assms(4)] by (simp add: refs_ok_def)
qed

lemma add_entry_keeps:
  assumes "refs_ok st" "mc_add_entry h slot blob st = Some (r, st')" "\<And>key. blob = Some key \<Longrightarrow> wf_TSS_KEY key"
  shows "refs_ok st'"
proof -
  note m = add_entry_more [OF assms(2,3)]
  consider "st' = st" | e where "h \<notin> kc_tcs_handle ` set (cache st)" "cache st' = e # cache st"
      "kc_tcs_handle e = h" "kc_addr e = next_addr st" "next_addr st' = Suc (next_addr st)" "0 \<le> kc_ref_cnt e"
    | "cache st' = cache st" "next_addr st' = next_addr st"
    using mc_add_entry_cases [OF assms(2,3)] by fastforce
  then show ?thesis
  proof cases
    case (2 e)
    then have "cache_ok st'" using assms(1) by (force simp: refs_ok_def cache_ok_def)
    then show ?thesis using 2 push_keeps [OF assms(1) _ 2(2) m] by (simp add: cached_def)
  next
    case 3
    then show ?thesis using assms(1) table_of_more [OF m]
      by (intro refs_ok_same_cache [OF assms(1)]) (simp_all add: refs_ok_def)
  qed (use assms in simp)
qed

lemma evict_first_keeps:
  assumes "refs_ok st" "evictFirstKey loaded evict p st = Some (r, st')"
  shows "refs_ok st'"
proof -
  have m: "map (\<lambda>e. (kc_tcs_handle e, kc_ref_cnt e)) es' = map (\<lambda>e. (kc_tcs_handle e, kc_ref_cnt e)) es \<Longrightarrow>
     (case List.find (\<lambda>e. kc_tcs_handle e = h) es' of None \<Rightarrow> 0 | Some e \<Rightarrow> kc_ref_cnt e)
     = (case List.find (\<lambda>e. kc_tcs_handle e = h) es of None \<Rightarrow> 0 | Some e \<Rightarrow> kc_ref_cnt e)" for es es' h
    by (induction es arbitrary: es') (auto simp: Cons_eq_map_conv)
  have "refs_ok (snd (mc_set_slot_by_slot a NULL_HANDLE st))" for a
  proof -
    let ?s = "snd (mc_set_slot_by_slot a NULL_HANDLE st)"
    have r: "refs ?s = refs st"
      unfolding refs_def
      by (intro ext m) (simp add: mc_set_slot_by_slot_def set_slot_def map_update_first)
    have t: "tcs_context_table ?s = tcs_context_table st"
      by (simp add: mc_set_slot_by_slot_def set_slot_def)
    have c: "cache_ok ?s"
      using assms(1) in_place_keeps [OF in_place_ops(1)] unfolding refs_ok_def by blast
    show ?thesis using assms(1) r c by (simp add: refs_ok_def t)
  qed
  then show ?thesis using evictFirstKey_cases [OF assms(2)] assms(1) by (metis snd_conv)
qed

lemma filter_exclusive_mono:
  "(\<And>c. exclusive (f c) \<Longrightarrow> exclusive c) \<Longrightarrow>
   length (filter exclusive (update_first P f t)) \<le> length (filter exclusive t)"
  by (induction t) (auto simp: le_SucI)

lemma flags_OR: "(x OR y) AND z = x AND z" if "y AND z = 0" for x y z :: u32
  using that by (simp add: bit.conj_disj_distrib2)

lemma req_exclusive_keeps:
  assumes "refs_ok st" "ctx_req_exclusive_transport b ch st = (r, st')"
  shows "refs_ok st'"
proof (cases "st' = st")
  case False
  let ?t = "rev (tcs_context_table st)" and ?f = "\<lambda>c. c\<lparr>tc_flags := tc_flags c OR TRANSPORT_EXCLUSIVE\<rparr>"
  have n: "\<not> (\<exists>c \<in> set (tcs_context_table st). exclusive c)"
    and e: "\<exists>c \<in> set (tcs_context_table st). tc_handle c = ch"
    and s: "st' = st\<lparr>tcs_context_table := rev (update_first (\<lambda>c. tc_handle c = ch) ?f ?t)\<rparr>"
    using assms(2) False by (auto simp: ctx_req_exclusive_transport_def exclusive_def split: if_splits)
  then obtain c where "List.find (\<lambda>c. tc_handle c = ch) ?t = Some c"
    using e find_first_none [of "\<lambda>c. tc_handle c = ch" ?t] by fastforce
  from update_first_split [OF this, of ?f] obtain xs ys where
    t: "?t = xs @ c # ys" "update_first (\<lambda>c. tc_handle c = ch) ?f ?t = xs @ ?f c # ys" by blast
  then have t': "tcs_context_table st = rev ys @ c # rev xs" by (metis rev_append rev_rev_ident rev.simps(2) append.assoc append_Cons append_Nil)
  have "filter exclusive xs = []" "filter exclusive ys = []"
    using n t' by (auto simp: filter_empty_conv)
  then show ?thesis
    using t t' s assms(1) by (intro refs_ok_same_cache [OF assms(1)]) (simp_all add: rev_filter [symmetric])
qed (use assms in simp)

lemma set_transport_keeps:
  assumes "refs_ok st"
  shows "refs_ok (snd (ctx_set_transport_enabled ch th st))" "refs_ok (snd (ctx_set_transport_disabled ch tp st))"
proof -
  have k: "refs_ok (st\<lparr>tcs_context_table := update_first P f (tcs_context_table st)\<rparr>)"
    if "\<And>c. tc_keys (f c) = tc_keys c" "\<And>c. exclusive (f c) \<Longrightarrow> exclusive c" for P f
    using assms that filter_exclusive_mono [of f P "tcs_context_table st"]
    by (intro refs_ok_same_cache [OF assms]) (simp_all add: map_update_first refs_ok_def)
  have "(TRANSPORT_ENABLED AND TRANSPORT_EXCLUSIVE :: u32) = 0"
    "(x AND NOT TRANSPORT_ENABLED) AND TRANSPORT_EXCLUSIVE = x AND TRANSPORT_EXCLUSIVE" for x :: u32
    by (simp_all add: and.assoc)
  then show "refs_ok (snd (ctx_set_transport_enabled ch th st))" "refs_ok (snd (ctx_set_transport_disabled ch tp st))"
    using assms
    by (auto simp: ctx_set_transport_enabled_def ctx_set_transport_disabled_def exclusive_def flags_OR
        split: option.split intro!: k)
qed

section \<open>The states of the daemon\<close>

text \<open>Any sequence of calls, from an empty cache and no context.  A key is marked as loaded by a
  context only while the cache has it, which is what the load operations see to.\<close>

inductive tcs_step :: "tcs_state \<Rightarrow> tcs_state \<Rightarrow> bool" where
  connect: "make_context r1 r2 st = Some (h, st') \<Longrightarrow> tcs_step st st'"
| disconnect: "destroy_context h st = Some (fl, st') \<Longrightarrow> tcs_step st st'"
| add: "mc_add_entry h slot blob st = Some (r, st') \<Longrightarrow> (\<And>key. blob = Some key \<Longrightarrow> wf_TSS_KEY key) \<Longrightarrow>
    tcs_step st st'"
| mark: "cached st h \<Longrightarrow> ctx_mark_key_loaded ch h st = (r, st') \<Longrightarrow> tcs_step st st'"
| evict: "key_mgr_evict ch h st = (r, st') \<Longrightarrow> tcs_step st st'"
| sweep: "key_mgr_ref_count st = (es, st') \<Longrightarrow> tcs_step st st'"
| make_room: "evictFirstKey loaded evict p st = Some (r, st') \<Longrightarrow> tcs_step st st'"
| req_exclusive: "ctx_req_exclusive_transport b ch st = (r, st') \<Longrightarrow> tcs_step st st'"
| enable: "ctx_set_transport_enabled ch th st = (r, st') \<Longrightarrow> tcs_step st st'"
| disable: "ctx_set_transport_disabled ch tp st = (r, st') \<Longrightarrow> tcs_step st st'"

inductive tcs_reach :: "tcs_state \<Rightarrow> bool" where
  start: "cache st = [] \<Longrightarrow> tcs_context_table st = [] \<Longrightarrow> tcs_reach st"
| step: "tcs_reach st \<Longrightarrow> tcs_step st st' \<Longrightarrow> tcs_reach st'"

lemma tcs_step_keeps: "tcs_step st st' \<Longrightarrow> refs_ok st \<Longrightarrow> refs_ok st'"
proof (induction rule: tcs_step.induct)
  case (add h slot blob st r st')
  then show ?case using add_entry_keeps by blast
next
  case (sweep st es st')
  then show ?case using sweep_keeps_refs [of st] by simp
next
  case (enable ch th st r st')
  then show ?case using set_transport_keeps(1) [of st ch th] by simp
next
  case (disable ch tp st r st')
  then show ?case using set_transport_keeps(2) [of st ch tp] by simp
qed (blast intro: make_context_keeps destroy_context_keeps mark_keeps evict_keeps_refs
    evict_first_keeps req_exclusive_keeps)+

lemma tcs_reach_refs_ok: "tcs_reach st \<Longrightarrow> refs_ok st"
proof (induction rule: tcs_reach.induct)
  case (start st)
  then show ?case by (simp add: refs_ok_def cache_ok_def refs_def)
qed (rule tcs_step_keeps)

section \<open>Properties\<close>


text \<open>A daemon with the storage root key and one context that has marked it.\<close>

definition ex_tcs :: tcs_state where
  "ex_tcs = \<lparr>cache = [], NextTcsKeyHandle = 0x22330000, next_stamp = 1, next_addr = 0, kc_ok = \<lambda>n. True,
     kc_count = 0, kc_live = 0, tcs_context_table = [], nextContextHandle = 0xA0000000,
     initContextHandle = False\<rparr>"

definition ex_tcs1 :: tcs_state where
  "ex_tcs1 = snd (the (make_context 0 0 (snd (the (mc_add_entry 0x40000000 0x40000000 None ex_tcs)))))"

definition ex_tcs2 :: tcs_state where
  "ex_tcs2 = snd (ctx_mark_key_loaded 0xA0000000 0x40000000 ex_tcs1)"

lemma ex_tcs1_eq: "ex_tcs1 = ex_tcs\<lparr>cache := [\<lparr>kc_addr = 0, kc_tpm_handle = 0x40000000,
    kc_tcs_handle = 0x40000000, kc_ref_cnt = 1, kc_time_stamp = 1, kc_uuid = zero_uuid, kc_blob = None,
    kc_parent = None\<rparr>], next_addr := 1, next_stamp := 2, kc_count := 2, kc_live := 2,
    nextContextHandle := 0xA0000001,
    tcs_context_table := [\<lparr>tc_flags = 0, tc_transHandle = 0, tc_handle = 0xA0000000, tc_keys = []\<rparr>]\<rparr>"
  by (simp add: ex_tcs1_def ex_tcs_def mc_add_entry_def make_context_def create_tcs_context_def
      getNextHandle_def kalloc_def getNextTimeStamp_def push_entry_def)

lemma ex_tcs2_table: "tcs_context_table ex_tcs2 =
    [\<lparr>tc_flags = 0, tc_transHandle = 0, tc_handle = 0xA0000000, tc_keys = [0x40000000]\<rparr>]"
  "map kc_ref_cnt (cache ex_tcs2) = [2]"
  by (simp_all add: ex_tcs2_def ex_tcs1_eq ex_tcs_def ctx_mark_key_loaded_def get_context_def kalloc_def
      key_mgr_inc_ref_count_def)

lemma ex_tcs_reach: "tcs_reach ex_tcs1" "tcs_reach ex_tcs2"
proof -
  have "tcs_reach ex_tcs" by (rule tcs_reach.start) (simp_all add: ex_tcs_def)
  moreover obtain s where s: "mc_add_entry 0x40000000 0x40000000 None ex_tcs = Some (0, s)"
    by (simp add: ex_tcs_def mc_add_entry_def kalloc_def getNextTimeStamp_def)
  ultimately have "tcs_reach s" by (blast intro: tcs_reach.step tcs_step.add)
  moreover have "make_context 0 0 s = Some (0xA0000000, ex_tcs1)"
    using s by (auto simp: ex_tcs1_def ex_tcs_def mc_add_entry_def make_context_def create_tcs_context_def
      getNextHandle_def kalloc_def getNextTimeStamp_def push_entry_def)
  ultimately show r: "tcs_reach ex_tcs1" by (blast intro: tcs_reach.step tcs_step.connect)
  have "cached ex_tcs1 0x40000000" by (simp add: ex_tcs1_eq cached_def)
  then have "tcs_step ex_tcs1 ex_tcs2"
    by (rule tcs_step.mark [where ch = "0xA0000000"]) (simp add: ex_tcs2_def prod_eq_iff)
  with r show "tcs_reach ex_tcs2" by (rule tcs_reach.step)
qed


lemma distinct_count: "distinct ks \<Longrightarrow> count_list ks k = (if k \<in> set ks then 1 else 0)"
  by (induction ks) auto

text \<open>C21: destroying a context removes it and no other, releases exactly one reference of each key it
  lists and none of any other key, and reports its transport session for flushing; the other
  contexts keep their order, flags and keys.\<close>

theorem destroy_context_releases:
  assumes "refs_ok st" "distinct (map tc_handle (tcs_context_table st))"
    and "get_context h st = Some c" "destroy_context h st = Some (fl, st')"
  shows "tcs_context_table st' = filter (\<lambda>d. tc_handle d \<noteq> h) (tcs_context_table st)
    \<and> get_context h st' = None
    \<and> (\<forall>k. refs st' k = refs st k - (if k \<in> set (tc_keys c) then 1 else 0))
    \<and> fl = (if tc_transHandle c \<noteq> 0 then Some (tc_transHandle c) else None)"
proof -
  from destroy_context_cases [OF assms(4)] assms(3) obtain xs c' ys where
    t: "tcs_context_table st = xs @ c' # ys" "tc_handle c' = h" "\<forall>x \<in> set xs. tc_handle x \<noteq> h"
    and f: "fl = (if tc_transHandle c' \<noteq> 0 then Some (tc_transHandle c') else None)"
    and s: "st' = kfree 1 (fold release (tc_keys c') (st\<lparr>tcs_context_table := xs @ ys\<rparr>))" by auto
  let ?s = "st\<lparr>tcs_context_table := xs @ ys\<rparr>"
  have c: "c' = c"
  proof -
    have "List.find (\<lambda>d. tc_handle d = h) xs = None" using t(3) by (simp add: find_first_none)
    then have "List.find (\<lambda>d. tc_handle d = h) (xs @ c' # ys) = Some c'" using t(2)
      by (induction xs) (auto split: if_splits)
    then show ?thesis using assms(3) t by (simp add: get_context_def)
  qed
  have t': "tcs_context_table st' = xs @ ys" using s table_of_more [of st' ?s] by simp
  have y: "\<forall>y \<in> set ys. tc_handle y \<noteq> h" using assms(2) t by (auto simp: image_iff)
  have "refs st' k = refs st k - (if cached st k then int (count_list (tc_keys c) k) else 0)" for k
    using s c keys.refs_release [of "tc_keys c" ?s k] refs_eq [of ?s st]
      refs_eq(1) [of st' "fold release (tc_keys c) ?s"] by simp
  moreover have "count_list (tc_keys c) k = (if k \<in> set (tc_keys c) then 1 else 0)" for k
    using assms(1) t c by (simp add: refs_ok_def distinct_count)
  moreover have "k \<in> set (tc_keys c) \<Longrightarrow> cached st k" for k
    using held_cached [OF assms(1), of c k] t c by simp
  ultimately have "refs st' k = refs st k - (if k \<in> set (tc_keys c) then 1 else 0)" for k by simp
  moreover have "filter (\<lambda>d. tc_handle d \<noteq> h) (tcs_context_table st) = xs @ ys"
    using t y by (simp add: filter_id_conv)
  ultimately show ?thesis using t' f c t(3) y by (auto simp: get_context_def find_first_none)
qed

theorem destroy_context_releases_witness:
  "\<exists>st'. destroy_context 0xA0000000 ex_tcs2 = Some (None, st') \<and> tcs_context_table st' = []
     \<and> refs st' 0x40000000 = refs ex_tcs2 0x40000000 - 1"
proof -
  let ?c = "\<lparr>tc_flags = 0, tc_transHandle = 0, tc_handle = 0xA0000000, tc_keys = [0x40000000]\<rparr>"
  obtain st' where d: "destroy_context 0xA0000000 ex_tcs2 = Some (None, st')"
    by (simp add: destroy_context_def ex_tcs2_table get_previous_context_def kill_def)
  have "get_context 0xA0000000 ex_tcs2 = Some ?c" by (simp add: get_context_def ex_tcs2_table)
  from destroy_context_releases [OF tcs_reach_refs_ok [OF ex_tcs_reach(2)] _ this d] d
  show ?thesis by (simp add: ex_tcs2_table)
qed

text \<open>C40: at most one context holds the exclusive transport flag in any reachable state, and while one
  does, every request for it is refused and changes nothing.\<close>

theorem exclusive_transport_unique:
  assumes "tcs_reach st"
  shows "length (filter exclusive (tcs_context_table st)) \<le> 1
    \<and> (filter exclusive (tcs_context_table st) \<noteq> [] \<longrightarrow>
         ctx_req_exclusive_transport True h st = (TCSERR TSS_E_INTERNAL_ERROR, st))
    \<and> (filter exclusive (tcs_context_table st) = [] \<and> h \<in> tc_handle ` set (tcs_context_table st) \<longrightarrow>
         (\<exists>st'. ctx_req_exclusive_transport True h st = (TSS_SUCCESS, st')
            \<and> (\<exists>c \<in> set (tcs_context_table st'). tc_handle c = h \<and> exclusive c)))"
proof -
  have 1: "length (filter exclusive (tcs_context_table st)) \<le> 1"
    using tcs_reach_refs_ok [OF assms] by (simp add: refs_ok_def)
  have 2: "filter exclusive (tcs_context_table st) \<noteq> [] \<longrightarrow>
      ctx_req_exclusive_transport True h st = (TCSERR TSS_E_INTERNAL_ERROR, st)"
    by (auto simp: filter_empty_conv exclusive_def ctx_req_exclusive_transport_def)
  have "\<exists>c \<in> set (update_first (\<lambda>c. tc_handle c = h)
      (\<lambda>c. c\<lparr>tc_flags := tc_flags c OR TRANSPORT_EXCLUSIVE\<rparr>) t). tc_handle c = h \<and> exclusive c"
    if "h \<in> tc_handle ` set t" for t
    using that by (induction t) (auto simp: exclusive_def bit.conj_disj_distrib2)
  from this [of "rev (tcs_context_table st)"] have
    "filter exclusive (tcs_context_table st) = [] \<and> h \<in> tc_handle ` set (tcs_context_table st) \<longrightarrow>
         (\<exists>st'. ctx_req_exclusive_transport True h st = (TSS_SUCCESS, st')
            \<and> (\<exists>c \<in> set (tcs_context_table st'). tc_handle c = h \<and> exclusive c))"
    by (auto simp: filter_empty_conv exclusive_def ctx_req_exclusive_transport_def)
  with 1 2 show ?thesis by blast
qed

theorem exclusive_transport_unique_witness:
  "\<exists>st'. ctx_req_exclusive_transport True 0xA0000000 ex_tcs2 = (TSS_SUCCESS, st')"
  using exclusive_transport_unique [OF ex_tcs_reach(2), of "0xA0000000"]
  by (auto simp: ex_tcs2_table exclusive_def)

text \<open>Evicting the second key of a context's list drops the first key from the list too, without
  releasing its reference: the context no longer holds the key, and its destruction leaves the
  count as it was.\<close>

theorem evict_second_key_leaks_first:
  assumes "get_context ch st = Some c" "tc_keys c = a # b # ks" "a \<noteq> b" "a \<notin> set ks" "cache_ok st"
    and "key_mgr_evict ch b st = (r, st1)" "cached st b"
  shows "r = TSS_SUCCESS \<and> \<not> ctx_has_key_loaded ch a st1 \<and> refs st1 a = refs st a"
proof -
  let ?f = "\<lambda>d. d\<lparr>tc_keys := ks\<rparr>"
  let ?s = "st\<lparr>tcs_context_table := update_first (\<lambda>d. tc_handle d = ch) (\<lambda>d. d\<lparr>tc_keys := unlink_key 1 (tc_keys d)\<rparr>)
    (tcs_context_table st)\<rparr>"
  have f: "List.find (\<lambda>d. tc_handle d = ch) (tcs_context_table st) = Some c"
    using assms(1) by (simp add: get_context_def)
  have g: "List.find (\<lambda>d. tc_handle d = ch) (update_first (\<lambda>d. tc_handle d = ch)
      (\<lambda>d. d\<lparr>tc_keys := unlink_key 1 (tc_keys d)\<rparr>) t) =
      map_option (\<lambda>d. d\<lparr>tc_keys := unlink_key 1 (tc_keys d)\<rparr>) (List.find (\<lambda>d. tc_handle d = ch) t)" for t
    by (induction t) auto
  have "ctx_remove_key_loaded ch b st = (TSS_SUCCESS, kfree 1 ?s)"
    using assms(1,2,3) by (simp add: ctx_remove_key_loaded_def)
  moreover have "cached (kfree (Suc 0) ?s) b" using assms(7) by (simp add: cached_def)
  then have "fst (key_mgr_dec_ref_count b (kfree (Suc 0) ?s)) = 0"
    by (simp add: key_mgr_dec_ref_count_def cached_iff)
  ultimately have e: "r = TSS_SUCCESS" "st1 = snd (key_mgr_ref_count (release b ?s))"
    using assms(6) dec_kfree [of b ?s] by (auto simp: key_mgr_evict_def split: prod.splits)
  have "cache_ok (release b ?s)" using assms(5) cache_ok_cong [of ?s st] by simp
  then have "refs st1 a = refs st a"
    using e(2) refs_sweep [of "release b ?s" a] assms(3) refs_eq(1) [of ?s st] by (simp add: refs_after_release)
  moreover have "tcs_context_table st1 = tcs_context_table ?s"
    using e(2) table_of_more [of st1 ?s] by simp
  then have "\<not> ctx_has_key_loaded ch a st1"
    using f g [of "tcs_context_table st"] assms(2,4) by (simp add: ctx_has_key_loaded_def get_context_def unlink_key_def)
  ultimately show ?thesis using e(1) by blast
qed

definition ex_tcs3 :: tcs_state where
  "ex_tcs3 = ex_tcs\<lparr>cache := [ex_entry 1 0x50 0x22330001 1 5 [1, 2, 3] (Some 0),
       ex_entry 0 0x40000000 0x40000000 2 1 [6] None],
     tcs_context_table := [\<lparr>tc_flags = 0, tc_transHandle = 0, tc_handle = 0xA0000001,
       tc_keys = [0x40000000, 0x22330001]\<rparr>], next_addr := 2\<rparr>"

theorem evict_second_key_leaks_first_witness:
  "\<not> ctx_has_key_loaded 0xA0000001 0x40000000 (snd (key_mgr_evict 0xA0000001 0x22330001 ex_tcs3))
   \<and> refs (snd (key_mgr_evict 0xA0000001 0x22330001 ex_tcs3)) 0x40000000 = 2"
proof -
  have "get_context 0xA0000001 ex_tcs3 = Some \<lparr>tc_flags = 0, tc_transHandle = 0, tc_handle = 0xA0000001,
      tc_keys = [0x40000000, 0x22330001]\<rparr>" "cache_ok ex_tcs3" "cached ex_tcs3 0x22330001"
    "refs ex_tcs3 0x40000000 = 2"
    by (simp_all add: ex_tcs3_def get_context_def cache_ok_def cached_def refs_def ex_entry_def)
  then show ?thesis
    using evict_second_key_leaks_first [of "0xA0000001" ex_tcs3 _ "0x40000000" "0x22330001" "[]"
        "fst (key_mgr_evict 0xA0000001 0x22330001 ex_tcs3)" "snd (key_mgr_evict 0xA0000001 0x22330001 ex_tcs3)"]
    by simp
qed

text \<open>The handles of contexts created one after another.\<close>

fun gen_handles :: "(u32 \<times> u32) list \<Rightarrow> tcs_state \<Rightarrow> u32 list option" where
  "gen_handles [] st = Some []"
| "gen_handles ((r1, r2) # rs) st = do {
     (h, st) \<leftarrow> getNextHandle r1 r2 st;
     hs \<leftarrow> gen_handles rs st;
     Some (h # hs) }"

lemma low_byte_OR: "(ucast (c OR x) :: u8) = ucast c" if "(ucast x :: u8) = 0" for c x :: "'b::len word"
  using that by (simp add: bit_eq_iff bit_simps)

lemma low_byte_ucast: "(ucast (ucast x :: u32) :: u8) = ucast x" for x :: u64
  by (auto simp: bit_eq_iff bit_simps)

lemma of_nat_byte_eq: "(of_nat i :: u8) = of_nat j \<Longrightarrow> i < 256 \<Longrightarrow> j < 256 \<Longrightarrow> i = j"
  by (drule arg_cong [where f = unat]) (simp add: unat_of_nat)

lemma low_byte_add: "(ucast (c + 1) :: u8) = ucast c + 1" for c :: u64
  by (rule word_unat_eq_iff [THEN iffD2]) (simp add: unat_word_ariths unsigned_ucast_eq take_bit_eq_mod mod_mod_cancel mod_Suc_eq)

lemma getNextHandle_byte:
  assumes "getNextHandle r1 r2 st = Some (h, st')"
  shows "(ucast h :: u8) = ucast (nextContextHandle st)"
    "(ucast (nextContextHandle st') :: u8) = ucast (nextContextHandle st) + 1"
proof -
  have z: "(ucast (push_bit 16 r AND 0x00FF0000 :: u32) :: u8) = 0" "(ucast (push_bit 8 r AND 0x0000FF00 :: u32) :: u8) = 0"
    "(ucast (ucast (push_bit 16 r AND 0x00FF0000 :: u32) :: u64) :: u8) = 0"
    "(ucast (ucast (push_bit 8 r AND 0x0000FF00 :: u32) :: u64) :: u8) = 0" for r :: u32
    by (auto simp: bit_eq_iff bit_simps)
  show "(ucast h :: u8) = ucast (nextContextHandle st)"
    "(ucast (nextContextHandle st') :: u8) = ucast (nextContextHandle st) + 1"
    using assms z
    by (auto simp: getNextHandle_def Let_def low_byte_add low_byte_OR low_byte_ucast split: if_splits)
qed

lemma gen_handles_bytes:
  "gen_handles rs st = Some hs \<Longrightarrow>
   map ucast hs = map (\<lambda>i. ucast (nextContextHandle st) + of_nat i :: u8) [0..<length rs]"
proof (induction rs arbitrary: st hs)
  case (Cons r rs)
  obtain r1 r2 where r: "r = (r1, r2)" by fastforce
  with Cons.prems obtain h st' hs' where h: "getNextHandle r1 r2 st = Some (h, st')"
    "gen_handles rs st' = Some hs'" "hs = h # hs'" by (auto split: bind_splits)
  have "[0..<length (r # rs)] = 0 # map Suc [0..<length rs]" using upt_conv_Cons [of 0 "Suc (length rs)"]
    by (simp add: map_Suc_upt del: upt_Suc)
  then show ?case
    using Cons.IH [OF h(2)] getNextHandle_byte [OF h(1)] h(3) by (simp add: add.assoc del: upt_Suc)
qed simp

lemma gen_handles_zero:
  "nextContextHandle st = of_nat m \<Longrightarrow> \<not> initContextHandle st \<Longrightarrow> 0 < m \<Longrightarrow> m + n \<le> 2 ^ 32 \<Longrightarrow>
   gen_handles (replicate n (0, 0)) st = Some (map of_nat [m..<m + n])"
proof (induction n arbitrary: st m)
  case (Suc n)
  have m: "unat (of_nat m :: u64) = m" using Suc.prems by (simp add: unat_of_nat)
  then have "(of_nat m :: u64) \<noteq> 0" using Suc.prems(3) by auto
  moreover have "(ucast (of_nat m :: u64) :: u32) = of_nat m"
    using Suc.prems m by (simp add: word_unat_eq_iff unsigned_ucast_eq take_bit_eq_mod unat_of_nat)
  ultimately have "getNextHandle 0 0 st = Some (of_nat m, st\<lparr>nextContextHandle := of_nat (Suc m)\<rparr>)"
    using Suc.prems by (simp add: getNextHandle_def add.commute)
  moreover have "[m..<m + Suc n] = m # [Suc m..<Suc m + n]" by (simp add: upt_conv_Cons)
  ultimately show ?case
    using Suc.IH [of "st\<lparr>nextContextHandle := of_nat (Suc m)\<rparr>" "Suc m"] Suc.prems by (simp del: upt_Suc)
qed simp

text \<open>Up to 256 contexts created in a row have different handles, whatever the random bytes; the
  256th after a context may get its handle again, because the random byte is put over counter
  bits with an or.\<close>

theorem context_handles_distinct:
  assumes "gen_handles rs st = Some hs" "length rs \<le> 256"
  shows "distinct hs
    \<and> (\<exists>rs' h hs'. gen_handles (rs' @ [(0, 0)]) ex_tcs = Some ((h # hs') @ [h]) \<and> length hs' = 255)"
proof -
  have "inj_on (\<lambda>i. ucast (nextContextHandle st) + of_nat i :: u8) (set [0..<length rs])"
    using assms(2) by (auto simp: inj_on_def intro!: of_nat_byte_eq)
  then have "distinct (map (ucast :: u32 \<Rightarrow> u8) hs)"
    using gen_handles_bytes [OF assms(1)] by (simp add: distinct_map)
  then have d: "distinct hs" by (simp add: distinct_map)
  have g: "getNextHandle 0 1 ex_tcs = Some (0xA0000100, ex_tcs\<lparr>nextContextHandle := 0xA0000001\<rparr>)"
    by (simp add: getNextHandle_def ex_tcs_def)
  have "gen_handles (replicate 256 (0, 0)) (ex_tcs\<lparr>nextContextHandle := 0xA0000001\<rparr>) =
      Some (map of_nat [0xA0000001..<0xA0000001 + 256])"
    by (rule gen_handles_zero) (simp_all add: ex_tcs_def)
  moreover have "[0xA0000001..<0xA0000001 + 256] = [0xA0000001..<0xA0000100] @ [0xA0000100::nat]"
    using upt_Suc_append [of "0xA0000001" "0xA0000100"] by simp
  ultimately have "gen_handles ((0, 1) # replicate 256 (0, 0)) ex_tcs =
      Some ((0xA0000100 # map of_nat [0xA0000001..<0xA0000100]) @ [0xA0000100])"
    using g by simp
  moreover have "(0, 1) # replicate 256 (0, 0) = ((0, 1) # replicate 255 (0, 0)) @ [(0 :: u32, 0 :: u32)]"
    using replicate_append_same [of 255 "(0 :: u32, 0 :: u32)"] by (simp add: numeral_eq_Suc)
  moreover have "length (map of_nat [0xA0000001..<0xA0000100] :: u32 list) = 255" by simp
  ultimately show ?thesis using d by (metis (no_types, lifting))
qed

theorem context_handles_distinct_witness:
  "\<exists>h1 h2. gen_handles [(0, 5), (0, 5)] ex_tcs = Some [h1, h2] \<and> h1 \<noteq> h2"
proof -
  obtain h1 h2 where g: "gen_handles [(0, 5), (0, 5)] ex_tcs = Some [h1, h2]"
    by (simp add: getNextHandle_def ex_tcs_def)
  with context_handles_distinct [OF g] show ?thesis by simp
qed

end
