(* ===== verification/Tcs_Req_Mgr.thy ===== *)
theory Tcs_Req_Mgr
  imports Trspi_Blob
begin

text \<open>
  From a command to the device: the marshalling helpers of the daemon (\<open>tcs/tcs_utils.c\<close>), the
  device driver library (\<open>tddl/tddl.c\<close>), the request manager with its retry loop
  (\<open>tcs/tcs_req_mgr.c\<close>), and the commands on authorization sessions (\<open>tcs/tcsi_auth.c\<close>,
  \<open>TCSP_FlushSpecific_Common\<close> of \<open>tcs/tcsi_admin.c\<close>, \<open>TPM_SaveAuthContext\<close> and
  \<open>TPM_LoadAuthContext\<close> of \<open>tcs/tcs_auth_mgr.c\<close>), with the cases of \<open>tpm_rqu_build\<close> and
  \<open>tpm_rsp_parse\<close> (\<open>tcs/tcs_pbg.c\<close>) that they use.

  The kernel driver is outside: its \<open>ioctl\<close>, \<open>write\<close> and \<open>read\<close> are functions on a state of the
  world of any type.  So is the content of the stack buffers that the code does not initialise.
  The result \<open>None\<close> is an access outside a buffer or through a NULL pointer.
\<close>

section \<open>Marshalling helpers of the daemon\<close>

fun LoadBlob_UINT32 :: "u32 \<Rightarrow> wst \<Rightarrow> wst option" where
  "LoadBlob_UINT32 i (off, blob) =
     do { blob \<leftarrow> poke off (UINT32ToArray i) blob; Some (off + 4, blob) }"

fun LoadBlob_UINT16 :: "u16 \<Rightarrow> wst \<Rightarrow> wst option" where
  "LoadBlob_UINT16 i (off, blob) =
     do { blob \<leftarrow> poke off (UINT16ToArray i) blob; Some (off + 2, blob) }"

fun LoadBlob :: "u32 \<Rightarrow> ptr \<Rightarrow> wst \<Rightarrow> wst option" where
  "LoadBlob bsz obj (off, container) =
     (if bsz = 0 then Some (off, container)
      else do {
        container \<leftarrow> (if container = None then Some None
          else do { bs \<leftarrow> deref obj (unat bsz); poke off bs container });
        Some (off + ucast bsz, container) })"

definition LoadBlob_Header :: "u16 \<Rightarrow> u32 \<Rightarrow> u32 \<Rightarrow> u8 list \<Rightarrow> u8 list option" where
  "LoadBlob_Header tag paramSize ordinal blob = do {
     blob \<leftarrow> wr blob 0 (UINT16ToArray tag);
     blob \<leftarrow> wr blob 2 (UINT32ToArray paramSize);
     wr blob 6 (UINT32ToArray ordinal) }"

definition UnloadBlob_UINT32 :: "u64 \<Rightarrow> u8 list \<Rightarrow> (u32 \<times> u64) option" where
  "UnloadBlob_UINT32 off blob = do { bs \<leftarrow> rd blob (unat off) 4; Some (Decode_UINT32 bs, off + 4) }"

definition UnloadBlob :: "u64 \<Rightarrow> u32 \<Rightarrow> u8 list \<Rightarrow> (u8 list \<times> u64) option" where
  "UnloadBlob off bsz container =
     (if bsz = 0 then Some ([], off)
      else do { bs \<leftarrow> rd container (unat off) (unat bsz); Some (bs, off + ucast bsz) })"

text \<open>The result code and the size field of a response.\<close>

definition UnloadBlob_Header :: "u8 list \<Rightarrow> (u32 \<times> u32) option" where
  "UnloadBlob_Header blob = do {
     sz \<leftarrow> rd blob 2 4;
     code \<leftarrow> rd blob 6 4;
     Some (Decode_UINT32 code, Decode_UINT32 sz) }"

section \<open>The device driver library\<close>

abbreviation (input) TDDL_TXBUF_SIZE :: nat where "TDDL_TXBUF_SIZE \<equiv> 2048"
abbreviation (input) TSS_TPM_TXBLOB_SIZE :: nat where "TSS_TPM_TXBLOB_SIZE \<equiv> 4096"
abbreviation (input) TDDL_UNDEF :: int where "TDDL_UNDEF \<equiv> - 1"
abbreviation (input) TDDL_TRANSMIT_IOCTL :: int where "TDDL_TRANSMIT_IOCTL \<equiv> 1"
abbreviation (input) TDDL_TRANSMIT_RW :: int where "TDDL_TRANSMIT_RW \<equiv> 2"
abbreviation (input) TDDL_E_IOERROR :: u32 where "TDDL_E_IOERROR \<equiv> 0x087"
abbreviation (input) TDDL_E_INSUFFICIENT_BUFFER :: u32 where "TDDL_E_INSUFFICIENT_BUFFER \<equiv> 0x083"
abbreviation (input) TPM_E_RETRY :: u32 where "TPM_E_RETRY \<equiv> 0x800"

definition TDDLERR :: "u32 \<Rightarrow> u32" where "TDDLERR x = x OR 0x1000"

text \<open>The system calls: \<open>ioctl\<close> gives its result and the bytes the driver puts into the buffer,
  \<open>write\<close> its result, \<open>read\<close> its result and the bytes read.\<close>

record 't dev_ops =
  dv_ioctl :: "u8 list \<Rightarrow> 't \<Rightarrow> (int \<times> u8 list) \<times> 't"
  dv_write :: "u8 list \<Rightarrow> 't \<Rightarrow> int \<times> 't"
  dv_read :: "'t \<Rightarrow> (int \<times> u8 list) \<times> 't"
  dv_stack :: "'t \<Rightarrow> u8 list"

text \<open>\<open>opened_device\<close> is the transmission mode of the opened device node, \<open>None\<close> when no device is
  open.\<close>

record 't tddl =
  txBuffer :: "u8 list"
  opened_device :: "int option"
  world :: 't

text \<open>A buffer of \<open>n\<close> bytes on the stack, and the bytes of the driver over the front of a buffer.\<close>

definition stack_buf :: "'t dev_ops \<Rightarrow> 't tddl \<Rightarrow> u8 list" where
  "stack_buf dv st = take TSS_TPM_TXBLOB_SIZE (dv_stack dv (world st) @ replicate TSS_TPM_TXBLOB_SIZE 0)"

definition overlay :: "u8 list \<Rightarrow> u8 list \<Rightarrow> u8 list" where
  "overlay bs buf = take (length buf) (bs @ drop (length bs) buf)"

text \<open>\<open>write\<close> then \<open>read\<close>, and the two modes; \<open>None\<close> in the first component is the error.\<close>

definition transmit_rw :: "'t dev_ops \<Rightarrow> u32 \<Rightarrow> 't tddl \<Rightarrow> int option \<times> 't tddl" where
  "transmit_rw dv len st =
     (let (n, w) = dv_write dv (take (unat len) (txBuffer st)) (world st)
      in if n = int (unat len) then
           let ((m, bs), w) = dv_read dv w
           in (Some m, st\<lparr>opened_device := Some TDDL_TRANSMIT_RW, txBuffer := overlay bs (txBuffer st), world := w\<rparr>)
         else (None, st\<lparr>world := w\<rparr>))"

definition transmit_cmd :: "'t dev_ops \<Rightarrow> int \<Rightarrow> u32 \<Rightarrow> 't tddl \<Rightarrow> int option \<times> 't tddl" where
  "transmit_cmd dv mode len st =
     (if mode = TDDL_UNDEF \<or> mode = TDDL_TRANSMIT_IOCTL then
        let ((n, bs), w) = dv_ioctl dv (txBuffer st) (world st);
            st = st\<lparr>txBuffer := overlay bs (txBuffer st), world := w\<rparr>
        in if n \<noteq> - 1 then (Some n, st\<lparr>opened_device := Some TDDL_TRANSMIT_IOCTL\<rparr>)
           else transmit_rw dv len st
      else if mode = TDDL_TRANSMIT_RW then transmit_rw dv len st
      else (None, st))"

text \<open>The result: the code, the new value of \<open>*pReceiveBufLen\<close> and the bytes received.\<close>

definition Tddli_TransmitData ::
  "'t dev_ops \<Rightarrow> u8 list \<Rightarrow> u32 \<Rightarrow> u32 \<Rightarrow> 't tddl \<Rightarrow> ((u32 \<times> u32 \<times> u8 list) \<times> 't tddl) option" where
  "Tddli_TransmitData dv buf len rlen st =
     (if TDDL_TXBUF_SIZE < unat len then Some ((TDDLERR TSS_E_FAIL, rlen, []), st)
      else do {
        cmd \<leftarrow> rd buf 0 (unat len);
        mode \<leftarrow> opened_device st;
        let (r, st) = transmit_cmd dv mode len (st\<lparr>txBuffer := overlay cmd (txBuffer st)\<rparr>);
        case r of None \<Rightarrow> Some ((TDDLERR TDDL_E_IOERROR, rlen, []), st)
        | Some n \<Rightarrow>
            if n \<le> 0 then Some ((TDDLERR TDDL_E_IOERROR, rlen, []), st)
            else if unat rlen < nat n then Some ((TDDLERR TDDL_E_INSUFFICIENT_BUFFER, rlen, []), st)
            else do {
              bs \<leftarrow> rd (txBuffer st) 0 (nat n);
              Some ((TSS_SUCCESS, of_int n, bs), st) } })"

section \<open>The request manager\<close>

text \<open>The loop: \<open>n\<close> transmissions are left; the size of the receive buffer passes from one to the
  next.\<close>

fun submit_loop ::
  "'t dev_ops \<Rightarrow> u8 list \<Rightarrow> nat \<Rightarrow> u8 list \<Rightarrow> u32 \<Rightarrow> 't tddl \<Rightarrow> ((u32 \<times> u8 list) \<times> 't tddl) option" where
  "submit_loop dv blob 0 loc_buf sz st = None"
| "submit_loop dv blob (Suc n) loc_buf sz st = do {
     len \<leftarrow> rd blob 2 4;
     ((result, sz, bs), st) \<leftarrow> Tddli_TransmitData dv blob (Decode_UINT32 len) sz st;
     let loc_buf = overlay bs loc_buf;
     code \<leftarrow> rd loc_buf 6 4;
     if result = 0 \<and> Decode_UINT32 code = TPM_E_RETRY \<and> n \<noteq> 0 then submit_loop dv blob n loc_buf sz st
     else Some ((result, loc_buf), st) }"

definition req_mgr_submit_req ::
  "'t dev_ops \<Rightarrow> u8 list \<Rightarrow> 't tddl \<Rightarrow> ((u32 \<times> u8 list) \<times> 't tddl) option" where
  "req_mgr_submit_req dv blob st = do {
     ((result, loc_buf), st) \<leftarrow> submit_loop dv blob 5 (stack_buf dv st) (of_nat TSS_TPM_TXBLOB_SIZE) st;
     if result = 0 then do {
       n \<leftarrow> rd loc_buf 2 4;
       bs \<leftarrow> rd loc_buf 0 (unat (Decode_UINT32 n));
       blob \<leftarrow> wr blob 0 bs;
       Some ((result, blob), st) }
     else Some ((result, blob), st) }"

section \<open>Commands on authorization sessions\<close>

abbreviation (input) TPM_TAG_RQU_COMMAND :: u16 where "TPM_TAG_RQU_COMMAND \<equiv> 0x00C1"
abbreviation (input) TPM_ORD_OIAP :: u32 where "TPM_ORD_OIAP \<equiv> 0x0000000A"
abbreviation (input) TPM_ORD_OSAP :: u32 where "TPM_ORD_OSAP \<equiv> 0x0000000B"
abbreviation (input) TPM_ORD_Terminate_Handle :: u32 where "TPM_ORD_Terminate_Handle \<equiv> 0x00000096"
abbreviation (input) TPM_ORD_SaveAuthContext :: u32 where "TPM_ORD_SaveAuthContext \<equiv> 0x000000B6"
abbreviation (input) TPM_ORD_LoadAuthContext :: u32 where "TPM_ORD_LoadAuthContext \<equiv> 0x000000B7"
abbreviation (input) TPM_ORD_FlushSpecific :: u32 where "TPM_ORD_FlushSpecific \<equiv> 0x000080BA"
abbreviation (input) TCM_ORD_APCreate :: u32 where "TCM_ORD_APCreate \<equiv> 0x000080BF"
abbreviation (input) TPM_RT_AUTH :: u32 where "TPM_RT_AUTH \<equiv> 2"

text \<open>A request: the parameters from offset 10 on, then the header with the size.\<close>

definition rqu :: "u32 \<Rightarrow> (wst \<Rightarrow> wst option) \<Rightarrow> u8 list \<Rightarrow> u8 list option" where
  "rqu ordinal params txBlob = do {
     (off, b) \<leftarrow> params (10, Some txBlob);
     b \<leftarrow> b;
     LoadBlob_Header TPM_TAG_RQU_COMMAND (ucast off) ordinal b }"

definition rqu_FlushSpecific :: "u32 \<Rightarrow> u32 \<Rightarrow> u8 list \<Rightarrow> u8 list option" where
  "rqu_FlushSpecific val1 val2 =
     rqu TPM_ORD_FlushSpecific (\<lambda>w. LoadBlob_UINT32 val1 w \<bind> LoadBlob_UINT32 val2)"

definition rqu_Terminate_Handle :: "u32 \<Rightarrow> u8 list \<Rightarrow> u8 list option" where
  "rqu_Terminate_Handle i = rqu TPM_ORD_Terminate_Handle (LoadBlob_UINT32 i)"

definition rqu_OIAP :: "u8 list \<Rightarrow> u8 list option" where
  "rqu_OIAP = rqu TPM_ORD_OIAP Some"

definition rqu_OSAP :: "u16 \<Rightarrow> u32 \<Rightarrow> u8 list \<Rightarrow> u8 list \<Rightarrow> u8 list option" where
  "rqu_OSAP type1 value1 digest1 =
     rqu TPM_ORD_OSAP (\<lambda>w. LoadBlob_UINT16 type1 w \<bind> LoadBlob_UINT32 value1 \<bind> LoadBlob 20 (Buf digest1))"

definition rqu_APCreate :: "u16 \<Rightarrow> u32 \<Rightarrow> u8 list \<Rightarrow> u8 list \<Rightarrow> u8 list \<Rightarrow> u8 list option" where
  "rqu_APCreate entityType entityValue callerNonce inMac =
     rqu TCM_ORD_APCreate (\<lambda>w. LoadBlob_UINT16 entityType w \<bind> LoadBlob_UINT32 entityValue
       \<bind> LoadBlob 32 (Buf callerNonce) \<bind> LoadBlob 32 (Buf inMac))"

text \<open>Submitting a request: the code of the submission or of the response, and the response.\<close>

definition exec ::
  "'t dev_ops \<Rightarrow> (u8 list \<Rightarrow> u8 list option) \<Rightarrow> 't tddl \<Rightarrow> ((u32 \<times> u8 list) \<times> 't tddl) option" where
  "exec dv build st = do {
     txBlob \<leftarrow> build (stack_buf dv st);
     ((result, txBlob), st) \<leftarrow> req_mgr_submit_req dv txBlob st;
     if result \<noteq> 0 then Some ((result, txBlob), st)
     else do { (result, paramSize) \<leftarrow> UnloadBlob_Header txBlob; Some ((result, txBlob), st) } }"

definition TCSP_FlushSpecific_Common :: "'t dev_ops \<Rightarrow> u32 \<Rightarrow> u32 \<Rightarrow> 't tddl \<Rightarrow> (u32 \<times> 't tddl) option" where
  "TCSP_FlushSpecific_Common dv tpmResHandle resourceType st = do {
     ((result, txBlob), st) \<leftarrow> exec dv (rqu_FlushSpecific tpmResHandle resourceType) st;
     Some (result, st) }"

definition internal_TerminateHandle :: "'t dev_ops \<Rightarrow> u32 \<Rightarrow> 't tddl \<Rightarrow> (u32 \<times> 't tddl) option" where
  "internal_TerminateHandle dv handle st = do {
     ((result, txBlob), st) \<leftarrow> exec dv (rqu_Terminate_Handle handle) st;
     Some (result, st) }"

text \<open>Opening a session: the code, the handle and the nonce of the device.  The test of the context
  is the argument \<open>verified\<close>, the result of \<open>ctx_verify_context\<close>.\<close>

definition TCSP_OIAP_Internal ::
  "'t dev_ops \<Rightarrow> u32 \<Rightarrow> 't tddl \<Rightarrow> ((u32 + u32 \<times> u8 list) \<times> 't tddl) option" where
  "TCSP_OIAP_Internal dv verified st =
     (if verified \<noteq> 0 then Some (Inl verified, st)
      else do {
        ((result, txBlob), st) \<leftarrow> exec dv rqu_OIAP st;
        if result \<noteq> 0 then Some (Inl result, st)
        else do {
          (authHandle, off) \<leftarrow> UnloadBlob_UINT32 10 txBlob;
          (nonce0, off) \<leftarrow> UnloadBlob off 32 txBlob;
          Some (Inr (authHandle, nonce0), st) } })"

definition TCSP_OSAP_Internal ::
  "'t dev_ops \<Rightarrow> u32 \<Rightarrow> u16 \<Rightarrow> u32 \<Rightarrow> u8 list \<Rightarrow> 't tddl \<Rightarrow>
   ((u32 + u32 \<times> u8 list \<times> u8 list) \<times> 't tddl) option" where
  "TCSP_OSAP_Internal dv verified entityType entityValue nonceOddOSAP st =
     (if verified \<noteq> 0 then Some (Inl verified, st)
      else do {
        ((result, txBlob), st) \<leftarrow> exec dv (rqu_OSAP entityType entityValue nonceOddOSAP) st;
        if result \<noteq> 0 then Some (Inl result, st)
        else do {
          (authHandle, off) \<leftarrow> UnloadBlob_UINT32 10 txBlob;
          (nonceEven, off) \<leftarrow> UnloadBlob off 32 txBlob;
          (nonceEvenOSAP, off) \<leftarrow> UnloadBlob off 32 txBlob;
          Some (Inr (authHandle, nonceEven, nonceEvenOSAP), st) } })"

definition TCSP_APCreate_Internal ::
  "'t dev_ops \<Rightarrow> u32 \<Rightarrow> u16 \<Rightarrow> u32 \<Rightarrow> u8 list \<Rightarrow> u8 list \<Rightarrow> 't tddl \<Rightarrow>
   ((u32 + u32 \<times> u8 list \<times> u32 \<times> u8 list) \<times> 't tddl) option" where
  "TCSP_APCreate_Internal dv verified entityType entityValue nonceOdd inMac st =
     (if verified \<noteq> 0 then Some (Inl verified, st)
      else do {
        ((result, txBlob), st) \<leftarrow> exec dv (rqu_APCreate entityType entityValue nonceOdd inMac) st;
        if result \<noteq> 0 then Some (Inl result, st)
        else do {
          (authHandle, off) \<leftarrow> UnloadBlob_UINT32 10 txBlob;
          (nonceEven, off) \<leftarrow> UnloadBlob off 32 txBlob;
          (seq, off) \<leftarrow> UnloadBlob_UINT32 off txBlob;
          (outMac, off) \<leftarrow> UnloadBlob off 32 txBlob;
          Some (Inr (authHandle, nonceEven, seq, outMac), st) } })"

text \<open>Swapping a session out of the device and back in.  \<open>ok\<close> says whether \<open>malloc\<close> succeeds.\<close>

definition TPM_SaveAuthContext ::
  "'t dev_ops \<Rightarrow> bool \<Rightarrow> u32 \<Rightarrow> 't tddl \<Rightarrow> ((u32 + u8 list) \<times> 't tddl) option" where
  "TPM_SaveAuthContext dv ok handle st = do {
     ((result, txBlob), st) \<leftarrow> exec dv (rqu TPM_ORD_SaveAuthContext (LoadBlob_UINT32 handle)) st;
     if result \<noteq> 0 then Some (Inl result, st)
     else do {
       (bsize, off) \<leftarrow> UnloadBlob_UINT32 10 txBlob;
       if \<not> ok then Some (Inl (TCSERR TSS_E_OUTOFMEMORY), st)
       else do { (bs, off) \<leftarrow> UnloadBlob off bsize txBlob; Some (Inr bs, st) } } }"

definition TPM_LoadAuthContext ::
  "'t dev_ops \<Rightarrow> u8 list \<Rightarrow> 't tddl \<Rightarrow> ((u32 + u32) \<times> 't tddl) option" where
  "TPM_LoadAuthContext dv blob st = do {
     ((result, txBlob), st) \<leftarrow> exec dv (rqu TPM_ORD_LoadAuthContext
        (\<lambda>w. LoadBlob_UINT32 (of_nat (length blob)) w \<bind> LoadBlob (of_nat (length blob)) (Buf blob))) st;
     if result \<noteq> 0 then Some (Inl result, st)
     else do { (handle, off) \<leftarrow> UnloadBlob_UINT32 10 txBlob; Some (Inr handle, st) } }"

section \<open>Requests as byte strings\<close>

text \<open>The daemon's helpers agree with those of the client library.\<close>

lemma tcs_prims [put_simps]: "LoadBlob_UINT32 i w = put (be32 i) w" "LoadBlob_UINT16 j w = put (be16 j) w"
  by (cases w; simp add: put.simps)+

lemma ucast_of_nat: "(ucast (x :: u32) :: u64) = of_nat (unat x)"
  by simp

lemma LoadBlob_put: "length d = unat sz \<Longrightarrow> LoadBlob sz (Buf d) w = put d w"
proof (cases w)
  case (Pair off blob)
  assume d: "length d = unat sz"
  show ?thesis
  proof (cases "sz = 0")
    case False
    then have "d \<noteq> []" using d by (auto simp: unat_eq_zero)
    then show ?thesis using False d Pair
      by (cases blob) (simp_all add: ucast_of_nat rd_def poke_def put.simps flip: d)
  qed (use d Pair in \<open>simp add: put.simps\<close>)
qed

lemma rqu_put:
  assumes "length buf = TSS_TPM_TXBLOB_SIZE" "10 + length bs \<le> TSS_TPM_TXBLOB_SIZE"
    and "\<And>w. params w = put bs w"
  shows "rqu ordinal params buf = Some (be16 TPM_TAG_RQU_COMMAND @ be32 (of_nat (10 + length bs))
    @ be32 ordinal @ bs @ drop (10 + length bs) buf)"
proof -
  have c: "(ucast (10 + of_nat (length bs) :: u64) :: u32) = of_nat (10 + length bs)"
    using assms(2) by (simp add: word_unat_eq_iff unsigned_ucast_eq unat_word_ariths unat_of_nat
        take_bit_nat_eq_self)
  obtain h where h: "length h = 10" "buf = h @ drop 10 buf"
    using assms(1) that [of "take 10 buf"] by simp
  have "put bs (10, Some buf) = Some (10 + of_nat (length bs), Some (write_at buf 10 bs))"
    using assms(1,2) by (cases "bs = []") (simp_all add: put.simps poke_def wr_def)
  moreover have "write_at buf 10 bs = h @ bs @ drop (10 + length bs) buf"
    using h by (metis append_eq_conv_conj write_at_def)
  moreover have "LoadBlob_Header t n o' (h @ r) = Some (be16 t @ be32 n @ be32 o' @ r)" for t n o' r
  proof -
    obtain a b c d e f g i j k where "h = [a, b, c, d, e, f, g, i, j, k]"
      using h(1) by (auto simp: numeral_eq_Suc length_Suc_conv)
    then show ?thesis by (simp add: LoadBlob_Header_def wr_def write_at_def be16_def be32_def numeral_eq_Suc)
  qed
  ultimately show ?thesis using c by (simp add: rqu_def assms(3))
qed

section \<open>Transmission\<close>

lemma length_overlay [simp]: "length (overlay bs buf) = length buf"
  by (simp add: overlay_def)

lemma length_stack_buf [simp]: "length (stack_buf dv st) = TSS_TPM_TXBLOB_SIZE"
  by (simp add: stack_buf_def)

lemma overlay_short: "length bs \<le> length buf \<Longrightarrow> overlay bs buf = bs @ drop (length bs) buf"
  by (simp add: overlay_def)

text \<open>A transmission looks at the size of the receive buffer only to refuse a response.\<close>

lemma transmit_smaller:
  assumes "Tddli_TransmitData dv buf len rlen st = Some ((0, n, bs), st')"
  shows "length bs = unat n \<and> 0 < unat n \<and> unat n \<le> unat rlen
    \<and> (unat sz < unat n \<longrightarrow>
         Tddli_TransmitData dv buf len sz st = Some ((TDDLERR TDDL_E_INSUFFICIENT_BUFFER, sz, []), st'))"
proof -
  have e: "TDDLERR x \<noteq> 0" "0 \<noteq> TDDLERR x" for x
  proof -
    have "bit (TDDLERR x) 12" by (simp add: TDDLERR_def bit_simps)
    then show "TDDLERR x \<noteq> 0" "0 \<noteq> TDDLERR x" by auto
  qed
  from assms obtain cmd mode r st1 m where p: "\<not> TDDL_TXBUF_SIZE < unat len" "rd buf 0 (unat len) = Some cmd"
    "opened_device st = Some mode"
    "transmit_cmd dv mode len (st\<lparr>txBuffer := overlay cmd (txBuffer st)\<rparr>) = (Some m, st')"
    "0 < m" "nat m \<le> unat rlen" "n = of_int m" "rd (txBuffer st') 0 (nat m) = Some bs"
    by (auto simp: Tddli_TransmitData_def e split: if_splits prod.splits option.splits bind_splits)
  have "n = of_nat (nat m)" using p(5,7) by simp
  then have "unat n = nat m"
    using p(6) unsigned_less [of rlen, where 'a = nat] by (simp add: unat_of_nat)
  then show ?thesis using p
    by (auto simp: Tddli_TransmitData_def rd_def split: if_splits)
qed

lemma submit_step:
  "0 < k \<Longrightarrow> submit_loop dv blob k loc_buf sz st = do {
     len \<leftarrow> rd blob 2 4;
     ((result, sz, bs), st) \<leftarrow> Tddli_TransmitData dv blob (Decode_UINT32 len) sz st;
     let loc_buf = overlay bs loc_buf;
     code \<leftarrow> rd loc_buf 6 4;
     if result = 0 \<and> Decode_UINT32 code = TPM_E_RETRY \<and> k \<noteq> 1
     then submit_loop dv blob (k - 1) loc_buf sz st
     else Some ((result, loc_buf), st) }"
proof -
  assume "0 < k"
  then obtain m where m: "k = Suc m" "k - 1 = m" by (cases k) auto
  show ?thesis unfolding m(2) unfolding m(1) by simp
qed

text \<open>A response: its size field is its length, and its code.\<close>

definition response :: "u32 \<Rightarrow> u8 list \<Rightarrow> bool" where
  "response code r \<longleftrightarrow> 10 \<le> length r \<and> length r \<le> TSS_TPM_TXBLOB_SIZE
     \<and> Decode_UINT32 (read_at r 2 4) = of_nat (length r) \<and> Decode_UINT32 (read_at r 6 4) = code"

lemma response_in:
  assumes "response code r" "length loc = TSS_TPM_TXBLOB_SIZE"
  shows "rd (overlay r loc) 6 4 = Some (read_at r 6 4)" "rd (overlay r loc) 2 4 = Some (read_at r 2 4)"
    "rd (overlay r loc) 0 (unat (Decode_UINT32 (read_at r 2 4))) = Some r"
proof -
  have o: "overlay r loc = r @ drop (length r) loc" using assms by (simp add: overlay_short response_def)
  have n: "unat (Decode_UINT32 (read_at r 2 4)) = length r"
    using assms(1) by (simp add: response_def unat_of_nat)
  show "rd (overlay r loc) 6 4 = Some (read_at r 6 4)" "rd (overlay r loc) 2 4 = Some (read_at r 2 4)"
    "rd (overlay r loc) 0 (unat (Decode_UINT32 (read_at r 2 4))) = Some r"
    using assms n by (simp_all add: o rd_def response_def read_at_append1)
qed

section \<open>Commands return\<close>

text \<open>A driver is well behaved when it answers with an error or with a response that fits the transmission
  buffer and whose size field is its length.\<close>

definition good_answer :: "int \<Rightarrow> u8 list \<Rightarrow> bool" where
  "good_answer n r \<longleftrightarrow> n = int (length r) \<and> length r \<le> TDDL_TXBUF_SIZE \<and> (\<exists>code. response code r)"

definition well_behaved :: "'t dev_ops \<Rightarrow> bool" where
  "well_behaved dv \<longleftrightarrow>
     (\<forall>buf w. case fst (dv_ioctl dv buf w) of (n, r) \<Rightarrow> n \<le> 0 \<or> good_answer n r)
     \<and> (\<forall>w. case fst (dv_read dv w) of (n, r) \<Rightarrow> n \<le> 0 \<or> good_answer n r)"

definition dev_ready :: "'t tddl \<Rightarrow> bool" where
  "dev_ready st \<longleftrightarrow> length (txBuffer st) = TDDL_TXBUF_SIZE \<and> opened_device st \<noteq> None"

lemma well_behavedD:
  assumes "well_behaved dv"
  shows "dv_ioctl dv buf w = ((n, r), w') \<Longrightarrow> n \<le> 0 \<or> good_answer n r"
    and "dv_read dv w = ((n, r), w') \<Longrightarrow> n \<le> 0 \<or> good_answer n r"
  using assms unfolding well_behaved_def by (metis (mono_tags, lifting) case_prod_conv fst_conv)+

lemma transmit_rw_ready:
  assumes "well_behaved dv" "dev_ready st" "transmit_rw dv len st = (r, st')"
  shows "dev_ready st' \<and> (r = None \<or> (\<exists>n. r = Some n \<and> (n \<le> 0 \<or> (\<exists>a. good_answer n a \<and> rd (txBuffer st') 0 (nat n) = Some a))))"
proof -
  have o: "good_answer n a \<Longrightarrow> length b = TDDL_TXBUF_SIZE \<Longrightarrow> rd (overlay a b) 0 (nat n) = Some a" for n a b
    by (simp add: good_answer_def overlay_short rd_def read_at_append1)
  obtain m w where w: "dv_write dv (take (unat len) (txBuffer st)) (world st) = (m, w)" by fastforce
  obtain n a w' where rd: "dv_read dv w = ((n, a), w')" by (metis prod.exhaust)
  show ?thesis using assms w rd well_behavedD(2) [OF assms(1) rd] o [of n a "txBuffer st"]
    by (auto simp: transmit_rw_def dev_ready_def split: if_splits)
qed

lemma transmit_cmd_ready:
  assumes "well_behaved dv" "dev_ready st" "transmit_cmd dv mode len st = (r, st')"
  shows "dev_ready st' \<and> (r = None \<or> (\<exists>n. r = Some n \<and> (n \<le> 0 \<or> (\<exists>a. good_answer n a \<and> rd (txBuffer st') 0 (nat n) = Some a))))"
proof -
  have o: "good_answer n a \<Longrightarrow> length b = TDDL_TXBUF_SIZE \<Longrightarrow> rd (overlay a b) 0 (nat n) = Some a" for n a b
    by (simp add: good_answer_def overlay_short rd_def read_at_append1)
  obtain n a w' where i: "dv_ioctl dv (txBuffer st) (world st) = ((n, a), w')" by (metis prod.exhaust)
  let ?st = "st\<lparr>txBuffer := overlay a (txBuffer st), world := w'\<rparr>"
  have r: "dev_ready ?st" using assms(2) by (simp add: dev_ready_def)
  consider (io) "mode = TDDL_UNDEF \<or> mode = TDDL_TRANSMIT_IOCTL" "n \<noteq> - 1"
    | (fall) "mode = TDDL_UNDEF \<or> mode = TDDL_TRANSMIT_IOCTL" "n = - 1"
    | (rw) "mode = TDDL_TRANSMIT_RW" | (none) "r = None" "st' = st"
    using assms(3) by (fastforce simp: transmit_cmd_def split: if_splits)
  then show ?thesis
  proof cases
    case io
    then show ?thesis using assms i well_behavedD(1) [OF assms(1) i] o [of n a "txBuffer st"]
      by (auto simp: transmit_cmd_def dev_ready_def)
  next
    case fall
    then have "transmit_rw dv len ?st = (r, st')" using assms(3) i by (auto simp: transmit_cmd_def)
    then show ?thesis using transmit_rw_ready [OF assms(1) r] by blast
  next
    case rw
    then have "transmit_rw dv len st = (r, st')" using assms(3) by (simp add: transmit_cmd_def)
    then show ?thesis using transmit_rw_ready [OF assms(1,2)] by blast
  qed (use assms(2) in simp)
qed

lemma transmit_returns:
  assumes "well_behaved dv" "dev_ready st" "length buf = TSS_TPM_TXBLOB_SIZE"
  shows "\<exists>r n a st'. Tddli_TransmitData dv buf len sz st = Some ((r, n, a), st') \<and> dev_ready st'
    \<and> (r = 0 \<longrightarrow> length a \<le> TDDL_TXBUF_SIZE \<and> (\<exists>code. response code a))"
proof (cases "TDDL_TXBUF_SIZE < unat len")
  case True
  have "TDDLERR TSS_E_FAIL \<noteq> 0" by (simp add: TDDLERR_def)
  then show ?thesis using True assms by (simp add: Tddli_TransmitData_def)
next
  case False
  have e: "TDDLERR TDDL_E_IOERROR \<noteq> 0" "TDDLERR TDDL_E_INSUFFICIENT_BUFFER \<noteq> 0" by (simp_all add: TDDLERR_def)
  obtain mode where m: "opened_device st = Some mode" using assms(2) by (auto simp: dev_ready_def)
  have c: "rd buf 0 (unat len) = Some (read_at buf 0 (unat len))" using False assms(3) by (simp add: rd_def)
  let ?st = "st\<lparr>txBuffer := overlay (read_at buf 0 (unat len)) (txBuffer st)\<rparr>"
  obtain r st' where t: "transmit_cmd dv mode len ?st = (r, st')" by fastforce
  have "dev_ready ?st" using assms(2) by (simp add: dev_ready_def)
  from transmit_cmd_ready [OF assms(1) this t] show ?thesis
    using False m c t e by (auto simp: Tddli_TransmitData_def good_answer_def)
qed

lemma submit_loop_returns:
  assumes "well_behaved dv" "dev_ready st" "length blob = TSS_TPM_TXBLOB_SIZE" "length loc = TSS_TPM_TXBLOB_SIZE" "0 < k"
  shows "\<exists>result loc' st'. submit_loop dv blob k loc sz st = Some ((result, loc'), st') \<and> dev_ready st'
    \<and> (result = 0 \<longrightarrow> (\<exists>code r l. response code r \<and> length l = TSS_TPM_TXBLOB_SIZE \<and> loc' = overlay r l))"
  using assms(2,4,5)
proof (induction k arbitrary: loc sz st)
  case (Suc k)
  have b: "rd blob 2 4 = Some (read_at blob 2 4)" using assms(3) by (simp add: rd_def)
  obtain r n a st' where t: "Tddli_TransmitData dv blob (Decode_UINT32 (read_at blob 2 4)) sz st = Some ((r, n, a), st')"
    "dev_ready st'" "r = 0 \<longrightarrow> length a \<le> TDDL_TXBUF_SIZE \<and> (\<exists>code. response code a)"
    using transmit_returns [OF assms(1) Suc.prems(1) assms(3)] by blast
  let ?loc = "overlay a loc"
  have l: "length ?loc = TSS_TPM_TXBLOB_SIZE" using Suc.prems(2) by simp
  have c: "rd ?loc 6 4 = Some (read_at ?loc 6 4)" using l by (simp add: rd_def)
  show ?case
  proof (cases "r = 0 \<and> Decode_UINT32 (read_at ?loc 6 4) = TPM_E_RETRY \<and> k \<noteq> 0")
    case True
    then show ?thesis using Suc.IH [OF t(2) l, of n] b t(1) c by simp
  next
    case False
    then have "submit_loop dv blob (Suc k) loc sz st = Some ((r, ?loc), st')" using b t(1) c by auto
    then show ?thesis using t(2,3) Suc.prems(2) by blast
  qed
qed simp

lemma submit_returns:
  assumes "well_behaved dv" "dev_ready st" "length blob = TSS_TPM_TXBLOB_SIZE"
  shows "\<exists>result blob' st'. req_mgr_submit_req dv blob st = Some ((result, blob'), st') \<and> dev_ready st'
    \<and> (if result = 0 then \<exists>code r. response code r \<and> blob' = r @ drop (length r) blob else blob' = blob)"
proof -
  obtain result loc st' where s: "submit_loop dv blob 5 (stack_buf dv st) (of_nat TSS_TPM_TXBLOB_SIZE) st = Some ((result, loc), st')"
    "dev_ready st'" "result = 0 \<longrightarrow> (\<exists>code r l. response code r \<and> length l = TSS_TPM_TXBLOB_SIZE \<and> loc = overlay r l)"
    using submit_loop_returns [OF assms length_stack_buf zero_less_numeral] by blast
  show ?thesis
  proof (cases "result = 0")
    case True
    then obtain code r l where r: "response code r" "length l = TSS_TPM_TXBLOB_SIZE" "loc = overlay r l" using s(3) by blast
    have "wr blob 0 r = Some (r @ drop (length r) blob)"
      using assms(3) r(1) by (simp add: wr_def write_at_def response_def)
    then show ?thesis using s True r response_in(2,3) [OF r(1,2)] by (auto simp: req_mgr_submit_req_def)
  qed (use s in \<open>auto simp: req_mgr_submit_req_def\<close>)
qed

lemma exec_returns:
  assumes "well_behaved dv" "dev_ready st" "build (stack_buf dv st) = Some b" "length b = TSS_TPM_TXBLOB_SIZE"
  shows "\<exists>result tx st'. exec dv build st = Some ((result, tx), st') \<and> dev_ready st' \<and> length tx = TSS_TPM_TXBLOB_SIZE"
proof -
  obtain result b' st' where s: "req_mgr_submit_req dv b st = Some ((result, b'), st')" "dev_ready st'"
    "if result = 0 then \<exists>code r. response code r \<and> b' = r @ drop (length r) b else b' = b"
    using submit_returns [OF assms(1,2,4)] by blast
  then have l: "length b' = TSS_TPM_TXBLOB_SIZE" using assms(4) by (auto simp: response_def split: if_splits)
  then have "UnloadBlob_Header b' = Some (Decode_UINT32 (read_at b' 6 4), Decode_UINT32 (read_at b' 2 4))"
    by (simp add: UnloadBlob_Header_def rd_def)
  then show ?thesis using s assms(3) l by (auto simp: exec_def)
qed

lemma rqu_builds:
  assumes "\<And>w. params w = put bs w" "10 + length bs \<le> TSS_TPM_TXBLOB_SIZE"
  shows "\<exists>b. rqu ordinal params (stack_buf dv st) = Some b \<and> length b = TSS_TPM_TXBLOB_SIZE"
proof -
  have "length (drop (10 + length bs) (stack_buf dv st)) = TSS_TPM_TXBLOB_SIZE - (10 + length bs)" by simp
  then show ?thesis
    using rqu_put [OF length_stack_buf [of dv st] assms(2), of params ordinal] assms by simp
qed

lemma put_fun: "LoadBlob_UINT32 i = put (be32 i)"
  by (simp add: fun_eq_iff put_simps)

lemma FlushSpecific_returns:
  assumes "well_behaved dv" "dev_ready st"
  shows "\<exists>result st'. TCSP_FlushSpecific_Common dv h t st = Some (result, st') \<and> dev_ready st'"
proof -
  obtain b where b: "rqu_FlushSpecific h t (stack_buf dv st) = Some b" "length b = TSS_TPM_TXBLOB_SIZE"
    using rqu_builds [of "\<lambda>w. LoadBlob_UINT32 h w \<bind> LoadBlob_UINT32 t" "be32 h @ be32 t" TPM_ORD_FlushSpecific dv st]
    by (auto simp: rqu_FlushSpecific_def put_simps put_fun)
  from exec_returns [OF assms, of "rqu_FlushSpecific h t", OF b] show ?thesis
    by (auto simp: TCSP_FlushSpecific_Common_def)
qed

lemma TerminateHandle_returns:
  assumes "well_behaved dv" "dev_ready st"
  shows "\<exists>result st'. internal_TerminateHandle dv h st = Some (result, st') \<and> dev_ready st'"
proof -
  obtain b where b: "rqu_Terminate_Handle h (stack_buf dv st) = Some b" "length b = TSS_TPM_TXBLOB_SIZE"
    using rqu_builds [of "LoadBlob_UINT32 h" "be32 h" TPM_ORD_Terminate_Handle dv st]
    by (auto simp: rqu_Terminate_Handle_def put_simps put_fun)
  from exec_returns [OF assms, of "rqu_Terminate_Handle h", OF b] show ?thesis
    by (auto simp: internal_TerminateHandle_def)
qed

section \<open>Properties\<close>

text \<open>When the device answers with a response whose size field is its length and which does not
  ask for a retry, the caller's buffer holds that response, followed by what it held before.\<close>

theorem submit_req_response:
  assumes "length blob = TSS_TPM_TXBLOB_SIZE"
    and "Tddli_TransmitData dv blob (Decode_UINT32 (read_at blob 2 4)) 4096 st = Some ((0, n, r), st')"
    and "response code r" "code \<noteq> TPM_E_RETRY"
  shows "req_mgr_submit_req dv blob st = Some ((0, r @ drop (length r) blob), st')"
proof -
  have b: "rd blob 2 4 = Some (read_at blob 2 4)" using assms(1) by (simp add: rd_def)
  have "submit_loop dv blob 5 (stack_buf dv st) (of_nat TSS_TPM_TXBLOB_SIZE) st =
      Some ((0, overlay r (stack_buf dv st)), st')"
    using assms response_in(1) [OF assms(3), of "stack_buf dv st"] b
    by (simp add: response_def submit_step)
  moreover have "wr blob 0 r = Some (r @ drop (length r) blob)"
    using assms(1,3) by (simp add: wr_def write_at_def response_def)
  ultimately show ?thesis
    using response_in(2,3) [OF assms(3), of "stack_buf dv st"] by (simp add: req_mgr_submit_req_def)
qed

text \<open>the retry loop hands the size of the first answer to the next transmission as the size of
  the buffer: after an answer that asks for a retry, an answer that is longer is refused, although
  the buffer has room for it.\<close>

theorem submit_req_retry_shrinks_buffer:
  assumes "length blob = TSS_TPM_TXBLOB_SIZE" "len = Decode_UINT32 (read_at blob 2 4)"
    and "Tddli_TransmitData dv blob len 4096 st = Some ((0, n1, r1), st1)" "response TPM_E_RETRY r1"
    and "Tddli_TransmitData dv blob len 4096 st1 = Some ((0, n2, r2), st2)" "length r1 < length r2"
  shows "req_mgr_submit_req dv blob st = Some ((TDDLERR TDDL_E_INSUFFICIENT_BUFFER, blob), st2)"
proof -
  have b: "rd blob 2 4 = Some (read_at blob 2 4)" using assms(1) by (simp add: rd_def)
  have s: "unat n1 < unat n2" using transmit_smaller [OF assms(3)] transmit_smaller [OF assms(5)] assms(6) by simp
  then have t: "Tddli_TransmitData dv blob len n1 st1 = Some ((TDDLERR TDDL_E_INSUFFICIENT_BUFFER, n1, []), st2)"
    using transmit_smaller [OF assms(5), of n1] by simp
  have nz: "TDDLERR TDDL_E_INSUFFICIENT_BUFFER \<noteq> 0" by (simp add: TDDLERR_def)
  have l: "rd (overlay [] x) 6 4 = Some (read_at x 6 4)" if "length x = TSS_TPM_TXBLOB_SIZE" for x
    using that by (simp add: overlay_def rd_def)
  have "\<exists>loc. submit_loop dv blob 5 (stack_buf dv st) (of_nat TSS_TPM_TXBLOB_SIZE) st =
      Some ((TDDLERR TDDL_E_INSUFFICIENT_BUFFER, loc), st2)"
    using assms(2,3,4) t nz b response_in(1) [OF assms(4), of "stack_buf dv st"]
      l [of "overlay r1 (stack_buf dv st)"]
    by (simp add: response_def submit_step)
  then show ?thesis using nz by (auto simp: req_mgr_submit_req_def)
qed

text \<open>A driver that answers every command from a script, in the order of the answers.\<close>

definition script :: "u8 list list dev_ops" where
  "script = \<lparr>dv_ioctl = (\<lambda>buf w. case w of [] \<Rightarrow> ((- 1, []), []) | r # rs \<Rightarrow> ((int (length r), r), rs)),
     dv_write = (\<lambda>buf w. (- 1, w)), dv_read = (\<lambda>w. ((- 1, []), w)), dv_stack = (\<lambda>w. [])\<rparr>"

definition ex_tddl :: "u8 list list \<Rightarrow> u8 list list tddl" where
  "ex_tddl rs = \<lparr>txBuffer = replicate TDDL_TXBUF_SIZE 0, opened_device = Some TDDL_TRANSMIT_IOCTL, world = rs\<rparr>"

definition answer :: "u32 \<Rightarrow> u8 list \<Rightarrow> u8 list" where
  "answer code bs = be16 0x00C4 @ be32 (of_nat (10 + length bs)) @ be32 code @ bs"

definition command :: "u8 list" where
  "command = be16 TPM_TAG_RQU_COMMAND @ be32 10 @ be32 TPM_ORD_OIAP @ replicate 4086 0"

lemma answer_response: "length bs \<le> 4086 \<Longrightarrow> response code (answer code bs)"
proof -
  assume l: "length bs \<le> 4086"
  have "read_at (answer code bs) 2 4 = be32 (of_nat (10 + length bs))"
    "read_at (answer code bs) 6 4 = be32 code"
    by (simp_all add: answer_def read_at_append1 read_at_append2)
  then show ?thesis using l by (simp add: response_def) (simp add: answer_def)
qed

lemma answer_simps [simp]: "length (answer code bs) = 10 + length bs" "answer code bs \<noteq> []"
  by (simp_all add: answer_def)

lemma command_size [simp]: "length command = TSS_TPM_TXBLOB_SIZE" "Decode_UINT32 (read_at command 2 4) = 10"
proof -
  show "length command = TSS_TPM_TXBLOB_SIZE" by (simp add: command_def)
  have "read_at command 2 4 = be32 10" by (simp add: command_def read_at_append1 read_at_append2)
  then show "Decode_UINT32 (read_at command 2 4) = 10" by simp
qed

lemma script_transmit:
  assumes "length r \<le> TDDL_TXBUF_SIZE" "r \<noteq> []" "length (txBuffer st) = TDDL_TXBUF_SIZE" "world st = r # rs"
    "opened_device st = Some TDDL_TRANSMIT_IOCTL" "length b = TSS_TPM_TXBLOB_SIZE" "unat len \<le> TDDL_TXBUF_SIZE"
  shows "\<exists>st'. Tddli_TransmitData script b len 4096 st = Some ((0, of_nat (length r), r), st')
    \<and> length (txBuffer st') = TDDL_TXBUF_SIZE \<and> world st' = rs \<and> opened_device st' = Some TDDL_TRANSMIT_IOCTL"
proof -
  have "rd (overlay r b) 0 (length r) = Some r" if "length b = TDDL_TXBUF_SIZE" for b
    using assms(1) that by (simp add: overlay_short rd_def read_at_def)
  moreover have "rd b 0 (unat len) = Some (read_at b 0 (unat len))" using assms(6,7) by (simp add: rd_def)
  ultimately show ?thesis
    using assms by (simp add: Tddli_TransmitData_def transmit_cmd_def script_def)
qed

theorem submit_req_response_witness:
  "\<exists>st'. req_mgr_submit_req script command (ex_tddl [answer 0 [7, 7]]) =
     Some ((0, answer 0 [7, 7] @ drop 12 command), st')"
proof -
  obtain st' where "Tddli_TransmitData script command 10 4096 (ex_tddl [answer 0 [7, 7]]) =
      Some ((0, of_nat (length (answer 0 [7, 7])), answer 0 [7, 7]), st')"
    using script_transmit [of "answer 0 [7, 7]" "ex_tddl [answer 0 [7, 7]]" "[]" command 10]
    by (auto simp: ex_tddl_def)
  then show ?thesis
    using submit_req_response [OF command_size(1) _ answer_response [of "[7, 7]" 0]] by fastforce
qed

theorem submit_req_retry_shrinks_buffer_witness:
  "\<exists>st'. req_mgr_submit_req script command (ex_tddl [answer TPM_E_RETRY [], answer 0 [7, 7]]) =
     Some ((TDDLERR TDDL_E_INSUFFICIENT_BUFFER, command), st')"
proof -
  let ?r1 = "answer TPM_E_RETRY []" and ?r2 = "answer 0 [7, 7]"
  obtain st1 where 1: "Tddli_TransmitData script command 10 4096 (ex_tddl [?r1, ?r2]) =
      Some ((0, of_nat (length ?r1), ?r1), st1)"
    and w: "length (txBuffer st1) = TDDL_TXBUF_SIZE" "world st1 = [?r2]"
      "opened_device st1 = Some TDDL_TRANSMIT_IOCTL"
    using script_transmit [of ?r1 "ex_tddl [?r1, ?r2]" "[?r2]" command 10] by (auto simp: ex_tddl_def)
  obtain st2 where 2: "Tddli_TransmitData script command 10 4096 st1 = Some ((0, of_nat (length ?r2), ?r2), st2)"
    using script_transmit [of ?r2 st1 "[]" command 10] w by auto
  from submit_req_retry_shrinks_buffer [OF command_size(1) command_size(2) [symmetric] 1
      answer_response [of "[]" TPM_E_RETRY] 2]
  show ?thesis by simp
qed

text \<open>An OSAP request is the header with its size 36, the entity and the first 20 bytes of the
  caller's nonce; the other bytes of the 32-byte nonce are not sent.  An APCreate request has all
  32 bytes of the nonce and of the authorization value.\<close>

theorem session_requests:
  assumes "length buf = TSS_TPM_TXBLOB_SIZE" "length nonce = 32" "length mac = 32"
  shows "rqu_OSAP t v nonce buf = Some (be16 TPM_TAG_RQU_COMMAND @ be32 36 @ be32 TPM_ORD_OSAP
      @ be16 t @ be32 v @ take 20 nonce @ drop 36 buf)
    \<and> rqu_APCreate t v nonce mac buf = Some (be16 TPM_TAG_RQU_COMMAND @ be32 80 @ be32 TCM_ORD_APCreate
      @ be16 t @ be32 v @ nonce @ mac @ drop 80 buf)"
proof -
  have n: "LoadBlob 20 (Buf nonce) w = put (take 20 nonce) w" for w
  proof -
    have l: "length (take 20 nonce) = 20" using assms(2) by simp
    have "LoadBlob 20 (Buf nonce) w = LoadBlob 20 (Buf (take 20 nonce)) w"
      using assms(2) by (cases w) (simp add: rd_def read_at_def)
    also have "\<dots> = put (take 20 nonce) w" using l by (intro LoadBlob_put) simp
    finally show ?thesis .
  qed
  have p: "LoadBlob 20 (Buf nonce) = put (take 20 nonce)" "LoadBlob 32 (Buf nonce) = put nonce"
    "LoadBlob 32 (Buf mac) = put mac"
    using n assms(2,3) by (simp_all add: LoadBlob_put fun_eq_iff)
  show ?thesis
    using rqu_put [of buf "be16 t @ be32 v @ take 20 nonce" "put (be16 t @ be32 v @ take 20 nonce)" TPM_ORD_OSAP]
      rqu_put [of buf "be16 t @ be32 v @ nonce @ mac" "put (be16 t @ be32 v @ nonce @ mac)" TCM_ORD_APCreate]
      assms
    by (simp add: rqu_OSAP_def rqu_APCreate_def put_simps p)
qed

theorem session_requests_witness:
  "\<exists>b. rqu_OSAP 1 0x40000000 (replicate 32 9) (replicate 4096 0) = Some b \<and> take 10 b = [0, 0xC1, 0, 0, 0, 36, 0, 0, 0, 0xB]"
  using session_requests [of "replicate 4096 0" "replicate 32 9" "replicate 32 9" 1 "0x40000000"]
  by (simp add: be16_def be32_def)

text \<open>A saved session is the string of bytes the device returns after its own count, and a count
  beyond the response buffer makes the daemon read outside it.\<close>

theorem SaveAuthContext_blob:
  assumes "exec dv (rqu TPM_ORD_SaveAuthContext (LoadBlob_UINT32 handle)) st = Some ((0, txBlob), st')"
    and "length txBlob = TSS_TPM_TXBLOB_SIZE" "Decode_UINT32 (read_at txBlob 10 4) = bsize"
  shows "TPM_SaveAuthContext dv True handle st =
    (if unat bsize \<le> TSS_TPM_TXBLOB_SIZE - 14 then Some (Inr (read_at txBlob 14 (unat bsize)), st') else None)"
  using assms by (auto simp: TPM_SaveAuthContext_def UnloadBlob_UINT32_def UnloadBlob_def rd_def unat_eq_zero)

text \<open>A device that saves the session as three bytes.\<close>

lemma save_request: "rqu TPM_ORD_SaveAuthContext (LoadBlob_UINT32 h) (stack_buf dv st) =
    Some (be16 TPM_TAG_RQU_COMMAND @ be32 14 @ be32 TPM_ORD_SaveAuthContext @ be32 h @ drop 14 (stack_buf dv st))"
  using rqu_put [of "stack_buf dv st" "be32 h"] by (simp add: put_simps)

theorem SaveAuthContext_blob_witness:
  "\<exists>st'. TPM_SaveAuthContext script True 7 (ex_tddl [answer 0 (be32 3 @ [1, 2, 3])]) = Some (Inr [1, 2, 3], st')"
proof -
  let ?st = "ex_tddl [answer 0 (be32 3 @ [1, 2, 3])]" and ?r = "answer 0 (be32 3 @ [1, 2, 3])"
  obtain b where b: "rqu TPM_ORD_SaveAuthContext (LoadBlob_UINT32 7) (stack_buf script ?st) = Some b"
    and l: "length b = TSS_TPM_TXBLOB_SIZE" and d: "read_at b 2 4 = be32 14"
    by (simp add: save_request read_at_append1 read_at_append2)
  obtain st' where t: "Tddli_TransmitData script b (Decode_UINT32 (read_at b 2 4)) 4096 ?st = Some ((0, of_nat (length ?r), ?r), st')"
    using script_transmit [of ?r ?st "[]" b 14] l d by (auto simp: ex_tddl_def)
  let ?tx = "?r @ drop (length ?r) b"
  have tx: "rd ?tx 2 4 = Some (be32 17)" "rd ?tx 6 4 = Some (be32 0)" "read_at ?tx 10 4 = be32 3"
    "read_at ?tx 14 3 = [1, 2, 3]" "length ?tx = TSS_TPM_TXBLOB_SIZE"
    using l by (simp_all add: answer_def rd_def read_at_append1 read_at_append2) (simp add: read_at_def)
  have "req_mgr_submit_req script b ?st = Some ((0, ?tx), st')"
    by (rule submit_req_response [OF l t answer_response]) simp_all
  then have "exec script (rqu TPM_ORD_SaveAuthContext (LoadBlob_UINT32 7)) ?st = Some ((0, ?tx), st')"
    using b tx by (simp add: exec_def UnloadBlob_Header_def)
  from SaveAuthContext_blob [OF this tx(5)] tx show ?thesis by simp
qed

text \<open>A device that answers every command with an empty success.\<close>

definition calm :: "unit dev_ops" where
  "calm = \<lparr>dv_ioctl = (\<lambda>buf w. ((10, answer 0 []), ())), dv_write = (\<lambda>buf w. (- 1, ())),
     dv_read = (\<lambda>w. ((- 1, []), ())), dv_stack = (\<lambda>w. [])\<rparr>"

lemma calm_well_behaved: "well_behaved calm"
  using answer_response [of "[]" 0] by (auto simp: well_behaved_def calm_def good_answer_def)

definition calm_tddl :: "unit tddl" where
  "calm_tddl = \<lparr>txBuffer = replicate TDDL_TXBUF_SIZE 0, opened_device = Some TDDL_TRANSMIT_IOCTL, world = ()\<rparr>"



end
