(* ===== verification/Tcs_Pbg.thy ===== *)
theory Tcs_Pbg
  imports Tcs_Req_Mgr
begin

text \<open>
  The parameter block generator: \<open>tpm_rqu_build\<close> (\<open>tcs/tcs_pbg.c\<close>), which turns the arguments of a command
  into a request for the device, with the helpers of \<open>tcs/tcs_utils.c\<close> it uses.  One definition per case
  of its switch, in the order of the code; the cases under \<open>#ifdef\<close> are all there.  The variable
  arguments are a list of typed values, read one after the other.

  The second half shows that every case follows one scheme (\<open>good_case\<close>), so that the switch as a
  whole writes well-formed requests.
\<close>

section \<open>Arguments\<close>

text \<open>The structures of an authorization, as far as a command carries them; \<open>NonceOdd\<close>, \<open>NonceEven\<close>
  and \<open>HMAC\<close> are arrays of 32 bytes.\<close>

record TPM_AUTH =
  AuthHandle :: u32
  NonceOdd :: "u8 list"
  NonceEven :: "u8 list"
  fContinueAuthSession :: u8
  HMAC :: "u8 list"

record TCM_AUTH_SESSION =
  ts_authHandle :: u32
  ts_HMAC :: "u8 list"
  ts_outHMAC :: "u8 list"

text \<open>The variable arguments: an \<open>int\<close> or \<open>UINT32\<close>, a pointer to bytes, to a \<open>UINT32\<close>, to a
  \<open>TSS_BOOL\<close>, to the two structures.  Reading an argument as another type, or reading more arguments
  than there are, has no meaning.\<close>

datatype va = I u32 | P ptr | P32 "u32 option" | PB "u8 option" | A "TPM_AUTH option" | S "TCM_AUTH_SESSION option"

fun va_int :: "va list \<Rightarrow> (u32 \<times> va list) option" where
  "va_int (I x # ap) = Some (x, ap)" | "va_int _ = None"
fun va_ptr :: "va list \<Rightarrow> (ptr \<times> va list) option" where
  "va_ptr (P p # ap) = Some (p, ap)" | "va_ptr _ = None"
fun va_uint32 :: "va list \<Rightarrow> (u32 option \<times> va list) option" where
  "va_uint32 (P32 p # ap) = Some (p, ap)" | "va_uint32 _ = None"
fun va_bool :: "va list \<Rightarrow> (u8 option \<times> va list) option" where
  "va_bool (PB p # ap) = Some (p, ap)" | "va_bool _ = None"
fun va_auth :: "va list \<Rightarrow> (TPM_AUTH option \<times> va list) option" where
  "va_auth (A p # ap) = Some (p, ap)" | "va_auth _ = None"
fun va_session :: "va list \<Rightarrow> (TCM_AUTH_SESSION option \<times> va list) option" where
  "va_session (S p # ap) = Some (p, ap)" | "va_session _ = None"

section \<open>Writing a request\<close>

fun LoadBlob_BOOL :: "u8 \<Rightarrow> wst \<Rightarrow> wst option" where
  "LoadBlob_BOOL data (off, blob) = do { blob \<leftarrow> poke off [data] blob; Some (off + 1, blob) }"

text \<open>A NULL pointer is dereferenced.\<close>

definition LoadBlob_Auth :: "TPM_AUTH option \<Rightarrow> wst \<Rightarrow> wst option" where
  "LoadBlob_Auth auth w = do {
     a \<leftarrow> auth;
     w \<leftarrow> LoadBlob_UINT32 (AuthHandle a) w;
     w \<leftarrow> LoadBlob 32 (Buf (NonceOdd a)) w;
     w \<leftarrow> LoadBlob_BOOL (fContinueAuthSession a) w;
     LoadBlob 32 (Buf (HMAC a)) w }"

definition LoadBlob_TCM_Auth :: "TCM_AUTH_SESSION option \<Rightarrow> wst \<Rightarrow> wst option" where
  "LoadBlob_TCM_Auth auth w = do {
     a \<leftarrow> auth;
     w \<leftarrow> LoadBlob_UINT32 (ts_authHandle a) w;
     LoadBlob 32 (Buf (ts_HMAC a)) w }"

abbreviation (input) TPM_TAG_RQU_AUTH1_COMMAND :: u16 where "TPM_TAG_RQU_AUTH1_COMMAND \<equiv> 0x00C2"
abbreviation (input) TPM_TAG_RQU_AUTH2_COMMAND :: u16 where "TPM_TAG_RQU_AUTH2_COMMAND \<equiv> 0x00C3"

text \<open>The header with the size so far.\<close>

fun rqu_header :: "u16 \<Rightarrow> u32 \<Rightarrow> wst \<Rightarrow> wst option" where
  "rqu_header tag ordinal (off, blob) = do {
     b \<leftarrow> blob;
     b \<leftarrow> LoadBlob_Header tag (ucast off) ordinal b;
     Some (off, Some b) }"

text \<open>How a command ends: without authorization, with one or two, with optional ones.\<close>

definition no_auth :: "u32 \<Rightarrow> wst \<Rightarrow> wst option" where
  "no_auth ordinal = rqu_header TPM_TAG_RQU_COMMAND ordinal"

definition one_auth :: "u32 \<Rightarrow> TPM_AUTH option \<Rightarrow> wst \<Rightarrow> wst option" where
  "one_auth ordinal auth1 w = LoadBlob_Auth auth1 w \<bind> rqu_header TPM_TAG_RQU_AUTH1_COMMAND ordinal"

definition one_session :: "u32 \<Rightarrow> TCM_AUTH_SESSION option \<Rightarrow> wst \<Rightarrow> wst option" where
  "one_session ordinal auth1 w = LoadBlob_TCM_Auth auth1 w \<bind> rqu_header TPM_TAG_RQU_AUTH1_COMMAND ordinal"

definition two_auths :: "u32 \<Rightarrow> TPM_AUTH option \<Rightarrow> TPM_AUTH option \<Rightarrow> wst \<Rightarrow> wst option" where
  "two_auths ordinal auth1 auth2 w =
     LoadBlob_Auth auth1 w \<bind> LoadBlob_Auth auth2 \<bind> rqu_header TPM_TAG_RQU_AUTH2_COMMAND ordinal"

definition opt_auth :: "u32 \<Rightarrow> TPM_AUTH option \<Rightarrow> wst \<Rightarrow> wst option" where
  "opt_auth ordinal auth1 = (if auth1 \<noteq> None then one_auth ordinal auth1 else no_auth ordinal)"

definition opt_and_auth :: "u32 \<Rightarrow> TPM_AUTH option \<Rightarrow> TPM_AUTH option \<Rightarrow> wst \<Rightarrow> wst option" where
  "opt_and_auth ordinal auth1 auth2 =
     (if auth1 \<noteq> None then two_auths ordinal auth1 auth2 else one_auth ordinal auth2)"

definition opt_auths :: "u32 \<Rightarrow> TPM_AUTH option \<Rightarrow> TPM_AUTH option \<Rightarrow> wst \<Rightarrow> wst option" where
  "opt_auths ordinal auth1 auth2 =
     (if auth1 \<noteq> None \<and> auth2 \<noteq> None then two_auths ordinal auth1 auth2
      else if auth1 \<noteq> None then one_auth ordinal auth1
      else if auth2 \<noteq> None then one_auth ordinal auth2
      else no_auth ordinal)"

text \<open>Room for the header, the parameters, the end.\<close>

definition send ::
  "(wst \<Rightarrow> wst option) \<Rightarrow> (wst \<Rightarrow> wst option) \<Rightarrow> wst \<Rightarrow> va list \<Rightarrow> (u32 \<times> wst \<times> va list) option" where
  "send params ending w ap = do {
     w \<leftarrow> params (fst w + 10, snd w);
     w \<leftarrow> ending w;
     Some (TSS_SUCCESS, w, ap) }"

section \<open>The cases of \<open>tpm_rqu_build\<close>\<close>

abbreviation (input) TPM_ORD_DSAP :: u32 where "TPM_ORD_DSAP \<equiv> 0x00000011"
abbreviation (input) TPM_ORD_Delegate_CreateOwnerDelegation :: u32 where "TPM_ORD_Delegate_CreateOwnerDelegation \<equiv> 0x000000D5"
abbreviation (input) TPM_ORD_Delegate_CreateKeyDelegation :: u32 where "TPM_ORD_Delegate_CreateKeyDelegation \<equiv> 0x000000D4"
abbreviation (input) TPM_ORD_ExecuteTransport :: u32 where "TPM_ORD_ExecuteTransport \<equiv> 0x000000E7"
abbreviation (input) TPM_ORD_CreateMigrationBlob :: u32 where "TPM_ORD_CreateMigrationBlob \<equiv> 0x00000028"
abbreviation (input) TPM_ORD_ChangeAuth :: u32 where "TPM_ORD_ChangeAuth \<equiv> 0x0000800C"
abbreviation (input) TPM_ORD_MakeIdentity :: u32 where "TPM_ORD_MakeIdentity \<equiv> 0x00000079"
abbreviation (input) TPM_ORD_NV_WriteValue :: u32 where "TPM_ORD_NV_WriteValue \<equiv> 0x000000CD"
abbreviation (input) TPM_ORD_NV_WriteValueAuth :: u32 where "TPM_ORD_NV_WriteValueAuth \<equiv> 0x000000CE"
abbreviation (input) TPM_ORD_Delegate_Manage :: u32 where "TPM_ORD_Delegate_Manage \<equiv> 0x000000D2"
abbreviation (input) TPM_ORD_NV_ReadValue :: u32 where "TPM_ORD_NV_ReadValue \<equiv> 0x000000CF"
abbreviation (input) TPM_ORD_NV_ReadValueAuth :: u32 where "TPM_ORD_NV_ReadValueAuth \<equiv> 0x000000D0"
abbreviation (input) TPM_ORD_SetRedirection :: u32 where "TPM_ORD_SetRedirection \<equiv> 0x0000009A"
abbreviation (input) TPM_ORD_CreateEndorsementKeyPair :: u32 where "TPM_ORD_CreateEndorsementKeyPair \<equiv> 0x00000078"
abbreviation (input) TPM_ORD_CreateRevocableEK :: u32 where "TPM_ORD_CreateRevocableEK \<equiv> 0x0000007F"
abbreviation (input) TPM_ORD_RevokeTrust :: u32 where "TPM_ORD_RevokeTrust \<equiv> 0x00000080"
abbreviation (input) TPM_ORD_CreateCounter :: u32 where "TPM_ORD_CreateCounter \<equiv> 0x000000DC"
abbreviation (input) TPM_ORD_DAA_Sign :: u32 where "TPM_ORD_DAA_Sign \<equiv> 0x00000031"
abbreviation (input) TPM_ORD_DAA_Join :: u32 where "TPM_ORD_DAA_Join \<equiv> 0x00000029"
abbreviation (input) TPM_ORD_ConvertMigrationBlob :: u32 where "TPM_ORD_ConvertMigrationBlob \<equiv> 0x0000002A"
abbreviation (input) TPM_ORD_SetCapability :: u32 where "TPM_ORD_SetCapability \<equiv> 0x0000003F"
abbreviation (input) TPM_ORD_CertifyKey :: u32 where "TPM_ORD_CertifyKey \<equiv> 0x00008032"
abbreviation (input) TPM_ORD_Delegate_LoadOwnerDelegation :: u32 where "TPM_ORD_Delegate_LoadOwnerDelegation \<equiv> 0x000000D8"
abbreviation (input) TPM_ORD_GetCapability :: u32 where "TPM_ORD_GetCapability \<equiv> 0x00008065"
abbreviation (input) TPM_ORD_UnBind :: u32 where "TPM_ORD_UnBind \<equiv> 0x0000001E"
abbreviation (input) TPM_ORD_Sign :: u32 where "TPM_ORD_Sign \<equiv> 0x0000003C"
abbreviation (input) TPM_ORD_Seal :: u32 where "TPM_ORD_Seal \<equiv> 0x00000017"
abbreviation (input) TPM_ORD_Sealx :: u32 where "TPM_ORD_Sealx \<equiv> 0x0000003D"
abbreviation (input) TPM_ORD_ActivateIdentity :: u32 where "TPM_ORD_ActivateIdentity \<equiv> 0x0000807A"
abbreviation (input) TPM_ORD_Quote :: u32 where "TPM_ORD_Quote \<equiv> 0x00000016"
abbreviation (input) TPM_ORD_Quote2 :: u32 where "TPM_ORD_Quote2 \<equiv> 0x0000003E"
abbreviation (input) TPM_ORD_CreateWrapKey :: u32 where "TPM_ORD_CreateWrapKey \<equiv> 0x0000001F"
abbreviation (input) TPM_ORD_NV_DefineSpace :: u32 where "TPM_ORD_NV_DefineSpace \<equiv> 0x000000CC"
abbreviation (input) TPM_ORD_LoadManuMaintPub :: u32 where "TPM_ORD_LoadManuMaintPub \<equiv> 0x0000002F"
abbreviation (input) TPM_ORD_TickStampBlob :: u32 where "TPM_ORD_TickStampBlob \<equiv> 0x000000F2"
abbreviation (input) TPM_ORD_ReadManuMaintPub :: u32 where "TPM_ORD_ReadManuMaintPub \<equiv> 0x00000030"
abbreviation (input) TPM_ORD_ReadPubek :: u32 where "TPM_ORD_ReadPubek \<equiv> 0x0000807C"
abbreviation (input) TPM_ORD_PCR_Reset :: u32 where "TPM_ORD_PCR_Reset \<equiv> 0x000000C8"
abbreviation (input) TPM_ORD_SetOperatorAuth :: u32 where "TPM_ORD_SetOperatorAuth \<equiv> 0x00000074"
abbreviation (input) TPM_ORD_LoadKey :: u32 where "TPM_ORD_LoadKey \<equiv> 0x00000020"
abbreviation (input) TPM_ORD_LoadKey2 :: u32 where "TPM_ORD_LoadKey2 \<equiv> 0x00000041"
abbreviation (input) TPM_ORD_DirWriteAuth :: u32 where "TPM_ORD_DirWriteAuth \<equiv> 0x00000019"
abbreviation (input) TPM_ORD_CertifySelfTest :: u32 where "TPM_ORD_CertifySelfTest \<equiv> 0x00000052"
abbreviation (input) TPM_ORD_Unseal :: u32 where "TPM_ORD_Unseal \<equiv> 0x00000018"
abbreviation (input) TPM_ORD_Extend :: u32 where "TPM_ORD_Extend \<equiv> 0x00000014"
abbreviation (input) TPM_ORD_StirRandom :: u32 where "TPM_ORD_StirRandom \<equiv> 0x00000047"
abbreviation (input) TPM_ORD_LoadMaintenanceArchive :: u32 where "TPM_ORD_LoadMaintenanceArchive \<equiv> 0x0000002D"
abbreviation (input) TPM_ORD_FieldUpgrade :: u32 where "TPM_ORD_FieldUpgrade \<equiv> 0x000000AA"
abbreviation (input) TPM_ORD_Delegate_UpdateVerification :: u32 where "TPM_ORD_Delegate_UpdateVerification \<equiv> 0x000000D1"
abbreviation (input) TPM_ORD_Delegate_VerifyDelegation :: u32 where "TPM_ORD_Delegate_VerifyDelegation \<equiv> 0x000000D6"
abbreviation (input) TPM_ORD_AuthorizeMigrationKey :: u32 where "TPM_ORD_AuthorizeMigrationKey \<equiv> 0x0000002B"
abbreviation (input) TPM_ORD_TakeOwnership :: u32 where "TPM_ORD_TakeOwnership \<equiv> 0x0000800D"
abbreviation (input) TPM_ORD_GetAuditDigestSigned :: u32 where "TPM_ORD_GetAuditDigestSigned \<equiv> 0x00000086"
abbreviation (input) TCM_ORD_APTerminate :: u32 where "TCM_ORD_APTerminate \<equiv> 0x000080C0"
abbreviation (input) TPM_ORD_ChangeAuthOwner :: u32 where "TPM_ORD_ChangeAuthOwner \<equiv> 0x00008010"
abbreviation (input) TPM_ORD_SetOrdinalAuditStatus :: u32 where "TPM_ORD_SetOrdinalAuditStatus \<equiv> 0x0000008D"
abbreviation (input) TPM_ORD_OwnerSetDisable :: u32 where "TPM_ORD_OwnerSetDisable \<equiv> 0x0000006E"
abbreviation (input) TPM_ORD_PhysicalSetDeactivated :: u32 where "TPM_ORD_PhysicalSetDeactivated \<equiv> 0x00008072"
abbreviation (input) TPM_ORD_CreateMaintenanceArchive :: u32 where "TPM_ORD_CreateMaintenanceArchive \<equiv> 0x0000002C"
abbreviation (input) TPM_ORD_SetOwnerInstall :: u32 where "TPM_ORD_SetOwnerInstall \<equiv> 0x00000071"
abbreviation (input) TPM_ORD_OwnerClear :: u32 where "TPM_ORD_OwnerClear \<equiv> 0x0000005B"
abbreviation (input) TPM_ORD_DisablePubekRead :: u32 where "TPM_ORD_DisablePubekRead \<equiv> 0x0000007E"
abbreviation (input) TPM_ORD_GetCapabilityOwner :: u32 where "TPM_ORD_GetCapabilityOwner \<equiv> 0x00000066"
abbreviation (input) TPM_ORD_ResetLockValue :: u32 where "TPM_ORD_ResetLockValue \<equiv> 0x00000040"
abbreviation (input) TPM_ORD_DisableOwnerClear :: u32 where "TPM_ORD_DisableOwnerClear \<equiv> 0x0000005C"
abbreviation (input) TPM_ORD_SetTempDeactivated :: u32 where "TPM_ORD_SetTempDeactivated \<equiv> 0x00000073"
abbreviation (input) TPM_ORD_OwnerReadPubek :: u32 where "TPM_ORD_OwnerReadPubek \<equiv> 0x0000007D"
abbreviation (input) TPM_ORD_SelfTestFull :: u32 where "TPM_ORD_SelfTestFull \<equiv> 0x00008050"
abbreviation (input) TPM_ORD_GetTicks :: u32 where "TPM_ORD_GetTicks \<equiv> 0x000000F1"
abbreviation (input) TPM_ORD_GetTestResult :: u32 where "TPM_ORD_GetTestResult \<equiv> 0x00008054"
abbreviation (input) TPM_ORD_KillMaintenanceFeature :: u32 where "TPM_ORD_KillMaintenanceFeature \<equiv> 0x0000002E"
abbreviation (input) TPM_ORD_Delegate_ReadTable :: u32 where "TPM_ORD_Delegate_ReadTable \<equiv> 0x000000DB"
abbreviation (input) TPM_ORD_PhysicalEnable :: u32 where "TPM_ORD_PhysicalEnable \<equiv> 0x0000806F"
abbreviation (input) TPM_ORD_DisableForceClear :: u32 where "TPM_ORD_DisableForceClear \<equiv> 0x0000005E"
abbreviation (input) TPM_ORD_ForceClear :: u32 where "TPM_ORD_ForceClear \<equiv> 0x0000805D"
abbreviation (input) TPM_ORD_OwnerReadInternalPub :: u32 where "TPM_ORD_OwnerReadInternalPub \<equiv> 0x00000081"
abbreviation (input) TPM_ORD_GetPubKey :: u32 where "TPM_ORD_GetPubKey \<equiv> 0x00000021"
abbreviation (input) TPM_ORD_ReleaseCounterOwner :: u32 where "TPM_ORD_ReleaseCounterOwner \<equiv> 0x000000E0"
abbreviation (input) TPM_ORD_ReleaseCounter :: u32 where "TPM_ORD_ReleaseCounter \<equiv> 0x000000DF"
abbreviation (input) TPM_ORD_IncrementCounter :: u32 where "TPM_ORD_IncrementCounter \<equiv> 0x000000DD"
abbreviation (input) TPM_ORD_PcrRead :: u32 where "TPM_ORD_PcrRead \<equiv> 0x00000015"
abbreviation (input) TPM_ORD_DirRead :: u32 where "TPM_ORD_DirRead \<equiv> 0x0000001A"
abbreviation (input) TPM_ORD_ReadCounter :: u32 where "TPM_ORD_ReadCounter \<equiv> 0x000000DE"
abbreviation (input) TPM_ORD_GetAuditDigest :: u32 where "TPM_ORD_GetAuditDigest \<equiv> 0x00000085"
abbreviation (input) TPM_ORD_GetRandom :: u32 where "TPM_ORD_GetRandom \<equiv> 0x00000046"
abbreviation (input) TPM_ORD_CMK_SetRestrictions :: u32 where "TPM_ORD_CMK_SetRestrictions \<equiv> 0x0000001C"
abbreviation (input) TPM_ORD_CMK_ApproveMA :: u32 where "TPM_ORD_CMK_ApproveMA \<equiv> 0x0000001D"
abbreviation (input) TSC_ORD_PhysicalPresence :: u32 where "TSC_ORD_PhysicalPresence \<equiv> 0x4000000A"
abbreviation (input) TPM_ORD_CMK_CreateKey :: u32 where "TPM_ORD_CMK_CreateKey \<equiv> 0x00000013"
abbreviation (input) TPM_ORD_CMK_CreateTicket :: u32 where "TPM_ORD_CMK_CreateTicket \<equiv> 0x00000012"
abbreviation (input) TPM_ORD_CMK_CreateBlob :: u32 where "TPM_ORD_CMK_CreateBlob \<equiv> 0x0000001B"
abbreviation (input) TPM_ORD_CMK_ConvertMigration :: u32 where "TPM_ORD_CMK_ConvertMigration \<equiv> 0x00000024"
abbreviation (input) TPM_ORD_KeyControlOwner :: u32 where "TPM_ORD_KeyControlOwner \<equiv> 0x00000023"

text \<open>A case takes the ordinal, the arguments and the blob with its offset; it gives the result code,
  the blob and the arguments not read.\<close>

type_synonym rqu_case = "u32 \<Rightarrow> va list \<Rightarrow> wst \<Rightarrow> (u32 \<times> wst \<times> va list) option"

definition pbg_DSAP :: rqu_case where
  "pbg_DSAP ordinal ap w = do {
     (val1, ap) \<leftarrow> va_int ap;
     (handle1, ap) \<leftarrow> va_int ap;
     (digest1, ap) \<leftarrow> va_ptr ap;
     (in_len1, ap) \<leftarrow> va_int ap;
     (in_blob1, ap) \<leftarrow> va_ptr ap;
     if digest1 = NULL \<or> in_blob1 = NULL then
       Some (TCSERR TSS_E_INTERNAL_ERROR, w, ap)
     else send (\<lambda>w. LoadBlob_UINT16 (ucast val1) w \<bind> LoadBlob_UINT32 handle1
          \<bind> LoadBlob 20 digest1 \<bind> LoadBlob_UINT32 in_len1
          \<bind> LoadBlob in_len1 in_blob1) (no_auth ordinal) w ap }"

definition pbg_Delegate_CreateOwnerDelegation :: rqu_case where
  "pbg_Delegate_CreateOwnerDelegation ordinal ap w = do {
     (bool1, ap) \<leftarrow> va_int ap;
     (in_len1, ap) \<leftarrow> va_int ap;
     (in_blob1, ap) \<leftarrow> va_ptr ap;
     (digest1, ap) \<leftarrow> va_ptr ap;
     (auth1, ap) \<leftarrow> va_auth ap;
     if in_len1 = 0 \<or> in_blob1 = NULL \<or> digest1 = NULL then
       Some (TCSERR TSS_E_INTERNAL_ERROR, w, ap)
     else send (\<lambda>w. LoadBlob_BOOL (ucast bool1) w \<bind> LoadBlob in_len1 in_blob1
          \<bind> LoadBlob 20 digest1) (opt_auth ordinal auth1) w ap }"

definition pbg_Delegate_CreateKeyDelegation :: rqu_case where
  "pbg_Delegate_CreateKeyDelegation ordinal ap w = do {
     (keyslot1, ap) \<leftarrow> va_int ap;
     (in_len1, ap) \<leftarrow> va_int ap;
     (in_blob1, ap) \<leftarrow> va_ptr ap;
     (digest1, ap) \<leftarrow> va_ptr ap;
     (auth1, ap) \<leftarrow> va_auth ap;
     if keyslot1 = 0 \<or> in_len1 = 0 \<or> in_blob1 = NULL \<or> digest1 = NULL then
       Some (TCSERR TSS_E_INTERNAL_ERROR, w, ap)
     else send (\<lambda>w. LoadBlob_UINT32 keyslot1 w \<bind> LoadBlob in_len1 in_blob1
          \<bind> LoadBlob 20 digest1) (opt_auth ordinal auth1) w ap }"

definition pbg_ExecuteTransport :: rqu_case where
  "pbg_ExecuteTransport ordinal ap w = do {
     (ord1, ap) \<leftarrow> va_int ap;
     (keyslot1, ap) \<leftarrow> va_uint32 ap;
     (keyslot2, ap) \<leftarrow> va_uint32 ap;
     (in_len1, ap) \<leftarrow> va_int ap;
     (in_blob1, ap) \<leftarrow> va_ptr ap;
     (auth1, ap) \<leftarrow> va_auth ap;
     (auth2, ap) \<leftarrow> va_auth ap;
     send (\<lambda>w. (case keyslot1 of None \<Rightarrow> Some | Some v \<Rightarrow> LoadBlob_UINT32 v) w
          \<bind> (case keyslot2 of None \<Rightarrow> Some | Some v \<Rightarrow> LoadBlob_UINT32 v)
          \<bind> (if in_blob1 \<noteq> NULL then LoadBlob in_len1 in_blob1 else Some)
          ) (opt_auths ord1 auth1 auth2) w ap }"

definition pbg_CreateMigrationBlob :: rqu_case where
  "pbg_CreateMigrationBlob ordinal ap w = do {
     (keyslot1, ap) \<leftarrow> va_int ap;
     (type1, ap) \<leftarrow> va_int ap;
     (in_len1, ap) \<leftarrow> va_int ap;
     (in_blob1, ap) \<leftarrow> va_ptr ap;
     (in_len2, ap) \<leftarrow> va_int ap;
     (in_blob2, ap) \<leftarrow> va_ptr ap;
     (auth1, ap) \<leftarrow> va_auth ap;
     (auth2, ap) \<leftarrow> va_auth ap;
     if in_blob1 = NULL \<or> in_blob2 = NULL \<or> auth2 = None then
       Some (TCSERR TSS_E_INTERNAL_ERROR, w, ap)
     else send (\<lambda>w. LoadBlob_UINT32 keyslot1 w \<bind> LoadBlob_UINT16 (ucast type1)
          \<bind> LoadBlob in_len1 in_blob1 \<bind> LoadBlob_UINT32 in_len2
          \<bind> LoadBlob in_len2 in_blob2) (opt_and_auth ordinal auth1 auth2) w ap }"

definition pbg_ChangeAuth :: rqu_case where
  "pbg_ChangeAuth ordinal ap w = do {
     (keyslot1, ap) \<leftarrow> va_int ap;
     (proto1, ap) \<leftarrow> va_int ap;
     (digest1, ap) \<leftarrow> va_ptr ap;
     (entity1, ap) \<leftarrow> va_int ap;
     (in_len1, ap) \<leftarrow> va_int ap;
     (in_blob1, ap) \<leftarrow> va_ptr ap;
     (auth1, ap) \<leftarrow> va_auth ap;
     (auth2, ap) \<leftarrow> va_auth ap;
     if digest1 = NULL \<or> in_blob1 = NULL \<or> auth1 = None \<or> auth2 = None then
       Some (TCSERR TSS_E_INTERNAL_ERROR, w, ap)
     else send (\<lambda>w. LoadBlob_UINT32 keyslot1 w
          \<bind> LoadBlob_UINT16 (ucast proto1) \<bind> LoadBlob 20 digest1
          \<bind> LoadBlob_UINT16 (ucast entity1) \<bind> LoadBlob_UINT32 in_len1
          \<bind> LoadBlob in_len1 in_blob1) (two_auths ordinal auth1 auth2) w ap }"

definition pbg_MakeIdentity :: rqu_case where
  "pbg_MakeIdentity ordinal ap w = do {
     (dig1, ap) \<leftarrow> va_ptr ap;
     (dig2, ap) \<leftarrow> va_ptr ap;
     (len1, ap) \<leftarrow> va_int ap;
     (blob1, ap) \<leftarrow> va_ptr ap;
     (auth1, ap) \<leftarrow> va_auth ap;
     (auth2, ap) \<leftarrow> va_auth ap;
     if dig1 = NULL \<or> dig2 = NULL \<or> blob1 = NULL \<or> auth2 = None then
       Some (TCSERR TSS_E_INTERNAL_ERROR, w, ap)
     else send (\<lambda>w. LoadBlob 20 dig1 w \<bind> LoadBlob 20 dig2
          \<bind> LoadBlob len1 blob1) (opt_and_auth ordinal auth1 auth2) w ap }"

definition pbg_NV_WriteValue :: rqu_case where
  "pbg_NV_WriteValue ordinal ap w = do {
     (i, ap) \<leftarrow> va_int ap;
     (j, ap) \<leftarrow> va_int ap;
     (in_len1, ap) \<leftarrow> va_int ap;
     (in_blob1, ap) \<leftarrow> va_ptr ap;
     (auth1, ap) \<leftarrow> va_auth ap;
     if in_blob1 = NULL then
       Some (TCSERR TSS_E_INTERNAL_ERROR, w, ap)
     else send (\<lambda>w. LoadBlob_UINT32 i w \<bind> LoadBlob_UINT32 j
          \<bind> LoadBlob_UINT32 in_len1 \<bind> LoadBlob in_len1 in_blob1
          ) (opt_auth ordinal auth1) w ap }"

definition pbg_NV_ReadValue :: rqu_case where
  "pbg_NV_ReadValue ordinal ap w = do {
     (i, ap) \<leftarrow> va_int ap;
     (j, ap) \<leftarrow> va_int ap;
     (k, ap) \<leftarrow> va_int ap;
     (auth1, ap) \<leftarrow> va_auth ap;
     send (\<lambda>w. LoadBlob_UINT32 i w \<bind> LoadBlob_UINT32 j
          \<bind> LoadBlob_UINT32 k) (opt_auth ordinal auth1) w ap }"

definition pbg_CreateEndorsementKeyPair :: rqu_case where
  "pbg_CreateEndorsementKeyPair ordinal ap w = do {
     (digest1, ap) \<leftarrow> va_ptr ap;
     (in_len1, ap) \<leftarrow> va_int ap;
     (in_blob1, ap) \<leftarrow> va_ptr ap;
     if digest1 = NULL \<or> in_blob1 = NULL then
       Some (TCSERR TSS_E_INTERNAL_ERROR, w, ap)
     else send (\<lambda>w. LoadBlob 20 digest1 w \<bind> LoadBlob in_len1 in_blob1
          ) (no_auth ordinal) w ap }"

definition pbg_CreateRevocableEK :: rqu_case where
  "pbg_CreateRevocableEK ordinal ap w = do {
     (digest1, ap) \<leftarrow> va_ptr ap;
     (in_len1, ap) \<leftarrow> va_int ap;
     (in_blob1, ap) \<leftarrow> va_ptr ap;
     (in_bool1, ap) \<leftarrow> va_int ap;
     (digest2, ap) \<leftarrow> va_ptr ap;
     if digest1 = NULL \<or> in_blob1 = NULL \<or> digest2 = NULL then
       Some (TCSERR TSS_E_INTERNAL_ERROR, w, ap)
     else send (\<lambda>w. LoadBlob 20 digest1 w \<bind> LoadBlob in_len1 in_blob1
          \<bind> LoadBlob_BOOL (ucast in_bool1) \<bind> LoadBlob 20 digest2
          ) (no_auth ordinal) w ap }"

definition pbg_RevokeTrust :: rqu_case where
  "pbg_RevokeTrust ordinal ap w = do {
     (digest1, ap) \<leftarrow> va_ptr ap;
     if digest1 = NULL then
       Some (TCSERR TSS_E_INTERNAL_ERROR, w, ap)
     else send (LoadBlob 20 digest1) (no_auth ordinal) w ap }"

definition pbg_CreateCounter :: rqu_case where
  "pbg_CreateCounter ordinal ap w = do {
     (digest1, ap) \<leftarrow> va_ptr ap;
     (in_len1, ap) \<leftarrow> va_int ap;
     (in_blob1, ap) \<leftarrow> va_ptr ap;
     (auth1, ap) \<leftarrow> va_auth ap;
     if digest1 = NULL \<or> in_blob1 = NULL \<or> auth1 = None then
       Some (TCSERR TSS_E_INTERNAL_ERROR, w, ap)
     else send (\<lambda>w. LoadBlob 20 digest1 w \<bind> LoadBlob in_len1 in_blob1
          ) (one_auth ordinal auth1) w ap }"

definition pbg_DAA_Sign :: rqu_case where
  "pbg_DAA_Sign ordinal ap w = do {
     (keySlot1, ap) \<leftarrow> va_int ap;
     (stage1, ap) \<leftarrow> va_int ap;
     (in_len1, ap) \<leftarrow> va_int ap;
     (in_blob1, ap) \<leftarrow> va_ptr ap;
     (in_len2, ap) \<leftarrow> va_int ap;
     (in_blob2, ap) \<leftarrow> va_ptr ap;
     (auth1, ap) \<leftarrow> va_auth ap;
     if keySlot1 = 0 \<or> in_blob1 = NULL \<or> auth1 = None then
       Some (TCSERR TSS_E_INTERNAL_ERROR, w, ap)
     else send (\<lambda>w. LoadBlob_UINT32 keySlot1 w \<bind> LoadBlob_BOOL (ucast stage1)
          \<bind> LoadBlob_UINT32 in_len1 \<bind> LoadBlob in_len1 in_blob1
          \<bind> LoadBlob_UINT32 in_len2 \<bind> LoadBlob in_len2 in_blob2
          ) (one_auth ordinal auth1) w ap }"

definition pbg_ConvertMigrationBlob :: rqu_case where
  "pbg_ConvertMigrationBlob ordinal ap w = do {
     (keySlot1, ap) \<leftarrow> va_int ap;
     (in_len1, ap) \<leftarrow> va_int ap;
     (in_blob1, ap) \<leftarrow> va_ptr ap;
     (in_len2, ap) \<leftarrow> va_int ap;
     (in_blob2, ap) \<leftarrow> va_ptr ap;
     (auth1, ap) \<leftarrow> va_auth ap;
     if keySlot1 = 0 \<or> in_blob1 = NULL \<or> in_blob2 = NULL then
       Some (TCSERR TSS_E_INTERNAL_ERROR, w, ap)
     else send (\<lambda>w. LoadBlob_UINT32 keySlot1 w \<bind> LoadBlob_UINT32 in_len1
          \<bind> LoadBlob in_len1 in_blob1 \<bind> LoadBlob_UINT32 in_len2
          \<bind> LoadBlob in_len2 in_blob2) (opt_auth ordinal auth1) w ap }"

definition pbg_CertifyKey :: rqu_case where
  "pbg_CertifyKey ordinal ap w = do {
     (keySlot1, ap) \<leftarrow> va_int ap;
     (keySlot2, ap) \<leftarrow> va_int ap;
     (digest1, ap) \<leftarrow> va_ptr ap;
     (auth1, ap) \<leftarrow> va_auth ap;
     (auth2, ap) \<leftarrow> va_auth ap;
     if keySlot1 = 0 \<or> keySlot2 = 0 \<or> digest1 = NULL then
       Some (TCSERR TSS_E_INTERNAL_ERROR, w, ap)
     else send (\<lambda>w. LoadBlob_UINT32 keySlot1 w \<bind> LoadBlob_UINT32 keySlot2
          \<bind> LoadBlob 20 digest1) (opt_auths ordinal auth1 auth2) w ap }"

definition pbg_Delegate_LoadOwnerDelegation :: rqu_case where
  "pbg_Delegate_LoadOwnerDelegation ordinal ap w = do {
     (keySlot1, ap) \<leftarrow> va_int ap;
     (in_len1, ap) \<leftarrow> va_int ap;
     (in_blob1, ap) \<leftarrow> va_ptr ap;
     (auth1, ap) \<leftarrow> va_auth ap;
     if in_len1 \<noteq> 0 \<and> in_blob1 = NULL then
       Some (TCSERR TSS_E_INTERNAL_ERROR, w, ap)
     else send (\<lambda>w. LoadBlob_UINT32 keySlot1 w \<bind> LoadBlob_UINT32 in_len1
          \<bind> (if in_len1 \<noteq> 0 then LoadBlob in_len1 in_blob1 else Some)
          ) (opt_auth ordinal auth1) w ap }"

definition pbg_Seal :: rqu_case where
  "pbg_Seal ordinal ap w = do {
     (keySlot1, ap) \<leftarrow> va_int ap;
     (digest1, ap) \<leftarrow> va_ptr ap;
     (in_len1, ap) \<leftarrow> va_int ap;
     (in_blob1, ap) \<leftarrow> va_ptr ap;
     (in_len2, ap) \<leftarrow> va_int ap;
     (in_blob2, ap) \<leftarrow> va_ptr ap;
     (auth1, ap) \<leftarrow> va_auth ap;
     if keySlot1 = 0 \<or> in_blob2 = NULL \<or> auth1 = None then
       Some (TCSERR TSS_E_INTERNAL_ERROR, w, ap)
     else send (\<lambda>w. LoadBlob_UINT32 keySlot1 w \<bind> LoadBlob 20 digest1
          \<bind> LoadBlob_UINT32 in_len1 \<bind> LoadBlob in_len1 in_blob1
          \<bind> LoadBlob_UINT32 in_len2 \<bind> LoadBlob in_len2 in_blob2
          ) (one_auth ordinal auth1) w ap }"

definition pbg_ActivateIdentity :: rqu_case where
  "pbg_ActivateIdentity ordinal ap w = do {
     (keySlot1, ap) \<leftarrow> va_int ap;
     (in_len1, ap) \<leftarrow> va_int ap;
     (in_blob1, ap) \<leftarrow> va_ptr ap;
     (auth1, ap) \<leftarrow> va_auth ap;
     (auth2, ap) \<leftarrow> va_auth ap;
     if keySlot1 = 0 \<or> in_blob1 = NULL \<or> auth2 = None then
       Some (TCSERR TSS_E_INTERNAL_ERROR, w, ap)
     else send (\<lambda>w. LoadBlob_UINT32 keySlot1 w \<bind> LoadBlob_UINT32 in_len1
          \<bind> LoadBlob in_len1 in_blob1) (opt_and_auth ordinal auth1 auth2) w ap }"

definition pbg_Quote :: rqu_case where
  "pbg_Quote ordinal ap w = do {
     (keySlot1, ap) \<leftarrow> va_int ap;
     (digest1, ap) \<leftarrow> va_ptr ap;
     (in_len1, ap) \<leftarrow> va_int ap;
     (in_blob1, ap) \<leftarrow> va_ptr ap;
     (auth1, ap) \<leftarrow> va_auth ap;
     if keySlot1 = 0 \<or> digest1 = NULL \<or> in_blob1 = NULL then
       Some (TCSERR TSS_E_INTERNAL_ERROR, w, ap)
     else send (\<lambda>w. LoadBlob_UINT32 keySlot1 w \<bind> LoadBlob 20 digest1
          \<bind> LoadBlob in_len1 in_blob1) (opt_auth ordinal auth1) w ap }"

definition pbg_Quote2 :: rqu_case where
  "pbg_Quote2 ordinal ap w = do {
     (keySlot1, ap) \<leftarrow> va_int ap;
     (digest1, ap) \<leftarrow> va_ptr ap;
     (in_len1, ap) \<leftarrow> va_int ap;
     (in_blob1, ap) \<leftarrow> va_ptr ap;
     (addVersion, ap) \<leftarrow> va_bool ap;
     (auth1, ap) \<leftarrow> va_auth ap;
     if keySlot1 = 0 \<or> digest1 = NULL \<or> in_blob1 = NULL \<or> addVersion = None then
       Some (TCSERR TSS_E_INTERNAL_ERROR, w, ap)
     else send (\<lambda>w. LoadBlob_UINT32 keySlot1 w \<bind> LoadBlob 20 digest1
          \<bind> LoadBlob in_len1 in_blob1 \<bind> LoadBlob_BOOL (the addVersion)
          ) (opt_auth ordinal auth1) w ap }"

definition pbg_CreateWrapKey :: rqu_case where
  "pbg_CreateWrapKey ordinal ap w = do {
     (keySlot1, ap) \<leftarrow> va_int ap;
     (digest1, ap) \<leftarrow> va_ptr ap;
     (digest2, ap) \<leftarrow> va_ptr ap;
     (in_len1, ap) \<leftarrow> va_int ap;
     (in_blob1, ap) \<leftarrow> va_ptr ap;
     (auth1, ap) \<leftarrow> va_auth ap;
     if keySlot1 = 0 \<or> digest1 = NULL \<or> digest2 = NULL \<or> in_blob1 = NULL then
       Some (TCSERR TSS_E_INTERNAL_ERROR, w, ap)
     else send (\<lambda>w. LoadBlob_UINT32 keySlot1 w \<bind> LoadBlob 20 digest1
          \<bind> LoadBlob 20 digest2 \<bind> LoadBlob in_len1 in_blob1
          ) (opt_auth ordinal auth1) w ap }"

definition pbg_NV_DefineSpace :: rqu_case where
  "pbg_NV_DefineSpace ordinal ap w = do {
     (in_len1, ap) \<leftarrow> va_int ap;
     (in_blob1, ap) \<leftarrow> va_ptr ap;
     (in_len2, ap) \<leftarrow> va_int ap;
     (in_blob2, ap) \<leftarrow> va_ptr ap;
     (auth1, ap) \<leftarrow> va_auth ap;
     if in_blob1 = NULL \<or> in_blob2 = NULL then
       Some (TCSERR TSS_E_INTERNAL_ERROR, w, ap)
     else send (\<lambda>w. LoadBlob in_len1 in_blob1 w \<bind> LoadBlob in_len2 in_blob2
          ) (opt_auth ordinal auth1) w ap }"

definition pbg_TickStampBlob :: rqu_case where
  "pbg_TickStampBlob ordinal ap w = do {
     (keySlot1, ap) \<leftarrow> va_int ap;
     (digest1, ap) \<leftarrow> va_ptr ap;
     (digest2, ap) \<leftarrow> va_ptr ap;
     (auth1, ap) \<leftarrow> va_auth ap;
     if keySlot1 = 0 \<or> digest1 = NULL \<or> digest2 = NULL then
       Some (TCSERR TSS_E_INTERNAL_ERROR, w, ap)
     else send (\<lambda>w. LoadBlob_UINT32 keySlot1 w \<bind> LoadBlob 20 digest1
          \<bind> LoadBlob 20 digest2) (opt_auth ordinal auth1) w ap }"

definition pbg_ReadManuMaintPub :: rqu_case where
  "pbg_ReadManuMaintPub ordinal ap w = do {
     (in_len1, ap) \<leftarrow> va_int ap;
     (in_blob1, ap) \<leftarrow> va_ptr ap;
     if in_blob1 = NULL then
       Some (TCSERR TSS_E_INTERNAL_ERROR, w, ap)
     else send (LoadBlob in_len1 in_blob1) (no_auth ordinal) w ap }"

definition pbg_LoadKey :: rqu_case where
  "pbg_LoadKey ordinal ap w = do {
     (val1, ap) \<leftarrow> va_int ap;
     (in_len1, ap) \<leftarrow> va_int ap;
     (in_blob1, ap) \<leftarrow> va_ptr ap;
     (auth1, ap) \<leftarrow> va_auth ap;
     (auth2, ap) \<leftarrow> va_auth ap;
     if in_len1 \<noteq> 0 \<and> in_blob1 = NULL then
       Some (TCSERR TSS_E_INTERNAL_ERROR, w, ap)
     else send (\<lambda>w. LoadBlob_UINT32 val1 w \<bind> LoadBlob in_len1 in_blob1
          ) (opt_auths ordinal auth1 auth2) w ap }"

definition pbg_AuthorizeMigrationKey :: rqu_case where
  "pbg_AuthorizeMigrationKey ordinal ap w = do {
     (scheme1, ap) \<leftarrow> va_int ap;
     (in_len1, ap) \<leftarrow> va_int ap;
     (in_blob1, ap) \<leftarrow> va_ptr ap;
     (auth1, ap) \<leftarrow> va_auth ap;
     if in_blob1 = NULL \<or> auth1 = None then
       Some (TCSERR TSS_E_INTERNAL_ERROR, w, ap)
     else send (\<lambda>w. LoadBlob_UINT16 (ucast scheme1) w
          \<bind> LoadBlob in_len1 in_blob1) (one_auth ordinal auth1) w ap }"

definition pbg_TakeOwnership :: rqu_case where
  "pbg_TakeOwnership ordinal ap w = do {
     (scheme1, ap) \<leftarrow> va_int ap;
     (in_len1, ap) \<leftarrow> va_int ap;
     (in_blob1, ap) \<leftarrow> va_ptr ap;
     (in_len2, ap) \<leftarrow> va_int ap;
     (in_blob2, ap) \<leftarrow> va_ptr ap;
     (in_len3, ap) \<leftarrow> va_int ap;
     (in_blob3, ap) \<leftarrow> va_ptr ap;
     (auth1, ap) \<leftarrow> va_session ap;
     if in_blob1 = NULL \<or> in_blob2 = NULL \<or> in_blob3 = NULL \<or> auth1 = None then
       Some (TCSERR TSS_E_INTERNAL_ERROR, w, ap)
     else send (\<lambda>w. LoadBlob_UINT16 (ucast scheme1) w
          \<bind> LoadBlob_UINT32 in_len1 \<bind> LoadBlob in_len1 in_blob1
          \<bind> LoadBlob_UINT32 in_len2 \<bind> LoadBlob in_len2 in_blob2
          \<bind> LoadBlob in_len3 in_blob3) (one_session ordinal auth1) w ap }"

definition pbg_GetAuditDigestSigned :: rqu_case where
  "pbg_GetAuditDigestSigned ordinal ap w = do {
     (keyslot1, ap) \<leftarrow> va_int ap;
     (bool1, ap) \<leftarrow> va_int ap;
     (digest1, ap) \<leftarrow> va_ptr ap;
     (auth1, ap) \<leftarrow> va_auth ap;
     if digest1 = NULL then
       Some (TCSERR TSS_E_INTERNAL_ERROR, w, ap)
     else send (\<lambda>w. LoadBlob_UINT32 keyslot1 w \<bind> LoadBlob_BOOL (ucast bool1)
          \<bind> LoadBlob 20 digest1) (opt_auth ordinal auth1) w ap }"

definition pbg_OSAP :: rqu_case where
  "pbg_OSAP ordinal ap w = do {
     (type1, ap) \<leftarrow> va_int ap;
     (value1, ap) \<leftarrow> va_int ap;
     (digest1, ap) \<leftarrow> va_ptr ap;
     if digest1 = NULL then
       Some (TCSERR TSS_E_INTERNAL_ERROR, w, ap)
     else send (\<lambda>w. LoadBlob_UINT16 (ucast type1) w \<bind> LoadBlob_UINT32 value1
          \<bind> LoadBlob 20 digest1) (no_auth ordinal) w ap }"

definition pbg_APCreate :: rqu_case where
  "pbg_APCreate ordinal ap w = do {
     (entityType, ap) \<leftarrow> va_int ap;
     (entityValue, ap) \<leftarrow> va_int ap;
     (callerNonce, ap) \<leftarrow> va_ptr ap;
     (inMac, ap) \<leftarrow> va_ptr ap;
     if callerNonce = NULL \<or> inMac = NULL then
       Some (TCSERR TSS_E_INTERNAL_ERROR, w, ap)
     else send (\<lambda>w. LoadBlob_UINT16 (ucast entityType) w
          \<bind> LoadBlob_UINT32 entityValue \<bind> LoadBlob 32 callerNonce
          \<bind> LoadBlob 32 inMac) (no_auth ordinal) w ap }"

definition pbg_APTerminate :: rqu_case where
  "pbg_APTerminate ordinal ap w = do {
     (handle, ap) \<leftarrow> va_int ap;
     (inMac, ap) \<leftarrow> va_ptr ap;
     if inMac = NULL then
       Some (TCSERR TSS_E_INTERNAL_ERROR, w, ap)
     else send (\<lambda>w. LoadBlob_UINT32 handle w \<bind> LoadBlob 32 inMac
          ) (no_auth ordinal) w ap }"

definition pbg_ChangeAuthOwner :: rqu_case where
  "pbg_ChangeAuthOwner ordinal ap w = do {
     (type1, ap) \<leftarrow> va_int ap;
     (digest1, ap) \<leftarrow> va_ptr ap;
     (type2, ap) \<leftarrow> va_int ap;
     (auth1, ap) \<leftarrow> va_auth ap;
     if digest1 = NULL \<or> auth1 = None then
       Some (TCSERR TSS_E_INTERNAL_ERROR, w, ap)
     else send (\<lambda>w. LoadBlob_UINT16 (ucast type1) w \<bind> LoadBlob 20 digest1
          \<bind> LoadBlob_UINT16 (ucast type2)) (one_auth ordinal auth1) w ap }"

definition pbg_SetOrdinalAuditStatus :: rqu_case where
  "pbg_SetOrdinalAuditStatus ordinal ap w = do {
     (ord1, ap) \<leftarrow> va_int ap;
     (bool1, ap) \<leftarrow> va_int ap;
     (auth1, ap) \<leftarrow> va_auth ap;
     if auth1 = None then
       Some (TCSERR TSS_E_INTERNAL_ERROR, w, ap)
     else send (\<lambda>w. LoadBlob_UINT32 ord1 w \<bind> LoadBlob_BOOL (ucast bool1)
          ) (one_auth ordinal auth1) w ap }"

definition pbg_OwnerSetDisable :: rqu_case where
  "pbg_OwnerSetDisable ordinal ap w = do {
     (bool1, ap) \<leftarrow> va_int ap;
     (auth1, ap) \<leftarrow> va_auth ap;
     send (LoadBlob_BOOL (ucast bool1)) (opt_auth ordinal auth1) w ap }"

definition pbg_OwnerClear :: rqu_case where
  "pbg_OwnerClear ordinal ap w = do {
     (auth1, ap) \<leftarrow> va_auth ap;
     send Some (opt_auth ordinal auth1) w ap }"

definition pbg_OwnerReadInternalPub :: rqu_case where
  "pbg_OwnerReadInternalPub ordinal ap w = do {
     (i, ap) \<leftarrow> va_int ap;
     (auth1, ap) \<leftarrow> va_auth ap;
     send (LoadBlob_UINT32 i) (opt_auth ordinal auth1) w ap }"

definition pbg_CMK_ApproveMA :: rqu_case where
  "pbg_CMK_ApproveMA ordinal ap w = do {
     (digest1, ap) \<leftarrow> va_ptr ap;
     (auth1, ap) \<leftarrow> va_auth ap;
     send (LoadBlob 20 digest1) (opt_auth ordinal auth1) w ap }"

definition pbg_PhysicalPresence :: rqu_case where
  "pbg_PhysicalPresence ordinal ap w = do {
     (i, ap) \<leftarrow> va_int ap;
     send (LoadBlob_UINT16 (ucast i)) (no_auth ordinal) w ap }"

definition pbg_CMK_CreateKey :: rqu_case where
  "pbg_CMK_CreateKey ordinal ap w = do {
     (key1, ap) \<leftarrow> va_int ap;
     (digest1, ap) \<leftarrow> va_ptr ap;
     (in_len1, ap) \<leftarrow> va_int ap;
     (in_blob1, ap) \<leftarrow> va_ptr ap;
     (digest2, ap) \<leftarrow> va_ptr ap;
     (digest3, ap) \<leftarrow> va_ptr ap;
     (auth1, ap) \<leftarrow> va_auth ap;
     if digest1 = NULL \<or> in_blob1 = NULL \<or> digest2 = NULL \<or> digest3 = NULL then
       Some (TCSERR TSS_E_INTERNAL_ERROR, w, ap)
     else send (\<lambda>w. LoadBlob_UINT32 key1 w \<bind> LoadBlob 20 digest1
          \<bind> LoadBlob in_len1 in_blob1 \<bind> LoadBlob 20 digest2
          \<bind> LoadBlob 20 digest3) (opt_auth ordinal auth1) w ap }"

definition pbg_CMK_CreateTicket :: rqu_case where
  "pbg_CMK_CreateTicket ordinal ap w = do {
     (in_len1, ap) \<leftarrow> va_int ap;
     (in_blob1, ap) \<leftarrow> va_ptr ap;
     (digest1, ap) \<leftarrow> va_ptr ap;
     (in_len2, ap) \<leftarrow> va_int ap;
     (in_blob2, ap) \<leftarrow> va_ptr ap;
     (auth1, ap) \<leftarrow> va_auth ap;
     if digest1 = NULL \<or> in_blob1 = NULL \<or> in_blob2 = NULL then
       Some (TCSERR TSS_E_INTERNAL_ERROR, w, ap)
     else send (\<lambda>w. LoadBlob in_len1 in_blob1 w \<bind> LoadBlob 20 digest1
          \<bind> LoadBlob_UINT32 in_len2 \<bind> LoadBlob in_len2 in_blob2
          ) (opt_auth ordinal auth1) w ap }"

definition pbg_CMK_CreateBlob :: rqu_case where
  "pbg_CMK_CreateBlob ordinal ap w = do {
     (in_key1, ap) \<leftarrow> va_int ap;
     (i, ap) \<leftarrow> va_int ap;
     (in_len1, ap) \<leftarrow> va_int ap;
     (in_blob1, ap) \<leftarrow> va_ptr ap;
     (digest1, ap) \<leftarrow> va_ptr ap;
     (in_len2, ap) \<leftarrow> va_int ap;
     (in_blob2, ap) \<leftarrow> va_ptr ap;
     (in_len3, ap) \<leftarrow> va_int ap;
     (in_blob3, ap) \<leftarrow> va_ptr ap;
     (in_len4, ap) \<leftarrow> va_int ap;
     (in_blob4, ap) \<leftarrow> va_ptr ap;
     (in_len5, ap) \<leftarrow> va_int ap;
     (in_blob5, ap) \<leftarrow> va_ptr ap;
     (auth1, ap) \<leftarrow> va_auth ap;
     if digest1 = NULL \<or> in_blob1 = NULL \<or> in_blob2 = NULL \<or> in_blob3 = NULL \<or> in_blob4 = NULL \<or> in_blob5 = NULL then
       Some (TCSERR TSS_E_INTERNAL_ERROR, w, ap)
     else send (\<lambda>w. LoadBlob_UINT32 in_key1 w \<bind> LoadBlob_UINT16 (ucast i)
          \<bind> LoadBlob in_len1 in_blob1 \<bind> LoadBlob 20 digest1
          \<bind> LoadBlob_UINT32 in_len2 \<bind> LoadBlob in_len2 in_blob2
          \<bind> LoadBlob_UINT32 in_len3 \<bind> LoadBlob in_len3 in_blob3
          \<bind> LoadBlob_UINT32 in_len4 \<bind> LoadBlob in_len4 in_blob4
          \<bind> LoadBlob_UINT32 in_len5 \<bind> LoadBlob in_len5 in_blob5
          ) (opt_auth ordinal auth1) w ap }"

definition pbg_CMK_ConvertMigration :: rqu_case where
  "pbg_CMK_ConvertMigration ordinal ap w = do {
     (key1, ap) \<leftarrow> va_int ap;
     (cmkauth1, ap) \<leftarrow> va_ptr ap;
     (digest1, ap) \<leftarrow> va_ptr ap;
     (in_len1, ap) \<leftarrow> va_int ap;
     (in_blob1, ap) \<leftarrow> va_ptr ap;
     (in_len2, ap) \<leftarrow> va_int ap;
     (in_blob2, ap) \<leftarrow> va_ptr ap;
     (in_len3, ap) \<leftarrow> va_int ap;
     (in_blob3, ap) \<leftarrow> va_ptr ap;
     (auth1, ap) \<leftarrow> va_auth ap;
     if cmkauth1 = NULL \<or> digest1 = NULL \<or> in_blob1 = NULL \<or> in_blob2 = NULL \<or> in_blob3 = NULL then
       Some (TCSERR TSS_E_INTERNAL_ERROR, w, ap)
     else send (\<lambda>w. LoadBlob_UINT32 key1 w \<bind> LoadBlob 60 cmkauth1
          \<bind> LoadBlob 20 digest1 \<bind> LoadBlob in_len1 in_blob1
          \<bind> LoadBlob_UINT32 in_len2 \<bind> LoadBlob in_len2 in_blob2
          \<bind> LoadBlob_UINT32 in_len3 \<bind> LoadBlob in_len3 in_blob3
          ) (opt_auth ordinal auth1) w ap }"

definition pbg_FlushSpecific :: rqu_case where
  "pbg_FlushSpecific ordinal ap w = do {
     (val1, ap) \<leftarrow> va_int ap;
     (val2, ap) \<leftarrow> va_int ap;
     send (\<lambda>w. LoadBlob_UINT32 val1 w \<bind> LoadBlob_UINT32 val2
          ) (no_auth ordinal) w ap }"

definition pbg_KeyControlOwner :: rqu_case where
  "pbg_KeyControlOwner ordinal ap w = do {
     (i, ap) \<leftarrow> va_int ap;
     (len1, ap) \<leftarrow> va_int ap;
     (blob1, ap) \<leftarrow> va_ptr ap;
     (j, ap) \<leftarrow> va_int ap;
     (bool1, ap) \<leftarrow> va_int ap;
     (auth1, ap) \<leftarrow> va_auth ap;
     send (\<lambda>w. LoadBlob_UINT32 i w \<bind> LoadBlob len1 blob1
          \<bind> LoadBlob_UINT32 j \<bind> LoadBlob_BOOL (ucast bool1)
          ) (one_auth ordinal auth1) w ap }"

text \<open>The switch: the ordinals of each case.  An unknown ordinal is logged and reported as success.\<close>

definition rqu_switch :: "(u32 list \<times> rqu_case) list" where
  "rqu_switch =
     [([TPM_ORD_DSAP], pbg_DSAP),
      ([TPM_ORD_Delegate_CreateOwnerDelegation], pbg_Delegate_CreateOwnerDelegation),
      ([TPM_ORD_Delegate_CreateKeyDelegation], pbg_Delegate_CreateKeyDelegation),
      ([TPM_ORD_ExecuteTransport], pbg_ExecuteTransport),
      ([TPM_ORD_CreateMigrationBlob], pbg_CreateMigrationBlob),
      ([TPM_ORD_ChangeAuth], pbg_ChangeAuth),
      ([TPM_ORD_MakeIdentity], pbg_MakeIdentity),
      ([TPM_ORD_NV_WriteValue, TPM_ORD_NV_WriteValueAuth, TPM_ORD_Delegate_Manage], pbg_NV_WriteValue),
      ([TPM_ORD_NV_ReadValue, TPM_ORD_NV_ReadValueAuth, TPM_ORD_SetRedirection], pbg_NV_ReadValue),
      ([TPM_ORD_CreateEndorsementKeyPair], pbg_CreateEndorsementKeyPair),
      ([TPM_ORD_CreateRevocableEK], pbg_CreateRevocableEK),
      ([TPM_ORD_RevokeTrust], pbg_RevokeTrust),
      ([TPM_ORD_CreateCounter], pbg_CreateCounter),
      ([TPM_ORD_DAA_Sign, TPM_ORD_DAA_Join], pbg_DAA_Sign),
      ([TPM_ORD_ConvertMigrationBlob, TPM_ORD_SetCapability], pbg_ConvertMigrationBlob),
      ([TPM_ORD_CertifyKey], pbg_CertifyKey),
      ([TPM_ORD_Delegate_LoadOwnerDelegation, TPM_ORD_GetCapability, TPM_ORD_UnBind,
       TPM_ORD_Sign], pbg_Delegate_LoadOwnerDelegation),
      ([TPM_ORD_Seal, TPM_ORD_Sealx], pbg_Seal),
      ([TPM_ORD_ActivateIdentity], pbg_ActivateIdentity),
      ([TPM_ORD_Quote], pbg_Quote),
      ([TPM_ORD_Quote2], pbg_Quote2),
      ([TPM_ORD_CreateWrapKey], pbg_CreateWrapKey),
      ([TPM_ORD_NV_DefineSpace, TPM_ORD_LoadManuMaintPub], pbg_NV_DefineSpace),
      ([TPM_ORD_TickStampBlob], pbg_TickStampBlob),
      ([TPM_ORD_ReadManuMaintPub, TPM_ORD_ReadPubek, TPM_ORD_PCR_Reset, TPM_ORD_SetOperatorAuth], pbg_ReadManuMaintPub),
      ([TPM_ORD_LoadKey, TPM_ORD_LoadKey2, TPM_ORD_DirWriteAuth, TPM_ORD_CertifySelfTest,
       TPM_ORD_Unseal, TPM_ORD_Extend, TPM_ORD_StirRandom,
       TPM_ORD_LoadMaintenanceArchive, TPM_ORD_FieldUpgrade,
       TPM_ORD_Delegate_UpdateVerification, TPM_ORD_Delegate_VerifyDelegation], pbg_LoadKey),
      ([TPM_ORD_AuthorizeMigrationKey], pbg_AuthorizeMigrationKey),
      ([TPM_ORD_TakeOwnership], pbg_TakeOwnership),
      ([TPM_ORD_GetAuditDigestSigned], pbg_GetAuditDigestSigned),
      ([TPM_ORD_OSAP], pbg_OSAP),
      ([TCM_ORD_APCreate], pbg_APCreate),
      ([TCM_ORD_APTerminate], pbg_APTerminate),
      ([TPM_ORD_ChangeAuthOwner], pbg_ChangeAuthOwner),
      ([TPM_ORD_SetOrdinalAuditStatus], pbg_SetOrdinalAuditStatus),
      ([TPM_ORD_OwnerSetDisable, TPM_ORD_PhysicalSetDeactivated,
       TPM_ORD_CreateMaintenanceArchive, TPM_ORD_SetOwnerInstall], pbg_OwnerSetDisable),
      ([TPM_ORD_OwnerClear, TPM_ORD_DisablePubekRead, TPM_ORD_GetCapabilityOwner,
       TPM_ORD_ResetLockValue, TPM_ORD_DisableOwnerClear, TPM_ORD_SetTempDeactivated,
       TPM_ORD_OIAP, TPM_ORD_OwnerReadPubek, TPM_ORD_SelfTestFull, TPM_ORD_GetTicks,
       TPM_ORD_GetTestResult, TPM_ORD_KillMaintenanceFeature,
       TPM_ORD_Delegate_ReadTable, TPM_ORD_PhysicalEnable, TPM_ORD_DisableForceClear,
       TPM_ORD_ForceClear], pbg_OwnerClear),
      ([TPM_ORD_OwnerReadInternalPub, TPM_ORD_GetPubKey, TPM_ORD_ReleaseCounterOwner,
       TPM_ORD_ReleaseCounter, TPM_ORD_IncrementCounter, TPM_ORD_PcrRead,
       TPM_ORD_DirRead, TPM_ORD_ReadCounter, TPM_ORD_Terminate_Handle,
       TPM_ORD_GetAuditDigest, TPM_ORD_GetRandom, TPM_ORD_CMK_SetRestrictions], pbg_OwnerReadInternalPub),
      ([TPM_ORD_CMK_ApproveMA], pbg_CMK_ApproveMA),
      ([TSC_ORD_PhysicalPresence], pbg_PhysicalPresence),
      ([TPM_ORD_CMK_CreateKey], pbg_CMK_CreateKey),
      ([TPM_ORD_CMK_CreateTicket], pbg_CMK_CreateTicket),
      ([TPM_ORD_CMK_CreateBlob], pbg_CMK_CreateBlob),
      ([TPM_ORD_CMK_ConvertMigration], pbg_CMK_ConvertMigration),
      ([TPM_ORD_FlushSpecific], pbg_FlushSpecific),
      ([TPM_ORD_KeyControlOwner], pbg_KeyControlOwner)]"

definition tpm_rqu_build :: rqu_case where
  "tpm_rqu_build ordinal ap w =
     (case List.find (\<lambda>(os, f). ordinal \<in> set os) rqu_switch of
        None \<Rightarrow> Some (TSS_SUCCESS, w, ap)
      | Some (os, f) \<Rightarrow> f ordinal ap w)"

section \<open>What every request looks like\<close>

definition auth_bytes :: "TPM_AUTH \<Rightarrow> u8 list" where
  "auth_bytes a = be32 (AuthHandle a) @ take 32 (NonceOdd a) @ [fContinueAuthSession a] @ take 32 (HMAC a)"

definition session_bytes :: "TCM_AUTH_SESSION \<Rightarrow> u8 list" where
  "session_bytes s = be32 (ts_authHandle s) @ take 32 (ts_HMAC s)"

text \<open>The authorization blocks among the arguments, in order.\<close>

fun blocks_of_arg :: "va \<Rightarrow> u8 list list" where
  "blocks_of_arg (A (Some a)) = [auth_bytes a]"
| "blocks_of_arg (S (Some s)) = [session_bytes s]"
| "blocks_of_arg _ = []"

definition auth_blocks :: "va list \<Rightarrow> u8 list list" where
  "auth_blocks ap = concat (map blocks_of_arg ap)"

text \<open>A function that only appends bytes, and an ending that appends blocks and puts the header.\<close>

definition appends :: "(wst \<Rightarrow> wst option) \<Rightarrow> bool" where
  "appends f \<longleftrightarrow> (\<forall>off b w'. f (off, Some b) = Some w' \<longrightarrow> (\<exists>bs. put bs (off, Some b) = Some w'))"

definition ends :: "u32 \<Rightarrow> u8 list list \<Rightarrow> wst \<Rightarrow> wst \<Rightarrow> bool" where
  "ends ordinal bs w w' \<longleftrightarrow> (\<exists>w1. put (concat bs) w = Some w1 \<and>
     rqu_header (0xC1 + of_nat (length bs)) ordinal w1 = Some w')"

definition built :: "u32 \<Rightarrow> u8 list list \<Rightarrow> wst \<Rightarrow> u32 \<Rightarrow> wst \<Rightarrow> bool" where
  "built ordinal bs w r w' \<longleftrightarrow> r = 0 \<and> (\<exists>ps w1. put (ps @ concat bs) (fst w + 10, snd w) = Some w1 \<and>
     rqu_header (0xC1 + of_nat (length bs)) ordinal w1 = Some w')"

definition refused :: "wst \<Rightarrow> u32 \<Rightarrow> wst \<Rightarrow> bool" where
  "refused w r w' \<longleftrightarrow> r = TCSERR TSS_E_INTERNAL_ERROR \<and> w' = w"

text \<open>A case either refuses its arguments or builds a request with the authorization blocks of the
  arguments it reads; \<open>g\<close> is the ordinal that goes into the header.\<close>

definition good_case :: "(u32 \<Rightarrow> va list \<Rightarrow> u32) \<Rightarrow> rqu_case \<Rightarrow> bool" where
  "good_case g f \<longleftrightarrow> (\<forall>ordinal ap off b r w' rest. f ordinal ap (off, Some b) = Some (r, w', rest) \<longrightarrow>
     refused (off, Some b) r w' \<or>
     (\<exists>bs. auth_blocks ap = bs @ auth_blocks rest \<and> built (g ordinal ap) bs (off, Some b) r w'))"

lemma va_conv [simp]:
  "va_int ap = Some (x, ap') \<longleftrightarrow> ap = I x # ap'"
  "va_ptr ap = Some (p, ap') \<longleftrightarrow> ap = P p # ap'"
  "va_uint32 ap = Some (u, ap') \<longleftrightarrow> ap = P32 u # ap'"
  "va_bool ap = Some (b, ap') \<longleftrightarrow> ap = PB b # ap'"
  "va_auth ap = Some (a, ap') \<longleftrightarrow> ap = A a # ap'"
  "va_session ap = Some (s, ap') \<longleftrightarrow> ap = S s # ap'"
proof -
  consider "ap = []" | v vs where "ap = v # vs" by (cases ap) auto
  note c = this
  show "va_int ap = Some (x, ap') \<longleftrightarrow> ap = I x # ap'" by (rule c; (cases "hd ap")?; auto)
  show "va_ptr ap = Some (p, ap') \<longleftrightarrow> ap = P p # ap'" by (rule c; (cases "hd ap")?; auto)
  show "va_uint32 ap = Some (u, ap') \<longleftrightarrow> ap = P32 u # ap'" by (rule c; (cases "hd ap")?; auto)
  show "va_bool ap = Some (b, ap') \<longleftrightarrow> ap = PB b # ap'" by (rule c; (cases "hd ap")?; auto)
  show "va_auth ap = Some (a, ap') \<longleftrightarrow> ap = A a # ap'" by (rule c; (cases "hd ap")?; auto)
  show "va_session ap = Some (s, ap') \<longleftrightarrow> ap = S s # ap'" by (rule c; (cases "hd ap")?; auto)
qed

lemma auth_blocks_simps [simp]:
  "auth_blocks [] = []" "auth_blocks (x # ap) = blocks_of_arg x @ auth_blocks ap"
  by (simp_all add: auth_blocks_def)

lemma put_trans: "put xs w = Some w1 \<Longrightarrow> put ys w1 = Some w2 \<Longrightarrow> put (xs @ ys) w = Some w2"
  using put_put [of xs w ys] by simp

lemma LoadBlob_BOOL_put: "LoadBlob_BOOL d w = put [d] w"
  by (cases w) (simp add: put.simps)

lemma put_live: "put bs (off, Some b) = Some w \<Longrightarrow> \<exists>off' b'. w = (off', Some b')"
  by (auto simp: put.simps poke_def bind_eq_Some_conv split: if_splits)

lemma deref_some: "deref p n = Some bs \<Longrightarrow> \<exists>d. p = Buf d \<and> bs = take n d \<and> n \<le> length d"
  by (cases p) (auto simp: rd_def read_at_def split: if_splits)

lemma LoadBlob_some:
  assumes "LoadBlob sz p (off, Some b) = Some w'"
  shows "\<exists>bs. put bs (off, Some b) = Some w' \<and> (\<forall>d. p = Buf d \<longrightarrow> bs = take (unat sz) d)"
proof (cases "sz = 0")
  case True
  then show ?thesis using assms by (auto intro!: exI [of _ "[]"])
next
  case False
  then have "unat sz \<noteq> 0" by (simp add: unat_eq_zero)
  obtain bs c where d: "deref p (unat sz) = Some bs" "poke off bs (Some b) = Some c" "w' = (off + ucast sz, c)"
    using assms False by (auto simp: bind_eq_Some_conv)
  then obtain d where p: "p = Buf d" "bs = take (unat sz) d" "unat sz \<le> length d" using deref_some by blast
  then have l: "length bs = unat sz" by simp
  have "bs \<noteq> []" using \<open>unat sz \<noteq> 0\<close> l by auto
  moreover have "of_nat (length bs) = (ucast sz :: u64)" by (simp only: l ucast_of_nat)
  ultimately have "put bs (off, Some b) = Some w'" using d(2,3) by (simp add: put.simps)
  then show ?thesis using p by blast
qed


lemma put_load:
  assumes "put xs (off, Some b) = Some w" "LoadBlob sz (Buf d) w = Some w'"
  shows "put (xs @ take (unat sz) d) (off, Some b) = Some w'"
proof -
  obtain off' b' where "w = (off', Some b')" using put_live [OF assms(1)] by blast
  then show ?thesis using LoadBlob_some assms(2) put_trans [OF assms(1)] by fast
qed

subsection \<open>Appending\<close>

lemma appendsI: "(\<And>off b w'. f (off, Some b) = Some w' \<Longrightarrow> \<exists>bs. put bs (off, Some b) = Some w') \<Longrightarrow> appends f"
  by (auto simp: appends_def)

named_theorems appends_intros

lemma appends_Some [appends_intros]: "appends Some"
  by (intro appendsI) (auto intro!: exI [of _ "[]"])

lemma appends_UINT32 [appends_intros]: "appends (LoadBlob_UINT32 x)"
  and appends_UINT16 [appends_intros]: "appends (LoadBlob_UINT16 y)"
  and appends_BOOL [appends_intros]: "appends (LoadBlob_BOOL z)"
  by (intro appendsI; auto simp: tcs_prims LoadBlob_BOOL_put)+

lemma appends_LoadBlob [appends_intros]: "appends (LoadBlob sz p)"
  by (intro appendsI) (blast dest: LoadBlob_some)

lemma appends_bind [appends_intros]:
  assumes "appends f" "appends g"
  shows "appends (\<lambda>w. f w \<bind> g)"
proof (intro appendsI)
  fix off b w'
  assume "f (off, Some b) \<bind> g = Some w'"
  then obtain w1 where w1: "f (off, Some b) = Some w1" "g w1 = Some w'" by (auto simp: bind_eq_Some_conv)
  then obtain xs where xs: "put xs (off, Some b) = Some w1" using assms(1) unfolding appends_def by blast
  then obtain off' b' where "w1 = (off', Some b')" using put_live by blast
  then obtain ys where "put ys w1 = Some w'" using w1(2) assms(2) unfolding appends_def by blast
  then show "\<exists>bs. put bs (off, Some b) = Some w'" using put_trans [OF xs] by blast
qed

lemma appends_case [appends_intros]: "(\<And>v. appends (f v)) \<Longrightarrow> appends (case x of None \<Rightarrow> Some | Some v \<Rightarrow> f v)"
  by (cases x) (auto intro: appends_Some)

lemma appends_if [appends_intros]: "appends f \<Longrightarrow> appends (if b then f else Some)"
  by (auto intro: appends_Some)

subsection \<open>Endings\<close>

lemma LoadBlob_Auth_put:
  assumes "LoadBlob_Auth x (off, Some b) = Some w'"
  shows "put (concat (blocks_of_arg (A x))) (off, Some b) = Some w' \<and> length (blocks_of_arg (A x)) = 1"
proof -
  obtain a w1 w2 w3 where a: "x = Some a" "put (be32 (AuthHandle a)) (off, Some b) = Some w1"
    "LoadBlob 32 (Buf (NonceOdd a)) w1 = Some w2" "put [fContinueAuthSession a] w2 = Some w3"
    "LoadBlob 32 (Buf (HMAC a)) w3 = Some w'"
    using assms by (auto simp: LoadBlob_Auth_def bind_eq_Some_conv tcs_prims LoadBlob_BOOL_put)
  show ?thesis using put_load [OF put_trans [OF put_load [OF a(2,3)] a(4)] a(5)] by (simp add: a(1) auth_bytes_def)
qed


lemma LoadBlob_TCM_Auth_put:
  assumes "LoadBlob_TCM_Auth x (off, Some b) = Some w'"
  shows "put (concat (blocks_of_arg (S x))) (off, Some b) = Some w' \<and> length (blocks_of_arg (S x)) = 1"
proof -
  obtain a w1 where a: "x = Some a" "put (be32 (ts_authHandle a)) (off, Some b) = Some w1"
    "LoadBlob 32 (Buf (ts_HMAC a)) w1 = Some w'"
    using assms by (auto simp: LoadBlob_TCM_Auth_def bind_eq_Some_conv tcs_prims)
  show ?thesis using put_load [OF a(2,3)] by (simp add: a(1) session_bytes_def)
qed

lemma ends_no_auth: "no_auth ordinal w = Some w' \<Longrightarrow> ends ordinal [] w w'"
  by (simp add: no_auth_def ends_def)

lemma ends_one_auth:
  assumes "one_auth ordinal x (off, Some b) = Some w'"
  shows "ends ordinal (blocks_of_arg (A x)) (off, Some b) w'"
  using assms LoadBlob_Auth_put by (fastforce simp: one_auth_def ends_def bind_eq_Some_conv)

lemma ends_one_session:
  assumes "one_session ordinal x (off, Some b) = Some w'"
  shows "ends ordinal (blocks_of_arg (S x)) (off, Some b) w'"
  using assms LoadBlob_TCM_Auth_put by (fastforce simp: one_session_def ends_def bind_eq_Some_conv)

lemma ends_two_auths:
  assumes "two_auths ordinal x y (off, Some b) = Some w'"
  shows "ends ordinal (blocks_of_arg (A x) @ blocks_of_arg (A y)) (off, Some b) w'"
proof -
  obtain w1 w2 where w: "LoadBlob_Auth x (off, Some b) = Some w1" "LoadBlob_Auth y w1 = Some w2"
    "rqu_header TPM_TAG_RQU_AUTH2_COMMAND ordinal w2 = Some w'"
    using assms by (auto simp: two_auths_def bind_eq_Some_conv)
  note 1 = LoadBlob_Auth_put [OF w(1)]
  obtain off' b' where w1: "w1 = (off', Some b')" using 1 put_live by blast
  note 2 = LoadBlob_Auth_put [OF w(2) [unfolded w1]]
  show ?thesis using w(3) put_trans [of _ _ w1] 1 2 by (auto simp: ends_def w1)
qed

lemma ends_opt_auth:
  "opt_auth ordinal x (off, Some b) = Some w' \<Longrightarrow> ends ordinal (blocks_of_arg (A x)) (off, Some b) w'"
  by (cases x) (auto simp: opt_auth_def dest: ends_no_auth ends_one_auth)

lemma ends_opt_and_auth:
  "opt_and_auth ordinal x y (off, Some b) = Some w' \<Longrightarrow>
   ends ordinal (blocks_of_arg (A x) @ blocks_of_arg (A y)) (off, Some b) w'"
  by (cases x) (auto simp: opt_and_auth_def dest: ends_one_auth ends_two_auths)

lemma ends_opt_auths:
  "opt_auths ordinal x y (off, Some b) = Some w' \<Longrightarrow>
   ends ordinal (blocks_of_arg (A x) @ blocks_of_arg (A y)) (off, Some b) w'"
  by (cases x; cases y) (auto simp: opt_auths_def dest: ends_no_auth ends_one_auth ends_two_auths)

subsection \<open>The cases\<close>

lemma send_ends:
  assumes "send params ending (off, Some b) ap = Some (r, w', rest)" "appends params"
    and "\<And>off b. ending (off, Some b) = Some w' \<Longrightarrow> ends ordinal bs (off, Some b) w'"
  shows "rest = ap \<and> built ordinal bs (off, Some b) r w'"
proof -
  obtain w1 where w1: "params (off + 10, Some b) = Some w1" "ending w1 = Some w'" and r: "r = 0" "rest = ap"
    using assms(1) by (auto simp: send_def bind_eq_Some_conv)
  obtain ps where ps: "put ps (off + 10, Some b) = Some w1" using w1(1) assms(2) unfolding appends_def by blast
  obtain off' b' where e: "w1 = (off', Some b')" using put_live [OF ps] by blast
  obtain w2 where "put (concat bs) w1 = Some w2" "rqu_header (0xC1 + of_nat (length bs)) ordinal w2 = Some w'"
    using assms(3) w1(2) unfolding e ends_def by blast
  then have "put (ps @ concat bs) (fst (off, Some b) + 10, snd (off, Some b)) = Some w2"
    "rqu_header (0xC1 + of_nat (length bs)) ordinal w2 = Some w'" using put_trans [OF ps] by simp_all
  then show ?thesis unfolding built_def using r by blast
qed

lemma send_cases:
  "send params (no_auth ordinal) (off, Some b) ap = Some (r, w', rest) \<Longrightarrow> appends params \<Longrightarrow>
     rest = ap \<and> built ordinal ([]) (off, Some b) r w'"
  "send params (one_auth ordinal x) (off, Some b) ap = Some (r, w', rest) \<Longrightarrow> appends params \<Longrightarrow>
     rest = ap \<and> built ordinal (blocks_of_arg (A x)) (off, Some b) r w'"
  "send params (one_session ordinal y) (off, Some b) ap = Some (r, w', rest) \<Longrightarrow> appends params \<Longrightarrow>
     rest = ap \<and> built ordinal (blocks_of_arg (S y)) (off, Some b) r w'"
  "send params (two_auths ordinal x z) (off, Some b) ap = Some (r, w', rest) \<Longrightarrow> appends params \<Longrightarrow>
     rest = ap \<and> built ordinal (blocks_of_arg (A x) @ blocks_of_arg (A z)) (off, Some b) r w'"
  "send params (opt_auth ordinal x) (off, Some b) ap = Some (r, w', rest) \<Longrightarrow> appends params \<Longrightarrow>
     rest = ap \<and> built ordinal (blocks_of_arg (A x)) (off, Some b) r w'"
  "send params (opt_and_auth ordinal x z) (off, Some b) ap = Some (r, w', rest) \<Longrightarrow> appends params \<Longrightarrow>
     rest = ap \<and> built ordinal (blocks_of_arg (A x) @ blocks_of_arg (A z)) (off, Some b) r w'"
  "send params (opt_auths ordinal x z) (off, Some b) ap = Some (r, w', rest) \<Longrightarrow> appends params \<Longrightarrow>
     rest = ap \<and> built ordinal (blocks_of_arg (A x) @ blocks_of_arg (A z)) (off, Some b) r w'"
  by (erule (1) send_ends; erule ends_no_auth ends_one_auth ends_one_session ends_two_auths ends_opt_auth
      ends_opt_and_auth ends_opt_auths)+

lemma append_end [simp]: "xs @ ys @ zs = bs @ zs \<longleftrightarrow> bs = xs @ ys"
  using append_same_eq [of "xs @ ys" zs bs] by auto

lemma refused [simp]: "refused w (TCSERR TSS_E_INTERNAL_ERROR) w"
  by (simp add: refused_def)

text \<open>\<open>ExecuteTransport\<close> wraps another command, whose ordinal is its first argument.\<close>

definition first_int :: "va list \<Rightarrow> u32" where
  "first_int ap = (case ap of I x # _ \<Rightarrow> x | _ \<Rightarrow> 0)"

lemma first_int [simp]: "first_int (I x # ap) = x"
  by (simp add: first_int_def)

lemma good_caseI:
  assumes "\<And>ordinal ap off b r w' rest. f ordinal ap (off, Some b) = Some (r, w', rest) \<Longrightarrow>
    \<not> refused (off, Some b) r w' \<Longrightarrow>
    \<exists>bs. auth_blocks ap = bs @ auth_blocks rest \<and> built (g ordinal ap) bs (off, Some b) r w'"
  shows "good_case g f"
  using assms unfolding good_case_def by blast

lemma good_DSAP: "good_case (\<lambda>ordinal ap. ordinal) pbg_DSAP"
  by (rule good_caseI; auto simp: pbg_DSAP_def bind_eq_Some_conv split: if_splits dest!: send_cases intro!: appends_intros)
lemma good_Delegate_CreateOwnerDelegation: "good_case (\<lambda>ordinal ap. ordinal) pbg_Delegate_CreateOwnerDelegation"
  by (rule good_caseI; auto simp: pbg_Delegate_CreateOwnerDelegation_def bind_eq_Some_conv split: if_splits dest!: send_cases intro!: appends_intros)
lemma good_Delegate_CreateKeyDelegation: "good_case (\<lambda>ordinal ap. ordinal) pbg_Delegate_CreateKeyDelegation"
  by (rule good_caseI; auto simp: pbg_Delegate_CreateKeyDelegation_def bind_eq_Some_conv split: if_splits dest!: send_cases intro!: appends_intros)
lemma good_ExecuteTransport: "good_case (\<lambda>ordinal. first_int) pbg_ExecuteTransport"
  by (rule good_caseI; auto simp: pbg_ExecuteTransport_def bind_eq_Some_conv split: if_splits dest!: send_cases intro!: appends_intros)
lemma good_CreateMigrationBlob: "good_case (\<lambda>ordinal ap. ordinal) pbg_CreateMigrationBlob"
  by (rule good_caseI; auto simp: pbg_CreateMigrationBlob_def bind_eq_Some_conv split: if_splits dest!: send_cases intro!: appends_intros)
lemma good_ChangeAuth: "good_case (\<lambda>ordinal ap. ordinal) pbg_ChangeAuth"
  by (rule good_caseI; auto simp: pbg_ChangeAuth_def bind_eq_Some_conv split: if_splits dest!: send_cases intro!: appends_intros)
lemma good_MakeIdentity: "good_case (\<lambda>ordinal ap. ordinal) pbg_MakeIdentity"
  by (rule good_caseI; auto simp: pbg_MakeIdentity_def bind_eq_Some_conv split: if_splits dest!: send_cases intro!: appends_intros)
lemma good_NV_WriteValue: "good_case (\<lambda>ordinal ap. ordinal) pbg_NV_WriteValue"
  by (rule good_caseI; auto simp: pbg_NV_WriteValue_def bind_eq_Some_conv split: if_splits dest!: send_cases intro!: appends_intros)
lemma good_NV_ReadValue: "good_case (\<lambda>ordinal ap. ordinal) pbg_NV_ReadValue"
  by (rule good_caseI; auto simp: pbg_NV_ReadValue_def bind_eq_Some_conv split: if_splits dest!: send_cases intro!: appends_intros)
lemma good_CreateEndorsementKeyPair: "good_case (\<lambda>ordinal ap. ordinal) pbg_CreateEndorsementKeyPair"
  by (rule good_caseI; auto simp: pbg_CreateEndorsementKeyPair_def bind_eq_Some_conv split: if_splits dest!: send_cases intro!: appends_intros)
lemma good_CreateRevocableEK: "good_case (\<lambda>ordinal ap. ordinal) pbg_CreateRevocableEK"
  by (rule good_caseI; auto simp: pbg_CreateRevocableEK_def bind_eq_Some_conv split: if_splits dest!: send_cases intro!: appends_intros)
lemma good_RevokeTrust: "good_case (\<lambda>ordinal ap. ordinal) pbg_RevokeTrust"
  by (rule good_caseI; auto simp: pbg_RevokeTrust_def bind_eq_Some_conv split: if_splits dest!: send_cases intro!: appends_intros)
lemma good_CreateCounter: "good_case (\<lambda>ordinal ap. ordinal) pbg_CreateCounter"
  by (rule good_caseI; auto simp: pbg_CreateCounter_def bind_eq_Some_conv split: if_splits dest!: send_cases intro!: appends_intros)
lemma good_DAA_Sign: "good_case (\<lambda>ordinal ap. ordinal) pbg_DAA_Sign"
  by (rule good_caseI; auto simp: pbg_DAA_Sign_def bind_eq_Some_conv split: if_splits dest!: send_cases intro!: appends_intros)
lemma good_ConvertMigrationBlob: "good_case (\<lambda>ordinal ap. ordinal) pbg_ConvertMigrationBlob"
  by (rule good_caseI; auto simp: pbg_ConvertMigrationBlob_def bind_eq_Some_conv split: if_splits dest!: send_cases intro!: appends_intros)
lemma good_CertifyKey: "good_case (\<lambda>ordinal ap. ordinal) pbg_CertifyKey"
  by (rule good_caseI; auto simp: pbg_CertifyKey_def bind_eq_Some_conv split: if_splits dest!: send_cases intro!: appends_intros)
lemma good_Delegate_LoadOwnerDelegation: "good_case (\<lambda>ordinal ap. ordinal) pbg_Delegate_LoadOwnerDelegation"
  by (rule good_caseI; auto simp: pbg_Delegate_LoadOwnerDelegation_def bind_eq_Some_conv split: if_splits dest!: send_cases intro!: appends_intros)
lemma good_Seal: "good_case (\<lambda>ordinal ap. ordinal) pbg_Seal"
  by (rule good_caseI; auto simp: pbg_Seal_def bind_eq_Some_conv split: if_splits dest!: send_cases intro!: appends_intros)
lemma good_ActivateIdentity: "good_case (\<lambda>ordinal ap. ordinal) pbg_ActivateIdentity"
  by (rule good_caseI; auto simp: pbg_ActivateIdentity_def bind_eq_Some_conv split: if_splits dest!: send_cases intro!: appends_intros)
lemma good_Quote: "good_case (\<lambda>ordinal ap. ordinal) pbg_Quote"
  by (rule good_caseI; auto simp: pbg_Quote_def bind_eq_Some_conv split: if_splits dest!: send_cases intro!: appends_intros)
lemma good_Quote2: "good_case (\<lambda>ordinal ap. ordinal) pbg_Quote2"
  by (rule good_caseI; auto simp: pbg_Quote2_def bind_eq_Some_conv split: if_splits dest!: send_cases intro!: appends_intros)
lemma good_CreateWrapKey: "good_case (\<lambda>ordinal ap. ordinal) pbg_CreateWrapKey"
  by (rule good_caseI; auto simp: pbg_CreateWrapKey_def bind_eq_Some_conv split: if_splits dest!: send_cases intro!: appends_intros)
lemma good_NV_DefineSpace: "good_case (\<lambda>ordinal ap. ordinal) pbg_NV_DefineSpace"
  by (rule good_caseI; auto simp: pbg_NV_DefineSpace_def bind_eq_Some_conv split: if_splits dest!: send_cases intro!: appends_intros)
lemma good_TickStampBlob: "good_case (\<lambda>ordinal ap. ordinal) pbg_TickStampBlob"
  by (rule good_caseI; auto simp: pbg_TickStampBlob_def bind_eq_Some_conv split: if_splits dest!: send_cases intro!: appends_intros)
lemma good_ReadManuMaintPub: "good_case (\<lambda>ordinal ap. ordinal) pbg_ReadManuMaintPub"
  by (rule good_caseI; auto simp: pbg_ReadManuMaintPub_def bind_eq_Some_conv split: if_splits dest!: send_cases intro!: appends_intros)
lemma good_LoadKey: "good_case (\<lambda>ordinal ap. ordinal) pbg_LoadKey"
  by (rule good_caseI; auto simp: pbg_LoadKey_def bind_eq_Some_conv split: if_splits dest!: send_cases intro!: appends_intros)
lemma good_AuthorizeMigrationKey: "good_case (\<lambda>ordinal ap. ordinal) pbg_AuthorizeMigrationKey"
  by (rule good_caseI; auto simp: pbg_AuthorizeMigrationKey_def bind_eq_Some_conv split: if_splits dest!: send_cases intro!: appends_intros)
lemma good_TakeOwnership: "good_case (\<lambda>ordinal ap. ordinal) pbg_TakeOwnership"
  by (rule good_caseI; auto simp: pbg_TakeOwnership_def bind_eq_Some_conv split: if_splits dest!: send_cases intro!: appends_intros)
lemma good_GetAuditDigestSigned: "good_case (\<lambda>ordinal ap. ordinal) pbg_GetAuditDigestSigned"
  by (rule good_caseI; auto simp: pbg_GetAuditDigestSigned_def bind_eq_Some_conv split: if_splits dest!: send_cases intro!: appends_intros)
lemma good_OSAP: "good_case (\<lambda>ordinal ap. ordinal) pbg_OSAP"
  by (rule good_caseI; auto simp: pbg_OSAP_def bind_eq_Some_conv split: if_splits dest!: send_cases intro!: appends_intros)
lemma good_APCreate: "good_case (\<lambda>ordinal ap. ordinal) pbg_APCreate"
  by (rule good_caseI; auto simp: pbg_APCreate_def bind_eq_Some_conv split: if_splits dest!: send_cases intro!: appends_intros)
lemma good_APTerminate: "good_case (\<lambda>ordinal ap. ordinal) pbg_APTerminate"
  by (rule good_caseI; auto simp: pbg_APTerminate_def bind_eq_Some_conv split: if_splits dest!: send_cases intro!: appends_intros)
lemma good_ChangeAuthOwner: "good_case (\<lambda>ordinal ap. ordinal) pbg_ChangeAuthOwner"
  by (rule good_caseI; auto simp: pbg_ChangeAuthOwner_def bind_eq_Some_conv split: if_splits dest!: send_cases intro!: appends_intros)
lemma good_SetOrdinalAuditStatus: "good_case (\<lambda>ordinal ap. ordinal) pbg_SetOrdinalAuditStatus"
  by (rule good_caseI; auto simp: pbg_SetOrdinalAuditStatus_def bind_eq_Some_conv split: if_splits dest!: send_cases intro!: appends_intros)
lemma good_OwnerSetDisable: "good_case (\<lambda>ordinal ap. ordinal) pbg_OwnerSetDisable"
  by (rule good_caseI; auto simp: pbg_OwnerSetDisable_def bind_eq_Some_conv split: if_splits dest!: send_cases intro!: appends_intros)
lemma good_OwnerClear: "good_case (\<lambda>ordinal ap. ordinal) pbg_OwnerClear"
  by (rule good_caseI; auto simp: pbg_OwnerClear_def bind_eq_Some_conv split: if_splits dest!: send_cases intro!: appends_intros)
lemma good_OwnerReadInternalPub: "good_case (\<lambda>ordinal ap. ordinal) pbg_OwnerReadInternalPub"
  by (rule good_caseI; auto simp: pbg_OwnerReadInternalPub_def bind_eq_Some_conv split: if_splits dest!: send_cases intro!: appends_intros)
lemma good_CMK_ApproveMA: "good_case (\<lambda>ordinal ap. ordinal) pbg_CMK_ApproveMA"
  by (rule good_caseI; auto simp: pbg_CMK_ApproveMA_def bind_eq_Some_conv split: if_splits dest!: send_cases intro!: appends_intros)
lemma good_PhysicalPresence: "good_case (\<lambda>ordinal ap. ordinal) pbg_PhysicalPresence"
  by (rule good_caseI; auto simp: pbg_PhysicalPresence_def bind_eq_Some_conv split: if_splits dest!: send_cases intro!: appends_intros)
lemma good_CMK_CreateKey: "good_case (\<lambda>ordinal ap. ordinal) pbg_CMK_CreateKey"
  by (rule good_caseI; auto simp: pbg_CMK_CreateKey_def bind_eq_Some_conv split: if_splits dest!: send_cases intro!: appends_intros)
lemma good_CMK_CreateTicket: "good_case (\<lambda>ordinal ap. ordinal) pbg_CMK_CreateTicket"
  by (rule good_caseI; auto simp: pbg_CMK_CreateTicket_def bind_eq_Some_conv split: if_splits dest!: send_cases intro!: appends_intros)
lemma good_CMK_CreateBlob: "good_case (\<lambda>ordinal ap. ordinal) pbg_CMK_CreateBlob"
  by (rule good_caseI; auto simp: pbg_CMK_CreateBlob_def bind_eq_Some_conv split: if_splits dest!: send_cases intro!: appends_intros)
lemma good_CMK_ConvertMigration: "good_case (\<lambda>ordinal ap. ordinal) pbg_CMK_ConvertMigration"
  by (rule good_caseI; auto simp: pbg_CMK_ConvertMigration_def bind_eq_Some_conv split: if_splits dest!: send_cases intro!: appends_intros)
lemma good_FlushSpecific: "good_case (\<lambda>ordinal ap. ordinal) pbg_FlushSpecific"
  by (rule good_caseI; auto simp: pbg_FlushSpecific_def bind_eq_Some_conv split: if_splits dest!: send_cases intro!: appends_intros)
lemma good_KeyControlOwner: "good_case (\<lambda>ordinal ap. ordinal) pbg_KeyControlOwner"
  by (rule good_caseI; auto simp: pbg_KeyControlOwner_def bind_eq_Some_conv split: if_splits dest!: send_cases intro!: appends_intros)

definition header_ordinal :: "u32 \<Rightarrow> va list \<Rightarrow> u32" where
  "header_ordinal ordinal ap = (if ordinal = TPM_ORD_ExecuteTransport then first_int ap else ordinal)"

text \<open>The ordinals with a case.\<close>

definition rqu_ordinals :: "u32 list" where
  "rqu_ordinals = concat (map fst rqu_switch)"

lemma request_bytes:
  assumes "put bs (10, Some buf) = Some (off, Some b1)" "LoadBlob_Header t n o' b1 = Some b2"
  shows "off = of_nat (10 + length bs) \<and> 10 + length bs \<le> length buf
    \<and> b2 = be16 t @ be32 n @ be32 o' @ bs @ drop (10 + length bs) buf"
proof -
  have "10 \<le> length b1" using assms(2) by (auto simp: LoadBlob_Header_def bind_eq_Some_conv wr_def be32_def split: if_splits)
  moreover have p: "length b1 = length buf" "off = of_nat (10 + length bs)" "10 + length bs \<le> length buf \<or> bs = []"
    "b1 = write_at buf 10 bs"
    using assms(1) by (auto simp: put.simps poke_def bind_eq_Some_conv wr_def split: if_splits)
  ultimately have l: "10 + length bs \<le> length buf" by auto
  obtain h where h: "length h = 10" "buf = h @ drop 10 buf" using l that [of "take 10 buf"] by simp
  have b1: "b1 = h @ bs @ drop (10 + length bs) buf" using h p(4) by (metis append_eq_conv_conj write_at_def)
  obtain a b c d e f g i j k where "h = [a, b, c, d, e, f, g, i, j, k]"
    using h(1) by (auto simp: numeral_eq_Suc length_Suc_conv)
  then have "b2 = be16 t @ be32 n @ be32 o' @ bs @ drop (10 + length bs) buf"
    using assms(2) by (simp add: b1 LoadBlob_Header_def wr_def write_at_def be16_def be32_def numeral_eq_Suc)
  then show ?thesis using p(2) l by simp
qed

lemma put_header:
  assumes "10 + length bs \<le> length buf" "length buf < 2 ^ 64"
  shows "put bs (10, Some buf) \<bind> (\<lambda>w. rqu_header t n w \<bind> f) =
    f (of_nat (10 + length bs), Some (be16 t @ be32 (ucast (of_nat (10 + length bs) :: u64)) @ be32 n @ bs
      @ drop (10 + length bs) buf))"
proof -
  have p: "put bs (10, Some buf) = Some (of_nat (10 + length bs), Some (write_at buf 10 bs))"
    using assms by (simp add: put.simps poke_def wr_def)
  obtain b2 where h: "LoadBlob_Header t (ucast (of_nat (10 + length bs) :: u64)) n (write_at buf 10 bs) = Some b2"
    using assms by (simp add: LoadBlob_Header_def wr_def be16_def be32_def)
  show ?thesis using request_bytes [OF p h] h by (simp add: p)
qed

lemmas good_cases =
    good_DSAP good_Delegate_CreateOwnerDelegation good_Delegate_CreateKeyDelegation
    good_ExecuteTransport good_CreateMigrationBlob good_ChangeAuth good_MakeIdentity
    good_NV_WriteValue good_NV_ReadValue good_CreateEndorsementKeyPair good_CreateRevocableEK
    good_RevokeTrust good_CreateCounter good_DAA_Sign good_ConvertMigrationBlob good_CertifyKey
    good_Delegate_LoadOwnerDelegation good_Seal good_ActivateIdentity good_Quote good_Quote2
    good_CreateWrapKey good_NV_DefineSpace good_TickStampBlob good_ReadManuMaintPub good_LoadKey
    good_AuthorizeMigrationKey good_TakeOwnership good_GetAuditDigestSigned good_OSAP good_APCreate
    good_APTerminate good_ChangeAuthOwner good_SetOrdinalAuditStatus good_OwnerSetDisable
    good_OwnerClear good_OwnerReadInternalPub good_CMK_ApproveMA good_PhysicalPresence
    good_CMK_CreateKey good_CMK_CreateTicket good_CMK_CreateBlob good_CMK_ConvertMigration
    good_FlushSpecific good_KeyControlOwner

definition good_row :: "u32 list \<times> rqu_case \<Rightarrow> bool" where
  "good_row = (\<lambda>(os, f). \<forall>ordinal ap off b r w' rest. ordinal \<in> set os \<longrightarrow> f ordinal ap (off, Some b) = Some (r, w', rest) \<longrightarrow>
     refused (off, Some b) r w' \<or>
     (\<exists>bs. auth_blocks ap = bs @ auth_blocks rest \<and> built (header_ordinal ordinal ap) bs (off, Some b) r w'))"

lemma good_rowI:
  assumes "good_case (\<lambda>ordinal ap. ordinal) f" "TPM_ORD_ExecuteTransport \<notin> set os"
  shows "good_row (os, f)"
proof -
  have "header_ordinal ordinal ap = ordinal" if "ordinal \<in> set os" for ordinal ap
    using assms(2) that by (auto simp: header_ordinal_def)
  then show ?thesis using assms(1) unfolding good_row_def good_case_def by simp
qed

lemma good_row_transport: "good_row ([TPM_ORD_ExecuteTransport], pbg_ExecuteTransport)"
  using good_ExecuteTransport unfolding good_row_def good_case_def header_ordinal_def by simp

lemma good_switch: "row \<in> set rqu_switch \<Longrightarrow> good_row row"
  using good_row_transport by (auto simp: rqu_switch_def intro!: good_rowI good_cases)


text \<open>C11: every request.  For an ordinal the switch knows, \<open>tpm_rqu_build\<close> either refuses its arguments and
  leaves the blob alone, or writes a request: a tag that counts the authorization blocks, the number
  of bytes written, the ordinal (for \<open>ExecuteTransport\<close> that of the wrapped command), the parameters,
  and at the end one block for each authorization given among the arguments it reads, in their order.\<close>

theorem request_well_formed:
  assumes "tpm_rqu_build ordinal ap (0, Some buf) = Some (r, (off, blob), rest)" "ordinal \<in> set rqu_ordinals"
  shows "r = TCSERR TSS_E_INTERNAL_ERROR \<and> off = 0 \<and> blob = Some buf \<or>
    r = TSS_SUCCESS \<and> (\<exists>params bs. auth_blocks ap = bs @ auth_blocks rest
      \<and> 10 + length (params @ concat bs) \<le> length buf \<and> off = of_nat (10 + length (params @ concat bs))
      \<and> blob = Some (be16 (0xC1 + of_nat (length bs)) @ be32 (ucast off) @ be32 (header_ordinal ordinal ap)
          @ params @ concat bs @ drop (10 + length (params @ concat bs)) buf))"
proof -
  obtain os f where f: "(os, f) \<in> set rqu_switch" "ordinal \<in> set os" "f ordinal ap (0, Some buf) = Some (r, (off, blob), rest)"
  proof (cases "List.find (\<lambda>(os, f). ordinal \<in> set os) rqu_switch")
    case None
    then show ?thesis using assms(2) by (force simp: rqu_ordinals_def find_None_iff)
  next
    case (Some row)
    then obtain os f where row: "row = (os, f)" "(os, f) \<in> set rqu_switch" "ordinal \<in> set os"
      by (cases row) (auto simp: find_Some_iff, metis nth_mem)
    then have "f ordinal ap (0, Some buf) = Some (r, (off, blob), rest)"
      using assms(1) Some by (simp add: tpm_rqu_build_def)
    then show ?thesis using that row by blast
  qed
  from good_switch [OF f(1)] f(2,3) consider "refused (0, Some buf) r (off, blob)"
    | bs where "auth_blocks ap = bs @ auth_blocks rest" "built (header_ordinal ordinal ap) bs (0, Some buf) r (off, blob)"
    unfolding good_row_def by blast
  then show ?thesis
  proof cases
    case 1
    then show ?thesis by (simp add: refused_def)
  next
    case 2
    obtain ps w1 where p: "put (ps @ concat bs) (10, Some buf) = Some w1" "r = 0"
      "rqu_header (0xC1 + of_nat (length bs)) (header_ordinal ordinal ap) w1 = Some (off, blob)"
      using 2(2) by (auto simp: built_def)
    obtain b1 where b1: "w1 = (off, Some b1)" using put_live [OF p(1)] p(3) by (auto simp: bind_eq_Some_conv)
    obtain b2 where b2: "blob = Some b2"
      "LoadBlob_Header (0xC1 + of_nat (length bs)) (ucast off) (header_ordinal ordinal ap) b1 = Some b2"
      using p(3) by (auto simp: b1 bind_eq_Some_conv)
    show ?thesis using request_bytes [OF p(1) [unfolded b1] b2(2)] b2(1) p(2) 2(1) by auto
  qed
qed


definition ex_auth :: TPM_AUTH where
  "ex_auth = \<lparr>AuthHandle = 7, NonceOdd = replicate 32 1, NonceEven = [], fContinueAuthSession = 1, HMAC = replicate 32 2\<rparr>"

lemma request_well_formed_witness:
  "\<exists>params bs. auth_blocks [I 5, A (Some ex_auth)] = bs @ auth_blocks []
      \<and> 10 + length (params @ concat bs) \<le> length (replicate 100 (0 :: u8))
      \<and> (83 :: u64) = of_nat (10 + length (params @ concat bs))
      \<and> Some (be16 0xC2 @ be32 83 @ be32 TPM_ORD_GetPubKey @ be32 5 @ auth_bytes ex_auth @ replicate 17 0) =
        Some (be16 (0xC1 + of_nat (length bs)) @ be32 (ucast (83 :: u64)) @ be32 (header_ordinal TPM_ORD_GetPubKey [I 5, A (Some ex_auth)])
          @ params @ concat bs @ drop (10 + length (params @ concat bs)) (replicate 100 0))"
proof -
  let ?ap = "[I 5, A (Some ex_auth)]" and ?w = "(0, Some (replicate 100 0)) :: wst"
  have "tpm_rqu_build TPM_ORD_GetPubKey ?ap ?w = pbg_OwnerReadInternalPub TPM_ORD_GetPubKey ?ap ?w"
    by (simp add: tpm_rqu_build_def rqu_switch_def)
  also have "\<dots> = Some (TSS_SUCCESS, (83, Some (be16 0xC2 @ be32 83 @ be32 TPM_ORD_GetPubKey @ be32 5
      @ auth_bytes ex_auth @ replicate 17 0)), [])"
    by (simp add: pbg_OwnerReadInternalPub_def send_def opt_auth_def one_auth_def LoadBlob_Auth_def tcs_prims
        LoadBlob_BOOL_put LoadBlob_put ex_auth_def auth_bytes_def put_put_bind put_put put_header)
  finally have 1: "tpm_rqu_build TPM_ORD_GetPubKey ?ap ?w = Some (TSS_SUCCESS, (83, Some (be16 0xC2 @ be32 83
      @ be32 TPM_ORD_GetPubKey @ be32 5 @ auth_bytes ex_auth @ replicate 17 0)), [])" .
  have 2: "TPM_ORD_GetPubKey \<in> set rqu_ordinals" by (simp add: rqu_ordinals_def rqu_switch_def)
  have "(83 :: u64) \<noteq> 0" by simp
  then show ?thesis using request_well_formed [OF 1 2] by blast
qed

text \<open>The requests of the session commands are those of the switch.\<close>

lemma sessions_built:
  "tpm_rqu_build TPM_ORD_OSAP [I t, I v, P (Buf d)] (0, Some buf) =
     map_option (\<lambda>b. (TSS_SUCCESS, (36, Some b), [])) (rqu_OSAP (ucast t) v d buf)"
  "tpm_rqu_build TCM_ORD_APCreate [I t, I v, P (Buf d), P (Buf e)] (0, Some buf) =
     map_option (\<lambda>b. (TSS_SUCCESS, (80, Some b), [])) (rqu_APCreate (ucast t) v d e buf)"
  by (simp_all add: tpm_rqu_build_def rqu_switch_def pbg_OSAP_def pbg_APCreate_def send_def rqu_OSAP_def rqu_APCreate_def
     rqu_def no_auth_def map_conv_bind_option comp_def)

end
