(* ===== verification/Tcs_Rsp.thy ===== *)
theory Tcs_Rsp
  imports Tcs_Pbg Trspi_Structs
begin

text \<open>
  \<open>tpm_rsp_parse\<close> (\<open>tcs/tcs_pbg.c\<close>), which takes the response of the device apart, with the functions of
  the daemon that read structures (\<open>tcs/tcs_utils.c\<close>, \<open>tcs_key.c\<close>, \<open>tcs_quote.c\<close>, \<open>tcs_quote2.c\<close>,
  \<open>tcs_counter.c\<close>, \<open>tcsi_tick.c\<close>) as far as it uses them.  The outputs are places in a memory record,
  by kind of output; \<open>malloc\<close> can fail.
\<close>

section \<open>Outputs\<close>

text \<open>The arguments of \<open>tpm_rsp_parse\<close> are pointers to the places of the outputs, or NULL: a \<open>UINT32\<close>, a
  pointer to bytes, an array of bytes, a \<open>TSS_BOOL\<close>, and the structures.  An argument read as another
  type than it has, or a missing one, has no meaning; a NULL pointer to a
  \<open>TPM_AUTH\<close> is read as a NULL pointer to a \<open>TCM_AUTH_SESSION\<close>.\<close>

datatype ra = O32 "nat option" | OB "nat option" | OD "nat option" | OBl "nat option" | OV "nat option"
  | OC "nat option" | OA "nat option" | OS "nat option"

record rsp_mem =
  m_32 :: "nat \<Rightarrow> u32"
  m_B :: "nat \<Rightarrow> ptr"
  m_D :: "nat \<Rightarrow> u8 list"
  m_O :: "nat \<Rightarrow> u8"
  m_V :: "nat \<Rightarrow> TCPA_VERSION"
  m_C :: "nat \<Rightarrow> TPM_COUNTER_VALUE"
  m_A :: "nat \<Rightarrow> TPM_AUTH"
  m_S :: "nat \<Rightarrow> TCM_AUTH_SESSION"
  m_ok :: "nat \<Rightarrow> bool"
  m_count :: nat
  m_live :: int

fun out_32 :: "ra list \<Rightarrow> (nat option \<times> ra list) option" where
  "out_32 (O32 l # ap) = Some (l, ap)" | "out_32 _ = None"
fun out_B :: "ra list \<Rightarrow> (nat option \<times> ra list) option" where
  "out_B (OB l # ap) = Some (l, ap)" | "out_B _ = None"
fun out_D :: "ra list \<Rightarrow> (nat option \<times> ra list) option" where
  "out_D (OD l # ap) = Some (l, ap)" | "out_D _ = None"
fun out_O :: "ra list \<Rightarrow> (nat option \<times> ra list) option" where
  "out_O (OBl l # ap) = Some (l, ap)" | "out_O _ = None"
fun out_V :: "ra list \<Rightarrow> (nat option \<times> ra list) option" where
  "out_V (OV l # ap) = Some (l, ap)" | "out_V _ = None"
fun out_C :: "ra list \<Rightarrow> (nat option \<times> ra list) option" where
  "out_C (OC l # ap) = Some (l, ap)" | "out_C _ = None"
fun out_A :: "ra list \<Rightarrow> (nat option \<times> ra list) option" where
  "out_A (OA l # ap) = Some (l, ap)" | "out_A _ = None"
fun out_S :: "ra list \<Rightarrow> (nat option \<times> ra list) option" where
  "out_S (OS l # ap) = Some (l, ap)" | "out_S (OA None # ap) = Some (None, ap)" | "out_S _ = None"

section \<open>Reading a response\<close>

text \<open>The offset is 64 bits wide; reading outside the response buffer is \<open>None\<close>.\<close>

definition UnloadBlob_UINT16 :: "u64 \<Rightarrow> u8 list \<Rightarrow> (u16 \<times> u64) option" where
  "UnloadBlob_UINT16 off blob = do { bs \<leftarrow> rd blob (unat off) 2; Some (Decode_UINT16 bs, off + 2) }"

definition UnloadBlob_BYTE :: "u64 \<Rightarrow> u8 list \<Rightarrow> (u8 \<times> u64) option" where
  "UnloadBlob_BYTE off blob = do { bs \<leftarrow> rd blob (unat off) 1; Some (hd bs, off + 1) }"

definition get_32 :: "nat \<Rightarrow> u64 \<Rightarrow> u8 list \<Rightarrow> rsp_mem \<Rightarrow> (u64 \<times> rsp_mem) option" where
  "get_32 l off b st = do {
     (x, off) \<leftarrow> UnloadBlob_UINT32 off b;
     Some (off, st\<lparr>m_32 := (m_32 st)(l := x)\<rparr>) }"

definition get_O :: "nat \<Rightarrow> u64 \<Rightarrow> u8 list \<Rightarrow> rsp_mem \<Rightarrow> (u64 \<times> rsp_mem) option" where
  "get_O l off b st = do {
     (x, off) \<leftarrow> UnloadBlob_BYTE off b;
     Some (off, st\<lparr>m_O := (m_O st)(l := x)\<rparr>) }"

text \<open>\<open>n\<close> bytes into an array.\<close>

definition get_D :: "nat \<Rightarrow> u32 \<Rightarrow> u64 \<Rightarrow> u8 list \<Rightarrow> rsp_mem \<Rightarrow> (u64 \<times> rsp_mem) option" where
  "get_D l n off b st = do {
     (bs, off) \<leftarrow> UnloadBlob off n b;
     d \<leftarrow> wr (m_D st l) 0 bs;
     Some (off, st\<lparr>m_D := (m_D st)(l := d)\<rparr>) }"

definition UnloadBlob_Auth :: "nat \<Rightarrow> u64 \<Rightarrow> u8 list \<Rightarrow> rsp_mem \<Rightarrow> (u64 \<times> rsp_mem) option" where
  "UnloadBlob_Auth l off b st = do {
     (n, off) \<leftarrow> UnloadBlob off 32 b;
     (c, off) \<leftarrow> UnloadBlob_BYTE off b;
     (h, off) \<leftarrow> UnloadBlob off 32 b;
     Some (off, st\<lparr>m_A := (m_A st)(l := (m_A st l)\<lparr>NonceEven := n, fContinueAuthSession := c, HMAC := h\<rparr>)\<rparr>) }"

definition UnloadBlob_TCM_Auth :: "nat \<Rightarrow> u64 \<Rightarrow> u8 list \<Rightarrow> rsp_mem \<Rightarrow> (u64 \<times> rsp_mem) option" where
  "UnloadBlob_TCM_Auth l off b st = do {
     (h, off) \<leftarrow> UnloadBlob off 32 b;
     Some (off, st\<lparr>m_S := (m_S st)(l := (m_S st l)\<lparr>ts_outHMAC := h\<rparr>)\<rparr>) }"

definition UnloadBlob_VERSION :: "nat \<Rightarrow> u64 \<Rightarrow> u8 list \<Rightarrow> rsp_mem \<Rightarrow> (u64 \<times> rsp_mem) option" where
  "UnloadBlob_VERSION l off b st = do {
     (ma, off) \<leftarrow> UnloadBlob_BYTE off b;
     (mi, off) \<leftarrow> UnloadBlob_BYTE off b;
     (ra, off) \<leftarrow> UnloadBlob_BYTE off b;
     (ri, off) \<leftarrow> UnloadBlob_BYTE off b;
     Some (off, st\<lparr>m_V := (m_V st)(l := \<lparr>ver_major = ma, ver_minor = mi, ver_revMajor = ra, ver_revMinor = ri\<rparr>)\<rparr>) }"

definition UnloadBlob_COUNTER_VALUE :: "nat \<Rightarrow> u64 \<Rightarrow> u8 list \<Rightarrow> rsp_mem \<Rightarrow> (u64 \<times> rsp_mem) option" where
  "UnloadBlob_COUNTER_VALUE l off b st = do {
     (t, off) \<leftarrow> UnloadBlob_UINT16 off b;
     (lb, off) \<leftarrow> UnloadBlob off 4 b;
     (c, off) \<leftarrow> UnloadBlob_UINT32 off b;
     Some (off, st\<lparr>m_C := (m_C st)(l := \<lparr>cv_tag = t, cv_label = lb, cv_counter = c\<rparr>)\<rparr>) }"

text \<open>With a NULL output the functions only move the offset, over the sizes they find.\<close>

definition UnloadBlob_UINT32_NULL :: "u64 \<Rightarrow> u64" where "UnloadBlob_UINT32_NULL off = off + 4"
definition UnloadBlob_UINT16_NULL :: "u64 \<Rightarrow> u64" where "UnloadBlob_UINT16_NULL off = off + 2"
definition UnloadBlob_BYTE_NULL :: "u64 \<Rightarrow> u64" where "UnloadBlob_BYTE_NULL off = off + 1"
definition UnloadBlob_NULL :: "u32 \<Rightarrow> u64 \<Rightarrow> u64" where "UnloadBlob_NULL n off = off + ucast n"

definition UnloadBlob_VERSION_NULL :: "u64 \<Rightarrow> u64" where
  "UnloadBlob_VERSION_NULL off = off + 4"

definition UnloadBlob_COUNTER_VALUE_NULL :: "u64 \<Rightarrow> u64" where
  "UnloadBlob_COUNTER_VALUE_NULL off =
     UnloadBlob_UINT32_NULL (UnloadBlob_NULL 4 (UnloadBlob_UINT16_NULL off))"

definition UnloadBlob_CURRENT_TICKS_NULL :: "u64 \<Rightarrow> u64" where
  "UnloadBlob_CURRENT_TICKS_NULL off =
     UnloadBlob_NULL 32 (UnloadBlob_UINT16_NULL (UnloadBlob_UINT16_NULL off + 8))"

definition skip_sized :: "u64 \<Rightarrow> u8 list \<Rightarrow> u64 option" where
  "skip_sized off b = do {
     (n, off) \<leftarrow> UnloadBlob_UINT32 off b;
     Some (if 0 < n then UnloadBlob_NULL n off else off) }"

definition UnloadBlob_PCR_SELECTION_NULL :: "u64 \<Rightarrow> u8 list \<Rightarrow> u64 option" where
  "UnloadBlob_PCR_SELECTION_NULL off b = do {
     (n, off) \<leftarrow> UnloadBlob_UINT16 off b;
     Some (if 0 < n then UnloadBlob_NULL (ucast n) off else off) }"

definition UnloadBlob_PCR_COMPOSITE_NULL :: "u64 \<Rightarrow> u8 list \<Rightarrow> u64 option" where
  "UnloadBlob_PCR_COMPOSITE_NULL off b = do {
     off \<leftarrow> UnloadBlob_PCR_SELECTION_NULL off b;
     skip_sized off b }"

definition UnloadBlob_PCR_INFO_SHORT_NULL :: "u64 \<Rightarrow> u8 list \<Rightarrow> u64 option" where
  "UnloadBlob_PCR_INFO_SHORT_NULL off b = do {
     off \<leftarrow> UnloadBlob_PCR_SELECTION_NULL off b;
     Some (UnloadBlob_NULL 20 (UnloadBlob_BYTE_NULL off)) }"

definition UnloadBlob_KEY_PARMS_NULL :: "u64 \<Rightarrow> u8 list \<Rightarrow> u64 option" where
  "UnloadBlob_KEY_PARMS_NULL off b =
     skip_sized (UnloadBlob_UINT16_NULL (UnloadBlob_UINT16_NULL (UnloadBlob_UINT32_NULL off))) b"

definition UnloadBlob_CERTIFY_INFO_NULL :: "u64 \<Rightarrow> u8 list \<Rightarrow> u64 option" where
  "UnloadBlob_CERTIFY_INFO_NULL off b = do {
     let off = UnloadBlob_BYTE_NULL (UnloadBlob_UINT32_NULL (UnloadBlob_UINT16_NULL (UnloadBlob_VERSION_NULL off)));
     off \<leftarrow> UnloadBlob_KEY_PARMS_NULL off b;
     skip_sized (UnloadBlob_BYTE_NULL (UnloadBlob_NULL 32 (UnloadBlob_NULL 32 off))) b }"

definition UnloadBlob_STORE_PUBKEY_NULL :: "u64 \<Rightarrow> u8 list \<Rightarrow> u64 option" where
  "UnloadBlob_STORE_PUBKEY_NULL off b = skip_sized off b"

definition UnloadBlob_TSS_KEY_NULL :: "u64 \<Rightarrow> u8 list \<Rightarrow> u64 option" where
  "UnloadBlob_TSS_KEY_NULL off b = do {
     let off = UnloadBlob_BYTE_NULL (UnloadBlob_UINT32_NULL (UnloadBlob_UINT16_NULL (UnloadBlob_VERSION_NULL off)));
     off \<leftarrow> UnloadBlob_KEY_PARMS_NULL off b;
     off \<leftarrow> skip_sized off b;
     off \<leftarrow> UnloadBlob_STORE_PUBKEY_NULL off b;
     skip_sized off b }"

text \<open>\<open>*blob = malloc(n)\<close>, and copying \<open>n\<close> bytes of the response there; releasing it.\<close>

definition malloc_to :: "nat \<Rightarrow> nat \<Rightarrow> rsp_mem \<Rightarrow> bool \<times> rsp_mem" where
  "malloc_to l n st =
     (if m_ok st (m_count st)
      then (True, st\<lparr>m_B := (m_B st)(l := Buf (replicate n 0)), m_count := Suc (m_count st), m_live := m_live st + 1\<rparr>)
      else (False, st\<lparr>m_B := (m_B st)(l := NULL), m_count := Suc (m_count st)\<rparr>))"

definition copy_to :: "nat \<Rightarrow> u32 \<Rightarrow> u64 \<Rightarrow> u8 list \<Rightarrow> rsp_mem \<Rightarrow> (u64 \<times> rsp_mem) option" where
  "copy_to l n off b st = do {
     (bs, off) \<leftarrow> UnloadBlob off n b;
     d \<leftarrow> (case m_B st l of Buf d \<Rightarrow> wr d 0 bs | _ \<Rightarrow> None);
     Some (off, st\<lparr>m_B := (m_B st)(l := Buf d)\<rparr>) }"

definition free_at :: "nat \<Rightarrow> rsp_mem \<Rightarrow> rsp_mem" where
  "free_at l st = st\<lparr>m_B := (m_B st)(l := NULL), m_live := m_live st - 1\<rparr>"

definition set_32 :: "nat \<Rightarrow> u32 \<Rightarrow> rsp_mem \<Rightarrow> rsp_mem" where
  "set_32 l x st = st\<lparr>m_32 := (m_32 st)(l := x)\<rparr>"

text \<open>The authorization at the end of a response of \<open>len\<close> bytes: a block has 65 bytes.\<close>

definition rsp_auth :: "u32 \<Rightarrow> nat option \<Rightarrow> u8 list \<Rightarrow> rsp_mem \<Rightarrow> rsp_mem option" where
  "rsp_auth len auth1 b st =
     (case auth1 of None \<Rightarrow> Some st
      | Some x \<Rightarrow> map_option snd (UnloadBlob_Auth x (ucast len - 65) b st))"

definition rsp_auths :: "u32 \<Rightarrow> nat option \<Rightarrow> nat option \<Rightarrow> u8 list \<Rightarrow> rsp_mem \<Rightarrow> rsp_mem option" where
  "rsp_auths len auth1 auth2 b st =
     (if auth1 \<noteq> None \<and> auth2 \<noteq> None then do {
        (off, st) \<leftarrow> UnloadBlob_Auth (the auth1) (ucast len - 130) b st;
        (off, st) \<leftarrow> UnloadBlob_Auth (the auth2) off b st;
        Some st }
      else if auth1 \<noteq> None then rsp_auth len auth1 b st
      else rsp_auth len auth2 b st)"

section \<open>The cases of \<open>tpm_rsp_parse\<close>\<close>

type_synonym rsp_case = "ra list \<Rightarrow> u8 list \<Rightarrow> u32 \<Rightarrow> rsp_mem \<Rightarrow> (u32 \<times> rsp_mem) option"

abbreviation (input) no_memory :: "rsp_mem \<Rightarrow> (u32 \<times> rsp_mem) option" where
  "no_memory st \<equiv> Some (TCSERR TSS_E_OUTOFMEMORY, st)"
abbreviation (input) bad_call :: "rsp_mem \<Rightarrow> (u32 \<times> rsp_mem) option" where
  "bad_call st \<equiv> Some (TCSERR TSS_E_INTERNAL_ERROR, st)"

text \<open>Where the data ends when up to two blocks follow it.\<close>

definition data_end :: "u32 \<Rightarrow> nat option \<Rightarrow> nat option \<Rightarrow> u64" where
  "data_end len auth1 auth2 =
     (if auth1 \<noteq> None \<and> auth2 \<noteq> None then ucast len - 130
      else if auth1 \<noteq> None \<or> auth2 \<noteq> None then ucast len - 65 else ucast len)"

definition rsp_ExecuteTransport :: rsp_case where
  "rsp_ExecuteTransport ap b len st = do {
     (val1, ap) \<leftarrow> out_32 ap;
     (val2, ap) \<leftarrow> out_32 ap;
     (len1, ap) \<leftarrow> out_32 ap;
     (blob1, ap) \<leftarrow> out_B ap;
     (auth1, ap) \<leftarrow> out_A ap;
     (auth2, ap) \<leftarrow> out_A ap;
     st \<leftarrow> rsp_auths len auth1 auth2 b st;
     (off, st) \<leftarrow> (case val1 of None \<Rightarrow> Some (10, st) | Some l \<Rightarrow> get_32 l 10 b st);
     (off, st) \<leftarrow> (case val2 of None \<Rightarrow> Some (off, st) | Some l \<Rightarrow> get_32 l off b st);
     l1 \<leftarrow> len1;
     b1 \<leftarrow> blob1;
     let n = ucast (data_end len auth1 auth2 - off);
     let st = set_32 l1 n st;
     if n \<noteq> 0 then
       let (ok, st) = malloc_to b1 (unat n) st
       in if \<not> ok then no_memory st
          else do { (off, st) \<leftarrow> copy_to b1 n off b st; Some (TSS_SUCCESS, st) }
     else Some (TSS_SUCCESS, st\<lparr>m_B := (m_B st)(b1 := NULL)\<rparr>) }"

text \<open>A structure of the given size at the start, its bytes, then a length and a blob: the end of several
  cases.  A failure of the second \<open>malloc\<close> releases the first object.\<close>

definition struct_and_blob ::
  "nat \<Rightarrow> nat \<Rightarrow> nat \<Rightarrow> nat \<Rightarrow> u64 \<Rightarrow> (u64 \<Rightarrow> u8 list \<Rightarrow> rsp_mem \<Rightarrow> (u64 \<times> rsp_mem) option) \<Rightarrow> u8 list \<Rightarrow> rsp_mem \<Rightarrow>
   (u32 \<times> u64 \<times> rsp_mem) option" where
  "struct_and_blob l1 b1 l2 b2 off2 between b st =
     (let st = set_32 l1 (ucast (off2 - 10)) st;
          (ok, st) = malloc_to b1 (unat (m_32 st l1)) st
      in if \<not> ok then Some (TCSERR TSS_E_OUTOFMEMORY, 10, st)
         else do {
           (off, st) \<leftarrow> copy_to b1 (m_32 st l1) 10 b st;
           (off, st) \<leftarrow> between off b st;
           (off, st) \<leftarrow> get_32 l2 off b st;
           let (ok, st) = malloc_to b2 (unat (m_32 st l2)) st;
           if \<not> ok then Some (TCSERR TSS_E_OUTOFMEMORY, off, set_32 l2 0 (set_32 l1 0 (free_at b1 st)))
           else do { (off, st) \<leftarrow> copy_to b2 (m_32 st l2) off b st; Some (TSS_SUCCESS, off, st) } })"

definition rsp_TickStampBlob :: rsp_case where
  "rsp_TickStampBlob ap b len st = do {
     (len1, ap) \<leftarrow> out_32 ap;
     (blob1, ap) \<leftarrow> out_B ap;
     (len2, ap) \<leftarrow> out_32 ap;
     (blob2, ap) \<leftarrow> out_B ap;
     (auth1, ap) \<leftarrow> out_A ap;
     case (len1, blob1, len2, blob2) of (Some l1, Some b1, Some l2, Some b2) \<Rightarrow> do {
       st \<leftarrow> rsp_auth len auth1 b st;
       (r, off, st) \<leftarrow> struct_and_blob l1 b1 l2 b2 (UnloadBlob_CURRENT_TICKS_NULL 10) (\<lambda>off b st. Some (off, st)) b st;
       Some (r, st) }
     | _ \<Rightarrow> bad_call st }"

definition rsp_Quote :: rsp_case where
  "rsp_Quote ap b len st = do {
     (len1, ap) \<leftarrow> out_32 ap;
     (blob1, ap) \<leftarrow> out_B ap;
     (len2, ap) \<leftarrow> out_32 ap;
     (blob2, ap) \<leftarrow> out_B ap;
     (auth1, ap) \<leftarrow> out_A ap;
     case (len1, blob1, len2, blob2) of (Some l1, Some b1, Some l2, Some b2) \<Rightarrow> do {
       st \<leftarrow> rsp_auth len auth1 b st;
       off2 \<leftarrow> UnloadBlob_PCR_COMPOSITE_NULL 10 b;
       (r, off, st) \<leftarrow> struct_and_blob l1 b1 l2 b2 off2 (\<lambda>off b st. Some (off, st)) b st;
       Some (r, st) }
     | _ \<Rightarrow> bad_call st }"

definition rsp_Quote2 :: rsp_case where
  "rsp_Quote2 ap b len st = do {
     (len1, ap) \<leftarrow> out_32 ap;
     (blob1, ap) \<leftarrow> out_B ap;
     (addVersion, ap) \<leftarrow> out_O ap;
     (len2, ap) \<leftarrow> out_32 ap;
     (blob2, ap) \<leftarrow> out_B ap;
     (len3, ap) \<leftarrow> out_32 ap;
     (blob3, ap) \<leftarrow> out_B ap;
     (auth1, ap) \<leftarrow> out_A ap;
     case (len1, blob1, addVersion, len2, blob2, len3, blob3) of
       (Some l1, Some b1, Some v, Some l2, Some b2, Some l3, Some b3) \<Rightarrow> do {
         st \<leftarrow> rsp_auth len auth1 b st;
         off2 \<leftarrow> UnloadBlob_PCR_INFO_SHORT_NULL 10 b;
         let st = set_32 l1 (ucast (off2 - 10)) st;
         let (ok, st) = malloc_to b1 (unat (m_32 st l1)) st;
         if \<not> ok then no_memory st
         else do {
           (off, st) \<leftarrow> copy_to b1 (m_32 st l1) 10 b st;
           (off, st) \<leftarrow> get_32 l2 off b st;
           let (ok, st) = malloc_to b2 (unat (m_32 st l2)) st;
           if \<not> ok then
             let st = set_32 l3 0 (set_32 l2 0 (set_32 l1 0 (free_at b1 st)))
             in no_memory (st\<lparr>m_B := (m_B st)(b3 := NULL)\<rparr>)
           else do {
             (off, st) \<leftarrow> copy_to b2 (m_32 st l2) off b st;
             (off, st) \<leftarrow> get_32 l3 off b st;
             let (ok, st) = malloc_to b3 (unat (m_32 st l3)) st;
             if \<not> ok then
               let st = free_at b1 st;
                   st = (if 0 < m_32 st l2 then free_at b2 st else st)
               in no_memory (set_32 l3 0 (set_32 l2 0 (set_32 l1 0 st)))
             else do { (off, st) \<leftarrow> copy_to b3 (m_32 st l3) off b st; Some (TSS_SUCCESS, st) } } } }
     | _ \<Rightarrow> bad_call st }"

definition rsp_CertifyKey :: rsp_case where
  "rsp_CertifyKey ap b len st = do {
     (len1, ap) \<leftarrow> out_32 ap;
     (blob1, ap) \<leftarrow> out_B ap;
     (len2, ap) \<leftarrow> out_32 ap;
     (blob2, ap) \<leftarrow> out_B ap;
     (auth1, ap) \<leftarrow> out_A ap;
     (auth2, ap) \<leftarrow> out_A ap;
     case (len1, blob1, len2, blob2) of (Some l1, Some b1, Some l2, Some b2) \<Rightarrow> do {
       st \<leftarrow> rsp_auths len auth1 auth2 b st;
       off2 \<leftarrow> UnloadBlob_CERTIFY_INFO_NULL 10 b;
       (r, off, st) \<leftarrow> struct_and_blob l1 b1 l2 b2 off2 (\<lambda>off b st. Some (off, st)) b st;
       Some (r, st) }
     | _ \<Rightarrow> bad_call st }"

definition rsp_GetAuditDigestSigned :: rsp_case where
  "rsp_GetAuditDigestSigned ap b len st = do {
     (len1, ap) \<leftarrow> out_32 ap;
     (blob1, ap) \<leftarrow> out_B ap;
     (digest1, ap) \<leftarrow> out_D ap;
     (digest2, ap) \<leftarrow> out_D ap;
     (len2, ap) \<leftarrow> out_32 ap;
     (blob2, ap) \<leftarrow> out_B ap;
     (auth1, ap) \<leftarrow> out_A ap;
     case (digest1, digest2, len1, blob1, len2, blob2) of (Some d1, Some d2, Some l1, Some b1, Some l2, Some b2) \<Rightarrow> do {
       (r, off, st) \<leftarrow> struct_and_blob l1 b1 l2 b2 (UnloadBlob_COUNTER_VALUE_NULL 10)
         (\<lambda>off b st. do { (off, st) \<leftarrow> get_D d1 20 off b st; get_D d2 20 off b st }) b st;
       if r \<noteq> 0 then Some (r, st)
       else case auth1 of None \<Rightarrow> Some (r, st)
         | Some x \<Rightarrow> do { (off, st) \<leftarrow> UnloadBlob_Auth x off b st; Some (r, st) } }
     | _ \<Rightarrow> bad_call st }"

definition rsp_GetAuditDigest :: rsp_case where
  "rsp_GetAuditDigest ap b len st = do {
     (digest1, ap) \<leftarrow> out_D ap;
     (len1, ap) \<leftarrow> out_32 ap;
     (blob1, ap) \<leftarrow> out_B ap;
     (bool1, ap) \<leftarrow> out_O ap;
     (len2, ap) \<leftarrow> out_32 ap;
     (blob2, ap) \<leftarrow> out_B ap;
     case (digest1, len1, blob1, len2, blob2, bool1) of (Some d1, Some l1, Some b1, Some l2, Some b2, Some o1) \<Rightarrow> do {
       (r, off, st) \<leftarrow> struct_and_blob l1 b1 l2 b2 (UnloadBlob_COUNTER_VALUE_NULL 10)
         (\<lambda>off b st. do { (off, st) \<leftarrow> get_D d1 20 off b st; get_O o1 off b st }) b st;
       Some (r, st) }
     | _ \<Rightarrow> bad_call st }"

definition rsp_ReadCounter :: rsp_case where
  "rsp_ReadCounter ap b len st = do {
     (val1, ap) \<leftarrow> out_32 ap;
     (ctr, ap) \<leftarrow> out_C ap;
     (auth1, ap) \<leftarrow> out_A ap;
     case ctr of None \<Rightarrow> bad_call st
     | Some c \<Rightarrow> do {
         st \<leftarrow> rsp_auth len auth1 b st;
         (off, st) \<leftarrow> (case val1 of None \<Rightarrow> Some (10, st) | Some l \<Rightarrow> get_32 l 10 b st);
         (off, st) \<leftarrow> UnloadBlob_COUNTER_VALUE c off b st;
         Some (TSS_SUCCESS, st) } }"

text \<open>A length at \<open>off\<close> and that many bytes.\<close>

definition sized_blob :: "nat \<Rightarrow> nat \<Rightarrow> u64 \<Rightarrow> u8 list \<Rightarrow> rsp_mem \<Rightarrow> (u32 \<times> u64 \<times> rsp_mem) option" where
  "sized_blob l d off b st = do {
     (off, st) \<leftarrow> get_32 l off b st;
     let (ok, st) = malloc_to d (unat (m_32 st l)) st;
     if \<not> ok then Some (TCSERR TSS_E_OUTOFMEMORY, off, st)
     else do { (off, st) \<leftarrow> copy_to d (m_32 st l) off b st; Some (TSS_SUCCESS, off, st) } }"

definition rsp_CreateMigrationBlob :: rsp_case where
  "rsp_CreateMigrationBlob ap b len st = do {
     (len1, ap) \<leftarrow> out_32 ap;
     (blob1, ap) \<leftarrow> out_B ap;
     (len2, ap) \<leftarrow> out_32 ap;
     (blob2, ap) \<leftarrow> out_B ap;
     (auth1, ap) \<leftarrow> out_A ap;
     (auth2, ap) \<leftarrow> out_A ap;
     case (len1, blob1, len2, blob2) of (Some l1, Some b1, Some l2, Some b2) \<Rightarrow> do {
       st \<leftarrow> rsp_auths len auth1 auth2 b st;
       (r, off, st) \<leftarrow> sized_blob l1 b1 10 b st;
       if r \<noteq> 0 then Some (r, st)
       else do { (r, off, st) \<leftarrow> sized_blob l2 b2 off b st; Some (r, st) } }
     | _ \<Rightarrow> bad_call st }"

definition rsp_ActivateIdentity :: rsp_case where
  "rsp_ActivateIdentity ap b len st = do {
     (len1, ap) \<leftarrow> out_32 ap;
     (blob1, ap) \<leftarrow> out_B ap;
     (auth1, ap) \<leftarrow> out_A ap;
     (auth2, ap) \<leftarrow> out_A ap;
     case (len1, blob1, auth2) of (Some l1, Some b1, Some x) \<Rightarrow> do {
       st \<leftarrow> rsp_auths len auth1 auth2 b st;
       let n = data_end len auth1 auth2 - 10;
       let (ok, st) = malloc_to b1 (unat n) st;
       if \<not> ok then no_memory st
       else do {
         (off, st) \<leftarrow> copy_to b1 (ucast n) 10 b (set_32 l1 (ucast n) st);
         Some (TSS_SUCCESS, st) } }
     | _ \<Rightarrow> bad_call st }"

definition rsp_MakeIdentity :: rsp_case where
  "rsp_MakeIdentity ap b len st = do {
     (len1, ap) \<leftarrow> out_32 ap;
     (blob1, ap) \<leftarrow> out_B ap;
     (len2, ap) \<leftarrow> out_32 ap;
     (blob2, ap) \<leftarrow> out_B ap;
     (auth1, ap) \<leftarrow> out_A ap;
     (auth2, ap) \<leftarrow> out_A ap;
     case (len1, blob1, len2, blob2, auth2) of (Some l1, Some b1, Some l2, Some b2, Some y) \<Rightarrow> do {
       off1 \<leftarrow> UnloadBlob_TSS_KEY_NULL 10 b;
       let n = off1 - 10;
       let (ok, st) = malloc_to b1 (unat n) st;
       if \<not> ok then no_memory st
       else do {
         (off, st) \<leftarrow> copy_to b1 (ucast n) 10 b (set_32 l1 (ucast n) st);
         (r, off, st) \<leftarrow> sized_blob l2 b2 off b st;
         if r \<noteq> 0 then Some (r, st)
         else do {
           (off, st) \<leftarrow> (case auth1 of None \<Rightarrow> Some (off, st) | Some x \<Rightarrow> UnloadBlob_Auth x off b st);
           (off, st) \<leftarrow> UnloadBlob_Auth y off b st;
           Some (TSS_SUCCESS, st) } } }
     | _ \<Rightarrow> bad_call st }"

definition rsp_GetCapabilityOwner :: rsp_case where
  "rsp_GetCapabilityOwner ap b len st = do {
     (ver1, ap) \<leftarrow> out_V ap;
     (data1, ap) \<leftarrow> out_32 ap;
     (data2, ap) \<leftarrow> out_32 ap;
     (auth, ap) \<leftarrow> out_A ap;
     case (data1, data2, ver1) of (Some l1, Some l2, Some v) \<Rightarrow> do {
       st \<leftarrow> rsp_auth len auth b st;
       (off, st) \<leftarrow> UnloadBlob_VERSION v 10 b st;
       (off, st) \<leftarrow> get_32 l1 off b st;
       (off, st) \<leftarrow> get_32 l2 off b st;
       Some (TSS_SUCCESS, st) }
     | _ \<Rightarrow> bad_call st }"

definition rsp_Sign :: rsp_case where
  "rsp_Sign ap b len st = do {
     (data_len, ap) \<leftarrow> out_32 ap;
     (data, ap) \<leftarrow> out_B ap;
     (auth1, ap) \<leftarrow> out_A ap;
     (auth2, ap) \<leftarrow> out_A ap;
     case (data, data_len) of (Some d, Some l) \<Rightarrow> do {
       st \<leftarrow> rsp_auths len auth1 auth2 b st;
       (r, off, st) \<leftarrow> sized_blob l d 10 b st;
       Some (r, st) }
     | _ \<Rightarrow> bad_call st }"

definition rsp_UnBind :: rsp_case where
  "rsp_UnBind ap b len st = do {
     (data_len, ap) \<leftarrow> out_32 ap;
     (data, ap) \<leftarrow> out_B ap;
     (auth1, ap) \<leftarrow> out_A ap;
     case (data, data_len) of (Some d, Some l) \<Rightarrow> do {
       st \<leftarrow> rsp_auth len auth1 b st;
       (r, off, st) \<leftarrow> sized_blob l d 10 b st;
       Some (r, st) }
     | _ \<Rightarrow> bad_call st }"

text \<open>Here the authorization is a \<open>TCM_AUTH_SESSION\<close>; the rest of the response is copied as it is, with a
  size of 64 bits.\<close>

definition rsp_GetTicks :: rsp_case where
  "rsp_GetTicks ap b len st = do {
     (data_len, ap) \<leftarrow> out_32 ap;
     (data, ap) \<leftarrow> out_B ap;
     (auth, ap) \<leftarrow> out_S ap;
     case (data, data_len) of (Some d, Some l) \<Rightarrow> do {
       (end', st) \<leftarrow> (case auth of None \<Rightarrow> Some (ucast len, st)
         | Some x \<Rightarrow> do {
             (off, st) \<leftarrow> UnloadBlob_TCM_Auth x (ucast len - 32) b st;
             Some (ucast len - 32, st) });
       let n = (end' :: u64) - 10;
       let (ok, st) = malloc_to d (unat n) st;
       if \<not> ok then no_memory st
       else do {
         bs \<leftarrow> rd b 10 (unat n);
         Some (TSS_SUCCESS, set_32 l (ucast n) (st\<lparr>m_B := (m_B st)(d := Buf bs)\<rparr>)) } }
     | _ \<Rightarrow> bad_call st }"

definition rsp_ReadPubek :: rsp_case where
  "rsp_ReadPubek ap b len st = do {
     (data_len, ap) \<leftarrow> out_32 ap;
     (data, ap) \<leftarrow> out_B ap;
     (digest1, ap) \<leftarrow> out_D ap;
     case (data, data_len) of (Some d, Some l) \<Rightarrow> do {
       (end', st) \<leftarrow> (case digest1 of None \<Rightarrow> Some (ucast len, st)
         | Some x \<Rightarrow> do {
             (off, st) \<leftarrow> get_D x 32 (ucast len - 32) b st;
             Some (ucast len - 32, st) });
       let n = (end' :: u64) - 10;
       let (ok, st) = malloc_to d (unat n) st;
       if \<not> ok then no_memory st
       else do {
         (off, st) \<leftarrow> copy_to d (ucast n) 10 b st;
         Some (TSS_SUCCESS, set_32 l (ucast n) st) } }
     | _ \<Rightarrow> bad_call st }"

definition rsp_CreateRevocableEK :: rsp_case where
  "rsp_CreateRevocableEK ap b len st = do {
     (data_len, ap) \<leftarrow> out_32 ap;
     (data, ap) \<leftarrow> out_B ap;
     (digest1, ap) \<leftarrow> out_D ap;
     (digest2, ap) \<leftarrow> out_D ap;
     case (data, data_len, digest1, digest2) of (Some d, Some l, Some x, Some y) \<Rightarrow> do {
       (off, st) \<leftarrow> get_D y 32 (ucast len - 32) b st;
       (off, st) \<leftarrow> get_D x 32 (ucast len - 64) b st;
       let n = (ucast len - 64 :: u64) - 10;
       let (ok, st) = malloc_to d (unat n) st;
       if \<not> ok then no_memory st
       else do {
         (off, st) \<leftarrow> copy_to d (ucast n) 10 b st;
         Some (TSS_SUCCESS, set_32 l (ucast n) st) } }
     | _ \<Rightarrow> bad_call st }"

definition rsp_LoadKey :: rsp_case where
  "rsp_LoadKey ap b len st = do {
     (handle, ap) \<leftarrow> out_32 ap;
     (auth, ap) \<leftarrow> out_A ap;
     case handle of None \<Rightarrow> bad_call st
     | Some l \<Rightarrow> do {
         st \<leftarrow> rsp_auth len auth b st;
         (off, st) \<leftarrow> get_32 l 10 b st;
         Some (TSS_SUCCESS, st) } }"

definition rsp_OIAP :: rsp_case where
  "rsp_OIAP ap b len st = do {
     (handle, ap) \<leftarrow> out_32 ap;
     (nonce, ap) \<leftarrow> out_D ap;
     case nonce of None \<Rightarrow> bad_call st
     | Some n \<Rightarrow> do {
         (off, st) \<leftarrow> (case handle of None \<Rightarrow> Some (10, st) | Some l \<Rightarrow> get_32 l 10 b st);
         (off, st) \<leftarrow> get_D n 32 off b st;
         Some (TSS_SUCCESS, st) } }"

definition rsp_OSAP :: rsp_case where
  "rsp_OSAP ap b len st = do {
     (handle, ap) \<leftarrow> out_32 ap;
     (nonce1, ap) \<leftarrow> out_D ap;
     (nonce2, ap) \<leftarrow> out_D ap;
     case (handle, nonce1, nonce2) of (Some l, Some n1, Some n2) \<Rightarrow> do {
       (off, st) \<leftarrow> get_32 l 10 b st;
       (off, st) \<leftarrow> get_D n1 32 off b st;
       (off, st) \<leftarrow> get_D n2 32 off b st;
       Some (TSS_SUCCESS, st) }
     | _ \<Rightarrow> bad_call st }"

definition rsp_APCreate :: rsp_case where
  "rsp_APCreate ap b len st = do {
     (sessionHandle, ap) \<leftarrow> out_32 ap;
     (tcmNonce, ap) \<leftarrow> out_D ap;
     (seq, ap) \<leftarrow> out_32 ap;
     (outMac, ap) \<leftarrow> out_D ap;
     case (sessionHandle, tcmNonce, seq, outMac) of (Some l, Some n, Some s, Some m) \<Rightarrow> do {
       (off, st) \<leftarrow> get_32 l 10 b st;
       (off, st) \<leftarrow> get_D n 32 off b st;
       (off, st) \<leftarrow> get_32 s off b st;
       (off, st) \<leftarrow> get_D m 32 off b st;
       Some (TSS_SUCCESS, st) }
     | _ \<Rightarrow> bad_call st }"

definition rsp_CMK_ApproveMA :: rsp_case where
  "rsp_CMK_ApproveMA ap b len st = do {
     (hmac1, ap) \<leftarrow> out_D ap;
     (auth, ap) \<leftarrow> out_A ap;
     case hmac1 of None \<Rightarrow> bad_call st
     | Some h \<Rightarrow> do {
         (off, st) \<leftarrow> get_D h 20 10 b st;
         st \<leftarrow> rsp_auth len auth b st;
         Some (TSS_SUCCESS, st) } }"

definition rsp_DisablePubekRead :: rsp_case where
  "rsp_DisablePubekRead ap b len st = do {
     (auth, ap) \<leftarrow> out_A ap;
     st \<leftarrow> rsp_auth len auth b st;
     Some (TSS_SUCCESS, st) }"

text \<open>The switch; an unknown ordinal is an error here.\<close>

definition rsp_switch :: "(u32 list \<times> rsp_case) list" where
  "rsp_switch =
     [([TPM_ORD_ExecuteTransport], rsp_ExecuteTransport),
      ([TPM_ORD_TickStampBlob], rsp_TickStampBlob),
      ([TPM_ORD_Quote], rsp_Quote),
      ([TPM_ORD_Quote2], rsp_Quote2),
      ([TPM_ORD_CertifyKey], rsp_CertifyKey),
      ([TPM_ORD_GetAuditDigestSigned], rsp_GetAuditDigestSigned),
      ([TPM_ORD_GetAuditDigest], rsp_GetAuditDigest),
      ([TPM_ORD_ReadCounter, TPM_ORD_CreateCounter, TPM_ORD_IncrementCounter], rsp_ReadCounter),
      ([TPM_ORD_CreateMaintenanceArchive, TPM_ORD_CreateMigrationBlob,
       TPM_ORD_Delegate_ReadTable, TPM_ORD_CMK_CreateBlob], rsp_CreateMigrationBlob),
      ([TPM_ORD_ActivateIdentity], rsp_ActivateIdentity),
      ([TPM_ORD_MakeIdentity], rsp_MakeIdentity),
      ([TPM_ORD_GetCapabilityOwner], rsp_GetCapabilityOwner),
      ([TPM_ORD_Sign, TPM_ORD_GetTestResult, TPM_ORD_CertifySelfTest, TPM_ORD_Unseal,
       TPM_ORD_GetRandom, TPM_ORD_DAA_Join, TPM_ORD_DAA_Sign, TPM_ORD_ChangeAuth,
       TPM_ORD_GetCapability, TPM_ORD_LoadMaintenanceArchive,
       TPM_ORD_ConvertMigrationBlob, TPM_ORD_NV_ReadValue, TPM_ORD_NV_ReadValueAuth,
       TPM_ORD_Delegate_Manage, TPM_ORD_Delegate_CreateKeyDelegation,
       TPM_ORD_Delegate_CreateOwnerDelegation, TPM_ORD_Delegate_UpdateVerification,
       TPM_ORD_CMK_ConvertMigration], rsp_Sign),
      ([TPM_ORD_UnBind], rsp_UnBind),
      ([TPM_ORD_GetTicks, TPM_ORD_Seal, TPM_ORD_Sealx, TPM_ORD_FieldUpgrade,
       TPM_ORD_CreateWrapKey, TPM_ORD_GetPubKey, TPM_ORD_OwnerReadPubek,
       TPM_ORD_OwnerReadInternalPub, TPM_ORD_AuthorizeMigrationKey,
       TPM_ORD_TakeOwnership, TPM_ORD_CMK_CreateKey], rsp_GetTicks),
      ([TPM_ORD_CreateEndorsementKeyPair, TPM_ORD_ReadPubek], rsp_ReadPubek),
      ([TPM_ORD_CreateRevocableEK], rsp_CreateRevocableEK),
      ([TPM_ORD_LoadKey, TPM_ORD_LoadKey2], rsp_LoadKey),
      ([TPM_ORD_DirRead, TPM_ORD_OIAP, TPM_ORD_LoadManuMaintPub, TPM_ORD_ReadManuMaintPub,
       TPM_ORD_Extend, TPM_ORD_PcrRead], rsp_OIAP),
      ([TPM_ORD_OSAP, TPM_ORD_DSAP], rsp_OSAP),
      ([TCM_ORD_APCreate], rsp_APCreate),
      ([TPM_ORD_CMK_ApproveMA, TPM_ORD_CMK_CreateTicket], rsp_CMK_ApproveMA),
      ([TPM_ORD_DisablePubekRead, TPM_ORD_DirWriteAuth, TPM_ORD_ReleaseCounter,
       TPM_ORD_ReleaseCounterOwner, TPM_ORD_ChangeAuthOwner, TPM_ORD_SetCapability,
       TPM_ORD_SetOrdinalAuditStatus, TPM_ORD_ResetLockValue, TPM_ORD_SetRedirection,
       TPM_ORD_DisableOwnerClear, TPM_ORD_OwnerSetDisable, TPM_ORD_SetTempDeactivated,
       TPM_ORD_KillMaintenanceFeature, TPM_ORD_NV_DefineSpace, TPM_ORD_NV_WriteValue,
       TPM_ORD_NV_WriteValueAuth, TPM_ORD_OwnerClear,
       TPM_ORD_Delegate_LoadOwnerDelegation, TPM_ORD_CMK_SetRestrictions,
       TPM_ORD_FlushSpecific, TPM_ORD_KeyControlOwner], rsp_DisablePubekRead)]"

definition tpm_rsp_parse :: "u32 \<Rightarrow> rsp_case" where
  "tpm_rsp_parse ordinal ap b len st =
     (case List.find (\<lambda>(os, f). ordinal \<in> set os) rsp_switch of
        None \<Rightarrow> bad_call st
      | Some (os, f) \<Rightarrow> f ap b len st)"

section \<open>What is read\<close>

lemma rd_at: "rd (xs @ ys @ zs) (length xs) (length ys) = Some ys"
  by (simp add: rd_def read_at_def)

lemma unat_off: "k < 2 ^ 32 \<Longrightarrow> unat (of_nat k :: u64) = k"
  by (simp add: unat_of_nat take_bit_nat_eq_self)

lemma UnloadBlob_at:
  assumes "b = xs @ ys @ zs" "length b < 2 ^ 32" "off = of_nat (length xs)" "unat n = length ys"
  shows "UnloadBlob off n b = Some (ys, of_nat (length (xs @ ys)))"
proof (cases "n = 0")
  case True
  then show ?thesis using assms by (simp add: UnloadBlob_def)
next
  case False
  have "unat off = length xs" using assms(1-3) by (simp add: unat_off)
  then show ?thesis using False assms(1,3,4) rd_at [of xs ys zs] by (simp add: UnloadBlob_def ucast_of_nat del: of_nat_unat)
qed

lemma UnloadBlob_UINT32_at:
  assumes "b = xs @ be32 x @ zs" "length b < 2 ^ 32" "off = of_nat (length xs)"
  shows "UnloadBlob_UINT32 off b = Some (x, of_nat (length (xs @ be32 x)))"
proof -
  have "unat off = length xs" using assms by (simp add: unat_off)
  then show ?thesis using assms(1,3) rd_at [of xs "be32 x" zs] by (simp add: UnloadBlob_UINT32_def)
qed

lemma UnloadBlob_BYTE_at:
  assumes "b = xs @ [x] @ zs" "length b < 2 ^ 32" "off = of_nat (length xs)"
  shows "UnloadBlob_BYTE off b = Some (x, of_nat (length (xs @ [x])))"
proof -
  have "unat off = length xs" using assms by (simp add: unat_off)
  then show ?thesis using assms(1,3) rd_at [of xs "[x]" zs] by (simp add: UnloadBlob_BYTE_def add.commute)
qed

text \<open>The block the device adds for an authorization: its nonce, the flag, the HMAC.\<close>

type_synonym reply = "u8 list \<times> u8 \<times> u8 list"

fun reply_bytes :: "reply \<Rightarrow> u8 list" where
  "reply_bytes (n, c, h) = n @ [c] @ h"

fun reply_ok :: "reply \<Rightarrow> bool" where
  "reply_ok (n, c, h) \<longleftrightarrow> length n = 32 \<and> length h = 32"

fun take_reply :: "reply \<Rightarrow> TPM_AUTH \<Rightarrow> TPM_AUTH" where
  "take_reply (n, c, h) a = a\<lparr>NonceEven := n, fContinueAuthSession := c, HMAC := h\<rparr>"

lemma UnloadBlob_Auth_at:
  assumes "b = xs @ reply_bytes r @ zs" "length b < 2 ^ 32" "off = of_nat (length xs)" "reply_ok r"
  shows "UnloadBlob_Auth x off b st =
    Some (of_nat (length (xs @ reply_bytes r)), st\<lparr>m_A := (m_A st)(x := take_reply r (m_A st x))\<rparr>)"
proof -
  obtain n c h where r: "r = (n, c, h)" by (cases r)
  have l: "length n = 32" "length h = 32" using assms(4) by (simp_all add: r)
  have "UnloadBlob off 32 b = Some (n, of_nat (length (xs @ n)))"
    by (rule UnloadBlob_at [of _ _ _ "[c] @ h @ zs"]) (use assms l in \<open>simp_all add: r\<close>)
  moreover have "UnloadBlob_BYTE (of_nat (length (xs @ n))) b = Some (c, of_nat (length ((xs @ n) @ [c])))"
    by (rule UnloadBlob_BYTE_at [of _ _ _ "h @ zs"]) (use assms in \<open>simp_all add: r\<close>)
  moreover have "UnloadBlob (of_nat (length ((xs @ n) @ [c]))) 32 b = Some (h, of_nat (length (((xs @ n) @ [c]) @ h)))"
    by (rule UnloadBlob_at [of _ _ _ zs]) (use assms l in \<open>simp_all add: r\<close>)
  ultimately show ?thesis by (simp add: UnloadBlob_Auth_def r)
qed

lemma sized_blob_at:
  assumes "b = xs @ be32 (of_nat (length d)) @ d @ zs" "length b < 2 ^ 32" "off = of_nat (length xs)" "m_ok st (m_count st)"
  shows "sized_blob l p off b st = Some (TSS_SUCCESS, of_nat (length (xs @ be32 (of_nat (length d)) @ d)),
    st\<lparr>m_32 := (m_32 st)(l := of_nat (length d)), m_B := (m_B st)(p := Buf d), m_count := Suc (m_count st), m_live := m_live st + 1\<rparr>)"
proof -
  let ?n = "of_nat (length d) :: u32"
  have n: "unat ?n = length d" using assms(1,2) by (simp add: unat_of_nat take_bit_nat_eq_self)
  have 1: "UnloadBlob_UINT32 off b = Some (?n, of_nat (length (xs @ be32 ?n)))"
    by (rule UnloadBlob_UINT32_at [of _ _ _ "d @ zs"]) (use assms in simp_all)
  have 2: "UnloadBlob (of_nat (length (xs @ be32 ?n))) ?n b = Some (d, of_nat (length ((xs @ be32 ?n) @ d)))"
    by (rule UnloadBlob_at [of _ _ _ zs]) (use assms n in simp_all)
  show ?thesis using assms(4)
    by (simp add: sized_blob_def get_32_def 1 2 [simplified] malloc_to_def copy_to_def n wr_def write_at_def Let_def)
qed

lemma end_off:
  assumes "m \<le> k" "k < 2 ^ 32"
  shows "ucast (of_nat k :: u32) - of_nat m = (of_nat (k - m) :: u64)"
proof -
  have "ucast (of_nat k :: u32) = (of_nat k :: u64)"
    using assms(2) by (simp add: unsigned_of_nat take_bit_nat_eq_self)
  then show ?thesis using assms(1) by (simp add: of_nat_diff)
qed

text \<open>The authorizations a call asks for, and the replies stored there.\<close>

definition asked :: "nat option \<Rightarrow> nat option \<Rightarrow> nat list" where
  "asked x y = (case x of None \<Rightarrow> [] | Some i \<Rightarrow> [i]) @ (case y of None \<Rightarrow> [] | Some j \<Rightarrow> [j])"

definition store_replies :: "nat list \<Rightarrow> reply list \<Rightarrow> rsp_mem \<Rightarrow> rsp_mem" where
  "store_replies is rs st = st\<lparr>m_A := fold (\<lambda>(i, r) m. m(i := take_reply r (m i))) (zip is rs) (m_A st)\<rparr>"

lemma reply_length: "reply_ok r \<Longrightarrow> length (reply_bytes r) = 65"
  by (cases r) simp

lemma rsp_auth_at:
  assumes "b = xs @ reply_bytes r @ zs" "length b < 2 ^ 32" "reply_ok r" "len = of_nat (length (xs @ reply_bytes r))"
  shows "rsp_auth len (Some x) b st = Some (store_replies [x] [r] st)"
proof -
  have "ucast len - 65 = (of_nat (length xs) :: u64)"
    using end_off [of 65 "length (xs @ reply_bytes r)"] assms by (simp add: reply_length)
  then show ?thesis
    using UnloadBlob_Auth_at [OF assms(1,2) _ assms(3)] by (simp add: rsp_auth_def store_replies_def)
qed

lemma rsp_auths_at:
  assumes b: "b = xs @ concat (map reply_bytes rs) @ zs" "length b < 2 ^ 32" "\<forall>r \<in> set rs. reply_ok r"
    and len: "len = of_nat (length (xs @ concat (map reply_bytes rs)))" "length rs = length (asked x y)"
  shows "rsp_auths len x y b st = Some (store_replies (asked x y) rs st)"
proof -
  consider "x = None" "y = None" | i where "x = Some i" "y = None" | j where "x = None" "y = Some j"
    | i j where "x = Some i" "y = Some j" by (cases x; cases y) auto
  then show ?thesis
  proof cases
    case 1
    then show ?thesis by (simp add: rsp_auths_def rsp_auth_def store_replies_def asked_def)
  next
    case (2 i)
    then obtain r where "rs = [r]" using len(2) by (auto simp: asked_def length_Suc_conv)
    then show ?thesis using rsp_auth_at [of b xs r zs len i st] b len(1) 2 by (simp add: rsp_auths_def asked_def)
  next
    case (3 j)
    then obtain r where "rs = [r]" using len(2) by (auto simp: asked_def length_Suc_conv)
    then show ?thesis using rsp_auth_at [of b xs r zs len j st] b len(1) 3 by (simp add: rsp_auths_def asked_def)
  next
    case (4 i j)
    then obtain r s where rs: "rs = [r, s]" using len(2) by (auto simp: asked_def length_Suc_conv)
    have l: "length (reply_bytes r) = 65" "length (reply_bytes s) = 65" using b(3) by (auto simp: rs reply_length)
    have "ucast len - 130 = (of_nat (length xs) :: u64)"
      using end_off [of 130 "length (xs @ reply_bytes r @ reply_bytes s)"] b len(1) l by (simp add: rs)
    moreover have "UnloadBlob_Auth i (of_nat (length xs)) b st = Some (of_nat (length (xs @ reply_bytes r)), store_replies [i] [r] st)"
      using UnloadBlob_Auth_at [of b xs r "reply_bytes s @ zs"] b by (simp add: rs store_replies_def)
    moreover have "UnloadBlob_Auth j (of_nat (length (xs @ reply_bytes r))) b (store_replies [i] [r] st) =
        Some (of_nat (length ((xs @ reply_bytes r) @ reply_bytes s)), store_replies [i, j] [r, s] st)"
      using UnloadBlob_Auth_at [of b "xs @ reply_bytes r" s zs] b by (simp add: rs store_replies_def)
    ultimately show ?thesis using 4 by (simp add: rsp_auths_def asked_def rs)
  qed
qed

lemma store_replies_simps [simp]:
  "m_32 (store_replies is rs st) = m_32 st" "m_B (store_replies is rs st) = m_B st" "m_ok (store_replies is rs st) = m_ok st"
  "m_count (store_replies is rs st) = m_count st" "m_live (store_replies is rs st) = m_live st"
  by (simp_all add: store_replies_def)

text \<open>The rows of the switch do not overlap, so that each ordinal finds its own row.\<close>

lemma find_row:
  assumes "distinct (concat (map fst rows))" "(os, f) \<in> set rows" "x \<in> set os"
  shows "List.find (\<lambda>(os, f). x \<in> set os) rows = Some (os, f)"
  using assms
proof (induction rows)
  case (Cons row rows)
  obtain os' f' where row: "row = (os', f')" by (cases row)
  show ?case
  proof (cases "x \<in> set os'")
    case True
    then have "(os, f) \<notin> set rows" using Cons.prems by (force simp: row)
    then show ?thesis using Cons.prems(2) True by (simp add: row)
  next
    case False
    then have "(os, f) \<in> set rows" using Cons.prems(2,3) by (auto simp: row)
    then show ?thesis using Cons False by (simp add: row)
  qed
qed simp

lemma rsp_switch_distinct: "distinct (concat (map fst rsp_switch))"
  by (simp add: rsp_switch_def)

lemma rsp_case: "(os, f) \<in> set rsp_switch \<Longrightarrow> ordinal \<in> set os \<Longrightarrow> tpm_rsp_parse ordinal ap b len st = f ap b len st"
  using find_row [OF rsp_switch_distinct] by (simp add: tpm_rsp_parse_def)

text \<open>The ordinals whose responses are a length, that many bytes and up to two blocks, and those whose
  response is one blob and the HMAC of a session.\<close>

definition sized_ordinals :: "u32 list" where
  "sized_ordinals = [TPM_ORD_Sign, TPM_ORD_GetTestResult, TPM_ORD_CertifySelfTest, TPM_ORD_Unseal,
       TPM_ORD_GetRandom, TPM_ORD_DAA_Join, TPM_ORD_DAA_Sign, TPM_ORD_ChangeAuth,
       TPM_ORD_GetCapability, TPM_ORD_LoadMaintenanceArchive,
       TPM_ORD_ConvertMigrationBlob, TPM_ORD_NV_ReadValue, TPM_ORD_NV_ReadValueAuth,
       TPM_ORD_Delegate_Manage, TPM_ORD_Delegate_CreateKeyDelegation,
       TPM_ORD_Delegate_CreateOwnerDelegation, TPM_ORD_Delegate_UpdateVerification,
       TPM_ORD_CMK_ConvertMigration]"

definition session_ordinals :: "u32 list" where
  "session_ordinals = [TPM_ORD_GetTicks, TPM_ORD_Seal, TPM_ORD_Sealx, TPM_ORD_FieldUpgrade,
       TPM_ORD_CreateWrapKey, TPM_ORD_GetPubKey, TPM_ORD_OwnerReadPubek,
       TPM_ORD_OwnerReadInternalPub, TPM_ORD_AuthorizeMigrationKey,
       TPM_ORD_TakeOwnership, TPM_ORD_CMK_CreateKey]"

lemma sized_case: "ordinal \<in> set sized_ordinals \<Longrightarrow> tpm_rsp_parse ordinal ap b len st = rsp_Sign ap b len st"
  by (rule rsp_case [of sized_ordinals]) (simp_all add: rsp_switch_def sized_ordinals_def)

lemma session_case: "ordinal \<in> set session_ordinals \<Longrightarrow> tpm_rsp_parse ordinal ap b len st = rsp_GetTicks ap b len st"
  by (rule rsp_case [of session_ordinals]) (simp_all add: rsp_switch_def session_ordinals_def)

text \<open>C20: responses that are a length and that many bytes.  For each of their ordinals the bytes come back
  in a new object, with their length; the authorization blocks at the end of the response (found
  from its length, whatever is left of older contents behind it) are stored in the structures the
  call gave, and nothing else changes.\<close>

theorem response_parsed:
  assumes "ordinal \<in> set sized_ordinals"
    and b: "b = h @ be32 (of_nat (length d)) @ d @ concat (map reply_bytes rs) @ old" "length h = 10" "length b < 2 ^ 32"
    and rs: "\<forall>r \<in> set rs. reply_ok r" "length rs = length (asked x y)"
    and len: "len = of_nat (14 + length d + 65 * length rs)" and ok: "m_ok st (m_count st)"
  shows "tpm_rsp_parse ordinal [O32 (Some l), OB (Some p), OA x, OA y] b len st =
    Some (TSS_SUCCESS, (store_replies (asked x y) rs st)\<lparr>m_32 := (m_32 st)(l := of_nat (length d)),
      m_B := (m_B st)(p := Buf d), m_count := Suc (m_count st), m_live := m_live st + 1\<rparr>)"
proof -
  have "length (concat (map reply_bytes rs)) = 65 * length rs" using rs(1) by (induction rs) (auto simp: reply_length)
  then have a: "rsp_auths len x y b st = Some (store_replies (asked x y) rs st)"
    using rsp_auths_at [of b "h @ be32 (of_nat (length d)) @ d" rs old len x y st] b rs len by simp
  have "sized_blob l p 10 b (store_replies (asked x y) rs st) = Some (TSS_SUCCESS,
      of_nat (length (h @ be32 (of_nat (length d)) @ d)), (store_replies (asked x y) rs st)\<lparr>m_32 := (m_32 st)(l := of_nat (length d)),
      m_B := (m_B st)(p := Buf d), m_count := Suc (m_count st), m_live := m_live st + 1\<rparr>)"
    using sized_blob_at [of b h d "concat (map reply_bytes rs) @ old" 10 "store_replies (asked x y) rs st"] b ok by simp
  then show ?thesis by (simp add: sized_case [OF assms(1)] rsp_Sign_def a)
qed


lemma malloc_to_ok: "m_ok st (m_count st) \<Longrightarrow> malloc_to l n st =
    (True, st\<lparr>m_B := (m_B st)(l := Buf (replicate n 0)), m_count := Suc (m_count st), m_live := m_live st + 1\<rparr>)"
  by (simp add: malloc_to_def)

text \<open>responses that are one blob and the HMAC of a session, for \<open>TakeOwnership\<close>, \<open>CreateWrapKey\<close>,
  \<open>GetPubKey\<close>, \<open>Seal\<close> and others.  With a \<open>TCM_AUTH_SESSION\<close> the blob ends 32 bytes before the end, and
  without one at the end.  A call that gives a \<open>TPM_AUTH\<close> instead is read as the other structure and
  has no meaning.\<close>

theorem session_response:
  assumes "ordinal \<in> set session_ordinals"
    and b: "b = h @ d @ s @ old" "length h = 10" "length s = 32" "length b < 2 ^ 32" and ok: "m_ok st (m_count st)"
  shows "tpm_rsp_parse ordinal [O32 (Some l), OB (Some p), OS (Some x)] b (of_nat (42 + length d)) st =
      Some (TSS_SUCCESS, st\<lparr>m_S := (m_S st)(x := (m_S st x)\<lparr>ts_outHMAC := s\<rparr>), m_32 := (m_32 st)(l := of_nat (length d)),
        m_B := (m_B st)(p := Buf d), m_count := Suc (m_count st), m_live := m_live st + 1\<rparr>)
    \<and> tpm_rsp_parse ordinal [O32 (Some l), OB (Some p), OA None] b (of_nat (10 + length d)) st =
      Some (TSS_SUCCESS, st\<lparr>m_32 := (m_32 st)(l := of_nat (length d)),
        m_B := (m_B st)(p := Buf d), m_count := Suc (m_count st), m_live := m_live st + 1\<rparr>)
    \<and> tpm_rsp_parse ordinal [O32 (Some l), OB (Some p), OA (Some a)] b len st = None"
proof (intro conjI)
  have l: "length d + 42 < 2 ^ 32" using b by simp
  have e: "ucast (of_nat (42 + length d) :: u32) - 32 = (of_nat (10 + length d) :: u64)"
    using end_off [of 32 "42 + length d"] l by simp
  have n: "(of_nat (10 + length d) :: u64) - 10 = of_nat (length d)" by simp
  have u: "unat (of_nat (length d) :: u64) = length d" "ucast (of_nat (length d) :: u64) = (of_nat (length d) :: u32)"
    using l unat_off [of "length d"] by (simp_all add: unsigned_of_nat take_bit_nat_eq_self)
  have r: "rd b 10 (length d) = Some d" using rd_at [of h d "s @ old"] b by simp
  have "UnloadBlob (of_nat (10 + length d)) 32 b = Some (s, of_nat (length ((h @ d) @ s)))"
    by (rule UnloadBlob_at [of _ _ _ old]) (use b in simp_all)
  then show "tpm_rsp_parse ordinal [O32 (Some l), OB (Some p), OS (Some x)] b (of_nat (42 + length d)) st =
      Some (TSS_SUCCESS, st\<lparr>m_S := (m_S st)(x := (m_S st x)\<lparr>ts_outHMAC := s\<rparr>), m_32 := (m_32 st)(l := of_nat (length d)),
        m_B := (m_B st)(p := Buf d), m_count := Suc (m_count st), m_live := m_live st + 1\<rparr>)"
    using ok r by (simp add: session_case [OF assms(1)] rsp_GetTicks_def e n u UnloadBlob_TCM_Auth_def malloc_to_ok set_32_def
        Let_def del: of_nat_add)
  have "ucast (of_nat (10 + length d) :: u32) = (of_nat (10 + length d) :: u64)"
    using end_off [of 0 "10 + length d"] l by simp
  then show "tpm_rsp_parse ordinal [O32 (Some l), OB (Some p), OA None] b (of_nat (10 + length d)) st =
      Some (TSS_SUCCESS, st\<lparr>m_32 := (m_32 st)(l := of_nat (length d)),
        m_B := (m_B st)(p := Buf d), m_count := Suc (m_count st), m_live := m_live st + 1\<rparr>)"
    using ok r by (simp add: session_case [OF assms(1)] rsp_GetTicks_def n u malloc_to_ok set_32_def Let_def del: of_nat_add)
  show "tpm_rsp_parse ordinal [O32 (Some l), OB (Some p), OA (Some a)] b len st = None"
    by (simp add: session_case [OF assms(1)] rsp_GetTicks_def)
qed

definition ex_mem :: rsp_mem where
  "ex_mem = \<lparr>m_32 = (\<lambda>_. 0), m_B = (\<lambda>_. NULL), m_D = (\<lambda>_. []), m_O = (\<lambda>_. 0),
     m_V = (\<lambda>_. \<lparr>ver_major = 0, ver_minor = 0, ver_revMajor = 0, ver_revMinor = 0\<rparr>),
     m_C = (\<lambda>_. \<lparr>cv_tag = 0, cv_label = [], cv_counter = 0\<rparr>), m_A = (\<lambda>_. ex_auth),
     m_S = (\<lambda>_. \<lparr>ts_authHandle = 0, ts_HMAC = [], ts_outHMAC = []\<rparr>), m_ok = (\<lambda>_. True), m_count = 0, m_live = 0\<rparr>"

definition ex_reply :: reply where
  "ex_reply = (replicate 32 4, 0, replicate 32 5)"

lemma response_parsed_witness:
  "\<exists>st'. tpm_rsp_parse TPM_ORD_Sign [O32 (Some 0), OB (Some 1), OA None, OA (Some 2)]
      (replicate 10 9 @ be32 3 @ [1, 2, 3] @ reply_bytes ex_reply @ [7]) 82 ex_mem = Some (TSS_SUCCESS, st')
    \<and> m_32 st' 0 = 3 \<and> m_B st' 1 = Buf [1, 2, 3] \<and> NonceEven (m_A st' 2) = replicate 32 4"
proof -
  have "TPM_ORD_Sign \<in> set sized_ordinals" by (simp add: sized_ordinals_def)
  then show ?thesis
    using response_parsed [of TPM_ORD_Sign "replicate 10 9 @ be32 3 @ [1, 2, 3] @ reply_bytes ex_reply @ [7]"
        "replicate 10 9" "[1, 2, 3]" "[ex_reply]" "[7]" None "Some 2" 82 ex_mem 0 1]
    by (simp add: ex_reply_def ex_mem_def asked_def store_replies_def)
qed

lemma session_response_witness:
  "\<exists>st'. tpm_rsp_parse TPM_ORD_TakeOwnership [O32 (Some 0), OB (Some 1), OS (Some 2)]
      (replicate 10 9 @ [1, 2, 3] @ replicate 32 6 @ [7]) 45 ex_mem = Some (TSS_SUCCESS, st')
    \<and> m_B st' 1 = Buf [1, 2, 3] \<and> ts_outHMAC (m_S st' 2) = replicate 32 6"
proof -
  have "TPM_ORD_TakeOwnership \<in> set session_ordinals" by (simp add: session_ordinals_def)
  then show ?thesis
    using session_response [of TPM_ORD_TakeOwnership "replicate 10 9 @ [1, 2, 3] @ replicate 32 6 @ [7]"
        "replicate 10 9" "[1, 2, 3]" "replicate 32 6" "[7]" ex_mem 0 1 2]
    by (simp add: ex_mem_def)
qed

end
