(* ===== verification/Tcs_Auth_Mgr.thy ===== *)
theory Tcs_Auth_Mgr
  imports Tcs_Context Tcs_Req_Mgr
begin

text \<open>
  The authorization sessions of the daemon (\<open>tcs/tcs_auth_mgr.c\<close>): the table of sessions, swapping
  sessions out of the device and in again, and the queue of threads that wait for a session.

  The sizes \<open>auth_mapper_size\<close> and \<open>overflow_size\<close> are the lengths of the two arrays.  A condition
  variable is named by the handle of the context that owns it.  A thread that has to wait stops in
  the middle of its call: the call then gives \<open>Waiting\<close>, and what it does after it has been woken
  is a function of its own.  \<open>signalled\<close> lists the condition variables signalled so far.
\<close>

section \<open>State\<close>

abbreviation (input) TSS_DEFAULT_AUTH_TABLE_SIZE :: nat where "TSS_DEFAULT_AUTH_TABLE_SIZE \<equiv> 16"
abbreviation (input) TSS_DEFAULT_OVERFLOW_AUTHS :: nat where "TSS_DEFAULT_OVERFLOW_AUTHS \<equiv> 16"
abbreviation (input) TPM_E_BAD_ORDINAL :: u32 where "TPM_E_BAD_ORDINAL \<equiv> 0x0A"
abbreviation (input) TPM_E_RESOURCES :: u32 where "TPM_E_RESOURCES \<equiv> 0x15"
abbreviation (input) UINT_MAX :: u32 where "UINT_MAX \<equiv> 0xFFFFFFFF"
abbreviation (input) TCPA_ET_KEYHANDLE :: u16 where "TCPA_ET_KEYHANDLE \<equiv> 1"
abbreviation (input) TCPA_ET_KEY :: u16 where "TCPA_ET_KEY \<equiv> 5"

record auth_map =
  am_full :: bool
  am_tpm_handle :: u32
  am_tcs_ctx :: u32
  am_swap :: "u8 list option"

record 't auth_mgr =
  max_auth_sessions :: "16 word"
  open_auth_sessions :: "16 word"
  sleeping_threads :: u32
  overflow :: "u32 option list"
  of_head :: u32
  of_tail :: u32
  auth_mapper :: "auth_map list"
  signalled :: "u32 list"
  am_ok :: "nat \<Rightarrow> bool"
  am_count :: nat
  dev :: "'t tddl"

text \<open>The configuration: whether the device can swap sessions (\<open>tpm_metrics.authctx_swap\<close>) and
  \<open>tcsd_options.num_threads\<close>.\<close>

record auth_cfg =
  authctx_swap :: bool
  num_threads :: u32

datatype 'r outcome = Finished 'r | Waiting u32

definition empty_map :: auth_map where
  "empty_map = \<lparr>am_full = False, am_tpm_handle = 0, am_tcs_ctx = 0, am_swap = None\<rparr>"

text \<open>\<open>am_ok n\<close> says whether the \<open>n\<close>-th allocation the manager comes to succeeds.\<close>

definition am_alloc :: "'t auth_mgr \<Rightarrow> bool \<times> 't auth_mgr" where
  "am_alloc st = (am_ok st (am_count st), st\<lparr>am_count := Suc (am_count st)\<rparr>)"

definition nth_opt :: "'e list \<Rightarrow> nat \<Rightarrow> 'e option" where
  "nth_opt es i = (if i < length es then Some (es ! i) else None)"

definition osize :: "'t auth_mgr \<Rightarrow> u32" where
  "osize st = of_nat (length (overflow st))"

section \<open>Start and end\<close>

definition auth_mgr_init :: "u32 \<Rightarrow> 't auth_mgr \<Rightarrow> u32 \<times> 't auth_mgr" where
  "auth_mgr_init num_auths st =
     (let st = st\<lparr>max_auth_sessions := ucast num_auths, open_auth_sessions := 0, sleeping_threads := 0,
            overflow := [], of_head := 0, of_tail := 0, auth_mapper := []\<rparr>;
          (ok, st) = am_alloc st
      in if \<not> ok then (TCSERR TSS_E_OUTOFMEMORY, st)
         else let st = st\<lparr>overflow := replicate TSS_DEFAULT_OVERFLOW_AUTHS None\<rparr>;
                (ok, st) = am_alloc st
           in if \<not> ok then (TCSERR TSS_E_OUTOFMEMORY, st)
              else (TSS_SUCCESS, st\<lparr>auth_mapper := replicate TSS_DEFAULT_AUTH_TABLE_SIZE empty_map\<rparr>))"

text \<open>The tables are freed at the end; what matters is who is woken.\<close>

definition auth_mgr_final :: "'t auth_mgr \<Rightarrow> u32 \<times> 't auth_mgr" where
  "auth_mgr_final st =
     (TSS_SUCCESS, st\<lparr>signalled := signalled st @ map the (filter (\<lambda>c. c \<noteq> None) (overflow st))\<rparr>)"

section \<open>Swapping\<close>

fun save_ctx_loop :: "'t dev_ops \<Rightarrow> u32 \<Rightarrow> nat list \<Rightarrow> 't auth_mgr \<Rightarrow> (u32 \<times> 't auth_mgr) option" where
  "save_ctx_loop dv hContext [] st = Some (TSS_SUCCESS, st)"
| "save_ctx_loop dv hContext (i # is) st =
     (let e = auth_mapper st ! i
      in if am_full e \<and> am_swap e = None \<and> am_tcs_ctx e \<noteq> hContext then
           let (ok, st) = am_alloc st
           in do {
             (r, d) \<leftarrow> TPM_SaveAuthContext dv ok (am_tpm_handle e) (dev st);
             case r of Inl result \<Rightarrow> Some (result, st\<lparr>dev := d\<rparr>)
             | Inr bs \<Rightarrow> save_ctx_loop dv hContext is
                 (st\<lparr>dev := d, auth_mapper := (auth_mapper st)[i := e\<lparr>am_swap := Some bs\<rparr>]\<rparr>) }
         else save_ctx_loop dv hContext is st)"

definition auth_mgr_save_ctx :: "'t dev_ops \<Rightarrow> u32 \<Rightarrow> 't auth_mgr \<Rightarrow> (u32 \<times> 't auth_mgr) option" where
  "auth_mgr_save_ctx dv hContext st = save_ctx_loop dv hContext [0..<length (auth_mapper st)] st"

definition auth_mgr_swap_in :: "'t auth_mgr \<Rightarrow> 't auth_mgr option" where
  "auth_mgr_swap_in st = do {
     slot \<leftarrow> nth_opt (overflow st) (unat (of_tail st));
     case slot of None \<Rightarrow> Some st
     | Some c \<Rightarrow> Some (st\<lparr>signalled := signalled st @ [c],
         overflow := (overflow st)[unat (of_tail st) := None],
         of_tail := (of_tail st + 1) mod osize st\<rparr>) }"

text \<open>Going to sleep on a condition variable that has been put at \<open>of_head\<close>.\<close>

definition go_to_sleep :: "u32 \<Rightarrow> 't auth_mgr \<Rightarrow> u32 outcome \<times> 't auth_mgr" where
  "go_to_sleep cond st =
     (Waiting cond, st\<lparr>overflow := (overflow st)[unat (of_head st) := Some cond],
        of_head := (of_head st + 1) mod osize st, sleeping_threads := sleeping_threads st + 1\<rparr>)"

text \<open>The longer array gets the first \<open>sleeping_threads\<close> entries of the old one.\<close>

definition grow_overflow :: "u32 \<Rightarrow> 't auth_mgr \<Rightarrow> (u32 outcome \<times> 't auth_mgr) option" where
  "grow_overflow cond st =
     (let (ok, st) = am_alloc st
      in if \<not> ok then Some (Finished (TCSERR TSS_E_OUTOFMEMORY), st)
         else do {
           old \<leftarrow> rd (overflow st) 0 (unat (sleeping_threads st));
           new \<leftarrow> wr (replicate (length (overflow st) + TSS_DEFAULT_OVERFLOW_AUTHS) None) 0 old;
           slot \<leftarrow> nth_opt new (unat (sleeping_threads st));
           Some (go_to_sleep cond (st\<lparr>overflow := new, of_head := sleeping_threads st, of_tail := 0\<rparr>)) })"

text \<open>Joining the queue of waiting threads.\<close>

definition wait_for_slot ::
  "auth_cfg \<Rightarrow> tcs_state \<Rightarrow> u32 \<Rightarrow> 't auth_mgr \<Rightarrow> (u32 outcome \<times> 't auth_mgr) option" where
  "wait_for_slot cfg tcs hContext st =
     (case ctx_get_cond_var hContext tcs of
        None \<Rightarrow> Some (Finished (TCSERR TSS_E_INTERNAL_ERROR), st)
      | Some cond \<Rightarrow>
          if sleeping_threads st = num_threads cfg - 1 then Some (Finished TPM_E_RESOURCES, st)
          else do {
            slot \<leftarrow> nth_opt (overflow st) (unat (of_head st));
            if slot = None then Some (go_to_sleep cond st)
            else if osize st + of_nat TSS_DEFAULT_OVERFLOW_AUTHS < UINT_MAX then grow_overflow cond st
            else Some (Finished (TCSERR TSS_E_INTERNAL_ERROR), st) })"

definition auth_mgr_swap_out ::
  "'t dev_ops \<Rightarrow> auth_cfg \<Rightarrow> tcs_state \<Rightarrow> u32 \<Rightarrow> 't auth_mgr \<Rightarrow> (u32 outcome \<times> 't auth_mgr) option" where
  "auth_mgr_swap_out dv cfg tcs hContext st = do {
     (saved, st) \<leftarrow> (if authctx_swap cfg
        then do { (r, st) \<leftarrow> auth_mgr_save_ctx dv hContext st; Some (r = 0, st) }
        else Some (False, st));
     if saved then Some (Finished TSS_SUCCESS, st) else wait_for_slot cfg tcs hContext st }"

text \<open>What \<open>auth_mgr_swap_out\<close> does after \<open>COND_WAIT\<close>; it returns success.\<close>

definition woken :: "'t auth_mgr \<Rightarrow> 't auth_mgr" where
  "woken st = st\<lparr>sleeping_threads := sleeping_threads st - 1\<rparr>"

section \<open>Closing sessions\<close>

text \<open>Closing a session in the device, with the command of 1.1 devices as a fallback.\<close>

definition flush_session :: "'t dev_ops \<Rightarrow> u32 \<Rightarrow> 't auth_mgr \<Rightarrow> (u32 \<times> 't auth_mgr) option" where
  "flush_session dv h st = do {
     (result, d) \<leftarrow> TCSP_FlushSpecific_Common dv h TPM_RT_AUTH (dev st);
     (result, d) \<leftarrow> (if result = TPM_E_BAD_ORDINAL then internal_TerminateHandle dv h d
        else Some (result, d));
     Some (result, st\<lparr>dev := d\<rparr>) }"

text \<open>Freeing a slot of the table, and waking the next thread.\<close>

definition free_slot :: "nat \<Rightarrow> 't auth_mgr \<Rightarrow> 't auth_mgr option" where
  "free_slot i st = auth_mgr_swap_in (st\<lparr>open_auth_sessions := open_auth_sessions st - 1,
     auth_mapper := (auth_mapper st)[i := (auth_mapper st ! i)\<lparr>am_full := False\<rparr>]\<rparr>)"

fun close_context_loop :: "'t dev_ops \<Rightarrow> u32 \<Rightarrow> nat list \<Rightarrow> 't auth_mgr \<Rightarrow> 't auth_mgr option" where
  "close_context_loop dv tcs_handle [] st = Some st"
| "close_context_loop dv tcs_handle (i # is) st =
     (let e = auth_mapper st ! i
      in if am_full e \<and> am_tcs_ctx e = tcs_handle then do {
           st \<leftarrow> (case am_swap e of
               Some bs \<Rightarrow> Some (st\<lparr>auth_mapper := (auth_mapper st)[i := e\<lparr>am_swap := None\<rparr>]\<rparr>)
             | None \<Rightarrow> map_option snd (flush_session dv (am_tpm_handle e) st));
           st \<leftarrow> free_slot i st;
           close_context_loop dv tcs_handle is st }
         else close_context_loop dv tcs_handle is st)"

definition auth_mgr_close_context :: "'t dev_ops \<Rightarrow> u32 \<Rightarrow> 't auth_mgr \<Rightarrow> (u32 \<times> 't auth_mgr) option" where
  "auth_mgr_close_context dv tcs_handle st = do {
     st \<leftarrow> close_context_loop dv tcs_handle [0..<length (auth_mapper st)] st;
     Some (TSS_SUCCESS, st) }"

fun release_loop ::
  "'t dev_ops \<Rightarrow> u32 \<Rightarrow> u32 \<Rightarrow> bool \<Rightarrow> nat list \<Rightarrow> u32 \<Rightarrow> 't auth_mgr \<Rightarrow> (u32 \<times> 't auth_mgr) option" where
  "release_loop dv h tcs_handle cont [] result st = Some (result, st)"
| "release_loop dv h tcs_handle cont (i # is) result st =
     (let e = auth_mapper st ! i
      in if am_full e \<and> am_tpm_handle e = h \<and> am_tcs_ctx e = tcs_handle then do {
           (result, st) \<leftarrow> (if cont then Some (result, st) else flush_session dv (am_tpm_handle e) st);
           st \<leftarrow> free_slot i st;
           release_loop dv h tcs_handle cont is result st }
         else release_loop dv h tcs_handle cont is result st)"

definition auth_mgr_release_auth_handle ::
  "'t dev_ops \<Rightarrow> u32 \<Rightarrow> u32 \<Rightarrow> bool \<Rightarrow> 't auth_mgr \<Rightarrow> (u32 \<times> 't auth_mgr) option" where
  "auth_mgr_release_auth_handle dv tpm_auth_handle tcs_handle cont st =
     release_loop dv tpm_auth_handle tcs_handle cont [0..<length (auth_mapper st)] TSS_SUCCESS st"

text \<open>The handle and \<open>fContinueAuthSession\<close> of up to two authorizations.\<close>

definition auth_mgr_release_auth ::
  "'t dev_ops \<Rightarrow> (u32 \<times> bool) option \<Rightarrow> (u32 \<times> bool) option \<Rightarrow> u32 \<Rightarrow> 't auth_mgr \<Rightarrow> 't auth_mgr option" where
  "auth_mgr_release_auth dv auth0 auth1 tcs_handle st = do {
     st \<leftarrow> (case auth0 of None \<Rightarrow> Some st
       | Some (h, cont) \<Rightarrow> map_option snd (auth_mgr_release_auth_handle dv h tcs_handle cont st));
     case auth1 of None \<Rightarrow> Some st
     | Some (h, cont) \<Rightarrow> map_option snd (auth_mgr_release_auth_handle dv h tcs_handle cont st) }"

section \<open>Using and adding sessions\<close>

text \<open>The second attempt to load a session: the blob is freed whatever the device answers, and the
  table keeps the old handle.\<close>

definition check_retry :: "'t dev_ops \<Rightarrow> nat \<Rightarrow> u32 \<Rightarrow> 't auth_mgr \<Rightarrow> ((u32 \<times> u32) \<times> 't auth_mgr) option" where
  "check_retry dv i h st =
     (let e = auth_mapper st ! i
      in do {
        (r, d) \<leftarrow> TPM_LoadAuthContext dv (case am_swap e of None \<Rightarrow> [] | Some bs \<Rightarrow> bs) (dev st);
        Some ((case r of Inl result \<Rightarrow> (result, h) | Inr h' \<Rightarrow> (TSS_SUCCESS, h')),
          st\<lparr>dev := d, auth_mapper := (auth_mapper st)[i := e\<lparr>am_swap := None\<rparr>]\<rparr>) })"

text \<open>The result code and the handle, which changes when the session is swapped in.\<close>

definition auth_mgr_check ::
  "'t dev_ops \<Rightarrow> auth_cfg \<Rightarrow> tcs_state \<Rightarrow> u32 \<Rightarrow> u32 \<Rightarrow> 't auth_mgr \<Rightarrow>
   ((u32 \<times> u32) outcome \<times> 't auth_mgr) option" where
  "auth_mgr_check dv cfg tcs tcsContext h st =
     (case first_index (\<lambda>e. am_full e \<and> am_tpm_handle e = h \<and> am_tcs_ctx e = tcsContext) (auth_mapper st) of
        None \<Rightarrow> Some (Finished (TCSERR TSS_E_INTERNAL_ERROR, h), st)
      | Some i \<Rightarrow>
          let e = auth_mapper st ! i
          in case am_swap e of
               None \<Rightarrow> Some (Finished (TSS_SUCCESS, h), st)
             | Some bs \<Rightarrow> do {
                 (r, d) \<leftarrow> TPM_LoadAuthContext dv bs (dev st);
                 let st = st\<lparr>dev := d\<rparr>;
                 case r of
                   Inr h' \<Rightarrow> Some (Finished (TSS_SUCCESS, h'),
                     st\<lparr>auth_mapper := (auth_mapper st)[i := e\<lparr>am_swap := None, am_tpm_handle := h'\<rparr>]\<rparr>)
                 | Inl result \<Rightarrow>
                     if result = TPM_E_RESOURCES then do {
                       (w, st) \<leftarrow> auth_mgr_swap_out dv cfg tcs tcsContext st;
                       case w of
                         Waiting c \<Rightarrow> Some (Waiting c, st)
                       | Finished r \<Rightarrow>
                           if r \<noteq> 0 then Some (Finished (r, h), st)
                           else do { (x, st) \<leftarrow> check_retry dv i h st; Some (Finished x, st) } }
                     else Some (Finished (result, h), st) })"

definition auth_mgr_add :: "u32 \<Rightarrow> u32 \<Rightarrow> 't auth_mgr \<Rightarrow> u32 \<times> 't auth_mgr" where
  "auth_mgr_add tcsContext h st =
     (case first_index (\<lambda>e. \<not> am_full e) (auth_mapper st) of
        Some i \<Rightarrow> (TSS_SUCCESS, st\<lparr>auth_mapper := (auth_mapper st)[i :=
            (auth_mapper st ! i)\<lparr>am_tpm_handle := h, am_tcs_ctx := tcsContext, am_full := True\<rparr>],
          open_auth_sessions := open_auth_sessions st + 1\<rparr>)
      | None \<Rightarrow>
          let (ok, st) = am_alloc st
          in if \<not> ok then (TCSERR TSS_E_OUTOFMEMORY, st)
             else (TSS_SUCCESS, st\<lparr>auth_mapper := auth_mapper st @
                     replicate TSS_DEFAULT_AUTH_TABLE_SIZE empty_map\<rparr>))"

text \<open>\<open>MAX(2, (UINT32)max_auth_sessions/2)\<close>: the conversion extends the sign.\<close>

definition auth_mgr_req_new :: "u32 \<Rightarrow> 't auth_mgr \<Rightarrow> bool" where
  "auth_mgr_req_new hContext st =
     (let opened = length (filter (\<lambda>e. am_full e \<and> am_tcs_ctx e = hContext) (auth_mapper st));
          free = sint (max_auth_sessions st) - sint (open_auth_sessions st)
      in if max 2 (unat (scast (max_auth_sessions st) div 2 :: u32)) \<le> opened then False
         else if 0 < opened \<and> 1 \<le> free then True
         else 2 \<le> free)"

section \<open>Opening sessions\<close>

text \<open>A session is opened by \<open>run\<close>, when there is room for it, and entered into the table; the
  second definition is what happens after a wait too.\<close>

definition open_session ::
  "('t tddl \<Rightarrow> ((u32 + u32 \<times> 'x) \<times> 't tddl) option) \<Rightarrow> u32 \<Rightarrow> 't auth_mgr \<Rightarrow>
   ((u32 + u32 \<times> 'x) \<times> 't auth_mgr) option" where
  "open_session run hContext st = do {
     (r, d) \<leftarrow> run (dev st);
     let st = st\<lparr>dev := d\<rparr>;
     case r of Inl result \<Rightarrow> Some (Inl result, st)
     | Inr (h, x) \<Rightarrow>
         let (result, st) = auth_mgr_add hContext h st
         in Some (if result \<noteq> 0 then Inl result else Inr (h, x), st) }"

definition request_session ::
  "'t dev_ops \<Rightarrow> auth_cfg \<Rightarrow> tcs_state \<Rightarrow> ('t tddl \<Rightarrow> ((u32 + u32 \<times> 'x) \<times> 't tddl) option) \<Rightarrow> u32 \<Rightarrow>
   't auth_mgr \<Rightarrow> ((u32 + u32 \<times> 'x) outcome \<times> 't auth_mgr) option" where
  "request_session dv cfg tcs run hContext st =
     (if auth_mgr_req_new hContext st then do {
        (r, st) \<leftarrow> open_session run hContext st; Some (Finished r, st) }
      else do {
        (w, st) \<leftarrow> auth_mgr_swap_out dv cfg tcs hContext st;
        case w of Waiting c \<Rightarrow> Some (Waiting c, st)
        | Finished result \<Rightarrow>
            if result \<noteq> 0 then Some (Finished (Inl result), st)
            else do { (r, st) \<leftarrow> open_session run hContext st; Some (Finished r, st) } })"

definition auth_mgr_oiap where
  "auth_mgr_oiap dv cfg tcs hContext st =
     request_session dv cfg tcs (TCSP_OIAP_Internal dv (ctx_verify_context hContext tcs)) hContext st"

text \<open>The handle of a key entity is replaced by its slot: \<open>slot\<close> is the answer of
  \<open>ensureKeyIsLoaded\<close>, \<open>None\<close> when it fails.\<close>

definition auth_mgr_osap where
  "auth_mgr_osap dv cfg tcs slot hContext entityType entityValue nonceOddOSAP st =
     (let newEntValue = (if entityType = TCPA_ET_KEYHANDLE \<or> entityType = TCPA_ET_KEY then slot
        else Some entityValue)
      in case newEntValue of None \<Rightarrow> Some (Finished (Inl (TCSERR TSS_E_FAIL)), st)
         | Some v \<Rightarrow> request_session dv cfg tcs
             (TCSP_OSAP_Internal dv (ctx_verify_context hContext tcs) entityType v nonceOddOSAP) hContext st)"

text \<open>Here the slot is looked up, but the command gets the caller's value.\<close>

definition auth_mgr_APCreate where
  "auth_mgr_APCreate dv cfg tcs slot hContext entityType entityValue callerNonce inMac st =
     (let newEntValue = (if entityType = TCPA_ET_KEYHANDLE \<or> entityType = TCPA_ET_KEY then slot
        else Some entityValue)
      in case newEntValue of None \<Rightarrow> Some (Finished (Inl (TCSERR TSS_E_FAIL)), st)
         | Some v \<Rightarrow> request_session dv cfg tcs
             (TCSP_APCreate_Internal dv (ctx_verify_context hContext tcs) entityType entityValue callerNonce inMac)
             hContext st)"

text \<open>Terminating a session at the request of the client: the session leaves the table, but
  \<open>cont\<close> is true, so the device keeps it.\<close>

definition TCSP_TerminateHandle_Internal ::
  "'t dev_ops \<Rightarrow> auth_cfg \<Rightarrow> tcs_state \<Rightarrow> u32 \<Rightarrow> u32 \<Rightarrow> 't auth_mgr \<Rightarrow> (u32 outcome \<times> 't auth_mgr) option" where
  "TCSP_TerminateHandle_Internal dv cfg tcs hContext handle st =
     (if ctx_verify_context hContext tcs \<noteq> 0 then Some (Finished (ctx_verify_context hContext tcs), st)
      else do {
        (w, st) \<leftarrow> auth_mgr_check dv cfg tcs hContext handle st;
        case w of Waiting c \<Rightarrow> Some (Waiting c, st)
        | Finished (result, handle) \<Rightarrow>
            if result \<noteq> 0 then Some (Finished result, st)
            else do {
              (result, st) \<leftarrow> auth_mgr_release_auth_handle dv handle hContext True st;
              Some (Finished result, st) } })"

section \<open>The queue of waiting threads\<close>

text \<open>The array read from \<open>of_tail\<close> on holds the waiting threads in order, then empty slots.\<close>

definition ring :: "'t auth_mgr \<Rightarrow> u32 list \<Rightarrow> bool" where
  "ring st q \<longleftrightarrow> length (overflow st) < 2 ^ 32 \<and> unat (of_tail st) < length (overflow st)
     \<and> length q \<le> length (overflow st)
     \<and> unat (of_head st) = (unat (of_tail st) + length q) mod length (overflow st)
     \<and> rotate (unat (of_tail st)) (overflow st)
         = map Some q @ replicate (length (overflow st) - length q) None"

lemma rotate_update:
  assumes "t < length xs" "i < length xs"
  shows "rotate t (xs[(t + i) mod length xs := y]) = (rotate t xs)[i := y]"
proof (rule nth_equalityI)
  fix j assume "j < length (rotate t (xs[(t + i) mod length xs := y]))"
  then have j: "j < length xs" by simp
  have "(t + k) mod length xs = (if t + k < length xs then t + k else t + k - length xs)" if "k < length xs" for k
    using assms(1) that mod_if [of "t + k - length xs"] by (simp add: le_mod_geq)
  then have "(t + i) mod length xs = (t + j) mod length xs \<longleftrightarrow> i = j"
    using assms j by auto
  moreover have "(t + j) mod length xs < length xs" using j by (intro mod_less_divisor) auto
  ultimately show "rotate t (xs[(t + i) mod length xs := y]) ! j = (rotate t xs)[i := y] ! j"
    using assms j by (simp add: nth_rotate nth_list_update)
qed simp

lemma next_index:
  assumes "i < n" "n < 2 ^ 32" "unat w = i"
  shows "unat ((w + 1) mod (of_nat n :: u32)) = (i + 1) mod n"
  using assms by (simp add: unat_mod unat_of_nat take_bit_nat_eq_self unat_word_ariths(1) mod_less)

lemma ring_slot:
  assumes "ring st q" "i < length (overflow st)"
  shows "overflow st ! ((unat (of_tail st) + i) mod length (overflow st)) = (if i < length q then Some (q ! i) else None)"
proof -
  have "rotate (unat (of_tail st)) (overflow st) ! i = (map Some q @ replicate (length (overflow st) - length q) None) ! i"
    using assms by (simp add: ring_def)
  then show ?thesis using assms(2) by (simp add: nth_rotate nth_append split: if_splits)
qed

lemma ring_nonempty: "ring st q \<Longrightarrow> overflow st \<noteq> []"
  by (auto simp: ring_def)

lemma ring_tail: "ring st q \<Longrightarrow> overflow st ! unat (of_tail st) = (case q of [] \<Rightarrow> None | c # _ \<Rightarrow> Some c)"
  using ring_slot [of st q 0] ring_nonempty [of st q] by (cases q) (auto simp: ring_def)

lemma ring_head:
  "ring st q \<Longrightarrow> overflow st ! unat (of_head st) = None \<longleftrightarrow> length q < length (overflow st)"
proof -
  assume r: "ring st q"
  show ?thesis
  proof (cases "length q < length (overflow st)")
    case True then show ?thesis using r ring_slot [OF r True] by (simp add: ring_def)
  next
    case False
    then have "length q = length (overflow st)" using r by (simp add: ring_def)
    moreover have "q \<noteq> []" using calculation ring_nonempty [OF r] by auto
    ultimately show ?thesis using r ring_tail [OF r] by (auto simp: ring_def split: list.splits)
  qed
qed

lemma swap_in_ring:
  assumes "ring st q"
  shows "\<exists>st'. auth_mgr_swap_in st = Some st' \<and> ring st' (tl q) \<and> signalled st' = signalled st @ take 1 q
    \<and> st' = st\<lparr>signalled := signalled st', overflow := overflow st', of_tail := of_tail st'\<rparr>"
proof (cases q)
  case Nil
  then have "auth_mgr_swap_in st = Some st"
    using ring_tail [OF assms] assms by (simp add: auth_mgr_swap_in_def nth_opt_def ring_def)
  then show ?thesis using assms Nil by simp
next
  case (Cons c q')
  let ?n = "length (overflow st)" and ?t = "unat (of_tail st)"
  let ?st = "st\<lparr>signalled := signalled st @ [c], overflow := (overflow st)[?t := None],
     of_tail := (of_tail st + 1) mod osize st\<rparr>"
  have r: "?n < 2 ^ 32" "?t < ?n" "length q' < ?n" "unat (of_head st) = (?t + length q) mod ?n"
    "rotate ?t (overflow st) = Some c # map Some q' @ replicate (?n - length q) None"
    using assms Cons by (simp_all add: ring_def)
  have s: "auth_mgr_swap_in st = Some ?st"
    using ring_tail [OF assms] r(2) Cons by (simp add: auth_mgr_swap_in_def nth_opt_def)
  have t: "unat ((of_tail st + 1) mod osize st) = (?t + 1) mod ?n"
    using next_index [OF r(2,1)] by (simp add: osize_def)
  have u: "rotate ?t ((overflow st)[?t := None]) = None # map Some q' @ replicate (?n - length q) None"
    using rotate_update [OF r(2), of 0 None] ring_nonempty [OF assms] r by simp
  have "rotate (Suc ?t) ((overflow st)[?t := None]) = map Some q' @ replicate (?n - length q') None"
  proof -
    have "?n - length q' = Suc (?n - length q)" using r(3) Cons by simp
    then show ?thesis using u by (simp add: replicate_append_same)
  qed
  then have w: "rotate ((?t + 1) mod ?n) ((overflow st)[?t := None]) = map Some q' @ replicate (?n - length q') None"
    by (metis Suc_eq_plus1 length_list_update rotate_conv_mod)
  have "unat (of_head st) = ((?t + 1) mod ?n + length q') mod ?n"
    using r(4) Cons by (simp add: mod_simps)
  then have "ring ?st q'" using t w r ring_nonempty [OF assms] by (simp add: ring_def)
  then show ?thesis using s Cons by simp
qed

lemma sleep_ring:
  assumes "ring st q" "length q < length (overflow st)"
  shows "\<exists>st'. go_to_sleep c st = (Waiting c, st') \<and> ring st' (q @ [c])
    \<and> sleeping_threads st' = sleeping_threads st + 1 \<and> signalled st' = signalled st"
proof -
  let ?n = "length (overflow st)" and ?t = "unat (of_tail st)" and ?h = "unat (of_head st)"
  have r: "?n < 2 ^ 32" "?t < ?n" "?h = (?t + length q) mod ?n" "?h < ?n"
    "rotate ?t (overflow st) = map Some q @ replicate (?n - length q) None"
    using assms ring_nonempty [OF assms(1)] by (simp_all add: ring_def)
  have n: "?n - length q = Suc (?n - Suc (length q))" using assms(2) by simp
  have "rotate ?t ((overflow st)[?h := Some c]) = (map Some q @ replicate (?n - length q) None)[length q := Some c]"
    using rotate_update [OF r(2) assms(2), of "Some c"] r by simp
  also have "\<dots> = map Some (q @ [c]) @ replicate (?n - Suc (length q)) None"
    unfolding n by (simp add: list_update_append)
  finally have u: "rotate ?t ((overflow st)[?h := Some c]) = map Some (q @ [c]) @ replicate (?n - Suc (length q)) None" .
  have "unat ((of_head st + 1) mod osize st) = (?t + length (q @ [c])) mod ?n"
    using next_index [OF r(4,1)] r(3) by (simp add: osize_def mod_Suc_eq)
  then show ?thesis using u r assms(2) by (simp add: go_to_sleep_def ring_def)
qed

lemma grow_ring:
  assumes "ring st q" "length q = length (overflow st)" "sleeping_threads st = osize st"
    "length (overflow st) + 16 < 2 ^ 32" "am_ok st (am_count st)"
  shows "\<exists>st'. grow_overflow c st = Some (Waiting c, st')
    \<and> ring st' (rotate (length q - unat (of_tail st)) q @ [c]) \<and> length (overflow st') = length (overflow st) + 16
    \<and> sleeping_threads st' = sleeping_threads st + 1 \<and> signalled st' = signalled st"
proof -
  define p where "p = rotate (length q - unat (of_tail st)) q"
  have r: "unat (of_tail st) < length q" "rotate (unat (of_tail st)) (overflow st) = map Some q"
    using assms(1,2) by (simp_all add: ring_def)
  have "rotate (length q - unat (of_tail st)) (rotate (unat (of_tail st)) (overflow st)) = overflow st"
    using r(1) assms(2) by (simp add: rotate_rotate rotate_id)
  then have o: "overflow st = map Some p" using r(2) by (simp add: rotate_map p_def)
  have z: "unat (sleeping_threads st) = length p"
    using assms(2,3,4) by (simp add: osize_def unat_of_nat take_bit_nat_eq_self p_def)
  let ?new = "map Some p @ replicate 16 None"
  let ?st = "st\<lparr>am_count := Suc (am_count st), overflow := ?new, of_head := sleeping_threads st, of_tail := 0\<rparr>"
  have l: "length p = length q" by (simp add: p_def)
  have g: "grow_overflow c st = Some (go_to_sleep c ?st)"
    using z assms(5) by (simp add: grow_overflow_def am_alloc_def rd_def wr_def nth_opt_def Let_def o write_at_def)
  have "ring ?st p" using z assms(2,4) l by (simp add: ring_def)
  from sleep_ring [OF this, of c]
  obtain st' where s: "go_to_sleep c ?st = (Waiting c, st')" "ring st' (p @ [c])"
    "sleeping_threads st' = sleeping_threads st + 1" "signalled st' = signalled st" by auto
  moreover have "length (overflow st') = length q + 16" using s(1) l by (auto simp: go_to_sleep_def)
  ultimately show ?thesis using g assms(2) by (simp add: p_def)
qed

section \<open>The count of open sessions\<close>

definition accounted :: "'t auth_mgr \<Rightarrow> bool" where
  "accounted st \<longleftrightarrow> open_auth_sessions st = of_nat (length (filter am_full (auth_mapper st)))"

text \<open>Operations that leave the set of used slots as it is.\<close>

definition same_slots :: "'t auth_mgr \<Rightarrow> 't auth_mgr \<Rightarrow> bool" where
  "same_slots st st' \<longleftrightarrow> open_auth_sessions st' = open_auth_sessions st
     \<and> map am_full (auth_mapper st') = map am_full (auth_mapper st)"

named_theorems slots \<open>operations that keep the used slots\<close>

lemma same_slots_refl [slots]: "same_slots st st"
  by (simp add: same_slots_def)

lemma same_slots_trans: "same_slots st st1 \<Longrightarrow> same_slots st1 st2 \<Longrightarrow> same_slots st st2"
  by (simp add: same_slots_def)

lemma full_count: "map am_full es = map am_full es' \<Longrightarrow> length (filter am_full es) = length (filter am_full es')"
proof (induction es arbitrary: es')
  case (Cons e es)
  then show ?case by (cases es') auto
qed simp

lemma same_slots_accounted: "same_slots st st' \<Longrightarrow> accounted st \<Longrightarrow> accounted st'"
  using full_count by (fastforce simp: same_slots_def accounted_def)

lemma same_slots_length: "same_slots st st' \<Longrightarrow> length (auth_mapper st') = length (auth_mapper st)"
  unfolding same_slots_def by (metis length_map)

lemma same_slots_full:
  assumes "same_slots st st'" "i < length (auth_mapper st)"
  shows "am_full (auth_mapper st' ! i) = am_full (auth_mapper st ! i)"
proof -
  have "map am_full (auth_mapper st') ! i = map am_full (auth_mapper st) ! i"
    using assms(1) by (simp add: same_slots_def)
  then show ?thesis using assms(2) same_slots_length [OF assms(1)] by simp
qed

lemma map_full_update: "i < length es \<Longrightarrow> am_full e = am_full (es ! i) \<Longrightarrow> map am_full (es[i := e]) = map am_full es"
  using list_update_id [of "map am_full es" i] by (simp add: map_update)

lemma length_filter_update:
  "i < length es \<Longrightarrow> length (filter P (es[i := e])) + (if P (es ! i) then 1 else 0)
     = length (filter P es) + (if P e then 1 else 0)"
proof (induction es arbitrary: i)
  case (Cons a es)
  then show ?case by (cases i) fastforce+
qed simp

lemma save_ctx_loop_slots:
  "save_ctx_loop dv h is st = Some (r, st') \<Longrightarrow> set is \<subseteq> {..<length (auth_mapper st)} \<Longrightarrow> same_slots st st'"
proof (induction dv h "is" st arbitrary: r st' rule: save_ctx_loop.induct)
  case (2 dv h i "is" st)
  let ?e = "auth_mapper st ! i" and ?st = "st\<lparr>am_count := Suc (am_count st)\<rparr>"
  have i: "i < length (auth_mapper st)" using 2(4) by simp
  show ?case
  proof (cases "am_full ?e \<and> am_swap ?e = None \<and> am_tcs_ctx ?e \<noteq> h")
    case True
    then obtain x d where t: "TPM_SaveAuthContext dv (am_ok st (am_count st)) (am_tpm_handle ?e) (dev st) = Some (x, d)"
      using 2(3) by (auto simp: am_alloc_def Let_def split: bind_splits)
    show ?thesis
    proof (cases x)
      case (Inl c)
      then show ?thesis using 2(3) True t by (auto simp: am_alloc_def Let_def same_slots_def)
    next
      case (Inr bs)
      let ?st2 = "?st\<lparr>dev := d, auth_mapper := (auth_mapper st)[i := ?e\<lparr>am_swap := Some bs\<rparr>]\<rparr>"
      have l: "save_ctx_loop dv h is ?st2 = Some (r, st')"
        using 2(3) True t Inr by (simp add: am_alloc_def Let_def)
      have s: "same_slots st ?st2" using i by (simp add: same_slots_def map_full_update)
      have "same_slots ?st2 st'"
        using 2(1) [OF refl True _ refl, of "am_ok st (am_count st)" ?st "(x, d)" x d bs r st'] l t Inr 2(4) by (simp add: am_alloc_def)
      then show ?thesis using s same_slots_trans by blast
    qed
  next
    case False
    have "save_ctx_loop dv h is st = Some (r, st')"
      using 2(3) False by (simp only: save_ctx_loop.simps Let_def if_False)
    then show ?thesis using 2(2) [OF refl False] 2(4) by simp
  qed
qed (simp add: same_slots_refl)

lemma swap_in_slots [slots]: "auth_mgr_swap_in st = Some st' \<Longrightarrow> same_slots st st'"
  by (auto simp: auth_mgr_swap_in_def same_slots_def split: bind_splits option.splits)

lemma go_to_sleep_slots [slots]: "go_to_sleep c st = (r, st') \<Longrightarrow> same_slots st st'"
  by (auto simp: go_to_sleep_def same_slots_def)

lemma grow_slots [slots]: "grow_overflow c st = Some (r, st') \<Longrightarrow> same_slots st st'"
  by (auto simp: grow_overflow_def go_to_sleep_def am_alloc_def same_slots_def Let_def split: if_splits bind_splits)

lemma wait_slots [slots]: "wait_for_slot cfg tcs h st = Some (r, st') \<Longrightarrow> same_slots st st'"
  by (auto simp: wait_for_slot_def split: if_splits option.splits bind_splits intro: slots)

lemma save_ctx_slots [slots]: "auth_mgr_save_ctx dv h st = Some (r, st') \<Longrightarrow> same_slots st st'"
  by (auto simp: auth_mgr_save_ctx_def intro: save_ctx_loop_slots)

lemma swap_out_slots [slots]:
  "auth_mgr_swap_out dv cfg tcs h st = Some (r, st') \<Longrightarrow> same_slots st st'"
  by (auto simp: auth_mgr_swap_out_def split: if_splits bind_splits dest!: save_ctx_slots wait_slots
      intro: same_slots_trans same_slots_refl)

lemma flush_slots [slots]: "flush_session dv h st = Some (r, st') \<Longrightarrow> same_slots st st'"
  by (auto simp: flush_session_def same_slots_def split: bind_splits)

lemma check_retry_slots: "check_retry dv i h st = Some (x, st') \<Longrightarrow> i < length (auth_mapper st) \<Longrightarrow> same_slots st st'"
  by (auto simp: check_retry_def Let_def same_slots_def map_full_update split: bind_splits)

lemma woken_slots [slots]: "same_slots st (woken st)"
  by (simp add: woken_def same_slots_def)

lemma accounted_update:
  assumes "accounted st" "i < length (auth_mapper st)"
  shows "open_auth_sessions st + (if am_full e then 1 else 0)
    = of_nat (length (filter am_full ((auth_mapper st)[i := e]))) + (if am_full (auth_mapper st ! i) then 1 else 0)"
proof -
  have "(of_nat (length (filter am_full ((auth_mapper st)[i := e])) + (if am_full (auth_mapper st ! i) then 1 else 0)) :: u16)
      = of_nat (length (filter am_full (auth_mapper st)) + (if am_full e then 1 else 0))"
    using length_filter_update [OF assms(2), of am_full e] by simp
  then show ?thesis using assms(1) by (simp add: accounted_def split: if_splits)
qed

lemma free_slot_accounted:
  assumes "accounted st" "i < length (auth_mapper st)" "am_full (auth_mapper st ! i)" "free_slot i st = Some st'"
  shows "accounted st' \<and> length (auth_mapper st') = length (auth_mapper st)"
proof -
  let ?st = "st\<lparr>open_auth_sessions := open_auth_sessions st - 1,
     auth_mapper := (auth_mapper st)[i := (auth_mapper st ! i)\<lparr>am_full := False\<rparr>]\<rparr>"
  have "accounted ?st"
    using accounted_update [OF assms(1,2), of "(auth_mapper st ! i)\<lparr>am_full := False\<rparr>"] assms(3)
    by (simp add: accounted_def)
  moreover have "same_slots ?st st'" using assms(4) by (auto simp: free_slot_def intro: swap_in_slots)
  ultimately show ?thesis using same_slots_accounted [of ?st st'] same_slots_length [of ?st st'] by simp
qed

lemma add_accounted:
  assumes "accounted st" "auth_mgr_add c h st = (r, st')"
  shows "accounted st'"
proof (cases "first_index (\<lambda>e. \<not> am_full e) (auth_mapper st)")
  case None
  then show ?thesis using assms
    by (auto simp: auth_mgr_add_def am_alloc_def accounted_def empty_map_def split: if_splits)
next
  case (Some i)
  then have "i < length (auth_mapper st)" "\<not> am_full (auth_mapper st ! i)" using first_index_some [OF Some] by auto
  then show ?thesis
    using accounted_update [OF assms(1), of i "(auth_mapper st ! i)\<lparr>am_tpm_handle := h, am_tcs_ctx := c, am_full := True\<rparr>"]
      assms(2) Some by (auto simp: auth_mgr_add_def accounted_def)
qed

lemma close_context_loop_accounted:
  "close_context_loop dv h is st = Some st' \<Longrightarrow> accounted st \<Longrightarrow> set is \<subseteq> {..<length (auth_mapper st)} \<Longrightarrow>
   accounted st' \<and> length (auth_mapper st') = length (auth_mapper st)"
proof (induction "is" arbitrary: st)
  case (Cons i "is")
  let ?e = "auth_mapper st ! i"
  have i: "i < length (auth_mapper st)" using Cons.prems(3) by simp
  show ?case
  proof (cases "am_full ?e \<and> am_tcs_ctx ?e = h")
    case True
    define x where "x = (case am_swap ?e of
        Some bs \<Rightarrow> Some (st\<lparr>auth_mapper := (auth_mapper st)[i := ?e\<lparr>am_swap := None\<rparr>]\<rparr>)
      | None \<Rightarrow> map_option snd (flush_session dv (am_tpm_handle ?e) st))"
    have "close_context_loop dv h (i # is) st = do { st \<leftarrow> x; st \<leftarrow> free_slot i st; close_context_loop dv h is st }"
      unfolding x_def using True by (simp add: Let_def)
    then obtain st1 st2 where x: "x = Some st1" "free_slot i st1 = Some st2" "close_context_loop dv h is st2 = Some st'"
      using Cons.prems(1) by (auto split: bind_splits)
    have s: "same_slots st st1"
      using x(1) i by (auto simp: x_def same_slots_def map_full_update split: option.splits dest!: flush_slots)
    have "accounted st2 \<and> length (auth_mapper st2) = length (auth_mapper st1)"
      using free_slot_accounted [OF same_slots_accounted [OF s Cons.prems(2)] _ _ x(2)]
        same_slots_length [OF s] same_slots_full [OF s i] i True by simp
    then show ?thesis using Cons.IH [OF x(3)] Cons.prems(3) same_slots_length [OF s] by simp
  next
    case False
    then have "close_context_loop dv h is st = Some st'"
      using Cons.prems(1) by (simp only: close_context_loop.simps Let_def if_False)
    then show ?thesis using Cons.IH Cons.prems by simp
  qed
qed simp

lemma release_loop_accounted:
  "release_loop dv h c cont is r st = Some (r', st') \<Longrightarrow> accounted st \<Longrightarrow> set is \<subseteq> {..<length (auth_mapper st)} \<Longrightarrow>
   accounted st' \<and> length (auth_mapper st') = length (auth_mapper st)"
proof (induction "is" arbitrary: r st)
  case (Cons i "is")
  let ?e = "auth_mapper st ! i"
  have i: "i < length (auth_mapper st)" using Cons.prems(3) by simp
  show ?case
  proof (cases "am_full ?e \<and> am_tpm_handle ?e = h \<and> am_tcs_ctx ?e = c")
    case True
    define x where "x = (if cont then Some (r, st) else flush_session dv (am_tpm_handle ?e) st)"
    have "release_loop dv h c cont (i # is) r st = do { (r, st) \<leftarrow> x; st \<leftarrow> free_slot i st; release_loop dv h c cont is r st }"
      unfolding x_def using True by (simp add: Let_def)
    then obtain r1 st1 st2 where x: "x = Some (r1, st1)" "free_slot i st1 = Some st2" "release_loop dv h c cont is r1 st2 = Some (r', st')"
      using Cons.prems(1) by (auto split: bind_splits)
    have s: "same_slots st st1"
      using x(1) by (auto simp: x_def same_slots_refl split: if_splits dest!: flush_slots)
    have "accounted st2 \<and> length (auth_mapper st2) = length (auth_mapper st1)"
      using free_slot_accounted [OF same_slots_accounted [OF s Cons.prems(2)] _ _ x(2)]
        same_slots_length [OF s] same_slots_full [OF s i] i True by simp
    then show ?thesis using Cons.IH [OF x(3)] Cons.prems(3) same_slots_length [OF s] by simp
  next
    case False
    then have "release_loop dv h c cont is r st = Some (r', st')"
      using Cons.prems(1) by (simp only: release_loop.simps Let_def if_False)
    then show ?thesis using Cons.IH Cons.prems by simp
  qed
qed simp

named_theorems accounts \<open>operations that keep the count of sessions\<close>

lemma close_context_accounted [accounts]:
  assumes "auth_mgr_close_context dv h st = Some (r, st')" "accounted st"
  shows "accounted st'"
proof -
  have "close_context_loop dv h [0..<length (auth_mapper st)] st = Some st'"
    using assms(1) by (simp add: auth_mgr_close_context_def split: bind_splits)
  from close_context_loop_accounted [OF this assms(2)] show ?thesis by (simp add: atLeast0LessThan)
qed

lemma release_handle_accounted [accounts]:
  assumes "auth_mgr_release_auth_handle dv h c cont st = Some (r, st')" "accounted st"
  shows "accounted st'"
  using release_loop_accounted [OF assms(1) [unfolded auth_mgr_release_auth_handle_def] assms(2)]
  by (simp add: atLeast0LessThan)

lemma release_auth_accounted [accounts]:
  "auth_mgr_release_auth dv a0 a1 c st = Some st' \<Longrightarrow> accounted st \<Longrightarrow> accounted st'"
  by (auto simp: auth_mgr_release_auth_def split: option.splits bind_splits intro: release_handle_accounted)

lemma swap_out_accounted [accounts]:
  "auth_mgr_swap_out dv cfg tcs h st = Some (r, st') \<Longrightarrow> accounted st \<Longrightarrow> accounted st'"
  using swap_out_slots same_slots_accounted by blast

lemma check_retry_accounted [accounts]:
  "check_retry dv i h st = Some (x, st') \<Longrightarrow> i < length (auth_mapper st) \<Longrightarrow> accounted st \<Longrightarrow> accounted st'"
  using check_retry_slots same_slots_accounted by blast

lemma check_slots [slots]:
  assumes "auth_mgr_check dv cfg tcs c h st = Some (x, st')"
  shows "same_slots st st'"
proof (cases "first_index (\<lambda>e. am_full e \<and> am_tpm_handle e = h \<and> am_tcs_ctx e = c) (auth_mapper st)")
  case None
  then show ?thesis using assms by (simp add: auth_mgr_check_def same_slots_refl)
next
  case (Some i)
  let ?e = "auth_mapper st ! i"
  have i: "i < length (auth_mapper st)" using first_index_some [OF Some] by simp
  show ?thesis
  proof (cases "am_swap ?e")
    case None
    then show ?thesis using assms Some by (simp add: auth_mgr_check_def same_slots_refl)
  next
    case (Some bs)
    obtain r d where l: "TPM_LoadAuthContext dv bs (dev st) = Some (r, d)"
      using assms Some \<open>first_index _ _ = Some i\<close> by (auto simp: auth_mgr_check_def split: bind_splits)
    let ?st = "st\<lparr>dev := d\<rparr>"
    have d: "same_slots st ?st" by (simp add: same_slots_def)
    show ?thesis
    proof (cases "r = Inl TPM_E_RESOURCES")
      case True
      then obtain w st1 where w: "auth_mgr_swap_out dv cfg tcs c ?st = Some (w, st1)"
        using assms Some l \<open>first_index _ _ = Some i\<close> by (auto simp: auth_mgr_check_def split: bind_splits)
      have s: "same_slots st st1" using swap_out_slots [OF w] d same_slots_trans by blast
      have "same_slots st1 st'"
        using assms Some l \<open>first_index _ _ = Some i\<close> True w i same_slots_length [OF s]
        by (auto simp: auth_mgr_check_def same_slots_refl split: bind_splits outcome.splits if_splits dest!: check_retry_slots)
      then show ?thesis using s same_slots_trans by blast
    next
      case False
      then show ?thesis using assms Some l \<open>first_index _ _ = Some i\<close> i
        by (cases r) (auto simp: auth_mgr_check_def same_slots_def map_full_update Let_def split: if_splits)
    qed
  qed
qed

lemma open_session_accounted [accounts]:
  "open_session run c st = Some (x, st') \<Longrightarrow> accounted st \<Longrightarrow> accounted st'"
proof -
  assume o: "open_session run c st = Some (x, st')" and a: "accounted st"
  then obtain r d where r: "run (dev st) = Some (r, d)" by (auto simp: open_session_def split: bind_splits)
  have d: "accounted (st\<lparr>dev := d\<rparr>)" using a by (simp add: accounted_def)
  show ?thesis using o r d
    by (cases r) (auto simp: open_session_def split: prod.splits if_splits dest: add_accounted)
qed

lemma request_accounted [accounts]:
  "request_session dv cfg tcs run c st = Some (x, st') \<Longrightarrow> accounted st \<Longrightarrow> accounted st'"
  by (auto simp: request_session_def split: if_splits bind_splits outcome.splits
      dest!: open_session_accounted swap_out_accounted)

lemma terminate_accounted [accounts]:
  "TCSP_TerminateHandle_Internal dv cfg tcs c h st = Some (x, st') \<Longrightarrow> accounted st \<Longrightarrow> accounted st'"
  using same_slots_accounted
  by (auto simp: TCSP_TerminateHandle_Internal_def split: if_splits bind_splits outcome.splits
      dest!: release_handle_accounted check_slots)

section \<open>Reachable states\<close>

text \<open>The steps of the manager; a thread that waited goes on by one of the \<open>wake\<close> steps, from the
  state it finds then.\<close>

inductive auth_step :: "'t auth_mgr \<Rightarrow> 't auth_mgr \<Rightarrow> bool" where
  close_sessions: "auth_mgr_close_context dv c st = Some (r, st') \<Longrightarrow> auth_step st st'"
| release_auth: "auth_mgr_release_auth dv a0 a1 c st = Some st' \<Longrightarrow> auth_step st st'"
| use_session: "auth_mgr_check dv cfg tcs c h st = Some (x, st') \<Longrightarrow> auth_step st st'"
| oiap: "auth_mgr_oiap dv cfg tcs c st = Some (y, st') \<Longrightarrow> auth_step st st'"
| osap: "auth_mgr_osap dv cfg tcs slot c et ev nonce st = Some (z, st') \<Longrightarrow> auth_step st st'"
| apcreate: "auth_mgr_APCreate dv cfg tcs slot c et ev nonce mac st = Some (w, st') \<Longrightarrow> auth_step st st'"
| terminate: "TCSP_TerminateHandle_Internal dv cfg tcs c h st = Some (v, st') \<Longrightarrow> auth_step st st'"
| wake_retry: "i < length (auth_mapper st) \<Longrightarrow> check_retry dv i h (woken st) = Some (x, st') \<Longrightarrow> auth_step st st'"
| wake_oiap: "open_session (TCSP_OIAP_Internal dv verified) c (woken st) = Some (y, st') \<Longrightarrow> auth_step st st'"
| wake_osap: "open_session (TCSP_OSAP_Internal dv verified et ev nonce) c (woken st) = Some (z, st') \<Longrightarrow> auth_step st st'"
| wake_apcreate: "open_session (TCSP_APCreate_Internal dv verified et ev nonce mac) c (woken st) = Some (w, st') \<Longrightarrow>
     auth_step st st'"

inductive auth_reach :: "'t auth_mgr \<Rightarrow> bool" where
  start: "auth_mgr_init n st = (TSS_SUCCESS, st') \<Longrightarrow> auth_reach st'"
| step: "auth_reach st \<Longrightarrow> auth_step st st' \<Longrightarrow> auth_reach st'"

lemma init_accounted: "auth_mgr_init n st = (TSS_SUCCESS, st') \<Longrightarrow> accounted st'"
  by (auto simp: auth_mgr_init_def am_alloc_def accounted_def empty_map_def Let_def split: if_splits)

lemma auth_step_accounted: "auth_step st st' \<Longrightarrow> accounted st \<Longrightarrow> accounted st'"
proof (induction rule: auth_step.induct)
  case (wake_retry i st dv h x st')
  have "i < length (auth_mapper (woken st))" using wake_retry(1) by (simp add: woken_def)
  then show ?case using check_retry_accounted [OF wake_retry(2)] same_slots_accounted [OF woken_slots wake_retry(3)] by blast
next
  case (wake_oiap dv verified c st y st')
  then show ?case using open_session_accounted same_slots_accounted [OF woken_slots] by blast
next
  case (wake_osap dv verified et ev nonce c st z st')
  then show ?case using open_session_accounted same_slots_accounted [OF woken_slots] by blast
next
  case (wake_apcreate dv verified et ev nonce mac c st w st')
  then show ?case using open_session_accounted same_slots_accounted [OF woken_slots] by blast
next
  case (use_session dv cfg tcs c h st x st')
  then show ?case using check_slots same_slots_accounted by blast
next
  case (osap dv cfg tcs slot c et ev nonce st z st')
  then show ?case by (auto simp: auth_mgr_osap_def split: option.splits if_splits intro: request_accounted)
next
  case (apcreate dv cfg tcs slot c et ev nonce mac st w st')
  then show ?case by (auto simp: auth_mgr_APCreate_def split: option.splits if_splits intro: request_accounted)
qed (auto simp: auth_mgr_oiap_def intro: accounts)

text \<open>In every state the daemon can reach from a successful \<open>auth_mgr_init\<close>, whatever the device
  answers, the counter of open sessions is the number of used slots.\<close>

theorem auth_table_accounting:
  assumes "auth_reach st"
  shows "open_auth_sessions st = of_nat (length (filter am_full (auth_mapper st)))"
  using assms by (induction rule: auth_reach.induct)
    (use init_accounted auth_step_accounted in \<open>auto simp: accounted_def\<close>)

section \<open>The queue as an interface\<close>

fun serve_n :: "('s \<Rightarrow> 's option) \<Rightarrow> nat \<Rightarrow> 's \<Rightarrow> 's option" where
  "serve_n serve 0 s = Some s"
| "serve_n serve (Suc n) s = serve s \<bind> serve_n serve n"

locale fifo_queue =
  fixes holds :: "'s \<Rightarrow> 'a list \<Rightarrow> bool" and room :: "'s \<Rightarrow> nat" and served :: "'s \<Rightarrow> 'a list"
    and enq :: "'a \<Rightarrow> 's \<Rightarrow> 's" and serve :: "'s \<Rightarrow> 's option"
  assumes enq_law: "holds s q \<Longrightarrow> length q < room s \<Longrightarrow>
      holds (enq a s) (q @ [a]) \<and> room (enq a s) = room s \<and> served (enq a s) = served s"
    and serve_law: "holds s q \<Longrightarrow>
      \<exists>s'. serve s = Some s' \<and> holds s' (tl q) \<and> room s' = room s \<and> served s' = served s @ take 1 q"
begin

lemma enq_all:
  "holds s q \<Longrightarrow> length q + length as \<le> room s \<Longrightarrow>
   holds (fold enq as s) (q @ as) \<and> room (fold enq as s) = room s \<and> served (fold enq as s) = served s"
proof (induction as arbitrary: s q)
  case (Cons a as)
  have "length q < room s" using Cons.prems(2) by simp
  then show ?case using enq_law [OF Cons.prems(1)] Cons.IH [of "enq a s" "q @ [a]"] Cons.prems(2) by simp
qed simp

lemma serve_some:
  "holds s q \<Longrightarrow> \<exists>s'. serve_n serve n s = Some s' \<and> holds s' (drop n q) \<and> room s' = room s \<and> served s' = served s @ take n q"
proof (induction n arbitrary: s q)
  case (Suc n)
  obtain s1 where s1: "serve s = Some s1" "holds s1 (tl q)" "room s1 = room s" "served s1 = served s @ take 1 q"
    using serve_law [OF Suc.prems] by blast
  obtain s' where "serve_n serve n s1 = Some s'" "holds s' (drop n (tl q))" "room s' = room s1"
    "served s' = served s1 @ take n (tl q)" using Suc.IH [OF s1(2)] by blast
  then show ?case using s1 by (cases q) auto
qed simp

lemma served_in_order:
  assumes "holds s q" "length q + length as \<le> room s"
  shows "\<exists>s'. serve_n serve n (fold enq as s) = Some s' \<and> holds s' (drop n (q @ as)) \<and> served s' = served s @ take n (q @ as)"
  using enq_all [OF assms] serve_some [of "fold enq as s" "q @ as" n] by auto

end

interpretation waiting: fifo_queue ring "\<lambda>st. length (overflow st)" signalled "\<lambda>c st. snd (go_to_sleep c st)" auth_mgr_swap_in
proof
  fix st :: "'t auth_mgr" and q c
  assume r: "ring st q" "length q < length (overflow st)"
  have "length (overflow (snd (go_to_sleep c st))) = length (overflow st)" by (simp add: go_to_sleep_def)
  then show "ring (snd (go_to_sleep c st)) (q @ [c]) \<and> length (overflow (snd (go_to_sleep c st))) = length (overflow st)
      \<and> signalled (snd (go_to_sleep c st)) = signalled st"
    using sleep_ring [OF r, of c] by auto
next
  fix st :: "'t auth_mgr" and q
  assume r: "ring st q"
  have "length (overflow st') = length (overflow st)" if "auth_mgr_swap_in st = Some st'" for st'
    using that by (auto simp: auth_mgr_swap_in_def split: bind_splits option.splits)
  then show "\<exists>st'. auth_mgr_swap_in st = Some st' \<and> ring st' (tl q) \<and> length (overflow st') = length (overflow st)
      \<and> signalled st' = signalled st @ take 1 q"
    using swap_in_ring [OF r] by blast
qed

section \<open>Closing the sessions of a context\<close>

definition close_map :: "u32 \<Rightarrow> auth_map \<Rightarrow> auth_map" where
  "close_map h e = (if am_full e \<and> am_tcs_ctx e = h then e\<lparr>am_full := False, am_swap := None\<rparr> else e)"

lemma flush_returns:
  assumes "well_behaved dv" "dev_ready (dev st)"
  shows "\<exists>r d. flush_session dv h st = Some (r, st\<lparr>dev := d\<rparr>) \<and> dev_ready d"
proof -
  obtain r d where f: "TCSP_FlushSpecific_Common dv h TPM_RT_AUTH (dev st) = Some (r, d)" "dev_ready d"
    using FlushSpecific_returns [OF assms] by blast
  obtain r' d' where t: "internal_TerminateHandle dv h d = Some (r', d')" "dev_ready d'"
    using TerminateHandle_returns [OF assms(1) f(2)] by blast
  show ?thesis using f t by (cases "r = TPM_E_BAD_ORDINAL") (auto simp: flush_session_def)
qed

text \<open>One session of the context.\<close>

lemma close_one:
  assumes "well_behaved dv" "dev_ready (dev st)" "ring st q" "i < length (auth_mapper st)"
    "am_full (auth_mapper st ! i)" "am_tcs_ctx (auth_mapper st ! i) = h"
  shows "\<exists>st'. close_context_loop dv h (i # is) st = close_context_loop dv h is st'
    \<and> dev_ready (dev st') \<and> ring st' (tl q) \<and> signalled st' = signalled st @ take 1 q
    \<and> auth_mapper st' = (auth_mapper st)[i := close_map h (auth_mapper st ! i)]
    \<and> open_auth_sessions st' = open_auth_sessions st - 1"
proof -
  let ?e = "auth_mapper st ! i"
  define x where "x = (case am_swap ?e of
      Some bs \<Rightarrow> Some (st\<lparr>auth_mapper := (auth_mapper st)[i := ?e\<lparr>am_swap := None\<rparr>]\<rparr>)
    | None \<Rightarrow> map_option snd (flush_session dv (am_tpm_handle ?e) st))"
  have l: "close_context_loop dv h (i # is) st = do { st \<leftarrow> x; st \<leftarrow> free_slot i st; close_context_loop dv h is st }"
    unfolding x_def using assms(5,6) by (simp add: Let_def)
  obtain d where x: "x = Some (st\<lparr>auth_mapper := (auth_mapper st)[i := ?e\<lparr>am_swap := None\<rparr>], dev := d\<rparr>)" "dev_ready d"
  proof (cases "am_swap ?e")
    case None
    obtain r d where "flush_session dv (am_tpm_handle ?e) st = Some (r, st\<lparr>dev := d\<rparr>)" "dev_ready d"
      using flush_returns [OF assms(1,2)] by blast
    moreover have "?e\<lparr>am_swap := None\<rparr> = ?e" using None by (cases ?e) simp
    moreover have "st\<lparr>auth_mapper := (auth_mapper st)[i := ?e], dev := d\<rparr> = st\<lparr>dev := d\<rparr>" by (cases st) simp
    ultimately show ?thesis using that [of d] None by (simp only: x_def) simp
  next
    case (Some bs)
    then show ?thesis using that [of "dev st"] assms(2) by (simp add: x_def)
  qed
  let ?st = "st\<lparr>auth_mapper := (auth_mapper st)[i := close_map h ?e], dev := d,
     open_auth_sessions := open_auth_sessions st - 1\<rparr>"
  have c: "close_map h ?e = ?e\<lparr>am_swap := None, am_full := False\<rparr>"
    using assms(5,6) by (cases ?e) (simp add: close_map_def)
  have "ring ?st q" using assms(3) by (simp add: ring_def)
  from swap_in_ring [OF this] obtain st' where s: "auth_mgr_swap_in ?st = Some st'" "ring st' (tl q)"
    "signalled st' = signalled st @ take 1 q"
    "st' = ?st\<lparr>signalled := signalled st', overflow := overflow st', of_tail := of_tail st'\<rparr>" by auto
  have "free_slot i (st\<lparr>auth_mapper := (auth_mapper st)[i := ?e\<lparr>am_swap := None\<rparr>], dev := d\<rparr>) = auth_mgr_swap_in ?st"
    using assms(4) c by (cases st) (simp add: free_slot_def)
  then have f: "close_context_loop dv h (i # is) st = close_context_loop dv h is st'" using l x(1) s(1) by simp
  have "auth_mapper st' = auth_mapper ?st \<and> dev st' = dev ?st \<and> open_auth_sessions st' = open_auth_sessions ?st"
    by (subst (1 2 3) s(4)) simp
  then show ?thesis using f s(2,3) x(2) by auto
qed

lemma close_loop:
  assumes "well_behaved dv" "dev_ready (dev st)" "ring st q" "set is \<subseteq> {..<length (auth_mapper st)}" "distinct is"
    and "m = length (filter (\<lambda>i. am_full (auth_mapper st ! i) \<and> am_tcs_ctx (auth_mapper st ! i) = h) is)"
  shows "\<exists>st'. close_context_loop dv h is st = Some st' \<and> dev_ready (dev st') \<and> ring st' (drop m q)
    \<and> signalled st' = signalled st @ take m q
    \<and> length (auth_mapper st') = length (auth_mapper st)
    \<and> (\<forall>i < length (auth_mapper st). auth_mapper st' ! i =
         (if i \<in> set is then close_map h (auth_mapper st ! i) else auth_mapper st ! i))
    \<and> open_auth_sessions st' = open_auth_sessions st - of_nat m"
  using assms(2-)
proof (induction "is" arbitrary: st q m)
  case (Cons i "is")
  let ?P = "\<lambda>st i. am_full (auth_mapper st ! i) \<and> am_tcs_ctx (auth_mapper st ! i) = h"
  have i: "i < length (auth_mapper st)" "i \<notin> set is" "distinct is" "set is \<subseteq> {..<length (auth_mapper st)}"
    using Cons.prems by simp_all
  show ?case
  proof (cases "?P st i")
    case True
    then obtain st1 where s: "close_context_loop dv h (i # is) st = close_context_loop dv h is st1"
      "dev_ready (dev st1)" "ring st1 (tl q)" "signalled st1 = signalled st @ take 1 q"
      "auth_mapper st1 = (auth_mapper st)[i := close_map h (auth_mapper st ! i)]"
      "open_auth_sessions st1 = open_auth_sessions st - 1"
      using close_one [OF assms(1) Cons.prems(1,2) i(1)] by blast
    define k where "k = length (filter (?P st1) is)"
    have e: "auth_mapper st1 ! j = auth_mapper st ! j" if "j \<noteq> i" for j using s(5) that by simp
    have "filter (?P st1) is = filter (?P st) is"
    proof (rule filter_cong [OF refl])
      fix j assume "j \<in> set is"
      then show "?P st1 j = ?P st j" using i(2) e [of j] by (cases "j = i") auto
    qed
    then have m: "m = Suc k" using Cons.prems(5) True by (simp add: k_def)
    obtain st' where st': "close_context_loop dv h is st1 = Some st'" "dev_ready (dev st')" "ring st' (drop k (tl q))"
      "signalled st' = signalled st1 @ take k (tl q)" "length (auth_mapper st') = length (auth_mapper st1)"
      "\<forall>j < length (auth_mapper st1). auth_mapper st' ! j =
         (if j \<in> set is then close_map h (auth_mapper st1 ! j) else auth_mapper st1 ! j)"
      "open_auth_sessions st' = open_auth_sessions st1 - of_nat k"
      using Cons.IH [OF s(2,3) _ i(3) k_def] i(4) s(5) by auto
    have "\<forall>j < length (auth_mapper st). auth_mapper st' ! j =
         (if j \<in> set (i # is) then close_map h (auth_mapper st ! j) else auth_mapper st ! j)"
      using st'(6) s(5) i(1,2) by (auto simp: nth_list_update)
    then show ?thesis using s st' m by (cases q) auto
  next
    case False
    then have "close_context_loop dv h (i # is) st = close_context_loop dv h is st"
      by (simp only: close_context_loop.simps Let_def if_False)
    moreover have "m = length (filter (?P st) is)" using Cons.prems(5) False by simp
    moreover have "close_map h (auth_mapper st ! i) = auth_mapper st ! i" using False by (auto simp: close_map_def)
    ultimately show ?thesis using Cons.IH [OF Cons.prems(1,2) i(4,3)] by auto
  qed
qed simp

text \<open>C15: closing a context.  With a well-behaved driver it always returns, frees exactly the slots of
  the context, wherever their sessions are, drops the counter by their number, and wakes as many
  waiting threads, the longest waiting first.\<close>

theorem close_context_closes:
  assumes "well_behaved dv" "dev_ready (dev st)" "ring st q"
    and "m = length (filter (\<lambda>e. am_full e \<and> am_tcs_ctx e = h) (auth_mapper st))"
  shows "\<exists>st'. auth_mgr_close_context dv h st = Some (TSS_SUCCESS, st')
    \<and> auth_mapper st' = map (close_map h) (auth_mapper st)
    \<and> open_auth_sessions st' = open_auth_sessions st - of_nat m
    \<and> signalled st' = signalled st @ take m q \<and> ring st' (drop m q)"
proof -
  let ?P = "\<lambda>e. am_full e \<and> am_tcs_ctx e = h" and ?n = "length (auth_mapper st)"
  have "length (filter ?P (map (nth (auth_mapper st)) [0..<?n])) = length (filter (\<lambda>i. ?P (auth_mapper st ! i)) [0..<?n])"
    by (simp add: comp_def)
  then have m: "m = length (filter (\<lambda>i. ?P (auth_mapper st ! i)) [0..<?n])" using assms(4) by (simp add: map_nth)
  from close_loop [OF assms(1-3) _ distinct_upt m] obtain st' where s:
    "close_context_loop dv h [0..<?n] st = Some st'" "ring st' (drop m q)" "signalled st' = signalled st @ take m q"
    "length (auth_mapper st') = ?n"
    "\<forall>i < ?n. auth_mapper st' ! i = (if i \<in> set [0..<?n] then close_map h (auth_mapper st ! i) else auth_mapper st ! i)"
    "open_auth_sessions st' = open_auth_sessions st - of_nat m"
    by (auto simp: atLeast0LessThan)
  have "auth_mapper st' = map (close_map h) (auth_mapper st)"
    using s(4,5) by (intro nth_equalityI) auto
  then show ?thesis using s by (simp add: auth_mgr_close_context_def)
qed

text \<open>C22: threads wait first come, first served: while the queue has room, the threads \<open>cs\<close> that go to
  sleep are woken, after those already waiting, in the order in which they came, one for every slot
  that is freed.\<close>

theorem auth_queue_fifo:
  assumes "ring st q" "length q + length cs \<le> length (overflow st)"
  shows "\<exists>st'. serve_n auth_mgr_swap_in n (fold (\<lambda>c st. snd (go_to_sleep c st)) cs st) = Some st'
    \<and> ring st' (drop n (q @ cs)) \<and> signalled st' = signalled st @ take n (q @ cs)"
  using assms by (rule waiting.served_in_order)

text \<open>C28: a thread that has to wait joins the end of the queue.  When the queue is full and no woken
  thread is still to run, the array grows, and the queue is rotated by the number of entries that
  were behind \<open>of_tail\<close>: the threads are then woken in another order.\<close>

theorem wait_for_slot_queue:
  assumes "ring st q" "ctx_get_cond_var h tcs = Some c" "sleeping_threads st \<noteq> num_threads cfg - 1"
    and "length (overflow st) + 16 < 2 ^ 32 - 1"
  shows "(length q < length (overflow st) \<longrightarrow>
      (\<exists>st'. wait_for_slot cfg tcs h st = Some (Waiting c, st') \<and> ring st' (q @ [c])))
    \<and> (length q = length (overflow st) \<and> sleeping_threads st = osize st \<and> am_ok st (am_count st) \<longrightarrow>
      (\<exists>st'. wait_for_slot cfg tcs h st = Some (Waiting c, st')
        \<and> ring st' (rotate (length q - unat (of_tail st)) q @ [c])))"
proof (intro conjI impI)
  have h: "unat (of_head st) < length (overflow st)" using assms(1) ring_nonempty [OF assms(1)] by (simp add: ring_def)
  show "\<exists>st'. wait_for_slot cfg tcs h st = Some (Waiting c, st') \<and> ring st' (q @ [c])" if "length q < length (overflow st)"
    using that sleep_ring [OF assms(1), of c] ring_head [OF assms(1)] h assms(2,3)
    by (auto simp: wait_for_slot_def nth_opt_def)
  show "\<exists>st'. wait_for_slot cfg tcs h st = Some (Waiting c, st') \<and> ring st' (rotate (length q - unat (of_tail st)) q @ [c])"
    if f: "length q = length (overflow st) \<and> sleeping_threads st = osize st \<and> am_ok st (am_count st)"
  proof -
    have "overflow st ! unat (of_head st) \<noteq> None" using ring_head [OF assms(1)] f by simp
    moreover have "osize st + of_nat 16 < UINT_MAX"
      using assms(4) by (simp add: word_less_nat_alt osize_def unat_word_ariths unat_of_nat take_bit_nat_eq_self)
    ultimately show ?thesis
      using grow_ring [OF assms(1) _ _ _, of c] f h assms(2,3,4)
      by (auto simp: wait_for_slot_def nth_opt_def)
  qed
qed

text \<open>A new session that is entered into a free slot is found again, and used without a command
  when the slot has no old swap blob.  When the table was full, \<open>auth_mgr_add\<close> reports success too,
  but it only makes the table longer: the session is not found and cannot be used.\<close>

theorem auth_session_recorded:
  assumes "\<forall>e \<in> set (auth_mapper st). am_full e \<longrightarrow> \<not> (am_tpm_handle e = h \<and> am_tcs_ctx e = c)"
    and "am_ok st (am_count st)"
  shows "case first_index (\<lambda>e. \<not> am_full e) (auth_mapper st) of
     Some i \<Rightarrow> \<exists>st'. auth_mgr_add c h st = (TSS_SUCCESS, st')
       \<and> (am_swap (auth_mapper st ! i) = None \<longrightarrow>
            auth_mgr_check dv cfg tcs c h st' = Some (Finished (TSS_SUCCESS, h), st'))
   | None \<Rightarrow> \<exists>st'. auth_mgr_add c h st = (TSS_SUCCESS, st')
       \<and> auth_mgr_check dv cfg tcs c h st' = Some (Finished (TCSERR TSS_E_INTERNAL_ERROR, h), st')"
proof (cases "first_index (\<lambda>e. \<not> am_full e) (auth_mapper st)")
  case None
  let ?st = "st\<lparr>am_count := Suc (am_count st), auth_mapper := auth_mapper st @ replicate 16 empty_map\<rparr>"
  have "auth_mgr_add c h st = (TSS_SUCCESS, ?st)"
    using None assms(2) by (simp add: auth_mgr_add_def am_alloc_def)
  moreover have "first_index (\<lambda>e. am_full e \<and> am_tpm_handle e = h \<and> am_tcs_ctx e = c) (auth_mapper ?st) = None"
    using assms(1) by (auto simp: first_index_none empty_map_def)
  then have "auth_mgr_check dv cfg tcs c h ?st = Some (Finished (TCSERR TSS_E_INTERNAL_ERROR, h), ?st)"
    by (simp add: auth_mgr_check_def)
  ultimately show ?thesis using None by simp
next
  case (Some i)
  let ?e = "(auth_mapper st ! i)\<lparr>am_tpm_handle := h, am_tcs_ctx := c, am_full := True\<rparr>"
  let ?st = "st\<lparr>auth_mapper := (auth_mapper st)[i := ?e], open_auth_sessions := open_auth_sessions st + 1\<rparr>"
  let ?P = "\<lambda>e. am_full e \<and> am_tpm_handle e = h \<and> am_tcs_ctx e = c"
  have i: "i < length (auth_mapper st)" using first_index_some [OF Some] by simp
  have "first_index ?P (auth_mapper ?st) = Some i"
  proof (cases "first_index ?P (auth_mapper ?st)")
    case None
    then have "\<forall>e \<in> set ((auth_mapper st)[i := ?e]). \<not> ?P e" by (simp add: first_index_none)
    from bspec [OF this set_update_memI [OF i]] show ?thesis by simp
  next
    case (Some j)
    have j: "j < length (auth_mapper st)" "?P ((auth_mapper st)[i := ?e] ! j)" using first_index_some [OF Some] by auto
    then have "j = i" using assms(1) nth_mem [OF j(1)] by (cases "j = i") auto
    then show ?thesis using Some by simp
  qed
  then have "auth_mgr_check dv cfg tcs c h ?st = Some (Finished (TSS_SUCCESS, h), ?st)"
    if "am_swap (auth_mapper st ! i) = None"
    using that i by (simp add: auth_mgr_check_def)
  then show ?thesis using Some by (simp add: auth_mgr_add_def)
qed

section \<open>Examples\<close>

text \<open>Slots of context 5, used or not, and a queue of waiting threads.\<close>

definition ex_auth :: "bool list \<Rightarrow> u32 option list \<Rightarrow> u32 \<Rightarrow> u32 \<Rightarrow> u32 \<Rightarrow> 't tddl \<Rightarrow> 't auth_mgr" where
  "ex_auth used queue head tail n d =
     \<lparr>max_auth_sessions = 2, open_auth_sessions = of_nat (length (filter id used)), sleeping_threads = n,
      overflow = queue, of_head = head, of_tail = tail,
      auth_mapper = map (\<lambda>u. \<lparr>am_full = u, am_tpm_handle = 7, am_tcs_ctx = 5, am_swap = None\<rparr>) used,
      signalled = [], am_ok = (\<lambda>n. True), am_count = 0, dev = d\<rparr>"

theorem auth_queue_fifo_witness:
  "\<exists>st'. serve_n auth_mgr_swap_in 2 (fold (\<lambda>c st. snd (go_to_sleep c st)) [12, 13]
       (ex_auth [] [None, Some 11, None] 2 1 1 calm_tddl)) = Some st' \<and> signalled st' = [11, 12]"
  using auth_queue_fifo [of "ex_auth [] [None, Some 11, None] 2 1 1 calm_tddl" "[11]" "[12, 13]" 2]
  by (auto simp: ring_def ex_auth_def)

theorem wait_for_slot_queue_witness:
  "\<exists>st'. wait_for_slot \<lparr>authctx_swap = False, num_threads = 10\<rparr> ex_tcs2 0xA0000000
      (ex_auth [] [Some 12, Some 11] 1 1 2 calm_tddl) = Some (Waiting 0xA0000000, st') \<and> ring st' [12, 11, 0xA0000000]"
proof -
  let ?st = "ex_auth [] [Some 12, Some 11] 1 1 2 calm_tddl"
  have "ring ?st [11, 12]" by (simp add: ring_def ex_auth_def mod_Suc)
  moreover have "ctx_get_cond_var 0xA0000000 ex_tcs2 = Some 0xA0000000"
    by (simp add: ctx_get_cond_var_def get_context_def ex_tcs2_table)
  moreover have "sleeping_threads ?st = osize ?st" "am_ok ?st (am_count ?st)" "length (overflow ?st) = 2"
    "sleeping_threads ?st = 2" "of_tail ?st = 1"
    by (simp_all add: ex_auth_def osize_def)
  ultimately show ?thesis
    using wait_for_slot_queue [of ?st "[11, 12]" "0xA0000000" ex_tcs2 "0xA0000000" "\<lparr>authctx_swap = False, num_threads = 10\<rparr>"]
    by simp
qed

theorem auth_session_recorded_witness:
  "\<exists>st'. auth_mgr_add 5 8 (ex_auth [True, True] [] 0 0 0 calm_tddl) = (TSS_SUCCESS, st')
     \<and> auth_mgr_check calm \<lparr>authctx_swap = False, num_threads = 10\<rparr> ex_tcs2 5 8 st'
         = Some (Finished (TCSERR TSS_E_INTERNAL_ERROR, 8), st')"
  using auth_session_recorded [of "ex_auth [True, True] [] 0 0 0 calm_tddl" 8 5 calm
      "\<lparr>authctx_swap = False, num_threads = 10\<rparr>" ex_tcs2]
  by (simp add: ex_auth_def)

theorem close_context_closes_witness:
  "\<exists>st'. auth_mgr_close_context calm 5 (ex_auth [True, False, True] [Some 11, Some 12, Some 13] 0 0 3 calm_tddl)
       = Some (TSS_SUCCESS, st') \<and> open_auth_sessions st' = 0 \<and> signalled st' = [11, 12] \<and> ring st' [13]"
proof -
  let ?st = "ex_auth [True, False, True] [Some 11, Some 12, Some 13] 0 0 3 calm_tddl"
  have "dev_ready (dev ?st)" "ring ?st [11, 12, 13]"
    by (simp_all add: ex_auth_def dev_ready_def calm_tddl_def ring_def)
  from close_context_closes [OF calm_well_behaved this refl, of 5] show ?thesis
    by (auto simp: ex_auth_def)
qed

lemma oiap_example:
  "\<exists>d. TCSP_OIAP_Internal script 0 (ex_tddl [answer 0 (be32 7 @ replicate 32 1)]) = Some (Inr (7, replicate 32 1), d)"
proof -
  let ?r = "answer 0 (be32 7 @ replicate 32 1)" and ?st = "ex_tddl [answer 0 (be32 7 @ replicate 32 1)]"
  obtain b where b: "rqu_OIAP (stack_buf script ?st) = Some b" "length b = TSS_TPM_TXBLOB_SIZE" "read_at b 2 4 = be32 10"
    using rqu_put [OF length_stack_buf [of script ?st], of "[]" Some TPM_ORD_OIAP]
    by (simp add: rqu_OIAP_def put_simps read_at_append1 read_at_append2)
  obtain d where t: "Tddli_TransmitData script b (Decode_UINT32 (read_at b 2 4)) 4096 ?st = Some ((0, of_nat (length ?r), ?r), d)"
    using script_transmit [of ?r ?st "[]" b 10] b by (auto simp: ex_tddl_def)
  let ?tx = "?r @ drop (length ?r) b"
  have "length (be32 7 @ replicate 32 (1 :: u8)) \<le> 4086" by simp
  from submit_req_response [OF b(2) t answer_response [OF this]]
  have "req_mgr_submit_req script b ?st = Some ((0, ?tx), d)" by simp
  moreover have tx: "rd ?tx 2 4 = Some (be32 46)" "rd ?tx 6 4 = Some (be32 0)" "rd ?tx 10 4 = Some (be32 7)"
    "rd ?tx 14 32 = Some (replicate 32 1)"
    using b(2) by (simp_all add: answer_def rd_def read_at_append1 read_at_append2)
  ultimately have "exec script rqu_OIAP ?st = Some ((0, ?tx), d)"
    using b(1) by (simp add: exec_def UnloadBlob_Header_def)
  then show ?thesis using tx by (simp add: TCSP_OIAP_Internal_def UnloadBlob_UINT32_def UnloadBlob_def)
qed

text \<open>A manager after its start, and a session opened for context 5.\<close>

theorem auth_table_accounting_witness:
  "\<exists>st :: u8 list list auth_mgr. auth_reach st \<and> open_auth_sessions st = of_nat (length (filter am_full (auth_mapper st)))
     \<and> open_auth_sessions st = 1"
proof -
  let ?s0 = "ex_auth [] [] 0 0 1 (ex_tddl [answer 0 (be32 7 @ replicate 32 1)])"
  obtain s1 where i: "auth_mgr_init 3 ?s0 = (TSS_SUCCESS, s1)" and s1: "open_auth_sessions s1 = 0"
    "auth_mapper s1 = replicate 16 empty_map" "dev s1 = ex_tddl [answer 0 (be32 7 @ replicate 32 1)]"
    by (simp add: auth_mgr_init_def am_alloc_def ex_auth_def Let_def)
  obtain d where d: "TCSP_OIAP_Internal script 0 (dev (woken s1)) = Some (Inr (7, replicate 32 1), d)"
    using oiap_example s1(3) by (auto simp: woken_def)
  let ?s1 = "woken s1\<lparr>dev := d\<rparr>"
  have "first_index (\<lambda>e. \<not> am_full e) (auth_mapper ?s1) = Some 0"
    using s1(2) by (simp add: woken_def numeral_eq_Suc empty_map_def)
  then obtain s2 where s2: "auth_mgr_add 5 7 ?s1 = (TSS_SUCCESS, s2)" "open_auth_sessions s2 = 1"
    using s1(1) by (auto simp: auth_mgr_add_def woken_def)
  then have "open_session (TCSP_OIAP_Internal script 0) 5 (woken s1) = Some (Inr (7, replicate 32 1), s2)"
    using d by (simp add: open_session_def)
  then have "auth_reach s2" using auth_reach.step [OF auth_reach.start [OF i] wake_oiap] by blast
  with auth_table_accounting [OF this] s2(2) show ?thesis by blast
qed

end
