(* ===== verification/Tcs_Evlog.thy ===== *)
theory Tcs_Evlog
  imports Tcs_Context "HOL-Library.Multiset"
begin

text \<open>
  The event log of the daemon (\<open>tcs/tcs_evlog.c\<close>): one list of PCR events per PCR, in the order in
  which they were logged, and the commands on it (\<open>tcs/tcsi_evlog.c\<close>).

  The log itself is a pointer that may be NULL, dangling, or a table of lists.  The logs that the
  kernel or the firmware keeps are read by an external source, a record of functions on a state of
  the world; a source that finds no events allocates no array.  The result \<open>None\<close> is an access outside the table, through a bad pointer, or an
  undefined shift.  \<open>ev_live\<close> counts the heap objects of this component.
\<close>

section \<open>State\<close>

datatype log_ptr = NoLog | DeadLog | Log "TSS_PCR_EVENT list list"

record 'w ev_state =
  ev_log :: log_ptr
  ev_ok :: "nat \<Rightarrow> bool"
  ev_count :: nat
  ev_live :: int
  ev_freed :: "ptr list"
  ev_world :: 'w

text \<open>The functions of an external source: a result code (0 is success) and the outputs.\<close>

record 'w ext_source =
  so_open :: "'w \<Rightarrow> u32 \<times> 'w"
  so_get_entry :: "u32 \<Rightarrow> u32 \<Rightarrow> bool \<Rightarrow> 'w \<Rightarrow> (u32 \<times> u32 \<times> TSS_PCR_EVENT option) \<times> 'w"
  so_get_entries_by_pcr :: "u32 \<Rightarrow> u32 \<Rightarrow> u32 \<Rightarrow> 'w \<Rightarrow> (u32 \<times> TSS_PCR_EVENT list) \<times> 'w"
  so_close :: "'w \<Rightarrow> 'w"

text \<open>\<open>tpm_metrics.num_pcrs\<close>, the masks of \<open>tcsd_options\<close>, and the sources compiled in.\<close>

record 'w ev_cfg =
  num_pcrs :: u32
  kernel_pcrs :: u32
  firmware_pcrs :: u32
  kernel_source :: "'w ext_source option"
  firmware_source :: "'w ext_source option"

definition ev_alloc :: "'w ev_state \<Rightarrow> bool \<times> 'w ev_state" where
  "ev_alloc st =
     (if ev_ok st (ev_count st) then (True, st\<lparr>ev_count := Suc (ev_count st), ev_live := ev_live st + 1\<rparr>)
      else (False, st\<lparr>ev_count := Suc (ev_count st)\<rparr>))"

definition ev_free :: "'w ev_state \<Rightarrow> 'w ev_state" where
  "ev_free st = st\<lparr>ev_live := ev_live st - 1\<rparr>"

definition the_lists :: "'w ev_state \<Rightarrow> TSS_PCR_EVENT list list option" where
  "the_lists st = (case ev_log st of Log ls \<Rightarrow> Some ls | _ \<Rightarrow> None)"

definition list_at :: "u32 \<Rightarrow> 'w ev_state \<Rightarrow> TSS_PCR_EVENT list option" where
  "list_at i st = do { ls \<leftarrow> the_lists st; if unat i < length ls then Some (ls ! unat i) else None }"

section \<open>The lists\<close>

definition event_log_init :: "'w ev_cfg \<Rightarrow> 'w ev_state \<Rightarrow> u32 \<times> 'w ev_state" where
  "event_log_init cfg st =
     (if ev_log st \<noteq> NoLog then (TSS_SUCCESS, st)
      else let (ok, st) = ev_alloc st
           in if \<not> ok then (TCSERR TSS_E_OUTOFMEMORY, st)
              else let (ok, st) = ev_alloc st
                   in if \<not> ok then (TCSERR TSS_E_OUTOFMEMORY, ev_free st\<lparr>ev_log := DeadLog\<rparr>)
                      else (TSS_SUCCESS, st\<lparr>ev_log := Log (replicate (unat (num_pcrs cfg)) [])\<rparr>))"

fun free_wrappers :: "TSS_PCR_EVENT list \<Rightarrow> 'w ev_state \<Rightarrow> 'w ev_state" where
  "free_wrappers [] st = st"
| "free_wrappers (e # es) st =
     free_wrappers es (ev_free (st\<lparr>ev_freed := ev_freed st @ [ev_rgbPcrValue e, ev_rgbEvent e]\<rparr>))"

definition event_log_final :: "'w ev_cfg \<Rightarrow> 'w ev_state \<Rightarrow> (u32 \<times> 'w ev_state) option" where
  "event_log_final cfg st = do {
     ls \<leftarrow> the_lists st;
     if unat (num_pcrs cfg) \<le> length ls then
       let st = free_wrappers (concat (take (unat (num_pcrs cfg)) ls)) st
       in Some (TSS_SUCCESS, ev_free (ev_free st)\<lparr>ev_log := DeadLog\<rparr>)
     else None }"

definition copy_pcr_event :: "TSS_PCR_EVENT \<Rightarrow> u32 \<times> TSS_PCR_EVENT" where
  "copy_pcr_event source = (TSS_SUCCESS, source)"

text \<open>Going to the end of the list, counting the entries.\<close>

fun count_loop :: "TSS_PCR_EVENT list \<Rightarrow> u32 \<Rightarrow> u32" where
  "count_loop [] i = i"
| "count_loop (e # es) i = count_loop es (i + 1)"

definition event_log_add :: "TSS_PCR_EVENT \<Rightarrow> 'w ev_state \<Rightarrow> ((u32 \<times> u32 option) \<times> 'w ev_state) option" where
  "event_log_add event st = do {
     ls \<leftarrow> the_lists st;
     let (ok, st) = ev_alloc st;
     if \<not> ok then Some ((TCSERR TSS_E_OUTOFMEMORY, None), st)
     else let (result, new) = copy_pcr_event event
       in if result \<noteq> 0 then Some ((result, None), ev_free st)
          else do {
            es \<leftarrow> list_at (ev_ulPcrIndex event) st;
            Some ((TSS_SUCCESS, Some (count_loop es 0 + 1)),
              st\<lparr>ev_log := Log (ls[unat (ev_ulPcrIndex event) := es @ [new]])\<rparr>) } }"

fun find_event :: "TSS_PCR_EVENT list \<Rightarrow> u32 \<Rightarrow> u32 \<Rightarrow> TSS_PCR_EVENT option" where
  "find_event [] counter eventNumber = None"
| "find_event (e # es) counter eventNumber =
     (if counter = eventNumber then Some e else find_event es (counter + 1) eventNumber)"

text \<open>The outer option is the access, the inner one a NULL result.\<close>

definition get_pcr_event :: "u32 \<Rightarrow> u32 \<Rightarrow> 'w ev_state \<Rightarrow> TSS_PCR_EVENT option option" where
  "get_pcr_event pcrIndex eventNumber st = do {
     es \<leftarrow> list_at pcrIndex st; Some (find_event es 0 eventNumber) }"

definition get_num_events :: "u32 \<Rightarrow> 'w ev_state \<Rightarrow> u32 option" where
  "get_num_events pcrIndex st = do { es \<leftarrow> list_at pcrIndex st; Some (count_loop es 0) }"

text \<open>\<open>realloc\<close> and a copy; the sum of the two sizes is 32 bits wide.  The second component is
  \<open>None\<close> when \<open>realloc\<close> fails, and then the old array stays allocated.\<close>

definition concat_pcr_events ::
  "TSS_PCR_EVENT list option \<Rightarrow> TSS_PCR_EVENT list \<Rightarrow> 'w ev_state \<Rightarrow> (TSS_PCR_EVENT list option \<times> 'w ev_state) option" where
  "concat_pcr_events so_far addition st =
     (let old = (case so_far of None \<Rightarrow> [] | Some es \<Rightarrow> es)
      in if 2 ^ 32 \<le> length old + length addition then None
         else let (ok, st) = ev_alloc st
              in if \<not> ok then Some (None, st)
                 else Some (Some (old @ addition), if so_far = None then st else ev_free st))"

definition get_pcr_event_size :: "u32 \<Rightarrow> TSS_PCR_EVENT \<Rightarrow> u32" where
  "get_pcr_event_size sizeof_event e = sizeof_event + ev_ulEventLength e + ev_ulPcrValueLength e"

text \<open>\<open>1 << i\<close> has a meaning for \<open>i < 32\<close> only.\<close>

definition controlled :: "u32 \<Rightarrow> u32 \<Rightarrow> bool option" where
  "controlled pcrs i = (if unat i < 32 then Some (pcrs AND push_bit (unat i) 1 \<noteq> 0) else None)"

definition external :: "'w ev_cfg \<Rightarrow> u32 \<Rightarrow> bool option" where
  "external cfg i = do { k \<leftarrow> controlled (kernel_pcrs cfg) i; f \<leftarrow> controlled (firmware_pcrs cfg) i; Some (k \<or> f) }"

fun free_external_events :: "'w ev_cfg \<Rightarrow> TSS_PCR_EVENT list \<Rightarrow> 'w ev_state \<Rightarrow> 'w ev_state option" where
  "free_external_events cfg [] st = Some st"
| "free_external_events cfg (e # es) st = do {
     x \<leftarrow> external cfg (ev_ulPcrIndex e);
     free_external_events cfg es
       (if x then st\<lparr>ev_freed := ev_freed st @ [ev_rgbPcrValue e, ev_rgbEvent e]\<rparr> else st) }"

section \<open>Commands\<close>

definition TCS_LogPcrEvent_Internal ::
  "'w ev_cfg \<Rightarrow> u32 \<Rightarrow> TSS_PCR_EVENT \<Rightarrow> 'w ev_state \<Rightarrow> ((u32 \<times> u32 option) \<times> 'w ev_state) option" where
  "TCS_LogPcrEvent_Internal cfg verified event st =
     (if verified \<noteq> 0 then Some ((verified, None), st)
      else if num_pcrs cfg \<le> ev_ulPcrIndex event then Some ((TCSERR TSS_E_BAD_PARAMETER, None), st)
      else do {
        k \<leftarrow> controlled (kernel_pcrs cfg) (ev_ulPcrIndex event);
        if k then Some ((TCSERR TSS_E_FAIL, None), st)
        else do {
          f \<leftarrow> controlled (firmware_pcrs cfg) (ev_ulPcrIndex event);
          if f then Some ((TCSERR TSS_E_FAIL, None), st) else event_log_add event st } })"

text \<open>Which source is in charge of a PCR: the outer option is the shift, \<open>Inl\<close> an error code.\<close>

definition source_of :: "'w ev_cfg \<Rightarrow> u32 \<Rightarrow> (u32 + 'w ext_source) option" where
  "source_of cfg i = do {
     k \<leftarrow> controlled (kernel_pcrs cfg) i;
     if k then Some (case kernel_source cfg of Some s \<Rightarrow> Inr s | None \<Rightarrow> Inl (TCSERR TSS_E_INTERNAL_ERROR))
     else do {
       f \<leftarrow> controlled (firmware_pcrs cfg) i;
       Some (if f then (case firmware_source cfg of Some s \<Rightarrow> Inr s | None \<Rightarrow> Inl (TCSERR TSS_E_INTERNAL_ERROR))
             else Inl (TCSERR TSS_E_INTERNAL_ERROR)) } }"

definition TCS_GetExternalPcrEvent ::
  "'w ev_cfg \<Rightarrow> u32 \<Rightarrow> u32 \<Rightarrow> bool \<Rightarrow> 'w ev_state \<Rightarrow> ((u32 \<times> u32 \<times> TSS_PCR_EVENT option) \<times> 'w ev_state) option" where
  "TCS_GetExternalPcrEvent cfg i number want st = do {
     ls \<leftarrow> the_lists st;
     src \<leftarrow> source_of cfg i;
     case src of Inl e \<Rightarrow> Some ((e, number, None), st)
     | Inr s \<Rightarrow>
         let (r, w) = so_open s (ev_world st)
         in if r \<noteq> 0 then Some ((TCSERR TSS_E_INTERNAL_ERROR, number, None), st\<lparr>ev_world := w\<rparr>)
            else let ((r, number, ev), w) = so_get_entry s i number want w;
                     st = st\<lparr>ev_world := so_close s w\<rparr>
                 in Some (if r \<noteq> 0 then (TCSERR TSS_E_INTERNAL_ERROR, number, ev) else (TSS_SUCCESS, number, ev), st) }"

text \<open>With \<open>want\<close> false (a NULL \<open>ppEvent\<close>) the number of events is asked for.  On the error paths
  \<open>*ppEvent\<close> is dangling or NULL, the output is then \<open>None\<close>.\<close>

definition TCS_GetPcrEvent_Internal ::
  "'w ev_cfg \<Rightarrow> u32 \<Rightarrow> u32 \<Rightarrow> u32 \<Rightarrow> bool \<Rightarrow> 'w ev_state \<Rightarrow> ((u32 \<times> u32 \<times> TSS_PCR_EVENT option) \<times> 'w ev_state) option" where
  "TCS_GetPcrEvent_Internal cfg verified PcrIndex number want st =
     (if verified \<noteq> 0 then Some ((verified, number, None), st)
      else if num_pcrs cfg \<le> PcrIndex then Some ((TCSERR TSS_E_BAD_PARAMETER, number, None), st)
      else do {
        x \<leftarrow> external cfg PcrIndex;
        if x then TCS_GetExternalPcrEvent cfg PcrIndex number want st
        else if \<not> want then do { n \<leftarrow> get_num_events PcrIndex st; Some ((TSS_SUCCESS, n, None), st) }
        else let (ok, st) = ev_alloc st
          in if \<not> ok then Some ((TCSERR TSS_E_OUTOFMEMORY, number, None), st)
             else do {
               e \<leftarrow> get_pcr_event PcrIndex number st;
               case e of None \<Rightarrow> Some ((TCSERR TSS_E_BAD_PARAMETER, number, None), ev_free st)
               | Some event \<Rightarrow>
                   let (result, copy) = copy_pcr_event event
                   in if result \<noteq> 0 then Some ((result, number, None), ev_free st)
                      else Some ((TSS_SUCCESS, number, Some copy), st) } })"

definition TCS_GetExternalPcrEventsByPcr ::
  "'w ev_cfg \<Rightarrow> u32 \<Rightarrow> u32 \<Rightarrow> u32 \<Rightarrow> 'w ev_state \<Rightarrow> ((u32 + TSS_PCR_EVENT list) \<times> 'w ev_state) option" where
  "TCS_GetExternalPcrEventsByPcr cfg i first eventCount st = do {
     ls \<leftarrow> the_lists st;
     src \<leftarrow> source_of cfg i;
     case src of Inl e \<Rightarrow> Some (Inl e, st)
     | Inr s \<Rightarrow>
         let (r, w) = so_open s (ev_world st)
         in if r \<noteq> 0 then Some (Inl (TCSERR TSS_E_INTERNAL_ERROR), st\<lparr>ev_world := w\<rparr>)
            else let ((r, es), w) = so_get_entries_by_pcr s i first eventCount w;
                     st = st\<lparr>ev_world := so_close s w\<rparr>
                 in Some (if r \<noteq> 0 then (Inl (TCSERR TSS_E_INTERNAL_ERROR), st)
                          else (Inr es, if es = [] then st else st\<lparr>ev_live := ev_live st + 1\<rparr>)) }"

text \<open>The sum of the first number and the count is 32 bits wide.  An array of no events is still
  allocated unless the log of the PCR is empty.\<close>

definition TCS_GetPcrEventsByPcr_Internal ::
  "'w ev_cfg \<Rightarrow> u32 \<Rightarrow> u32 \<Rightarrow> u32 \<Rightarrow> u32 \<Rightarrow> 'w ev_state \<Rightarrow> ((u32 + TSS_PCR_EVENT list) \<times> 'w ev_state) option" where
  "TCS_GetPcrEventsByPcr_Internal cfg verified PcrIndex FirstEvent eventCount st =
     (if verified \<noteq> 0 then Some (Inl verified, st)
      else if num_pcrs cfg \<le> PcrIndex then Some (Inl (TCSERR TSS_E_BAD_PARAMETER), st)
      else do {
        x \<leftarrow> external cfg PcrIndex;
        if x then TCS_GetExternalPcrEventsByPcr cfg PcrIndex FirstEvent eventCount st
        else do {
          n \<leftarrow> get_num_events PcrIndex st;
          let last = min n (FirstEvent + eventCount);
          if last < FirstEvent then Some (Inl (TCSERR TSS_E_BAD_PARAMETER), st)
          else if last = 0 then Some (Inr [], st)
          else let (ok, st) = ev_alloc st
            in if \<not> ok then Some (Inl (TCSERR TSS_E_OUTOFMEMORY), st)
               else do {
                 es \<leftarrow> list_at PcrIndex st;
                 slice \<leftarrow> rd es (unat FirstEvent) (unat last - unat FirstEvent);
                 Some (Inr slice, st) } } })"

text \<open>The loop over the PCRs; \<open>agg\<close> is the list so far, a NULL pointer at the start.  An error frees
  the list, but not when \<open>concat_pcr_events\<close> fails.\<close>

fun event_log_loop ::
  "'w ev_cfg \<Rightarrow> u32 list \<Rightarrow> TSS_PCR_EVENT list option \<Rightarrow> 'w ev_state \<Rightarrow>
   ((u32 + TSS_PCR_EVENT list option) \<times> 'w ev_state) option" where
  "event_log_loop cfg [] agg st = Some (Inr agg, st)"
| "event_log_loop cfg (i # is) agg st = do {
     x \<leftarrow> external cfg i;
     (events, st) \<leftarrow> (if x then TCS_GetExternalPcrEventsByPcr cfg i 0 0xFFFFFFFF st
        else do {
          n \<leftarrow> get_num_events i st;
          if n = 0 then Some (Inr [], st)
          else let (ok, st) = ev_alloc st
            in if \<not> ok then Some (Inl (TCSERR TSS_E_OUTOFMEMORY), st)
               else do { es \<leftarrow> list_at i st; Some (Inr (take (unat n) es), st) } });
     case events of
       Inl result \<Rightarrow> Some (Inl result, if agg = None then st else ev_free st)
     | Inr es \<Rightarrow>
         if es = [] then event_log_loop cfg is agg st
         else do {
           (agg', st) \<leftarrow> concat_pcr_events agg es st;
           case agg' of None \<Rightarrow> Some (Inl (TCSERR TSS_E_OUTOFMEMORY), ev_free st)
           | Some es \<Rightarrow> event_log_loop cfg is (Some es) (ev_free st) } }"

definition TCS_GetPcrEventLog_Internal ::
  "'w ev_cfg \<Rightarrow> u32 \<Rightarrow> 'w ev_state \<Rightarrow> ((u32 + TSS_PCR_EVENT list option) \<times> 'w ev_state) option" where
  "TCS_GetPcrEventLog_Internal cfg verified st =
     (if verified \<noteq> 0 then Some (Inl verified, st)
      else do {
        ls \<leftarrow> the_lists st;
        event_log_loop cfg (map of_nat [0..<unat (num_pcrs cfg)]) None st })"

section \<open>The log as a history\<close>

text \<open>The events of one PCR in a history, and a log that holds a history of events.\<close>

definition by_pcr :: "TSS_PCR_EVENT list \<Rightarrow> nat \<Rightarrow> TSS_PCR_EVENT list" where
  "by_pcr h p = filter (\<lambda>e. unat (ev_ulPcrIndex e) = p) h"

definition logged :: "nat \<Rightarrow> 'w ev_state \<Rightarrow> TSS_PCR_EVENT list \<Rightarrow> bool" where
  "logged n st h \<longleftrightarrow> ev_log st = Log (map (by_pcr h) [0..<n]) \<and> length h < 2 ^ 32 - 1"

lemma by_pcr_short: "length (by_pcr h p) \<le> length h"
  by (simp add: by_pcr_def)

lemma count_loop: "count_loop es i = i + of_nat (length es)"
  by (induction es arbitrary: i) (simp_all add: add_ac)

lemma find_event_from:
  "k + length es \<le> 2 ^ 32 \<Longrightarrow> find_event es (of_nat k) n =
     (if k \<le> unat n \<and> unat n - k < length es then Some (es ! (unat n - k)) else None)"
proof (induction es arbitrary: k)
  case (Cons e es)
  have k: "unat (of_nat k :: u32) = k" using Cons.prems by (simp add: unat_of_nat take_bit_nat_eq_self)
  have "find_event es (of_nat (Suc k)) n =
      (if Suc k \<le> unat n \<and> unat n - Suc k < length es then Some (es ! (unat n - Suc k)) else None)"
    using Cons.IH [of "Suc k"] Cons.prems by simp
  moreover have "of_nat k = n \<longleftrightarrow> k = unat n" using k by auto
  ultimately show ?case by (auto simp: nth_Cons' add_ac not_less)
qed simp

lemma find_event: "length es \<le> 2 ^ 32 \<Longrightarrow> find_event es 0 n = (if unat n < length es then Some (es ! unat n) else None)"
  using find_event_from [of 0 es n] by simp

lemma list_at_logged: "logged n st h \<Longrightarrow> unat i < n \<Longrightarrow> list_at i st = Some (by_pcr h (unat i))"
  by (simp add: logged_def list_at_def the_lists_def)

text \<open>C38: logging appends.  The event becomes the last one of its PCR and the number returned is the
  number of events of that PCR; the event is found under the number before it, because
  \<open>get_pcr_event\<close> counts from 0, and nothing is found under the number returned.\<close>

theorem event_log_add_appends:
  assumes "logged n st h" "unat (ev_ulPcrIndex e) < n" "ev_ok st (ev_count st)" "length h + 1 < 2 ^ 32 - 1"
  shows "\<exists>m st'. event_log_add e st = Some ((TSS_SUCCESS, Some m), st') \<and> logged n st' (h @ [e])
    \<and> m = of_nat (length (by_pcr (h @ [e]) (unat (ev_ulPcrIndex e))))
    \<and> get_pcr_event (ev_ulPcrIndex e) (m - 1) st' = Some (Some e)
    \<and> get_pcr_event (ev_ulPcrIndex e) m st' = Some None"
proof -
  let ?p = "unat (ev_ulPcrIndex e)" and ?m = "of_nat (length (by_pcr (h @ [e]) (unat (ev_ulPcrIndex e)))) :: u32"
  let ?ls = "map (by_pcr h) [0..<n]" and ?st = "st\<lparr>ev_count := Suc (ev_count st), ev_live := ev_live st + 1\<rparr>"
  let ?st' = "?st\<lparr>ev_log := Log (?ls[?p := by_pcr h ?p @ [e]])\<rparr>"
  have b: "by_pcr (h @ [e]) q = (if q = ?p then by_pcr h q @ [e] else by_pcr h q)" for q
    by (simp add: by_pcr_def)
  have u: "?ls[?p := by_pcr h ?p @ [e]] = map (by_pcr (h @ [e])) [0..<n]"
    using assms(2) by (intro nth_equalityI) (auto simp: nth_list_update b)
  have l: "logged n ?st' (h @ [e])" using u assms(4) by (simp add: logged_def)
  have "logged n ?st h" using assms(1) by (simp add: logged_def)
  then have "list_at (ev_ulPcrIndex e) ?st = Some (by_pcr h ?p)" using assms(2) by (rule list_at_logged)
  then have a: "event_log_add e st = Some ((TSS_SUCCESS, Some ?m), ?st')"
    using assms(1,3) by (simp add: event_log_add_def the_lists_def logged_def ev_alloc_def copy_pcr_event_def
        count_loop b add_ac Let_def)
  have k: "Suc (length (by_pcr h ?p)) < 2 ^ 32" using by_pcr_short [of h ?p] assms(4) by simp
  have m: "unat ?m = Suc (length (by_pcr h ?p))" "unat (?m - 1) = length (by_pcr h ?p)"
  proof -
    have "unat (of_nat (Suc (length (by_pcr h ?p))) :: u32) = Suc (length (by_pcr h ?p))"
      using k by (simp only: unat_of_nat) (simp add: take_bit_nat_eq_self)
    moreover have "length (by_pcr (h @ [e]) ?p) = Suc (length (by_pcr h ?p))" by (simp add: b)
    ultimately show "unat ?m = Suc (length (by_pcr h ?p))" by metis
    have "?m - 1 = of_nat (length (by_pcr h ?p))" by (simp add: b)
    then show "unat (?m - 1) = length (by_pcr h ?p)" using k by (simp add: unat_of_nat take_bit_nat_eq_self)
  qed
  have g: "get_pcr_event (ev_ulPcrIndex e) j ?st' =
      Some (if unat j < Suc (length (by_pcr h ?p)) then Some ((by_pcr h ?p @ [e]) ! unat j) else None)" for j
    using list_at_logged [OF l assms(2)] k find_event [of "by_pcr h ?p @ [e]" j]
    by (simp add: get_pcr_event_def b)
  show ?thesis using a l g [of ?m] g [of "?m - 1"] m by (intro exI conjI) simp_all
qed

text \<open>a range of the events of a PCR the daemon keeps.  As long as the sum of the first number and
  the count fits 32 bits the answer is that range, cut at the last event; otherwise the request is
  refused even when the range starts inside the log.\<close>

theorem events_by_pcr_range:
  assumes "logged (unat (num_pcrs cfg)) st h" "PcrIndex < num_pcrs cfg" "external cfg PcrIndex = Some False"
    and "ev_ok st (ev_count st)"
  shows "(unat first + unat eventCount < 2 ^ 32 \<and> unat first \<le> length (by_pcr h (unat PcrIndex)) \<longrightarrow>
      (\<exists>st'. TCS_GetPcrEventsByPcr_Internal cfg 0 PcrIndex first eventCount st =
         Some (Inr (take (unat eventCount) (drop (unat first) (by_pcr h (unat PcrIndex)))), st')))
    \<and> (2 ^ 32 \<le> unat first + unat eventCount \<longrightarrow>
      TCS_GetPcrEventsByPcr_Internal cfg 0 PcrIndex first eventCount st = Some (Inl (TCSERR TSS_E_BAD_PARAMETER), st))"
proof -
  let ?es = "by_pcr h (unat PcrIndex)"
  have i: "unat PcrIndex < unat (num_pcrs cfg)" using assms(2) by (simp add: word_less_nat_alt)
  have l: "length ?es < 2 ^ 32" using by_pcr_short [of h "unat PcrIndex"] assms(1) by (simp add: logged_def)
  have n: "get_num_events PcrIndex st = Some (of_nat (length ?es))"
    using list_at_logged [OF assms(1) i] by (simp add: get_num_events_def count_loop)
  let ?last = "min (of_nat (length ?es)) (first + eventCount)"
  let ?st = "st\<lparr>ev_count := Suc (ev_count st), ev_live := ev_live st + 1\<rparr>"
  have np: "\<not> num_pcrs cfg \<le> PcrIndex" using assms(2) by simp
  have u: "TCS_GetPcrEventsByPcr_Internal cfg 0 PcrIndex first eventCount st =
     (if ?last < first then Some (Inl (TCSERR TSS_E_BAD_PARAMETER), st)
      else if ?last = 0 then Some (Inr [], st)
      else do {
        es \<leftarrow> list_at PcrIndex ?st;
        slice \<leftarrow> rd es (unat first) (unat ?last - unat first);
        Some (Inr slice, ?st) })"
    using assms(3,4) n np by (simp add: TCS_GetPcrEventsByPcr_Internal_def ev_alloc_def Let_def)
  have e: "list_at PcrIndex ?st = Some ?es"
    using assms(1) i by (intro list_at_logged [of _ ?st h]) (simp_all add: logged_def)
  have le: "unat (of_nat (length ?es) :: u32) = length ?es" using l by (simp add: unat_of_nat take_bit_nat_eq_self)
  have mn: "unat (min a b) = min (unat a) (unat b)" for a b :: u32 by (simp add: min_def word_le_nat_alt)
  show ?thesis
  proof (intro conjI impI)
    assume a: "unat first + unat eventCount < 2 ^ 32 \<and> unat first \<le> length ?es"
    then have s: "unat (first + eventCount) = unat first + unat eventCount" by (simp add: unat_word_ariths)
    have la: "unat ?last = min (length ?es) (unat first + unat eventCount)" using s le mn by simp
    have nl: "\<not> ?last < first" using a la by (simp add: word_less_nat_alt min_less_iff_disj)
    show "\<exists>st'. TCS_GetPcrEventsByPcr_Internal cfg 0 PcrIndex first eventCount st =
        Some (Inr (take (unat eventCount) (drop (unat first) ?es)), st')"
    proof (cases "?last = 0")
      case True
      then have "min (length ?es) (unat first + unat eventCount) = 0" using la by simp
      then have "take (unat eventCount) (drop (unat first) ?es) = []" by (auto simp: min_def split: if_splits)
      then show ?thesis unfolding u using True nl by auto
    next
      case False
      have "rd ?es (unat first) (unat ?last - unat first) = Some (take (unat eventCount) (drop (unat first) ?es))"
        using a la by (auto simp: rd_def read_at_def min_def)
      then show ?thesis unfolding u using False nl e by simp
    qed
  next
    assume w: "2 ^ 32 \<le> unat first + unat eventCount"
    have "unat (first + eventCount) = unat first + unat eventCount - 2 ^ 32"
      using w unsigned_less [of first, where 'a = nat] unsigned_less [of eventCount, where 'a = nat]
      by (simp add: unat_word_ariths le_mod_geq)
    then have "unat ?last < unat first"
      using w mn unsigned_less [of eventCount, where 'a = nat] by simp
    then show "TCS_GetPcrEventsByPcr_Internal cfg 0 PcrIndex first eventCount st = Some (Inl (TCSERR TSS_E_BAD_PARAMETER), st)"
      unfolding u by (simp add: word_less_nat_alt)
  qed
qed

text \<open>One PCR after the other.\<close>

lemma log_loop:
  assumes "\<forall>i. unat i < n \<longrightarrow> external cfg i = Some False" "\<forall>k. ev_ok st k" "logged n st h"
    and "length (case agg of None \<Rightarrow> [] | Some es \<Rightarrow> es) + length (concat (map (\<lambda>i. by_pcr h (unat i)) is)) < 2 ^ 32"
    and "\<forall>i \<in> set is. unat i < n" "agg \<noteq> Some []"
  shows "\<exists>st' agg'. event_log_loop cfg is agg st = Some (Inr agg', st') \<and> ev_log st' = ev_log st \<and> agg' \<noteq> Some []
    \<and> (case agg' of None \<Rightarrow> [] | Some es \<Rightarrow> es) =
         (case agg of None \<Rightarrow> [] | Some es \<Rightarrow> es) @ concat (map (\<lambda>i. by_pcr h (unat i)) is)
    \<and> ev_live st' - (if agg' = None then 0 else 1) = ev_live st - (if agg = None then 0 else 1)"
  using assms(2-)
proof (induction "is" arbitrary: agg st)
  case (Cons i "is")
  let ?es = "by_pcr h (unat i)" and ?old = "\<lambda>agg. case agg of None \<Rightarrow> [] | Some es \<Rightarrow> es"
  have i: "unat i < n" "external cfg i = Some False" using Cons.prems(4) assms(1) by simp_all
  have le: "unat (of_nat (length ?es) :: u32) = length ?es"
    using by_pcr_short [of h "unat i"] Cons.prems(2) by (simp add: logged_def unat_of_nat take_bit_nat_eq_self)
  then have z: "(of_nat (length ?es) :: u32) = 0 \<longleftrightarrow> ?es = []" by (metis length_0_conv unat_eq_zero)
  have n: "get_num_events i st = Some (of_nat (length ?es))"
    using list_at_logged [OF Cons.prems(2) i(1)] by (simp add: get_num_events_def count_loop)
  show ?case
  proof (cases "?es = []")
    case True
    then have "event_log_loop cfg (i # is) agg st = event_log_loop cfg is agg st" using i(2) n by simp
    then show ?thesis using Cons.IH [OF Cons.prems(1,2) _ _ Cons.prems(5)] Cons.prems(3,4) True by simp
  next
    case False
    let ?st1 = "st\<lparr>ev_count := Suc (ev_count st), ev_live := ev_live st + 1\<rparr>"
    define st2 where "st2 = st\<lparr>ev_count := Suc (Suc (ev_count st)),
        ev_live := ev_live st + (if agg = None then 1 else 0)\<rparr>"
    have l: "list_at i ?st1 = Some ?es"
      using Cons.prems(2) i(1) by (intro list_at_logged [of _ ?st1 h]) (simp_all add: logged_def)
    have "length (?old agg) + length ?es < 2 ^ 32" using Cons.prems(3) by simp
    then have f: "event_log_loop cfg (i # is) agg st = event_log_loop cfg is (Some (?old agg @ ?es)) st2"
      using i(2) n z False l le Cons.prems(1)
      by (cases agg) (simp_all add: ev_alloc_def concat_pcr_events_def ev_free_def st2_def Let_def add_ac)
    have s2: "\<forall>k. ev_ok st2 k" "logged n st2 h" "ev_log st2 = ev_log st"
      "ev_live st2 - 1 = ev_live st - (if agg = None then 0 else 1)"
      using Cons.prems(1,2) by (simp_all add: st2_def logged_def)
    have pre: "length (?old (Some (?old agg @ ?es))) + length (concat (map (\<lambda>i. by_pcr h (unat i)) is)) < 2 ^ 32"
      "\<forall>i \<in> set is. unat i < n" "Some (?old agg @ ?es) \<noteq> Some []"
      using Cons.prems(3,4) False by simp_all
    obtain st' agg' where s': "event_log_loop cfg is (Some (?old agg @ ?es)) st2 = Some (Inr agg', st')"
      "ev_log st' = ev_log st2" "agg' \<noteq> Some []"
      "?old agg' = ?old (Some (?old agg @ ?es)) @ concat (map (\<lambda>i. by_pcr h (unat i)) is)"
      "ev_live st' - (if agg' = None then 0 else 1) = ev_live st2 - (if Some (?old agg @ ?es) = None then 0 else 1)"
      using Cons.IH [OF s2(1,2) pre] by blast
    show ?thesis
      by (rule exI [of _ st'], rule exI [of _ agg']) (use s' s2(3,4) f in simp)
  qed
qed simp

lemma mset_by_pcr: "\<forall>e \<in> set h. unat (ev_ulPcrIndex e) < n \<Longrightarrow> mset (concat (map (by_pcr h) [0..<n])) = mset h"
proof (induction h)
  case Nil
  then show ?case by (simp add: by_pcr_def)
next
  case (Cons e h)
  have "mset (concat (map (by_pcr (e # h)) is)) =
      (if unat (ev_ulPcrIndex e) \<in> set is then {#e#} else {#}) + mset (concat (map (by_pcr h) is))" if "distinct is" for "is"
    using that by (induction "is") (auto simp: by_pcr_def)
  from this [of "[0..<n]"] show ?case using Cons by simp
qed


text \<open>when the second allocation of \<open>event_log_init\<close> fails the log pointer is left dangling; a second
  call then reports success without a log, and logging an event goes through the bad pointer.\<close>

theorem event_log_init_dangles:
  assumes "ev_log st = NoLog" "ev_ok st (ev_count st)" "\<not> ev_ok st (Suc (ev_count st))"
  shows "\<exists>st'. event_log_init cfg st = (TCSERR TSS_E_OUTOFMEMORY, st') \<and> ev_live st' = ev_live st
    \<and> event_log_init cfg st' = (TSS_SUCCESS, st') \<and> event_log_add e st' = None"
  using assms by (simp add: event_log_init_def ev_alloc_def ev_free_def event_log_add_def the_lists_def)

section \<open>Examples\<close>

definition ex_pcr_event :: "u32 \<Rightarrow> u32 \<Rightarrow> TSS_PCR_EVENT" where
  "ex_pcr_event i t = \<lparr>ev_versionInfo = \<lparr>tv_bMajor = 1, tv_bMinor = 2, tv_bRevMajor = 0, tv_bRevMinor = 0\<rparr>, ev_ulPcrIndex = i, ev_eventType = t, ev_ulPcrValueLength = 0,
     ev_rgbPcrValue = NULL, ev_ulEventLength = 0, ev_rgbEvent = NULL\<rparr>"

definition ex_ev_cfg :: "unit ev_cfg" where
  "ex_ev_cfg = \<lparr>num_pcrs = 2, kernel_pcrs = 0, firmware_pcrs = 0, kernel_source = None, firmware_source = None\<rparr>"

definition ex_history :: "TSS_PCR_EVENT list" where
  "ex_history = [ex_pcr_event 1 7, ex_pcr_event 0 8, ex_pcr_event 1 9]"

definition ex_ev_state :: "(nat \<Rightarrow> bool) \<Rightarrow> log_ptr \<Rightarrow> unit ev_state" where
  "ex_ev_state ok l = \<lparr>ev_log = l, ev_ok = ok, ev_count = 0, ev_live = 0, ev_freed = [], ev_world = ()\<rparr>"

lemma ex_logged: "logged 2 (ex_ev_state ok (Log [[ex_pcr_event 0 8], [ex_pcr_event 1 7, ex_pcr_event 1 9]])) ex_history"
  by (simp add: logged_def ex_ev_state_def ex_history_def by_pcr_def ex_pcr_event_def upt_rec)

theorem event_log_add_appends_witness:
  "\<exists>st'. event_log_add (ex_pcr_event 1 5) (ex_ev_state (\<lambda>_. True)
       (Log [[ex_pcr_event 0 8], [ex_pcr_event 1 7, ex_pcr_event 1 9]])) = Some ((TSS_SUCCESS, Some 3), st')
     \<and> get_pcr_event 1 2 st' = Some (Some (ex_pcr_event 1 5)) \<and> get_pcr_event 1 3 st' = Some None"
  using event_log_add_appends [OF ex_logged [of "\<lambda>_. True"], of "ex_pcr_event 1 5"]
  by (simp add: ex_pcr_event_def ex_ev_state_def ex_history_def by_pcr_def) auto

theorem events_by_pcr_range_witness:
  "\<exists>st'. TCS_GetPcrEventsByPcr_Internal ex_ev_cfg 0 1 1 5 (ex_ev_state (\<lambda>_. True)
       (Log [[ex_pcr_event 0 8], [ex_pcr_event 1 7, ex_pcr_event 1 9]])) = Some (Inr [ex_pcr_event 1 9], st')"
proof -
  have "external ex_ev_cfg 1 = Some False" by (simp add: external_def controlled_def ex_ev_cfg_def)
  moreover have "by_pcr ex_history 1 = [ex_pcr_event 1 7, ex_pcr_event 1 9]"
    by (simp add: by_pcr_def ex_history_def ex_pcr_event_def)
  ultimately show ?thesis
    using events_by_pcr_range [of ex_ev_cfg _ ex_history 1 1 5] ex_logged [of "\<lambda>_. True"]
    by (simp add: ex_ev_cfg_def ex_ev_state_def)
qed


theorem event_log_init_dangles_witness:
  "\<exists>st'. event_log_init ex_ev_cfg (ex_ev_state (\<lambda>n. n = 0) NoLog) = (TCSERR TSS_E_OUTOFMEMORY, st')
     \<and> event_log_init ex_ev_cfg st' = (TSS_SUCCESS, st') \<and> event_log_add (ex_pcr_event 0 1) st' = None"
  using event_log_init_dangles [of "ex_ev_state (\<lambda>n. n = 0) NoLog" ex_ev_cfg "ex_pcr_event 0 1"]
  by (auto simp: ex_ev_state_def)

end
