(* ===== verification/Tspi_Obj.thy ===== *)
theory Tspi_Obj
  imports Tsm_Prelude "HOL-Library.Sublist"
begin

text \<open>
  The objects of the client library: one list per kind of object with a lock of its own
  (\<open>tspi/obj.c\<close>), and the operations that tie policies to other objects (parts of
  \<open>tspi/obj_policy.c\<close>, \<open>obj_context.c\<close>, \<open>obj_tpm.c\<close>, \<open>obj_rsakey.c\<close>, \<open>obj_encdata.c\<close>, \<open>obj_nv.c\<close>).

  Of the data of an object the model has the policy handles, the type of a policy and the hash
  mode; the type \<open>'d\<close> stands for the other fields.  Taking a lock that is held already, and reading
  the data of an object as a structure of another type, give \<open>None\<close>: the call does not come
  back, or has no meaning.  \<open>ob_freed\<close> lists the data given to the free functions.
\<close>

section \<open>State\<close>

abbreviation (input) TSS_E_INVALID_HANDLE :: u32 where "TSS_E_INVALID_HANDLE \<equiv> 0x126"
abbreviation (input) TSS_E_KEY_NO_MIGRATION_POLICY :: u32 where "TSS_E_KEY_NO_MIGRATION_POLICY \<equiv> 0x115"
abbreviation (input) TSS_POLICY_USAGE :: u32 where "TSS_POLICY_USAGE \<equiv> 1"
abbreviation (input) TSS_POLICY_MIGRATION :: u32 where "TSS_POLICY_MIGRATION \<equiv> 2"
abbreviation (input) TSS_POLICY_OPERATOR :: u32 where "TSS_POLICY_OPERATOR \<equiv> 3"
abbreviation (input) TSS_OBJ_FLAG_USAGEAUTH :: u32 where "TSS_OBJ_FLAG_USAGEAUTH \<equiv> 2"
abbreviation (input) TSS_OBJ_FLAG_MIGAUTH :: u32 where "TSS_OBJ_FLAG_MIGAUTH \<equiv> 4"
abbreviation (input) HASH_MODE_NOT_NULL :: u32 where "HASH_MODE_NOT_NULL \<equiv> 0"

datatype obj_kind = K_TPM | K_CONTEXT | K_HASH | K_PCRS | K_POLICY | K_RSAKEY | K_ENCDATA | K_DAACRED
  | K_DAAARAKEY | K_DAAISSUERKEY | K_NVSTORE | K_DELFAMILY | K_MIGDATA

text \<open>Policy and operator policy of a TPM object; policy and hash mode of a context; type and hash mode
  of a policy; usage and migration policy of a key; usage policy of encrypted data and of an NV area.\<close>

datatype 'd obj_data = TpmData u32 u32 'd | ContextData u32 u32 'd | PolicyData u32 u32 'd
  | RsakeyData u32 u32 'd | EncdataData u32 'd | NvData u32 'd | OtherData 'd

record 'd tsp_object =
  to_handle :: u32
  to_tspContext :: u32
  to_flags :: u32
  to_data :: "'d obj_data"

record 'd obj_state =
  nextObjectHandle :: u32
  ob_list :: "obj_kind \<Rightarrow> 'd tsp_object list"
  ob_locked :: "obj_kind \<Rightarrow> bool"
  ob_ok :: "nat \<Rightarrow> bool"
  ob_count :: nat
  ob_freed :: "'d obj_data list"

definition ob_alloc :: "'d obj_state \<Rightarrow> bool \<times> 'd obj_state" where
  "ob_alloc st = (ob_ok st (ob_count st), st\<lparr>ob_count := Suc (ob_count st)\<rparr>)"

definition set_list :: "obj_kind \<Rightarrow> 'd tsp_object list \<Rightarrow> 'd obj_state \<Rightarrow> 'd obj_state" where
  "set_list k os st = st\<lparr>ob_list := (ob_list st)(k := os)\<rparr>"

definition ob_lock :: "obj_kind \<Rightarrow> 'd obj_state \<Rightarrow> 'd obj_state option" where
  "ob_lock k st = (if ob_locked st k then None else Some (st\<lparr>ob_locked := (ob_locked st)(k := True)\<rparr>))"

definition obj_list_put :: "obj_kind \<Rightarrow> 'd obj_state \<Rightarrow> 'd obj_state" where
  "obj_list_put k st = st\<lparr>ob_locked := (ob_locked st)(k := False)\<rparr>"

section \<open>Lists\<close>

definition list_init :: "obj_kind \<Rightarrow> 'd obj_state \<Rightarrow> 'd obj_state" where
  "list_init k st = obj_list_put k (set_list k [] st)"

text \<open>The order of \<open>obj_list_init\<close> and of \<open>obj_close_context\<close>.\<close>

definition all_kinds :: "obj_kind list" where
  "all_kinds = [K_TPM, K_CONTEXT, K_HASH, K_PCRS, K_POLICY, K_RSAKEY, K_ENCDATA, K_DAACRED, K_DAAARAKEY,
     K_DAAISSUERKEY, K_NVSTORE, K_DELFAMILY, K_MIGDATA]"

definition obj_list_init :: "'d obj_state \<Rightarrow> 'd obj_state" where
  "obj_list_init st = fold list_init all_kinds st"

text \<open>The \<open>do\<close> loop that steps over \<open>NULL_HOBJECT\<close>.\<close>

function next_handle :: "u32 \<Rightarrow> u32" where
  "next_handle h = (if h + 1 = 0 then next_handle (h + 1) else h + 1)"
  by auto

termination
proof (relation "measure (\<lambda>h. if h = - 1 then 1 else 0)")
  fix h :: u32
  assume "h + 1 = 0"
  then have "h = - 1" by (simp add: eq_neg_iff_add_eq_0)
  then show "(h + 1, h) \<in> measure (\<lambda>h. if h = - 1 then 1 else 0)" by simp
qed simp

definition obj_get_next_handle :: "'d obj_state \<Rightarrow> u32 \<times> 'd obj_state" where
  "obj_get_next_handle st =
     (let h = next_handle (nextObjectHandle st) in (h, st\<lparr>nextObjectHandle := h\<rparr>))"

definition obj_list_get_obj :: "obj_kind \<Rightarrow> u32 \<Rightarrow> 'd obj_state \<Rightarrow> ('d tsp_object option \<times> 'd obj_state) option" where
  "obj_list_get_obj k h st = do {
     st \<leftarrow> ob_lock k st;
     case List.find (\<lambda>ob. to_handle ob = h) (ob_list st k) of
       None \<Rightarrow> Some (None, obj_list_put k st)
     | Some ob \<Rightarrow> Some (Some ob, st) }"

text \<open>This one keeps the lock when nothing is found.\<close>

definition obj_list_get_tspcontext ::
  "obj_kind \<Rightarrow> u32 \<Rightarrow> 'd obj_state \<Rightarrow> ('d tsp_object option \<times> 'd obj_state) option" where
  "obj_list_get_tspcontext k c st = do {
     st \<leftarrow> ob_lock k st;
     Some (List.find (\<lambda>ob. to_tspContext ob = c) (ob_list st k), st) }"

definition obj_list_add ::
  "obj_kind \<Rightarrow> u32 \<Rightarrow> u32 \<Rightarrow> 'd obj_data \<Rightarrow> 'd obj_state \<Rightarrow> ((u32 + u32) \<times> 'd obj_state) option" where
  "obj_list_add k tsp_context flags data st =
     (let (ok, st) = ob_alloc st
      in if \<not> ok then Some (Inl (TSPERR TSS_E_OUTOFMEMORY), st)
         else let (h, st) = obj_get_next_handle st;
                new_obj = \<lparr>to_handle = h, to_tspContext = (if k = K_CONTEXT then h else tsp_context),
                  to_flags = flags, to_data = data\<rparr>
              in do {
                st \<leftarrow> ob_lock k st;
                Some (Inr h, obj_list_put k (set_list k (new_obj # ob_list st k) st)) })"

text \<open>The walk of \<open>obj_list_remove\<close>: the object with its list without it, or \<open>None\<close> at the end or at an
  object of another context.\<close>

fun remove_walk :: "u32 \<Rightarrow> u32 \<Rightarrow> 'd tsp_object list \<Rightarrow> ('d tsp_object \<times> 'd tsp_object list) option" where
  "remove_walk h c [] = None"
| "remove_walk h c (ob # os) =
     (if to_handle ob = h then (if to_tspContext ob \<noteq> c then None else Some (ob, os))
      else map_option (\<lambda>(x, os'). (x, ob # os')) (remove_walk h c os))"

definition obj_list_remove :: "obj_kind \<Rightarrow> u32 \<Rightarrow> u32 \<Rightarrow> 'd obj_state \<Rightarrow> (u32 \<times> 'd obj_state) option" where
  "obj_list_remove k hObject tspContext st = do {
     st \<leftarrow> ob_lock k st;
     case remove_walk hObject tspContext (ob_list st k) of
       None \<Rightarrow> Some (TSPERR TSS_E_INVALID_HANDLE, obj_list_put k st)
     | Some (ob, os) \<Rightarrow>
         Some (TSS_SUCCESS, obj_list_put k (set_list k os (st\<lparr>ob_freed := ob_freed st @ [to_data ob]\<rparr>))) }"

fun close_walk :: "u32 \<Rightarrow> 'd tsp_object list \<Rightarrow> 'd tsp_object list \<Rightarrow> 'd obj_data list \<Rightarrow>
    'd tsp_object list \<times> 'd obj_data list" where
  "close_walk c kept [] freed = (rev kept, freed)"
| "close_walk c kept (ob # os) freed =
     (if to_tspContext ob = c then close_walk c kept os (freed @ [to_data ob])
      else close_walk c (ob # kept) os freed)"

definition obj_list_close :: "obj_kind \<Rightarrow> u32 \<Rightarrow> 'd obj_state \<Rightarrow> 'd obj_state option" where
  "obj_list_close k tspContext st = do {
     st \<leftarrow> ob_lock k st;
     let (os, freed) = close_walk tspContext [] (ob_list st k) [];
     Some (obj_list_put k (set_list k os (st\<lparr>ob_freed := ob_freed st @ freed\<rparr>))) }"

fun close_lists :: "u32 \<Rightarrow> obj_kind list \<Rightarrow> 'd obj_state \<Rightarrow> 'd obj_state option" where
  "close_lists c [] st = Some st"
| "close_lists c (k # ks) st = obj_list_close k c st \<bind> close_lists c ks"

definition obj_close_context :: "u32 \<Rightarrow> 'd obj_state \<Rightarrow> 'd obj_state option" where
  "obj_close_context tspContext st = close_lists tspContext all_kinds st"

section \<open>Reading and writing an object\<close>

text \<open>The shape of the accessors: find the object, look at its data or change it in place, put the
  list back.  The function on the data gives \<open>None\<close> on data of another type.\<close>

definition obj_read ::
  "obj_kind \<Rightarrow> u32 \<Rightarrow> ('d tsp_object \<Rightarrow> (u32 + 'r) option) \<Rightarrow> 'd obj_state \<Rightarrow> ((u32 + 'r) \<times> 'd obj_state) option" where
  "obj_read k h f st = do {
     (ob, st) \<leftarrow> obj_list_get_obj k h st;
     case ob of None \<Rightarrow> Some (Inl (TSPERR TSS_E_INVALID_HANDLE), st)
     | Some ob \<Rightarrow> do { r \<leftarrow> f ob; Some (r, obj_list_put k st) } }"

fun update_obj :: "u32 \<Rightarrow> 'd obj_data \<Rightarrow> 'd tsp_object list \<Rightarrow> 'd tsp_object list" where
  "update_obj h d [] = []"
| "update_obj h d (ob # os) = (if to_handle ob = h then ob\<lparr>to_data := d\<rparr> # os else ob # update_obj h d os)"

definition obj_write ::
  "obj_kind \<Rightarrow> u32 \<Rightarrow> ('d obj_data \<Rightarrow> (u32 \<times> 'd obj_data) option) \<Rightarrow> 'd obj_state \<Rightarrow> (u32 \<times> 'd obj_state) option" where
  "obj_write k h f st = do {
     (ob, st) \<leftarrow> obj_list_get_obj k h st;
     case ob of None \<Rightarrow> Some (TSPERR TSS_E_INVALID_HANDLE, st)
     | Some ob \<Rightarrow> do {
         (r, d) \<leftarrow> f (to_data ob);
         Some (r, obj_list_put k (set_list k (update_obj h d (ob_list st k)) st)) } }"

text \<open>\<open>obj_is_policy\<close>, \<open>obj_is_tpm\<close>, \<open>obj_is_context\<close>.\<close>

definition obj_is :: "obj_kind \<Rightarrow> u32 \<Rightarrow> 'd obj_state \<Rightarrow> (bool \<times> 'd obj_state) option" where
  "obj_is k h st = do {
     (ob, st) \<leftarrow> obj_list_get_obj k h st;
     Some (if ob = None then (False, st) else (True, obj_list_put k st)) }"

section \<open>Policies\<close>

fun data_hash_mode :: "'d obj_data \<Rightarrow> u32 option" where
  "data_hash_mode (ContextData p m x) = Some m"
| "data_hash_mode _ = None"

definition obj_context_get_hash_mode :: "u32 \<Rightarrow> 'd obj_state \<Rightarrow> ((u32 + u32) \<times> 'd obj_state) option" where
  "obj_context_get_hash_mode c = obj_read K_CONTEXT c (\<lambda>ob. map_option Inr (data_hash_mode (to_data ob)))"

text \<open>\<open>x\<close> is the initial value of the fields that are not modelled.\<close>

definition obj_policy_add :: "'d \<Rightarrow> u32 \<Rightarrow> u32 \<Rightarrow> 'd obj_state \<Rightarrow> ((u32 + u32) \<times> 'd obj_state) option" where
  "obj_policy_add x tsp_context type st =
     (let (ok, st) = ob_alloc st
      in if \<not> ok then Some (Inl (TSPERR TSS_E_OUTOFMEMORY), st)
         else do {
           (m, st) \<leftarrow> obj_context_get_hash_mode tsp_context st;
           case m of Inl result \<Rightarrow> Some (Inl result, st)
           | Inr mode \<Rightarrow> obj_list_add K_POLICY tsp_context 0 (PolicyData type mode x) st })"

text \<open>Clearing the references to a policy from the data of an object.\<close>

definition unref :: "u32 \<Rightarrow> u32 \<Rightarrow> u32" where
  "unref hPolicy p = (if p = hPolicy then 0 else p)"

fun data_unref :: "u32 \<Rightarrow> 'd obj_data \<Rightarrow> 'd obj_data" where
  "data_unref h (TpmData p q x) = TpmData (unref h p) (unref h q) x"
| "data_unref h (RsakeyData p q x) = RsakeyData (unref h p) (unref h q) x"
| "data_unref h (EncdataData p x) = EncdataData (unref h p) x"
| "data_unref h d = d"

definition remove_policy_refs :: "obj_kind \<Rightarrow> u32 \<Rightarrow> u32 \<Rightarrow> 'd obj_state \<Rightarrow> 'd obj_state option" where
  "remove_policy_refs k hPolicy tspContext st = do {
     st \<leftarrow> ob_lock k st;
     Some (obj_list_put k (set_list k (map (\<lambda>ob. if to_tspContext ob \<noteq> tspContext then ob
         else ob\<lparr>to_data := data_unref hPolicy (to_data ob)\<rparr>) (ob_list st k)) st)) }"

definition obj_lists_remove_policy_refs :: "u32 \<Rightarrow> u32 \<Rightarrow> 'd obj_state \<Rightarrow> 'd obj_state option" where
  "obj_lists_remove_policy_refs hPolicy tspContext st = do {
     st \<leftarrow> remove_policy_refs K_RSAKEY hPolicy tspContext st;
     st \<leftarrow> remove_policy_refs K_ENCDATA hPolicy tspContext st;
     remove_policy_refs K_TPM hPolicy tspContext st }"

definition obj_policy_remove :: "u32 \<Rightarrow> u32 \<Rightarrow> 'd obj_state \<Rightarrow> (u32 \<times> 'd obj_state) option" where
  "obj_policy_remove hObject tspContext st = do {
     (result, st) \<leftarrow> obj_list_remove K_POLICY hObject tspContext st;
     if result \<noteq> 0 then Some (result, st)
     else do { st \<leftarrow> obj_lists_remove_policy_refs hObject tspContext st; Some (TSS_SUCCESS, st) } }"

fun data_policy_type :: "'d obj_data \<Rightarrow> u32 option" where
  "data_policy_type (PolicyData t m x) = Some t"
| "data_policy_type _ = None"

definition obj_policy_get_type :: "u32 \<Rightarrow> 'd obj_state \<Rightarrow> ((u32 + u32) \<times> 'd obj_state) option" where
  "obj_policy_get_type h = obj_read K_POLICY h (\<lambda>ob. map_option Inr (data_policy_type (to_data ob)))"

section \<open>Objects with policies\<close>

text \<open>The policy field that a policy type selects, per structure.\<close>

fun put_policy :: "obj_kind \<Rightarrow> u32 \<Rightarrow> u32 \<Rightarrow> 'd obj_data \<Rightarrow> (u32 \<times> 'd obj_data) option" where
  "put_policy K_TPM t h (TpmData p q x) =
     Some (if t = TSS_POLICY_USAGE then (TSS_SUCCESS, TpmData h q x)
           else if t = TSS_POLICY_OPERATOR then (TSS_SUCCESS, TpmData p h x)
           else (TSPERR TSS_E_BAD_PARAMETER, TpmData p q x))"
| "put_policy K_RSAKEY t h (RsakeyData p q x) =
     Some (if t = TSS_POLICY_USAGE then (TSS_SUCCESS, RsakeyData h q x)
           else if t = TSS_POLICY_MIGRATION then (TSS_SUCCESS, RsakeyData p h x)
           else (TSPERR TSS_E_BAD_PARAMETER, RsakeyData p q x))"
| "put_policy K_ENCDATA t h (EncdataData p x) =
     Some (if t = TSS_POLICY_USAGE then (TSS_SUCCESS, EncdataData h x)
           else (TSPERR TSS_E_BAD_PARAMETER, EncdataData p x))"
| "put_policy K_NVSTORE t h (NvData p x) =
     Some (if t = TSS_POLICY_USAGE then (TSS_SUCCESS, NvData h x)
           else (TSPERR TSS_E_BAD_PARAMETER, NvData p x))"
| "put_policy _ t h d = None"

definition set_policy :: "obj_kind \<Rightarrow> u32 \<Rightarrow> u32 \<Rightarrow> 'd obj_state \<Rightarrow> (u32 \<times> 'd obj_state) option" where
  "set_policy k hObject hPolicy st = do {
     (t, st) \<leftarrow> obj_policy_get_type hPolicy st;
     case t of Inl result \<Rightarrow> Some (result, st)
     | Inr policyType \<Rightarrow> obj_write k hObject (put_policy k policyType hPolicy) st }"

definition obj_tpm_set_policy :: "u32 \<Rightarrow> u32 \<Rightarrow> 'd obj_state \<Rightarrow> (u32 \<times> 'd obj_state) option" where
  "obj_tpm_set_policy = set_policy K_TPM"
definition obj_rsakey_set_policy :: "u32 \<Rightarrow> u32 \<Rightarrow> 'd obj_state \<Rightarrow> (u32 \<times> 'd obj_state) option" where
  "obj_rsakey_set_policy = set_policy K_RSAKEY"
definition obj_encdata_set_policy :: "u32 \<Rightarrow> u32 \<Rightarrow> 'd obj_state \<Rightarrow> (u32 \<times> 'd obj_state) option" where
  "obj_encdata_set_policy = set_policy K_ENCDATA"
definition obj_nvstore_set_policy :: "u32 \<Rightarrow> u32 \<Rightarrow> 'd obj_state \<Rightarrow> (u32 \<times> 'd obj_state) option" where
  "obj_nvstore_set_policy = set_policy K_NVSTORE"

fun get_policy :: "u32 \<Rightarrow> 'd obj_data \<Rightarrow> (u32 + u32) option" where
  "get_policy t (TpmData p q x) =
     Some (if t = TSS_POLICY_USAGE then Inr p else if t = TSS_POLICY_OPERATOR then Inr q
           else Inl (TSPERR TSS_E_BAD_PARAMETER))"
| "get_policy t (ContextData p m x) = Some (if t = TSS_POLICY_USAGE then Inr p else Inl (TSPERR TSS_E_BAD_PARAMETER))"
| "get_policy t (RsakeyData p q x) =
     Some (if t = TSS_POLICY_USAGE then Inr p
           else if t = TSS_POLICY_MIGRATION then
             (if q = 0 then Inl (TSPERR TSS_E_KEY_NO_MIGRATION_POLICY) else Inr q)
           else Inl (TSPERR TSS_E_BAD_PARAMETER))"
| "get_policy t (EncdataData p x) = Some (if t = TSS_POLICY_USAGE then Inr p else Inl (TSPERR TSS_E_BAD_PARAMETER))"
| "get_policy t (NvData p x) = Some (if t = TSS_POLICY_USAGE then Inr p else Inl (TSPERR TSS_E_BAD_PARAMETER))"
| "get_policy t d = None"

definition obj_tpm_get_policy :: "u32 \<Rightarrow> u32 \<Rightarrow> 'd obj_state \<Rightarrow> ((u32 + u32) \<times> 'd obj_state) option" where
  "obj_tpm_get_policy h t = obj_read K_TPM h (\<lambda>ob. get_policy t (to_data ob))"
definition obj_context_get_policy :: "u32 \<Rightarrow> u32 \<Rightarrow> 'd obj_state \<Rightarrow> ((u32 + u32) \<times> 'd obj_state) option" where
  "obj_context_get_policy h t = obj_read K_CONTEXT h (\<lambda>ob. get_policy t (to_data ob))"
definition obj_encdata_get_policy :: "u32 \<Rightarrow> u32 \<Rightarrow> 'd obj_state \<Rightarrow> ((u32 + u32) \<times> 'd obj_state) option" where
  "obj_encdata_get_policy h t = obj_read K_ENCDATA h (\<lambda>ob. get_policy t (to_data ob))"
definition obj_nvstore_get_policy :: "u32 \<Rightarrow> u32 \<Rightarrow> 'd obj_state \<Rightarrow> ((u32 + u32) \<times> 'd obj_state) option" where
  "obj_nvstore_get_policy h t = obj_read K_NVSTORE h (\<lambda>ob. get_policy t (to_data ob))"

text \<open>For a key the answer also says whether the key wants authorization.\<close>

definition obj_rsakey_get_policy :: "u32 \<Rightarrow> u32 \<Rightarrow> 'd obj_state \<Rightarrow> ((u32 + u32 \<times> bool) \<times> 'd obj_state) option" where
  "obj_rsakey_get_policy h t = obj_read K_RSAKEY h (\<lambda>ob. do {
     r \<leftarrow> get_policy t (to_data ob);
     Some (case r of Inl result \<Rightarrow> Inl result
       | Inr p \<Rightarrow> Inr (p, to_flags ob AND (if t = TSS_POLICY_USAGE then TSS_OBJ_FLAG_USAGEAUTH
                                          else TSS_OBJ_FLAG_MIGAUTH) \<noteq> 0)) })"

definition obj_tpm_get_tsp_context :: "u32 \<Rightarrow> 'd obj_state \<Rightarrow> ((u32 + u32) \<times> 'd obj_state) option" where
  "obj_tpm_get_tsp_context h = obj_read K_TPM h (\<lambda>ob. Some (Inr (to_tspContext ob)))"

definition obj_tpm_get :: "u32 \<Rightarrow> 'd obj_state \<Rightarrow> ((u32 + u32) \<times> 'd obj_state) option" where
  "obj_tpm_get tspContext st = do {
     (ob, st) \<leftarrow> obj_list_get_tspcontext K_TPM tspContext st;
     case ob of None \<Rightarrow> Some (Inl (TSPERR TSS_E_INVALID_HANDLE), st)
     | Some ob \<Rightarrow> Some (Inr (to_handle ob), obj_list_put K_TPM st) }"

definition obj_tpm_add :: "'d \<Rightarrow> u32 \<Rightarrow> 'd obj_state \<Rightarrow> ((u32 + u32) \<times> 'd obj_state) option" where
  "obj_tpm_add x tspContext st =
     (let (ok, st) = ob_alloc st
      in if \<not> ok then Some (Inl (TSPERR TSS_E_OUTOFMEMORY), st)
         else do {
           (p, st) \<leftarrow> obj_policy_add x tspContext TSS_POLICY_USAGE st;
           case p of Inl result \<Rightarrow> Some (Inl result, st)
           | Inr policy \<Rightarrow> obj_list_add K_TPM tspContext 0 (TpmData policy 0 x) st })"

text \<open>The context is in its list, with policy 0, before its policy is made; the second write is through
  the pointer to the data.\<close>

definition obj_context_add :: "'d \<Rightarrow> 'd obj_state \<Rightarrow> ((u32 + u32) \<times> 'd obj_state) option" where
  "obj_context_add x st =
     (let (ok1, st) = ob_alloc st
      in if \<not> ok1 then Some (Inl (TSPERR TSS_E_OUTOFMEMORY), st)
         else let (ok2, st) = ob_alloc st
         in if \<not> ok2 then Some (Inl (TSPERR TSS_E_OUTOFMEMORY), st)
            else do {
              (r, st) \<leftarrow> obj_list_add K_CONTEXT 0 0 (ContextData 0 HASH_MODE_NOT_NULL x) st;
              case r of Inl result \<Rightarrow> Some (Inl result, st)
              | Inr h \<Rightarrow> do {
                  (p, st) \<leftarrow> obj_policy_add x h TSS_POLICY_USAGE st;
                  case p of
                    Inl result \<Rightarrow> do { (r, st) \<leftarrow> obj_list_remove K_CONTEXT h h st; Some (Inl result, st) }
                  | Inr policy \<Rightarrow> Some (Inr h,
                      set_list K_CONTEXT (update_obj h (ContextData policy HASH_MODE_NOT_NULL x) (ob_list st K_CONTEXT)) st) } })"

section \<open>Handles\<close>

text \<open>How far a handle is from the start value.\<close>

definition off :: "u32 \<Rightarrow> nat" where
  "off h = unat (h - 0xC0000000)"

declare next_handle.simps [simp del]

lemma next_handle_cases: "next_handle h = (if h = - 1 then 1 else h + 1)"
proof (cases "h = - 1")
  case True
  have "next_handle (- 1) = next_handle 0" by (subst next_handle.simps) simp
  also have "\<dots> = 1" by (subst next_handle.simps) simp
  finally show ?thesis using True by simp
next
  case False
  then have "h + 1 \<noteq> 0" by (metis add_eq_0_iff2 add.commute minus_equation_iff)
  then show ?thesis using False by (subst next_handle.simps) simp
qed

lemma off_succ: "off h < 2 ^ 32 - 1 \<Longrightarrow> off (h + 1) = Suc (off h)"
proof -
  assume "off h < 2 ^ 32 - 1"
  moreover have "h + 1 - 0xC0000000 = (h - 0xC0000000) + 1" by simp
  ultimately show ?thesis unfolding off_def by (simp only: unat_word_ariths(1)) simp
qed

lemma next_handle_off:
  assumes "off h < 2 ^ 32 - 2"
  shows "next_handle h \<noteq> 0" "off h < off (next_handle h)" "off (next_handle h) \<le> off h + 2"
proof -
  have one: "off (h + 1) = Suc (off h)" using assms by (intro off_succ) simp
  have two: "off (h + 1 + 1) = Suc (Suc (off h))" using assms one off_succ [of "h + 1"] by simp
  have m: "h = - 1 \<Longrightarrow> h + 1 + 1 = 1" by simp
  show "next_handle h \<noteq> 0"
    by (simp add: next_handle_cases) (metis add_eq_0_iff2 add.commute minus_equation_iff)
  show "off h < off (next_handle h)" "off (next_handle h) \<le> off h + 2"
    using one two m by (cases "h = - 1"; simp add: next_handle_cases)+
qed

section \<open>The invariant\<close>

fun well_typed :: "obj_kind \<Rightarrow> 'd obj_data \<Rightarrow> bool" where
  "well_typed k (TpmData p q x) = (k = K_TPM)"
| "well_typed k (ContextData p m x) = (k = K_CONTEXT)"
| "well_typed k (PolicyData t m x) = (k = K_POLICY)"
| "well_typed k (RsakeyData p q x) = (k = K_RSAKEY)"
| "well_typed k (EncdataData p x) = (k = K_ENCDATA)"
| "well_typed k (NvData p x) = (k = K_NVSTORE)"
| "well_typed k (OtherData x) = (k \<notin> {K_TPM, K_CONTEXT, K_POLICY, K_RSAKEY, K_ENCDATA, K_NVSTORE})"

abbreviation handles :: "'d obj_state \<Rightarrow> obj_kind \<Rightarrow> u32 list" where
  "handles st k \<equiv> map to_handle (ob_list st k)"

definition obj_inv :: "'d obj_state \<Rightarrow> bool" where
  "obj_inv st \<longleftrightarrow> (\<forall>k. \<not> ob_locked st k)
     \<and> (\<forall>k. \<forall>ob \<in> set (ob_list st k). well_typed k (to_data ob))
     \<and> (\<forall>ob \<in> set (ob_list st K_CONTEXT). to_tspContext ob = to_handle ob)
     \<and> (\<forall>k. distinct (handles st k)) \<and> (\<forall>k k'. k \<noteq> k' \<longrightarrow> set (handles st k) \<inter> set (handles st k') = {})
     \<and> (\<forall>k. \<forall>h \<in> set (handles st k). h \<noteq> 0 \<and> off h \<le> off (nextObjectHandle st))"

text \<open>A change that keeps the invariant because no list gets a new handle.\<close>

definition narrows :: "'d obj_state \<Rightarrow> 'd obj_state \<Rightarrow> bool" where
  "narrows st st' \<longleftrightarrow> nextObjectHandle st' = nextObjectHandle st \<and> (\<forall>k. \<not> ob_locked st' k)
     \<and> (\<forall>k. subseq (handles st' k) (handles st k))
     \<and> (\<forall>k. \<forall>ob \<in> set (ob_list st' k). well_typed k (to_data ob))
     \<and> (\<forall>ob \<in> set (ob_list st' K_CONTEXT). to_tspContext ob = to_handle ob)"

lemma subseq_distinct: "subseq xs ys \<Longrightarrow> distinct ys \<Longrightarrow> distinct xs \<and> set xs \<subseteq> set ys"
  by (induction rule: list_emb.induct) auto

lemma narrows_inv:
  assumes "obj_inv st" "narrows st st'"
  shows "obj_inv st'"
proof -
  have s: "distinct (handles st' k) \<and> set (handles st' k) \<subseteq> set (handles st k)" for k
    using assms subseq_distinct [of "handles st' k" "handles st k"] by (simp add: obj_inv_def narrows_def)
  show ?thesis unfolding obj_inv_def
  proof (intro conjI allI impI ballI)
    fix k k' :: obj_kind assume "k \<noteq> k'"
    then have "set (handles st k) \<inter> set (handles st k') = {}" using assms(1) by (simp add: obj_inv_def)
    then show "set (handles st' k) \<inter> set (handles st' k') = {}" using s [of k] s [of k'] by blast
  next
    fix k h assume "h \<in> set (handles st' k)"
    then have "h \<in> set (handles st k)" using s [of k] by blast
    then show "h \<noteq> 0" "off h \<le> off (nextObjectHandle st')"
      using assms by (auto simp: obj_inv_def narrows_def)
  qed (use assms s in \<open>auto simp: narrows_def\<close>)
qed

lemma inv_unlocked: "obj_inv st \<Longrightarrow> \<not> ob_locked st k"
  by (simp add: obj_inv_def)

lemma inv_typed: "obj_inv st \<Longrightarrow> ob \<in> set (ob_list st k) \<Longrightarrow> well_typed k (to_data ob)"
  by (simp add: obj_inv_def)

lemma inv_context: "obj_inv st \<Longrightarrow> ob \<in> set (ob_list st K_CONTEXT) \<Longrightarrow> to_tspContext ob = to_handle ob"
  by (simp add: obj_inv_def)

lemma narrows_refl: "obj_inv st \<Longrightarrow> narrows st st"
  by (simp add: obj_inv_def narrows_def)

lemma narrows_trans: "narrows st st1 \<Longrightarrow> narrows st1 st2 \<Longrightarrow> narrows st st2"
  by (simp add: narrows_def) (blast intro: subseq_order.trans)

text \<open>Replacing one list.\<close>

lemma set_list_narrows:
  assumes "obj_inv st" "subseq (map to_handle os) (handles st k)" "\<forall>ob \<in> set os. well_typed k (to_data ob)"
    and "k = K_CONTEXT \<longrightarrow> (\<forall>ob \<in> set os. to_tspContext ob = to_handle ob)"
  shows "narrows st (set_list k os (st\<lparr>ob_freed := f\<rparr>))"
  unfolding narrows_def set_list_def
proof (intro conjI allI ballI)
  fix j
  show "subseq (handles (st\<lparr>ob_freed := f, ob_list := (ob_list (st\<lparr>ob_freed := f\<rparr>))(k := os)\<rparr>) j) (handles st j)"
    using assms(2) by (cases "j = k") simp_all
next
  fix j ob
  assume "ob \<in> set (ob_list (st\<lparr>ob_freed := f, ob_list := (ob_list (st\<lparr>ob_freed := f\<rparr>))(k := os)\<rparr>) j)"
  then show "well_typed j (to_data ob)" using assms(1,3) by (cases "j = k") (auto simp: obj_inv_def)
next
  fix ob
  assume "ob \<in> set (ob_list (st\<lparr>ob_freed := f, ob_list := (ob_list (st\<lparr>ob_freed := f\<rparr>))(k := os)\<rparr>) K_CONTEXT)"
  then show "to_tspContext ob = to_handle ob" using assms(1,4) by (cases "k = K_CONTEXT") (auto simp: obj_inv_def)
qed (use assms(1) in \<open>simp_all add: obj_inv_def\<close>)

lemma unlocked_again: "\<not> ob_locked st k \<Longrightarrow> (ob_locked st)(k := False) = ob_locked st"
  by (rule ext) simp

lemma lock_put:
  assumes "\<not> ob_locked st k"
  shows "ob_lock k st = Some (st\<lparr>ob_locked := (ob_locked st)(k := True)\<rparr>)"
    and "obj_list_put k (st\<lparr>ob_locked := (ob_locked st)(k := True)\<rparr>) = st"
    and "obj_list_put k (set_list k os (st\<lparr>ob_locked := (ob_locked st)(k := True)\<rparr>)) = set_list k os st"
    and "obj_list_put k (set_list k os (st\<lparr>ob_locked := (ob_locked st)(k := True), ob_freed := f\<rparr>)) =
      set_list k os (st\<lparr>ob_freed := f\<rparr>)"
  using unlocked_again [OF assms] assms by (simp_all add: ob_lock_def obj_list_put_def set_list_def)

section \<open>Every operation keeps the invariant\<close>

lemma find_in: "List.find P xs = Some x \<Longrightarrow> x \<in> set xs \<and> P x"
  by (auto simp: find_Some_iff)

lemma alloc_inv [simp]: "obj_inv (st\<lparr>ob_count := n\<rparr>) = obj_inv st"
  by (simp add: obj_inv_def)

lemma obj_read_inv:
  assumes "obj_inv st" "\<And>ob. ob \<in> set (ob_list st k) \<Longrightarrow> f ob \<noteq> None"
  shows "\<exists>r. obj_read k h f st = Some (r, st)"
proof (cases "List.find (\<lambda>ob. to_handle ob = h) (ob_list st k)")
  case None
  then show ?thesis using lock_put [OF inv_unlocked [OF assms(1)]] by (simp add: obj_read_def obj_list_get_obj_def)
next
  case (Some ob)
  then obtain r where "f ob = Some r" using assms(2) find_in [OF Some] by blast
  then show ?thesis using Some lock_put [OF inv_unlocked [OF assms(1)]]
    by (simp add: obj_read_def obj_list_get_obj_def)
qed

lemma update_obj_handles: "map to_handle (update_obj h d os) = map to_handle os"
  by (induction os) auto

lemma update_obj_in: "ob \<in> set (update_obj h d os) \<Longrightarrow> ob \<in> set os \<or> (\<exists>ob' \<in> set os. ob = ob'\<lparr>to_data := d\<rparr>)"
  by (induction os) (auto split: if_splits)

lemma obj_write_inv:
  assumes "obj_inv st" "\<And>d. well_typed k d \<Longrightarrow> \<exists>r d'. f d = Some (r, d') \<and> well_typed k d'"
  shows "\<exists>r st'. obj_write k h f st = Some (r, st') \<and> narrows st st'"
proof (cases "List.find (\<lambda>ob. to_handle ob = h) (ob_list st k)")
  case None
  then show ?thesis using lock_put [OF inv_unlocked [OF assms(1)]] narrows_refl [OF assms(1)]
    by (simp add: obj_write_def obj_list_get_obj_def)
next
  case (Some ob)
  then obtain r d where d: "f (to_data ob) = Some (r, d)" "well_typed k d"
    using assms(2) inv_typed [OF assms(1)] find_in [OF Some] by blast
  let ?os = "update_obj h d (ob_list st k)"
  have "obj_write k h f st = Some (r, set_list k ?os st)"
    using Some d lock_put [OF inv_unlocked [OF assms(1)]] by (simp add: obj_write_def obj_list_get_obj_def)
  moreover have "narrows st (set_list k ?os (st\<lparr>ob_freed := ob_freed st\<rparr>))"
    using inv_typed [OF assms(1)] inv_context [OF assms(1)] d(2)
    by (intro set_list_narrows [OF assms(1)]) (auto simp: update_obj_handles dest!: update_obj_in)
  ultimately show ?thesis by simp
qed

lemma remove_walk_some:
  "remove_walk h c os = Some (ob, os') \<Longrightarrow> \<exists>xs ys. os = xs @ ob # ys \<and> os' = xs @ ys \<and> to_handle ob = h \<and> to_tspContext ob = c
     \<and> (\<forall>x \<in> set xs. to_handle x \<noteq> h)"
proof (induction os arbitrary: os')
  case (Cons o1 os)
  show ?case
  proof (cases "to_handle o1 = h")
    case True
    then show ?thesis using Cons.prems by (intro exI [of _ "[]"] exI [of _ os]) (simp split: if_splits)
  next
    case False
    then obtain r where r: "remove_walk h c os = Some (ob, r)" "os' = o1 # r" using Cons.prems by auto
    from Cons.IH [OF r(1)] obtain xs ys where "os = xs @ ob # ys" "r = xs @ ys" "to_handle ob = h" "to_tspContext ob = c"
      "\<forall>x \<in> set xs. to_handle x \<noteq> h" by blast
    then show ?thesis using r(2) False by (intro exI [of _ "o1 # xs"] exI [of _ ys]) auto
  qed
qed simp

lemma obj_list_remove_inv:
  assumes "obj_inv st"
  shows "\<exists>r st'. obj_list_remove k h c st = Some (r, st') \<and> narrows st st'"
proof (cases "remove_walk h c (ob_list st k)")
  case None
  then show ?thesis using lock_put [OF inv_unlocked [OF assms]] narrows_refl [OF assms]
    by (simp add: obj_list_remove_def)
next
  case (Some p)
  then obtain ob os where p: "remove_walk h c (ob_list st k) = Some (ob, os)" by (cases p) simp
  obtain xs ys where x: "ob_list st k = xs @ ob # ys" "os = xs @ ys" using remove_walk_some [OF p] by blast
  have s: "subseq (xs @ ys) (xs @ ob # ys)" by (simp add: subseq_append' list_emb_Cons)
  have "narrows st (set_list k os (st\<lparr>ob_freed := ob_freed st @ [to_data ob]\<rparr>))"
    using x inv_typed [OF assms] inv_context [OF assms] subseq_map [OF s, of to_handle]
    by (intro set_list_narrows [OF assms]) auto
  then show ?thesis using p lock_put [OF inv_unlocked [OF assms]] by (simp add: obj_list_remove_def)
qed

lemma close_walk: "close_walk c kept os freed =
    (rev kept @ filter (\<lambda>ob. to_tspContext ob \<noteq> c) os, freed @ map to_data (filter (\<lambda>ob. to_tspContext ob = c) os))"
  by (induction os arbitrary: kept freed) simp_all

lemma obj_list_close_eq:
  assumes "\<not> ob_locked st k"
  shows "obj_list_close k c st = Some (set_list k (filter (\<lambda>ob. to_tspContext ob \<noteq> c) (ob_list st k))
     (st\<lparr>ob_freed := ob_freed st @ map to_data (filter (\<lambda>ob. to_tspContext ob = c) (ob_list st k))\<rparr>))"
  using lock_put [OF assms] by (simp add: obj_list_close_def close_walk)

lemma obj_list_close_inv:
  assumes "obj_inv st"
  shows "\<exists>st'. obj_list_close k c st = Some st' \<and> narrows st st'"
proof -
  have "narrows st (set_list k (filter (\<lambda>ob. to_tspContext ob \<noteq> c) (ob_list st k)) (st\<lparr>ob_freed := f\<rparr>))" for f
    using inv_typed [OF assms] inv_context [OF assms]
    by (intro set_list_narrows [OF assms]) (auto intro: subseq_map)
  then show ?thesis using obj_list_close_eq [OF inv_unlocked [OF assms]] by blast
qed

lemma close_lists_inv: "obj_inv st \<Longrightarrow> \<exists>st'. close_lists c ks st = Some st' \<and> narrows st st'"
proof (induction ks arbitrary: st)
  case (Cons k ks)
  obtain st1 where "obj_list_close k c st = Some st1" "narrows st st1" using obj_list_close_inv [OF Cons.prems] by blast
  then show ?case using Cons.IH [OF narrows_inv [OF Cons.prems]] narrows_trans by fastforce
qed (simp add: narrows_refl)

lemma well_typed_unref: "well_typed k (data_unref h d) = well_typed k d"
  by (cases d) simp_all

lemma remove_refs_eq:
  assumes "\<not> ob_locked st k"
  shows "remove_policy_refs k p c st = Some (set_list k (map (\<lambda>ob. if to_tspContext ob \<noteq> c then ob
     else ob\<lparr>to_data := data_unref p (to_data ob)\<rparr>) (ob_list st k)) st)"
  using lock_put [OF assms] by (simp add: remove_policy_refs_def)

lemma remove_refs_inv:
  assumes "obj_inv st"
  shows "\<exists>st'. remove_policy_refs k p c st = Some st' \<and> narrows st st'"
proof -
  let ?f = "\<lambda>ob. if to_tspContext ob \<noteq> c then ob else ob\<lparr>to_data := data_unref p (to_data ob)\<rparr>"
  have h: "map to_handle (map ?f os) = map to_handle os" for os :: "'a tsp_object list" by (induction os) simp_all
  have "narrows st (set_list k (map ?f (ob_list st k)) (st\<lparr>ob_freed := ob_freed st\<rparr>))"
  proof (rule set_list_narrows [OF assms])
    show "subseq (map to_handle (map ?f (ob_list st k))) (handles st k)" unfolding h by simp
  qed (use inv_typed [OF assms] inv_context [OF assms] in \<open>auto simp: well_typed_unref\<close>)
  then show ?thesis using remove_refs_eq [OF inv_unlocked [OF assms]] by simp
qed

lemma remove_all_refs_inv:
  assumes "obj_inv st"
  shows "\<exists>st'. obj_lists_remove_policy_refs p c st = Some st' \<and> narrows st st'"
proof -
  obtain st1 where 1: "remove_policy_refs K_RSAKEY p c st = Some st1" "narrows st st1" using remove_refs_inv [OF assms] by blast
  note i1 = narrows_inv [OF assms 1(2)]
  obtain st2 where 2: "remove_policy_refs K_ENCDATA p c st1 = Some st2" "narrows st1 st2" using remove_refs_inv [OF i1] by blast
  obtain st3 where 3: "remove_policy_refs K_TPM p c st2 = Some st3" "narrows st2 st3"
    using remove_refs_inv [OF narrows_inv [OF i1 2(2)]] by blast
  show ?thesis using 1 2 3 narrows_trans [OF 1(2) narrows_trans [OF 2(2) 3(2)]]
    by (simp add: obj_lists_remove_policy_refs_def)
qed

lemma policy_remove_inv:
  assumes "obj_inv st"
  shows "\<exists>r st'. obj_policy_remove h c st = Some (r, st') \<and> narrows st st'"
proof -
  obtain r st1 where 1: "obj_list_remove K_POLICY h c st = Some (r, st1)" "narrows st st1"
    using obj_list_remove_inv [OF assms] by blast
  obtain st2 where "obj_lists_remove_policy_refs h c st1 = Some st2" "narrows st1 st2"
    using remove_all_refs_inv [OF narrows_inv [OF assms 1(2)]] by blast
  then show ?thesis using 1 narrows_trans by (cases "r = 0") (auto simp: obj_policy_remove_def)
qed

lemma policy_type_inv:
  assumes "obj_inv st"
  shows "\<exists>r. obj_policy_get_type h st = Some (r, st)"
  unfolding obj_policy_get_type_def
proof (rule obj_read_inv [OF assms])
  fix ob assume "ob \<in> set (ob_list st K_POLICY)"
  then show "map_option Inr (data_policy_type (to_data ob)) \<noteq> None"
    using inv_typed [OF assms] by (cases "to_data ob") force+
qed

lemma hash_mode_inv:
  assumes "obj_inv st"
  shows "\<exists>r. obj_context_get_hash_mode c st = Some (r, st)"
  unfolding obj_context_get_hash_mode_def
proof (rule obj_read_inv [OF assms])
  fix ob assume "ob \<in> set (ob_list st K_CONTEXT)"
  then show "map_option Inr (data_hash_mode (to_data ob)) \<noteq> None"
    using inv_typed [OF assms] by (cases "to_data ob") force+
qed

lemma put_policy_typed:
  "k \<in> {K_TPM, K_RSAKEY, K_ENCDATA, K_NVSTORE} \<Longrightarrow> well_typed k d \<Longrightarrow>
   \<exists>r d'. put_policy k t h d = Some (r, d') \<and> well_typed k d'"
  by (cases d) auto

lemma set_policy_inv:
  assumes "obj_inv st" "k \<in> {K_TPM, K_RSAKEY, K_ENCDATA, K_NVSTORE}"
  shows "\<exists>r st'. set_policy k h p st = Some (r, st') \<and> narrows st st'"
proof -
  obtain r where r: "obj_policy_get_type p st = Some (r, st)" using policy_type_inv [OF assms(1)] by blast
  show ?thesis
  proof (cases r)
    case (Inr t)
    then show ?thesis using r obj_write_inv [OF assms(1) put_policy_typed [OF assms(2)]] by (simp add: set_policy_def)
  qed (use r narrows_refl [OF assms(1)] in \<open>simp add: set_policy_def\<close>)
qed

text \<open>Operations that add objects use up handles.\<close>

definition used :: "'d obj_state \<Rightarrow> nat" where
  "used st = off (nextObjectHandle st)"

lemma narrows_used: "narrows st st' \<Longrightarrow> used st' = used st"
  by (simp add: narrows_def used_def)

lemma obj_list_add_inv:
  assumes "obj_inv st" "used st < 2 ^ 32 - 2" "well_typed k data"
  shows "\<exists>r st'. obj_list_add k c flags data st = Some (r, st') \<and> obj_inv st' \<and> used st' \<le> used st + 2
    \<and> (\<forall>h. r = Inr h \<longrightarrow> off h = used st' \<and> nextObjectHandle st' = h
         \<and> ob_list st' = (ob_list st)(k := \<lparr>to_handle = h, to_tspContext = (if k = K_CONTEXT then h else c),
              to_flags = flags, to_data = data\<rparr> # ob_list st k))
    \<and> ob_freed st' = ob_freed st"
proof (cases "ob_ok st (ob_count st)")
  case False
  then show ?thesis using assms(1) by (simp add: obj_list_add_def ob_alloc_def used_def)
next
  case True
  define h where "h = next_handle (nextObjectHandle st)"
  let ?ob = "\<lparr>to_handle = h, to_tspContext = (if k = K_CONTEXT then h else c), to_flags = flags, to_data = data\<rparr>"
  define st' where "st' = set_list k (?ob # ob_list st k) (st\<lparr>ob_count := Suc (ob_count st), nextObjectHandle := h\<rparr>)"
  have u: "\<not> ob_locked st k" using inv_unlocked [OF assms(1)] .
  have a: "obj_list_add k c flags data st = Some (Inr h, st')"
    using True u unlocked_again [OF u]
    by (simp add: obj_list_add_def ob_alloc_def obj_get_next_handle_def ob_lock_def obj_list_put_def set_list_def
        st'_def flip: h_def)
  have n: "h \<noteq> 0" "used st < off h" "off h \<le> used st + 2"
    using next_handle_off [of "nextObjectHandle st"] assms(2) by (simp_all add: h_def used_def)
  have new: "h \<notin> set (handles st j)" for j
    using assms(1) n(2) by (fastforce simp: obj_inv_def used_def)
  have l: "ob_list st' = (ob_list st)(k := ?ob # ob_list st k)" by (simp add: st'_def set_list_def)
  have f: "nextObjectHandle st' = h" "ob_locked st' = ob_locked st" "ob_freed st' = ob_freed st"
    by (simp_all add: st'_def set_list_def)
  have hs: "handles st' j = (if j = k then h # handles st k else handles st j)" for j by (simp add: l)
  have "obj_inv st'" unfolding obj_inv_def
  proof (intro conjI allI impI ballI)
    fix j show "\<not> ob_locked st' j" using f(2) inv_unlocked [OF assms(1)] by simp
  next
    fix j ob assume "ob \<in> set (ob_list st' j)"
    then show "well_typed j (to_data ob)" using assms(3) inv_typed [OF assms(1)] by (auto simp: l split: if_splits)
  next
    fix ob assume "ob \<in> set (ob_list st' K_CONTEXT)"
    then show "to_tspContext ob = to_handle ob" using inv_context [OF assms(1)] by (auto simp: l split: if_splits)
  next
    fix j show "distinct (handles st' j)" using assms(1) new by (simp add: hs obj_inv_def)
  next
    fix i j :: obj_kind assume ij: "i \<noteq> j"
    have d: "set (handles st i) \<inter> set (handles st j) = {}" using assms(1) ij by (simp add: obj_inv_def)
    show "set (handles st' i) \<inter> set (handles st' j) = {}" unfolding hs using ij d new by auto
  next
    fix j g assume "g \<in> set (handles st' j)"
    then have "g = h \<or> g \<in> set (handles st j)" by (auto simp: hs split: if_splits)
    moreover have "g \<noteq> 0 \<and> off g \<le> used st" if "g \<in> set (handles st j)"
      using that assms(1) unfolding obj_inv_def used_def by blast
    ultimately show "g \<noteq> 0" "off g \<le> off (nextObjectHandle st')" using n f(1) by auto
  qed
  moreover have "used st' = off h" by (simp add: used_def f)
  ultimately show ?thesis using a n(3) l f by auto
qed

text \<open>An operation with result \<open>x\<close> that returns, keeps the invariant and uses up at most \<open>n\<close> handle values.\<close>

definition fine :: "nat \<Rightarrow> 'd obj_state \<Rightarrow> ('r \<times> 'd obj_state) option \<Rightarrow> bool" where
  "fine n st x \<longleftrightarrow> (\<exists>r st'. x = Some (r, st') \<and> obj_inv st' \<and> used st' \<le> used st + n)"

lemma fine_narrows: "obj_inv st \<Longrightarrow> \<exists>r st'. x = Some (r, st') \<and> narrows st st' \<Longrightarrow> fine 0 st x"
  using narrows_inv narrows_used by (fastforce simp: fine_def)

lemma policy_add_fine:
  assumes "obj_inv st" "used st < 2 ^ 32 - 2"
  shows "fine 2 st (obj_policy_add x c t st)"
proof -
  let ?st = "st\<lparr>ob_count := Suc (ob_count st)\<rparr>"
  have u: "used ?st = used st" by (simp add: used_def)
  obtain m where m: "obj_context_get_hash_mode c ?st = Some (m, ?st)" using hash_mode_inv [of ?st c] assms(1) by auto
  show ?thesis
  proof (cases "ob_ok st (ob_count st)")
    case False
    then show ?thesis using assms by (simp add: fine_def obj_policy_add_def ob_alloc_def used_def)
  next
    case True
    show ?thesis
    proof (cases m)
      case (Inl e)
      then show ?thesis using True m assms by (simp add: fine_def obj_policy_add_def ob_alloc_def used_def)
    next
      case (Inr mode)
      have "\<exists>r st'. obj_list_add K_POLICY c 0 (PolicyData t mode x) ?st = Some (r, st') \<and> obj_inv st' \<and> used st' \<le> used ?st + 2"
        using obj_list_add_inv [of ?st K_POLICY "PolicyData t mode x" c 0] assms u by auto
      then show ?thesis using True m Inr u by (simp add: fine_def obj_policy_add_def ob_alloc_def)
    qed
  qed
qed

lemma tpm_add_fine:
  assumes "obj_inv st" "used st < 2 ^ 32 - 4"
  shows "fine 4 st (obj_tpm_add x c st)"
proof (cases "ob_ok st (ob_count st)")
  case False
  then show ?thesis using assms by (simp add: fine_def obj_tpm_add_def ob_alloc_def used_def)
next
  case True
  let ?st = "st\<lparr>ob_count := Suc (ob_count st)\<rparr>"
  have u: "used ?st = used st" by (simp add: used_def)
  obtain p st1 where p: "obj_policy_add x c TSS_POLICY_USAGE ?st = Some (p, st1)" "obj_inv st1" "used st1 \<le> used st + 2"
    using policy_add_fine [of ?st x c TSS_POLICY_USAGE] assms u by (auto simp: fine_def)
  show ?thesis
  proof (cases p)
    case (Inl e)
    then show ?thesis using True p by (simp add: fine_def obj_tpm_add_def ob_alloc_def)
  next
    case (Inr h)
    have "\<exists>r st'. obj_list_add K_TPM c 0 (TpmData h 0 x) st1 = Some (r, st') \<and> obj_inv st' \<and> used st' \<le> used st1 + 2"
      using obj_list_add_inv [OF p(2), of K_TPM "TpmData h 0 x" c 0] p(3) assms(2) by auto
    then show ?thesis using True p Inr by (auto simp: fine_def obj_tpm_add_def ob_alloc_def)
  qed
qed

lemma set_context_policy:
  assumes "obj_inv st"
  shows "narrows st (set_list K_CONTEXT (update_obj h (ContextData p m x) (ob_list st K_CONTEXT)) st)"
proof -
  have "narrows st (set_list K_CONTEXT (update_obj h (ContextData p m x) (ob_list st K_CONTEXT)) (st\<lparr>ob_freed := ob_freed st\<rparr>))"
    using inv_typed [OF assms] inv_context [OF assms]
    by (intro set_list_narrows [OF assms]) (auto simp: update_obj_handles dest!: update_obj_in)
  then show ?thesis by simp
qed

lemma context_add_fine:
  assumes "obj_inv st" "used st < 2 ^ 32 - 4"
  shows "fine 4 st (obj_context_add x st)"
proof (cases "ob_ok st (ob_count st) \<and> ob_ok st (Suc (ob_count st))")
  case False
  then show ?thesis using assms by (auto simp: fine_def obj_context_add_def ob_alloc_def used_def Let_def)
next
  case True
  let ?st = "st\<lparr>ob_count := Suc (Suc (ob_count st))\<rparr>"
  have u: "used ?st = used st" by (simp add: used_def)
  obtain r st1 where r: "obj_list_add K_CONTEXT 0 0 (ContextData 0 HASH_MODE_NOT_NULL x) ?st = Some (r, st1)" "obj_inv st1"
    "used st1 \<le> used st + 2"
    using obj_list_add_inv [of ?st K_CONTEXT "ContextData 0 HASH_MODE_NOT_NULL x" 0 0] assms u by auto
  show ?thesis
  proof (cases r)
    case (Inl e)
    then show ?thesis using True r by (simp add: fine_def obj_context_add_def ob_alloc_def)
  next
    case (Inr h)
    obtain p st2 where p: "obj_policy_add x h TSS_POLICY_USAGE st1 = Some (p, st2)" "obj_inv st2" "used st2 \<le> used st1 + 2"
      using policy_add_fine [OF r(2), of x h TSS_POLICY_USAGE] r(3) assms(2) by (auto simp: fine_def)
    show ?thesis
    proof (cases p)
      case (Inl e)
      obtain q st3 where q: "obj_list_remove K_CONTEXT h h st2 = Some (q, st3)" "narrows st2 st3"
        using obj_list_remove_inv [OF p(2)] by blast
      then show ?thesis using True r p Inr Inl narrows_inv [OF p(2) q(2)] narrows_used [OF q(2)]
        by (auto simp: fine_def obj_context_add_def ob_alloc_def)
    next
      case (Inr policy)
      note n = set_context_policy [OF p(2), of h policy HASH_MODE_NOT_NULL x]
      show ?thesis using True r p \<open>r = Inr h\<close> Inr narrows_inv [OF p(2) n] narrows_used [OF n]
        by (auto simp: fine_def obj_context_add_def ob_alloc_def)
    qed
  qed
qed

section \<open>Reachable states\<close>

text \<open>The calls of the library: what a call does to the objects, with the handle and other arguments of
  the caller.  Objects of the other kinds are added with data of their own type.\<close>

datatype 'd obj_call = AddContext 'd | AddPolicy 'd u32 u32 | AddTpm 'd u32 | AddObject obj_kind u32 u32 "'d obj_data"
  | RemoveObject obj_kind u32 u32 | RemovePolicy u32 u32 | SetPolicy obj_kind u32 u32 | CloseContext u32
  | GetHashMode u32 | GetPolicyType u32

fun obj_exec :: "'d obj_call \<Rightarrow> 'd obj_state \<Rightarrow> 'd obj_state option" where
  "obj_exec (AddContext x) st = map_option snd (obj_context_add x st)"
| "obj_exec (AddPolicy x c t) st = map_option snd (obj_policy_add x c t st)"
| "obj_exec (AddTpm x c) st = map_option snd (obj_tpm_add x c st)"
| "obj_exec (AddObject k c f d) st = map_option snd (obj_list_add k c f d st)"
| "obj_exec (RemoveObject k h c) st = map_option snd (obj_list_remove k h c st)"
| "obj_exec (RemovePolicy h c) st = map_option snd (obj_policy_remove h c st)"
| "obj_exec (SetPolicy k h p) st = map_option snd (set_policy k h p st)"
| "obj_exec (CloseContext c) st = obj_close_context c st"
| "obj_exec (GetHashMode c) st = map_option snd (obj_context_get_hash_mode c st)"
| "obj_exec (GetPolicyType h) st = map_option snd (obj_policy_get_type h st)"

fun call_ok :: "'d obj_call \<Rightarrow> bool" where
  "call_ok (AddObject k c f d) = well_typed k d"
| "call_ok (SetPolicy k h p) = (k \<in> {K_TPM, K_RSAKEY, K_ENCDATA, K_NVSTORE})"
| "call_ok _ = True"

fun obj_run :: "'d obj_call list \<Rightarrow> 'd obj_state \<Rightarrow> 'd obj_state option" where
  "obj_run [] st = Some st"
| "obj_run (c # cs) st = obj_exec c st \<bind> obj_run cs"

lemma obj_exec_fine:
  assumes "obj_inv st" "used st < 2 ^ 32 - 4" "call_ok c"
  shows "\<exists>st'. obj_exec c st = Some st' \<and> obj_inv st' \<and> used st' \<le> used st + 4"
proof -
  have f: "\<exists>st'. map_option snd x = Some st' \<and> obj_inv st' \<and> used st' \<le> used st + 4"
    if "fine n st x" "n \<le> 4" for n and x :: "('r \<times> 'a obj_state) option"
    using that by (auto simp: fine_def)
  show ?thesis
  proof (cases c)
    case (AddObject k ct fl d)
    have "fine 2 st (obj_list_add k ct fl d st)"
      using obj_list_add_inv [OF assms(1), of k d ct fl] assms(2,3) AddObject by (auto simp: fine_def)
    from f [OF this] show ?thesis using AddObject by simp
  next
    case (CloseContext ct)
    then show ?thesis using close_lists_inv [OF assms(1), of ct all_kinds] narrows_inv [OF assms(1)] narrows_used
      by (fastforce simp: obj_close_context_def)
  next
    case (AddContext x)
    from f [OF context_add_fine [OF assms(1,2), of x]] show ?thesis using AddContext by simp
  next
    case (AddPolicy x ct t)
    have "fine 2 st (obj_policy_add x ct t st)" using assms by (intro policy_add_fine) simp_all
    from f [OF this] show ?thesis using AddPolicy by simp
  next
    case (AddTpm x ct)
    from f [OF tpm_add_fine [OF assms(1,2), of x ct]] show ?thesis using AddTpm by simp
  next
    case (RemoveObject k h ct)
    from f [OF fine_narrows [OF assms(1) obj_list_remove_inv [OF assms(1), of k h ct]]]
    show ?thesis using RemoveObject by simp
  next
    case (RemovePolicy h ct)
    from f [OF fine_narrows [OF assms(1) policy_remove_inv [OF assms(1), of h ct]]]
    show ?thesis using RemovePolicy by simp
  next
    case (SetPolicy k h p)
    then have "k \<in> {K_TPM, K_RSAKEY, K_ENCDATA, K_NVSTORE}" using assms(3) by simp
    from f [OF fine_narrows [OF assms(1) set_policy_inv [OF assms(1) this, of h p]]]
    show ?thesis using SetPolicy by simp
  next
    case (GetHashMode ct)
    then show ?thesis using hash_mode_inv [OF assms(1), of ct] assms(1) by auto
  next
    case (GetPolicyType h)
    then show ?thesis using policy_type_inv [OF assms(1), of h] assms(1) by auto
  qed
qed

lemma init_inv:
  assumes "nextObjectHandle st = 0xC0000000" "\<forall>k. \<not> ob_locked st k"
  shows "obj_inv (obj_list_init st)" "used (obj_list_init st) = 0"
proof -
  have l: "ob_list (fold list_init ks s) k = (if k \<in> set ks then [] else ob_list s k)" for ks s and k :: obj_kind
    by (induction ks arbitrary: s) (simp_all add: list_init_def obj_list_put_def set_list_def)
  have n: "nextObjectHandle (fold list_init ks s) = nextObjectHandle s" for ks and s :: "'a obj_state"
    by (induction ks arbitrary: s) (simp_all add: list_init_def obj_list_put_def set_list_def)
  have u: "\<forall>k. \<not> ob_locked s k \<Longrightarrow> \<forall>k. \<not> ob_locked (fold list_init ks s) k" for ks and s :: "'a obj_state"
    by (induction ks arbitrary: s) (simp_all add: list_init_def obj_list_put_def set_list_def)
  have k: "k \<in> set all_kinds" for k by (cases k) (simp_all add: all_kinds_def)
  show "obj_inv (obj_list_init st)" "used (obj_list_init st) = 0"
    using u [OF assms(2), of all_kinds] assms(1)
    by (simp_all add: obj_inv_def used_def obj_list_init_def l n k off_def)
qed

lemma obj_run_inv:
  assumes "\<forall>c \<in> set cs. call_ok c" "obj_inv st" "used st + 4 * length cs < 2 ^ 32 - 4"
  shows "\<exists>st'. obj_run cs st = Some st' \<and> obj_inv st'"
  using assms
proof (induction cs arbitrary: st)
  case (Cons c cs)
  obtain st1 where 1: "obj_exec c st = Some st1" "obj_inv st1" "used st1 \<le> used st + 4"
    using obj_exec_fine [of st c] Cons.prems by auto
  then show ?case using Cons.IH [of st1] Cons.prems by simp
qed simp

lemma distinct_concat_map:
  assumes "distinct ks" "\<And>k. distinct (f k)" "\<And>k k'. k \<noteq> k' \<Longrightarrow> set (f k) \<inter> set (f k') = {}"
  shows "distinct (concat (map f ks))"
  using assms(1)
proof (induction ks)
  case (Cons k ks)
  have "set (f k) \<inter> (\<Union>j \<in> set ks. set (f j)) = (\<Union>j \<in> set ks. set (f k) \<inter> set (f j))" by (rule Int_UN_distrib)
  also have "\<dots> = (\<Union>j \<in> set ks. {})" 
  proof (rule SUP_cong [OF refl])
    fix j assume "j \<in> set ks"
    then have "k \<noteq> j" using Cons.prems by auto
    then show "set (f k) \<inter> set (f j) = {}" by (rule assms(3))
  qed
  finally show ?case using Cons assms(2) by simp
qed simp


section \<open>Closing a context and removing a policy\<close>

lemma close_lists_eq:
  assumes "\<forall>k. \<not> ob_locked st k" "distinct ks"
  shows "\<exists>st'. close_lists c ks st = Some st' \<and> (\<forall>k. \<not> ob_locked st' k)
    \<and> (\<forall>k. ob_list st' k = (if k \<in> set ks then filter (\<lambda>ob. to_tspContext ob \<noteq> c) (ob_list st k) else ob_list st k))
    \<and> ob_freed st' = ob_freed st @ concat (map (\<lambda>k. map to_data (filter (\<lambda>ob. to_tspContext ob = c) (ob_list st k))) ks)"
  using assms
proof (induction ks arbitrary: st)
  case (Cons k ks)
  let ?st1 = "set_list k (filter (\<lambda>ob. to_tspContext ob \<noteq> c) (ob_list st k))
     (st\<lparr>ob_freed := ob_freed st @ map to_data (filter (\<lambda>ob. to_tspContext ob = c) (ob_list st k))\<rparr>)"
  have 1: "obj_list_close k c st = Some ?st1" using Cons.prems(1) by (simp add: obj_list_close_eq)
  have l: "ob_list ?st1 j = (if j = k then filter (\<lambda>ob. to_tspContext ob \<noteq> c) (ob_list st k) else ob_list st j)" for j
    by (simp add: set_list_def)
  have u: "\<forall>k. \<not> ob_locked ?st1 k" using Cons.prems(1) by (simp add: set_list_def)
  have d: "distinct ks" "k \<notin> set ks" using Cons.prems(2) by simp_all
  obtain st' where s: "close_lists c ks ?st1 = Some st'" "\<forall>k. \<not> ob_locked st' k"
    "\<forall>j. ob_list st' j = (if j \<in> set ks then filter (\<lambda>ob. to_tspContext ob \<noteq> c) (ob_list ?st1 j) else ob_list ?st1 j)"
    "ob_freed st' = ob_freed ?st1 @ concat (map (\<lambda>j. map to_data (filter (\<lambda>ob. to_tspContext ob = c) (ob_list ?st1 j))) ks)"
    using Cons.IH [OF u d(1)] by blast
  have m: "map (\<lambda>j. map to_data (filter (\<lambda>ob. to_tspContext ob = c) (ob_list ?st1 j))) ks =
      map (\<lambda>j. map to_data (filter (\<lambda>ob. to_tspContext ob = c) (ob_list st j))) ks"
    using d(2) by (intro map_cong refl) (auto simp: l)
  have f: "ob_freed ?st1 = ob_freed st @ map to_data (filter (\<lambda>ob. to_tspContext ob = c) (ob_list st k))"
    by (simp add: set_list_def)
  show ?case
  proof (intro exI [of _ st'] conjI)
    show "close_lists c (k # ks) st = Some st'" using 1 s(1) by simp
    show "\<forall>j. ob_list st' j = (if j \<in> set (k # ks) then filter (\<lambda>ob. to_tspContext ob \<noteq> c) (ob_list st j) else ob_list st j)"
      using s(3) d(2) by (simp add: l)
    show "ob_freed st' = ob_freed st @ concat (map (\<lambda>k. map to_data (filter (\<lambda>ob. to_tspContext ob = c) (ob_list st k))) (k # ks))"
      using s(4) unfolding m f by simp
  qed (use s(2) in simp)
qed simp

text \<open>C26: closing a context of the client removes from every list exactly the objects of that context,
  keeps the others in their order, and gives each removed object to its free function once, list by
  list.\<close>

theorem obj_close_context_exact:
  assumes "\<forall>k. \<not> ob_locked st k"
  shows "\<exists>st'. obj_close_context c st = Some st' \<and> (\<forall>k. \<not> ob_locked st' k)
    \<and> (\<forall>k. ob_list st' k = filter (\<lambda>ob. to_tspContext ob \<noteq> c) (ob_list st k))
    \<and> ob_freed st' = ob_freed st
        @ concat (map (\<lambda>k. map to_data (filter (\<lambda>ob. to_tspContext ob = c) (ob_list st k))) all_kinds)"
proof -
  have "distinct all_kinds" "k \<in> set all_kinds" for k by (cases k; simp add: all_kinds_def)+
  then show ?thesis using close_lists_eq [OF assms, of all_kinds c] by (simp add: obj_close_context_def)
qed

text \<open>The policies an object refers to.\<close>

fun policies :: "'d obj_data \<Rightarrow> u32 list" where
  "policies (TpmData p q x) = [p, q]"
| "policies (ContextData p m x) = [p]"
| "policies (RsakeyData p q x) = [p, q]"
| "policies (EncdataData p x) = [p]"
| "policies (NvData p x) = [p]"
| "policies _ = []"

lemma unref_policies: "well_typed k d \<Longrightarrow> k \<in> {K_TPM, K_RSAKEY, K_ENCDATA} \<Longrightarrow> h \<noteq> 0 \<Longrightarrow> h \<notin> set (policies (data_unref h d))"
  by (cases d) (auto simp: unref_def)

text \<open>removing a policy makes its handle invalid and clears it from the keys, the encrypted data and
  the TPM objects of the context.  The context object and the NV areas keep it: an NV area the policy
  was assigned to still refers to it.\<close>

theorem policy_removed:
  assumes "obj_inv st" "h \<noteq> 0" "obj_policy_remove h c st = Some (TSS_SUCCESS, st')"
  shows "obj_is K_POLICY h st' = Some (False, st')
    \<and> (\<forall>k \<in> {K_TPM, K_RSAKEY, K_ENCDATA}. \<forall>ob \<in> set (ob_list st' k). to_tspContext ob = c \<longrightarrow> h \<notin> set (policies (to_data ob)))
    \<and> ob_list st' K_CONTEXT = ob_list st K_CONTEXT \<and> ob_list st' K_NVSTORE = ob_list st K_NVSTORE"
proof -
  let ?u = "\<lambda>ob. if to_tspContext ob \<noteq> c then ob else ob\<lparr>to_data := data_unref h (to_data ob)\<rparr>"
  have u: "\<not> ob_locked st k" for k by (rule inv_unlocked [OF assms(1)])
  obtain ob os where w: "remove_walk h c (ob_list st K_POLICY) = Some (ob, os)"
    using assms(3) lock_put [OF u [of K_POLICY]]
    by (cases "remove_walk h c (ob_list st K_POLICY)") (auto simp: obj_policy_remove_def obj_list_remove_def)
  obtain xs ys where x: "ob_list st K_POLICY = xs @ ob # ys" "os = xs @ ys" "to_handle ob = h"
    using remove_walk_some [OF w] by blast
  define st1 where "st1 = set_list K_POLICY os (st\<lparr>ob_freed := ob_freed st @ [to_data ob]\<rparr>)"
  have 1: "obj_list_remove K_POLICY h c st = Some (TSS_SUCCESS, st1)"
    using w lock_put [OF u [of K_POLICY]] by (simp add: obj_list_remove_def st1_def)
  have u1: "\<not> ob_locked st1 k" for k using u by (simp add: st1_def set_list_def)
  have l1: "ob_list st1 = (ob_list st)(K_POLICY := os)" by (simp add: st1_def set_list_def)
  define st2 where "st2 = set_list K_RSAKEY (map ?u (ob_list st1 K_RSAKEY)) st1"
  define st3 where "st3 = set_list K_ENCDATA (map ?u (ob_list st2 K_ENCDATA)) st2"
  have "obj_lists_remove_policy_refs h c st1 = Some (set_list K_TPM (map ?u (ob_list st3 K_TPM)) st3)"
    using u1 by (simp add: obj_lists_remove_policy_refs_def remove_refs_eq st2_def st3_def set_list_def)
  then have st': "st' = set_list K_TPM (map ?u (ob_list st3 K_TPM)) st3"
    using assms(3) 1 by (simp add: obj_policy_remove_def)
  have l: "ob_list st' = (ob_list st)(K_POLICY := os, K_RSAKEY := map ?u (ob_list st K_RSAKEY),
      K_ENCDATA := map ?u (ob_list st K_ENCDATA), K_TPM := map ?u (ob_list st K_TPM))"
    by (simp add: st' st3_def st2_def set_list_def l1)
  have lk: "\<not> ob_locked st' K_POLICY" using u1 by (simp add: st' st3_def st2_def set_list_def)
  have "distinct (handles st K_POLICY)" using assms(1) by (simp add: obj_inv_def)
  then have "h \<notin> to_handle ` set os" using x by (auto simp: image_iff)
  then have f: "List.find (\<lambda>ob. to_handle ob = h) (ob_list st' K_POLICY) = None"
    by (auto simp: l find_None_iff image_iff)
  have "obj_is K_POLICY h st' = Some (False, st')"
    using f lock_put [OF lk] by (simp add: obj_is_def obj_list_get_obj_def)
  moreover have "\<forall>k \<in> {K_TPM, K_RSAKEY, K_ENCDATA}. \<forall>ob \<in> set (ob_list st' k). to_tspContext ob = c \<longrightarrow> h \<notin> set (policies (to_data ob))"
  proof (intro ballI impI)
    fix k ob assume k: "k \<in> {K_TPM, K_RSAKEY, K_ENCDATA}" and m: "ob \<in> set (ob_list st' k)" and c: "to_tspContext ob = c"
    have "ob_list st' k = map ?u (ob_list st k)" using k by (auto simp: l)
    with m have "ob \<in> ?u ` set (ob_list st k)" by (simp only: set_map)
    then obtain b where b: "ob = ?u b" "b \<in> set (ob_list st k)" by (rule imageE)
    have "h \<notin> set (policies (data_unref h (to_data b)))"
      by (rule unref_policies [OF inv_typed [OF assms(1) b(2)] k assms(2)])
    then show "h \<notin> set (policies (to_data ob))" using b(1) c by (cases "to_tspContext b = c") simp_all
  qed
  moreover have "ob_list st' K_CONTEXT = ob_list st K_CONTEXT" "ob_list st' K_NVSTORE = ob_list st K_NVSTORE"
    by (simp_all add: l)
  ultimately show ?thesis by (intro conjI)
qed

text \<open>asking for the TPM object of a context that has none returns an error and keeps the lock of the
  list: the next call that takes it, even closing another context, never returns.\<close>

theorem tpm_get_keeps_lock:
  assumes "\<not> ob_locked st K_TPM" "\<forall>ob \<in> set (ob_list st K_TPM). to_tspContext ob \<noteq> c"
  shows "\<exists>st'. obj_tpm_get c st = Some (Inl (TSPERR TSS_E_INVALID_HANDLE), st') \<and> obj_tpm_get c' st' = None
    \<and> obj_is K_TPM h st' = None \<and> obj_close_context c' st' = None"
proof -
  let ?st = "st\<lparr>ob_locked := (ob_locked st)(K_TPM := True)\<rparr>"
  have "List.find (\<lambda>ob. to_tspContext ob = c) (ob_list ?st K_TPM) = None" using assms(2) by (simp add: find_None_iff)
  then have "obj_tpm_get c st = Some (Inl (TSPERR TSS_E_INVALID_HANDLE), ?st)"
    using lock_put [OF assms(1)] by (simp add: obj_tpm_get_def obj_list_get_tspcontext_def)
  moreover have "obj_tpm_get c' ?st = None" "obj_is K_TPM h ?st = None" "obj_close_context c' ?st = None"
    by (simp_all add: obj_tpm_get_def obj_list_get_tspcontext_def obj_is_def obj_list_get_obj_def ob_lock_def
        obj_close_context_def all_kinds_def obj_list_close_def)
  ultimately show ?thesis by blast
qed

section \<open>Examples\<close>

definition ex_objs :: "(nat \<Rightarrow> bool) \<Rightarrow> unit obj_state" where
  "ex_objs ok = \<lparr>nextObjectHandle = 0xC0000000, ob_list = (\<lambda>k. []), ob_locked = (\<lambda>k. False), ob_ok = ok,
     ob_count = 0, ob_freed = []\<rparr>"

text \<open>A context with its policy, another policy, an NV area and a key it is assigned to.\<close>

definition ex_calls :: "unit obj_call list" where
  "ex_calls = [AddContext (), AddPolicy () 0xC0000001 TSS_POLICY_USAGE,
     AddObject K_NVSTORE 0xC0000001 0 (NvData 0 ()), AddObject K_RSAKEY 0xC0000001 0 (RsakeyData 0 0 ()),
     SetPolicy K_NVSTORE 0xC0000004 0xC0000003, SetPolicy K_RSAKEY 0xC0000005 0xC0000003]"


definition ex_context :: "unit tsp_object list \<Rightarrow> unit obj_state" where
  "ex_context keys = \<lparr>nextObjectHandle = 0xC0000005, ob_list = (\<lambda>k. case k of
       K_CONTEXT \<Rightarrow> [\<lparr>to_handle = 0xC0000001, to_tspContext = 0xC0000001, to_flags = 0, to_data = ContextData 0xC0000002 0 ()\<rparr>]
     | K_POLICY \<Rightarrow> [\<lparr>to_handle = 0xC0000003, to_tspContext = 0xC0000001, to_flags = 0, to_data = PolicyData 1 0 ()\<rparr>]
     | K_NVSTORE \<Rightarrow> [\<lparr>to_handle = 0xC0000004, to_tspContext = 0xC0000001, to_flags = 0, to_data = NvData 0xC0000003 ()\<rparr>]
     | K_RSAKEY \<Rightarrow> keys | _ \<Rightarrow> []), ob_locked = (\<lambda>k. False), ob_ok = (\<lambda>_. True), ob_count = 0, ob_freed = []\<rparr>"

definition ex_rsakey :: "unit tsp_object" where
  "ex_rsakey = \<lparr>to_handle = 0xC0000005, to_tspContext = 0xC0000001, to_flags = 0, to_data = RsakeyData 0xC0000003 0 ()\<rparr>"

theorem obj_close_context_exact_witness:
  "\<exists>st'. obj_close_context 0xC0000001 (ex_context [ex_rsakey]) = Some st' \<and> ob_list st' K_RSAKEY = []
     \<and> ob_freed st' = [ContextData 0xC0000002 0 (), PolicyData 1 0 (), RsakeyData 0xC0000003 0 (), NvData 0xC0000003 ()]"
  using obj_close_context_exact [of "ex_context [ex_rsakey]" "0xC0000001"]
  by (auto simp: ex_context_def ex_rsakey_def all_kinds_def)

theorem policy_removed_witness:
  "\<exists>st'. obj_policy_remove 0xC0000003 0xC0000001 (ex_context [ex_rsakey]) = Some (TSS_SUCCESS, st')
     \<and> obj_is K_POLICY 0xC0000003 st' = Some (False, st')
     \<and> to_data (hd (ob_list st' K_NVSTORE)) = NvData 0xC0000003 ()"
proof -
  have i: "obj_inv (ex_context [ex_rsakey])"
    by (auto simp: obj_inv_def ex_context_def ex_rsakey_def off_def split: obj_kind.splits)
  obtain st' where "obj_policy_remove 0xC0000003 0xC0000001 (ex_context [ex_rsakey]) = Some (TSS_SUCCESS, st')"
    by (simp add: obj_policy_remove_def obj_list_remove_def ob_lock_def ex_context_def obj_lists_remove_policy_refs_def
        remove_policy_refs_def obj_list_put_def set_list_def)
  from policy_removed [OF i _ this] this show ?thesis by (auto simp: ex_context_def)
qed

theorem tpm_get_keeps_lock_witness:
  "\<exists>st'. obj_tpm_get 5 (ex_context []) = Some (Inl (TSPERR TSS_E_INVALID_HANDLE), st') \<and> obj_close_context 0xC0000001 st' = None"
  using tpm_get_keeps_lock [of "ex_context []" 5 0 0] tpm_get_keeps_lock [of "ex_context []" 5 "0xC0000001" 0]
  by (auto simp: ex_context_def)

end
