(* ===== verification/Tspi_Mem.thy ===== *)
theory Tspi_Mem
  imports Tsm_Prelude
begin

text \<open>
  The memory of the contexts of the client library (\<open>tspi/tsp_context_mem.c\<close>): for each context a
  table with the memory that was handed to the application, so that it can be freed by pointer or
  all at once.

  Tables are kept in the order of the linked list, entries in the order of theirs.  A pointer is a
  number, 0 is NULL.  \<open>mt_live\<close> lists the blocks that are allocated; freeing a block that is not
  among them, and following a NULL pointer, give \<open>None\<close>.
\<close>

section \<open>State\<close>

abbreviation (input) TSS_E_INVALID_RESOURCE :: u32 where "TSS_E_INVALID_RESOURCE \<equiv> 0x13A"

record memTable =
  mt_tspContext :: u32
  mt_entries :: "nat list"

record mem_state =
  SpiMemoryTable :: "memTable list"
  mt_live :: "nat list"
  mt_next :: nat
  mt_ok :: "nat \<Rightarrow> bool"
  mt_count :: nat

text \<open>An allocation of a table or entry, and one of a block for the application.\<close>

definition mt_alloc :: "mem_state \<Rightarrow> bool \<times> mem_state" where
  "mt_alloc st = (mt_ok st (mt_count st), st\<lparr>mt_count := Suc (mt_count st)\<rparr>)"

definition mt_block :: "mem_state \<Rightarrow> nat \<times> mem_state" where
  "mt_block st =
     (if mt_ok st (mt_count st)
      then (mt_next st, st\<lparr>mt_count := Suc (mt_count st), mt_next := Suc (mt_next st), mt_live := mt_next st # mt_live st\<rparr>)
      else (0, st\<lparr>mt_count := Suc (mt_count st)\<rparr>))"

definition free_block :: "nat \<Rightarrow> mem_state \<Rightarrow> mem_state option" where
  "free_block p st =
     (if p = 0 then Some st
      else if p \<in> set (mt_live st) then Some (st\<lparr>mt_live := remove1 p (mt_live st)\<rparr>) else None)"

fun free_blocks :: "nat list \<Rightarrow> mem_state \<Rightarrow> mem_state option" where
  "free_blocks [] st = Some st"
| "free_blocks (p # ps) st = free_block p st \<bind> free_blocks ps"

section \<open>Operations\<close>

fun table_index :: "u32 \<Rightarrow> memTable list \<Rightarrow> nat option" where
  "table_index c [] = None"
| "table_index c (t # ts) = (if mt_tspContext t = c then Some 0 else map_option Suc (table_index c ts))"

definition getTable :: "u32 \<Rightarrow> mem_state \<Rightarrow> nat option" where
  "getTable tspContext st = table_index tspContext (SpiMemoryTable st)"

text \<open>The table of the context must exist.\<close>

definition addEntry :: "u32 \<Rightarrow> nat \<Rightarrow> mem_state \<Rightarrow> mem_state option" where
  "addEntry tspContext new st = do {
     i \<leftarrow> getTable tspContext st;
     let t = SpiMemoryTable st ! i;
     Some (st\<lparr>SpiMemoryTable := (SpiMemoryTable st)[i := t\<lparr>mt_entries := mt_entries t @ [new]\<rparr>]\<rparr>) }"

definition addTable :: "memTable \<Rightarrow> mem_state \<Rightarrow> mem_state" where
  "addTable new st = st\<lparr>SpiMemoryTable := SpiMemoryTable st @ [new]\<rparr>"

text \<open>The first table is taken out by setting the head of the list to NULL.\<close>

definition freeTable :: "u32 \<Rightarrow> mem_state \<Rightarrow> (u32 \<times> mem_state) option" where
  "freeTable tspContext st =
     (case getTable tspContext st of
        None \<Rightarrow> Some (TSS_SUCCESS, st)
      | Some i \<Rightarrow> do {
          st \<leftarrow> free_blocks (mt_entries (SpiMemoryTable st ! i)) st;
          Some (TSS_SUCCESS, st\<lparr>SpiMemoryTable :=
            (if i = 0 then [] else take i (SpiMemoryTable st) @ drop (Suc i) (SpiMemoryTable st))\<rparr>) })"

definition freeEntry :: "nat \<Rightarrow> nat \<Rightarrow> mem_state \<Rightarrow> (u32 \<times> mem_state) option" where
  "freeEntry i pointer st =
     (let t = SpiMemoryTable st ! i
      in if pointer \<in> set (mt_entries t) then do {
           st \<leftarrow> free_block pointer st;
           Some (TSS_SUCCESS, st\<lparr>SpiMemoryTable :=
             (SpiMemoryTable st)[i := t\<lparr>mt_entries := remove1 pointer (mt_entries t)\<rparr>]\<rparr>) }
         else Some (TSPERR TSS_E_INVALID_RESOURCE, st))"

definition add_mem_entry :: "u32 \<Rightarrow> nat \<Rightarrow> mem_state \<Rightarrow> (u32 \<times> mem_state) option" where
  "add_mem_entry tspContext allocd_mem st =
     (let (ok, st) = mt_alloc st
      in if \<not> ok then Some (TSPERR TSS_E_OUTOFMEMORY, st)
         else do { st \<leftarrow> addEntry tspContext allocd_mem st; Some (TSS_SUCCESS, st) })"

definition calloc_tspi :: "u32 \<Rightarrow> mem_state \<Rightarrow> (nat \<times> mem_state) option" where
  "calloc_tspi tspContext st = do {
     (ok, st) \<leftarrow> Some (if getTable tspContext st \<noteq> None then (True, st)
       else let (ok, st) = mt_alloc st
            in if ok then (True, addTable \<lparr>mt_tspContext = tspContext, mt_entries = []\<rparr> st) else (False, st));
     if \<not> ok then Some (0, st)
     else let (ok, st) = mt_alloc st
       in if \<not> ok then Some (0, st)
          else let (p, st) = mt_block st
            in if p = 0 then Some (0, st)
               else do { st \<leftarrow> addEntry tspContext p st; Some (p, st) } }"

definition free_tspi :: "u32 \<Rightarrow> nat \<Rightarrow> mem_state \<Rightarrow> (u32 \<times> mem_state) option" where
  "free_tspi tspContext memPointer st =
     (if memPointer = 0 then freeTable tspContext st
      else case getTable tspContext st of
        None \<Rightarrow> Some (TSPERR TSS_E_INVALID_RESOURCE, st)
      | Some i \<Rightarrow> freeEntry i memPointer st)"

section \<open>The invariant\<close>

text \<open>One table per context, and the blocks in the tables are the live blocks.\<close>

definition mem_ok :: "mem_state \<Rightarrow> bool" where
  "mem_ok st \<longleftrightarrow> distinct (map mt_tspContext (SpiMemoryTable st))
     \<and> distinct (concat (map mt_entries (SpiMemoryTable st))) \<and> distinct (mt_live st)
     \<and> set (concat (map mt_entries (SpiMemoryTable st))) = set (mt_live st)
     \<and> (\<forall>p \<in> set (mt_live st). 0 < p \<and> p < mt_next st) \<and> 0 < mt_next st"

text \<open>The blocks of a context.\<close>

definition blocks_of :: "u32 \<Rightarrow> mem_state \<Rightarrow> nat list" where
  "blocks_of c st = concat (map mt_entries (filter (\<lambda>t. mt_tspContext t = c) (SpiMemoryTable st)))"

lemma table_index_some:
  "table_index c ts = Some i \<Longrightarrow> \<exists>xs t ys. ts = xs @ t # ys \<and> length xs = i \<and> mt_tspContext t = c
     \<and> (\<forall>x \<in> set xs. mt_tspContext x \<noteq> c)"
proof (induction ts arbitrary: i)
  case (Cons t ts)
  show ?case
  proof (cases "mt_tspContext t = c")
    case True
    then show ?thesis using Cons.prems by (intro exI [of _ "[]"] exI [of _ t] exI [of _ ts]) simp
  next
    case False
    then obtain j where j: "table_index c ts = Some j" "i = Suc j" using Cons.prems by auto
    obtain xs u ys where "ts = xs @ u # ys" "length xs = j" "mt_tspContext u = c" "\<forall>x \<in> set xs. mt_tspContext x \<noteq> c"
      using Cons.IH [OF j(1)] by blast
    then show ?thesis using False j(2) by (intro exI [of _ "t # xs"] exI [of _ u] exI [of _ ys]) simp
  qed
qed simp

lemma table_index_none: "table_index c ts = None \<longleftrightarrow> (\<forall>t \<in> set ts. mt_tspContext t \<noteq> c)"
  by (induction ts) auto

lemma filter_not: "\<forall>t \<in> set ts. mt_tspContext t \<noteq> c \<Longrightarrow> filter (\<lambda>t. mt_tspContext t = c) ts = []"
  by (simp add: filter_empty_conv)

text \<open>The table of a context in a state with the invariant.\<close>

lemma table_split:
  assumes "mem_ok st" "getTable c st = Some i"
  obtains xs t ys where "SpiMemoryTable st = xs @ t # ys" "i = length xs" "mt_tspContext t = c"
    "\<forall>x \<in> set xs. mt_tspContext x \<noteq> c" "\<forall>y \<in> set ys. mt_tspContext y \<noteq> c" "blocks_of c st = mt_entries t"
proof -
  obtain xs t ys where x: "SpiMemoryTable st = xs @ t # ys" "length xs = i" "mt_tspContext t = c" "\<forall>x \<in> set xs. mt_tspContext x \<noteq> c"
    using table_index_some assms(2) unfolding getTable_def by blast
  have y: "\<forall>y \<in> set ys. mt_tspContext y \<noteq> c" using assms(1) x by (auto simp: mem_ok_def image_iff)
  have "blocks_of c st = mt_entries t"
    using x(3) filter_not [OF x(4)] filter_not [OF y] by (simp add: blocks_of_def x(1))
  then show ?thesis using that x y by blast
qed


lemma mem_ok_add_entry:
  assumes "mem_ok st" "SpiMemoryTable st = xs @ t # ys" "p = mt_next st"
  shows "mem_ok (st\<lparr>mt_count := n, mt_next := Suc p, mt_live := p # mt_live st,
    SpiMemoryTable := xs @ t\<lparr>mt_entries := mt_entries t @ [p]\<rparr> # ys\<rparr>)"
proof -
  have p: "p \<notin> set (mt_live st)" using assms(1,3) by (auto simp: mem_ok_def)
  have d: "distinct (concat (map mt_entries xs) @ mt_entries t @ concat (map mt_entries ys))"
    "set (concat (map mt_entries xs) @ mt_entries t @ concat (map mt_entries ys)) = set (mt_live st)"
    using assms(1) by (simp_all add: mem_ok_def assms(2) Un_assoc)
  have n: "p \<notin> set (concat (map mt_entries xs) @ mt_entries t @ concat (map mt_entries ys))" using p d(2) by (simp only:) simp
  have "distinct (concat (map mt_entries xs) @ (mt_entries t @ [p]) @ concat (map mt_entries ys))"
    using d(1) n by (auto simp del: set_concat)
  moreover have "set (concat (map mt_entries xs) @ (mt_entries t @ [p]) @ concat (map mt_entries ys)) = insert p (set (mt_live st))"
    unfolding d(2) [symmetric] by auto
  ultimately show ?thesis
    using assms(1,3) p by (simp add: mem_ok_def assms(2) Un_assoc less_Suc_eq)
qed

lemma mem_ok_count: "mem_ok (st\<lparr>mt_count := n\<rparr>) = mem_ok st"
  by (simp add: mem_ok_def)

lemma mem_ok_table:
  assumes "mem_ok st" "getTable c st = None"
  shows "mem_ok (addTable \<lparr>mt_tspContext = c, mt_entries = []\<rparr> (st\<lparr>mt_count := n\<rparr>))"
proof -
  have "c \<notin> mt_tspContext ` set (SpiMemoryTable st)"
    using assms(2) by (auto simp: getTable_def table_index_none)
  then show ?thesis using assms(1) by (simp add: mem_ok_def addTable_def)
qed

lemma table_index_append: "table_index c ts = None \<Longrightarrow> mt_tspContext t = c \<Longrightarrow> table_index c (ts @ [t]) = Some (length ts)"
  by (induction ts) (auto split: if_splits)

text \<open>The part of \<open>calloc_tspi\<close> after the table exists.\<close>

lemma calloc_in_table:
  assumes "mem_ok st" "getTable c st = Some i"
  shows "\<exists>p st'. calloc_tspi c st = Some (p, st') \<and> mem_ok st'
    \<and> (if p = 0 then mt_live st' = mt_live st \<and> (\<forall>d. blocks_of d st' = blocks_of d st)
       else p \<notin> set (mt_live st) \<and> mt_live st' = p # mt_live st
         \<and> (\<forall>d. blocks_of d st' = (if d = c then blocks_of c st @ [p] else blocks_of d st)))
    \<and> (mt_ok st (mt_count st) \<and> mt_ok st (Suc (mt_count st)) \<longrightarrow> p \<noteq> 0)"
proof -
  obtain xs t ys where x: "SpiMemoryTable st = xs @ t # ys" "i = length xs" "mt_tspContext t = c"
    "\<forall>x \<in> set xs. mt_tspContext x \<noteq> c" "\<forall>y \<in> set ys. mt_tspContext y \<noteq> c" "blocks_of c st = mt_entries t"
    using table_split [OF assms] .
  consider (first) "\<not> mt_ok st (mt_count st)" | (second) "mt_ok st (mt_count st)" "\<not> mt_ok st (Suc (mt_count st))"
    | (both) "mt_ok st (mt_count st)" "mt_ok st (Suc (mt_count st))" by blast
  then show ?thesis
  proof cases
    case first
    then have "calloc_tspi c st = Some (0, st\<lparr>mt_count := Suc (mt_count st)\<rparr>)"
      using assms(2) by (simp add: calloc_tspi_def mt_alloc_def)
    then show ?thesis using assms(1) first by (simp add: mem_ok_count blocks_of_def)
  next
    case second
    then have "calloc_tspi c st = Some (0, st\<lparr>mt_count := Suc (Suc (mt_count st))\<rparr>)"
      using assms(2) by (simp add: calloc_tspi_def mt_alloc_def mt_block_def)
    then show ?thesis using assms(1) second by (simp add: mem_ok_count blocks_of_def)
  next
    case both
    let ?p = "mt_next st"
    let ?st = "st\<lparr>mt_count := Suc (Suc (mt_count st)), mt_next := Suc ?p, mt_live := ?p # mt_live st,
      SpiMemoryTable := xs @ t\<lparr>mt_entries := mt_entries t @ [?p]\<rparr> # ys\<rparr>"
    have pos: "0 < ?p" "?p \<notin> set (mt_live st)" using assms(1) by (auto simp: mem_ok_def)
    have "table_index c (SpiMemoryTable st) = Some i" using assms(2) by (simp add: getTable_def)
    then have "calloc_tspi c st = Some (?p, ?st)"
      using both pos x(1,2) by (simp add: calloc_tspi_def mt_alloc_def mt_block_def addEntry_def getTable_def)
    moreover have "mem_ok ?st" by (rule mem_ok_add_entry [OF assms(1) x(1) refl])
    moreover have "blocks_of d ?st = (if d = c then blocks_of c st @ [?p] else blocks_of d st)" for d
      using x(1,3,6) filter_not [OF x(4)] filter_not [OF x(5)] by (simp add: blocks_of_def)
    ultimately show ?thesis using pos by auto
  qed
qed

text \<open>C37: \<open>calloc_tspi\<close> always returns and keeps the invariant.  A block it returns is new and belongs to
  the context that asked for it, after the blocks the context has; on failure no block is allocated
  or lost.\<close>

theorem calloc_tspi_owns:
  assumes "mem_ok st"
  shows "\<exists>p st'. calloc_tspi c st = Some (p, st') \<and> mem_ok st'
    \<and> (if p = 0 then mt_live st' = mt_live st \<and> (\<forall>d. blocks_of d st' = blocks_of d st)
       else p \<notin> set (mt_live st) \<and> mt_live st' = p # mt_live st
         \<and> (\<forall>d. blocks_of d st' = (if d = c then blocks_of c st @ [p] else blocks_of d st)))"
proof (cases "getTable c st")
  case (Some i)
  then show ?thesis using calloc_in_table [OF assms Some] by blast
next
  case None
  show ?thesis
  proof (cases "mt_ok st (mt_count st)")
    case False
    then have "calloc_tspi c st = Some (0, st\<lparr>mt_count := Suc (mt_count st)\<rparr>)"
      using None by (simp add: calloc_tspi_def mt_alloc_def)
    then show ?thesis using assms by (simp add: mem_ok_count blocks_of_def)
  next
    case True
    let ?st = "addTable \<lparr>mt_tspContext = c, mt_entries = []\<rparr> (st\<lparr>mt_count := Suc (mt_count st)\<rparr>)"
    have g: "getTable c ?st = Some (length (SpiMemoryTable st))"
      using None by (simp add: getTable_def addTable_def table_index_append)
    have "calloc_tspi c st = calloc_tspi c ?st"
      using None True g by (simp add: calloc_tspi_def mt_alloc_def)
    moreover have "blocks_of d ?st = blocks_of d st" "mt_live ?st = mt_live st" for d
      by (simp_all add: blocks_of_def addTable_def)
    ultimately show ?thesis using calloc_in_table [OF mem_ok_table [OF assms None] g] by metis
  qed
qed

lemma free_blocks_all:
  "distinct ps \<Longrightarrow> set ps \<subseteq> set (mt_live st) \<Longrightarrow> 0 \<notin> set ps \<Longrightarrow> distinct (mt_live st) \<Longrightarrow>
   free_blocks ps st = Some (st\<lparr>mt_live := filter (\<lambda>p. p \<notin> set ps) (mt_live st)\<rparr>)"
proof (induction ps arbitrary: st)
  case (Cons p ps)
  let ?st = "st\<lparr>mt_live := remove1 p (mt_live st)\<rparr>"
  have r: "remove1 p (mt_live st) = filter (\<lambda>q. q \<noteq> p) (mt_live st)" using distinct_remove1_removeAll [OF Cons.prems(4), of p] by (auto simp: removeAll_filter_not_eq intro: filter_cong)
  have "free_block p st = Some ?st" using Cons.prems by (simp add: free_block_def)
  moreover have "free_blocks ps ?st = Some (?st\<lparr>mt_live := filter (\<lambda>q. q \<notin> set ps) (mt_live ?st)\<rparr>)"
    using Cons.prems by (intro Cons.IH) auto
  ultimately show ?case by (simp add: r conj_commute)
qed simp

text \<open>Freeing all memory of a context frees exactly its blocks.  When the table of the context is not
  the first one, that is all.  When it is the first, the tables of all other contexts are lost too:
  their blocks stay allocated, and freeing one of them is refused from then on.\<close>

theorem free_all_memory:
  assumes "mem_ok st" "getTable c st = Some i"
  shows "\<exists>st'. free_tspi c 0 st = Some (TSS_SUCCESS, st') \<and> blocks_of c st' = []
    \<and> mt_live st' = filter (\<lambda>p. p \<notin> set (blocks_of c st)) (mt_live st)
    \<and> (if 0 < i then mem_ok st' \<and> (\<forall>d. d \<noteq> c \<longrightarrow> blocks_of d st' = blocks_of d st)
       else \<forall>d. \<forall>p \<in> set (blocks_of d st). d \<noteq> c \<longrightarrow>
         p \<in> set (mt_live st') \<and> free_tspi d p st' = Some (TSPERR TSS_E_INVALID_RESOURCE, st'))"
proof -
  obtain xs t ys where x: "SpiMemoryTable st = xs @ t # ys" "i = length xs" "mt_tspContext t = c"
    "\<forall>x \<in> set xs. mt_tspContext x \<noteq> c" "\<forall>y \<in> set ys. mt_tspContext y \<noteq> c" "blocks_of c st = mt_entries t"
    using table_split [OF assms] .
  have m: "distinct (mt_live st)" "\<forall>p \<in> set (mt_live st). 0 < p \<and> p < mt_next st" "0 < mt_next st"
    and d: "distinct (concat (map mt_entries xs) @ mt_entries t @ concat (map mt_entries ys))"
    and s: "set (concat (map mt_entries xs)) \<union> set (mt_entries t) \<union> set (concat (map mt_entries ys)) = set (mt_live st)"
    and u: "distinct (map mt_tspContext (xs @ ys))"
    using assms(1) by (auto simp: mem_ok_def x(1) Un_assoc)
  let ?live = "filter (\<lambda>p. p \<notin> set (mt_entries t)) (mt_live st)"
  let ?st = "st\<lparr>mt_live := ?live, SpiMemoryTable := (if i = 0 then [] else xs @ ys)\<rparr>"
  have "0 \<notin> set (mt_entries t)" using m(2) s by auto
  then have "free_blocks (mt_entries t) st = Some (st\<lparr>mt_live := ?live\<rparr>)"
    using m(1) d s by (intro free_blocks_all) auto
  then have f: "free_tspi c 0 st = Some (TSS_SUCCESS, ?st)"
    using assms(2) x(1,2) by (simp add: free_tspi_def freeTable_def)
  have b: "blocks_of c ?st = []" using x(4,5) by (auto simp: blocks_of_def)
  show ?thesis
  proof (cases "0 < i")
    case True
    have "set (concat (map mt_entries (xs @ ys))) = set ?live" using d s by (auto simp del: set_concat)
    moreover have "distinct (concat (map mt_entries (xs @ ys)))" using d by (auto simp del: set_concat)
    ultimately have "mem_ok ?st" using True m u by (simp add: mem_ok_def)
    moreover have "\<forall>d. d \<noteq> c \<longrightarrow> blocks_of d ?st = blocks_of d st" using True x(1,3) by (simp add: blocks_of_def)
    ultimately show ?thesis using f b True x(6) by simp
  next
    case False
    then have z: "xs = []" using x(2) by simp
    have "p \<in> set (mt_live ?st) \<and> free_tspi d p ?st = Some (TSPERR TSS_E_INVALID_RESOURCE, ?st)"
      if p: "p \<in> set (blocks_of d st)" "d \<noteq> c" for d p
    proof -
      have "p \<in> set (concat (map mt_entries ys))" using p x(1,3) z by (auto simp: blocks_of_def)
      then have "p \<in> set (mt_live ?st)" "p \<noteq> 0" using s m(2) \<open>distinct (concat _ @ _)\<close> by auto
      then show ?thesis using False by (simp add: free_tspi_def getTable_def)
    qed
    then show ?thesis using f b False x(6) by auto
  qed
qed

section \<open>Examples\<close>

definition ex_mem :: mem_state where
  "ex_mem = \<lparr>SpiMemoryTable = [\<lparr>mt_tspContext = 5, mt_entries = [1, 3]\<rparr>, \<lparr>mt_tspContext = 6, mt_entries = [2]\<rparr>],
     mt_live = [3, 2, 1], mt_next = 4, mt_ok = (\<lambda>_. True), mt_count = 0\<rparr>"

lemma ex_mem_ok: "mem_ok ex_mem"
  by (auto simp: mem_ok_def ex_mem_def)


theorem calloc_tspi_owns_witness:
  "\<exists>p st'. calloc_tspi 7 ex_mem = Some (p, st') \<and> mem_ok st'"
  using calloc_tspi_owns [OF ex_mem_ok, of 7] by blast

theorem free_all_memory_witness:
  "\<exists>st'. free_tspi 5 0 ex_mem = Some (TSS_SUCCESS, st') \<and> 2 \<in> set (mt_live st')
     \<and> free_tspi 6 2 st' = Some (TSPERR TSS_E_INVALID_RESOURCE, st')"
proof -
  have "getTable 5 ex_mem = Some 0" "blocks_of 6 ex_mem = [2]" by (simp_all add: getTable_def ex_mem_def blocks_of_def)
  then show ?thesis using free_all_memory [OF ex_mem_ok, of 5 0] by force
qed

end
