(* ===== verification/Tcsi_Core.thy ===== *)
theory Tcsi_Core
  imports Tcs_Rsp Tcs_Auth_Mgr
begin

text \<open>
  What all commands of the daemon (\<open>tcs/tcsi_*.c\<close>) are made of: checking the context and the
  authorization sessions, sending a request to the device and taking the response apart, releasing the
  sessions.  A command is a function on the state of the daemon: its contexts and keys
  (\<open>tcs_state\<close>), the session manager with the device (\<open>auth_mgr\<close>), and the places of its inputs and
  outputs (\<open>rsp_mem\<close>).  Its result \<open>None\<close> is undefined behaviour.

  A command whose session has been swapped out may go to sleep inside \<open>auth_mgr_check\<close>.  What the
  other threads do until it is woken is the function \<open>e_others\<close> of the environment, about which
  nothing is known but what a theorem says.
\<close>

section \<open>State and environment\<close>

record 't tcsd =
  d_tcs :: tcs_state
  d_am :: "'t auth_mgr"
  d_mem :: rsp_mem

text \<open>The driver, the configuration of the session manager, the other threads, \<open>tpm_metrics\<close> and
  \<open>tcsd_options\<close> as far as the commands look at them, and the run level of the platform.  The
  persistent key store and the credential files are outside: loading a registered key by its public
  key, removing and writing a key, and the content of a credential file are functions here.
  \<open>e_little\<close> is the byte order of the host, \<open>e_hdr\<close> the content of an uninitialised key header, \<open>e_slot\<close>
  that of an uninitialised slot.\<close>

record 't tcsd_env =
  e_dv :: "'t dev_ops"
  e_cfg :: auth_cfg
  e_others :: "u32 \<Rightarrow> tcs_state \<times> 't auth_mgr \<Rightarrow> (tcs_state \<times> 't auth_mgr) option"
  e_num_pcrs :: u32
  e_num_dirs :: u32
  e_kernel_pcrs :: u32
  e_firmware_pcrs :: u32
  e_runlevel :: u8
  e_version12 :: bool
  e_exclusive :: bool
  e_little :: bool
  e_hdr :: "u8 list"
  e_slot :: u32
  e_ps_load :: "u32 \<Rightarrow> TCPA_STORE_PUBKEY \<Rightarrow> 't tcsd \<Rightarrow> ((u32 \<times> u32) \<times> 't tcsd) option"
  e_ps_remove :: "TSS_UUID \<Rightarrow> 't tcsd \<Rightarrow> u32 \<times> 't tcsd"
  e_ps_write :: "TSS_UUID \<Rightarrow> TSS_UUID \<Rightarrow> u8 list \<Rightarrow> 't tcsd \<Rightarrow> u32 \<times> 't tcsd"
  e_credential :: "u32 \<Rightarrow> u8 list option"

type_synonym 't command = "'t tcsd \<Rightarrow> (u32 \<times> 't tcsd) option"

text \<open>The two ways out of the middle of a command: \<open>goto done\<close>, after which the sessions are released,
  and \<open>return\<close>.\<close>

datatype exit = Done u32 | Return u32

type_synonym 't body = "'t tcsd \<Rightarrow> (exit \<times> 't tcsd) option"

fun code :: "exit \<Rightarrow> u32" where
  "code (Done r) = r" | "code (Return r) = r"

text \<open>The pattern \<open>if ((result = f())) goto out;\<close>.\<close>

definition checked :: "'t command \<Rightarrow> (u32 \<Rightarrow> exit) \<Rightarrow> 't body \<Rightarrow> 't body" where
  "checked f out k st = do { (result, st) \<leftarrow> f st; if result \<noteq> 0 then Some (out result, st) else k st }"

definition exits :: "exit \<Rightarrow> 't body" where
  "exits x st = Some (x, st)"

section \<open>Steps of a command\<close>

definition verify :: "u32 \<Rightarrow> 't command" where
  "verify hContext st = Some (ctx_verify_context hContext (d_tcs st), st)"

text \<open>\<open>auth_mgr_check\<close> to its end, the sleep included: the slot is remembered by its number.\<close>

definition check_handle :: "'t tcsd_env \<Rightarrow> u32 \<Rightarrow> u32 \<Rightarrow> 't tcsd \<Rightarrow> ((u32 \<times> u32) \<times> 't tcsd) option" where
  "check_handle env hContext h st = do {
     (w, am) \<leftarrow> auth_mgr_check (e_dv env) (e_cfg env) (d_tcs st) hContext h (d_am st);
     case w of Finished x \<Rightarrow> Some (x, st\<lparr>d_am := am\<rparr>)
     | Waiting c \<Rightarrow> do {
         i \<leftarrow> first_index (\<lambda>e. am_full e \<and> am_tpm_handle e = h \<and> am_tcs_ctx e = hContext) (auth_mapper (d_am st));
         (tcs, am) \<leftarrow> e_others env c (d_tcs st, am);
         if length (auth_mapper am) \<le> i then None
         else do {
           (x, am) \<leftarrow> check_retry (e_dv env) i h (woken am);
           Some (x, st\<lparr>d_tcs := tcs, d_am := am\<rparr>) } } }"

text \<open>\<open>auth_mgr_req_new\<close>, and \<open>auth_mgr_swap_out\<close> when there is no room for a session.\<close>

definition session_room :: "'t tcsd_env \<Rightarrow> u32 \<Rightarrow> 't command" where
  "session_room env hContext st =
     (if auth_mgr_req_new hContext (d_am st) then Some (TSS_SUCCESS, st)
      else do {
        (w, am) \<leftarrow> auth_mgr_swap_out (e_dv env) (e_cfg env) (d_tcs st) hContext (d_am st);
        case w of Finished result \<Rightarrow> Some (result, st\<lparr>d_am := am\<rparr>)
        | Waiting c \<Rightarrow> do {
            (tcs, am) \<leftarrow> e_others env c (d_tcs st, am);
            Some (TSS_SUCCESS, st\<lparr>d_tcs := tcs, d_am := woken am\<rparr>) } })"

text \<open>\<open>auth_mgr_check(hContext, &auth->AuthHandle)\<close>, with a NULL pointer a fault; the check of an optional
  authorization.  A \<open>TCM_AUTH_SESSION\<close> has its handle in the other structure.\<close>

definition set_auth_handle :: "nat \<Rightarrow> u32 \<Rightarrow> 't tcsd \<Rightarrow> 't tcsd" where
  "set_auth_handle l h st =
     st\<lparr>d_mem := (d_mem st)\<lparr>m_A := (m_A (d_mem st))(l := (m_A (d_mem st) l)\<lparr>AuthHandle := h\<rparr>)\<rparr>\<rparr>"

definition auth_check :: "'t tcsd_env \<Rightarrow> u32 \<Rightarrow> nat option \<Rightarrow> 't command" where
  "auth_check env hContext auth st = do {
     l \<leftarrow> auth;
     ((result, h), st) \<leftarrow> check_handle env hContext (AuthHandle (m_A (d_mem st) l)) st;
     Some (result, set_auth_handle l h st) }"

definition opt_auth_check :: "'t tcsd_env \<Rightarrow> u32 \<Rightarrow> nat option \<Rightarrow> 't command" where
  "opt_auth_check env hContext auth st =
     (if auth = None then Some (TSS_SUCCESS, st) else auth_check env hContext auth st)"

definition session_check :: "'t tcsd_env \<Rightarrow> u32 \<Rightarrow> nat option \<Rightarrow> 't command" where
  "session_check env hContext auth st = do {
     l \<leftarrow> auth;
     ((result, h), st) \<leftarrow> check_handle env hContext (ts_authHandle (m_S (d_mem st) l)) st;
     Some (result, st\<lparr>d_mem := (d_mem st)\<lparr>m_S := (m_S (d_mem st))(l := (m_S (d_mem st) l)\<lparr>ts_authHandle := h\<rparr>)\<rparr>\<rparr>) }"

text \<open>The arguments a command hands to \<open>tpm_rqu_build\<close> for its authorizations.\<close>

definition auth_arg :: "nat option \<Rightarrow> rsp_mem \<Rightarrow> va" where
  "auth_arg auth m = A (map_option (m_A m) auth)"

definition session_arg :: "nat option \<Rightarrow> rsp_mem \<Rightarrow> va" where
  "session_arg auth m = S (map_option (m_S m) auth)"

text \<open>Submitting the request in a buffer: the code of the submission or of the response, and the response
  with its size.\<close>

definition set_dev :: "'t tddl \<Rightarrow> 't tcsd \<Rightarrow> 't tcsd" where
  "set_dev d st = st\<lparr>d_am := (d_am st)\<lparr>dev := d\<rparr>\<rparr>"

definition txBlob :: "'t tcsd_env \<Rightarrow> 't tcsd \<Rightarrow> u8 list" where
  "txBlob env st = stack_buf (e_dv env) (dev (d_am st))"

definition submit :: "'t tcsd_env \<Rightarrow> u8 list \<Rightarrow> 't tcsd \<Rightarrow> ((u32 \<times> u8 list \<times> u32) \<times> 't tcsd) option" where
  "submit env blob st = do {
     ((result, blob), d) \<leftarrow> req_mgr_submit_req (e_dv env) blob (dev (d_am st));
     let st = set_dev d st;
     if result \<noteq> 0 then Some ((result, blob, 0), st)
     else do { (result, paramSize) \<leftarrow> UnloadBlob_Header blob; Some ((result, blob, paramSize), st) } }"

text \<open>The request, the submission, the response: a failure of \<open>tpm_rqu_build\<close> leaves by \<open>bad\<close>, the others
  by \<open>goto done\<close>.\<close>

definition request ::
  "'t tcsd_env \<Rightarrow> u32 \<Rightarrow> (rsp_mem \<Rightarrow> va list) \<Rightarrow> (u32 \<Rightarrow> exit) \<Rightarrow> (u8 list \<Rightarrow> u32 \<Rightarrow> 't body) \<Rightarrow> 't body" where
  "request env ordinal args bad k st = do {
     (result, w, ap) \<leftarrow> tpm_rqu_build ordinal (args (d_mem st)) (0, Some (txBlob env st));
     if result \<noteq> 0 then Some (bad result, st)
     else do {
       blob \<leftarrow> snd w;
       ((result, blob, paramSize), st) \<leftarrow> submit env blob st;
       if result \<noteq> 0 then Some (Done result, st) else k blob paramSize st } }"

definition parse :: "u32 \<Rightarrow> ra list \<Rightarrow> u8 list \<Rightarrow> u32 \<Rightarrow> 't command" where
  "parse ordinal outs blob paramSize st = do {
     (result, m) \<leftarrow> tpm_rsp_parse ordinal outs blob paramSize (d_mem st);
     Some (result, st\<lparr>d_mem := m\<rparr>) }"

text \<open>Most commands end with the code of \<open>tpm_rsp_parse\<close>, some with that of the header.\<close>

definition transact ::
  "'t tcsd_env \<Rightarrow> u32 \<Rightarrow> (rsp_mem \<Rightarrow> va list) \<Rightarrow> (u32 \<Rightarrow> exit) \<Rightarrow> ra list \<Rightarrow> 't body" where
  "transact env ordinal args bad outs = request env ordinal args bad (\<lambda>blob paramSize st. do {
     (result, st) \<leftarrow> parse ordinal outs blob paramSize st;
     Some (Done result, st) })"

definition transact_plain :: "'t tcsd_env \<Rightarrow> u32 \<Rightarrow> (rsp_mem \<Rightarrow> va list) \<Rightarrow> (u32 \<Rightarrow> exit) \<Rightarrow> 't body" where
  "transact_plain env ordinal args bad = request env ordinal args bad (\<lambda>blob paramSize. exits (Done 0))"

section \<open>The end of a command\<close>

text \<open>\<open>auth_mgr_release_auth(auth0, auth1, hContext)\<close>.\<close>

definition auth_of :: "'t tcsd \<Rightarrow> nat option \<Rightarrow> (u32 \<times> bool) option" where
  "auth_of st auth = map_option (\<lambda>l. (AuthHandle (m_A (d_mem st) l), fContinueAuthSession (m_A (d_mem st) l) \<noteq> 0)) auth"

definition release_auth :: "'t tcsd_env \<Rightarrow> u32 \<Rightarrow> nat option \<Rightarrow> nat option \<Rightarrow> 't tcsd \<Rightarrow> 't tcsd option" where
  "release_auth env hContext auth0 auth1 st = do {
     am \<leftarrow> auth_mgr_release_auth (e_dv env) (auth_of st auth0) (auth_of st auth1) hContext (d_am st);
     Some (st\<lparr>d_am := am\<rparr>) }"

definition releasing :: "'t tcsd_env \<Rightarrow> u32 \<Rightarrow> nat option \<Rightarrow> nat option \<Rightarrow> 't body \<Rightarrow> 't command" where
  "releasing env hContext auth0 auth1 body st = do {
     (x, st) \<leftarrow> body st;
     case x of Return result \<Rightarrow> Some (result, st)
     | Done result \<Rightarrow> do { st \<leftarrow> release_auth env hContext auth0 auth1 st; Some (result, st) } }"

text \<open>A command without sessions to release.\<close>

definition plain :: "'t body \<Rightarrow> 't command" where
  "plain body st = do { (x, st) \<leftarrow> body st; Some (code x, st) }"

end
