(* ===== verification/Tcsi_Keys.thy ===== *)
theory Tcsi_Keys
  imports Tcsi_Core
begin

text \<open>
  Loading keys into the device (\<open>tcs/tcs_key.c\<close>, \<open>LoadKeyShim\<close> and \<open>ensureKeyIsLoaded\<close> of
  \<open>tcs/tcs_key_mem_cache.c\<close>, \<open>LoadKeyByBlob_Internal\<close> of \<open>tcs/tcsi_key.c\<close>), on the key cache of
  \<open>Tcs_Key_Cache\<close> and the device of the session manager.

  \<open>LoadKeyShim\<close> calls itself for the parent of a key, directly and through \<open>get_slot\<close>; it is a
  partial function, whose result \<open>None\<close> is undefined behaviour or a recursion without end.
\<close>

section \<open>Structures\<close>

definition set_tcs :: "tcs_state \<Rightarrow> 't tcsd \<Rightarrow> 't tcsd" where
  "set_tcs tcs st = st\<lparr>d_tcs := tcs\<rparr>"

text \<open>A \<open>malloc\<close> of \<open>n\<close> bytes, which are then read from the blob; nothing for \<open>n = 0\<close>.  The result is
  whether there was memory, the pointer and the offset.\<close>

definition read_field :: "u32 \<Rightarrow> u64 \<Rightarrow> u8 list \<Rightarrow> tcs_state \<Rightarrow> ((bool \<times> ptr \<times> u64) \<times> tcs_state) option" where
  "read_field n off blob st =
     (if n = 0 then Some ((True, NULL, off), st)
      else let (ok, st) = kalloc st
        in if \<not> ok then Some ((False, NULL, off), st)
           else do { (bs, off) \<leftarrow> UnloadBlob off n blob; Some ((True, Buf bs, off), st) })"

definition UnloadBlob_KEY_PARMS ::
  "u64 \<Rightarrow> u8 list \<Rightarrow> tcs_state \<Rightarrow> ((u32 \<times> TCPA_KEY_PARMS \<times> u64) \<times> tcs_state) option" where
  "UnloadBlob_KEY_PARMS off blob st = do {
     (alg, off) \<leftarrow> UnloadBlob_UINT32 off blob;
     (enc, off) \<leftarrow> UnloadBlob_UINT16 off blob;
     (sig, off) \<leftarrow> UnloadBlob_UINT16 off blob;
     (n, off) \<leftarrow> UnloadBlob_UINT32 off blob;
     ((ok, parms, off), st) \<leftarrow> read_field n off blob st;
     Some ((if ok then TSS_SUCCESS else TCSERR TSS_E_OUTOFMEMORY,
       \<lparr>kp_algorithmID = alg, kp_encScheme = enc, kp_sigScheme = sig,
        kp_parmSize = (if ok then n else 0), kp_parms = parms\<rparr>, off), st) }"

definition UnloadBlob_STORE_PUBKEY ::
  "u64 \<Rightarrow> u8 list \<Rightarrow> tcs_state \<Rightarrow> ((u32 \<times> TCPA_STORE_PUBKEY \<times> u64) \<times> tcs_state) option" where
  "UnloadBlob_STORE_PUBKEY off blob st = do {
     (n, off) \<leftarrow> UnloadBlob_UINT32 off blob;
     ((ok, key, off), st) \<leftarrow> read_field n off blob st;
     Some ((if ok then TSS_SUCCESS else TCSERR TSS_E_OUTOFMEMORY,
       \<lparr>sp_keyLength = (if ok then n else 0), sp_key = key\<rparr>, off), st) }"

abbreviation (input) TPM_TAG_KEY12 :: u16 where "TPM_TAG_KEY12 \<equiv> 0x0028"

text \<open>The header of a key is a union: a version of four bytes, or a tag and a filler as two numbers of 16
  bits in the byte order of the host.\<close>

definition host16 :: "bool \<Rightarrow> u16 \<Rightarrow> u8 list" where
  "host16 little x = (if little then rev (be16 x) else be16 x)"

definition is_key12 :: "bool \<Rightarrow> u8 list \<Rightarrow> bool" where
  "is_key12 little hdr \<longleftrightarrow> take 2 hdr = host16 little TPM_TAG_KEY12"

definition key_free :: "TSS_KEY \<Rightarrow> TSS_KEY" where
  "key_free key = key\<lparr>tk_algorithmParms := (tk_algorithmParms key)\<lparr>kp_parms := NULL, kp_parmSize := 0\<rparr>,
     tk_pubKey := \<lparr>sp_keyLength = 0, sp_key = NULL\<rparr>, tk_encData := NULL, tk_encSize := 0,
     tk_PCRInfo := NULL, tk_PCRInfoSize := 0\<rparr>"

definition destroy_key_refs :: "TSS_KEY \<Rightarrow> tcs_state \<Rightarrow> tcs_state" where
  "destroy_key_refs key st = kfree (key_objs key) st"

text \<open>Everything behind the header; the second component says whether the header was read as that of a
  \<open>TPM_KEY12\<close>.  On every error what has been allocated is released.\<close>

definition read_key_body ::
  "u8 list \<Rightarrow> u64 \<Rightarrow> u8 list \<Rightarrow> tcs_state \<Rightarrow> ((u32 \<times> TSS_KEY \<times> u64) \<times> tcs_state) option" where
  "read_key_body hdr off blob st = do {
     (usage, off) \<leftarrow> UnloadBlob_UINT16 off blob;
     (flags, off) \<leftarrow> UnloadBlob_UINT32 off blob;
     (auth, off) \<leftarrow> UnloadBlob_BYTE off blob;
     ((rc, parms, off), st) \<leftarrow> UnloadBlob_KEY_PARMS off blob st;
     let key = \<lparr>tk_hdr = hdr, tk_keyUsage = usage, tk_keyFlags = flags, tk_authDataUsage = auth,
       tk_algorithmParms = parms, tk_PCRInfoSize = 0, tk_PCRInfo = NULL,
       tk_pubKey = \<lparr>sp_keyLength = 0, sp_key = NULL\<rparr>, tk_encSize = 0, tk_encData = NULL\<rparr>;
     if rc \<noteq> 0 then Some ((rc, key, off), st)
     else do {
       (n, off) \<leftarrow> UnloadBlob_UINT32 off blob;
       ((ok, info, off), st) \<leftarrow> read_field n off blob st;
       if \<not> ok then Some ((TCSERR TSS_E_OUTOFMEMORY, key_free key, off), destroy_key_refs key st)
       else do {
         let key = key\<lparr>tk_PCRInfoSize := n, tk_PCRInfo := info\<rparr>;
         ((rc, pub, off), st) \<leftarrow> UnloadBlob_STORE_PUBKEY off blob st;
         if rc \<noteq> 0 then Some ((rc, key_free key, off), destroy_key_refs key st)
         else do {
           let key = key\<lparr>tk_pubKey := pub\<rparr>;
           (n, off) \<leftarrow> UnloadBlob_UINT32 off blob;
           ((ok, enc, off), st) \<leftarrow> read_field n off blob st;
           if \<not> ok then Some ((TCSERR TSS_E_OUTOFMEMORY, key_free key, off), destroy_key_refs key st)
           else Some ((TSS_SUCCESS, key\<lparr>tk_encSize := n, tk_encData := enc\<rparr>, off), st) } } } }"

text \<open>\<open>hdr\<close> is what the header of the key contains before.\<close>

definition UnloadBlob_TSS_KEY ::
  "bool \<Rightarrow> u8 list \<Rightarrow> u64 \<Rightarrow> u8 list \<Rightarrow> tcs_state \<Rightarrow> ((u32 \<times> TSS_KEY \<times> u64) \<times> tcs_state) option" where
  "UnloadBlob_TSS_KEY little hdr off blob st =
     (if is_key12 little hdr then do {
        (tag, off) \<leftarrow> UnloadBlob_UINT16 off blob;
        (fill, off) \<leftarrow> UnloadBlob_UINT16 off blob;
        read_key_body (host16 little tag @ host16 little fill) off blob st }
      else do {
        (ver, off) \<leftarrow> UnloadBlob off 4 blob;
        read_key_body ver off blob st })"

definition UnloadBlob_TSM_KEY ::
  "bool \<Rightarrow> u64 \<Rightarrow> u8 list \<Rightarrow> tcs_state \<Rightarrow> ((u32 \<times> TSS_KEY \<times> u64) \<times> tcs_state) option" where
  "UnloadBlob_TSM_KEY little off blob st = do {
     (tag, off) \<leftarrow> UnloadBlob_UINT16 off blob;
     (fill, off) \<leftarrow> UnloadBlob_UINT16 off blob;
     read_key_body (host16 little tag @ host16 little fill) off blob st }"

definition LoadBlob_KEY_PARMS :: "TCPA_KEY_PARMS \<Rightarrow> wst \<Rightarrow> wst option" where
  "LoadBlob_KEY_PARMS keyInfo w = LoadBlob_UINT32 (kp_algorithmID keyInfo) w
     \<bind> LoadBlob_UINT16 (kp_encScheme keyInfo) \<bind> LoadBlob_UINT16 (kp_sigScheme keyInfo)
     \<bind> LoadBlob_UINT32 (kp_parmSize keyInfo) \<bind> LoadBlob (kp_parmSize keyInfo) (kp_parms keyInfo)"

definition LoadBlob_STORE_PUBKEY :: "TCPA_STORE_PUBKEY \<Rightarrow> wst \<Rightarrow> wst option" where
  "LoadBlob_STORE_PUBKEY store w = LoadBlob_UINT32 (sp_keyLength store) w
     \<bind> LoadBlob (sp_keyLength store) (sp_key store)"

definition LoadBlob_KEY_FLAGS :: "u32 \<Rightarrow> wst \<Rightarrow> wst option" where
  "LoadBlob_KEY_FLAGS flags = LoadBlob_UINT32 flags"

definition write_key_body :: "TSS_KEY \<Rightarrow> wst \<Rightarrow> wst option" where
  "write_key_body key w = LoadBlob_UINT16 (tk_keyUsage key) w \<bind> LoadBlob_KEY_FLAGS (tk_keyFlags key)
     \<bind> LoadBlob_BOOL (tk_authDataUsage key) \<bind> LoadBlob_KEY_PARMS (tk_algorithmParms key)
     \<bind> LoadBlob_UINT32 (tk_PCRInfoSize key) \<bind> LoadBlob (tk_PCRInfoSize key) (tk_PCRInfo key)
     \<bind> LoadBlob_STORE_PUBKEY (tk_pubKey key)
     \<bind> LoadBlob_UINT32 (tk_encSize key) \<bind> LoadBlob (tk_encSize key) (tk_encData key)"

text \<open>The two numbers of 16 bits in a header.\<close>

definition hdr16 :: "bool \<Rightarrow> u8 list \<Rightarrow> u16" where
  "hdr16 little bs = Decode_UINT16 (if little then rev bs else bs)"

definition LoadBlob_TSM_KEY :: "bool \<Rightarrow> TSS_KEY \<Rightarrow> wst \<Rightarrow> wst option" where
  "LoadBlob_TSM_KEY little key w = LoadBlob_UINT16 (hdr16 little (read_at (tk_hdr key) 0 2)) w
     \<bind> LoadBlob_UINT16 (hdr16 little (read_at (tk_hdr key) 2 2)) \<bind> write_key_body key"

definition LoadBlob_TSS_KEY :: "bool \<Rightarrow> TSS_KEY \<Rightarrow> wst \<Rightarrow> wst option" where
  "LoadBlob_TSS_KEY little key w =
     (if is_key12 little (tk_hdr key) then LoadBlob_TSM_KEY little key w
      else LoadBlob 4 (Buf (tk_hdr key)) w \<bind> write_key_body key)"

fun read_handles :: "nat \<Rightarrow> u64 \<Rightarrow> u8 list \<Rightarrow> (u32 list \<times> u64) option" where
  "read_handles 0 off blob = Some ([], off)"
| "read_handles (Suc n) off blob = do {
     (h, off) \<leftarrow> UnloadBlob_UINT32 off blob;
     (hs, off) \<leftarrow> read_handles n off blob;
     Some (h # hs, off) }"

definition UnloadBlob_KEY_HANDLE_LIST ::
  "u64 \<Rightarrow> u8 list \<Rightarrow> tcs_state \<Rightarrow> ((u32 \<times> u32 list) \<times> tcs_state) option" where
  "UnloadBlob_KEY_HANDLE_LIST off blob st = do {
     (n, off) \<leftarrow> UnloadBlob_UINT16 off blob;
     if n = 0 then Some ((TSS_SUCCESS, []), st)
     else let (ok, st) = kalloc st
       in if \<not> ok then Some ((TCSERR TSS_E_OUTOFMEMORY, []), st)
          else do { (hs, off) \<leftarrow> read_handles (unat n) off blob; Some ((TSS_SUCCESS, hs), st) } }"

text \<open>\<open>free(keyList.handle)\<close>.\<close>

definition free_handles :: "u32 list \<Rightarrow> tcs_state \<Rightarrow> tcs_state" where
  "free_handles hs st = kfree (if hs = [] then 0 else 1) st"

section \<open>Asking the device\<close>

abbreviation (input) TPM_CAP_KEY_HANDLE :: u32 where "TPM_CAP_KEY_HANDLE \<equiv> 7"
abbreviation (input) TPM_CAP_CHECK_LOADED :: u32 where "TPM_CAP_CHECK_LOADED \<equiv> 8"
abbreviation (input) TPM_RT_KEY :: u32 where "TPM_RT_KEY \<equiv> 1"
abbreviation (input) TPM_ORD_EvictKey :: u32 where "TPM_ORD_EvictKey \<equiv> 0x00000022"
abbreviation (input) TCS_E_KM_LOADFAILED :: u32 where "TCS_E_KM_LOADFAILED \<equiv> 0x0CA"

definition TCSP_GetCapability_Internal ::
  "'t tcsd_env \<Rightarrow> u32 \<Rightarrow> u32 \<Rightarrow> u32 \<Rightarrow> ptr \<Rightarrow> nat \<Rightarrow> nat \<Rightarrow> 't command" where
  "TCSP_GetCapability_Internal env hContext capArea subCapSize subCap respSize resp = plain
     (checked (verify hContext) Return
     (transact env TPM_ORD_GetCapability (\<lambda>m. [I capArea, I subCapSize, P subCap, A None]) Return
        [O32 (Some respSize), OB (Some resp), OA None, OA None]))"

text \<open>The same into local variables of the caller, the places 0 of its frame.\<close>

definition frame :: "rsp_mem \<Rightarrow> rsp_mem" where
  "frame m = m\<lparr>m_32 := (\<lambda>_. 0), m_B := (\<lambda>_. NULL)\<rparr>"

definition unframe :: "rsp_mem \<Rightarrow> rsp_mem \<Rightarrow> rsp_mem" where
  "unframe m m' = m'\<lparr>m_32 := m_32 m, m_B := m_B m\<rparr>"

definition local_capability ::
  "'t tcsd_env \<Rightarrow> u32 \<Rightarrow> u32 \<Rightarrow> u32 \<Rightarrow> ptr \<Rightarrow> 't tcsd \<Rightarrow> ((u32 \<times> ptr) \<times> 't tcsd) option" where
  "local_capability env hContext capArea subCapSize subCap st = do {
     (result, st') \<leftarrow> TCSP_GetCapability_Internal env hContext capArea subCapSize subCap 0 0
        (st\<lparr>d_mem := frame (d_mem st)\<rparr>);
     Some ((result, m_B (d_mem st') 0), st'\<lparr>d_mem := unframe (d_mem st) (d_mem st')\<rparr>) }"

text \<open>\<open>free(resp)\<close>, and the bytes behind a pointer.\<close>

definition free_resp :: "'t tcsd \<Rightarrow> 't tcsd" where
  "free_resp st = st\<lparr>d_mem := (d_mem st)\<lparr>m_live := m_live (d_mem st) - 1\<rparr>\<rparr>"

fun bytes_of :: "ptr \<Rightarrow> u8 list option" where
  "bytes_of (Buf bs) = Some bs" | "bytes_of _ = None"

definition internal_EvictByKeySlot :: "'t tcsd_env \<Rightarrow> u32 \<Rightarrow> 't command" where
  "internal_EvictByKeySlot env slot st =
     (if e_version12 env then do {
        (result, d) \<leftarrow> TCSP_FlushSpecific_Common (e_dv env) slot TPM_RT_KEY (dev (d_am st));
        Some (result, set_dev d st) }
      else do {
        blob \<leftarrow> rqu TPM_ORD_EvictKey (LoadBlob_UINT32 slot) (txBlob env st);
        ((result, blob, paramSize), st) \<leftarrow> submit env blob st;
        Some (result, st) })"

section \<open>Making room\<close>

fun clear_keys :: "'t tcsd_env \<Rightarrow> u32 list \<Rightarrow> u32 \<Rightarrow> 't tcsd \<Rightarrow> (u32 option \<times> 't tcsd) option" where
  "clear_keys env [] count st = Some (Some count, st)"
| "clear_keys env (h # hs) count st =
     (if \<exists>tmp \<in> set (cache (d_tcs st)). kc_tpm_handle tmp = h then clear_keys env hs count st
      else do {
        (result, st) \<leftarrow> internal_EvictByKeySlot env h st;
        if result \<noteq> 0 then Some (None, st) else clear_keys env hs (count + 1) st })"

text \<open>The code, and the count if it has been stored: every error after the first call is a success.\<close>

definition clear_unknown ::
  "'t tcsd_env \<Rightarrow> u32 \<Rightarrow> 't tcsd \<Rightarrow> ((u32 \<times> u32 option) \<times> 't tcsd) option" where
  "clear_unknown env hContext st = do {
     ((result, resp), st) \<leftarrow> local_capability env hContext TPM_CAP_KEY_HANDLE 0 NULL st;
     if result \<noteq> 0 then Some ((result, None), st)
     else do {
       blob \<leftarrow> bytes_of resp;
       ((result, hs), tcs) \<leftarrow> UnloadBlob_KEY_HANDLE_LIST 0 blob (d_tcs st);
       let st = set_tcs tcs st;
       (count, st) \<leftarrow> (if result \<noteq> 0 then Some (None, st) else clear_keys env hs 0 st);
       Some ((TSS_SUCCESS, count), free_resp (set_tcs (free_handles hs (d_tcs st)) st)) } }"

definition make_room :: "'t tcsd_env \<Rightarrow> u32 \<Rightarrow> 't command" where
  "make_room env parent_tcs_handle st = do {
     ((result, count), st) \<leftarrow> clear_unknown env InternalContext st;
     if result \<noteq> 0 then Some (result, st)
     else do {
       count \<leftarrow> count;
       if 0 < count then Some (TSS_SUCCESS, st)
       else
         let (tpm_handle_to_evict, smallestTimeStamp) =
           fold (lru_step parent_tcs_handle) (cache (d_tcs st)) (NULL_HANDLE, 0xFFFFFFFF)
         in if tpm_handle_to_evict \<noteq> NULL_HANDLE then do {
              (result, st) \<leftarrow> internal_EvictByKeySlot env tpm_handle_to_evict st;
              if result \<noteq> 0 then Some (result, st)
              else let (result, tcs) = mc_set_slot_by_slot tpm_handle_to_evict NULL_HANDLE (d_tcs st)
                in Some (result, set_tcs tcs st) }
            else Some (TSS_SUCCESS, st) } }"

text \<open>The key parameters go into a buffer of 100 bytes.\<close>

definition canILoadThisKey :: "'t tcsd_env \<Rightarrow> TCPA_KEY_PARMS \<Rightarrow> 't tcsd \<Rightarrow> ((u32 \<times> bool) \<times> 't tcsd) option" where
  "canILoadThisKey env parms st = do {
     (off, b) \<leftarrow> LoadBlob_KEY_PARMS parms (0, Some (replicate 100 0));
     subCap \<leftarrow> b;
     ((result, resp), st) \<leftarrow> local_capability env InternalContext TPM_CAP_CHECK_LOADED (ucast (ucast off :: u16)) (Buf subCap) st;
     if result \<noteq> 0 then Some ((result, False), st)
     else do {
       bs \<leftarrow> bytes_of resp;
       x \<leftarrow> rd bs 0 1;
       Some ((TSS_SUCCESS, hd x \<noteq> 0), free_resp st) } }"

definition isKeyLoaded :: "'t tcsd_env \<Rightarrow> u32 \<Rightarrow> 't tcsd \<Rightarrow> (bool \<times> 't tcsd) option" where
  "isKeyLoaded env keySlot st =
     (let not_loaded = (\<lambda>st. Some (False, set_tcs (snd (mc_set_slot_by_slot keySlot NULL_HANDLE (d_tcs st))) st))
      in if keySlot = SRK_TPM_HANDLE then Some (True, st)
         else do {
           ((result, resp), st) \<leftarrow> local_capability env InternalContext TPM_CAP_KEY_HANDLE 0 NULL st;
           if result \<noteq> 0 then not_loaded st
           else do {
             blob \<leftarrow> bytes_of resp;
             ((rc, hs), tcs) \<leftarrow> UnloadBlob_KEY_HANDLE_LIST 0 blob (d_tcs st);
             let st = free_resp (set_tcs (free_handles hs tcs) st);
             if keySlot \<in> set hs then Some (True, st) else not_loaded st } })"

section \<open>Entering a loaded key\<close>

text \<open>\<open>done:\<close> releases what has been read from the blob.\<close>

definition enter_key ::
  "u32 \<Rightarrow> u32 \<Rightarrow> u32 \<Rightarrow> TSS_KEY option \<Rightarrow> tcs_state \<Rightarrow> ((u32 \<times> u32 option) \<times> tcs_state) option" where
  "enter_key hContext hParent hSlot pKey tcs = do {
     let (tcsHandle, tcs) = getNextTcsKeyHandle tcs;
     (result, tcs) \<leftarrow> mc_add_entry tcsHandle hSlot pKey tcs;
     if result \<noteq> 0 then Some ((result, None), tcs)
     else let (result, tcs) = ctx_mark_key_loaded hContext tcsHandle tcs
       in if result \<noteq> 0 then Some ((TCSERR TSS_E_INTERNAL_ERROR, None), tcs)
          else let (result, tcs) = mc_set_parent_by_handle tcsHandle hParent tcs
            in if result \<noteq> 0 then Some ((result, None), tcs) else Some ((TSS_SUCCESS, Some tcsHandle), tcs) }"

definition add_cache_entry ::
  "'t tcsd_env \<Rightarrow> u32 \<Rightarrow> u8 list option \<Rightarrow> u32 \<Rightarrow> u32 \<Rightarrow> tcs_state \<Rightarrow> ((u32 \<times> u32 option) \<times> tcs_state) option" where
  "add_cache_entry env hContext blob hParent hSlot tcs =
     (case blob of None \<Rightarrow> enter_key hContext hParent hSlot None tcs
      | Some b \<Rightarrow> do {
          ((result, key, off), tcs) \<leftarrow> UnloadBlob_TSS_KEY (e_little env) (e_hdr env) 0 b tcs;
          if result \<noteq> 0 then Some ((result, None), tcs)
          else do {
            tcsHandle \<leftarrow> mc_get_handle_by_pub (tk_pubKey key) hParent tcs;
            (r, tcs) \<leftarrow> (if tcsHandle = NULL_HANDLE then enter_key hContext hParent hSlot (Some key) tcs
              else Some ((TSS_SUCCESS, Some tcsHandle), snd (mc_set_slot_by_handle tcsHandle hSlot tcs)));
            Some (r, destroy_key_refs key tcs) } })"

text \<open>The new handle is stored where the old one is, if there is one.\<close>

definition load_key_final ::
  "'t tcsd_env \<Rightarrow> u32 \<Rightarrow> u32 \<Rightarrow> u32 \<Rightarrow> u8 list option \<Rightarrow> u32 \<Rightarrow> tcs_state \<Rightarrow> ((u32 \<times> u32) \<times> tcs_state) option" where
  "load_key_final env hContext parent_handle tcs_handle blob slot tcs =
     (if tcs_handle = NULL_HANDLE then do {
        ((result, new), tcs) \<leftarrow> add_cache_entry env hContext blob parent_handle slot tcs;
        Some ((result, case new of None \<Rightarrow> tcs_handle | Some h \<Rightarrow> h), tcs) }
      else let (result, tcs) = mc_set_slot_by_handle tcs_handle slot tcs in Some ((result, tcs_handle), tcs))"

definition get_slot_lite :: "u32 \<Rightarrow> u32 \<Rightarrow> tcs_state \<Rightarrow> u32 \<times> u32" where
  "get_slot_lite hContext hKey tcs =
     (if ctx_has_key_loaded hContext hKey tcs then
        let out = mc_get_slot_by_handle hKey tcs
        in if out = NULL_HANDLE then (TCSERR TCS_E_INVALID_KEY, out) else (TSS_SUCCESS, out)
      else (TCSERR TCS_E_INVALID_KEY, 0))"

section \<open>Loading a key\<close>

text \<open>\<open>LoadKeyShim\<close> for a context and a public key: the code and the slot.\<close>

type_synonym 't shim = "u32 \<Rightarrow> TCPA_STORE_PUBKEY \<Rightarrow> 't tcsd \<Rightarrow> ((u32 \<times> u32) \<times> 't tcsd) option"

text \<open>A key that is not in the device is looked up with its handle as if that were a slot.\<close>

definition get_slot :: "'t shim \<Rightarrow> u32 \<Rightarrow> u32 \<Rightarrow> 't tcsd \<Rightarrow> ((u32 \<times> u32) \<times> 't tcsd) option" where
  "get_slot shim hContext hKey st =
     (let slot = mc_get_slot_by_handle hKey (d_tcs st)
      in if slot \<noteq> NULL_HANDLE then Some ((TSS_SUCCESS, slot), st)
         else case mc_get_pub_by_slot hKey (d_tcs st) of
                None \<Rightarrow> Some ((TCSERR TCS_E_KM_LOADFAILED, 0), st)
              | Some pub \<Rightarrow> shim hContext pub st)"

definition zero_hdr :: "u8 list" where "zero_hdr = [0, 0, 0, 0]"

text \<open>The device loads the key: from \<open>canILoadThisKey\<close> to the label \<open>error\<close>.  The result is the code, the
  handle and the slot.\<close>

definition load_in_device ::
  "'t tcsd_env \<Rightarrow> u32 \<Rightarrow> u32 \<Rightarrow> u32 \<Rightarrow> u32 \<Rightarrow> u32 \<Rightarrow> u8 list \<Rightarrow> nat option \<Rightarrow> TSS_KEY \<Rightarrow> u32 \<Rightarrow> 't tcsd \<Rightarrow>
   ((u32 \<times> u32 \<times> u32) \<times> 't tcsd) option" where
  "load_in_device env ord hContext hUnwrappingKey parentSlot sz blob pAuth key newHandle st = do {
     ((result, canLoad), st) \<leftarrow> canILoadThisKey env (tk_algorithmParms key) st;
     if result \<noteq> 0 then Some ((result, 0, 0), st)
     else do {
       (result, st) \<leftarrow> (if canLoad then Some (TSS_SUCCESS, st) else make_room env hUnwrappingKey st);
       if result \<noteq> 0 then Some ((result, 0, 0), st)
       else do {
         (result, w, ap) \<leftarrow> tpm_rqu_build ord [I parentSlot, I sz, P (Buf blob), auth_arg pAuth (d_mem st), A None]
           (0, Some (txBlob env st));
         if result \<noteq> 0 then Some ((result, 0, 0), st)
         else do {
           req \<leftarrow> snd w;
           ((result, rsp, paramSize), st) \<leftarrow> submit env req st;
           if result \<noteq> 0 then Some ((result, 0, 0), st)
           else do {
             (result, m) \<leftarrow> tpm_rsp_parse ord [O32 (Some 0), OA pAuth] rsp paramSize (frame (d_mem st));
             let newSlot = m_32 m 0; let st = st\<lparr>d_mem := unframe (d_mem st) m\<rparr>;
             if result \<noteq> 0 then Some ((result, 0, 0), st)
             else do {
               ((result, newHandle), tcs) \<leftarrow> load_key_final env hContext hUnwrappingKey newHandle (Some blob) newSlot (d_tcs st);
               Some ((result, newHandle, newSlot), set_tcs tcs st) } } } } } }"

text \<open>What has been read from the blob is never released.\<close>

definition LoadKeyByBlob_Internal ::
  "'t shim \<Rightarrow> 't tcsd_env \<Rightarrow> u32 \<Rightarrow> u32 \<Rightarrow> u32 \<Rightarrow> u32 \<Rightarrow> u8 list \<Rightarrow> nat option \<Rightarrow> 't tcsd \<Rightarrow>
   ((u32 \<times> u32 \<times> u32) \<times> 't tcsd) option" where
  "LoadKeyByBlob_Internal shim env ord hContext hUnwrappingKey sz blob pAuth st = do {
     (result, st) \<leftarrow> verify hContext st;
     if result \<noteq> 0 then Some ((result, 0, 0), st)
     else do {
       ((result, parentSlot), st) \<leftarrow> get_slot shim hContext hUnwrappingKey st;
       if result \<noteq> 0 then Some ((result, 0, 0), st)
       else do {
         ((result, key, off), tcs) \<leftarrow> UnloadBlob_TSS_KEY (e_little env) zero_hdr 0 blob (d_tcs st);
         let st = set_tcs tcs st;
         if result \<noteq> 0 then Some ((result, 0, 0), st)
         else do {
           newHandle \<leftarrow> (if pAuth = None then mc_get_handle_by_pub (tk_pubKey key) hUnwrappingKey tcs else Some NULL_HANDLE);
           let newSlot = mc_get_slot_by_handle newHandle tcs;
           (known, st) \<leftarrow> (if pAuth = None \<and> newHandle \<noteq> 0 \<and> newSlot \<noteq> 0 then isKeyLoaded env newSlot st else Some (False, st));
           if known then Some ((TSS_SUCCESS, newHandle, newSlot), st)
           else do {
             (r, st) \<leftarrow> load_in_device env ord hContext hUnwrappingKey parentSlot sz blob pAuth key newHandle st;
             st \<leftarrow> release_auth env hContext pAuth None st;
             Some (r, st) } } } } }"

definition shim_load ::
  "'t shim \<Rightarrow> 't tcsd_env \<Rightarrow> u32 \<Rightarrow> TCPA_STORE_PUBKEY \<Rightarrow> u32 \<Rightarrow> 't tcsd \<Rightarrow> ((u32 \<times> u32) \<times> 't tcsd) option" where
  "shim_load shim env hContext pubKey parentSlot st = do {
     (result, myKey) \<leftarrow> mc_get_blob_by_pub pubKey (d_tcs st);
     if result = 0 then
       let parentHandle = mc_get_handle_by_slot parentSlot (d_tcs st)
       in if parentHandle = 0 then Some ((TCSERR TCS_E_KM_LOADFAILED, 0), st)
          else do {
            key \<leftarrow> myKey;
            (off, b) \<leftarrow> LoadBlob_TSS_KEY (e_little env) key (0, Some (replicate 1024 0));
            keyBlob \<leftarrow> b;
            ((result, tcsKeyHandle, slot), st) \<leftarrow>
               LoadKeyByBlob_Internal shim env TPM_ORD_LoadKey hContext parentHandle (ucast off) keyBlob None st;
            if result \<noteq> 0 then Some ((result, 0), st)
            else let (result, tcs) = ctx_mark_key_loaded hContext tcsKeyHandle (d_tcs st)
              in Some ((result, slot), set_tcs tcs st) }
     else e_ps_load env hContext pubKey st }"

lemma mono_get_slot [partial_function_mono]:
  assumes "\<And>c p s. mono_option (\<lambda>f. shim f c p s)"
  shows "mono_option (\<lambda>f. get_slot (shim f) hContext hKey st)"
proof (cases "mc_get_pub_by_slot hKey (d_tcs st)")
  case None
  show ?thesis unfolding get_slot_def Let_def None option.case by (intro partial_function_mono assms)
next
  case (Some pub)
  show ?thesis unfolding get_slot_def Let_def Some option.case by (intro partial_function_mono assms)
qed

lemma mono_load [partial_function_mono]:
  assumes "\<And>c p s. mono_option (\<lambda>f. shim f c p s)"
  shows "mono_option (\<lambda>f. LoadKeyByBlob_Internal (shim f) env ord hContext hUnwrappingKey sz blob pAuth st)"
  unfolding LoadKeyByBlob_Internal_def Let_def split_def by (intro partial_function_mono assms)

lemma mono_shim_load [partial_function_mono]:
  assumes "\<And>c p s. mono_option (\<lambda>f. shim f c p s)"
  shows "mono_option (\<lambda>f. shim_load (shim f) env hContext pubKey parentSlot st)"
  unfolding shim_load_def Let_def split_def by (intro partial_function_mono assms)

partial_function (option) LoadKeyShim ::
  "'t tcsd_env \<Rightarrow> u32 \<Rightarrow> TCPA_STORE_PUBKEY \<Rightarrow> 't tcsd \<Rightarrow> ((u32 \<times> u32) \<times> 't tcsd) option" where
  "LoadKeyShim env hContext pubKey st = do {
     keySlot \<leftarrow> mc_get_slot_by_pub pubKey (d_tcs st);
     (known, st) \<leftarrow> (if keySlot \<noteq> NULL_HANDLE then isKeyLoaded env keySlot st else Some (False, st));
     if known then Some ((TSS_SUCCESS, keySlot), st)
     else do {
       parentPub \<leftarrow> mc_get_parent_pub_by_pub pubKey (d_tcs st);
       case parentPub of None \<Rightarrow> Some ((TCSERR TCS_E_KM_LOADFAILED, 0), st)
       | Some pub \<Rightarrow> do {
           ((result, parentSlot), st) \<leftarrow> LoadKeyShim env hContext pub st;
           if result \<noteq> 0 then Some ((result, 0), st)
           else shim_load (LoadKeyShim env) env hContext pubKey parentSlot st } } }"

definition ensureKeyIsLoaded :: "'t tcsd_env \<Rightarrow> u32 \<Rightarrow> u32 \<Rightarrow> 't tcsd \<Rightarrow> ((u32 \<times> u32) \<times> 't tcsd) option" where
  "ensureKeyIsLoaded env hContext keyHandle st =
     (if \<not> ctx_has_key_loaded hContext keyHandle (d_tcs st) then Some ((TCSERR TCS_E_INVALID_KEY, 0), st)
      else do {
        let keySlot = mc_get_slot_by_handle keyHandle (d_tcs st);
        (known, st) \<leftarrow> (if keySlot = NULL_HANDLE then Some (False, st) else isKeyLoaded env keySlot st);
        let stamped = (\<lambda>slot st. Some ((TSS_SUCCESS, slot), set_tcs (snd (mc_update_time_stamp slot (d_tcs st))) st));
        if known then stamped keySlot st
        else case mc_get_pub_by_handle keyHandle (d_tcs st) of
               None \<Rightarrow> Some ((TCSERR TCS_E_KM_LOADFAILED, keySlot), st)
             | Some myPub \<Rightarrow> do {
                 ((result, slot), st) \<leftarrow> LoadKeyShim env hContext myPub st;
                 if result \<noteq> 0 then Some ((result, slot), st)
                 else if slot = NULL_HANDLE then Some ((TCSERR TCS_E_KM_LOADFAILED, slot), st)
                 else stamped slot st } })"

definition key_mgr_load_by_blob ::
  "'t tcsd_env \<Rightarrow> u32 \<Rightarrow> u32 \<Rightarrow> u32 \<Rightarrow> u8 list \<Rightarrow> nat option \<Rightarrow> 't tcsd \<Rightarrow> ((u32 \<times> u32 \<times> u32) \<times> 't tcsd) option" where
  "key_mgr_load_by_blob env hContext hUnwrappingKey sz blob pAuth st = do {
     (result, st) \<leftarrow> opt_auth_check env hContext pAuth st;
     if result \<noteq> 0 then Some ((result, 0, 0), st)
     else LoadKeyByBlob_Internal (LoadKeyShim env) env
       (if e_version12 env then TPM_ORD_LoadKey2 else TPM_ORD_LoadKey) hContext hUnwrappingKey sz blob pAuth st }"

definition TCSP_EvictKey_Internal :: "'t tcsd_env \<Rightarrow> u32 \<Rightarrow> u32 \<Rightarrow> 't command" where
  "TCSP_EvictKey_Internal env hContext hKey = plain (checked (verify hContext) Return (\<lambda>st.
     let tpm_handle = mc_get_slot_by_handle hKey (d_tcs st)
     in if tpm_handle = NULL_HANDLE then Some (Return TSS_SUCCESS, st)
        else checked (internal_EvictByKeySlot env tpm_handle) Return (\<lambda>st.
          let (result, tcs) = mc_set_slot_by_slot tpm_handle NULL_HANDLE (d_tcs st)
          in Some (Return result, set_tcs tcs st)) st))"

end
