(* ===== verification/Tcsi_Admin.thy ===== *)
theory Tcsi_Admin
  imports Tcsi_Keys
begin

text \<open>
  Commands of the daemon that need no key, one definition per function: those of
  \<open>tcs/tcsi_admin.c\<close>, \<open>tcsi_aik.c\<close>, \<open>tcsi_audit.c\<close>, \<open>tcsi_auth.c\<close>, \<open>tcsi_caps_tpm.c\<close>,
  \<open>tcsi_changeauth.c\<close>, \<open>tcsi_cmk.c\<close>, \<open>tcsi_context.c\<close> and \<open>tcsi_counter.c\<close>.

  \<open>releasing\<close> marks the functions with a label \<open>done\<close> that releases the sessions; in these \<open>Done\<close> is
  \<open>goto done\<close>.  Input blobs are pointers, nonces and digests passed by value are byte lists, outputs are
  places of the memory record, \<open>None\<close> for a NULL pointer.
\<close>

section \<open>\<open>tcsi_admin.c\<close>\<close>

abbreviation (input) TSS_E_NOTIMPL :: u32 where "TSS_E_NOTIMPL \<equiv> 0x006"
abbreviation (input) TPM_ORD_PhysicalDisable :: u32 where "TPM_ORD_PhysicalDisable \<equiv> 0x00008070"
abbreviation (input) TPM_RT_TRANS :: u32 where "TPM_RT_TRANS \<equiv> 4"
abbreviation (input) TPM_RT_CONTEXT :: u32 where "TPM_RT_CONTEXT \<equiv> 5"
abbreviation (input) TPM_RT_DAA_TPM :: u32 where "TPM_RT_DAA_TPM \<equiv> 8"

definition TCSP_SetOwnerInstall_Internal :: "'t tcsd_env \<Rightarrow> u32 \<Rightarrow> u8 \<Rightarrow> 't command" where
  "TCSP_SetOwnerInstall_Internal env hContext state = plain
     (checked (verify hContext) Return
     (transact_plain env TPM_ORD_SetOwnerInstall (\<lambda>m. [I (ucast state), A None]) Return))"

definition TCSP_OwnerSetDisable_Internal :: "'t tcsd_env \<Rightarrow> u32 \<Rightarrow> u8 \<Rightarrow> nat option \<Rightarrow> 't command" where
  "TCSP_OwnerSetDisable_Internal env hContext disableState ownerAuth = releasing env hContext ownerAuth None
     (checked (verify hContext) Done
     (checked (auth_check env hContext ownerAuth) Done
     (transact env TPM_ORD_OwnerSetDisable (\<lambda>m. [I (ucast disableState), auth_arg ownerAuth m]) Done
        [OA ownerAuth])))"

definition TCSP_DisableOwnerClear_Internal :: "'t tcsd_env \<Rightarrow> u32 \<Rightarrow> nat option \<Rightarrow> 't command" where
  "TCSP_DisableOwnerClear_Internal env hContext ownerAuth = releasing env hContext ownerAuth None
     (checked (verify hContext) Done
     (checked (auth_check env hContext ownerAuth) Done
     (transact env TPM_ORD_DisableOwnerClear (\<lambda>m. [auth_arg ownerAuth m]) Done [OA ownerAuth])))"

definition TCSP_ForceClear_Internal :: "'t tcsd_env \<Rightarrow> u32 \<Rightarrow> 't command" where
  "TCSP_ForceClear_Internal env hContext = plain
     (checked (verify hContext) Return
     (transact_plain env TPM_ORD_ForceClear (\<lambda>m. [A None]) Return))"

definition TCSP_DisableForceClear_Internal :: "'t tcsd_env \<Rightarrow> u32 \<Rightarrow> 't command" where
  "TCSP_DisableForceClear_Internal env hContext = plain
     (checked (verify hContext) Return
     (transact_plain env TPM_ORD_DisableForceClear (\<lambda>m. [A None]) Return))"

definition single_user :: "u8 \<Rightarrow> bool" where
  "single_user runlevel \<longleftrightarrow> runlevel = 0x73 \<or> runlevel = 0x53 \<or> runlevel = 0x31"

definition TCSP_PhysicalPresence_Internal :: "'t tcsd_env \<Rightarrow> u32 \<Rightarrow> u16 \<Rightarrow> 't command" where
  "TCSP_PhysicalPresence_Internal env hContext fPhysicalPresence st =
     (if \<not> single_user (e_runlevel env) then Some (TCSERR TSS_E_NOTIMPL, st)
      else plain
        (checked (verify hContext) Return
        (transact_plain env TSC_ORD_PhysicalPresence (\<lambda>m. [I (ucast fPhysicalPresence)]) Return)) st)"

definition TCSP_PhysicalDisable_Internal :: "'t tcsd_env \<Rightarrow> u32 \<Rightarrow> 't command" where
  "TCSP_PhysicalDisable_Internal env hContext = plain
     (checked (verify hContext) Return
     (transact_plain env TPM_ORD_PhysicalDisable (\<lambda>m. [A None]) Return))"

definition TCSP_PhysicalEnable_Internal :: "'t tcsd_env \<Rightarrow> u32 \<Rightarrow> 't command" where
  "TCSP_PhysicalEnable_Internal env hContext = plain
     (checked (verify hContext) Return
     (transact_plain env TPM_ORD_PhysicalEnable (\<lambda>m. [A None]) Return))"

definition TCSP_PhysicalSetDeactivated_Internal :: "'t tcsd_env \<Rightarrow> u32 \<Rightarrow> u8 \<Rightarrow> 't command" where
  "TCSP_PhysicalSetDeactivated_Internal env hContext state = plain
     (checked (verify hContext) Return
     (transact_plain env TPM_ORD_PhysicalSetDeactivated (\<lambda>m. [I (ucast state), A None]) Return))"

definition TCSP_SetTempDeactivated_Internal :: "'t tcsd_env \<Rightarrow> u32 \<Rightarrow> 't command" where
  "TCSP_SetTempDeactivated_Internal env hContext = plain
     (checked (verify hContext) Return
     (transact_plain env TPM_ORD_SetTempDeactivated (\<lambda>m. [A None]) Return))"

definition TCSP_SetTempDeactivated2_Internal :: "'t tcsd_env \<Rightarrow> u32 \<Rightarrow> nat option \<Rightarrow> 't command" where
  "TCSP_SetTempDeactivated2_Internal env hContext operatorAuth = releasing env hContext operatorAuth None
     (checked (verify hContext) Return
     (checked (opt_auth_check env hContext operatorAuth) Return
     (transact env TPM_ORD_SetTempDeactivated (\<lambda>m. [auth_arg operatorAuth m]) Done [OA operatorAuth])))"

definition TCSP_FieldUpgrade_Internal ::
  "'t tcsd_env \<Rightarrow> u32 \<Rightarrow> u32 \<Rightarrow> ptr \<Rightarrow> nat option \<Rightarrow> nat option \<Rightarrow> nat option \<Rightarrow> 't command" where
  "TCSP_FieldUpgrade_Internal env hContext dataInSize dataIn dataOutSize dataOut ownerAuth =
     releasing env hContext ownerAuth None
     (checked (verify hContext) Done
     (checked (auth_check env hContext ownerAuth) Done
     (transact env TPM_ORD_FieldUpgrade
        (\<lambda>m. [I dataInSize, I dataInSize, P dataIn, auth_arg ownerAuth m, A None]) Return
        [O32 dataOutSize, OB dataOut, OA ownerAuth])))"

definition TCSP_ResetLockValue_Internal :: "'t tcsd_env \<Rightarrow> u32 \<Rightarrow> nat option \<Rightarrow> 't command" where
  "TCSP_ResetLockValue_Internal env hContext ownerAuth = releasing env hContext ownerAuth None
     (checked (verify hContext) Done
     (checked (auth_check env hContext ownerAuth) Done
     (transact env TPM_ORD_ResetLockValue (\<lambda>m. [auth_arg ownerAuth m]) Return [OA ownerAuth])))"

text \<open>\<open>TCSP_FlushSpecific_Common\<close> on the state of the daemon.\<close>

definition flush_common :: "'t tcsd_env \<Rightarrow> u32 \<Rightarrow> u32 \<Rightarrow> 't command" where
  "flush_common env tpmResHandle resourceType st = do {
     (result, d) \<leftarrow> TCSP_FlushSpecific_Common (e_dv env) tpmResHandle resourceType (dev (d_am st));
     Some (result, set_dev d st) }"

definition release_handle :: "'t tcsd_env \<Rightarrow> u32 \<Rightarrow> u32 \<Rightarrow> bool \<Rightarrow> 't tcsd \<Rightarrow> 't tcsd option" where
  "release_handle env h hContext cont st = do {
     (result, am) \<leftarrow> auth_mgr_release_auth_handle (e_dv env) h hContext cont (d_am st);
     Some (st\<lparr>d_am := am\<rparr>) }"

text \<open>A session is flushed by \<open>auth_mgr_release_auth_handle\<close> and, as there is no \<open>break\<close>, once more at
  the end; an unknown type of resource is a success.\<close>

definition TCSP_FlushSpecific_Internal :: "'t tcsd_env \<Rightarrow> u32 \<Rightarrow> u32 \<Rightarrow> u32 \<Rightarrow> 't command" where
  "TCSP_FlushSpecific_Internal env hContext hResHandle resourceType st = do {
     (result, st) \<leftarrow> verify hContext st;
     if result \<noteq> 0 then Some (result, st)
     else if resourceType = TPM_RT_KEY then
       let (result, tpmResHandle) = get_slot_lite hContext hResHandle (d_tcs st)
       in if result \<noteq> 0 then Some (result, st)
          else let (result, tcs) = ctx_remove_key_loaded hContext hResHandle (d_tcs st)
            in if result \<noteq> 0 then Some (result, set_tcs tcs st)
               else let (result, tcs) = key_mgr_dec_ref_count hResHandle tcs
                 in if result \<noteq> 0 then Some (result, set_tcs tcs st)
                    else flush_common env tpmResHandle resourceType (set_tcs tcs st)
     else if resourceType = TPM_RT_AUTH then do {
       ((result, h), st) \<leftarrow> check_handle env hContext hResHandle st;
       if result \<noteq> 0 then Some (result, st)
       else do {
         st \<leftarrow> release_handle env h hContext False st;
         flush_common env h resourceType st } }
     else if resourceType = TPM_RT_TRANS \<or> resourceType = TPM_RT_DAA_TPM then
       flush_common env hResHandle resourceType st
     else if resourceType = TPM_RT_CONTEXT then Some (TCSERR TSS_E_NOTIMPL, st)
     else Some (result, st) }"

section \<open>\<open>tcsi_aik.c\<close>\<close>

abbreviation (input) CREDENTIAL_EKCERT :: u32 where "CREDENTIAL_EKCERT \<equiv> 1"
abbreviation (input) CREDENTIAL_TPM_CC :: u32 where "CREDENTIAL_TPM_CC \<equiv> 2"
abbreviation (input) CREDENTIAL_PLATFORMCERT :: u32 where "CREDENTIAL_PLATFORMCERT \<equiv> 3"
abbreviation (input) CERT_ACCESS_AUTO :: u32 where "CERT_ACCESS_AUTO \<equiv> 1"

text \<open>\<open>get_credential\<close> of \<open>tcs/tcs_aik.c\<close>: the content of the file for this type of credential, if there
  is one.\<close>

definition get_credential :: "'t tcsd_env \<Rightarrow> u32 \<Rightarrow> nat \<Rightarrow> nat \<Rightarrow> 't tcsd \<Rightarrow> 't tcsd" where
  "get_credential env type sz cred st =
     (let none = (\<lambda>m. set_32 sz 0 (m\<lparr>m_B := (m_B m)(cred := NULL)\<rparr>));
          file = (if type \<in> {CREDENTIAL_PLATFORMCERT, CREDENTIAL_TPM_CC, CREDENTIAL_EKCERT}
            then e_credential env type else None)
      in case file of None \<Rightarrow> st\<lparr>d_mem := none (d_mem st)\<rparr>
         | Some bs \<Rightarrow>
             let (ok, m) = malloc_to cred (length bs) (d_mem st)
             in st\<lparr>d_mem := (if ok then set_32 sz (of_nat (length bs)) (m\<lparr>m_B := (m_B m)(cred := Buf bs)\<rparr>)
                  else none m)\<rparr>)"

text \<open>The request and the response that \<open>TCSP_MakeIdentity_Internal\<close> and \<open>TCSP_MakeIdentity2_Internal\<close>
  share.\<close>

definition TCSP_MakeIdentity2_Internal ::
  "'t tcsd_env \<Rightarrow> u32 \<Rightarrow> u8 list \<Rightarrow> u8 list \<Rightarrow> u32 \<Rightarrow> ptr \<Rightarrow> nat option \<Rightarrow> nat option \<Rightarrow>
   nat option \<Rightarrow> nat option \<Rightarrow> nat option \<Rightarrow> nat option \<Rightarrow> 't command" where
  "TCSP_MakeIdentity2_Internal env hContext identityAuth IDLabel_PrivCAHash idKeyInfoSize idKeyInfo
     pSrkAuth pOwnerAuth idKeySize idKey pcIdentityBindingSize prgbIdentityBinding =
     releasing env hContext pSrkAuth pOwnerAuth
     (checked (verify hContext) Done
     (checked (opt_auth_check env hContext pSrkAuth) Done
     (checked (auth_check env hContext pOwnerAuth) Done
     (transact env TPM_ORD_MakeIdentity
        (\<lambda>m. [P (Buf identityAuth), P (Buf IDLabel_PrivCAHash), I idKeyInfoSize, P idKeyInfo,
              auth_arg pSrkAuth m, auth_arg pOwnerAuth m]) Done
        [O32 idKeySize, OB idKey, O32 pcIdentityBindingSize, OB prgbIdentityBinding,
         OA pSrkAuth, OA pOwnerAuth]))))"

definition TCSP_MakeIdentity_Internal ::
  "'t tcsd_env \<Rightarrow> u32 \<Rightarrow> u8 list \<Rightarrow> u8 list \<Rightarrow> u32 \<Rightarrow> ptr \<Rightarrow> nat option \<Rightarrow> nat option \<Rightarrow>
   nat option \<Rightarrow> nat option \<Rightarrow> nat option \<Rightarrow> nat option \<Rightarrow> nat \<Rightarrow> nat \<Rightarrow> nat \<Rightarrow> nat \<Rightarrow> nat \<Rightarrow> nat \<Rightarrow> 't command" where
  "TCSP_MakeIdentity_Internal env hContext identityAuth IDLabel_PrivCAHash idKeyInfoSize idKeyInfo
     pSrkAuth pOwnerAuth idKeySize idKey pcIdentityBindingSize prgbIdentityBinding
     pcEndorsementCredentialSize prgbEndorsementCredential pcPlatformCredentialSize prgbPlatformCredential
     pcConformanceCredentialSize prgbConformanceCredential =
     releasing env hContext pSrkAuth pOwnerAuth
     (checked (verify hContext) Done
     (checked (opt_auth_check env hContext pSrkAuth) Done
     (checked (auth_check env hContext pOwnerAuth) Done
     (request env TPM_ORD_MakeIdentity
        (\<lambda>m. [P (Buf identityAuth), P (Buf IDLabel_PrivCAHash), I idKeyInfoSize, P idKeyInfo,
              auth_arg pSrkAuth m, auth_arg pOwnerAuth m]) Done
        (\<lambda>blob paramSize. checked (parse TPM_ORD_MakeIdentity
           [O32 idKeySize, OB idKey, O32 pcIdentityBindingSize, OB prgbIdentityBinding,
            OA pSrkAuth, OA pOwnerAuth] blob paramSize) Done
           (\<lambda>st.
             let st = get_credential env CREDENTIAL_PLATFORMCERT pcPlatformCredentialSize prgbPlatformCredential st;
                 st = get_credential env CREDENTIAL_TPM_CC pcConformanceCredentialSize prgbConformanceCredential st;
                 st = get_credential env CREDENTIAL_EKCERT pcEndorsementCredentialSize prgbEndorsementCredential st
             in Some (Done TSS_SUCCESS, st)))))))"

definition TCS_GetCredential_Internal :: "'t tcsd_env \<Rightarrow> u32 \<Rightarrow> u32 \<Rightarrow> u32 \<Rightarrow> nat \<Rightarrow> nat \<Rightarrow> 't command" where
  "TCS_GetCredential_Internal env hContext ulCredentialType ulCredentialAccessMode pulCredentialSize
     prgbCredentialData = plain
     (checked (verify hContext) Return (\<lambda>st.
        if ulCredentialType \<noteq> CREDENTIAL_EKCERT \<and> ulCredentialType \<noteq> CREDENTIAL_TPM_CC
           \<and> ulCredentialType \<noteq> CREDENTIAL_PLATFORMCERT
        then Some (Return (TCSERR TSS_E_BAD_PARAMETER), st)
        else if ulCredentialAccessMode = CERT_ACCESS_AUTO
        then Some (Return TSS_SUCCESS, get_credential env ulCredentialType pulCredentialSize prgbCredentialData st)
        else Some (Return (TCSERR TSS_E_FAIL), st)))"

section \<open>\<open>tcsi_audit.c\<close>\<close>

definition TCSP_SetOrdinalAuditStatus_Internal ::
  "'t tcsd_env \<Rightarrow> u32 \<Rightarrow> nat option \<Rightarrow> u32 \<Rightarrow> u8 \<Rightarrow> 't command" where
  "TCSP_SetOrdinalAuditStatus_Internal env hContext ownerAuth ulOrdinal bAuditState =
     releasing env hContext ownerAuth None
     (checked (verify hContext) Return
     (checked (auth_check env hContext ownerAuth) Return
     (transact env TPM_ORD_SetOrdinalAuditStatus
        (\<lambda>m. [I ulOrdinal, I (ucast bAuditState), auth_arg ownerAuth m]) Done [OA ownerAuth])))"

text \<open>The size of the list of ordinals becomes their number.\<close>

definition TCSP_GetAuditDigest_Internal ::
  "'t tcsd_env \<Rightarrow> u32 \<Rightarrow> u32 \<Rightarrow> nat option \<Rightarrow> nat option \<Rightarrow> nat option \<Rightarrow> nat option \<Rightarrow> nat \<Rightarrow> nat option \<Rightarrow> 't command" where
  "TCSP_GetAuditDigest_Internal env hContext startOrdinal auditDigest counterValueSize counterValue more0
     ordSize ordList = plain
     (checked (verify hContext) Return
     (request env TPM_ORD_GetAuditDigest (\<lambda>m. [I startOrdinal, A None]) Return
        (\<lambda>blob paramSize. checked (parse TPM_ORD_GetAuditDigest
           [OD auditDigest, O32 counterValueSize, OB counterValue, OBl more0, O32 (Some ordSize), OB ordList]
           blob paramSize) Done
           (\<lambda>st. Some (Done TSS_SUCCESS,
              st\<lparr>d_mem := set_32 ordSize (m_32 (d_mem st) ordSize div 4) (d_mem st)\<rparr>)))))"

section \<open>\<open>tcsi_auth.c\<close>\<close>

definition TCSP_APTerminate_Internal :: "'t tcsd_env \<Rightarrow> u32 \<Rightarrow> u32 \<Rightarrow> u8 list \<Rightarrow> 't command" where
  "TCSP_APTerminate_Internal env hContext handle inMac = plain
     (checked (verify hContext) Return
     (transact_plain env TCM_ORD_APTerminate (\<lambda>m. [I handle, P (Buf inMac)]) Return))"

section \<open>\<open>tcsi_caps_tpm.c\<close>\<close>

definition TCSP_GetCapabilityOwner_Internal ::
  "'t tcsd_env \<Rightarrow> u32 \<Rightarrow> nat option \<Rightarrow> nat option \<Rightarrow> nat option \<Rightarrow> nat option \<Rightarrow> 't command" where
  "TCSP_GetCapabilityOwner_Internal env hContext pOwnerAuth pVersion pNonVolatileFlags pVolatileFlags =
     releasing env hContext pOwnerAuth None
     (checked (verify hContext) Done
     (checked (auth_check env hContext pOwnerAuth) Done
     (transact env TPM_ORD_GetCapabilityOwner (\<lambda>m. [auth_arg pOwnerAuth m]) Done
        [OV pVersion, O32 pNonVolatileFlags, O32 pVolatileFlags, OA pOwnerAuth])))"

definition TCSP_SetCapability_Internal ::
  "'t tcsd_env \<Rightarrow> u32 \<Rightarrow> u32 \<Rightarrow> u32 \<Rightarrow> ptr \<Rightarrow> u32 \<Rightarrow> ptr \<Rightarrow> nat option \<Rightarrow> 't command" where
  "TCSP_SetCapability_Internal env hContext capArea subCapSize subCap valueSize val pOwnerAuth =
     releasing env hContext pOwnerAuth None
     (checked (verify hContext) Done
     (checked (auth_check env hContext pOwnerAuth) Done
     (transact env TPM_ORD_SetCapability
        (\<lambda>m. [I capArea, I subCapSize, P subCap, I valueSize, P val, auth_arg pOwnerAuth m]) Return
        [OA pOwnerAuth])))"

section \<open>\<open>tcsi_changeauth.c\<close>\<close>

definition TCSP_ChangeAuthOwner_Internal ::
  "'t tcsd_env \<Rightarrow> u32 \<Rightarrow> u16 \<Rightarrow> u8 list \<Rightarrow> u16 \<Rightarrow> nat option \<Rightarrow> 't command" where
  "TCSP_ChangeAuthOwner_Internal env hContext protocolID newAuth entityType ownerAuth =
     releasing env hContext ownerAuth None
     (checked (verify hContext) Done
     (checked (auth_check env hContext ownerAuth) Done
     (transact env TPM_ORD_ChangeAuthOwner
        (\<lambda>m. [I (ucast protocolID), P (Buf newAuth), I (ucast entityType), auth_arg ownerAuth m]) Done
        [OA ownerAuth])))"

definition TCSP_ChangeAuthAsymStart_Internal :: "'t command" where
  "TCSP_ChangeAuthAsymStart_Internal st = Some (TCSERR TSS_E_NOTIMPL, st)"

definition TCSP_ChangeAuthAsymFinish_Internal :: "'t command" where
  "TCSP_ChangeAuthAsymFinish_Internal st = Some (TCSERR TSS_E_NOTIMPL, st)"

section \<open>\<open>tcsi_cmk.c\<close>\<close>

definition TCSP_CMK_SetRestrictions_Internal :: "'t tcsd_env \<Rightarrow> u32 \<Rightarrow> u32 \<Rightarrow> nat option \<Rightarrow> 't command" where
  "TCSP_CMK_SetRestrictions_Internal env hContext Restriction ownerAuth = releasing env hContext ownerAuth None
     (checked (verify hContext) Return
     (checked (auth_check env hContext ownerAuth) Return
     (transact env TPM_ORD_CMK_SetRestrictions (\<lambda>m. [I Restriction, auth_arg ownerAuth m]) Done
        [OA ownerAuth])))"

definition TCSP_CMK_ApproveMA_Internal ::
  "'t tcsd_env \<Rightarrow> u32 \<Rightarrow> u8 list \<Rightarrow> nat option \<Rightarrow> nat option \<Rightarrow> 't command" where
  "TCSP_CMK_ApproveMA_Internal env hContext migAuthorityDigest ownerAuth HmacMigAuthDigest =
     releasing env hContext ownerAuth None
     (checked (verify hContext) Return
     (checked (auth_check env hContext ownerAuth) Return
     (transact env TPM_ORD_CMK_ApproveMA (\<lambda>m. [P (Buf migAuthorityDigest), auth_arg ownerAuth m]) Done
        [OD HmacMigAuthDigest, OA ownerAuth])))"

definition TCSP_CMK_CreateTicket_Internal ::
  "'t tcsd_env \<Rightarrow> u32 \<Rightarrow> u32 \<Rightarrow> ptr \<Rightarrow> u8 list \<Rightarrow> u32 \<Rightarrow> ptr \<Rightarrow> nat option \<Rightarrow> nat option \<Rightarrow> 't command" where
  "TCSP_CMK_CreateTicket_Internal env hContext PublicVerifyKeySize PublicVerifyKey SignedData SigValueSize
     SigValue pOwnerAuth SigTicket = releasing env hContext pOwnerAuth None
     (checked (verify hContext) Return
     (checked (auth_check env hContext pOwnerAuth) Return
     (transact env TPM_ORD_CMK_CreateTicket
        (\<lambda>m. [I PublicVerifyKeySize, P PublicVerifyKey, P (Buf SignedData), I SigValueSize, P SigValue,
              auth_arg pOwnerAuth m]) Done
        [OD SigTicket, OA pOwnerAuth])))"

section \<open>\<open>tcsi_context.c\<close>\<close>

definition TCS_OpenContext_Internal :: "u32 \<Rightarrow> u32 \<Rightarrow> nat \<Rightarrow> 't command" where
  "TCS_OpenContext_Internal r1 r2 hContext st = do {
     (h, tcs) \<leftarrow> make_context r1 r2 (d_tcs st);
     let st = set_tcs tcs st; let st = st\<lparr>d_mem := set_32 hContext h (d_mem st)\<rparr>;
     if h = 0 then Some (TCSERR TSS_E_OUTOFMEMORY, st) else Some (TSS_SUCCESS, st) }"

fun evict_slots :: "'t tcsd_env \<Rightarrow> u32 list \<Rightarrow> 't tcsd \<Rightarrow> 't tcsd option" where
  "evict_slots env [] st = Some st"
| "evict_slots env (slot # slots) st = do {
     (result, st) \<leftarrow> internal_EvictByKeySlot env slot st;
     evict_slots env slots st }"

definition sweep :: "'t tcsd_env \<Rightarrow> 't tcsd \<Rightarrow> 't tcsd option" where
  "sweep env st =
     (let (slots, tcs) = key_mgr_ref_count (d_tcs st) in evict_slots env slots (set_tcs tcs st))"

definition TCS_CloseContext_Internal :: "'t tcsd_env \<Rightarrow> u32 \<Rightarrow> 't command" where
  "TCS_CloseContext_Internal env hContext = plain (checked (verify hContext) Return (\<lambda>st. do {
     (trans, tcs) \<leftarrow> destroy_context hContext (d_tcs st);
     let st = set_tcs tcs st;
     st \<leftarrow> (case trans of None \<Rightarrow> Some st | Some h \<Rightarrow> map_option snd (flush_common env h TPM_RT_TRANS st));
     (result, am) \<leftarrow> auth_mgr_close_context (e_dv env) hContext (d_am st);
     st \<leftarrow> sweep env (st\<lparr>d_am := am\<rparr>);
     Some (Return TSS_SUCCESS, st) }))"

text \<open>Releasing an object of the caller: a NULL pointer is nothing, one released before a fault.\<close>

definition free_ptr :: "nat \<Rightarrow> 't tcsd \<Rightarrow> 't tcsd option" where
  "free_ptr l st = (case m_B (d_mem st) l of NULL \<Rightarrow> Some st | Freed \<Rightarrow> None
     | Buf bs \<Rightarrow> Some (st\<lparr>d_mem := (d_mem st)\<lparr>m_B := (m_B (d_mem st))(l := Freed), m_live := m_live (d_mem st) - 1\<rparr>\<rparr>))"

definition TCS_FreeMemory_Internal :: "u32 \<Rightarrow> nat \<Rightarrow> 't command" where
  "TCS_FreeMemory_Internal hContext pMemory st = do { st \<leftarrow> free_ptr pMemory st; Some (TSS_SUCCESS, st) }"

section \<open>\<open>tcsi_counter.c\<close>\<close>

definition TCSP_ReadCounter_Internal :: "'t tcsd_env \<Rightarrow> u32 \<Rightarrow> u32 \<Rightarrow> nat option \<Rightarrow> 't command" where
  "TCSP_ReadCounter_Internal env hContext idCounter counterValue = plain
     (checked (verify hContext) Return
     (transact env TPM_ORD_ReadCounter (\<lambda>m. [I idCounter, A None]) Return
        [O32 None, OC counterValue, OA None]))"

text \<open>The functions with a counter never release the session.\<close>

definition TCSP_CreateCounter_Internal ::
  "'t tcsd_env \<Rightarrow> u32 \<Rightarrow> u32 \<Rightarrow> ptr \<Rightarrow> u8 list \<Rightarrow> nat option \<Rightarrow> nat option \<Rightarrow> nat option \<Rightarrow> 't command" where
  "TCSP_CreateCounter_Internal env hContext LabelSize pLabel CounterAuth pOwnerAuth idCounter counterValue st =
     (if LabelSize \<noteq> 4 then Some (TCSERR TSS_E_BAD_PARAMETER, st)
      else plain
        (checked (verify hContext) Return
        (checked (auth_check env hContext pOwnerAuth) Return
        (transact env TPM_ORD_CreateCounter
           (\<lambda>m. [P (Buf CounterAuth), I LabelSize, P pLabel, auth_arg pOwnerAuth m]) Return
           [O32 idCounter, OC counterValue, OA pOwnerAuth]))) st)"

definition TCSP_IncrementCounter_Internal ::
  "'t tcsd_env \<Rightarrow> u32 \<Rightarrow> u32 \<Rightarrow> nat option \<Rightarrow> nat option \<Rightarrow> 't command" where
  "TCSP_IncrementCounter_Internal env hContext idCounter pCounterAuth counterValue = plain
     (checked (verify hContext) Return
     (checked (auth_check env hContext pCounterAuth) Return
     (transact env TPM_ORD_IncrementCounter (\<lambda>m. [I idCounter, auth_arg pCounterAuth m]) Return
        [O32 None, OC counterValue, OA pCounterAuth])))"

definition TCSP_ReleaseCounter_Internal :: "'t tcsd_env \<Rightarrow> u32 \<Rightarrow> u32 \<Rightarrow> nat option \<Rightarrow> 't command" where
  "TCSP_ReleaseCounter_Internal env hContext idCounter pCounterAuth = plain
     (checked (verify hContext) Return
     (checked (auth_check env hContext pCounterAuth) Return
     (transact env TPM_ORD_ReleaseCounter (\<lambda>m. [I idCounter, auth_arg pCounterAuth m]) Return
        [OA pCounterAuth])))"

definition TCSP_ReleaseCounterOwner_Internal :: "'t tcsd_env \<Rightarrow> u32 \<Rightarrow> u32 \<Rightarrow> nat option \<Rightarrow> 't command" where
  "TCSP_ReleaseCounterOwner_Internal env hContext idCounter pOwnerAuth = plain
     (checked (verify hContext) Return
     (checked (auth_check env hContext pOwnerAuth) Return
     (transact env TPM_ORD_ReleaseCounterOwner (\<lambda>m. [I idCounter, auth_arg pOwnerAuth m]) Return
        [OA pOwnerAuth])))"

end
