(* ===== verification/Tcsi_Resources.thy ===== *)
theory Tcsi_Resources
  imports Tcsi_Admin
begin

text \<open>
  The other commands of the daemon that need no key: those of \<open>tcs/tcsi_daa.c\<close>, \<open>tcsi_delegate.c\<close>,
  \<open>tcsi_dir.c\<close>, \<open>tcsi_ek.c\<close>, \<open>tcsi_maint.c\<close>, \<open>tcsi_nv.c\<close>, \<open>tcsi_oper.c\<close>, \<open>tcsi_own.c\<close>, \<open>tcsi_pcr.c\<close>,
  \<open>tcsi_random.c\<close>, \<open>tcsi_selftest.c\<close> and \<open>tcsi_tick.c\<close>.
\<close>

section \<open>\<open>tcsi_daa.c\<close>\<close>

definition TCSP_DaaJoin_internal ::
  "'t tcsd_env \<Rightarrow> u32 \<Rightarrow> u32 \<Rightarrow> u8 \<Rightarrow> u32 \<Rightarrow> ptr \<Rightarrow> u32 \<Rightarrow> ptr \<Rightarrow> nat option \<Rightarrow> nat option \<Rightarrow> nat option \<Rightarrow> 't command" where
  "TCSP_DaaJoin_internal env hContext handle stage inputSize0 inputData0 inputSize1 inputData1 ownerAuth
     outputSize outputData = releasing env hContext ownerAuth None
     (checked (verify hContext) Return
     (checked (auth_check env hContext ownerAuth) Done
     (transact env TPM_ORD_DAA_Join
        (\<lambda>m. [I handle, I (ucast stage), I inputSize0, P inputData0, I inputSize1, P inputData1,
              auth_arg ownerAuth m]) Done
        [O32 outputSize, OB outputData, OA ownerAuth])))"

definition TCSP_DaaSign_internal ::
  "'t tcsd_env \<Rightarrow> u32 \<Rightarrow> u32 \<Rightarrow> u8 \<Rightarrow> u32 \<Rightarrow> ptr \<Rightarrow> u32 \<Rightarrow> ptr \<Rightarrow> nat option \<Rightarrow> nat option \<Rightarrow> nat option \<Rightarrow> 't command" where
  "TCSP_DaaSign_internal env hContext handle stage inputSize0 inputData0 inputSize1 inputData1 ownerAuth
     outputSize outputData = releasing env hContext ownerAuth None
     (checked (verify hContext) Return
     (checked (auth_check env hContext ownerAuth) Done
     (transact env TPM_ORD_DAA_Sign
        (\<lambda>m. [I handle, I (ucast stage), I inputSize0, P inputData0, I inputSize1, P inputData1,
              auth_arg ownerAuth m]) Done
        [O32 outputSize, OB outputData, OA ownerAuth])))"

section \<open>\<open>tcsi_delegate.c\<close>\<close>

definition TCSP_Delegate_Manage_Internal ::
  "'t tcsd_env \<Rightarrow> u32 \<Rightarrow> u32 \<Rightarrow> u32 \<Rightarrow> u32 \<Rightarrow> ptr \<Rightarrow> nat option \<Rightarrow> nat option \<Rightarrow> nat option \<Rightarrow> 't command" where
  "TCSP_Delegate_Manage_Internal env hContext familyID opFlag opDataSize opData ownerAuth retDataSize retData =
     releasing env hContext ownerAuth None
     (checked (verify hContext) Return
     (checked (opt_auth_check env hContext ownerAuth) Return
     (transact env TPM_ORD_Delegate_Manage
        (\<lambda>m. [I familyID, I opFlag, I opDataSize, P opData, auth_arg ownerAuth m]) Done
        [O32 retDataSize, OB retData, OA ownerAuth, OA None])))"

definition TCSP_Delegate_CreateOwnerDelegation_Internal ::
  "'t tcsd_env \<Rightarrow> u32 \<Rightarrow> u8 \<Rightarrow> u32 \<Rightarrow> ptr \<Rightarrow> ptr \<Rightarrow> nat option \<Rightarrow> nat option \<Rightarrow> nat option \<Rightarrow> 't command" where
  "TCSP_Delegate_CreateOwnerDelegation_Internal env hContext increment publicInfoSize publicInfo encDelAuth
     ownerAuth blobSize blob = releasing env hContext ownerAuth None
     (checked (verify hContext) Return
     (checked (opt_auth_check env hContext ownerAuth) Return
     (transact env TPM_ORD_Delegate_CreateOwnerDelegation
        (\<lambda>m. [I (ucast increment), I publicInfoSize, P publicInfo, P encDelAuth, auth_arg ownerAuth m]) Done
        [O32 blobSize, OB blob, OA ownerAuth, OA None])))"

definition TCSP_Delegate_LoadOwnerDelegation_Internal ::
  "'t tcsd_env \<Rightarrow> u32 \<Rightarrow> u32 \<Rightarrow> u32 \<Rightarrow> ptr \<Rightarrow> nat option \<Rightarrow> 't command" where
  "TCSP_Delegate_LoadOwnerDelegation_Internal env hContext index blobSize blob ownerAuth =
     releasing env hContext ownerAuth None
     (checked (verify hContext) Return
     (checked (opt_auth_check env hContext ownerAuth) Return
     (transact env TPM_ORD_Delegate_LoadOwnerDelegation
        (\<lambda>m. [I index, I blobSize, P blob, auth_arg ownerAuth m]) Done [OA ownerAuth])))"

definition TCSP_Delegate_ReadTable_Internal ::
  "'t tcsd_env \<Rightarrow> u32 \<Rightarrow> nat option \<Rightarrow> nat option \<Rightarrow> nat option \<Rightarrow> nat option \<Rightarrow> 't command" where
  "TCSP_Delegate_ReadTable_Internal env hContext familyTableSize familyTable delegateTableSize delegateTable = plain
     (checked (verify hContext) Return
     (transact env TPM_ORD_Delegate_ReadTable (\<lambda>m. [A None]) Return
        [O32 familyTableSize, OB familyTable, O32 delegateTableSize, OB delegateTable, OA None, OA None]))"

definition TCSP_Delegate_UpdateVerificationCount_Internal ::
  "'t tcsd_env \<Rightarrow> u32 \<Rightarrow> u32 \<Rightarrow> ptr \<Rightarrow> nat option \<Rightarrow> nat option \<Rightarrow> nat option \<Rightarrow> 't command" where
  "TCSP_Delegate_UpdateVerificationCount_Internal env hContext inputSize input ownerAuth outputSize output =
     releasing env hContext ownerAuth None
     (checked (verify hContext) Return
     (checked (opt_auth_check env hContext ownerAuth) Return
     (transact env TPM_ORD_Delegate_UpdateVerification
        (\<lambda>m. [I inputSize, I inputSize, P input, auth_arg ownerAuth m, A None]) Done
        [O32 outputSize, OB output, OA ownerAuth, OA None])))"

definition TCSP_Delegate_VerifyDelegation_Internal :: "'t tcsd_env \<Rightarrow> u32 \<Rightarrow> u32 \<Rightarrow> ptr \<Rightarrow> 't command" where
  "TCSP_Delegate_VerifyDelegation_Internal env hContext delegateSize delegate = plain
     (checked (verify hContext) Return
     (transact_plain env TPM_ORD_Delegate_VerifyDelegation
        (\<lambda>m. [I delegateSize, I delegateSize, P delegate, A None, A None]) Return))"

section \<open>\<open>tcsi_dir.c\<close>\<close>

definition TCSP_DirWriteAuth_Internal :: "'t tcsd_env \<Rightarrow> u32 \<Rightarrow> u32 \<Rightarrow> u8 list \<Rightarrow> nat option \<Rightarrow> 't command" where
  "TCSP_DirWriteAuth_Internal env hContext dirIndex newContents ownerAuth = releasing env hContext ownerAuth None
     (checked (verify hContext) Done
     (checked (auth_check env hContext ownerAuth) Done (\<lambda>st.
        if e_num_dirs env < dirIndex then Some (Done (TCSERR TSS_E_BAD_PARAMETER), st)
        else transact env TPM_ORD_DirWriteAuth
          (\<lambda>m. [I dirIndex, I 32, P (Buf newContents), auth_arg ownerAuth m, A None]) Done
          [OA ownerAuth] st)))"

definition TCSP_DirRead_Internal :: "'t tcsd_env \<Rightarrow> u32 \<Rightarrow> u32 \<Rightarrow> nat option \<Rightarrow> 't command" where
  "TCSP_DirRead_Internal env hContext dirIndex dirValue = plain
     (checked (verify hContext) Return (\<lambda>st.
        if dirValue = None then Some (Return (TCSERR TSS_E_BAD_PARAMETER), st)
        else if e_num_dirs env < dirIndex then Some (Return (TCSERR TSS_E_BAD_PARAMETER), st)
        else transact env TPM_ORD_DirRead (\<lambda>m. [I dirIndex, A None]) Return [O32 None, OD dirValue] st))"

section \<open>\<open>tcsi_ek.c\<close>\<close>

definition TCSP_CreateEndorsementKeyPair_Internal ::
  "'t tcsd_env \<Rightarrow> u32 \<Rightarrow> u8 list \<Rightarrow> u32 \<Rightarrow> ptr \<Rightarrow> nat option \<Rightarrow> nat option \<Rightarrow> nat option \<Rightarrow> 't command" where
  "TCSP_CreateEndorsementKeyPair_Internal env hContext antiReplay endorsementKeyInfoSize endorsementKeyInfo
     endorsementKeySize endorsementKey checksum = plain
     (checked (verify hContext) Return
     (transact env TPM_ORD_CreateEndorsementKeyPair
        (\<lambda>m. [P (Buf antiReplay), I endorsementKeyInfoSize, P endorsementKeyInfo]) Return
        [O32 endorsementKeySize, OB endorsementKey, OD checksum]))"

definition TCSP_ReadPubek_Internal ::
  "'t tcsd_env \<Rightarrow> u32 \<Rightarrow> u8 list \<Rightarrow> nat option \<Rightarrow> nat option \<Rightarrow> nat option \<Rightarrow> 't command" where
  "TCSP_ReadPubek_Internal env hContext antiReplay pubEndorsementKeySize pubEndorsementKey checksum = plain
     (checked (verify hContext) Return
     (transact env TPM_ORD_ReadPubek (\<lambda>m. [I 32, P (Buf antiReplay)]) Return
        [O32 pubEndorsementKeySize, OB pubEndorsementKey, OD checksum]))"

definition TCSP_DisablePubekRead_Internal :: "'t tcsd_env \<Rightarrow> u32 \<Rightarrow> nat option \<Rightarrow> 't command" where
  "TCSP_DisablePubekRead_Internal env hContext ownerAuth = releasing env hContext ownerAuth None
     (checked (verify hContext) Done
     (checked (auth_check env hContext ownerAuth) Done
     (transact env TPM_ORD_DisablePubekRead (\<lambda>m. [auth_arg ownerAuth m]) Done [OA ownerAuth])))"

definition TCSP_OwnerReadPubek_Internal ::
  "'t tcsd_env \<Rightarrow> u32 \<Rightarrow> nat option \<Rightarrow> nat option \<Rightarrow> nat option \<Rightarrow> 't command" where
  "TCSP_OwnerReadPubek_Internal env hContext ownerAuth pubEndorsementKeySize pubEndorsementKey =
     releasing env hContext ownerAuth None
     (checked (verify hContext) Done
     (checked (auth_check env hContext ownerAuth) Done
     (transact env TPM_ORD_OwnerReadPubek (\<lambda>m. [auth_arg ownerAuth m]) Done
        [O32 pubEndorsementKeySize, OB pubEndorsementKey, OA ownerAuth])))"

definition TCSP_CreateRevocableEndorsementKeyPair_Internal ::
  "'t tcsd_env \<Rightarrow> u32 \<Rightarrow> u8 list \<Rightarrow> u32 \<Rightarrow> ptr \<Rightarrow> u8 \<Rightarrow> nat \<Rightarrow> nat option \<Rightarrow> nat option \<Rightarrow> nat option \<Rightarrow> 't command" where
  "TCSP_CreateRevocableEndorsementKeyPair_Internal env hContext antiReplay endorsementKeyInfoSize
     endorsementKeyInfo genResetAuth eKResetAuth endorsementKeySize endorsementKey checksum = plain
     (checked (verify hContext) Return
     (transact env TPM_ORD_CreateRevocableEK
        (\<lambda>m. [P (Buf antiReplay), I endorsementKeyInfoSize, P endorsementKeyInfo, I (ucast genResetAuth),
              P (Buf (m_D m eKResetAuth))]) Return
        [O32 endorsementKeySize, OB endorsementKey, OD checksum, OD (Some eKResetAuth)]))"

definition TCSP_RevokeEndorsementKeyPair_Internal :: "'t tcsd_env \<Rightarrow> u32 \<Rightarrow> u8 list \<Rightarrow> 't command" where
  "TCSP_RevokeEndorsementKeyPair_Internal env hContext EKResetAuth = plain
     (checked (verify hContext) Return
     (transact_plain env TPM_ORD_RevokeTrust (\<lambda>m. [P (Buf EKResetAuth)]) Return))"

section \<open>\<open>tcsi_maint.c\<close>\<close>

definition TCSP_CreateMaintenanceArchive_Internal ::
  "'t tcsd_env \<Rightarrow> u32 \<Rightarrow> u8 \<Rightarrow> nat option \<Rightarrow> nat option \<Rightarrow> nat option \<Rightarrow> nat option \<Rightarrow> nat option \<Rightarrow> 't command" where
  "TCSP_CreateMaintenanceArchive_Internal env hContext generateRandom ownerAuth randomSize random archiveSize
     archive = releasing env hContext ownerAuth None
     (checked (verify hContext) Done
     (checked (auth_check env hContext ownerAuth) Done
     (transact env TPM_ORD_CreateMaintenanceArchive
        (\<lambda>m. [I (ucast generateRandom), auth_arg ownerAuth m]) Done
        [O32 randomSize, OB random, O32 archiveSize, OB archive, OA ownerAuth])))"

definition TCSP_LoadMaintenanceArchive_Internal ::
  "'t tcsd_env \<Rightarrow> u32 \<Rightarrow> u32 \<Rightarrow> ptr \<Rightarrow> nat option \<Rightarrow> nat option \<Rightarrow> nat option \<Rightarrow> 't command" where
  "TCSP_LoadMaintenanceArchive_Internal env hContext dataInSize dataIn ownerAuth dataOutSize dataOut =
     releasing env hContext ownerAuth None
     (checked (verify hContext) Done
     (checked (auth_check env hContext ownerAuth) Done
     (transact env TPM_ORD_LoadMaintenanceArchive
        (\<lambda>m. [I dataInSize, I dataInSize, P dataIn, auth_arg ownerAuth m, A None]) Return
        [O32 dataOutSize, OB dataOut, OA ownerAuth, OA None])))"

definition TCSP_KillMaintenanceFeature_Internal :: "'t tcsd_env \<Rightarrow> u32 \<Rightarrow> nat option \<Rightarrow> 't command" where
  "TCSP_KillMaintenanceFeature_Internal env hContext ownerAuth = releasing env hContext ownerAuth None
     (checked (verify hContext) Done
     (checked (auth_check env hContext ownerAuth) Done
     (transact env TPM_ORD_KillMaintenanceFeature (\<lambda>m. [auth_arg ownerAuth m]) Return [OA ownerAuth])))"

text \<open>These two do not look at the context.\<close>

definition TCSP_LoadManuMaintPub_Internal ::
  "'t tcsd_env \<Rightarrow> u32 \<Rightarrow> u8 list \<Rightarrow> u32 \<Rightarrow> ptr \<Rightarrow> nat option \<Rightarrow> 't command" where
  "TCSP_LoadManuMaintPub_Internal env hContext antiReplay PubKeySize PubKey checksum = plain
     (transact env TPM_ORD_LoadManuMaintPub
        (\<lambda>m. [I 32, P (Buf antiReplay), I PubKeySize, P PubKey, A None]) Return [O32 None, OD checksum])"

definition TCSP_ReadManuMaintPub_Internal :: "'t tcsd_env \<Rightarrow> u32 \<Rightarrow> u8 list \<Rightarrow> nat option \<Rightarrow> 't command" where
  "TCSP_ReadManuMaintPub_Internal env hContext antiReplay checksum = plain
     (transact env TPM_ORD_ReadManuMaintPub (\<lambda>m. [I 32, P (Buf antiReplay)]) Return [O32 None, OD checksum])"

section \<open>\<open>tcsi_nv.c\<close>\<close>

definition TCSP_NV_DefineOrReleaseSpace_Internal ::
  "'t tcsd_env \<Rightarrow> u32 \<Rightarrow> u32 \<Rightarrow> ptr \<Rightarrow> u8 list \<Rightarrow> nat option \<Rightarrow> 't command" where
  "TCSP_NV_DefineOrReleaseSpace_Internal env hContext cPubInfoSize pPubInfo encAuth pAuth =
     releasing env hContext pAuth None
     (checked (verify hContext) Return
     (checked (opt_auth_check env hContext pAuth) Done
     (transact env TPM_ORD_NV_DefineSpace
        (\<lambda>m. [I cPubInfoSize, P pPubInfo, I 32, P (Buf encAuth), auth_arg pAuth m]) Return [OA pAuth])))"

definition TCSP_NV_WriteValue_Internal ::
  "'t tcsd_env \<Rightarrow> u32 \<Rightarrow> u32 \<Rightarrow> u32 \<Rightarrow> u32 \<Rightarrow> ptr \<Rightarrow> nat option \<Rightarrow> 't command" where
  "TCSP_NV_WriteValue_Internal env hContext hNVStore ofs ulDataLength rgbDataToWrite privAuth =
     releasing env hContext privAuth None
     (checked (verify hContext) Return
     (checked (opt_auth_check env hContext privAuth) Done
     (transact env TPM_ORD_NV_WriteValue
        (\<lambda>m. [I hNVStore, I ofs, I ulDataLength, P rgbDataToWrite, auth_arg privAuth m]) Return
        [OA privAuth])))"

definition TCSP_NV_WriteValueAuth_Internal ::
  "'t tcsd_env \<Rightarrow> u32 \<Rightarrow> u32 \<Rightarrow> u32 \<Rightarrow> u32 \<Rightarrow> ptr \<Rightarrow> nat option \<Rightarrow> 't command" where
  "TCSP_NV_WriteValueAuth_Internal env hContext hNVStore ofs ulDataLength rgbDataToWrite NVAuth =
     releasing env hContext NVAuth None
     (checked (verify hContext) Return
     (checked (auth_check env hContext NVAuth) Done
     (transact env TPM_ORD_NV_WriteValueAuth
        (\<lambda>m. [I hNVStore, I ofs, I ulDataLength, P rgbDataToWrite, auth_arg NVAuth m]) Return
        [OA NVAuth])))"

definition TCSP_NV_ReadValue_Internal ::
  "'t tcsd_env \<Rightarrow> u32 \<Rightarrow> u32 \<Rightarrow> u32 \<Rightarrow> nat \<Rightarrow> nat option \<Rightarrow> nat option \<Rightarrow> 't command" where
  "TCSP_NV_ReadValue_Internal env hContext hNVStore ofs pulDataLength privAuth rgbDataRead =
     releasing env hContext privAuth None
     (checked (verify hContext) Return
     (checked (opt_auth_check env hContext privAuth) Done
     (transact env TPM_ORD_NV_ReadValue
        (\<lambda>m. [I hNVStore, I ofs, I (m_32 m pulDataLength), auth_arg privAuth m]) Return
        [O32 (Some pulDataLength), OB rgbDataRead, OA privAuth, OA None])))"

definition TCSP_NV_ReadValueAuth_Internal ::
  "'t tcsd_env \<Rightarrow> u32 \<Rightarrow> u32 \<Rightarrow> u32 \<Rightarrow> nat \<Rightarrow> nat option \<Rightarrow> nat option \<Rightarrow> 't command" where
  "TCSP_NV_ReadValueAuth_Internal env hContext hNVStore ofs pulDataLength NVAuth rgbDataRead =
     releasing env hContext NVAuth None
     (checked (verify hContext) Return
     (checked (auth_check env hContext NVAuth) Done
     (transact env TPM_ORD_NV_ReadValueAuth
        (\<lambda>m. [I hNVStore, I ofs, I (m_32 m pulDataLength), auth_arg NVAuth m]) Return
        [O32 (Some pulDataLength), OB rgbDataRead, OA NVAuth, OA None])))"

section \<open>\<open>tcsi_oper.c\<close>\<close>

definition TCSP_SetOperatorAuth_Internal :: "'t tcsd_env \<Rightarrow> u32 \<Rightarrow> u8 list \<Rightarrow> 't command" where
  "TCSP_SetOperatorAuth_Internal env hContext operatorAuth = plain
     (checked (verify hContext) Return
     (transact_plain env TPM_ORD_SetOperatorAuth (\<lambda>m. [I 32, P (Buf operatorAuth)]) Return))"

section \<open>\<open>tcsi_own.c\<close>\<close>

abbreviation (input) TSS_E_PS_KEY_NOTFOUND :: u32 where "TSS_E_PS_KEY_NOTFOUND \<equiv> 0x020"

definition SRK_UUID :: TSS_UUID where
  "SRK_UUID = zero_uuid\<lparr>uuid_rgbNode := [0, 0, 0, 0, 0, 1]\<rparr>"

text \<open>The error paths after the response: the key that has been returned is released.\<close>

definition drop_srk :: "nat \<Rightarrow> nat \<Rightarrow> u32 \<Rightarrow> 't tcsd \<Rightarrow> (exit \<times> 't tcsd) option" where
  "drop_srk srkKeySize srkKey result st = do {
     st \<leftarrow> free_ptr srkKey (st\<lparr>d_mem := set_32 srkKeySize 0 (d_mem st)\<rparr>);
     Some (Done result, st) }"

text \<open>The new storage root key goes to the persistent store, with 256 zero bytes for its public key, and to
  the cache.  When the store refuses it, \<open>destroy_key_refs\<close> is called with the local array in place of the public
  key: a fault.\<close>

definition keep_srk :: "'t tcsd_env \<Rightarrow> nat \<Rightarrow> nat \<Rightarrow> u8 \<Rightarrow> 't body" where
  "keep_srk env srkKeySize srkKey oldAuthDataUsage st = do {
     blob \<leftarrow> bytes_of (m_B (d_mem st) srkKey);
     ((result, key, off), tcs) \<leftarrow> UnloadBlob_TSM_KEY (e_little env) 0 blob (d_tcs st);
     let st = set_tcs tcs st;
     if result \<noteq> 0 then drop_srk srkKeySize srkKey result st
     else do {
       let key = key\<lparr>tk_authDataUsage := oldAuthDataUsage\<rparr>;
       let (result, st) = e_ps_remove env SRK_UUID st;
       if result \<noteq> 0 \<and> result \<noteq> TCSERR TSS_E_PS_KEY_NOTFOUND
       then drop_srk srkKeySize srkKey result (set_tcs (destroy_key_refs key (d_tcs st)) st)
       else do {
         (off, b) \<leftarrow> LoadBlob_TSM_KEY (e_little env)
           (key\<lparr>tk_pubKey := (tk_pubKey key)\<lparr>sp_key := Buf (replicate 256 0)\<rparr>\<rparr>) (0, Some (replicate 2048 0));
         fake_srk \<leftarrow> b;
         let (result, st) = e_ps_write env SRK_UUID zero_uuid (take (unat off) fake_srk) st;
         if result \<noteq> 0 then None
         else do {
           (result, tcs) \<leftarrow> mc_add_entry_init SRK_TPM_HANDLE SRK_TPM_HANDLE (Some key) SRK_UUID (d_tcs st);
           let st = set_tcs (destroy_key_refs key tcs) st;
           if result \<noteq> 0 then drop_srk srkKeySize srkKey result st else Some (Done result, st) } } } }"

text \<open>The call that would release the session is commented out.\<close>

definition TCSP_TakeOwnership_Internal ::
  "'t tcsd_env \<Rightarrow> u32 \<Rightarrow> u16 \<Rightarrow> u32 \<Rightarrow> ptr \<Rightarrow> u32 \<Rightarrow> ptr \<Rightarrow> u32 \<Rightarrow> ptr \<Rightarrow> nat option \<Rightarrow> nat \<Rightarrow> nat \<Rightarrow> 't command" where
  "TCSP_TakeOwnership_Internal env hContext protocolID encOwnerAuthSize encOwnerAuth encSrkAuthSize encSrkAuth
     srkInfoSize srkInfo ownerAuth srkKeySize srkKey = plain
     (checked (verify hContext) Done
     (checked (session_check env hContext ownerAuth) Done (\<lambda>st. do {
        info \<leftarrow> bytes_of srkInfo;
        ((result, key, off), tcs) \<leftarrow> UnloadBlob_TSS_KEY (e_little env) (e_hdr env) 0 info (d_tcs st);
        request env TPM_ORD_TakeOwnership
          (\<lambda>m. [I (ucast protocolID), I encOwnerAuthSize, P encOwnerAuth, I encSrkAuthSize, P encSrkAuth,
                I srkInfoSize, P srkInfo, session_arg ownerAuth m]) Return
          (\<lambda>blob paramSize. checked (parse TPM_ORD_TakeOwnership
             [O32 (Some srkKeySize), OB (Some srkKey), OS ownerAuth] blob paramSize) Done
             (keep_srk env srkKeySize srkKey (tk_authDataUsage key))) (set_tcs tcs st) })))"

definition TCSP_OwnerClear_Internal :: "'t tcsd_env \<Rightarrow> u32 \<Rightarrow> nat option \<Rightarrow> 't command" where
  "TCSP_OwnerClear_Internal env hContext ownerAuth = releasing env hContext ownerAuth None
     (checked (verify hContext) Done
     (checked (auth_check env hContext ownerAuth) Done
     (transact env TPM_ORD_OwnerClear (\<lambda>m. [auth_arg ownerAuth m]) Done [OA ownerAuth])))"

section \<open>\<open>tcsi_pcr.c\<close>\<close>

text \<open>\<open>pcrs & (1 << pcrNum)\<close>: shifting by 31 or more is undefined for an \<open>int\<close>.\<close>

definition pcr_masked :: "u32 \<Rightarrow> u32 \<Rightarrow> bool option" where
  "pcr_masked pcrs pcrNum =
     (if unat pcrNum < 31 then Some (pcrs AND push_bit (unat pcrNum) 1 \<noteq> 0) else None)"

definition TCSP_Extend_Internal :: "'t tcsd_env \<Rightarrow> u32 \<Rightarrow> u32 \<Rightarrow> u8 list \<Rightarrow> nat option \<Rightarrow> 't command" where
  "TCSP_Extend_Internal env hContext pcrNum inDigest outDigest = plain
     (checked (verify hContext) Return (\<lambda>st.
        if e_num_pcrs env \<le> pcrNum then Some (Return (TCSERR TSS_E_BAD_PARAMETER), st)
        else do {
          kernel \<leftarrow> pcr_masked (e_kernel_pcrs env) pcrNum;
          if kernel then Some (Return (TCSERR TSS_E_FAIL), st)
          else do {
            firmware \<leftarrow> pcr_masked (e_firmware_pcrs env) pcrNum;
            if firmware then Some (Return (TCSERR TSS_E_FAIL), st)
            else transact env TPM_ORD_Extend (\<lambda>m. [I pcrNum, I 32, P (Buf inDigest), A None, A None]) Return
              [O32 None, OD outDigest] st } }))"

definition TCSP_PcrRead_Internal :: "'t tcsd_env \<Rightarrow> u32 \<Rightarrow> u32 \<Rightarrow> nat option \<Rightarrow> 't command" where
  "TCSP_PcrRead_Internal env hContext pcrNum outDigest = plain
     (checked (verify hContext) Return (\<lambda>st.
        if e_num_pcrs env \<le> pcrNum then Some (Return (TCSERR TSS_E_BAD_PARAMETER), st)
        else transact env TPM_ORD_PcrRead (\<lambda>m. [I pcrNum, A None]) Return [O32 None, OD outDigest] st))"

definition TCSP_PcrReset_Internal :: "'t tcsd_env \<Rightarrow> u32 \<Rightarrow> u32 \<Rightarrow> ptr \<Rightarrow> 't command" where
  "TCSP_PcrReset_Internal env hContext pcrDataSizeIn pcrDataIn = plain
     (checked (verify hContext) Return
     (transact_plain env TPM_ORD_PCR_Reset (\<lambda>m. [I pcrDataSizeIn, P pcrDataIn]) Return))"

section \<open>\<open>tcsi_random.c\<close>\<close>

text \<open>\<open>realloc(*p, n)\<close>: the object with its old bytes, as far as they fit.  The contents of the rest are
  unspecified, here 0.\<close>

definition realloc_to :: "nat \<Rightarrow> nat \<Rightarrow> rsp_mem \<Rightarrow> (bool \<times> rsp_mem) option" where
  "realloc_to l n m = (case m_B m l of Freed \<Rightarrow> None
     | NULL \<Rightarrow> Some (malloc_to l n m)
     | Buf bs \<Rightarrow> Some (if n = 0 then (False, free_at l m)
         else if m_ok m (m_count m)
         then (True, m\<lparr>m_B := (m_B m)(l := Buf (take n bs @ replicate (n - length bs) 0)), m_count := Suc (m_count m)\<rparr>)
         else (False, m\<lparr>m_B := (m_B m)(l := NULL), m_count := Suc (m_count m)\<rparr>)))"

text \<open>\<open>memcpy(*p, bs, n)\<close>: to the front of the object.\<close>

definition copy_front :: "nat \<Rightarrow> u8 list \<Rightarrow> rsp_mem \<Rightarrow> rsp_mem option" where
  "copy_front l bs m = do {
     d \<leftarrow> bytes_of (m_B m l);
     d \<leftarrow> wr d 0 bs;
     Some (m\<lparr>m_B := (m_B m)(l := Buf d)\<rparr>) }"

text \<open>One round of the loop: the way out, if it ends here, the offset and buffer that the next round goes
  on with, the number of bytes so far.  The offset is not set back to 0, and \<open>rnd_tmp\<close> is a local.
  \<open>Break\<close> is also the end of the loop by its condition, \<open>Leave\<close> the \<open>return\<close> in it.\<close>

datatype random = Break u32 | Leave u32 | More u64 "u8 list" u32

definition random_round ::
  "'t tcsd_env \<Rightarrow> nat \<Rightarrow> nat \<Rightarrow> u64 \<Rightarrow> u8 list \<Rightarrow> u32 \<Rightarrow> 't tcsd \<Rightarrow> ((random \<times> u32) \<times> 't tcsd) option" where
  "random_round env bytesRequested randomBytes ofs buf totalReturned st = do {
     (result, w, ap) \<leftarrow> tpm_rqu_build TPM_ORD_GetRandom
       [I (m_32 (d_mem st) bytesRequested - totalReturned), A None] (ofs, Some buf);
     if result \<noteq> 0 then Some ((Break result, totalReturned), st)
     else do {
       blob \<leftarrow> snd w;
       ((result, blob), d) \<leftarrow> req_mgr_submit_req (e_dv env) blob (dev (d_am st));
       let st = set_dev d st;
       if result \<noteq> 0 then Some ((Break result, totalReturned), st)
       else do {
         (result, paramSize) \<leftarrow> UnloadBlob_Header blob;
         if result \<noteq> 0 then Some ((Leave result, totalReturned), st)
         else do {
           (result, m) \<leftarrow> tpm_rsp_parse TPM_ORD_GetRandom [O32 (Some 0), OB (Some 0), OA None, OA None]
             blob paramSize (frame (d_mem st));
           let bytesReturned = m_32 m 0; let rnd_tmp = m_B m 0;
           let st = st\<lparr>d_mem := unframe (d_mem st) m\<rparr>;
           if result \<noteq> 0 then Some ((Break result, totalReturned), st)
           else do {
             (ok, m) \<leftarrow> realloc_to randomBytes (unat (totalReturned + bytesReturned)) (d_mem st);
             if \<not> ok then Some ((Break (TCSERR TSS_E_OUTOFMEMORY), totalReturned), free_resp (st\<lparr>d_mem := m\<rparr>))
             else do {
               bs \<leftarrow> bytes_of rnd_tmp;
               m \<leftarrow> copy_front randomBytes bs m;
               Some ((More (fst w) blob (totalReturned + bytesReturned), totalReturned + bytesReturned),
                 free_resp (st\<lparr>d_mem := m\<rparr>)) } } } } } }"

fun random_loop ::
  "'t tcsd_env \<Rightarrow> nat \<Rightarrow> nat \<Rightarrow> nat \<Rightarrow> u64 \<Rightarrow> u8 list \<Rightarrow> u32 \<Rightarrow> 't tcsd \<Rightarrow> ((random \<times> u32) \<times> 't tcsd) option" where
  "random_loop env bytesRequested randomBytes retries ofs buf totalReturned st = do {
     ((x, total), st) \<leftarrow> random_round env bytesRequested randomBytes ofs buf totalReturned st;
     case x of Break result \<Rightarrow> Some ((x, total), st)
     | Leave result \<Rightarrow> Some ((x, total), st)
     | More ofs buf totalReturned \<Rightarrow>
         if totalReturned < m_32 (d_mem st) bytesRequested then
           (case retries of 0 \<Rightarrow> Some ((Break 0, total), st)
            | Suc n \<Rightarrow> random_loop env bytesRequested randomBytes n ofs buf totalReturned st)
         else Some ((Break 0, total), st) }"

declare random_loop.simps [simp del]

text \<open>When the loop ends, the result is a failure unless all bytes are there.\<close>

definition TCSP_GetRandom_Internal :: "'t tcsd_env \<Rightarrow> u32 \<Rightarrow> nat \<Rightarrow> nat \<Rightarrow> 't command" where
  "TCSP_GetRandom_Internal env hContext bytesRequested randomBytes st = do {
     (result, st) \<leftarrow> verify hContext st;
     if result \<noteq> 0 then Some (result, st)
     else do {
       ((x, totalReturned), st) \<leftarrow> random_loop env bytesRequested randomBytes 50 0 (txBlob env st) 0 st;
       let full = (totalReturned = m_32 (d_mem st) bytesRequested);
       case x of Leave result \<Rightarrow> Some (result, st)
       | Break result \<Rightarrow> Some (if full then result else TCSERR TSS_E_FAIL, st)
       | More ofs buf n \<Rightarrow> Some (if full then TSS_SUCCESS else TCSERR TSS_E_FAIL, st) } }"

definition TCSP_StirRandom_Internal :: "'t tcsd_env \<Rightarrow> u32 \<Rightarrow> u32 \<Rightarrow> ptr \<Rightarrow> 't command" where
  "TCSP_StirRandom_Internal env hContext inDataSize inData st =
     (if 255 < inDataSize then Some (TCSERR TSS_E_BAD_PARAMETER, st)
      else plain
        (checked (verify hContext) Return
        (transact_plain env TPM_ORD_StirRandom (\<lambda>m. [I inDataSize, I inDataSize, P inData, A None, A None]) Return)) st)"

section \<open>\<open>tcsi_selftest.c\<close>\<close>

definition TCSP_SelfTestFull_Internal :: "'t tcsd_env \<Rightarrow> u32 \<Rightarrow> 't command" where
  "TCSP_SelfTestFull_Internal env hContext = plain
     (checked (verify hContext) Return
     (transact_plain env TPM_ORD_SelfTestFull (\<lambda>m. [A None]) Return))"

definition TCSP_GetTestResult_Internal :: "'t tcsd_env \<Rightarrow> u32 \<Rightarrow> nat option \<Rightarrow> nat option \<Rightarrow> 't command" where
  "TCSP_GetTestResult_Internal env hContext outDataSize outData = plain
     (checked (verify hContext) Return
     (transact env TPM_ORD_GetTestResult (\<lambda>m. [A None]) Return [O32 outDataSize, OB outData, OA None, OA None]))"

section \<open>\<open>tcsi_tick.c\<close>\<close>

definition TCSP_ReadCurrentTicks_Internal :: "'t tcsd_env \<Rightarrow> u32 \<Rightarrow> nat option \<Rightarrow> nat option \<Rightarrow> 't command" where
  "TCSP_ReadCurrentTicks_Internal env hContext pulCurrentTime prgbCurrentTime = plain
     (checked (verify hContext) Return
     (transact env TPM_ORD_GetTicks (\<lambda>m. [A None]) Return [O32 pulCurrentTime, OB prgbCurrentTime, OA None]))"

end
