(* ===== verification/Tcsi_Key_Commands.thy ===== *)
theory Tcsi_Key_Commands
  imports Tcsi_Resources
begin

text \<open>
  The commands of the daemon on a loaded key: \<open>tcs/tcsi_key.c\<close> and the functions of the other
  \<open>tcs/tcsi_*.c\<close> that call \<open>ensureKeyIsLoaded\<close>, \<open>get_slot\<close> or \<open>get_slot_lite\<close>.
\<close>

text \<open>\<open>if ((result = ensureKeyIsLoaded(hContext, h, &slot))) goto out;\<close>, and the same with
  \<open>get_slot\<close>.\<close>

definition with_key :: "'t tcsd_env \<Rightarrow> u32 \<Rightarrow> u32 \<Rightarrow> (u32 \<Rightarrow> exit) \<Rightarrow> (u32 \<Rightarrow> 't body) \<Rightarrow> 't body" where
  "with_key env hContext h out k st = do {
     ((result, slot), st) \<leftarrow> ensureKeyIsLoaded env hContext h st;
     if result \<noteq> 0 then Some (out result, st) else k slot st }"

definition with_slot :: "'t tcsd_env \<Rightarrow> u32 \<Rightarrow> u32 \<Rightarrow> (u32 \<Rightarrow> 't body) \<Rightarrow> 't body" where
  "with_slot env hContext h k st = do {
     ((result, slot), st) \<leftarrow> get_slot (LoadKeyShim env) hContext h st;
     if result \<noteq> 0 then Some (Return result, st) else k slot st }"

section \<open>\<open>tcsi_key.c\<close>\<close>

text \<open>The handle and the slot are stored when the key has been loaded.\<close>

definition store_handles :: "(u32 \<times> u32 \<times> u32) \<times> 't tcsd \<Rightarrow> nat \<Rightarrow> nat option \<Rightarrow> u32 \<times> 't tcsd" where
  "store_handles r phKeyTCSI phKeyHMAC = (case r of ((result, h, slot), st) \<Rightarrow>
     (result, if result \<noteq> 0 then st
        else let m = set_32 phKeyTCSI h (d_mem st)
          in st\<lparr>d_mem := (case phKeyHMAC of None \<Rightarrow> m | Some l \<Rightarrow> set_32 l slot m)\<rparr>))"

definition TCSP_LoadKeyByBlob_Internal ::
  "'t tcsd_env \<Rightarrow> u32 \<Rightarrow> u32 \<Rightarrow> u32 \<Rightarrow> u8 list \<Rightarrow> nat option \<Rightarrow> nat \<Rightarrow> nat option \<Rightarrow> 't command" where
  "TCSP_LoadKeyByBlob_Internal env hContext hUnwrappingKey cWrappedKeyBlobSize rgbWrappedKeyBlob pAuth
     phKeyTCSI phKeyHMAC st = do {
     r \<leftarrow> LoadKeyByBlob_Internal (LoadKeyShim env) env TPM_ORD_LoadKey hContext hUnwrappingKey cWrappedKeyBlobSize
       rgbWrappedKeyBlob pAuth st;
     Some (store_handles r phKeyTCSI phKeyHMAC) }"

definition TCSP_LoadKey2ByBlob_Internal ::
  "'t tcsd_env \<Rightarrow> u32 \<Rightarrow> u32 \<Rightarrow> u32 \<Rightarrow> u8 list \<Rightarrow> nat option \<Rightarrow> nat \<Rightarrow> 't command" where
  "TCSP_LoadKey2ByBlob_Internal env hContext hUnwrappingKey cWrappedKeyBlobSize rgbWrappedKeyBlob pAuth
     phKeyTCSI st = do {
     r \<leftarrow> LoadKeyByBlob_Internal (LoadKeyShim env) env TPM_ORD_LoadKey2 hContext hUnwrappingKey cWrappedKeyBlobSize
       rgbWrappedKeyBlob pAuth st;
     Some (store_handles r phKeyTCSI None) }"

definition TCSP_CreateWrapKey_Internal ::
  "'t tcsd_env \<Rightarrow> u32 \<Rightarrow> u32 \<Rightarrow> u8 list \<Rightarrow> u8 list \<Rightarrow> u32 \<Rightarrow> ptr \<Rightarrow> nat option \<Rightarrow> nat option \<Rightarrow> nat option \<Rightarrow> 't command" where
  "TCSP_CreateWrapKey_Internal env hContext hWrappingKey KeyUsageAuth KeyMigrationAuth keyInfoSize keyInfo
     keyDataSize keyData pAuth = releasing env hContext pAuth None
     (checked (verify hContext) Done
     (checked (opt_auth_check env hContext pAuth) Done (\<lambda>st.
        let parentSlot = mc_get_slot_by_handle_lock hWrappingKey (d_tcs st)
        in if parentSlot = NULL_HANDLE then Some (Done (TCSERR TSS_E_FAIL), st)
           else transact env TPM_ORD_CreateWrapKey
             (\<lambda>m. [I parentSlot, P (Buf KeyUsageAuth), P (Buf KeyMigrationAuth), I keyInfoSize, P keyInfo,
                   auth_arg pAuth m]) Done
             [O32 keyDataSize, OB keyData, OA pAuth] st)))"

definition TCSP_GetPubKey_Internal ::
  "'t tcsd_env \<Rightarrow> u32 \<Rightarrow> u32 \<Rightarrow> nat option \<Rightarrow> nat option \<Rightarrow> nat option \<Rightarrow> 't command" where
  "TCSP_GetPubKey_Internal env hContext hKey pAuth pcPubKeySize prgbPubKey = releasing env hContext pAuth None
     (checked (verify hContext) Done
     (checked (opt_auth_check env hContext pAuth) Done
     (with_key env hContext hKey (\<lambda>_. Done (TCSERR TCS_E_KM_LOADFAILED)) (\<lambda>keySlot.
      transact env TPM_ORD_GetPubKey (\<lambda>m. [I keySlot, auth_arg pAuth m]) Done
        [O32 pcPubKeySize, OB prgbPubKey, OA pAuth]))))"

abbreviation (input) TPM_KH_SRK :: u32 where "TPM_KH_SRK \<equiv> 0x40000000"
abbreviation (input) TPM_KH_EK :: u32 where "TPM_KH_EK \<equiv> 0x40000006"
abbreviation (input) TPM_KH_TRANSPORT :: u32 where "TPM_KH_TRANSPORT \<equiv> 0x40000003"

definition TCSP_OwnerReadInternalPub_Internal ::
  "'t tcsd_env \<Rightarrow> u32 \<Rightarrow> u32 \<Rightarrow> nat option \<Rightarrow> nat option \<Rightarrow> nat option \<Rightarrow> 't command" where
  "TCSP_OwnerReadInternalPub_Internal env hContext hKey pOwnerAuth punPubKeySize ppbPubKeyData =
     releasing env hContext pOwnerAuth None
     (checked (verify hContext) Done (\<lambda>st.
        if hKey \<noteq> TPM_KH_SRK \<and> hKey \<noteq> TPM_KH_EK then Some (Done (TCSERR TSS_E_FAIL), st)
        else checked (auth_check env hContext pOwnerAuth) Done
          (transact env TPM_ORD_OwnerReadInternalPub (\<lambda>m. [I hKey, auth_arg pOwnerAuth m]) Done
             [O32 punPubKeySize, OB ppbPubKeyData, OA pOwnerAuth]) st))"

text \<open>The UUID for the key, which the caller gets too, goes into its entry of the cache.\<close>

definition TCSP_KeyControlOwner_Internal ::
  "'t tcsd_env \<Rightarrow> u32 \<Rightarrow> u32 \<Rightarrow> u32 \<Rightarrow> ptr \<Rightarrow> u32 \<Rightarrow> u8 \<Rightarrow> nat option \<Rightarrow> 't command" where
  "TCSP_KeyControlOwner_Internal env hContext hTcsKey ulPubKeyLength rgbPubKey attribName attribValue pOwnerAuth =
     releasing env hContext pOwnerAuth None
     (checked (verify hContext) Done (\<lambda>st.
        let (result, hTpmKey) = get_slot_lite hContext hTcsKey (d_tcs st)
        in if result \<noteq> 0 then Some (Done result, st)
           else checked (auth_check env hContext pOwnerAuth) Done (\<lambda>st.
             case mc_find_next_ownerevict_uuid (d_tcs st) of
               None \<Rightarrow> Some (Done (TCSERR TSS_E_FAIL), st)
             | Some pUuidData \<Rightarrow> request env TPM_ORD_KeyControlOwner
                 (\<lambda>m. [I hTpmKey, I ulPubKeyLength, P rgbPubKey, I attribName, I (ucast attribValue),
                       auth_arg pOwnerAuth m]) Done
                 (\<lambda>blob paramSize. checked (parse TPM_ORD_KeyControlOwner [OA pOwnerAuth] blob paramSize) Done
                    (\<lambda>st. let (result, tcs) = mc_set_uuid hTcsKey pUuidData (d_tcs st)
                           in Some (Done result, set_tcs tcs st))) st) st))"

section \<open>\<open>tcsi_admin.c\<close>, \<open>tcsi_aik.c\<close>, \<open>tcsi_audit.c\<close>\<close>

definition TCSP_SetRedirection_Internal ::
  "'t tcsd_env \<Rightarrow> u32 \<Rightarrow> u32 \<Rightarrow> u32 \<Rightarrow> u32 \<Rightarrow> nat option \<Rightarrow> 't command" where
  "TCSP_SetRedirection_Internal env hContext keyHandle c1 c2 privAuth = releasing env hContext privAuth None
     (checked (verify hContext) Done
     (checked (opt_auth_check env hContext privAuth) Done
     (with_key env hContext keyHandle (\<lambda>_. Done (TCSERR TSS_E_FAIL)) (\<lambda>keySlot.
      transact env TPM_ORD_SetRedirection (\<lambda>m. [I keySlot, I c1, I c2, auth_arg privAuth m]) Done
        [OA privAuth]))))"

definition TCSP_ActivateTPMIdentity_Internal ::
  "'t tcsd_env \<Rightarrow> u32 \<Rightarrow> u32 \<Rightarrow> u32 \<Rightarrow> ptr \<Rightarrow> nat option \<Rightarrow> nat option \<Rightarrow> nat option \<Rightarrow> nat option \<Rightarrow> 't command" where
  "TCSP_ActivateTPMIdentity_Internal env hContext idKey blobSize blob idKeyAuth ownerAuth SymmetricKeySize
     SymmetricKey = releasing env hContext idKeyAuth ownerAuth
     (checked (verify hContext) Done
     (checked (opt_auth_check env hContext idKeyAuth) Done
     (checked (auth_check env hContext ownerAuth) Done
     (with_key env hContext idKey Done (\<lambda>keySlot.
      transact env TPM_ORD_ActivateIdentity
        (\<lambda>m. [I keySlot, I blobSize, P blob, auth_arg idKeyAuth m, auth_arg ownerAuth m]) Done
        [O32 SymmetricKeySize, OB SymmetricKey, OA idKeyAuth, OA ownerAuth])))))"

definition TCSP_GetAuditDigestSigned_Internal ::
  "'t tcsd_env \<Rightarrow> u32 \<Rightarrow> u32 \<Rightarrow> u8 \<Rightarrow> u8 list \<Rightarrow> nat option \<Rightarrow> nat option \<Rightarrow> nat option \<Rightarrow> nat option \<Rightarrow> nat option \<Rightarrow>
   nat option \<Rightarrow> nat option \<Rightarrow> 't command" where
  "TCSP_GetAuditDigestSigned_Internal env hContext keyHandle closeAudit antiReplay privAuth counterValueSize
     counterValue auditDigest ordinalDigest sigSize sig = releasing env hContext privAuth None
     (checked (verify hContext) Return
     (checked (opt_auth_check env hContext privAuth) Return
     (with_key env hContext keyHandle Done (\<lambda>keySlot.
      transact env TPM_ORD_GetAuditDigestSigned
        (\<lambda>m. [I keySlot, I (ucast closeAudit), P (Buf antiReplay), auth_arg privAuth m]) Done
        [O32 counterValueSize, OB counterValue, OD auditDigest, OD ordinalDigest, O32 sigSize, OB sig,
         OA privAuth]))))"

section \<open>\<open>tcsi_bind.c\<close>, \<open>tcsi_certify.c\<close>, \<open>tcsi_changeauth.c\<close>\<close>

definition TCSP_UnBind_Internal ::
  "'t tcsd_env \<Rightarrow> u32 \<Rightarrow> u32 \<Rightarrow> u32 \<Rightarrow> ptr \<Rightarrow> nat option \<Rightarrow> nat option \<Rightarrow> nat option \<Rightarrow> 't command" where
  "TCSP_UnBind_Internal env hContext keyHandle inDataSize inData privAuth outDataSize outData =
     releasing env hContext privAuth None
     (checked (verify hContext) Done
     (checked (opt_auth_check env hContext privAuth) Done
     (with_key env hContext keyHandle Done (\<lambda>keySlot.
      transact env TPM_ORD_UnBind (\<lambda>m. [I keySlot, I inDataSize, P inData, auth_arg privAuth m, A None]) Return
        [O32 outDataSize, OB outData, OA privAuth, OA None]))))"

definition TCSP_CertifyKey_Internal ::
  "'t tcsd_env \<Rightarrow> u32 \<Rightarrow> u32 \<Rightarrow> u32 \<Rightarrow> u8 list \<Rightarrow> nat option \<Rightarrow> nat option \<Rightarrow> nat option \<Rightarrow> nat option \<Rightarrow> nat option \<Rightarrow>
   nat option \<Rightarrow> 't command" where
  "TCSP_CertifyKey_Internal env hContext certHandle keyHandle antiReplay certAuth keyAuth CertifyInfoSize
     CertifyInfo outDataSize outData = releasing env hContext certAuth keyAuth
     (checked (verify hContext) Done
     (checked (opt_auth_check env hContext certAuth) Done
     (checked (opt_auth_check env hContext keyAuth) Done
     (with_key env hContext certHandle Done (\<lambda>certKeySlot.
      with_key env hContext keyHandle Done (\<lambda>keySlot.
      transact env TPM_ORD_CertifyKey
        (\<lambda>m. [I certKeySlot, I keySlot, P (Buf antiReplay), auth_arg certAuth m, auth_arg keyAuth m]) Done
        [O32 CertifyInfoSize, OB CertifyInfo, O32 outDataSize, OB outData, OA certAuth, OA keyAuth]))))))"

text \<open>A changed key is taken out of the device, its parent in fact, and its private data replaced in the cache;
  what these calls return is ignored.\<close>

definition replace_encdata :: "'t tcsd_env \<Rightarrow> u16 \<Rightarrow> u32 \<Rightarrow> ptr \<Rightarrow> nat \<Rightarrow> 't tcsd \<Rightarrow> 't tcsd option" where
  "replace_encdata env entityType keySlot encData outData st =
     (if entityType = 1 \<or> entityType = 5 then do {
        tcsKeyHandleToEvict \<leftarrow> mc_get_handle_by_encdata encData (d_tcs st);
        if tcsKeyHandleToEvict \<noteq> 0 then do {
          (result, st) \<leftarrow> internal_EvictByKeySlot env keySlot st;
          (result, tcs) \<leftarrow> mc_update_encdata encData (m_B (d_mem st) outData) (d_tcs st);
          Some (set_tcs tcs st) }
        else Some st }
      else Some st)"

definition TCSP_ChangeAuth_Internal ::
  "'t tcsd_env \<Rightarrow> u32 \<Rightarrow> u32 \<Rightarrow> u16 \<Rightarrow> u8 list \<Rightarrow> u16 \<Rightarrow> u32 \<Rightarrow> ptr \<Rightarrow> nat option \<Rightarrow> nat option \<Rightarrow> nat option \<Rightarrow> nat \<Rightarrow> 't command" where
  "TCSP_ChangeAuth_Internal env contextHandle parentHandle protocolID newAuth entityType encDataSize encData
     ownerAuth entityAuth outDataSize outData = releasing env contextHandle ownerAuth entityAuth
     (checked (verify contextHandle) Done
     (checked (auth_check env contextHandle ownerAuth) Done
     (checked (auth_check env contextHandle entityAuth) Done
     (with_key env contextHandle parentHandle Done (\<lambda>keySlot.
      request env TPM_ORD_ChangeAuth
        (\<lambda>m. [I keySlot, I (ucast protocolID), P (Buf newAuth), I (ucast entityType), I encDataSize, P encData,
              auth_arg ownerAuth m, auth_arg entityAuth m]) Done
        (\<lambda>blob paramSize. checked (parse TPM_ORD_ChangeAuth
           [O32 outDataSize, OB (Some outData), OA ownerAuth, OA entityAuth] blob paramSize) Done
           (\<lambda>st. do {
              st \<leftarrow> replace_encdata env entityType keySlot encData outData st;
              Some (Done TSS_SUCCESS, st) })))))))"

section \<open>\<open>tcsi_cmk.c\<close>\<close>

text \<open>The caller's key data is released on every path, before the response puts new data there.\<close>

definition TCSP_CMK_CreateKey_Internal ::
  "'t tcsd_env \<Rightarrow> u32 \<Rightarrow> u32 \<Rightarrow> u8 list \<Rightarrow> u8 list \<Rightarrow> u8 list \<Rightarrow> nat \<Rightarrow> nat \<Rightarrow> nat option \<Rightarrow> 't command" where
  "TCSP_CMK_CreateKey_Internal env hContext hWrappingKey KeyUsageAuth MigAuthApproval MigAuthorityDigest
     keyDataSize prgbKeyData pAuth =
     (let dropped = (\<lambda>x st. do { st \<leftarrow> free_ptr prgbKeyData st; Some (x, st) })
      in releasing env hContext pAuth None (\<lambda>st. do {
        (result, st) \<leftarrow> verify hContext st;
        if result \<noteq> 0 then dropped (Return result) st
        else do {
          ((result, parentSlot), st) \<leftarrow> get_slot (LoadKeyShim env) hContext hWrappingKey st;
          if result \<noteq> 0 then dropped (Return result) st
          else do {
            (result, st) \<leftarrow> opt_auth_check env hContext pAuth st;
            if result \<noteq> 0 then dropped (Return result) st
            else do {
              (result, w, ap) \<leftarrow> tpm_rqu_build TPM_ORD_CMK_CreateKey
                [I parentSlot, P (Buf KeyUsageAuth), I (m_32 (d_mem st) keyDataSize), P (m_B (d_mem st) prgbKeyData),
                 P (Buf MigAuthApproval), P (Buf MigAuthorityDigest), auth_arg pAuth (d_mem st)]
                (0, Some (txBlob env st));
              if result \<noteq> 0 then dropped (Done result) st
              else do {
                blob \<leftarrow> snd w;
                st \<leftarrow> free_ptr prgbKeyData st;
                ((result, blob, paramSize), st) \<leftarrow> submit env blob st;
                if result \<noteq> 0 then Some (Done result, st)
                else do {
                  (result, st) \<leftarrow> parse TPM_ORD_CMK_CreateKey
                    [O32 (Some keyDataSize), OB (Some prgbKeyData), OA pAuth] blob paramSize st;
                  Some (Done result, st) } } } } } }))"

definition TCSP_CMK_CreateBlob_Internal ::
  "'t tcsd_env \<Rightarrow> u32 \<Rightarrow> u32 \<Rightarrow> u16 \<Rightarrow> u32 \<Rightarrow> ptr \<Rightarrow> u8 list \<Rightarrow> u32 \<Rightarrow> ptr \<Rightarrow> u32 \<Rightarrow> ptr \<Rightarrow> u32 \<Rightarrow> ptr \<Rightarrow> u32 \<Rightarrow> ptr \<Rightarrow>
   nat option \<Rightarrow> nat option \<Rightarrow> nat option \<Rightarrow> nat option \<Rightarrow> nat option \<Rightarrow> 't command" where
  "TCSP_CMK_CreateBlob_Internal env hContext parentHandle migrationType MigrationKeyAuthSize MigrationKeyAuth
     PubSourceKeyDigest msaListSize msaList restrictTicketSize restrictTicket sigTicketSize sigTicket encDataSize
     encData parentAuth randomSize random outDataSize outData = releasing env hContext parentAuth None
     (checked (verify hContext) Return
     (with_slot env hContext parentHandle (\<lambda>parentSlot.
      checked (opt_auth_check env hContext parentAuth) Return
      (transact env TPM_ORD_CMK_CreateBlob
        (\<lambda>m. [I parentSlot, I (ucast migrationType), I MigrationKeyAuthSize, P MigrationKeyAuth,
              P (Buf PubSourceKeyDigest), I msaListSize, P msaList, I restrictTicketSize, P restrictTicket,
              I sigTicketSize, P sigTicket, I encDataSize, P encData, auth_arg parentAuth m]) Done
        [O32 randomSize, OB random, O32 outDataSize, OB outData, OA parentAuth, OA None]))))"

definition TCSP_CMK_ConvertMigration_Internal ::
  "'t tcsd_env \<Rightarrow> u32 \<Rightarrow> u32 \<Rightarrow> u8 list \<Rightarrow> u8 list \<Rightarrow> u32 \<Rightarrow> ptr \<Rightarrow> u32 \<Rightarrow> ptr \<Rightarrow> u32 \<Rightarrow> ptr \<Rightarrow> nat option \<Rightarrow> nat option \<Rightarrow>
   nat option \<Rightarrow> 't command" where
  "TCSP_CMK_ConvertMigration_Internal env hContext parentHandle restrictTicket sigTicket keyDataSize prgbKeyData
     msaListSize msaList randomSize random parentAuth outDataSize outData = releasing env hContext parentAuth None
     (checked (verify hContext) Return
     (with_slot env hContext parentHandle (\<lambda>parentSlot.
      checked (opt_auth_check env hContext parentAuth) Return
      (transact env TPM_ORD_CMK_ConvertMigration
        (\<lambda>m. [I parentSlot, P (Buf restrictTicket), P (Buf sigTicket), I keyDataSize, P prgbKeyData,
              I msaListSize, P msaList, I randomSize, P random, auth_arg parentAuth m]) Done
        [O32 outDataSize, OB outData, OA parentAuth, OA None]))))"

section \<open>\<open>tcsi_delegate.c\<close>\<close>

definition TCSP_Delegate_CreateKeyDelegation_Internal ::
  "'t tcsd_env \<Rightarrow> u32 \<Rightarrow> u32 \<Rightarrow> u32 \<Rightarrow> ptr \<Rightarrow> ptr \<Rightarrow> nat option \<Rightarrow> nat option \<Rightarrow> nat option \<Rightarrow> 't command" where
  "TCSP_Delegate_CreateKeyDelegation_Internal env hContext hKey publicInfoSize publicInfo encDelAuth keyAuth
     blobSize blob = releasing env hContext keyAuth None
     (checked (verify hContext) Return
     (checked (opt_auth_check env hContext keyAuth) Return
     (with_key env hContext hKey Done (\<lambda>keySlot.
      transact env TPM_ORD_Delegate_CreateKeyDelegation
        (\<lambda>m. [I keySlot, I publicInfoSize, P publicInfo, P encDelAuth, auth_arg keyAuth m]) Done
        [O32 blobSize, OB blob, OA keyAuth, OA None]))))"

abbreviation (input) TSS_E_KEY_NOT_LOADED :: u32 where "TSS_E_KEY_NOT_LOADED \<equiv> 0x10E"

definition TCSP_DSAP_Internal ::
  "'t tcsd_env \<Rightarrow> u32 \<Rightarrow> u16 \<Rightarrow> u32 \<Rightarrow> ptr \<Rightarrow> u32 \<Rightarrow> ptr \<Rightarrow> nat \<Rightarrow> nat option \<Rightarrow> nat option \<Rightarrow> 't command" where
  "TCSP_DSAP_Internal env hContext entityType keyHandle nonceOddDSAP entityValueSize entityValue authHandle
     nonceEven nonceEvenDSAP = plain
     (checked (verify hContext) Return
     (with_key env hContext keyHandle (\<lambda>_. Return (TCSERR TSS_E_KEY_NOT_LOADED)) (\<lambda>tpmKeyHandle.
      checked (session_room env hContext) Done
      (request env TPM_ORD_DSAP
        (\<lambda>m. [I (ucast entityType), I tpmKeyHandle, P nonceOddDSAP, I entityValueSize, P entityValue]) Return
        (\<lambda>blob paramSize. checked (parse TPM_ORD_DSAP
           [O32 (Some authHandle), OD nonceEven, OD nonceEvenDSAP] blob paramSize) Done
           (\<lambda>st. let (result, am) = auth_mgr_add hContext (m_32 (d_mem st) authHandle) (d_am st)
                  in Some (Done result, st\<lparr>d_am := am\<rparr>)))))))"

section \<open>\<open>tcsi_migration.c\<close>\<close>

definition tcpa_scheme :: "bool \<Rightarrow> u16 \<Rightarrow> u16" where
  "tcpa_scheme cmk s = (if s = 0x20 then 1 else if s = 0x21 then 2 else if s = 0x22 then 3
     else if cmk \<and> s = 0x23 then 4 else if cmk \<and> s = 0x24 then 5 else s)"

definition TCSP_CreateMigrationBlob_Internal ::
  "'t tcsd_env \<Rightarrow> u32 \<Rightarrow> u32 \<Rightarrow> u16 \<Rightarrow> u32 \<Rightarrow> ptr \<Rightarrow> u32 \<Rightarrow> ptr \<Rightarrow> nat option \<Rightarrow> nat option \<Rightarrow> nat option \<Rightarrow> nat option \<Rightarrow>
   nat option \<Rightarrow> nat option \<Rightarrow> 't command" where
  "TCSP_CreateMigrationBlob_Internal env hContext parentHandle migrationType MigrationKeyAuthSize
     MigrationKeyAuth encDataSize encData parentAuth entityAuth randomSize random outDataSize outData =
     releasing env hContext entityAuth parentAuth
     (checked (verify hContext) Done
     (checked (opt_auth_check env hContext parentAuth) Done
     (checked (auth_check env hContext entityAuth) Done
     (with_key env hContext parentHandle Done (\<lambda>keyHandle.
      transact env TPM_ORD_CreateMigrationBlob
        (\<lambda>m. [I keyHandle, I (ucast (tcpa_scheme False migrationType)), I MigrationKeyAuthSize, P MigrationKeyAuth,
              I encDataSize, P encData, auth_arg parentAuth m, auth_arg entityAuth m]) Return
        [O32 randomSize, OB random, O32 outDataSize, OB outData, OA parentAuth, OA entityAuth])))))"

definition TCSP_ConvertMigrationBlob_Internal ::
  "'t tcsd_env \<Rightarrow> u32 \<Rightarrow> u32 \<Rightarrow> u32 \<Rightarrow> ptr \<Rightarrow> u32 \<Rightarrow> ptr \<Rightarrow> nat option \<Rightarrow> nat option \<Rightarrow> nat option \<Rightarrow> 't command" where
  "TCSP_ConvertMigrationBlob_Internal env hContext parentHandle inDataSize inData randomSize random parentAuth
     outDataSize outData = releasing env hContext parentAuth None
     (checked (verify hContext) Done
     (checked (opt_auth_check env hContext parentAuth) Done
     (with_key env hContext parentHandle Done (\<lambda>keySlot.
      transact env TPM_ORD_ConvertMigrationBlob
        (\<lambda>m. [I keySlot, I inDataSize, P inData, I randomSize, P random, auth_arg parentAuth m]) Return
        [O32 outDataSize, OB outData, OA parentAuth, OA None]))))"

definition TCSP_AuthorizeMigrationKey_Internal ::
  "'t tcsd_env \<Rightarrow> u32 \<Rightarrow> u16 \<Rightarrow> u32 \<Rightarrow> ptr \<Rightarrow> nat option \<Rightarrow> nat option \<Rightarrow> nat option \<Rightarrow> 't command" where
  "TCSP_AuthorizeMigrationKey_Internal env hContext migrateScheme MigrationKeySize MigrationKey ownerAuth
     MigrationKeyAuthSize MigrationKeyAuth = releasing env hContext ownerAuth None
     (checked (verify hContext) Done
     (checked (auth_check env hContext ownerAuth) Done
     (transact env TPM_ORD_AuthorizeMigrationKey
        (\<lambda>m. [I (ucast (tcpa_scheme True migrateScheme)), I MigrationKeySize, P MigrationKey,
              auth_arg ownerAuth m]) Return
        [O32 MigrationKeyAuthSize, OB MigrationKeyAuth, OA ownerAuth])))"

section \<open>\<open>tcsi_quote.c\<close>, \<open>tcsi_quote2.c\<close>, \<open>tcsi_seal.c\<close>\<close>

definition TCSP_Quote_Internal ::
  "'t tcsd_env \<Rightarrow> u32 \<Rightarrow> u32 \<Rightarrow> u8 list \<Rightarrow> u32 \<Rightarrow> ptr \<Rightarrow> nat option \<Rightarrow> nat option \<Rightarrow> nat option \<Rightarrow> nat option \<Rightarrow>
   nat option \<Rightarrow> 't command" where
  "TCSP_Quote_Internal env hContext keyHandle antiReplay pcrDataSizeIn pcrDataIn privAuth pcrDataSizeOut pcrDataOut
     sigSize sig = releasing env hContext privAuth None
     (checked (verify hContext) Done
     (checked (opt_auth_check env hContext privAuth) Done
     (with_key env hContext keyHandle Done (\<lambda>keySlot.
      transact env TPM_ORD_Quote
        (\<lambda>m. [I keySlot, P (Buf antiReplay), I pcrDataSizeIn, P pcrDataIn, auth_arg privAuth m]) Done
        [O32 pcrDataSizeOut, OB pcrDataOut, O32 sigSize, OB sig, OA privAuth]))))"

definition TCSP_Quote2_Internal ::
  "'t tcsd_env \<Rightarrow> u32 \<Rightarrow> u32 \<Rightarrow> u8 list \<Rightarrow> u32 \<Rightarrow> ptr \<Rightarrow> u8 \<Rightarrow> nat option \<Rightarrow> nat option \<Rightarrow> nat option \<Rightarrow> nat option \<Rightarrow>
   nat option \<Rightarrow> nat option \<Rightarrow> nat option \<Rightarrow> 't command" where
  "TCSP_Quote2_Internal env hContext keyHandle antiReplay pcrDataSizeIn pcrDataIn addVersion privAuth
     pcrDataSizeOut pcrDataOut versionInfoSize versionInfo sigSize sig = releasing env hContext privAuth None
     (checked (verify hContext) Done
     (checked (opt_auth_check env hContext privAuth) Done
     (with_key env hContext keyHandle Done (\<lambda>keySlot.
      transact env TPM_ORD_Quote2
        (\<lambda>m. [I keySlot, P (Buf antiReplay), I pcrDataSizeIn, P pcrDataIn, PB (Some addVersion),
              auth_arg privAuth m]) Done
        [O32 pcrDataSizeOut, OB pcrDataOut, OBl (Some 0), O32 versionInfoSize, OB versionInfo, O32 sigSize, OB sig,
         OA privAuth]))))"

definition TCSP_Seal_Internal ::
  "'t tcsd_env \<Rightarrow> u32 \<Rightarrow> u32 \<Rightarrow> u32 \<Rightarrow> u8 list \<Rightarrow> u32 \<Rightarrow> ptr \<Rightarrow> u32 \<Rightarrow> ptr \<Rightarrow> nat option \<Rightarrow> nat option \<Rightarrow> nat option \<Rightarrow> 't command" where
  "TCSP_Seal_Internal env sealOrdinal hContext keyHandle encAuth pcrInfoSize PcrInfo inDataSize inData pubAuth
     SealedDataSize SealedData st =
     (if pubAuth = None then Some (TCSERR TSS_E_BAD_PARAMETER, st)
      else releasing env hContext pubAuth None
        (checked (verify hContext) Done
        (checked (auth_check env hContext pubAuth) Done
        (with_key env hContext keyHandle Done (\<lambda>keySlot st.
           if keySlot = 0 then Some (Done (TCSERR TSS_E_FAIL), st)
           else transact env sealOrdinal
             (\<lambda>m. [I keySlot, P (Buf encAuth), I pcrInfoSize, P PcrInfo, I inDataSize, P inData,
                   auth_arg pubAuth m]) Return
             [O32 SealedDataSize, OB SealedData, OA pubAuth] st)))) st)"

definition TCSP_Unseal_Internal ::
  "'t tcsd_env \<Rightarrow> u32 \<Rightarrow> u32 \<Rightarrow> u32 \<Rightarrow> ptr \<Rightarrow> nat option \<Rightarrow> nat option \<Rightarrow> nat option \<Rightarrow> nat option \<Rightarrow> 't command" where
  "TCSP_Unseal_Internal env hContext parentHandle SealedDataSize SealedData parentAuth dataAuth DataSize Data st =
     (if dataAuth = None then Some (TCSERR TSS_E_BAD_PARAMETER, st)
      else releasing env hContext parentAuth dataAuth
        (checked (verify hContext) Done
        (checked (opt_auth_check env hContext parentAuth) Done
        (checked (auth_check env hContext dataAuth) Done
        (with_key env hContext parentHandle Done (\<lambda>keySlot st.
           if keySlot = 0 then Some (Done (TCSERR TSS_E_FAIL), st)
           else transact env TPM_ORD_Unseal
             (\<lambda>m. [I keySlot, I SealedDataSize, P SealedData, auth_arg parentAuth m, auth_arg dataAuth m]) Return
             [O32 DataSize, OB Data, OA parentAuth, OA dataAuth] st))))) st)"

section \<open>\<open>tcsi_selftest.c\<close>, \<open>tcsi_sign.c\<close>, \<open>tcsi_tick.c\<close>\<close>

definition TCSP_CertifySelfTest_Internal ::
  "'t tcsd_env \<Rightarrow> u32 \<Rightarrow> u32 \<Rightarrow> u8 list \<Rightarrow> nat option \<Rightarrow> nat option \<Rightarrow> nat option \<Rightarrow> 't command" where
  "TCSP_CertifySelfTest_Internal env hContext keyHandle antiReplay privAuth sigSize sig =
     releasing env hContext privAuth None
     (checked (verify hContext) Done
     (checked (opt_auth_check env hContext privAuth) Done
     (with_key env hContext keyHandle Done (\<lambda>keySlot.
      transact env TPM_ORD_CertifySelfTest
        (\<lambda>m. [I keySlot, I 32, P (Buf antiReplay), auth_arg privAuth m, A None]) Return
        [O32 sigSize, OB sig, OA privAuth, OA None]))))"

definition TCSP_Sign_Internal ::
  "'t tcsd_env \<Rightarrow> u32 \<Rightarrow> u32 \<Rightarrow> u32 \<Rightarrow> ptr \<Rightarrow> nat option \<Rightarrow> nat option \<Rightarrow> nat option \<Rightarrow> 't command" where
  "TCSP_Sign_Internal env hContext keyHandle areaToSignSize areaToSign privAuth sigSize sig =
     releasing env hContext privAuth None
     (checked (verify hContext) Return
     (checked (opt_auth_check env hContext privAuth) Done
     (with_key env hContext keyHandle Done (\<lambda>keySlot.
      transact env TPM_ORD_Sign (\<lambda>m. [I keySlot, I areaToSignSize, P areaToSign, auth_arg privAuth m]) Return
        [O32 sigSize, OB sig, OA privAuth, OA None]))))"

text \<open>This command never releases its session.\<close>

definition TCSP_TickStampBlob_Internal ::
  "'t tcsd_env \<Rightarrow> u32 \<Rightarrow> u32 \<Rightarrow> ptr \<Rightarrow> ptr \<Rightarrow> nat option \<Rightarrow> nat option \<Rightarrow> nat option \<Rightarrow> nat option \<Rightarrow> nat option \<Rightarrow> 't command" where
  "TCSP_TickStampBlob_Internal env hContext hKey antiReplay digestToStamp privAuth pulSignatureLength prgbSignature
     pulTickCountLength prgbTickCount = plain
     (checked (verify hContext) Return
     (checked (opt_auth_check env hContext privAuth) Done
     (with_key env hContext hKey Done (\<lambda>keySlot.
      transact env TPM_ORD_TickStampBlob
        (\<lambda>m. [I keySlot, P antiReplay, P digestToStamp, auth_arg privAuth m]) Return
        [O32 pulTickCountLength, OB prgbTickCount, O32 pulSignatureLength, OB prgbSignature, OA privAuth]))))"

end
