(* ===== verification/Tcsi_Transport.thy ===== *)
theory Tcsi_Transport
  imports Tcsi_Key_Commands
begin

text \<open>
  Transport sessions: the commands of \<open>tcs/tcsi_transport.c\<close>, which wrap another command, and the sessions
  opened for a client by the functions of \<open>tcs/tcs_auth_mgr.c\<close>, to their end after a wait for a slot.
\<close>

abbreviation (input) TPM_ORD_EstablishTransport :: u32 where "TPM_ORD_EstablishTransport \<equiv> 0x000000E6"
abbreviation (input) TPM_ORD_ReleaseTransportSigned :: u32 where "TPM_ORD_ReleaseTransportSigned \<equiv> 0x000000E8"

section \<open>Establishing a session\<close>

text \<open>A local slot: uninitialised, or that of the key.\<close>

definition transport_key :: "'t tcsd_env \<Rightarrow> u32 \<Rightarrow> u32 \<Rightarrow> (u32 \<Rightarrow> 't body) \<Rightarrow> 't body" where
  "transport_key env hContext hEncKey k =
     (if hEncKey \<noteq> TPM_KH_TRANSPORT then with_key env hContext hEncKey Return k else k (e_slot env))"

definition establish_request :: "u32 \<Rightarrow> u32 \<Rightarrow> ptr \<Rightarrow> u32 \<Rightarrow> ptr \<Rightarrow> TPM_AUTH option \<Rightarrow> u8 list \<Rightarrow> u8 list option" where
  "establish_request keySlot ulTransSessionInfoSize rgbTransSessionInfo ulSecretSize rgbSecret auth blob = do {
     w \<leftarrow> LoadBlob_UINT32 keySlot (10, Some blob) \<bind> LoadBlob ulTransSessionInfoSize rgbTransSessionInfo
       \<bind> LoadBlob_UINT32 ulSecretSize \<bind> LoadBlob ulSecretSize rgbSecret;
     w \<leftarrow> opt_auth TPM_ORD_EstablishTransport auth w;
     snd w }"

text \<open>\<open>*p = malloc(n)\<close> and \<open>n\<close> bytes of the response there; whether there was memory.\<close>

definition take_blob :: "nat \<Rightarrow> u32 \<Rightarrow> u64 \<Rightarrow> u8 list \<Rightarrow> rsp_mem \<Rightarrow> (bool \<times> u64 \<times> rsp_mem) option" where
  "take_blob l n off blob m =
     (let (ok, m) = malloc_to l (unat n) m
      in if \<not> ok then Some (False, off, m)
         else do { (off, m) \<leftarrow> copy_to l n off blob m; Some (True, off, m) })"

definition opt_unload_auth :: "nat option \<Rightarrow> u64 \<Rightarrow> u8 list \<Rightarrow> rsp_mem \<Rightarrow> (u64 \<times> rsp_mem) option" where
  "opt_unload_auth auth off blob m =
     (case auth of None \<Rightarrow> Some (off, m) | Some l \<Rightarrow> UnloadBlob_Auth l off blob m)"

definition establish_response ::
  "nat option \<Rightarrow> nat \<Rightarrow> nat \<Rightarrow> nat \<Rightarrow> nat \<Rightarrow> nat \<Rightarrow> u8 list \<Rightarrow> rsp_mem \<Rightarrow> (u32 \<times> rsp_mem) option" where
  "establish_response pEncKeyAuth pbLocality hTransSession ulCurrentTicks prgbCurrentTicks pTransNonce blob m = do {
     (off, m) \<leftarrow> get_32 hTransSession 10 blob m;
     (off, m) \<leftarrow> get_32 pbLocality off blob m;
     (ok, off, m) \<leftarrow> take_blob prgbCurrentTicks 44 off blob (set_32 ulCurrentTicks 44 m);
     if \<not> ok then Some (TCSERR TSS_E_OUTOFMEMORY, m)
     else do {
       (off, m) \<leftarrow> get_D pTransNonce 32 off blob m;
       (off, m) \<leftarrow> opt_unload_auth pEncKeyAuth off blob m;
       Some (TSS_SUCCESS, m) } }"

definition TCSP_EstablishTransport_Internal ::
  "'t tcsd_env \<Rightarrow> u32 \<Rightarrow> u32 \<Rightarrow> u32 \<Rightarrow> u32 \<Rightarrow> ptr \<Rightarrow> u32 \<Rightarrow> ptr \<Rightarrow> nat option \<Rightarrow> nat \<Rightarrow> nat \<Rightarrow> nat \<Rightarrow> nat \<Rightarrow> nat \<Rightarrow> 't command" where
  "TCSP_EstablishTransport_Internal env hContext ulTransControlFlags hEncKey ulTransSessionInfoSize
     rgbTransSessionInfo ulSecretSize rgbSecret pEncKeyAuth pbLocality hTransSession ulCurrentTicks
     prgbCurrentTicks pTransNonce = releasing env hContext pEncKeyAuth None
     (checked (verify hContext) Return
     (checked (\<lambda>st. if ulTransControlFlags = TRANSPORT_EXCLUSIVE
        then let (result, tcs) = ctx_req_exclusive_transport (e_exclusive env) hContext (d_tcs st)
          in Some (result, set_tcs tcs st)
        else Some (TSS_SUCCESS, st)) Return
     (checked (opt_auth_check env hContext pEncKeyAuth) Return
     (transport_key env hContext hEncKey (\<lambda>keySlot st. do {
        blob \<leftarrow> establish_request keySlot ulTransSessionInfoSize rgbTransSessionInfo ulSecretSize rgbSecret
          (map_option (m_A (d_mem st)) pEncKeyAuth) (txBlob env st);
        ((result, blob, paramSize), st) \<leftarrow> submit env blob st;
        if result \<noteq> 0 then Some (Done result, st)
        else do {
          (result, m) \<leftarrow> establish_response pEncKeyAuth pbLocality hTransSession ulCurrentTicks prgbCurrentTicks
            pTransNonce blob (d_mem st);
          let st = st\<lparr>d_mem := m\<rparr>;
          if result \<noteq> 0 then Some (Done result, st)
          else Some (Done TSS_SUCCESS,
            set_tcs (snd (ctx_set_transport_enabled hContext (m_32 m hTransSession) (d_tcs st))) st) } })))))"

section \<open>Wrapped commands\<close>

text \<open>What the wrapped command needs before it is built: the values of the up to two handles in the device.  The
  handles are at \<open>h\<close> and \<open>Suc h\<close>; \<open>None\<close> is a NULL list.  A value of type \<open>handles\<close> holds \<open>handle1\<close>, and
  \<open>val1\<close> and \<open>val2\<close> where the pointers to them are set.\<close>

type_synonym handles = "u32 \<times> u32 option \<times> u32 option"

definition set_handle_32 :: "nat \<Rightarrow> u32 \<Rightarrow> 't tcsd \<Rightarrow> 't tcsd" where
  "set_handle_32 l x st = st\<lparr>d_mem := set_32 l x (d_mem st)\<rparr>"

text \<open>\<open>TPM_ORD_Terminate_Handle\<close>, and \<open>TPM_ORD_FlushSpecific\<close> of something that is no key.\<close>

definition terminate_wrapped ::
  "'t tcsd_env \<Rightarrow> u32 \<Rightarrow> nat option \<Rightarrow> (handles \<Rightarrow> 't body) \<Rightarrow> 't body" where
  "terminate_wrapped env hContext rghHandles k st = do {
     l \<leftarrow> rghHandles;
     ((result, h), st) \<leftarrow> check_handle env hContext (m_32 (d_mem st) l) st;
     let st = set_handle_32 l h st;
     st \<leftarrow> (if result = 0 then release_handle env h hContext False st else Some st);
     k (h, Some h, None) st }"

definition map_key_handles ::
  "u32 \<Rightarrow> nat \<Rightarrow> nat option \<Rightarrow> (handles \<Rightarrow> 't body) \<Rightarrow> 't body" where
  "map_key_handles hContext pulHandleListSize rghHandles k st = do {
     let n = m_32 (d_mem st) pulHandleListSize;
     (result, val2) \<leftarrow> (if n = 2 then do {
        l \<leftarrow> rghHandles;
        let (result, slot) = get_slot_lite hContext (m_32 (d_mem st) (Suc l)) (d_tcs st);
        Some (result, Some slot) }
      else Some (TSS_SUCCESS, None));
     if result \<noteq> 0 then Some (Done result, set_handle_32 pulHandleListSize 0 st)
     else if 1 \<le> n then do {
       l \<leftarrow> rghHandles;
       let handle1 = m_32 (d_mem st) l;
       let st = set_handle_32 pulHandleListSize 0 st;
       let (result, slot) = get_slot_lite hContext handle1 (d_tcs st);
       if result \<noteq> 0 then Some (Done result, st) else k (handle1, Some slot, val2) st }
     else k (0, None, val2) st }"

text \<open>The work on the cache and the session manager for commands on keys and sessions, after the handles.  The
  parameters of \<open>TPM_ORD_OSAP\<close> and \<open>TPM_ORD_DSAP\<close> get the slot in place of the handle.\<close>

definition forget_key :: "u32 \<Rightarrow> u32 \<Rightarrow> 't body \<Rightarrow> 't body" where
  "forget_key hContext handle1 k st =
     (let (result, tcs) = ctx_remove_key_loaded hContext handle1 (d_tcs st)
      in if result \<noteq> 0 then Some (Done result, set_tcs tcs st)
         else let (result, tcs) = key_mgr_dec_ref_count handle1 tcs
           in if result \<noteq> 0 then Some (Done result, set_tcs tcs st)
              else k (set_tcs (snd (mc_set_slot_by_handle handle1 NULL_HANDLE tcs)) st))"

definition patch_entity :: "nat \<Rightarrow> u32 \<Rightarrow> 't tcsd \<Rightarrow> 't tcsd option" where
  "patch_entity l v st = do {
     bs \<leftarrow> bytes_of (m_B (d_mem st) l);
     bs \<leftarrow> wr bs 2 (be32 v);
     Some (st\<lparr>d_mem := (d_mem st)\<lparr>m_B := (m_B (d_mem st))(l := Buf bs)\<rparr>\<rparr>) }"

definition wrapped_entity ::
  "'t tcsd_env \<Rightarrow> u32 \<Rightarrow> nat \<Rightarrow> (u16 \<Rightarrow> bool) \<Rightarrow> exit \<Rightarrow> 't body \<Rightarrow> 't body" where
  "wrapped_entity env hContext rgbWrappedCmdParamIn is_key failed k st = do {
     bs \<leftarrow> bytes_of (m_B (d_mem st) rgbWrappedCmdParamIn);
     (entityType, off) \<leftarrow> UnloadBlob_UINT16 0 bs;
     (entityValue, off) \<leftarrow> UnloadBlob_UINT32 off bs;
     if is_key entityType then
       with_key env hContext entityValue (\<lambda>_. failed) (\<lambda>slot st. do {
         st \<leftarrow> patch_entity rgbWrappedCmdParamIn slot st; k st }) st
     else k st }"

definition prepare_wrapped :: "'t tcsd_env \<Rightarrow> u32 \<Rightarrow> u32 \<Rightarrow> nat \<Rightarrow> u32 \<Rightarrow> 't body \<Rightarrow> 't body" where
  "prepare_wrapped env hContext ord rgbWrappedCmdParamIn handle1 k =
     (if ord = TPM_ORD_EvictKey \<or> ord = TPM_ORD_FlushSpecific then forget_key hContext handle1 k
      else if ord = TPM_ORD_OIAP then checked (session_room env hContext) Done k
      else if ord = TPM_ORD_OSAP then
        checked (session_room env hContext) Done
          (wrapped_entity env hContext rgbWrappedCmdParamIn (\<lambda>t. t = TCPA_ET_KEYHANDLE \<or> t = TCPA_ET_KEY)
             (Return (TCSERR TSS_E_KEY_NOT_LOADED)) k)
      else if ord = TPM_ORD_DSAP then
        checked (session_room env hContext) Done
          (wrapped_entity env hContext rgbWrappedCmdParamIn (\<lambda>t. True) (Done (TCSERR TSS_E_KEY_NOT_LOADED)) k)
      else k)"

text \<open>The wrapped command goes to offset 14; its size, the authorization of the session and the header around it.\<close>

definition wrap_request :: "u32 \<Rightarrow> va list \<Rightarrow> TPM_AUTH option \<Rightarrow> u8 list \<Rightarrow> (u32 \<times> u8 list) option" where
  "wrap_request ord args pTransAuth blob = do {
     (result, w, ap) \<leftarrow> tpm_rqu_build TPM_ORD_ExecuteTransport args (0, Some (drop 14 blob));
     wrapped \<leftarrow> snd w;
     if result \<noteq> 0 then Some (result, blob)
     else do {
       w' \<leftarrow> LoadBlob_UINT32 (ucast (fst w)) (10, Some (take 14 blob @ wrapped));
       w' \<leftarrow> opt_auth TPM_ORD_ExecuteTransport pTransAuth (fst w' + fst w, snd w');
       blob \<leftarrow> snd w';
       Some (TSS_SUCCESS, blob) } }"

text \<open>A \<open>TPM_ORD_ExecuteTransport\<close> response whose first handle goes to a local variable: a place behind
  \<open>ulWrappedCmdParamOutSize\<close>, which gets its old content back.\<close>

definition parse_wrapped ::
  "bool \<Rightarrow> u32 \<Rightarrow> nat \<Rightarrow> nat \<Rightarrow> nat option \<Rightarrow> nat option \<Rightarrow> u8 list \<Rightarrow> u32 \<Rightarrow> 't tcsd \<Rightarrow> ((u32 \<times> u32) \<times> 't tcsd) option" where
  "parse_wrapped handle val1 outSize out auth1 auth2 blob paramSize st =
     (let l = Suc outSize; m = d_mem st
      in do {
        (result, m') \<leftarrow> tpm_rsp_parse TPM_ORD_ExecuteTransport
          [O32 (if handle then Some l else None), O32 None, O32 (Some outSize), OB (Some out), OA auth1, OA auth2]
          blob paramSize (set_32 l val1 m);
        Some ((result, m_32 m' l), st\<lparr>d_mem := set_32 l (m_32 m l) m'\<rparr>) })"

text \<open>After the response the result of taking it apart is overwritten, for a loaded key and for a session.\<close>

definition finish_wrapped ::
  "'t tcsd_env \<Rightarrow> u32 \<Rightarrow> u32 \<Rightarrow> u32 \<Rightarrow> u32 \<Rightarrow> nat \<Rightarrow> nat option \<Rightarrow> nat \<Rightarrow> u32 \<Rightarrow> 't body" where
  "finish_wrapped env hContext ord handle1 val1 pulHandleListSize rghHandles out result st =
     (if ord = TPM_ORD_LoadKey2 then do {
        ((result, tcs_handle), tcs) \<leftarrow> load_key_final env hContext handle1 NULL_HANDLE None val1 (d_tcs st);
        let st = set_tcs tcs st;
        if result \<noteq> 0 then Some (Done result, st)
        else do {
          l \<leftarrow> rghHandles;
          Some (Done TSS_SUCCESS, set_handle_32 pulHandleListSize 1 (set_handle_32 l tcs_handle st)) } }
      else if ord = TPM_ORD_DSAP \<or> ord = TPM_ORD_OSAP \<or> ord = TPM_ORD_OIAP then do {
        bs \<leftarrow> bytes_of (m_B (d_mem st) out);
        (handle, off) \<leftarrow> UnloadBlob_UINT32 0 bs;
        let (result, am) = auth_mgr_add hContext handle (d_am st);
        Some (Done result, st\<lparr>d_am := am\<rparr>) }
      else Some (Done result, st))"

definition wrapped_response ::
  "'t tcsd_env \<Rightarrow> u32 \<Rightarrow> u32 \<Rightarrow> handles \<Rightarrow> nat \<Rightarrow> nat option \<Rightarrow> nat option \<Rightarrow> nat option \<Rightarrow> nat option \<Rightarrow> nat \<Rightarrow> nat \<Rightarrow> nat \<Rightarrow>
   nat \<Rightarrow> nat \<Rightarrow> u8 list \<Rightarrow> 't body" where
  "wrapped_response env hContext ord hs pulHandleListSize rghHandles auth1 auth2 pTransAuth punCurrentTicks
     pbLocality pulWrappedCmdReturnCode outSize out blob st = do {
     (ticks, off) \<leftarrow> UnloadBlob 10 8 blob;
     let m = d_mem st; let m = m\<lparr>m_D := (m_D m)(punCurrentTicks := ticks)\<rparr>;
     (off, m) \<leftarrow> get_32 pbLocality off blob m;
     (wrappedSize, wrappedOffset) \<leftarrow> UnloadBlob_UINT32 off blob;
     (off, m) \<leftarrow> opt_unload_auth pTransAuth (wrappedOffset + ucast wrappedSize) blob m;
     let wrapped = drop (unat wrappedOffset) blob;
     (result, paramSize) \<leftarrow> UnloadBlob_Header wrapped;
     let m = set_32 pulWrappedCmdReturnCode result m;
     if result \<noteq> 0 then
       let m = set_32 outSize 0 m
       in Some (Done TSS_SUCCESS, st\<lparr>d_mem := m\<lparr>m_B := (m_B m)(out := NULL)\<rparr>\<rparr>)
     else do {
       let (handle1, val1, val2) = hs;
       ((result, val1), st) \<leftarrow> parse_wrapped (ord = TPM_ORD_LoadKey2) (case val1 of None \<Rightarrow> 0 | Some v \<Rightarrow> v)
         outSize out auth1 auth2 wrapped paramSize (st\<lparr>d_mem := m\<rparr>);
       finish_wrapped env hContext ord handle1 val1 pulHandleListSize rghHandles out result st } }"

definition build_command ::
  "'t tcsd_env \<Rightarrow> u32 \<Rightarrow> u32 \<Rightarrow> u32 \<Rightarrow> nat \<Rightarrow> nat \<Rightarrow> nat option \<Rightarrow> nat option \<Rightarrow> nat option \<Rightarrow> nat option \<Rightarrow> nat \<Rightarrow> nat \<Rightarrow>
   nat \<Rightarrow> nat \<Rightarrow> nat \<Rightarrow> handles \<Rightarrow> 't body" where
  "build_command env hContext ord ulWrappedCmdParamInSize rgbWrappedCmdParamIn pulHandleListSize rghHandles
     auth1 auth2 pTransAuth punCurrentTicks pbLocality pulWrappedCmdReturnCode outSize out hs st = do {
     let m = d_mem st;
     (result, blob) \<leftarrow> wrap_request ord
       [I ord, P32 (fst (snd hs)), P32 (snd (snd hs)), I ulWrappedCmdParamInSize, P (m_B m rgbWrappedCmdParamIn),
        auth_arg auth1 m, auth_arg auth2 m] (map_option (m_A m) pTransAuth) (txBlob env st);
     if result \<noteq> 0 then Some (Done result, st)
     else do {
       ((result, blob, paramSize), st) \<leftarrow> submit env blob st;
       if result \<noteq> 0 then Some (Done result, st)
       else wrapped_response env hContext ord hs pulHandleListSize rghHandles auth1 auth2 pTransAuth punCurrentTicks
         pbLocality pulWrappedCmdReturnCode outSize out blob st } }"

text \<open>Before a key or a session is flushed, a transport session with that handle is forgotten.\<close>

definition TCSP_ExecuteTransport_Internal ::
  "'t tcsd_env \<Rightarrow> u32 \<Rightarrow> u32 \<Rightarrow> u32 \<Rightarrow> nat \<Rightarrow> nat \<Rightarrow> nat option \<Rightarrow> nat option \<Rightarrow> nat option \<Rightarrow> nat option \<Rightarrow> nat \<Rightarrow> nat \<Rightarrow>
   nat \<Rightarrow> nat \<Rightarrow> nat \<Rightarrow> 't command" where
  "TCSP_ExecuteTransport_Internal env hContext ord ulWrappedCmdParamInSize rgbWrappedCmdParamIn pulHandleListSize
     rghHandles pWrappedCmdAuth1 pWrappedCmdAuth2 pTransAuth punCurrentTicks pbLocality pulWrappedCmdReturnCode
     ulWrappedCmdParamOutSize rgbWrappedCmdParamOut st =
     (let build = build_command env hContext ord ulWrappedCmdParamInSize rgbWrappedCmdParamIn pulHandleListSize
            rghHandles pWrappedCmdAuth1 pWrappedCmdAuth2 pTransAuth punCurrentTicks pbLocality
            pulWrappedCmdReturnCode ulWrappedCmdParamOutSize rgbWrappedCmdParamOut;
          keyed = map_key_handles hContext pulHandleListSize rghHandles (\<lambda>hs.
            prepare_wrapped env hContext ord rgbWrappedCmdParamIn (fst hs) (build hs));
          terminated = terminate_wrapped env hContext rghHandles build
      in if 2 < m_32 (d_mem st) pulHandleListSize then Some (TCSERR TSS_E_INTERNAL_ERROR, st)
         else releasing env hContext pWrappedCmdAuth1 pWrappedCmdAuth2
           (checked (verify hContext) Return
           (checked (opt_auth_check env hContext pWrappedCmdAuth1) Done
           (checked (opt_auth_check env hContext pWrappedCmdAuth2) Done (\<lambda>st.
              if ord = TPM_ORD_FlushSpecific then
                if m_32 (d_mem st) pulHandleListSize = 0 then Some (Done (TCSERR TSS_E_BAD_PARAMETER), st)
                else
                  let st = set_tcs (snd (ctx_set_transport_disabled hContext
                    (map_option (m_32 (d_mem st)) rghHandles) (d_tcs st))) st
                  in do {
                    l \<leftarrow> rghHandles;
                    if ctx_has_key_loaded hContext (m_32 (d_mem st) l) (d_tcs st) then keyed st else terminated st }
              else if ord = TPM_ORD_Terminate_Handle then terminated st
              else keyed st)))) st)"

section \<open>Releasing a session\<close>

definition release_request :: "u32 \<Rightarrow> ptr \<Rightarrow> TPM_AUTH option \<Rightarrow> TPM_AUTH option \<Rightarrow> u8 list \<Rightarrow> u8 list option" where
  "release_request keySlot AntiReplayNonce key_auth trans_auth blob = do {
     w \<leftarrow> LoadBlob_UINT32 keySlot (10, Some blob) \<bind> LoadBlob 32 AntiReplayNonce;
     w \<leftarrow> opt_and_auth TPM_ORD_ReleaseTransportSigned key_auth trans_auth w;
     snd w }"

definition release_response ::
  "nat option \<Rightarrow> nat option \<Rightarrow> nat \<Rightarrow> nat \<Rightarrow> nat \<Rightarrow> nat \<Rightarrow> nat \<Rightarrow> u8 list \<Rightarrow> 't tcsd \<Rightarrow> (u32 \<times> 't tcsd) option" where
  "release_response pKeyAuth pTransAuth pbLocality pulCurrentTicksSize prgbCurrentTicks pulSignatureSize
     prgbSignature blob st = do {
     (off, m) \<leftarrow> get_32 pbLocality 10 blob (d_mem st);
     (ok, off, m) \<leftarrow> take_blob prgbCurrentTicks 44 off blob (set_32 pulCurrentTicksSize 44 m);
     if \<not> ok then Some (TCSERR TSS_E_OUTOFMEMORY, st\<lparr>d_mem := m\<rparr>)
     else do {
       (off, m) \<leftarrow> get_32 pulSignatureSize off blob m;
       (ok, off, m) \<leftarrow> take_blob prgbSignature (m_32 m pulSignatureSize) off blob m;
       if \<not> ok then do {
         st \<leftarrow> free_ptr prgbCurrentTicks (st\<lparr>d_mem := m\<rparr>);
         Some (TCSERR TSS_E_OUTOFMEMORY, st) }
       else do {
         (off, m) \<leftarrow> opt_unload_auth pKeyAuth off blob m;
         l \<leftarrow> pTransAuth;
         (off, m) \<leftarrow> UnloadBlob_Auth l off blob m;
         Some (TSS_SUCCESS, st\<lparr>d_mem := m\<rparr>) } } }"

text \<open>Only the authorization of the key is released, not that of the session.\<close>

definition TCSP_ReleaseTransportSigned_Internal ::
  "'t tcsd_env \<Rightarrow> u32 \<Rightarrow> u32 \<Rightarrow> ptr \<Rightarrow> nat option \<Rightarrow> nat option \<Rightarrow> nat \<Rightarrow> nat \<Rightarrow> nat \<Rightarrow> nat \<Rightarrow> nat \<Rightarrow> 't command" where
  "TCSP_ReleaseTransportSigned_Internal env hContext hSignatureKey AntiReplayNonce pKeyAuth pTransAuth pbLocality
     pulCurrentTicksSize prgbCurrentTicks pulSignatureSize prgbSignature = releasing env hContext pKeyAuth None
     (checked (verify hContext) Return
     (checked (opt_auth_check env hContext pKeyAuth) Return
     (with_key env hContext hSignatureKey Return (\<lambda>keySlot st. do {
        blob \<leftarrow> release_request keySlot AntiReplayNonce (map_option (m_A (d_mem st)) pKeyAuth)
          (map_option (m_A (d_mem st)) pTransAuth) (txBlob env st);
        ((result, blob, paramSize), st) \<leftarrow> submit env blob st;
        if result \<noteq> 0 then Some (Done result, st)
        else do {
          (result, st) \<leftarrow> release_response pKeyAuth pTransAuth pbLocality pulCurrentTicksSize prgbCurrentTicks
            pulSignatureSize prgbSignature blob
            (set_tcs (snd (ctx_set_transport_disabled hContext None (d_tcs st))) st);
          Some (Done result, st) } }))))"

section \<open>Sessions for a client\<close>

text \<open>The functions of the session manager to their end: after a wait the session is opened without
  asking for room again.\<close>

definition waited ::
  "'t tcsd_env \<Rightarrow> (tcs_state \<Rightarrow> 't auth_mgr \<Rightarrow> ('r outcome \<times> 't auth_mgr) option) \<Rightarrow>
   (tcs_state \<Rightarrow> 't auth_mgr \<Rightarrow> ('r \<times> 't auth_mgr) option) \<Rightarrow> 't tcsd \<Rightarrow> ('r \<times> 't tcsd) option" where
  "waited env f g st = do {
     (w, am) \<leftarrow> f (d_tcs st) (d_am st);
     case w of Finished r \<Rightarrow> Some (r, st\<lparr>d_am := am\<rparr>)
     | Waiting c \<Rightarrow> do {
         (tcs, am) \<leftarrow> e_others env c (d_tcs st, am);
         (r, am) \<leftarrow> g tcs (woken am);
         Some (r, st\<lparr>d_tcs := tcs, d_am := am\<rparr>) } }"

definition oiap_session :: "'t tcsd_env \<Rightarrow> u32 \<Rightarrow> 't tcsd \<Rightarrow> ((u32 + u32 \<times> u8 list) \<times> 't tcsd) option" where
  "oiap_session env hContext = waited env
     (\<lambda>tcs. auth_mgr_oiap (e_dv env) (e_cfg env) tcs hContext)
     (\<lambda>tcs. open_session (TCSP_OIAP_Internal (e_dv env) (ctx_verify_context hContext tcs)) hContext)"

text \<open>The slot of the key that a session is for; another entity is taken as it is.\<close>

definition entity_value :: "'t tcsd_env \<Rightarrow> u32 \<Rightarrow> u16 \<Rightarrow> u32 \<Rightarrow> 't tcsd \<Rightarrow> (u32 option \<times> 't tcsd) option" where
  "entity_value env hContext entityType entityValue st =
     (if entityType = TCPA_ET_KEYHANDLE \<or> entityType = TCPA_ET_KEY then do {
        ((result, slot), st) \<leftarrow> ensureKeyIsLoaded env hContext entityValue st;
        Some (if result \<noteq> 0 then None else Some slot, st) }
      else Some (None, st))"

definition osap_session ::
  "'t tcsd_env \<Rightarrow> u32 \<Rightarrow> u16 \<Rightarrow> u32 \<Rightarrow> u8 list \<Rightarrow> 't tcsd \<Rightarrow>
   ((u32 + u32 \<times> u8 list \<times> u8 list) \<times> 't tcsd) option" where
  "osap_session env hContext entityType entityValue nonceOddOSAP st = do {
     (slot, st) \<leftarrow> entity_value env hContext entityType entityValue st;
     let v = (case slot of None \<Rightarrow> entityValue | Some v \<Rightarrow> v);
     waited env
       (\<lambda>tcs. auth_mgr_osap (e_dv env) (e_cfg env) tcs slot hContext entityType entityValue nonceOddOSAP)
       (\<lambda>tcs. open_session (TCSP_OSAP_Internal (e_dv env) (ctx_verify_context hContext tcs) entityType v nonceOddOSAP)
          hContext) st }"

definition APCreate_session ::
  "'t tcsd_env \<Rightarrow> u32 \<Rightarrow> u16 \<Rightarrow> u32 \<Rightarrow> u8 list \<Rightarrow> u8 list \<Rightarrow> 't tcsd \<Rightarrow>
   ((u32 + u32 \<times> u8 list \<times> u32 \<times> u8 list) \<times> 't tcsd) option" where
  "APCreate_session env hContext entityType entityValue callerNonce inMac st = do {
     (slot, st) \<leftarrow> entity_value env hContext entityType entityValue st;
     waited env
       (\<lambda>tcs. auth_mgr_APCreate (e_dv env) (e_cfg env) tcs slot hContext entityType entityValue callerNonce inMac)
       (\<lambda>tcs. open_session (TCSP_APCreate_Internal (e_dv env) (ctx_verify_context hContext tcs) entityType entityValue
          callerNonce inMac) hContext) st }"

definition terminate_session :: "'t tcsd_env \<Rightarrow> u32 \<Rightarrow> u32 \<Rightarrow> 't command" where
  "terminate_session env hContext handle = plain
     (checked (verify hContext) Return (\<lambda>st. do {
        ((result, h), st) \<leftarrow> check_handle env hContext handle st;
        if result \<noteq> 0 then Some (Return result, st)
        else do {
          (result, am) \<leftarrow> auth_mgr_release_auth_handle (e_dv env) h hContext True (d_am st);
          Some (Return result, st\<lparr>d_am := am\<rparr>) } }))"

end
