(* ===== verification/Tcsi_Session.thy ===== *)
theory Tcsi_Session
  imports Tcsi_Transport
begin

text \<open>
  What every command of the daemon keeps.  A command is a chain of steps that use the session manager, so
  an invariant of the session manager that these steps keep (the locale \<open>session_invariant\<close>) is kept by
  all commands (\<open>tcs_call\<close>).  Interpretations: the count of open sessions, and the length of the table.
  The second part is about releasing: a command that leaves by \<open>done\<close> on every path has closed its sessions.
\<close>

section \<open>What a step keeps\<close>

definition am_keeps :: "('t auth_mgr \<Rightarrow> bool) \<Rightarrow> ('t tcsd \<Rightarrow> ('a \<times> 't tcsd) option) \<Rightarrow> bool" where
  "am_keeps J f \<longleftrightarrow> (\<forall>st x st'. f st = Some (x, st') \<longrightarrow> J (d_am st) \<longrightarrow> J (d_am st'))"

named_theorems keeps \<open>steps of commands that keep an invariant of the session manager\<close>
named_theorems am_simps \<open>updates outside the session manager\<close>

lemma keepsI: "(\<And>st x st'. f st = Some (x, st') \<Longrightarrow> J (d_am st) \<Longrightarrow> J (d_am st')) \<Longrightarrow> am_keeps J f"
  by (simp add: am_keeps_def)

lemma keepsD: "f st = Some (x, st') \<Longrightarrow> am_keeps J f \<Longrightarrow> J (d_am st) \<Longrightarrow> J (d_am st')"
  by (auto simp: am_keeps_def)

lemma am_set [am_simps, simp]:
  "d_am (set_tcs tcs st) = d_am st" "d_am (free_resp st) = d_am st" "d_am (set_handle_32 l x st) = d_am st"
  "d_am (set_auth_handle n h st) = d_am st" "d_am (set_dev d st) = (d_am st)\<lparr>dev := d\<rparr>"
  by (simp_all add: set_tcs_def free_resp_def set_handle_32_def set_auth_handle_def set_dev_def)

lemma am_get_credential [am_simps, simp]: "d_am (get_credential env t sz cred st) = d_am st"
  by (simp add: get_credential_def Let_def split: option.split prod.split)

lemma am_free_ptr: "free_ptr l st = Some st' \<Longrightarrow> d_am st' = d_am st"
  by (auto simp: free_ptr_def split: ptr.splits)

lemma keeps_checked [keeps]:
  assumes "am_keeps J f" "am_keeps J k"
  shows "am_keeps J (checked f out k)"
  by (rule keepsI) (auto simp: checked_def split: bind_splits if_splits dest!: keepsD [OF _ assms(1)] keepsD [OF _ assms(2)])

lemma keeps_plain [keeps]: "am_keeps J body \<Longrightarrow> am_keeps J (plain body)"
  by (rule keepsI) (auto simp: plain_def split: bind_splits dest!: keepsD)

lemma keeps_verify [keeps]: "am_keeps J (verify h)"
  by (rule keepsI) (simp add: verify_def)

lemma keeps_exits [keeps]: "am_keeps J (exits x)"
  by (rule keepsI) (simp add: exits_def)

lemma keeps_parse [keeps]: "am_keeps J (parse ord outs blob n)"
  by (rule keepsI) (auto simp: parse_def split: bind_splits)

lemma keeps_stay: "am_keeps J (\<lambda>st. Some (x st, st))" "am_keeps J (\<lambda>st. Some (x st, set_tcs (t st) st))"
  by (rule keepsI, simp)+

text \<open>What says nothing of the device is kept by sending a request and taking the response apart.\<close>

locale device_invariant =
  fixes J :: "'t auth_mgr \<Rightarrow> bool"
  assumes device: "J am \<Longrightarrow> J (am\<lparr>dev := d\<rparr>)"
begin

lemma keeps_submit [keeps]: "am_keeps J (submit env blob)"
  by (rule keepsI) (auto simp: submit_def Let_def split: bind_splits if_splits intro!: device)

lemma keeps_request [keeps]:
  assumes "\<And>blob n. am_keeps J (k blob n)"
  shows "am_keeps J (request env ord args bad k)"
  by (rule keepsI) (auto simp: request_def split: bind_splits if_splits dest!: keepsD [OF _ keeps_submit] dest!: keepsD [OF _ assms])

lemma keeps_transact [keeps]:
  "am_keeps J (transact env ord args bad outs)" "am_keeps J (transact_plain env ord args bad)"
proof -
  have "am_keeps J (\<lambda>st. do { (result, st) \<leftarrow> parse ord outs blob n st; Some (Done result, st) })" for blob n
    by (rule keepsI) (auto split: bind_splits dest!: keepsD [OF _ keeps_parse])
  then show "am_keeps J (transact env ord args bad outs)" unfolding transact_def by (intro keeps_request)
  show "am_keeps J (transact_plain env ord args bad)" unfolding transact_plain_def by (intro keeps)
qed

end

text \<open>What an invariant of the session manager has to be kept by.\<close>

locale session_invariant = device_invariant J for J :: "'t auth_mgr \<Rightarrow> bool" +
  fixes env :: "'t tcsd_env"
  assumes check: "auth_mgr_check (e_dv env) (e_cfg env) tcs c h am = Some (x, am') \<Longrightarrow> J am \<Longrightarrow> J am'"
    and retry: "check_retry (e_dv env) i h am = Some (y, am') \<Longrightarrow> i < length (auth_mapper am) \<Longrightarrow> J am \<Longrightarrow> J am'"
    and swap_out: "auth_mgr_swap_out (e_dv env) (e_cfg env) tcs c am = Some (w, am') \<Longrightarrow> J am \<Longrightarrow> J am'"
    and wake: "J am \<Longrightarrow> J (woken am)"
    and enter: "auth_mgr_add c h am = (r, am') \<Longrightarrow> J am \<Longrightarrow> J am'"
    and release: "auth_mgr_release_auth_handle (e_dv env) h c cont am = Some (r, am') \<Longrightarrow> J am \<Longrightarrow> J am'"
    and close: "auth_mgr_close_context (e_dv env) c am = Some (r, am') \<Longrightarrow> J am \<Longrightarrow> J am'"
    and others: "e_others env c (tcs, am) = Some (tcs', am') \<Longrightarrow> J am \<Longrightarrow> J am'"
    and stored: "e_ps_load env c pub st = Some (z, st') \<Longrightarrow> J (d_am st) \<Longrightarrow> J (d_am st')"
    and removed: "e_ps_remove env uuid st = (r, st') \<Longrightarrow> J (d_am st) \<Longrightarrow> J (d_am st')"
    and written: "e_ps_write env uuid parent bs st = (r, st') \<Longrightarrow> J (d_am st) \<Longrightarrow> J (d_am st')"
begin

lemma keeps_check_handle [keeps]: "am_keeps J (check_handle env c h)"
proof (rule keepsI)
  fix st x st'
  assume f: "check_handle env c h st = Some (x, st')" and J: "J (d_am st)"
  then obtain w am where w: "auth_mgr_check (e_dv env) (e_cfg env) (d_tcs st) c h (d_am st) = Some (w, am)"
    by (auto simp: check_handle_def split: bind_splits)
  have am: "J am" using check [OF w J] .
  show "J (d_am st')"
  proof (cases w)
    case (Waiting cv)
    obtain i tcs am2 y am3 where o: "e_others env cv (d_tcs st, am) = Some (tcs, am2)"
      "i < length (auth_mapper am2)" "check_retry (e_dv env) i h (woken am2) = Some (y, am3)" "d_am st' = am3"
      using f w unfolding Waiting by (auto simp: check_handle_def not_le split: bind_splits if_splits)
    have "J (woken am2)" using wake [OF others [OF o(1) am]] .
    then show ?thesis using retry [OF o(3)] o(2,4) by (simp add: woken_def)
  qed (use f w am in \<open>auto simp: check_handle_def\<close>)
qed

lemma keeps_auth_check [keeps]:
  "am_keeps J (auth_check env c a)" "am_keeps J (opt_auth_check env c a)" "am_keeps J (session_check env c a)"
proof -
  show "am_keeps J (auth_check env c a)"
    by (rule keepsI) (auto simp: auth_check_def split: bind_splits dest!: keepsD [OF _ keeps_check_handle])
  then show "am_keeps J (opt_auth_check env c a)"
    by (intro keepsI) (auto simp: opt_auth_check_def split: if_splits dest!: keepsD)
  show "am_keeps J (session_check env c a)"
    by (rule keepsI) (auto simp: session_check_def split: bind_splits dest!: keepsD [OF _ keeps_check_handle])
qed

lemma keeps_room [keeps]: "am_keeps J (session_room env c)"
  by (rule keepsI) (auto simp: session_room_def split: if_splits bind_splits outcome.splits
      dest!: swap_out others intro!: wake)

lemma keeps_release_auth: "release_auth env c a0 a1 st = Some st' \<Longrightarrow> J (d_am st) \<Longrightarrow> J (d_am st')"
  by (auto simp: release_auth_def auth_mgr_release_auth_def split: bind_splits option.splits dest!: release)

lemma keeps_releasing [keeps]:
  assumes "am_keeps J body"
  shows "am_keeps J (releasing env c a0 a1 body)"
  by (rule keepsI) (auto simp: releasing_def split: bind_splits exit.splits
      dest!: keepsD [OF _ assms] keeps_release_auth)

lemma keeps_release_handle: "release_handle env h c cont st = Some st' \<Longrightarrow> J (d_am st) \<Longrightarrow> J (d_am st')"
  by (auto simp: release_handle_def split: bind_splits dest!: release)

lemma keeps_flush_common [keeps]: "am_keeps J (flush_common env h t)"
  by (rule keepsI) (auto simp: flush_common_def split: bind_splits intro!: device)

end

section \<open>Loading keys\<close>

context session_invariant
begin

lemma keeps_capability [keeps]: "am_keeps J (TCSP_GetCapability_Internal env c area n sub l b)"
  unfolding TCSP_GetCapability_Internal_def by (intro keeps)

lemma keeps_local_capability [keeps]: "am_keeps J (local_capability env c area n sub)"
  by (rule keepsI) (auto simp: local_capability_def split: bind_splits dest!: keepsD [OF _ keeps_capability])

lemma keeps_evict_slot [keeps]: "am_keeps J (internal_EvictByKeySlot env slot)"
  by (rule keepsI) (auto simp: internal_EvictByKeySlot_def split: if_splits bind_splits
      dest!: keepsD [OF _ keeps_submit] intro!: device)

lemma clear_keys_keeps: "clear_keys env hs n st = Some (x, st') \<Longrightarrow> J (d_am st) \<Longrightarrow> J (d_am st')"
proof (induction hs arbitrary: n st)
  case (Cons h hs)
  show ?case
  proof (cases "\<exists>tmp \<in> set (cache (d_tcs st)). kc_tpm_handle tmp = h")
    case True
    then show ?thesis using Cons by simp
  next
    case False
    then obtain r st1 where e: "internal_EvictByKeySlot env h st = Some (r, st1)"
      using Cons.prems(1) by (auto split: bind_splits)
    have "J (d_am st1)" using keepsD [OF e keeps_evict_slot Cons.prems(2)] .
    then show ?thesis using Cons.prems(1) Cons.IH False e by (auto split: if_splits)
  qed
qed simp

lemma keeps_clear_unknown [keeps]: "am_keeps J (clear_unknown env c)"
  by (rule keepsI) (auto simp: clear_unknown_def Let_def split: bind_splits if_splits
      dest!: keepsD [OF _ keeps_local_capability] clear_keys_keeps)

lemma keeps_make_room [keeps]: "am_keeps J (make_room env p)"
  by (rule keepsI) (auto simp: make_room_def Let_def split: bind_splits if_splits prod.splits
      dest!: keepsD [OF _ keeps_clear_unknown] keepsD [OF _ keeps_evict_slot])

lemma keeps_can_load [keeps]: "am_keeps J (canILoadThisKey env parms)"
  by (rule keepsI) (auto simp: canILoadThisKey_def split: bind_splits if_splits
      dest!: keepsD [OF _ keeps_local_capability])

lemma keeps_is_loaded [keeps]: "am_keeps J (isKeyLoaded env slot)"
  by (rule keepsI) (auto simp: isKeyLoaded_def Let_def split: bind_splits if_splits
      dest!: keepsD [OF _ keeps_local_capability])

lemma keeps_load_in_device [keeps]: "am_keeps J (load_in_device env ord c p slot sz blob a key h)"
proof (rule keepsI)
  fix st x st'
  assume f: "load_in_device env ord c p slot sz blob a key h st = Some (x, st')" and J: "J (d_am st)"
  obtain r can st1 where c: "canILoadThisKey env (tk_algorithmParms key) st = Some ((r, can), st1)"
    using f by (auto simp: load_in_device_def split: bind_splits)
  have J1: "J (d_am st1)" using keepsD [OF c keeps_can_load J] .
  show "J (d_am st')"
  proof (cases "r = 0")
    case True
    then obtain r2 st2 where m: "(if can then Some (TSS_SUCCESS, st1) else make_room env p st1) = Some (r2, st2)"
      using f c by (auto simp: load_in_device_def split: bind_splits if_splits)
    have J2: "J (d_am st2)" using m J1 by (auto split: if_splits dest!: keepsD [OF _ keeps_make_room])
    show ?thesis using f c True m J2
      by (auto simp: load_in_device_def Let_def split: bind_splits if_splits
          dest!: keepsD [OF _ keeps_submit])
  qed (use f c J1 in \<open>auto simp: load_in_device_def\<close>)
qed

lemma keeps_get_slot:
  assumes "\<And>c pub. am_keeps J (shim c pub)"
  shows "am_keeps J (get_slot shim c h)"
  by (rule keepsI) (auto simp: get_slot_def Let_def split: if_splits option.splits dest!: keepsD [OF _ assms])

lemma keeps_load_by_blob:
  assumes "\<And>c pub. am_keeps J (shim c pub)"
  shows "am_keeps J (LoadKeyByBlob_Internal shim env ord c h sz blob a)"
proof (rule keepsI)
  fix st x st'
  assume f: "LoadKeyByBlob_Internal shim env ord c h sz blob a st = Some (x, st')" and J: "J (d_am st)"
  obtain r where v: "verify c st = Some (r, st)" by (simp add: verify_def)
  show "J (d_am st')"
  proof (cases "r = 0")
    case True
    then obtain r1 p st1 where g: "get_slot shim c h st = Some ((r1, p), st1)"
      using f v by (auto simp: LoadKeyByBlob_Internal_def split: bind_splits)
    have J1: "J (d_am st1)" using keepsD [OF g keeps_get_slot [OF assms] J] .
    show ?thesis
    proof (cases "r1 = 0")
      case True
      then obtain r2 key off tcs where u: "UnloadBlob_TSS_KEY (e_little env) zero_hdr 0 blob (d_tcs st1) = Some ((r2, key, off), tcs)"
        using f v g \<open>r = 0\<close> by (auto simp: LoadKeyByBlob_Internal_def split: bind_splits)
      show ?thesis using f v g \<open>r = 0\<close> True u J1
        by (auto simp: LoadKeyByBlob_Internal_def Let_def split: bind_splits if_splits
            dest!: keepsD [OF _ keeps_is_loaded] keepsD [OF _ keeps_load_in_device] keeps_release_auth)
    qed (use f v g \<open>r = 0\<close> J1 in \<open>auto simp: LoadKeyByBlob_Internal_def\<close>)
  qed (use f v J in \<open>auto simp: LoadKeyByBlob_Internal_def\<close>)
qed

lemma keeps_shim_load:
  assumes "\<And>c pub. am_keeps J (shim c pub)"
  shows "am_keeps J (shim_load shim env c pub p)"
  by (rule keepsI) (auto simp: shim_load_def Let_def split: bind_splits if_splits prod.splits
      dest!: keepsD [OF _ keeps_load_by_blob [OF assms]] stored)

lemma shim_keeps:
  "LoadKeyShim env' c pub st = Some y \<Longrightarrow> env' = env \<longrightarrow> J (d_am st) \<longrightarrow> J (d_am (snd y))"
proof (induction rule: LoadKeyShim.raw_induct [rotated, consumes 1, case_names step])
  case (step shim env' c pub st y)
  show ?case
  proof (intro impI)
    assume e: "env' = env" and J: "J (d_am st)"
    have s: "am_keeps J (shim env c pub)" for c pub
      by (rule keepsI, drule step(1)) simp
    obtain slot where k: "mc_get_slot_by_pub pub (d_tcs st) = Some slot"
      using step(2) by (auto split: bind_splits)
    obtain known st1 where l: "(if slot \<noteq> NULL_HANDLE then isKeyLoaded env slot st else Some (False, st)) = Some (known, st1)"
      using step(2) e k by (auto split: bind_splits)
    have J1: "J (d_am st1)" using l J by (auto split: if_splits dest!: keepsD [OF _ keeps_is_loaded])
    show "J (d_am (snd y))" using step(2) e k l J1
      by (cases y) (auto split: bind_splits if_splits option.splits dest!: keepsD [OF _ s] keepsD [OF _ keeps_shim_load [OF s]])
  qed
qed

lemma keeps_shim [keeps]: "am_keeps J (LoadKeyShim env c pub)"
  by (rule keepsI) (use shim_keeps in force)

lemma keeps_slot [keeps]: "am_keeps J (get_slot (LoadKeyShim env) c h)"
  by (intro keeps_get_slot keeps_shim)

lemma keeps_load [keeps]: "am_keeps J (LoadKeyByBlob_Internal (LoadKeyShim env) env ord c h sz blob a)"
  by (intro keeps_load_by_blob keeps_shim)

lemma keeps_ensure [keeps]: "am_keeps J (ensureKeyIsLoaded env c h)"
proof (rule keepsI)
  fix st x st'
  assume f: "ensureKeyIsLoaded env c h st = Some (x, st')" and J: "J (d_am st)"
  let ?slot = "mc_get_slot_by_handle h (d_tcs st)"
  show "J (d_am st')"
  proof (cases "ctx_has_key_loaded c h (d_tcs st)")
    case True
    then obtain known st1 where l: "(if ?slot = NULL_HANDLE then Some (False, st) else isKeyLoaded env ?slot st) = Some (known, st1)"
      using f by (auto simp: ensureKeyIsLoaded_def Let_def split: bind_splits)
    have J1: "J (d_am st1)" using l J by (auto split: if_splits dest!: keepsD [OF _ keeps_is_loaded])
    show ?thesis using f True l J1
      by (auto simp: ensureKeyIsLoaded_def Let_def split: bind_splits if_splits option.splits dest!: keepsD [OF _ keeps_shim])
  qed (use f J in \<open>auto simp: ensureKeyIsLoaded_def\<close>)
qed

lemma keeps_with_key [keeps]:
  assumes "\<And>slot. am_keeps J (k slot)"
  shows "am_keeps J (with_key env c h out k)" "am_keeps J (with_slot env c h k)"
  by (rule keepsI, auto simp: with_key_def with_slot_def split: bind_splits if_splits
      dest!: keepsD [OF _ keeps_ensure] keepsD [OF _ keeps_slot] keepsD [OF _ assms])+

end

section \<open>Single commands\<close>

context session_invariant
begin

lemma keeps_if [keeps]: "am_keeps J f \<Longrightarrow> am_keeps J g \<Longrightarrow> am_keeps J (\<lambda>st. if b st then f st else g st)"
  by (auto simp: am_keeps_def)

lemma keeps_some [keeps]: "(\<And>st. d_am (u st) = d_am st) \<Longrightarrow> am_keeps J (\<lambda>st. Some (x st, u st))"
  by (simp add: am_keeps_def)

text \<open>A step that depends on the state.\<close>

lemma keeps_dep: "(\<And>s. am_keeps J (f s)) \<Longrightarrow> am_keeps J (\<lambda>st. f st st)"
  unfolding am_keeps_def by blast

lemmas keeps_dep_transact [keeps] = keeps_dep [of "\<lambda>st. transact env ord (args st) bad outs" for ord args bad outs,
  OF keeps_transact(1)]

lemma keeps_evict_key: "am_keeps J (TCSP_EvictKey_Internal env c h)"
proof -
  have "am_keeps J (\<lambda>st. let t = mc_get_slot_by_handle h (d_tcs st)
     in if t = NULL_HANDLE then Some (Return TSS_SUCCESS, st)
        else checked (internal_EvictByKeySlot env t) Return (\<lambda>st.
          let (result, tcs) = mc_set_slot_by_slot t NULL_HANDLE (d_tcs st)
          in Some (Return result, set_tcs tcs st)) st)"
    by (rule keepsI) (auto simp: checked_def Let_def split: if_splits bind_splits prod.splits
        dest!: keepsD [OF _ keeps_evict_slot])
  then show ?thesis unfolding TCSP_EvictKey_Internal_def by (intro keeps)
qed

lemma keeps_flush: "am_keeps J (TCSP_FlushSpecific_Internal env c h t)"
  by (rule keepsI) (auto simp: TCSP_FlushSpecific_Internal_def Let_def verify_def
      split: bind_splits if_splits prod.splits
      dest!: keepsD [OF _ keeps_flush_common] keepsD [OF _ keeps_check_handle] keeps_release_handle)

lemma random_round_keeps:
  "am_keeps J (random_round env l b off buf n)"
  by (rule keepsI) (auto simp: random_round_def Let_def split: bind_splits if_splits intro!: device)

lemma random_loop_keeps:
  "random_loop env l b k off buf n st = Some (x, st') \<Longrightarrow> J (d_am st) \<Longrightarrow> J (d_am st')"
proof (induction k arbitrary: off buf n st)
  case 0
  then show ?case by (subst (asm) random_loop.simps) (auto split: bind_splits random.splits if_splits dest!: keepsD [OF _ random_round_keeps])
next
  case (Suc k)
  then obtain y m st1 where r: "random_round env l b off buf n st = Some ((y, m), st1)"
    by (subst (asm) random_loop.simps) (auto split: bind_splits)
  have J1: "J (d_am st1)" using keepsD [OF r random_round_keeps Suc.prems(2)] .
  show ?case using Suc.prems(1) r J1 Suc.IH by (subst (asm) random_loop.simps) (cases y; auto split: if_splits)
qed

lemma keeps_random: "am_keeps J (TCSP_GetRandom_Internal env c l b)"
  by (rule keepsI) (auto simp: TCSP_GetRandom_Internal_def Let_def verify_def split: bind_splits if_splits random.splits
      dest!: random_loop_keeps)

lemma keeps_drop_srk: "drop_srk l b r st = Some (x, st') \<Longrightarrow> J (d_am st) \<Longrightarrow> J (d_am st')"
  by (auto simp: drop_srk_def split: bind_splits dest!: am_free_ptr)

lemma keeps_keep_srk [keeps]: "am_keeps J (keep_srk env l b old)"
proof (rule keepsI)
  fix st x st'
  assume f: "keep_srk env l b old st = Some (x, st')" and J: "J (d_am st)"
  obtain bs where b: "bytes_of (m_B (d_mem st) b) = Some bs"
    using f unfolding keep_srk_def by (auto split: bind_splits)
  obtain r key off tcs where u: "UnloadBlob_TSM_KEY (e_little env) 0 bs (d_tcs st) = Some ((r, key, off), tcs)"
    using f b unfolding keep_srk_def by (auto split: bind_splits)
  show "J (d_am st')"
  proof (cases "r = 0")
    case False
    then show ?thesis using f b u J by (auto simp: keep_srk_def dest!: keeps_drop_srk)
  next
    case True
    obtain r1 st1 where rm: "e_ps_remove env SRK_UUID (set_tcs tcs st) = (r1, st1)" by fastforce
    have J1: "J (d_am st1)" using removed [OF rm] J by simp
    show ?thesis
    proof (cases "r1 \<noteq> 0 \<and> r1 \<noteq> TCSERR TSS_E_PS_KEY_NOTFOUND")
      case True
      then show ?thesis using f b u \<open>r = 0\<close> rm J1 by (auto simp: keep_srk_def dest!: keeps_drop_srk)
    next
      case False
      then obtain off bs2 where w: "LoadBlob_TSM_KEY (e_little env)
          (key\<lparr>tk_authDataUsage := old, tk_pubKey := (tk_pubKey key)\<lparr>sp_key := Buf (replicate 256 0)\<rparr>\<rparr>)
          (0, Some (replicate 2048 0)) = Some (off, Some bs2)"
        using f b u True rm by (auto simp: keep_srk_def Let_def split: bind_splits)
      obtain r2 st2 where wr: "e_ps_write env SRK_UUID zero_uuid (take (unat off) bs2) st1 = (r2, st2)" by fastforce
      have J2: "J (d_am st2)" using written [OF wr J1] .
      show ?thesis using f b u True rm False w wr J2
        by (auto simp: keep_srk_def Let_def  split: bind_splits if_splits dest!: keeps_drop_srk)
    qed
  qed
qed

lemma keeps_ownership: "am_keeps J (TCSP_TakeOwnership_Internal env c p n1 b1 n2 b2 n3 b3 a l k)"
proof -
  have q: "am_keeps J (request env TPM_ORD_TakeOwnership args Return
     (\<lambda>blob n. checked (parse TPM_ORD_TakeOwnership outs blob n) Done (keep_srk env l k old)))" for args outs old
    by (intro keeps)
  have "am_keeps J (\<lambda>st. do {
        info \<leftarrow> bytes_of b3;
        ((result, key, off), tcs) \<leftarrow> UnloadBlob_TSS_KEY (e_little env) (e_hdr env) 0 info (d_tcs st);
        request env TPM_ORD_TakeOwnership args Return
          (\<lambda>blob n. checked (parse TPM_ORD_TakeOwnership outs blob n) Done (keep_srk env l k (tk_authDataUsage key)))
          (set_tcs tcs st) })" for args outs
    by (rule keepsI) (auto split: bind_splits dest!: keepsD [OF _ q])
  then show ?thesis unfolding TCSP_TakeOwnership_Internal_def by (intro keeps)
qed

lemma keeps_open: "am_keeps J (TCS_OpenContext_Internal r1 r2 l)"
  by (rule keepsI) (auto simp: TCS_OpenContext_Internal_def Let_def split: bind_splits if_splits)

lemma evict_slots_keeps: "evict_slots env slots st = Some st' \<Longrightarrow> J (d_am st) \<Longrightarrow> J (d_am st')"
  by (induction slots arbitrary: st) (auto split: bind_splits dest!: keepsD [OF _ keeps_evict_slot])

lemma keeps_close: "am_keeps J (TCS_CloseContext_Internal env c)"
proof -
  have "am_keeps J (\<lambda>st. do {
     (trans, tcs) \<leftarrow> destroy_context c (d_tcs st);
     let st = set_tcs tcs st;
     st \<leftarrow> (case trans of None \<Rightarrow> Some st | Some h \<Rightarrow> map_option snd (flush_common env h TPM_RT_TRANS st));
     (result, am) \<leftarrow> auth_mgr_close_context (e_dv env) c (d_am st);
     st \<leftarrow> sweep env (st\<lparr>d_am := am\<rparr>);
     Some (Return TSS_SUCCESS, st) })"
    by (rule keepsI) (auto simp: Let_def sweep_def split: bind_splits option.splits prod.splits
        dest!: keepsD [OF _ keeps_flush_common] close evict_slots_keeps)
  then show ?thesis unfolding TCS_CloseContext_Internal_def by (intro keeps)
qed

lemma keeps_free: "am_keeps J (TCS_FreeMemory_Internal c l)"
  by (rule keepsI) (auto simp: TCS_FreeMemory_Internal_def split: bind_splits dest!: am_free_ptr)

lemma am_store_handles [simp]: "d_am (snd (store_handles (x, st) l k)) = d_am st"
  by (auto simp: store_handles_def Let_def split: prod.split option.split)

lemma keeps_load_by_blob_commands:
  "am_keeps J (TCSP_LoadKeyByBlob_Internal env c p n b a l k)" "am_keeps J (TCSP_LoadKey2ByBlob_Internal env c p n b a l)"
  by (rule keepsI, auto simp: TCSP_LoadKeyByBlob_Internal_def TCSP_LoadKey2ByBlob_Internal_def store_handles_def Let_def
      split: bind_splits option.splits if_splits dest!: keepsD [OF _ keeps_load])+

lemma keeps_control_owner: "am_keeps J (TCSP_KeyControlOwner_Internal env c h n b t v a)"
proof -
  have s: "am_keeps J (\<lambda>st. case mc_set_uuid h u (d_tcs st) of (result, tcs) \<Rightarrow> Some (Done result, set_tcs tcs st))" for u
    by (rule keepsI) (auto split: prod.splits)
  have q: "am_keeps J (request env TPM_ORD_KeyControlOwner args Done
     (\<lambda>blob n. checked (parse TPM_ORD_KeyControlOwner outs blob n) Done
       (\<lambda>st. case mc_set_uuid h u (d_tcs st) of (result, tcs) \<Rightarrow> Some (Done result, set_tcs tcs st))))" for args outs u
    by (intro keeps s)
  have r: "am_keeps J (checked (auth_check env c a) Done (\<lambda>st.
             case mc_find_next_ownerevict_uuid (d_tcs st) of
               None \<Rightarrow> Some (Done (TCSERR TSS_E_FAIL), st)
             | Some u \<Rightarrow> request env TPM_ORD_KeyControlOwner args Done
     (\<lambda>blob n. checked (parse TPM_ORD_KeyControlOwner outs blob n) Done
       (\<lambda>st. case mc_set_uuid h u (d_tcs st) of (result, tcs) \<Rightarrow> Some (Done result, set_tcs tcs st))) st))" for args outs
    by (intro keeps_checked keeps keepsI) (auto split: option.splits dest!: keepsD [OF _ q])
  show ?thesis unfolding TCSP_KeyControlOwner_Internal_def Let_def
    by (intro keeps keepsI) (auto split: prod.splits if_splits dest!: keepsD [OF _ r])
qed

lemma keeps_change_auth: "am_keeps J (TCSP_ChangeAuth_Internal env c p pr na et n b a1 a2 l k)"
proof -
  have "am_keeps J (\<lambda>st. do { st \<leftarrow> replace_encdata env et slot b k st; Some (Done TSS_SUCCESS, st) })" for slot
    by (rule keepsI) (auto simp: replace_encdata_def split: bind_splits if_splits dest!: keepsD [OF _ keeps_evict_slot])
  then show ?thesis unfolding TCSP_ChangeAuth_Internal_def by (intro keeps)
qed

lemma keeps_create_key: "am_keeps J (TCSP_CMK_CreateKey_Internal env c h u m1 m2 l k a)"
  unfolding TCSP_CMK_CreateKey_Internal_def Let_def
  by (intro keeps_releasing keepsI) (auto simp: verify_def split: bind_splits if_splits
      dest!: am_free_ptr keepsD [OF _ keeps_slot] keepsD [OF _ keeps_auth_check(2)] keepsD [OF _ keeps_submit] keepsD [OF _ keeps_parse])

lemma keeps_dsap: "am_keeps J (TCSP_DSAP_Internal env c et h n1 n b l x y)"
proof -
  have "am_keeps J (\<lambda>st. let (result, am) = auth_mgr_add c (m_32 (d_mem st) l) (d_am st)
     in Some (Done result, st\<lparr>d_am := am\<rparr>))"
    by (rule keepsI) (auto split: prod.splits dest!: enter)
  then show ?thesis unfolding TCSP_DSAP_Internal_def by (intro keeps)
qed

end

text \<open>What a caller sees of a function with other results than a code.\<close>

definition quiet :: "('t tcsd \<Rightarrow> ('a \<times> 't tcsd) option) \<Rightarrow> 't command" where
  "quiet f st = map_option (\<lambda>(x, st). (TSS_SUCCESS, st)) (f st)"

context session_invariant
begin

lemma keeps_quiet: "am_keeps J f \<Longrightarrow> am_keeps J (quiet f)"
  by (rule keepsI) (auto simp: quiet_def dest!: keepsD)

lemma keeps_transport_key: "(\<And>slot. am_keeps J (k slot)) \<Longrightarrow> am_keeps J (transport_key env c h k)"
  unfolding transport_key_def by (simp add: keeps)

lemma keeps_establish: "am_keeps J (TCSP_EstablishTransport_Internal env c fl h n1 b1 n2 b2 a l1 l2 l3 l4 l5)"
proof -
  have x: "am_keeps J (\<lambda>st. if fl = TRANSPORT_EXCLUSIVE
        then let (result, tcs) = ctx_req_exclusive_transport (e_exclusive env) c (d_tcs st) in Some (result, set_tcs tcs st)
        else Some (TSS_SUCCESS, st))"
    by (rule keepsI) (auto split: if_splits prod.splits)
  have b: "am_keeps J (\<lambda>st. do {
        blob \<leftarrow> establish_request slot n1 b1 n2 b2 (map_option (m_A (d_mem st)) a) (txBlob env st);
        ((result, blob, paramSize), st) \<leftarrow> submit env blob st;
        if result \<noteq> 0 then Some (Done result, st)
        else do {
          (result, m) \<leftarrow> establish_response a l1 l2 l3 l4 l5 blob (d_mem st);
          let st = st\<lparr>d_mem := m\<rparr>;
          if result \<noteq> 0 then Some (Done result, st)
          else Some (Done TSS_SUCCESS,
            set_tcs (snd (ctx_set_transport_enabled c (m_32 m l2) (d_tcs st))) st) } })" for slot
    by (rule keepsI) (auto simp: Let_def split: bind_splits if_splits dest!: keepsD [OF _ keeps_submit])
  show ?thesis unfolding TCSP_EstablishTransport_Internal_def
    by (intro keeps_releasing keeps_checked keeps_verify keeps_auth_check keeps_transport_key x b)
qed

lemma keeps_release_response: "release_response a1 a2 l1 l2 l3 l4 l5 blob st = Some (x, st') \<Longrightarrow> d_am st' = d_am st"
  by (auto simp: release_response_def Let_def split: bind_splits if_splits dest!: am_free_ptr)

lemma keeps_release_transport: "am_keeps J (TCSP_ReleaseTransportSigned_Internal env c h n a1 a2 l1 l2 l3 l4 l5)"
proof -
  have b: "am_keeps J (\<lambda>st. do {
        blob \<leftarrow> release_request slot n (map_option (m_A (d_mem st)) a1) (map_option (m_A (d_mem st)) a2) (txBlob env st);
        ((result, blob, paramSize), st) \<leftarrow> submit env blob st;
        if result \<noteq> 0 then Some (Done result, st)
        else do {
          (result, st) \<leftarrow> release_response a1 a2 l1 l2 l3 l4 l5 blob
            (set_tcs (snd (ctx_set_transport_disabled c None (d_tcs st))) st);
          Some (Done result, st) } })" for slot
    by (rule keepsI) (auto simp: Let_def split: bind_splits if_splits dest!: keepsD [OF _ keeps_submit] keeps_release_response)
  show ?thesis unfolding TCSP_ReleaseTransportSigned_Internal_def by (intro keeps b)
qed

lemma keeps_finish_wrapped: "am_keeps J (finish_wrapped env c ord h v n hs l r)"
  by (rule keepsI) (auto simp: finish_wrapped_def Let_def split: bind_splits if_splits prod.splits dest!: enter)

lemma keeps_parse_wrapped: "am_keeps J (parse_wrapped b v n l a1 a2 blob k)"
  by (rule keepsI) (auto simp: parse_wrapped_def Let_def split: bind_splits)

lemma keeps_wrapped_response:
  "am_keeps J (wrapped_response env c ord hs n l a1 a2 a3 l1 l2 l3 l4 l5 blob)"
  by (rule keepsI) (auto simp: wrapped_response_def Let_def split: bind_splits if_splits prod.splits
      dest!: keepsD [OF _ keeps_parse_wrapped] keepsD [OF _ keeps_finish_wrapped])

lemma keeps_build: "am_keeps J (build_command env c ord n l k hs a1 a2 a3 l1 l2 l3 l4 l5 vs)"
  by (rule keepsI) (auto simp: build_command_def Let_def split: bind_splits if_splits
      dest!: keepsD [OF _ keeps_submit] keepsD [OF _ keeps_wrapped_response])

lemma keeps_terminate_wrapped:
  assumes "\<And>hs. am_keeps J (k hs)"
  shows "am_keeps J (terminate_wrapped env c l k)"
  by (rule keepsI) (auto simp: terminate_wrapped_def Let_def split: bind_splits if_splits
      dest!: keepsD [OF _ keeps_check_handle] keeps_release_handle keepsD [OF _ assms])

lemma keeps_map_handles:
  assumes "\<And>hs. am_keeps J (k hs)"
  shows "am_keeps J (map_key_handles c n l k)"
  by (rule keepsI) (auto simp: map_key_handles_def Let_def split: bind_splits if_splits prod.splits
      dest!: keepsD [OF _ assms])

lemma keeps_forget_key: "am_keeps J k \<Longrightarrow> am_keeps J (forget_key c h k)"
  by (rule keepsI) (auto simp: forget_key_def Let_def split: if_splits prod.splits dest!: keepsD)

lemma am_patch_entity: "patch_entity l v st = Some st' \<Longrightarrow> d_am st' = d_am st"
  by (auto simp: patch_entity_def split: bind_splits)

lemma keeps_wrapped_entity:
  assumes "am_keeps J k"
  shows "am_keeps J (wrapped_entity env c l p x k)"
proof -
  have w: "am_keeps J (with_key env c v (\<lambda>_. x) (\<lambda>slot st. do { st \<leftarrow> patch_entity l slot st; k st }))" for v
    by (intro keeps_with_key keepsI) (auto split: bind_splits dest!: am_patch_entity keepsD [OF _ assms])
  show ?thesis
    by (rule keepsI) (auto simp: wrapped_entity_def split: bind_splits if_splits dest!: keepsD [OF _ w] keepsD [OF _ assms])
qed

lemma keeps_prepare: "am_keeps J k \<Longrightarrow> am_keeps J (prepare_wrapped env c ord l h k)"
  unfolding prepare_wrapped_def by (auto intro: keeps keeps_forget_key keeps_wrapped_entity)

lemma keeps_execute: "am_keeps J (TCSP_ExecuteTransport_Internal env c ord n1 l n hs a1 a2 a3 l1 l2 l3 l4 l5)"
proof -
  have t: "am_keeps J (terminate_wrapped env c hs (build_command env c ord n1 l n hs a1 a2 a3 l1 l2 l3 l4 l5))" for hs
    by (intro keeps_terminate_wrapped keeps_build)
  have k: "am_keeps J (map_key_handles c n hs (\<lambda>vs. prepare_wrapped env c ord l (fst vs)
     (build_command env c ord n1 l n hs a1 a2 a3 l1 l2 l3 l4 l5 vs)))" for hs
    by (intro keeps_map_handles keeps_prepare keeps_build)
  show ?thesis unfolding TCSP_ExecuteTransport_Internal_def Let_def
    by (intro keeps keepsI) (auto split: bind_splits if_splits dest!: keepsD [OF _ t] keepsD [OF _ k])
qed

lemma keeps_waited:
  assumes "\<And>tcs am w am'. f tcs am = Some (w, am') \<Longrightarrow> J am \<Longrightarrow> J am'"
    and "\<And>tcs am r am'. g tcs am = Some (r, am') \<Longrightarrow> J am \<Longrightarrow> J am'"
  shows "am_keeps J (waited env f g)"
  by (rule keepsI) (auto simp: waited_def split: bind_splits outcome.splits dest!: assms others intro!: wake)

lemma open_session_keeps: "open_session run c am = Some (x, am') \<Longrightarrow> J am \<Longrightarrow> J am'"
  by (auto simp: open_session_def Let_def split: bind_splits sum.splits if_splits prod.splits intro!: device dest!: enter)

lemma request_session_keeps:
  "request_session (e_dv env) (e_cfg env) tcs run c am = Some (x, am') \<Longrightarrow> J am \<Longrightarrow> J am'"
  by (auto simp: request_session_def split: if_splits bind_splits outcome.splits dest!: open_session_keeps swap_out)

lemma keeps_entity: "am_keeps J (entity_value env c t v)"
  by (rule keepsI) (auto simp: entity_value_def split: if_splits bind_splits dest!: keepsD [OF _ keeps_ensure])

lemma keeps_sessions:
  "am_keeps J (oiap_session env c)" "am_keeps J (osap_session env c t v n)"
  "am_keeps J (APCreate_session env c t v n mac)"
proof -
  show "am_keeps J (oiap_session env c)" unfolding oiap_session_def
    by (rule keeps_waited) (auto simp: auth_mgr_oiap_def dest!: request_session_keeps open_session_keeps)
  have o: "am_keeps J (waited env
       (\<lambda>tcs. auth_mgr_osap (e_dv env) (e_cfg env) tcs slot c t v n)
       (\<lambda>tcs. open_session (TCSP_OSAP_Internal (e_dv env) (ctx_verify_context c tcs) t v' n) c))" for slot v'
    by (rule keeps_waited) (auto simp: auth_mgr_osap_def Let_def split: option.splits if_splits dest!: request_session_keeps open_session_keeps)
  show "am_keeps J (osap_session env c t v n)"
    by (rule keepsI) (auto simp: osap_session_def Let_def split: bind_splits dest!: keepsD [OF _ keeps_entity] keepsD [OF _ o])
  have a: "am_keeps J (waited env
       (\<lambda>tcs. auth_mgr_APCreate (e_dv env) (e_cfg env) tcs slot c t v n mac)
       (\<lambda>tcs. open_session (TCSP_APCreate_Internal (e_dv env) (ctx_verify_context c tcs) t v n mac) c))" for slot
    by (rule keeps_waited) (auto simp: auth_mgr_APCreate_def Let_def split: option.splits if_splits dest!: request_session_keeps open_session_keeps)
  show "am_keeps J (APCreate_session env c t v n mac)"
    by (rule keepsI) (auto simp: APCreate_session_def Let_def split: bind_splits dest!: keepsD [OF _ keeps_entity] keepsD [OF _ a])
qed

lemma keeps_terminate: "am_keeps J (terminate_session env c h)"
proof -
  have "am_keeps J (\<lambda>st. do {
        ((result, h), st) \<leftarrow> check_handle env c h st;
        if result \<noteq> 0 then Some (Return result, st)
        else do {
          (result, am) \<leftarrow> auth_mgr_release_auth_handle (e_dv env) h c True (d_am st);
          Some (Return result, st\<lparr>d_am := am\<rparr>) } })"
    by (rule keepsI) (auto split: bind_splits if_splits dest!: keepsD [OF _ keeps_check_handle] release)
  then show ?thesis unfolding terminate_session_def by (intro keeps)
qed

lemma keeps_load_key: "am_keeps J (key_mgr_load_by_blob env c p n b a)"
  by (rule keepsI) (auto simp: key_mgr_load_by_blob_def split: bind_splits if_splits
      dest!: keepsD [OF _ keeps_auth_check(2)] keepsD [OF _ keeps_load])

lemma keeps_extend: "am_keeps J (TCSP_Extend_Internal env c n d l)"
proof -
  have "am_keeps J (\<lambda>st.
        if e_num_pcrs env \<le> n then Some (Return (TCSERR TSS_E_BAD_PARAMETER), st)
        else do {
          kernel \<leftarrow> pcr_masked (e_kernel_pcrs env) n;
          if kernel then Some (Return (TCSERR TSS_E_FAIL), st)
          else do {
            firmware \<leftarrow> pcr_masked (e_firmware_pcrs env) n;
            if firmware then Some (Return (TCSERR TSS_E_FAIL), st)
            else transact env TPM_ORD_Extend args Return outs st } })" for args outs
    by (rule keepsI) (auto split: if_splits bind_splits dest!: keepsD [OF _ keeps_transact(1)])
  then show ?thesis unfolding TCSP_Extend_Internal_def by (intro keeps_plain keeps_checked keeps_verify)
qed

end

section \<open>All commands\<close>

text \<open>The commands a client can make the daemon run.\<close>

inductive tcs_call :: "'t tcsd_env \<Rightarrow> 't command \<Rightarrow> bool" for env where
  "tcs_call env (TCSP_GetCapability_Internal env hContext capArea subCapSize subCap respSize resp)"
| "tcs_call env (TCSP_EvictKey_Internal env hContext hKey)"
| "tcs_call env (TCSP_SetOwnerInstall_Internal env hContext state)"
| "tcs_call env (TCSP_OwnerSetDisable_Internal env hContext disableState ownerAuth)"
| "tcs_call env (TCSP_DisableOwnerClear_Internal env hContext ownerAuth)"
| "tcs_call env (TCSP_ForceClear_Internal env hContext)"
| "tcs_call env (TCSP_DisableForceClear_Internal env hContext)"
| "tcs_call env (TCSP_PhysicalPresence_Internal env hContext fPhysicalPresence)"
| "tcs_call env (TCSP_PhysicalDisable_Internal env hContext)"
| "tcs_call env (TCSP_PhysicalEnable_Internal env hContext)"
| "tcs_call env (TCSP_PhysicalSetDeactivated_Internal env hContext state)"
| "tcs_call env (TCSP_SetTempDeactivated_Internal env hContext)"
| "tcs_call env (TCSP_SetTempDeactivated2_Internal env hContext operatorAuth)"
| "tcs_call env (TCSP_FieldUpgrade_Internal env hContext dataInSize dataIn dataOutSize dataOut ownerAuth)"
| "tcs_call env (TCSP_ResetLockValue_Internal env hContext ownerAuth)"
| "tcs_call env (TCSP_FlushSpecific_Internal env hContext hResHandle resourceType)"
| "tcs_call env (TCSP_MakeIdentity2_Internal env hContext identityAuth IDLabel_PrivCAHash idKeyInfoSize
    idKeyInfo pSrkAuth pOwnerAuth idKeySize idKey pcIdentityBindingSize prgbIdentityBinding)"
| "tcs_call env (TCSP_MakeIdentity_Internal env hContext identityAuth IDLabel_PrivCAHash idKeyInfoSize
    idKeyInfo pSrkAuth pOwnerAuth idKeySize idKey pcIdentityBindingSize prgbIdentityBinding
    pcEndorsementCredentialSize prgbEndorsementCredential pcPlatformCredentialSize
    prgbPlatformCredential pcConformanceCredentialSize prgbConformanceCredential)"
| "tcs_call env (TCS_GetCredential_Internal env hContext ulCredentialType ulCredentialAccessMode
    pulCredentialSize prgbCredentialData)"
| "tcs_call env (TCSP_SetOrdinalAuditStatus_Internal env hContext ownerAuth ulOrdinal bAuditState)"
| "tcs_call env (TCSP_GetAuditDigest_Internal env hContext startOrdinal auditDigest counterValueSize
    counterValue more0 ordSize ordList)"
| "tcs_call env (TCSP_APTerminate_Internal env hContext handle inMac)"
| "tcs_call env (TCSP_GetCapabilityOwner_Internal env hContext pOwnerAuth pVersion pNonVolatileFlags
    pVolatileFlags)"
| "tcs_call env (TCSP_SetCapability_Internal env hContext capArea subCapSize subCap valueSize val pOwnerAuth)"
| "tcs_call env (TCSP_ChangeAuthOwner_Internal env hContext protocolID newAuth entityType ownerAuth)"
| "tcs_call env TCSP_ChangeAuthAsymStart_Internal"
| "tcs_call env TCSP_ChangeAuthAsymFinish_Internal"
| "tcs_call env (TCSP_CMK_SetRestrictions_Internal env hContext Restriction ownerAuth)"
| "tcs_call env (TCSP_CMK_ApproveMA_Internal env hContext migAuthorityDigest ownerAuth HmacMigAuthDigest)"
| "tcs_call env (TCSP_CMK_CreateTicket_Internal env hContext PublicVerifyKeySize PublicVerifyKey
    SignedData SigValueSize SigValue pOwnerAuth SigTicket)"
| "tcs_call env (TCS_OpenContext_Internal r1 r2 hContext)"
| "tcs_call env (TCS_CloseContext_Internal env hContext)"
| "tcs_call env (TCS_FreeMemory_Internal hContext pMemory)"
| "tcs_call env (TCSP_ReadCounter_Internal env hContext idCounter counterValue)"
| "tcs_call env (TCSP_CreateCounter_Internal env hContext LabelSize pLabel CounterAuth pOwnerAuth
    idCounter counterValue)"
| "tcs_call env (TCSP_IncrementCounter_Internal env hContext idCounter pCounterAuth counterValue)"
| "tcs_call env (TCSP_ReleaseCounter_Internal env hContext idCounter pCounterAuth)"
| "tcs_call env (TCSP_ReleaseCounterOwner_Internal env hContext idCounter pOwnerAuth)"
| "tcs_call env (TCSP_DaaJoin_internal env hContext handle stage inputSize0 inputData0 inputSize1
    inputData1 ownerAuth outputSize outputData)"
| "tcs_call env (TCSP_DaaSign_internal env hContext handle stage inputSize0 inputData0 inputSize1
    inputData1 ownerAuth outputSize outputData)"
| "tcs_call env (TCSP_Delegate_Manage_Internal env hContext familyID opFlag opDataSize opData ownerAuth
    retDataSize retData)"
| "tcs_call env (TCSP_Delegate_CreateOwnerDelegation_Internal env hContext increment publicInfoSize
    publicInfo encDelAuth ownerAuth blobSize blob)"
| "tcs_call env (TCSP_Delegate_LoadOwnerDelegation_Internal env hContext index blobSize blob ownerAuth)"
| "tcs_call env (TCSP_Delegate_ReadTable_Internal env hContext familyTableSize familyTable
    delegateTableSize delegateTable)"
| "tcs_call env (TCSP_Delegate_UpdateVerificationCount_Internal env hContext inputSize input ownerAuth
    outputSize output)"
| "tcs_call env (TCSP_Delegate_VerifyDelegation_Internal env hContext delegateSize delegate)"
| "tcs_call env (TCSP_DirWriteAuth_Internal env hContext dirIndex newContents ownerAuth)"
| "tcs_call env (TCSP_DirRead_Internal env hContext dirIndex dirValue)"
| "tcs_call env (TCSP_CreateEndorsementKeyPair_Internal env hContext antiReplay endorsementKeyInfoSize
    endorsementKeyInfo endorsementKeySize endorsementKey checksum)"
| "tcs_call env (TCSP_ReadPubek_Internal env hContext antiReplay pubEndorsementKeySize pubEndorsementKey
    checksum)"
| "tcs_call env (TCSP_DisablePubekRead_Internal env hContext ownerAuth)"
| "tcs_call env (TCSP_OwnerReadPubek_Internal env hContext ownerAuth pubEndorsementKeySize pubEndorsementKey)"
| "tcs_call env (TCSP_CreateRevocableEndorsementKeyPair_Internal env hContext antiReplay
    endorsementKeyInfoSize endorsementKeyInfo genResetAuth eKResetAuth endorsementKeySize endorsementKey
    checksum)"
| "tcs_call env (TCSP_RevokeEndorsementKeyPair_Internal env hContext EKResetAuth)"
| "tcs_call env (TCSP_CreateMaintenanceArchive_Internal env hContext generateRandom ownerAuth randomSize
    random archiveSize archive)"
| "tcs_call env (TCSP_LoadMaintenanceArchive_Internal env hContext dataInSize dataIn ownerAuth dataOutSize
    dataOut)"
| "tcs_call env (TCSP_KillMaintenanceFeature_Internal env hContext ownerAuth)"
| "tcs_call env (TCSP_LoadManuMaintPub_Internal env hContext antiReplay PubKeySize PubKey checksum)"
| "tcs_call env (TCSP_ReadManuMaintPub_Internal env hContext antiReplay checksum)"
| "tcs_call env (TCSP_NV_DefineOrReleaseSpace_Internal env hContext cPubInfoSize pPubInfo encAuth pAuth)"
| "tcs_call env (TCSP_NV_WriteValue_Internal env hContext hNVStore ofs ulDataLength rgbDataToWrite privAuth)"
| "tcs_call env (TCSP_NV_WriteValueAuth_Internal env hContext hNVStore ofs ulDataLength rgbDataToWrite
    NVAuth)"
| "tcs_call env (TCSP_NV_ReadValue_Internal env hContext hNVStore ofs pulDataLength privAuth rgbDataRead)"
| "tcs_call env (TCSP_NV_ReadValueAuth_Internal env hContext hNVStore ofs pulDataLength NVAuth rgbDataRead)"
| "tcs_call env (TCSP_SetOperatorAuth_Internal env hContext operatorAuth)"
| "tcs_call env (TCSP_TakeOwnership_Internal env hContext protocolID encOwnerAuthSize encOwnerAuth
    encSrkAuthSize encSrkAuth srkInfoSize srkInfo ownerAuth srkKeySize srkKey)"
| "tcs_call env (TCSP_OwnerClear_Internal env hContext ownerAuth)"
| "tcs_call env (TCSP_Extend_Internal env hContext pcrNum inDigest outDigest)"
| "tcs_call env (TCSP_PcrRead_Internal env hContext pcrNum outDigest)"
| "tcs_call env (TCSP_PcrReset_Internal env hContext pcrDataSizeIn pcrDataIn)"
| "tcs_call env (TCSP_GetRandom_Internal env hContext bytesRequested randomBytes)"
| "tcs_call env (TCSP_StirRandom_Internal env hContext inDataSize inData)"
| "tcs_call env (TCSP_SelfTestFull_Internal env hContext)"
| "tcs_call env (TCSP_GetTestResult_Internal env hContext outDataSize outData)"
| "tcs_call env (TCSP_ReadCurrentTicks_Internal env hContext pulCurrentTime prgbCurrentTime)"
| "tcs_call env (TCSP_LoadKeyByBlob_Internal env hContext hUnwrappingKey cWrappedKeyBlobSize
    rgbWrappedKeyBlob pAuth phKeyTCSI phKeyHMAC)"
| "tcs_call env (TCSP_LoadKey2ByBlob_Internal env hContext hUnwrappingKey cWrappedKeyBlobSize
    rgbWrappedKeyBlob pAuth phKeyTCSI)"
| "tcs_call env (TCSP_CreateWrapKey_Internal env hContext hWrappingKey KeyUsageAuth KeyMigrationAuth
    keyInfoSize keyInfo keyDataSize keyData pAuth)"
| "tcs_call env (TCSP_GetPubKey_Internal env hContext hKey pAuth pcPubKeySize prgbPubKey)"
| "tcs_call env (TCSP_OwnerReadInternalPub_Internal env hContext hKey pOwnerAuth punPubKeySize ppbPubKeyData)"
| "tcs_call env (TCSP_KeyControlOwner_Internal env hContext hTcsKey ulPubKeyLength rgbPubKey attribName
    attribValue pOwnerAuth)"
| "tcs_call env (TCSP_SetRedirection_Internal env hContext keyHandle c1 c2 privAuth)"
| "tcs_call env (TCSP_ActivateTPMIdentity_Internal env hContext idKey blobSize blob idKeyAuth ownerAuth
    SymmetricKeySize SymmetricKey)"
| "tcs_call env (TCSP_GetAuditDigestSigned_Internal env hContext keyHandle closeAudit antiReplay privAuth
    counterValueSize counterValue auditDigest ordinalDigest sigSize sig)"
| "tcs_call env (TCSP_UnBind_Internal env hContext keyHandle inDataSize inData privAuth outDataSize outData)"
| "tcs_call env (TCSP_CertifyKey_Internal env hContext certHandle keyHandle antiReplay certAuth keyAuth
    CertifyInfoSize CertifyInfo outDataSize outData)"
| "tcs_call env (TCSP_ChangeAuth_Internal env contextHandle parentHandle protocolID newAuth entityType
    encDataSize encData ownerAuth entityAuth outDataSize outData)"
| "tcs_call env (TCSP_CMK_CreateKey_Internal env hContext hWrappingKey KeyUsageAuth MigAuthApproval
    MigAuthorityDigest keyDataSize prgbKeyData pAuth)"
| "tcs_call env (TCSP_CMK_CreateBlob_Internal env hContext parentHandle migrationType MigrationKeyAuthSize
    MigrationKeyAuth PubSourceKeyDigest msaListSize msaList restrictTicketSize restrictTicket
    sigTicketSize sigTicket encDataSize encData parentAuth randomSize random outDataSize outData)"
| "tcs_call env (TCSP_CMK_ConvertMigration_Internal env hContext parentHandle restrictTicket sigTicket
    keyDataSize prgbKeyData msaListSize msaList randomSize random parentAuth outDataSize outData)"
| "tcs_call env (TCSP_Delegate_CreateKeyDelegation_Internal env hContext hKey publicInfoSize publicInfo
    encDelAuth keyAuth blobSize blob)"
| "tcs_call env (TCSP_DSAP_Internal env hContext entityType keyHandle nonceOddDSAP entityValueSize
    entityValue authHandle nonceEven nonceEvenDSAP)"
| "tcs_call env (TCSP_CreateMigrationBlob_Internal env hContext parentHandle migrationType
    MigrationKeyAuthSize MigrationKeyAuth encDataSize encData parentAuth entityAuth randomSize random
    outDataSize outData)"
| "tcs_call env (TCSP_ConvertMigrationBlob_Internal env hContext parentHandle inDataSize inData randomSize
    random parentAuth outDataSize outData)"
| "tcs_call env (TCSP_AuthorizeMigrationKey_Internal env hContext migrateScheme MigrationKeySize
    MigrationKey ownerAuth MigrationKeyAuthSize MigrationKeyAuth)"
| "tcs_call env (TCSP_Quote_Internal env hContext keyHandle antiReplay pcrDataSizeIn pcrDataIn privAuth
    pcrDataSizeOut pcrDataOut sigSize sig)"
| "tcs_call env (TCSP_Quote2_Internal env hContext keyHandle antiReplay pcrDataSizeIn pcrDataIn addVersion
    privAuth pcrDataSizeOut pcrDataOut versionInfoSize versionInfo sigSize sig)"
| "tcs_call env (TCSP_Seal_Internal env sealOrdinal hContext keyHandle encAuth pcrInfoSize PcrInfo
    inDataSize inData pubAuth SealedDataSize SealedData)"
| "tcs_call env (TCSP_Unseal_Internal env hContext parentHandle SealedDataSize SealedData parentAuth
    dataAuth DataSize Data)"
| "tcs_call env (TCSP_CertifySelfTest_Internal env hContext keyHandle antiReplay privAuth sigSize sig)"
| "tcs_call env (TCSP_Sign_Internal env hContext keyHandle areaToSignSize areaToSign privAuth sigSize sig)"
| "tcs_call env (TCSP_TickStampBlob_Internal env hContext hKey antiReplay digestToStamp privAuth
    pulSignatureLength prgbSignature pulTickCountLength prgbTickCount)"
| "tcs_call env (TCSP_EstablishTransport_Internal env hContext ulTransControlFlags hEncKey
    ulTransSessionInfoSize rgbTransSessionInfo ulSecretSize rgbSecret pEncKeyAuth pbLocality
    hTransSession ulCurrentTicks prgbCurrentTicks pTransNonce)"
| "tcs_call env (TCSP_ExecuteTransport_Internal env hContext ord ulWrappedCmdParamInSize
    rgbWrappedCmdParamIn pulHandleListSize rghHandles pWrappedCmdAuth1 pWrappedCmdAuth2 pTransAuth
    punCurrentTicks pbLocality pulWrappedCmdReturnCode ulWrappedCmdParamOutSize rgbWrappedCmdParamOut)"
| "tcs_call env (TCSP_ReleaseTransportSigned_Internal env hContext hSignatureKey AntiReplayNonce pKeyAuth
    pTransAuth pbLocality pulCurrentTicksSize prgbCurrentTicks pulSignatureSize prgbSignature)"
| "tcs_call env (terminate_session env hContext handle)"
| "tcs_call env (quiet (key_mgr_load_by_blob env hContext p n b a))"
| "tcs_call env (quiet (oiap_session env hContext))"
| "tcs_call env (quiet (osap_session env hContext t v nonce))"
| "tcs_call env (quiet (APCreate_session env hContext t v nonce mac))"

lemmas command_defs =
  TCSP_SetOwnerInstall_Internal_def [abs_def] TCSP_OwnerSetDisable_Internal_def [abs_def]
  TCSP_DisableOwnerClear_Internal_def [abs_def] TCSP_ForceClear_Internal_def [abs_def]
  TCSP_DisableForceClear_Internal_def [abs_def] TCSP_PhysicalPresence_Internal_def [abs_def]
  TCSP_PhysicalDisable_Internal_def [abs_def] TCSP_PhysicalEnable_Internal_def [abs_def]
  TCSP_PhysicalSetDeactivated_Internal_def [abs_def] TCSP_SetTempDeactivated_Internal_def [abs_def]
  TCSP_SetTempDeactivated2_Internal_def [abs_def] TCSP_FieldUpgrade_Internal_def [abs_def]
  TCSP_ResetLockValue_Internal_def [abs_def] TCSP_MakeIdentity2_Internal_def [abs_def]
  TCSP_MakeIdentity_Internal_def [abs_def] TCS_GetCredential_Internal_def [abs_def]
  TCSP_SetOrdinalAuditStatus_Internal_def [abs_def] TCSP_GetAuditDigest_Internal_def [abs_def]
  TCSP_APTerminate_Internal_def [abs_def] TCSP_GetCapabilityOwner_Internal_def [abs_def]
  TCSP_SetCapability_Internal_def [abs_def] TCSP_ChangeAuthOwner_Internal_def [abs_def]
  TCSP_ChangeAuthAsymStart_Internal_def [abs_def] TCSP_ChangeAuthAsymFinish_Internal_def [abs_def]
  TCSP_CMK_SetRestrictions_Internal_def [abs_def] TCSP_CMK_ApproveMA_Internal_def [abs_def]
  TCSP_CMK_CreateTicket_Internal_def [abs_def] TCSP_ReadCounter_Internal_def [abs_def]
  TCSP_CreateCounter_Internal_def [abs_def] TCSP_IncrementCounter_Internal_def [abs_def]
  TCSP_ReleaseCounter_Internal_def [abs_def] TCSP_ReleaseCounterOwner_Internal_def [abs_def]
  TCSP_DaaJoin_internal_def [abs_def] TCSP_DaaSign_internal_def [abs_def]
  TCSP_Delegate_Manage_Internal_def [abs_def] TCSP_Delegate_CreateOwnerDelegation_Internal_def [abs_def]
  TCSP_Delegate_LoadOwnerDelegation_Internal_def [abs_def] TCSP_Delegate_ReadTable_Internal_def [abs_def]
  TCSP_Delegate_UpdateVerificationCount_Internal_def [abs_def]
  TCSP_Delegate_VerifyDelegation_Internal_def [abs_def] TCSP_DirWriteAuth_Internal_def [abs_def]
  TCSP_DirRead_Internal_def [abs_def] TCSP_CreateEndorsementKeyPair_Internal_def [abs_def]
  TCSP_ReadPubek_Internal_def [abs_def] TCSP_DisablePubekRead_Internal_def [abs_def]
  TCSP_OwnerReadPubek_Internal_def [abs_def] TCSP_CreateRevocableEndorsementKeyPair_Internal_def [abs_def]
  TCSP_RevokeEndorsementKeyPair_Internal_def [abs_def] TCSP_CreateMaintenanceArchive_Internal_def [abs_def]
  TCSP_LoadMaintenanceArchive_Internal_def [abs_def] TCSP_KillMaintenanceFeature_Internal_def [abs_def]
  TCSP_LoadManuMaintPub_Internal_def [abs_def] TCSP_ReadManuMaintPub_Internal_def [abs_def]
  TCSP_NV_DefineOrReleaseSpace_Internal_def [abs_def] TCSP_NV_WriteValue_Internal_def [abs_def]
  TCSP_NV_WriteValueAuth_Internal_def [abs_def] TCSP_NV_ReadValue_Internal_def [abs_def]
  TCSP_NV_ReadValueAuth_Internal_def [abs_def] TCSP_SetOperatorAuth_Internal_def [abs_def]
  TCSP_OwnerClear_Internal_def [abs_def] TCSP_PcrRead_Internal_def [abs_def]
  TCSP_PcrReset_Internal_def [abs_def] TCSP_StirRandom_Internal_def [abs_def]
  TCSP_SelfTestFull_Internal_def [abs_def] TCSP_GetTestResult_Internal_def [abs_def]
  TCSP_ReadCurrentTicks_Internal_def [abs_def] TCSP_CreateWrapKey_Internal_def [abs_def]
  TCSP_GetPubKey_Internal_def [abs_def] TCSP_OwnerReadInternalPub_Internal_def [abs_def]
  TCSP_SetRedirection_Internal_def [abs_def] TCSP_ActivateTPMIdentity_Internal_def [abs_def]
  TCSP_GetAuditDigestSigned_Internal_def [abs_def] TCSP_UnBind_Internal_def [abs_def]
  TCSP_CertifyKey_Internal_def [abs_def] TCSP_CMK_CreateBlob_Internal_def [abs_def]
  TCSP_CMK_ConvertMigration_Internal_def [abs_def] TCSP_Delegate_CreateKeyDelegation_Internal_def [abs_def]
  TCSP_CreateMigrationBlob_Internal_def [abs_def] TCSP_ConvertMigrationBlob_Internal_def [abs_def]
  TCSP_AuthorizeMigrationKey_Internal_def [abs_def] TCSP_Quote_Internal_def [abs_def]
  TCSP_Quote2_Internal_def [abs_def] TCSP_Seal_Internal_def [abs_def] TCSP_Unseal_Internal_def [abs_def]
  TCSP_CertifySelfTest_Internal_def [abs_def] TCSP_Sign_Internal_def [abs_def]
  TCSP_TickStampBlob_Internal_def [abs_def]

context session_invariant
begin

lemmas keeps_by_hand = keeps_flush keeps_random keeps_ownership keeps_open keeps_close keeps_free keeps_load_by_blob_commands keeps_control_owner keeps_create_key keeps_change_auth keeps_dsap keeps_establish keeps_execute keeps_release_transport keeps_terminate keeps_evict_key keeps_capability keeps_extend keeps_sessions keeps_load_key keeps_quiet

theorem call_keeps: "tcs_call env f \<Longrightarrow> am_keeps J f"
proof (induction rule: tcs_call.induct)
qed (intro keeps_by_hand; fail | unfold command_defs Let_def, intro keeps; simp; fail)+

end

end
