(* ===== verification/Tcsi_Sessions.thy ===== *)
theory Tcsi_Sessions
  imports Tcsi_Session
begin

text \<open>
  What the commands of the daemon do to the table of sessions: every reachable state counts its sessions
  right, the commands that leave only by \<open>goto done\<close> free the entries of their sessions, those that leave by
  \<open>return\<close> do not.
\<close>

section \<open>Environments that keep an invariant\<close>

definition obeys :: "('t auth_mgr \<Rightarrow> bool) \<Rightarrow> 't tcsd_env \<Rightarrow> bool" where
  "obeys J env \<longleftrightarrow> (\<forall>c tcs am tcs' am'. e_others env c (tcs, am) = Some (tcs', am') \<longrightarrow> J am \<longrightarrow> J am')
     \<and> (\<forall>c pub st x st'. e_ps_load env c pub st = Some (x, st') \<longrightarrow> J (d_am st) \<longrightarrow> J (d_am st'))
     \<and> (\<forall>uuid st. J (d_am st) \<longrightarrow> J (d_am (snd (e_ps_remove env uuid st))))
     \<and> (\<forall>uuid parent bs st. J (d_am st) \<longrightarrow> J (d_am (snd (e_ps_write env uuid parent bs st))))"

text \<open>The environment cut down to what keeps the invariant.\<close>

definition obeying :: "('t auth_mgr \<Rightarrow> bool) \<Rightarrow> 't tcsd_env \<Rightarrow> 't tcsd_env" where
  "obeying J env = env\<lparr>
     e_others := (\<lambda>c s. case e_others env c s of None \<Rightarrow> None
       | Some s' \<Rightarrow> if J (snd s) \<longrightarrow> J (snd s') then Some s' else None),
     e_ps_load := (\<lambda>c pub st. case e_ps_load env c pub st of None \<Rightarrow> None
       | Some y \<Rightarrow> if J (d_am st) \<longrightarrow> J (d_am (snd y)) then Some y else None),
     e_ps_remove := (\<lambda>uuid st. let y = e_ps_remove env uuid st
       in if J (d_am st) \<longrightarrow> J (d_am (snd y)) then y else (fst y, st)),
     e_ps_write := (\<lambda>uuid parent bs st. let y = e_ps_write env uuid parent bs st
       in if J (d_am st) \<longrightarrow> J (d_am (snd y)) then y else (fst y, st))\<rparr>"

lemma obeying_simps [simp]:
  "e_dv (obeying J env) = e_dv env" "e_cfg (obeying J env) = e_cfg env"
  by (simp_all add: obeying_def)

lemma obeying_obeys:
  "e_others (obeying J env) c (tcs, am) = Some (tcs', am') \<Longrightarrow> J am \<Longrightarrow> J am'"
  "e_ps_load (obeying J env) ch pub st = Some (x, st') \<Longrightarrow> J (d_am st) \<Longrightarrow> J (d_am st')"
  "e_ps_remove (obeying J env) uuid st = (r, st') \<Longrightarrow> J (d_am st) \<Longrightarrow> J (d_am st')"
  "e_ps_write (obeying J env) uuid parent bs st = (r, st') \<Longrightarrow> J (d_am st) \<Longrightarrow> J (d_am st')"
  by (auto simp: obeying_def Let_def split: option.splits if_splits)

lemma obeying_id:
  assumes "obeys J env"
  shows "obeying J env = env"
proof -
  note o = assms [unfolded obeys_def]
  have 1: "(case e_others env c s of None \<Rightarrow> None | Some s' \<Rightarrow> if J (snd s) \<longrightarrow> J (snd s') then Some s' else None)
      = e_others env c s" for c s
    using o by (cases s; cases "e_others env c s") (auto split: prod.splits)
  have 2: "(case e_ps_load env c pub st of None \<Rightarrow> None
       | Some y \<Rightarrow> if J (d_am st) \<longrightarrow> J (d_am (snd y)) then Some y else None) = e_ps_load env c pub st" for c pub st
    using o by (cases "e_ps_load env c pub st") (auto split: prod.splits)
  show ?thesis using o by (simp add: obeying_def 1 2 Let_def)
qed

section \<open>Interpretations\<close>

lemma check_keeps_slots:
  "check_retry dv i h am = Some (y, am') \<Longrightarrow> i < length (auth_mapper am) \<Longrightarrow> length (auth_mapper am') = length (auth_mapper am)"
  using check_retry_slots same_slots_length by blast

interpretation accounting: session_invariant "accounted :: 't auth_mgr \<Rightarrow> bool"
  "obeying accounted env" for env :: "'t tcsd_env"
proof
  fix am :: "'t auth_mgr" and d
  show "accounted am \<Longrightarrow> accounted (am\<lparr>dev := d\<rparr>)" by (simp add: accounted_def)
next
  fix c h and am am' :: "'t auth_mgr" and r
  show "auth_mgr_add c h am = (r, am') \<Longrightarrow> accounted am \<Longrightarrow> accounted am'" by (rule add_accounted)
qed (auto simp: obeying_simps intro: accounts obeying_obeys check_slots [THEN same_slots_accounted]
    same_slots_accounted [OF woken_slots])

text \<open>The table never gets shorter.\<close>

lemma release_loop_length:
  "release_loop dv h c cont is r am = Some (r', am') \<Longrightarrow> length (auth_mapper am') = length (auth_mapper am)"
proof (induction "is" arbitrary: h c cont r am)
  case (Cons i "is")
  show ?case using Cons.prems
    by (auto simp: Let_def split: if_splits bind_splits dest!: Cons.IH flush_slots [THEN same_slots_length]
        swap_in_slots [THEN same_slots_length] simp: free_slot_def)
qed simp

lemma close_loop_length:
  "close_context_loop dv h is am = Some am' \<Longrightarrow> length (auth_mapper am') = length (auth_mapper am)"
proof (induction "is" arbitrary: h am)
  case (Cons i "is")
  show ?case using Cons.prems
    by (auto simp: Let_def split: if_splits bind_splits option.splits dest!: Cons.IH flush_slots [THEN same_slots_length]
        swap_in_slots [THEN same_slots_length] simp: free_slot_def)
qed simp

interpretation growing: session_invariant "\<lambda>am :: 't auth_mgr. n \<le> length (auth_mapper am)"
  "obeying (\<lambda>am. n \<le> length (auth_mapper am)) env" for n and env :: "'t tcsd_env"
proof
  fix c h and am am' :: "'t auth_mgr" and r
  show "auth_mgr_add c h am = (r, am') \<Longrightarrow> n \<le> length (auth_mapper am) \<Longrightarrow> n \<le> length (auth_mapper am')"
    by (auto simp: auth_mgr_add_def am_alloc_def Let_def split: option.splits if_splits)
next
  fix h c cont and am am' :: "'t auth_mgr" and r
  show "auth_mgr_release_auth_handle (e_dv (obeying (\<lambda>am. n \<le> length (auth_mapper am)) env)) h c cont am = Some (r, am') \<Longrightarrow>
    n \<le> length (auth_mapper am) \<Longrightarrow> n \<le> length (auth_mapper am')"
    by (auto simp: auth_mgr_release_auth_handle_def dest: release_loop_length)
next
  fix c and am am' :: "'t auth_mgr" and r
  show "auth_mgr_close_context (e_dv (obeying (\<lambda>am. n \<le> length (auth_mapper am)) env)) c am = Some (r, am') \<Longrightarrow>
    n \<le> length (auth_mapper am) \<Longrightarrow> n \<le> length (auth_mapper am')"
    by (auto simp: auth_mgr_close_context_def split: bind_splits dest: close_loop_length)
next
  fix c :: u32 and tcs tcs' and am am' :: "'t auth_mgr"
  show "e_others (obeying (\<lambda>am. n \<le> length (auth_mapper am)) env) c (tcs, am) = Some (tcs', am') \<Longrightarrow>
    n \<le> length (auth_mapper am) \<Longrightarrow> n \<le> length (auth_mapper am')" by (rule obeying_obeys)
next
  fix c pub and st st' :: "'t tcsd" and z
  show "e_ps_load (obeying (\<lambda>am. n \<le> length (auth_mapper am)) env) c pub st = Some (z, st') \<Longrightarrow>
    n \<le> length (auth_mapper (d_am st)) \<Longrightarrow> n \<le> length (auth_mapper (d_am st'))" by (rule obeying_obeys)
next
  fix uuid and st st' :: "'t tcsd" and r
  show "e_ps_remove (obeying (\<lambda>am. n \<le> length (auth_mapper am)) env) uuid st = (r, st') \<Longrightarrow>
    n \<le> length (auth_mapper (d_am st)) \<Longrightarrow> n \<le> length (auth_mapper (d_am st'))" by (rule obeying_obeys)
next
  fix uuid parent bs and st st' :: "'t tcsd" and r
  show "e_ps_write (obeying (\<lambda>am. n \<le> length (auth_mapper am)) env) uuid parent bs st = (r, st') \<Longrightarrow>
    n \<le> length (auth_mapper (d_am st)) \<Longrightarrow> n \<le> length (auth_mapper (d_am st'))" by (rule obeying_obeys)
qed (auto dest: check_slots [THEN same_slots_length] check_keeps_slots swap_out_slots [THEN same_slots_length]
    simp: woken_def)

section \<open>Reachable states\<close>

text \<open>A start of the session manager, then any calls, of any clients.\<close>

inductive tcs_runs :: "'t tcsd_env \<Rightarrow> 't tcsd \<Rightarrow> bool" for env where
  start: "auth_mgr_init n (d_am st) = (TSS_SUCCESS, am) \<Longrightarrow> tcs_runs env (st\<lparr>d_am := am\<rparr>)"
| call: "tcs_runs env st \<Longrightarrow> tcs_call env f \<Longrightarrow> f st = Some (r, st') \<Longrightarrow> tcs_runs env st'"

lemma call_accounted:
  assumes "tcs_call env f" "obeys accounted env" "f st = Some (r, st')" "accounted (d_am st)"
  shows "accounted (d_am st')"
proof -
  have "tcs_call (obeying accounted env) f" using assms(1,2) by (simp add: obeying_id)
  from accounting.call_keeps [OF this] show ?thesis using assms(3,4) by (cases r) (auto simp: am_keeps_def)
qed

lemma call_grows:
  assumes "tcs_call env f" "\<And>n. obeys (\<lambda>am. n \<le> length (auth_mapper am)) env" "f st = Some (r, st')"
  shows "length (auth_mapper (d_am st)) \<le> length (auth_mapper (d_am st'))"
proof -
  have "tcs_call (obeying (\<lambda>am. n \<le> length (auth_mapper am)) env) f" for n using assms(1,2) by (simp add: obeying_id)
  then show ?thesis using growing.call_keeps [of "length (auth_mapper (d_am st))" env f] assms(3) by (auto simp: am_keeps_def)
qed

text \<open>C5: every reachable state.  After the start of the session manager and any calls, by any clients, the
  counter of open sessions is the number of entries of the table in use; the other threads are only
  assumed to keep this.\<close>

theorem daemon_session_count:
  assumes "tcs_runs env st" "obeys accounted env"
  shows "open_auth_sessions (d_am st) = of_nat (length (filter am_full (auth_mapper (d_am st))))"
proof -
  have "accounted (d_am st)"
    using assms
  proof (induction rule: tcs_runs.induct)
    case (start n st am)
    then show ?case using init_accounted by simp
  next
    case (call st f r st')
    then show ?case using call_accounted by blast
  qed
  then show ?thesis by (simp add: accounted_def)
qed

section \<open>Commands that release their sessions\<close>

definition closed :: "u32 \<Rightarrow> u32 \<Rightarrow> 't auth_mgr \<Rightarrow> bool" where
  "closed h c am \<longleftrightarrow> (\<forall>e \<in> set (auth_mapper am). \<not> (am_full e \<and> am_tpm_handle e = h \<and> am_tcs_ctx e = c))"

text \<open>Entries of the table, some of them freed.\<close>

definition freed :: "'t auth_mgr \<Rightarrow> 't auth_mgr \<Rightarrow> bool" where
  "freed am am' \<longleftrightarrow> length (auth_mapper am') = length (auth_mapper am) \<and>
     (\<forall>j < length (auth_mapper am). auth_mapper am' ! j = auth_mapper am ! j \<or>
        auth_mapper am' ! j = (auth_mapper am ! j)\<lparr>am_full := False\<rparr>)"

lemma freed_same: "auth_mapper am' = auth_mapper am \<Longrightarrow> freed am am'"
  by (simp add: freed_def)

lemma freed_trans:
  assumes "freed am am1" "freed am1 am2"
  shows "freed am am2"
  unfolding freed_def
proof (intro conjI allI impI)
  show "length (auth_mapper am2) = length (auth_mapper am)" using assms by (simp add: freed_def)
  fix j assume "j < length (auth_mapper am)"
  then have "auth_mapper am1 ! j = auth_mapper am ! j \<or> auth_mapper am1 ! j = (auth_mapper am ! j)\<lparr>am_full := False\<rparr>"
    "auth_mapper am2 ! j = auth_mapper am1 ! j \<or> auth_mapper am2 ! j = (auth_mapper am1 ! j)\<lparr>am_full := False\<rparr>"
    using assms by (simp_all add: freed_def)
  then show "auth_mapper am2 ! j = auth_mapper am ! j \<or> auth_mapper am2 ! j = (auth_mapper am ! j)\<lparr>am_full := False\<rparr>"
    by auto
qed

lemma freed_not_full: "freed am am' \<Longrightarrow> j < length (auth_mapper am) \<Longrightarrow>
   \<not> (am_full (auth_mapper am ! j) \<and> am_tpm_handle (auth_mapper am ! j) = h \<and> am_tcs_ctx (auth_mapper am ! j) = c) \<Longrightarrow>
   \<not> (am_full (auth_mapper am' ! j) \<and> am_tpm_handle (auth_mapper am' ! j) = h \<and> am_tcs_ctx (auth_mapper am' ! j) = c)"
  by (auto simp: freed_def dest!: spec [of _ j])

lemma freed_closed: "freed am am' \<Longrightarrow> closed h c am \<Longrightarrow> closed h c am'"
proof -
  assume f: "freed am am'" and c: "closed h c am"
  show "closed h c am'"
    unfolding closed_def all_set_conv_all_nth
  proof (intro allI impI)
    fix j assume "j < length (auth_mapper am')"
    then have j: "j < length (auth_mapper am)" using f by (simp add: freed_def)
    show "\<not> (am_full (auth_mapper am' ! j) \<and> am_tpm_handle (auth_mapper am' ! j) = h \<and> am_tcs_ctx (auth_mapper am' ! j) = c)"
      by (rule freed_not_full [OF f j]) (use c j in \<open>simp add: closed_def\<close>)
  qed
qed

lemma flush_mapper: "flush_session dv h am = Some (r, am') \<Longrightarrow> auth_mapper am' = auth_mapper am"
  by (auto simp: flush_session_def split: bind_splits)

lemma swap_in_mapper: "auth_mgr_swap_in am = Some am' \<Longrightarrow> auth_mapper am' = auth_mapper am"
  by (auto simp: auth_mgr_swap_in_def split: bind_splits option.splits)

lemma free_slot_freed: "free_slot i am = Some am' \<Longrightarrow> i < length (auth_mapper am) \<Longrightarrow>
   freed am am' \<and> \<not> am_full (auth_mapper am' ! i)"
  by (auto simp: free_slot_def freed_def nth_list_update dest!: swap_in_mapper)

lemma release_loop_frees:
  "release_loop dv h c cont is r am = Some (r', am') \<Longrightarrow> set is \<subseteq> {..<length (auth_mapper am)} \<Longrightarrow>
   freed am am' \<and> (\<forall>j \<in> set is. \<not> (am_full (auth_mapper am' ! j) \<and> am_tpm_handle (auth_mapper am' ! j) = h
     \<and> am_tcs_ctx (auth_mapper am' ! j) = c))"
proof (induction "is" arbitrary: r am)
  case (Cons i "is")
  let ?e = "auth_mapper am ! i"
  have i: "i < length (auth_mapper am)" using Cons.prems(2) by simp
  show ?case
  proof (cases "am_full ?e \<and> am_tpm_handle ?e = h \<and> am_tcs_ctx ?e = c")
    case True
    define x where "x = (if cont then Some (r, am) else flush_session dv (am_tpm_handle ?e) am)"
    have "release_loop dv h c cont (i # is) r am = do { (r, am) \<leftarrow> x; am \<leftarrow> free_slot i am; release_loop dv h c cont is r am }"
      unfolding x_def using True by (simp add: Let_def)
    then obtain r1 am1 am2 where x: "x = Some (r1, am1)" "free_slot i am1 = Some am2"
      "release_loop dv h c cont is r1 am2 = Some (r', am')"
      using Cons.prems(1) by (auto split: bind_splits)
    have m: "auth_mapper am1 = auth_mapper am" using x(1) by (auto simp: x_def split: if_splits dest: flush_mapper)
    note f = free_slot_freed [OF x(2)] i m
    have fr: "freed am am2" "\<not> am_full (auth_mapper am2 ! i)" using f freed_trans freed_same [OF m] by auto
    have l: "length (auth_mapper am2) = length (auth_mapper am)" using fr(1) by (simp add: freed_def)
    have IH: "freed am2 am'" "\<forall>j \<in> set is. \<not> (am_full (auth_mapper am' ! j) \<and> am_tpm_handle (auth_mapper am' ! j) = h
       \<and> am_tcs_ctx (auth_mapper am' ! j) = c)"
      using Cons.IH [OF x(3)] Cons.prems(2) l by simp_all
    have "\<not> am_full (auth_mapper am' ! i)" using IH(1) fr(2) i l by (auto simp: freed_def dest!: spec [of _ i])
    then show ?thesis using IH freed_trans [OF fr(1) IH(1)] by simp
  next
    case False
    then have "release_loop dv h c cont is r am = Some (r', am')"
      using Cons.prems(1) by (simp only: release_loop.simps Let_def if_False)
    from Cons.IH [OF this] Cons.prems(2) have IH: "freed am am'" "\<forall>j \<in> set is. \<not> (am_full (auth_mapper am' ! j) \<and> am_tpm_handle (auth_mapper am' ! j) = h
       \<and> am_tcs_ctx (auth_mapper am' ! j) = c)" by simp_all
    then show ?thesis using freed_not_full [OF IH(1) i False] by simp
  qed
qed (simp add: freed_same)

lemma release_handle_closes:
  assumes "auth_mgr_release_auth_handle dv h c cont am = Some (r, am')"
  shows "freed am am' \<and> closed h c am'"
proof -
  note f = release_loop_frees [OF assms [unfolded auth_mgr_release_auth_handle_def]]
  then have "length (auth_mapper am') = length (auth_mapper am)" by (simp add: freed_def atLeast0LessThan)
  then show ?thesis using f by (auto simp: closed_def atLeast0LessThan all_set_conv_all_nth)
qed

lemma release_auth_closes:
  assumes "auth_mgr_release_auth dv a0 a1 c am = Some am'" "(h, b) \<in> set_option a0 \<union> set_option a1"
  shows "closed h c am'"
proof -
  obtain am1 where r: "(case a0 of None \<Rightarrow> Some am
       | Some (h, cont) \<Rightarrow> map_option snd (auth_mgr_release_auth_handle dv h c cont am)) = Some am1"
    "(case a1 of None \<Rightarrow> Some am1
       | Some (h, cont) \<Rightarrow> map_option snd (auth_mgr_release_auth_handle dv h c cont am1)) = Some am'"
    using assms(1) by (auto simp: auth_mgr_release_auth_def split: bind_splits)
  have "freed am1 am'" using r(2) by (auto split: option.splits dest: release_handle_closes intro: freed_same)
  then show ?thesis using r assms(2) freed_closed
    by (auto split: option.splits dest!: release_handle_closes)
qed

section \<open>Commands that leave only by \<open>goto done\<close>\<close>

definition ends_done :: "(exit \<times> 't tcsd) option \<Rightarrow> bool" where
  "ends_done y \<longleftrightarrow> (\<forall>x st. y = Some (x, st) \<longrightarrow> x = Done (code x))"

named_theorems ends \<open>bodies of commands that end in \<open>goto done\<close>\<close>

lemma ends_checked [ends]:
  "(\<And>r. out r = Done (code (out r))) \<Longrightarrow> (\<And>st. ends_done (k st)) \<Longrightarrow> ends_done (checked f out k st)"
  by (auto simp: ends_done_def checked_def split: bind_splits if_splits)

lemma ends_request [ends]:
  assumes "\<And>r. bad r = Done (code (bad r))" "\<And>blob n st. ends_done (k blob n st)"
  shows "ends_done (request env ordinal args bad k st)"
  using assms by (auto simp: ends_done_def request_def split: bind_splits if_splits)

lemma ends_transact [ends]:
  "(\<And>r. bad r = Done (code (bad r))) \<Longrightarrow> ends_done (transact env ordinal args bad outs st)"
  unfolding transact_def by (rule ends_request) (auto simp: ends_done_def split: bind_splits)

lemma ends_with_key [ends]:
  "(\<And>r. out r = Done (code (out r))) \<Longrightarrow> (\<And>slot st. ends_done (k slot st)) \<Longrightarrow> ends_done (with_key env c h out k st)"
  by (auto simp: ends_done_def with_key_def split: bind_splits if_splits)

lemma ends_if [ends]: "(b \<Longrightarrow> ends_done x) \<Longrightarrow> (\<not> b \<Longrightarrow> ends_done y) \<Longrightarrow> ends_done (if b then x else y)"
  by simp

lemma ends_pair [ends]: "(\<And>a b. p = (a, b) \<Longrightarrow> ends_done (k a b)) \<Longrightarrow> ends_done (case p of (a, b) \<Rightarrow> k a b)"
  by (cases p) simp

lemma ends_option [ends]:
  "ends_done x \<Longrightarrow> (\<And>z. ends_done (k z)) \<Longrightarrow> ends_done (case y of None \<Rightarrow> x | Some z \<Rightarrow> k z)"
  by (cases y) simp_all

lemma ends_bind [ends]: "(\<And>z. ends_done (k z)) \<Longrightarrow> ends_done (Option.bind y k)"
  by (cases y) (simp_all add: ends_done_def)

lemma ends_some [ends]: "ends_done (Some (Done r, st))"
  by (simp add: ends_done_def)

lemma releasing_closes:
  assumes "releasing env c a0 a1 body st = Some (r, st')" "ends_done (body st)" "l \<in> set_option a0 \<union> set_option a1"
  shows "closed (AuthHandle (m_A (d_mem st') l)) c (d_am st')"
proof -
  obtain x st1 am where b: "body st = Some (x, st1)" "x = Done r"
    and r: "auth_mgr_release_auth (e_dv env) (auth_of st1 a0) (auth_of st1 a1) c (d_am st1) = Some am" "st' = st1\<lparr>d_am := am\<rparr>"
    using assms(1,2) by (auto simp: releasing_def release_auth_def ends_done_def split: bind_splits exit.splits)
  have "(AuthHandle (m_A (d_mem st1) l), fContinueAuthSession (m_A (d_mem st1) l) \<noteq> 0)
      \<in> set_option (auth_of st1 a0) \<union> set_option (auth_of st1 a1)"
    using assms(3) by (auto simp: auth_of_def)
  from release_auth_closes [OF r(1) this] show ?thesis by (simp add: r(2))
qed

text \<open>The commands all of whose exits are \<open>goto done\<close>, with the sessions they release.\<close>

inductive closing :: "'t tcsd_env \<Rightarrow> u32 \<Rightarrow> nat option \<Rightarrow> nat option \<Rightarrow> 't command \<Rightarrow> bool" for env where
  "closing env hContext ownerAuth None (TCSP_OwnerSetDisable_Internal env hContext disableState ownerAuth)"
| "closing env hContext ownerAuth None (TCSP_DisableOwnerClear_Internal env hContext ownerAuth)"
| "closing env hContext privAuth None (TCSP_SetRedirection_Internal env hContext keyHandle c1 c2 privAuth)"
| "closing env hContext pSrkAuth pOwnerAuth (TCSP_MakeIdentity_Internal env hContext identityAuth
    IDLabel_PrivCAHash idKeyInfoSize idKeyInfo pSrkAuth pOwnerAuth idKeySize idKey pcIdentityBindingSize
    prgbIdentityBinding pcEndorsementCredentialSize prgbEndorsementCredential pcPlatformCredentialSize
    prgbPlatformCredential pcConformanceCredentialSize prgbConformanceCredential)"
| "closing env hContext pSrkAuth pOwnerAuth (TCSP_MakeIdentity2_Internal env hContext identityAuth
    IDLabel_PrivCAHash idKeyInfoSize idKeyInfo pSrkAuth pOwnerAuth idKeySize idKey pcIdentityBindingSize
    prgbIdentityBinding)"
| "closing env hContext idKeyAuth ownerAuth (TCSP_ActivateTPMIdentity_Internal env hContext idKey blobSize
    blob idKeyAuth ownerAuth SymmetricKeySize SymmetricKey)"
| "closing env hContext pOwnerAuth None (TCSP_GetCapabilityOwner_Internal env hContext pOwnerAuth pVersion
    pNonVolatileFlags pVolatileFlags)"
| "closing env hContext certAuth keyAuth (TCSP_CertifyKey_Internal env hContext certHandle keyHandle
    antiReplay certAuth keyAuth CertifyInfoSize CertifyInfo outDataSize outData)"
| "closing env contextHandle ownerAuth entityAuth (TCSP_ChangeAuth_Internal env contextHandle parentHandle
    protocolID newAuth entityType encDataSize encData ownerAuth entityAuth outDataSize outData)"
| "closing env hContext ownerAuth None (TCSP_ChangeAuthOwner_Internal env hContext protocolID newAuth
    entityType ownerAuth)"
| "closing env hContext ownerAuth None (TCSP_DirWriteAuth_Internal env hContext dirIndex newContents
    ownerAuth)"
| "closing env hContext ownerAuth None (TCSP_DisablePubekRead_Internal env hContext ownerAuth)"
| "closing env hContext ownerAuth None (TCSP_OwnerReadPubek_Internal env hContext ownerAuth
    pubEndorsementKeySize pubEndorsementKey)"
| "closing env hContext ownerAuth None (TCSP_CreateMaintenanceArchive_Internal env hContext generateRandom
    ownerAuth randomSize random archiveSize archive)"
| "closing env hContext pAuth None (TCSP_CreateWrapKey_Internal env hContext hWrappingKey KeyUsageAuth
    KeyMigrationAuth keyInfoSize keyInfo keyDataSize keyData pAuth)"
| "closing env hContext pAuth None (TCSP_GetPubKey_Internal env hContext hKey pAuth pcPubKeySize prgbPubKey)"
| "closing env hContext pOwnerAuth None (TCSP_OwnerReadInternalPub_Internal env hContext hKey pOwnerAuth
    punPubKeySize ppbPubKeyData)"
| "closing env hContext pOwnerAuth None (TCSP_KeyControlOwner_Internal env hContext hTcsKey ulPubKeyLength
    rgbPubKey attribName attribValue pOwnerAuth)"
| "closing env hContext privAuth None (TCSP_Quote_Internal env hContext keyHandle antiReplay pcrDataSizeIn
    pcrDataIn privAuth pcrDataSizeOut pcrDataOut sigSize sig)"
| "closing env hContext privAuth None (TCSP_Quote2_Internal env hContext keyHandle antiReplay
    pcrDataSizeIn pcrDataIn addVersion privAuth pcrDataSizeOut pcrDataOut versionInfoSize versionInfo
    sigSize sig)"
| "closing env hContext ownerAuth None (TCSP_OwnerClear_Internal env hContext ownerAuth)"

lemmas closing_defs =
  TCSP_OwnerSetDisable_Internal_def TCSP_DisableOwnerClear_Internal_def TCSP_SetRedirection_Internal_def
  TCSP_MakeIdentity_Internal_def TCSP_MakeIdentity2_Internal_def TCSP_ActivateTPMIdentity_Internal_def
  TCSP_GetCapabilityOwner_Internal_def TCSP_CertifyKey_Internal_def TCSP_ChangeAuth_Internal_def
  TCSP_ChangeAuthOwner_Internal_def TCSP_DirWriteAuth_Internal_def TCSP_DisablePubekRead_Internal_def
  TCSP_OwnerReadPubek_Internal_def TCSP_CreateMaintenanceArchive_Internal_def
  TCSP_CreateWrapKey_Internal_def TCSP_GetPubKey_Internal_def TCSP_OwnerReadInternalPub_Internal_def
  TCSP_KeyControlOwner_Internal_def TCSP_Quote_Internal_def TCSP_Quote2_Internal_def
  TCSP_OwnerClear_Internal_def

lemma closing_ends:
  "closing env c a0 a1 f \<Longrightarrow> \<exists>body. f = releasing env c a0 a1 body \<and> (\<forall>st. ends_done (body st))"
  by (induction rule: closing.induct)
    (unfold closing_defs Let_def, (rule exI, rule conjI, rule refl, rule allI, (intro ends; simp; fail))+)


section \<open>Sessions that stay in the table\<close>

text \<open>The session of a context that is in the device.\<close>

definition resident :: "u32 \<Rightarrow> u32 \<Rightarrow> 't auth_mgr \<Rightarrow> bool" where
  "resident h c am \<longleftrightarrow> (case first_index (\<lambda>e. am_full e \<and> am_tpm_handle e = h \<and> am_tcs_ctx e = c) (auth_mapper am) of
     None \<Rightarrow> False | Some i \<Rightarrow> am_swap (auth_mapper am ! i) = None)"

lemma resident_check:
  "resident h c am \<Longrightarrow> auth_mgr_check dv cfg tcs c h am = Some (Finished (TSS_SUCCESS, h), am)"
  by (auto simp: resident_def auth_mgr_check_def split: option.splits)

lemma set_auth_handle_id [simp]: "set_auth_handle l (AuthHandle (m_A (d_mem st) l)) st = st"
  by (simp add: set_auth_handle_def)

lemma resident_auth_check:
  "resident (AuthHandle (m_A (d_mem st) l)) c (d_am st) \<Longrightarrow> auth_check env c (Some l) st = Some (TSS_SUCCESS, st)"
  by (simp add: auth_check_def check_handle_def resident_check)

text \<open>Commands that leave by \<open>return\<close> when their request is refused: the request and the session.\<close>

inductive leaving :: "'t tcsd_env \<Rightarrow> u32 \<Rightarrow> nat \<Rightarrow> u32 \<Rightarrow> (rsp_mem \<Rightarrow> va list) \<Rightarrow> 't command \<Rightarrow> bool" for env where
  "leaving env c l TPM_ORD_FieldUpgrade (\<lambda>m. [I n, I n, P data, auth_arg (Some l) m, A None])
     (TCSP_FieldUpgrade_Internal env c n data outSize out (Some l))"
| "leaving env c l TPM_ORD_SetCapability (\<lambda>m. [I area, I n, P sub, I n', P val, auth_arg (Some l) m])
     (TCSP_SetCapability_Internal env c area n sub n' val (Some l))"
| "leaving env c l TPM_ORD_AuthorizeMigrationKey
     (\<lambda>m. [I (ucast (tcpa_scheme True scheme)), I n, P key, auth_arg (Some l) m])
     (TCSP_AuthorizeMigrationKey_Internal env c scheme n key (Some l) outSize out)"
| "leaving env c l TPM_ORD_LoadMaintenanceArchive (\<lambda>m. [I n, I n, P data, auth_arg (Some l) m, A None])
     (TCSP_LoadMaintenanceArchive_Internal env c n data (Some l) outSize out)"
| "leaving env c l TPM_ORD_NV_DefineSpace (\<lambda>m. [I n, P info, I 32, P (Buf enc), auth_arg (Some l) m])
     (TCSP_NV_DefineOrReleaseSpace_Internal env c n info enc (Some l))"
| "leaving env c l TPM_ORD_NV_WriteValue (\<lambda>m. [I h, I ofs, I n, P data, auth_arg (Some l) m])
     (TCSP_NV_WriteValue_Internal env c h ofs n data (Some l))"
| "leaving env c l TPM_ORD_NV_WriteValueAuth (\<lambda>m. [I h, I ofs, I n, P data, auth_arg (Some l) m])
     (TCSP_NV_WriteValueAuth_Internal env c h ofs n data (Some l))"

lemmas leaving_defs =
  TCSP_FieldUpgrade_Internal_def TCSP_SetCapability_Internal_def TCSP_AuthorizeMigrationKey_Internal_def
  TCSP_LoadMaintenanceArchive_Internal_def TCSP_NV_DefineOrReleaseSpace_Internal_def
  TCSP_NV_WriteValue_Internal_def TCSP_NV_WriteValueAuth_Internal_def

text \<open>C33: refused requests.  When \<open>tpm_rqu_build\<close> refuses the request of one of these commands it returns
  that code and the session stays in the table, whatever \<open>fContinueAuthSession\<close> says.\<close>

theorem refused_request_keeps_session:
  assumes "leaving env c l ordinal args f" "ctx_verify_context c (d_tcs st) = TSS_SUCCESS"
    "resident (AuthHandle (m_A (d_mem st) l)) c (d_am st)"
    "tpm_rqu_build ordinal (args (d_mem st)) (0, Some (txBlob env st)) = Some (r, w)" "r \<noteq> 0"
  shows "f st = Some (r, st)"
proof -
  have t: "transact env ordinal args Return outs st = Some (Return r, st)" for outs
    using assms(4,5) by (cases w) (simp add: transact_def request_def)
  show ?thesis using assms(1)
    by cases (use t assms(2,3) in \<open>simp_all add: leaving_defs releasing_def checked_def verify_def opt_auth_check_def resident_auth_check\<close>)
qed

text \<open>The commands on counters that take an authorization.\<close>

inductive counting :: "'t tcsd_env \<Rightarrow> u32 \<Rightarrow> nat \<Rightarrow> 't command \<Rightarrow> bool" for env where
  "counting env c l (TCSP_CreateCounter_Internal env c n label auth (Some l) idCounter val)"
| "counting env c l (TCSP_IncrementCounter_Internal env c idCounter' (Some l) val)"
| "counting env c l (TCSP_ReleaseCounter_Internal env c idCounter' (Some l))"
| "counting env c l (TCSP_ReleaseCounterOwner_Internal env c idCounter' (Some l))"

lemmas counting_defs =
  TCSP_CreateCounter_Internal_def TCSP_IncrementCounter_Internal_def TCSP_ReleaseCounter_Internal_def
  TCSP_ReleaseCounterOwner_Internal_def

interpretation tables: device_invariant "\<lambda>am :: 't auth_mgr. auth_mapper am = es" for es
  by unfold_locales simp

text \<open>C34: counters.  The commands on counters never release their session, not even when the device has
  ended it.\<close>

theorem counters_keep_session:
  assumes "counting env c l f" "f st = Some (r, st')" "resident (AuthHandle (m_A (d_mem st) l)) c (d_am st)"
  shows "auth_mapper (d_am st') = auth_mapper (d_am st)"
proof -
  let ?J = "\<lambda>am. auth_mapper am = auth_mapper (d_am st)"
  have t: "transact env ordinal args bad outs st = Some (x, st') \<Longrightarrow> ?J (d_am st')" for ordinal args bad outs x
    by (erule keepsD [OF _ tables.keeps_transact(1)]) simp
  show ?thesis using assms(1)
    by cases (use assms(2,3) in \<open>auto simp: counting_defs plain_def checked_def verify_def resident_auth_check
      split: bind_splits if_splits dest: t\<close>)
qed

end
