(* ===== verification/Tcsi_Properties.thy ===== *)
theory Tcsi_Properties
  imports Tcsi_Sessions
begin

text \<open>
  Properties of the commands of the daemon: the types of their response arguments, the keys of other contexts,
  the registers of the kernel, the random numbers; and the examples of all properties of the commands.
\<close>

section \<open>Commands whose response is read with arguments of other types\<close>

definition fails :: "(exit \<times> 't tcsd) option \<Rightarrow> bool" where
  "fails y \<longleftrightarrow> (\<forall>x st. y = Some (x, st) \<longrightarrow> code x \<noteq> 0)"

named_theorems failing \<open>bodies of commands that never succeed\<close>

lemma fails_checked [failing]:
  "(\<And>r. code (out r) = r) \<Longrightarrow> (\<And>st. fails (k st)) \<Longrightarrow> fails (checked f out k st)"
  by (auto simp: fails_def checked_def split: bind_splits if_splits)

lemma fails_transact [failing]:
  "(\<And>r. code (bad r) = r) \<Longrightarrow> (\<And>blob n m. tpm_rsp_parse ordinal outs blob n m = None) \<Longrightarrow>
   fails (transact env ordinal args bad outs st)"
  by (auto simp: fails_def transact_def request_def parse_def split: bind_splits if_splits)

lemma fails_with_key [failing]:
  "(\<And>r. r \<noteq> 0 \<Longrightarrow> code (out r) \<noteq> 0) \<Longrightarrow> (\<And>slot st. fails (k slot st)) \<Longrightarrow> fails (with_key env c h out k st)"
  by (auto simp: fails_def with_key_def split: bind_splits if_splits)

lemma fails_if [failing]: "(b \<Longrightarrow> fails x) \<Longrightarrow> (\<not> b \<Longrightarrow> fails y) \<Longrightarrow> fails (if b then x else y)"
  by simp

lemma fails_some [failing]: "code x \<noteq> 0 \<Longrightarrow> fails (Some (x, st))"
  by (simp add: fails_def)

lemma releasing_fails:
  "releasing env c a0 a1 body st = Some (r, st') \<Longrightarrow> fails (body st) \<Longrightarrow> r \<noteq> 0"
  by (auto simp: releasing_def fails_def split: bind_splits exit.splits)

text \<open>Where a \<open>TCM_AUTH_SESSION\<close> is read a \<open>TPM_AUTH\<close> is passed; where two \<open>TPM_AUTH\<close> are read one is
  passed.\<close>

lemma session_expected [simp]:
  "ordinal \<in> set session_ordinals \<Longrightarrow> tpm_rsp_parse ordinal [O32 l, OB b, OA (Some a)] blob n m = None"
  by (simp add: session_case rsp_GetTicks_def)

lemma two_auths_expected [simp]:
  "ordinal \<in> set sized_ordinals \<Longrightarrow> tpm_rsp_parse ordinal [O32 l, OB b, OA a] blob n m = None"
  by (simp add: sized_case rsp_Sign_def)

lemma second_auth_expected [simp]:
  "tpm_rsp_parse TPM_ORD_CreateMaintenanceArchive [O32 l, OB b, O32 l', OB b', OA a] blob n m = None"
  using rsp_case [of "[TPM_ORD_CreateMaintenanceArchive, TPM_ORD_CreateMigrationBlob,
       TPM_ORD_Delegate_ReadTable, TPM_ORD_CMK_CreateBlob]" rsp_CreateMigrationBlob TPM_ORD_CreateMaintenanceArchive]
  by (simp add: rsp_switch_def rsp_CreateMigrationBlob_def)

inductive mistyped :: "'t tcsd_env \<Rightarrow> 't command \<Rightarrow> bool" for env where
  "mistyped env (TCSP_CreateMaintenanceArchive_Internal env c generateRandom a randomSize random archiveSize archive)"
| "mistyped env (TCSP_DaaJoin_internal env c handle stage n0 d0 n1 d1 a outputSize outputData)"
| "mistyped env (TCSP_DaaSign_internal env c handle stage n0 d0 n1 d1 a outputSize outputData)"
| "ordinal = TPM_ORD_Seal \<or> ordinal = TPM_ORD_Sealx \<Longrightarrow>
   mistyped env (TCSP_Seal_Internal env ordinal c h encAuth n pcr n' data a outSize out)"
| "mistyped env (TCSP_FieldUpgrade_Internal env c n data outSize out (Some l))"
| "mistyped env (TCSP_CreateWrapKey_Internal env c h usage migration n info outSize out (Some l))"
| "mistyped env (TCSP_GetPubKey_Internal env c h (Some l) outSize out)"
| "mistyped env (TCSP_OwnerReadPubek_Internal env c (Some l) outSize out)"
| "mistyped env (TCSP_OwnerReadInternalPub_Internal env c h (Some l) outSize out)"
| "mistyped env (TCSP_AuthorizeMigrationKey_Internal env c scheme n key (Some l) outSize out)"
| "mistyped env (TCSP_CMK_CreateKey_Internal env c h usage approval authority outSize out (Some l))"

lemmas mistyped_defs =
  TCSP_CreateMaintenanceArchive_Internal_def TCSP_DaaJoin_internal_def TCSP_DaaSign_internal_def
  TCSP_Seal_Internal_def TCSP_FieldUpgrade_Internal_def TCSP_CreateWrapKey_Internal_def
  TCSP_GetPubKey_Internal_def TCSP_OwnerReadPubek_Internal_def TCSP_OwnerReadInternalPub_Internal_def
  TCSP_AuthorizeMigrationKey_Internal_def

lemma cmk_create_key_fails:
  assumes "TCSP_CMK_CreateKey_Internal env c h usage approval authority outSize out (Some l) st = Some (r, st')"
  shows "r \<noteq> 0"
proof -
  have "TPM_ORD_CMK_CreateKey \<in> set session_ordinals" by (simp add: session_ordinals_def)
  then show ?thesis using assms
    by (auto simp: TCSP_CMK_CreateKey_Internal_def releasing_def parse_def Let_def
        split: bind_splits if_splits exit.splits)
qed

text \<open>C23: types of arguments.  None of these calls, with an authorization, ever succeeds: it fails before
  the response is read, or reading the response takes arguments of another type from the list.\<close>

theorem mistyped_never_succeeds:
  assumes "mistyped env f" "f st = Some (r, st')"
  shows "r \<noteq> 0"
  using assms
proof (induction rule: mistyped.induct)
  case (11 c h usage approval authority outSize out l)
  then show ?case by (rule cmk_create_key_fails)
qed (unfold mistyped_defs Let_def, (auto simp: session_ordinals_def sized_ordinals_def split: if_splits
      elim!: releasing_fails intro!: failing)+)

section \<open>Keys of other contexts\<close>

text \<open>What the other threads do while a command sleeps does not load the key for the context.\<close>

definition undisturbed :: "'t tcsd_env \<Rightarrow> u32 \<Rightarrow> u32 \<Rightarrow> bool" where
  "undisturbed env c h \<longleftrightarrow> (\<forall>s k s'. e_others env k s = Some s' \<longrightarrow> ctx_has_key_loaded c h (fst s') \<longrightarrow> ctx_has_key_loaded c h (fst s))"

definition refuses :: "u32 \<Rightarrow> u32 \<Rightarrow> 't body \<Rightarrow> bool" where
  "refuses c h body \<longleftrightarrow> (\<forall>st x st'. \<not> ctx_has_key_loaded c h (d_tcs st) \<longrightarrow> body st = Some (x, st') \<longrightarrow> code x \<noteq> 0)"

definition leaves_key :: "u32 \<Rightarrow> u32 \<Rightarrow> 't command \<Rightarrow> bool" where
  "leaves_key c h f \<longleftrightarrow> (\<forall>st r st'. f st = Some (r, st') \<longrightarrow> ctx_has_key_loaded c h (d_tcs st') \<longrightarrow> ctx_has_key_loaded c h (d_tcs st))"

named_theorems refusing \<open>commands that refuse the key of another context\<close>

lemma refuses_checked [refusing]:
  "leaves_key c h f \<Longrightarrow> (\<And>r. code (out r) = r) \<Longrightarrow> refuses c h k \<Longrightarrow> refuses c h (checked f out k)"
  by (fastforce simp: refuses_def leaves_key_def checked_def split: bind_splits if_splits)

lemma refuses_with_key [refusing]:
  "(\<And>r. r \<noteq> 0 \<Longrightarrow> code (out r) \<noteq> 0) \<Longrightarrow> refuses c h (with_key env c h out k)"
  by (auto simp: refuses_def with_key_def ensureKeyIsLoaded_def)

lemma leaves_verify [refusing]: "leaves_key c h (verify c')"
  by (simp add: leaves_key_def verify_def)

lemma check_handle_leaves:
  "undisturbed env c h \<Longrightarrow> check_handle env c' a st = Some (x, st') \<Longrightarrow> ctx_has_key_loaded c h (d_tcs st') \<Longrightarrow>
   ctx_has_key_loaded c h (d_tcs st)"
  by (fastforce simp: check_handle_def undisturbed_def split: bind_splits outcome.splits if_splits)

lemma d_tcs_set_auth_handle [simp]: "d_tcs (set_auth_handle l h st) = d_tcs st"
  by (simp add: set_auth_handle_def)

lemma leaves_auth_check [refusing]: "undisturbed env c h \<Longrightarrow> leaves_key c h (auth_check env c' a)"
  by (auto simp: leaves_key_def auth_check_def split: bind_splits dest: check_handle_leaves)

lemma leaves_opt_auth_check [refusing]: "undisturbed env c h \<Longrightarrow> leaves_key c h (opt_auth_check env c' a)"
  using leaves_auth_check by (fastforce simp: leaves_key_def opt_auth_check_def)

lemma releasing_refuses:
  "releasing env c' a0 a1 body st = Some (r, st') \<Longrightarrow> \<not> ctx_has_key_loaded c h (d_tcs st) \<Longrightarrow> refuses c h body \<Longrightarrow> r \<noteq> 0"
  by (fastforce simp: releasing_def refuses_def split: bind_splits exit.splits)

lemma plain_refuses:
  "plain body st = Some (r, st') \<Longrightarrow> \<not> ctx_has_key_loaded c h (d_tcs st) \<Longrightarrow> refuses c h body \<Longrightarrow> r \<noteq> 0"
  by (auto simp: plain_def refuses_def split: bind_splits)

lemma guarded_refuses:
  "(if b then Some (r', st) else y) = Some (r, st') \<Longrightarrow> r' \<noteq> 0 \<Longrightarrow> (y = Some (r, st') \<Longrightarrow> r \<noteq> 0) \<Longrightarrow> r \<noteq> 0"
  for r :: u32
  by (cases b) auto

text \<open>The commands on a key that go through \<open>ensureKeyIsLoaded\<close>: the context and the handle.\<close>

inductive key_command :: "'t tcsd_env \<Rightarrow> u32 \<Rightarrow> u32 \<Rightarrow> 't command \<Rightarrow> bool" for env where
  "key_command env hContext hKey (TCSP_GetPubKey_Internal env hContext hKey pAuth pcPubKeySize prgbPubKey)"
| "key_command env hContext keyHandle (TCSP_SetRedirection_Internal env hContext keyHandle c1 c2 privAuth)"
| "key_command env hContext idKey (TCSP_ActivateTPMIdentity_Internal env hContext idKey blobSize blob
    idKeyAuth ownerAuth SymmetricKeySize SymmetricKey)"
| "key_command env hContext keyHandle (TCSP_GetAuditDigestSigned_Internal env hContext keyHandle
    closeAudit antiReplay privAuth counterValueSize counterValue auditDigest ordinalDigest sigSize sig)"
| "key_command env hContext keyHandle (TCSP_UnBind_Internal env hContext keyHandle inDataSize inData
    privAuth outDataSize outData)"
| "key_command env hContext certHandle (TCSP_CertifyKey_Internal env hContext certHandle keyHandle
    antiReplay certAuth keyAuth CertifyInfoSize CertifyInfo outDataSize outData)"
| "key_command env contextHandle parentHandle (TCSP_ChangeAuth_Internal env contextHandle parentHandle
    protocolID newAuth entityType encDataSize encData ownerAuth entityAuth outDataSize outData)"
| "key_command env hContext hKey (TCSP_Delegate_CreateKeyDelegation_Internal env hContext hKey
    publicInfoSize publicInfo encDelAuth keyAuth blobSize blob)"
| "key_command env hContext keyHandle (TCSP_DSAP_Internal env hContext entityType keyHandle nonceOddDSAP
    entityValueSize entityValue authHandle nonceEven nonceEvenDSAP)"
| "key_command env hContext parentHandle (TCSP_CreateMigrationBlob_Internal env hContext parentHandle
    migrationType MigrationKeyAuthSize MigrationKeyAuth encDataSize encData parentAuth entityAuth
    randomSize random outDataSize outData)"
| "key_command env hContext parentHandle (TCSP_ConvertMigrationBlob_Internal env hContext parentHandle
    inDataSize inData randomSize random parentAuth outDataSize outData)"
| "key_command env hContext keyHandle (TCSP_Quote_Internal env hContext keyHandle antiReplay pcrDataSizeIn
    pcrDataIn privAuth pcrDataSizeOut pcrDataOut sigSize sig)"
| "key_command env hContext keyHandle (TCSP_Quote2_Internal env hContext keyHandle antiReplay
    pcrDataSizeIn pcrDataIn addVersion privAuth pcrDataSizeOut pcrDataOut versionInfoSize versionInfo
    sigSize sig)"
| "key_command env hContext keyHandle (TCSP_Seal_Internal env sealOrdinal hContext keyHandle encAuth
    pcrInfoSize PcrInfo inDataSize inData pubAuth SealedDataSize SealedData)"
| "key_command env hContext parentHandle (TCSP_Unseal_Internal env hContext parentHandle SealedDataSize
    SealedData parentAuth dataAuth DataSize Data)"
| "key_command env hContext keyHandle (TCSP_CertifySelfTest_Internal env hContext keyHandle antiReplay
    privAuth sigSize sig)"
| "key_command env hContext keyHandle (TCSP_Sign_Internal env hContext keyHandle areaToSignSize areaToSign
    privAuth sigSize sig)"
| "key_command env hContext hKey (TCSP_TickStampBlob_Internal env hContext hKey antiReplay digestToStamp
    privAuth pulSignatureLength prgbSignature pulTickCountLength prgbTickCount)"

lemmas key_command_defs =
  TCSP_GetPubKey_Internal_def TCSP_SetRedirection_Internal_def TCSP_ActivateTPMIdentity_Internal_def
  TCSP_GetAuditDigestSigned_Internal_def TCSP_UnBind_Internal_def TCSP_CertifyKey_Internal_def
  TCSP_ChangeAuth_Internal_def TCSP_Delegate_CreateKeyDelegation_Internal_def TCSP_DSAP_Internal_def
  TCSP_CreateMigrationBlob_Internal_def TCSP_ConvertMigrationBlob_Internal_def TCSP_Quote_Internal_def
  TCSP_Quote2_Internal_def TCSP_Seal_Internal_def TCSP_Unseal_Internal_def TCSP_CertifySelfTest_Internal_def
  TCSP_Sign_Internal_def TCSP_TickStampBlob_Internal_def

text \<open>C8: keys of other contexts.  A command that goes through \<open>ensureKeyIsLoaded\<close> never succeeds for a
  client that has not loaded the key itself.\<close>

theorem foreign_key_refused:
  assumes "key_command env c h f" "undisturbed env c h" "\<not> ctx_has_key_loaded c h (d_tcs st)" "f st = Some (r, st')"
  shows "r \<noteq> 0"
  using assms
proof (induction rule: key_command.induct)
qed (unfold key_command_defs Let_def, ((erule guarded_refuses, simp)?, (erule releasing_refuses | erule plain_refuses),
    assumption, (intro refusing; simp; fail))+)

section \<open>Registers of the kernel and the firmware\<close>

text \<open>C35: registers of the kernel and the firmware.  Extending one of them is refused before anything is
  sent to the device.\<close>

theorem extend_protects_pcrs:
  assumes "unat n < 31" "(e_kernel_pcrs env OR e_firmware_pcrs env) AND push_bit (unat n) 1 \<noteq> 0"
    "TCSP_Extend_Internal env c n d out st = Some (r, st')"
  shows "r \<noteq> 0 \<and> st' = st"
proof -
  have "e_kernel_pcrs env AND push_bit (unat n) 1 \<noteq> 0 \<or> e_firmware_pcrs env AND push_bit (unat n) 1 \<noteq> 0"
    using assms(2) by (auto simp: bit.conj_disj_distrib2)
  then show ?thesis using assms(1,3)
    by (auto simp: TCSP_Extend_Internal_def plain_def checked_def verify_def pcr_masked_def split: bind_splits if_splits)
qed

section \<open>The second round of \<open>TCSP_GetRandom_Internal\<close>\<close>

lemma put_same:
  assumes "k + n \<le> length buf" "0 < n" "length buf < 2 ^ 64"
  shows "put (take n (drop k buf)) (of_nat k, Some buf) = Some (of_nat (k + n), Some buf)"
proof -
  have "unat (of_nat k :: u64) = k" using assms by (simp add: unat_of_nat take_bit_eq_mod)
  moreover have "take k buf @ take n (drop k buf) @ drop (k + n) buf = buf"
    by (metis add.commute append_take_drop_id drop_drop)
  moreover have "min (length buf - k) n = n" using assms by simp
  ultimately show ?thesis using assms by (simp add: put.simps poke_def wr_def write_at_def)
qed

lemma random_request_at:
  assumes "28 \<le> length buf" "length buf < 2 ^ 64"
  shows "tpm_rqu_build TPM_ORD_GetRandom [I n, A None] (14, Some buf) = Some (TSS_SUCCESS,
    (28, Some (be16 0xC1 @ be32 28 @ be32 TPM_ORD_GetRandom @ take 14 (drop 10 buf) @ be32 n @ drop 28 buf)), [])"
proof -
  let ?stale = "take 14 (drop 10 buf)"
  have "put (?stale @ be32 n) (10, Some buf) = put (be32 n) (24, Some buf)"
    using put_same [of 10 14 buf] assms by (simp flip: put_put)
  then have 1: "put (be32 n) (24, Some buf) \<bind> (\<lambda>w. rqu_header 0xC1 TPM_ORD_GetRandom w \<bind> f) =
      f (28, Some (be16 0xC1 @ be32 28 @ be32 TPM_ORD_GetRandom @ (?stale @ be32 n) @ drop 28 buf))"
    for f :: "wst \<Rightarrow> (u32 \<times> wst \<times> va list) option"
    using put_header [where bs = "?stale @ be32 n" and buf = buf and t = "0xC1" and n = "TPM_ORD_GetRandom" and f = f] assms
    by simp
  have "tpm_rqu_build TPM_ORD_GetRandom [I n, A None] (14, Some buf) =
      put (be32 n) (24, Some buf) \<bind> (\<lambda>w. rqu_header 0xC1 TPM_ORD_GetRandom w \<bind> (\<lambda>w. Some (TSS_SUCCESS, w, [])))"
    by (simp add: tpm_rqu_build_def rqu_switch_def pbg_OwnerReadInternalPub_def send_def opt_auth_def no_auth_def tcs_prims)
  then show ?thesis by (simp add: 1)
qed

lemma random_request_first:
  assumes "tpm_rqu_build TPM_ORD_GetRandom [I n, A None] (0, Some buf) = Some (r, (ofs, b), rest)"
  shows "ofs = 14"
  using assms by (auto simp: tpm_rqu_build_def rqu_switch_def pbg_OwnerReadInternalPub_def send_def opt_auth_def no_auth_def
      tcs_prims put.simps poke_def split: bind_splits)

lemma random_round_offset:
  "random_round env l p 0 buf tot st = Some ((More ofs buf' tot', x), st') \<Longrightarrow> ofs = 14"
  by (fastforce simp: random_round_def Let_def split: bind_splits if_splits dest: random_request_first)

text \<open>The second round of \<open>TCSP_GetRandom_Internal\<close>.  The offset is not set back: the second request
  is 28 bytes long, with 14 bytes of the first response between its header and its argument.\<close>

theorem random_second_request:
  assumes "random_round env l p 0 buf tot st = Some ((More ofs buf' tot', x), st')"
    "28 \<le> length buf'" "length buf' < 2 ^ 64"
  shows "tpm_rqu_build TPM_ORD_GetRandom [I n, A None] (ofs, Some buf') = Some (TSS_SUCCESS,
    (28, Some (be16 0xC1 @ be32 28 @ be32 TPM_ORD_GetRandom @ take 14 (drop 10 buf') @ be32 n @ drop 28 buf')), [])"
  using random_request_at [OF assms(2,3)] by (simp add: random_round_offset [OF assms(1)])

section \<open>Examples\<close>

definition ex_env :: "'t dev_ops \<Rightarrow> 't tcsd_env" where
  "ex_env dv = \<lparr>e_dv = dv, e_cfg = \<lparr>authctx_swap = False, num_threads = 10\<rparr>, e_others = (\<lambda>c s. Some s),
     e_num_pcrs = 24, e_num_dirs = 1, e_kernel_pcrs = 0x100, e_firmware_pcrs = 0, e_runlevel = 0x33,
     e_version12 = True, e_exclusive = False, e_little = True, e_hdr = [0, 0, 0, 0], e_slot = 0,
     e_ps_load = (\<lambda>c pub st. Some ((TCSERR TSS_E_FAIL, 0), st)),
     e_ps_remove = (\<lambda>uuid st. (TSS_SUCCESS, st)), e_ps_write = (\<lambda>uuid parent bs st. (TSS_SUCCESS, st)),
     e_credential = (\<lambda>t. None)\<rparr>"

text \<open>A daemon with one context and sessions of this and of another context.\<close>

definition ex_daemon :: "u32 list \<Rightarrow> 't tddl \<Rightarrow> 't tcsd" where
  "ex_daemon cs d = \<lparr>d_tcs = ex_tcs2,
     d_am = (Tcs_Auth_Mgr.ex_auth [] [None, None, None] 0 0 0 d)
       \<lparr>auth_mapper := map (\<lambda>c. \<lparr>am_full = True, am_tpm_handle = 7, am_tcs_ctx = c, am_swap = None\<rparr>) cs\<rparr>,
     d_mem = ex_mem\<rparr>"

lemma ex_daemon_simps [simp]:
  "d_tcs (ex_daemon cs d) = ex_tcs2" "dev (d_am (ex_daemon cs d)) = d" "d_mem (ex_daemon cs d) = ex_mem"
  "auth_mapper (d_am (ex_daemon cs d)) = map (\<lambda>c. \<lparr>am_full = True, am_tpm_handle = 7, am_tcs_ctx = c, am_swap = None\<rparr>) cs"
  by (simp_all add: ex_daemon_def Tcs_Auth_Mgr.ex_auth_def)

lemma ex_context:
  "ctx_verify_context 0xA0000000 ex_tcs2 = TSS_SUCCESS" "ctx_verify_context 5 ex_tcs2 = TCSERR TCS_E_INVALID_CONTEXTHANDLE"
  by (simp_all add: ctx_verify_context_def get_context_def ex_tcs2_table)

lemma ex_handle [simp]: "AuthHandle (m_A ex_mem l) = 7" "fContinueAuthSession (m_A ex_mem l) = 1"
  by (simp_all add: ex_mem_def Tcs_Pbg.ex_auth_def)

lemma ex_resident: "resident 7 0xA0000000 (d_am (ex_daemon [5, 0xA0000000] d))"
  by (simp add: resident_def)


theorem mistyped_never_succeeds_witness:
  "\<exists>r st'. TCSP_GetPubKey_Internal (ex_env calm) 0xA0000000 9 (Some 0) (Some 0) (Some 0)
     (ex_daemon [5] calm_tddl) = Some (r, st') \<and> r \<noteq> 0"
proof -
  let ?f = "TCSP_GetPubKey_Internal (ex_env calm) 0xA0000000 9 (Some 0) (Some 0) (Some 0)"
  obtain r st' where "?f (ex_daemon [5] calm_tddl) = Some (r, st')"
    by (simp add: TCSP_GetPubKey_Internal_def releasing_def checked_def verify_def ex_context release_auth_def auth_of_def
        auth_mgr_release_auth_def auth_mgr_release_auth_handle_def opt_auth_check_def auth_check_def check_handle_def
        auth_mgr_check_def set_auth_handle_def)
  moreover have "mistyped (ex_env calm) ?f" by (rule mistyped.intros)
  ultimately show ?thesis using mistyped_never_succeeds by blast
qed

theorem refused_request_keeps_session_witness:
  "TCSP_NV_WriteValueAuth_Internal (ex_env calm) 0xA0000000 1 0 4 NULL (Some 0) (ex_daemon [5, 0xA0000000] calm_tddl) =
     Some (TCSERR TSS_E_INTERNAL_ERROR, ex_daemon [5, 0xA0000000] calm_tddl)"
proof -
  let ?st = "ex_daemon [5, 0xA0000000] calm_tddl"
  have "tpm_rqu_build TPM_ORD_NV_WriteValueAuth [I 1, I 0, I 4, P NULL, auth_arg (Some 0) (d_mem ?st)]
      (0, Some (txBlob (ex_env calm) ?st)) = Some (TCSERR TSS_E_INTERNAL_ERROR, (0, Some (txBlob (ex_env calm) ?st)), [])"
    by (simp add: tpm_rqu_build_def rqu_switch_def pbg_NV_WriteValue_def auth_arg_def)
  from refused_request_keeps_session [OF leaving.intros(7) _ _ this] show ?thesis
    by (simp add: ex_context ex_resident)
qed

theorem counters_keep_session_witness:
  "\<exists>r st'. TCSP_CreateCounter_Internal (ex_env calm) 0xA0000000 4 NULL [] (Some 0) None None
     (ex_daemon [5, 0xA0000000] calm_tddl) = Some (r, st')
     \<and> auth_mapper (d_am st') = auth_mapper (d_am (ex_daemon [5, 0xA0000000] calm_tddl))"
proof -
  let ?f = "TCSP_CreateCounter_Internal (ex_env calm) 0xA0000000 4 NULL [] (Some 0) None None"
  let ?st = "ex_daemon [5, 0xA0000000] calm_tddl"
  have "auth_check (ex_env calm) 0xA0000000 (Some 0) ?st = Some (TSS_SUCCESS, ?st)"
    by (rule resident_auth_check) (simp add: ex_resident)
  then obtain r st' where f: "?f ?st = Some (r, st')"
    by (simp add: TCSP_CreateCounter_Internal_def plain_def checked_def verify_def ex_context transact_def request_def
        tpm_rqu_build_def rqu_switch_def pbg_CreateCounter_def auth_arg_def)
  have "counting (ex_env calm) 0xA0000000 0 ?f" by (rule counting.intros)
  from counters_keep_session [OF this f] f ex_resident show ?thesis by auto
qed

theorem foreign_key_refused_witness:
  "\<exists>r st'. TCSP_Sign_Internal (ex_env calm) 0xA0000000 9 4 (Buf [1, 2, 3, 4]) None (Some 0) (Some 0)
     (ex_daemon [] calm_tddl) = Some (r, st') \<and> r \<noteq> 0"
proof -
  let ?f = "TCSP_Sign_Internal (ex_env calm) 0xA0000000 9 4 (Buf [1, 2, 3, 4]) None (Some 0) (Some 0)"
  have k: "\<not> ctx_has_key_loaded 0xA0000000 9 (d_tcs (ex_daemon [] calm_tddl))"
    by (simp add: ctx_has_key_loaded_def get_context_def ex_tcs2_table)
  then obtain r st' where f: "?f (ex_daemon [] calm_tddl) = Some (r, st')"
    by (simp add: TCSP_Sign_Internal_def releasing_def checked_def verify_def ex_context opt_auth_check_def with_key_def
        ensureKeyIsLoaded_def release_auth_def auth_of_def auth_mgr_release_auth_def)
  have "key_command (ex_env calm) 0xA0000000 9 ?f" by (rule key_command.intros)
  moreover have "undisturbed (ex_env calm) 0xA0000000 9" by (simp add: undisturbed_def ex_env_def)
  ultimately show ?thesis using foreign_key_refused [of "ex_env calm" "0xA0000000" 9 ?f, OF _ _ k f] f by blast
qed

theorem extend_protects_pcrs_witness:
  "\<exists>r st'. TCSP_Extend_Internal (ex_env calm) 0xA0000000 8 (replicate 32 1) (Some 0) (ex_daemon [] calm_tddl) = Some (r, st')
     \<and> r \<noteq> 0 \<and> st' = ex_daemon [] calm_tddl"
proof -
  let ?f = "TCSP_Extend_Internal (ex_env calm) 0xA0000000 8 (replicate 32 1) (Some 0)"
  obtain r st' where f: "?f (ex_daemon [] calm_tddl) = Some (r, st')"
    by (simp add: TCSP_Extend_Internal_def plain_def checked_def verify_def ex_context ex_env_def pcr_masked_def)
  show ?thesis using extend_protects_pcrs [OF _ _ f] f by (simp add: ex_env_def)
qed

lemma obeys_ex_env: "obeys accounted (ex_env dv)"
  by (simp add: obeys_def ex_env_def)

text \<open>A daemon after its start, and a session opened for its context.\<close>

theorem daemon_session_count_witness:
  "\<exists>st :: u8 list list tcsd. tcs_runs (ex_env script) st \<and> open_auth_sessions (d_am st) = 1
     \<and> open_auth_sessions (d_am st) = of_nat (length (filter am_full (auth_mapper (d_am st))))"
proof -
  let ?d = "ex_tddl [answer 0 (be32 7 @ replicate 32 1)]"
  let ?s0 = "ex_daemon [] ?d" and ?env = "ex_env script"
  obtain am1 where i: "auth_mgr_init 3 (d_am ?s0) = (TSS_SUCCESS, am1)" and am1: "open_auth_sessions am1 = 0"
    "auth_mapper am1 = replicate 16 empty_map" "dev am1 = ?d" "max_auth_sessions am1 = 3"
    by (simp add: auth_mgr_init_def am_alloc_def Let_def ex_daemon_def Tcs_Auth_Mgr.ex_auth_def)
  obtain d where d: "TCSP_OIAP_Internal script 0 (dev am1) = Some (Inr (7, replicate 32 1), d)"
    using oiap_example am1(3) by auto
  let ?am1 = "am1\<lparr>dev := d\<rparr>"
  have "first_index (\<lambda>e. \<not> am_full e) (auth_mapper ?am1) = Some 0"
    using am1(2) by (simp add: numeral_eq_Suc empty_map_def)
  then obtain am2 where am2: "auth_mgr_add 0xA0000000 7 ?am1 = (TSS_SUCCESS, am2)" "open_auth_sessions am2 = 1"
    using am1(1) by (auto simp: auth_mgr_add_def)
  have "open_session (TCSP_OIAP_Internal script 0) 0xA0000000 am1 = Some (Inr (7, replicate 32 1), am2)"
    using d am2(1) by (simp add: open_session_def)
  moreover have "auth_mgr_req_new 0xA0000000 am1" using am1 by (simp add: auth_mgr_req_new_def empty_map_def)
  ultimately have "quiet (oiap_session ?env 0xA0000000) (?s0\<lparr>d_am := am1\<rparr>) = Some (TSS_SUCCESS, ?s0\<lparr>d_am := am2\<rparr>)"
    by (simp add: quiet_def oiap_session_def waited_def auth_mgr_oiap_def request_session_def ex_context ex_env_def)
  moreover have "tcs_call ?env (quiet (oiap_session ?env 0xA0000000))" by (rule tcs_call.intros)
  ultimately have "tcs_runs ?env (?s0\<lparr>d_am := am2\<rparr>)" using tcs_runs.call [OF tcs_runs.start [OF i]] by blast
  with daemon_session_count [OF this obeys_ex_env] am2(2) show ?thesis by auto
qed

text \<open>A device that gives two of four bytes.\<close>

theorem random_second_request_witness:
  "\<exists>ofs buf x st'. random_round (ex_env script) 0 0 0 (replicate 4096 0) 0
       (ex_daemon [] (ex_tddl [answer 0 (be32 2 @ [1, 2])])\<lparr>d_mem := ex_mem\<lparr>m_32 := (\<lambda>_. 4)\<rparr>\<rparr>)
         = Some ((More ofs buf 2, x), st')
     \<and> tpm_rqu_build TPM_ORD_GetRandom [I 2, A None] (ofs, Some buf) = Some (TSS_SUCCESS,
         (28, Some (be16 0xC1 @ be32 28 @ be32 TPM_ORD_GetRandom @ take 14 (drop 10 buf) @ be32 2 @ drop 28 buf)), [])"
proof -
  let ?r = "answer 0 (be32 2 @ [1, 2])" and ?buf = "replicate 4096 (0 :: u8)"
  let ?d = "ex_tddl [?r]"
  let ?st = "ex_daemon [] ?d\<lparr>d_mem := ex_mem\<lparr>m_32 := (\<lambda>_. 4)\<rparr>\<rparr>"
  let ?b = "be16 0xC1 @ be32 14 @ be32 TPM_ORD_GetRandom @ be32 4 @ drop 14 ?buf"
  have q: "tpm_rqu_build TPM_ORD_GetRandom [I 4, A None] (0, Some ?buf) = Some (TSS_SUCCESS, (14, Some ?b), [])"
    by (simp add: tpm_rqu_build_def rqu_switch_def pbg_OwnerReadInternalPub_def send_def opt_auth_def no_auth_def tcs_prims
        put_header)
  have b: "length ?b = TSS_TPM_TXBLOB_SIZE" "Decode_UINT32 (read_at ?b 2 4) = 14"
    by (simp_all add: read_at_append1 read_at_append2)
  obtain d where t: "Tddli_TransmitData script ?b (Decode_UINT32 (read_at ?b 2 4)) 4096 ?d = Some ((0, of_nat (length ?r), ?r), d)"
    using script_transmit [of ?r ?d "[]" ?b 14] b by (auto simp: ex_tddl_def)
  let ?tx = "?r @ drop (length ?r) ?b"
  have "length (be32 2 @ [1, 2 :: u8]) \<le> 4086" by simp
  from submit_req_response [OF b(1) t answer_response [OF this]]
  have s: "req_mgr_submit_req script ?b ?d = Some ((0, ?tx), d)" by simp
  have h: "UnloadBlob_Header ?tx = Some (0, 16)"
    by (simp add: UnloadBlob_Header_def answer_def rd_def read_at_append1 read_at_append2)
  have rd: "rd ?tx 10 4 = Some (be32 2)" "rd ?tx 14 2 = Some [1, 2]"
    by (simp_all add: answer_def rd_def read_at_append1 read_at_append2) (simp add: read_at_def)
  have p: "tpm_rsp_parse TPM_ORD_GetRandom [O32 (Some 0), OB (Some 0), OA None, OA None] ?tx 16 (frame (d_mem ?st)) =
      Some (TSS_SUCCESS, (frame (d_mem ?st))\<lparr>m_32 := (\<lambda>_. 0)(0 := 2), m_B := (\<lambda>_. NULL)(0 := Buf [1, 2]),
        m_count := 1, m_live := 1\<rparr>)"
    using rd by (simp add: sized_case sized_ordinals_def rsp_Sign_def rsp_auths_def rsp_auth_def sized_blob_def get_32_def
        UnloadBlob_UINT32_def malloc_to_def copy_to_def UnloadBlob_def frame_def ex_mem_def wr_def write_at_def)
  obtain x st' where r: "random_round (ex_env script) 0 0 0 ?buf 0 ?st = Some ((More 14 ?tx 2, x), st')"
    using q s h p by (simp add: random_round_def Let_def ex_env_def set_dev_def realloc_to_def malloc_to_def unframe_def
        frame_def copy_front_def wr_def write_at_def ex_mem_def)
  have "28 \<le> length ?tx" "length ?tx < 2 ^ 64" by simp_all
  from random_second_request [OF r this, of 2] r show ?thesis by blast
qed

end
