(* ===== verification/Rpc_Packet.thy ===== *)
theory Rpc_Packet
  imports Tcsi_Sessions
begin

text \<open>
  The packets that the client library and the daemon exchange (\<open>include/rpc_tcstp.h\<close>,
  \<open>include/tcsd_wrap.h\<close>), with the two implementations of \<open>initData\<close>, \<open>loadData\<close>, \<open>setData\<close> and
  \<open>getData\<close>: that of the daemon in \<open>tcs/rpc/tcstp/rpc.c\<close>, that of the client in
  \<open>tspi/rpc/tcstp/rpc.c\<close> (names with \<open>tspi_\<close>).

  A packet is a header, one type byte per parameter, and the parameters one after the other.  The
  theories \<open>Rpc_Roundtrip\<close> to \<open>Rpc_Transfer\<close> show that a packet built by \<open>setData\<close> is read back by \<open>getData\<close>,
  type by type, in both directions; the type \<open>AUTH\<close> is the exception, on which the two sides disagree.
\<close>

section \<open>Types and structures\<close>

datatype ptype = PT_BYTE | PT_BOOL | PT_UINT16 | PT_UINT32 | PT_PBYTE | PT_KEY | PT_NONCE | PT_AUTH | PT_DIGEST
  | PT_UUID | PT_ENCAUTH | PT_VERSION | PT_KM_KEYINFO | PT_KM_KEYINFO2 | PT_LOADKEY_INFO | PT_PCR_EVENT
  | PT_COUNTER_VALUE | PT_UINT64 | PT_SECRET | PT_AUTH_DATA

fun ptype_code :: "ptype \<Rightarrow> u8" where
  "ptype_code PT_BYTE = 0" | "ptype_code PT_BOOL = 1" | "ptype_code PT_UINT16 = 2" | "ptype_code PT_UINT32 = 3"
| "ptype_code PT_PBYTE = 4" | "ptype_code PT_KEY = 5" | "ptype_code PT_NONCE = 6" | "ptype_code PT_AUTH = 7"
| "ptype_code PT_DIGEST = 8" | "ptype_code PT_UUID = 9" | "ptype_code PT_ENCAUTH = 10" | "ptype_code PT_VERSION = 11"
| "ptype_code PT_KM_KEYINFO = 12" | "ptype_code PT_KM_KEYINFO2 = 13" | "ptype_code PT_LOADKEY_INFO = 14"
| "ptype_code PT_PCR_EVENT = 15" | "ptype_code PT_COUNTER_VALUE = 16" | "ptype_code PT_UINT64 = 17"
| "ptype_code PT_SECRET = 18" | "ptype_code PT_AUTH_DATA = 19"

text \<open>The header; \<open>hdr_u\<close> is the union of the ordinal of a request and the result of a response.  The
  length of the buffer is \<open>buf_size\<close>.\<close>

record tcsd_packet_hdr =
  packet_size :: u32
  hdr_u :: u32
  num_parms :: u32
  type_size :: u32
  type_offset :: u32
  parm_size :: u32
  parm_offset :: u32

record tcsd_comm_data =
  buf :: "u8 list"
  hdr :: tcsd_packet_hdr

abbreviation (input) HDR_SIZE :: nat where "HDR_SIZE \<equiv> 28"
abbreviation (input) TSS_TCP_RPC_BAD_PACKET_TYPE :: u32 where "TSS_TCP_RPC_BAD_PACKET_TYPE \<equiv> 0x10000000"

record TCS_LOADKEY_INFO =
  li_keyUUID :: TSS_UUID
  li_parentKeyUUID :: TSS_UUID
  li_paramDigest :: "u8 list"
  li_authData :: TPM_AUTH

text \<open>
  What the pointer \<open>theData\<close> points to.  \<open>DA\<close> is a structure that is one array of 32 bytes (a nonce,
  a digest, a secret).  \<open>DSession\<close> is a \<open>TCM_AUTH_SESSION\<close>, its second argument the 41 bytes that it
  has where a \<open>TPM_AUTH\<close> has the first 20 of \<open>NonceEven\<close>, the flag, and the first 20 of \<open>HMAC\<close>.
\<close>

datatype datum = D8 u8 | D16 u16 | D32 u32 | D64 u64 | DP ptr | DA "u8 list" | DAuth TPM_AUTH
  | DSession TCM_AUTH_SESSION "u8 list" | DUuid TSS_UUID | DVersion TCPA_VERSION | DEvent TSS_PCR_EVENT
  | DCounter TPM_COUNTER_VALUE | DLoadkey TCS_LOADKEY_INFO | DKeyinfo TSS_KM_KEYINFO | DKeyinfo2 TSS_KM_KEYINFO2

text \<open>Reading through the pointer as a type; as another type than the object has it is undefined.\<close>

definition as_8 :: "datum \<Rightarrow> u8 option" where "as_8 d = (case d of D8 x \<Rightarrow> Some x | _ \<Rightarrow> None)"
definition as_16 :: "datum \<Rightarrow> u16 option" where "as_16 d = (case d of D16 x \<Rightarrow> Some x | _ \<Rightarrow> None)"
definition as_32 :: "datum \<Rightarrow> u32 option" where "as_32 d = (case d of D32 x \<Rightarrow> Some x | _ \<Rightarrow> None)"
definition as_64 :: "datum \<Rightarrow> u64 option" where "as_64 d = (case d of D64 x \<Rightarrow> Some x | _ \<Rightarrow> None)"
definition as_ptr :: "datum \<Rightarrow> ptr option" where "as_ptr d = (case d of DP p \<Rightarrow> Some p | _ \<Rightarrow> None)"
definition as_arr :: "datum \<Rightarrow> u8 list option" where "as_arr d = (case d of DA a \<Rightarrow> Some a | _ \<Rightarrow> None)"
definition as_uuid :: "datum \<Rightarrow> TSS_UUID option" where "as_uuid d = (case d of DUuid x \<Rightarrow> Some x | _ \<Rightarrow> None)"
definition as_version :: "datum \<Rightarrow> TCPA_VERSION option" where
  "as_version d = (case d of DVersion x \<Rightarrow> Some x | _ \<Rightarrow> None)"
definition as_event :: "datum \<Rightarrow> TSS_PCR_EVENT option" where "as_event d = (case d of DEvent x \<Rightarrow> Some x | _ \<Rightarrow> None)"
definition as_counter :: "datum \<Rightarrow> TPM_COUNTER_VALUE option" where
  "as_counter d = (case d of DCounter x \<Rightarrow> Some x | _ \<Rightarrow> None)"
definition as_loadkey :: "datum \<Rightarrow> TCS_LOADKEY_INFO option" where
  "as_loadkey d = (case d of DLoadkey x \<Rightarrow> Some x | _ \<Rightarrow> None)"
definition as_keyinfo :: "datum \<Rightarrow> TSS_KM_KEYINFO option" where
  "as_keyinfo d = (case d of DKeyinfo x \<Rightarrow> Some x | _ \<Rightarrow> None)"
definition as_keyinfo2 :: "datum \<Rightarrow> TSS_KM_KEYINFO2 option" where
  "as_keyinfo2 d = (case d of DKeyinfo2 x \<Rightarrow> Some x | _ \<Rightarrow> None)"

lemmas as_defs = as_8_def as_16_def as_32_def as_64_def as_ptr_def as_arr_def as_uuid_def as_version_def
  as_event_def as_counter_def as_loadkey_def as_keyinfo_def as_keyinfo2_def

section \<open>Writing a parameter: the daemon\<close>

fun LoadBlob_BYTE :: "u8 \<Rightarrow> wst \<Rightarrow> wst option" where
  "LoadBlob_BYTE data (off, blob) = do { blob \<leftarrow> poke off [data] blob; Some (off + 1, blob) }"

fun LoadBlob_UINT64 :: "u64 \<Rightarrow> wst \<Rightarrow> wst option" where
  "LoadBlob_UINT64 i (off, blob) = do { blob \<leftarrow> poke off (UINT64ToArray i) blob; Some (off + 8, blob) }"

definition LoadBlob_VERSION :: "TCPA_VERSION \<Rightarrow> wst \<Rightarrow> wst option" where
  "LoadBlob_VERSION v w = do {
     w \<leftarrow> LoadBlob_BYTE (ver_major v) w; w \<leftarrow> LoadBlob_BYTE (ver_minor v) w;
     w \<leftarrow> LoadBlob_BYTE (ver_revMajor v) w; LoadBlob_BYTE (ver_revMinor v) w }"

definition LoadBlob_UUID :: "TSS_UUID \<Rightarrow> wst \<Rightarrow> wst option" where
  "LoadBlob_UUID u w = do {
     w \<leftarrow> LoadBlob_UINT32 (uuid_ulTimeLow u) w; w \<leftarrow> LoadBlob_UINT16 (uuid_usTimeMid u) w;
     w \<leftarrow> LoadBlob_UINT16 (uuid_usTimeHigh u) w; w \<leftarrow> LoadBlob_BYTE (uuid_bClockSeqHigh u) w;
     w \<leftarrow> LoadBlob_BYTE (uuid_bClockSeqLow u) w; LoadBlob 6 (Buf (uuid_rgbNode u)) w }"

definition LoadBlob_LOADKEY_INFO :: "TCS_LOADKEY_INFO \<Rightarrow> wst \<Rightarrow> wst option" where
  "LoadBlob_LOADKEY_INFO i w = do {
     w \<leftarrow> LoadBlob_UUID (li_keyUUID i) w; w \<leftarrow> LoadBlob_UUID (li_parentKeyUUID i) w;
     w \<leftarrow> LoadBlob 32 (Buf (li_paramDigest i)) w;
     w \<leftarrow> LoadBlob_UINT32 (AuthHandle (li_authData i)) w;
     w \<leftarrow> LoadBlob 32 (Buf (NonceOdd (li_authData i))) w;
     w \<leftarrow> LoadBlob 32 (Buf (NonceEven (li_authData i))) w;
     w \<leftarrow> LoadBlob_BOOL (fContinueAuthSession (li_authData i)) w;
     LoadBlob 32 (Buf (HMAC (li_authData i))) w }"

definition LoadBlob_KM_KEYINFO :: "TSS_KM_KEYINFO \<Rightarrow> wst \<Rightarrow> wst option" where
  "LoadBlob_KM_KEYINFO i w = do {
     w \<leftarrow> LoadBlob_VERSION (as_TCPA_VERSION (ki_versionInfo i)) w;
     w \<leftarrow> LoadBlob_UUID (ki_keyUUID i) w; w \<leftarrow> LoadBlob_UUID (ki_parentKeyUUID i) w;
     w \<leftarrow> LoadBlob_BYTE (ki_bAuthDataUsage i) w; w \<leftarrow> LoadBlob_BOOL (ki_fIsLoaded i) w;
     w \<leftarrow> LoadBlob_UINT32 (ki_ulVendorDataLength i) w;
     LoadBlob (ki_ulVendorDataLength i) (ki_rgbVendorData i) w }"

definition LoadBlob_KM_KEYINFO2 :: "TSS_KM_KEYINFO2 \<Rightarrow> wst \<Rightarrow> wst option" where
  "LoadBlob_KM_KEYINFO2 i w = do {
     w \<leftarrow> LoadBlob_VERSION (as_TCPA_VERSION (ki2_versionInfo i)) w;
     w \<leftarrow> LoadBlob_UUID (ki2_keyUUID i) w; w \<leftarrow> LoadBlob_UUID (ki2_parentKeyUUID i) w;
     w \<leftarrow> LoadBlob_BYTE (ki2_bAuthDataUsage i) w;
     w \<leftarrow> LoadBlob_UINT32 (ki2_persistentStorageType i) w;
     w \<leftarrow> LoadBlob_UINT32 (ki2_persistentStorageTypeParent i) w;
     w \<leftarrow> LoadBlob_BOOL (ki2_fIsLoaded i) w;
     w \<leftarrow> LoadBlob_UINT32 (ki2_ulVendorDataLength i) w;
     LoadBlob (ki2_ulVendorDataLength i) (ki2_rgbVendorData i) w }"

definition LoadBlob_PCR_EVENT :: "TSS_PCR_EVENT \<Rightarrow> wst \<Rightarrow> wst option" where
  "LoadBlob_PCR_EVENT e w = do {
     w \<leftarrow> LoadBlob_VERSION (as_TCPA_VERSION (ev_versionInfo e)) w;
     w \<leftarrow> LoadBlob_UINT32 (ev_ulPcrIndex e) w; w \<leftarrow> LoadBlob_UINT32 (ev_eventType e) w;
     w \<leftarrow> LoadBlob_UINT32 (ev_ulPcrValueLength e) w;
     w \<leftarrow> (if 0 < ev_ulPcrValueLength e then LoadBlob (ev_ulPcrValueLength e) (ev_rgbPcrValue e) w else Some w);
     w \<leftarrow> LoadBlob_UINT32 (ev_ulEventLength e) w;
     if 0 < ev_ulEventLength e then LoadBlob (ev_ulEventLength e) (ev_rgbEvent e) w else Some w }"

text \<open>20 bytes of the nonce and of the authorization value, though both have 32.\<close>

definition LoadBlob_Auth_Special :: "TPM_AUTH \<Rightarrow> wst \<Rightarrow> wst option" where
  "LoadBlob_Auth_Special a w = do {
     w \<leftarrow> LoadBlob 20 (Buf (NonceEven a)) w;
     w \<leftarrow> LoadBlob_BOOL (fContinueAuthSession a) w;
     LoadBlob 20 (Buf (HMAC a)) w }"

definition LoadBlob_TCM_Auth_Special :: "TCM_AUTH_SESSION \<Rightarrow> wst \<Rightarrow> wst option" where
  "LoadBlob_TCM_Auth_Special s w = do {
     w \<leftarrow> LoadBlob_UINT32 (ts_authHandle s) w; LoadBlob 32 (Buf (ts_HMAC s)) w }"

text \<open>The caller passes a \<open>TCM_AUTH_SESSION\<close> to the type \<open>AUTH\<close> as well; it is read as a \<open>TPM_AUTH\<close>.\<close>

definition loadData :: "ptype \<Rightarrow> datum \<Rightarrow> u32 \<Rightarrow> wst \<Rightarrow> (u32 \<times> wst) option" where
  "loadData data_type data data_size w = (case data_type of
     PT_BYTE \<Rightarrow> do { x \<leftarrow> as_8 data; w \<leftarrow> LoadBlob_BYTE x w; Some (TSS_SUCCESS, w) }
   | PT_BOOL \<Rightarrow> do { x \<leftarrow> as_8 data; w \<leftarrow> LoadBlob_BOOL x w; Some (TSS_SUCCESS, w) }
   | PT_UINT16 \<Rightarrow> do { x \<leftarrow> as_16 data; w \<leftarrow> LoadBlob_UINT16 x w; Some (TSS_SUCCESS, w) }
   | PT_UINT32 \<Rightarrow> do { x \<leftarrow> as_32 data; w \<leftarrow> LoadBlob_UINT32 x w; Some (TSS_SUCCESS, w) }
   | PT_UINT64 \<Rightarrow> do { x \<leftarrow> as_64 data; w \<leftarrow> LoadBlob_UINT64 x w; Some (TSS_SUCCESS, w) }
   | PT_PBYTE \<Rightarrow> do { p \<leftarrow> as_ptr data; w \<leftarrow> LoadBlob data_size p w; Some (TSS_SUCCESS, w) }
   | PT_NONCE \<Rightarrow> do { a \<leftarrow> as_arr data; w \<leftarrow> LoadBlob 32 (Buf a) w; Some (TSS_SUCCESS, w) }
   | PT_DIGEST \<Rightarrow> do { a \<leftarrow> as_arr data; w \<leftarrow> LoadBlob 32 (Buf a) w; Some (TSS_SUCCESS, w) }
   | PT_AUTH \<Rightarrow> (case data of DAuth a \<Rightarrow> do { w \<leftarrow> LoadBlob_Auth_Special a w; Some (TSS_SUCCESS, w) }
       | DSession s other \<Rightarrow> do { w \<leftarrow> LoadBlob 41 (Buf other) w; Some (TSS_SUCCESS, w) }
       | _ \<Rightarrow> None)
   | PT_UUID \<Rightarrow> do { u \<leftarrow> as_uuid data; w \<leftarrow> LoadBlob_UUID u w; Some (TSS_SUCCESS, w) }
   | PT_KM_KEYINFO \<Rightarrow> do { i \<leftarrow> as_keyinfo data; w \<leftarrow> LoadBlob_KM_KEYINFO i w; Some (TSS_SUCCESS, w) }
   | PT_KM_KEYINFO2 \<Rightarrow> do { i \<leftarrow> as_keyinfo2 data; w \<leftarrow> LoadBlob_KM_KEYINFO2 i w; Some (TSS_SUCCESS, w) }
   | PT_LOADKEY_INFO \<Rightarrow> do { i \<leftarrow> as_loadkey data; w \<leftarrow> LoadBlob_LOADKEY_INFO i w; Some (TSS_SUCCESS, w) }
   | PT_ENCAUTH \<Rightarrow> do { a \<leftarrow> as_arr data; w \<leftarrow> LoadBlob 32 (Buf a) w; Some (TSS_SUCCESS, w) }
   | PT_VERSION \<Rightarrow> do { v \<leftarrow> as_version data; w \<leftarrow> LoadBlob_VERSION v w; Some (TSS_SUCCESS, w) }
   | PT_PCR_EVENT \<Rightarrow> do { e \<leftarrow> as_event data; w \<leftarrow> LoadBlob_PCR_EVENT e w; Some (TSS_SUCCESS, w) }
   | PT_SECRET \<Rightarrow> do { a \<leftarrow> as_arr data; w \<leftarrow> LoadBlob 32 (Buf a) w; Some (TSS_SUCCESS, w) }
   | PT_AUTH_DATA \<Rightarrow> do { a \<leftarrow> as_arr data; w \<leftarrow> LoadBlob 32 (Buf a) w; Some (TSS_SUCCESS, w) }
   | _ \<Rightarrow> Some (TCSERR TSS_E_INTERNAL_ERROR, w))"

section \<open>Writing a parameter: the client\<close>

definition LoadBlob_TCM_AUTH :: "TCM_AUTH_SESSION \<Rightarrow> wst \<Rightarrow> wst option" where
  "LoadBlob_TCM_AUTH s w = do {
     w \<leftarrow> Trspi_LoadBlob_UINT32 (ts_authHandle s) w; Trspi_LoadBlob 32 (Buf (ts_HMAC s)) w }"

definition tspi_LoadBlob_LOADKEY_INFO :: "TCS_LOADKEY_INFO \<Rightarrow> wst \<Rightarrow> wst option" where
  "tspi_LoadBlob_LOADKEY_INFO i w = do {
     w \<leftarrow> Trspi_LoadBlob_UUID (li_keyUUID i) w; w \<leftarrow> Trspi_LoadBlob_UUID (li_parentKeyUUID i) w;
     w \<leftarrow> Trspi_LoadBlob 32 (Buf (li_paramDigest i)) w;
     w \<leftarrow> Trspi_LoadBlob_UINT32 (AuthHandle (li_authData i)) w;
     w \<leftarrow> Trspi_LoadBlob 32 (Buf (NonceOdd (li_authData i))) w;
     w \<leftarrow> Trspi_LoadBlob 32 (Buf (NonceEven (li_authData i))) w;
     w \<leftarrow> Trspi_LoadBlob_BOOL (fContinueAuthSession (li_authData i)) w;
     Trspi_LoadBlob 32 (Buf (HMAC (li_authData i))) w }"

text \<open>A \<open>TPM_AUTH\<close> is shorter than the offset of the handle in a \<open>TCM_AUTH_SESSION\<close>: the type \<open>AUTH\<close>
  reads beyond it.  A secret is sent with 20 bytes.\<close>

definition tspi_loadData :: "ptype \<Rightarrow> datum \<Rightarrow> u32 \<Rightarrow> wst \<Rightarrow> (u32 \<times> wst) option" where
  "tspi_loadData data_type data data_size w = (case data_type of
     PT_BYTE \<Rightarrow> do { x \<leftarrow> as_8 data; w \<leftarrow> Trspi_LoadBlob_BYTE x w; Some (TSS_SUCCESS, w) }
   | PT_BOOL \<Rightarrow> do { x \<leftarrow> as_8 data; w \<leftarrow> Trspi_LoadBlob_BOOL x w; Some (TSS_SUCCESS, w) }
   | PT_UINT16 \<Rightarrow> do { x \<leftarrow> as_16 data; w \<leftarrow> Trspi_LoadBlob_UINT16 x w; Some (TSS_SUCCESS, w) }
   | PT_UINT32 \<Rightarrow> do { x \<leftarrow> as_32 data; w \<leftarrow> Trspi_LoadBlob_UINT32 x w; Some (TSS_SUCCESS, w) }
   | PT_PBYTE \<Rightarrow> do { p \<leftarrow> as_ptr data; w \<leftarrow> Trspi_LoadBlob (unat (scast data_size :: u64)) p w; Some (TSS_SUCCESS, w) }
   | PT_NONCE \<Rightarrow> do { a \<leftarrow> as_arr data; w \<leftarrow> Trspi_LoadBlob 32 (Buf a) w; Some (TSS_SUCCESS, w) }
   | PT_DIGEST \<Rightarrow> do { a \<leftarrow> as_arr data; w \<leftarrow> Trspi_LoadBlob 32 (Buf a) w; Some (TSS_SUCCESS, w) }
   | PT_AUTH \<Rightarrow> (case data of DSession s other \<Rightarrow> do { w \<leftarrow> LoadBlob_TCM_AUTH s w; Some (TSS_SUCCESS, w) }
       | _ \<Rightarrow> None)
   | PT_UUID \<Rightarrow> do { u \<leftarrow> as_uuid data; w \<leftarrow> Trspi_LoadBlob_UUID u w; Some (TSS_SUCCESS, w) }
   | PT_ENCAUTH \<Rightarrow> do { a \<leftarrow> as_arr data; w \<leftarrow> Trspi_LoadBlob 32 (Buf a) w; Some (TSS_SUCCESS, w) }
   | PT_VERSION \<Rightarrow> do { v \<leftarrow> as_version data; w \<leftarrow> Trspi_LoadBlob_TCPA_VERSION v w; Some (TSS_SUCCESS, w) }
   | PT_LOADKEY_INFO \<Rightarrow> do { i \<leftarrow> as_loadkey data; w \<leftarrow> tspi_LoadBlob_LOADKEY_INFO i w; Some (TSS_SUCCESS, w) }
   | PT_PCR_EVENT \<Rightarrow> do { e \<leftarrow> as_event data; w \<leftarrow> Trspi_LoadBlob_PCR_EVENT e w; Some (TSS_SUCCESS, w) }
   | PT_COUNTER_VALUE \<Rightarrow> do { c \<leftarrow> as_counter data; w \<leftarrow> Trspi_LoadBlob_COUNTER_VALUE c w; Some (TSS_SUCCESS, w) }
   | PT_SECRET \<Rightarrow> do { a \<leftarrow> as_arr data; w \<leftarrow> Trspi_LoadBlob 20 (Buf a) w; Some (TSS_SUCCESS, w) }
   | PT_AUTH_DATA \<Rightarrow> do { a \<leftarrow> as_arr data; w \<leftarrow> Trspi_LoadBlob 32 (Buf a) w; Some (TSS_SUCCESS, w) }
   | _ \<Rightarrow> Some (TSPERR TSS_E_INTERNAL_ERROR, w))"

section \<open>Reading a parameter: the daemon\<close>

definition UnloadBlob_BOOL :: "u64 \<Rightarrow> u8 list \<Rightarrow> (u8 \<times> u64) option" where
  "UnloadBlob_BOOL off blob = do { bs \<leftarrow> rd blob (unat off) 1; Some (hd bs, off + 1) }"

definition UnloadBlob_UUID :: "u64 \<Rightarrow> u8 list \<Rightarrow> (TSS_UUID \<times> u64) option" where
  "UnloadBlob_UUID off blob = do {
     (a, off) \<leftarrow> UnloadBlob_UINT32 off blob; (b, off) \<leftarrow> UnloadBlob_UINT16 off blob;
     (c, off) \<leftarrow> UnloadBlob_UINT16 off blob; (d, off) \<leftarrow> UnloadBlob_BYTE off blob;
     (e, off) \<leftarrow> UnloadBlob_BYTE off blob; (f, off) \<leftarrow> UnloadBlob off 6 blob;
     Some (\<lparr>uuid_ulTimeLow = a, uuid_usTimeMid = b, uuid_usTimeHigh = c, uuid_bClockSeqHigh = d,
       uuid_bClockSeqLow = e, uuid_rgbNode = f\<rparr>, off) }"

definition read_VERSION :: "u64 \<Rightarrow> u8 list \<Rightarrow> (TCPA_VERSION \<times> u64) option" where
  "read_VERSION off blob = do {
     (a, off) \<leftarrow> UnloadBlob_BYTE off blob; (b, off) \<leftarrow> UnloadBlob_BYTE off blob;
     (c, off) \<leftarrow> UnloadBlob_BYTE off blob; (d, off) \<leftarrow> UnloadBlob_BYTE off blob;
     Some (\<lparr>ver_major = a, ver_minor = b, ver_revMajor = c, ver_revMinor = d\<rparr>, off) }"

definition UnloadBlob_LOADKEY_INFO :: "u64 \<Rightarrow> u8 list \<Rightarrow> (TCS_LOADKEY_INFO \<times> u64) option" where
  "UnloadBlob_LOADKEY_INFO off blob = do {
     (k, off) \<leftarrow> UnloadBlob_UUID off blob; (p, off) \<leftarrow> UnloadBlob_UUID off blob;
     (d, off) \<leftarrow> UnloadBlob off 32 blob; (h, off) \<leftarrow> UnloadBlob_UINT32 off blob;
     (odd, off) \<leftarrow> UnloadBlob off 32 blob; (even, off) \<leftarrow> UnloadBlob off 32 blob;
     (c, off) \<leftarrow> UnloadBlob_BOOL off blob; (m, off) \<leftarrow> UnloadBlob off 32 blob;
     Some (\<lparr>li_keyUUID = k, li_parentKeyUUID = p, li_paramDigest = d,
       li_authData = \<lparr>AuthHandle = h, NonceOdd = odd, NonceEven = even, fContinueAuthSession = c, HMAC = m\<rparr>\<rparr>, off) }"

text \<open>With a NULL place only the offset moves.\<close>

definition UnloadBlob_LOADKEY_INFO_NULL :: "u64 \<Rightarrow> u64" where
  "UnloadBlob_LOADKEY_INFO_NULL off = off + 16 + 16 + 32 + 4 + 32 + 32 + 1 + 32"

definition UnloadBlob_PCR_EVENT_NULL :: "u64 \<Rightarrow> u8 list \<Rightarrow> u64 option" where
  "UnloadBlob_PCR_EVENT_NULL off blob = do {
     (n, off) \<leftarrow> UnloadBlob_UINT32 (off + 12) blob;
     (n, off) \<leftarrow> UnloadBlob_UINT32 (off + ucast n) blob;
     Some (off + ucast n) }"

definition malloc_mem :: "nat \<Rightarrow> rsp_mem \<Rightarrow> ptr \<times> rsp_mem" where
  "malloc_mem n m = (if m_ok m (m_count m)
     then (Buf (replicate n 0), m\<lparr>m_count := Suc (m_count m), m_live := m_live m + 1\<rparr>)
     else (NULL, m\<lparr>m_count := Suc (m_count m)\<rparr>))"

definition malloc_read :: "u32 \<Rightarrow> u64 \<Rightarrow> u8 list \<Rightarrow> rsp_mem \<Rightarrow> (ptr option \<times> u64 \<times> rsp_mem) option" where
  "malloc_read n off blob m = (if n = 0 then Some (Some NULL, off, m)
     else let (p, m) = malloc_mem (unat n) m
       in if p = NULL then Some (None, off, m)
          else do { (bs, off) \<leftarrow> UnloadBlob off n blob; Some (Some (Buf bs), off, m) })"

text \<open>The result, with the event read so far when there is no memory: then the first array is released, its
  pointer kept.\<close>

definition UnloadBlob_PCR_EVENT ::
  "u64 \<Rightarrow> u8 list \<Rightarrow> TSS_PCR_EVENT \<Rightarrow> rsp_mem \<Rightarrow> ((u32 \<times> TSS_PCR_EVENT) \<times> u64 \<times> rsp_mem) option" where
  "UnloadBlob_PCR_EVENT off blob e m = do {
     (v, off) \<leftarrow> read_VERSION off blob; (i, off) \<leftarrow> UnloadBlob_UINT32 off blob;
     (t, off) \<leftarrow> UnloadBlob_UINT32 off blob; (n, off) \<leftarrow> UnloadBlob_UINT32 off blob;
     let e = e\<lparr>ev_versionInfo := as_TSS_VERSION v, ev_ulPcrIndex := i, ev_eventType := t, ev_ulPcrValueLength := n\<rparr>;
     (p, off, m) \<leftarrow> malloc_read n off blob m;
     case p of None \<Rightarrow> Some ((TCSERR TSS_E_OUTOFMEMORY, e\<lparr>ev_rgbPcrValue := NULL\<rparr>), off, m)
     | Some p \<Rightarrow> do {
         (n, off) \<leftarrow> UnloadBlob_UINT32 off blob;
         let e = e\<lparr>ev_rgbPcrValue := p, ev_ulEventLength := n\<rparr>;
         (q, off, m) \<leftarrow> malloc_read n off blob m;
         case q of None \<Rightarrow> Some ((TCSERR TSS_E_OUTOFMEMORY, e\<lparr>ev_rgbPcrValue := dangle p, ev_rgbEvent := NULL\<rparr>), off,
             m\<lparr>m_live := m_live m - int (pallocs p)\<rparr>)
         | Some q \<Rightarrow> Some ((TSS_SUCCESS, e\<lparr>ev_rgbEvent := q\<rparr>), off, m) } }"

text \<open>The check of a parameter of \<open>n\<close> bytes, and reading it into the object when it passes.  The offset is
  64 bits wide.\<close>

definition checked_get ::
  "u64 \<Rightarrow> tcsd_comm_data \<Rightarrow> datum \<Rightarrow> (datum \<times> u64) option \<Rightarrow> ((u32 \<times> datum) \<times> u64) option" where
  "checked_get n comm old read =
     (if ucast (packet_size (hdr comm)) < ucast (parm_offset (hdr comm)) + n
      then Some ((TCSERR TSS_E_INTERNAL_ERROR, old), ucast (parm_offset (hdr comm)))
      else do { (d, off) \<leftarrow> read; Some ((TSS_SUCCESS, d), off) })"

text \<open>
  The parameter at the offset of the packet as \<open>dataType\<close>.  A \<open>TPM_AUTH\<close> as the place of an
  \<open>AUTH\<close> is overrun: the handle of a \<open>TCM_AUTH_SESSION\<close> lies beyond its end.  A \<open>KM_KEYINFO\<close> is
  read with the arguments of \<open>UnloadBlob_BYTE\<close> exchanged, through a NULL pointer.
\<close>

definition unload_parm ::
  "ptype \<Rightarrow> datum \<Rightarrow> u32 \<Rightarrow> tcsd_comm_data \<Rightarrow> rsp_mem \<Rightarrow> (((u32 \<times> datum) \<times> u64) \<times> rsp_mem) option" where
  "unload_parm dataType theData theDataSize comm m =
     (let b = buf comm; off = ucast (parm_offset (hdr comm)) :: u64;
          get = (\<lambda>n r. map_option (\<lambda>x. (x, m)) (checked_get n comm theData r));
          arr = get 32 (do { a \<leftarrow> as_arr theData; (x, off) \<leftarrow> UnloadBlob off 32 b; Some (DA x, off) })
      in case dataType of
        PT_BYTE \<Rightarrow> get 1 (do { y \<leftarrow> as_8 theData; (x, off) \<leftarrow> UnloadBlob_BYTE off b; Some (D8 x, off) })
      | PT_BOOL \<Rightarrow> get 1 (do { y \<leftarrow> as_8 theData; (x, off) \<leftarrow> UnloadBlob_BOOL off b; Some (D8 x, off) })
      | PT_UINT16 \<Rightarrow> get 2 (do { y \<leftarrow> as_16 theData; (x, off) \<leftarrow> UnloadBlob_UINT16 off b; Some (D16 x, off) })
      | PT_UINT32 \<Rightarrow> get 4 (do { y \<leftarrow> as_32 theData; (x, off) \<leftarrow> UnloadBlob_UINT32 off b; Some (D32 x, off) })
      | PT_PBYTE \<Rightarrow> get (scast theDataSize) (do {
          p \<leftarrow> as_ptr theData;
          if theDataSize = 0 then Some (DP p, off)
          else do {
            (x, off) \<leftarrow> UnloadBlob off theDataSize b;
            d \<leftarrow> (case p of Buf d \<Rightarrow> wr d 0 x | _ \<Rightarrow> None);
            Some (DP (Buf d), off) } })
      | PT_NONCE \<Rightarrow> arr | PT_DIGEST \<Rightarrow> arr | PT_ENCAUTH \<Rightarrow> arr | PT_SECRET \<Rightarrow> arr | PT_AUTH_DATA \<Rightarrow> arr
      | PT_AUTH \<Rightarrow> get (4 + 32) (case theData of
          DSession s other \<Rightarrow> do {
            (h, off) \<leftarrow> UnloadBlob_UINT32 off b; (x, off) \<leftarrow> UnloadBlob off 32 b;
            Some (DSession (s\<lparr>ts_authHandle := h, ts_HMAC := x\<rparr>) other, off) }
        | _ \<Rightarrow> None)
      | PT_VERSION \<Rightarrow> get 4 (do { y \<leftarrow> as_version theData; (x, off) \<leftarrow> read_VERSION off b; Some (DVersion x, off) })
      | PT_KM_KEYINFO \<Rightarrow> None
      | PT_LOADKEY_INFO \<Rightarrow> get (UnloadBlob_LOADKEY_INFO_NULL off - off) (do {
          y \<leftarrow> as_loadkey theData; (x, off) \<leftarrow> UnloadBlob_LOADKEY_INFO off b; Some (DLoadkey x, off) })
      | PT_UUID \<Rightarrow> get 16 (do { y \<leftarrow> as_uuid theData; (x, off) \<leftarrow> UnloadBlob_UUID off b; Some (DUuid x, off) })
      | PT_PCR_EVENT \<Rightarrow> do {
          e \<leftarrow> as_event theData;
          stop \<leftarrow> UnloadBlob_PCR_EVENT_NULL off b;
          if ucast (packet_size (hdr comm)) < stop then Some (((TCSERR TSS_E_INTERNAL_ERROR, theData), off), m)
          else do { ((result, e), off, m) \<leftarrow> UnloadBlob_PCR_EVENT off b e m; Some (((result, DEvent e), off), m) } }
      | _ \<Rightarrow> Some (((TCSERR TSS_E_INTERNAL_ERROR, theData), off), m))"

text \<open>The type byte is read at the offset that the packet claims, without a check.\<close>

definition getData ::
  "ptype \<Rightarrow> u32 \<Rightarrow> datum \<Rightarrow> u32 \<Rightarrow> tcsd_comm_data \<Rightarrow> rsp_mem \<Rightarrow> ((u32 \<times> datum) \<times> tcsd_comm_data \<times> rsp_mem) option" where
  "getData dataType index theData theDataSize comm m =
     (if num_parms (hdr comm) \<le> index then Some ((TSS_TCP_RPC_BAD_PACKET_TYPE, theData), comm, m)
      else do {
        t \<leftarrow> rd (buf comm) (unat (type_offset (hdr comm)) + unat index) 1;
        if t \<noteq> [ptype_code dataType] then Some ((TSS_TCP_RPC_BAD_PACKET_TYPE, theData), comm, m)
        else do {
          (((result, d), off), m) \<leftarrow> unload_parm dataType theData theDataSize comm m;
          if result \<noteq> 0 then Some ((result, d), comm, m)
          else Some ((TSS_SUCCESS, d),
            comm\<lparr>hdr := (hdr comm)\<lparr>parm_offset := ucast off,
              parm_size := parm_size (hdr comm) - ucast (off - ucast (parm_offset (hdr comm)))\<rparr>\<rparr>, m) } })"

section \<open>Reading a parameter: the client\<close>

text \<open>The readers of the client use the allocator of \<open>Trspi_Blob\<close>.\<close>

definition reader :: "u64 \<Rightarrow> rsp_mem \<Rightarrow> rst" where
  "reader off m = \<lparr>offset = off, alloc_ok = m_ok m, nalloc = m_count m, live = 0\<rparr>"

definition after_reader :: "rst \<Rightarrow> rsp_mem \<Rightarrow> rsp_mem" where
  "after_reader st m = m\<lparr>m_count := nalloc st, m_live := m_live m + int (live st)\<rparr>"

definition tspi_UnloadBlob_LOADKEY_INFO :: "u8 list \<Rightarrow> TCS_LOADKEY_INFO \<Rightarrow> rst \<Rightarrow> (TCS_LOADKEY_INFO \<times> rst) option" where
  "tspi_UnloadBlob_LOADKEY_INFO blob i st = do {
     (k, st) \<leftarrow> Trspi_UnloadBlob_UUID blob (li_keyUUID i) st;
     (p, st) \<leftarrow> Trspi_UnloadBlob_UUID blob (li_parentKeyUUID i) st;
     (d, st) \<leftarrow> UnloadBlob_array 32 blob (li_paramDigest i) st;
     (h, st) \<leftarrow> Trspi_UnloadBlob_UINT32 blob st;
     (odd, st) \<leftarrow> UnloadBlob_array 32 blob (NonceOdd (li_authData i)) st;
     (even, st) \<leftarrow> UnloadBlob_array 32 blob (NonceEven (li_authData i)) st;
     (c, st) \<leftarrow> Trspi_UnloadBlob_BOOL blob st;
     (m, st) \<leftarrow> UnloadBlob_array 32 blob (HMAC (li_authData i)) st;
     Some (\<lparr>li_keyUUID = k, li_parentKeyUUID = p, li_paramDigest = d,
       li_authData = \<lparr>AuthHandle = h, NonceOdd = odd, NonceEven = even, fContinueAuthSession = c, HMAC = m\<rparr>\<rparr>, st) }"

definition UnloadBlob_TCM_AUTH :: "u8 list \<Rightarrow> TCM_AUTH_SESSION \<Rightarrow> rst \<Rightarrow> (TCM_AUTH_SESSION \<times> rst) option" where
  "UnloadBlob_TCM_AUTH blob s st = do {
     (h, st) \<leftarrow> Trspi_UnloadBlob_UINT32 blob st;
     (x, st) \<leftarrow> UnloadBlob_array 32 blob (ts_outHMAC s) st;
     Some (s\<lparr>ts_authHandle := h, ts_outHMAC := x\<rparr>, st) }"

text \<open>No check of the size of the packet.\<close>

definition tspi_unload_parm :: "ptype \<Rightarrow> datum \<Rightarrow> u32 \<Rightarrow> u8 list \<Rightarrow> rst \<Rightarrow> ((u32 \<times> datum) \<times> rst) option" where
  "tspi_unload_parm dataType theData theDataSize b st =
     (let arr = do { a \<leftarrow> as_arr theData; (x, st) \<leftarrow> UnloadBlob_array 32 b a st; Some ((TSS_SUCCESS, DA x), st) }
      in case dataType of
        PT_BYTE \<Rightarrow> do { y \<leftarrow> as_8 theData; (x, st) \<leftarrow> Trspi_UnloadBlob_BYTE b st; Some ((TSS_SUCCESS, D8 x), st) }
      | PT_BOOL \<Rightarrow> do { y \<leftarrow> as_8 theData; (x, st) \<leftarrow> Trspi_UnloadBlob_BOOL b st; Some ((TSS_SUCCESS, D8 x), st) }
      | PT_UINT16 \<Rightarrow> do { y \<leftarrow> as_16 theData; (x, st) \<leftarrow> Trspi_UnloadBlob_UINT16 b st; Some ((TSS_SUCCESS, D16 x), st) }
      | PT_UINT32 \<Rightarrow> do { y \<leftarrow> as_32 theData; (x, st) \<leftarrow> Trspi_UnloadBlob_UINT32 b st; Some ((TSS_SUCCESS, D32 x), st) }
      | PT_UINT64 \<Rightarrow> do { y \<leftarrow> as_64 theData; (x, st) \<leftarrow> Trspi_UnloadBlob_UINT64 b st; Some ((TSS_SUCCESS, D64 x), st) }
      | PT_PBYTE \<Rightarrow> do {
          p \<leftarrow> as_ptr theData;
          (x, st) \<leftarrow> Trspi_UnloadBlob (unat (scast theDataSize :: u64)) b p st;
          Some ((TSS_SUCCESS, DP x), st) }
      | PT_NONCE \<Rightarrow> do { a \<leftarrow> as_arr theData; (x, st) \<leftarrow> Trspi_UnloadBlob_NONCE b a st; Some ((TSS_SUCCESS, DA x), st) }
      | PT_DIGEST \<Rightarrow> arr | PT_ENCAUTH \<Rightarrow> arr | PT_SECRET \<Rightarrow> arr | PT_AUTH_DATA \<Rightarrow> arr
      | PT_AUTH \<Rightarrow> (case theData of
          DSession s other \<Rightarrow> do { (s, st) \<leftarrow> UnloadBlob_TCM_AUTH b s st; Some ((TSS_SUCCESS, DSession s other), st) }
        | _ \<Rightarrow> None)
      | PT_UUID \<Rightarrow> do { u \<leftarrow> as_uuid theData; (x, st) \<leftarrow> Trspi_UnloadBlob_UUID b u st; Some ((TSS_SUCCESS, DUuid x), st) }
      | PT_VERSION \<Rightarrow> do {
          v \<leftarrow> as_version theData; (x, st) \<leftarrow> Trspi_UnloadBlob_TCPA_VERSION b v st; Some ((TSS_SUCCESS, DVersion x), st) }
      | PT_KM_KEYINFO \<Rightarrow> do {
          i \<leftarrow> as_keyinfo theData; (r, x, st) \<leftarrow> Trspi_UnloadBlob_KM_KEYINFO b i st; Some ((r, DKeyinfo x), st) }
      | PT_KM_KEYINFO2 \<Rightarrow> do {
          i \<leftarrow> as_keyinfo2 theData; (r, x, st) \<leftarrow> Trspi_UnloadBlob_KM_KEYINFO2 b i st; Some ((r, DKeyinfo2 x), st) }
      | PT_LOADKEY_INFO \<Rightarrow> do {
          i \<leftarrow> as_loadkey theData; (x, st) \<leftarrow> tspi_UnloadBlob_LOADKEY_INFO b i st; Some ((TSS_SUCCESS, DLoadkey x), st) }
      | PT_PCR_EVENT \<Rightarrow> do {
          e \<leftarrow> as_event theData; (r, x, st) \<leftarrow> Trspi_UnloadBlob_PCR_EVENT b e st; Some ((r, DEvent x), st) }
      | PT_COUNTER_VALUE \<Rightarrow> do {
          c \<leftarrow> as_counter theData; (x, st) \<leftarrow> Trspi_UnloadBlob_COUNTER_VALUE b c st; Some ((TSS_SUCCESS, DCounter x), st) }
      | PT_KEY \<Rightarrow> Some ((- 1, theData), st))"

definition tspi_getData ::
  "ptype \<Rightarrow> u32 \<Rightarrow> datum \<Rightarrow> u32 \<Rightarrow> tcsd_comm_data \<Rightarrow> rsp_mem \<Rightarrow> ((u32 \<times> datum) \<times> tcsd_comm_data \<times> rsp_mem) option" where
  "tspi_getData dataType index theData theDataSize comm m =
     (if num_parms (hdr comm) \<le> index then Some ((TSS_TCP_RPC_BAD_PACKET_TYPE, theData), comm, m)
      else do {
        t \<leftarrow> rd (buf comm) (unat (type_offset (hdr comm)) + unat index) 1;
        if t \<noteq> [ptype_code dataType] then Some ((TSS_TCP_RPC_BAD_PACKET_TYPE, theData), comm, m)
        else do {
          ((result, d), st) \<leftarrow> tspi_unload_parm dataType theData theDataSize (buf comm)
            (reader (ucast (parm_offset (hdr comm))) m);
          let m = after_reader st m;
          if result \<noteq> 0 then Some ((result, d), comm, m)
          else Some ((TSS_SUCCESS, d),
            comm\<lparr>hdr := (hdr comm)\<lparr>parm_offset := ucast (offset st),
              parm_size := parm_size (hdr comm) - ucast (offset st - ucast (parm_offset (hdr comm)))\<rparr>\<rparr>, m) } })"

section \<open>Building a packet\<close>

text \<open>Both sides have the same \<open>initData\<close>.\<close>

definition initData :: "u32 \<Rightarrow> tcsd_comm_data \<Rightarrow> tcsd_comm_data" where
  "initData parm_count comm =
     (let h = \<lparr>packet_size = 28, hdr_u = 0, num_parms = 0, type_size = 0, type_offset = 0, parm_size = 0, parm_offset = 0\<rparr>
      in \<lparr>buf = replicate (length (buf comm)) 0,
          hdr = (if 0 <s parm_count then h\<lparr>type_offset := 28, parm_offset := 28 + parm_count, packet_size := 28 + parm_count\<rparr>
                 else h)\<rparr>)"

text \<open>\<open>realloc\<close>: the new bytes are undetermined; the callers write them before they are read.\<close>

definition realloc :: "nat \<Rightarrow> tcsd_comm_data \<Rightarrow> rsp_mem \<Rightarrow> tcsd_comm_data option \<times> rsp_mem" where
  "realloc n comm m = (if m_ok m (m_count m)
     then (Some (comm\<lparr>buf := take n (buf comm) @ replicate (n - length (buf comm)) 0\<rparr>), m\<lparr>m_count := Suc (m_count m)\<rparr>)
     else (None, m\<lparr>m_count := Suc (m_count m)\<rparr>))"

text \<open>The sizes are added as \<open>int\<close>; a sum beyond its range is undefined.\<close>

definition set_data ::
  "u32 \<Rightarrow> (ptype \<Rightarrow> datum \<Rightarrow> u32 \<Rightarrow> wst \<Rightarrow> (u32 \<times> wst) option) \<Rightarrow> ptype \<Rightarrow> u32 \<Rightarrow> datum \<Rightarrow> u32 \<Rightarrow>
   tcsd_comm_data \<Rightarrow> rsp_mem \<Rightarrow> (u32 \<times> tcsd_comm_data \<times> rsp_mem) option" where
  "set_data err load dataType index theData theDataSize comm m = do {
     (result, off, b) \<leftarrow> load dataType theData theDataSize (0, None);
     if result \<noteq> 0 then Some (result, comm, m)
     else let size = sint (packet_size (hdr comm)) + sint (ucast off :: u32)
       in if size < - INT_MAX - 1 \<or> INT_MAX < size then None
          else if size < 0 then Some (err, comm, m)
          else let (room, m) = (if int (length (buf comm)) < size
                then realloc (unat (packet_size (hdr comm) + ucast off)) comm m else (Some comm, m))
            in case room of None \<Rightarrow> Some (err, comm, m)
               | Some comm \<Rightarrow> do {
                   let start = (ucast (parm_offset (hdr comm) + parm_size (hdr comm)) :: u64);
                   (result, off, b) \<leftarrow> load dataType theData theDataSize (start, Some (buf comm));
                   b \<leftarrow> b;
                   let comm = comm\<lparr>buf := b\<rparr>;
                   if result \<noteq> 0 then Some (result, comm, m)
                   else do {
                     b \<leftarrow> wr (buf comm) (unat (type_offset (hdr comm)) + unat index) [ptype_code dataType];
                     Some (TSS_SUCCESS,
                       comm\<lparr>buf := b, hdr := (hdr comm)\<lparr>type_size := type_size (hdr comm) + 1,
                         parm_size := parm_size (hdr comm) + ucast (off - start), packet_size := ucast off,
                         num_parms := num_parms (hdr comm) + 1\<rparr>\<rparr>, m) } } }"

definition setData ::
  "ptype \<Rightarrow> u32 \<Rightarrow> datum \<Rightarrow> u32 \<Rightarrow> tcsd_comm_data \<Rightarrow> rsp_mem \<Rightarrow> (u32 \<times> tcsd_comm_data \<times> rsp_mem) option" where
  "setData = set_data (TCSERR TSS_E_INTERNAL_ERROR) loadData"

definition tspi_setData ::
  "ptype \<Rightarrow> u32 \<Rightarrow> datum \<Rightarrow> u32 \<Rightarrow> tcsd_comm_data \<Rightarrow> rsp_mem \<Rightarrow> (u32 \<times> tcsd_comm_data \<times> rsp_mem) option" where
  "tspi_setData = set_data (TSPERR TSS_E_INTERNAL_ERROR) tspi_loadData"

text \<open>The seven words of the header, at the start of the buffer.\<close>

definition header_words :: "tcsd_packet_hdr \<Rightarrow> u32 list" where
  "header_words h = [packet_size h, hdr_u h, num_parms h, type_size h, type_offset h, parm_size h, parm_offset h]"

fun load_words :: "(u32 \<Rightarrow> wst \<Rightarrow> wst option) \<Rightarrow> u32 list \<Rightarrow> wst \<Rightarrow> wst option" where
  "load_words f [] w = Some w"
| "load_words f (x # xs) w = do { w \<leftarrow> f x w; load_words f xs w }"

definition decode_header :: "u8 list \<Rightarrow> tcsd_packet_hdr option" where
  "decode_header b = do {
     (a, off) \<leftarrow> UnloadBlob_UINT32 0 b; (u, off) \<leftarrow> UnloadBlob_UINT32 off b; (n, off) \<leftarrow> UnloadBlob_UINT32 off b;
     (ts, off) \<leftarrow> UnloadBlob_UINT32 off b; (t, off) \<leftarrow> UnloadBlob_UINT32 off b; (ps, off) \<leftarrow> UnloadBlob_UINT32 off b;
     (p, off) \<leftarrow> UnloadBlob_UINT32 off b;
     Some \<lparr>packet_size = a, hdr_u = u, num_parms = n, type_size = ts, type_offset = t, parm_size = ps, parm_offset = p\<rparr> }"

end
