(* ===== verification/Rpc_Roundtrip.thy ===== *)
theory Rpc_Roundtrip
  imports Rpc_Packet
begin

text \<open>
  A packet under construction: \<open>building n fs c\<close> says that of the \<open>n\<close> parameters of the packet \<open>c\<close> those of
  the list \<open>fs\<close> (type and bytes) are in place.  It holds after \<open>initData\<close> and is kept by \<open>setData\<close>, on both sides.
\<close>

section \<open>A packet being built\<close>

definition span :: "(ptype \<times> u8 list) list \<Rightarrow> nat" where
  "span fs = length (concat (map snd fs))"

lemma span_simps [simp]:
  "span [] = 0" "span (f # fs) = length (snd f) + span fs" "span (fs @ gs) = span fs + span gs"
  by (simp_all add: span_def)

text \<open>\<open>n\<close> places for types, of which \<open>fs\<close> are filled.\<close>

definition building :: "nat \<Rightarrow> (ptype \<times> u8 list) list \<Rightarrow> tcsd_comm_data \<Rightarrow> bool" where
  "building n fs c \<longleftrightarrow>
     length fs \<le> n \<and> 0 < n \<and> 28 + n + span fs \<le> length (buf c) \<and> length (buf c) < 2 ^ 31
   \<and> type_offset (hdr c) = 28 \<and> parm_offset (hdr c) = of_nat (28 + n) \<and> parm_size (hdr c) = of_nat (span fs)
   \<and> packet_size (hdr c) = of_nat (28 + n + span fs) \<and> num_parms (hdr c) = of_nat (length fs)
   \<and> read_at (buf c) 28 (length fs) = map (ptype_code \<circ> fst) fs
   \<and> read_at (buf c) (28 + n) (span fs) = concat (map snd fs)"

definition writes :: "(ptype \<Rightarrow> datum \<Rightarrow> u32 \<Rightarrow> wst \<Rightarrow> (u32 \<times> wst) option) \<Rightarrow> ptype \<Rightarrow> datum \<Rightarrow> u32 \<Rightarrow> u8 list \<Rightarrow> bool" where
  "writes load ty d sz bs \<longleftrightarrow> (\<forall>w. load ty d sz w = map_option (Pair TSS_SUCCESS) (put bs w))"

lemma put_some:
  "length b < 2 ^ 64 \<Longrightarrow> unat off + length bs \<le> length b \<Longrightarrow>
   put bs (off, Some b) = Some (off + of_nat (length bs), Some (write_at b (unat off) bs))"
  by (cases "bs = []") (simp_all add: put.simps poke_def wr_def)

lemma put_none [simp]: "put bs (off, None) = Some (off + of_nat (length bs), None)"
  by (cases "bs = []") (simp_all add: put.simps poke_def)

declare put.simps [simp del]

lemma small_word:
  assumes "k < 2 ^ 31"
  shows "unat (of_nat k :: u32) = k" "sint (of_nat k :: u32) = int k" "unat (of_nat k :: u64) = k"
    "ucast (of_nat k :: u32) = (of_nat k :: u64)"
  using assms by (simp_all add: unsigned_of_nat take_bit_nat_eq_self signed_of_nat signed_take_bit_int_eq_self of_nat_eq_iff)

lemma ucast_down_nat [simp]: "ucast (of_nat k :: u64) = (of_nat k :: u32)"
  by (simp add: unsigned_of_nat word_of_nat_eq_iff)

lemma initData_building:
  assumes "0 < n" "28 + n \<le> length (buf c)" "length (buf c) < 2 ^ 31"
  shows "building n [] (initData (of_nat n) c)"
proof -
  have n: "n < 2 ^ 31" using assms by simp
  have "0 <s (of_nat n :: u32)"
    using assms(1) small_word(2) [OF n] by (simp add: word_sless_alt)
  then show ?thesis
    unfolding building_def initData_def Let_def using assms by simp
qed

lemma realloc_ok:
  "(\<And>k. m_ok m k) \<Longrightarrow> length (buf c) \<le> n \<Longrightarrow>
   realloc n c m = (Some (c\<lparr>buf := buf c @ replicate (n - length (buf c)) 0\<rparr>), m\<lparr>m_count := Suc (m_count m)\<rparr>)"
  by (simp add: realloc_def)

lemma read_extend:
  "off + k + length ys \<le> length b \<Longrightarrow> read_at (write_at b (off + k) ys) off (k + length ys) = read_at b off k @ ys"
  by (simp add: read_at_split read_write_before read_write_same)

lemma set_data_run:
  assumes "load ty d sz (0, None) = Some (0, off1, x)"
    and "sint (packet_size (hdr c)) + sint (ucast off1 :: u32) = int k" "int k \<le> INT_MAX"
    and "(if int (length (buf c)) < int k then realloc (unat (packet_size (hdr c) + ucast off1)) c m else (Some c, m))
      = (Some (c\<lparr>buf := b1\<rparr>), m1)"
    and "load ty d sz (ucast (parm_offset (hdr c) + parm_size (hdr c)), Some b1) = Some (0, off2, Some b2)"
    and "wr b2 (unat (type_offset (hdr c)) + unat i) [ptype_code ty] = Some b3"
  shows "set_data err load ty i d sz c m = Some (TSS_SUCCESS,
     c\<lparr>buf := b3, hdr := (hdr c)\<lparr>type_size := type_size (hdr c) + 1,
       parm_size := parm_size (hdr c) + ucast (off2 - ucast (parm_offset (hdr c) + parm_size (hdr c))),
       packet_size := ucast off2, num_parms := num_parms (hdr c) + 1\<rparr>\<rparr>, m1)"
  using assms unfolding set_data_def by (simp add: Let_def)

lemma set_data_grows:
  assumes b: "building n fs c" and w: "writes load ty d sz bs" and n: "length fs < n"
    and small: "28 + n + span fs + length bs < 2 ^ 31" and ok: "\<And>k. m_ok m k"
  shows "\<exists>c' m'. set_data err load ty (of_nat (length fs)) d sz c m = Some (TSS_SUCCESS, c', m')
    \<and> building n (fs @ [(ty, bs)]) c' \<and> hdr_u (hdr c') = hdr_u (hdr c)
    \<and> (\<exists>k. m' = m\<lparr>m_count := k\<rparr>) \<and> length (buf c) \<le> length (buf c')"
proof -
  let ?s = "28 + n + span fs" and ?b = "buf c"
  let ?L = "?s + length bs"
  define b1 where "b1 = (if length ?b < ?L then ?b @ replicate (?L - length ?b) 0 else ?b)"
  define m1 where "m1 = (if length ?b < ?L then m\<lparr>m_count := Suc (m_count m)\<rparr> else m)"
  define b2 where "b2 = write_at b1 ?s bs"
  define b3 where "b3 = write_at b2 (28 + length fs) [ptype_code ty]"
  have len: "length b1 = max (length ?b) ?L" by (simp add: b1_def)
  have len2: "length b2 = length b1" "length b3 = length b1" using len n by (simp_all add: b2_def b3_def)
  have lens: "length b1 < 2 ^ 31" "length b1 < 2 ^ 64" using b small len by (auto simp: building_def)
  have h: "packet_size (hdr c) = of_nat ?s" "parm_offset (hdr c) + parm_size (hdr c) = of_nat ?s"
    "type_offset (hdr c) = 28" "length ?b < 2 ^ 31" "?s \<le> length ?b"
    using b by (simp_all add: building_def)
  have load: "load ty d sz x = map_option (Pair TSS_SUCCESS) (put bs x)" for x
    using w unfolding writes_def by (rule spec)
  have len3: "?s < 2 ^ 31" "length bs < 2 ^ 31" "?L < 2 ^ 31" "length fs < 2 ^ 31" using small n by auto
  have sz: "unat (of_nat ?s + of_nat (length bs) :: u32) = ?L"
    using small_word(1) [OF len3(3)] by (simp add: ac_simps)
  have size: "sint (of_nat ?s :: u32) + sint (of_nat (length bs) :: u32) = int ?L"
    using small_word(2) [OF len3(1)] small_word(2) [OF len3(2)] by simp
  have room: "(if int (length ?b) < int ?L then realloc (unat (of_nat ?s + of_nat (length bs) :: u32)) c m else (Some c, m))
     = (Some (c\<lparr>buf := b1\<rparr>), m1)"
    unfolding sz using ok by (simp add: realloc_ok b1_def m1_def)
  have sum: "(of_nat ?L :: u64) - of_nat ?s = of_nat (length bs)" by simp
  have put: "put bs (of_nat ?s, Some b1) = Some (of_nat ?L, Some b2)"
    using put_some [of b1 "of_nat ?s" bs] small_word(3) [OF len3(1)] lens(2) len by (simp add: b2_def)
  have wr: "wr b2 (unat (28 :: u32) + unat (of_nat (length fs) :: u32)) [ptype_code ty] = Some b3"
    using small_word(1) [OF len3(4)] len2 len n by (simp add: wr_def b3_def)
  let ?c' = "c\<lparr>buf := b3, hdr := (hdr c)\<lparr>type_size := type_size (hdr c) + 1,
     parm_size := parm_size (hdr c) + of_nat (length bs), packet_size := of_nat ?L,
     num_parms := num_parms (hdr c) + 1\<rparr>\<rparr>"
  have run: "set_data err load ty (of_nat (length fs)) d sz c m = Some (TSS_SUCCESS, ?c', m1)"
    using set_data_run [of load ty d sz "of_nat (length bs)" None c ?L m b1 m1 "of_nat ?L" b2
        "of_nat (length fs)" b3 err, unfolded load put_none h size put small_word(4) [OF len3(1)] sum ucast_down_nat]
      room wr len3(3)
    by (simp del: of_nat_add)
  have old: "read_at b1 o' k = read_at ?b o' k" if "o' + k \<le> length ?b" for o' k
    using that by (simp add: b1_def read_at_append1)
  have types: "read_at b3 28 (length fs + 1) = map (ptype_code \<circ> fst) (fs @ [(ty, bs)])"
    using b n len len2 old [of 28 "length fs"] read_extend [of 28 "length fs" "[ptype_code ty]" b2]
    by (simp add: b3_def b2_def read_write_before building_def)
  have parms: "read_at b3 (28 + n) (span fs + length bs) = concat (map snd (fs @ [(ty, bs)]))"
    using b n len len2 old [of "28 + n" "span fs"] read_extend [of "28 + n" "span fs" bs b1]
    by (simp add: b3_def b2_def read_write_after building_def ac_simps)
  have bld: "building n (fs @ [(ty, bs)]) ?c'"
    using b n len len2 lens small types parms unfolding building_def by (simp add: ac_simps)
  show ?thesis using run bld by (intro exI [of _ ?c'] exI [of _ m1]) (auto simp: m1_def len len2 intro: exI [of _ "m_count m"])
qed

lemma set_data_building:
  assumes b: "building n fs c" and w: "writes load ty d sz bs" and n: "length fs < n"
    and small: "28 + n + span fs + length bs < 2 ^ 31" and ok: "\<And>k. m_ok m k"
  shows "\<exists>c' m'. set_data err load ty (of_nat (length fs)) d sz c m = Some (TSS_SUCCESS, c', m')
    \<and> building n (fs @ [(ty, bs)]) c' \<and> hdr_u (hdr c') = hdr_u (hdr c)
    \<and> (\<exists>k. m' = m\<lparr>m_count := k\<rparr>)"
  using set_data_grows [OF assms] by fast

end
