(* ===== verification/Rpc_Writers.thy ===== *)
theory Rpc_Writers
  imports Rpc_Roundtrip
begin

text \<open>
  What the cases of \<open>loadData\<close> write: bytes that depend on the value alone, as many as \<open>setData\<close> measures with a
  first call that has no buffer.
\<close>

section \<open>What the writers of the daemon do\<close>

text \<open>A writer that succeeds has put some bytes at the offset, the same number that it counts without a
  buffer.\<close>

definition grows :: "(wst \<Rightarrow> wst option) \<Rightarrow> bool" where
  "grows f \<longleftrightarrow> (\<forall>off b x. f (off, Some b) = Some x \<longrightarrow>
     (\<exists>bs. put bs (off, Some b) = Some x \<and> (\<forall>o'. f (o', None) = Some (o' + of_nat (length bs), None))))"

lemma growsI:
  "(\<And>off b x. f (off, Some b) = Some x \<Longrightarrow>
     \<exists>bs. put bs (off, Some b) = Some x \<and> (\<forall>o'. f (o', None) = Some (o' + of_nat (length bs), None))) \<Longrightarrow> grows f"
  by (simp add: grows_def)

lemma put_shape: "put bs (off, Some b) = Some x \<Longrightarrow> \<exists>b'. x = (off + of_nat (length bs), Some b')"
  by (cases "bs = []") (auto simp: put.simps poke_def split: if_splits bind_splits)

lemma grows_bind:
  assumes f: "grows f" and g: "grows g"
  shows "grows (\<lambda>w. do { w \<leftarrow> f w; g w })"
proof (rule growsI)
  fix off b x
  assume "f (off, Some b) \<bind> g = Some x"
  then obtain y where y: "f (off, Some b) = Some y" "g y = Some x" by (auto split: bind_splits)
  obtain bs where bs: "put bs (off, Some b) = Some y" "\<And>o'. f (o', None) = Some (o' + of_nat (length bs), None)"
    using f y(1) unfolding grows_def by blast
  obtain b' where b': "y = (off + of_nat (length bs), Some b')" using put_shape [OF bs(1)] by blast
  obtain cs where cs: "put cs y = Some x" "\<And>o'. g (o', None) = Some (o' + of_nat (length cs), None)"
    using g y(2) unfolding b' grows_def by blast
  have "put (bs @ cs) (off, Some b) = Some x" using bs(1) cs(1) by (simp flip: put_put)
  then show "\<exists>bs. put bs (off, Some b) = Some x \<and> (\<forall>o'. f (o', None) \<bind> g = Some (o' + of_nat (length bs), None))"
    by (intro exI [of _ "bs @ cs"]) (simp add: bs(2) cs(2) add.assoc)
qed

lemma grows_put: "grows (put bs)"
  by (rule growsI) (auto intro: exI [of _ bs])

lemma grows_cong: "(\<And>w. f w = g w) \<Longrightarrow> grows f = grows g"
  by (simp add: grows_def)

lemma grows_None: "grows (\<lambda>w. None)"
  by (simp add: grows_def)

lemma grows_Some: "grows Some"
  by (rule growsI) (auto intro: exI [of _ "[]"])

lemma grows_if: "grows f \<Longrightarrow> grows g \<Longrightarrow> grows (\<lambda>w. if c then f w else g w)"
  by (cases c) simp_all

lemma daemon_put [put_simps]:
  "LoadBlob_BYTE x s = put (be8 x) s" "LoadBlob_BOOL x s = put (be8 x) s" "LoadBlob_UINT16 h s = put (be16 h) s"
  "LoadBlob_UINT32 w s = put (be32 w) s" "LoadBlob_UINT64 q s = put (be64 q) s"
  by (cases s; simp add: put.simps be8_def be16_def be32_def be64_def)+

lemma grows_prims:
  "grows (LoadBlob_BYTE x)" "grows (LoadBlob_BOOL x)" "grows (LoadBlob_UINT16 h)" "grows (LoadBlob_UINT32 w)"
  "grows (LoadBlob_UINT64 q)"
proof -
  have "LoadBlob_BYTE x = put (be8 x)" "LoadBlob_BOOL x = put (be8 x)" "LoadBlob_UINT16 h = put (be16 h)"
    "LoadBlob_UINT32 w = put (be32 w)" "LoadBlob_UINT64 q = put (be64 q)"
    by (rule ext, rule daemon_put)+
  then show "grows (LoadBlob_BYTE x)" "grows (LoadBlob_BOOL x)" "grows (LoadBlob_UINT16 h)" "grows (LoadBlob_UINT32 w)"
    "grows (LoadBlob_UINT64 q)" by (simp_all only: grows_put)
qed

lemma grows_LoadBlob: "grows (LoadBlob n p)"
proof (rule growsI)
  fix off b x
  assume l: "LoadBlob n p (off, Some b) = Some x"
  show "\<exists>bs. put bs (off, Some b) = Some x \<and> (\<forall>o'. LoadBlob n p (o', None) = Some (o' + of_nat (length bs), None))"
  proof (cases "n = 0")
    case False
    then have "unat n \<noteq> 0" by (simp add: unat_eq_zero)
    obtain bs where bs: "deref p (unat n) = Some bs" using l False by (auto split: bind_splits)
    then have "length bs = unat n" by (cases p) (auto simp: rd_def split: if_splits)
    with \<open>unat n \<noteq> 0\<close> show ?thesis using l False bs by (intro exI [of _ bs]) (auto simp: put.simps split: bind_splits)
  qed (use l in \<open>auto intro: exI [of _ "[]"]\<close>)
qed

lemmas grows_rules = grows_prims grows_LoadBlob grows_bind grows_if grows_Some

lemma grows_structures:
  "grows (LoadBlob_VERSION v)" "grows (LoadBlob_UUID u)" "grows (LoadBlob_LOADKEY_INFO i)" "grows (LoadBlob_KM_KEYINFO ki)"
  "grows (LoadBlob_KM_KEYINFO2 ki2)" "grows (LoadBlob_PCR_EVENT e)" "grows (LoadBlob_Auth_Special a)"
proof -
  show v: "grows (LoadBlob_VERSION v)" for v unfolding LoadBlob_VERSION_def by (intro grows_rules)
  show u: "grows (LoadBlob_UUID u)" for u unfolding LoadBlob_UUID_def by (intro grows_rules)
  show "grows (LoadBlob_LOADKEY_INFO i)" unfolding LoadBlob_LOADKEY_INFO_def by (intro u grows_rules)
  show "grows (LoadBlob_KM_KEYINFO ki)" unfolding LoadBlob_KM_KEYINFO_def by (intro u v grows_rules)
  show "grows (LoadBlob_KM_KEYINFO2 ki2)" unfolding LoadBlob_KM_KEYINFO2_def by (intro u v grows_rules)
  show "grows (LoadBlob_PCR_EVENT e)" unfolding LoadBlob_PCR_EVENT_def by (intro v grows_rules)
  show "grows (LoadBlob_Auth_Special a)" unfolding LoadBlob_Auth_Special_def by (intro grows_rules)
qed

definition load_grows :: "(ptype \<Rightarrow> datum \<Rightarrow> u32 \<Rightarrow> wst \<Rightarrow> (u32 \<times> wst) option) \<Rightarrow> bool" where
  "load_grows load \<longleftrightarrow> (\<forall>ty d sz off b off' x. load ty d sz (off, Some b) = Some (0, off', x) \<longrightarrow>
     (\<exists>bs. put bs (off, Some b) = Some (off', x) \<and>
       (\<forall>o'. load ty d sz (o', None) = Some (0, o' + of_nat (length bs), None)))) \<and>
     (\<forall>ty d sz w r x. load ty d sz w = Some (r, x) \<longrightarrow> r \<noteq> 0 \<longrightarrow> x = w)"

lemma load_case:
  assumes "\<And>x. grows (f x)" "do { x \<leftarrow> sel; w \<leftarrow> f x (off, Some b); Some (TSS_SUCCESS, w) } = Some (0, off', y)"
  shows "\<exists>bs. put bs (off, Some b) = Some (off', y) \<and>
     (\<forall>o'. do { x \<leftarrow> sel; w \<leftarrow> f x (o', None); Some (TSS_SUCCESS, w) } = Some (0, o' + of_nat (length bs), None))"
  using assms unfolding grows_def by (fastforce split: bind_splits)

lemma load_direct:
  assumes "grows f" "do { w \<leftarrow> f (off, Some b); Some (TSS_SUCCESS, w) } = Some (0, off', y)"
  shows "\<exists>bs. put bs (off, Some b) = Some (off', y) \<and>
     (\<forall>o'. do { w \<leftarrow> f (o', None); Some (TSS_SUCCESS, w) } = Some (0, o' + of_nat (length bs), None))"
  using load_case [of "\<lambda>_. f" "Some ()"] assms by simp

lemma loadData_grows: "load_grows loadData"
  unfolding load_grows_def
proof (intro conjI allI impI)
  show "x = w" if "loadData ty d sz w = Some (r, x)" "r \<noteq> 0" for ty d sz w r x
    using that unfolding loadData_def by (cases ty) (auto split: bind_splits datum.splits)
next
  fix ty d sz off b off' x
  assume l: "loadData ty d sz (off, Some b) = Some (0, off', x)"
  show "\<exists>bs. put bs (off, Some b) = Some (off', x) \<and>
      (\<forall>o'. loadData ty d sz (o', None) = Some (0, o' + of_nat (length bs), None))"
  proof (cases "ty = PT_AUTH")
    case True
    show ?thesis using l unfolding loadData_def True ptype.case
      by (cases d) (simp_all only: datum.case option.distinct, (rule load_direct, intro grows_rules grows_structures, assumption)+)
  next
    case False
    then show ?thesis using l unfolding loadData_def
      by (cases ty)
        (simp_all only: ptype.case, (rule load_case, intro grows_rules grows_structures, assumption | simp)+)
  qed
qed

text \<open>A packet with parameters, in its buffer: the last of them ends where the packet does.\<close>

definition sound :: "tcsd_comm_data \<Rightarrow> bool" where
  "sound c \<longleftrightarrow> packet_size (hdr c) = parm_offset (hdr c) + parm_size (hdr c)
     \<and> unat (packet_size (hdr c)) \<le> length (buf c) \<and> length (buf c) < 2 ^ 31"

lemma put_bounds:
  "put bs (off, Some b) = Some (off', Some b') \<Longrightarrow> unat off \<le> length b \<Longrightarrow>
   off' = off + of_nat (length bs) \<and> length b' = length b \<and> unat off + length bs \<le> length b"
  by (cases "bs = []") (auto simp: put.simps poke_def wr_def split: if_splits)

lemma unat_sum:
  fixes a b :: u32
  assumes "0 \<le> sint a + sint b" "sint a + sint b \<le> 2147483647"
  shows "int (unat (a + b)) = sint a + sint b"
proof -
  have "a + b = word_of_int (sint a + sint b)" by simp
  then show ?thesis using assms by (simp add: unsigned_of_int take_bit_int_eq_self del: of_int_add)
qed

lemma unat_up [simp]: "unat (ucast x :: u64) = unat x" for x :: u32
proof -
  have "unat x < 2 ^ 32" using unsigned_less [of x] by simp
  then show ?thesis by (simp add: unsigned_ucast_eq take_bit_nat_eq_self)
qed

lemma set_data_sound:
  assumes g: "load_grows load" and s: "set_data err load ty i d sz c m = Some (r, c', m')" and c: "sound c"
  shows "length (buf c) \<le> length (buf c') \<and> length (buf c') < 2 ^ 31 \<and>
    (r = 0 \<longrightarrow> sound c' \<and> unat (packet_size (hdr c)) \<le> unat (packet_size (hdr c'))) \<and> hdr_u (hdr c') = hdr_u (hdr c)"
proof -
  let ?ps = "packet_size (hdr c)"
  have ps: "parm_offset (hdr c) + parm_size (hdr c) = ?ps" "unat ?ps \<le> length (buf c)" "length (buf c) < 2 ^ 31"
    using c unfolding sound_def by auto
  obtain r1 off1 x1 where l1: "load ty d sz (0, None) = Some (r1, off1, x1)"
    using s by (auto simp: set_data_def split: bind_splits)
  show ?thesis
  proof (cases "r1 = 0 \<and> c' \<noteq> c")
    case False
    then show ?thesis using s l1 c ps by (auto simp: set_data_def)
  next
    case True
    let ?size = "sint ?ps + sint (ucast off1 :: u32)"
    define n where "n = unat (?ps + ucast off1)"
    define b1 where "b1 = (if int (length (buf c)) < ?size then take n (buf c) @ replicate (n - length (buf c)) 0 else buf c)"
    obtain r2 off2 x2 m2 where l2: "load ty d sz (ucast ?ps, Some b1) = Some (r2, off2, x2)"
      and size: "0 \<le> ?size" "?size \<le> 2147483647"
      and fin: "if r2 \<noteq> 0 then x2 \<noteq> None \<and> r = r2 \<and> c' = c\<lparr>buf := the x2\<rparr> else
        (\<exists>b2 b3. x2 = Some b2 \<and> wr b2 (unat (type_offset (hdr c)) + unat i) [ptype_code ty] = Some b3 \<and>
          c' = c\<lparr>buf := b3, hdr := (hdr c)\<lparr>type_size := type_size (hdr c) + 1,
            parm_size := parm_size (hdr c) + ucast (off2 - ucast ?ps), packet_size := ucast off2,
            num_parms := num_parms (hdr c) + 1\<rparr>\<rparr>)"
      using s l1 True ps(1) unfolding set_data_def
      by (fastforce simp: Let_def b1_def n_def realloc_def not_less split: bind_splits if_splits option.splits)
    have n: "int n = ?size" unfolding n_def by (rule unat_sum [OF size])
    have b1: "length (buf c) \<le> length b1" "length b1 < 2 ^ 31" using n ps(3) size(2) by (auto simp: b1_def)
    show ?thesis
    proof (cases "r2 = 0")
      case False
      then have "x2 = Some b1" using g l2 unfolding load_grows_def by blast
      then show ?thesis using fin False b1 by simp
    next
      case r2: True
      obtain b2 b3 where b: "x2 = Some b2" "wr b2 (unat (type_offset (hdr c)) + unat i) [ptype_code ty] = Some b3"
        and c': "c' = c\<lparr>buf := b3, hdr := (hdr c)\<lparr>type_size := type_size (hdr c) + 1,
            parm_size := parm_size (hdr c) + ucast (off2 - ucast ?ps), packet_size := ucast off2,
            num_parms := num_parms (hdr c) + 1\<rparr>\<rparr>"
        using fin r2 by auto
      have b3: "length b3 = length b2" using b(2) by (auto simp: wr_def split: if_splits)
      obtain bs where bs: "put bs (ucast ?ps, Some b1) = Some (off2, Some b2)"
        using g l2 unfolding r2 b(1) load_grows_def by blast
      have st: "(ucast ?ps :: u64) = of_nat (unat ?ps)" by simp
      have "unat (ucast ?ps :: u64) \<le> length b1" using ps b1 by simp
      from put_bounds [OF bs this] have off2: "off2 = ucast ?ps + of_nat (length bs)" "length b2 = length b1"
        "unat ?ps + length bs \<le> length b1" by simp_all
      then have o: "off2 = of_nat (unat ?ps + length bs)" "off2 - ucast ?ps = of_nat (length bs)" by simp_all
      have "(ucast off2 :: u32) = of_nat (unat ?ps + length bs)" unfolding o(1) by (rule ucast_down_nat)
      moreover have "unat (of_nat (unat ?ps + length bs) :: u32) = unat ?ps + length bs"
        by (rule small_word) (use off2(3) b1(2) in simp)
      ultimately have "unat (ucast off2 :: u32) \<le> length b1" "unat ?ps \<le> unat (ucast off2 :: u32)" "(ucast off2 :: u32) = ?ps + of_nat (length bs)"
        using off2(3) by simp_all
      then show ?thesis using b3 b1 off2(2) ps(1) o(2) by (simp add: c' sound_def add.assoc [symmetric])
    qed
  qed
qed

end
