(* ===== verification/Rpc_Server.thy ===== *)
theory Rpc_Server
  imports Rpc_Packet
begin

text \<open>
  What the request handlers of the daemon (\<open>tcs_wrap_*\<close> in \<open>tcs/rpc/tcstp/rpc_*.c\<close>) are made of: reading
  the parameters of the request one by one, the arrays allocated on the way being released when one is
  missing; running the command; writing the response.  A handler is a function on the state of the thread
  that serves a connection; its code is \<open>TSS_SUCCESS\<close> when the packet holds a response, and the
  code of the failure otherwise.
\<close>

section \<open>State of a serving thread\<close>

text \<open>\<open>struct tcsd_thread_data\<close> with the state of the daemon.  \<open>sv_stack\<close>: what an uninitialised local
  structure contains; \<open>sv_localname\<close>: the static variable \<open>localhostname\<close> of \<open>access_control\<close>.\<close>

record 't served =
  sv_comm :: tcsd_comm_data
  sv_context :: u32
  sv_host :: string
  sv_stack :: "u8 list"
  sv_localname :: "string option"
  sv_d :: "'t tcsd"

type_synonym 't wrap = "'t served \<Rightarrow> (u32 \<times> 't served) option"

abbreviation (input) mem :: "'t served \<Rightarrow> rsp_mem" where "mem st \<equiv> d_mem (sv_d st)"

abbreviation (input) IE :: u32 where "IE \<equiv> TCSERR TSS_E_INTERNAL_ERROR"

definition set_mem :: "rsp_mem \<Rightarrow> 't served \<Rightarrow> 't served" where
  "set_mem m st = st\<lparr>sv_d := (sv_d st)\<lparr>d_mem := m\<rparr>\<rparr>"

text \<open>\<open>free\<close> of input arrays, and of arrays in places.\<close>

definition drop_blobs :: "ptr list \<Rightarrow> 't served \<Rightarrow> 't served" where
  "drop_blobs ps st = set_mem ((mem st)\<lparr>m_live := m_live (mem st) - int (sum_list (map pallocs ps))\<rparr>) st"

fun free_places :: "nat list \<Rightarrow> 't served \<Rightarrow> 't served option" where
  "free_places [] st = Some st"
| "free_places (l # ls) st = do { d \<leftarrow> free_ptr l (sv_d st); free_places ls (st\<lparr>sv_d := d\<rparr>) }"

definition leave :: "ptr list \<Rightarrow> u32 \<Rightarrow> 't wrap" where
  "leave ps r st = Some (r, drop_blobs ps st)"

section \<open>Reading the request\<close>

definition get_parm :: "ptype \<Rightarrow> u32 \<Rightarrow> datum \<Rightarrow> u32 \<Rightarrow> 't served \<Rightarrow> ((u32 \<times> datum) \<times> 't served) option" where
  "get_parm ty i old sz st = do {
     (x, comm, m) \<leftarrow> getData ty i old sz (sv_comm st) (mem st);
     Some (x, set_mem m (st\<lparr>sv_comm := comm\<rparr>)) }"

text \<open>The pattern \<open>if (getData(...)) { free(ps); return TCSERR(TSS_E_INTERNAL_ERROR); }\<close>.\<close>

definition recv :: "ptr list \<Rightarrow> ptype \<Rightarrow> u32 \<Rightarrow> datum \<Rightarrow> (datum \<Rightarrow> 'a option) \<Rightarrow> ('a \<Rightarrow> 't wrap) \<Rightarrow> 't wrap" where
  "recv ps ty i old sel k st = do {
     ((r, d), st) \<leftarrow> get_parm ty i old 0 st;
     if r \<noteq> 0 then leave ps IE st else do { x \<leftarrow> sel d; k x st } }"

definition recv_32 :: "ptr list \<Rightarrow> u32 \<Rightarrow> (u32 \<Rightarrow> 't wrap) \<Rightarrow> 't wrap" where
  "recv_32 ps i = recv ps PT_UINT32 i (D32 0) as_32"
definition recv_16 :: "ptr list \<Rightarrow> u32 \<Rightarrow> (u16 \<Rightarrow> 't wrap) \<Rightarrow> 't wrap" where
  "recv_16 ps i = recv ps PT_UINT16 i (D16 0) as_16"
definition recv_bool :: "ptr list \<Rightarrow> u32 \<Rightarrow> (u8 \<Rightarrow> 't wrap) \<Rightarrow> 't wrap" where
  "recv_bool ps i = recv ps PT_BOOL i (D8 0) as_8"
definition recv_byte :: "ptr list \<Rightarrow> u32 \<Rightarrow> (u8 \<Rightarrow> 't wrap) \<Rightarrow> 't wrap" where
  "recv_byte ps i = recv ps PT_BYTE i (D8 0) as_8"
definition recv_array :: "ptr list \<Rightarrow> ptype \<Rightarrow> u32 \<Rightarrow> (u8 list \<Rightarrow> 't wrap) \<Rightarrow> 't wrap" where
  "recv_array ps ty i = recv ps ty i (DA (replicate 32 0)) as_arr"

text \<open>\<open>p = malloc(n)\<close> with its check, and an array of \<open>n\<close> bytes into \<open>p\<close>.\<close>

definition alloc :: "ptr list \<Rightarrow> u32 \<Rightarrow> u32 \<Rightarrow> (ptr \<Rightarrow> 't wrap) \<Rightarrow> 't wrap" where
  "alloc ps bad n k st = (let (p, m) = malloc_mem (unat n) (mem st); st = set_mem m st
     in if p = NULL then leave ps bad st else k p st)"

definition recv_bytes :: "ptr list \<Rightarrow> u32 \<Rightarrow> ptr \<Rightarrow> u32 \<Rightarrow> (ptr \<Rightarrow> 't wrap) \<Rightarrow> 't wrap" where
  "recv_bytes ps i p n k st = do {
     ((r, d), st) \<leftarrow> get_parm PT_PBYTE i (DP p) n st;
     if r \<noteq> 0 then leave ps IE st else do { p \<leftarrow> as_ptr d; k p st } }"

definition recv_blob :: "ptr list \<Rightarrow> u32 \<Rightarrow> u32 \<Rightarrow> u32 \<Rightarrow> (ptr \<Rightarrow> 't wrap) \<Rightarrow> 't wrap" where
  "recv_blob ps bad i n k = alloc ps bad n (\<lambda>p. recv_bytes (ps @ [p]) i p n k)"

definition opt_recv_blob :: "ptr list \<Rightarrow> u32 \<Rightarrow> u32 \<Rightarrow> u32 \<Rightarrow> (ptr \<Rightarrow> 't wrap) \<Rightarrow> 't wrap" where
  "opt_recv_blob ps bad i n k = (if n = 0 then k NULL else recv_blob ps bad i n k)"

text \<open>A \<open>TPM_AUTH\<close> in the place \<open>l\<close>: when it has to be there; when another type at its index means
  that there is none; and when every failure means that.\<close>

definition store_auth :: "nat \<Rightarrow> datum \<Rightarrow> 't served \<Rightarrow> 't served option" where
  "store_auth l d st = (case d of
     DAuth a \<Rightarrow> Some (set_mem ((mem st)\<lparr>m_A := (m_A (mem st))(l := a)\<rparr>) st)
   | DSession s other \<Rightarrow> Some (set_mem ((mem st)\<lparr>m_S := (m_S (mem st))(l := s)\<rparr>) st)
   | _ \<Rightarrow> None)"

definition recv_auth :: "ptr list \<Rightarrow> u32 \<Rightarrow> nat \<Rightarrow> 't wrap \<Rightarrow> 't wrap" where
  "recv_auth ps i l k st = do {
     ((r, d), st) \<leftarrow> get_parm PT_AUTH i (DAuth (m_A (mem st) l)) 0 st;
     if r \<noteq> 0 then leave ps IE st else do { st \<leftarrow> store_auth l d st; k st } }"

definition lax_auth :: "ptr list \<Rightarrow> u32 \<Rightarrow> nat \<Rightarrow> (nat option \<Rightarrow> 't wrap) \<Rightarrow> 't wrap" where
  "lax_auth ps i l k st = do {
     ((r, d), st) \<leftarrow> get_parm PT_AUTH i (DAuth (m_A (mem st) l)) 0 st;
     if r = TSS_TCP_RPC_BAD_PACKET_TYPE then k None st
     else if r \<noteq> 0 then leave ps r st
     else do { st \<leftarrow> store_auth l d st; k (Some l) st } }"

definition recv_opt_auth :: "u32 \<Rightarrow> nat \<Rightarrow> (nat option \<Rightarrow> 't wrap) \<Rightarrow> 't wrap" where
  "recv_opt_auth i l k st = do {
     ((r, d), st) \<leftarrow> get_parm PT_AUTH i (DAuth (m_A (mem st) l)) 0 st;
     if r \<noteq> 0 then k None st else do { st \<leftarrow> store_auth l d st; k (Some l) st } }"

definition recv_session :: "ptr list \<Rightarrow> u32 \<Rightarrow> nat \<Rightarrow> 't wrap \<Rightarrow> 't wrap" where
  "recv_session ps i l k st = do {
     ((r, d), st) \<leftarrow> get_parm PT_AUTH i (DSession (m_S (mem st) l) (sv_stack st)) 0 st;
     if r \<noteq> 0 then leave ps IE st else do { st \<leftarrow> store_auth l d st; k st } }"

text \<open>\<open>memset(&auth, 0, sizeof(TPM_AUTH))\<close> and \<open>memcmp(&nullAuth, &auth, sizeof(TPM_AUTH))\<close>.\<close>

definition null_auth :: TPM_AUTH where
  "null_auth = \<lparr>AuthHandle = 0, NonceOdd = replicate 32 0, NonceEven = replicate 32 0, fContinueAuthSession = 0,
     HMAC = replicate 32 0\<rparr>"

definition clear_auth :: "nat \<Rightarrow> 't wrap \<Rightarrow> 't wrap" where
  "clear_auth l k st = k (set_mem ((mem st)\<lparr>m_A := (m_A (mem st))(l := null_auth)\<rparr>) st)"

definition if_set :: "nat \<Rightarrow> (nat option \<Rightarrow> 't wrap) \<Rightarrow> 't wrap" where
  "if_set l k st = k (if m_A (mem st) l = null_auth then None else Some l) st"

section \<open>Running the command\<close>

text \<open>Pointers to results without an initial value are wild: they may be neither read nor freed.\<close>

definition wild :: "nat list \<Rightarrow> 't wrap \<Rightarrow> 't wrap" where
  "wild ls k st = k (set_mem ((mem st)\<lparr>m_B := (\<lambda>l. if l \<in> set ls then Freed else m_B (mem st) l)\<rparr>) st)"

definition set_place :: "nat \<Rightarrow> ptr \<Rightarrow> 't wrap \<Rightarrow> 't wrap" where
  "set_place l p k st = k (set_mem ((mem st)\<lparr>m_B := (m_B (mem st))(l := p)\<rparr>) st)"

definition set_size :: "nat \<Rightarrow> u32 \<Rightarrow> 't wrap \<Rightarrow> 't wrap" where
  "set_size l n k st = k (set_mem (set_32 l n (mem st)) st)"

definition with_stack :: "(u8 list \<Rightarrow> 't wrap) \<Rightarrow> 't wrap" where
  "with_stack k st = k (sv_stack st) st"

text \<open>The command, then \<open>free\<close> of its input arrays.\<close>

definition run :: "'t command \<Rightarrow> ptr list \<Rightarrow> (u32 \<Rightarrow> 't wrap) \<Rightarrow> 't wrap" where
  "run f ps k st = do {
     (result, d) \<leftarrow> f (sv_d st);
     k result (drop_blobs ps (st\<lparr>sv_d := d\<rparr>)) }"

section \<open>The response\<close>

text \<open>A parameter of the response, with the places freed when it cannot be written; places freed on the
  way; an index left out.\<close>

datatype out = Put ptype datum u32 "nat list" | Free "nat list" | Skip

fun perform :: "u32 \<Rightarrow> out list \<Rightarrow> 't wrap" where
  "perform i [] st = Some (TSS_SUCCESS, st)"
| "perform i (Skip # os) st = perform (i + 1) os st"
| "perform i (Free ls # os) st = do { st \<leftarrow> free_places ls st; perform i os st }"
| "perform i (Put ty d sz ls # os) st = do {
     (r, comm, m) \<leftarrow> setData ty i d sz (sv_comm st) (mem st);
     let st = set_mem m (st\<lparr>sv_comm := comm\<rparr>);
     if r \<noteq> 0 then do { st \<leftarrow> free_places ls st; Some (IE, st) } else perform (i + 1) os st }"

definition init :: "u32 \<Rightarrow> 't served \<Rightarrow> 't served" where
  "init n st = st\<lparr>sv_comm := initData n (sv_comm st)\<rparr>"

definition finish :: "u32 \<Rightarrow> 't wrap" where
  "finish result st =
     Some (TSS_SUCCESS, st\<lparr>sv_comm := (sv_comm st)\<lparr>hdr := (hdr (sv_comm st))\<lparr>hdr_u := result\<rparr>\<rparr>\<rparr>)"

text \<open>A response without parameters, and one with those of \<open>os\<close> when the command succeeded.\<close>

definition just :: "u32 \<Rightarrow> 't wrap" where
  "just result st = finish result (init 0 st)"

definition respond :: "u32 \<Rightarrow> u32 \<Rightarrow> (rsp_mem \<Rightarrow> out list) \<Rightarrow> 't wrap" where
  "respond result n os st =
     (if result \<noteq> 0 then just result st
      else do {
        (r, st) \<leftarrow> perform 0 (os (mem st)) (init n st);
        if r \<noteq> 0 then Some (r, st) else finish result st })"

text \<open>The shapes of the parameters: the values of places, and an authorization when there is one.\<close>

abbreviation (input) put_32 :: "rsp_mem \<Rightarrow> nat \<Rightarrow> nat list \<Rightarrow> out" where
  "put_32 m l ls \<equiv> Put PT_UINT32 (D32 (m_32 m l)) 0 ls"
abbreviation (input) put_blob :: "rsp_mem \<Rightarrow> nat \<Rightarrow> nat \<Rightarrow> nat list \<Rightarrow> out" where
  "put_blob m l n ls \<equiv> Put PT_PBYTE (DP (m_B m l)) (m_32 m n) ls"
abbreviation (input) put_array :: "rsp_mem \<Rightarrow> ptype \<Rightarrow> nat \<Rightarrow> nat list \<Rightarrow> out" where
  "put_array m ty l ls \<equiv> Put ty (DA (m_D m l)) 0 ls"
abbreviation (input) put_auth :: "rsp_mem \<Rightarrow> nat \<Rightarrow> nat list \<Rightarrow> out" where
  "put_auth m l ls \<equiv> Put PT_AUTH (DAuth (m_A m l)) 0 ls"

definition put_opt :: "rsp_mem \<Rightarrow> nat option \<Rightarrow> nat list \<Rightarrow> out list" where
  "put_opt m a ls = (case a of None \<Rightarrow> [] | Some l \<Rightarrow> [put_auth m l ls])"

end
