(* ===== verification/Rpc_Wrap_Tpm.thy ===== *)
theory Rpc_Wrap_Tpm
  imports Rpc_Server
begin

text \<open>
  The handlers of the requests for the device itself: contexts, configuration registers, random numbers,
  self test, ticks, ownership, capabilities, audit, maintenance, endorsement key, non-volatile storage,
  counters, physical presence, DAA (\<open>tcs/rpc/tcstp/rpc_{context,oper,dir,pcr_extend,random,selftest,tick,own,
  caps_tpm,audit,maint,ek,nv,counter,admin,daa}.c\<close>).  The numbers after the inputs of a command are the places of
  its results.
\<close>

section \<open>\<open>rpc_context.c\<close>\<close>

text \<open>\<open>tpm_version\<close> is \<open>tpm_metrics.version.minor\<close>; \<open>r1\<close> and
  \<open>r2\<close> are the random numbers that the new handle is
  made of.\<close>

definition note_context :: "u32 \<Rightarrow> 't wrap \<Rightarrow> 't wrap" where
  "note_context result f st = do {
     (r, st) \<leftarrow> f st;
     Some (r, if result = 0 \<and> r = 0 then st\<lparr>sv_context := m_32 (mem st) 0\<rparr> else st) }"

definition tcs_wrap_OpenContext :: "u32 \<Rightarrow> u32 \<Rightarrow> u32 \<Rightarrow> 't wrap" where
  "tcs_wrap_OpenContext tpm_version r1 r2 =
     run (TCS_OpenContext_Internal r1 r2 0) [] (\<lambda>result. note_context result (
     respond result 2 (\<lambda>m. [put_32 m 0 [], Put PT_UINT32 (D32 tpm_version) 0 []])))"

definition set_context :: "u32 \<Rightarrow> 't wrap \<Rightarrow> 't wrap" where
  "set_context c k st = k (st\<lparr>sv_context := c\<rparr>)"

definition tcs_wrap_CloseContext :: "'t tcsd_env \<Rightarrow> 't wrap" where
  "tcs_wrap_CloseContext env =
     recv_32 [] 0 (\<lambda>hContext.
     run (TCS_CloseContext_Internal env hContext) [] (\<lambda>result.
     if result = 0 then set_context NULL_HANDLE (just result) else just result))"

section \<open>\<open>rpc_oper.c\<close>\<close>

definition tcs_wrap_SetOperatorAuth :: "'t tcsd_env \<Rightarrow> 't wrap" where
  "tcs_wrap_SetOperatorAuth env =
     recv_32 [] 0 (\<lambda>hContext. recv_array [] PT_SECRET 1 (\<lambda>operatorAuth.
     run (TCSP_SetOperatorAuth_Internal env hContext operatorAuth) [] (\<lambda>result. just result)))"

section \<open>\<open>rpc_dir.c\<close>\<close>

definition tcs_wrap_DirWriteAuth :: "'t tcsd_env \<Rightarrow> 't wrap" where
  "tcs_wrap_DirWriteAuth env =
     recv_32 [] 0 (\<lambda>hContext. recv_32 [] 1 (\<lambda>dirIndex.
     recv_array [] PT_DIGEST 2 (\<lambda>dirDigest. recv_auth [] 3 0 (
     run (TCSP_DirWriteAuth_Internal env hContext dirIndex dirDigest (Some 0)) [] (\<lambda>result.
     respond result 1 (\<lambda>m. [put_auth m 0 []]))))))"

definition tcs_wrap_DirRead :: "'t tcsd_env \<Rightarrow> 't wrap" where
  "tcs_wrap_DirRead env =
     recv_32 [] 0 (\<lambda>hContext. recv_32 [] 1 (\<lambda>dirIndex.
     run (TCSP_DirRead_Internal env hContext dirIndex (Some 0)) [] (\<lambda>result.
     respond result 1 (\<lambda>m. [put_array m PT_DIGEST 0 []]))))"

section \<open>\<open>rpc_pcr_extend.c\<close>\<close>

definition tcs_wrap_Extend :: "'t tcsd_env \<Rightarrow> 't wrap" where
  "tcs_wrap_Extend env =
     recv_32 [] 0 (\<lambda>hContext. recv_32 [] 1 (\<lambda>pcrIndex. recv_array [] PT_DIGEST 2 (\<lambda>inDigest.
     run (TCSP_Extend_Internal env hContext pcrIndex inDigest (Some 0)) [] (\<lambda>result.
     respond result 1 (\<lambda>m. [put_array m PT_DIGEST 0 []])))))"

definition tcs_wrap_PcrRead :: "'t tcsd_env \<Rightarrow> 't wrap" where
  "tcs_wrap_PcrRead env =
     recv_32 [] 0 (\<lambda>hContext. recv_32 [] 1 (\<lambda>pcrIndex.
     run (TCSP_PcrRead_Internal env hContext pcrIndex (Some 0)) [] (\<lambda>result.
     respond result 1 (\<lambda>m. [put_array m PT_DIGEST 0 []]))))"

text \<open>The result is the value of the function, too.\<close>

definition return_result :: "u32 \<Rightarrow> 't wrap \<Rightarrow> 't wrap" where
  "return_result result f st = do { (r, st) \<leftarrow> f st; Some (result, st) }"

definition tcs_wrap_PcrReset :: "'t tcsd_env \<Rightarrow> 't wrap" where
  "tcs_wrap_PcrReset env =
     recv_32 [] 0 (\<lambda>hContext. recv_32 [] 1 (\<lambda>pcrDataSizeIn.
     recv_blob [] (TCSERR TSS_E_OUTOFMEMORY) 2 pcrDataSizeIn (\<lambda>pcrDataIn.
     run (TCSP_PcrReset_Internal env hContext pcrDataSizeIn pcrDataIn) [pcrDataIn] (\<lambda>result.
     return_result result (just result)))))"

section \<open>\<open>rpc_random.c\<close>\<close>

definition tcs_wrap_GetRandom :: "'t tcsd_env \<Rightarrow> 't wrap" where
  "tcs_wrap_GetRandom env =
     recv_32 [] 0 (\<lambda>hContext. recv_32 [] 1 (\<lambda>bytesRequested. set_size 0 bytesRequested (
     set_place 1 NULL (run (TCSP_GetRandom_Internal env hContext 0 1) [] (\<lambda>result.
     respond result 2 (\<lambda>m. [put_32 m 0 [1], put_blob m 1 0 [1], Free [1]]))))))"

definition tcs_wrap_StirRandom :: "'t tcsd_env \<Rightarrow> 't wrap" where
  "tcs_wrap_StirRandom env =
     recv_32 [] 0 (\<lambda>hContext. recv_32 [] 1 (\<lambda>inDataSize.
     recv_blob [] (TCSERR TSS_E_OUTOFMEMORY) 2 inDataSize (\<lambda>inData.
     run (TCSP_StirRandom_Internal env hContext inDataSize inData) [inData] (\<lambda>result. just result))))"

section \<open>\<open>rpc_selftest.c\<close>\<close>

definition tcs_wrap_SelfTestFull :: "'t tcsd_env \<Rightarrow> 't wrap" where
  "tcs_wrap_SelfTestFull env =
     recv_32 [] 0 (\<lambda>hContext. run (TCSP_SelfTestFull_Internal env hContext) [] (\<lambda>result.
     just result))"

definition tcs_wrap_CertifySelfTest :: "'t tcsd_env \<Rightarrow> 't wrap" where
  "tcs_wrap_CertifySelfTest env =
     recv_32 [] 0 (\<lambda>hContext. recv_32 [] 1 (\<lambda>hKey. recv_array [] PT_NONCE 2 (\<lambda>antiReplay.
     lax_auth [] 3 0 (\<lambda>pPrivAuth. set_place 1 NULL (
     run (TCSP_CertifySelfTest_Internal env hContext hKey antiReplay pPrivAuth (Some 0) (Some 1)) [] (\<lambda>result.
     respond result 3 (\<lambda>m. put_opt m pPrivAuth [1] @ [put_32 m 0 [1], put_blob m 1 0 [1], Free [1]])))))))"

definition tcs_wrap_GetTestResult :: "'t tcsd_env \<Rightarrow> 't wrap" where
  "tcs_wrap_GetTestResult env =
     recv_32 [] 0 (\<lambda>hContext. set_place 1 NULL (
     run (TCSP_GetTestResult_Internal env hContext (Some 0) (Some 1)) [] (\<lambda>result.
     respond result 2 (\<lambda>m. [put_32 m 0 [1], put_blob m 1 0 [1], Free [1]]))))"

section \<open>\<open>rpc_tick.c\<close>\<close>

definition tcs_wrap_ReadCurrentTicks :: "'t tcsd_env \<Rightarrow> 't wrap" where
  "tcs_wrap_ReadCurrentTicks env =
     recv_32 [] 0 (\<lambda>hContext. wild [1] (
     run (TCSP_ReadCurrentTicks_Internal env hContext (Some 0) (Some 1)) [] (\<lambda>result.
     respond result 2 (\<lambda>m. [put_32 m 0 [1], put_blob m 1 0 [1], Free [1]]))))"

definition tcs_wrap_TickStampBlob :: "'t tcsd_env \<Rightarrow> 't wrap" where
  "tcs_wrap_TickStampBlob env =
     recv_32 [] 0 (\<lambda>hContext. recv_32 [] 1 (\<lambda>hKey. recv_array [] PT_NONCE 2 (\<lambda>nonce0.
     recv_array [] PT_DIGEST 3 (\<lambda>digest0. recv_opt_auth 4 0 (\<lambda>pAuth. wild [1, 3] (
     run (TCSP_TickStampBlob_Internal env hContext hKey (Buf nonce0) (Buf digest0) pAuth (Some 0) (Some 1)
       (Some 2) (Some 3)) [] (\<lambda>result.
     respond result 5 (\<lambda>m. put_opt m pAuth [1, 3] @ [put_32 m 0 [1, 3], put_blob m 1 0 [1, 3], put_32 m
       2 [1, 3], put_blob m 3 2 [1, 3]]))))))))"

section \<open>\<open>rpc_own.c\<close>\<close>

definition tcs_wrap_TakeOwnership :: "'t tcsd_env \<Rightarrow> 't wrap" where
  "tcs_wrap_TakeOwnership env =
     with_stack (\<lambda>stack. recv_32 [] 0 (\<lambda>hContext. recv_16 [] 1 (\<lambda>protocolID. recv_32 []
       2 (\<lambda>encOwnerAuthSize.
     recv_blob [] (TCSERR TSS_E_OUTOFMEMORY) 3 encOwnerAuthSize (\<lambda>encOwnerAuth.
     recv_32 [encOwnerAuth] 4 (\<lambda>encSrkAuthSize.
     recv_blob [encOwnerAuth] IE 5 encSrkAuthSize (\<lambda>encSrkAuth.
     recv_32 [encOwnerAuth, encSrkAuth] 6 (\<lambda>srkInfoSize.
     recv_blob [encOwnerAuth, encSrkAuth] IE 7 srkInfoSize (\<lambda>srkInfo.
     recv_session [encOwnerAuth, encSrkAuth, srkInfo] 8 0 (wild [1] (
     run (TCSP_TakeOwnership_Internal env hContext protocolID encOwnerAuthSize encOwnerAuth encSrkAuthSize
       encSrkAuth srkInfoSize srkInfo (Some 0) 0 1) [encOwnerAuth, encSrkAuth, srkInfo] (\<lambda>result.
     respond result 3 (\<lambda>m. [Put PT_AUTH (DSession (m_S m 0) stack) 0 [1], put_32 m 0 [1], put_blob m 1
       0 [1], Free [1]])))))))))))))"

definition tcs_wrap_OwnerClear :: "'t tcsd_env \<Rightarrow> 't wrap" where
  "tcs_wrap_OwnerClear env =
     recv_32 [] 0 (\<lambda>hContext. recv_auth [] 1 0 (
     run (TCSP_OwnerClear_Internal env hContext (Some 0)) [] (\<lambda>result.
     respond result 1 (\<lambda>m. [put_auth m 0 []]))))"

section \<open>\<open>rpc_caps_tpm.c\<close>\<close>

definition tcs_wrap_GetCapability :: "'t tcsd_env \<Rightarrow> 't wrap" where
  "tcs_wrap_GetCapability env =
     recv_32 [] 0 (\<lambda>hContext. recv_32 [] 1 (\<lambda>capArea. recv_32 [] 2 (\<lambda>subCapSize.
     opt_recv_blob [] (TCSERR TSS_E_OUTOFMEMORY) 3 subCapSize (\<lambda>subCap. wild [1] (
     run (TCSP_GetCapability_Internal env hContext capArea subCapSize subCap 0 1) [subCap] (\<lambda>result.
     respond result 2 (\<lambda>m. [put_32 m 0 [1], put_blob m 1 0 [1], Free [1]])))))))"

definition tcs_wrap_GetCapabilityOwner :: "'t tcsd_env \<Rightarrow> 't wrap" where
  "tcs_wrap_GetCapabilityOwner env =
     recv_32 [] 0 (\<lambda>hContext. recv_auth [] 1 0 (
     run (TCSP_GetCapabilityOwner_Internal env hContext (Some 0) (Some 0) (Some 1) (Some 2)) [] (\<lambda>result.
     respond result 4 (\<lambda>m. [Put PT_VERSION (DVersion (m_V m 0)) 0 [], put_32 m 1 [], put_32 m 2 [],
       put_auth m 0 []]))))"

definition tcs_wrap_SetCapability :: "'t tcsd_env \<Rightarrow> 't wrap" where
  "tcs_wrap_SetCapability env =
     recv_32 [] 0 (\<lambda>hContext. recv_32 [] 1 (\<lambda>capArea. recv_32 [] 2 (\<lambda>subCapSize.
     opt_recv_blob [] (TCSERR TSS_E_OUTOFMEMORY) 3 subCapSize (\<lambda>subCap. recv_32 [] 4 (\<lambda>valueSize.
     opt_recv_blob [subCap] (TCSERR TSS_E_OUTOFMEMORY) 5 valueSize (\<lambda>val.
     recv_opt_auth 6 0 (\<lambda>pOwnerAuth.
     run (TCSP_SetCapability_Internal env hContext capArea subCapSize subCap valueSize val pOwnerAuth) [subCap,
       val] (\<lambda>result.
     respond result 1 (\<lambda>m. put_opt m pOwnerAuth [])))))))))"

section \<open>\<open>rpc_audit.c\<close>\<close>

definition tcs_wrap_SetOrdinalAuditStatus :: "'t tcsd_env \<Rightarrow> 't wrap" where
  "tcs_wrap_SetOrdinalAuditStatus env =
     recv_32 [] 0 (\<lambda>hContext. recv_32 [] 1 (\<lambda>ulOrdinal. recv_bool [] 2 (\<lambda>bAuditState.
     recv_auth [] 3 0 (
     run (TCSP_SetOrdinalAuditStatus_Internal env hContext (Some 0) ulOrdinal bAuditState) [] (\<lambda>result.
     respond result 1 (\<lambda>m. [put_auth m 0 []]))))))"

definition tcs_wrap_GetAuditDigest :: "'t tcsd_env \<Rightarrow> 't wrap" where
  "tcs_wrap_GetAuditDigest env =
     recv_32 [] 0 (\<lambda>hContext. recv_32 [] 1 (\<lambda>startOrdinal. wild [2, 5] (
     run (TCSP_GetAuditDigest_Internal env hContext startOrdinal (Some 0) (Some 1) (Some 2) (Some 3) 4 (Some
       5)) [] (\<lambda>result.
     respond result 6 (\<lambda>m. [put_array m PT_DIGEST 0 [2, 5], put_32 m 1 [2, 5], put_blob m 2 1 [2, 5],
       Free [2], Put PT_BOOL (D8 (m_O m 3)) 0 [5], put_32 m 4 [5], Put PT_PBYTE (DP (m_B m 5)) (m_32 m 4 * 4)
         [5], Free [5]])))))"

definition tcs_wrap_GetAuditDigestSigned :: "'t tcsd_env \<Rightarrow> 't wrap" where
  "tcs_wrap_GetAuditDigestSigned env =
     clear_auth 0 (recv_32 [] 0 (\<lambda>hContext. recv_32 [] 1 (\<lambda>keyHandle.
     recv_bool [] 2 (\<lambda>closeAudit. recv_array [] PT_NONCE 3 (\<lambda>antiReplay. recv_auth [] 4 0 (
     if_set 0 (\<lambda>pAuth. wild [1, 5] (
     run (TCSP_GetAuditDigestSigned_Internal env hContext keyHandle closeAudit antiReplay pAuth (Some 0) (Some
       1) (Some 2) (Some 3) (Some 4) (Some 5)) [] (\<lambda>result.
     respond result 7 (\<lambda>m. put_opt m pAuth [1, 5] @ [put_32 m 0 [1, 5], put_blob m 1 0 [1, 5], Free
       [1], put_array m PT_DIGEST 2 [5], put_array m PT_DIGEST 3 [5], put_32 m 4 [5], put_blob m 5 4 [5], Free
         [5]]))))))))))"

section \<open>\<open>rpc_maint.c\<close>\<close>

definition tcs_wrap_KillMaintenanceFeature :: "'t tcsd_env \<Rightarrow> 't wrap" where
  "tcs_wrap_KillMaintenanceFeature env =
     recv_32 [] 0 (\<lambda>hContext. recv_auth [] 1 0 (
     run (TCSP_KillMaintenanceFeature_Internal env hContext (Some 0)) [] (\<lambda>result.
     respond result 1 (\<lambda>m. [put_auth m 0 []]))))"

definition tcs_wrap_CreateMaintenanceArchive :: "'t tcsd_env \<Rightarrow> 't wrap" where
  "tcs_wrap_CreateMaintenanceArchive env =
     recv_32 [] 0 (\<lambda>hContext. recv_bool [] 1 (\<lambda>generateRandom. recv_auth [] 2 0 (wild [1, 3] (
     run (TCSP_CreateMaintenanceArchive_Internal env hContext generateRandom (Some 0) (Some 0) (Some 1) (Some
       2) (Some 3)) [] (\<lambda>result.
     respond result 5 (\<lambda>m. [put_auth m 0 [1, 3], put_32 m 0 [1, 3], put_blob m 1 0 [1, 3], put_32 m 2
       [1, 3], put_blob m 3 2 [1, 3], Free [1, 3]]))))))"

definition tcs_wrap_LoadMaintenanceArchive :: "'t tcsd_env \<Rightarrow> 't wrap" where
  "tcs_wrap_LoadMaintenanceArchive env =
     recv_32 [] 0 (\<lambda>hContext. recv_32 [] 1 (\<lambda>dataInSize.
     recv_blob [] IE 2 dataInSize (\<lambda>dataIn. recv_auth [dataIn] 3 0 (wild [1] (
     run (TCSP_LoadMaintenanceArchive_Internal env hContext dataInSize dataIn (Some 0) (Some 0) (Some 1))
       [dataIn] (\<lambda>result.
     respond result 3 (\<lambda>m. [put_auth m 0 [1], put_32 m 0 [1], put_blob m 1 0 [1], Free [1]])))))))"

definition tcs_wrap_LoadManuMaintPub :: "'t tcsd_env \<Rightarrow> 't wrap" where
  "tcs_wrap_LoadManuMaintPub env =
     recv_32 [] 0 (\<lambda>hContext. recv_array [] PT_NONCE 1 (\<lambda>antiReplay.
     recv_32 [] 2 (\<lambda>pubKeySize. recv_blob [] IE 3 pubKeySize (\<lambda>pubKey.
     run (TCSP_LoadManuMaintPub_Internal env hContext antiReplay pubKeySize pubKey (Some 0)) [pubKey] (\<lambda>result.
     respond result 1 (\<lambda>m. [put_array m PT_DIGEST 0 []]))))))"

definition tcs_wrap_ReadManuMaintPub :: "'t tcsd_env \<Rightarrow> 't wrap" where
  "tcs_wrap_ReadManuMaintPub env =
     recv_32 [] 0 (\<lambda>hContext. recv_array [] PT_NONCE 1 (\<lambda>antiReplay.
     run (TCSP_ReadManuMaintPub_Internal env hContext antiReplay (Some 0)) [] (\<lambda>result.
     respond result 1 (\<lambda>m. [put_array m PT_DIGEST 0 []]))))"

section \<open>\<open>rpc_ek.c\<close>\<close>

definition tcs_wrap_CreateEndorsementKeyPair :: "'t tcsd_env \<Rightarrow> 't wrap" where
  "tcs_wrap_CreateEndorsementKeyPair env =
     recv_32 [] 0 (\<lambda>hContext. recv_array [] PT_NONCE 1 (\<lambda>antiReplay.
     recv_32 [] 2 (\<lambda>eKPtrSize. recv_blob [] (TCSERR TSS_E_OUTOFMEMORY) 3 eKPtrSize (\<lambda>eKPtr.
     wild [1] (
     run (TCSP_CreateEndorsementKeyPair_Internal env hContext antiReplay eKPtrSize eKPtr (Some 0) (Some 1)
       (Some 2)) [eKPtr] (\<lambda>result.
     respond result 3 (\<lambda>m. [put_32 m 0 [1], put_blob m 1 0 [1], Free [1], put_array m PT_DIGEST 2 []])))))))"

definition tcs_wrap_ReadPubek :: "'t tcsd_env \<Rightarrow> 't wrap" where
  "tcs_wrap_ReadPubek env =
     recv_32 [] 0 (\<lambda>hContext. recv_array [] PT_NONCE 1 (\<lambda>antiReplay. wild [1] (
     run (TCSP_ReadPubek_Internal env hContext antiReplay (Some 0) (Some 1) (Some 2)) [] (\<lambda>result.
     respond result 3 (\<lambda>m. [put_32 m 0 [1], put_blob m 1 0 [1], Free [1], put_array m PT_DIGEST 2 []])))))"

definition tcs_wrap_OwnerReadPubek :: "'t tcsd_env \<Rightarrow> 't wrap" where
  "tcs_wrap_OwnerReadPubek env =
     recv_32 [] 0 (\<lambda>hContext. recv_auth [] 1 0 (wild [1] (
     run (TCSP_OwnerReadPubek_Internal env hContext (Some 0) (Some 0) (Some 1)) [] (\<lambda>result.
     respond result 3 (\<lambda>m. [put_auth m 0 [1], put_32 m 0 [1], put_blob m 1 0 [1], Free [1]])))))"

definition tcs_wrap_DisablePubekRead :: "'t tcsd_env \<Rightarrow> 't wrap" where
  "tcs_wrap_DisablePubekRead env =
     recv_32 [] 0 (\<lambda>hContext. recv_auth [] 1 0 (
     run (TCSP_DisablePubekRead_Internal env hContext (Some 0)) [] (\<lambda>result.
     respond result 1 (\<lambda>m. [put_auth m 0 []]))))"

text \<open>The reset authorization is sent and answered in the place 0.\<close>

definition set_array :: "nat \<Rightarrow> u8 list \<Rightarrow> 't wrap \<Rightarrow> 't wrap" where
  "set_array l a k st = k (set_mem ((mem st)\<lparr>m_D := (m_D (mem st))(l := a)\<rparr>) st)"

definition tcs_wrap_CreateRevocableEndorsementKeyPair :: "'t tcsd_env \<Rightarrow> 't wrap" where
  "tcs_wrap_CreateRevocableEndorsementKeyPair env =
     recv_32 [] 0 (\<lambda>hContext. recv_array [] PT_NONCE 1 (\<lambda>antiReplay. recv_32 [] 2 (\<lambda>eKPtrSize.
     recv_blob [] (TCSERR TSS_E_OUTOFMEMORY) 3 eKPtrSize (\<lambda>eKPtr. recv_bool [eKPtr] 4 (\<lambda>genResetAuth.
     recv_array [eKPtr] PT_DIGEST 5 (\<lambda>eKResetAuth. set_array 0 eKResetAuth (wild [2] (
     run (TCSP_CreateRevocableEndorsementKeyPair_Internal env hContext antiReplay eKPtrSize eKPtr genResetAuth
       0 (Some 1)
       (Some 2) (Some 3)) [eKPtr] (\<lambda>result.
     respond result 4 (\<lambda>m. [put_array m PT_DIGEST 0 [2], put_32 m 1 [2], put_blob m 2 1 [2], Free [2],
       put_array m PT_DIGEST 3 []]))))))))))"

definition tcs_wrap_RevokeEndorsementKeyPair :: "'t tcsd_env \<Rightarrow> 't wrap" where
  "tcs_wrap_RevokeEndorsementKeyPair env =
     recv_32 [] 0 (\<lambda>hContext. recv_array [] PT_DIGEST 1 (\<lambda>eKResetAuth.
     run (TCSP_RevokeEndorsementKeyPair_Internal env hContext eKResetAuth) [] (\<lambda>result. just result)))"

section \<open>\<open>rpc_nv.c\<close>\<close>

definition tcs_wrap_NV_DefineOrReleaseSpace :: "'t tcsd_env \<Rightarrow> 't wrap" where
  "tcs_wrap_NV_DefineOrReleaseSpace env =
     recv_32 [] 0 (\<lambda>hContext. recv_32 [] 1 (\<lambda>cPubInfoSize.
     recv_blob [] (TCSERR TSS_E_OUTOFMEMORY) 2 cPubInfoSize (\<lambda>pubInfo.
     recv_array [pubInfo] PT_ENCAUTH 3 (\<lambda>encAuth. recv_opt_auth 4 0 (\<lambda>pAuth.
     run (TCSP_NV_DefineOrReleaseSpace_Internal env hContext cPubInfoSize pubInfo encAuth pAuth) [pubInfo]
       (\<lambda>result.
     respond result 1 (\<lambda>m. put_opt m pAuth [])))))))"

definition tcs_wrap_NV_WriteValue :: "'t tcsd_env \<Rightarrow> 't wrap" where
  "tcs_wrap_NV_WriteValue env =
     recv_32 [] 0 (\<lambda>hContext. recv_32 [] 1 (\<lambda>hNVStore. recv_32 [] 2 (\<lambda>ofs.
     recv_32 [] 3 (\<lambda>ulDataLength.
     recv_blob [] (TCSERR TSS_E_OUTOFMEMORY) 4 ulDataLength (\<lambda>rgbDataToWrite.
     recv_opt_auth 5 0 (\<lambda>pAuth.
     run (TCSP_NV_WriteValue_Internal env hContext hNVStore ofs ulDataLength rgbDataToWrite pAuth)
       [rgbDataToWrite] (\<lambda>result.
     respond result 1 (\<lambda>m. put_opt m pAuth []))))))))"

definition tcs_wrap_NV_WriteValueAuth :: "'t tcsd_env \<Rightarrow> 't wrap" where
  "tcs_wrap_NV_WriteValueAuth env =
     recv_32 [] 0 (\<lambda>hContext. recv_32 [] 1 (\<lambda>hNVStore. recv_32 [] 2 (\<lambda>ofs.
     recv_32 [] 3 (\<lambda>ulDataLength.
     recv_blob [] (TCSERR TSS_E_OUTOFMEMORY) 4 ulDataLength (\<lambda>rgbDataToWrite.
     recv_opt_auth 5 0 (\<lambda>pAuth.
     run (TCSP_NV_WriteValueAuth_Internal env hContext hNVStore ofs ulDataLength rgbDataToWrite pAuth)
       [rgbDataToWrite] (\<lambda>result.
     respond result 1 (\<lambda>m. put_opt m pAuth []))))))))"

definition tcs_wrap_NV_ReadValue :: "'t tcsd_env \<Rightarrow> 't wrap" where
  "tcs_wrap_NV_ReadValue env =
     recv_32 [] 0 (\<lambda>hContext. recv_32 [] 1 (\<lambda>hNVStore. recv_32 [] 2 (\<lambda>ofs.
     recv_32 [] 3 (\<lambda>ulDataLength. recv_opt_auth 4 0 (\<lambda>pAuth. set_size 0 ulDataLength (
     set_place 1 NULL (
     run (TCSP_NV_ReadValue_Internal env hContext hNVStore ofs 0 pAuth (Some 1)) [] (\<lambda>result.
     respond result 3 (\<lambda>m. put_opt m pAuth [1] @ [put_32 m 0 [1], put_blob m 1 0 [1], Free [1]])))))))))"

definition tcs_wrap_NV_ReadValueAuth :: "'t tcsd_env \<Rightarrow> 't wrap" where
  "tcs_wrap_NV_ReadValueAuth env =
     recv_32 [] 0 (\<lambda>hContext. recv_32 [] 1 (\<lambda>hNVStore. recv_32 [] 2 (\<lambda>ofs.
     recv_32 [] 3 (\<lambda>ulDataLength. recv_opt_auth 4 0 (\<lambda>pNVAuth. set_size 0 ulDataLength (
     set_place 1 NULL (
     run (TCSP_NV_ReadValueAuth_Internal env hContext hNVStore ofs 0 pNVAuth (Some 1)) [] (\<lambda>result.
     respond result 3 (\<lambda>m. put_opt m pNVAuth [1] @ [put_32 m 0 [1], put_blob m 1 0 [1], Free [1]])))))))))"

section \<open>\<open>rpc_counter.c\<close>\<close>

definition tcs_wrap_ReadCounter :: "'t tcsd_env \<Rightarrow> 't wrap" where
  "tcs_wrap_ReadCounter env =
     recv_32 [] 0 (\<lambda>hContext. recv_32 [] 1 (\<lambda>idCounter.
     run (TCSP_ReadCounter_Internal env hContext idCounter (Some 0)) [] (\<lambda>result.
     respond result 1 (\<lambda>m. [Put PT_COUNTER_VALUE (DCounter (m_C m 0)) 0 []]))))"

text \<open>The label is read over the pointer \<open>pLabel\<close> itself, an object of 8 bytes, which
  afterwards is no
  pointer that could be read or freed; only an empty label leaves it.\<close>

definition recv_over :: "ptr \<Rightarrow> u32 \<Rightarrow> u32 \<Rightarrow> (ptr \<Rightarrow> 't wrap)
  \<Rightarrow> 't wrap" where
  "recv_over p i n k st = do {
     ((r, d), st) \<leftarrow> get_parm PT_PBYTE i (DP (Buf (replicate 8 0))) n st;
     if r \<noteq> 0 then leave [p] IE st else if n = 0 then k p st else None }"

definition tcs_wrap_CreateCounter :: "'t tcsd_env \<Rightarrow> 't wrap" where
  "tcs_wrap_CreateCounter env =
     recv_32 [] 0 (\<lambda>hContext. recv_32 [] 1 (\<lambda>LabelSize. alloc [] (TCSERR TSS_E_OUTOFMEMORY)
       LabelSize (\<lambda>p.
     recv_over p 2 LabelSize (\<lambda>pLabel. recv_array [pLabel] PT_ENCAUTH 3 (\<lambda>encauth. recv_auth
       [pLabel] 4 0 (
     run (TCSP_CreateCounter_Internal env hContext LabelSize pLabel encauth (Some 0) (Some 0) (Some 1))
       [pLabel] (\<lambda>result.
     respond result 3 (\<lambda>m. [put_auth m 0 [], put_32 m 0 [], Put PT_COUNTER_VALUE (DCounter (m_C m 1)) 0
       []]))))))))"

definition tcs_wrap_IncrementCounter :: "'t tcsd_env \<Rightarrow> 't wrap" where
  "tcs_wrap_IncrementCounter env =
     recv_32 [] 0 (\<lambda>hContext. recv_32 [] 1 (\<lambda>idCounter. recv_auth [] 2 0 (
     run (TCSP_IncrementCounter_Internal env hContext idCounter (Some 0) (Some 0)) [] (\<lambda>result.
     respond result 2 (\<lambda>m. [put_auth m 0 [], Put PT_COUNTER_VALUE (DCounter (m_C m 0)) 0 []])))))"

definition tcs_wrap_ReleaseCounter :: "'t tcsd_env \<Rightarrow> 't wrap" where
  "tcs_wrap_ReleaseCounter env =
     recv_32 [] 0 (\<lambda>hContext. recv_32 [] 1 (\<lambda>idCounter. recv_auth [] 2 0 (
     run (TCSP_ReleaseCounter_Internal env hContext idCounter (Some 0)) [] (\<lambda>result.
     respond result 1 (\<lambda>m. [put_auth m 0 []])))))"

definition tcs_wrap_ReleaseCounterOwner :: "'t tcsd_env \<Rightarrow> 't wrap" where
  "tcs_wrap_ReleaseCounterOwner env =
     recv_32 [] 0 (\<lambda>hContext. recv_32 [] 1 (\<lambda>idCounter. recv_auth [] 2 0 (
     run (TCSP_ReleaseCounterOwner_Internal env hContext idCounter (Some 0)) [] (\<lambda>result.
     respond result 1 (\<lambda>m. [put_auth m 0 []])))))"

section \<open>\<open>rpc_admin.c\<close>\<close>

definition tcs_wrap_PhysicalSetDeactivated :: "'t tcsd_env \<Rightarrow> 't wrap" where
  "tcs_wrap_PhysicalSetDeactivated env =
     recv_32 [] 0 (\<lambda>hContext. recv_bool [] 1 (\<lambda>state0.
     run (TCSP_PhysicalSetDeactivated_Internal env hContext state0) [] (\<lambda>result. just result)))"

definition tcs_wrap_DisableOwnerClear :: "'t tcsd_env \<Rightarrow> 't wrap" where
  "tcs_wrap_DisableOwnerClear env =
     recv_32 [] 0 (\<lambda>hContext. recv_auth [] 1 0 (
     run (TCSP_DisableOwnerClear_Internal env hContext (Some 0)) [] (\<lambda>result.
     respond result 1 (\<lambda>m. [put_auth m 0 []]))))"

definition tcs_wrap_ForceClear :: "'t tcsd_env \<Rightarrow> 't wrap" where
  "tcs_wrap_ForceClear env =
     recv_32 [] 0 (\<lambda>hContext. run (TCSP_ForceClear_Internal env hContext) [] (\<lambda>result. just result))"

definition tcs_wrap_DisableForceClear :: "'t tcsd_env \<Rightarrow> 't wrap" where
  "tcs_wrap_DisableForceClear env =
     recv_32 [] 0 (\<lambda>hContext. run (TCSP_DisableForceClear_Internal env hContext) [] (\<lambda>result.
     just result))"

definition tcs_wrap_PhysicalEnable :: "'t tcsd_env \<Rightarrow> 't wrap" where
  "tcs_wrap_PhysicalEnable env =
     recv_32 [] 0 (\<lambda>hContext. run (TCSP_PhysicalEnable_Internal env hContext) [] (\<lambda>result.
     just result))"

definition tcs_wrap_SetOwnerInstall :: "'t tcsd_env \<Rightarrow> 't wrap" where
  "tcs_wrap_SetOwnerInstall env =
     recv_32 [] 0 (\<lambda>hContext. recv_bool [] 1 (\<lambda>state0.
     run (TCSP_SetOwnerInstall_Internal env hContext state0) [] (\<lambda>result. just result)))"

definition tcs_wrap_OwnerSetDisable :: "'t tcsd_env \<Rightarrow> 't wrap" where
  "tcs_wrap_OwnerSetDisable env =
     recv_32 [] 0 (\<lambda>hContext. recv_bool [] 1 (\<lambda>disableState. recv_auth [] 2 0 (
     run (TCSP_OwnerSetDisable_Internal env hContext disableState (Some 0)) [] (\<lambda>result.
     respond result 1 (\<lambda>m. [put_auth m 0 []])))))"

definition tcs_wrap_PhysicalDisable :: "'t tcsd_env \<Rightarrow> 't wrap" where
  "tcs_wrap_PhysicalDisable env =
     recv_32 [] 0 (\<lambda>hContext. run (TCSP_PhysicalDisable_Internal env hContext) [] (\<lambda>result.
     just result))"

definition tcs_wrap_PhysicalPresence :: "'t tcsd_env \<Rightarrow> 't wrap" where
  "tcs_wrap_PhysicalPresence env =
     recv_32 [] 0 (\<lambda>hContext. recv_16 [] 1 (\<lambda>phyPresFlags.
     run (TCSP_PhysicalPresence_Internal env hContext phyPresFlags) [] (\<lambda>result. just result)))"

definition tcs_wrap_SetTempDeactivated :: "'t tcsd_env \<Rightarrow> 't wrap" where
  "tcs_wrap_SetTempDeactivated env =
     recv_32 [] 0 (\<lambda>hContext. run (TCSP_SetTempDeactivated_Internal env hContext) [] (\<lambda>result.
     just result))"

definition tcs_wrap_SetTempDeactivated2 :: "'t tcsd_env \<Rightarrow> 't wrap" where
  "tcs_wrap_SetTempDeactivated2 env =
     clear_auth 0 (recv_32 [] 0 (\<lambda>hContext. recv_auth [] 1 0 (if_set 0 (\<lambda>pAuth.
     run (TCSP_SetTempDeactivated2_Internal env hContext pAuth) [] (\<lambda>result.
     respond result 1 (\<lambda>m. put_opt m pAuth []))))))"

definition tcs_wrap_ResetLockValue :: "'t tcsd_env \<Rightarrow> 't wrap" where
  "tcs_wrap_ResetLockValue env =
     recv_32 [] 0 (\<lambda>hContext. recv_auth [] 1 0 (
     run (TCSP_ResetLockValue_Internal env hContext (Some 0)) [] (\<lambda>result.
     respond result 1 (\<lambda>m. [put_auth m 0 []]))))"

definition tcs_wrap_FlushSpecific :: "'t tcsd_env \<Rightarrow> 't wrap" where
  "tcs_wrap_FlushSpecific env =
     recv_32 [] 0 (\<lambda>hContext. recv_32 [] 1 (\<lambda>hResHandle. recv_32 [] 2 (\<lambda>resourceType.
     run (TCSP_FlushSpecific_Internal env hContext hResHandle resourceType) [] (\<lambda>result. just result))))"

section \<open>\<open>rpc_daa.c\<close>\<close>

definition tcs_wrap_DaaJoin :: "'t tcsd_env \<Rightarrow> 't wrap" where
  "tcs_wrap_DaaJoin env =
     recv_32 [] 0 (\<lambda>hContext. recv_32 [] 1 (\<lambda>hDAA. recv_byte [] 2 (\<lambda>stage0.
     recv_32 [] 3 (\<lambda>inputSize0. recv_blob [] (TCSERR TSS_E_OUTOFMEMORY) 4 inputSize0 (\<lambda>inputData0.
     recv_32 [inputData0] 5 (\<lambda>inputSize1.
     opt_recv_blob [inputData0] (TCSERR TSS_E_OUTOFMEMORY) 6 inputSize1 (\<lambda>inputData1.
     recv_opt_auth 7 0 (\<lambda>pOwnerAuth. wild [1] (
     run (TCSP_DaaJoin_internal env hContext hDAA stage0 inputSize0 inputData0 inputSize1 inputData1 pOwnerAuth
       (Some 0) (Some 1)) [inputData0, inputData1] (\<lambda>result.
     respond result 3 (\<lambda>m. put_opt m pOwnerAuth [1] @ [put_32 m 0 [1], put_blob m 1 0 [1], Free [1]])))))))))))"

definition tcs_wrap_DaaSign :: "'t tcsd_env \<Rightarrow> 't wrap" where
  "tcs_wrap_DaaSign env =
     recv_32 [] 0 (\<lambda>hContext. recv_32 [] 1 (\<lambda>hDAA. recv_byte [] 2 (\<lambda>stage0.
     recv_32 [] 3 (\<lambda>inputSize0. recv_blob [] (TCSERR TSS_E_OUTOFMEMORY) 4 inputSize0 (\<lambda>inputData0.
     recv_32 [inputData0] 5 (\<lambda>inputSize1.
     opt_recv_blob [inputData0] (TCSERR TSS_E_OUTOFMEMORY) 6 inputSize1 (\<lambda>inputData1.
     recv_opt_auth 7 0 (\<lambda>pOwnerAuth. wild [1] (
     run (TCSP_DaaSign_internal env hContext hDAA stage0 inputSize0 inputData0 inputSize1 inputData1 pOwnerAuth
       (Some 0) (Some 1)) [inputData0, inputData1] (\<lambda>result.
     respond result 3 (\<lambda>m. put_opt m pOwnerAuth [1] @ [put_32 m 0 [1], put_blob m 1 0 [1], Free [1]])))))))))))"

end
