(* ===== verification/Rpc_Wrap_Keys.thy ===== *)
theory Rpc_Wrap_Keys
  imports Rpc_Wrap_Tpm
begin

text \<open>
  The handlers of the requests on sessions and keys: authorization sessions, loading and creating keys,
  sealing, quoting, certifying, signing, unbinding, changing authorizations, identities, migration, transport
  sessions, delegation (\<open>tcs/rpc/tcstp/rpc_{auth,key,seal,quote,quote2,certify,sign,bind,changeauth,aik,
  migration,cmk,transport,delegate}.c\<close>).
\<close>

section \<open>\<open>rpc_auth.c\<close>\<close>

text \<open>A new session: the error of the session manager, or its results.\<close>

definition run_session ::
  "('t tcsd \<Rightarrow> ((u32 + 'a) \<times> 't tcsd) option) \<Rightarrow> u32 \<Rightarrow> ('a
    \<Rightarrow> out list) \<Rightarrow> 't wrap" where
  "run_session f n os st = do {
     (x, d) \<leftarrow> f (sv_d st);
     let st = st\<lparr>sv_d := d\<rparr>;
     case x of Inl result \<Rightarrow> just result st | Inr v \<Rightarrow> respond TSS_SUCCESS n (\<lambda>m.
       os v) st }"

definition tcs_wrap_OIAP :: "'t tcsd_env \<Rightarrow> 't wrap" where
  "tcs_wrap_OIAP env =
     recv_32 [] 0 (\<lambda>hContext.
     run_session (oiap_session env hContext) 2
       (\<lambda>(authHandle, n0). [Put PT_UINT32 (D32 authHandle) 0 [], Put PT_NONCE (DA n0) 0 []]))"

definition tcs_wrap_OSAP :: "'t tcsd_env \<Rightarrow> 't wrap" where
  "tcs_wrap_OSAP env =
     recv_32 [] 0 (\<lambda>hContext. recv_16 [] 1 (\<lambda>entityType. recv_32 [] 2 (\<lambda>entityValue.
     recv_array [] PT_NONCE 3 (\<lambda>nonceOddOSAP.
     run_session (osap_session env hContext entityType entityValue nonceOddOSAP) 3
       (\<lambda>(authHandle, nonceEven, nonceEvenOSAP).
         [Put PT_UINT32 (D32 authHandle) 0 [], Put PT_NONCE (DA nonceEven) 0 [], Put PT_NONCE (DA
           nonceEvenOSAP) 0 []])))))"

definition tcs_wrap_APCreate :: "'t tcsd_env \<Rightarrow> 't wrap" where
  "tcs_wrap_APCreate env =
     recv_32 [] 0 (\<lambda>hContext. recv_16 [] 1 (\<lambda>entityType. recv_32 [] 2 (\<lambda>entityValue.
     recv_array [] PT_NONCE 3 (\<lambda>nonceOdd. recv_array [] PT_AUTH_DATA 4 (\<lambda>inMac.
     run_session (APCreate_session env hContext entityType entityValue nonceOdd inMac) 4
       (\<lambda>(authHandle, nonceEven, seq, outMac).
         [Put PT_UINT32 (D32 authHandle) 0 [], Put PT_NONCE (DA nonceEven) 0 [], Put PT_UINT32 (D32 seq) 0 [],
          Put PT_AUTH_DATA (DA outMac) 0 []]))))))"

section \<open>\<open>rpc_key.c\<close>\<close>

definition tcs_wrap_EvictKey :: "'t wrap" where
  "tcs_wrap_EvictKey =
     recv_32 [] 0 (\<lambda>hContext. recv_32 [] 1 (\<lambda>hKey.
     run (\<lambda>st. let (result, tcs) = key_mgr_evict hContext hKey (d_tcs st) in Some (result, set_tcs tcs st)) []
       (\<lambda>result. just result)))"

definition tcs_wrap_GetPubkey :: "'t tcsd_env \<Rightarrow> 't wrap" where
  "tcs_wrap_GetPubkey env =
     recv_32 [] 0 (\<lambda>hContext. recv_32 [] 1 (\<lambda>hKey. lax_auth [] 2 0 (\<lambda>pAuth. wild [1] (
     run (TCSP_GetPubKey_Internal env hContext hKey pAuth (Some 0) (Some 1)) [] (\<lambda>result.
     respond result 3 (\<lambda>m. put_opt m pAuth [1] @ [put_32 m 0 [1], put_blob m 1 0 [1], Free [1]]))))))"

definition tcs_wrap_TerminateHandle :: "'t tcsd_env \<Rightarrow> 't wrap" where
  "tcs_wrap_TerminateHandle env =
     recv_32 [] 0 (\<lambda>hContext. recv_32 [] 1 (\<lambda>authHandle.
     run (terminate_session env hContext authHandle) [] (\<lambda>result. just result)))"

text \<open>\<open>key_mgr_load_by_blob\<close> and, when it succeeds, \<open>ctx_mark_key_loaded\<close>.\<close>

definition load_and_mark ::
  "'t tcsd_env \<Rightarrow> u32 \<Rightarrow> u32 \<Rightarrow> u32 \<Rightarrow> ptr \<Rightarrow> nat option
    \<Rightarrow> nat \<Rightarrow> nat option \<Rightarrow> 't command" where
  "load_and_mark env hContext hUnwrappingKey sz blob pAuth phKeyTCSI phKeyHMAC st = do {
     bs \<leftarrow> bytes_of blob;
     r \<leftarrow> key_mgr_load_by_blob env hContext hUnwrappingKey sz bs pAuth st;
     let (result, st) = store_handles r phKeyTCSI phKeyHMAC;
     if result \<noteq> 0 then Some (result, st)
     else let (result, tcs) = ctx_mark_key_loaded hContext (m_32 (d_mem st) phKeyTCSI) (d_tcs st)
       in Some (result, set_tcs tcs st) }"

definition tcs_wrap_LoadKeyByBlob :: "'t tcsd_env \<Rightarrow> 't wrap" where
  "tcs_wrap_LoadKeyByBlob env =
     recv_32 [] 0 (\<lambda>hContext. recv_32 [] 1 (\<lambda>hUnwrappingKey. recv_32 [] 2 (\<lambda>cWrappedKeyBlob.
     recv_blob [] (TCSERR TSS_E_OUTOFMEMORY) 3 cWrappedKeyBlob (\<lambda>rgbWrappedKeyBlob.
     lax_auth [rgbWrappedKeyBlob] 4 0 (\<lambda>pAuth.
     run (load_and_mark env hContext hUnwrappingKey cWrappedKeyBlob rgbWrappedKeyBlob pAuth 0 (Some 1))
       [rgbWrappedKeyBlob] (\<lambda>result.
     respond result 3 (\<lambda>m. put_opt m pAuth [] @ [put_32 m 0 [], put_32 m 1 []])))))))"

definition tcs_wrap_LoadKey2ByBlob :: "'t tcsd_env \<Rightarrow> 't wrap" where
  "tcs_wrap_LoadKey2ByBlob env =
     recv_32 [] 0 (\<lambda>hContext. recv_32 [] 1 (\<lambda>hUnwrappingKey. recv_32 [] 2 (\<lambda>cWrappedKeyBlob.
     recv_blob [] (TCSERR TSS_E_OUTOFMEMORY) 3 cWrappedKeyBlob (\<lambda>rgbWrappedKeyBlob.
     lax_auth [rgbWrappedKeyBlob] 4 0 (\<lambda>pAuth.
     run (load_and_mark env hContext hUnwrappingKey cWrappedKeyBlob rgbWrappedKeyBlob pAuth 0 None)
       [rgbWrappedKeyBlob] (\<lambda>result.
     respond result 2 (\<lambda>m. put_opt m pAuth [] @ [put_32 m 0 []])))))))"

definition tcs_wrap_CreateWrapKey :: "'t tcsd_env \<Rightarrow> 't wrap" where
  "tcs_wrap_CreateWrapKey env =
     recv_32 [] 0 (\<lambda>hContext. recv_32 [] 1 (\<lambda>hWrappingKey.
     recv_array [] PT_ENCAUTH 2 (\<lambda>KeyUsageAuth. recv_array [] PT_ENCAUTH 3 (\<lambda>KeyMigrationAuth.
     recv_32 [] 4 (\<lambda>keyInfoSize. recv_blob [] (TCSERR TSS_E_OUTOFMEMORY) 5 keyInfoSize (\<lambda>keyInfo.
     recv_opt_auth 6 0 (\<lambda>pAuth. wild [1] (
     run (TCSP_CreateWrapKey_Internal env hContext hWrappingKey KeyUsageAuth KeyMigrationAuth keyInfoSize
       keyInfo (Some 0) (Some 1) pAuth) [keyInfo] (\<lambda>result.
     respond result 3 (\<lambda>m. [put_32 m 0 [1], put_blob m 1 0 [1], Free [1]] @ put_opt m pAuth []))))))))))"

definition tcs_wrap_OwnerReadInternalPub :: "'t tcsd_env \<Rightarrow> 't wrap" where
  "tcs_wrap_OwnerReadInternalPub env =
     recv_32 [] 0 (\<lambda>hContext. recv_32 [] 1 (\<lambda>hKey. recv_auth [] 2 0 (wild [1] (
     run (TCSP_OwnerReadInternalPub_Internal env hContext hKey (Some 0) (Some 0) (Some 1)) [] (\<lambda>result.
     respond result 3 (\<lambda>m. [put_auth m 0 [], put_32 m 0 [], put_blob m 1 0 []]))))))"

text \<open>\<open>TCSP_KeyControlOwner_Internal\<close> does not write the UUID: what the stack holds is
  answered.\<close>

definition tcs_wrap_KeyControlOwner :: "'t tcsd_env \<Rightarrow> TSS_UUID \<Rightarrow> 't wrap" where
  "tcs_wrap_KeyControlOwner env uuidData =
     recv_32 [] 0 (\<lambda>hContext. recv_32 [] 1 (\<lambda>hKey. recv_32 [] 2 (\<lambda>ulPublicKeyLength.
     recv_blob [] (TCSERR TSS_E_OUTOFMEMORY) 3 ulPublicKeyLength (\<lambda>rgbPublicKey.
     recv_32 [rgbPublicKey] 4 (\<lambda>attribName. recv_bool [rgbPublicKey] 5 (\<lambda>attribValue.
     recv_auth [rgbPublicKey] 6 0 (
     run (TCSP_KeyControlOwner_Internal env hContext hKey ulPublicKeyLength rgbPublicKey attribName attribValue
       (Some 0))
       [] (\<lambda>result.
     respond result 2 (\<lambda>m. [put_auth m 0 [], Put PT_UUID (DUuid uuidData) 0 []])))))))))"

section \<open>\<open>rpc_seal.c\<close>\<close>

text \<open>An empty array is not in the request at all, and moves the index of what follows.  Without an
  authorization the indices of the response start at 1.\<close>

definition seal_blob :: "ptr list \<Rightarrow> u32 \<Rightarrow> u32 \<Rightarrow> (ptr \<Rightarrow> u32
  \<Rightarrow> 't wrap) \<Rightarrow> 't wrap" where
  "seal_blob ps i n k =
     (if 0 < n then recv_blob ps (TCSERR TSS_E_OUTOFMEMORY) i n (\<lambda>p. k p (i + 1)) else k NULL i)"

definition tcs_common_Seal :: "'t tcsd_env \<Rightarrow> u32 \<Rightarrow> 't wrap" where
  "tcs_common_Seal env sealOrdinal =
     clear_auth 0 (recv_32 [] 0 (\<lambda>hContext. recv_32 [] 1 (\<lambda>keyHandle. recv_array [] PT_ENCAUTH
       2 (\<lambda>KeyUsageAuth.
     recv_32 [] 3 (\<lambda>PCRInfoSize. seal_blob [] 4 PCRInfoSize (\<lambda>PCRInfo i.
     recv_32 [PCRInfo] i (\<lambda>inDataSize. seal_blob [PCRInfo] (i + 1) inDataSize (\<lambda>inData i.
     lax_auth [inData, PCRInfo] i 0 (\<lambda>pAuth. wild [1] (
     run (TCSP_Seal_Internal env sealOrdinal hContext keyHandle KeyUsageAuth PCRInfoSize PCRInfo inDataSize inData
       pAuth (Some 0) (Some 1)) [inData, PCRInfo] (\<lambda>result.
     respond result 3 (\<lambda>m. (case pAuth of None \<Rightarrow> [Skip] | Some l \<Rightarrow> [put_auth m l [1]]) @
       [put_32 m 0 [1], put_blob m 1 0 [1], Free [1]]))))))))))))"

definition tcs_wrap_Seal :: "'t tcsd_env \<Rightarrow> 't wrap" where
  "tcs_wrap_Seal env = tcs_common_Seal env TPM_ORD_Seal"

definition tcs_wrap_Sealx :: "'t tcsd_env \<Rightarrow> 't wrap" where
  "tcs_wrap_Sealx env = tcs_common_Seal env TPM_ORD_Sealx"

text \<open>With one authorization it is that of the data; \<open>dataAuth\<close>, which is then
  uninitialised, is answered.\<close>

definition tcs_wrap_UnSeal :: "'t tcsd_env \<Rightarrow> 't wrap" where
  "tcs_wrap_UnSeal env =
     recv_32 [] 0 (\<lambda>hContext. recv_32 [] 1 (\<lambda>parentHandle. recv_32 [] 2 (\<lambda>inDataSize.
     recv_blob [] (TCSERR TSS_E_OUTOFMEMORY) 3 inDataSize (\<lambda>inData.
     lax_auth [inData] 4 0 (\<lambda>a. lax_auth [inData] 5 1 (\<lambda>b.
     let pParentAuth = (if b = None then None else a); pDataAuth = (if b = None then a else b)
     in wild [1] (
     run (TCSP_Unseal_Internal env hContext parentHandle inDataSize inData pParentAuth pDataAuth (Some 0) (Some 1))
       [inData] (\<lambda>result.
     respond result 4 (\<lambda>m. [case pParentAuth of None \<Rightarrow> Put PT_AUTH (DAuth null_auth) 0 [1]
       | Some l \<Rightarrow> put_auth m l [1],
       put_auth m 1 [1], put_32 m 0 [1], put_blob m 1 0 [1], Free [1]])))))))))"

section \<open>\<open>rpc_quote.c\<close>\<close>

definition tcs_wrap_Quote :: "'t tcsd_env \<Rightarrow> 't wrap" where
  "tcs_wrap_Quote env =
     recv_32 [] 0 (\<lambda>hContext. recv_32 [] 1 (\<lambda>hKey. recv_array [] PT_NONCE 2 (\<lambda>antiReplay.
     recv_32 [] 3 (\<lambda>pcrDataSizeIn.
     recv_blob [] (TCSERR TSS_E_OUTOFMEMORY) 4 pcrDataSizeIn (\<lambda>pcrDataIn.
     lax_auth [pcrDataIn] 5 0 (\<lambda>pPrivAuth. wild [1, 3] (
     run (TCSP_Quote_Internal env hContext hKey antiReplay pcrDataSizeIn pcrDataIn pPrivAuth (Some 0) (Some 1)
       (Some 2) (Some 3)) [pcrDataIn] (\<lambda>result.
     respond result 5 (\<lambda>m. put_opt m pPrivAuth [1, 3] @ [put_32 m 0 [1, 3], put_blob m 1 0 [1, 3],
       put_32 m 2 [1, 3], put_blob m 3 2 [1, 3], Free [1, 3]])))))))))"

section \<open>\<open>rpc_quote2.c\<close>\<close>

text \<open>On a failure to write the version information is freed when \<open>addVersion\<close> is set; when
  \<open>addVersion\<close> is
  missing in the request, \<open>pcrDataIn\<close> stays allocated.\<close>

definition tcs_wrap_Quote2 :: "'t tcsd_env \<Rightarrow> 't wrap" where
  "tcs_wrap_Quote2 env =
     recv_32 [] 0 (\<lambda>hContext. recv_32 [] 1 (\<lambda>hKey. recv_array [] PT_NONCE 2 (\<lambda>antiReplay.
     recv_32 [] 3 (\<lambda>pcrDataSizeIn. recv_blob [] (TCSERR TSS_E_OUTOFMEMORY) 4 pcrDataSizeIn (\<lambda>pcrDataIn.
     recv_bool [] 5 (\<lambda>addVersion. lax_auth [pcrDataIn] 6 0 (\<lambda>pPrivAuth. wild [1, 3, 5] (
     run (TCSP_Quote2_Internal env hContext hKey antiReplay pcrDataSizeIn pcrDataIn addVersion pPrivAuth
       (Some 0) (Some 1) (Some 2) (Some 3) (Some 4) (Some 5)) [pcrDataIn] (\<lambda>result.
     let ls = (if addVersion \<noteq> 0 then [1, 3, 5] else [1, 5])
     in respond result 7 (\<lambda>m. put_opt m pPrivAuth ls @ [put_32 m 0 ls, put_blob m 1 0 ls, put_32 m 2
       [1, 3, 5]] @
       (if 0 < m_32 m 2 then [put_blob m 3 2 [1, 3, 5]] else []) @
       [put_32 m 4 ls, put_blob m 5 4 ls, Free [1]] @ (if 0 < m_32 m 2 then [Free [3]] else []) @ [Free [5]]))))))))))"

section \<open>\<open>rpc_certify.c\<close>\<close>

definition tcs_wrap_CertifyKey :: "'t tcsd_env \<Rightarrow> 't wrap" where
  "tcs_wrap_CertifyKey env =
     clear_auth 0 (clear_auth 1 (recv_32 [] 0 (\<lambda>hContext. recv_32 [] 1 (\<lambda>certHandle.
     recv_32 [] 2 (\<lambda>keyHandle. recv_array [] PT_NONCE 3 (\<lambda>antiReplay. recv_auth [] 4 0 (
     recv_auth [] 5 1 (if_set 0 (\<lambda>pCertAuth. if_set 1 (\<lambda>pKeyAuth. wild [1, 3] (
     run (TCSP_CertifyKey_Internal env hContext certHandle keyHandle antiReplay pCertAuth pKeyAuth (Some 0)
       (Some 1) (Some 2) (Some 3)) [] (\<lambda>result.
     respond result 6 (\<lambda>m. put_opt m pCertAuth [1, 3] @ put_opt m pKeyAuth [1, 3] @ [put_32 m 0 [1, 3],
       put_blob m 1 0 [1, 3], Free [1], put_32 m 2 [3], put_blob m 3 2 [3], Free [3]])))))))))))))"

section \<open>\<open>rpc_sign.c\<close>\<close>

definition tcs_wrap_Sign :: "'t tcsd_env \<Rightarrow> 't wrap" where
  "tcs_wrap_Sign env =
     recv_32 [] 0 (\<lambda>hContext. recv_32 [] 1 (\<lambda>hKey. recv_32 [] 2 (\<lambda>areaToSignSize.
     recv_blob [] (TCSERR TSS_E_OUTOFMEMORY) 3 areaToSignSize (\<lambda>areaToSign.
     lax_auth [areaToSign] 4 0 (\<lambda>pAuth. wild [1] (
     run (TCSP_Sign_Internal env hContext hKey areaToSignSize areaToSign pAuth (Some 0) (Some 1)) [areaToSign]
       (\<lambda>result.
     respond result 3 (\<lambda>m. put_opt m pAuth [1] @ [put_32 m 0 [1], put_blob m 1 0 [1], Free [1]]))))))))"

section \<open>\<open>rpc_bind.c\<close>\<close>

definition tcs_wrap_UnBind :: "'t tcsd_env \<Rightarrow> 't wrap" where
  "tcs_wrap_UnBind env =
     recv_32 [] 0 (\<lambda>hContext. recv_32 [] 1 (\<lambda>keyHandle. recv_32 [] 2 (\<lambda>inDataSize.
     recv_blob [] (TCSERR TSS_E_OUTOFMEMORY) 3 inDataSize (\<lambda>inData.
     lax_auth [inData] 4 0 (\<lambda>pPrivAuth. wild [1] (
     run (TCSP_UnBind_Internal env hContext keyHandle inDataSize inData pPrivAuth (Some 0) (Some 1)) [inData]
       (\<lambda>result.
     respond result 3 (\<lambda>m. put_opt m pPrivAuth [] @ [put_32 m 0 [], put_blob m 1 0 [], Free [1]]))))))))"

section \<open>\<open>rpc_changeauth.c\<close>\<close>

definition tcs_wrap_ChangeAuth :: "'t tcsd_env \<Rightarrow> 't wrap" where
  "tcs_wrap_ChangeAuth env =
     recv_32 [] 0 (\<lambda>hContext. recv_32 [] 1 (\<lambda>parentHandle. recv_16 [] 2 (\<lambda>protocolID.
     recv_array [] PT_ENCAUTH 3 (\<lambda>newAuth. recv_16 [] 4 (\<lambda>entityType.
     recv_32 [] 5 (\<lambda>encDataSize. recv_blob [] (TCSERR TSS_E_OUTOFMEMORY) 6 encDataSize (\<lambda>encData.
     recv_auth [encData] 7 0 (recv_auth [encData] 8 1 (wild [1] (
     run (TCSP_ChangeAuth_Internal env hContext parentHandle protocolID newAuth entityType encDataSize encData
       (Some 0) (Some 1) (Some 0) 1) [encData] (\<lambda>result.
     respond result 4 (\<lambda>m. [put_auth m 0 [1], put_auth m 1 [1], put_32 m 0 [1], put_blob m 1 0 [1],
       Free [1]]))))))))))))"

definition tcs_wrap_ChangeAuthOwner :: "'t tcsd_env \<Rightarrow> 't wrap" where
  "tcs_wrap_ChangeAuthOwner env =
     recv_32 [] 0 (\<lambda>hContext. recv_16 [] 1 (\<lambda>protocolID.
     recv_array [] PT_ENCAUTH 2 (\<lambda>newAuth. recv_16 [] 3 (\<lambda>entityType. recv_auth [] 4 0 (
     run (TCSP_ChangeAuthOwner_Internal env hContext protocolID newAuth entityType (Some 0)) [] (\<lambda>result.
     respond result 1 (\<lambda>m. [put_auth m 0 []])))))))"

section \<open>\<open>rpc_aik.c\<close>\<close>

text \<open>One authorization is that of the owner, of two the first is that of the SRK.\<close>

definition tcs_wrap_MakeIdentity :: "'t tcsd_env \<Rightarrow> 't wrap" where
  "tcs_wrap_MakeIdentity env =
     recv_32 [] 0 (\<lambda>hContext. recv_array [] PT_ENCAUTH 1 (\<lambda>identityAuth. recv_array []
       PT_DIGEST 2 (\<lambda>privCAHash.
     recv_32 [] 3 (\<lambda>idKeyInfoSize. recv_blob [] (TCSERR TSS_E_OUTOFMEMORY) 4 idKeyInfoSize (\<lambda>idKeyInfo.
     recv_auth [idKeyInfo] 5 0 (lax_auth [idKeyInfo] 6 1 (\<lambda>a.
     let pSRKAuth = (if a = None then None else Some 0); pOwnerAuth = (if a = None then Some 0 else a); ls =
       [1, 3, 5, 7, 9]
     in set_place 1 NULL (set_place 3 NULL (set_place 5 NULL (set_place 7 NULL (set_place 9 NULL (
     run (TCSP_MakeIdentity_Internal env hContext identityAuth privCAHash idKeyInfoSize idKeyInfo pSRKAuth pOwnerAuth
       (Some 0) (Some 1) (Some 2) (Some 3) 4 5 6 7 8 9) [idKeyInfo] (\<lambda>result.
     respond result 12 (\<lambda>m. put_opt m pSRKAuth ls @ put_opt m pOwnerAuth ls @
       [put_32 m 0 ls, put_blob m 1 0 ls, put_32 m 2 ls, put_blob m 3 2 ls, put_32 m 4 ls, put_blob m 5 4 ls,
        put_32 m 6 ls, put_blob m 7 6 ls, put_32 m 8 ls, put_blob m 9 8 ls, Free ls]))))))))))))))"

definition tcs_wrap_ActivateIdentity :: "'t tcsd_env \<Rightarrow> 't wrap" where
  "tcs_wrap_ActivateIdentity env =
     recv_32 [] 0 (\<lambda>hContext. recv_32 [] 1 (\<lambda>idKeyHandle. recv_32 [] 2 (\<lambda>blobSize.
     recv_blob [] (TCSERR TSS_E_OUTOFMEMORY) 3 blobSize (\<lambda>blob.
     recv_auth [blob] 4 0 (lax_auth [blob] 5 1 (\<lambda>a.
     let pIdKeyAuth = (if a = None then None else Some 0); pOwnerAuth = (if a = None then Some 0 else a)
     in wild [1] (
     run (TCSP_ActivateTPMIdentity_Internal env hContext idKeyHandle blobSize blob pIdKeyAuth pOwnerAuth (Some
       0) (Some 1))
       [blob] (\<lambda>result.
     respond result 4 (\<lambda>m. put_opt m pIdKeyAuth [1] @ put_opt m pOwnerAuth [1] @
       [put_32 m 0 [1], put_blob m 1 0 [1], Free [1]])))))))))"

definition tcs_wrap_GetCredential :: "'t tcsd_env \<Rightarrow> 't wrap" where
  "tcs_wrap_GetCredential env =
     recv_32 [] 0 (\<lambda>hContext. recv_32 [] 1 (\<lambda>CredType. recv_32 [] 2 (\<lambda>CredAccessMode.
     set_place 1 NULL (
     run (TCS_GetCredential_Internal env hContext CredType CredAccessMode 0 1) [] (\<lambda>result.
     respond result 2 (\<lambda>m. [put_32 m 0 [1], put_blob m 1 0 [1], Free [1]]))))))"

section \<open>\<open>rpc_migration.c\<close>\<close>

definition tcs_wrap_CreateMigrationBlob :: "'t tcsd_env \<Rightarrow> 't wrap" where
  "tcs_wrap_CreateMigrationBlob env =
     recv_32 [] 0 (\<lambda>hContext. recv_32 [] 1 (\<lambda>parentHandle. recv_16 [] 2 (\<lambda>migrationType.
     recv_32 [] 3 (\<lambda>MigrationKeyAuthSize. recv_blob [] IE 4 MigrationKeyAuthSize (\<lambda>MigrationKeyAuth.
     recv_32 [MigrationKeyAuth] 5 (\<lambda>encDataSize. recv_blob [MigrationKeyAuth] IE 6 encDataSize
       (\<lambda>encData.
     recv_auth [MigrationKeyAuth, encData] 7 0 (recv_opt_auth 8 1 (\<lambda>a.
     let pParentAuth = (if a = None then None else Some 0); pEntityAuth = (if a = None then Some 0 else a)
     in wild [1, 3] (
     run (TCSP_CreateMigrationBlob_Internal env hContext parentHandle migrationType MigrationKeyAuthSize
       MigrationKeyAuth
       encDataSize encData pParentAuth pEntityAuth (Some 0) (Some 1) (Some 2) (Some 3)) [MigrationKeyAuth,
         encData] (\<lambda>result.
     respond result 6 (\<lambda>m. put_opt m pParentAuth [1, 3] @ put_opt m pEntityAuth [1, 3] @ [put_32 m 0 [1, 3]] @
       (if 0 < m_32 m 0 then [put_blob m 1 0 [1, 3]] else []) @
       [put_32 m 2 [1, 3], put_blob m 3 2 [1, 3], Free [1], Free [3]]))))))))))))"

definition tcs_wrap_ConvertMigrationBlob :: "'t tcsd_env \<Rightarrow> 't wrap" where
  "tcs_wrap_ConvertMigrationBlob env =
     recv_32 [] 0 (\<lambda>hContext. recv_32 [] 1 (\<lambda>parentHandle. recv_32 [] 2 (\<lambda>inDataSize.
     recv_blob [] IE 3 inDataSize (\<lambda>inData. recv_32 [inData] 4 (\<lambda>randomSize.
     recv_blob [inData] IE 5 randomSize (\<lambda>rnd. recv_opt_auth 6 0 (\<lambda>pParentAuth. wild [1] (
     run (TCSP_ConvertMigrationBlob_Internal env hContext parentHandle inDataSize inData randomSize rnd
       pParentAuth (Some 0) (Some 1)) [inData, rnd] (\<lambda>result.
     respond result 3 (\<lambda>m. put_opt m pParentAuth [1] @ [put_32 m 0 [1], put_blob m 1 0 [1], Free [1]]))))))))))"

definition tcs_wrap_AuthorizeMigrationKey :: "'t tcsd_env \<Rightarrow> 't wrap" where
  "tcs_wrap_AuthorizeMigrationKey env =
     recv_32 [] 0 (\<lambda>hContext. recv_16 [] 1 (\<lambda>migrateScheme. recv_32 [] 2 (\<lambda>MigrationKeySize.
     recv_blob [] IE 3 MigrationKeySize (\<lambda>MigrationKey. recv_auth [MigrationKey] 4 0 (wild [1] (
     run (TCSP_AuthorizeMigrationKey_Internal env hContext migrateScheme MigrationKeySize MigrationKey (Some 0)
       (Some 0) (Some 1)) [MigrationKey] (\<lambda>result.
     respond result 3 (\<lambda>m. [put_auth m 0 [1], put_32 m 0 [1], put_blob m 1 0 [1], Free [1]]))))))))"

section \<open>\<open>rpc_cmk.c\<close>\<close>

definition tcs_wrap_CMK_SetRestrictions :: "'t tcsd_env \<Rightarrow> 't wrap" where
  "tcs_wrap_CMK_SetRestrictions env =
     recv_32 [] 0 (\<lambda>hContext. recv_32 [] 1 (\<lambda>restriction. recv_auth [] 2 0 (
     run (TCSP_CMK_SetRestrictions_Internal env hContext restriction (Some 0)) [] (\<lambda>result.
     respond result 1 (\<lambda>m. [put_auth m 0 []])))))"

definition tcs_wrap_CMK_ApproveMA :: "'t tcsd_env \<Rightarrow> 't wrap" where
  "tcs_wrap_CMK_ApproveMA env =
     recv_32 [] 0 (\<lambda>hContext. recv_array [] PT_DIGEST 1 (\<lambda>migAuthorityDigest. recv_auth [] 2 0 (
     run (TCSP_CMK_ApproveMA_Internal env hContext migAuthorityDigest (Some 0) (Some 0)) [] (\<lambda>result.
     respond result 2 (\<lambda>m. [put_auth m 0 [], put_array m PT_DIGEST 0 []])))))"

text \<open>The array of the request is in the place 1 and freed by the command.\<close>

definition tcs_wrap_CMK_CreateKey :: "'t tcsd_env \<Rightarrow> 't wrap" where
  "tcs_wrap_CMK_CreateKey env =
     clear_auth 0 (recv_32 [] 0 (\<lambda>hContext. recv_32 [] 1 (\<lambda>hKey. recv_array [] PT_ENCAUTH 2
       (\<lambda>keyUsageAuth.
     recv_array [] PT_DIGEST 3 (\<lambda>migAuthorityApproval. recv_array [] PT_DIGEST 4 (\<lambda>migAuthorityDigest.
     recv_32 [] 5 (\<lambda>keyDataSize. recv_blob [] (TCSERR TSS_E_OUTOFMEMORY) 6 keyDataSize (\<lambda>keyData.
     recv_auth [keyData] 7 0 (if_set 0 (\<lambda>pAuth. set_size 0 keyDataSize (set_place 1 keyData (
     run (TCSP_CMK_CreateKey_Internal env hContext hKey keyUsageAuth migAuthorityApproval migAuthorityDigest 0 1 pAuth)
       [] (\<lambda>result.
     respond result 3 (\<lambda>m. [put_32 m 0 [1], put_blob m 1 0 [1], Free [1]] @ put_opt m pAuth []))))))))))))))"

definition tcs_wrap_CMK_CreateTicket :: "'t tcsd_env \<Rightarrow> 't wrap" where
  "tcs_wrap_CMK_CreateTicket env =
     recv_32 [] 0 (\<lambda>hContext. recv_32 [] 1 (\<lambda>publicVerifyKeySize.
     recv_blob [] (TCSERR TSS_E_OUTOFMEMORY) 2 publicVerifyKeySize (\<lambda>publicVerifyKey.
     recv_array [publicVerifyKey] PT_DIGEST 3 (\<lambda>signedData.
     recv_32 [publicVerifyKey] 4 (\<lambda>sigValueSize.
     recv_blob [publicVerifyKey] (TCSERR TSS_E_OUTOFMEMORY) 5 sigValueSize (\<lambda>sigValue.
     recv_auth [publicVerifyKey, sigValue] 6 0 (
     run (TCSP_CMK_CreateTicket_Internal env hContext publicVerifyKeySize publicVerifyKey signedData
       sigValueSize sigValue (Some 0) (Some 0)) [publicVerifyKey, sigValue] (\<lambda>result.
     respond result 2 (\<lambda>m. [put_auth m 0 [], put_array m PT_DIGEST 0 []])))))))))"

definition tcs_wrap_CMK_CreateBlob :: "'t tcsd_env \<Rightarrow> 't wrap" where
  "tcs_wrap_CMK_CreateBlob env =
     clear_auth 0 (recv_32 [] 0 (\<lambda>hContext. recv_32 [] 1 (\<lambda>hKey.
     recv_16 [] 2 (\<lambda>migrationType. recv_32 [] 3 (\<lambda>migKeyAuthSize.
     recv_blob [] (TCSERR TSS_E_OUTOFMEMORY) 4 migKeyAuthSize (\<lambda>migKeyAuth.
     recv_array [migKeyAuth] PT_DIGEST 5 (\<lambda>pubSourceKeyDigest. recv_32 [migKeyAuth] 6 (\<lambda>msaListSize.
     recv_blob [migKeyAuth] (TCSERR TSS_E_OUTOFMEMORY) 7 msaListSize (\<lambda>msaList.
     recv_32 [migKeyAuth, msaList] 8 (\<lambda>restrictTicketSize.
     recv_blob [migKeyAuth, msaList] (TCSERR TSS_E_OUTOFMEMORY) 9 restrictTicketSize (\<lambda>restrictTicket.
     recv_32 [migKeyAuth, msaList, restrictTicket] 10 (\<lambda>sigTicketSize.
     recv_blob [migKeyAuth, msaList, restrictTicket] (TCSERR TSS_E_OUTOFMEMORY) 11 sigTicketSize (\<lambda>sigTicket.
     recv_32 [migKeyAuth, msaList, restrictTicket, sigTicket] 12 (\<lambda>encDataSize.
     recv_blob [migKeyAuth, msaList, restrictTicket, sigTicket] (TCSERR TSS_E_OUTOFMEMORY) 13 encDataSize
       (\<lambda>encData.
     recv_auth [migKeyAuth, msaList, restrictTicket, sigTicket, encData] 14 0 (if_set 0 (\<lambda>pAuth.
     wild [1, 3] (
     run (TCSP_CMK_CreateBlob_Internal env hContext hKey migrationType migKeyAuthSize migKeyAuth
       pubSourceKeyDigest msaListSize msaList restrictTicketSize restrictTicket sigTicketSize sigTicket
         encDataSize encData pAuth (Some 0) (Some 1) (Some 2) (Some 3)) [migKeyAuth, msaList, restrictTicket,
           sigTicket, encData] (\<lambda>result.
     respond result 5 (\<lambda>m. put_opt m pAuth [1, 3] @ [put_32 m 0 [1, 3], put_blob m 1 0 [1, 3], Free
       [1], put_32 m 2 [3], put_blob m 3 2 [3], Free [3]]))))))))))))))))))))"

text \<open>The ticket of \<open>sizeof(TPM_CMK_AUTH)\<close>, 96 bytes, is a local structure.\<close>

definition with_bytes :: "ptr \<Rightarrow> (u8 list \<Rightarrow> 't wrap) \<Rightarrow> 't wrap" where
  "with_bytes p k st = do { bs \<leftarrow> bytes_of p; k bs st }"

definition tcs_wrap_CMK_ConvertMigration :: "'t tcsd_env \<Rightarrow> 't wrap" where
  "tcs_wrap_CMK_ConvertMigration env =
     clear_auth 0 (recv_32 [] 0 (\<lambda>hContext. recv_32 [] 1 (\<lambda>hKey.
     recv_bytes [] 2 (Buf (replicate 96 0)) 96 (\<lambda>restrictTicket. recv_array [] PT_DIGEST 3 (\<lambda>sigTicket.
     recv_32 [] 4 (\<lambda>keyDataSize. recv_blob [] (TCSERR TSS_E_OUTOFMEMORY) 5 keyDataSize (\<lambda>keyData.
     recv_32 [keyData] 6 (\<lambda>msaListSize. recv_blob [keyData] (TCSERR TSS_E_OUTOFMEMORY) 7 msaListSize
       (\<lambda>msaList.
     recv_32 [keyData, msaList] 8 (\<lambda>randomSize.
     recv_blob [keyData, msaList] (TCSERR TSS_E_OUTOFMEMORY) 9 randomSize (\<lambda>rnd.
     recv_auth [keyData, msaList, rnd] 10 0 (if_set 0 (\<lambda>pAuth. wild [1] (with_bytes restrictTicket
       (\<lambda>ticket.
       run (TCSP_CMK_ConvertMigration_Internal env hContext hKey ticket sigTicket keyDataSize keyData
         msaListSize msaList
         randomSize rnd pAuth (Some 0) (Some 1)) [keyData, msaList, rnd] (\<lambda>result.
       respond result 3 (\<lambda>m. put_opt m pAuth [1] @ [put_32 m 0 [1], put_blob m 1 0 [1], Free
         [1]])))))))))))))))))"

section \<open>\<open>rpc_transport.c\<close>\<close>

definition tcs_wrap_EstablishTransport :: "'t tcsd_env \<Rightarrow> 't wrap" where
  "tcs_wrap_EstablishTransport env =
     recv_32 [] 0 (\<lambda>hContext. recv_32 [] 1 (\<lambda>ulTransControlFlags. recv_32 [] 2 (\<lambda>hEncKey.
     recv_32 [] 3 (\<lambda>ulTransSessionInfoSize.
     recv_blob [] IE 4 ulTransSessionInfoSize (\<lambda>rgbTransSessionInfo.
     recv_32 [rgbTransSessionInfo] 5 (\<lambda>ulSecretSize.
     recv_blob [rgbTransSessionInfo] IE 6 ulSecretSize (\<lambda>rgbSecret. recv_opt_auth 7 0 (\<lambda>pAuth.
     wild [3] (
     run (TCSP_EstablishTransport_Internal env hContext ulTransControlFlags hEncKey ulTransSessionInfoSize
       rgbTransSessionInfo ulSecretSize rgbSecret pAuth 0 1 2 3 4) [rgbSecret, rgbTransSessionInfo] (\<lambda>result.
     respond result 6 (\<lambda>m. put_opt m pAuth [3] @ [put_32 m 0 [3], put_32 m 1 [3], put_32 m 2 [3],
       put_blob m 3 2 [3], Free [3], put_array m PT_NONCE 4 []])))))))))))"

text \<open>
  The two handles are the bytes of the request, read as words of the host (\<open>e_little\<close>), in the places 2 and
  3.  The words of the answer are the bytes of these places.
\<close>

definition host_word :: "bool \<Rightarrow> u8 list \<Rightarrow> u32" where
  "host_word little bs = word_rcat (if little then rev bs else bs)"

definition word_bytes :: "bool \<Rightarrow> u32 \<Rightarrow> u8 list" where
  "word_bytes little x = (if little then rev (be32 x) else be32 x)"

definition recv_handles :: "'t tcsd_env \<Rightarrow> ptr list \<Rightarrow> u32 \<Rightarrow> u32
  \<Rightarrow> (u32 \<Rightarrow> 't wrap) \<Rightarrow> 't wrap" where
  "recv_handles env ps i n k st =
     (if n = 0 then k i st
      else do {
        ((r, d), st) \<leftarrow> get_parm PT_PBYTE i (DP (Buf (concat (map (word_bytes (e_little env)) [m_32
          (mem st) 2, m_32 (mem st) 3])))) (n * 4) st;
        if r \<noteq> 0 then leave ps IE st
        else do {
          p \<leftarrow> as_ptr d;
          bs \<leftarrow> bytes_of p;
          set_size 2 (host_word (e_little env) (take 4 bs)) (set_size 3 (host_word (e_little env) (drop 4 bs))
            (k (i + 1))) st } })"

definition tcs_wrap_ExecuteTransport :: "'t tcsd_env \<Rightarrow> 't wrap" where
  "tcs_wrap_ExecuteTransport env =
     recv_32 [] 0 (\<lambda>hContext. recv_32 [] 1 (\<lambda>unWrappedCommandOrdinal. recv_32 [] 2
       (\<lambda>ulWrappedCmdDataInSize.
     recv_blob [] IE 3 ulWrappedCmdDataInSize (\<lambda>rgbWrappedCmdDataIn.
     recv_32 [rgbWrappedCmdDataIn] 4 (\<lambda>pulHandleListSize.
     if 2 < pulHandleListSize then leave [rgbWrappedCmdDataIn] (TCSERR TSS_E_BAD_PARAMETER)
     else recv_handles env [rgbWrappedCmdDataIn] 5 pulHandleListSize (\<lambda>i. clear_auth 0 (clear_auth 1 (
     recv_auth [rgbWrappedCmdDataIn] i 0 (recv_auth [rgbWrappedCmdDataIn] (i + 1) 1 (
     recv_auth [rgbWrappedCmdDataIn] (i + 2) 2 (if_set 0 (\<lambda>pAuth1. if_set 1 (\<lambda>pAuth2.
     set_place 0 rgbWrappedCmdDataIn (set_size 1 pulHandleListSize (wild [8] (
     run (TCSP_ExecuteTransport_Internal env hContext unWrappedCommandOrdinal ulWrappedCmdDataInSize 0 1 (Some 2) pAuth1
       pAuth2 (Some 2) 4 5 6 7 8) [rgbWrappedCmdDataIn] (\<lambda>result.
     let auth = (\<lambda>m a. case a of None \<Rightarrow> Put PT_AUTH (DAuth null_auth) 0 [8] | Some l
       \<Rightarrow> put_auth m l [8])
     in respond result 10 (\<lambda>m. [put_32 m 1 [8]] @
       (if m_32 m 1 \<noteq> 0 then [Put PT_PBYTE (DP (Buf (concat (map (word_bytes (e_little env)) [m_32 m 2,
         m_32 m 3]))))
          (m_32 m 1 * 4) [8]] else []) @
       [auth m pAuth1, auth m pAuth2, put_auth m 2 [8], Put PT_UINT64 (D64 (word_rcat (if e_little env then rev
         (m_D m 4) else m_D m 4))) 0 [8],
        put_32 m 5 [8], put_32 m 6 [8], put_32 m 7 [8]] @
       (if m_32 m 7 \<noteq> 0 then [put_blob m 8 7 [8]] else []) @ [Free [8]]))))))))))))))))))"

definition tcs_wrap_ReleaseTransportSigned :: "'t tcsd_env \<Rightarrow> 't wrap" where
  "tcs_wrap_ReleaseTransportSigned env =
     clear_auth 0 (recv_32 [] 0 (\<lambda>hContext. recv_32 [] 1 (\<lambda>hSignatureKey. recv_array []
       PT_NONCE 2 (\<lambda>AntiReplayNonce.
     recv_auth [] 3 0 (if_set 0 (\<lambda>pAuth. recv_auth [] 4 1 (wild [2, 4] (
     run (TCSP_ReleaseTransportSigned_Internal env hContext hSignatureKey (Buf AntiReplayNonce) pAuth (Some 1)
       0 1 2 3 4)
       [] (\<lambda>result.
     respond result 7 (\<lambda>m. [case pAuth of None \<Rightarrow> Put PT_AUTH (DAuth null_auth) 0 [2, 4] |
       Some l \<Rightarrow> put_auth m l [2, 4],
       put_auth m 1 [2, 4], put_32 m 0 [2, 4], put_32 m 1 [2, 4], put_blob m 2 1 [2, 4], Free [2],
       put_32 m 3 [4], put_blob m 4 3 [4], Free [4]]))))))))))"

section \<open>\<open>rpc_delegate.c\<close>\<close>

definition tcs_wrap_Delegate_Manage :: "'t tcsd_env \<Rightarrow> 't wrap" where
  "tcs_wrap_Delegate_Manage env =
     clear_auth 0 (recv_32 [] 0 (\<lambda>hContext. recv_32 [] 1 (\<lambda>familyId. recv_32 [] 2 (\<lambda>opFlag.
     recv_32 [] 3 (\<lambda>opDataSize. recv_blob [] (TCSERR TSS_E_OUTOFMEMORY) 4 opDataSize (\<lambda>opData.
     recv_auth [opData] 5 0 (if_set 0 (\<lambda>pAuth. wild [1] (
     run (TCSP_Delegate_Manage_Internal env hContext familyId opFlag opDataSize opData pAuth (Some 0) (Some 1))
       [opData] (\<lambda>result.
     respond result 3 (\<lambda>m. put_opt m pAuth [1] @ [put_32 m 0 [1], put_blob m 1 0 [1], Free [1]])))))))))))"

definition tcs_wrap_Delegate_CreateKeyDelegation :: "'t tcsd_env \<Rightarrow> 't wrap" where
  "tcs_wrap_Delegate_CreateKeyDelegation env =
     clear_auth 0 (recv_32 [] 0 (\<lambda>hContext. recv_32 [] 1 (\<lambda>hKey.
     recv_32 [] 2 (\<lambda>publicInfoSize.
     recv_blob [] (TCSERR TSS_E_OUTOFMEMORY) 3 publicInfoSize (\<lambda>publicInfo.
     recv_array [publicInfo] PT_ENCAUTH 4 (\<lambda>encDelAuth. recv_auth [publicInfo] 5 0 (
     if_set 0 (\<lambda>pAuth. wild [1] (
     run (TCSP_Delegate_CreateKeyDelegation_Internal env hContext hKey publicInfoSize publicInfo (Buf
       encDelAuth) pAuth (Some 0) (Some 1)) [publicInfo] (\<lambda>result.
     respond result 3 (\<lambda>m. put_opt m pAuth [1] @ [put_32 m 0 [1], put_blob m 1 0 [1], Free [1]])))))))))))"

definition tcs_wrap_Delegate_CreateOwnerDelegation :: "'t tcsd_env \<Rightarrow> 't wrap" where
  "tcs_wrap_Delegate_CreateOwnerDelegation env =
     clear_auth 0 (recv_32 [] 0 (\<lambda>hContext. recv_bool [] 1 (\<lambda>increment.
     recv_32 [] 2 (\<lambda>publicInfoSize.
     recv_blob [] (TCSERR TSS_E_OUTOFMEMORY) 3 publicInfoSize (\<lambda>publicInfo.
     recv_array [publicInfo] PT_ENCAUTH 4 (\<lambda>encDelAuth. recv_auth [publicInfo] 5 0 (
     if_set 0 (\<lambda>pAuth. wild [1] (
     run (TCSP_Delegate_CreateOwnerDelegation_Internal env hContext increment publicInfoSize publicInfo (Buf
       encDelAuth) pAuth (Some 0) (Some 1)) [publicInfo] (\<lambda>result.
     respond result 3 (\<lambda>m. put_opt m pAuth [1] @ [put_32 m 0 [1], put_blob m 1 0 [1], Free [1]])))))))))))"

text \<open>When the authorization cannot be written, the blob is freed a second time.\<close>

definition tcs_wrap_Delegate_LoadOwnerDelegation :: "'t tcsd_env \<Rightarrow> 't wrap" where
  "tcs_wrap_Delegate_LoadOwnerDelegation env =
     clear_auth 0 (recv_32 [] 0 (\<lambda>hContext. recv_32 [] 1 (\<lambda>idx. recv_32 [] 2 (\<lambda>blobSize.
     recv_blob [] (TCSERR TSS_E_OUTOFMEMORY) 3 blobSize (\<lambda>blob. recv_auth [blob] 4 0 (if_set 0 (\<lambda>pAuth.
     run (TCSP_Delegate_LoadOwnerDelegation_Internal env hContext idx blobSize blob pAuth) [blob] (\<lambda>result.
     set_place 0 Freed (respond result 1 (\<lambda>m. put_opt m pAuth [0]))))))))))"

definition tcs_wrap_Delegate_ReadTable :: "'t tcsd_env \<Rightarrow> 't wrap" where
  "tcs_wrap_Delegate_ReadTable env =
     recv_32 [] 0 (\<lambda>hContext. wild [1, 3] (
     run (TCSP_Delegate_ReadTable_Internal env hContext (Some 0) (Some 1) (Some 2) (Some 3)) [] (\<lambda>result.
     respond result 4 (\<lambda>m. [put_32 m 0 [1, 3], put_blob m 1 0 [1, 3], Free [1], put_32 m 2 [3],
       put_blob m 3 2 [3], Free [3]]))))"

definition tcs_wrap_Delegate_UpdateVerificationCount :: "'t tcsd_env \<Rightarrow> 't wrap" where
  "tcs_wrap_Delegate_UpdateVerificationCount env =
     clear_auth 0 (recv_32 [] 0 (\<lambda>hContext. recv_32 [] 1 (\<lambda>inputSize.
     recv_blob [] (TCSERR TSS_E_OUTOFMEMORY) 2 inputSize (\<lambda>input0. recv_auth [input0] 3 0 (
     if_set 0 (\<lambda>pAuth. wild [1] (
     run (TCSP_Delegate_UpdateVerificationCount_Internal env hContext inputSize input0 pAuth (Some 0) (Some 1))
       [input0] (\<lambda>result.
     respond result 3 (\<lambda>m. put_opt m pAuth [1] @ [put_32 m 0 [1], put_blob m 1 0 [1], Free [1]])))))))))"

definition tcs_wrap_Delegate_VerifyDelegation :: "'t tcsd_env \<Rightarrow> 't wrap" where
  "tcs_wrap_Delegate_VerifyDelegation env =
     recv_32 [] 0 (\<lambda>hContext. recv_32 [] 1 (\<lambda>delegateSize.
     recv_blob [] (TCSERR TSS_E_OUTOFMEMORY) 2 delegateSize (\<lambda>delegate.
     run (TCSP_Delegate_VerifyDelegation_Internal env hContext delegateSize delegate) [delegate] (\<lambda>result.
     just result))))"

definition tcs_wrap_DSAP :: "'t tcsd_env \<Rightarrow> 't wrap" where
  "tcs_wrap_DSAP env =
     recv_32 [] 0 (\<lambda>hContext. recv_16 [] 1 (\<lambda>entityType. recv_32 [] 2 (\<lambda>keyHandle.
     recv_array [] PT_NONCE 3 (\<lambda>nonceOddDSAP. recv_32 [] 4 (\<lambda>entityValueSize.
     recv_blob [] (TCSERR TSS_E_OUTOFMEMORY) 5 entityValueSize (\<lambda>entityValue.
     run (TCSP_DSAP_Internal env hContext entityType keyHandle (Buf nonceOddDSAP) entityValueSize entityValue 0
       (Some 1) (Some 2)) [entityValue] (\<lambda>result.
     respond result 3 (\<lambda>m. [put_32 m 0 [], put_array m PT_NONCE 1 [], put_array m PT_NONCE 2 []]))))))))"

end
