(* ===== verification/Rpc_Dispatch.thy ===== *)
theory Rpc_Dispatch
  imports Rpc_Wrap_Keys
begin

text \<open>
  The way of a request through the daemon: the dispatch table, the access control and the dispatcher
  of \<open>tcs/rpc/tcstp/rpc.c\<close>, and the loop of a thread over the requests of its connection,
  \<open>tcsd_thread_run\<close> in \<open>tcsd/tcsd_threads.c\<close>.  The handlers of the persistent key store, of
  the event log and of the capabilities of the daemon are functions of the environment.
\<close>

section \<open>Environment of a request\<close>

text \<open>\<open>r_remote_ops\<close> is the array \<open>tcsd_options.remote_ops\<close> to its end, a zero ends the list in it;
  \<open>r_localhost\<close> is what \<open>gethostbyname("localhost")\<close> gives: the name and the number of aliases.
  \<open>r_uuid\<close> is what an uninitialised UUID contains, \<open>r_others\<close> what the other threads did since the previous
  request.\<close>

record 't rpc_env =
  r_env :: "'t tcsd_env"
  r_minor :: u32
  r_random :: "u32 \<times> u32"
  r_uuid :: TSS_UUID
  r_other :: "u32 \<Rightarrow> 't wrap"
  r_remote_ops :: "u32 list"
  r_localhost :: "(string \<times> nat) option"
  r_sent :: bool
  r_shutdown :: bool
  r_others :: "tcs_state \<times> 't auth_mgr \<Rightarrow> (tcs_state \<times> 't auth_mgr) option"

section \<open>Dispatch\<close>

definition tcs_wrap_Error :: "'t wrap" where
  "tcs_wrap_Error st = just (TCSERR TSS_E_FAIL) st"

abbreviation (input) TCSD_MAX_NUM_ORDS :: nat where "TCSD_MAX_NUM_ORDS \<equiv> 125"

text \<open>The table has 124 entries; the last place of the array is a NULL pointer.\<close>

definition tcs_func_table :: "'t rpc_env \<Rightarrow> 't wrap list" where
  "tcs_func_table r = (let env = r_env r in
     [tcs_wrap_Error, tcs_wrap_OpenContext (r_minor r) (fst (r_random r)) (snd (r_random r)),
      tcs_wrap_CloseContext env, tcs_wrap_Error, r_other r 4, r_other r 5, r_other r 6, r_other r 7,
      tcs_wrap_Error, r_other r 9, r_other r 10, tcs_wrap_LoadKeyByBlob env, r_other r 12, tcs_wrap_EvictKey,
      tcs_wrap_CreateWrapKey env, tcs_wrap_GetPubkey env, tcs_wrap_MakeIdentity env, r_other r 17, r_other r 18,
      r_other r 19, r_other r 20, tcs_wrap_SetOwnerInstall env, tcs_wrap_TakeOwnership env, tcs_wrap_OIAP env,
      tcs_wrap_OSAP env, tcs_wrap_ChangeAuth env, tcs_wrap_ChangeAuthOwner env, tcs_wrap_Error, tcs_wrap_Error,
      tcs_wrap_TerminateHandle env, tcs_wrap_ActivateIdentity env, tcs_wrap_Extend env, tcs_wrap_PcrRead env,
      tcs_wrap_Quote env, tcs_wrap_DirWriteAuth env, tcs_wrap_DirRead env, tcs_wrap_Seal env, tcs_wrap_UnSeal env,
      tcs_wrap_UnBind env, tcs_wrap_CreateMigrationBlob env, tcs_wrap_ConvertMigrationBlob env,
      tcs_wrap_AuthorizeMigrationKey env, tcs_wrap_CertifyKey env, tcs_wrap_Sign env, tcs_wrap_GetRandom env,
      tcs_wrap_StirRandom env, tcs_wrap_GetCapability env, tcs_wrap_Error, tcs_wrap_GetCapabilityOwner env,
      tcs_wrap_CreateEndorsementKeyPair env, tcs_wrap_ReadPubek env, tcs_wrap_DisablePubekRead env,
      tcs_wrap_OwnerReadPubek env, tcs_wrap_SelfTestFull env, tcs_wrap_CertifySelfTest env, tcs_wrap_Error,
      tcs_wrap_GetTestResult env, tcs_wrap_OwnerSetDisable env, tcs_wrap_OwnerClear env,
      tcs_wrap_DisableOwnerClear env, tcs_wrap_ForceClear env, tcs_wrap_DisableForceClear env,
      tcs_wrap_PhysicalDisable env, tcs_wrap_PhysicalEnable env, tcs_wrap_PhysicalSetDeactivated env,
      tcs_wrap_SetTempDeactivated env, tcs_wrap_PhysicalPresence env, tcs_wrap_Error, tcs_wrap_Error,
      tcs_wrap_CreateMaintenanceArchive env, tcs_wrap_LoadMaintenanceArchive env,
      tcs_wrap_KillMaintenanceFeature env, tcs_wrap_LoadManuMaintPub env, tcs_wrap_ReadManuMaintPub env,
      tcs_wrap_DaaJoin env, tcs_wrap_DaaSign env, tcs_wrap_SetCapability env, tcs_wrap_ResetLockValue env,
      tcs_wrap_PcrReset env, tcs_wrap_ReadCounter env, tcs_wrap_CreateCounter env, tcs_wrap_IncrementCounter env,
      tcs_wrap_ReleaseCounter env, tcs_wrap_ReleaseCounterOwner env, tcs_wrap_ReadCurrentTicks env,
      tcs_wrap_TickStampBlob env, tcs_wrap_GetCredential env, tcs_wrap_NV_DefineOrReleaseSpace env,
      tcs_wrap_NV_WriteValue env, tcs_wrap_NV_WriteValueAuth env, tcs_wrap_NV_ReadValue env,
      tcs_wrap_NV_ReadValueAuth env, tcs_wrap_EstablishTransport env, tcs_wrap_ExecuteTransport env,
      tcs_wrap_ReleaseTransportSigned env, tcs_wrap_SetOrdinalAuditStatus env, tcs_wrap_GetAuditDigest env,
      tcs_wrap_GetAuditDigestSigned env, tcs_wrap_Sealx env, tcs_wrap_SetOperatorAuth env,
      tcs_wrap_OwnerReadInternalPub env, r_other r 101, tcs_wrap_SetTempDeactivated2 env,
      tcs_wrap_Delegate_Manage env, tcs_wrap_Delegate_CreateKeyDelegation env,
      tcs_wrap_Delegate_CreateOwnerDelegation env, tcs_wrap_Delegate_LoadOwnerDelegation env,
      tcs_wrap_Delegate_ReadTable env, tcs_wrap_Delegate_UpdateVerificationCount env,
      tcs_wrap_Delegate_VerifyDelegation env, tcs_wrap_CreateRevocableEndorsementKeyPair env,
      tcs_wrap_RevokeEndorsementKeyPair env, tcs_wrap_Error, tcs_wrap_Quote2 env,
      tcs_wrap_CMK_SetRestrictions env, tcs_wrap_CMK_ApproveMA env, tcs_wrap_CMK_CreateKey env,
      tcs_wrap_CMK_CreateTicket env, tcs_wrap_CMK_CreateBlob env, tcs_wrap_CMK_ConvertMigration env,
      tcs_wrap_FlushSpecific env, tcs_wrap_KeyControlOwner env (r_uuid r), tcs_wrap_DSAP env,
      tcs_wrap_APCreate env])"

text \<open>The loop over the accepted operations starts at \<open>i\<close>; beyond the end of the array it is undefined.\<close>

fun listed_op :: "u32 list \<Rightarrow> u32 \<Rightarrow> bool option" where
  "listed_op [] ord = None"
| "listed_op (x # xs) ord = (if x = 0 then Some False else if x = ord then Some True else listed_op xs ord)"

text \<open>The result 0 is access.  The first call resolves the local name, and starts its search in the list at the
  number of aliases.\<close>

definition admitted :: "'t rpc_env \<Rightarrow> string \<Rightarrow> nat \<Rightarrow> 't served \<Rightarrow> (u32 \<times> 't served) option" where
  "admitted r name i st =
     (let n = min (length name) (length (sv_host st))
      in if take n (sv_host st) = take n name then Some (0, st)
         else do {
           a \<leftarrow> listed_op (drop i (r_remote_ops r)) (hdr_u (hdr (sv_comm st)));
           Some (if a then 0 else 1, st) })"

definition access_control :: "'t rpc_env \<Rightarrow> 't served \<Rightarrow> (u32 \<times> 't served) option" where
  "access_control r st = (case sv_localname st of
     Some name \<Rightarrow> admitted r name 0 st
   | None \<Rightarrow> (case r_localhost r of
       None \<Rightarrow> Some (1, st)
     | Some (name, aliases) \<Rightarrow>
         let (p, m) = malloc_mem (Suc (length name)) (mem st); st = set_mem m st
         in if p = NULL then Some (TCSERR TSS_E_OUTOFMEMORY, st)
            else admitted r name aliases (st\<lparr>sv_localname := Some name\<rparr>)))"

definition header_put :: "u32 list \<Rightarrow> 't served \<Rightarrow> 't served option" where
  "header_put ws st = do {
     (off, b) \<leftarrow> load_words LoadBlob_UINT32 ws (0, Some (buf (sv_comm st)));
     b \<leftarrow> b;
     Some (st\<lparr>sv_comm := (sv_comm st)\<lparr>buf := b\<rparr>\<rparr>) }"

definition denied :: "'t served \<Rightarrow> (u32 \<times> 't served) option" where
  "denied st = do {
     let h = \<lparr>packet_size = 28, hdr_u = TCSERR TSS_E_FAIL, num_parms = 0, type_size = 0, type_offset = 0, parm_size = 0,
       parm_offset = 0\<rparr>;
     st \<leftarrow> header_put [packet_size h, hdr_u h]
       (st\<lparr>sv_comm := \<lparr>buf = replicate (length (buf (sv_comm st))) 0, hdr = h\<rparr>\<rparr>);
     Some (TSS_SUCCESS, st) }"

definition dispatchCommand :: "'t rpc_env \<Rightarrow> 't wrap" where
  "dispatchCommand r st =
     (let ord = hdr_u (hdr (sv_comm st))
      in if of_nat TCSD_MAX_NUM_ORDS \<le> ord then Some (TCSERR TSS_E_FAIL, st)
         else do {
           op \<leftarrow> rd (r_remote_ops r) 0 1;
           (refused, st) \<leftarrow> (if op \<noteq> [0] then access_control r st else Some (0, st));
           if refused \<noteq> 0 then denied st
           else if length (tcs_func_table r) \<le> unat ord then None
           else do {
             (result, st) \<leftarrow> (tcs_func_table r ! unat ord) st;
             if result \<noteq> 0 then Some (result, st)
             else do {
               st \<leftarrow> header_put (header_words (hdr (sv_comm st))) st;
               Some (TSS_SUCCESS, st) } } })"

definition getTCSDPacket :: "'t rpc_env \<Rightarrow> 't wrap" where
  "getTCSDPacket r st =
     (let h = hdr (sv_comm st)
      in if 0 < num_parms h \<and> packet_size h \<noteq> parm_offset h + parm_size h then Some (IE, st)
         else dispatchCommand r st)"

section \<open>The thread of a connection\<close>

text \<open>The bytes of the connection that have not been received; the connection is closed after them.  Receiving
  into the buffer at \<open>off\<close>; \<open>None\<close> inside is the failure of \<open>recv_from_socket\<close>.\<close>

definition recv_from_socket :: "nat \<Rightarrow> nat \<Rightarrow> u8 list \<Rightarrow> 't served \<Rightarrow> (u8 list \<times> 't served) option option" where
  "recv_from_socket off n input st =
     (if length input < n then Some None
      else do {
        b \<leftarrow> wr (buf (sv_comm st)) off (take n input);
        Some (Some (drop n input, st\<lparr>sv_comm := (sv_comm st)\<lparr>buf := b\<rparr>\<rparr>)) })"

text \<open>The packet without its header, into a buffer that is enlarged first when it is too small.\<close>

definition recv_packet :: "u8 list \<Rightarrow> 't served \<Rightarrow> (u8 list \<times> 't served) option option" where
  "recv_packet input st = do {
     x \<leftarrow> recv_from_socket 0 28 input st;
     case x of None \<Rightarrow> Some None
     | Some (input, st) \<Rightarrow> do {
         (size, off) \<leftarrow> UnloadBlob_UINT32 0 (buf (sv_comm st));
         if sint size < 28 then Some None
         else
           let (room, m) = (if int (length (buf (sv_comm st))) < sint size
                 then realloc (unat size) (sv_comm st) (mem st) else (Some (sv_comm st), mem st));
               st = set_mem m st
           in case room of None \<Rightarrow> Some None
              | Some comm \<Rightarrow> recv_from_socket 28 (unat size - 28) input (st\<lparr>sv_comm := comm\<rparr>) } }"

definition answer_failure :: "u32 \<Rightarrow> 't served \<Rightarrow> 't served option" where
  "answer_failure result st = header_put [28, result]
     (st\<lparr>sv_comm := (sv_comm st)\<lparr>buf := replicate (length (buf (sv_comm st))) 0\<rparr>\<rparr>)"

text \<open>The bytes sent: as many as the first word of the buffer says, none if that is negative.\<close>

definition send_packet :: "'t served \<Rightarrow> u8 list option" where
  "send_packet st = do {
     (size, off) \<leftarrow> UnloadBlob_UINT32 0 (buf (sv_comm st));
     if sint size \<le> 0 then Some [] else rd (buf (sv_comm st)) 0 (unat size) }"

text \<open>One round: \<open>None\<close> inside leaves the loop; the bytes sent, and whether the loop goes on, else.\<close>

definition serve_request ::
  "'t rpc_env \<Rightarrow> u8 list \<Rightarrow> 't served \<Rightarrow> ((u8 list \<times> bool \<times> u8 list) option \<times> 't served) option" where
  "serve_request r input st = do {
     (tcs, am) \<leftarrow> r_others r (d_tcs (sv_d st), d_am (sv_d st));
     let st = st\<lparr>sv_d := (sv_d st)\<lparr>d_tcs := tcs, d_am := am\<rparr>\<rparr>;
     x \<leftarrow> recv_packet input st;
     case x of None \<Rightarrow> Some (None, st)
     | Some (input, st) \<Rightarrow> do {
         h \<leftarrow> decode_header (buf (sv_comm st));
         (result, st) \<leftarrow> getTCSDPacket r (st\<lparr>sv_comm := (sv_comm st)\<lparr>hdr := h\<rparr>\<rparr>);
         st \<leftarrow> (if result \<noteq> 0 then answer_failure result st else Some st);
         out \<leftarrow> send_packet st;
         Some (Some (out, r_sent r \<and> \<not> r_shutdown r, input), st) } }"

lemma recv_from_socket_rest:
  "recv_from_socket off n input st = Some (Some (rest, st')) \<Longrightarrow> length rest + n = length input"
  by (auto simp: recv_from_socket_def split: if_splits bind_splits)

lemma recv_packet_rest: "recv_packet input st = Some (Some (rest, st')) \<Longrightarrow> length rest < length input"
  by (auto simp: recv_packet_def Let_def split: bind_splits option.splits if_splits prod.splits dest!: recv_from_socket_rest)

lemma serve_request_rest: "serve_request r input st = Some (Some (out, go, rest), st') \<Longrightarrow> length rest < length input"
  by (auto simp: serve_request_def Let_def split: bind_splits option.splits dest!: recv_packet_rest)

text \<open>The requests of a connection, the \<open>k\<close>-th of the thread in the environment \<open>r k\<close>.\<close>

function serve_loop :: "(nat \<Rightarrow> 't rpc_env) \<Rightarrow> nat \<Rightarrow> u8 list \<Rightarrow> 't served \<Rightarrow> (u8 list \<times> 't served) option" where
  "serve_loop r k input st = (case serve_request (r k) input st of
     None \<Rightarrow> None
   | Some (None, st) \<Rightarrow> Some ([], st)
   | Some (Some (out, go, rest), st) \<Rightarrow>
       if go then map_option (\<lambda>(outs, st). (out @ outs, st)) (serve_loop r (Suc k) rest st) else Some (out, st))"
  by pat_completeness auto
termination
  by (relation "measure (\<lambda>(r, k, input, st). length input)") (auto dest: serve_request_rest)

text \<open>After the loop the context of a client that has not closed it is closed.\<close>

definition end_connection :: "'t tcsd_env \<Rightarrow> 't served \<Rightarrow> 't served option" where
  "end_connection env st =
     (if sv_context st = NULL_HANDLE then Some st
      else do {
        (result, d) \<leftarrow> TCS_CloseContext_Internal env (sv_context st) (sv_d st);
        Some (st\<lparr>sv_d := d, sv_context := NULL_HANDLE\<rparr>) })"

text \<open>A thread with a new connection.\<close>

definition tcsd_thread_run :: "(nat \<Rightarrow> 't rpc_env) \<Rightarrow> u8 list \<Rightarrow> 't served \<Rightarrow> (u8 list \<times> 't served) option" where
  "tcsd_thread_run r input st =
     (let m = mem st; st = set_mem (m\<lparr>m_count := Suc (m_count m)\<rparr>) st
      in do {
        (out, st) \<leftarrow> (if m_ok m (m_count m)
           then serve_loop r 0 input (st\<lparr>sv_comm := (sv_comm st)\<lparr>buf := replicate 1024 0\<rparr>\<rparr>) else Some ([], st));
        st \<leftarrow> end_connection (r_env (r 0)) st;
        Some (out, st) })"

end
