(* ===== verification/Rpc_Handlers.thy ===== *)
theory Rpc_Handlers
  imports Rpc_Writers Rpc_Dispatch
begin

text \<open>
  What every handler keeps, whatever the request: an invariant of the session manager that the commands keep,
  and the shape of the response.  The rules follow the combinators of \<open>Rpc_Server\<close>, so each handler is
  an application of them; \<open>table_handles\<close> collects them for the dispatch table.
\<close>

section \<open>The shape of a response\<close>

definition answer_ok :: "tcsd_comm_data \<Rightarrow> bool" where
  "answer_ok c \<longleftrightarrow> 28 \<le> unat (packet_size (hdr c)) \<and> unat (packet_size (hdr c)) \<le> length (buf c)
     \<and> (num_parms (hdr c) = 0 \<or> packet_size (hdr c) = parm_offset (hdr c) + parm_size (hdr c))"

text \<open>The state of a thread between two steps of a handler; what a handler leaves with the code \<open>r\<close>.\<close>

definition good :: "('t auth_mgr \<Rightarrow> bool) \<Rightarrow> 't served \<Rightarrow> bool" where
  "good J st \<longleftrightarrow> J (d_am (sv_d st)) \<and> 1024 \<le> length (buf (sv_comm st)) \<and> length (buf (sv_comm st)) < 2 ^ 31"

definition left :: "('t auth_mgr \<Rightarrow> bool) \<Rightarrow> u32 \<Rightarrow> 't served \<Rightarrow> bool" where
  "left J r st \<longleftrightarrow> good J st \<and> (r = 0 \<longrightarrow> answer_ok (sv_comm st))"

definition serves :: "('t auth_mgr \<Rightarrow> bool) \<Rightarrow> 't wrap \<Rightarrow> bool" where
  "serves J f \<longleftrightarrow> (\<forall>st r st'. f st = Some (r, st') \<longrightarrow> good J st \<longrightarrow> left J r st')"

named_theorems handling \<open>handlers that keep an invariant of the session manager and answer well\<close>

lemma handlesI: "(\<And>st r st'. f st = Some (r, st') \<Longrightarrow> good J st \<Longrightarrow> left J r st') \<Longrightarrow> serves J f"
  by (simp add: serves_def)

lemma handlesD: "f st = Some (r, st') \<Longrightarrow> serves J f \<Longrightarrow> good J st \<Longrightarrow> left J r st'"
  by (simp add: serves_def)

lemma good_same [simp]:
  "good J (set_mem m st) = good J st" "good J (drop_blobs ps st) = good J st" "good J (st\<lparr>sv_context := c\<rparr>) = good J st"
  "left J r (st\<lparr>sv_context := c\<rparr>) = left J r st"
  by (simp_all add: good_def left_def set_mem_def drop_blobs_def)

lemma set_mem_comm [simp]: "sv_comm (set_mem m st) = sv_comm st"
  by (simp add: set_mem_def)

lemma good_free_places: "free_places ls st = Some st' \<Longrightarrow> good J st \<Longrightarrow> good J st'"
  by (induction ls arbitrary: st) (fastforce simp: good_def split: bind_splits dest: am_free_ptr)+

lemma comm_free_places: "free_places ls st = Some st' \<Longrightarrow> sv_comm st' = sv_comm st"
  by (induction ls arbitrary: st) (fastforce split: bind_splits)+

lemma good_store_auth: "store_auth l d st = Some st' \<Longrightarrow> good J st \<Longrightarrow> good J st'"
  by (auto simp: store_auth_def split: datum.splits)

lemma getData_buf: "getData ty i old sz c m = Some (x, c', m') \<Longrightarrow> buf c' = buf c"
  by (auto simp: getData_def split: if_splits bind_splits)

lemma good_get_parm: "get_parm ty i old sz st = Some (x, st') \<Longrightarrow> good J st \<Longrightarrow> good J st'"
  by (auto simp: get_parm_def good_def set_mem_def split: bind_splits dest!: getData_buf)

lemmas good_steps = good_get_parm good_store_auth good_free_places

section \<open>The combinators\<close>

lemma left_leave: "leave ps r st = Some (r', st') \<Longrightarrow> r \<noteq> 0 \<Longrightarrow> good J st \<Longrightarrow> left J r' st'"
  by (auto simp: leave_def left_def)

lemma handles_leave [handling]: "r \<noteq> 0 \<Longrightarrow> serves J (leave ps r)"
  by (rule handlesI) (rule left_leave)

lemma handles_recv:
  assumes "\<And>x. serves J (k x)"
  shows "serves J (recv ps ty i old sel k)"
  by (rule handlesI) (auto simp: recv_def split: bind_splits if_splits dest!: good_get_parm [where J = J] good_store_auth [where J = J] elim!: left_leave intro: handlesD [OF _ assms])

lemma handles_recv_values [handling]:
  "(\<And>x. serves J (k x)) \<Longrightarrow> serves J (recv_32 ps i k)"
  "(\<And>x. serves J (k' x)) \<Longrightarrow> serves J (recv_16 ps i k')"
  "(\<And>x. serves J (k'' x)) \<Longrightarrow> serves J (recv_bool ps i k'')"
  "(\<And>x. serves J (k'' x)) \<Longrightarrow> serves J (recv_byte ps i k'')"
  "(\<And>x. serves J (l x)) \<Longrightarrow> serves J (recv_array ps ty i l)"
  unfolding recv_32_def recv_16_def recv_bool_def recv_byte_def recv_array_def by (rule handles_recv, assumption)+

lemma handles_alloc [handling]:
  assumes "bad \<noteq> 0" "\<And>p. serves J (k p)"
  shows "serves J (alloc ps bad n k)"
  by (rule handlesI) (auto simp: alloc_def Let_def assms(1) split: prod.splits if_splits elim!: left_leave intro: handlesD [OF _ assms(2)])

lemma handles_recv_bytes [handling]:
  assumes "\<And>p. serves J (k p)"
  shows "serves J (recv_bytes ps i p n k)"
  by (rule handlesI) (auto simp: recv_bytes_def split: bind_splits if_splits dest!: good_get_parm [where J = J] good_store_auth [where J = J] elim!: left_leave intro: handlesD [OF _ assms])

lemma handles_recv_blob [handling]:
  "bad \<noteq> 0 \<Longrightarrow> (\<And>p. serves J (k p)) \<Longrightarrow> serves J (recv_blob ps bad i n k)"
  "bad \<noteq> 0 \<Longrightarrow> (\<And>p. serves J (k p)) \<Longrightarrow> serves J (opt_recv_blob ps bad i n k)"
  unfolding recv_blob_def opt_recv_blob_def by (auto intro!: handling)

lemma handles_seal_blob [handling]:
  "(\<And>p i. serves J (k p i)) \<Longrightarrow> serves J (seal_blob ps i n k)"
  unfolding seal_blob_def by (auto intro!: handling)

lemma handles_recv_auth [handling]:
  assumes "serves J k"
  shows "serves J (recv_auth ps i l k)" "serves J (recv_session ps i l k)"
  by (rule handlesI, auto simp: recv_auth_def recv_session_def split: bind_splits if_splits
      dest!: good_get_parm [where J = J] good_store_auth [where J = J] elim!: left_leave intro: handlesD [OF _ assms])+

lemma handles_lax_auth [handling]:
  assumes "\<And>a. serves J (k a)"
  shows "serves J (lax_auth ps i l k)" "serves J (recv_opt_auth i l k)"
  by (rule handlesI, auto simp: lax_auth_def recv_opt_auth_def split: bind_splits if_splits
      dest!: good_get_parm [where J = J] good_store_auth [where J = J] elim!: left_leave intro: handlesD [OF _ assms])+

lemma handles_update: "serves J k \<Longrightarrow> serves J (\<lambda>st. k (set_mem (f st) st))"
  by (simp add: serves_def)

lemma handles_locals [handling]:
  "serves J k \<Longrightarrow> serves J (clear_auth l k)" "serves J k \<Longrightarrow> serves J (wild ls k)"
  "serves J k \<Longrightarrow> serves J (set_place l p k)" "serves J k \<Longrightarrow> serves J (set_size l n k)"
  "serves J k \<Longrightarrow> serves J (set_array l a k)"
  unfolding clear_auth_def [abs_def] wild_def [abs_def] set_place_def [abs_def] set_size_def [abs_def]
    set_array_def [abs_def]
  by (rule handles_update, assumption)+

lemma handles_if_set [handling]: "(\<And>a. serves J (k a)) \<Longrightarrow> serves J (if_set l k)"
  by (simp add: serves_def if_set_def)

lemma handles_choice [handling]:
  "serves J f \<Longrightarrow> serves J g \<Longrightarrow> serves J (if c then f else g)"
  "(\<And>x y. serves J (h x y)) \<Longrightarrow> serves J (case z of (x, y) \<Rightarrow> h x y)"
  by (auto split: prod.split)

lemma good_run: "am_keeps J f \<Longrightarrow> f (sv_d st) = Some (x, d) \<Longrightarrow> good J st \<Longrightarrow> good J (st\<lparr>sv_d := d\<rparr>)"
  by (auto simp: good_def dest: keepsD)

lemma handles_run [handling]:
  assumes "am_keeps J f" "\<And>r. serves J (k r)"
  shows "serves J (run f ps k)"
  by (rule handlesI) (auto simp: run_def split: bind_splits intro!: handlesD [OF _ assms(2)] intro: good_run [OF assms(1)])

section \<open>The response\<close>

lemma handles_just [handling]: "serves J (just result)"
  by (rule handlesI)
    (auto simp: just_def finish_def init_def initData_def left_def good_def answer_ok_def word_sless_alt)

lemma left_perform:
  "perform i os st = Some (r, st') \<Longrightarrow> good J st \<Longrightarrow> sound (sv_comm st) \<Longrightarrow> 28 \<le> unat (packet_size (hdr (sv_comm st))) \<Longrightarrow>
   good J st' \<and> (r = 0 \<longrightarrow> sound (sv_comm st') \<and> 28 \<le> unat (packet_size (hdr (sv_comm st'))))"
proof (induction i os st rule: perform.induct)
  case (3 i ls os st)
  obtain s where s: "free_places ls st = Some s" "perform i os s = Some (r, st')"
    using 3(2) by (auto split: bind_splits)
  have "sv_comm s = sv_comm st" using s(1) by (rule comm_free_places)
  then show ?case using 3(1) [OF s] 3(3-5) good_free_places [OF s(1)] by simp
next
  case (4 i ty d sz ls os st)
  obtain r1 c m where c: "setData ty i d sz (sv_comm st) (mem st) = Some (r1, c, m)"
    using 4(2) by (auto split: bind_splits)
  let ?s = "set_mem m (st\<lparr>sv_comm := c\<rparr>)"
  have grow: "length (buf (sv_comm st)) \<le> length (buf c) \<and> length (buf c) < 2 ^ 31 \<and>
      (r1 = 0 \<longrightarrow> sound c \<and> unat (packet_size (hdr (sv_comm st))) \<le> unat (packet_size (hdr c)))"
    using set_data_sound [OF loadData_grows c [unfolded setData_def] 4(4)] by simp
  then have s: "good J ?s" using 4(3) by (auto simp: good_def set_mem_def)
  show ?case
  proof (cases "r1 = 0")
    case True
    then have "perform (i + 1) os ?s = Some (r, st')" using 4(2) c by (simp add: Let_def)
    with 4(1) [OF c _ refl] s grow True 4(5) show ?thesis by simp
  next
    case False
    then obtain s' where "free_places ls ?s = Some s'" "st' = s'" "r \<noteq> 0" using 4(2) c by (auto simp: Let_def split: bind_splits)
    then show ?thesis using good_free_places [OF _ s] by simp
  qed
qed auto

lemma handles_respond [handling]:
  assumes "0 < sint n" "28 \<le> unat (28 + n)" "unat (28 + n) \<le> 1024"
  shows "serves J (respond result n os)"
proof (rule handlesI)
  fix st r st'
  assume f: "respond result n os st = Some (r, st')" and g: "good J st"
  show "left J r st'"
  proof (cases "result = 0")
    case False
    then show ?thesis using f g handlesD [OF _ handles_just] by (simp add: respond_def)
  next
    case True
    obtain r1 s where p: "perform 0 (os (mem st)) (init n st) = Some (r1, s)" "if r1 \<noteq> 0 then r = r1 \<and> st' = s else
        finish 0 s = Some (r, st')"
      using f True by (auto simp: respond_def split: bind_splits if_splits)
    have "sound (sv_comm (init n st))" "28 \<le> unat (packet_size (hdr (sv_comm (init n st))))" "good J (init n st)"
      using assms g by (simp_all add: init_def initData_def sound_def good_def word_sless_alt)
    from left_perform [OF p(1) this(3,1,2)] show ?thesis using p(2)
      by (auto simp: finish_def left_def good_def answer_ok_def sound_def split: if_splits)
  qed
qed

lemma handles_run_session [handling]:
  assumes "am_keeps J f" "0 < sint n" "28 \<le> unat (28 + n)" "unat (28 + n) \<le> 1024"
  shows "serves J (run_session f n os)"
proof (rule handlesI)
  fix st r st'
  assume f: "run_session f n os st = Some (r, st')" and g: "good J st"
  then obtain x d where x: "f (sv_d st) = Some (x, d)"
    "(case x of Inl result \<Rightarrow> just result (st\<lparr>sv_d := d\<rparr>) | Inr v \<Rightarrow> respond 0 n (\<lambda>m. os v) (st\<lparr>sv_d := d\<rparr>)) = Some (r, st')"
    by (auto simp: run_session_def Let_def split: bind_splits)
  show "left J r st'"
    using x(2) good_run [OF assms(1) x(1) g] handlesD [OF _ handles_just] handlesD [OF _ handles_respond [OF assms(2-4)]]
    by (auto split: sum.splits)
qed

section \<open>Every handler\<close>

lemma handles_special [handling]:
  "serves J f \<Longrightarrow> serves J (note_context result f)" "serves J f \<Longrightarrow> serves J (set_context c f)"
  "serves J (return_result result (just result))" "(\<And>x. serves J (k x)) \<Longrightarrow> serves J (with_stack k)"
  "(\<And>x. serves J (k' x)) \<Longrightarrow> serves J (with_bytes p k')"
proof -
  show "serves J f \<Longrightarrow> serves J (note_context result f)"
    by (rule handlesI) (auto simp: note_context_def split: bind_splits dest: handlesD)
  show "serves J (return_result result (just result))"
    by (rule handlesI) (auto simp: return_result_def just_def finish_def init_def initData_def left_def good_def
        answer_ok_def word_sless_alt)
qed (auto simp: serves_def set_context_def with_stack_def with_bytes_def split: bind_splits)

lemma handles_recv_handles [handling]:
  assumes "\<And>i. serves J (k i)"
  shows "serves J (recv_handles env ps i n k)"
proof -
  have k: "serves J (set_size l x (set_size l' y (k j)))" for l l' x y j by (intro handles_locals assms)
  show ?thesis
    by (rule handlesI) (auto simp: recv_handles_def split: bind_splits if_splits dest!: good_get_parm [where J = J]
        elim!: left_leave intro: handlesD [OF _ k] handlesD [OF _ assms])
qed

lemma handles_recv_over [handling]:
  assumes "\<And>p. serves J (k p)"
  shows "serves J (recv_over p i n k)"
  by (rule handlesI) (auto simp: recv_over_def split: bind_splits if_splits dest!: good_get_parm [where J = J]
      elim!: left_leave intro: handlesD [OF _ assms])

lemma error_handles: "serves J tcs_wrap_Error"
  using handles_just by (simp add: serves_def tcs_wrap_Error_def)

context session_invariant
begin

lemma keeps_evict_handle: "am_keeps J (\<lambda>st. case f (d_tcs st) of (result, tcs) \<Rightarrow> Some (result, set_tcs tcs st))"
  by (rule keepsI) (auto split: prod.splits)

lemma keeps_load_and_mark: "am_keeps J (load_and_mark env c h n b a l l')"
  by (rule keepsI) (auto simp: load_and_mark_def store_handles_def Let_def split: bind_splits prod.splits if_splits
      option.splits dest!: keepsD [OF _ keeps_load_key])

lemma context_handle:
  "serves J (tcs_wrap_OpenContext v r1 r2)" "serves J (tcs_wrap_CloseContext env)"
  "serves J (tcs_wrap_SetOperatorAuth env)" "serves J (tcs_wrap_DirWriteAuth env)" "serves J (tcs_wrap_DirRead env)"
  "serves J (tcs_wrap_Extend env)" "serves J (tcs_wrap_PcrRead env)" "serves J (tcs_wrap_PcrReset env)"
  unfolding tcs_wrap_OpenContext_def tcs_wrap_CloseContext_def tcs_wrap_SetOperatorAuth_def
    tcs_wrap_DirWriteAuth_def tcs_wrap_DirRead_def tcs_wrap_Extend_def tcs_wrap_PcrRead_def tcs_wrap_PcrReset_def Let_def
  by (intro handling call_keeps tcs_call.intros keeps_by_hand keeps_evict_handle keeps_load_and_mark; simp)+

lemma random_handle:
  "serves J (tcs_wrap_GetRandom env)" "serves J (tcs_wrap_StirRandom env)" "serves J (tcs_wrap_SelfTestFull env)"
  "serves J (tcs_wrap_CertifySelfTest env)" "serves J (tcs_wrap_GetTestResult env)"
  "serves J (tcs_wrap_ReadCurrentTicks env)" "serves J (tcs_wrap_TickStampBlob env)"
  unfolding tcs_wrap_GetRandom_def tcs_wrap_StirRandom_def tcs_wrap_SelfTestFull_def tcs_wrap_CertifySelfTest_def
    tcs_wrap_GetTestResult_def tcs_wrap_ReadCurrentTicks_def tcs_wrap_TickStampBlob_def Let_def
  by (intro handling call_keeps tcs_call.intros keeps_by_hand keeps_evict_handle keeps_load_and_mark; simp)+

lemma own_handle:
  "serves J (tcs_wrap_TakeOwnership env)" "serves J (tcs_wrap_OwnerClear env)"
  "serves J (tcs_wrap_GetCapability env)" "serves J (tcs_wrap_GetCapabilityOwner env)"
  "serves J (tcs_wrap_SetCapability env)" "serves J (tcs_wrap_SetOrdinalAuditStatus env)"
  "serves J (tcs_wrap_GetAuditDigest env)" "serves J (tcs_wrap_GetAuditDigestSigned env)"
  unfolding tcs_wrap_TakeOwnership_def tcs_wrap_OwnerClear_def tcs_wrap_GetCapability_def
    tcs_wrap_GetCapabilityOwner_def tcs_wrap_SetCapability_def tcs_wrap_SetOrdinalAuditStatus_def
    tcs_wrap_GetAuditDigest_def tcs_wrap_GetAuditDigestSigned_def Let_def
  by (intro handling call_keeps tcs_call.intros keeps_by_hand keeps_evict_handle keeps_load_and_mark; simp)+

lemma maint_handle:
  "serves J (tcs_wrap_KillMaintenanceFeature env)" "serves J (tcs_wrap_CreateMaintenanceArchive env)"
  "serves J (tcs_wrap_LoadMaintenanceArchive env)" "serves J (tcs_wrap_LoadManuMaintPub env)"
  "serves J (tcs_wrap_ReadManuMaintPub env)"
  unfolding tcs_wrap_KillMaintenanceFeature_def tcs_wrap_CreateMaintenanceArchive_def
    tcs_wrap_LoadMaintenanceArchive_def tcs_wrap_LoadManuMaintPub_def tcs_wrap_ReadManuMaintPub_def Let_def
  by (intro handling call_keeps tcs_call.intros keeps_by_hand keeps_evict_handle keeps_load_and_mark; simp)+

lemma ek_handle:
  "serves J (tcs_wrap_CreateEndorsementKeyPair env)" "serves J (tcs_wrap_ReadPubek env)"
  "serves J (tcs_wrap_OwnerReadPubek env)" "serves J (tcs_wrap_DisablePubekRead env)"
  "serves J (tcs_wrap_CreateRevocableEndorsementKeyPair env)" "serves J (tcs_wrap_RevokeEndorsementKeyPair env)"
  unfolding tcs_wrap_CreateEndorsementKeyPair_def tcs_wrap_ReadPubek_def tcs_wrap_OwnerReadPubek_def
    tcs_wrap_DisablePubekRead_def tcs_wrap_CreateRevocableEndorsementKeyPair_def
    tcs_wrap_RevokeEndorsementKeyPair_def Let_def
  by (intro handling call_keeps tcs_call.intros keeps_by_hand keeps_evict_handle keeps_load_and_mark; simp)+

lemma nv_handle:
  "serves J (tcs_wrap_NV_DefineOrReleaseSpace env)" "serves J (tcs_wrap_NV_WriteValue env)"
  "serves J (tcs_wrap_NV_WriteValueAuth env)" "serves J (tcs_wrap_NV_ReadValue env)"
  "serves J (tcs_wrap_NV_ReadValueAuth env)"
  unfolding tcs_wrap_NV_DefineOrReleaseSpace_def tcs_wrap_NV_WriteValue_def tcs_wrap_NV_WriteValueAuth_def
    tcs_wrap_NV_ReadValue_def tcs_wrap_NV_ReadValueAuth_def Let_def
  by (intro handling call_keeps tcs_call.intros keeps_by_hand keeps_evict_handle keeps_load_and_mark; simp)+

lemma counter_handle:
  "serves J (tcs_wrap_ReadCounter env)" "serves J (tcs_wrap_CreateCounter env)"
  "serves J (tcs_wrap_IncrementCounter env)" "serves J (tcs_wrap_ReleaseCounter env)"
  "serves J (tcs_wrap_ReleaseCounterOwner env)"
  unfolding tcs_wrap_ReadCounter_def tcs_wrap_CreateCounter_def tcs_wrap_IncrementCounter_def
    tcs_wrap_ReleaseCounter_def tcs_wrap_ReleaseCounterOwner_def Let_def
  by (intro handling call_keeps tcs_call.intros keeps_by_hand keeps_evict_handle keeps_load_and_mark; simp)+

lemma admin_handle:
  "serves J (tcs_wrap_PhysicalSetDeactivated env)" "serves J (tcs_wrap_DisableOwnerClear env)"
  "serves J (tcs_wrap_ForceClear env)" "serves J (tcs_wrap_DisableForceClear env)"
  "serves J (tcs_wrap_PhysicalEnable env)" "serves J (tcs_wrap_SetOwnerInstall env)"
  "serves J (tcs_wrap_OwnerSetDisable env)" "serves J (tcs_wrap_PhysicalDisable env)"
  "serves J (tcs_wrap_PhysicalPresence env)" "serves J (tcs_wrap_SetTempDeactivated env)"
  "serves J (tcs_wrap_SetTempDeactivated2 env)" "serves J (tcs_wrap_ResetLockValue env)"
  "serves J (tcs_wrap_FlushSpecific env)"
  unfolding tcs_wrap_PhysicalSetDeactivated_def tcs_wrap_DisableOwnerClear_def tcs_wrap_ForceClear_def
    tcs_wrap_DisableForceClear_def tcs_wrap_PhysicalEnable_def tcs_wrap_SetOwnerInstall_def
    tcs_wrap_OwnerSetDisable_def tcs_wrap_PhysicalDisable_def tcs_wrap_PhysicalPresence_def
    tcs_wrap_SetTempDeactivated_def tcs_wrap_SetTempDeactivated2_def tcs_wrap_ResetLockValue_def
    tcs_wrap_FlushSpecific_def Let_def
  by (intro handling call_keeps tcs_call.intros keeps_by_hand keeps_evict_handle keeps_load_and_mark; simp)+

lemma daa_handle:
  "serves J (tcs_wrap_DaaJoin env)" "serves J (tcs_wrap_DaaSign env)" "serves J (tcs_wrap_OIAP env)"
  "serves J (tcs_wrap_OSAP env)" "serves J (tcs_wrap_APCreate env)"
  unfolding tcs_wrap_DaaJoin_def tcs_wrap_DaaSign_def tcs_wrap_OIAP_def tcs_wrap_OSAP_def tcs_wrap_APCreate_def Let_def
  by (intro handling call_keeps tcs_call.intros keeps_by_hand keeps_evict_handle keeps_load_and_mark; simp)+

lemma key_handle:
  "serves J tcs_wrap_EvictKey" "serves J (tcs_wrap_GetPubkey env)" "serves J (tcs_wrap_TerminateHandle env)"
  "serves J (tcs_wrap_LoadKeyByBlob env)" "serves J (tcs_wrap_LoadKey2ByBlob env)"
  "serves J (tcs_wrap_CreateWrapKey env)" "serves J (tcs_wrap_OwnerReadInternalPub env)"
  "serves J (tcs_wrap_KeyControlOwner env uuid)"
  unfolding tcs_wrap_EvictKey_def tcs_wrap_GetPubkey_def tcs_wrap_TerminateHandle_def tcs_wrap_LoadKeyByBlob_def
    tcs_wrap_LoadKey2ByBlob_def tcs_wrap_CreateWrapKey_def tcs_wrap_OwnerReadInternalPub_def
    tcs_wrap_KeyControlOwner_def Let_def
  by (intro handling call_keeps tcs_call.intros keeps_by_hand keeps_evict_handle keeps_load_and_mark; simp)+

lemma seal_handle:
  "serves J (tcs_wrap_Seal env)" "serves J (tcs_wrap_Sealx env)" "serves J (tcs_wrap_UnSeal env)"
  "serves J (tcs_wrap_Quote env)" "serves J (tcs_wrap_Quote2 env)" "serves J (tcs_wrap_CertifyKey env)"
  "serves J (tcs_wrap_Sign env)" "serves J (tcs_wrap_UnBind env)"
  unfolding tcs_wrap_Seal_def tcs_wrap_Sealx_def tcs_wrap_UnSeal_def tcs_wrap_Quote_def tcs_wrap_Quote2_def
    tcs_wrap_CertifyKey_def tcs_wrap_Sign_def tcs_wrap_UnBind_def tcs_common_Seal_def Let_def
  by (intro handling call_keeps tcs_call.intros keeps_by_hand keeps_evict_handle keeps_load_and_mark; simp)+

lemma changeauth_handle:
  "serves J (tcs_wrap_ChangeAuth env)" "serves J (tcs_wrap_ChangeAuthOwner env)"
  "serves J (tcs_wrap_MakeIdentity env)" "serves J (tcs_wrap_ActivateIdentity env)"
  "serves J (tcs_wrap_GetCredential env)" "serves J (tcs_wrap_CreateMigrationBlob env)"
  "serves J (tcs_wrap_ConvertMigrationBlob env)" "serves J (tcs_wrap_AuthorizeMigrationKey env)"
  unfolding tcs_wrap_ChangeAuth_def tcs_wrap_ChangeAuthOwner_def tcs_wrap_MakeIdentity_def
    tcs_wrap_ActivateIdentity_def tcs_wrap_GetCredential_def tcs_wrap_CreateMigrationBlob_def
    tcs_wrap_ConvertMigrationBlob_def tcs_wrap_AuthorizeMigrationKey_def Let_def
  by (intro handling call_keeps tcs_call.intros keeps_by_hand keeps_evict_handle keeps_load_and_mark; simp)+

lemma cmk_handle:
  "serves J (tcs_wrap_CMK_SetRestrictions env)" "serves J (tcs_wrap_CMK_ApproveMA env)"
  "serves J (tcs_wrap_CMK_CreateKey env)" "serves J (tcs_wrap_CMK_CreateTicket env)"
  "serves J (tcs_wrap_CMK_CreateBlob env)" "serves J (tcs_wrap_CMK_ConvertMigration env)"
  unfolding tcs_wrap_CMK_SetRestrictions_def tcs_wrap_CMK_ApproveMA_def tcs_wrap_CMK_CreateKey_def
    tcs_wrap_CMK_CreateTicket_def tcs_wrap_CMK_CreateBlob_def tcs_wrap_CMK_ConvertMigration_def Let_def
  by (intro handling call_keeps tcs_call.intros keeps_by_hand keeps_evict_handle keeps_load_and_mark; simp)+

lemma transport_handle:
  "serves J (tcs_wrap_EstablishTransport env)" "serves J (tcs_wrap_ExecuteTransport env)"
  "serves J (tcs_wrap_ReleaseTransportSigned env)"
  unfolding tcs_wrap_EstablishTransport_def tcs_wrap_ExecuteTransport_def tcs_wrap_ReleaseTransportSigned_def Let_def
  by (intro handling call_keeps tcs_call.intros keeps_by_hand keeps_evict_handle keeps_load_and_mark; simp)+

lemma delegate_handle:
  "serves J (tcs_wrap_Delegate_Manage env)" "serves J (tcs_wrap_Delegate_CreateKeyDelegation env)"
  "serves J (tcs_wrap_Delegate_CreateOwnerDelegation env)" "serves J (tcs_wrap_Delegate_LoadOwnerDelegation env)"
  "serves J (tcs_wrap_Delegate_ReadTable env)" "serves J (tcs_wrap_Delegate_UpdateVerificationCount env)"
  "serves J (tcs_wrap_Delegate_VerifyDelegation env)" "serves J (tcs_wrap_DSAP env)"
  unfolding tcs_wrap_Delegate_Manage_def tcs_wrap_Delegate_CreateKeyDelegation_def
    tcs_wrap_Delegate_CreateOwnerDelegation_def tcs_wrap_Delegate_LoadOwnerDelegation_def
    tcs_wrap_Delegate_ReadTable_def tcs_wrap_Delegate_UpdateVerificationCount_def
    tcs_wrap_Delegate_VerifyDelegation_def tcs_wrap_DSAP_def Let_def
  by (intro handling call_keeps tcs_call.intros keeps_by_hand keeps_evict_handle keeps_load_and_mark; simp)+

lemmas wraps_handle = context_handle random_handle own_handle maint_handle ek_handle nv_handle counter_handle admin_handle daa_handle key_handle seal_handle changeauth_handle cmk_handle transport_handle delegate_handle

lemma table_handles:
  assumes p: "r_env r = env" "\<And>k. serves J (r_other r k)" and w: "w \<in> set (tcs_func_table r)"
  shows "serves J w"
proof -
  have "list_all (serves J) (tcs_func_table r)"
    unfolding tcs_func_table_def Let_def p(1) by (simp only: list.pred_inject wraps_handle error_handles p(2) simp_thms)
  then show ?thesis using w by (simp add: list_all_iff)
qed

end

end
