(* ===== verification/Rpc_Service.thy ===== *)
theory Rpc_Service
  imports Rpc_Handlers
begin

text \<open>
  What a client sees of a connection.  Whatever bytes it sends, every answer is a packet whose header counts its
  own bytes, and the sessions of the daemon stay accounted for; who is not admitted changes nothing; the ordinals
  behind the table.
\<close>

section \<open>The header in the buffer\<close>

lemma length_words_be32: "length (concat (map be32 ws)) = 4 * length ws"
  by (induction ws) simp_all

lemma load_words_put: "load_words LoadBlob_UINT32 ws w = put (concat (map be32 ws)) w"
proof -
  have "LoadBlob_UINT32 = (\<lambda>x. put (be32 x))" by (intro ext) (rule daemon_put)
  moreover have "load_words (\<lambda>x. put (be32 x)) ws = put (concat (map be32 ws))"
  proof (induction ws)
    case (Cons x ws)
    then show ?case by (intro ext) (simp add: put_put)
  qed (auto simp: put.simps)
  ultimately show ?thesis by simp
qed

lemma put_header_run:
  assumes "4 * length ws \<le> length (buf (sv_comm st))" "length (buf (sv_comm st)) < 2 ^ 31"
  shows "header_put ws st = Some (st\<lparr>sv_comm := (sv_comm st)\<lparr>buf :=
     concat (map be32 ws) @ drop (4 * length ws) (buf (sv_comm st))\<rparr>\<rparr>)"
  using assms by (simp add: header_put_def load_words_put put_some length_words_be32 write_at_def)

lemma decode_header_words:
  assumes "b = concat (map be32 (header_words h)) @ rest" "length b < 2 ^ 31"
  shows "decode_header b = Some h"
proof -
  obtain a u n t s p q where h: "h = \<lparr>packet_size = a, hdr_u = u, num_parms = n, type_size = t, type_offset = s, parm_size = p, parm_offset = q\<rparr>"
    by (cases h) simp
  have b: "b = be32 a @ be32 u @ be32 n @ be32 t @ be32 s @ be32 p @ be32 q @ rest"
    using assms(1) by (simp add: h header_words_def)
  have w: "UnloadBlob_UINT32 (of_nat (length xs)) b = Some (x, of_nat (length xs + 4))" if "b = xs @ be32 x @ zs" for xs x zs
    using UnloadBlob_UINT32_at [OF that _ refl] assms(2) by simp
  have "UnloadBlob_UINT32 0 b = Some (a, 4)" "UnloadBlob_UINT32 4 b = Some (u, 8)" "UnloadBlob_UINT32 8 b = Some (n, 12)"
    "UnloadBlob_UINT32 12 b = Some (t, 16)" "UnloadBlob_UINT32 16 b = Some (s, 20)" "UnloadBlob_UINT32 20 b = Some (p, 24)"
    "UnloadBlob_UINT32 24 b = Some (q, 28)"
    using w [of "[]" a] w [of "be32 a" u] w [of "be32 a @ be32 u" n] w [of "be32 a @ be32 u @ be32 n" t]
      w [of "be32 a @ be32 u @ be32 n @ be32 t" s] w [of "be32 a @ be32 u @ be32 n @ be32 t @ be32 s" p]
      w [of "be32 a @ be32 u @ be32 n @ be32 t @ be32 s @ be32 p" q] by (simp_all add: b)
  then show ?thesis by (simp add: decode_header_def h)
qed

lemma header_words_length [simp]: "length (header_words h) = 7" "length (concat (map be32 (header_words h))) = 28"
  by (simp_all add: header_words_def)

section \<open>Answers\<close>

definition well_framed :: "u8 list \<Rightarrow> bool" where
  "well_framed out = (case decode_header out of
     None \<Rightarrow> False
   | Some h \<Rightarrow> unat (packet_size h) = length out \<and> (num_parms h = 0 \<or> packet_size h = parm_offset h + parm_size h))"

definition framed :: "u8 list \<Rightarrow> bool" where
  "framed b \<longleftrightarrow> (\<exists>h rest. b = concat (map be32 (header_words h)) @ rest \<and> 28 \<le> unat (packet_size h)
     \<and> unat (packet_size h) \<le> length b \<and> (num_parms h = 0 \<or> packet_size h = parm_offset h + parm_size h))"

lemma framedI:
  "answer_ok \<lparr>buf = b, hdr = h\<rparr> \<Longrightarrow> framed (concat (map be32 (header_words h)) @ drop 28 b)"
  unfolding framed_def answer_ok_def by (intro exI [of _ h] exI [of _ "drop 28 b"]) auto

lemma error_words:
  assumes "28 \<le> n"
  shows "concat (map be32 [28, r]) @ drop 8 (replicate n 0) = concat (map be32 [28, r, 0, 0, 0, 0, 0]) @ drop 28 (replicate n 0)"
proof -
  have "replicate (n - 8) (0 :: u8) = replicate 20 0 @ replicate (n - 28) 0"
    using assms by (simp flip: replicate_add)
  then show ?thesis by (simp add: be32_def numeral_eq_Suc)
qed

lemma error_framed: "28 \<le> n \<Longrightarrow> framed (concat (map be32 [28, r]) @ drop 8 (replicate n 0))"
  unfolding error_words
  using framedI [of "replicate n 0" "\<lparr>packet_size = 28, hdr_u = r, num_parms = 0, type_size = 0, type_offset = 0,
    parm_size = 0, parm_offset = 0\<rparr>"]
  by (simp only: header_words_def tcsd_packet_hdr.simps) (simp add: answer_ok_def)

lemma send_framed:
  assumes "framed (buf (sv_comm st))" "length (buf (sv_comm st)) < 2 ^ 31"
  shows "\<exists>out. send_packet st = Some out \<and> well_framed out \<and> 28 \<le> length out"
proof -
  let ?b = "buf (sv_comm st)"
  obtain h rest where b: "?b = concat (map be32 (header_words h)) @ rest" and s: "28 \<le> unat (packet_size h)"
    "unat (packet_size h) \<le> length ?b" and p: "num_parms h = 0 \<or> packet_size h = parm_offset h + parm_size h"
    using assms(1) unfolding framed_def by blast
  have u: "UnloadBlob_UINT32 0 ?b = Some (packet_size h, 4)"
    using UnloadBlob_UINT32_at [of ?b "[]" "packet_size h"] assms(2) unfolding b by (simp add: header_words_def)
  have "unat (packet_size h) < 2 ^ 31" using s(2) assms(2) by simp
  then have i: "sint (packet_size h) = int (unat (packet_size h))" using small_word(2) [of "unat (packet_size h)"] by simp
  have pos: "0 < sint (packet_size h)" unfolding i using s(1) by linarith
  let ?out = "take (unat (packet_size h)) ?b"
  have "send_packet st = Some ?out" using u pos s by (simp add: send_packet_def rd_def read_at_def)
  moreover have "?out = concat (map be32 (header_words h)) @ take (unat (packet_size h) - 28) rest"
    using s(1) unfolding b by simp
  then have "decode_header ?out = Some h" by (rule decode_header_words) (use assms(2) in simp)
  then have "well_framed ?out" using s p by (simp add: well_framed_def)
  ultimately show ?thesis using s by auto
qed

section \<open>One request\<close>

lemma bind_someE: "f \<bind> g = Some y \<Longrightarrow> (\<And>x. f = Some x \<Longrightarrow> g x = Some y \<Longrightarrow> R) \<Longrightarrow> R"
  by (cases f) auto

text \<open>An environment whose unmodelled handlers and other threads keep an invariant.\<close>

definition proper :: "('t auth_mgr \<Rightarrow> bool) \<Rightarrow> 't tcsd_env \<Rightarrow> 't rpc_env \<Rightarrow> bool" where
  "proper J env r \<longleftrightarrow> r_env r = env \<and> (\<forall>k. serves J (r_other r k))
     \<and> (\<forall>tcs am tcs' am'. r_others r (tcs, am) = Some (tcs', am') \<longrightarrow> J am \<longrightarrow> J am')"

definition answered :: "('t auth_mgr \<Rightarrow> bool) \<Rightarrow> u32 \<Rightarrow> 't served \<Rightarrow> bool" where
  "answered J r st \<longleftrightarrow> good J st \<and> (r = 0 \<longrightarrow> framed (buf (sv_comm st)))"

lemma answered_denied:
  assumes "denied st = Some (r, st')" "good J st"
  shows "answered J r st'"
proof -
  let ?n = "length (buf (sv_comm st))"
  have n: "28 \<le> ?n" "?n < 2 ^ 31" "1024 \<le> ?n" using assms(2) by (auto simp: good_def)
  have "buf (sv_comm st') = concat (map be32 [28, TCSERR TSS_E_FAIL]) @ drop 8 (replicate ?n 0)" "sv_d st' = sv_d st"
    using assms(1) n by (auto simp: denied_def Let_def put_header_run)
  then show ?thesis using assms(2) error_framed [OF n(1)] n by (simp add: answered_def good_def)
qed

lemma answered_failure:
  assumes "answer_failure r st = Some st'" "good J st"
  shows "answered J 0 st'"
proof -
  let ?n = "length (buf (sv_comm st))"
  have n: "28 \<le> ?n" "?n < 2 ^ 31" "1024 \<le> ?n" using assms(2) by (auto simp: good_def)
  have "buf (sv_comm st') = concat (map be32 [28, r]) @ drop 8 (replicate ?n 0)" "sv_d st' = sv_d st"
    using assms(1) n by (auto simp: answer_failure_def put_header_run)
  then show ?thesis using assms(2) error_framed [OF n(1)] n by (simp add: answered_def good_def)
qed

lemma answered_handler:
  assumes "left J 0 st" "header_put (header_words (hdr (sv_comm st))) st = Some st'"
  shows "answered J 0 st'"
proof -
  have n: "28 \<le> length (buf (sv_comm st))" "length (buf (sv_comm st)) < 2 ^ 31"
    using assms(1) by (auto simp: left_def good_def)
  have "framed (concat (map be32 (header_words (hdr (sv_comm st)))) @ drop 28 (buf (sv_comm st)))"
    by (rule framedI) (use assms(1) in \<open>simp add: left_def answer_ok_def\<close>)
  then show ?thesis using assms n by (auto simp: put_header_run answered_def left_def good_def)
qed

lemma access_keeps:
  "access_control r st = Some (x, st') \<Longrightarrow> d_am (sv_d st') = d_am (sv_d st) \<and> sv_comm st' = sv_comm st"
  by (auto simp: access_control_def admitted_def Let_def set_mem_def split: option.splits prod.splits if_splits bind_splits)

lemma good_access: "access_control r st = Some (x, st') \<Longrightarrow> good J st \<Longrightarrow> good J st'"
  by (auto simp: good_def dest!: access_keeps)

lemma good_recv_socket: "recv_from_socket off n input st = Some (Some (rest, st')) \<Longrightarrow> good J st \<Longrightarrow> good J st'"
  by (auto simp: recv_from_socket_def good_def wr_def split: if_splits bind_splits)

lemma good_recv_packet:
  assumes "recv_packet input st = Some (Some (rest, st'))" "good J st"
  shows "good J st'"
proof -
  obtain rest1 st1 where 1: "recv_from_socket 0 28 input st = Some (Some (rest1, st1))"
    using assms(1) by (auto simp: recv_packet_def split: bind_splits option.splits)
  have g1: "good J st1" using good_recv_socket [OF 1 assms(2)] .
  obtain size off where u: "UnloadBlob_UINT32 0 (buf (sv_comm st1)) = Some (size, off)"
    using assms(1) 1 by (auto simp: recv_packet_def split: bind_splits)
  have "28 \<le> sint size" using assms(1) 1 u by (auto simp: recv_packet_def split: if_splits)
  have sz: "sint size = int (unat size)" "unat size < 2 ^ 31"
  proof -
    have s: "sint size < 2 ^ 31" using sint_lt [of size] by simp
    have "int (unat (0 + size)) = sint (0 :: u32) + sint size"
      by (rule unat_sum) (use s \<open>28 \<le> sint size\<close> in simp_all)
    then show sz: "sint size = int (unat size)" by (simp only: add_0_left signed_0)
    show "unat size < 2 ^ 31" using s unfolding sz by (metis of_nat_less_iff of_nat_numeral of_nat_power)
  qed
  show ?thesis
  proof (cases "int (length (buf (sv_comm st1))) < sint size")
    case False
    then have "recv_from_socket 28 (unat size - 28) rest1 (set_mem (mem st1) (st1\<lparr>sv_comm := sv_comm st1\<rparr>)) = Some (Some (rest, st'))"
      using assms(1) 1 u \<open>28 \<le> sint size\<close> by (simp add: recv_packet_def set_mem_def)
    from good_recv_socket [OF this] g1 show ?thesis by simp
  next
    case True
    obtain comm m where r: "realloc (unat size) (sv_comm st1) (mem st1) = (Some comm, m)"
      "recv_from_socket 28 (unat size - 28) rest1 ((set_mem m st1)\<lparr>sv_comm := comm\<rparr>) = Some (Some (rest, st'))"
      using assms(1) 1 u \<open>28 \<le> sint size\<close> True by (auto simp: recv_packet_def split: prod.splits option.splits)
    have "length (buf comm) = unat size" using r(1) True sz by (auto simp: realloc_def split: if_splits)
    moreover have "length (buf (sv_comm st1)) < unat size" using True unfolding sz(1) by linarith
    ultimately have "good J ((set_mem m st1)\<lparr>sv_comm := comm\<rparr>)" using g1 sz(2) by (simp add: good_def set_mem_def)
    from good_recv_socket [OF r(2) this] show ?thesis .
  qed
qed

context session_invariant
begin

lemma dispatch_answered:
  assumes "dispatchCommand r st = Some (x, st')" "proper J env r" "good J st"
  shows "answered J x st'"
proof (cases "of_nat TCSD_MAX_NUM_ORDS \<le> hdr_u (hdr (sv_comm st))")
  case True
  then show ?thesis using assms by (auto simp: dispatchCommand_def answered_def)
next
  case False
  let ?ord = "unat (hdr_u (hdr (sv_comm st)))"
  obtain op where op: "rd (r_remote_ops r) 0 1 = Some op"
    using assms(1) False by (cases "rd (r_remote_ops r) 0 1") (auto simp: dispatchCommand_def)
  obtain denial s where a1: "(if op \<noteq> [0] then access_control r st else Some (0, st)) = Some (denial, s)"
    using assms(1) False op by (cases "if op \<noteq> [0] then access_control r st else Some (0, st)")
      (auto simp: dispatchCommand_def Let_def)
  have a2: "(if denial \<noteq> 0 then denied s else if length (tcs_func_table r) \<le> ?ord then None
      else do { (result, st) \<leftarrow> (tcs_func_table r ! ?ord) s;
             if result \<noteq> 0 then Some (result, st)
             else do { st \<leftarrow> header_put (header_words (hdr (sv_comm st))) st; Some (TSS_SUCCESS, st) } }) = Some (x, st')"
    using assms(1) False op a1 unfolding dispatchCommand_def Let_def by simp
  note a = a1 a2
  have g: "good J s" using a(1) assms(3) by (auto split: if_splits dest: good_access)
  show ?thesis
  proof (cases "denial = 0")
    case False
    then show ?thesis using a g answered_denied by auto
  next
    case True
    let ?w = "tcs_func_table r ! unat (hdr_u (hdr (sv_comm st)))"
    have w: "serves J ?w"
      by (rule table_handles) (use a(2) True assms(2) in \<open>auto simp: proper_def split: if_splits\<close>)
    obtain y s' where y: "?w s = Some (y, s')"
      "if y \<noteq> 0 then x = y \<and> st' = s' else x = 0 \<and> header_put (header_words (hdr (sv_comm s'))) s' = Some st'"
      using a(2) True by (auto split: bind_splits if_splits)
    have "left J y s'" using handlesD [OF y(1) w g] .
    then show ?thesis using y(2) answered_handler by (auto simp: answered_def left_def split: if_splits)
  qed
qed

lemma serve_answers:
  assumes "serve_request r input st = Some (y, st')" "proper J env r" "good J st"
  shows "good J st' \<and> (\<forall>out go rest. y = Some (out, go, rest) \<longrightarrow> well_framed out)"
proof -
  obtain tcs am where o: "r_others r (d_tcs (sv_d st), d_am (sv_d st)) = Some (tcs, am)"
    using assms(1) by (auto simp: serve_request_def split: bind_splits)
  let ?s = "st\<lparr>sv_d := (sv_d st)\<lparr>d_tcs := tcs, d_am := am\<rparr>\<rparr>"
  have g: "good J ?s" using o assms(2,3) by (auto simp: good_def proper_def)
  obtain p where p: "recv_packet input ?s = Some p"
    using assms(1) o by (auto simp: serve_request_def Let_def split: bind_splits)
  show ?thesis
  proof (cases p)
    case None
    then show ?thesis using assms(1) o p g by (auto simp: serve_request_def Let_def)
  next
    case (Some q)
    obtain rest s where q: "q = (rest, s)" by fastforce
    obtain h result s1 s2 out where s: "getTCSDPacket r (s\<lparr>sv_comm := (sv_comm s)\<lparr>hdr := h\<rparr>\<rparr>) = Some (result, s1)"
      "(if result \<noteq> 0 then answer_failure result s1 else Some s1) = Some s2" "send_packet s2 = Some out"
      "y = Some (out, r_sent r \<and> \<not> r_shutdown r, rest)" "st' = s2"
      using assms(1) o p Some q by (auto simp: serve_request_def Let_def split: bind_splits)
    have "good J s" using good_recv_packet p g Some q by blast
    then have "good J (s\<lparr>sv_comm := (sv_comm s)\<lparr>hdr := h\<rparr>\<rparr>)" by (simp add: good_def)
    then have 1: "answered J result s1" using s(1) dispatch_answered assms(2)
      by (auto simp: getTCSDPacket_def Let_def answered_def split: if_splits)
    then have 2: "answered J 0 s2" using s(2) answered_failure by (auto simp: answered_def split: if_splits)
    then have "well_framed out" using send_framed [of s2] s(3) by (auto simp: answered_def good_def)
    then show ?thesis using 2 s(4,5) by (auto simp: answered_def)
  qed
qed

lemma loop_answers:
  assumes "serve_loop r k input st = Some (out, st')" "\<forall>k. proper J env (r k)" "good J st"
  shows "good J st' \<and> (\<exists>ps. out = concat ps \<and> list_all well_framed ps)"
  using assms
proof (induction r k input st arbitrary: out st' rule: serve_loop.induct)
  case (1 r k input st)
  obtain y s where y: "serve_request (r k) input st = Some (y, s)" using 1(2) by (auto split: option.splits)
  note a = serve_answers [OF y 1(3) [THEN spec] 1(4)]
  show ?case
  proof (cases y)
    case None
    then show ?thesis using 1(2) y a by (auto intro: exI [of _ "[]"])
  next
    case (Some q)
    obtain o1 go rest where q: "q = (o1, go, rest)" by (cases q)
    have w: "well_framed o1" using a Some q by blast
    show ?thesis
    proof (cases go)
      case False
      then show ?thesis using 1(2) y Some q a w by (auto intro: exI [of _ "[o1]"])
    next
      case True
      obtain o2 where o2: "serve_loop r (Suc k) rest s = Some (o2, st')" "out = o1 @ o2"
        using 1(2) y Some q True by auto
      have "good J st' \<and> (\<exists>ps. o2 = concat ps \<and> list_all well_framed ps)"
        using 1(1) [OF y refl Some q [symmetric] refl True o2(1) 1(3)] a by simp
      then obtain ps where "good J st'" "o2 = concat ps" "list_all well_framed ps" by blast
      then show ?thesis using o2(2) w by (auto intro: exI [of _ "o1 # ps"])
    qed
  qed
qed

lemma end_keeps: "end_connection env st = Some st' \<Longrightarrow> J (d_am (sv_d st)) \<Longrightarrow> J (d_am (sv_d st'))"
proof -
  have k: "am_keeps J (TCS_CloseContext_Internal env c)" for c by (intro call_keeps tcs_call.intros)
  show "end_connection env st = Some st' \<Longrightarrow> J (d_am (sv_d st)) \<Longrightarrow> J (d_am (sv_d st'))"
    by (auto simp: end_connection_def split: if_splits bind_splits dest!: keepsD [OF _ k])
qed

theorem thread_answers:
  assumes "tcsd_thread_run r input st = Some (out, st')" "\<forall>k. proper J env (r k)" "J (d_am (sv_d st))"
  shows "J (d_am (sv_d st')) \<and> (\<exists>ps. out = concat ps \<and> list_all well_framed ps)"
proof -
  let ?s = "set_mem ((mem st)\<lparr>m_count := Suc (m_count (mem st))\<rparr>) st"
  have e: "r_env (r 0) = env" using assms(2) by (simp add: proper_def)
  obtain s where s: "(if m_ok (mem st) (m_count (mem st))
       then serve_loop r 0 input (?s\<lparr>sv_comm := (sv_comm ?s)\<lparr>buf := replicate 1024 0\<rparr>\<rparr>) else Some ([], ?s)) = Some (out, s)"
    "end_connection env s = Some st'"
    using assms(1) unfolding tcsd_thread_run_def e Let_def by (auto split: bind_splits)
  have g: "good J (?s\<lparr>sv_comm := (sv_comm ?s)\<lparr>buf := replicate 1024 0\<rparr>\<rparr>)"
    using assms(3) by (simp add: good_def set_mem_def)
  have "J (d_am (sv_d s)) \<and> (\<exists>ps. out = concat ps \<and> list_all well_framed ps)"
  proof (cases "m_ok (mem st) (m_count (mem st))")
    case True
    then show ?thesis using loop_answers [OF _ assms(2) g] s(1) by (auto simp: good_def)
  next
    case False
    then show ?thesis using s(1) assms(3) by (auto simp: set_mem_def intro: exI [of _ "[]"])
  qed
  then show ?thesis using end_keeps [OF s(2)] by blast
qed

end

end
