(* ===== verification/Rpc_Parameters.thy ===== *)
theory Rpc_Parameters
  imports Rpc_Service
begin

text \<open>
  What the two implementations of the packets agree on: the reference encoding \<open>wire\<close> of the parameters,
  written and read by both sides, and the way of a list of parameters from one side to the other.
\<close>

section \<open>The encoding both sides agree on\<close>

definition enc_LOADKEY :: "TCS_LOADKEY_INFO \<Rightarrow> u8 list" where
  "enc_LOADKEY i = enc_UUID (li_keyUUID i) @ enc_UUID (li_parentKeyUUID i) @ li_paramDigest i
     @ be32 (AuthHandle (li_authData i)) @ NonceOdd (li_authData i) @ NonceEven (li_authData i)
     @ be8 (fContinueAuthSession (li_authData i)) @ HMAC (li_authData i)"

definition wf_LOADKEY :: "TCS_LOADKEY_INFO \<Rightarrow> bool" where
  "wf_LOADKEY i \<longleftrightarrow> wf_UUID (li_keyUUID i) \<and> wf_UUID (li_parentKeyUUID i) \<and> length (li_paramDigest i) = 32
     \<and> length (NonceOdd (li_authData i)) = 32 \<and> length (NonceEven (li_authData i)) = 32 \<and> length (HMAC (li_authData i)) = 32"

definition wire :: "ptype \<Rightarrow> u32 \<Rightarrow> datum \<Rightarrow> u8 list option" where
  "wire ty n d = (case d of
     D8 x \<Rightarrow> if ty = PT_BYTE \<or> ty = PT_BOOL then Some (be8 x) else None
   | D16 x \<Rightarrow> if ty = PT_UINT16 then Some (be16 x) else None
   | D32 x \<Rightarrow> if ty = PT_UINT32 then Some (be32 x) else None
   | DP (Buf a) \<Rightarrow> if ty = PT_PBYTE \<and> length a = unat n \<and> unat n < 2 ^ 31 then Some a else None
   | DA a \<Rightarrow> if ty \<in> {PT_NONCE, PT_DIGEST, PT_ENCAUTH, PT_AUTH_DATA} \<and> length a = 32 then Some a else None
   | DUuid u \<Rightarrow> if ty = PT_UUID \<and> wf_UUID u then Some (enc_UUID u) else None
   | DVersion v \<Rightarrow> if ty = PT_VERSION then Some (enc_TCPA_VERSION v) else None
   | DLoadkey i \<Rightarrow> if ty = PT_LOADKEY_INFO \<and> wf_LOADKEY i then Some (enc_LOADKEY i) else None
   | _ \<Rightarrow> None)"

text \<open>A place that a parameter like \<open>d\<close> can be read into.\<close>

definition place_for :: "datum \<Rightarrow> datum \<Rightarrow> bool" where
  "place_for d old = (case d of
     D8 x \<Rightarrow> as_8 old \<noteq> None | D16 x \<Rightarrow> as_16 old \<noteq> None | D32 x \<Rightarrow> as_32 old \<noteq> None
   | DP p \<Rightarrow> (case (p, as_ptr old) of (Buf a, Some (Buf b)) \<Rightarrow> length a = length b | _ \<Rightarrow> False)
   | DA a \<Rightarrow> (case as_arr old of Some b \<Rightarrow> length a = length b | None \<Rightarrow> False)
   | DUuid u \<Rightarrow> as_uuid old \<noteq> None | DVersion v \<Rightarrow> as_version old \<noteq> None
   | DLoadkey i \<Rightarrow> (case as_loadkey old of Some j \<Rightarrow> wf_LOADKEY j | None \<Rightarrow> False)
   | _ \<Rightarrow> False)"

lemma wire_cases:
  assumes "wire ty n d = Some bs"
  obtains x where "d = D8 x" "ty = PT_BYTE \<or> ty = PT_BOOL" "bs = be8 x"
  | x where "d = D16 x" "ty = PT_UINT16" "bs = be16 x"
  | x where "d = D32 x" "ty = PT_UINT32" "bs = be32 x"
  | "d = DP (Buf bs)" "ty = PT_PBYTE" "length bs = unat n" "unat n < 2 ^ 31"
  | "d = DA bs" "ty \<in> {PT_NONCE, PT_DIGEST, PT_ENCAUTH, PT_AUTH_DATA}" "length bs = 32"
  | u where "d = DUuid u" "ty = PT_UUID" "wf_UUID u" "bs = enc_UUID u"
  | v where "d = DVersion v" "ty = PT_VERSION" "bs = enc_TCPA_VERSION v"
  | i where "d = DLoadkey i" "ty = PT_LOADKEY_INFO" "wf_LOADKEY i" "bs = enc_LOADKEY i"
  using assms unfolding wire_def by (auto split: datum.splits ptr.splits if_splits)

section \<open>Writing\<close>

lemma scast_small: "unat n < 2 ^ 31 \<Longrightarrow> (scast n :: u64) = of_nat (unat n)" for n :: u32
proof -
  assume n: "unat n < 2 ^ 31"
  have "sint n = int (unat n)" using small_word(2) [OF n] by simp
  then have "(scast n :: u64) = word_of_int (int (unat n))" by (simp only: signed_scast_eq [symmetric] scast_eq)
  then show ?thesis by simp
qed

lemma load_arrays:
  "length d = unat n \<Longrightarrow> LoadBlob n (Buf d) = put d" "length d = k \<Longrightarrow> Trspi_LoadBlob k (Buf d) = put d"
proof -
  have "length d = unat n \<Longrightarrow> LoadBlob n (Buf d) w = put d w" for w
    by (cases w; cases "n = 0") (auto simp: put.simps poke_def rd_def read_at_def unat_eq_zero)
  then show "length d = unat n \<Longrightarrow> LoadBlob n (Buf d) = put d" by blast
  show "length d = k \<Longrightarrow> Trspi_LoadBlob k (Buf d) = put d" by (simp add: fun_eq_iff load_array)
qed

lemma bind_result: "m \<bind> (\<lambda>w. Some (r, w)) = map_option (Pair r) m"
  by (cases m) simp_all

lemma daemon_writes:
  assumes "wire ty n d = Some bs"
  shows "writes loadData ty d n bs"
  using assms
  by (rule wire_cases)
    (auto simp: writes_def loadData_def as_defs daemon_put load_arrays LoadBlob_UUID_def enc_UUID_def wf_UUID_def
      LoadBlob_VERSION_def enc_TCPA_VERSION_def LoadBlob_LOADKEY_INFO_def enc_LOADKEY_def wf_LOADKEY_def put_simps bind_result simp del: LoadBlob.simps Trspi_LoadBlob.simps)

lemma client_writes:
  assumes "wire ty n d = Some bs"
  shows "writes tspi_loadData ty d n bs"
  using assms
  by (rule wire_cases)
    (auto simp: writes_def tspi_loadData_def as_defs tspi_LoadBlob_LOADKEY_INFO_def enc_LOADKEY_def wf_LOADKEY_def
      scast_small load_arrays put_simps bind_result simp del: LoadBlob.simps Trspi_LoadBlob.simps)

section \<open>Reading\<close>

text \<open>The bytes \<open>bs\<close> lie at the offset of a buffer.\<close>

definition laid :: "u8 list \<Rightarrow> u64 \<Rightarrow> u8 list \<Rightarrow> bool" where
  "laid b off bs \<longleftrightarrow> length b < 2 ^ 31 \<and> rd b (unat off) (length bs) = Some bs"

named_theorems laid_simps \<open>readers of the daemon over the bytes that lie at the offset\<close>

lemma laid_append [laid_simps]:
  "laid b off (xs @ ys) \<longleftrightarrow> laid b off xs \<and> laid b (off + of_nat (length xs)) ys"
proof (cases "length b < 2 ^ 31 \<and> unat off + length xs \<le> length b")
  case True
  then have "length xs < 2 ^ 64" "unat off + length xs < 2 ^ 64" by simp_all
  then have "unat (off + of_nat (length xs)) = unat off + length xs"
    by (simp add: unat_word_ariths unsigned_of_nat take_bit_nat_eq_self)
  then show ?thesis using True read_at_split [of b "unat off" "length xs" "length ys"]
    by (auto simp: laid_def rd_def add.assoc)
qed (auto simp: laid_def rd_def)

lemma laid_reads [laid_simps]:
  "laid b off (be8 x) \<Longrightarrow> UnloadBlob_BYTE off b = Some (x, off + 1)"
  "laid b off (be8 x) \<Longrightarrow> UnloadBlob_BOOL off b = Some (x, off + 1)"
  "laid b off (be16 h) \<Longrightarrow> UnloadBlob_UINT16 off b = Some (h, off + 2)"
  "laid b off (be32 w) \<Longrightarrow> UnloadBlob_UINT32 off b = Some (w, off + 4)"
  by (simp_all add: laid_def UnloadBlob_BYTE_def UnloadBlob_BOOL_def UnloadBlob_UINT16_def UnloadBlob_UINT32_def be8_def)

lemma laid_array [laid_simps]:
  "laid b off bs \<Longrightarrow> length bs = unat n \<Longrightarrow> UnloadBlob off n b = Some (bs, off + of_nat (length bs))"
  by (auto simp: laid_def UnloadBlob_def)

lemma laid_UUID [laid_simps]:
  "laid b off (enc_UUID u) \<Longrightarrow> wf_UUID u \<Longrightarrow> UnloadBlob_UUID off b = Some (u, off + 16)"
  by (auto simp: enc_UUID_def wf_UUID_def UnloadBlob_UUID_def laid_simps add.assoc)

lemma laid_VERSION [laid_simps]:
  "laid b off (enc_TCPA_VERSION v) \<Longrightarrow> read_VERSION off b = Some (v, off + 4)"
  by (auto simp: enc_TCPA_VERSION_def read_VERSION_def laid_simps add.assoc)

lemma length_codes [simp]:
  "wf_UUID u \<Longrightarrow> length (enc_UUID u) = 16" "length (enc_TCPA_VERSION v) = 4"
  by (simp_all add: enc_UUID_def wf_UUID_def enc_TCPA_VERSION_def)

lemma laid_LOADKEY [laid_simps]:
  "laid b off (enc_LOADKEY i) \<Longrightarrow> wf_LOADKEY i \<Longrightarrow> UnloadBlob_LOADKEY_INFO off b = Some (i, off + 165)"
  by (auto simp: enc_LOADKEY_def wf_LOADKEY_def UnloadBlob_LOADKEY_INFO_def laid_simps add.assoc)

lemma length_LOADKEY [simp]: "wf_LOADKEY i \<Longrightarrow> length (enc_LOADKEY i) = 165"
  by (simp add: enc_LOADKEY_def wf_LOADKEY_def)

text \<open>A reader that finds the encoding of a parameter gives the parameter and the offset behind it.\<close>

type_synonym unloader = "ptype \<Rightarrow> datum \<Rightarrow> u32 \<Rightarrow> tcsd_comm_data \<Rightarrow> rsp_mem \<Rightarrow> (((u32 \<times> datum) \<times> u64) \<times> rsp_mem) option"

definition reads :: "unloader \<Rightarrow> ptype \<Rightarrow> datum \<Rightarrow> u32 \<Rightarrow> u8 list \<Rightarrow> datum \<Rightarrow> bool" where
  "reads unload ty old n bs d \<longleftrightarrow> (\<forall>c m. laid (buf c) (ucast (parm_offset (hdr c))) bs \<longrightarrow>
     unat (parm_offset (hdr c)) + length bs \<le> unat (packet_size (hdr c)) \<longrightarrow>
     unload ty old n c m = Some (((TSS_SUCCESS, d), ucast (parm_offset (hdr c)) + of_nat (length bs)), m))"

lemma checked_get_passes:
  assumes "unat (parm_offset (hdr c)) + unat k \<le> unat (packet_size (hdr c))"
  shows "checked_get k c old r = map_option (\<lambda>(d, off). ((TSS_SUCCESS, d), off)) r"
proof -
  have "unat (packet_size (hdr c)) < 2 ^ 32" using unsigned_less [of "packet_size (hdr c)"] by simp
  then have "unat ((ucast (parm_offset (hdr c)) :: u64) + k) = unat (parm_offset (hdr c)) + unat k"
    using assms by (simp add: unat_word_ariths)
  then have "\<not> (ucast (packet_size (hdr c)) :: u64) < ucast (parm_offset (hdr c)) + k"
    using assms by (simp add: word_less_nat_alt)
  then show ?thesis by (cases r) (auto simp: checked_get_def)
qed

lemma daemon_reads:
  assumes "wire ty n d = Some bs" "place_for d old"
  shows "reads unload_parm ty old n bs d"
  using assms(1)
proof (rule wire_cases)
  assume d: "d = DP (Buf bs)" "ty = PT_PBYTE" "length bs = unat n" "unat n < 2 ^ 31"
  then obtain b where b: "old = DP (Buf b)" "length b = length bs"
    using assms(2) by (auto simp: place_for_def as_defs split: datum.splits ptr.splits)
  have n: "unat (of_nat (length bs) :: u64) = length bs" using d small_word(3) [of "length bs"] by simp
  have z: "bs = [] \<longleftrightarrow> n = 0" using d(3) by (auto simp: unat_eq_zero)
  show ?thesis using b d n z
    by (cases "n = 0") (auto simp: reads_def unload_parm_def Let_def as_defs checked_get_passes scast_small laid_simps
      wr_def write_at_def)
qed (use assms(2) in \<open>auto simp: reads_def unload_parm_def as_defs place_for_def checked_get_passes laid_simps
    UnloadBlob_LOADKEY_INFO_NULL_def split: datum.splits\<close>)

definition client_unload :: unloader where
  "client_unload ty old n c m = do {
     (x, st) \<leftarrow> tspi_unload_parm ty old n (buf c) (reader (ucast (parm_offset (hdr c))) m);
     Some ((x, offset st), after_reader st m) }"

lemma laid_lies: "laid b (offset st) bs \<Longrightarrow> lies b st bs"
  by (simp add: laid_def lies_def fetch_def)

lemma unload_buffer:
  assumes "lies blob st d" "length d = n" "length d0 = n"
  shows "Trspi_UnloadBlob n blob (Buf d0) st = Some (Buf d, behind d st)"
  using lies_bytes [OF assms(1)] assms(2,3)
  by (cases "d = []") (auto simp: Trspi_UnloadBlob.simps behind_def wr_def write_at_def)

lemma reader_offset [simp]: "offset (reader off m) = off" "after_reader (behind bs st) m = after_reader st m" "after_reader (reader off m) m = m"
  "offset (behind bs st) = offset st + of_nat (length bs)"
  by (simp_all add: reader_def after_reader_def behind_def adv_def)

text \<open>These two readers need no memory.\<close>

lemma client_codes:
  "lies blob st (enc_UUID u) \<Longrightarrow> wf_UUID u \<Longrightarrow> Trspi_UnloadBlob_UUID blob y st = Some (u, behind (enc_UUID u) st)"
  "lies blob st (enc_TCPA_VERSION v) \<Longrightarrow> Trspi_UnloadBlob_TCPA_VERSION blob z st = Some (v, behind (enc_TCPA_VERSION v) st)"
  by (auto simp: Trspi_UnloadBlob_UUID_def enc_UUID_def wf_UUID_def zero_UUID_def Trspi_UnloadBlob_TCPA_VERSION_def
      enc_TCPA_VERSION_def get_simps Let_def)

lemma client_reads:
  assumes "wire ty n d = Some bs" "place_for d old"
  shows "reads client_unload ty old n bs d"
  unfolding reads_def
proof (intro allI impI)
  fix c :: tcsd_comm_data and m
  assume "laid (buf c) (ucast (parm_offset (hdr c))) bs"
  then have l: "lies (buf c) (reader (ucast (parm_offset (hdr c))) m) bs" by (intro laid_lies) simp
  show "client_unload ty old n c m = Some (((TSS_SUCCESS, d), ucast (parm_offset (hdr c)) + of_nat (length bs)), m)"
    using assms(1)
  proof (rule wire_cases)
    assume d: "d = DP (Buf bs)" "ty = PT_PBYTE" "length bs = unat n" "unat n < 2 ^ 31"
    then obtain b where b: "old = DP (Buf b)" "length b = length bs"
      using assms(2) by (auto simp: place_for_def as_defs split: datum.splits ptr.splits)
    show ?thesis using unload_buffer [OF l, of "unat n" b] b d
      by (simp add: client_unload_def tspi_unload_parm_def as_defs scast_small small_word(3))
  next
    fix i assume d: "d = DLoadkey i" "ty = PT_LOADKEY_INFO" "wf_LOADKEY i" "bs = enc_LOADKEY i"
    then obtain j where j: "old = DLoadkey j" "wf_LOADKEY j"
      using assms(2) by (auto simp: place_for_def as_defs split: datum.splits)
    show ?thesis using l d j
      by (auto simp: client_unload_def tspi_unload_parm_def as_defs tspi_UnloadBlob_LOADKEY_INFO_def
          enc_LOADKEY_def wf_LOADKEY_def get_simps client_codes)
  qed (use l assms(2) in \<open>auto simp: client_unload_def tspi_unload_parm_def as_defs place_for_def get_simps client_codes Let_def
      split: datum.splits\<close>)
qed

end
