(* ===== verification/Rpc_Transfer.thy ===== *)
theory Rpc_Transfer
  imports Rpc_Parameters
begin

text \<open>
  Lists of parameters: \<open>pack\<close> and \<open>unpack\<close> put all of them into a packet and get them out, the bytes of the
  packet pass the connection, and the daemon serves the whole packet.
\<close>

section \<open>From one side to the other\<close>

fun pack :: "(ptype \<Rightarrow> u32 \<Rightarrow> datum \<Rightarrow> u32 \<Rightarrow> tcsd_comm_data \<Rightarrow> rsp_mem \<Rightarrow> (u32 \<times> tcsd_comm_data \<times> rsp_mem) option) \<Rightarrow>
  u32 \<Rightarrow> (ptype \<times> u32 \<times> datum) list \<Rightarrow> tcsd_comm_data \<Rightarrow> rsp_mem \<Rightarrow> (tcsd_comm_data \<times> rsp_mem) option" where
  "pack f i [] c m = Some (c, m)"
| "pack f i ((ty, n, d) # ps) c m = do {
     (r, c, m) \<leftarrow> f ty i d n c m;
     if r \<noteq> 0 then None else pack f (i + 1) ps c m }"

fun unpack :: "(ptype \<Rightarrow> u32 \<Rightarrow> datum \<Rightarrow> u32 \<Rightarrow> tcsd_comm_data \<Rightarrow> rsp_mem \<Rightarrow> ((u32 \<times> datum) \<times> tcsd_comm_data \<times> rsp_mem) option) \<Rightarrow>
  u32 \<Rightarrow> (ptype \<times> u32 \<times> datum) list \<Rightarrow> tcsd_comm_data \<Rightarrow> rsp_mem \<Rightarrow> (datum list \<times> tcsd_comm_data \<times> rsp_mem) option" where
  "unpack get i [] c m = Some ([], c, m)"
| "unpack get i ((ty, n, old) # ps) c m = do {
     ((r, d), c, m) \<leftarrow> get ty i old n c m;
     if r \<noteq> 0 then None else do {
       (ds, c, m) \<leftarrow> unpack get (i + 1) ps c m;
       Some (d # ds, c, m) } }"

text \<open>The bytes of a packet on their way.\<close>

definition packet_bytes :: "tcsd_comm_data \<Rightarrow> u8 list" where
  "packet_bytes c = concat (map be32 (header_words (hdr c))) @ drop 28 (take (unat (packet_size (hdr c))) (buf c))"

lemma pack_building:
  assumes "list_all2 (\<lambda>(ty, n, d) (ty', bs). ty' = ty \<and> writes load ty d n bs) ps gs" "building k fs c"
    "length fs + length ps \<le> k" "28 + k + span fs + span gs < 2 ^ 31" "\<And>j. m_ok m j"
  shows "\<exists>c' m'. pack (set_data err load) (of_nat (length fs)) ps c m = Some (c', m') \<and> building k (fs @ gs) c'
    \<and> hdr_u (hdr c') = hdr_u (hdr c) \<and> (\<exists>j. m' = m\<lparr>m_count := j\<rparr>)"
  using assms
proof (induction ps gs arbitrary: fs c m rule: list_all2_induct)
  case Nil
  then show ?case by (auto intro: exI [of _ "m_count m"])
next
  case (Cons p ps g gs)
  obtain ty n d bs where p: "p = (ty, n, d)" "g = (ty, bs)" and w: "writes load ty d n bs"
    using Cons.hyps(1) by (auto split: prod.splits)
  obtain c1 m1 j where 1: "set_data err load ty (of_nat (length fs)) d n c m = Some (TSS_SUCCESS, c1, m1)"
    "building k (fs @ [g]) c1" "hdr_u (hdr c1) = hdr_u (hdr c)" "m1 = m\<lparr>m_count := j\<rparr>"
    using set_data_building [OF Cons.prems(1) w, of m err] Cons.prems(2,3,4) p by auto
  from Cons.IH [OF 1(2), of m1] obtain c2 m2 j' where
    2: "pack (set_data err load) (of_nat (length (fs @ [g]))) ps c1 m1 = Some (c2, m2)"
    "building k ((fs @ [g]) @ gs) c2" "hdr_u (hdr c2) = hdr_u (hdr c1)" "m2 = m1\<lparr>m_count := j'\<rparr>"
    using Cons.prems 1(4) by auto
  show ?case using 1 2 by (auto simp: p(1) add.commute)
qed

definition get_data :: "unloader \<Rightarrow> ptype \<Rightarrow> u32 \<Rightarrow> datum \<Rightarrow> u32 \<Rightarrow> tcsd_comm_data \<Rightarrow> rsp_mem \<Rightarrow>
  ((u32 \<times> datum) \<times> tcsd_comm_data \<times> rsp_mem) option" where
  "get_data unload ty i old n comm m =
     (if num_parms (hdr comm) \<le> i then Some ((TSS_TCP_RPC_BAD_PACKET_TYPE, old), comm, m)
      else do {
        t \<leftarrow> rd (buf comm) (unat (type_offset (hdr comm)) + unat i) 1;
        if t \<noteq> [ptype_code ty] then Some ((TSS_TCP_RPC_BAD_PACKET_TYPE, old), comm, m)
        else do {
          (((result, d), off), m) \<leftarrow> unload ty old n comm m;
          if result \<noteq> 0 then Some ((result, d), comm, m)
          else Some ((TSS_SUCCESS, d),
            comm\<lparr>hdr := (hdr comm)\<lparr>parm_offset := ucast off,
              parm_size := parm_size (hdr comm) - ucast (off - ucast (parm_offset (hdr comm)))\<rparr>\<rparr>, m) } })"

lemma get_data_both: "getData = get_data unload_parm" "tspi_getData = get_data client_unload"
  by (auto simp: fun_eq_iff getData_def tspi_getData_def get_data_def client_unload_def Let_def split: Option.bind_splits prod.splits)

definition reading :: "(ptype \<times> u8 list) list \<Rightarrow> nat \<Rightarrow> tcsd_comm_data \<Rightarrow> bool" where
  "reading fs k c \<longleftrightarrow> 28 + length fs + span fs \<le> length (buf c) \<and> length (buf c) < 2 ^ 31
     \<and> type_offset (hdr c) = 28 \<and> parm_offset (hdr c) = of_nat (28 + length fs + span (take k fs))
     \<and> 28 + length fs + span fs \<le> unat (packet_size (hdr c)) \<and> num_parms (hdr c) = of_nat (length fs)
     \<and> read_at (buf c) 28 (length fs) = map (ptype_code \<circ> fst) fs
     \<and> read_at (buf c) (28 + length fs) (span fs) = concat (map snd fs)"

lemma read_sub: "i + j \<le> n \<Longrightarrow> read_at b (q + i) j = take j (drop i (read_at b q n))"
  by (simp add: read_at_def drop_take min_def add.commute)

lemma concat_nth: "k < length xss \<Longrightarrow> take (length (xss ! k)) (drop (length (concat (take k xss))) (concat xss)) = xss ! k"
  by (subst (2) id_take_nth_drop [of k xss]) simp_all

text \<open>The checks of a parameter that is there pass.\<close>

lemma get_reaches:
  assumes r: "reading fs k c" and k: "k < length fs" "fs ! k = (ty, bs)"
  shows "laid (buf c) (ucast (parm_offset (hdr c))) bs" "unat (parm_offset (hdr c)) + length bs \<le> unat (packet_size (hdr c))"
    "\<not> num_parms (hdr c) \<le> of_nat k" "rd (buf c) (unat (type_offset (hdr c)) + unat (of_nat k :: u32)) 1 = Some [ptype_code ty]"
    "ucast (parm_offset (hdr c)) + of_nat (length bs) = (of_nat (28 + length fs + span (take (Suc k) fs)) :: u64)"
proof -
  let ?b = "buf c" and ?off = "28 + length fs + span (take k fs)"
  have s: "span (take (Suc k) fs) = span (take k fs) + length bs" using k by (simp add: take_Suc_conv_app_nth)
  have le: "span (take (Suc k) fs) \<le> span fs"
    using span_simps(3) [of "take (Suc k) fs" "drop (Suc k) fs"] by (simp only: append_take_drop_id)
  have len: "28 + length fs + span fs \<le> length ?b" "length ?b < 2 ^ 31" using r by (auto simp: reading_def)
  have off: "?off + length bs \<le> 28 + length fs + span fs" using s le by simp
  have h: "type_offset (hdr c) = 28" "parm_offset (hdr c) = of_nat ?off" "num_parms (hdr c) = of_nat (length fs)"
    "28 + length fs + span fs \<le> unat (packet_size (hdr c))" using r by (simp_all add: reading_def)
  have lt: "?off < 2 ^ 31" "length fs < 2 ^ 31" "k < 2 ^ 31" using off len k by simp_all
  have "read_at ?b (28 + k) 1 = take 1 (drop k (map (ptype_code \<circ> fst) fs))"
    using read_sub [of k 1 "length fs" ?b 28] k r by (simp add: reading_def)
  also have "\<dots> = [ptype_code ty]" using k by (simp add: drop_map take_map Cons_nth_drop_Suc [symmetric])
  finally show "rd ?b (unat (type_offset (hdr c)) + unat (of_nat k :: u32)) 1 = Some [ptype_code ty]"
    unfolding h(1) using len k small_word(1) [OF lt(3)] by (simp add: rd_def)
  have "read_at ?b (28 + length fs + span (take k fs)) (length bs) =
      take (length bs) (drop (span (take k fs)) (concat (map snd fs)))"
    using read_sub [of "span (take k fs)" "length bs" "span fs" ?b "28 + length fs"] r le s by (simp add: reading_def)
  also have "\<dots> = bs" using concat_nth [of k "map snd fs"] k by (simp add: span_def take_map)
  finally show "laid ?b (ucast (parm_offset (hdr c))) bs"
    using len off small_word(1,3,4) [OF lt(1)] unfolding h(2) laid_def by (simp add: rd_def del: of_nat_add)
  show "unat (parm_offset (hdr c)) + length bs \<le> unat (packet_size (hdr c))"
    unfolding h(2) small_word(1) [OF lt(1)] using off h(4) by (rule order_trans)
  show "\<not> num_parms (hdr c) \<le> of_nat k"
    unfolding h(3) using k small_word(1) [OF lt(2)] small_word(1) [OF lt(3)] by (simp add: word_le_nat_alt)
  show "ucast (parm_offset (hdr c)) + of_nat (length bs) = (of_nat (28 + length fs + span (take (Suc k) fs)) :: u64)"
    unfolding h(2) s small_word(4) [OF lt(1)] by simp
qed

lemma get_step:
  assumes r: "reading fs k c" and k: "k < length fs" "fs ! k = (ty, bs)" and u: "reads unload ty old n bs d"
  shows "\<exists>c'. get_data unload ty (of_nat k) old n c m = Some ((TSS_SUCCESS, d), c', m) \<and> reading fs (Suc k) c'"
proof -
  note g = get_reaches [OF r k]
  let ?off = "of_nat (28 + length fs + span (take (Suc k) fs)) :: u64"
  have un: "unload ty old n c m = Some (((TSS_SUCCESS, d), ?off), m)"
    using u [unfolded reads_def, rule_format, OF g(1,2)] by (simp only: g(5))
  let ?c' = "c\<lparr>hdr := (hdr c)\<lparr>parm_offset := ucast ?off,
      parm_size := parm_size (hdr c) - ucast (?off - ucast (parm_offset (hdr c)))\<rparr>\<rparr>"
  have "get_data unload ty (of_nat k) old n c m = Some ((TSS_SUCCESS, d), ?c', m)"
    using g(3,4) un unfolding get_data_def by (simp del: of_nat_add)
  moreover have "reading fs (Suc k) ?c'" using r by (simp add: reading_def del: of_nat_add)
  ultimately show ?thesis by blast
qed

lemma unpack_reads:
  assumes "list_all2 (\<lambda>(ty, n, old, d) (ty', bs). ty' = ty \<and> reads unload ty old n bs d) ps gs"
    and "reading (fs @ gs) (length fs) c"
  shows "\<exists>c'. unpack (get_data unload) (of_nat (length fs)) (map (\<lambda>(ty, n, old, d). (ty, n, old)) ps) c m
    = Some (map (\<lambda>(ty, n, old, d). d) ps, c', m) \<and> reading (fs @ gs) (length (fs @ gs)) c'"
  using assms
proof (induction ps gs arbitrary: fs c m rule: list_all2_induct)
  case (Cons p ps g gs)
  obtain ty n old d bs where p: "p = (ty, n, old, d)" "g = (ty, bs)" and r: "reads unload ty old n bs d"
    using Cons.hyps(1) by (auto split: prod.splits)
  obtain c1 where 1: "get_data unload ty (of_nat (length fs)) old n c m = Some ((TSS_SUCCESS, d), c1, m)"
    "reading (fs @ g # gs) (Suc (length fs)) c1"
    using get_step [OF Cons.prems _ _ r, of m] p by (auto simp: nth_append)
  have "reading ((fs @ [g]) @ gs) (length (fs @ [g])) c1" using 1(2) by simp
  from Cons.IH [OF this] obtain c2 where
    "unpack (get_data unload) (of_nat (length (fs @ [g]))) (map (\<lambda>(ty, n, old, d). (ty, n, old)) ps) c1 m
      = Some (map (\<lambda>(ty, n, old, d). d) ps, c2, m)" "reading ((fs @ [g]) @ gs) (length ((fs @ [g]) @ gs)) c2" by blast
  then show ?case using 1(1) by (auto simp: p(1) add.commute)
qed simp

text \<open>What was built arrives.\<close>

lemma building_length:
  assumes "building n fs c"
  shows "length (packet_bytes c) = 28 + n + span fs"
  using assms small_word(1) [of "28 + n + span fs"] by (simp add: packet_bytes_def building_def)

lemma building_arrives:
  assumes b: "building n fs c" "length fs = n" and len: "length (packet_bytes c @ rest) < 2 ^ 31"
  shows "decode_header (packet_bytes c @ rest) = Some (hdr c)" "reading fs 0 \<lparr>buf = packet_bytes c @ rest, hdr = hdr c\<rparr>"
proof -
  let ?p = "28 + n + span fs"
  have ps: "unat (packet_size (hdr c)) = ?p" "?p \<le> length (buf c)"
    using b small_word(1) [of ?p] by (auto simp: building_def)
  have p: "packet_bytes c @ rest = concat (map be32 (header_words (hdr c))) @ (drop 28 (take ?p (buf c)) @ rest)"
    by (simp add: packet_bytes_def ps)
  show "decode_header (packet_bytes c @ rest) = Some (hdr c)" using decode_header_words [OF p len] .
  have l: "length (packet_bytes c @ rest) = ?p + length rest" using ps by (simp add: packet_bytes_def)
  have same: "read_at (packet_bytes c @ rest) q k = read_at (buf c) q k" if "28 \<le> q" "q + k \<le> ?p" for q k
    using that ps unfolding p by (auto simp: read_at_def drop_take min_def)
  show "reading fs 0 \<lparr>buf = packet_bytes c @ rest, hdr = hdr c\<rparr>"
    using b l len ps(1) same [of 28 n] same [of "28 + n" "span fs"] by (simp add: reading_def building_def)
qed

text \<open>The same types, with other ends of the parameters.\<close>

lemma reading_regroup:
  assumes "reading fs 0 c" "map fst gs = map fst fs" "concat (map snd fs) = concat (map snd gs) @ rest"
  shows "reading gs 0 c"
proof -
  have n: "length gs = length fs" using assms(2) by (metis length_map)
  have s: "span fs = span gs + length rest" using assms(3) by (simp add: span_def)
  have "read_at (buf c) (28 + length fs) (span gs) = take (span gs) (read_at (buf c) (28 + length fs) (span fs))"
    using read_sub [of 0 "span gs" "span fs"] s by simp
  also have "\<dots> = concat (map snd gs)" using assms(1,3) by (simp add: reading_def span_def)
  finally have "read_at (buf c) (28 + length fs) (span gs) = concat (map snd gs)" .
  moreover have "map (ptype_code \<circ> fst) gs = map (ptype_code \<circ> fst) fs" using assms(2) by (metis map_map)
  ultimately show ?thesis using assms(1) n s by (simp add: reading_def)
qed

lemma initData_u: "hdr_u (hdr (initData n c)) = 0"
  by (simp add: initData_def Let_def)

text \<open>A whole packet.\<close>

lemma packed:
  assumes "list_all2 (\<lambda>(ty, n, d) (ty', bs). ty' = ty \<and> writes load ty d n bs) ps gs" "ps \<noteq> []"
    "28 + length ps + span gs < 2 ^ 31" "28 + length ps \<le> length (buf c)" "length (buf c) < 2 ^ 31" "\<forall>j. m_ok m j"
  shows "\<exists>c' m'. pack (set_data err load) 0 ps (initData (of_nat (length ps)) c) m = Some (c', m')
    \<and> hdr_u (hdr c') = 0 \<and> length (packet_bytes c') = 28 + length ps + span gs
    \<and> (\<forall>rest. length (packet_bytes c' @ rest) < 2 ^ 31 \<longrightarrow>
      decode_header (packet_bytes c' @ rest) = Some (hdr c') \<and> reading gs 0 \<lparr>buf = packet_bytes c' @ rest, hdr = hdr c'\<rparr>)"
proof -
  have l: "length ps = length gs" using assms(1) by (rule list_all2_lengthD)
  have "building (length ps) [] (initData (of_nat (length ps)) c)"
    by (rule initData_building) (use assms in auto)
  then have "\<exists>c' m'. pack (set_data err load) (of_nat (length ([] :: (ptype \<times> u8 list) list))) ps (initData (of_nat (length ps)) c) m
      = Some (c', m') \<and> building (length ps) ([] @ gs) c' \<and> hdr_u (hdr c') = hdr_u (hdr (initData (of_nat (length ps)) c))
      \<and> (\<exists>j. m' = m\<lparr>m_count := j\<rparr>)"
    by (rule pack_building [OF assms(1)]) (use assms in auto)
  then obtain c' m' where p: "pack (set_data err load) 0 ps (initData (of_nat (length ps)) c) m = Some (c', m')"
    "building (length ps) gs c'" "hdr_u (hdr c') = 0" using initData_u by auto
  then show ?thesis using building_arrives [OF p(2)] building_length [OF p(2)] l by auto
qed

section \<open>A request arrives\<close>

text \<open>A whole packet is received, whatever comes after it.\<close>

lemma socket_whole:
  assumes "length p = n" "off + n \<le> length (buf (sv_comm st))"
  shows "recv_from_socket off n (p @ rest) st =
    Some (Some (rest, st\<lparr>sv_comm := (sv_comm st)\<lparr>buf := write_at (buf (sv_comm st)) off p\<rparr>\<rparr>))"
  using assms by (simp add: recv_from_socket_def wr_def)

lemma recv_packet_whole:
  assumes p: "28 \<le> length p" "length p < 2 ^ 31" "take 4 p = be32 (of_nat (length p))"
    and b: "28 \<le> length (buf (sv_comm st))" and ok: "\<And>j. m_ok (mem st) j"
  shows "\<exists>j. recv_packet (p @ rest) st = Some (Some (rest, set_mem ((mem st)\<lparr>m_count := j\<rparr>)
     (st\<lparr>sv_comm := (sv_comm st)\<lparr>buf := p @ drop (length p) (buf (sv_comm st))\<rparr>\<rparr>)))"
proof -
  let ?b = "buf (sv_comm st)" and ?n = "length p"
  let ?b1 = "take 28 p @ drop 28 ?b"
  let ?st1 = "st\<lparr>sv_comm := (sv_comm st)\<lparr>buf := ?b1\<rparr>\<rparr>"
  have "recv_from_socket 0 28 (take 28 p @ (drop 28 p @ rest)) st = Some (Some (drop 28 p @ rest, ?st1))"
    using socket_whole [of "take 28 p" 28 0 st] p(1) b by (simp add: write_at_def)
  then have 1: "recv_from_socket 0 28 (p @ rest) st = Some (Some (drop 28 p @ rest, ?st1))"
    by (simp only: append_assoc [symmetric] append_take_drop_id)
  have "take 4 ?b1 = be32 (of_nat ?n)" using p b by simp
  then have u: "UnloadBlob_UINT32 0 ?b1 = Some (of_nat ?n, 4)"
    using p(1) b by (simp add: UnloadBlob_UINT32_def rd_def read_at_def)
  have n: "unat (of_nat ?n :: u32) = ?n" "sint (of_nat ?n :: u32) = int ?n" using small_word [OF p(2)] by simp_all
  show ?thesis
  proof (cases "length ?b < ?n")
    case False
    then have "recv_from_socket 28 (?n - 28) (drop 28 p @ rest) ((set_mem (mem ?st1) ?st1)\<lparr>sv_comm := sv_comm ?st1\<rparr>)
        = Some (Some (rest, set_mem (mem st) (st\<lparr>sv_comm := (sv_comm st)\<lparr>buf := p @ drop ?n ?b\<rparr>\<rparr>)))"
      using p(1) b by (subst socket_whole) (auto simp: write_at_def set_mem_def)
    then show ?thesis using 1 u n p(1) False by (intro exI [of _ "m_count (mem st)"]) (simp add: recv_packet_def Let_def)
  next
    case True
    let ?m = "(mem st)\<lparr>m_count := Suc (m_count (mem st))\<rparr>" and ?b2 = "?b1 @ replicate (?n - length ?b) 0"
    have r: "realloc ?n (sv_comm ?st1) (mem ?st1) = (Some ((sv_comm st)\<lparr>buf := ?b2\<rparr>), ?m)"
      using True ok b p(1) by (simp add: realloc_def)
    have "recv_from_socket 28 (?n - 28) (drop 28 p @ rest) ((set_mem ?m ?st1)\<lparr>sv_comm := (sv_comm st)\<lparr>buf := ?b2\<rparr>\<rparr>)
        = Some (Some (rest, set_mem ?m (st\<lparr>sv_comm := (sv_comm st)\<lparr>buf := p @ drop ?n ?b\<rparr>\<rparr>)))"
      using p(1) b True by (subst socket_whole) (auto simp: write_at_def set_mem_def)
    then show ?thesis using 1 u n p(1) True r b
      by (intro exI [of _ "Suc (m_count (mem st))"]) (simp add: recv_packet_def Let_def)
  qed
qed

lemma comm_eq: "c\<lparr>buf := b, hdr := h\<rparr> = \<lparr>buf = b, hdr = h\<rparr>" for c :: tcsd_comm_data
  by simp

lemma serve_whole:
  assumes p: "28 \<le> length p" "length p < 2 ^ 31" "take 4 p = be32 (of_nat (length p))"
    and b: "28 \<le> length (buf (sv_comm st))" and ok: "\<And>j. m_ok (mem st) j"
    and o: "r_others r (d_tcs (sv_d st), d_am (sv_d st)) = Some (tcs, am)"
    and h: "decode_header (p @ drop (length p) (buf (sv_comm st))) = Some h"
  shows "\<exists>j. serve_request r (p @ rest) st = do {
     (result, st) \<leftarrow> getTCSDPacket r (st\<lparr>sv_comm := \<lparr>buf = p @ drop (length p) (buf (sv_comm st)), hdr = h\<rparr>,
        sv_d := (sv_d st)\<lparr>d_tcs := tcs, d_am := am, d_mem := (mem st)\<lparr>m_count := j\<rparr>\<rparr>\<rparr>);
     st \<leftarrow> (if result \<noteq> 0 then answer_failure result st else Some st);
     out \<leftarrow> send_packet st;
     Some (Some (out, r_sent r \<and> \<not> r_shutdown r, rest), st) }"
proof -
  let ?s = "st\<lparr>sv_d := (sv_d st)\<lparr>d_tcs := tcs, d_am := am\<rparr>\<rparr>"
  have "28 \<le> length (buf (sv_comm ?s))" "\<And>j. m_ok (mem ?s) j" using b ok by simp_all
  from recv_packet_whole [OF p this, of rest] obtain j where
    "recv_packet (p @ rest) ?s = Some (Some (rest, set_mem ((mem ?s)\<lparr>m_count := j\<rparr>)
      (?s\<lparr>sv_comm := (sv_comm ?s)\<lparr>buf := p @ drop (length p) (buf (sv_comm ?s))\<rparr>\<rparr>)))" by blast
  then show ?thesis using o h
    by (intro exI [of _ j], cases st) (simp add: serve_request_def Let_def set_mem_def comm_eq)
qed

text \<open>A header without parameters is a whole request.\<close>

lemma short_request:
  fixes ord :: u32
  defines "p \<equiv> be32 28 @ be32 ord @ replicate 20 0"
  shows "length p = 28" "take 4 p = be32 (of_nat (length p))"
    "length rest < 2 ^ 30 \<Longrightarrow> decode_header (p @ rest) = Some \<lparr>packet_size = 28, hdr_u = ord, num_parms = 0, type_size = 0,
       type_offset = 0, parm_size = 0, parm_offset = 0\<rparr>"
proof -
  show 1: "length p = 28" by (simp add: p_def)
  show "take 4 p = be32 (of_nat (length p))" unfolding 1 by (simp add: p_def)
  show "decode_header (p @ rest) = Some \<lparr>packet_size = 28, hdr_u = ord, num_parms = 0, type_size = 0, type_offset = 0,
      parm_size = 0, parm_offset = 0\<rparr>" if "length rest < 2 ^ 30"
  proof (rule decode_header_words [of _ _ rest])
    have z: "be32 0 = replicate 4 0" by (simp add: be32_def numeral_eq_Suc)
    show "p @ rest = concat (map be32 (header_words \<lparr>packet_size = 28, hdr_u = ord, num_parms = 0, type_size = 0,
        type_offset = 0, parm_size = 0, parm_offset = 0\<rparr>)) @ rest"
      by (simp add: p_def header_words_def z flip: replicate_add)
    show "length (p @ rest) < 2 ^ 31" using that 1 by simp
  qed
qed

end
