(* ===== verification/Rpc_Properties.thy ===== *)
theory Rpc_Properties
  imports Rpc_Transfer Tcsi_Properties "HOL-Library.Sublist"
begin

text \<open>
  The properties of the remote procedure calls: what crosses the connection unchanged and what does not, who is
  admitted, and the requests that can never be answered.
\<close>

unbundle bit_operations_syntax

section \<open>Parameters\<close>

lemma wire_pairs:
  assumes "list_all2 (\<lambda>(ty, n, d) bs. wire ty n d = Some bs) ps bss"
    and w: "\<And>ty n d bs. wire ty n d = Some bs \<Longrightarrow> writes load ty d n bs"
  shows "list_all2 (\<lambda>(ty, n, d) (ty', bs). ty' = ty \<and> writes load ty d n bs) ps (zip (map fst ps) bss)"
  using assms(1) by (induction rule: list_all2_induct) (auto intro: w)

lemma wire_places:
  assumes "list_all2 (\<lambda>(ty, n, d) bs. wire ty n d = Some bs) ps bss"
    and "list_all2 (\<lambda>(ty, n, d) old. place_for d old) ps olds"
    and w: "\<And>ty n d bs old. wire ty n d = Some bs \<Longrightarrow> place_for d old \<Longrightarrow> reads unload ty old n bs d"
  shows "list_all2 (\<lambda>(ty, n, old, d) (ty', bs). ty' = ty \<and> reads unload ty old n bs d)
     (map2 (\<lambda>(ty, n, d) old. (ty, n, old, d)) ps olds) (zip (map fst ps) bss)"
  using assms(1,2)
proof (induction ps bss arbitrary: olds rule: list_all2_induct)
  case (Cons p ps bs bss)
  then show ?case by (cases olds) (auto intro: w)
qed simp

lemma span_zip: "length xs = length bss \<Longrightarrow> span (zip xs bss) = length (concat bss)"
  by (simp add: span_def)

lemma parameters_arrive:
  assumes ps: "list_all2 (\<lambda>(ty, n, d) bs. wire ty n d = Some bs) ps bss"
    and olds: "list_all2 (\<lambda>(ty, n, d) old. place_for d old) ps olds" and ne: "ps \<noteq> []"
    and size: "28 + length ps + length (concat bss) < 2 ^ 31" "28 + length ps \<le> length (buf c)" "length (buf c) < 2 ^ 31"
    and ok: "\<forall>j. m_ok m j"
    and w: "\<And>ty n d bs. wire ty n d = Some bs \<Longrightarrow> writes load ty d n bs"
    and r: "\<And>ty n d bs old. wire ty n d = Some bs \<Longrightarrow> place_for d old \<Longrightarrow> reads unload ty old n bs d"
  shows "\<exists>c' m'. pack (set_data err load) 0 ps (initData (of_nat (length ps)) c) m = Some (c', m')
    \<and> length (packet_bytes c') = 28 + length ps + length (concat bss) \<and> (\<forall>rest m2. length (packet_bytes c' @ rest) < 2 ^ 31 \<longrightarrow>
      (\<exists>h c2. decode_header (packet_bytes c' @ rest) = Some h
        \<and> unpack (get_data unload) 0 (map2 (\<lambda>(ty, n, d) old. (ty, n, old)) ps olds) \<lparr>buf = packet_bytes c' @ rest, hdr = h\<rparr> m2
          = Some (map (snd \<circ> snd) ps, c2, m2)))"
proof -
  let ?gs = "zip (map fst ps) bss" and ?qs = "map2 (\<lambda>(ty, n, d) old. (ty, n, old, d)) ps olds"
  have l: "length ps = length bss" "length ps = length olds" using ps olds by (auto dest: list_all2_lengthD)
  have "28 + length ps + span ?gs < 2 ^ 31" using size(1) l by (simp add: span_zip)
  from packed [OF wire_pairs [OF ps w] ne this size(2,3) ok, of err] obtain c' m' where
    p: "pack (set_data err load) 0 ps (initData (of_nat (length ps)) c) m = Some (c', m')"
    "length (packet_bytes c') = 28 + length ps + span ?gs"
    "\<And>rest. length (packet_bytes c' @ rest) < 2 ^ 31 \<Longrightarrow>
      decode_header (packet_bytes c' @ rest) = Some (hdr c') \<and> reading ?gs 0 \<lparr>buf = packet_bytes c' @ rest, hdr = hdr c'\<rparr>"
    by blast
  have old: "map (\<lambda>(ty, n, old, d). (ty, n, old)) ?qs = map2 (\<lambda>(ty, n, d) old. (ty, n, old)) ps olds"
    by (auto split: prod.splits)
  have new: "map (\<lambda>(ty, n, old, d). d) ?qs = map (snd \<circ> snd) ps"
    using l(2) by (induction ps olds rule: list_induct2) auto
  show ?thesis
  proof (rule exI [of _ c'], rule exI [of _ m'], intro conjI allI impI)
    show "pack (set_data err load) 0 ps (initData (of_nat (length ps)) c) m = Some (c', m')" by (rule p(1))
    show "length (packet_bytes c') = 28 + length ps + length (concat bss)" using p(2) l by (simp add: span_zip)
    fix rest m2 assume len: "length (packet_bytes c' @ rest) < 2 ^ 31"
    note a = p(3) [OF len]
    show "\<exists>h c2. decode_header (packet_bytes c' @ rest) = Some h
        \<and> unpack (get_data unload) 0 (map2 (\<lambda>(ty, n, d) old. (ty, n, old)) ps olds) \<lparr>buf = packet_bytes c' @ rest, hdr = h\<rparr> m2
          = Some (map (snd \<circ> snd) ps, c2, m2)"
      using unpack_reads [OF wire_places [OF ps olds r], of "[]", unfolded old new] a by auto
  qed
qed



section \<open>Authorizations\<close>

text \<open>An authorization in an answer: the client takes 36 of the 41 bytes that the daemon wrote, so the next
  parameter is read out of the middle of its last field.\<close>

lemma daemon_auth:
  assumes "length (NonceEven a) = 32" "length (HMAC a) = 32"
  shows "writes loadData PT_AUTH (DAuth a) n (take 20 (NonceEven a) @ be8 (fContinueAuthSession a) @ take 20 (HMAC a))"
proof -
  have l: "LoadBlob 20 (Buf d) = put (take 20 d)" if "length d = 32" for d
    using that by (intro ext) (auto simp: put.simps poke_def rd_def read_at_def)
  show ?thesis using assms
    by (auto simp: writes_def loadData_def LoadBlob_Auth_Special_def l daemon_put put_simps bind_result simp del: LoadBlob.simps)
qed

lemma be32_of_bytes:
  assumes "length b = 4"
  obtains w where "b = be32 w"
proof -
  let ?w = "push_bit 24 (ucast (b ! 0)) OR push_bit 16 (ucast (b ! 1)) OR push_bit 8 (ucast (b ! 2)) OR ucast (b ! 3) :: u32"
  have "be32 ?w = [b ! 0, b ! 1, b ! 2, b ! 3]"
    by (simp add: be32_def; intro conjI bit_word_eqI; auto simp: bit_simps dest: bit_imp_le_length)
  then show ?thesis using list4 [OF assms] that by metis
qed

lemma client_auth:
  assumes "length bs = 36" "length (ts_outHMAC s) = 32"
  shows "reads client_unload PT_AUTH (DSession s other) n bs
    (DSession (s\<lparr>ts_authHandle := Decode_UINT32 (take 4 bs), ts_outHMAC := drop 4 bs\<rparr>) other)"
  unfolding reads_def
proof (intro allI impI)
  fix c :: tcsd_comm_data and m
  obtain w where w: "take 4 bs = be32 w" using be32_of_bytes [of "take 4 bs"] assms(1) by auto
  have bs: "bs = be32 w @ drop 4 bs" by (simp flip: w)
  assume "laid (buf c) (ucast (parm_offset (hdr c))) bs"
  then have l: "lies (buf c) (reader (ucast (parm_offset (hdr c))) m) (be32 w @ drop 4 bs)" by (intro laid_lies) (simp flip: bs)
  then show "client_unload PT_AUTH (DSession s other) n c m =
      Some (((TSS_SUCCESS, DSession (s\<lparr>ts_authHandle := Decode_UINT32 (take 4 bs), ts_outHMAC := drop 4 bs\<rparr>) other),
        ucast (parm_offset (hdr c)) + of_nat (length bs)), m)"
    using assms by (auto simp: client_unload_def tspi_unload_parm_def UnloadBlob_TCM_AUTH_def get_simps w)
qed

text \<open>C32: The authorization that the daemon puts into a response has 41 bytes, of which the client reads 36: it
  takes the handle and the code from the wrong bytes, and the parameter behind them from the middle of the code.\<close>

theorem auth_reply_misread:
  assumes a: "length (NonceEven a) = 32" "length (HMAC a) = 32" "length (ts_outHMAC s) = 32"
    and size: "30 \<le> length (buf c)" "length (buf c) < 2 ^ 31" "\<forall>j. m_ok m j"
  shows "\<exists>c' m'. pack setData 0 [(PT_AUTH, 0, DAuth a), (PT_UINT32, 0, D32 v)] (initData 2 c) m = Some (c', m')
    \<and> length (packet_bytes c') = 75 \<and> (\<forall>rest m2. length (packet_bytes c' @ rest) < 2 ^ 31 \<longrightarrow> (\<exists>c2.
      unpack tspi_getData 0 [(PT_AUTH, 0, DSession s other), (PT_UINT32, 0, D32 w)]
        \<lparr>buf = packet_bytes c' @ rest, hdr = hdr c'\<rparr> m2
      = Some ([DSession (s\<lparr>ts_authHandle := Decode_UINT32 (take 4 (NonceEven a)),
            ts_outHMAC := drop 4 (take 20 (NonceEven a)) @ fContinueAuthSession a # take 15 (HMAC a)\<rparr>) other,
          D32 (Decode_UINT32 (take 4 (drop 15 (HMAC a))))], c2, m2)))"
proof -
  let ?all = "take 20 (NonceEven a) @ be8 (fContinueAuthSession a) @ take 20 (HMAC a)"
  let ?one = "take 36 ?all"
  let ?ps = "[(PT_AUTH, 0, DAuth a), (PT_UINT32, 0 :: u32, D32 v)]"
  obtain x where x: "take 4 (drop 15 (HMAC a)) = be32 x" using be32_of_bytes [of "take 4 (drop 15 (HMAC a))"] a(2) by auto
  have h: "take 20 (HMAC a) = take 15 (HMAC a) @ be32 x @ [HMAC a ! 19]"
  proof -
    have "take 20 (HMAC a) = take 15 (HMAC a) @ take 4 (drop 15 (HMAC a)) @ take 1 (drop 19 (HMAC a))"
      using take_add [of 15 5 "HMAC a"] take_add [of 4 1 "drop 15 (HMAC a)"] by simp
    also have "take 1 (drop 19 (HMAC a)) = [HMAC a ! 19]" using a(2) by (simp add: take_Suc_conv_app_nth flip: Cons_nth_drop_Suc)
    finally show ?thesis by (simp only: x)
  qed
  have one: "?one = take 20 (NonceEven a) @ be8 (fContinueAuthSession a) @ take 15 (HMAC a)" using a by (simp add: be8_def)
  have len36: "length ?one = 36" using a by (simp add: be8_def)
  have l: "list_all2 (\<lambda>(ty, n, d) (ty', bs). ty' = ty \<and> writes loadData ty d n bs) ?ps [(PT_AUTH, ?all), (PT_UINT32, be32 v)]"
    using daemon_auth [OF a(1,2)] daemon_writes [of PT_UINT32 0 "D32 v"] by (simp add: wire_def)
  obtain c' m' where p: "pack setData 0 ?ps (initData 2 c) m = Some (c', m')" "length (packet_bytes c') = 75"
    "\<And>rest. length (packet_bytes c' @ rest) < 2 ^ 31 \<Longrightarrow>
       reading [(PT_AUTH, ?all), (PT_UINT32, be32 v)] 0 \<lparr>buf = packet_bytes c' @ rest, hdr = hdr c'\<rparr>"
    using packed [OF l, of c m "TCSERR TSS_E_INTERNAL_ERROR"] a size by (auto simp: setData_def)
  let ?qs = "[(PT_AUTH, 0, DSession s other, DSession (s\<lparr>ts_authHandle := Decode_UINT32 (take 4 ?one), ts_outHMAC := drop 4 ?one\<rparr>) other),
     (PT_UINT32, 0, D32 w, D32 x)]"
  have r: "list_all2 (\<lambda>(ty, n, old, d) (ty', bs). ty' = ty \<and> reads client_unload ty old n bs d) ?qs
      [(PT_AUTH, ?one), (PT_UINT32, be32 x)]"
    using client_auth [OF len36 a(3), of other 0] client_reads [of PT_UINT32 0 "D32 x"]
    by (simp add: wire_def place_for_def as_defs del: take_append)
  show ?thesis
  proof (rule exI [of _ c'], rule exI [of _ m'], intro conjI allI impI)
    show "pack setData 0 ?ps (initData 2 c) m = Some (c', m')" by (rule p(1))
    show "length (packet_bytes c') = 75" by (rule p(2))
    fix rest m2 assume "length (packet_bytes c' @ rest) < 2 ^ 31"
    from p(3) [OF this] have "reading [(PT_AUTH, ?one), (PT_UINT32, be32 x)] 0 \<lparr>buf = packet_bytes c' @ rest, hdr = hdr c'\<rparr>"
      by (rule reading_regroup [of _ _ _ "HMAC a ! 19 # be32 v"]) (simp_all add: one h a)
    then have "reading ([] @ [(PT_AUTH, ?one), (PT_UINT32, be32 x)]) (length ([] :: (ptype \<times> u8 list) list))
        \<lparr>buf = packet_bytes c' @ rest, hdr = hdr c'\<rparr>" by simp
    from unpack_reads [OF r this, of m2] show "\<exists>c2. unpack tspi_getData 0 [(PT_AUTH, 0, DSession s other), (PT_UINT32, 0, D32 w)]
        \<lparr>buf = packet_bytes c' @ rest, hdr = hdr c'\<rparr> m2
      = Some ([DSession (s\<lparr>ts_authHandle := Decode_UINT32 (take 4 (NonceEven a)),
            ts_outHMAC := drop 4 (take 20 (NonceEven a)) @ fContinueAuthSession a # take 15 (HMAC a)\<rparr>) other,
          D32 (Decode_UINT32 (take 4 (drop 15 (HMAC a))))], c2, m2)"
      using a by (auto simp: get_data_both one x be8_def)
  qed
qed

section \<open>Requests with an authorization\<close>

text \<open>A handler with a \<open>TPM_AUTH\<close> for the second parameter.\<close>

definition owner_handlers :: "'t tcsd_env \<Rightarrow> 't wrap list" where
  "owner_handlers env = [tcs_wrap_OwnerClear env, tcs_wrap_GetCapabilityOwner env, tcs_wrap_KillMaintenanceFeature env,
     tcs_wrap_OwnerReadPubek env, tcs_wrap_DisablePubekRead env, tcs_wrap_DisableOwnerClear env,
     tcs_wrap_SetTempDeactivated2 env, tcs_wrap_ResetLockValue env]"

lemma auth_overrun:
  assumes r: "reading gs k (sv_comm st)" "k < length gs" "gs ! k = (PT_AUTH, bs)" and "length bs = 36"
  shows "recv_auth ps (of_nat k) l f st = None"
  using get_reaches [OF r] assms(4)
  by (simp add: recv_auth_def get_parm_def get_data_both get_data_def unload_parm_def checked_get_passes Let_def)

text \<open>A request with the right first parameter.\<close>

lemma first_word:
  assumes "reading ((PT_UINT32, be32 x) # gs) 0 (sv_comm st)"
  shows "\<exists>c. recv_32 ps 0 f st = f x (set_mem (mem st) (st\<lparr>sv_comm := c\<rparr>)) \<and> reading ((PT_UINT32, be32 x) # gs) 1 c"
proof -
  have "reads unload_parm PT_UINT32 (D32 0) 0 (be32 x) (D32 x)"
    by (rule daemon_reads) (simp_all add: wire_def place_for_def as_defs)
  from get_step [OF assms _ _ this, of "mem st"] obtain c where
    "getData PT_UINT32 0 (D32 0) 0 (sv_comm st) (mem st) = Some ((0, D32 x), c, mem st)" "reading ((PT_UINT32, be32 x) # gs) 1 c"
    by (auto simp: get_data_both)
  then show ?thesis by (auto simp: recv_32_def recv_def get_parm_def as_defs)
qed

lemma owner_request_overrun:
  assumes w: "w \<in> set (owner_handlers env)" and r: "reading [(PT_UINT32, be32 x), (PT_AUTH, bs)] 0 (sv_comm st)" and "length bs = 36"
  shows "w st = None"
proof -
  have a: "recv_auth ps 1 l f st' = None" if "reading [(PT_UINT32, be32 x), (PT_AUTH, bs)] 1 (sv_comm st')" for ps l f st'
    using auth_overrun [OF that _ _ assms(3)] by simp
  have q: "recv_32 ps 0 (\<lambda>h. recv_auth qs 1 l (f h)) st' = None"
    if r': "reading [(PT_UINT32, be32 x), (PT_AUTH, bs)] 0 (sv_comm st')" for ps qs l f st'
  proof -
    obtain c where "recv_32 ps 0 (\<lambda>h. recv_auth qs 1 l (f h)) st' = recv_auth qs 1 l (f x) (set_mem (mem st') (st'\<lparr>sv_comm := c\<rparr>))"
      "reading [(PT_UINT32, be32 x), (PT_AUTH, bs)] 1 c" using first_word [OF r'] by blast
    then show ?thesis by (simp add: a)
  qed
  show ?thesis using w r
    by (auto simp: q owner_handlers_def tcs_wrap_OwnerClear_def tcs_wrap_GetCapabilityOwner_def tcs_wrap_KillMaintenanceFeature_def
        tcs_wrap_OwnerReadPubek_def tcs_wrap_DisablePubekRead_def tcs_wrap_DisableOwnerClear_def
        tcs_wrap_SetTempDeactivated2_def tcs_wrap_ResetLockValue_def clear_auth_def)
qed

text \<open>C31: The handler of an owner command reads the authorization that a client sends into a local structure of
  another type, beyond its end: no such request is ever served.\<close>

theorem owner_commands_overrun:
  assumes w: "w \<in> set (owner_handlers env)" and hmac: "length (ts_HMAC s) = 32"
    and size: "30 \<le> length (buf c)" "length (buf c) < 2 ^ 31" "\<forall>j. m_ok m j"
  shows "\<exists>c' m'. pack tspi_setData 0 [(PT_UINT32, 0, D32 h), (PT_AUTH, 0, DSession s other)] (initData 2 c) m = Some (c', m')
    \<and> length (packet_bytes c') = 70 \<and> (\<forall>rest. length (packet_bytes c' @ rest) < 2 ^ 31 \<longrightarrow>
      w (st\<lparr>sv_comm := \<lparr>buf = packet_bytes c' @ rest, hdr = hdr c'\<rparr>\<rparr>) = None)"
proof -
  let ?ps = "[(PT_UINT32, 0, D32 h), (PT_AUTH, 0, DSession s other)]" and ?bs = "be32 (ts_authHandle s) @ ts_HMAC s"
  have "writes tspi_loadData PT_AUTH (DSession s other) 0 ?bs"
    using hmac by (auto simp: writes_def tspi_loadData_def LoadBlob_TCM_AUTH_def load_arrays put_simps bind_result simp del: Trspi_LoadBlob.simps)
  then have l: "list_all2 (\<lambda>(ty, n, d) (ty', bs). ty' = ty \<and> writes tspi_loadData ty d n bs) ?ps
      [(PT_UINT32, be32 h), (PT_AUTH, ?bs)]"
    using client_writes [of PT_UINT32 0 "D32 h"] by (simp add: wire_def)
  obtain c' m' where p: "pack tspi_setData 0 ?ps (initData 2 c) m = Some (c', m')" "length (packet_bytes c') = 70"
    "\<And>rest. length (packet_bytes c' @ rest) < 2 ^ 31 \<Longrightarrow>
       reading [(PT_UINT32, be32 h), (PT_AUTH, ?bs)] 0 \<lparr>buf = packet_bytes c' @ rest, hdr = hdr c'\<rparr>"
    using packed [OF l, of c m "TSPERR TSS_E_INTERNAL_ERROR"] size hmac by (auto simp: tspi_setData_def)
  have "w (st\<lparr>sv_comm := \<lparr>buf = packet_bytes c' @ rest, hdr = hdr c'\<rparr>\<rparr>) = None"
    if "length (packet_bytes c' @ rest) < 2 ^ 31" for rest
    by (rule owner_request_overrun [OF w, of h ?bs]) (use p(3) [OF that] hmac in simp_all)
  then show ?thesis using p(1,2) by blast
qed

section \<open>Admission\<close>

lemma prefix_take: "take (min (length xs) (length ys)) xs = take (min (length xs) (length ys)) ys \<longleftrightarrow> prefix xs ys \<or> prefix ys xs"
proof (cases "length xs \<le> length ys")
  case True
  then have "take (min (length xs) (length ys)) xs = take (min (length xs) (length ys)) ys \<longleftrightarrow> prefix xs ys"
    by (metis append_take_drop_id min.absorb1 prefix_def append_eq_conv_conj take_all order_refl)
  then show ?thesis using True by (metis append_eq_conv_conj prefix_def prefix_length_le prefix_order.antisym take_all)
next
  case False
  then have "take (min (length xs) (length ys)) xs = take (min (length xs) (length ys)) ys \<longleftrightarrow> prefix ys xs"
    by (metis append_take_drop_id linear min.absorb2 prefix_def append_eq_conv_conj take_all order_refl)
  then show ?thesis using False prefix_length_le by blast
qed

lemma listed_op_list: "0 \<notin> set ops \<Longrightarrow> listed_op (ops @ 0 # rest) ord = Some (ord \<in> set ops)"
  by (induction ops) auto



text \<open>Ordinals from 125 on are refused, but ordinal 124 passes the check and is behind the end of the table of
  handlers.\<close>

theorem ordinals_behind_table:
  assumes "rd (r_remote_ops r) 0 1 = Some [0]"
  shows "(125 \<le> hdr_u (hdr (sv_comm st)) \<longrightarrow> dispatchCommand r st = Some (TCSERR TSS_E_FAIL, st))
    \<and> (hdr_u (hdr (sv_comm st)) = 124 \<longrightarrow> dispatchCommand r st = None)"
  using assms by (auto simp: dispatchCommand_def Let_def tcs_func_table_def)

section \<open>Counters\<close>

text \<open>A request to read a counter is never answered with success, since the daemon cannot write a counter value
  into a packet.\<close>

theorem counter_never_answered:
  assumes "tcs_wrap_ReadCounter env st = Some (r, st')"
  shows "r \<noteq> 0 \<or> hdr_u (hdr (sv_comm st')) \<noteq> 0"
  using assms
  by (auto simp: tcs_wrap_ReadCounter_def recv_32_def recv_def leave_def run_def respond_def setData_def set_data_def loadData_def
      just_def finish_def Let_def split: bind_splits if_splits)

section \<open>A connection\<close>


section \<open>Examples\<close>

definition ex_rpc :: "unit rpc_env" where
  "ex_rpc = \<lparr>r_env = ex_env calm, r_minor = 2, r_random = (0, 0), r_uuid = zero_UUID, r_other = (\<lambda>_. tcs_wrap_Error),
     r_remote_ops = [0], r_localhost = None, r_sent = True, r_shutdown = False, r_others = Some\<rparr>"

definition ex_served :: "unit served" where
  "ex_served = \<lparr>sv_comm = \<lparr>buf = [], hdr = \<lparr>packet_size = 0, hdr_u = 0, num_parms = 0, type_size = 0, type_offset = 0,
       parm_size = 0, parm_offset = 0\<rparr>\<rparr>,
     sv_context = NULL_HANDLE, sv_host = ''h'', sv_stack = replicate 41 0, sv_localname = Some ''localhost'',
     sv_d = ex_daemon [] calm_tddl\<rparr>"


definition ex_comm :: tcsd_comm_data where
  "ex_comm = \<lparr>buf = replicate 1024 0, hdr = \<lparr>packet_size = 0, hdr_u = 0, num_parms = 0, type_size = 0, type_offset = 0,
     parm_size = 0, parm_offset = 0\<rparr>\<rparr>"

lemma ex_comm_room: "28 + 2 \<le> length (buf ex_comm)" "length (buf ex_comm) < 2 ^ 31" "\<forall>j. m_ok ex_mem j"
  by (simp_all add: ex_comm_def ex_mem_def)



definition ex_reply_auth :: TPM_AUTH where
  "ex_reply_auth = \<lparr>AuthHandle = 7, NonceOdd = replicate 32 1, NonceEven = replicate 32 2, fContinueAuthSession = 1,
     HMAC = replicate 32 3\<rparr>"

definition ex_session :: TCM_AUTH_SESSION where
  "ex_session = \<lparr>ts_authHandle = 7, ts_HMAC = replicate 32 4, ts_outHMAC = replicate 32 5\<rparr>"

lemma auth_reply_misread_witness:
  "\<exists>c' m' c2. pack setData 0 [(PT_AUTH, 0, DAuth ex_reply_auth), (PT_UINT32, 0, D32 9)] (initData 2 ex_comm) ex_mem = Some (c', m')
    \<and> unpack tspi_getData 0 [(PT_AUTH, 0, DSession ex_session []), (PT_UINT32, 0, D32 0)] \<lparr>buf = packet_bytes c', hdr = hdr c'\<rparr> ex_mem
      = Some ([DSession \<lparr>ts_authHandle = Decode_UINT32 [2, 2, 2, 2], ts_HMAC = replicate 32 4,
          ts_outHMAC = replicate 16 2 @ 1 # replicate 15 3\<rparr> [], D32 (Decode_UINT32 [3, 3, 3, 3])], c2, ex_mem)"
proof -
  have 1: "length (NonceEven ex_reply_auth) = 32" "length (HMAC ex_reply_auth) = 32" "length (ts_outHMAC ex_session) = 32"
    by (simp_all add: ex_reply_auth_def ex_session_def)
  have 4: "replicate 4 x = [x, x, x, x]" for x :: u8 by (simp add: numeral_eq_Suc)
  obtain c' m' where c: "pack setData 0 [(PT_AUTH, 0, DAuth ex_reply_auth), (PT_UINT32, 0, D32 9)] (initData 2 ex_comm) ex_mem = Some (c', m')"
    "length (packet_bytes c') = 75"
    "\<And>rest m2. length (packet_bytes c' @ rest) < 2 ^ 31 \<Longrightarrow> \<exists>c2.
      unpack tspi_getData 0 [(PT_AUTH, 0, DSession ex_session []), (PT_UINT32, 0, D32 0)] \<lparr>buf = packet_bytes c' @ rest, hdr = hdr c'\<rparr> m2
      = Some ([DSession (ex_session\<lparr>ts_authHandle := Decode_UINT32 (take 4 (NonceEven ex_reply_auth)),
            ts_outHMAC := drop 4 (take 20 (NonceEven ex_reply_auth)) @ fContinueAuthSession ex_reply_auth # take 15 (HMAC ex_reply_auth)\<rparr>) [],
          D32 (Decode_UINT32 (take 4 (drop 15 (HMAC ex_reply_auth))))], c2, m2)"
    using auth_reply_misread [OF 1, of ex_comm ex_mem 9 "[]" 0] ex_comm_room by auto
  then show ?thesis using c(3) [of "[]" ex_mem] by (auto simp: ex_reply_auth_def ex_session_def 4)
qed

lemma owner_commands_overrun_witness:
  "\<exists>c' m'. pack tspi_setData 0 [(PT_UINT32, 0, D32 0xA0000000), (PT_AUTH, 0, DSession ex_session [])] (initData 2 ex_comm) ex_mem = Some (c', m')
    \<and> tcs_wrap_OwnerClear (ex_env calm) (ex_served\<lparr>sv_comm := \<lparr>buf = packet_bytes c', hdr = hdr c'\<rparr>\<rparr>) = None"
proof -
  have w: "tcs_wrap_OwnerClear (ex_env calm) \<in> set (owner_handlers (ex_env calm))" by (simp add: owner_handlers_def)
  have h: "length (ts_HMAC ex_session) = 32" by (simp add: ex_session_def)
  obtain c' m' where c: "pack tspi_setData 0 [(PT_UINT32, 0, D32 0xA0000000), (PT_AUTH, 0, DSession ex_session [])] (initData 2 ex_comm) ex_mem = Some (c', m')"
    "length (packet_bytes c') = 70" "\<And>rest. length (packet_bytes c' @ rest) < 2 ^ 31 \<Longrightarrow>
      tcs_wrap_OwnerClear (ex_env calm) (ex_served\<lparr>sv_comm := \<lparr>buf = packet_bytes c' @ rest, hdr = hdr c'\<rparr>\<rparr>) = None"
    using owner_commands_overrun [OF w h, of ex_comm ex_mem "0xA0000000" "[]" ex_served] ex_comm_room by auto
  then show ?thesis using c(3) [of "[]"] by auto
qed



lemma ordinals_behind_table_witness:
  "dispatchCommand ex_rpc (ex_served\<lparr>sv_comm := ex_comm\<lparr>hdr := (hdr ex_comm)\<lparr>hdr_u := 125\<rparr>\<rparr>\<rparr>)
     = Some (TCSERR TSS_E_FAIL, ex_served\<lparr>sv_comm := ex_comm\<lparr>hdr := (hdr ex_comm)\<lparr>hdr_u := 125\<rparr>\<rparr>\<rparr>)
   \<and> dispatchCommand ex_rpc (ex_served\<lparr>sv_comm := ex_comm\<lparr>hdr := (hdr ex_comm)\<lparr>hdr_u := 124\<rparr>\<rparr>\<rparr>) = None"
  using ordinals_behind_table [of ex_rpc "ex_served\<lparr>sv_comm := ex_comm\<lparr>hdr := (hdr ex_comm)\<lparr>hdr_u := 125\<rparr>\<rparr>\<rparr>"]
    ordinals_behind_table [of ex_rpc "ex_served\<lparr>sv_comm := ex_comm\<lparr>hdr := (hdr ex_comm)\<lparr>hdr_u := 124\<rparr>\<rparr>\<rparr>"]
  by (simp add: ex_rpc_def rd_def read_at_def)

lemma counter_never_answered_witness:
  "\<exists>r st'. tcs_wrap_ReadCounter (ex_env calm) (ex_served\<lparr>sv_comm := ex_comm\<rparr>) = Some (r, st') \<and> (r \<noteq> 0 \<or> hdr_u (hdr (sv_comm st')) \<noteq> 0)"
proof -
  obtain r st' where "tcs_wrap_ReadCounter (ex_env calm) (ex_served\<lparr>sv_comm := ex_comm\<rparr>) = Some (r, st')"
    by (simp add: tcs_wrap_ReadCounter_def recv_32_def recv_def get_parm_def getData_def ex_comm_def leave_def)
  then show ?thesis using counter_never_answered by blast
qed

end
