(* ===== verification/Rpc_Client.thy ===== *)
theory Rpc_Client
  imports Rpc_Transfer Rpc_Server
begin

text \<open>
  What the remote calls of the client library are made of (\<open>tspi/rpc/tcstp/rpc.c\<close>, \<open>tspi/rpc/hosttable.c\<close>):
  the table of connections, sending a packet and receiving the answer, and the statements of which the functions
  \<open>RPC_*_TP\<close> consist.

  The other side is a state \<open>'p\<close> with the functions of \<open>'p net\<close>: what becomes of an attempt to connect, and the
  bytes that arrive after bytes have been sent; nothing arrives later, so a call that waits for more finds the
  connection closed.  Objects of the application are places: \<open>c_mem\<close> has the words, arrays and pointers, as in
  the daemon.  Undefined behaviour, and waiting for a lock that is held, is \<open>None\<close>.
\<close>

section \<open>Connections\<close>

abbreviation (input) TSS_E_COMM_FAILURE :: u32 where "TSS_E_COMM_FAILURE \<equiv> 0x011"
abbreviation (input) TSS_E_NO_CONNECTION :: u32 where "TSS_E_NO_CONNECTION \<equiv> 0x102"
abbreviation (input) TSS_E_CONNECTION_FAILED :: u32 where "TSS_E_CONNECTION_FAILED \<equiv> 0x103"
abbreviation (input) CONNECTION_TYPE_TCP_PERSISTANT :: u32 where "CONNECTION_TYPE_TCP_PERSISTANT \<equiv> 1"
abbreviation (input) TCSD_INIT_TXBUF_SIZE :: nat where "TCSD_INIT_TXBUF_SIZE \<equiv> 1024"

text \<open>\<open>ht_socket\<close>: the bytes that arrived and are not received yet, \<open>None\<close> without a connection.\<close>

record host_table_entry =
  ht_tspContext :: u32
  ht_tcsContext :: u32
  ht_hostname :: string
  ht_type :: u32
  ht_socket :: "u8 list option"
  ht_comm :: tcsd_comm_data
  ht_locked :: bool

datatype attempt = No_Socket | No_Host | Refused | Connected

record 'p net =
  n_connect :: "string \<Rightarrow> 'p \<Rightarrow> attempt \<times> 'p"
  n_send :: "u8 list \<Rightarrow> 'p \<Rightarrow> u8 list option \<times> 'p"

text \<open>\<open>c_hte\<close>: the entry that the call uses.\<close>

record 'p client =
  c_table :: "host_table_entry list"
  c_hte :: host_table_entry
  c_mem :: rsp_mem
  c_uuid :: "nat \<Rightarrow> TSS_UUID"
  c_64 :: "nat \<Rightarrow> u64"
  c_loadkey :: "nat \<Rightarrow> TCS_LOADKEY_INFO"
  c_peer :: 'p

type_synonym 'p rpc = "'p client \<Rightarrow> (u32 \<times> 'p client) option"

abbreviation (input) comm_of :: "'p client \<Rightarrow> tcsd_comm_data" where "comm_of st \<equiv> ht_comm (c_hte st)"
abbreviation (input) BAD :: u32 where "BAD \<equiv> TSPERR TSS_E_INTERNAL_ERROR"
abbreviation (input) NOMEM :: u32 where "NOMEM \<equiv> TSPERR TSS_E_OUTOFMEMORY"

definition set_comm :: "tcsd_comm_data \<Rightarrow> 'p client \<Rightarrow> 'p client" where
  "set_comm c st = st\<lparr>c_hte := (c_hte st)\<lparr>ht_comm := c\<rparr>\<rparr>"

definition set_socket :: "u8 list \<Rightarrow> 'p client \<Rightarrow> 'p client" where
  "set_socket input st = st\<lparr>c_hte := (c_hte st)\<lparr>ht_socket := Some input\<rparr>\<rparr>"

lemma set_comm_simps [simp]:
  "comm_of (set_comm c st) = c" "c_mem (set_comm c st) = c_mem st" "c_peer (set_comm c st) = c_peer st"
  "ht_tcsContext (c_hte (set_comm c st)) = ht_tcsContext (c_hte st)" "ht_socket (c_hte (set_comm c st)) = ht_socket (c_hte st)"
  "ht_type (c_hte (set_comm c st)) = ht_type (c_hte st)" "ht_tspContext (c_hte (set_comm c st)) = ht_tspContext (c_hte st)"
  "c_table (set_comm c st) = c_table st" "set_comm c (set_comm c' st) = set_comm c st"
  by (simp_all add: set_comm_def)

section \<open>Sending a packet\<close>

text \<open>Receiving \<open>n\<close> bytes to the offset \<open>off\<close> of the buffer: whether all of them came.\<close>

definition tspi_recv_from_socket ::
  "nat \<Rightarrow> nat \<Rightarrow> u8 list \<Rightarrow> tcsd_comm_data \<Rightarrow> (bool \<times> u8 list \<times> tcsd_comm_data) option" where
  "tspi_recv_from_socket off n input c = do {
     b \<leftarrow> wr (buf c) off (take n input);
     Some (n \<le> length input, drop n input, c\<lparr>buf := b\<rparr>) }"

text \<open>The part that \<open>send_init\<close> and \<open>sendit\<close> share: the header, the size in it, and the rest of the packet.\<close>

definition recv_answer ::
  "u8 list \<Rightarrow> tcsd_comm_data \<Rightarrow> rsp_mem \<Rightarrow> (u32 \<times> u8 list \<times> tcsd_comm_data \<times> rsp_mem) option" where
  "recv_answer input c m = do {
     (ok, input, c) \<leftarrow> tspi_recv_from_socket 0 28 input c;
     if \<not> ok then Some (TSPERR TSS_E_COMM_FAILURE, input, c, m)
     else do {
       (size, off) \<leftarrow> UnloadBlob_UINT32 0 (buf c);
       if sint size < 28 then Some (TSPERR TSS_E_COMM_FAILURE, input, c, m)
       else
         let (room, m) = (if int (length (buf c)) < sint size then realloc (unat size) c m else (Some c, m))
         in case room of None \<Rightarrow> Some (NOMEM, input, c, m)
            | Some c \<Rightarrow> do {
                (ok, input, c) \<leftarrow> tspi_recv_from_socket 28 (unat size - 28) input c;
                Some (if ok then TSS_SUCCESS else TSPERR TSS_E_COMM_FAILURE, input, c, m) } } }"

text \<open>The bytes of the packet; none when its size is negative.\<close>

definition packet_out :: "tcsd_comm_data \<Rightarrow> u8 list option" where
  "packet_out c = (if sint (packet_size (hdr c)) \<le> 0 then Some [] else rd (buf c) 0 (unat (packet_size (hdr c))))"

definition send_init :: "'p net \<Rightarrow> 'p rpc" where
  "send_init nw st =
     (let (a, p) = n_connect nw (ht_hostname (c_hte st)) (c_peer st); st = st\<lparr>c_peer := p\<rparr>
      in if a = No_Host then Some (TSPERR TSS_E_CONNECTION_FAILED, st)
         else if a \<noteq> Connected then Some (TSPERR TSS_E_COMM_FAILURE, st)
         else do {
           out \<leftarrow> packet_out (comm_of st);
           let (x, p) = n_send nw out (c_peer st);
           let st = st\<lparr>c_peer := p\<rparr>;
           case x of None \<Rightarrow> Some (TSPERR TSS_E_COMM_FAILURE, st)
           | Some input \<Rightarrow> do {
               (r, input, c, m) \<leftarrow> recv_answer input (comm_of st) (c_mem st);
               let st = set_comm c (st\<lparr>c_mem := m\<rparr>);
               Some (r, if r = 0 then set_socket input st else st) } })"

definition sendit :: "'p net \<Rightarrow> 'p rpc" where
  "sendit nw st = do {
     old \<leftarrow> ht_socket (c_hte st);
     out \<leftarrow> packet_out (comm_of st);
     let (x, p) = n_send nw out (c_peer st);
     let st = st\<lparr>c_peer := p\<rparr>;
     case x of None \<Rightarrow> Some (TSPERR TSS_E_COMM_FAILURE, st)
     | Some input \<Rightarrow> do {
         (r, input, c, m) \<leftarrow> recv_answer (old @ input) (comm_of st) (c_mem st);
         Some (r, set_socket input (set_comm c (st\<lparr>c_mem := m\<rparr>))) } }"

abbreviation (input) TCSD_ORD_OPENCONTEXT :: u32 where "TCSD_ORD_OPENCONTEXT \<equiv> 1"

text \<open>The header is decoded as in the daemon.\<close>

definition sendTCSDPacket :: "'p net \<Rightarrow> 'p rpc" where
  "sendTCSDPacket nw st = do {
     (off, b) \<leftarrow> load_words Trspi_LoadBlob_UINT32 (header_words (hdr (comm_of st))) (0, Some (buf (comm_of st)));
     b \<leftarrow> b;
     let st = set_comm ((comm_of st)\<lparr>buf := b\<rparr>) st;
     (r, st) \<leftarrow> (if hdr_u (hdr (comm_of st)) = TCSD_ORD_OPENCONTEXT then send_init nw st else sendit nw st);
     if r \<noteq> 0 then Some (r, st)
     else do {
       h \<leftarrow> decode_header (buf (comm_of st));
       Some (TSS_SUCCESS, set_comm ((comm_of st)\<lparr>hdr := h\<rparr>) st) } }"

section \<open>Places of the application\<close>

datatype place = P32 nat | P64 nat | PBool nat | PArr nat | PVer nat | PCtr nat | PPtr nat | PUuid nat | PLoad nat
  | PAuth nat | PSession nat

fun value_at :: "place \<Rightarrow> 'p client \<Rightarrow> datum" where
  "value_at (P32 l) st = D32 (m_32 (c_mem st) l)"
| "value_at (P64 l) st = D64 (c_64 st l)"
| "value_at (PBool l) st = D8 (m_O (c_mem st) l)"
| "value_at (PArr l) st = DA (m_D (c_mem st) l)"
| "value_at (PVer l) st = DVersion (m_V (c_mem st) l)"
| "value_at (PCtr l) st = DCounter (m_C (c_mem st) l)"
| "value_at (PPtr l) st = DP (m_B (c_mem st) l)"
| "value_at (PUuid l) st = DUuid (c_uuid st l)"
| "value_at (PLoad l) st = DLoadkey (c_loadkey st l)"
| "value_at (PAuth l) st = DAuth (m_A (c_mem st) l)"
| "value_at (PSession l) st = DSession (m_S (c_mem st) l) []"

definition store_at :: "place \<Rightarrow> datum \<Rightarrow> 'p client \<Rightarrow> 'p client option" where
  "store_at p d st = (let m = c_mem st in case p of
     P32 l \<Rightarrow> do { x \<leftarrow> as_32 d; Some (st\<lparr>c_mem := m\<lparr>m_32 := (m_32 m)(l := x)\<rparr>\<rparr>) }
   | P64 l \<Rightarrow> do { x \<leftarrow> as_64 d; Some (st\<lparr>c_64 := (c_64 st)(l := x)\<rparr>) }
   | PBool l \<Rightarrow> do { x \<leftarrow> as_8 d; Some (st\<lparr>c_mem := m\<lparr>m_O := (m_O m)(l := x)\<rparr>\<rparr>) }
   | PArr l \<Rightarrow> do { x \<leftarrow> as_arr d; Some (st\<lparr>c_mem := m\<lparr>m_D := (m_D m)(l := x)\<rparr>\<rparr>) }
   | PVer l \<Rightarrow> do { x \<leftarrow> as_version d; Some (st\<lparr>c_mem := m\<lparr>m_V := (m_V m)(l := x)\<rparr>\<rparr>) }
   | PCtr l \<Rightarrow> do { x \<leftarrow> as_counter d; Some (st\<lparr>c_mem := m\<lparr>m_C := (m_C m)(l := x)\<rparr>\<rparr>) }
   | PPtr l \<Rightarrow> do { x \<leftarrow> as_ptr d; Some (st\<lparr>c_mem := m\<lparr>m_B := (m_B m)(l := x)\<rparr>\<rparr>) }
   | PUuid l \<Rightarrow> do { x \<leftarrow> as_uuid d; Some (st\<lparr>c_uuid := (c_uuid st)(l := x)\<rparr>) }
   | PLoad l \<Rightarrow> do { x \<leftarrow> as_loadkey d; Some (st\<lparr>c_loadkey := (c_loadkey st)(l := x)\<rparr>) }
   | PAuth l \<Rightarrow> (case d of DAuth x \<Rightarrow> Some (st\<lparr>c_mem := m\<lparr>m_A := (m_A m)(l := x)\<rparr>\<rparr>) | _ \<Rightarrow> None)
   | PSession l \<Rightarrow> (case d of DSession x y \<Rightarrow> Some (st\<lparr>c_mem := m\<lparr>m_S := (m_S m)(l := x)\<rparr>\<rparr>) | _ \<Rightarrow> None))"

text \<open>What is undone on an error: \<open>free(*l)\<close>, \<open>*l = NULL\<close>, \<open>*l = 0\<close>.\<close>

datatype undo = Fr nat | Null nat | Zero nat

fun undo1 :: "undo \<Rightarrow> rsp_mem \<Rightarrow> rsp_mem option" where
  "undo1 (Fr l) m = (case m_B m l of
     NULL \<Rightarrow> Some m
   | Buf b \<Rightarrow> Some (m\<lparr>m_B := (m_B m)(l := Freed), m_live := m_live m - 1\<rparr>)
   | Freed \<Rightarrow> None)"
| "undo1 (Null l) m = Some (m\<lparr>m_B := (m_B m)(l := NULL)\<rparr>)"
| "undo1 (Zero l) m = Some (set_32 l 0 m)"

fun undo_all :: "undo list \<Rightarrow> rsp_mem \<Rightarrow> rsp_mem option" where
  "undo_all [] m = Some m"
| "undo_all (u # us) m = do { m \<leftarrow> undo1 u m; undo_all us m }"

section \<open>Statements\<close>

text \<open>
  A statement takes the variable \<open>result\<close> and the state to their new values, and says whether the function goes
  on behind it; it does not after \<open>return\<close> and \<open>goto done\<close>.
\<close>

type_synonym 'p stmt = "u32 \<times> 'p client \<Rightarrow> (bool \<times> u32 \<times> 'p client) option"

fun steps :: "'p stmt list \<Rightarrow> 'p stmt" where
  "steps [] (r, st) = Some (True, r, st)"
| "steps (s # ss) (r, st) = do { (go, r, st) \<leftarrow> s (r, st); if go then steps ss (r, st) else Some (False, r, st) }"

definition procedure :: "'p stmt list \<Rightarrow> 'p rpc" where
  "procedure ss st = do { (go, r, st) \<leftarrow> steps ss (TSS_SUCCESS, st); Some (r, st) }"

fun if_then :: "bool \<Rightarrow> 'p stmt list \<Rightarrow> 'p stmt" where
  "if_then c ss (r, st) = (if c then steps ss (r, st) else Some (True, r, st))"

fun if_else :: "bool \<Rightarrow> 'p stmt list \<Rightarrow> 'p stmt list \<Rightarrow> 'p stmt" where
  "if_else c ss ts (r, st) = (if c then steps ss (r, st) else steps ts (r, st))"

fun on_success :: "'p stmt list \<Rightarrow> 'p stmt" where
  "on_success ss (r, st) = (if r = TSS_SUCCESS then steps ss (r, st) else Some (True, r, st))"

text \<open>The test of \<open>hte->comm.hdr.u.result\<close> instead of \<open>result\<close>.\<close>

fun on_header :: "'p stmt list \<Rightarrow> 'p stmt" where
  "on_header ss (r, st) = (if hdr_u (hdr (comm_of st)) = TSS_SUCCESS then steps ss (r, st) else Some (True, r, st))"

fun if_size :: "nat \<Rightarrow> 'p stmt list \<Rightarrow> 'p stmt list \<Rightarrow> 'p stmt" where
  "if_size l ss ts (r, st) = (if 0 < m_32 (c_mem st) l then steps ss (r, st) else steps ts (r, st))"

text \<open>The word at \<open>l\<close>, as it is now, decides what follows; a test of \<open>result\<close>; an assignment.\<close>

fun with_word :: "nat \<Rightarrow> (u32 \<Rightarrow> 'p stmt list) \<Rightarrow> 'p stmt" where
  "with_word l f (r, st) = steps (f (m_32 (c_mem st) l)) (r, st)"

fun on_result :: "(u32 \<Rightarrow> bool) \<Rightarrow> 'p stmt list \<Rightarrow> 'p stmt list \<Rightarrow> 'p stmt" where
  "on_result p ss ts (r, st) = (if p r then steps ss (r, st) else steps ts (r, st))"

fun assign :: "nat \<Rightarrow> u32 \<Rightarrow> 'p stmt" where
  "assign l x (r, st) = Some (True, r, st\<lparr>c_mem := set_32 l x (c_mem st)\<rparr>)"

text \<open>With the error \<open>x\<close>: out of the function, or only noted.\<close>

fun quit :: "u32 \<Rightarrow> undo list \<Rightarrow> 'p stmt" where
  "quit x us (r, st) = do { m \<leftarrow> undo_all us (c_mem st); Some (False, x, st\<lparr>c_mem := m\<rparr>) }"

fun go_on :: "u32 \<Rightarrow> undo list \<Rightarrow> 'p stmt" where
  "go_on x us (r, st) = do { m \<leftarrow> undo_all us (c_mem st); Some (True, x, st\<lparr>c_mem := m\<rparr>) }"

fun clear :: "undo list \<Rightarrow> 'p stmt" where
  "clear us (r, st) = do { m \<leftarrow> undo_all us (c_mem st); Some (True, r, st\<lparr>c_mem := m\<rparr>) }"

text \<open>The request: its parameters, and an answer.\<close>

fun begin_request :: "u32 \<Rightarrow> u32 \<Rightarrow> 'p stmt" where
  "begin_request n ord (r, st) =
     (let c = initData n (comm_of st) in Some (True, r, set_comm (c\<lparr>hdr := (hdr c)\<lparr>hdr_u := ord\<rparr>\<rparr>) st))"

definition send_data :: "ptype \<Rightarrow> u32 \<Rightarrow> datum \<Rightarrow> u32 \<Rightarrow> 'p stmt" where
  "send_data ty i d n = (\<lambda>(r, st). do {
     (x, c, m) \<leftarrow> tspi_setData ty i d n (comm_of st) (c_mem st);
     let st = set_comm c (st\<lparr>c_mem := m\<rparr>);
     Some (if x \<noteq> 0 then (False, BAD, st) else (True, r, st)) })"

abbreviation (input) send_32 :: "u32 \<Rightarrow> u32 \<Rightarrow> 'p stmt" where "send_32 i x \<equiv> send_data PT_UINT32 i (D32 x) 0"
abbreviation (input) send_16 :: "u32 \<Rightarrow> u16 \<Rightarrow> 'p stmt" where "send_16 i x \<equiv> send_data PT_UINT16 i (D16 x) 0"
abbreviation (input) send_bool :: "u32 \<Rightarrow> u8 \<Rightarrow> 'p stmt" where "send_bool i x \<equiv> send_data PT_BOOL i (D8 x) 0"
abbreviation (input) send_byte :: "u32 \<Rightarrow> u8 \<Rightarrow> 'p stmt" where "send_byte i x \<equiv> send_data PT_BYTE i (D8 x) 0"
abbreviation (input) send_bytes :: "u32 \<Rightarrow> ptr \<Rightarrow> u32 \<Rightarrow> 'p stmt" where "send_bytes i p n \<equiv> send_data PT_PBYTE i (DP p) n"
abbreviation (input) send_array :: "ptype \<Rightarrow> u32 \<Rightarrow> u8 list \<Rightarrow> 'p stmt" where "send_array ty i a \<equiv> send_data ty i (DA a) 0"
abbreviation (input) send_null :: "u32 \<Rightarrow> 'p stmt" where "send_null i \<equiv> send_data PT_AUTH i (DAuth null_auth) 0"

fun send_context :: "u32 \<Rightarrow> 'p stmt" where
  "send_context i (r, st) = send_data PT_UINT32 i (D32 (ht_tcsContext (c_hte st))) 0 (r, st)"

fun send_place :: "ptype \<Rightarrow> u32 \<Rightarrow> place \<Rightarrow> 'p stmt" where
  "send_place ty i p (r, st) = send_data ty i (value_at p st) 0 (r, st)"

text \<open>The array that a place points to, of \<open>k\<close> times as many bytes as the word at \<open>s\<close> says.\<close>

fun send_bytes_at :: "u32 \<Rightarrow> nat \<Rightarrow> nat \<Rightarrow> u32 \<Rightarrow> 'p stmt" where
  "send_bytes_at i l s k (r, st) = send_bytes i (m_B (c_mem st) l) (m_32 (c_mem st) s * k) (r, st)"

text \<open>An authorization; through a NULL pointer it is undefined.\<close>

fun send_auth :: "u32 \<Rightarrow> place option \<Rightarrow> 'p stmt" where
  "send_auth i None x = None"
| "send_auth i (Some p) x = send_place PT_AUTH i p x"

fun exchange :: "'p net \<Rightarrow> 'p stmt" where
  "exchange nw (r, st) = do {
     (x, st) \<leftarrow> sendTCSDPacket nw st;
     Some (True, if x = 0 then hdr_u (hdr (comm_of st)) else x, st) }"

fun sending :: "'p net \<Rightarrow> 'p stmt" where
  "sending nw (r, st) = do { (x, st) \<leftarrow> sendTCSDPacket nw st; Some (True, x, st) }"

text \<open>The answer.  The statement \<open>bad\<close> follows a failure; the object may have been written in part.\<close>

definition accept :: "ptype \<Rightarrow> u32 \<Rightarrow> place \<Rightarrow> u32 \<Rightarrow> 'p stmt \<Rightarrow> 'p stmt" where
  "accept ty i p n bad = (\<lambda>(r, st). do {
     ((x, d), c, m) \<leftarrow> tspi_getData ty i (value_at p st) n (comm_of st) (c_mem st);
     st \<leftarrow> store_at p d (set_comm c (st\<lparr>c_mem := m\<rparr>));
     if x \<noteq> 0 then bad (r, st) else Some (True, r, st) })"

abbreviation (input) accept_32 :: "u32 \<Rightarrow> nat \<Rightarrow> 'p stmt \<Rightarrow> 'p stmt" where "accept_32 i l bad \<equiv> accept PT_UINT32 i (P32 l) 0 bad"
abbreviation (input) accept_array :: "ptype \<Rightarrow> u32 \<Rightarrow> nat \<Rightarrow> 'p stmt \<Rightarrow> 'p stmt" where
  "accept_array ty i l bad \<equiv> accept ty i (PArr l) 0 bad"

fun accept_auth :: "u32 \<Rightarrow> place option \<Rightarrow> 'p stmt \<Rightarrow> 'p stmt" where
  "accept_auth i None bad x = None"
| "accept_auth i (Some p) bad x = accept PT_AUTH i p 0 bad x"

text \<open>Into an object of the function that it does not look at.\<close>

definition accept_local :: "u32 \<Rightarrow> 'p stmt \<Rightarrow> 'p stmt" where
  "accept_local i bad = (\<lambda>(r, st). do {
     ((x, d), c, m) \<leftarrow> tspi_getData PT_AUTH i (DAuth null_auth) 0 (comm_of st) (c_mem st);
     let st = set_comm c (st\<lparr>c_mem := m\<rparr>);
     if x \<noteq> 0 then bad (r, st) else Some (True, r, st) })"

text \<open>The array at \<open>l\<close>, of \<open>k\<close> times as many bytes as the word at \<open>s\<close> says: its memory and its bytes.\<close>

fun malloc_at :: "nat \<Rightarrow> nat \<Rightarrow> nat \<Rightarrow> 'p stmt \<Rightarrow> 'p stmt" where
  "malloc_at l s k bad (r, st) =
     (let (p, m) = malloc_mem (unat (m_32 (c_mem st) s) * k) (c_mem st);
          st = st\<lparr>c_mem := m\<lparr>m_B := (m_B m)(l := p)\<rparr>\<rparr>
      in if p = NULL then bad (r, st) else Some (True, r, st))"

fun accept_bytes :: "u32 \<Rightarrow> nat \<Rightarrow> nat \<Rightarrow> u32 \<Rightarrow> 'p stmt \<Rightarrow> 'p stmt" where
  "accept_bytes i l s k bad (r, st) = accept PT_PBYTE i (PPtr l) (m_32 (c_mem st) s * k) bad (r, st)"

text \<open>The number of pointers that are not NULL: the index behind optional parameters.\<close>

definition given :: "place option list \<Rightarrow> u32" where
  "given ps = of_nat (length (filter (\<lambda>p. p \<noteq> None) ps))"

section \<open>The numbers of the requests\<close>

abbreviation (input) TCSD_ORD_CLOSECONTEXT :: u32 where "TCSD_ORD_CLOSECONTEXT \<equiv> 2"
abbreviation (input) TCSD_ORD_REGISTERKEY :: u32 where "TCSD_ORD_REGISTERKEY \<equiv> 5"
abbreviation (input) TCSD_ORD_UNREGISTERKEY :: u32 where "TCSD_ORD_UNREGISTERKEY \<equiv> 6"
abbreviation (input) TCSD_ORD_GETREGISTEREDKEYBLOB :: u32 where "TCSD_ORD_GETREGISTEREDKEYBLOB \<equiv> 9"
abbreviation (input) TCSD_ORD_GETREGISTEREDKEYBYPUBLICINFO :: u32 where "TCSD_ORD_GETREGISTEREDKEYBYPUBLICINFO \<equiv> 10"
abbreviation (input) TCSD_ORD_LOADKEYBYBLOB :: u32 where "TCSD_ORD_LOADKEYBYBLOB \<equiv> 11"
abbreviation (input) TCSD_ORD_LOADKEYBYUUID :: u32 where "TCSD_ORD_LOADKEYBYUUID \<equiv> 12"
abbreviation (input) TCSD_ORD_EVICTKEY :: u32 where "TCSD_ORD_EVICTKEY \<equiv> 13"
abbreviation (input) TCSD_ORD_CREATEWRAPKEY :: u32 where "TCSD_ORD_CREATEWRAPKEY \<equiv> 14"
abbreviation (input) TCSD_ORD_GETPUBKEY :: u32 where "TCSD_ORD_GETPUBKEY \<equiv> 15"
abbreviation (input) TCSD_ORD_MAKEIDENTITY :: u32 where "TCSD_ORD_MAKEIDENTITY \<equiv> 16"
abbreviation (input) TCSD_ORD_LOGPCREVENT :: u32 where "TCSD_ORD_LOGPCREVENT \<equiv> 17"
abbreviation (input) TCSD_ORD_SETOWNERINSTALL :: u32 where "TCSD_ORD_SETOWNERINSTALL \<equiv> 21"
abbreviation (input) TCSD_ORD_TAKEOWNERSHIP :: u32 where "TCSD_ORD_TAKEOWNERSHIP \<equiv> 22"
abbreviation (input) TCSD_ORD_OIAP :: u32 where "TCSD_ORD_OIAP \<equiv> 23"
abbreviation (input) TCSD_ORD_OSAP :: u32 where "TCSD_ORD_OSAP \<equiv> 24"
abbreviation (input) TCSD_ORD_CHANGEAUTH :: u32 where "TCSD_ORD_CHANGEAUTH \<equiv> 25"
abbreviation (input) TCSD_ORD_CHANGEAUTHOWNER :: u32 where "TCSD_ORD_CHANGEAUTHOWNER \<equiv> 26"
abbreviation (input) TCSD_ORD_TERMINATEHANDLE :: u32 where "TCSD_ORD_TERMINATEHANDLE \<equiv> 29"
abbreviation (input) TCSD_ORD_ACTIVATETPMIDENTITY :: u32 where "TCSD_ORD_ACTIVATETPMIDENTITY \<equiv> 30"
abbreviation (input) TCSD_ORD_EXTEND :: u32 where "TCSD_ORD_EXTEND \<equiv> 31"
abbreviation (input) TCSD_ORD_PCRREAD :: u32 where "TCSD_ORD_PCRREAD \<equiv> 32"
abbreviation (input) TCSD_ORD_QUOTE :: u32 where "TCSD_ORD_QUOTE \<equiv> 33"
abbreviation (input) TCSD_ORD_DIRWRITEAUTH :: u32 where "TCSD_ORD_DIRWRITEAUTH \<equiv> 34"
abbreviation (input) TCSD_ORD_DIRREAD :: u32 where "TCSD_ORD_DIRREAD \<equiv> 35"
abbreviation (input) TCSD_ORD_SEAL :: u32 where "TCSD_ORD_SEAL \<equiv> 36"
abbreviation (input) TCSD_ORD_UNSEAL :: u32 where "TCSD_ORD_UNSEAL \<equiv> 37"
abbreviation (input) TCSD_ORD_UNBIND :: u32 where "TCSD_ORD_UNBIND \<equiv> 38"
abbreviation (input) TCSD_ORD_CREATEMIGRATIONBLOB :: u32 where "TCSD_ORD_CREATEMIGRATIONBLOB \<equiv> 39"
abbreviation (input) TCSD_ORD_CONVERTMIGRATIONBLOB :: u32 where "TCSD_ORD_CONVERTMIGRATIONBLOB \<equiv> 40"
abbreviation (input) TCSD_ORD_AUTHORIZEMIGRATIONKEY :: u32 where "TCSD_ORD_AUTHORIZEMIGRATIONKEY \<equiv> 41"
abbreviation (input) TCSD_ORD_CERTIFYKEY :: u32 where "TCSD_ORD_CERTIFYKEY \<equiv> 42"
abbreviation (input) TCSD_ORD_SIGN :: u32 where "TCSD_ORD_SIGN \<equiv> 43"
abbreviation (input) TCSD_ORD_GETRANDOM :: u32 where "TCSD_ORD_GETRANDOM \<equiv> 44"
abbreviation (input) TCSD_ORD_STIRRANDOM :: u32 where "TCSD_ORD_STIRRANDOM \<equiv> 45"
abbreviation (input) TCSD_ORD_GETCAPABILITY :: u32 where "TCSD_ORD_GETCAPABILITY \<equiv> 46"
abbreviation (input) TCSD_ORD_GETCAPABILITYOWNER :: u32 where "TCSD_ORD_GETCAPABILITYOWNER \<equiv> 48"
abbreviation (input) TCSD_ORD_CREATEENDORSEMENTKEYPAIR :: u32 where "TCSD_ORD_CREATEENDORSEMENTKEYPAIR \<equiv> 49"
abbreviation (input) TCSD_ORD_READPUBEK :: u32 where "TCSD_ORD_READPUBEK \<equiv> 50"
abbreviation (input) TCSD_ORD_DISABLEPUBEKREAD :: u32 where "TCSD_ORD_DISABLEPUBEKREAD \<equiv> 51"
abbreviation (input) TCSD_ORD_OWNERREADPUBEK :: u32 where "TCSD_ORD_OWNERREADPUBEK \<equiv> 52"
abbreviation (input) TCSD_ORD_SELFTESTFULL :: u32 where "TCSD_ORD_SELFTESTFULL \<equiv> 53"
abbreviation (input) TCSD_ORD_CERTIFYSELFTEST :: u32 where "TCSD_ORD_CERTIFYSELFTEST \<equiv> 54"
abbreviation (input) TCSD_ORD_GETTESTRESULT :: u32 where "TCSD_ORD_GETTESTRESULT \<equiv> 56"
abbreviation (input) TCSD_ORD_OWNERSETDISABLE :: u32 where "TCSD_ORD_OWNERSETDISABLE \<equiv> 57"
abbreviation (input) TCSD_ORD_OWNERCLEAR :: u32 where "TCSD_ORD_OWNERCLEAR \<equiv> 58"
abbreviation (input) TCSD_ORD_DISABLEOWNERCLEAR :: u32 where "TCSD_ORD_DISABLEOWNERCLEAR \<equiv> 59"
abbreviation (input) TCSD_ORD_FORCECLEAR :: u32 where "TCSD_ORD_FORCECLEAR \<equiv> 60"
abbreviation (input) TCSD_ORD_DISABLEFORCECLEAR :: u32 where "TCSD_ORD_DISABLEFORCECLEAR \<equiv> 61"
abbreviation (input) TCSD_ORD_PHYSICALDISABLE :: u32 where "TCSD_ORD_PHYSICALDISABLE \<equiv> 62"
abbreviation (input) TCSD_ORD_PHYSICALENABLE :: u32 where "TCSD_ORD_PHYSICALENABLE \<equiv> 63"
abbreviation (input) TCSD_ORD_PHYSICALSETDEACTIVATED :: u32 where "TCSD_ORD_PHYSICALSETDEACTIVATED \<equiv> 64"
abbreviation (input) TCSD_ORD_SETTEMPDEACTIVATED :: u32 where "TCSD_ORD_SETTEMPDEACTIVATED \<equiv> 65"
abbreviation (input) TCSD_ORD_PHYSICALPRESENCE :: u32 where "TCSD_ORD_PHYSICALPRESENCE \<equiv> 66"
abbreviation (input) TCSD_ORD_CREATEMAINTENANCEARCHIVE :: u32 where "TCSD_ORD_CREATEMAINTENANCEARCHIVE \<equiv> 69"
abbreviation (input) TCSD_ORD_LOADMAINTENANCEARCHIVE :: u32 where "TCSD_ORD_LOADMAINTENANCEARCHIVE \<equiv> 70"
abbreviation (input) TCSD_ORD_KILLMAINTENANCEFEATURE :: u32 where "TCSD_ORD_KILLMAINTENANCEFEATURE \<equiv> 71"
abbreviation (input) TCSD_ORD_LOADMANUFACTURERMAINTENANCEPUB :: u32 where "TCSD_ORD_LOADMANUFACTURERMAINTENANCEPUB \<equiv> 72"
abbreviation (input) TCSD_ORD_READMANUFACTURERMAINTENANCEPUB :: u32 where "TCSD_ORD_READMANUFACTURERMAINTENANCEPUB \<equiv> 73"
abbreviation (input) TCSD_ORD_DAAJOIN :: u32 where "TCSD_ORD_DAAJOIN \<equiv> 74"
abbreviation (input) TCSD_ORD_DAASIGN :: u32 where "TCSD_ORD_DAASIGN \<equiv> 75"
abbreviation (input) TCSD_ORD_SETCAPABILITY :: u32 where "TCSD_ORD_SETCAPABILITY \<equiv> 76"
abbreviation (input) TCSD_ORD_RESETLOCKVALUE :: u32 where "TCSD_ORD_RESETLOCKVALUE \<equiv> 77"
abbreviation (input) TCSD_ORD_PCRRESET :: u32 where "TCSD_ORD_PCRRESET \<equiv> 78"
abbreviation (input) TCSD_ORD_READCOUNTER :: u32 where "TCSD_ORD_READCOUNTER \<equiv> 79"
abbreviation (input) TCSD_ORD_CREATECOUNTER :: u32 where "TCSD_ORD_CREATECOUNTER \<equiv> 80"
abbreviation (input) TCSD_ORD_INCREMENTCOUNTER :: u32 where "TCSD_ORD_INCREMENTCOUNTER \<equiv> 81"
abbreviation (input) TCSD_ORD_RELEASECOUNTER :: u32 where "TCSD_ORD_RELEASECOUNTER \<equiv> 82"
abbreviation (input) TCSD_ORD_RELEASECOUNTEROWNER :: u32 where "TCSD_ORD_RELEASECOUNTEROWNER \<equiv> 83"
abbreviation (input) TCSD_ORD_READCURRENTTICKS :: u32 where "TCSD_ORD_READCURRENTTICKS \<equiv> 84"
abbreviation (input) TCSD_ORD_TICKSTAMPBLOB :: u32 where "TCSD_ORD_TICKSTAMPBLOB \<equiv> 85"
abbreviation (input) TCSD_ORD_GETCREDENTIAL :: u32 where "TCSD_ORD_GETCREDENTIAL \<equiv> 86"
abbreviation (input) TCSD_ORD_NVDEFINEORRELEASESPACE :: u32 where "TCSD_ORD_NVDEFINEORRELEASESPACE \<equiv> 87"
abbreviation (input) TCSD_ORD_NVWRITEVALUE :: u32 where "TCSD_ORD_NVWRITEVALUE \<equiv> 88"
abbreviation (input) TCSD_ORD_NVWRITEVALUEAUTH :: u32 where "TCSD_ORD_NVWRITEVALUEAUTH \<equiv> 89"
abbreviation (input) TCSD_ORD_NVREADVALUE :: u32 where "TCSD_ORD_NVREADVALUE \<equiv> 90"
abbreviation (input) TCSD_ORD_NVREADVALUEAUTH :: u32 where "TCSD_ORD_NVREADVALUEAUTH \<equiv> 91"
abbreviation (input) TCSD_ORD_ESTABLISHTRANSPORT :: u32 where "TCSD_ORD_ESTABLISHTRANSPORT \<equiv> 92"
abbreviation (input) TCSD_ORD_EXECUTETRANSPORT :: u32 where "TCSD_ORD_EXECUTETRANSPORT \<equiv> 93"
abbreviation (input) TCSD_ORD_RELEASETRANSPORTSIGNED :: u32 where "TCSD_ORD_RELEASETRANSPORTSIGNED \<equiv> 94"
abbreviation (input) TCSD_ORD_SETORDINALAUDITSTATUS :: u32 where "TCSD_ORD_SETORDINALAUDITSTATUS \<equiv> 95"
abbreviation (input) TCSD_ORD_GETAUDITDIGEST :: u32 where "TCSD_ORD_GETAUDITDIGEST \<equiv> 96"
abbreviation (input) TCSD_ORD_GETAUDITDIGESTSIGNED :: u32 where "TCSD_ORD_GETAUDITDIGESTSIGNED \<equiv> 97"
abbreviation (input) TCSD_ORD_SEALX :: u32 where "TCSD_ORD_SEALX \<equiv> 98"
abbreviation (input) TCSD_ORD_SETOPERATORAUTH :: u32 where "TCSD_ORD_SETOPERATORAUTH \<equiv> 99"
abbreviation (input) TCSD_ORD_OWNERREADINTERNALPUB :: u32 where "TCSD_ORD_OWNERREADINTERNALPUB \<equiv> 100"
abbreviation (input) TCSD_ORD_SETTEMPDEACTIVATED2 :: u32 where "TCSD_ORD_SETTEMPDEACTIVATED2 \<equiv> 102"
abbreviation (input) TCSD_ORD_DELEGATE_MANAGE :: u32 where "TCSD_ORD_DELEGATE_MANAGE \<equiv> 103"
abbreviation (input) TCSD_ORD_DELEGATE_CREATEKEYDELEGATION :: u32 where "TCSD_ORD_DELEGATE_CREATEKEYDELEGATION \<equiv> 104"
abbreviation (input) TCSD_ORD_DELEGATE_CREATEOWNERDELEGATION :: u32 where "TCSD_ORD_DELEGATE_CREATEOWNERDELEGATION \<equiv> 105"
abbreviation (input) TCSD_ORD_DELEGATE_LOADOWNERDELEGATION :: u32 where "TCSD_ORD_DELEGATE_LOADOWNERDELEGATION \<equiv> 106"
abbreviation (input) TCSD_ORD_DELEGATE_READTABLE :: u32 where "TCSD_ORD_DELEGATE_READTABLE \<equiv> 107"
abbreviation (input) TCSD_ORD_DELEGATE_UPDATEVERIFICATIONCOUNT :: u32 where "TCSD_ORD_DELEGATE_UPDATEVERIFICATIONCOUNT \<equiv> 108"
abbreviation (input) TCSD_ORD_DELEGATE_VERIFYDELEGATION :: u32 where "TCSD_ORD_DELEGATE_VERIFYDELEGATION \<equiv> 109"
abbreviation (input) TCSD_ORD_CREATEREVOCABLEENDORSEMENTKEYPAIR :: u32 where "TCSD_ORD_CREATEREVOCABLEENDORSEMENTKEYPAIR \<equiv> 110"
abbreviation (input) TCSD_ORD_REVOKEENDORSEMENTKEYPAIR :: u32 where "TCSD_ORD_REVOKEENDORSEMENTKEYPAIR \<equiv> 111"
abbreviation (input) TCSD_ORD_QUOTE2 :: u32 where "TCSD_ORD_QUOTE2 \<equiv> 113"
abbreviation (input) TCSD_ORD_CMK_SETRESTRICTIONS :: u32 where "TCSD_ORD_CMK_SETRESTRICTIONS \<equiv> 114"
abbreviation (input) TCSD_ORD_CMK_APPROVEMA :: u32 where "TCSD_ORD_CMK_APPROVEMA \<equiv> 115"
abbreviation (input) TCSD_ORD_CMK_CREATEKEY :: u32 where "TCSD_ORD_CMK_CREATEKEY \<equiv> 116"
abbreviation (input) TCSD_ORD_CMK_CREATETICKET :: u32 where "TCSD_ORD_CMK_CREATETICKET \<equiv> 117"
abbreviation (input) TCSD_ORD_CMK_CREATEBLOB :: u32 where "TCSD_ORD_CMK_CREATEBLOB \<equiv> 118"
abbreviation (input) TCSD_ORD_CMK_CONVERTMIGRATION :: u32 where "TCSD_ORD_CMK_CONVERTMIGRATION \<equiv> 119"
abbreviation (input) TCSD_ORD_FLUSHSPECIFIC :: u32 where "TCSD_ORD_FLUSHSPECIFIC \<equiv> 120"
abbreviation (input) TCSD_ORD_KEYCONTROLOWNER :: u32 where "TCSD_ORD_KEYCONTROLOWNER \<equiv> 121"
abbreviation (input) TCSD_ORD_DSAP :: u32 where "TCSD_ORD_DSAP \<equiv> 122"
abbreviation (input) TCSD_ORD_APCREATE :: u32 where "TCSD_ORD_APCREATE \<equiv> 123"

end
