(* ===== verification/Rpc_Client_Tpm.thy ===== *)
theory Rpc_Client_Tpm
  imports Rpc_Client
begin

text \<open>
  The remote calls for the device itself: contexts, configuration registers, events, random numbers, self test,
  ticks, ownership, capabilities, audit, maintenance, endorsement key, non-volatile storage, counters, physical
  presence, DAA (\<open>tspi/rpc/tcstp/rpc_{context,oper,dir,pcr_extend,evlog,random,selftest,tick,own,caps_tpm,audit,
  maint,ek,nv,counter,admin,daa}.c\<close>).  A call has the inputs of the C function, and a place for every object
  that it writes through a pointer.
\<close>

section \<open>\<open>rpc_context.c\<close>\<close>

definition RPC_OpenContext_TP ::
  "'p net \<Rightarrow> nat \<Rightarrow> nat \<Rightarrow> 'p rpc" where
  "RPC_OpenContext_TP nw tpm_version tcsContext = procedure [
      begin_request 0 TCSD_ORD_OPENCONTEXT, exchange nw,
      on_success [
        accept_32 0 tcsContext (quit BAD []), accept_32 1 tpm_version (quit BAD [])]]"

definition RPC_CloseContext_TP ::
  "'p net \<Rightarrow> 'p rpc" where
  "RPC_CloseContext_TP nw = procedure [
      begin_request 1 TCSD_ORD_CLOSECONTEXT, send_context 0, exchange nw]"

definition RPC_FreeMemory_TP :: "ptr \<Rightarrow> 'p rpc" where
  "RPC_FreeMemory_TP pMemory st =
     (if pMemory = Freed then None
      else Some (TSS_SUCCESS, st\<lparr>c_mem := (c_mem st)\<lparr>m_live := m_live (c_mem st) - int (pallocs pMemory)\<rparr>\<rparr>))"

section \<open>\<open>rpc_oper.c\<close>\<close>

definition RPC_SetOperatorAuth_TP ::
  "'p net \<Rightarrow> u8 list \<Rightarrow> 'p rpc" where
  "RPC_SetOperatorAuth_TP nw operatorAuth = procedure [
      begin_request 2 TCSD_ORD_SETOPERATORAUTH, send_context 0, send_array PT_SECRET 1 operatorAuth, exchange nw]"

section \<open>\<open>rpc_dir.c\<close>\<close>

definition RPC_DirWriteAuth_TP ::
  "'p net \<Rightarrow> u32 \<Rightarrow> u8 list \<Rightarrow> place option \<Rightarrow> 'p rpc" where
  "RPC_DirWriteAuth_TP nw dirIndex newContents ownerAuth = procedure [
      begin_request 4 TCSD_ORD_DIRWRITEAUTH, send_context 0, send_32 1 dirIndex, send_array PT_DIGEST 2 newContents,
      send_auth 3 ownerAuth, exchange nw,
      on_success [
        accept_auth 0 ownerAuth (go_on BAD [])]]"

definition RPC_DirRead_TP ::
  "'p net \<Rightarrow> u32 \<Rightarrow> nat \<Rightarrow> 'p rpc" where
  "RPC_DirRead_TP nw dirIndex dirValue = procedure [
      begin_request 2 TCSD_ORD_DIRREAD, send_context 0, send_32 1 dirIndex, exchange nw,
      on_header [
        accept_array PT_DIGEST 0 dirValue (go_on BAD [])]]"

section \<open>\<open>rpc_pcr_extend.c\<close>\<close>

definition RPC_Extend_TP ::
  "'p net \<Rightarrow> u32 \<Rightarrow> u8 list \<Rightarrow> nat \<Rightarrow> 'p rpc" where
  "RPC_Extend_TP nw pcrNum inDigest outDigest = procedure [
      begin_request 3 TCSD_ORD_EXTEND, send_context 0, send_32 1 pcrNum, send_array PT_DIGEST 2 inDigest, exchange nw,
      on_success [
        accept_array PT_DIGEST 0 outDigest (go_on BAD [])]]"

definition RPC_PcrRead_TP ::
  "'p net \<Rightarrow> u32 \<Rightarrow> nat \<Rightarrow> 'p rpc" where
  "RPC_PcrRead_TP nw pcrNum outDigest = procedure [
      begin_request 2 TCSD_ORD_PCRREAD, send_context 0, send_32 1 pcrNum, exchange nw,
      on_success [
        accept_array PT_DIGEST 0 outDigest (go_on BAD [])]]"

definition RPC_PcrReset_TP ::
  "'p net \<Rightarrow> u32 \<Rightarrow> ptr \<Rightarrow> 'p rpc" where
  "RPC_PcrReset_TP nw pcrDataSizeIn pcrDataIn = procedure [
      begin_request 3 TCSD_ORD_PCRRESET, send_context 0, send_32 1 pcrDataSizeIn, send_bytes 2 pcrDataIn pcrDataSizeIn,
      exchange nw]"

section \<open>\<open>rpc_evlog.c\<close>\<close>

definition RPC_LogPcrEvent_TP ::
  "'p net \<Rightarrow> TSS_PCR_EVENT \<Rightarrow> nat \<Rightarrow> 'p rpc" where
  "RPC_LogPcrEvent_TP nw Event pNumber = procedure [
      begin_request 2 TCSD_ORD_LOGPCREVENT, send_context 0, send_data PT_PCR_EVENT 1 (DEvent Event) 0, exchange nw,
      on_success [
        accept_32 0 pNumber (go_on BAD [])]]"

section \<open>\<open>rpc_random.c\<close>\<close>

text \<open>The parameter \<open>bytesRequested\<close> is a variable, at a place of its own, to which the answer is read.\<close>

definition RPC_GetRandom_TP :: "'p net \<Rightarrow> nat \<Rightarrow> u32 \<Rightarrow> nat \<Rightarrow> 'p rpc" where
  "RPC_GetRandom_TP nw bytesRequested n randomBytes = procedure [
      assign bytesRequested n,
      begin_request 2 TCSD_ORD_GETRANDOM, send_context 0, send_place PT_UINT32 1 (P32 bytesRequested), exchange nw,
      on_success [
        accept_32 0 bytesRequested (quit BAD []), malloc_at randomBytes bytesRequested 1 (quit NOMEM []),
        accept_bytes 1 randomBytes bytesRequested 1 (go_on BAD [Fr randomBytes])]]"

definition RPC_StirRandom_TP ::
  "'p net \<Rightarrow> u32 \<Rightarrow> ptr \<Rightarrow> 'p rpc" where
  "RPC_StirRandom_TP nw inDataSize inData = procedure [
      begin_request 3 TCSD_ORD_STIRRANDOM, send_context 0, send_32 1 inDataSize, send_bytes 2 inData inDataSize,
      exchange nw]"

section \<open>\<open>rpc_selftest.c\<close>\<close>

definition RPC_SelfTestFull_TP ::
  "'p net \<Rightarrow> 'p rpc" where
  "RPC_SelfTestFull_TP nw = procedure [
      begin_request 1 TCSD_ORD_SELFTESTFULL, send_context 0, exchange nw]"

definition RPC_CertifySelfTest_TP ::
  "'p net \<Rightarrow> u32 \<Rightarrow> u8 list \<Rightarrow> place option \<Rightarrow> nat \<Rightarrow> nat \<Rightarrow> 'p rpc" where
  "RPC_CertifySelfTest_TP nw keyHandle antiReplay privAuth sigSize sig = procedure [
      begin_request 4 TCSD_ORD_CERTIFYSELFTEST, send_context 0, send_32 1 keyHandle, send_array PT_NONCE 2 antiReplay,
      if_then (privAuth \<noteq> None) [send_auth 3 privAuth], exchange nw,
      on_success [
        if_then (privAuth \<noteq> None) [accept_auth 0 privAuth (quit BAD [])],
        accept_32 (given [privAuth]) sigSize (quit BAD []), malloc_at sig sigSize 1 (quit NOMEM []),
        accept_bytes (given [privAuth] + 1) sig sigSize 1 (go_on BAD [Fr sig])]]"

definition RPC_GetTestResult_TP ::
  "'p net \<Rightarrow> nat \<Rightarrow> nat \<Rightarrow> 'p rpc" where
  "RPC_GetTestResult_TP nw outDataSize outData = procedure [
      begin_request 1 TCSD_ORD_GETTESTRESULT, send_context 0, exchange nw,
      on_success [
        accept_32 0 outDataSize (quit BAD []), malloc_at outData outDataSize 1 (quit NOMEM []),
        accept_bytes 1 outData outDataSize 1 (go_on BAD [Fr outData, Null outData])]]"

section \<open>\<open>rpc_tick.c\<close>\<close>

definition RPC_ReadCurrentTicks_TP ::
  "'p net \<Rightarrow> nat \<Rightarrow> nat \<Rightarrow> 'p rpc" where
  "RPC_ReadCurrentTicks_TP nw pulCurrentTime prgbCurrentTime = procedure [
      begin_request 1 TCSD_ORD_READCURRENTTICKS, send_context 0, exchange nw,
      on_success [
        accept_32 0 pulCurrentTime (quit BAD []),
        malloc_at prgbCurrentTime pulCurrentTime 1 (quit NOMEM [Zero pulCurrentTime]),
        accept_bytes 1 prgbCurrentTime pulCurrentTime 1 (quit BAD [Fr prgbCurrentTime, Null prgbCurrentTime, Zero
          pulCurrentTime])]]"

definition RPC_TickStampBlob_TP ::
  "'p net \<Rightarrow> u32 \<Rightarrow> u8 list \<Rightarrow> u8 list \<Rightarrow> place option \<Rightarrow> nat \<Rightarrow> nat \<Rightarrow> nat \<Rightarrow> nat \<Rightarrow> 'p rpc" where
  "RPC_TickStampBlob_TP nw hKey antiReplay digestToStamp privAuth pulSignatureLength prgbSignature
     pulTickCountLength prgbTickCount = procedure [
      begin_request 5 TCSD_ORD_TICKSTAMPBLOB, send_context 0, send_32 1 hKey, send_array PT_NONCE 2 antiReplay,
      send_array PT_DIGEST 3 digestToStamp, if_then (privAuth \<noteq> None) [send_auth 4 privAuth], exchange nw,
      on_success [
        if_then (privAuth \<noteq> None) [accept_auth 0 privAuth (quit BAD [])],
        accept_32 (given [privAuth]) pulSignatureLength (quit BAD []),
        malloc_at prgbSignature pulSignatureLength 1 (quit NOMEM [Zero pulSignatureLength]),
        accept_bytes (given [privAuth] + 1) prgbSignature pulSignatureLength 1 (quit BAD [Fr prgbSignature, Null
          prgbSignature, Zero pulSignatureLength]),
        accept_32 (given [privAuth] + 2) pulTickCountLength (quit BAD [Fr prgbSignature, Null prgbSignature, Zero
          pulSignatureLength]),
        malloc_at prgbTickCount pulTickCountLength 1 (quit NOMEM [Fr prgbSignature, Null prgbSignature, Zero
          pulSignatureLength, Zero pulTickCountLength]),
        accept_bytes (given [privAuth] + 3) prgbTickCount pulTickCountLength 1 (quit BAD [Fr prgbSignature, Null
          prgbSignature, Zero pulSignatureLength, Fr prgbTickCount, Null prgbTickCount, Zero pulTickCountLength])]]"

section \<open>\<open>rpc_own.c\<close>\<close>

definition RPC_TakeOwnership_TP ::
  "'p net \<Rightarrow> u16 \<Rightarrow> u32 \<Rightarrow> ptr \<Rightarrow> u32 \<Rightarrow> ptr \<Rightarrow> u32 \<Rightarrow> ptr \<Rightarrow> place option \<Rightarrow> nat \<Rightarrow> nat \<Rightarrow> 'p rpc" where
  "RPC_TakeOwnership_TP nw protocolID encOwnerAuthSize encOwnerAuth encSrkAuthSize encSrkAuth srkInfoSize srkInfo
     ownerAuth srkKeySize srkKey = procedure [
      begin_request 9 TCSD_ORD_TAKEOWNERSHIP, send_context 0, send_16 1 protocolID, send_32 2 encOwnerAuthSize,
      send_bytes 3 encOwnerAuth encOwnerAuthSize, send_32 4 encSrkAuthSize, send_bytes 5 encSrkAuth encSrkAuthSize,
      send_32 6 srkInfoSize, send_bytes 7 srkInfo srkInfoSize, send_auth 8 ownerAuth, exchange nw,
      on_success [
        accept_auth 0 ownerAuth (quit BAD []), accept_32 1 srkKeySize (quit BAD []),
        malloc_at srkKey srkKeySize 1 (quit NOMEM []), accept_bytes 2 srkKey srkKeySize 1 (go_on BAD [Fr srkKey])]]"

definition RPC_OwnerClear_TP ::
  "'p net \<Rightarrow> place option \<Rightarrow> 'p rpc" where
  "RPC_OwnerClear_TP nw ownerAuth = procedure [
      begin_request 2 TCSD_ORD_OWNERCLEAR, send_context 0, send_auth 1 ownerAuth, exchange nw,
      on_success [
        accept_auth 0 ownerAuth (go_on BAD [])]]"

section \<open>\<open>rpc_caps_tpm.c\<close>\<close>

definition RPC_GetTPMCapability_TP ::
  "'p net \<Rightarrow> u32 \<Rightarrow> u32 \<Rightarrow> ptr \<Rightarrow> nat \<Rightarrow> nat \<Rightarrow> 'p rpc" where
  "RPC_GetTPMCapability_TP nw capArea subCapSize subCap respSize resp = procedure [
      begin_request 4 TCSD_ORD_GETCAPABILITY, send_context 0, send_32 1 capArea, send_32 2 subCapSize,
      send_bytes 3 subCap subCapSize, exchange nw,
      on_success [
        accept_32 0 respSize (quit BAD []), malloc_at resp respSize 1 (quit NOMEM []),
        accept_bytes 1 resp respSize 1 (go_on BAD [Fr resp])]]"

definition RPC_GetCapabilitySigned_TP :: "'p rpc" where
  "RPC_GetCapabilitySigned_TP st = Some (TSPERR TSS_E_NOTIMPL, st)"

definition RPC_GetCapabilityOwner_TP ::
  "'p net \<Rightarrow> place option \<Rightarrow> nat \<Rightarrow> nat \<Rightarrow> nat \<Rightarrow> 'p rpc" where
  "RPC_GetCapabilityOwner_TP nw pOwnerAuth pVersion pNonVolatileFlags pVolatileFlags = procedure [
      begin_request 2 TCSD_ORD_GETCAPABILITYOWNER, send_context 0, send_auth 1 pOwnerAuth, exchange nw,
      on_success [
        accept PT_VERSION 0 (PVer pVersion) 0 (go_on BAD []), accept_32 1 pNonVolatileFlags (go_on BAD []),
        accept_32 2 pVolatileFlags (go_on BAD []), accept_auth 3 pOwnerAuth (go_on BAD [])]]"

definition RPC_SetCapability_TP ::
  "'p net \<Rightarrow> u32 \<Rightarrow> u32 \<Rightarrow> ptr \<Rightarrow> u32 \<Rightarrow> ptr \<Rightarrow> place option \<Rightarrow> 'p rpc" where
  "RPC_SetCapability_TP nw capArea subCapSize subCap valueSize value_in pOwnerAuth = procedure [
      begin_request 7 TCSD_ORD_SETCAPABILITY, send_context 0, send_32 1 capArea, send_32 2 subCapSize,
      send_bytes 3 subCap subCapSize, send_32 4 valueSize, send_bytes 5 value_in valueSize,
      if_then (pOwnerAuth \<noteq> None) [send_auth 6 pOwnerAuth], exchange nw,
      on_success [
        accept_auth 0 pOwnerAuth (go_on BAD [])]]"

section \<open>\<open>rpc_audit.c\<close>\<close>

definition RPC_SetOrdinalAuditStatus_TP ::
  "'p net \<Rightarrow> place option \<Rightarrow> u32 \<Rightarrow> u8 \<Rightarrow> 'p rpc" where
  "RPC_SetOrdinalAuditStatus_TP nw ownerAuth ulOrdinal bAuditState = procedure [
      begin_request 4 TCSD_ORD_SETORDINALAUDITSTATUS, send_context 0, send_32 1 ulOrdinal, send_bool 2 bAuditState,
      send_auth 3 ownerAuth, exchange nw,
      on_success [
        accept_auth 0 ownerAuth (go_on BAD [])]]"

definition RPC_GetAuditDigest_TP ::
  "'p net \<Rightarrow> u32 \<Rightarrow> nat \<Rightarrow> nat \<Rightarrow> nat \<Rightarrow> nat \<Rightarrow> nat \<Rightarrow> nat \<Rightarrow> 'p rpc" where
  "RPC_GetAuditDigest_TP nw startOrdinal auditDigest counterValueSize counterValue more_out ordSize ordList =
     procedure [
      begin_request 2 TCSD_ORD_GETAUDITDIGEST, send_context 0, send_32 1 startOrdinal, exchange nw,
      on_success [
        accept_array PT_DIGEST 0 auditDigest (quit BAD []), accept_32 1 counterValueSize (quit BAD []),
        malloc_at counterValue counterValueSize 1 (quit NOMEM []),
        accept_bytes 2 counterValue counterValueSize 1 (quit BAD [Fr counterValue, Null counterValue]),
        accept PT_BOOL 3 (PBool more_out) 0 (quit BAD [Fr counterValue, Null counterValue]),
        accept_32 4 ordSize (quit BAD [Fr counterValue, Null counterValue]),
        malloc_at ordList ordSize 4 (quit NOMEM [Fr counterValue, Null counterValue]),
        accept_bytes 5 ordList ordSize 4 (quit BAD [Fr counterValue, Null counterValue, Fr ordList, Null ordList])]]"

definition RPC_GetAuditDigestSigned_TP ::
  "'p net \<Rightarrow> u32 \<Rightarrow> u8 \<Rightarrow> u8 list \<Rightarrow> place option \<Rightarrow> nat \<Rightarrow> nat \<Rightarrow> nat \<Rightarrow> nat \<Rightarrow> nat \<Rightarrow> nat \<Rightarrow> 'p rpc" where
  "RPC_GetAuditDigestSigned_TP nw keyHandle closeAudit antiReplay privAuth counterValueSize counterValue auditDigest
     ordinalDigest sigSize sig = procedure [
      begin_request 5 TCSD_ORD_GETAUDITDIGESTSIGNED, send_context 0, send_32 1 keyHandle, send_bool 2 closeAudit,
      send_array PT_NONCE 3 antiReplay, if_else (privAuth \<noteq> None) [send_auth 4 privAuth] [send_null 4],
      exchange nw,
      on_success [
        if_then (privAuth \<noteq> None) [accept_auth 0 privAuth (quit BAD [])],
        accept_32 (given [privAuth]) counterValueSize (quit BAD []),
        malloc_at counterValue counterValueSize 1 (quit NOMEM []),
        accept_bytes (given [privAuth] + 1) counterValue counterValueSize 1 (quit BAD [Fr counterValue]),
        accept_array PT_DIGEST (given [privAuth] + 2) auditDigest (quit BAD [Fr counterValue]),
        accept_array PT_DIGEST (given [privAuth] + 3) ordinalDigest (quit BAD [Fr counterValue]),
        accept_32 (given [privAuth] + 4) sigSize (quit BAD [Fr counterValue]),
        malloc_at sig sigSize 1 (quit NOMEM [Fr counterValue]),
        accept_bytes (given [privAuth] + 5) sig sigSize 1 (quit BAD [Fr counterValue, Fr sig])]]"

section \<open>\<open>rpc_maint.c\<close>\<close>

definition RPC_CreateMaintenanceArchive_TP ::
  "'p net \<Rightarrow> u8 \<Rightarrow> place option \<Rightarrow> nat \<Rightarrow> nat \<Rightarrow> nat \<Rightarrow> nat \<Rightarrow> 'p rpc" where
  "RPC_CreateMaintenanceArchive_TP nw generateRandom ownerAuth randomSize random_out archiveSize archive = procedure
     [
      begin_request 3 TCSD_ORD_CREATEMAINTENANCEARCHIVE, send_context 0, send_bool 1 generateRandom,
      send_auth 2 ownerAuth, exchange nw,
      on_success [
        accept_auth 0 ownerAuth (go_on BAD []), accept_32 1 randomSize (go_on BAD []),
        if_size randomSize [
          malloc_at random_out randomSize 1 (quit NOMEM []),
          accept_bytes 2 random_out randomSize 1 (quit BAD [Fr random_out])] [
          clear [Null random_out]],
        accept_32 3 archiveSize (go_on BAD []),
        if_size archiveSize [
          malloc_at archive archiveSize 1 (quit NOMEM [Fr random_out]),
          accept_bytes 4 archive archiveSize 1 (quit BAD [Fr random_out, Fr archive])] [
          clear [Null archive]]]]"

definition RPC_LoadMaintenanceArchive_TP ::
  "'p net \<Rightarrow> u32 \<Rightarrow> u8 list \<Rightarrow> place option \<Rightarrow> nat \<Rightarrow> nat \<Rightarrow> 'p rpc" where
  "RPC_LoadMaintenanceArchive_TP nw dataInSize dataIn ownerAuth dataOutSize dataOut = procedure [
      begin_request 4 TCSD_ORD_LOADMAINTENANCEARCHIVE, send_context 0, send_32 1 dataInSize,
      send_bytes 2 (Buf dataIn) dataInSize, send_auth 3 ownerAuth, exchange nw,
      on_success [
        accept_auth 0 ownerAuth (go_on BAD []), accept_32 1 dataOutSize (go_on BAD []),
        if_size dataOutSize [
          malloc_at dataOut dataOutSize 1 (quit NOMEM []),
          accept_bytes 2 dataOut dataOutSize 1 (quit BAD [Fr dataOut])] [
          clear [Null dataOut]]]]"

definition RPC_KillMaintenanceFeature_TP ::
  "'p net \<Rightarrow> place option \<Rightarrow> 'p rpc" where
  "RPC_KillMaintenanceFeature_TP nw ownerAuth = procedure [
      begin_request 2 TCSD_ORD_KILLMAINTENANCEFEATURE, send_context 0, send_auth 1 ownerAuth, exchange nw,
      on_success [
        accept_auth 0 ownerAuth (go_on BAD [])]]"

definition RPC_LoadManuMaintPub_TP ::
  "'p net \<Rightarrow> u8 list \<Rightarrow> u32 \<Rightarrow> ptr \<Rightarrow> nat \<Rightarrow> 'p rpc" where
  "RPC_LoadManuMaintPub_TP nw antiReplay PubKeySize PubKey checksum = procedure [
      begin_request 4 TCSD_ORD_LOADMANUFACTURERMAINTENANCEPUB, send_context 0, send_array PT_NONCE 1 antiReplay,
      send_32 2 PubKeySize, send_bytes 3 PubKey PubKeySize, exchange nw,
      on_success [
        accept_array PT_DIGEST 0 checksum (go_on BAD [])]]"

definition RPC_ReadManuMaintPub_TP ::
  "'p net \<Rightarrow> u8 list \<Rightarrow> nat \<Rightarrow> 'p rpc" where
  "RPC_ReadManuMaintPub_TP nw antiReplay checksum = procedure [
      begin_request 2 TCSD_ORD_READMANUFACTURERMAINTENANCEPUB, send_context 0, send_array PT_NONCE 1 antiReplay,
      exchange nw,
      on_success [
        accept_array PT_DIGEST 0 checksum (go_on BAD [])]]"

section \<open>\<open>rpc_ek.c\<close>\<close>

definition RPC_CreateEndorsementKeyPair_TP ::
  "'p net \<Rightarrow> u8 list \<Rightarrow> u32 \<Rightarrow> ptr \<Rightarrow> nat \<Rightarrow> nat \<Rightarrow> nat \<Rightarrow> 'p rpc" where
  "RPC_CreateEndorsementKeyPair_TP nw antiReplay endorsementKeyInfoSize endorsementKeyInfo endorsementKeySize
     endorsementKey checksum = procedure [
      begin_request 4 TCSD_ORD_CREATEENDORSEMENTKEYPAIR, send_context 0, send_array PT_NONCE 1 antiReplay,
      send_32 2 endorsementKeyInfoSize, send_bytes 3 endorsementKeyInfo endorsementKeyInfoSize, exchange nw,
      on_success [
        accept_32 0 endorsementKeySize (quit BAD []), malloc_at endorsementKey endorsementKeySize 1 (quit NOMEM []),
        accept_bytes 1 endorsementKey endorsementKeySize 1 (quit BAD [Fr endorsementKey]),
        accept_array PT_DIGEST 2 checksum (go_on BAD [Fr endorsementKey])]]"

definition RPC_ReadPubek_TP ::
  "'p net \<Rightarrow> u8 list \<Rightarrow> nat \<Rightarrow> nat \<Rightarrow> nat \<Rightarrow> 'p rpc" where
  "RPC_ReadPubek_TP nw antiReplay pubEndorsementKeySize pubEndorsementKey checksum = procedure [
      begin_request 2 TCSD_ORD_READPUBEK, send_context 0, send_array PT_NONCE 1 antiReplay, exchange nw,
      on_success [
        accept_32 0 pubEndorsementKeySize (quit BAD []),
        malloc_at pubEndorsementKey pubEndorsementKeySize 1 (quit NOMEM []),
        accept_bytes 1 pubEndorsementKey pubEndorsementKeySize 1 (quit BAD [Fr pubEndorsementKey]),
        accept_array PT_DIGEST 2 checksum (go_on BAD [Fr pubEndorsementKey])]]"

definition RPC_DisablePubekRead_TP ::
  "'p net \<Rightarrow> place option \<Rightarrow> 'p rpc" where
  "RPC_DisablePubekRead_TP nw ownerAuth = procedure [
      begin_request 2 TCSD_ORD_DISABLEPUBEKREAD, send_context 0, send_auth 1 ownerAuth, exchange nw,
      on_success [
        accept_auth 0 ownerAuth (go_on BAD [])]]"

definition RPC_OwnerReadPubek_TP ::
  "'p net \<Rightarrow> place option \<Rightarrow> nat \<Rightarrow> nat \<Rightarrow> 'p rpc" where
  "RPC_OwnerReadPubek_TP nw ownerAuth pubEndorsementKeySize pubEndorsementKey = procedure [
      begin_request 2 TCSD_ORD_OWNERREADPUBEK, send_context 0, send_auth 1 ownerAuth, exchange nw,
      on_success [
        accept_auth 0 ownerAuth (go_on BAD [Fr pubEndorsementKey]), accept_32 1 pubEndorsementKeySize (quit BAD []),
        malloc_at pubEndorsementKey pubEndorsementKeySize 1 (quit NOMEM []),
        accept_bytes 2 pubEndorsementKey pubEndorsementKeySize 1 (quit BAD [Fr pubEndorsementKey])]]"

definition RPC_CreateRevocableEndorsementKeyPair_TP ::
  "'p net \<Rightarrow> u8 list \<Rightarrow> u32 \<Rightarrow> ptr \<Rightarrow> u8 \<Rightarrow> nat \<Rightarrow> nat \<Rightarrow> nat \<Rightarrow> nat \<Rightarrow> 'p rpc" where
  "RPC_CreateRevocableEndorsementKeyPair_TP nw antiReplay endorsementKeyInfoSize endorsementKeyInfo genResetAuth
     eKResetAuth endorsementKeySize endorsementKey checksum = procedure [
      begin_request 6 TCSD_ORD_CREATEREVOCABLEENDORSEMENTKEYPAIR, send_context 0, send_array PT_NONCE 1 antiReplay,
      send_32 2 endorsementKeyInfoSize, send_bytes 3 endorsementKeyInfo endorsementKeyInfoSize,
      send_bool 4 genResetAuth, send_place PT_DIGEST 5 (PArr eKResetAuth), exchange nw,
      on_success [
        accept_array PT_DIGEST 0 eKResetAuth (quit BAD []), accept_32 1 endorsementKeySize (quit BAD []),
        malloc_at endorsementKey endorsementKeySize 1 (quit NOMEM []),
        accept_bytes 2 endorsementKey endorsementKeySize 1 (quit BAD [Fr endorsementKey]),
        accept_array PT_DIGEST 3 checksum (go_on BAD [Fr endorsementKey])]]"

definition RPC_RevokeEndorsementKeyPair_TP ::
  "'p net \<Rightarrow> u8 list \<Rightarrow> 'p rpc" where
  "RPC_RevokeEndorsementKeyPair_TP nw EKResetAuth = procedure [
      begin_request 2 TCSD_ORD_REVOKEENDORSEMENTKEYPAIR, send_context 0, send_array PT_DIGEST 1 EKResetAuth, exchange nw]"

section \<open>\<open>rpc_nv.c\<close>\<close>

definition RPC_NV_DefineOrReleaseSpace_TP ::
  "'p net \<Rightarrow> u32 \<Rightarrow> ptr \<Rightarrow> u8 list \<Rightarrow> place option \<Rightarrow> 'p rpc" where
  "RPC_NV_DefineOrReleaseSpace_TP nw cPubInfoSize pPubInfo encAuth pAuth = procedure [
      begin_request 5 TCSD_ORD_NVDEFINEORRELEASESPACE, send_context 0, send_32 1 cPubInfoSize,
      send_bytes 2 pPubInfo cPubInfoSize, send_array PT_ENCAUTH 3 encAuth,
      if_then (pAuth \<noteq> None) [send_auth 4 pAuth], exchange nw,
      on_success [
        if_then (pAuth \<noteq> None) [accept_auth 0 pAuth (quit BAD [])]]]"

definition RPC_NV_WriteValue_TP ::
  "'p net \<Rightarrow> u32 \<Rightarrow> u32 \<Rightarrow> u32 \<Rightarrow> ptr \<Rightarrow> place option \<Rightarrow> 'p rpc" where
  "RPC_NV_WriteValue_TP nw hNVStore offset_in ulDataLength rgbDataToWrite privAuth = procedure [
      begin_request 6 TCSD_ORD_NVWRITEVALUE, send_context 0, send_32 1 hNVStore, send_32 2 offset_in,
      send_32 3 ulDataLength, send_bytes 4 rgbDataToWrite ulDataLength,
      if_then (privAuth \<noteq> None) [send_auth 5 privAuth], exchange nw,
      on_success [
        if_then (privAuth \<noteq> None) [accept_auth 0 privAuth (quit BAD [])]]]"

definition RPC_NV_WriteValueAuth_TP ::
  "'p net \<Rightarrow> u32 \<Rightarrow> u32 \<Rightarrow> u32 \<Rightarrow> ptr \<Rightarrow> place option \<Rightarrow> 'p rpc" where
  "RPC_NV_WriteValueAuth_TP nw hNVStore offset_in ulDataLength rgbDataToWrite NVAuth = procedure [
      begin_request 6 TCSD_ORD_NVWRITEVALUEAUTH, send_context 0, send_32 1 hNVStore, send_32 2 offset_in,
      send_32 3 ulDataLength, send_bytes 4 rgbDataToWrite ulDataLength,
      if_then (NVAuth \<noteq> None) [send_auth 5 NVAuth], exchange nw,
      on_success [
        if_then (NVAuth \<noteq> None) [accept_auth 0 NVAuth (quit BAD [])]]]"

definition RPC_NV_ReadValue_TP ::
  "'p net \<Rightarrow> u32 \<Rightarrow> u32 \<Rightarrow> nat \<Rightarrow> place option \<Rightarrow> nat \<Rightarrow> 'p rpc" where
  "RPC_NV_ReadValue_TP nw hNVStore offset_in pulDataLength privAuth rgbDataRead = procedure [
      begin_request 5 TCSD_ORD_NVREADVALUE, send_context 0, send_32 1 hNVStore, send_32 2 offset_in,
      send_place PT_UINT32 3 (P32 pulDataLength), if_then (privAuth \<noteq> None) [send_auth 4 privAuth],
      exchange nw,
      on_success [
        if_then (privAuth \<noteq> None) [accept_auth 0 privAuth (quit BAD [])],
        accept_32 (given [privAuth]) pulDataLength (quit BAD []),
        malloc_at rgbDataRead pulDataLength 1 (quit NOMEM []),
        accept_bytes (given [privAuth] + 1) rgbDataRead pulDataLength 1 (quit BAD [Fr rgbDataRead, Null
          rgbDataRead])]]"

definition RPC_NV_ReadValueAuth_TP ::
  "'p net \<Rightarrow> u32 \<Rightarrow> u32 \<Rightarrow> nat \<Rightarrow> place option \<Rightarrow> nat \<Rightarrow> 'p rpc" where
  "RPC_NV_ReadValueAuth_TP nw hNVStore offset_in pulDataLength NVAuth rgbDataRead = procedure [
      begin_request 5 TCSD_ORD_NVREADVALUEAUTH, send_context 0, send_32 1 hNVStore, send_32 2 offset_in,
      send_place PT_UINT32 3 (P32 pulDataLength), if_then (NVAuth \<noteq> None) [send_auth 4 NVAuth], exchange nw,
      on_success [
        if_then (NVAuth \<noteq> None) [accept_auth 0 NVAuth (quit BAD [])],
        accept_32 (given [NVAuth]) pulDataLength (quit BAD []),
        malloc_at rgbDataRead pulDataLength 1 (quit NOMEM []),
        accept_bytes (given [NVAuth] + 1) rgbDataRead pulDataLength 1 (quit BAD [Fr rgbDataRead, Null rgbDataRead])]]"

section \<open>\<open>rpc_counter.c\<close>\<close>

definition RPC_ReadCounter_TP ::
  "'p net \<Rightarrow> u32 \<Rightarrow> nat \<Rightarrow> 'p rpc" where
  "RPC_ReadCounter_TP nw idCounter counterValue = procedure [
      begin_request 2 TCSD_ORD_READCOUNTER, send_context 0, send_32 1 idCounter, exchange nw,
      on_success [
        accept PT_COUNTER_VALUE 0 (PCtr counterValue) 0 (go_on BAD [])]]"

definition RPC_CreateCounter_TP ::
  "'p net \<Rightarrow> u32 \<Rightarrow> u8 list \<Rightarrow> u8 list \<Rightarrow> place option \<Rightarrow> nat \<Rightarrow> nat \<Rightarrow> 'p rpc" where
  "RPC_CreateCounter_TP nw LabelSize pLabel CounterAuth pOwnerAuth idCounter counterValue = procedure [
      begin_request 5 TCSD_ORD_CREATECOUNTER, send_context 0, send_32 1 LabelSize, send_bytes 2 (Buf pLabel) LabelSize,
      send_array PT_ENCAUTH 3 CounterAuth, send_auth 4 pOwnerAuth, exchange nw,
      on_success [
        accept_auth 0 pOwnerAuth (quit BAD []), accept_32 1 idCounter (quit BAD []),
        accept PT_COUNTER_VALUE 2 (PCtr counterValue) 0 (quit BAD [])]]"

definition RPC_IncrementCounter_TP ::
  "'p net \<Rightarrow> u32 \<Rightarrow> place option \<Rightarrow> nat \<Rightarrow> 'p rpc" where
  "RPC_IncrementCounter_TP nw idCounter pCounterAuth counterValue = procedure [
      begin_request 3 TCSD_ORD_INCREMENTCOUNTER, send_context 0, send_32 1 idCounter, send_auth 2 pCounterAuth,
      exchange nw,
      on_success [
        accept_auth 0 pCounterAuth (quit BAD []), accept PT_COUNTER_VALUE 1 (PCtr counterValue) 0 (quit BAD [])]]"

definition RPC_ReleaseCounter_TP ::
  "'p net \<Rightarrow> u32 \<Rightarrow> place option \<Rightarrow> 'p rpc" where
  "RPC_ReleaseCounter_TP nw idCounter pCounterAuth = procedure [
      begin_request 3 TCSD_ORD_RELEASECOUNTER, send_context 0, send_32 1 idCounter, send_auth 2 pCounterAuth, exchange nw,
      on_success [
        accept_auth 0 pCounterAuth (go_on BAD [])]]"

definition RPC_ReleaseCounterOwner_TP ::
  "'p net \<Rightarrow> u32 \<Rightarrow> place option \<Rightarrow> 'p rpc" where
  "RPC_ReleaseCounterOwner_TP nw idCounter pOwnerAuth = procedure [
      begin_request 3 TCSD_ORD_RELEASECOUNTEROWNER, send_context 0, send_32 1 idCounter, send_auth 2 pOwnerAuth,
      exchange nw,
      on_success [
        accept_auth 0 pOwnerAuth (go_on BAD [])]]"

section \<open>\<open>rpc_admin.c\<close>\<close>

definition RPC_SetOwnerInstall_TP ::
  "'p net \<Rightarrow> u8 \<Rightarrow> 'p rpc" where
  "RPC_SetOwnerInstall_TP nw state = procedure [
      begin_request 2 TCSD_ORD_SETOWNERINSTALL, send_context 0, send_bool 1 state, exchange nw]"

definition RPC_DisableOwnerClear_TP ::
  "'p net \<Rightarrow> place option \<Rightarrow> 'p rpc" where
  "RPC_DisableOwnerClear_TP nw ownerAuth = procedure [
      begin_request 2 TCSD_ORD_DISABLEOWNERCLEAR, send_context 0, send_auth 1 ownerAuth, exchange nw,
      on_success [
        accept_auth 0 ownerAuth (go_on BAD [])]]"

definition RPC_ForceClear_TP ::
  "'p net \<Rightarrow> 'p rpc" where
  "RPC_ForceClear_TP nw = procedure [
      begin_request 1 TCSD_ORD_FORCECLEAR, send_context 0, exchange nw]"

definition RPC_DisableForceClear_TP ::
  "'p net \<Rightarrow> 'p rpc" where
  "RPC_DisableForceClear_TP nw = procedure [
      begin_request 1 TCSD_ORD_DISABLEFORCECLEAR, send_context 0, exchange nw]"

definition RPC_PhysicalDisable_TP ::
  "'p net \<Rightarrow> 'p rpc" where
  "RPC_PhysicalDisable_TP nw = procedure [
      begin_request 1 TCSD_ORD_PHYSICALDISABLE, send_context 0, exchange nw]"

definition RPC_PhysicalEnable_TP ::
  "'p net \<Rightarrow> 'p rpc" where
  "RPC_PhysicalEnable_TP nw = procedure [
      begin_request 1 TCSD_ORD_PHYSICALENABLE, send_context 0, exchange nw]"

definition RPC_OwnerSetDisable_TP ::
  "'p net \<Rightarrow> u8 \<Rightarrow> place option \<Rightarrow> 'p rpc" where
  "RPC_OwnerSetDisable_TP nw disableState ownerAuth = procedure [
      begin_request 3 TCSD_ORD_OWNERSETDISABLE, send_context 0, send_bool 1 disableState, send_auth 2 ownerAuth,
      exchange nw,
      on_success [
        accept_auth 0 ownerAuth (go_on BAD [])]]"

definition RPC_PhysicalSetDeactivated_TP ::
  "'p net \<Rightarrow> u8 \<Rightarrow> 'p rpc" where
  "RPC_PhysicalSetDeactivated_TP nw state = procedure [
      begin_request 2 TCSD_ORD_PHYSICALSETDEACTIVATED, send_context 0, send_bool 1 state, exchange nw]"

definition RPC_PhysicalPresence_TP ::
  "'p net \<Rightarrow> u16 \<Rightarrow> 'p rpc" where
  "RPC_PhysicalPresence_TP nw fPhysicalPresence = procedure [
      begin_request 2 TCSD_ORD_PHYSICALPRESENCE, send_context 0, send_16 1 fPhysicalPresence, exchange nw]"

definition RPC_SetTempDeactivated_TP ::
  "'p net \<Rightarrow> 'p rpc" where
  "RPC_SetTempDeactivated_TP nw = procedure [
      begin_request 1 TCSD_ORD_SETTEMPDEACTIVATED, send_context 0, exchange nw]"

definition RPC_SetTempDeactivated2_TP ::
  "'p net \<Rightarrow> place option \<Rightarrow> 'p rpc" where
  "RPC_SetTempDeactivated2_TP nw operatorAuth = procedure [
      begin_request 2 TCSD_ORD_SETTEMPDEACTIVATED2, send_context 0,
      if_else (operatorAuth \<noteq> None) [send_auth 1 operatorAuth] [send_null 1], exchange nw,
      on_success [
        if_then (operatorAuth \<noteq> None) [accept_auth 0 operatorAuth (go_on BAD [])]]]"

definition RPC_FieldUpgrade_TP :: "'p rpc" where
  "RPC_FieldUpgrade_TP st = Some (TSPERR TSS_E_NOTIMPL, st)"

definition RPC_SetRedirection_TP :: "'p rpc" where
  "RPC_SetRedirection_TP st = Some (TSPERR TSS_E_NOTIMPL, st)"

definition RPC_ResetLockValue_TP ::
  "'p net \<Rightarrow> place option \<Rightarrow> 'p rpc" where
  "RPC_ResetLockValue_TP nw ownerAuth = procedure [
      begin_request 2 TCSD_ORD_RESETLOCKVALUE, send_context 0, send_auth 1 ownerAuth, exchange nw,
      on_success [
        accept_auth 0 ownerAuth (go_on BAD [])]]"

definition RPC_FlushSpecific_TP ::
  "'p net \<Rightarrow> u32 \<Rightarrow> u32 \<Rightarrow> 'p rpc" where
  "RPC_FlushSpecific_TP nw hResHandle resourceType = procedure [
      begin_request 3 TCSD_ORD_FLUSHSPECIFIC, send_context 0, send_32 1 hResHandle, send_32 2 resourceType, exchange nw]"

section \<open>\<open>rpc_daa.c\<close>\<close>

definition RPC_DaaJoin_TP ::
  "'p net \<Rightarrow> u32 \<Rightarrow> u8 \<Rightarrow> u32 \<Rightarrow> ptr \<Rightarrow> u32 \<Rightarrow> ptr \<Rightarrow> place option \<Rightarrow> nat \<Rightarrow> nat \<Rightarrow> 'p rpc" where
  "RPC_DaaJoin_TP nw handle stage inputSize0 inputData0 inputSize1 inputData1 ownerAuth outputSize outputData =
     procedure [
      begin_request 8 TCSD_ORD_DAAJOIN, send_context 0, send_32 1 handle, send_byte 2 stage, send_32 3 inputSize0,
      send_bytes 4 inputData0 inputSize0, send_32 5 inputSize1, send_bytes 6 inputData1 inputSize1,
      if_then (ownerAuth \<noteq> None) [send_auth 7 ownerAuth], exchange nw,
      on_success [
        if_then (ownerAuth \<noteq> None) [accept_auth 0 ownerAuth (quit BAD [])],
        accept_32 (given [ownerAuth]) outputSize (quit BAD []), malloc_at outputData outputSize 1 (quit NOMEM []),
        accept_bytes (given [ownerAuth] + 1) outputData outputSize 1 (quit BAD [Fr outputData, Null outputData])]]"

definition RPC_DaaSign_TP ::
  "'p net \<Rightarrow> u32 \<Rightarrow> u8 \<Rightarrow> u32 \<Rightarrow> ptr \<Rightarrow> u32 \<Rightarrow> ptr \<Rightarrow> place option \<Rightarrow> nat \<Rightarrow> nat \<Rightarrow> 'p rpc" where
  "RPC_DaaSign_TP nw handle stage inputSize0 inputData0 inputSize1 inputData1 ownerAuth outputSize outputData =
     procedure [
      begin_request 8 TCSD_ORD_DAASIGN, send_context 0, send_32 1 handle, send_byte 2 stage, send_32 3 inputSize0,
      send_bytes 4 inputData0 inputSize0, send_32 5 inputSize1, send_bytes 6 inputData1 inputSize1,
      if_then (ownerAuth \<noteq> None) [send_auth 7 ownerAuth], exchange nw,
      on_success [
        if_then (ownerAuth \<noteq> None) [accept_auth 0 ownerAuth (quit BAD [])],
        accept_32 (given [ownerAuth]) outputSize (quit BAD []), malloc_at outputData outputSize 1 (quit NOMEM []),
        accept_bytes (given [ownerAuth] + 1) outputData outputSize 1 (quit BAD [Fr outputData, Null outputData])]]"

end
