(* ===== verification/Rpc_Client_Keys.thy ===== *)
theory Rpc_Client_Keys
  imports Rpc_Client
begin

text \<open>
  The remote calls for keys and sessions: authorization sessions, loading and creating keys, registered keys, binding,
  sealing, signing, quotes, certificates, changes of secrets, migration, identities, delegation, transport sessions
  (\<open>tspi/rpc/tcstp/rpc_{auth,key,ps,bind,seal,sign,quote,quote2,certify,changeauth,migration,cmk,aik,delegate,
  transport}.c\<close>).
\<close>

section \<open>\<open>rpc_auth.c\<close>\<close>

definition RPC_OIAP_TP ::
  "'p net \<Rightarrow> nat \<Rightarrow> nat \<Rightarrow> 'p rpc" where
  "RPC_OIAP_TP nw authHandle nonce0 = procedure [
      begin_request 1 TCSD_ORD_OIAP, send_context 0, exchange nw,
      on_success [
        accept_32 0 authHandle (go_on BAD []), accept_array PT_NONCE 1 nonce0 (go_on BAD [])]]"

definition RPC_OSAP_TP ::
  "'p net \<Rightarrow> u16 \<Rightarrow> u32 \<Rightarrow> u8 list \<Rightarrow> nat \<Rightarrow> nat \<Rightarrow> nat \<Rightarrow> 'p rpc" where
  "RPC_OSAP_TP nw entityType entityValue nonceOddOSAP authHandle nonceEven nonceEvenOSAP = procedure [
      begin_request 4 TCSD_ORD_OSAP, send_context 0, send_16 1 entityType, send_32 2 entityValue,
      send_array PT_NONCE 3 nonceOddOSAP, exchange nw,
      on_success [
        accept_32 0 authHandle (go_on BAD []), accept_array PT_NONCE 1 nonceEven (go_on BAD []),
        accept_array PT_NONCE 2 nonceEvenOSAP (go_on BAD [])]]"

definition RPC_APCREATE_TP ::
  "'p net \<Rightarrow> u16 \<Rightarrow> u32 \<Rightarrow> u8 list \<Rightarrow> u8 list \<Rightarrow> nat \<Rightarrow> nat \<Rightarrow> nat \<Rightarrow> nat \<Rightarrow> 'p rpc" where
  "RPC_APCREATE_TP nw entityType entityValue nonceOdd inMac authHandle nonceEven seq outMac = procedure [
      begin_request 5 TCSD_ORD_APCREATE, send_context 0, send_16 1 entityType, send_32 2 entityValue,
      send_array PT_NONCE 3 nonceOdd, send_array PT_AUTH_DATA 4 inMac, exchange nw,
      on_success [
        accept_32 0 authHandle (go_on BAD []), accept_array PT_NONCE 1 nonceEven (go_on BAD []),
        accept_32 2 seq (go_on BAD []), accept_array PT_AUTH_DATA 3 outMac (go_on BAD [])]]"

section \<open>\<open>rpc_key.c\<close>\<close>

definition RPC_LoadKeyByBlob_TP ::
  "'p net \<Rightarrow> u32 \<Rightarrow> u32 \<Rightarrow> ptr \<Rightarrow> place option \<Rightarrow> nat \<Rightarrow> nat \<Rightarrow> 'p rpc" where
  "RPC_LoadKeyByBlob_TP nw hUnwrappingKey cWrappedKeyBlobSize rgbWrappedKeyBlob pAuth phKeyTCSI phKeyHMAC =
     procedure [
      begin_request 5 TCSD_ORD_LOADKEYBYBLOB, send_context 0, send_32 1 hUnwrappingKey, send_32 2 cWrappedKeyBlobSize,
      send_bytes 3 rgbWrappedKeyBlob cWrappedKeyBlobSize, if_then (pAuth \<noteq> None) [send_auth 4 pAuth],
      exchange nw,
      on_success [
        if_then (pAuth \<noteq> None) [accept_auth 0 pAuth (go_on BAD [])],
        accept_32 (given [pAuth]) phKeyTCSI (go_on BAD []), accept_32 (given [pAuth] + 1) phKeyHMAC (go_on BAD [])]]"

definition RPC_EvictKey_TP ::
  "'p net \<Rightarrow> u32 \<Rightarrow> 'p rpc" where
  "RPC_EvictKey_TP nw hKey = procedure [
      begin_request 2 TCSD_ORD_EVICTKEY, send_context 0, send_32 1 hKey, exchange nw]"

definition RPC_CreateWrapKey_TP ::
  "'p net \<Rightarrow> u32 \<Rightarrow> u8 list \<Rightarrow> u8 list \<Rightarrow> u32 \<Rightarrow> ptr \<Rightarrow> nat \<Rightarrow> nat \<Rightarrow> place option \<Rightarrow> 'p rpc" where
  "RPC_CreateWrapKey_TP nw hWrappingKey KeyUsageAuth KeyMigrationAuth keyInfoSize keyInfo keyDataSize keyData pAuth
     = procedure [
      begin_request 7 TCSD_ORD_CREATEWRAPKEY, send_context 0, send_32 1 hWrappingKey,
      send_array PT_ENCAUTH 2 KeyUsageAuth, send_array PT_ENCAUTH 3 KeyMigrationAuth, send_32 4 keyInfoSize,
      send_bytes 5 keyInfo keyInfoSize, if_then (pAuth \<noteq> None) [send_auth 6 pAuth], exchange nw,
      on_success [
        accept_32 0 keyDataSize (quit BAD []), malloc_at keyData keyDataSize 1 (quit NOMEM []),
        accept_bytes 1 keyData keyDataSize 1 (quit BAD [Fr keyData]),
        if_then (pAuth \<noteq> None) [accept_auth 2 pAuth (quit BAD [Fr keyData])]]]"

definition RPC_GetPubKey_TP ::
  "'p net \<Rightarrow> u32 \<Rightarrow> place option \<Rightarrow> nat \<Rightarrow> nat \<Rightarrow> 'p rpc" where
  "RPC_GetPubKey_TP nw hKey pAuth pcPubKeySize prgbPubKey = procedure [
      begin_request 3 TCSD_ORD_GETPUBKEY, send_context 0, send_32 1 hKey,
      if_then (pAuth \<noteq> None) [send_auth 2 pAuth], exchange nw,
      on_success [
        if_then (pAuth \<noteq> None) [accept_auth 0 pAuth (quit BAD [])],
        accept_32 (given [pAuth]) pcPubKeySize (quit BAD []), malloc_at prgbPubKey pcPubKeySize 1 (quit NOMEM []),
        accept_bytes (given [pAuth] + 1) prgbPubKey pcPubKeySize 1 (go_on BAD [Fr prgbPubKey])]]"

definition RPC_TerminateHandle_TP ::
  "'p net \<Rightarrow> u32 \<Rightarrow> 'p rpc" where
  "RPC_TerminateHandle_TP nw handle = procedure [
      begin_request 2 TCSD_ORD_TERMINATEHANDLE, send_context 0, send_32 1 handle, exchange nw]"

definition RPC_OwnerReadInternalPub_TP ::
  "'p net \<Rightarrow> u32 \<Rightarrow> place option \<Rightarrow> nat \<Rightarrow> nat \<Rightarrow> 'p rpc" where
  "RPC_OwnerReadInternalPub_TP nw hKey pOwnerAuth punPubKeySize ppbPubKeyData = procedure [
      begin_request 3 TCSD_ORD_OWNERREADINTERNALPUB, send_context 0, send_32 1 hKey,
      if_then (pOwnerAuth \<noteq> None) [send_auth 2 pOwnerAuth], exchange nw,
      on_success [
        accept_auth 0 pOwnerAuth (go_on BAD []), accept_32 1 punPubKeySize (go_on BAD []),
        malloc_at ppbPubKeyData punPubKeySize 1 (quit NOMEM []),
        accept_bytes 2 ppbPubKeyData punPubKeySize 1 (go_on BAD [Fr ppbPubKeyData])]]"

definition RPC_KeyControlOwner_TP ::
  "'p net \<Rightarrow> u32 \<Rightarrow> u32 \<Rightarrow> ptr \<Rightarrow> u32 \<Rightarrow> u8 \<Rightarrow> place option \<Rightarrow> nat \<Rightarrow> 'p rpc" where
  "RPC_KeyControlOwner_TP nw hKey ulPublicInfoLength rgbPublicInfo attribName attribValue pOwnerAuth pUuidData =
     procedure [
      begin_request 7 TCSD_ORD_KEYCONTROLOWNER, send_context 0, send_32 1 hKey, send_32 2 ulPublicInfoLength,
      send_bytes 3 rgbPublicInfo ulPublicInfoLength, send_32 4 attribName, send_bool 5 attribValue,
      if_then (pOwnerAuth \<noteq> None) [send_auth 6 pOwnerAuth], exchange nw,
      on_success [
        accept_auth 0 pOwnerAuth (go_on BAD []), accept PT_UUID 1 (PUuid pUuidData) 0 (go_on BAD [])]]"

section \<open>\<open>rpc_ps.c\<close>\<close>

definition RPC_GetRegisteredKeyByPublicInfo_TP ::
  "'p net \<Rightarrow> u32 \<Rightarrow> u32 \<Rightarrow> ptr \<Rightarrow> nat \<Rightarrow> nat \<Rightarrow> 'p rpc" where
  "RPC_GetRegisteredKeyByPublicInfo_TP nw algID ulPublicInfoLength rgbPublicInfo keySize keyBlob = procedure [
      begin_request 4 TCSD_ORD_GETREGISTEREDKEYBYPUBLICINFO, send_context 0, send_32 1 algID,
      send_32 2 ulPublicInfoLength, send_bytes 3 rgbPublicInfo ulPublicInfoLength, exchange nw,
      on_success [
        accept_32 0 keySize (quit BAD []), malloc_at keyBlob keySize 1 (quit NOMEM []),
        accept_bytes 1 keyBlob keySize 1 (quit BAD [Fr keyBlob])]]"

definition RPC_RegisterKey_TP ::
  "'p net \<Rightarrow> TSS_UUID \<Rightarrow> TSS_UUID \<Rightarrow> u32 \<Rightarrow> ptr \<Rightarrow> u32 \<Rightarrow> ptr \<Rightarrow> 'p rpc" where
  "RPC_RegisterKey_TP nw WrappingKeyUUID KeyUUID cKeySize rgbKey cVendorData gbVendorData = procedure [
      begin_request 7 TCSD_ORD_REGISTERKEY, send_context 0, send_data PT_UUID 1 (DUuid WrappingKeyUUID) 0,
      send_data PT_UUID 2 (DUuid KeyUUID) 0, send_32 3 cKeySize, send_bytes 4 rgbKey cKeySize,
      send_32 5 cVendorData, send_bytes 6 gbVendorData cVendorData, exchange nw]"

definition RPC_UnregisterKey_TP ::
  "'p net \<Rightarrow> TSS_UUID \<Rightarrow> 'p rpc" where
  "RPC_UnregisterKey_TP nw KeyUUID = procedure [
      begin_request 2 TCSD_ORD_UNREGISTERKEY, send_context 0, send_data PT_UUID 1 (DUuid KeyUUID) 0, exchange nw]"

definition RPC_GetRegisteredKey_TP :: "'p rpc" where
  "RPC_GetRegisteredKey_TP st = Some (TSPERR TSS_E_NOTIMPL, st)"

definition RPC_GetRegisteredKeyBlob_TP ::
  "'p net \<Rightarrow> TSS_UUID \<Rightarrow> nat \<Rightarrow> nat \<Rightarrow> 'p rpc" where
  "RPC_GetRegisteredKeyBlob_TP nw KeyUUID pcKeySize prgbKey = procedure [
      begin_request 2 TCSD_ORD_GETREGISTEREDKEYBLOB, send_context 0, send_data PT_UUID 1 (DUuid KeyUUID) 0, exchange nw,
      on_success [
        accept_32 0 pcKeySize (quit BAD []), malloc_at prgbKey pcKeySize 1 (quit NOMEM []),
        accept_bytes 1 prgbKey pcKeySize 1 (go_on BAD [Fr prgbKey])]]"

text \<open>When the daemon needs an authorization it fails with \<open>TCS_E_KM_LOADFAILED\<close> and sends what has to be
  authorized.\<close>

definition RPC_LoadKeyByUUID_TP :: "'p net \<Rightarrow> TSS_UUID \<Rightarrow> place option \<Rightarrow> nat \<Rightarrow> 'p rpc" where
  "RPC_LoadKeyByUUID_TP nw KeyUUID pLoadKeyInfo phKeyTCSI = procedure [
      begin_request 3 TCSD_ORD_LOADKEYBYUUID, send_context 0, send_data PT_UUID 1 (DUuid KeyUUID) 0,
      (case pLoadKeyInfo of None \<Rightarrow> steps [] | Some p \<Rightarrow> send_place PT_LOADKEY_INFO 2 p), exchange nw,
      on_result (\<lambda>r. r = TSS_SUCCESS) [accept_32 0 phKeyTCSI (go_on BAD [])] [
        (case pLoadKeyInfo of None \<Rightarrow> steps []
         | Some p \<Rightarrow> on_result (\<lambda>r. r = TCSERR 0x0CA) [accept PT_LOADKEY_INFO 0 p 0 (go_on BAD [])] [])]]"

section \<open>\<open>rpc_bind.c\<close>\<close>

definition RPC_UnBind_TP ::
  "'p net \<Rightarrow> u32 \<Rightarrow> u32 \<Rightarrow> ptr \<Rightarrow> place option \<Rightarrow> nat \<Rightarrow> nat \<Rightarrow> 'p rpc" where
  "RPC_UnBind_TP nw keyHandle inDataSize inData privAuth outDataSize outData = procedure [
      begin_request 5 TCSD_ORD_UNBIND, send_context 0, send_32 1 keyHandle, send_32 2 inDataSize,
      send_bytes 3 inData inDataSize, if_then (privAuth \<noteq> None) [send_auth 4 privAuth], exchange nw,
      on_success [
        if_then (privAuth \<noteq> None) [accept_auth 0 privAuth (quit BAD [])],
        accept_32 (given [privAuth]) outDataSize (quit BAD []), malloc_at outData outDataSize 1 (quit NOMEM []),
        accept_bytes (given [privAuth] + 1) outData outDataSize 1 (go_on BAD [Fr outData])]]"

section \<open>\<open>rpc_seal.c\<close>\<close>

definition common_Seal_TP ::
  "u32 \<Rightarrow> 'p net \<Rightarrow> u32 \<Rightarrow> u8 list \<Rightarrow> u32 \<Rightarrow> ptr \<Rightarrow> u32 \<Rightarrow> ptr \<Rightarrow> place option \<Rightarrow> nat \<Rightarrow> nat \<Rightarrow> 'p rpc" where
  "common_Seal_TP sealOrdinal nw keyHandle encAuth pcrInfoSize PcrInfo inDataSize inData pubAuth SealedDataSize SealedData =
     (let i = (if 0 < pcrInfoSize then 5 else 4); j = (if 0 < inDataSize then i + 2 else i + 1)
      in procedure [
      begin_request 8 sealOrdinal, send_context 0, send_32 1 keyHandle, send_array PT_ENCAUTH 2 encAuth, send_32 3 pcrInfoSize,
      if_then (0 < pcrInfoSize) [send_bytes 4 PcrInfo pcrInfoSize], send_32 i inDataSize,
      if_then (0 < inDataSize) [send_bytes (i + 1) inData inDataSize], send_auth j pubAuth, exchange nw,
      on_header [
        accept_auth 0 pubAuth (quit BAD []), accept_32 1 SealedDataSize (quit BAD []),
        malloc_at SealedData SealedDataSize 1 (quit NOMEM []),
        accept_bytes 2 SealedData SealedDataSize 1 (go_on BAD [Fr SealedData])]])"

definition RPC_Seal_TP ::
  "'p net \<Rightarrow> u32 \<Rightarrow> u8 list \<Rightarrow> u32 \<Rightarrow> ptr \<Rightarrow> u32 \<Rightarrow> ptr \<Rightarrow> place option \<Rightarrow> nat \<Rightarrow> nat \<Rightarrow> 'p rpc" where
  "RPC_Seal_TP = common_Seal_TP TCSD_ORD_SEAL"

definition RPC_Sealx_TP ::
  "'p net \<Rightarrow> u32 \<Rightarrow> u8 list \<Rightarrow> u32 \<Rightarrow> ptr \<Rightarrow> u32 \<Rightarrow> ptr \<Rightarrow> place option \<Rightarrow> nat \<Rightarrow> nat \<Rightarrow> 'p rpc" where
  "RPC_Sealx_TP = common_Seal_TP TCSD_ORD_SEALX"

definition RPC_Unseal_TP ::
  "'p net \<Rightarrow> u32 \<Rightarrow> u32 \<Rightarrow> ptr \<Rightarrow> place option \<Rightarrow> place option \<Rightarrow> nat \<Rightarrow> nat \<Rightarrow> 'p rpc" where
  "RPC_Unseal_TP nw parentHandle SealedDataSize SealedData parentAuth dataAuth DataSize Data = procedure [
      begin_request 6 TCSD_ORD_UNSEAL, send_context 0, send_32 1 parentHandle, send_32 2 SealedDataSize,
      send_bytes 3 SealedData SealedDataSize, if_then (parentAuth \<noteq> None) [send_auth 4 parentAuth],
      send_auth 5 dataAuth, exchange nw,
      on_success [
        if_then (parentAuth \<noteq> None) [accept_auth 0 parentAuth (quit BAD [])],
        accept_auth 1 dataAuth (quit BAD []), accept_32 2 DataSize (quit BAD []),
        malloc_at Data DataSize 1 (quit NOMEM []), accept_bytes 3 Data DataSize 1 (go_on BAD [Fr Data])]]"

section \<open>\<open>rpc_sign.c\<close>\<close>

text \<open>The signature comes from \<open>malloc\<close>, so \<open>free_tspi\<close> does not know it and fails with
  \<open>TSS_E_INVALID_RESOURCE\<close>; that is the result of the call, and \<open>free\<close> releases the signature.\<close>

definition RPC_Sign_TP ::
  "'p net \<Rightarrow> u32 \<Rightarrow> u32 \<Rightarrow> ptr \<Rightarrow> place option \<Rightarrow> nat \<Rightarrow> nat \<Rightarrow> 'p rpc" where
  "RPC_Sign_TP nw keyHandle areaToSignSize areaToSign privAuth sigSize sig = procedure [
      begin_request 5 TCSD_ORD_SIGN, send_context 0, send_32 1 keyHandle, send_32 2 areaToSignSize,
      send_bytes 3 areaToSign areaToSignSize, if_then (privAuth \<noteq> None) [send_auth 4 privAuth], exchange nw,
      on_success [
        if_then (privAuth \<noteq> None) [accept_auth 0 privAuth (quit BAD [])], accept_32 (given [privAuth]) sigSize (quit BAD []),
        malloc_at sig sigSize 1 (quit NOMEM []),
        accept_bytes (given [privAuth] + 1) sig sigSize 1 (go_on (TSPERR 0x13A) [Fr sig])]]"

section \<open>\<open>rpc_quote.c\<close>\<close>

definition RPC_Quote_TP ::
  "'p net \<Rightarrow> u32 \<Rightarrow> u8 list \<Rightarrow> u32 \<Rightarrow> ptr \<Rightarrow> place option \<Rightarrow> nat \<Rightarrow> nat \<Rightarrow> nat \<Rightarrow> nat \<Rightarrow> 'p rpc" where
  "RPC_Quote_TP nw keyHandle antiReplay pcrDataSizeIn pcrDataIn privAuth pcrDataSizeOut pcrDataOut sigSize sig =
     procedure [
      begin_request 6 TCSD_ORD_QUOTE, send_context 0, send_32 1 keyHandle, send_array PT_NONCE 2 antiReplay,
      send_32 3 pcrDataSizeIn, send_bytes 4 pcrDataIn pcrDataSizeIn,
      if_then (privAuth \<noteq> None) [send_auth 5 privAuth], exchange nw,
      on_success [
        if_then (privAuth \<noteq> None) [accept_auth 0 privAuth (quit BAD [])],
        accept_32 (given [privAuth]) pcrDataSizeOut (quit BAD []),
        malloc_at pcrDataOut pcrDataSizeOut 1 (quit NOMEM []),
        accept_bytes (given [privAuth] + 1) pcrDataOut pcrDataSizeOut 1 (quit BAD [Fr pcrDataOut]),
        accept_32 (given [privAuth] + 2) sigSize (quit BAD [Fr pcrDataOut]),
        malloc_at sig sigSize 1 (quit NOMEM [Fr pcrDataOut]),
        accept_bytes (given [privAuth] + 3) sig sigSize 1 (go_on BAD [Fr pcrDataOut, Fr sig])]]"

section \<open>\<open>rpc_quote2.c\<close>\<close>

definition RPC_Quote2_TP ::
  "'p net \<Rightarrow> u32 \<Rightarrow> u8 list \<Rightarrow> u32 \<Rightarrow> ptr \<Rightarrow> u8 \<Rightarrow> place option \<Rightarrow> nat \<Rightarrow> nat \<Rightarrow> nat \<Rightarrow> nat \<Rightarrow> nat \<Rightarrow> nat \<Rightarrow> 'p rpc" where
  "RPC_Quote2_TP nw keyHandle antiReplay pcrDataSizeIn pcrDataIn addVersion privAuth pcrDataSizeOut pcrDataOut
     versionInfoSize versionInfo sigSize sig = procedure [
      begin_request 7 TCSD_ORD_QUOTE2, send_context 0, send_32 1 keyHandle, send_array PT_NONCE 2 antiReplay,
      send_32 3 pcrDataSizeIn, send_bytes 4 pcrDataIn pcrDataSizeIn, send_bool 5 addVersion,
      if_then (privAuth \<noteq> None) [send_auth 6 privAuth], exchange nw,
      on_success [
        if_then (privAuth \<noteq> None) [accept_auth 0 privAuth (quit BAD [])],
        accept_32 (given [privAuth]) pcrDataSizeOut (quit BAD []), malloc_at pcrDataOut pcrDataSizeOut 1 (quit NOMEM []),
        accept_bytes (given [privAuth] + 1) pcrDataOut pcrDataSizeOut 1 (quit BAD [Fr pcrDataOut]),
        accept_32 (given [privAuth] + 2) versionInfoSize (quit BAD [Fr pcrDataOut]),
        with_word versionInfoSize (\<lambda>n. [
          if_then (0 < n) [
            malloc_at versionInfo versionInfoSize 1 (quit NOMEM [Fr pcrDataOut]),
            accept_bytes (given [privAuth] + 3) versionInfo versionInfoSize 1 (quit BAD [Fr pcrDataOut, Fr versionInfo])],
          let i = given [privAuth] + (if 0 < n then 4 else 3); version = (if addVersion \<noteq> 0 then [Fr versionInfo] else [])
          in steps [
            accept_32 i sigSize (quit BAD (Fr pcrDataOut # version)),
            malloc_at sig sigSize 1 (quit NOMEM (Fr pcrDataOut # version)),
            accept_bytes (i + 1) sig sigSize 1 (go_on BAD (Fr pcrDataOut # version @ [Fr sig]))]])]]"

section \<open>\<open>rpc_certify.c\<close>\<close>

definition RPC_CertifyKey_TP ::
  "'p net \<Rightarrow> u32 \<Rightarrow> u32 \<Rightarrow> u8 list \<Rightarrow> place option \<Rightarrow> place option \<Rightarrow> nat \<Rightarrow> nat \<Rightarrow> nat \<Rightarrow> nat \<Rightarrow> 'p rpc" where
  "RPC_CertifyKey_TP nw certHandle keyHandle antiReplay certAuth keyAuth CertifyInfoSize CertifyInfo outDataSize
     outData = procedure [
      begin_request 6 TCSD_ORD_CERTIFYKEY, send_context 0, send_32 1 certHandle, send_32 2 keyHandle,
      send_array PT_NONCE 3 antiReplay, if_else (certAuth \<noteq> None) [send_auth 4 certAuth] [send_null 4],
      if_else (keyAuth \<noteq> None) [send_auth 5 keyAuth] [send_null 5], exchange nw,
      on_success [
        if_then (certAuth \<noteq> None) [accept_auth 0 certAuth (quit BAD [])],
        if_then (keyAuth \<noteq> None) [accept_auth (given [certAuth]) keyAuth (quit BAD [])],
        accept_32 (given [certAuth, keyAuth]) CertifyInfoSize (quit BAD []),
        malloc_at CertifyInfo CertifyInfoSize 1 (quit NOMEM []),
        accept_bytes (given [certAuth, keyAuth] + 1) CertifyInfo CertifyInfoSize 1 (quit BAD [Fr CertifyInfo]),
        accept_32 (given [certAuth, keyAuth] + 2) outDataSize (quit BAD [Fr CertifyInfo]),
        malloc_at outData outDataSize 1 (quit NOMEM [Fr CertifyInfo]),
        accept_bytes (given [certAuth, keyAuth] + 3) outData outDataSize 1 (quit BAD [Fr CertifyInfo, Fr outData])]]"

section \<open>\<open>rpc_changeauth.c\<close>\<close>

definition RPC_ChangeAuth_TP ::
  "'p net \<Rightarrow> u32 \<Rightarrow> u16 \<Rightarrow> u8 list \<Rightarrow> u16 \<Rightarrow> u32 \<Rightarrow> ptr \<Rightarrow> place option \<Rightarrow> place option \<Rightarrow> nat \<Rightarrow> nat \<Rightarrow> 'p rpc" where
  "RPC_ChangeAuth_TP nw parentHandle protocolID newAuth entityType encDataSize encData ownerAuth entityAuth
     outDataSize outData = procedure [
      begin_request 9 TCSD_ORD_CHANGEAUTH, send_context 0, send_32 1 parentHandle, send_16 2 protocolID,
      send_array PT_ENCAUTH 3 newAuth, send_16 4 entityType, send_32 5 encDataSize,
      send_bytes 6 encData encDataSize, send_auth 7 ownerAuth, send_auth 8 entityAuth, exchange nw,
      on_success [
        accept_auth 0 ownerAuth (quit BAD []), accept_auth 1 entityAuth (quit BAD []),
        accept_32 2 outDataSize (quit BAD []), malloc_at outData outDataSize 1 (quit NOMEM []),
        accept_bytes 3 outData outDataSize 1 (go_on BAD [Fr outData])]]"

definition RPC_ChangeAuthOwner_TP ::
  "'p net \<Rightarrow> u16 \<Rightarrow> u8 list \<Rightarrow> u16 \<Rightarrow> place option \<Rightarrow> 'p rpc" where
  "RPC_ChangeAuthOwner_TP nw protocolID newAuth entityType ownerAuth = procedure [
      begin_request 5 TCSD_ORD_CHANGEAUTHOWNER, send_context 0, send_16 1 protocolID, send_array PT_ENCAUTH 2 newAuth,
      send_16 3 entityType, send_auth 4 ownerAuth, exchange nw,
      on_header [
        accept_auth 0 ownerAuth (go_on BAD [])]]"

definition RPC_ChangeAuthAsymStart_TP :: "'p rpc" where
  "RPC_ChangeAuthAsymStart_TP st = Some (TSPERR TSS_E_NOTIMPL, st)"

definition RPC_ChangeAuthAsymFinish_TP :: "'p rpc" where
  "RPC_ChangeAuthAsymFinish_TP st = Some (TSPERR TSS_E_NOTIMPL, st)"

section \<open>\<open>rpc_migration.c\<close>\<close>

text \<open>The index behind \<open>random\<close> depends on its size in the answer.\<close>

definition RPC_CreateMigrationBlob_TP ::
  "'p net \<Rightarrow> u32 \<Rightarrow> u16 \<Rightarrow> u32 \<Rightarrow> ptr \<Rightarrow> u32 \<Rightarrow> ptr \<Rightarrow> place option \<Rightarrow>
   place option \<Rightarrow> nat \<Rightarrow> nat \<Rightarrow> nat \<Rightarrow> nat \<Rightarrow> 'p rpc" where
  "RPC_CreateMigrationBlob_TP nw parentHandle migrationType MigrationKeyAuthSize MigrationKeyAuth encDataSize encData
     parentAuth entityAuth randomSize random_out outDataSize outData = procedure [
      begin_request 9 TCSD_ORD_CREATEMIGRATIONBLOB, send_context 0, send_32 1 parentHandle, send_16 2 migrationType,
      send_32 3 MigrationKeyAuthSize, send_bytes 4 MigrationKeyAuth MigrationKeyAuthSize, send_32 5 encDataSize,
      send_bytes 6 encData encDataSize,
      if_then (parentAuth \<noteq> None) [send_auth 7 parentAuth], send_auth (given [parentAuth] + 7) entityAuth, exchange nw,
      on_success [
        if_then (parentAuth \<noteq> None) [accept_auth 0 parentAuth (quit BAD [])],
        accept_auth (given [parentAuth]) entityAuth (quit BAD []),
        accept_32 (given [parentAuth] + 1) randomSize (quit BAD []),
        with_word randomSize (\<lambda>n. [
          if_then (0 < n) [
            malloc_at random_out randomSize 1 (quit NOMEM []),
            accept_bytes (given [parentAuth] + 2) random_out randomSize 1 (quit BAD [Fr random_out])],
          let i = given [parentAuth] + (if 0 < n then 3 else 2) in steps [
            accept_32 i outDataSize (steps [if_size randomSize [clear [Fr random_out]] [], quit BAD []]),
            malloc_at outData outDataSize 1 (steps [if_size randomSize [clear [Fr random_out]] [], quit NOMEM []]),
            accept_bytes (i + 1) outData outDataSize 1
              (steps [if_size randomSize [clear [Fr random_out]] [], quit BAD [Fr outData]])]])]]"

definition RPC_ConvertMigrationBlob_TP ::
  "'p net \<Rightarrow> u32 \<Rightarrow> u32 \<Rightarrow> ptr \<Rightarrow> u32 \<Rightarrow> ptr \<Rightarrow> place option \<Rightarrow> nat \<Rightarrow> nat \<Rightarrow> 'p rpc" where
  "RPC_ConvertMigrationBlob_TP nw parentHandle inDataSize inData randomSize random_out parentAuth outDataSize
     outData = procedure [
      begin_request 7 TCSD_ORD_CONVERTMIGRATIONBLOB, send_context 0, send_32 1 parentHandle, send_32 2 inDataSize,
      send_bytes 3 inData inDataSize, send_32 4 randomSize, send_bytes 5 random_out randomSize,
      if_then (parentAuth \<noteq> None) [send_auth 6 parentAuth], exchange nw,
      on_success [
        if_then (parentAuth \<noteq> None) [accept_auth 0 parentAuth (quit BAD [])],
        accept_32 (given [parentAuth]) outDataSize (quit BAD []), malloc_at outData outDataSize 1 (quit NOMEM []),
        accept_bytes (given [parentAuth] + 1) outData outDataSize 1 (quit BAD [])]]"

definition RPC_AuthorizeMigrationKey_TP ::
  "'p net \<Rightarrow> u16 \<Rightarrow> u32 \<Rightarrow> ptr \<Rightarrow> place option \<Rightarrow> nat \<Rightarrow> nat \<Rightarrow> 'p rpc" where
  "RPC_AuthorizeMigrationKey_TP nw migrateScheme MigrationKeySize MigrationKey ownerAuth MigrationKeyAuthSize
     MigrationKeyAuth = procedure [
      begin_request 5 TCSD_ORD_AUTHORIZEMIGRATIONKEY, send_context 0, send_16 1 migrateScheme, send_32 2 MigrationKeySize,
      send_bytes 3 MigrationKey MigrationKeySize, send_auth 4 ownerAuth, exchange nw,
      on_success [
        accept_auth 0 ownerAuth (quit BAD []), accept_32 1 MigrationKeyAuthSize (quit BAD []),
        malloc_at MigrationKeyAuth MigrationKeyAuthSize 1 (quit NOMEM []),
        accept_bytes 2 MigrationKeyAuth MigrationKeyAuthSize 1 (quit BAD [Fr MigrationKeyAuth])]]"

section \<open>\<open>rpc_cmk.c\<close>\<close>

definition RPC_CMK_SetRestrictions_TP ::
  "'p net \<Rightarrow> u32 \<Rightarrow> place option \<Rightarrow> 'p rpc" where
  "RPC_CMK_SetRestrictions_TP nw restriction ownerAuth = procedure [
      begin_request 3 TCSD_ORD_CMK_SETRESTRICTIONS, send_context 0, send_32 1 restriction, send_auth 2 ownerAuth,
      exchange nw,
      on_success [
        accept_auth 0 ownerAuth (quit BAD [])]]"

definition RPC_CMK_ApproveMA_TP ::
  "'p net \<Rightarrow> u8 list \<Rightarrow> place option \<Rightarrow> nat \<Rightarrow> 'p rpc" where
  "RPC_CMK_ApproveMA_TP nw migAuthorityDigest ownerAuth migAuthorityApproval = procedure [
      begin_request 3 TCSD_ORD_CMK_APPROVEMA, send_context 0, send_array PT_DIGEST 1 migAuthorityDigest,
      send_auth 2 ownerAuth, exchange nw,
      on_success [
        accept_auth 0 ownerAuth (quit BAD []), accept_array PT_DIGEST 1 migAuthorityApproval (quit BAD [])]]"

definition RPC_CMK_CreateKey_TP ::
  "'p net \<Rightarrow> u32 \<Rightarrow> u8 list \<Rightarrow> u8 list \<Rightarrow> u8 list \<Rightarrow> nat \<Rightarrow> nat \<Rightarrow> place option \<Rightarrow> 'p rpc" where
  "RPC_CMK_CreateKey_TP nw hWrappingKey keyUsageAuth migAuthorityApproval migAuthorityDigest keyDataSize keyData
     pAuth = procedure [
      begin_request 8 TCSD_ORD_CMK_CREATEKEY, send_context 0, send_32 1 hWrappingKey,
      send_array PT_ENCAUTH 2 keyUsageAuth, send_array PT_DIGEST 3 migAuthorityApproval,
      send_array PT_DIGEST 4 migAuthorityDigest, send_place PT_UINT32 5 (P32 keyDataSize),
      send_bytes_at 6 keyData keyDataSize 1, if_else (pAuth \<noteq> None) [send_auth 7 pAuth] [send_null 7],
      clear [Fr keyData, Null keyData], exchange nw,
      on_success [
        accept_32 0 keyDataSize (quit BAD []), malloc_at keyData keyDataSize 1 (quit NOMEM []),
        accept_bytes 1 keyData keyDataSize 1 (quit BAD [Fr keyData]),
        if_then (pAuth \<noteq> None) [accept_auth 2 pAuth (quit BAD [Fr keyData])]]]"

definition RPC_CMK_CreateTicket_TP ::
  "'p net \<Rightarrow> u32 \<Rightarrow> ptr \<Rightarrow> u8 list \<Rightarrow> u32 \<Rightarrow> ptr \<Rightarrow> place option \<Rightarrow> nat \<Rightarrow> 'p rpc" where
  "RPC_CMK_CreateTicket_TP nw publicVerifyKeySize publicVerifyKey signedData sigValueSize sigValue ownerAuth
     sigTicket = procedure [
      begin_request 7 TCSD_ORD_CMK_CREATETICKET, send_context 0, send_32 1 publicVerifyKeySize,
      send_bytes 2 publicVerifyKey publicVerifyKeySize, send_array PT_DIGEST 3 signedData, send_32 4 sigValueSize,
      send_bytes 5 sigValue sigValueSize, send_auth 6 ownerAuth, exchange nw,
      on_success [
        accept_auth 0 ownerAuth (quit BAD []), accept_array PT_DIGEST 1 sigTicket (quit BAD [])]]"

definition RPC_CMK_CreateBlob_TP ::
  "'p net \<Rightarrow> u32 \<Rightarrow> u16 \<Rightarrow> u32 \<Rightarrow> ptr \<Rightarrow> u8 list \<Rightarrow> u32 \<Rightarrow> ptr \<Rightarrow> u32 \<Rightarrow> ptr \<Rightarrow> u32 \<Rightarrow> ptr \<Rightarrow> u32 \<Rightarrow> ptr \<Rightarrow> place
   option \<Rightarrow> nat \<Rightarrow> nat \<Rightarrow> nat \<Rightarrow> nat \<Rightarrow> 'p rpc" where
  "RPC_CMK_CreateBlob_TP nw hParentKey migrationType migKeyAuthSize migKeyAuth pubSourceKeyDigest msaListSize
     msaList restrictTicketSize restrictTicket sigTicketSize sigTicket encDataSize encData pAuth randomSize
     random_out outDataSize outData = procedure [
      begin_request 15 TCSD_ORD_CMK_CREATEBLOB, send_context 0, send_32 1 hParentKey, send_16 2 migrationType,
      send_32 3 migKeyAuthSize, send_bytes 4 migKeyAuth migKeyAuthSize, send_array PT_DIGEST 5 pubSourceKeyDigest,
      send_32 6 msaListSize, send_bytes 7 msaList msaListSize, send_32 8 restrictTicketSize,
      send_bytes 9 restrictTicket restrictTicketSize, send_32 10 sigTicketSize,
      send_bytes 11 sigTicket sigTicketSize, send_32 12 encDataSize, send_bytes 13 encData encDataSize,
      if_else (pAuth \<noteq> None) [send_auth 14 pAuth] [send_null 14], exchange nw,
      on_success [
        if_then (pAuth \<noteq> None) [accept_auth 0 pAuth (quit BAD [])],
        accept_32 (given [pAuth]) randomSize (quit BAD []), malloc_at random_out randomSize 1 (quit NOMEM []),
        accept_bytes (given [pAuth] + 1) random_out randomSize 1 (quit BAD [Fr random_out]),
        accept_32 (given [pAuth] + 2) outDataSize (quit BAD []),
        malloc_at outData outDataSize 1 (quit NOMEM [Fr random_out]),
        accept_bytes (given [pAuth] + 3) outData outDataSize 1 (quit BAD [Fr random_out, Fr outData])]]"

definition RPC_CMK_ConvertMigration_TP ::
  "'p net \<Rightarrow> u32 \<Rightarrow> u8 list \<Rightarrow> u8 list \<Rightarrow> u32 \<Rightarrow> ptr \<Rightarrow> u32 \<Rightarrow> ptr \<Rightarrow> u32 \<Rightarrow> ptr \<Rightarrow> place option \<Rightarrow> nat \<Rightarrow> nat \<Rightarrow> 'p
   rpc" where
  "RPC_CMK_ConvertMigration_TP nw hParentHandle restrictTicket sigTicket keyDataSize keyData msaListSize msaList
     randomSize random_out pAuth outDataSize outData = procedure [
      begin_request 11 TCSD_ORD_CMK_CONVERTMIGRATION, send_context 0, send_32 1 hParentHandle,
      send_bytes 2 (Buf restrictTicket) 96, send_array PT_DIGEST 3 sigTicket, send_32 4 keyDataSize,
      send_bytes 5 keyData keyDataSize, send_32 6 msaListSize, send_bytes 7 msaList msaListSize,
      send_32 8 randomSize, send_bytes 9 random_out randomSize,
      if_else (pAuth \<noteq> None) [send_auth 10 pAuth] [send_null 10], exchange nw,
      on_success [
        if_then (pAuth \<noteq> None) [accept_auth 0 pAuth (quit BAD [])],
        accept_32 (given [pAuth]) outDataSize (quit BAD []), malloc_at outData outDataSize 1 (quit NOMEM []),
        accept_bytes (given [pAuth] + 1) outData outDataSize 1 (quit BAD [Fr outData])]]"

section \<open>\<open>rpc_aik.c\<close>\<close>

definition RPC_MakeIdentity_TP ::
  "'p net \<Rightarrow> u8 list \<Rightarrow> u8 list \<Rightarrow> u32 \<Rightarrow> ptr \<Rightarrow> place option \<Rightarrow> place option \<Rightarrow> nat \<Rightarrow> nat \<Rightarrow> nat \<Rightarrow> nat \<Rightarrow> nat \<Rightarrow>
   nat \<Rightarrow> nat \<Rightarrow> nat \<Rightarrow> nat \<Rightarrow> nat \<Rightarrow> 'p rpc" where
  "RPC_MakeIdentity_TP nw identityAuth IDLabel_PrivCAHash idKeyInfoSize idKeyInfo pSrkAuth pOwnerAuth idKeySize
     idKey pcIdentityBindingSize prgbIdentityBinding pcEndorsementCredentialSize prgbEndorsementCredential
     pcPlatformCredentialSize prgbPlatformCredential pcConformanceCredentialSize prgbConformanceCredential =
     procedure [
      begin_request 7 TCSD_ORD_MAKEIDENTITY, send_context 0, send_array PT_ENCAUTH 1 identityAuth,
      send_array PT_DIGEST 2 IDLabel_PrivCAHash, send_32 3 idKeyInfoSize, send_bytes 4 idKeyInfo idKeyInfoSize,
      if_then (pSrkAuth \<noteq> None) [send_auth 5 pSrkAuth], send_auth (given [pSrkAuth] + 5) pOwnerAuth,
      exchange nw,
      on_success [
        if_then (pSrkAuth \<noteq> None) [accept_auth 0 pSrkAuth (quit BAD [])],
        accept_auth (given [pSrkAuth]) pOwnerAuth (quit BAD []),
        accept_32 (given [pSrkAuth] + 1) idKeySize (quit BAD []), malloc_at idKey idKeySize 1 (quit NOMEM []),
        accept_bytes (given [pSrkAuth] + 2) idKey idKeySize 1 (quit BAD [Fr idKey]),
        accept_32 (given [pSrkAuth] + 3) pcIdentityBindingSize (quit BAD [Fr idKey]),
        malloc_at prgbIdentityBinding pcIdentityBindingSize 1 (quit NOMEM [Fr idKey]),
        accept_bytes (given [pSrkAuth] + 4) prgbIdentityBinding pcIdentityBindingSize 1 (quit BAD [Fr idKey, Fr
          prgbIdentityBinding]),
        accept_32 (given [pSrkAuth] + 5) pcEndorsementCredentialSize (quit BAD [Fr idKey, Fr prgbIdentityBinding]),
        malloc_at prgbEndorsementCredential pcEndorsementCredentialSize 1 (quit NOMEM [Fr idKey, Fr
          prgbIdentityBinding, Null prgbIdentityBinding]),
        accept_bytes (given [pSrkAuth] + 6) prgbEndorsementCredential pcEndorsementCredentialSize 1 (quit BAD [Fr
          idKey, Fr prgbIdentityBinding, Null prgbIdentityBinding, Fr prgbEndorsementCredential, Null
          prgbEndorsementCredential]),
        accept_32 (given [pSrkAuth] + 7) pcPlatformCredentialSize (quit BAD [Fr idKey, Fr prgbIdentityBinding,
          Null prgbIdentityBinding, Fr prgbEndorsementCredential, Null prgbEndorsementCredential]),
        malloc_at prgbPlatformCredential pcPlatformCredentialSize 1 (quit NOMEM [Fr idKey, Fr prgbIdentityBinding,
          Null prgbIdentityBinding, Fr prgbEndorsementCredential, Null prgbEndorsementCredential]),
        accept_bytes (given [pSrkAuth] + 8) prgbPlatformCredential pcPlatformCredentialSize 1 (quit BAD [Fr idKey,
          Fr prgbIdentityBinding, Null prgbIdentityBinding, Fr prgbEndorsementCredential, Null
          prgbEndorsementCredential, Fr prgbPlatformCredential, Null prgbPlatformCredential]),
        accept_32 (given [pSrkAuth] + 9) pcConformanceCredentialSize (quit BAD [Fr idKey, Fr prgbIdentityBinding,
          Null prgbIdentityBinding, Fr prgbEndorsementCredential, Null prgbEndorsementCredential, Fr
          prgbPlatformCredential, Null prgbPlatformCredential]),
        malloc_at prgbConformanceCredential pcConformanceCredentialSize 1 (quit NOMEM [Fr idKey, Fr
          prgbIdentityBinding, Null prgbIdentityBinding, Fr prgbEndorsementCredential, Null
          prgbEndorsementCredential, Fr prgbPlatformCredential, Null prgbPlatformCredential]),
        accept_bytes (given [pSrkAuth] + 10) prgbConformanceCredential pcConformanceCredentialSize 1 (go_on BAD
          [Fr idKey, Fr prgbIdentityBinding, Null prgbIdentityBinding, Fr prgbEndorsementCredential, Null
          prgbEndorsementCredential, Fr prgbPlatformCredential, Null prgbPlatformCredential, Fr
          prgbConformanceCredential, Null prgbConformanceCredential])]]"

definition RPC_GetCredential_TP ::
  "'p net \<Rightarrow> u32 \<Rightarrow> u32 \<Rightarrow> nat \<Rightarrow> nat \<Rightarrow> 'p rpc" where
  "RPC_GetCredential_TP nw ulCredentialType ulCredentialAccessMode pulCredentialSize prgbCredentialData = procedure
     [
      begin_request 3 TCSD_ORD_GETCREDENTIAL, send_context 0, send_32 1 ulCredentialType,
      send_32 2 ulCredentialAccessMode, exchange nw,
      on_success [
        accept_32 0 pulCredentialSize (quit BAD []),
        malloc_at prgbCredentialData pulCredentialSize 1 (quit NOMEM []),
        accept_bytes 1 prgbCredentialData pulCredentialSize 1 (go_on BAD [Fr prgbCredentialData])]]"

definition RPC_ActivateTPMIdentity_TP ::
  "'p net \<Rightarrow> u32 \<Rightarrow> u32 \<Rightarrow> ptr \<Rightarrow> place option \<Rightarrow> place option \<Rightarrow> nat \<Rightarrow> nat \<Rightarrow> 'p rpc" where
  "RPC_ActivateTPMIdentity_TP nw idKey blobSize blob idKeyAuth ownerAuth SymmetricKeySize SymmetricKey = procedure [
      begin_request 6 TCSD_ORD_ACTIVATETPMIDENTITY, send_context 0, send_32 1 idKey, send_32 2 blobSize,
      send_bytes 3 blob blobSize, if_then (idKeyAuth \<noteq> None) [send_auth 4 idKeyAuth],
      send_auth (given [idKeyAuth] + 4) ownerAuth, exchange nw,
      on_success [
        if_then (idKeyAuth \<noteq> None) [accept_auth 0 idKeyAuth (go_on BAD [])],
        accept_auth (given [idKeyAuth]) ownerAuth (quit BAD []),
        accept_32 (given [idKeyAuth] + 1) SymmetricKeySize (quit BAD []),
        malloc_at SymmetricKey SymmetricKeySize 1 (quit NOMEM []),
        accept_bytes (given [idKeyAuth] + 2) SymmetricKey SymmetricKeySize 1 (go_on BAD [Fr SymmetricKey])]]"

section \<open>\<open>rpc_delegate.c\<close>\<close>

definition RPC_Delegate_Manage_TP ::
  "'p net \<Rightarrow> u32 \<Rightarrow> u32 \<Rightarrow> u32 \<Rightarrow> ptr \<Rightarrow> place option \<Rightarrow> nat \<Rightarrow> nat \<Rightarrow> 'p rpc" where
  "RPC_Delegate_Manage_TP nw familyID opFlag opDataSize opData ownerAuth retDataSize retData = procedure [
      begin_request 6 TCSD_ORD_DELEGATE_MANAGE, send_context 0, send_32 1 familyID, send_32 2 opFlag,
      send_32 3 opDataSize, send_bytes 4 opData opDataSize,
      if_else (ownerAuth \<noteq> None) [send_auth 5 ownerAuth] [send_null 5], exchange nw,
      on_success [
        if_then (ownerAuth \<noteq> None) [accept_auth 0 ownerAuth (quit BAD [])],
        accept_32 (given [ownerAuth]) retDataSize (quit BAD []), malloc_at retData retDataSize 1 (quit NOMEM []),
        accept_bytes (given [ownerAuth] + 1) retData retDataSize 1 (quit BAD [Fr retData])]]"

definition RPC_Delegate_CreateKeyDelegation_TP ::
  "'p net \<Rightarrow> u32 \<Rightarrow> u32 \<Rightarrow> ptr \<Rightarrow> u8 list \<Rightarrow> place option \<Rightarrow> nat \<Rightarrow> nat \<Rightarrow> 'p rpc" where
  "RPC_Delegate_CreateKeyDelegation_TP nw hKey publicInfoSize publicInfo encDelAuth keyAuth blobSize blob =
     procedure [
      begin_request 8 TCSD_ORD_DELEGATE_CREATEKEYDELEGATION, send_context 0, send_32 1 hKey, send_32 2 publicInfoSize,
      send_bytes 3 publicInfo publicInfoSize, send_array PT_ENCAUTH 4 encDelAuth,
      if_else (keyAuth \<noteq> None) [send_auth 5 keyAuth] [send_null 5], exchange nw,
      on_success [
        if_then (keyAuth \<noteq> None) [accept_auth 0 keyAuth (quit BAD [])],
        accept_32 (given [keyAuth]) blobSize (quit BAD []), malloc_at blob blobSize 1 (quit NOMEM []),
        accept_bytes (given [keyAuth] + 1) blob blobSize 1 (quit BAD [Fr blob])]]"

definition RPC_Delegate_CreateOwnerDelegation_TP ::
  "'p net \<Rightarrow> u8 \<Rightarrow> u32 \<Rightarrow> ptr \<Rightarrow> u8 list \<Rightarrow> place option \<Rightarrow> nat \<Rightarrow> nat \<Rightarrow> 'p rpc" where
  "RPC_Delegate_CreateOwnerDelegation_TP nw increment publicInfoSize publicInfo encDelAuth ownerAuth blobSize blob =
     procedure [
      begin_request 8 TCSD_ORD_DELEGATE_CREATEOWNERDELEGATION, send_context 0, send_bool 1 increment,
      send_32 2 publicInfoSize, send_bytes 3 publicInfo publicInfoSize, send_array PT_ENCAUTH 4 encDelAuth,
      if_else (ownerAuth \<noteq> None) [send_auth 5 ownerAuth] [send_null 5], exchange nw,
      on_success [
        if_then (ownerAuth \<noteq> None) [accept_auth 0 ownerAuth (quit BAD [])],
        accept_32 (given [ownerAuth]) blobSize (quit BAD []), malloc_at blob blobSize 1 (quit NOMEM []),
        accept_bytes (given [ownerAuth] + 1) blob blobSize 1 (quit BAD [Fr blob])]]"

definition RPC_Delegate_LoadOwnerDelegation_TP ::
  "'p net \<Rightarrow> u32 \<Rightarrow> u32 \<Rightarrow> ptr \<Rightarrow> place option \<Rightarrow> 'p rpc" where
  "RPC_Delegate_LoadOwnerDelegation_TP nw index_in blobSize blob ownerAuth = procedure [
      begin_request 5 TCSD_ORD_DELEGATE_LOADOWNERDELEGATION, send_context 0, send_32 1 index_in, send_32 2 blobSize,
      send_bytes 3 blob blobSize, if_else (ownerAuth \<noteq> None) [send_auth 4 ownerAuth] [send_null 4],
      exchange nw,
      on_success [
        if_then (ownerAuth \<noteq> None) [accept_auth 0 ownerAuth (quit BAD [])]]]"

definition RPC_Delegate_ReadTable_TP ::
  "'p net \<Rightarrow> nat \<Rightarrow> nat \<Rightarrow> nat \<Rightarrow> nat \<Rightarrow> 'p rpc" where
  "RPC_Delegate_ReadTable_TP nw familyTableSize familyTable delegateTableSize delegateTable = procedure [
      begin_request 1 TCSD_ORD_DELEGATE_READTABLE, send_context 0, exchange nw,
      on_success [
        accept_32 0 familyTableSize (quit BAD []), malloc_at familyTable familyTableSize 1 (quit NOMEM []),
        accept_bytes 1 familyTable familyTableSize 1 (quit BAD [Fr familyTable]),
        accept_32 2 delegateTableSize (quit BAD [Fr familyTable]),
        malloc_at delegateTable delegateTableSize 1 (quit NOMEM [Fr familyTable]),
        accept_bytes 3 delegateTable delegateTableSize 1 (quit BAD [Fr familyTable, Fr delegateTable])]]"

definition RPC_Delegate_UpdateVerificationCount_TP ::
  "'p net \<Rightarrow> u32 \<Rightarrow> ptr \<Rightarrow> place option \<Rightarrow> nat \<Rightarrow> nat \<Rightarrow> 'p rpc" where
  "RPC_Delegate_UpdateVerificationCount_TP nw inputSize input_in ownerAuth outputSize output_out = procedure [
      begin_request 4 TCSD_ORD_DELEGATE_UPDATEVERIFICATIONCOUNT, send_context 0, send_32 1 inputSize,
      send_bytes 2 input_in inputSize, if_else (ownerAuth \<noteq> None) [send_auth 3 ownerAuth] [send_null 3],
      exchange nw,
      on_success [
        if_then (ownerAuth \<noteq> None) [accept_auth 0 ownerAuth (quit BAD [])],
        accept_32 (given [ownerAuth]) outputSize (quit BAD []), malloc_at output_out outputSize 1 (quit NOMEM []),
        accept_bytes (given [ownerAuth] + 1) output_out outputSize 1 (quit BAD [Fr output_out])]]"

definition RPC_Delegate_VerifyDelegation_TP ::
  "'p net \<Rightarrow> u32 \<Rightarrow> ptr \<Rightarrow> 'p rpc" where
  "RPC_Delegate_VerifyDelegation_TP nw delegateSize delegate = procedure [
      begin_request 3 TCSD_ORD_DELEGATE_VERIFYDELEGATION, send_context 0, send_32 1 delegateSize,
      send_bytes 2 delegate delegateSize, exchange nw]"

definition RPC_DSAP_TP ::
  "'p net \<Rightarrow> u16 \<Rightarrow> u32 \<Rightarrow> u8 list \<Rightarrow> u32 \<Rightarrow> ptr \<Rightarrow> nat \<Rightarrow> nat \<Rightarrow> nat \<Rightarrow> 'p rpc" where
  "RPC_DSAP_TP nw entityType keyHandle nonceOddDSAP entityValueSize entityValue authHandle nonceEven nonceEvenDSAP =
     procedure [
      begin_request 6 TCSD_ORD_DSAP, send_context 0, send_16 1 entityType, send_32 2 keyHandle,
      send_array PT_NONCE 3 nonceOddDSAP, send_32 4 entityValueSize, send_bytes 5 entityValue entityValueSize,
      exchange nw,
      on_success [
        accept_32 0 authHandle (quit BAD []), accept_array PT_NONCE 1 nonceEven (quit BAD []),
        accept_array PT_NONCE 2 nonceEvenDSAP (quit BAD [])]]"

section \<open>\<open>rpc_transport.c\<close>\<close>

definition RPC_EstablishTransport_TP ::
  "'p net \<Rightarrow> u32 \<Rightarrow> u32 \<Rightarrow> u32 \<Rightarrow> ptr \<Rightarrow> u32 \<Rightarrow> ptr \<Rightarrow> place option \<Rightarrow> nat \<Rightarrow> nat \<Rightarrow> nat \<Rightarrow> nat \<Rightarrow> nat \<Rightarrow> 'p rpc" where
  "RPC_EstablishTransport_TP nw ulTransControlFlags hEncKey ulTransSessionInfoSize rgbTransSessionInfo ulSecretSize
     rgbSecret pEncKeyAuth pbLocality hTransSession ulCurrentTicksSize prgbCurrentTicks pTransNonce = procedure [
      begin_request 8 TCSD_ORD_ESTABLISHTRANSPORT, send_context 0, send_32 1 ulTransControlFlags, send_32 2 hEncKey,
      send_32 3 ulTransSessionInfoSize, send_bytes 4 rgbTransSessionInfo ulTransSessionInfoSize,
      send_32 5 ulSecretSize, send_bytes 6 rgbSecret ulSecretSize,
      if_then (pEncKeyAuth \<noteq> None) [send_auth 7 pEncKeyAuth], exchange nw,
      on_success [
        if_then (pEncKeyAuth \<noteq> None) [accept_auth 0 pEncKeyAuth (quit BAD [])],
        accept_32 (given [pEncKeyAuth]) pbLocality (quit BAD []),
        accept_32 (given [pEncKeyAuth] + 1) hTransSession (quit BAD []),
        accept_32 (given [pEncKeyAuth] + 2) ulCurrentTicksSize (quit BAD []),
        malloc_at prgbCurrentTicks ulCurrentTicksSize 1 (quit NOMEM [Zero ulCurrentTicksSize]),
        accept_bytes (given [pEncKeyAuth] + 3) prgbCurrentTicks ulCurrentTicksSize 1 (quit BAD [Fr
          prgbCurrentTicks, Null prgbCurrentTicks, Zero ulCurrentTicksSize]),
        accept_array PT_NONCE (given [pEncKeyAuth] + 4) pTransNonce (quit BAD [])]]"

text \<open>\<open>unwind\<close> is the code behind the label \<open>error\<close>.\<close>

definition RPC_ExecuteTransport_TP ::
  "'p net \<Rightarrow> u32 \<Rightarrow> u32 \<Rightarrow> ptr \<Rightarrow> nat \<Rightarrow> nat \<Rightarrow> place option \<Rightarrow> place option \<Rightarrow> place option \<Rightarrow> nat \<Rightarrow> nat \<Rightarrow>
   nat \<Rightarrow> nat \<Rightarrow> nat \<Rightarrow> 'p rpc" where
  "RPC_ExecuteTransport_TP nw unWrappedCommandOrdinal ulWrappedCmdParamInSize rgbWrappedCmdParamIn pulHandleListSize
     rghHandles pWrappedCmdAuth1 pWrappedCmdAuth2 pTransAuth punCurrentTicks pbLocality pulWrappedCmdReturnCode
     ulWrappedCmdParamOutSize rgbWrappedCmdParamOut =
     (let unwind = (\<lambda>us. steps [clear us, if_size pulHandleListSize [clear [Fr rghHandles, Null rghHandles]] [], quit BAD []])
      in procedure [
      begin_request 9 TCSD_ORD_EXECUTETRANSPORT, send_context 0, send_32 1 unWrappedCommandOrdinal,
      send_32 2 ulWrappedCmdParamInSize, send_bytes 3 rgbWrappedCmdParamIn ulWrappedCmdParamInSize,
      send_place PT_UINT32 4 (P32 pulHandleListSize),
      with_word pulHandleListSize (\<lambda>n. let i = (if n \<noteq> 0 then 6 else 5) in [
        if_then (n \<noteq> 0) [send_bytes_at 5 rghHandles pulHandleListSize 4],
        if_else (pWrappedCmdAuth1 \<noteq> None) [send_auth i pWrappedCmdAuth1] [send_null i],
        if_else (pWrappedCmdAuth2 \<noteq> None) [send_auth (i + 1) pWrappedCmdAuth2] [send_null (i + 1)],
        send_auth (i + 2) pTransAuth]),
      exchange nw,
      on_success [
        accept_32 0 pulHandleListSize (quit BAD []),
        with_word pulHandleListSize (\<lambda>n. let i = (if n \<noteq> 0 then 2 else 1) in [
          if_then (n \<noteq> 0) [
            malloc_at rghHandles pulHandleListSize 4 (quit BAD [Zero pulHandleListSize]),
            accept_bytes 1 rghHandles pulHandleListSize 4 (unwind [])],
          if_else (pWrappedCmdAuth1 \<noteq> None) [accept_auth i pWrappedCmdAuth1 (unwind [])] [accept_local i (unwind [])],
          if_else (pWrappedCmdAuth2 \<noteq> None) [accept_auth (i + 1) pWrappedCmdAuth2 (unwind [])]
            [accept_local (i + 1) (unwind [])],
          accept_auth (i + 2) pTransAuth (unwind []), accept PT_UINT64 (i + 3) (P64 punCurrentTicks) 0 (unwind []),
          accept_32 (i + 4) pbLocality (unwind []), accept_32 (i + 5) pulWrappedCmdReturnCode (unwind []),
          accept_32 (i + 6) ulWrappedCmdParamOutSize (unwind []),
          if_size ulWrappedCmdParamOutSize [
            malloc_at rgbWrappedCmdParamOut ulWrappedCmdParamOutSize 1 (unwind [Zero ulWrappedCmdParamOutSize]),
            accept_bytes (i + 7) rgbWrappedCmdParamOut ulWrappedCmdParamOutSize 1 (unwind [Fr rgbWrappedCmdParamOut])]
            [clear [Null rgbWrappedCmdParamOut]]])]])"

definition RPC_ReleaseTransportSigned_TP ::
  "'p net \<Rightarrow> u32 \<Rightarrow> u8 list \<Rightarrow> place option \<Rightarrow> place option \<Rightarrow> nat \<Rightarrow> nat \<Rightarrow> nat \<Rightarrow> nat \<Rightarrow> nat \<Rightarrow> 'p rpc" where
  "RPC_ReleaseTransportSigned_TP nw hSignatureKey AntiReplayNonce pKeyAuth pTransAuth pbLocality pulCurrentTicksSize
     prgbCurrentTicks pulSignatureSize prgbSignature = procedure [
      begin_request 5 TCSD_ORD_RELEASETRANSPORTSIGNED, send_context 0, send_32 1 hSignatureKey,
      send_array PT_NONCE 2 AntiReplayNonce, if_else (pKeyAuth \<noteq> None) [send_auth 3 pKeyAuth] [send_null 3],
      send_auth 4 pTransAuth, exchange nw,
      on_success [
        if_else (pKeyAuth \<noteq> None) [accept_auth 0 pKeyAuth (quit BAD [])] [accept_local 0 (quit BAD [])],
        accept_auth 1 pTransAuth (quit BAD []), accept_32 2 pbLocality (quit BAD []),
        accept_32 3 pulCurrentTicksSize (quit BAD []),
        malloc_at prgbCurrentTicks pulCurrentTicksSize 1 (quit BAD [Zero pulCurrentTicksSize]),
        accept_bytes 4 prgbCurrentTicks pulCurrentTicksSize 1 (quit BAD [Fr prgbCurrentTicks, Null
          prgbCurrentTicks, Zero pulCurrentTicksSize]),
        accept_32 5 pulSignatureSize (quit BAD [Fr prgbCurrentTicks, Null prgbCurrentTicks, Zero
          pulCurrentTicksSize]),
        malloc_at prgbSignature pulSignatureSize 1 (quit BAD [Fr prgbCurrentTicks, Null prgbCurrentTicks, Zero
          pulCurrentTicksSize, Zero pulSignatureSize]),
        accept_bytes 6 prgbSignature pulSignatureSize 1 (quit BAD [Fr prgbCurrentTicks, Null prgbCurrentTicks,
          Zero pulCurrentTicksSize, Fr prgbSignature, Null prgbSignature, Zero pulSignatureSize])]]"

end
