(* ===== verification/Rpc_Client_Api.thy ===== *)
theory Rpc_Client_Api
  imports Rpc_Client_Tpm Rpc_Client_Keys Tspi_Obj
begin

text \<open>
  The table of connections (\<open>tspi/rpc/hosttable.c\<close>) and the calls by which the rest of the client library reaches
  a daemon (\<open>tspi/rpc/tcs_api.c\<close>): they find the connection of the context, lock it for the call, and choose the
  transport by its type.  Inputs that a call does not use are left out.
\<close>

section \<open>The table of connections\<close>

text \<open>The context, the type of the connection and its buffer; the entry counts as one block, its buffer as
  another.\<close>

definition new_entry :: "u32 \<Rightarrow> string \<Rightarrow> u32 \<Rightarrow> host_table_entry" where
  "new_entry tspContext host type_in =
     \<lparr>ht_tspContext = tspContext, ht_tcsContext = 0, ht_hostname = host, ht_type = type_in, ht_socket = None,
      ht_comm = \<lparr>buf = replicate TCSD_INIT_TXBUF_SIZE 0,
        hdr = \<lparr>packet_size = 0, hdr_u = 0, num_parms = 0, type_size = 0, type_offset = 0, parm_size = 0, parm_offset = 0\<rparr>\<rparr>,
      ht_locked = False\<rparr>"

definition connected :: "u32 \<Rightarrow> 'p client \<Rightarrow> bool" where
  "connected tspContext st \<longleftrightarrow> tspContext \<in> set (map ht_tspContext (c_table st))"

definition add_table_entry :: "u32 \<Rightarrow> string \<Rightarrow> u32 \<Rightarrow> 'p rpc" where
  "add_table_entry tspContext host type_in st =
     (let (p, m) = malloc_mem 1 (c_mem st); st = st\<lparr>c_mem := m\<rparr>
      in if p = NULL then Some (NOMEM, st)
      else let (p, m) = malloc_mem TCSD_INIT_TXBUF_SIZE (c_mem st); st = st\<lparr>c_mem := m\<rparr>
      in if p = NULL then Some (NOMEM, st\<lparr>c_mem := m\<lparr>m_live := m_live m - 1\<rparr>\<rparr>)
      else if connected tspContext st
      then Some (TSPERR TSS_E_CONNECTION_FAILED, st\<lparr>c_mem := m\<lparr>m_live := m_live m - 2\<rparr>\<rparr>)
      else let entry = new_entry tspContext host type_in
      in Some (TSS_SUCCESS, st\<lparr>c_table := c_table st @ [entry], c_hte := entry\<rparr>))"

fun without :: "u32 \<Rightarrow> host_table_entry list \<Rightarrow> host_table_entry list" where
  "without c [] = []"
| "without c (e # es) = (if ht_tspContext e = c then es else e # without c es)"

definition remove_table_entry :: "u32 \<Rightarrow> 'p client \<Rightarrow> 'p client" where
  "remove_table_entry tspContext st =
     (if connected tspContext st
      then st\<lparr>c_table := without tspContext (c_table st), c_mem := (c_mem st)\<lparr>m_live := m_live (c_mem st) - 2\<rparr>\<rparr>
      else st)"

text \<open>An entry in its place of the table.\<close>

fun replace_entry :: "host_table_entry \<Rightarrow> host_table_entry list \<Rightarrow> host_table_entry list" where
  "replace_entry x [] = []"
| "replace_entry x (e # es) = (if ht_tspContext e = ht_tspContext x then x # es else e # replace_entry x es)"

text \<open>The entry of a context, locked and in use; to wait for one that is locked does not end.\<close>

definition get_table_entry :: "u32 \<Rightarrow> 'p client \<Rightarrow> (bool \<times> 'p client) option" where
  "get_table_entry tspContext st =
     (case List.find (\<lambda>e. ht_tspContext e = tspContext) (c_table st) of
        None \<Rightarrow> Some (False, st)
      | Some e \<Rightarrow> if ht_locked e then None
          else let e = e\<lparr>ht_locked := True\<rparr>
            in Some (True, st\<lparr>c_table := replace_entry e (c_table st), c_hte := e\<rparr>))"

text \<open>The entry in use is the one of the table; what the call did to it is there.\<close>

definition note_entry :: "'p client \<Rightarrow> 'p client" where
  "note_entry st = st\<lparr>c_table := replace_entry (c_hte st) (c_table st)\<rparr>"

definition put_table_entry :: "'p client \<Rightarrow> 'p client" where
  "put_table_entry st = note_entry (st\<lparr>c_hte := (c_hte st)\<lparr>ht_locked := False\<rparr>\<rparr>)"

section \<open>Calls\<close>

text \<open>The shape of the calls; \<open>result\<close> is the value for connections of other types.\<close>

definition call :: "u32 \<Rightarrow> u32 \<Rightarrow> 'p rpc \<Rightarrow> 'p rpc" where
  "call result tspContext f st = do {
     (found, st) \<leftarrow> get_table_entry tspContext st;
     if \<not> found then Some (TSPERR TSS_E_NO_CONNECTION, st)
     else do {
       (result, st) \<leftarrow> (if ht_type (c_hte st) = CONNECTION_TYPE_TCP_PERSISTANT then f st else Some (result, st));
       Some (result, put_table_entry st) } }"

text \<open>\<open>obj_context_set_tpm_version\<close> of \<open>tspi/obj_context.c\<close>: the further data of an object are its flags.\<close>

definition obj_context_set_tpm_version :: "u32 \<Rightarrow> u32 \<Rightarrow> u32 obj_state \<Rightarrow> (u32 \<times> u32 obj_state) option" where
  "obj_context_set_tpm_version tspContext ver =
     obj_write K_CONTEXT tspContext (\<lambda>d. case d of
       ContextData p h flags \<Rightarrow> Some (TSS_SUCCESS, ContextData p h (flags AND NOT 0xC0 OR 0x80))
     | _ \<Rightarrow> None)"

definition RPC_Error :: "u32 \<Rightarrow> 'p rpc" where
  "RPC_Error tspContext st = Some (BAD, st)"

text \<open>The variables \<open>tpm_version\<close> and \<open>tcsContext\<close> are places; the objects of the library are a state of their own.\<close>

definition RPC_OpenContext :: "'p net \<Rightarrow> nat \<Rightarrow> nat \<Rightarrow> u32 \<Rightarrow> string \<Rightarrow> u32 \<Rightarrow>
    'p client \<times> u32 obj_state \<Rightarrow> (u32 \<times> 'p client \<times> u32 obj_state) option" where
  "RPC_OpenContext nw tpm_version tcsContext tspContext hostname type_in = (\<lambda>(st, obs). do {
     (result, st) \<leftarrow> add_table_entry tspContext hostname type_in st;
     if result \<noteq> 0 then Some (result, st, obs)
     else if type_in = CONNECTION_TYPE_TCP_PERSISTANT then do {
       (result, st) \<leftarrow> RPC_OpenContext_TP nw tpm_version tcsContext st;
       if result \<noteq> 0 then Some (result, remove_table_entry tspContext st, obs)
       else do {
         let st = note_entry (st\<lparr>c_hte := (c_hte st)\<lparr>ht_tcsContext := m_32 (c_mem st) tcsContext\<rparr>\<rparr>);
         (r, obs) \<leftarrow> obj_context_set_tpm_version tspContext (m_32 (c_mem st) tpm_version) obs;
         Some (if r \<noteq> 0 then (BAD, remove_table_entry tspContext st, obs) else (result, st, obs)) } }
     else Some (BAD, note_entry st, obs) })"

definition RPC_GetRegisteredKeyByPublicInfo :: "'p net \<Rightarrow> u32 \<Rightarrow> u32 \<Rightarrow> u32 \<Rightarrow> ptr \<Rightarrow> nat \<Rightarrow> nat \<Rightarrow> 'p rpc" where
  "RPC_GetRegisteredKeyByPublicInfo nw tspContext algID ulPublicInfoLength rgbPublicInfo keySize keyBlob =
     call BAD tspContext (RPC_GetRegisteredKeyByPublicInfo_TP nw algID ulPublicInfoLength rgbPublicInfo keySize
       keyBlob)"

text \<open>When it succeeds the entry is freed with its lock.  The daemon does not see the socket close.\<close>

definition RPC_CloseContext :: "'p net \<Rightarrow> u32 \<Rightarrow> 'p rpc" where
  "RPC_CloseContext nw tspContext st = do {
     (found, st) \<leftarrow> get_table_entry tspContext st;
     if \<not> found then Some (TSPERR TSS_E_NO_CONNECTION, st)
     else do {
       (result, st) \<leftarrow> (if ht_type (c_hte st) = CONNECTION_TYPE_TCP_PERSISTANT
         then do {
           (result, st) \<leftarrow> RPC_CloseContext_TP nw st;
           Some (result, if result = 0 then remove_table_entry tspContext st else st) }
         else Some (BAD, st));
       Some (result, if result \<noteq> 0 then put_table_entry st else st) } }"

definition RPC_FreeMemory :: "u32 \<Rightarrow> ptr \<Rightarrow> 'p rpc" where
  "RPC_FreeMemory tspContext pMemory = call BAD tspContext (RPC_FreeMemory_TP pMemory)"

definition RPC_LogPcrEvent :: "'p net \<Rightarrow> u32 \<Rightarrow> TSS_PCR_EVENT \<Rightarrow> nat \<Rightarrow> 'p rpc" where
  "RPC_LogPcrEvent nw tspContext Event pNumber = call BAD tspContext (RPC_LogPcrEvent_TP nw Event pNumber)"

definition RPC_RegisterKey :: "'p net \<Rightarrow> u32 \<Rightarrow> TSS_UUID \<Rightarrow> TSS_UUID \<Rightarrow> u32 \<Rightarrow> ptr \<Rightarrow> u32 \<Rightarrow> ptr \<Rightarrow> 'p rpc" where
  "RPC_RegisterKey nw tspContext WrappingKeyUUID KeyUUID cKeySize rgbKey cVendorData gbVendorData =
     call BAD tspContext (RPC_RegisterKey_TP nw WrappingKeyUUID KeyUUID cKeySize rgbKey cVendorData gbVendorData)"

definition RPC_UnregisterKey :: "'p net \<Rightarrow> u32 \<Rightarrow> TSS_UUID \<Rightarrow> 'p rpc" where
  "RPC_UnregisterKey nw tspContext KeyUUID = call BAD tspContext (RPC_UnregisterKey_TP nw KeyUUID)"

definition RPC_GetRegisteredKey :: "u32 \<Rightarrow> 'p rpc" where
  "RPC_GetRegisteredKey tspContext = call BAD tspContext RPC_GetRegisteredKey_TP"

definition RPC_GetRegisteredKeyBlob :: "'p net \<Rightarrow> u32 \<Rightarrow> TSS_UUID \<Rightarrow> nat \<Rightarrow> nat \<Rightarrow> 'p rpc" where
  "RPC_GetRegisteredKeyBlob nw tspContext KeyUUID pcKeySize prgbKey =
     call BAD tspContext (RPC_GetRegisteredKeyBlob_TP nw KeyUUID pcKeySize prgbKey)"

definition RPC_LoadKeyByBlob :: "'p net \<Rightarrow> u32 \<Rightarrow> u32 \<Rightarrow> u32 \<Rightarrow> ptr \<Rightarrow> place option \<Rightarrow> nat \<Rightarrow> nat \<Rightarrow> 'p rpc" where
  "RPC_LoadKeyByBlob nw tspContext hUnwrappingKey cWrappedKeyBlobSize rgbWrappedKeyBlob pAuth phKeyTCSI phKeyHMAC =
     call BAD tspContext (RPC_LoadKeyByBlob_TP nw hUnwrappingKey cWrappedKeyBlobSize rgbWrappedKeyBlob pAuth phKeyTCSI
       phKeyHMAC)"

definition RPC_LoadKeyByUUID :: "'p net \<Rightarrow> u32 \<Rightarrow> TSS_UUID \<Rightarrow> place option \<Rightarrow> nat \<Rightarrow> 'p rpc" where
  "RPC_LoadKeyByUUID nw tspContext KeyUUID pLoadKeyInfo phKeyTCSI =
     call BAD tspContext (RPC_LoadKeyByUUID_TP nw KeyUUID pLoadKeyInfo phKeyTCSI)"

definition RPC_EvictKey :: "'p net \<Rightarrow> u32 \<Rightarrow> u32 \<Rightarrow> 'p rpc" where
  "RPC_EvictKey nw tspContext hKey = call BAD tspContext (RPC_EvictKey_TP nw hKey)"

definition RPC_CreateWrapKey ::
  "'p net \<Rightarrow> u32 \<Rightarrow> u32 \<Rightarrow> u8 list \<Rightarrow> u8 list \<Rightarrow> u32 \<Rightarrow> ptr \<Rightarrow> nat \<Rightarrow> nat \<Rightarrow> place option \<Rightarrow> 'p rpc" where
  "RPC_CreateWrapKey nw tspContext hWrappingKey KeyUsageAuth KeyMigrationAuth keyInfoSize keyInfo keyDataSize
     keyData pAuth =
     call BAD tspContext (RPC_CreateWrapKey_TP nw hWrappingKey KeyUsageAuth KeyMigrationAuth keyInfoSize keyInfo
       keyDataSize keyData pAuth)"

definition RPC_GetPubKey :: "'p net \<Rightarrow> u32 \<Rightarrow> u32 \<Rightarrow> place option \<Rightarrow> nat \<Rightarrow> nat \<Rightarrow> 'p rpc" where
  "RPC_GetPubKey nw tspContext hKey pAuth pcPubKeySize prgbPubKey =
     call BAD tspContext (RPC_GetPubKey_TP nw hKey pAuth pcPubKeySize prgbPubKey)"

definition RPC_MakeIdentity ::
  "'p net \<Rightarrow> u32 \<Rightarrow> u8 list \<Rightarrow> u8 list \<Rightarrow> u32 \<Rightarrow> ptr \<Rightarrow> place option \<Rightarrow> place option \<Rightarrow> nat \<Rightarrow> nat \<Rightarrow> nat \<Rightarrow> nat \<Rightarrow>
   nat \<Rightarrow> nat \<Rightarrow> nat \<Rightarrow> nat \<Rightarrow> nat \<Rightarrow> nat \<Rightarrow> 'p rpc" where
  "RPC_MakeIdentity nw tspContext identityAuth IDLabel_PrivCAHash idKeyInfoSize idKeyInfo pSrkAuth pOwnerAuth
     idKeySize idKey pcIdentityBindingSize prgbIdentityBinding pcEndorsementCredentialSize
     prgbEndorsementCredential pcPlatformCredentialSize prgbPlatformCredential pcConformanceCredentialSize
     prgbConformanceCredential =
     call BAD tspContext (RPC_MakeIdentity_TP nw identityAuth IDLabel_PrivCAHash idKeyInfoSize idKeyInfo pSrkAuth
       pOwnerAuth idKeySize idKey pcIdentityBindingSize prgbIdentityBinding pcEndorsementCredentialSize
       prgbEndorsementCredential pcPlatformCredentialSize prgbPlatformCredential pcConformanceCredentialSize
       prgbConformanceCredential)"

definition RPC_GetCredential :: "'p net \<Rightarrow> u32 \<Rightarrow> u32 \<Rightarrow> u32 \<Rightarrow> nat \<Rightarrow> nat \<Rightarrow> 'p rpc" where
  "RPC_GetCredential nw tspContext ulCredentialType ulCredentialAccessMode pulCredentialSize prgbCredentialData =
     call BAD tspContext (RPC_GetCredential_TP nw ulCredentialType ulCredentialAccessMode pulCredentialSize
       prgbCredentialData)"

definition RPC_SetOwnerInstall :: "'p net \<Rightarrow> u32 \<Rightarrow> u8 \<Rightarrow> 'p rpc" where
  "RPC_SetOwnerInstall nw tspContext state = call BAD tspContext (RPC_SetOwnerInstall_TP nw state)"

definition RPC_TakeOwnership ::
  "'p net \<Rightarrow> u32 \<Rightarrow> u16 \<Rightarrow> u32 \<Rightarrow> ptr \<Rightarrow> u32 \<Rightarrow> ptr \<Rightarrow> u32 \<Rightarrow> ptr \<Rightarrow> place option \<Rightarrow> nat \<Rightarrow> nat \<Rightarrow> 'p rpc" where
  "RPC_TakeOwnership nw tspContext protocolID encOwnerAuthSize encOwnerAuth encSrkAuthSize encSrkAuth srkInfoSize
     srkInfo ownerAuth srkKeySize srkKey =
     call BAD tspContext (RPC_TakeOwnership_TP nw protocolID encOwnerAuthSize encOwnerAuth encSrkAuthSize encSrkAuth
       srkInfoSize srkInfo ownerAuth srkKeySize srkKey)"

definition RPC_OIAP :: "'p net \<Rightarrow> u32 \<Rightarrow> nat \<Rightarrow> nat \<Rightarrow> 'p rpc" where
  "RPC_OIAP nw tspContext authHandle nonce0 = call BAD tspContext (RPC_OIAP_TP nw authHandle nonce0)"

definition RPC_OSAP :: "'p net \<Rightarrow> u32 \<Rightarrow> u16 \<Rightarrow> u32 \<Rightarrow> u8 list \<Rightarrow> nat \<Rightarrow> nat \<Rightarrow> nat \<Rightarrow> 'p rpc" where
  "RPC_OSAP nw tspContext entityType entityValue nonceOddOSAP authHandle nonceEven nonceEvenOSAP =
     call BAD tspContext (RPC_OSAP_TP nw entityType entityValue nonceOddOSAP authHandle nonceEven nonceEvenOSAP)"

definition RPC_APCreate ::
  "'p net \<Rightarrow> u32 \<Rightarrow> u16 \<Rightarrow> u32 \<Rightarrow> u8 list \<Rightarrow> u8 list \<Rightarrow> nat \<Rightarrow> nat \<Rightarrow> nat \<Rightarrow> nat \<Rightarrow> 'p rpc" where
  "RPC_APCreate nw tspContext entityType entityValue nonceOdd inHMAC authHandle nonceEven seq outHMAC =
     call BAD tspContext (RPC_APCREATE_TP nw entityType entityValue nonceOdd inHMAC authHandle nonceEven seq outHMAC)"

definition RPC_ChangeAuth ::
  "'p net \<Rightarrow> u32 \<Rightarrow> u32 \<Rightarrow> u16 \<Rightarrow> u8 list \<Rightarrow> u16 \<Rightarrow> u32 \<Rightarrow> ptr \<Rightarrow> place option \<Rightarrow> place option \<Rightarrow> nat \<Rightarrow> nat \<Rightarrow> 'p
   rpc" where
  "RPC_ChangeAuth nw tspContext parentHandle protocolID newAuth entityType encDataSize encData ownerAuth entityAuth
     outDataSize outData =
     call BAD tspContext (RPC_ChangeAuth_TP nw parentHandle protocolID newAuth entityType encDataSize encData
       ownerAuth entityAuth outDataSize outData)"

definition RPC_ChangeAuthOwner :: "'p net \<Rightarrow> u32 \<Rightarrow> u16 \<Rightarrow> u8 list \<Rightarrow> u16 \<Rightarrow> place option \<Rightarrow> 'p rpc" where
  "RPC_ChangeAuthOwner nw tspContext protocolID newAuth entityType ownerAuth =
     call BAD tspContext (RPC_ChangeAuthOwner_TP nw protocolID newAuth entityType ownerAuth)"

definition RPC_ChangeAuthAsymStart :: "u32 \<Rightarrow> 'p rpc" where
  "RPC_ChangeAuthAsymStart tspContext = call BAD tspContext RPC_ChangeAuthAsymStart_TP"

definition RPC_ChangeAuthAsymFinish :: "u32 \<Rightarrow> 'p rpc" where
  "RPC_ChangeAuthAsymFinish tspContext = call BAD tspContext RPC_ChangeAuthAsymFinish_TP"

definition RPC_TerminateHandle :: "'p net \<Rightarrow> u32 \<Rightarrow> u32 \<Rightarrow> 'p rpc" where
  "RPC_TerminateHandle nw tspContext handle = call BAD tspContext (RPC_TerminateHandle_TP nw handle)"

definition RPC_ActivateTPMIdentity ::
  "'p net \<Rightarrow> u32 \<Rightarrow> u32 \<Rightarrow> u32 \<Rightarrow> ptr \<Rightarrow> place option \<Rightarrow> place option \<Rightarrow> nat \<Rightarrow> nat \<Rightarrow> 'p rpc" where
  "RPC_ActivateTPMIdentity nw tspContext idKey blobSize blob idKeyAuth ownerAuth SymmetricKeySize SymmetricKey =
     call BAD tspContext (RPC_ActivateTPMIdentity_TP nw idKey blobSize blob idKeyAuth ownerAuth SymmetricKeySize
       SymmetricKey)"

definition RPC_Extend :: "'p net \<Rightarrow> u32 \<Rightarrow> u32 \<Rightarrow> u8 list \<Rightarrow> nat \<Rightarrow> 'p rpc" where
  "RPC_Extend nw tspContext pcrNum inDigest outDigest =
     call BAD tspContext (RPC_Extend_TP nw pcrNum inDigest outDigest)"

definition RPC_PcrRead :: "'p net \<Rightarrow> u32 \<Rightarrow> u32 \<Rightarrow> nat \<Rightarrow> 'p rpc" where
  "RPC_PcrRead nw tspContext pcrNum outDigest = call BAD tspContext (RPC_PcrRead_TP nw pcrNum outDigest)"

definition RPC_PcrReset :: "'p net \<Rightarrow> u32 \<Rightarrow> u32 \<Rightarrow> ptr \<Rightarrow> 'p rpc" where
  "RPC_PcrReset nw tspContext pcrDataSizeIn pcrDataIn =
     call BAD tspContext (RPC_PcrReset_TP nw pcrDataSizeIn pcrDataIn)"

definition RPC_Quote ::
  "'p net \<Rightarrow> u32 \<Rightarrow> u32 \<Rightarrow> u8 list \<Rightarrow> u32 \<Rightarrow> ptr \<Rightarrow> place option \<Rightarrow> nat \<Rightarrow> nat \<Rightarrow> nat \<Rightarrow> nat \<Rightarrow> 'p rpc" where
  "RPC_Quote nw tspContext keyHandle antiReplay pcrDataSizeIn pcrDataIn privAuth pcrDataSizeOut pcrDataOut sigSize
     sig =
     call BAD tspContext (RPC_Quote_TP nw keyHandle antiReplay pcrDataSizeIn pcrDataIn privAuth pcrDataSizeOut
       pcrDataOut sigSize sig)"

definition RPC_Quote2 ::
  "'p net \<Rightarrow> u32 \<Rightarrow> u32 \<Rightarrow> u8 list \<Rightarrow> u32 \<Rightarrow> ptr \<Rightarrow> u8 \<Rightarrow> place option \<Rightarrow> nat \<Rightarrow> nat \<Rightarrow> nat \<Rightarrow> nat \<Rightarrow> nat \<Rightarrow> nat \<Rightarrow>
   'p rpc" where
  "RPC_Quote2 nw tspContext keyHandle antiReplay pcrDataSizeIn pcrDataIn addVersion privAuth pcrDataSizeOut
     pcrDataOut versionInfoSize versionInfo sigSize sig =
     call BAD tspContext (RPC_Quote2_TP nw keyHandle antiReplay pcrDataSizeIn pcrDataIn addVersion privAuth
       pcrDataSizeOut pcrDataOut versionInfoSize versionInfo sigSize sig)"

definition RPC_DirWriteAuth :: "'p net \<Rightarrow> u32 \<Rightarrow> u32 \<Rightarrow> u8 list \<Rightarrow> place option \<Rightarrow> 'p rpc" where
  "RPC_DirWriteAuth nw tspContext dirIndex newContents ownerAuth =
     call BAD tspContext (RPC_DirWriteAuth_TP nw dirIndex newContents ownerAuth)"

definition RPC_DirRead :: "'p net \<Rightarrow> u32 \<Rightarrow> u32 \<Rightarrow> nat \<Rightarrow> 'p rpc" where
  "RPC_DirRead nw tspContext dirIndex dirValue = call BAD tspContext (RPC_DirRead_TP nw dirIndex dirValue)"

definition RPC_Seal ::
  "'p net \<Rightarrow> u32 \<Rightarrow> u32 \<Rightarrow> u8 list \<Rightarrow> u32 \<Rightarrow> ptr \<Rightarrow> u32 \<Rightarrow> ptr \<Rightarrow> place option \<Rightarrow> nat \<Rightarrow> nat \<Rightarrow> 'p rpc" where
  "RPC_Seal nw tspContext keyHandle encAuth pcrInfoSize PcrInfo inDataSize inData pubAuth SealedDataSize SealedData
     =
     call BAD tspContext (RPC_Seal_TP nw keyHandle encAuth pcrInfoSize PcrInfo inDataSize inData pubAuth
       SealedDataSize SealedData)"

definition RPC_Sealx ::
  "'p net \<Rightarrow> u32 \<Rightarrow> u32 \<Rightarrow> u8 list \<Rightarrow> u32 \<Rightarrow> ptr \<Rightarrow> u32 \<Rightarrow> ptr \<Rightarrow> place option \<Rightarrow> nat \<Rightarrow> nat \<Rightarrow> 'p rpc" where
  "RPC_Sealx nw tspContext keyHandle encAuth pcrInfoSize PcrInfo inDataSize inData pubAuth SealedDataSize SealedData
     =
     call BAD tspContext (RPC_Sealx_TP nw keyHandle encAuth pcrInfoSize PcrInfo inDataSize inData pubAuth
       SealedDataSize SealedData)"

definition RPC_Unseal ::
  "'p net \<Rightarrow> u32 \<Rightarrow> u32 \<Rightarrow> u32 \<Rightarrow> ptr \<Rightarrow> place option \<Rightarrow> place option \<Rightarrow> nat \<Rightarrow> nat \<Rightarrow> 'p rpc" where
  "RPC_Unseal nw tspContext parentHandle SealedDataSize SealedData parentAuth dataAuth DataSize Data =
     call BAD tspContext (RPC_Unseal_TP nw parentHandle SealedDataSize SealedData parentAuth dataAuth DataSize Data)"

definition RPC_UnBind :: "'p net \<Rightarrow> u32 \<Rightarrow> u32 \<Rightarrow> u32 \<Rightarrow> ptr \<Rightarrow> place option \<Rightarrow> nat \<Rightarrow> nat \<Rightarrow> 'p rpc" where
  "RPC_UnBind nw tspContext keyHandle inDataSize inData privAuth outDataSize outData =
     call BAD tspContext (RPC_UnBind_TP nw keyHandle inDataSize inData privAuth outDataSize outData)"

definition RPC_CreateMigrationBlob ::
  "'p net \<Rightarrow> u32 \<Rightarrow> u32 \<Rightarrow> u16 \<Rightarrow> u32 \<Rightarrow> ptr \<Rightarrow> u32 \<Rightarrow> ptr \<Rightarrow> place option \<Rightarrow> place option \<Rightarrow> nat \<Rightarrow> nat \<Rightarrow> nat \<Rightarrow>
   nat \<Rightarrow> 'p rpc" where
  "RPC_CreateMigrationBlob nw tspContext parentHandle migrationType MigrationKeyAuthSize MigrationKeyAuth
     encDataSize encData parentAuth entityAuth randomSize random_out outDataSize outData =
     call BAD tspContext (RPC_CreateMigrationBlob_TP nw parentHandle migrationType MigrationKeyAuthSize
       MigrationKeyAuth encDataSize encData parentAuth entityAuth randomSize random_out outDataSize outData)"

definition RPC_ConvertMigrationBlob ::
  "'p net \<Rightarrow> u32 \<Rightarrow> u32 \<Rightarrow> u32 \<Rightarrow> ptr \<Rightarrow> u32 \<Rightarrow> ptr \<Rightarrow> place option \<Rightarrow> nat \<Rightarrow> nat \<Rightarrow> 'p rpc" where
  "RPC_ConvertMigrationBlob nw tspContext parentHandle inDataSize inData randomSize random_out parentAuth
     outDataSize outData =
     call BAD tspContext (RPC_ConvertMigrationBlob_TP nw parentHandle inDataSize inData randomSize random_out
       parentAuth outDataSize outData)"

definition RPC_AuthorizeMigrationKey ::
  "'p net \<Rightarrow> u32 \<Rightarrow> u16 \<Rightarrow> u32 \<Rightarrow> ptr \<Rightarrow> place option \<Rightarrow> nat \<Rightarrow> nat \<Rightarrow> 'p rpc" where
  "RPC_AuthorizeMigrationKey nw tspContext migrateScheme MigrationKeySize MigrationKey ownerAuth
     MigrationKeyAuthSize MigrationKeyAuth =
     call BAD tspContext (RPC_AuthorizeMigrationKey_TP nw migrateScheme MigrationKeySize MigrationKey ownerAuth
       MigrationKeyAuthSize MigrationKeyAuth)"

definition RPC_CertifyKey ::
  "'p net \<Rightarrow> u32 \<Rightarrow> u32 \<Rightarrow> u32 \<Rightarrow> u8 list \<Rightarrow> place option \<Rightarrow> place option \<Rightarrow> nat \<Rightarrow> nat \<Rightarrow> nat \<Rightarrow> nat \<Rightarrow> 'p rpc" where
  "RPC_CertifyKey nw tspContext certHandle keyHandle antiReplay certAuth keyAuth CertifyInfoSize CertifyInfo
     outDataSize outData =
     call BAD tspContext (RPC_CertifyKey_TP nw certHandle keyHandle antiReplay certAuth keyAuth CertifyInfoSize
       CertifyInfo outDataSize outData)"

definition RPC_Sign :: "'p net \<Rightarrow> u32 \<Rightarrow> u32 \<Rightarrow> u32 \<Rightarrow> ptr \<Rightarrow> place option \<Rightarrow> nat \<Rightarrow> nat \<Rightarrow> 'p rpc" where
  "RPC_Sign nw tspContext keyHandle areaToSignSize areaToSign privAuth sigSize sig =
     call BAD tspContext (RPC_Sign_TP nw keyHandle areaToSignSize areaToSign privAuth sigSize sig)"

definition RPC_GetRandom :: "'p net \<Rightarrow> u32 \<Rightarrow> nat \<Rightarrow> u32 \<Rightarrow> nat \<Rightarrow> 'p rpc" where
  "RPC_GetRandom nw tspContext requested bytesRequested randomBytes =
     call BAD tspContext (RPC_GetRandom_TP nw requested bytesRequested randomBytes)"

definition RPC_StirRandom :: "'p net \<Rightarrow> u32 \<Rightarrow> u32 \<Rightarrow> ptr \<Rightarrow> 'p rpc" where
  "RPC_StirRandom nw tspContext inDataSize inData = call BAD tspContext (RPC_StirRandom_TP nw inDataSize inData)"

definition RPC_GetTPMCapability :: "'p net \<Rightarrow> u32 \<Rightarrow> u32 \<Rightarrow> u32 \<Rightarrow> ptr \<Rightarrow> nat \<Rightarrow> nat \<Rightarrow> 'p rpc" where
  "RPC_GetTPMCapability nw tspContext capArea subCapSize subCap respSize resp =
     call BAD tspContext (RPC_GetTPMCapability_TP nw capArea subCapSize subCap respSize resp)"

definition RPC_SetCapability :: "'p net \<Rightarrow> u32 \<Rightarrow> u32 \<Rightarrow> u32 \<Rightarrow> ptr \<Rightarrow> u32 \<Rightarrow> ptr \<Rightarrow> place option \<Rightarrow> 'p rpc" where
  "RPC_SetCapability nw tspContext capArea subCapSize subCap valueSize value_in ownerAuth =
     call BAD tspContext (RPC_SetCapability_TP nw capArea subCapSize subCap valueSize value_in ownerAuth)"

definition RPC_GetCapabilitySigned :: "u32 \<Rightarrow> 'p rpc" where
  "RPC_GetCapabilitySigned tspContext = call BAD tspContext RPC_GetCapabilitySigned_TP"

definition RPC_GetCapabilityOwner :: "'p net \<Rightarrow> u32 \<Rightarrow> place option \<Rightarrow> nat \<Rightarrow> nat \<Rightarrow> nat \<Rightarrow> 'p rpc" where
  "RPC_GetCapabilityOwner nw tspContext pOwnerAuth pVersion pNonVolatileFlags pVolatileFlags =
     call BAD tspContext (RPC_GetCapabilityOwner_TP nw pOwnerAuth pVersion pNonVolatileFlags pVolatileFlags)"

definition RPC_CreateEndorsementKeyPair ::
  "'p net \<Rightarrow> u32 \<Rightarrow> u8 list \<Rightarrow> u32 \<Rightarrow> ptr \<Rightarrow> nat \<Rightarrow> nat \<Rightarrow> nat \<Rightarrow> 'p rpc" where
  "RPC_CreateEndorsementKeyPair nw tspContext antiReplay endorsementKeyInfoSize endorsementKeyInfo
     endorsementKeySize endorsementKey checksum =
     call BAD tspContext (RPC_CreateEndorsementKeyPair_TP nw antiReplay endorsementKeyInfoSize endorsementKeyInfo
       endorsementKeySize endorsementKey checksum)"

definition RPC_ReadPubek :: "'p net \<Rightarrow> u32 \<Rightarrow> u8 list \<Rightarrow> nat \<Rightarrow> nat \<Rightarrow> nat \<Rightarrow> 'p rpc" where
  "RPC_ReadPubek nw tspContext antiReplay pubEndorsementKeySize pubEndorsementKey checksum =
     call BAD tspContext (RPC_ReadPubek_TP nw antiReplay pubEndorsementKeySize pubEndorsementKey checksum)"

definition RPC_DisablePubekRead :: "'p net \<Rightarrow> u32 \<Rightarrow> place option \<Rightarrow> 'p rpc" where
  "RPC_DisablePubekRead nw tspContext ownerAuth = call BAD tspContext (RPC_DisablePubekRead_TP nw ownerAuth)"

definition RPC_OwnerReadPubek :: "'p net \<Rightarrow> u32 \<Rightarrow> place option \<Rightarrow> nat \<Rightarrow> nat \<Rightarrow> 'p rpc" where
  "RPC_OwnerReadPubek nw tspContext ownerAuth pubEndorsementKeySize pubEndorsementKey =
     call BAD tspContext (RPC_OwnerReadPubek_TP nw ownerAuth pubEndorsementKeySize pubEndorsementKey)"

definition RPC_CreateRevocableEndorsementKeyPair ::
  "'p net \<Rightarrow> u32 \<Rightarrow> u8 list \<Rightarrow> u32 \<Rightarrow> ptr \<Rightarrow> u8 \<Rightarrow> nat \<Rightarrow> nat \<Rightarrow> nat \<Rightarrow> nat \<Rightarrow> 'p rpc" where
  "RPC_CreateRevocableEndorsementKeyPair nw tspContext antiReplay endorsementKeyInfoSize endorsementKeyInfo
     genResetAuth eKResetAuth endorsementKeySize endorsementKey checksum =
     call BAD tspContext (RPC_CreateRevocableEndorsementKeyPair_TP nw antiReplay endorsementKeyInfoSize
       endorsementKeyInfo genResetAuth eKResetAuth endorsementKeySize endorsementKey checksum)"

definition RPC_RevokeEndorsementKeyPair :: "'p net \<Rightarrow> u32 \<Rightarrow> u8 list \<Rightarrow> 'p rpc" where
  "RPC_RevokeEndorsementKeyPair nw tspContext EKResetAuth =
     call BAD tspContext (RPC_RevokeEndorsementKeyPair_TP nw EKResetAuth)"

definition RPC_SelfTestFull :: "'p net \<Rightarrow> u32 \<Rightarrow> 'p rpc" where
  "RPC_SelfTestFull nw tspContext = call BAD tspContext (RPC_SelfTestFull_TP nw)"

definition RPC_CertifySelfTest :: "'p net \<Rightarrow> u32 \<Rightarrow> u32 \<Rightarrow> u8 list \<Rightarrow> place option \<Rightarrow> nat \<Rightarrow> nat \<Rightarrow> 'p rpc" where
  "RPC_CertifySelfTest nw tspContext keyHandle antiReplay privAuth sigSize sig =
     call BAD tspContext (RPC_CertifySelfTest_TP nw keyHandle antiReplay privAuth sigSize sig)"

definition RPC_GetTestResult :: "'p net \<Rightarrow> u32 \<Rightarrow> nat \<Rightarrow> nat \<Rightarrow> 'p rpc" where
  "RPC_GetTestResult nw tspContext outDataSize outData =
     call BAD tspContext (RPC_GetTestResult_TP nw outDataSize outData)"

definition RPC_OwnerSetDisable :: "'p net \<Rightarrow> u32 \<Rightarrow> u8 \<Rightarrow> place option \<Rightarrow> 'p rpc" where
  "RPC_OwnerSetDisable nw tspContext disableState ownerAuth =
     call BAD tspContext (RPC_OwnerSetDisable_TP nw disableState ownerAuth)"

definition RPC_ResetLockValue :: "'p net \<Rightarrow> u32 \<Rightarrow> place option \<Rightarrow> 'p rpc" where
  "RPC_ResetLockValue nw tspContext ownerAuth = call BAD tspContext (RPC_ResetLockValue_TP nw ownerAuth)"

definition RPC_OwnerClear :: "'p net \<Rightarrow> u32 \<Rightarrow> place option \<Rightarrow> 'p rpc" where
  "RPC_OwnerClear nw tspContext ownerAuth = call BAD tspContext (RPC_OwnerClear_TP nw ownerAuth)"

definition RPC_DisableOwnerClear :: "'p net \<Rightarrow> u32 \<Rightarrow> place option \<Rightarrow> 'p rpc" where
  "RPC_DisableOwnerClear nw tspContext ownerAuth = call BAD tspContext (RPC_DisableOwnerClear_TP nw ownerAuth)"

definition RPC_ForceClear :: "'p net \<Rightarrow> u32 \<Rightarrow> 'p rpc" where
  "RPC_ForceClear nw tspContext = call BAD tspContext (RPC_ForceClear_TP nw)"

definition RPC_DisableForceClear :: "'p net \<Rightarrow> u32 \<Rightarrow> 'p rpc" where
  "RPC_DisableForceClear nw tspContext = call BAD tspContext (RPC_DisableForceClear_TP nw)"

definition RPC_PhysicalDisable :: "'p net \<Rightarrow> u32 \<Rightarrow> 'p rpc" where
  "RPC_PhysicalDisable nw tspContext = call BAD tspContext (RPC_PhysicalDisable_TP nw)"

definition RPC_PhysicalEnable :: "'p net \<Rightarrow> u32 \<Rightarrow> 'p rpc" where
  "RPC_PhysicalEnable nw tspContext = call BAD tspContext (RPC_PhysicalEnable_TP nw)"

definition RPC_PhysicalSetDeactivated :: "'p net \<Rightarrow> u32 \<Rightarrow> u8 \<Rightarrow> 'p rpc" where
  "RPC_PhysicalSetDeactivated nw tspContext state = call BAD tspContext (RPC_PhysicalSetDeactivated_TP nw state)"

definition RPC_PhysicalPresence :: "'p net \<Rightarrow> u32 \<Rightarrow> u16 \<Rightarrow> 'p rpc" where
  "RPC_PhysicalPresence nw tspContext fPhysicalPresence =
     call BAD tspContext (RPC_PhysicalPresence_TP nw fPhysicalPresence)"

definition RPC_SetTempDeactivated :: "'p net \<Rightarrow> u32 \<Rightarrow> 'p rpc" where
  "RPC_SetTempDeactivated nw tspContext = call BAD tspContext (RPC_SetTempDeactivated_TP nw)"

definition RPC_SetTempDeactivated2 :: "'p net \<Rightarrow> u32 \<Rightarrow> place option \<Rightarrow> 'p rpc" where
  "RPC_SetTempDeactivated2 nw tspContext operatorAuth =
     call BAD tspContext (RPC_SetTempDeactivated2_TP nw operatorAuth)"

definition RPC_FieldUpgrade :: "u32 \<Rightarrow> 'p rpc" where
  "RPC_FieldUpgrade tspContext = call BAD tspContext (\<lambda>st. Some (BAD, st))"

definition RPC_SetRedirection :: "u32 \<Rightarrow> 'p rpc" where
  "RPC_SetRedirection tspContext = call BAD tspContext (\<lambda>st. Some (BAD, st))"

definition RPC_CreateMaintenanceArchive ::
  "'p net \<Rightarrow> u32 \<Rightarrow> u8 \<Rightarrow> place option \<Rightarrow> nat \<Rightarrow> nat \<Rightarrow> nat \<Rightarrow> nat \<Rightarrow> 'p rpc" where
  "RPC_CreateMaintenanceArchive nw tspContext generateRandom ownerAuth randomSize random_out archiveSize archive =
     call BAD tspContext (RPC_CreateMaintenanceArchive_TP nw generateRandom ownerAuth randomSize random_out
       archiveSize archive)"

definition RPC_LoadMaintenanceArchive ::
  "'p net \<Rightarrow> u32 \<Rightarrow> u32 \<Rightarrow> u8 list \<Rightarrow> place option \<Rightarrow> nat \<Rightarrow> nat \<Rightarrow> 'p rpc" where
  "RPC_LoadMaintenanceArchive nw tspContext dataInSize dataIn ownerAuth dataOutSize dataOut =
     call BAD tspContext (RPC_LoadMaintenanceArchive_TP nw dataInSize dataIn ownerAuth dataOutSize dataOut)"

definition RPC_KillMaintenanceFeature :: "'p net \<Rightarrow> u32 \<Rightarrow> place option \<Rightarrow> 'p rpc" where
  "RPC_KillMaintenanceFeature nw tspContext ownerAuth =
     call BAD tspContext (RPC_KillMaintenanceFeature_TP nw ownerAuth)"

definition RPC_LoadManuMaintPub :: "'p net \<Rightarrow> u32 \<Rightarrow> u8 list \<Rightarrow> u32 \<Rightarrow> ptr \<Rightarrow> nat \<Rightarrow> 'p rpc" where
  "RPC_LoadManuMaintPub nw tspContext antiReplay PubKeySize PubKey checksum =
     call BAD tspContext (RPC_LoadManuMaintPub_TP nw antiReplay PubKeySize PubKey checksum)"

definition RPC_ReadManuMaintPub :: "'p net \<Rightarrow> u32 \<Rightarrow> u8 list \<Rightarrow> nat \<Rightarrow> 'p rpc" where
  "RPC_ReadManuMaintPub nw tspContext antiReplay checksum =
     call BAD tspContext (RPC_ReadManuMaintPub_TP nw antiReplay checksum)"

definition RPC_DaaJoin ::
  "'p net \<Rightarrow> u32 \<Rightarrow> u32 \<Rightarrow> u8 \<Rightarrow> u32 \<Rightarrow> ptr \<Rightarrow> u32 \<Rightarrow> ptr \<Rightarrow> place option \<Rightarrow> nat \<Rightarrow> nat \<Rightarrow> 'p rpc" where
  "RPC_DaaJoin nw tspContext daa_session stage inputSize0 inputData0 inputSize1 inputData1 ownerAuth outputSize
     outputData =
     call BAD tspContext (RPC_DaaJoin_TP nw daa_session stage inputSize0 inputData0 inputSize1 inputData1 ownerAuth
       outputSize outputData)"

definition RPC_DaaSign ::
  "'p net \<Rightarrow> u32 \<Rightarrow> u32 \<Rightarrow> u8 \<Rightarrow> u32 \<Rightarrow> ptr \<Rightarrow> u32 \<Rightarrow> ptr \<Rightarrow> place option \<Rightarrow> nat \<Rightarrow> nat \<Rightarrow> 'p rpc" where
  "RPC_DaaSign nw tspContext daa_session stage inputSize0 inputData0 inputSize1 inputData1 ownerAuth outputSize
     outputData =
     call BAD tspContext (RPC_DaaSign_TP nw daa_session stage inputSize0 inputData0 inputSize1 inputData1 ownerAuth
       outputSize outputData)"

definition RPC_ReadCounter :: "'p net \<Rightarrow> u32 \<Rightarrow> u32 \<Rightarrow> nat \<Rightarrow> 'p rpc" where
  "RPC_ReadCounter nw tspContext idCounter counterValue =
     call BAD tspContext (RPC_ReadCounter_TP nw idCounter counterValue)"

definition RPC_CreateCounter ::
  "'p net \<Rightarrow> u32 \<Rightarrow> u32 \<Rightarrow> u8 list \<Rightarrow> u8 list \<Rightarrow> place option \<Rightarrow> nat \<Rightarrow> nat \<Rightarrow> 'p rpc" where
  "RPC_CreateCounter nw tspContext LabelSize pLabel CounterAuth pOwnerAuth idCounter counterValue =
     call BAD tspContext (RPC_CreateCounter_TP nw LabelSize pLabel CounterAuth pOwnerAuth idCounter counterValue)"

definition RPC_IncrementCounter :: "'p net \<Rightarrow> u32 \<Rightarrow> u32 \<Rightarrow> place option \<Rightarrow> nat \<Rightarrow> 'p rpc" where
  "RPC_IncrementCounter nw tspContext idCounter pCounterAuth counterValue =
     call BAD tspContext (RPC_IncrementCounter_TP nw idCounter pCounterAuth counterValue)"

definition RPC_ReleaseCounter :: "'p net \<Rightarrow> u32 \<Rightarrow> u32 \<Rightarrow> place option \<Rightarrow> 'p rpc" where
  "RPC_ReleaseCounter nw tspContext idCounter pCounterAuth =
     call BAD tspContext (RPC_ReleaseCounter_TP nw idCounter pCounterAuth)"

definition RPC_ReleaseCounterOwner :: "'p net \<Rightarrow> u32 \<Rightarrow> u32 \<Rightarrow> place option \<Rightarrow> 'p rpc" where
  "RPC_ReleaseCounterOwner nw tspContext idCounter pOwnerAuth =
     call BAD tspContext (RPC_ReleaseCounterOwner_TP nw idCounter pOwnerAuth)"

definition RPC_ReadCurrentTicks :: "'p net \<Rightarrow> u32 \<Rightarrow> nat \<Rightarrow> nat \<Rightarrow> 'p rpc" where
  "RPC_ReadCurrentTicks nw tspContext pulCurrentTime prgbCurrentTime =
     call BAD tspContext (RPC_ReadCurrentTicks_TP nw pulCurrentTime prgbCurrentTime)"

definition RPC_TickStampBlob ::
  "'p net \<Rightarrow> u32 \<Rightarrow> u32 \<Rightarrow> u8 list \<Rightarrow> u8 list \<Rightarrow> place option \<Rightarrow> nat \<Rightarrow> nat \<Rightarrow> nat \<Rightarrow> nat \<Rightarrow> 'p rpc" where
  "RPC_TickStampBlob nw tspContext hKey antiReplay digestToStamp privAuth pulSignatureLength prgbSignature
     pulTickCountLength prgbTickCount =
     call BAD tspContext (RPC_TickStampBlob_TP nw hKey antiReplay digestToStamp privAuth pulSignatureLength
       prgbSignature pulTickCountLength prgbTickCount)"

definition RPC_EstablishTransport ::
  "'p net \<Rightarrow> u32 \<Rightarrow> u32 \<Rightarrow> u32 \<Rightarrow> u32 \<Rightarrow> ptr \<Rightarrow> u32 \<Rightarrow> ptr \<Rightarrow> place option \<Rightarrow> nat \<Rightarrow> nat \<Rightarrow> nat \<Rightarrow> nat \<Rightarrow> nat \<Rightarrow> 'p
   rpc" where
  "RPC_EstablishTransport nw tspContext ulTransControlFlags hEncKey ulTransSessionInfoSize rgbTransSessionInfo
     ulSecretSize rgbSecret pEncKeyAuth pbLocality hTransSession ulCurrentTicksSize prgbCurrentTicks pTransNonce
     =
     call BAD tspContext (RPC_EstablishTransport_TP nw ulTransControlFlags hEncKey ulTransSessionInfoSize
       rgbTransSessionInfo ulSecretSize rgbSecret pEncKeyAuth pbLocality hTransSession ulCurrentTicksSize
       prgbCurrentTicks pTransNonce)"

definition RPC_ExecuteTransport ::
  "'p net \<Rightarrow> u32 \<Rightarrow> u32 \<Rightarrow> u32 \<Rightarrow> ptr \<Rightarrow> nat \<Rightarrow> nat \<Rightarrow> place option \<Rightarrow> place option \<Rightarrow> place option \<Rightarrow> nat \<Rightarrow> nat \<Rightarrow>
   nat \<Rightarrow> nat \<Rightarrow> nat \<Rightarrow> 'p rpc" where
  "RPC_ExecuteTransport nw tspContext unWrappedCommandOrdinal ulWrappedCmdParamInSize rgbWrappedCmdParamIn
     pulHandleListSize rghHandles pWrappedCmdAuth1 pWrappedCmdAuth2 pTransAuth punCurrentTicks pbLocality
     pulWrappedCmdReturnCode ulWrappedCmdParamOutSize rgbWrappedCmdParamOut =
     call BAD tspContext (RPC_ExecuteTransport_TP nw unWrappedCommandOrdinal ulWrappedCmdParamInSize
       rgbWrappedCmdParamIn pulHandleListSize rghHandles pWrappedCmdAuth1 pWrappedCmdAuth2 pTransAuth
       punCurrentTicks pbLocality pulWrappedCmdReturnCode ulWrappedCmdParamOutSize rgbWrappedCmdParamOut)"

definition RPC_ReleaseTransportSigned ::
  "'p net \<Rightarrow> u32 \<Rightarrow> u32 \<Rightarrow> u8 list \<Rightarrow> place option \<Rightarrow> place option \<Rightarrow> nat \<Rightarrow> nat \<Rightarrow> nat \<Rightarrow> nat \<Rightarrow> nat \<Rightarrow> 'p rpc" where
  "RPC_ReleaseTransportSigned nw tspContext hSignatureKey AntiReplayNonce pKeyAuth pTransAuth pbLocality
     pulCurrentTicksSize prgbCurrentTicks pulSignatureSize prgbSignature =
     call BAD tspContext (RPC_ReleaseTransportSigned_TP nw hSignatureKey AntiReplayNonce pKeyAuth pTransAuth
       pbLocality pulCurrentTicksSize prgbCurrentTicks pulSignatureSize prgbSignature)"

definition RPC_NV_DefineOrReleaseSpace :: "'p net \<Rightarrow> u32 \<Rightarrow> u32 \<Rightarrow> ptr \<Rightarrow> u8 list \<Rightarrow> place option \<Rightarrow> 'p rpc" where
  "RPC_NV_DefineOrReleaseSpace nw tspContext cPubInfoSize pPubInfo encAuth pAuth =
     call BAD tspContext (RPC_NV_DefineOrReleaseSpace_TP nw cPubInfoSize pPubInfo encAuth pAuth)"

definition RPC_NV_WriteValue :: "'p net \<Rightarrow> u32 \<Rightarrow> u32 \<Rightarrow> u32 \<Rightarrow> u32 \<Rightarrow> ptr \<Rightarrow> place option \<Rightarrow> 'p rpc" where
  "RPC_NV_WriteValue nw tspContext hNVStore offset_in ulDataLength rgbDataToWrite privAuth =
     call BAD tspContext (RPC_NV_WriteValue_TP nw hNVStore offset_in ulDataLength rgbDataToWrite privAuth)"

definition RPC_NV_WriteValueAuth :: "'p net \<Rightarrow> u32 \<Rightarrow> u32 \<Rightarrow> u32 \<Rightarrow> u32 \<Rightarrow> ptr \<Rightarrow> place option \<Rightarrow> 'p rpc" where
  "RPC_NV_WriteValueAuth nw tspContext hNVStore offset_in ulDataLength rgbDataToWrite NVAuth =
     call BAD tspContext (RPC_NV_WriteValueAuth_TP nw hNVStore offset_in ulDataLength rgbDataToWrite NVAuth)"

definition RPC_NV_ReadValue :: "'p net \<Rightarrow> u32 \<Rightarrow> u32 \<Rightarrow> u32 \<Rightarrow> nat \<Rightarrow> place option \<Rightarrow> nat \<Rightarrow> 'p rpc" where
  "RPC_NV_ReadValue nw tspContext hNVStore offset_in pulDataLength privAuth rgbDataRead =
     call BAD tspContext (RPC_NV_ReadValue_TP nw hNVStore offset_in pulDataLength privAuth rgbDataRead)"

definition RPC_NV_ReadValueAuth :: "'p net \<Rightarrow> u32 \<Rightarrow> u32 \<Rightarrow> u32 \<Rightarrow> nat \<Rightarrow> place option \<Rightarrow> nat \<Rightarrow> 'p rpc" where
  "RPC_NV_ReadValueAuth nw tspContext hNVStore offset_in pulDataLength NVAuth rgbDataRead =
     call BAD tspContext (RPC_NV_ReadValueAuth_TP nw hNVStore offset_in pulDataLength NVAuth rgbDataRead)"

definition RPC_SetOrdinalAuditStatus :: "'p net \<Rightarrow> u32 \<Rightarrow> place option \<Rightarrow> u32 \<Rightarrow> u8 \<Rightarrow> 'p rpc" where
  "RPC_SetOrdinalAuditStatus nw tspContext ownerAuth ulOrdinal bAuditState =
     call TSS_SUCCESS tspContext (RPC_SetOrdinalAuditStatus_TP nw ownerAuth ulOrdinal bAuditState)"

definition RPC_GetAuditDigest :: "'p net \<Rightarrow> u32 \<Rightarrow> u32 \<Rightarrow> nat \<Rightarrow> nat \<Rightarrow> nat \<Rightarrow> nat \<Rightarrow> nat \<Rightarrow> nat \<Rightarrow> 'p rpc" where
  "RPC_GetAuditDigest nw tspContext startOrdinal auditDigest counterValueSize counterValue more_out ordSize ordList
     =
     call TSS_SUCCESS tspContext (RPC_GetAuditDigest_TP nw startOrdinal auditDigest counterValueSize counterValue
       more_out ordSize ordList)"

definition RPC_GetAuditDigestSigned ::
  "'p net \<Rightarrow> u32 \<Rightarrow> u32 \<Rightarrow> u8 \<Rightarrow> u8 list \<Rightarrow> place option \<Rightarrow> nat \<Rightarrow> nat \<Rightarrow> nat \<Rightarrow> nat \<Rightarrow> nat \<Rightarrow> nat \<Rightarrow> 'p rpc" where
  "RPC_GetAuditDigestSigned nw tspContext keyHandle closeAudit antiReplay privAuth counterValueSize counterValue
     auditDigest ordinalDigest sigSize sig =
     call TSS_SUCCESS tspContext (RPC_GetAuditDigestSigned_TP nw keyHandle closeAudit antiReplay privAuth
       counterValueSize counterValue auditDigest ordinalDigest sigSize sig)"

definition RPC_SetOperatorAuth :: "'p net \<Rightarrow> u32 \<Rightarrow> u8 list \<Rightarrow> 'p rpc" where
  "RPC_SetOperatorAuth nw tspContext operatorAuth =
     call TSS_SUCCESS tspContext (RPC_SetOperatorAuth_TP nw operatorAuth)"

definition RPC_OwnerReadInternalPub :: "'p net \<Rightarrow> u32 \<Rightarrow> u32 \<Rightarrow> place option \<Rightarrow> nat \<Rightarrow> nat \<Rightarrow> 'p rpc" where
  "RPC_OwnerReadInternalPub nw tspContext hKey pOwnerAuth punPubKeySize ppbPubKeyData =
     call BAD tspContext (RPC_OwnerReadInternalPub_TP nw hKey pOwnerAuth punPubKeySize ppbPubKeyData)"

definition RPC_Delegate_Manage ::
  "'p net \<Rightarrow> u32 \<Rightarrow> u32 \<Rightarrow> u32 \<Rightarrow> u32 \<Rightarrow> ptr \<Rightarrow> place option \<Rightarrow> nat \<Rightarrow> nat \<Rightarrow> 'p rpc" where
  "RPC_Delegate_Manage nw tspContext familyID opFlag opDataSize opData ownerAuth retDataSize retData =
     call BAD tspContext (RPC_Delegate_Manage_TP nw familyID opFlag opDataSize opData ownerAuth retDataSize retData)"

definition RPC_Delegate_CreateKeyDelegation ::
  "'p net \<Rightarrow> u32 \<Rightarrow> u32 \<Rightarrow> u32 \<Rightarrow> ptr \<Rightarrow> u8 list \<Rightarrow> place option \<Rightarrow> nat \<Rightarrow> nat \<Rightarrow> 'p rpc" where
  "RPC_Delegate_CreateKeyDelegation nw tspContext hKey publicInfoSize publicInfo encDelAuth keyAuth blobSize blob =
     call BAD tspContext (RPC_Delegate_CreateKeyDelegation_TP nw hKey publicInfoSize publicInfo encDelAuth keyAuth
       blobSize blob)"

definition RPC_Delegate_CreateOwnerDelegation ::
  "'p net \<Rightarrow> u32 \<Rightarrow> u8 \<Rightarrow> u32 \<Rightarrow> ptr \<Rightarrow> u8 list \<Rightarrow> place option \<Rightarrow> nat \<Rightarrow> nat \<Rightarrow> 'p rpc" where
  "RPC_Delegate_CreateOwnerDelegation nw tspContext increment publicInfoSize publicInfo encDelAuth ownerAuth
     blobSize blob =
     call BAD tspContext (RPC_Delegate_CreateOwnerDelegation_TP nw increment publicInfoSize publicInfo encDelAuth
       ownerAuth blobSize blob)"

definition RPC_Delegate_LoadOwnerDelegation :: "'p net \<Rightarrow> u32 \<Rightarrow> u32 \<Rightarrow> u32 \<Rightarrow> ptr \<Rightarrow> place option \<Rightarrow> 'p rpc" where
  "RPC_Delegate_LoadOwnerDelegation nw tspContext index_in blobSize blob ownerAuth =
     call BAD tspContext (RPC_Delegate_LoadOwnerDelegation_TP nw index_in blobSize blob ownerAuth)"

definition RPC_Delegate_ReadTable :: "'p net \<Rightarrow> u32 \<Rightarrow> nat \<Rightarrow> nat \<Rightarrow> nat \<Rightarrow> nat \<Rightarrow> 'p rpc" where
  "RPC_Delegate_ReadTable nw tspContext familyTableSize familyTable delegateTableSize delegateTable =
     call BAD tspContext (RPC_Delegate_ReadTable_TP nw familyTableSize familyTable delegateTableSize delegateTable)"

definition RPC_Delegate_UpdateVerificationCount ::
  "'p net \<Rightarrow> u32 \<Rightarrow> u32 \<Rightarrow> ptr \<Rightarrow> place option \<Rightarrow> nat \<Rightarrow> nat \<Rightarrow> 'p rpc" where
  "RPC_Delegate_UpdateVerificationCount nw tspContext inputSize input_in ownerAuth outputSize output_out =
     call BAD tspContext (RPC_Delegate_UpdateVerificationCount_TP nw inputSize input_in ownerAuth outputSize
       output_out)"

definition RPC_Delegate_VerifyDelegation :: "'p net \<Rightarrow> u32 \<Rightarrow> u32 \<Rightarrow> ptr \<Rightarrow> 'p rpc" where
  "RPC_Delegate_VerifyDelegation nw tspContext delegateSize delegate =
     call BAD tspContext (RPC_Delegate_VerifyDelegation_TP nw delegateSize delegate)"

definition RPC_DSAP :: "'p net \<Rightarrow> u32 \<Rightarrow> u16 \<Rightarrow> u32 \<Rightarrow> u8 list \<Rightarrow> u32 \<Rightarrow> ptr \<Rightarrow> nat \<Rightarrow> nat \<Rightarrow> nat \<Rightarrow> 'p rpc" where
  "RPC_DSAP nw tspContext entityType keyHandle nonceOddDSAP entityValueSize entityValue authHandle nonceEven
     nonceEvenDSAP =
     call BAD tspContext (RPC_DSAP_TP nw entityType keyHandle nonceOddDSAP entityValueSize entityValue authHandle
       nonceEven nonceEvenDSAP)"

definition RPC_CMK_SetRestrictions :: "'p net \<Rightarrow> u32 \<Rightarrow> u32 \<Rightarrow> place option \<Rightarrow> 'p rpc" where
  "RPC_CMK_SetRestrictions nw tspContext restriction ownerAuth =
     call BAD tspContext (RPC_CMK_SetRestrictions_TP nw restriction ownerAuth)"

definition RPC_CMK_ApproveMA :: "'p net \<Rightarrow> u32 \<Rightarrow> u8 list \<Rightarrow> place option \<Rightarrow> nat \<Rightarrow> 'p rpc" where
  "RPC_CMK_ApproveMA nw tspContext migAuthorityDigest ownerAuth migAuthorityApproval =
     call BAD tspContext (RPC_CMK_ApproveMA_TP nw migAuthorityDigest ownerAuth migAuthorityApproval)"

definition RPC_CMK_CreateKey ::
  "'p net \<Rightarrow> u32 \<Rightarrow> u32 \<Rightarrow> u8 list \<Rightarrow> u8 list \<Rightarrow> u8 list \<Rightarrow> nat \<Rightarrow> nat \<Rightarrow> place option \<Rightarrow> 'p rpc" where
  "RPC_CMK_CreateKey nw tspContext hWrappingKey keyUsageAuth migAuthorityApproval migAuthorityDigest keyDataSize
     keyData pAuth =
     call BAD tspContext (RPC_CMK_CreateKey_TP nw hWrappingKey keyUsageAuth migAuthorityApproval migAuthorityDigest
       keyDataSize keyData pAuth)"

definition RPC_CMK_CreateTicket ::
  "'p net \<Rightarrow> u32 \<Rightarrow> u32 \<Rightarrow> ptr \<Rightarrow> u8 list \<Rightarrow> u32 \<Rightarrow> ptr \<Rightarrow> place option \<Rightarrow> nat \<Rightarrow> 'p rpc" where
  "RPC_CMK_CreateTicket nw tspContext publicVerifyKeySize publicVerifyKey signedData sigValueSize sigValue ownerAuth
     sigTicket =
     call BAD tspContext (RPC_CMK_CreateTicket_TP nw publicVerifyKeySize publicVerifyKey signedData sigValueSize
       sigValue ownerAuth sigTicket)"

definition RPC_CMK_CreateBlob ::
  "'p net \<Rightarrow> u32 \<Rightarrow> u32 \<Rightarrow> u16 \<Rightarrow> u32 \<Rightarrow> ptr \<Rightarrow> u8 list \<Rightarrow> u32 \<Rightarrow> ptr \<Rightarrow> u32 \<Rightarrow> ptr \<Rightarrow> u32 \<Rightarrow> ptr \<Rightarrow> u32 \<Rightarrow> ptr \<Rightarrow>
   place option \<Rightarrow> nat \<Rightarrow> nat \<Rightarrow> nat \<Rightarrow> nat \<Rightarrow> 'p rpc" where
  "RPC_CMK_CreateBlob nw tspContext hParentKey migrationType migKeyAuthSize migKeyAuth pubSourceKeyDigest
     msaListSize msaList restrictTicketSize restrictTicket sigTicketSize sigTicket encDataSize encData pAuth
     randomSize random_out outDataSize outData =
     call BAD tspContext (RPC_CMK_CreateBlob_TP nw hParentKey migrationType migKeyAuthSize migKeyAuth
       pubSourceKeyDigest msaListSize msaList restrictTicketSize restrictTicket sigTicketSize sigTicket
       encDataSize encData pAuth randomSize random_out outDataSize outData)"

definition RPC_CMK_ConvertMigration ::
  "'p net \<Rightarrow> u32 \<Rightarrow> u32 \<Rightarrow> u8 list \<Rightarrow> u8 list \<Rightarrow> u32 \<Rightarrow> ptr \<Rightarrow> u32 \<Rightarrow> ptr \<Rightarrow> u32 \<Rightarrow> ptr \<Rightarrow> place option \<Rightarrow> nat \<Rightarrow>
   nat \<Rightarrow> 'p rpc" where
  "RPC_CMK_ConvertMigration nw tspContext hParentHandle restrictTicket sigTicket keyDataSize keyData msaListSize
     msaList randomSize random_out pAuth outDataSize outData =
     call BAD tspContext (RPC_CMK_ConvertMigration_TP nw hParentHandle restrictTicket sigTicket keyDataSize keyData
       msaListSize msaList randomSize random_out pAuth outDataSize outData)"

definition RPC_FlushSpecific :: "'p net \<Rightarrow> u32 \<Rightarrow> u32 \<Rightarrow> u32 \<Rightarrow> 'p rpc" where
  "RPC_FlushSpecific nw tspContext hResHandle resourceType =
     call BAD tspContext (RPC_FlushSpecific_TP nw hResHandle resourceType)"

definition RPC_KeyControlOwner ::
  "'p net \<Rightarrow> u32 \<Rightarrow> u32 \<Rightarrow> u32 \<Rightarrow> ptr \<Rightarrow> u32 \<Rightarrow> u8 \<Rightarrow> place option \<Rightarrow> nat \<Rightarrow> 'p rpc" where
  "RPC_KeyControlOwner nw tspContext hKey ulPublicInfoLength rgbPublicInfo attribName attribValue pOwnerAuth
     pUuidData =
     call BAD tspContext (RPC_KeyControlOwner_TP nw hKey ulPublicInfoLength rgbPublicInfo attribName attribValue
       pOwnerAuth pUuidData)"

end
