(* ===== verification/Rpc_Client_Calls.thy ===== *)
theory Rpc_Client_Calls
  imports Rpc_Client_Api
begin

text \<open>
  What the remote calls leave alone: the table of connections, and the identity of the connection they use.
  The calls of \<open>tspi/rpc/tcs_api.c\<close> as one relation, and their effect on the table.
\<close>

section \<open>Procedures keep the connection\<close>

definition same_link :: "'p client \<Rightarrow> 'p client \<Rightarrow> bool" where
  "same_link st st' \<longleftrightarrow> c_table st' = c_table st \<and> ht_tspContext (c_hte st') = ht_tspContext (c_hte st)
     \<and> ht_type (c_hte st') = ht_type (c_hte st) \<and> ht_tcsContext (c_hte st') = ht_tcsContext (c_hte st)
     \<and> ht_hostname (c_hte st') = ht_hostname (c_hte st) \<and> ht_locked (c_hte st') = ht_locked (c_hte st)"

lemma same_link_same [simp]: "same_link st st" "same_link st (set_comm c st') = same_link st st'"
  "same_link st (st'\<lparr>c_mem := m\<rparr>) = same_link st st'" "same_link st (st'\<lparr>c_peer := p\<rparr>) = same_link st st'"
  "same_link st (set_socket i st') = same_link st st'" "same_link (set_comm c st) st' = same_link st st'"
  "same_link (st\<lparr>c_mem := m\<rparr>) st' = same_link st st'" "same_link (st\<lparr>c_peer := p\<rparr>) st' = same_link st st'"
  by (simp_all add: same_link_def set_comm_def set_socket_def)

lemma same_link_trans: "same_link a b \<Longrightarrow> same_link b c \<Longrightarrow> same_link a c"
  by (simp add: same_link_def)

definition keeps_link :: "'p rpc \<Rightarrow> bool" where
  "keeps_link f \<longleftrightarrow> (\<forall>st r st'. f st = Some (r, st') \<longrightarrow> same_link st st')"

definition keeps_stmt :: "'p stmt \<Rightarrow> bool" where
  "keeps_stmt s \<longleftrightarrow> (\<forall>r st go r' st'. s (r, st) = Some (go, r', st') \<longrightarrow> same_link st st')"

named_theorems keeping \<open>calls and statements that keep the connection\<close>

lemma keeps_stmtI: "(\<And>r st go r' st'. s (r, st) = Some (go, r', st') \<Longrightarrow> same_link st st') \<Longrightarrow> keeps_stmt s"
  by (simp add: keeps_stmt_def)

lemma keeps_stmtD: "keeps_stmt s \<Longrightarrow> s (r, st) = Some (go, r', st') \<Longrightarrow> same_link st st'"
  by (simp add: keeps_stmt_def)

lemma keeps_steps [keeping]: "(\<And>s. s \<in> set ss \<Longrightarrow> keeps_stmt s) \<Longrightarrow> keeps_stmt (steps ss)"
proof (induction ss)
  case (Cons s ss)
  have s: "keeps_stmt s" "keeps_stmt (steps ss)" using Cons by auto
  show ?case
    by (rule keeps_stmtI)
      (auto split: Option.bind_splits if_splits dest!: keeps_stmtD [OF s(1)] keeps_stmtD [OF s(2)] intro: same_link_trans)
qed (simp add: keeps_stmt_def)

lemma keeps_procedure: "(\<And>s. s \<in> set ss \<Longrightarrow> keeps_stmt s) \<Longrightarrow> keeps_link (procedure ss)"
  using keeps_steps [of ss] unfolding keeps_link_def procedure_def
  by (auto split: Option.bind_splits dest: keeps_stmtD)

lemma keeps_branches [keeping]:
  "keeps_stmt (steps ss) \<Longrightarrow> keeps_stmt (if_then b ss)"
  "keeps_stmt (steps ss) \<Longrightarrow> keeps_stmt (steps ts) \<Longrightarrow> keeps_stmt (if_else b ss ts)"
  "keeps_stmt (steps ss) \<Longrightarrow> keeps_stmt (on_success ss)"
  "keeps_stmt (steps ss) \<Longrightarrow> keeps_stmt (on_header ss)"
  "keeps_stmt (steps ss) \<Longrightarrow> keeps_stmt (steps ts) \<Longrightarrow> keeps_stmt (if_size l ss ts)"
  "keeps_stmt (steps ss) \<Longrightarrow> keeps_stmt (steps ts) \<Longrightarrow> keeps_stmt (on_result p ss ts)"
  by (auto simp: keeps_stmt_def split: if_splits)

lemma keeps_with_word [keeping]: "(\<And>n. keeps_stmt (steps (f n))) \<Longrightarrow> keeps_stmt (with_word l f)"
  by (auto simp: keeps_stmt_def)

lemma keeps_simple [keeping]:
  "keeps_stmt (assign l x)" "keeps_stmt (quit x us)" "keeps_stmt (go_on x us)" "keeps_stmt (clear us)"
  "keeps_stmt (begin_request n ord)"
  by (auto simp: keeps_stmt_def Let_def split: Option.bind_splits)

lemma keeps_send_data [keeping]: "keeps_stmt (send_data ty i d n)"
  by (auto simp: keeps_stmt_def send_data_def Let_def split: Option.bind_splits if_splits)

lemma keeps_sends [keeping]: "keeps_stmt (send_context i)" "keeps_stmt (send_place ty i p)" "keeps_stmt (send_bytes_at i l s k)"
  by (auto simp: keeps_stmt_def send_data_def Let_def split: Option.bind_splits if_splits)

lemma keeps_send_auth [keeping]: "keeps_stmt (send_auth i a)"
  by (cases a) (auto simp: keeps_stmt_def send_data_def Let_def split: Option.bind_splits if_splits)

lemma keeps_linkI: "(\<And>st r st'. f st = Some (r, st') \<Longrightarrow> same_link st st') \<Longrightarrow> keeps_link f"
  by (simp add: keeps_link_def)

lemma keeps_linkD: "f st = Some (r, st') \<Longrightarrow> keeps_link f \<Longrightarrow> same_link st st'"
  by (simp add: keeps_link_def)

lemma keeps_send: "keeps_link (sendit nw)" "keeps_link (send_init nw)"
  by (rule keeps_linkI; auto simp: sendit_def send_init_def Let_def split: Option.bind_splits option.splits if_splits prod.splits)+

lemma sendTCSDPacket_keeps: "keeps_link (sendTCSDPacket nw)"
proof (rule keeps_linkI)
  fix st r st'
  assume "sendTCSDPacket nw st = Some (r, st')"
  then obtain b st1 where "(if hdr_u (hdr (comm_of st)) = TCSD_ORD_OPENCONTEXT then send_init nw else sendit nw)
      (set_comm ((comm_of st)\<lparr>buf := b\<rparr>) st) = Some (r, st1)" "same_link st1 st'"
    unfolding sendTCSDPacket_def by (auto simp: Let_def split: Option.bind_splits if_splits)
  then show "same_link st st'"
    using keeps_send [of nw] by (auto split: if_splits dest!: keeps_linkD intro: same_link_trans)
qed

lemma keeps_exchanges [keeping]: "keeps_stmt (exchange nw)" "keeps_stmt (sending nw)"
  using sendTCSDPacket_keeps [of nw] by (auto simp: keeps_stmt_def keeps_link_def split: Option.bind_splits)

lemma store_at_link: "store_at p d st = Some st' \<Longrightarrow> same_link st st'"
  by (auto simp: store_at_def Let_def same_link_def split: place.splits datum.splits Option.bind_splits)

lemma keeps_accept [keeping]: "keeps_stmt bad \<Longrightarrow> keeps_stmt (accept ty i p n bad)"
  by (rule keeps_stmtI, auto simp: accept_def Let_def split: Option.bind_splits if_splits dest!: store_at_link)
    (blast dest: keeps_stmtD intro: same_link_trans)

lemma keeps_after:
  assumes "keeps_stmt bad" "bad (r, set_comm c (st\<lparr>c_mem := m\<rparr>)) = Some (go, r', st') \<or> bad (r, st\<lparr>c_mem := m\<rparr>) = Some (go, r', st')"
  shows "same_link st st'"
  using assms by (auto dest: keeps_stmtD)

lemma keeps_allocating [keeping]: "keeps_stmt bad \<Longrightarrow> keeps_stmt (accept_local i bad)" "keeps_stmt bad \<Longrightarrow> keeps_stmt (malloc_at l s k bad)"
  by (rule keeps_stmtI, auto simp: accept_local_def Let_def split: Option.bind_splits if_splits prod.splits intro: keeps_after)+

lemma keeps_accepts [keeping]:
  "keeps_stmt bad \<Longrightarrow> keeps_stmt (accept_bytes i l s k bad)" "keeps_stmt bad \<Longrightarrow> keeps_stmt (accept_auth i a bad)"
proof -
  assume b: "keeps_stmt bad"
  show "keeps_stmt (accept_bytes i l s k bad)"
    by (rule keeps_stmtI) (auto dest: keeps_stmtD [OF keeps_accept [OF b]])
  show "keeps_stmt (accept_auth i a bad)"
    by (cases a; rule keeps_stmtI) (auto dest: keeps_stmtD [OF keeps_accept [OF b]])
qed

section \<open>The functions \<open>RPC_*_TP\<close>\<close>

lemma keeps_trivial [keeping]: "keeps_link (\<lambda>st. Some (x, st))" "keeps_link (RPC_FreeMemory_TP p)"
  by (auto simp: keeps_link_def RPC_FreeMemory_TP_def split: if_splits)

lemma keeps_TP_0 [keeping]:
  "keeps_link (RPC_OpenContext_TP nw b1 c1)" "keeps_link (RPC_CloseContext_TP nw)" "keeps_link (RPC_SetOperatorAuth_TP nw b3)"
  "keeps_link (RPC_DirWriteAuth_TP nw b4 c4 d4)" "keeps_link (RPC_DirRead_TP nw b5 c5)" "keeps_link (RPC_Extend_TP nw b6 c6 d6)"
  "keeps_link (RPC_PcrRead_TP nw b7 c7)" "keeps_link (RPC_PcrReset_TP nw b8 c8)" "keeps_link (RPC_LogPcrEvent_TP nw b9 c9)"
  "keeps_link (RPC_GetRandom_TP nw b10 c10 d10)" "keeps_link (RPC_StirRandom_TP nw b11 c11)" "keeps_link (RPC_SelfTestFull_TP nw)"
  "keeps_link (RPC_CertifySelfTest_TP nw b13 c13 d13 e13 f13)" "keeps_link (RPC_GetTestResult_TP nw b14 c14)"
  "keeps_link (RPC_ReadCurrentTicks_TP nw b15 c15)"
  unfolding
    RPC_OpenContext_TP_def RPC_CloseContext_TP_def RPC_SetOperatorAuth_TP_def RPC_DirWriteAuth_TP_def
    RPC_DirRead_TP_def RPC_Extend_TP_def RPC_PcrRead_TP_def RPC_PcrReset_TP_def RPC_LogPcrEvent_TP_def
    RPC_GetRandom_TP_def RPC_StirRandom_TP_def RPC_SelfTestFull_TP_def RPC_CertifySelfTest_TP_def
    RPC_GetTestResult_TP_def RPC_ReadCurrentTicks_TP_def
  by (safe intro!: keeps_procedure keeping) (auto intro!: keeps_procedure keeping simp: Let_def split: option.split)

lemma keeps_TP_1 [keeping]:
  "keeps_link (RPC_TickStampBlob_TP nw b1 c1 d1 e1 f1 g1 h1 i1)"
  "keeps_link (RPC_TakeOwnership_TP nw b2 c2 d2 e2 f2 g2 h2 i2 j2 k2)" "keeps_link (RPC_OwnerClear_TP nw b3)"
  "keeps_link (RPC_GetTPMCapability_TP nw b4 c4 d4 e4 f4)" "keeps_link RPC_GetCapabilitySigned_TP"
  "keeps_link (RPC_GetCapabilityOwner_TP nw b6 c6 d6 e6)" "keeps_link (RPC_SetCapability_TP nw b7 c7 d7 e7 f7 g7)"
  "keeps_link (RPC_SetOrdinalAuditStatus_TP nw b8 c8 d8)" "keeps_link (RPC_GetAuditDigest_TP nw b9 c9 d9 e9 f9 g9 h9)"
  "keeps_link (RPC_GetAuditDigestSigned_TP nw b10 c10 d10 e10 f10 g10 h10 i10 j10 k10)"
  "keeps_link (RPC_CreateMaintenanceArchive_TP nw b11 c11 d11 e11 f11 g11)"
  "keeps_link (RPC_LoadMaintenanceArchive_TP nw b12 c12 d12 e12 f12)" "keeps_link (RPC_KillMaintenanceFeature_TP nw b13)"
  "keeps_link (RPC_LoadManuMaintPub_TP nw b14 c14 d14 e14)" "keeps_link (RPC_ReadManuMaintPub_TP nw b15 c15)"
  unfolding
    RPC_TickStampBlob_TP_def RPC_TakeOwnership_TP_def RPC_OwnerClear_TP_def RPC_GetTPMCapability_TP_def
    RPC_GetCapabilitySigned_TP_def RPC_GetCapabilityOwner_TP_def RPC_SetCapability_TP_def
    RPC_SetOrdinalAuditStatus_TP_def RPC_GetAuditDigest_TP_def RPC_GetAuditDigestSigned_TP_def
    RPC_CreateMaintenanceArchive_TP_def RPC_LoadMaintenanceArchive_TP_def RPC_KillMaintenanceFeature_TP_def
    RPC_LoadManuMaintPub_TP_def RPC_ReadManuMaintPub_TP_def
  by (safe intro!: keeps_procedure keeping) (auto intro!: keeps_procedure keeping simp: Let_def split: option.split)

lemma keeps_TP_2 [keeping]:
  "keeps_link (RPC_CreateEndorsementKeyPair_TP nw b1 c1 d1 e1 f1 g1)" "keeps_link (RPC_ReadPubek_TP nw b2 c2 d2 e2)"
  "keeps_link (RPC_DisablePubekRead_TP nw b3)" "keeps_link (RPC_OwnerReadPubek_TP nw b4 c4 d4)"
  "keeps_link (RPC_CreateRevocableEndorsementKeyPair_TP nw b5 c5 d5 e5 f5 g5 h5 i5)"
  "keeps_link (RPC_RevokeEndorsementKeyPair_TP nw b6)" "keeps_link (RPC_NV_DefineOrReleaseSpace_TP nw b7 c7 d7 e7)"
  "keeps_link (RPC_NV_WriteValue_TP nw b8 c8 d8 e8 f8)" "keeps_link (RPC_NV_WriteValueAuth_TP nw b9 c9 d9 e9 f9)"
  "keeps_link (RPC_NV_ReadValue_TP nw b10 c10 d10 e10 f10)" "keeps_link (RPC_NV_ReadValueAuth_TP nw b11 c11 d11 e11 f11)"
  "keeps_link (RPC_ReadCounter_TP nw b12 c12)" "keeps_link (RPC_CreateCounter_TP nw b13 c13 d13 e13 f13 g13)"
  "keeps_link (RPC_IncrementCounter_TP nw b14 c14 d14)" "keeps_link (RPC_ReleaseCounter_TP nw b15 c15)"
  unfolding
    RPC_CreateEndorsementKeyPair_TP_def RPC_ReadPubek_TP_def RPC_DisablePubekRead_TP_def RPC_OwnerReadPubek_TP_def
    RPC_CreateRevocableEndorsementKeyPair_TP_def RPC_RevokeEndorsementKeyPair_TP_def
    RPC_NV_DefineOrReleaseSpace_TP_def RPC_NV_WriteValue_TP_def RPC_NV_WriteValueAuth_TP_def RPC_NV_ReadValue_TP_def
    RPC_NV_ReadValueAuth_TP_def RPC_ReadCounter_TP_def RPC_CreateCounter_TP_def RPC_IncrementCounter_TP_def
    RPC_ReleaseCounter_TP_def
  by (safe intro!: keeps_procedure keeping) (auto intro!: keeps_procedure keeping simp: Let_def split: option.split)

lemma keeps_TP_3 [keeping]:
  "keeps_link (RPC_ReleaseCounterOwner_TP nw b1 c1)" "keeps_link (RPC_SetOwnerInstall_TP nw b2)"
  "keeps_link (RPC_DisableOwnerClear_TP nw b3)" "keeps_link (RPC_ForceClear_TP nw)" "keeps_link (RPC_DisableForceClear_TP nw)"
  "keeps_link (RPC_PhysicalDisable_TP nw)" "keeps_link (RPC_PhysicalEnable_TP nw)" "keeps_link (RPC_OwnerSetDisable_TP nw b8 c8)"
  "keeps_link (RPC_PhysicalSetDeactivated_TP nw b9)" "keeps_link (RPC_PhysicalPresence_TP nw b10)"
  "keeps_link (RPC_SetTempDeactivated_TP nw)" "keeps_link (RPC_SetTempDeactivated2_TP nw b12)" "keeps_link RPC_FieldUpgrade_TP"
  "keeps_link RPC_SetRedirection_TP" "keeps_link (RPC_ResetLockValue_TP nw b15)"
  unfolding
    RPC_ReleaseCounterOwner_TP_def RPC_SetOwnerInstall_TP_def RPC_DisableOwnerClear_TP_def RPC_ForceClear_TP_def
    RPC_DisableForceClear_TP_def RPC_PhysicalDisable_TP_def RPC_PhysicalEnable_TP_def RPC_OwnerSetDisable_TP_def
    RPC_PhysicalSetDeactivated_TP_def RPC_PhysicalPresence_TP_def RPC_SetTempDeactivated_TP_def
    RPC_SetTempDeactivated2_TP_def RPC_FieldUpgrade_TP_def RPC_SetRedirection_TP_def RPC_ResetLockValue_TP_def
  by (safe intro!: keeps_procedure keeping) (auto intro!: keeps_procedure keeping simp: Let_def split: option.split)

lemma keeps_TP_4 [keeping]:
  "keeps_link (RPC_FlushSpecific_TP nw b1 c1)" "keeps_link (RPC_DaaJoin_TP nw b2 c2 d2 e2 f2 g2 h2 i2 j2)"
  "keeps_link (RPC_DaaSign_TP nw b3 c3 d3 e3 f3 g3 h3 i3 j3)" "keeps_link (RPC_OIAP_TP nw b4 c4)"
  "keeps_link (RPC_OSAP_TP nw b5 c5 d5 e5 f5 g5)" "keeps_link (RPC_APCREATE_TP nw b6 c6 d6 e6 f6 g6 h6 i6)"
  "keeps_link (RPC_LoadKeyByBlob_TP nw b7 c7 d7 e7 f7 g7)" "keeps_link (RPC_EvictKey_TP nw b8)"
  "keeps_link (RPC_CreateWrapKey_TP nw b9 c9 d9 e9 f9 g9 h9 i9)" "keeps_link (RPC_GetPubKey_TP nw b10 c10 d10 e10)"
  "keeps_link (RPC_TerminateHandle_TP nw b11)" "keeps_link (RPC_OwnerReadInternalPub_TP nw b12 c12 d12 e12)"
  "keeps_link (RPC_KeyControlOwner_TP nw b13 c13 d13 e13 f13 g13 h13)"
  "keeps_link (RPC_GetRegisteredKeyByPublicInfo_TP nw b14 c14 d14 e14 f14)"
  "keeps_link (RPC_RegisterKey_TP nw b15 c15 d15 e15 f15 g15)"
  unfolding
    RPC_FlushSpecific_TP_def RPC_DaaJoin_TP_def RPC_DaaSign_TP_def RPC_OIAP_TP_def RPC_OSAP_TP_def
    RPC_APCREATE_TP_def RPC_LoadKeyByBlob_TP_def RPC_EvictKey_TP_def RPC_CreateWrapKey_TP_def RPC_GetPubKey_TP_def
    RPC_TerminateHandle_TP_def RPC_OwnerReadInternalPub_TP_def RPC_KeyControlOwner_TP_def
    RPC_GetRegisteredKeyByPublicInfo_TP_def RPC_RegisterKey_TP_def
  by (safe intro!: keeps_procedure keeping) (auto intro!: keeps_procedure keeping simp: Let_def split: option.split)

lemma keeps_TP_5 [keeping]:
  "keeps_link (RPC_UnregisterKey_TP nw b1)" "keeps_link RPC_GetRegisteredKey_TP"
  "keeps_link (RPC_GetRegisteredKeyBlob_TP nw b3 c3 d3)" "keeps_link (RPC_LoadKeyByUUID_TP nw b4 c4 d4)"
  "keeps_link (RPC_UnBind_TP nw b5 c5 d5 e5 f5 g5)" "keeps_link (common_Seal_TP a6 nw c6 d6 e6 f6 g6 h6 i6 j6 k6)"
  "keeps_link (RPC_Unseal_TP nw b7 c7 d7 e7 f7 g7 h7)" "keeps_link (RPC_Sign_TP nw b8 c8 d8 e8 f8 g8)"
  "keeps_link (RPC_Quote_TP nw b9 c9 d9 e9 f9 g9 h9 i9 j9)"
  "keeps_link (RPC_Quote2_TP nw b10 c10 d10 e10 f10 g10 h10 i10 j10 k10 l10 m10)"
  "keeps_link (RPC_CertifyKey_TP nw b11 c11 d11 e11 f11 g11 h11 i11 j11)"
  "keeps_link (RPC_ChangeAuth_TP nw b12 c12 d12 e12 f12 g12 h12 i12 j12 k12)"
  "keeps_link (RPC_ChangeAuthOwner_TP nw b13 c13 d13 e13)" "keeps_link RPC_ChangeAuthAsymStart_TP"
  "keeps_link RPC_ChangeAuthAsymFinish_TP"
  unfolding
    RPC_UnregisterKey_TP_def RPC_GetRegisteredKey_TP_def RPC_GetRegisteredKeyBlob_TP_def RPC_LoadKeyByUUID_TP_def
    RPC_UnBind_TP_def common_Seal_TP_def RPC_Unseal_TP_def RPC_Sign_TP_def RPC_Quote_TP_def RPC_Quote2_TP_def
    RPC_CertifyKey_TP_def RPC_ChangeAuth_TP_def RPC_ChangeAuthOwner_TP_def RPC_ChangeAuthAsymStart_TP_def
    RPC_ChangeAuthAsymFinish_TP_def
  by (safe intro!: keeps_procedure keeping) (auto intro!: keeps_procedure keeping simp: Let_def split: option.split)

lemma keeps_TP_6 [keeping]:
  "keeps_link (RPC_CreateMigrationBlob_TP nw b1 c1 d1 e1 f1 g1 h1 i1 j1 k1 l1 m1)"
  "keeps_link (RPC_ConvertMigrationBlob_TP nw b2 c2 d2 e2 f2 g2 h2 i2)"
  "keeps_link (RPC_AuthorizeMigrationKey_TP nw b3 c3 d3 e3 f3 g3)" "keeps_link (RPC_CMK_SetRestrictions_TP nw b4 c4)"
  "keeps_link (RPC_CMK_ApproveMA_TP nw b5 c5 d5)" "keeps_link (RPC_CMK_CreateKey_TP nw b6 c6 d6 e6 f6 g6 h6)"
  "keeps_link (RPC_CMK_CreateTicket_TP nw b7 c7 d7 e7 f7 g7 h7)"
  "keeps_link (RPC_CMK_CreateBlob_TP nw b8 c8 d8 e8 f8 g8 h8 i8 j8 k8 l8 m8 o8 p8 q8 r8 s8 t8)"
  "keeps_link (RPC_CMK_ConvertMigration_TP nw b9 c9 d9 e9 f9 g9 h9 i9 j9 k9 l9 m9)"
  "keeps_link (RPC_MakeIdentity_TP nw b10 c10 d10 e10 f10 g10 h10 i10 j10 k10 l10 m10 o10 p10 q10 r10)"
  "keeps_link (RPC_GetCredential_TP nw b11 c11 d11 e11)"
  "keeps_link (RPC_ActivateTPMIdentity_TP nw b12 c12 d12 e12 f12 g12 h12)"
  "keeps_link (RPC_Delegate_Manage_TP nw b13 c13 d13 e13 f13 g13 h13)"
  "keeps_link (RPC_Delegate_CreateKeyDelegation_TP nw b14 c14 d14 e14 f14 g14 h14)"
  "keeps_link (RPC_Delegate_CreateOwnerDelegation_TP nw b15 c15 d15 e15 f15 g15 h15)"
  unfolding
    RPC_CreateMigrationBlob_TP_def RPC_ConvertMigrationBlob_TP_def RPC_AuthorizeMigrationKey_TP_def
    RPC_CMK_SetRestrictions_TP_def RPC_CMK_ApproveMA_TP_def RPC_CMK_CreateKey_TP_def RPC_CMK_CreateTicket_TP_def
    RPC_CMK_CreateBlob_TP_def RPC_CMK_ConvertMigration_TP_def RPC_MakeIdentity_TP_def RPC_GetCredential_TP_def
    RPC_ActivateTPMIdentity_TP_def RPC_Delegate_Manage_TP_def RPC_Delegate_CreateKeyDelegation_TP_def
    RPC_Delegate_CreateOwnerDelegation_TP_def
  by (safe intro!: keeps_procedure keeping) (auto intro!: keeps_procedure keeping simp: Let_def split: option.split)

lemma keeps_TP_7 [keeping]:
  "keeps_link (RPC_Delegate_LoadOwnerDelegation_TP nw b1 c1 d1 e1)" "keeps_link (RPC_Delegate_ReadTable_TP nw b2 c2 d2 e2)"
  "keeps_link (RPC_Delegate_UpdateVerificationCount_TP nw b3 c3 d3 e3 f3)"
  "keeps_link (RPC_Delegate_VerifyDelegation_TP nw b4 c4)" "keeps_link (RPC_DSAP_TP nw b5 c5 d5 e5 f5 g5 h5 i5)"
  "keeps_link (RPC_EstablishTransport_TP nw b6 c6 d6 e6 f6 g6 h6 i6 j6 k6 l6 m6)"
  "keeps_link (RPC_ExecuteTransport_TP nw b7 c7 d7 e7 f7 g7 h7 i7 j7 k7 l7 m7 o7)"
  "keeps_link (RPC_ReleaseTransportSigned_TP nw b8 c8 d8 e8 f8 g8 h8 i8 j8)"
  unfolding
    RPC_Delegate_LoadOwnerDelegation_TP_def RPC_Delegate_ReadTable_TP_def
    RPC_Delegate_UpdateVerificationCount_TP_def RPC_Delegate_VerifyDelegation_TP_def RPC_DSAP_TP_def
    RPC_EstablishTransport_TP_def RPC_ExecuteTransport_TP_def RPC_ReleaseTransportSigned_TP_def
  by (safe intro!: keeps_procedure keeping) (auto intro!: keeps_procedure keeping simp: Let_def split: option.split)

lemma keeps_seal [keeping]: "keeps_link (RPC_Seal_TP nw a b c d e f g h i)" "keeps_link (RPC_Sealx_TP nw a b c d e f g h i)"
  by (simp_all add: RPC_Seal_TP_def RPC_Sealx_TP_def keeping)

section \<open>The calls\<close>

inductive tsp_call :: "'p net \<Rightarrow> u32 \<Rightarrow> 'p rpc \<Rightarrow> bool" for nw :: "'p net" and tspContext :: u32 where
  "tsp_call nw tspContext (RPC_CloseContext nw tspContext)"
| "tsp_call nw tspContext (RPC_GetRegisteredKeyByPublicInfo nw tspContext algID ulPublicInfoLength rgbPublicInfo
    keySize keyBlob)"
| "tsp_call nw tspContext (RPC_FreeMemory tspContext pMemory)"
| "tsp_call nw tspContext (RPC_LogPcrEvent nw tspContext Event pNumber)"
| "tsp_call nw tspContext (RPC_RegisterKey nw tspContext WrappingKeyUUID KeyUUID cKeySize rgbKey cVendorData
    gbVendorData)"
| "tsp_call nw tspContext (RPC_UnregisterKey nw tspContext KeyUUID)"
| "tsp_call nw tspContext (RPC_GetRegisteredKey tspContext)"
| "tsp_call nw tspContext (RPC_GetRegisteredKeyBlob nw tspContext KeyUUID pcKeySize prgbKey)"
| "tsp_call nw tspContext (RPC_LoadKeyByBlob nw tspContext hUnwrappingKey cWrappedKeyBlobSize rgbWrappedKeyBlob
    pAuth phKeyTCSI phKeyHMAC)"
| "tsp_call nw tspContext (RPC_LoadKeyByUUID nw tspContext KeyUUID pLoadKeyInfo phKeyTCSI)"
| "tsp_call nw tspContext (RPC_EvictKey nw tspContext hKey)"
| "tsp_call nw tspContext (RPC_CreateWrapKey nw tspContext hWrappingKey KeyUsageAuth KeyMigrationAuth keyInfoSize
    keyInfo keyDataSize keyData pAuth)"
| "tsp_call nw tspContext (RPC_GetPubKey nw tspContext hKey pAuth pcPubKeySize prgbPubKey)"
| "tsp_call nw tspContext (RPC_MakeIdentity nw tspContext identityAuth IDLabel_PrivCAHash idKeyInfoSize idKeyInfo
    pSrkAuth pOwnerAuth idKeySize idKey pcIdentityBindingSize prgbIdentityBinding pcEndorsementCredentialSize prgbEndorsementCredential pcPlatformCredentialSize prgbPlatformCredential pcConformanceCredentialSize prgbConformanceCredential)"
| "tsp_call nw tspContext (RPC_GetCredential nw tspContext ulCredentialType ulCredentialAccessMode
    pulCredentialSize prgbCredentialData)"
| "tsp_call nw tspContext (RPC_SetOwnerInstall nw tspContext state)"
| "tsp_call nw tspContext (RPC_TakeOwnership nw tspContext protocolID encOwnerAuthSize encOwnerAuth
    encSrkAuthSize encSrkAuth srkInfoSize srkInfo ownerAuth srkKeySize srkKey)"
| "tsp_call nw tspContext (RPC_OIAP nw tspContext authHandle nonce0)"
| "tsp_call nw tspContext (RPC_OSAP nw tspContext entityType entityValue nonceOddOSAP authHandle nonceEven
    nonceEvenOSAP)"
| "tsp_call nw tspContext (RPC_APCreate nw tspContext entityType entityValue nonceOdd inHMAC authHandle nonceEven
    seq outHMAC)"
| "tsp_call nw tspContext (RPC_ChangeAuth nw tspContext parentHandle protocolID newAuth entityType encDataSize
    encData ownerAuth entityAuth outDataSize outData)"
| "tsp_call nw tspContext (RPC_ChangeAuthOwner nw tspContext protocolID newAuth entityType ownerAuth)"
| "tsp_call nw tspContext (RPC_ChangeAuthAsymStart tspContext)"
| "tsp_call nw tspContext (RPC_ChangeAuthAsymFinish tspContext)"
| "tsp_call nw tspContext (RPC_TerminateHandle nw tspContext handle)"
| "tsp_call nw tspContext (RPC_ActivateTPMIdentity nw tspContext idKey blobSize blob idKeyAuth ownerAuth
    SymmetricKeySize SymmetricKey)"
| "tsp_call nw tspContext (RPC_Extend nw tspContext pcrNum inDigest outDigest)"
| "tsp_call nw tspContext (RPC_PcrRead nw tspContext pcrNum outDigest)"
| "tsp_call nw tspContext (RPC_PcrReset nw tspContext pcrDataSizeIn pcrDataIn)"
| "tsp_call nw tspContext (RPC_Quote nw tspContext keyHandle antiReplay pcrDataSizeIn pcrDataIn privAuth
    pcrDataSizeOut pcrDataOut sigSize sig)"
| "tsp_call nw tspContext (RPC_Quote2 nw tspContext keyHandle antiReplay pcrDataSizeIn pcrDataIn addVersion
    privAuth pcrDataSizeOut pcrDataOut versionInfoSize versionInfo sigSize sig)"
| "tsp_call nw tspContext (RPC_DirWriteAuth nw tspContext dirIndex newContents ownerAuth)"
| "tsp_call nw tspContext (RPC_DirRead nw tspContext dirIndex dirValue)"
| "tsp_call nw tspContext (RPC_Seal nw tspContext keyHandle encAuth pcrInfoSize PcrInfo inDataSize inData pubAuth
    SealedDataSize SealedData)"
| "tsp_call nw tspContext (RPC_Sealx nw tspContext keyHandle encAuth pcrInfoSize PcrInfo inDataSize inData
    pubAuth SealedDataSize SealedData)"
| "tsp_call nw tspContext (RPC_Unseal nw tspContext parentHandle SealedDataSize SealedData parentAuth dataAuth
    DataSize Data)"
| "tsp_call nw tspContext (RPC_UnBind nw tspContext keyHandle inDataSize inData privAuth outDataSize outData)"
| "tsp_call nw tspContext (RPC_CreateMigrationBlob nw tspContext parentHandle migrationType MigrationKeyAuthSize
    MigrationKeyAuth encDataSize encData parentAuth entityAuth randomSize random_out outDataSize outData)"
| "tsp_call nw tspContext (RPC_ConvertMigrationBlob nw tspContext parentHandle inDataSize inData randomSize
    random_out parentAuth outDataSize outData)"
| "tsp_call nw tspContext (RPC_AuthorizeMigrationKey nw tspContext migrateScheme MigrationKeySize MigrationKey
    ownerAuth MigrationKeyAuthSize MigrationKeyAuth)"
| "tsp_call nw tspContext (RPC_CertifyKey nw tspContext certHandle keyHandle antiReplay certAuth keyAuth
    CertifyInfoSize CertifyInfo outDataSize outData)"
| "tsp_call nw tspContext (RPC_Sign nw tspContext keyHandle areaToSignSize areaToSign privAuth sigSize sig)"
| "tsp_call nw tspContext (RPC_GetRandom nw tspContext requested bytesRequested randomBytes)"
| "tsp_call nw tspContext (RPC_StirRandom nw tspContext inDataSize inData)"
| "tsp_call nw tspContext (RPC_GetTPMCapability nw tspContext capArea subCapSize subCap respSize resp)"
| "tsp_call nw tspContext (RPC_SetCapability nw tspContext capArea subCapSize subCap valueSize value_in ownerAuth)"
| "tsp_call nw tspContext (RPC_GetCapabilitySigned tspContext)"
| "tsp_call nw tspContext (RPC_GetCapabilityOwner nw tspContext pOwnerAuth pVersion pNonVolatileFlags pVolatileFlags)"
| "tsp_call nw tspContext (RPC_CreateEndorsementKeyPair nw tspContext antiReplay endorsementKeyInfoSize
    endorsementKeyInfo endorsementKeySize endorsementKey checksum)"
| "tsp_call nw tspContext (RPC_ReadPubek nw tspContext antiReplay pubEndorsementKeySize pubEndorsementKey checksum)"
| "tsp_call nw tspContext (RPC_DisablePubekRead nw tspContext ownerAuth)"
| "tsp_call nw tspContext (RPC_OwnerReadPubek nw tspContext ownerAuth pubEndorsementKeySize pubEndorsementKey)"
| "tsp_call nw tspContext (RPC_CreateRevocableEndorsementKeyPair nw tspContext antiReplay endorsementKeyInfoSize
    endorsementKeyInfo genResetAuth eKResetAuth endorsementKeySize endorsementKey checksum)"
| "tsp_call nw tspContext (RPC_RevokeEndorsementKeyPair nw tspContext EKResetAuth)"
| "tsp_call nw tspContext (RPC_SelfTestFull nw tspContext)"
| "tsp_call nw tspContext (RPC_CertifySelfTest nw tspContext keyHandle antiReplay privAuth sigSize sig)"
| "tsp_call nw tspContext (RPC_GetTestResult nw tspContext outDataSize outData)"
| "tsp_call nw tspContext (RPC_OwnerSetDisable nw tspContext disableState ownerAuth)"
| "tsp_call nw tspContext (RPC_ResetLockValue nw tspContext ownerAuth)"
| "tsp_call nw tspContext (RPC_OwnerClear nw tspContext ownerAuth)"
| "tsp_call nw tspContext (RPC_DisableOwnerClear nw tspContext ownerAuth)"
| "tsp_call nw tspContext (RPC_ForceClear nw tspContext)"
| "tsp_call nw tspContext (RPC_DisableForceClear nw tspContext)"
| "tsp_call nw tspContext (RPC_PhysicalDisable nw tspContext)"
| "tsp_call nw tspContext (RPC_PhysicalEnable nw tspContext)"
| "tsp_call nw tspContext (RPC_PhysicalSetDeactivated nw tspContext state)"
| "tsp_call nw tspContext (RPC_PhysicalPresence nw tspContext fPhysicalPresence)"
| "tsp_call nw tspContext (RPC_SetTempDeactivated nw tspContext)"
| "tsp_call nw tspContext (RPC_SetTempDeactivated2 nw tspContext operatorAuth)"
| "tsp_call nw tspContext (RPC_FieldUpgrade tspContext)"
| "tsp_call nw tspContext (RPC_SetRedirection tspContext)"
| "tsp_call nw tspContext (RPC_CreateMaintenanceArchive nw tspContext generateRandom ownerAuth randomSize
    random_out archiveSize archive)"
| "tsp_call nw tspContext (RPC_LoadMaintenanceArchive nw tspContext dataInSize dataIn ownerAuth dataOutSize dataOut)"
| "tsp_call nw tspContext (RPC_KillMaintenanceFeature nw tspContext ownerAuth)"
| "tsp_call nw tspContext (RPC_LoadManuMaintPub nw tspContext antiReplay PubKeySize PubKey checksum)"
| "tsp_call nw tspContext (RPC_ReadManuMaintPub nw tspContext antiReplay checksum)"
| "tsp_call nw tspContext (RPC_DaaJoin nw tspContext daa_session stage inputSize0 inputData0 inputSize1
    inputData1 ownerAuth outputSize outputData)"
| "tsp_call nw tspContext (RPC_DaaSign nw tspContext daa_session stage inputSize0 inputData0 inputSize1
    inputData1 ownerAuth outputSize outputData)"
| "tsp_call nw tspContext (RPC_ReadCounter nw tspContext idCounter counterValue)"
| "tsp_call nw tspContext (RPC_CreateCounter nw tspContext LabelSize pLabel CounterAuth pOwnerAuth idCounter
    counterValue)"
| "tsp_call nw tspContext (RPC_IncrementCounter nw tspContext idCounter pCounterAuth counterValue)"
| "tsp_call nw tspContext (RPC_ReleaseCounter nw tspContext idCounter pCounterAuth)"
| "tsp_call nw tspContext (RPC_ReleaseCounterOwner nw tspContext idCounter pOwnerAuth)"
| "tsp_call nw tspContext (RPC_ReadCurrentTicks nw tspContext pulCurrentTime prgbCurrentTime)"
| "tsp_call nw tspContext (RPC_TickStampBlob nw tspContext hKey antiReplay digestToStamp privAuth
    pulSignatureLength prgbSignature pulTickCountLength prgbTickCount)"
| "tsp_call nw tspContext (RPC_EstablishTransport nw tspContext ulTransControlFlags hEncKey
    ulTransSessionInfoSize rgbTransSessionInfo ulSecretSize rgbSecret pEncKeyAuth pbLocality hTransSession ulCurrentTicksSize prgbCurrentTicks pTransNonce)"
| "tsp_call nw tspContext (RPC_ExecuteTransport nw tspContext unWrappedCommandOrdinal ulWrappedCmdParamInSize
    rgbWrappedCmdParamIn pulHandleListSize rghHandles pWrappedCmdAuth1 pWrappedCmdAuth2 pTransAuth punCurrentTicks pbLocality pulWrappedCmdReturnCode ulWrappedCmdParamOutSize rgbWrappedCmdParamOut)"
| "tsp_call nw tspContext (RPC_ReleaseTransportSigned nw tspContext hSignatureKey AntiReplayNonce pKeyAuth
    pTransAuth pbLocality pulCurrentTicksSize prgbCurrentTicks pulSignatureSize prgbSignature)"
| "tsp_call nw tspContext (RPC_NV_DefineOrReleaseSpace nw tspContext cPubInfoSize pPubInfo encAuth pAuth)"
| "tsp_call nw tspContext (RPC_NV_WriteValue nw tspContext hNVStore offset_in ulDataLength rgbDataToWrite privAuth)"
| "tsp_call nw tspContext (RPC_NV_WriteValueAuth nw tspContext hNVStore offset_in ulDataLength rgbDataToWrite NVAuth)"
| "tsp_call nw tspContext (RPC_NV_ReadValue nw tspContext hNVStore offset_in pulDataLength privAuth rgbDataRead)"
| "tsp_call nw tspContext (RPC_NV_ReadValueAuth nw tspContext hNVStore offset_in pulDataLength NVAuth rgbDataRead)"
| "tsp_call nw tspContext (RPC_SetOrdinalAuditStatus nw tspContext ownerAuth ulOrdinal bAuditState)"
| "tsp_call nw tspContext (RPC_GetAuditDigest nw tspContext startOrdinal auditDigest counterValueSize
    counterValue more_out ordSize ordList)"
| "tsp_call nw tspContext (RPC_GetAuditDigestSigned nw tspContext keyHandle closeAudit antiReplay privAuth
    counterValueSize counterValue auditDigest ordinalDigest sigSize sig)"
| "tsp_call nw tspContext (RPC_SetOperatorAuth nw tspContext operatorAuth)"
| "tsp_call nw tspContext (RPC_OwnerReadInternalPub nw tspContext hKey pOwnerAuth punPubKeySize ppbPubKeyData)"
| "tsp_call nw tspContext (RPC_Delegate_Manage nw tspContext familyID opFlag opDataSize opData ownerAuth
    retDataSize retData)"
| "tsp_call nw tspContext (RPC_Delegate_CreateKeyDelegation nw tspContext hKey publicInfoSize publicInfo
    encDelAuth keyAuth blobSize blob)"
| "tsp_call nw tspContext (RPC_Delegate_CreateOwnerDelegation nw tspContext increment publicInfoSize publicInfo
    encDelAuth ownerAuth blobSize blob)"
| "tsp_call nw tspContext (RPC_Delegate_LoadOwnerDelegation nw tspContext index_in blobSize blob ownerAuth)"
| "tsp_call nw tspContext (RPC_Delegate_ReadTable nw tspContext familyTableSize familyTable delegateTableSize
    delegateTable)"
| "tsp_call nw tspContext (RPC_Delegate_UpdateVerificationCount nw tspContext inputSize input_in ownerAuth
    outputSize output_out)"
| "tsp_call nw tspContext (RPC_Delegate_VerifyDelegation nw tspContext delegateSize delegate)"
| "tsp_call nw tspContext (RPC_DSAP nw tspContext entityType keyHandle nonceOddDSAP entityValueSize entityValue
    authHandle nonceEven nonceEvenDSAP)"
| "tsp_call nw tspContext (RPC_CMK_SetRestrictions nw tspContext restriction ownerAuth)"
| "tsp_call nw tspContext (RPC_CMK_ApproveMA nw tspContext migAuthorityDigest ownerAuth migAuthorityApproval)"
| "tsp_call nw tspContext (RPC_CMK_CreateKey nw tspContext hWrappingKey keyUsageAuth migAuthorityApproval
    migAuthorityDigest keyDataSize keyData pAuth)"
| "tsp_call nw tspContext (RPC_CMK_CreateTicket nw tspContext publicVerifyKeySize publicVerifyKey signedData
    sigValueSize sigValue ownerAuth sigTicket)"
| "tsp_call nw tspContext (RPC_CMK_CreateBlob nw tspContext hParentKey migrationType migKeyAuthSize migKeyAuth
    pubSourceKeyDigest msaListSize msaList restrictTicketSize restrictTicket sigTicketSize sigTicket encDataSize encData pAuth randomSize random_out outDataSize outData)"
| "tsp_call nw tspContext (RPC_CMK_ConvertMigration nw tspContext hParentHandle restrictTicket sigTicket
    keyDataSize keyData msaListSize msaList randomSize random_out pAuth outDataSize outData)"
| "tsp_call nw tspContext (RPC_FlushSpecific nw tspContext hResHandle resourceType)"
| "tsp_call nw tspContext (RPC_KeyControlOwner nw tspContext hKey ulPublicInfoLength rgbPublicInfo attribName
    attribValue pOwnerAuth pUuidData)"

lemmas call_defs =
  RPC_GetRegisteredKeyByPublicInfo_def RPC_FreeMemory_def RPC_LogPcrEvent_def RPC_RegisterKey_def
  RPC_UnregisterKey_def RPC_GetRegisteredKey_def RPC_GetRegisteredKeyBlob_def RPC_LoadKeyByBlob_def
  RPC_LoadKeyByUUID_def RPC_EvictKey_def RPC_CreateWrapKey_def RPC_GetPubKey_def RPC_MakeIdentity_def
  RPC_GetCredential_def RPC_SetOwnerInstall_def RPC_TakeOwnership_def RPC_OIAP_def RPC_OSAP_def RPC_APCreate_def
  RPC_ChangeAuth_def RPC_ChangeAuthOwner_def RPC_ChangeAuthAsymStart_def RPC_ChangeAuthAsymFinish_def
  RPC_TerminateHandle_def RPC_ActivateTPMIdentity_def RPC_Extend_def RPC_PcrRead_def RPC_PcrReset_def RPC_Quote_def
  RPC_Quote2_def RPC_DirWriteAuth_def RPC_DirRead_def RPC_Seal_def RPC_Sealx_def RPC_Unseal_def RPC_UnBind_def
  RPC_CreateMigrationBlob_def RPC_ConvertMigrationBlob_def RPC_AuthorizeMigrationKey_def RPC_CertifyKey_def
  RPC_Sign_def RPC_GetRandom_def RPC_StirRandom_def RPC_GetTPMCapability_def RPC_SetCapability_def
  RPC_GetCapabilitySigned_def RPC_GetCapabilityOwner_def RPC_CreateEndorsementKeyPair_def RPC_ReadPubek_def
  RPC_DisablePubekRead_def RPC_OwnerReadPubek_def RPC_CreateRevocableEndorsementKeyPair_def
  RPC_RevokeEndorsementKeyPair_def RPC_SelfTestFull_def RPC_CertifySelfTest_def RPC_GetTestResult_def
  RPC_OwnerSetDisable_def RPC_ResetLockValue_def RPC_OwnerClear_def RPC_DisableOwnerClear_def RPC_ForceClear_def
  RPC_DisableForceClear_def RPC_PhysicalDisable_def RPC_PhysicalEnable_def RPC_PhysicalSetDeactivated_def
  RPC_PhysicalPresence_def RPC_SetTempDeactivated_def RPC_SetTempDeactivated2_def RPC_FieldUpgrade_def
  RPC_SetRedirection_def RPC_CreateMaintenanceArchive_def RPC_LoadMaintenanceArchive_def
  RPC_KillMaintenanceFeature_def RPC_LoadManuMaintPub_def RPC_ReadManuMaintPub_def RPC_DaaJoin_def RPC_DaaSign_def
  RPC_ReadCounter_def RPC_CreateCounter_def RPC_IncrementCounter_def RPC_ReleaseCounter_def
  RPC_ReleaseCounterOwner_def RPC_ReadCurrentTicks_def RPC_TickStampBlob_def RPC_EstablishTransport_def
  RPC_ExecuteTransport_def RPC_ReleaseTransportSigned_def RPC_NV_DefineOrReleaseSpace_def RPC_NV_WriteValue_def
  RPC_NV_WriteValueAuth_def RPC_NV_ReadValue_def RPC_NV_ReadValueAuth_def RPC_SetOrdinalAuditStatus_def
  RPC_GetAuditDigest_def RPC_GetAuditDigestSigned_def RPC_SetOperatorAuth_def RPC_OwnerReadInternalPub_def
  RPC_Delegate_Manage_def RPC_Delegate_CreateKeyDelegation_def RPC_Delegate_CreateOwnerDelegation_def
  RPC_Delegate_LoadOwnerDelegation_def RPC_Delegate_ReadTable_def RPC_Delegate_UpdateVerificationCount_def
  RPC_Delegate_VerifyDelegation_def RPC_DSAP_def RPC_CMK_SetRestrictions_def RPC_CMK_ApproveMA_def
  RPC_CMK_CreateKey_def RPC_CMK_CreateTicket_def RPC_CMK_CreateBlob_def RPC_CMK_ConvertMigration_def
  RPC_FlushSpecific_def RPC_KeyControlOwner_def

section \<open>The table of connections\<close>

lemma replace_contexts: "map ht_tspContext (replace_entry x es) = map ht_tspContext es"
  by (induction es) auto

lemma replace_twice: "ht_tspContext x = ht_tspContext y \<Longrightarrow> replace_entry x (replace_entry y es) = replace_entry x es"
  by (induction es) auto

lemma set_replace: "set (replace_entry x es) \<subseteq> insert x (set es)"
  by (induction es) auto

lemma set_without: "set (without c es) \<subseteq> set es"
  by (induction es) auto

lemma distinct_without: "distinct (map ht_tspContext es) \<Longrightarrow> distinct (map ht_tspContext (without c es))"
proof (induction es)
  case (Cons e es)
  then show ?case using set_without [of c es] by auto
qed simp

lemma not_without: "distinct (map ht_tspContext es) \<Longrightarrow> c \<notin> set (map ht_tspContext (without c es))"
  by (induction es) auto

definition table_ok :: "host_table_entry list \<Rightarrow> bool" where
  "table_ok es \<longleftrightarrow> distinct (map ht_tspContext es) \<and> (\<forall>e \<in> set es. \<not> ht_locked e)"

lemma found_member: "List.find (\<lambda>e. ht_tspContext e = c) es = Some e \<Longrightarrow> e \<in> set es \<and> ht_tspContext e = c"
  by (induction es) (auto split: if_splits)

lemma replace_ok: "table_ok es \<Longrightarrow> \<not> ht_locked x \<Longrightarrow> table_ok (replace_entry x es)"
  using set_replace [of x es] by (auto simp: table_ok_def replace_contexts)

lemma without_ok: "table_ok es \<Longrightarrow> table_ok (without c es)"
  using set_without [of c es] by (auto simp: table_ok_def distinct_without)

lemma unlock_ok: "table_ok (replace_entry (x\<lparr>ht_locked := False\<rparr>) es) \<Longrightarrow> ht_tspContext x = ht_tspContext y \<Longrightarrow>
   table_ok (replace_entry (x\<lparr>ht_locked := False\<rparr>) (replace_entry y es))"
  by (simp add: replace_twice)

text \<open>A call that keeps the connection leaves the table in order, and gives the entry back.\<close>

lemma call_keeps_table:
  assumes "call d c f st = Some (r, st')" "keeps_link f" "table_ok (c_table st)"
  shows "table_ok (c_table st') \<and> map ht_tspContext (c_table st') = map ht_tspContext (c_table st)"
proof -
  have kept: "table_ok (c_table (put_table_entry s')) \<and> map ht_tspContext (c_table (put_table_entry s')) = map ht_tspContext (c_table st)"
    if s: "same_link (st\<lparr>c_table := replace_entry y (c_table st), c_hte := y\<rparr>) s'" for y s'
    using s replace_ok [OF assms(3), of "(c_hte s')\<lparr>ht_locked := False\<rparr>"]
    by (simp add: put_table_entry_def note_entry_def same_link_def replace_twice replace_contexts)
  show ?thesis
  proof (cases "List.find (\<lambda>e. ht_tspContext e = c) (c_table st)")
    case None
    then show ?thesis using assms by (simp add: call_def get_table_entry_def)
  next
    case (Some e)
    let ?s = "st\<lparr>c_table := replace_entry (e\<lparr>ht_locked := True\<rparr>) (c_table st), c_hte := e\<lparr>ht_locked := True\<rparr>\<rparr>"
    obtain s where s: "(if ht_type e = CONNECTION_TYPE_TCP_PERSISTANT then f ?s else Some (d, ?s)) = Some (r, s)" "st' = put_table_entry s"
      using assms(1) Some by (auto simp: call_def get_table_entry_def Let_def split: Option.bind_splits if_splits)
    have "same_link ?s s" using s(1) assms(2) by (auto split: if_splits dest: keeps_linkD)
    then show ?thesis unfolding s(2) by (rule kept)
  qed
qed

lemma context_keeps: "keeps_link (RPC_CloseContext_TP nw)" "keeps_link (RPC_OpenContext_TP nw v t)"
  by (rule keeping)+

lemma without_replace: "ht_tspContext y = c \<Longrightarrow> without c (replace_entry y es) = without c es"
  by (induction es) auto

lemma close_ok:
  assumes "RPC_CloseContext nw c st = Some (r, st')" "table_ok (c_table st)"
  shows "table_ok (c_table st')"
proof (cases "List.find (\<lambda>e. ht_tspContext e = c) (c_table st)")
  case None
  then show ?thesis using assms by (simp add: RPC_CloseContext_def get_table_entry_def)
next
  case (Some e)
  let ?s = "st\<lparr>c_table := replace_entry (e\<lparr>ht_locked := True\<rparr>) (c_table st), c_hte := e\<lparr>ht_locked := True\<rparr>\<rparr>"
  obtain x s where s: "(if ht_type e = CONNECTION_TYPE_TCP_PERSISTANT then RPC_CloseContext_TP nw ?s else Some (BAD, ?s)) = Some (x, s)"
      "st' = (if x = 0 then remove_table_entry c s else put_table_entry s)"
    using assms(1) Some by (auto simp: RPC_CloseContext_def get_table_entry_def Let_def split: Option.bind_splits if_splits)
  have l: "same_link ?s s" using s(1) by (auto split: if_splits dest: keeps_linkD [OF _ context_keeps(1)])
  have "without c (replace_entry (e\<lparr>ht_locked := True\<rparr>) (c_table st)) = without c (c_table st)"
    using found_member [OF Some] by (simp add: without_replace)
  moreover have "c \<in> ht_tspContext ` set (replace_entry (e\<lparr>ht_locked := True\<rparr>) (c_table st))"
    unfolding list.set_map [symmetric] replace_contexts using found_member [OF Some] by auto
  ultimately show ?thesis
    using l s(2) assms(2) replace_ok [OF assms(2), of "(c_hte s)\<lparr>ht_locked := False\<rparr>"] without_ok [OF assms(2), of c]
    by (auto simp: remove_table_entry_def connected_def put_table_entry_def note_entry_def same_link_def replace_twice)
qed

lemma open_ok:
  assumes "RPC_OpenContext nw v t c host ty (st, obs) = Some (r, st', obs')" "table_ok (c_table st)"
  shows "table_ok (c_table st')"
proof -
  obtain x s where a: "add_table_entry c host ty st = Some (x, s)"
    using assms(1) by (auto simp: RPC_OpenContext_def split: Option.bind_splits)
  have added: "x \<noteq> 0 \<and> c_table s = c_table st \<or> x = 0 \<and> c_hte s = new_entry c host ty
      \<and> c_table s = c_table st @ [new_entry c host ty] \<and> c \<notin> set (map ht_tspContext (c_table st))"
    using a by (auto simp: add_table_entry_def Let_def connected_def split: if_splits prod.splits)
  show ?thesis
  proof (cases "x = 0")
    case False
    then show ?thesis using assms a added by (auto simp: RPC_OpenContext_def)
  next
    case True
    then have s: "table_ok (c_table s)" "\<not> ht_locked (c_hte s)" "ht_tspContext (c_hte s) = c"
      using added assms(2) by (auto simp: table_ok_def new_entry_def)
    show ?thesis
    proof (cases "ty = CONNECTION_TYPE_TCP_PERSISTANT")
      case False
      then show ?thesis using assms(1) a True s replace_ok [OF s(1,2)] by (auto simp: RPC_OpenContext_def note_entry_def)
    next
      case T: True
      obtain y u where u: "RPC_OpenContext_TP nw v t s = Some (y, u)"
        using assms(1) a True T by (auto simp: RPC_OpenContext_def split: Option.bind_splits)
      have l: "same_link s u" using keeps_linkD [OF u context_keeps(2)] .
      let ?w = "note_entry (u\<lparr>c_hte := (c_hte u)\<lparr>ht_tcsContext := m_32 (c_mem u) t\<rparr>\<rparr>)"
      have w: "table_ok (c_table u)" "table_ok (c_table ?w)"
        using l s replace_ok [OF s(1), of "(c_hte u)\<lparr>ht_tcsContext := m_32 (c_mem u) t\<rparr>"] by (auto simp: same_link_def note_entry_def)
      have "st' \<in> {remove_table_entry c u, remove_table_entry c ?w, ?w}"
        using assms(1) a True T u by (auto simp: RPC_OpenContext_def Let_def split: Option.bind_splits if_splits)
      then show ?thesis using w without_ok [OF w(1)] without_ok [OF w(2)] by (auto simp: remove_table_entry_def)
    qed
  qed
qed

text \<open>Every call but \<open>RPC_CloseContext\<close> has the shape of \<open>call\<close>.\<close>

lemma tsp_call_shape:
  assumes "tsp_call nw tspContext f"
  shows "f = RPC_CloseContext nw tspContext \<or> (\<exists>d g. f = call d tspContext g \<and> keeps_link g)"
  by (rule tsp_call.cases [OF assms]; hypsubst;
    (rule disjI1, rule refl | unfold call_defs, rule disjI2, rule exI, rule exI, rule conjI, rule refl, rule keeping))

end
