(* ===== verification/Rpc_Remote.thy ===== *)
theory Rpc_Remote
  imports Rpc_Client Rpc_Properties
begin

text \<open>
  A call from one end to the other: the packet that the client sends is the one the daemon serves, and the
  parameters of the answer come into the places of the caller.
\<close>

section \<open>A packet and what it says\<close>

text \<open>A whole packet with the number \<open>u\<close> (of the request, or the result) and the parameters \<open>gs\<close>.\<close>

definition says :: "u8 list \<Rightarrow> u32 \<Rightarrow> (ptype \<times> u8 list) list \<Rightarrow> bool" where
  "says p u gs \<longleftrightarrow> length p = 28 + length gs + span gs \<and> 28 \<le> length p \<and> length p < 2 ^ 31 \<and> take 4 p = be32 (of_nat (length p))
     \<and> (\<forall>rest. length (p @ rest) < 2 ^ 31 \<longrightarrow> (\<exists>h. decode_header (p @ rest) = Some h \<and> hdr_u h = u
         \<and> (num_parms h = 0 \<or> packet_size h = parm_offset h + parm_size h)
         \<and> (gs \<noteq> [] \<longrightarrow> reading gs 0 \<lparr>buf = p @ rest, hdr = h\<rparr>)))"

lemma take_header: "take 4 (packet_bytes c) = be32 (packet_size (hdr c))"
  by (simp add: packet_bytes_def header_words_def)

lemma building_says:
  assumes b: "building n fs c" "length fs = n" "28 + n + span fs < 2 ^ 31"
  shows "says (packet_bytes c) (hdr_u (hdr c)) fs"
proof -
  have l: "length (packet_bytes c) = 28 + n + span fs" using building_length [OF b(1)] .
  moreover have "packet_size (hdr c) = of_nat (28 + n + span fs)" "packet_size (hdr c) = parm_offset (hdr c) + parm_size (hdr c)"
    using b(1) by (simp_all add: building_def)
  ultimately show ?thesis using b(3) building_arrives [OF b(1,2)] unfolding says_def take_header
    by (auto simp: b(2) simp del: of_nat_add)
qed

definition bare :: "u32 \<Rightarrow> tcsd_packet_hdr" where
  "bare u = \<lparr>packet_size = 28, hdr_u = u, num_parms = 0, type_size = 0, type_offset = 0, parm_size = 0, parm_offset = 0\<rparr>"

lemma bare_says:
  assumes "hdr c = bare u"
  shows "says (packet_bytes c) u []"
proof -
  have p: "packet_bytes c = concat (map be32 (header_words (bare u)))" by (simp add: packet_bytes_def assms bare_def)
  have l: "length (packet_bytes c) = 28" by (simp add: p)
  show ?thesis using decode_header_words [of _ "bare u"] take_header [of c] unfolding says_def l
    by (auto simp: p assms bare_def)
qed

text \<open>What is sent is the packet.\<close>

lemma sent_bytes:
  assumes s: "28 \<le> unat (packet_size (hdr c))" "unat (packet_size (hdr c)) \<le> length (buf c)" "length (buf c) < 2 ^ 31"
  defines "b \<equiv> concat (map be32 (header_words (hdr c))) @ drop 28 (buf c)"
  shows "0 < sint (packet_size (hdr c))" "rd b 0 (unat (packet_size (hdr c))) = Some (packet_bytes c)"
    "UnloadBlob_UINT32 0 b = Some (packet_size (hdr c), 4)"
proof -
  let ?n = "unat (packet_size (hdr c))"
  have "sint (packet_size (hdr c)) = int ?n" using small_word(2) [of ?n] s by simp
  then show "0 < sint (packet_size (hdr c))" using s(1) by linarith
  show "rd b 0 ?n = Some (packet_bytes c)"
    using s by (simp add: b_def rd_def read_at_def packet_bytes_def drop_take)
  show "UnloadBlob_UINT32 0 b = Some (packet_size (hdr c), 4)"
    using UnloadBlob_UINT32_at [of b "[]" "packet_size (hdr c)"] s by (simp add: b_def header_words_def)
qed

section \<open>The daemon\<close>

lemma set_mem_same [simp]: "set_mem (mem st) (st\<lparr>sv_comm := x\<rparr>) = st\<lparr>sv_comm := x\<rparr>" "set_mem (mem st) st = st"
  by (cases st; simp add: set_mem_def)+

lemma recv_packet_fits:
  assumes p: "says p u gs" and b: "length p \<le> length (buf (sv_comm st))" "length (buf (sv_comm st)) < 2 ^ 31"
  shows "recv_packet p st = Some (Some ([], st\<lparr>sv_comm := (sv_comm st)\<lparr>buf := p @ drop (length p) (buf (sv_comm st))\<rparr>\<rparr>))"
proof -
  let ?b = "buf (sv_comm st)" and ?n = "length p"
  let ?b1 = "take 28 p @ drop 28 ?b" and ?st1 = "st\<lparr>sv_comm := (sv_comm st)\<lparr>buf := take 28 p @ drop 28 ?b\<rparr>\<rparr>"
  have l: "28 \<le> ?n" "?n < 2 ^ 31" "take 4 p = be32 (of_nat ?n)" using p by (auto simp: says_def)
  have "recv_from_socket 0 28 (take 28 p @ drop 28 p) st = Some (Some (drop 28 p, ?st1))"
    by (subst socket_whole) (use l(1) b in \<open>simp_all add: write_at_def\<close>)
  then have 1: "recv_from_socket 0 28 p st = Some (Some (drop 28 p, ?st1))" by (simp only: append_take_drop_id)
  have "take 4 ?b1 = be32 (of_nat ?n)" using l b by simp
  then have u: "UnloadBlob_UINT32 0 ?b1 = Some (of_nat ?n, 4)"
    using l(1) b by (simp add: UnloadBlob_UINT32_def rd_def read_at_def)
  have n: "unat (of_nat ?n :: u32) = ?n" "sint (of_nat ?n :: u32) = int ?n" using small_word [OF l(2)] by simp_all
  have "recv_from_socket 28 (?n - 28) (drop 28 p @ []) ?st1
      = Some (Some ([], st\<lparr>sv_comm := (sv_comm st)\<lparr>buf := p @ drop ?n ?b\<rparr>\<rparr>))"
    using l(1) b by (subst socket_whole) (auto simp: write_at_def)
  then show ?thesis using 1 u n l(1) b by (simp add: recv_packet_def Let_def)
qed

text \<open>A daemon that is not restricted, and in which nothing else happens meanwhile.\<close>

definition idle_daemon :: "'t rpc_env \<Rightarrow> bool" where
  "idle_daemon r \<longleftrightarrow> rd (r_remote_ops r) 0 1 = Some [0] \<and> (\<forall>x. r_others r x = Some x)"

definition roomy :: "tcsd_comm_data \<Rightarrow> bool" where
  "roomy c \<longleftrightarrow> 1024 \<le> length (buf c) \<and> length (buf c) < 2 ^ 31"

lemma roomyD: "roomy c \<Longrightarrow> 28 \<le> length (buf c)" "roomy c \<Longrightarrow> length (buf c) < 2 ^ 31"
  by (simp_all add: roomy_def)

lemma serve_says:
  assumes p: "says p u gs" and b: "length p \<le> length (buf (sv_comm st))" "roomy (sv_comm st)" and q: "idle_daemon r"
    and u: "u < 124"
  obtains h where "hdr_u h = u" "gs \<noteq> [] \<Longrightarrow> reading gs 0 \<lparr>buf = p @ drop (length p) (buf (sv_comm st)), hdr = h\<rparr>"
    "serve_request r p st = do {
       (result, st) \<leftarrow> (tcs_func_table r ! unat u) (st\<lparr>sv_comm := \<lparr>buf = p @ drop (length p) (buf (sv_comm st)), hdr = h\<rparr>\<rparr>);
       st \<leftarrow> (if result \<noteq> 0 then answer_failure result st else header_put (header_words (hdr (sv_comm st))) st);
       out \<leftarrow> send_packet st;
       Some (Some (out, r_sent r \<and> \<not> r_shutdown r, []), st) }"
proof -
  let ?in = "p @ drop (length p) (buf (sv_comm st))"
  have "length ?in < 2 ^ 31" using b by (simp add: roomy_def)
  then obtain h where h: "decode_header ?in = Some h" "hdr_u h = u"
    "num_parms h = 0 \<or> packet_size h = parm_offset h + parm_size h" "gs \<noteq> [] \<longrightarrow> reading gs 0 \<lparr>buf = ?in, hdr = h\<rparr>"
    using p unfolding says_def by blast
  have n: "\<not> 125 \<le> u" "unat u < 124" using u by (auto simp: word_le_nat_alt word_less_nat_alt)
  have t: "length (tcs_func_table r) = 124" by (simp add: tcs_func_table_def Let_def)
  let ?s = "st\<lparr>sv_comm := \<lparr>buf = ?in, hdr = h\<rparr>\<rparr>"
  have same: "st\<lparr>sv_d := (sv_d st)\<lparr>d_tcs := d_tcs (sv_d st), d_am := d_am (sv_d st)\<rparr>\<rparr> = st" by simp
  define f where "f = (tcs_func_table r ! unat u) ?s"
  have g: "getTCSDPacket r ?s = do { (result, s) \<leftarrow> f;
      if result \<noteq> 0 then Some (result, s) else do { s \<leftarrow> header_put (header_words (hdr (sv_comm s))) s; Some (TSS_SUCCESS, s) } }"
    using h n q t by (auto simp: getTCSDPacket_def dispatchCommand_def Let_def idle_daemon_def f_def)
  have "serve_request r p st = do { (result, s) \<leftarrow> getTCSDPacket r ?s;
       s \<leftarrow> (if result \<noteq> 0 then answer_failure result s else Some s);
       out \<leftarrow> send_packet s;
       Some (Some (out, r_sent r \<and> \<not> r_shutdown r, []), s) }"
    using recv_packet_fits [OF p b(1)] b(2) q h(1) by (simp add: serve_request_def idle_daemon_def same roomy_def Let_def comm_eq)
  also have "\<dots> = do { (result, s) \<leftarrow> f;
       s \<leftarrow> (if result \<noteq> 0 then answer_failure result s else header_put (header_words (hdr (sv_comm s))) s);
       out \<leftarrow> send_packet s;
       Some (Some (out, r_sent r \<and> \<not> r_shutdown r, []), s) }"
  proof (cases f)
    case (Some x)
    then show ?thesis unfolding g by (cases x; cases "fst x = 0"; cases "header_put (header_words (hdr (sv_comm (snd x)))) (snd x)") auto
  qed (simp add: g)
  finally have "serve_request r p st = do { (result, s) \<leftarrow> f;
       s \<leftarrow> (if result \<noteq> 0 then answer_failure result s else header_put (header_words (hdr (sv_comm s))) s);
       out \<leftarrow> send_packet s;
       Some (Some (out, r_sent r \<and> \<not> r_shutdown r, []), s) }" .
  with h that show ?thesis unfolding f_def by blast
qed

text \<open>The handlers: a parameter of the request, the response.\<close>

lemma get_data_buf: "get_data unload ty i old n c m = Some (x, c', m') \<Longrightarrow> buf c' = buf c"
  by (auto simp: get_data_def split: Option.bind_splits if_splits prod.splits)

lemma recv_step:
  assumes r: "reading gs k (sv_comm st)" and k: "k < length gs" "gs ! k = (ty, bs)"
    and u: "reads unload_parm ty old 0 bs d" "sel d = Some x"
  obtains c' where "recv ps ty (of_nat k) old sel f st = f x (st\<lparr>sv_comm := c'\<rparr>)" "reading gs (Suc k) c'"
    "buf c' = buf (sv_comm st)"
proof -
  obtain c' where c: "get_data unload_parm ty (of_nat k) old 0 (sv_comm st) (mem st) = Some ((TSS_SUCCESS, d), c', mem st)"
    "reading gs (Suc k) c'" using get_step [OF r k u(1)] by blast
  have "recv ps ty (of_nat k) old sel f st = f x (st\<lparr>sv_comm := c'\<rparr>)"
    using c(1) u(2) by (simp add: recv_def get_parm_def get_data_both)
  then show thesis using that c get_data_buf [OF c(1)] by blast
qed

lemma recv_32_step:
  assumes "reading gs k (sv_comm st)" "k < length gs" "gs ! k = (PT_UINT32, be32 x)"
  obtains c' where "recv_32 ps (of_nat k) f st = f x (st\<lparr>sv_comm := c'\<rparr>)" "reading gs (Suc k) c'" "buf c' = buf (sv_comm st)"
  unfolding recv_32_def
  by (rule recv_step [OF assms, of "D32 0" "D32 x" as_32 x]) (use that in \<open>auto intro!: daemon_reads simp: wire_def place_for_def as_defs\<close>)

lemma recv_array_step:
  assumes "reading gs k (sv_comm st)" "k < length gs" "gs ! k = (ty, a)"
    and "ty \<in> {PT_NONCE, PT_DIGEST, PT_ENCAUTH, PT_AUTH_DATA}" "length a = 32"
  obtains c' where "recv_array ps ty (of_nat k) f st = f a (st\<lparr>sv_comm := c'\<rparr>)" "reading gs (Suc k) c'" "buf c' = buf (sv_comm st)"
  unfolding recv_array_def
  by (rule recv_step [OF assms(1-3), of "DA (replicate 32 0)" "DA a" as_arr a])
    (use assms(4,5) that in \<open>auto intro!: daemon_reads simp: wire_def place_for_def as_defs\<close>)

definition puts :: "out list \<Rightarrow> (ptype \<times> u8 list) list \<Rightarrow> bool" where
  "puts os gs \<longleftrightarrow> list_all2 (\<lambda>o' (ty, bs). \<exists>d n ls. o' = Put ty d n ls \<and> writes loadData ty d n bs) os gs"

lemma perform_puts:
  assumes "list_all2 (\<lambda>o' (ty, bs). \<exists>d n ls. o' = Put ty d n ls \<and> writes loadData ty d n bs) os gs"
    "building k fs (sv_comm s)" "length fs + length os \<le> k" "28 + k + span fs + span gs < 2 ^ 31" "\<forall>j. m_ok (mem s) j"
  shows "\<exists>c j. perform (of_nat (length fs)) os s = Some (TSS_SUCCESS, set_mem ((mem s)\<lparr>m_count := j\<rparr>) (s\<lparr>sv_comm := c\<rparr>))
    \<and> building k (fs @ gs) c \<and> hdr_u (hdr c) = hdr_u (hdr (sv_comm s))"
  using assms
proof (induction os gs arbitrary: fs s rule: list_all2_induct)
  case Nil
  then show ?case by (intro exI [of _ "sv_comm s"] exI [of _ "m_count (mem s)"]) simp
next
  case (Cons x os g gs)
  obtain ty bs d n ls where p: "g = (ty, bs)" "x = Put ty d n ls" "writes loadData ty d n bs"
    using Cons.hyps(1) by (cases g) auto
  obtain c1 m1 j where 1: "setData ty (of_nat (length fs)) d n (sv_comm s) (mem s) = Some (TSS_SUCCESS, c1, m1)"
    "building k (fs @ [g]) c1" "hdr_u (hdr c1) = hdr_u (hdr (sv_comm s))" "m1 = (mem s)\<lparr>m_count := j\<rparr>"
    using set_data_building [OF Cons.prems(1) p(3), of "mem s" "TCSERR TSS_E_INTERNAL_ERROR"] Cons.prems(2,3,4) p(1)
    by (auto simp: setData_def)
  let ?s = "set_mem m1 (s\<lparr>sv_comm := c1\<rparr>)"
  from Cons.IH [of "fs @ [g]" ?s] obtain c2 j' where
    2: "perform (of_nat (length (fs @ [g]))) os ?s = Some (TSS_SUCCESS, set_mem ((mem ?s)\<lparr>m_count := j'\<rparr>) (?s\<lparr>sv_comm := c2\<rparr>))"
    "building k ((fs @ [g]) @ gs) c2" "hdr_u (hdr c2) = hdr_u (hdr c1)"
    using Cons.prems 1(2,4) by (auto simp: set_mem_def)
  show ?case using 1 2 by (intro exI [of _ c2] exI [of _ j']) (simp add: p(2) add.commute set_mem_def)
qed

text \<open>A response has the result of the command, and its parameters when it succeeded.\<close>

definition answers :: "u32 \<Rightarrow> (ptype \<times> u8 list) list \<Rightarrow> 't served \<Rightarrow> 't served \<Rightarrow> bool" where
  "answers result gs s s' \<longleftrightarrow> (\<exists>c j. s' = set_mem ((mem s)\<lparr>m_count := j\<rparr>) (s\<lparr>sv_comm := c\<rparr>)
     \<and> 28 \<le> unat (packet_size (hdr c)) \<and> unat (packet_size (hdr c)) \<le> length (buf c) \<and> length (buf c) < 2 ^ 31
     \<and> says (packet_bytes c) result (if result = 0 then gs else []))"

lemma just_answers:
  assumes "roomy (sv_comm s)" "result = 0 \<Longrightarrow> gs = []"
  obtains s' where "just result s = Some (TSS_SUCCESS, s')" "answers result gs s s'"
proof
  let ?c = "\<lparr>buf = replicate (length (buf (sv_comm s))) 0, hdr = bare result\<rparr>"
  let ?s = "set_mem ((mem s)\<lparr>m_count := m_count (mem s)\<rparr>) (s\<lparr>sv_comm := ?c\<rparr>)"
  show "just result s = Some (TSS_SUCCESS, ?s)"
    by (simp add: just_def finish_def init_def initData_def bare_def)
  show "answers result gs s ?s"
    unfolding answers_def using assms bare_says [of ?c result]
    by (intro exI [of _ ?c] exI [of _ "m_count (mem s)"]) (auto simp: bare_def roomy_def)
qed

lemma respond_answers:
  assumes room: "roomy (sv_comm s)" and ok: "\<forall>j. m_ok (mem s) j"
    and os: "result = 0 \<Longrightarrow> puts (os (mem s)) gs" "result = 0 \<Longrightarrow> length gs = n" "result = 0 \<Longrightarrow> 28 + n + span gs < 2 ^ 31"
    and n: "28 + n \<le> 1024" "0 < n"
  obtains s' where "respond result (of_nat n) os s = Some (TSS_SUCCESS, s')" "answers result gs s s'"
proof (cases "result = 0")
  case False
  then show ?thesis using just_answers [OF room, of result gs] that by (auto simp: respond_def)
next
  case True
  have "building n [] (sv_comm (init (of_nat n) s))"
    using room n initData_building [of n "sv_comm s"] by (simp add: init_def roomy_def)
  then have "\<exists>c j. perform (of_nat (length ([] :: (ptype \<times> u8 list) list))) (os (mem s)) (init (of_nat n) s)
      = Some (TSS_SUCCESS, set_mem ((mem (init (of_nat n) s))\<lparr>m_count := j\<rparr>) ((init (of_nat n) s)\<lparr>sv_comm := c\<rparr>))
    \<and> building n ([] @ gs) c \<and> hdr_u (hdr c) = hdr_u (hdr (sv_comm (init (of_nat n) s)))"
    by (rule perform_puts [OF os(1) [OF True, unfolded puts_def]])
      (use ok os(2,3) True list_all2_lengthD [OF os(1) [OF True, unfolded puts_def]] in \<open>auto simp: init_def\<close>)
  then obtain c j where c: "perform 0 (os (mem s)) (init (of_nat n) s)
      = Some (TSS_SUCCESS, set_mem ((mem (init (of_nat n) s))\<lparr>m_count := j\<rparr>) ((init (of_nat n) s)\<lparr>sv_comm := c\<rparr>))"
    "building n gs c" by auto
  let ?c = "c\<lparr>hdr := (hdr c)\<lparr>hdr_u := 0\<rparr>\<rparr>"
  have b: "building n gs ?c" using c(2) by (simp add: building_def)
  have "answers result gs s (set_mem ((mem s)\<lparr>m_count := j\<rparr>) (s\<lparr>sv_comm := ?c\<rparr>))"
    unfolding answers_def
  proof (intro exI conjI)
    show "says (packet_bytes ?c) result (if result = 0 then gs else [])"
      using building_says [OF b] os(2,3) True by simp
    show "28 \<le> unat (packet_size (hdr ?c))" "unat (packet_size (hdr ?c)) \<le> length (buf ?c)" "length (buf ?c) < 2 ^ 31"
      using b os(3) True small_word(1) [of "28 + n + span gs"] by (auto simp: building_def simp del: of_nat_add)
  qed (rule refl)
  moreover have "respond result (of_nat n) os s = Some (TSS_SUCCESS, set_mem ((mem s)\<lparr>m_count := j\<rparr>) (s\<lparr>sv_comm := ?c\<rparr>))"
    using c(1) True by (simp add: respond_def finish_def init_def set_mem_def)
  ultimately show ?thesis using that by blast
qed

text \<open>The daemon sends the answer that its handler left.\<close>

lemma daemon_answers:
  assumes p: "says p u gs" "length p \<le> length (buf (sv_comm st))" "roomy (sv_comm st)" "idle_daemon r" "u < 124" "gs \<noteq> []"
    and f: "\<And>s c. s = st\<lparr>sv_comm := c\<rparr> \<Longrightarrow> reading gs 0 c \<Longrightarrow> length (buf c) = length (buf (sv_comm st)) \<Longrightarrow>
      \<exists>c' s'. (tcs_func_table r ! unat u) s = Some (TSS_SUCCESS, s') \<and> answers result outs (st\<lparr>sv_comm := c', sv_d := d\<rparr>) s'"
  obtains out st' j where "serve_request r p st = Some (Some (out, r_sent r \<and> \<not> r_shutdown r, []), st')"
    "says out result (if result = 0 then outs else [])" "sv_d st' = d\<lparr>d_mem := (d_mem d)\<lparr>m_count := j\<rparr>\<rparr>"
proof (rule serve_says [OF p(1-5)])
  fix h
  assume "gs \<noteq> [] \<Longrightarrow> reading gs 0 \<lparr>buf = p @ drop (length p) (buf (sv_comm st)), hdr = h\<rparr>"
  then have h1: "reading gs 0 \<lparr>buf = p @ drop (length p) (buf (sv_comm st)), hdr = h\<rparr>" using p(6) .
  assume h2: "serve_request r p st = do {
       (result, st) \<leftarrow> (tcs_func_table r ! unat u) (st\<lparr>sv_comm := \<lparr>buf = p @ drop (length p) (buf (sv_comm st)), hdr = h\<rparr>\<rparr>);
       st \<leftarrow> (if result \<noteq> 0 then answer_failure result st else header_put (header_words (hdr (sv_comm st))) st);
       out \<leftarrow> send_packet st;
       Some (Some (out, r_sent r \<and> \<not> r_shutdown r, []), st) }"
  from f [OF refl h1] p(2) obtain c' s' where s:
    "(tcs_func_table r ! unat u) (st\<lparr>sv_comm := \<lparr>buf = p @ drop (length p) (buf (sv_comm st)), hdr = h\<rparr>\<rparr>) = Some (TSS_SUCCESS, s')"
    "answers result outs (st\<lparr>sv_comm := c', sv_d := d\<rparr>) s'" by auto
  then obtain c j where c: "s' = set_mem ((d_mem d)\<lparr>m_count := j\<rparr>) (st\<lparr>sv_d := d, sv_comm := c\<rparr>)"
    "28 \<le> unat (packet_size (hdr c))" "unat (packet_size (hdr c)) \<le> length (buf c)" "length (buf c) < 2 ^ 31"
    "says (packet_bytes c) result (if result = 0 then outs else [])" by (auto simp: answers_def)
  have sv: "sv_comm s' = c" "sv_d s' = d\<lparr>d_mem := (d_mem d)\<lparr>m_count := j\<rparr>\<rparr>" by (simp_all add: c(1) set_mem_def)
  let ?s = "s'\<lparr>sv_comm := c\<lparr>buf := concat (map be32 (header_words (hdr c))) @ drop 28 (buf c)\<rparr>\<rparr>"
  have "header_put (header_words (hdr (sv_comm s'))) s' = Some ?s" using c(2-4) sv by (simp add: put_header_run)
  moreover have "send_packet ?s = Some (packet_bytes c)"
    using sent_bytes [OF c(2-4)] by (simp add: send_packet_def)
  ultimately have "serve_request r p st = Some (Some (packet_bytes c, r_sent r \<and> \<not> r_shutdown r, []), ?s)"
    using h2 s(1) by simp
  then show thesis using that c(5) sv by simp
qed

section \<open>The client\<close>

lemma same_words: "Trspi_LoadBlob_UINT32 = LoadBlob_UINT32"
  by (intro ext) (simp add: load_prims tcs_prims)

fun send_all :: "u32 \<Rightarrow> (ptype \<times> u32 \<times> datum) list \<Rightarrow> 'p stmt list" where
  "send_all i [] = []"
| "send_all i ((ty, n, d) # ps) = send_data ty i d n # send_all (i + 1) ps"

lemma steps_send_context:
  "steps (send_context i # ss) (r, st) = steps (send_32 i (ht_tcsContext (c_hte st)) # ss) (r, st)"
  by simp

lemma send_all_run:
  assumes "list_all2 (\<lambda>(ty, n, d) (ty', bs). ty' = ty \<and> writes tspi_loadData ty d n bs) ps gs"
    "building k fs (comm_of st)" "length fs + length ps \<le> k" "28 + k + span fs + span gs < 2 ^ 31" "\<forall>j. m_ok (c_mem st) j"
  shows "\<exists>c j. (\<forall>ss. steps (send_all (of_nat (length fs)) ps @ ss) (r, st)
      = steps ss (r, set_comm c (st\<lparr>c_mem := (c_mem st)\<lparr>m_count := j\<rparr>\<rparr>)))
    \<and> building k (fs @ gs) c \<and> hdr_u (hdr c) = hdr_u (hdr (comm_of st)) \<and> length (buf (comm_of st)) \<le> length (buf c)"
  using assms
proof (induction ps gs arbitrary: fs st rule: list_all2_induct)
  case Nil
  then show ?case by (intro exI [of _ "comm_of st"] exI [of _ "m_count (c_mem st)"]) (simp add: set_comm_def)
next
  case (Cons p ps g gs)
  obtain ty n d bs where p: "p = (ty, n, d)" "g = (ty, bs)" "writes tspi_loadData ty d n bs"
    using Cons.hyps(1) by (auto split: prod.splits)
  obtain c1 m1 j where 1: "tspi_setData ty (of_nat (length fs)) d n (comm_of st) (c_mem st) = Some (TSS_SUCCESS, c1, m1)"
    "building k (fs @ [g]) c1" "hdr_u (hdr c1) = hdr_u (hdr (comm_of st))" "m1 = (c_mem st)\<lparr>m_count := j\<rparr>"
    "length (buf (comm_of st)) \<le> length (buf c1)"
    using set_data_grows [OF Cons.prems(1) p(3), of "c_mem st" "TSPERR TSS_E_INTERNAL_ERROR"] Cons.prems(2,3,4) p(1,2)
    by (auto simp: tspi_setData_def)
  let ?st = "set_comm c1 (st\<lparr>c_mem := m1\<rparr>)"
  from Cons.IH [of "fs @ [g]" ?st] obtain c2 j' where
    2: "\<And>ss. steps (send_all (of_nat (length (fs @ [g]))) ps @ ss) (r, ?st) = steps ss (r, set_comm c2 (?st\<lparr>c_mem := (c_mem ?st)\<lparr>m_count := j'\<rparr>\<rparr>))"
    "building k ((fs @ [g]) @ gs) c2" "hdr_u (hdr c2) = hdr_u (hdr c1)" "length (buf c1) \<le> length (buf c2)"
    using Cons.prems 1(2,4) by auto
  have "set_comm c2 (?st\<lparr>c_mem := (c_mem ?st)\<lparr>m_count := j'\<rparr>\<rparr>) = set_comm c2 (st\<lparr>c_mem := (c_mem st)\<lparr>m_count := j'\<rparr>\<rparr>)"
    using 1(4) by (simp add: set_comm_def)
  then show ?case using 1 2 by (intro exI [of _ c2] exI [of _ j']) (simp add: p(1) send_data_def add.commute)
qed

text \<open>Receiving a whole answer.\<close>

lemma recv_answer_fits:
  assumes p: "says p u gs" "length p \<le> length (buf c)" "length (buf c) < 2 ^ 31"
  shows "recv_answer p c m = Some (TSS_SUCCESS, [], c\<lparr>buf := p @ drop (length p) (buf c)\<rparr>, m)"
proof -
  let ?n = "length p"
  have l: "28 \<le> ?n" "?n < 2 ^ 31" "take 4 p = be32 (of_nat ?n)" using p by (auto simp: says_def)
  have n: "unat (of_nat ?n :: u32) = ?n" "sint (of_nat ?n :: u32) = int ?n" using small_word [OF l(2)] by simp_all
  let ?b1 = "take 28 p @ drop 28 (buf c)"
  have "take 4 ?b1 = be32 (of_nat ?n)" using l p by simp
  then have u: "UnloadBlob_UINT32 0 ?b1 = Some (of_nat ?n, 4)"
    using l(1) p by (simp add: UnloadBlob_UINT32_def rd_def read_at_def)
  show ?thesis using l(1) p u n
    by (simp add: recv_answer_def tspi_recv_from_socket_def wr_def write_at_def Let_def)
qed

lemma sendTCSDPacket_says:
  assumes b: "building n gs (comm_of st)" "length gs = n" "28 + n + span gs < 2 ^ 31"
    and o: "hdr_u (hdr (comm_of st)) \<noteq> TCSD_ORD_OPENCONTEXT" "ht_socket (c_hte st) = Some []"
    and s: "n_send nw (packet_bytes (comm_of st)) (c_peer st) = (Some out, p)"
    and a: "says out u outs" "length out \<le> length (buf (comm_of st))"
  obtains h where "sendTCSDPacket nw st = Some (TSS_SUCCESS,
       set_comm \<lparr>buf = out @ drop (length out) (buf (comm_of st)), hdr = h\<rparr> (st\<lparr>c_peer := p\<rparr>))" "hdr_u h = u"
    "outs \<noteq> [] \<Longrightarrow> reading outs 0 \<lparr>buf = out @ drop (length out) (buf (comm_of st)), hdr = h\<rparr>"
proof -
  let ?c = "comm_of st"
  let ?b = "concat (map be32 (header_words (hdr ?c))) @ drop 28 (buf ?c)" and ?a = "out @ drop (length out) (buf ?c)"
  have c: "28 \<le> unat (packet_size (hdr ?c))" "unat (packet_size (hdr ?c)) \<le> length (buf ?c)" "length (buf ?c) < 2 ^ 31"
    using b small_word(1) [of "28 + n + span gs"] by (auto simp: building_def simp del: of_nat_add)
  have l: "length ?b = length (buf ?c)" "28 \<le> length (buf ?c)" using c by simp_all
  have "load_words Trspi_LoadBlob_UINT32 (header_words (hdr ?c)) (0, Some (buf ?c)) = put (concat (map be32 (header_words (hdr ?c)))) (0, Some (buf ?c))"
    using load_words_put by (simp add: same_words)
  then have 1: "load_words Trspi_LoadBlob_UINT32 (header_words (hdr ?c)) (0, Some (buf ?c)) = Some (28, Some ?b)"
    using c l by (simp add: put_some write_at_def)
  have 2: "packet_out (?c\<lparr>buf := ?b\<rparr>) = Some (packet_bytes ?c)" using sent_bytes [OF c] by (simp add: packet_out_def)
  have "length ?a < 2 ^ 31" using a c by simp
  then obtain h where h: "decode_header ?a = Some h" "hdr_u h = u" "outs \<noteq> [] \<longrightarrow> reading outs 0 \<lparr>buf = ?a, hdr = h\<rparr>"
    using a(1) unfolding says_def by blast
  have d: "drop (length out) ?b = drop (length out) (buf ?c)"
  proof -
    have "28 \<le> length out" using a(1) by (simp add: says_def)
    then show ?thesis using l by simp
  qed
  have "recv_answer out (?c\<lparr>buf := ?b\<rparr>) (c_mem st) = Some (TSS_SUCCESS, [], ?c\<lparr>buf := ?a\<rparr>, c_mem st)"
    using recv_answer_fits [OF a(1), of "?c\<lparr>buf := ?b\<rparr>" "c_mem st"] a(2) c(3) l d by simp
  then have "sendTCSDPacket nw st = Some (TSS_SUCCESS, set_comm \<lparr>buf = ?a, hdr = h\<rparr> (st\<lparr>c_peer := p\<rparr>))"
    using 1 2 o s h(1) by (simp add: sendTCSDPacket_def sendit_def set_comm_def set_socket_def Let_def comm_eq)
  then show thesis using that h by blast
qed

text \<open>The request: its parameters, its way, and the answer.\<close>

lemma request_answered:
  assumes ps: "list_all2 (\<lambda>(ty, n, d) (ty', bs). ty' = ty \<and> writes tspi_loadData ty d n bs) ps gs" "ps \<noteq> []"
      "28 + length ps + span gs \<le> 1024" and ord: "ord \<noteq> TCSD_ORD_OPENCONTEXT"
    and st: "roomy (comm_of st)" "\<forall>j. m_ok (c_mem st) j" "ht_socket (c_hte st) = Some []"
    and net: "\<And>p. says p ord gs \<Longrightarrow> \<exists>out d'. n_send nw p (c_peer st) = (Some out, d') \<and> says out u outs \<and> Q d'"
    and room: "28 + length outs + span outs \<le> 1024"
  obtains c d' j where
    "\<And>ss. steps (begin_request (of_nat (length ps)) ord # send_all 0 ps @ exchange nw # ss) (r, st)
      = steps ss (u, set_comm c (st\<lparr>c_mem := (c_mem st)\<lparr>m_count := j\<rparr>, c_peer := d'\<rparr>))"
    "Q d'" "outs \<noteq> [] \<Longrightarrow> reading outs 0 c" "roomy c"
proof -
  let ?c0 = "initData (of_nat (length ps)) (comm_of st)"
  let ?c1 = "?c0\<lparr>hdr := (hdr ?c0)\<lparr>hdr_u := ord\<rparr>\<rparr>"
  have l: "length ps = length gs" using ps(1) by (rule list_all2_lengthD)
  have b0: "length (buf ?c0) = length (buf (comm_of st))" by (simp add: initData_def Let_def)
  have "building (length ps) [] ?c0" by (rule initData_building) (use ps(2,3) st(1) in \<open>auto simp: roomy_def\<close>)
  then have b: "building (length ps) [] ?c1" by (simp add: building_def)
  obtain c2 j where c2: "\<And>ss. steps (send_all (of_nat (length ([] :: (ptype \<times> u8 list) list))) ps @ ss) (r, set_comm ?c1 st)
      = steps ss (r, set_comm c2 ((set_comm ?c1 st)\<lparr>c_mem := (c_mem (set_comm ?c1 st))\<lparr>m_count := j\<rparr>\<rparr>))"
    "building (length ps) ([] @ gs) c2" "hdr_u (hdr c2) = hdr_u (hdr (comm_of (set_comm ?c1 st)))"
    "length (buf (comm_of (set_comm ?c1 st))) \<le> length (buf c2)"
    using send_all_run [OF ps(1), of "length ps" "[]" "set_comm ?c1 st" r] b ps(3) st(2) by auto
  let ?st2 = "set_comm c2 (st\<lparr>c_mem := (c_mem st)\<lparr>m_count := j\<rparr>\<rparr>)"
  have st2: "set_comm c2 ((set_comm ?c1 st)\<lparr>c_mem := (c_mem (set_comm ?c1 st))\<lparr>m_count := j\<rparr>\<rparr>) = ?st2"
    by (simp add: set_comm_def)
  have bl: "building (length ps) gs (comm_of ?st2)" "hdr_u (hdr (comm_of ?st2)) = ord" "1024 \<le> length (buf (comm_of ?st2))"
    using c2(2-4) st(1) b0 by (simp_all add: roomy_def)
  have small: "28 + length ps + span gs < 2 ^ 31" using ps(3) by simp
  have "says (packet_bytes (comm_of ?st2)) ord gs" using building_says [OF bl(1)] l small bl(2) by simp
  from net [OF this] obtain out d' where o: "n_send nw (packet_bytes (comm_of ?st2)) (c_peer st) = (Some out, d')"
    "says out u outs" "Q d'" by blast
  have fits: "length out \<le> length (buf (comm_of ?st2))" using o(2) room bl(3) by (simp add: says_def)
  obtain h where h: "sendTCSDPacket nw ?st2 = Some (TSS_SUCCESS,
       set_comm \<lparr>buf = out @ drop (length out) (buf (comm_of ?st2)), hdr = h\<rparr> (?st2\<lparr>c_peer := d'\<rparr>))" "hdr_u h = u"
    "outs \<noteq> [] \<Longrightarrow> reading outs 0 \<lparr>buf = out @ drop (length out) (buf (comm_of ?st2)), hdr = h\<rparr>"
    using sendTCSDPacket_says [OF bl(1) l [symmetric] small _ _ _ o(2) fits, of nw d'] ord bl(2) st(3) o(1) by auto
  let ?c = "\<lparr>buf = out @ drop (length out) (buf (comm_of ?st2)), hdr = h\<rparr>"
  have "steps (begin_request (of_nat (length ps)) ord # send_all 0 ps @ exchange nw # ss) (r, st)
      = steps ss (u, set_comm ?c (st\<lparr>c_mem := (c_mem st)\<lparr>m_count := j\<rparr>, c_peer := d'\<rparr>))" for ss
  proof -
    have "steps (begin_request (of_nat (length ps)) ord # send_all 0 ps @ exchange nw # ss) (r, st)
        = steps (send_all 0 ps @ exchange nw # ss) (r, set_comm ?c1 st)" by (simp add: Let_def)
    also have "\<dots> = steps (exchange nw # ss) (r, ?st2)" using c2(1) [of "exchange nw # ss"] unfolding st2 by simp
    also have "\<dots> = steps ss (u, set_comm ?c (?st2\<lparr>c_peer := d'\<rparr>))" using h(1,2) by simp
    also have "set_comm ?c (?st2\<lparr>c_peer := d'\<rparr>) = set_comm ?c (st\<lparr>c_mem := (c_mem st)\<lparr>m_count := j\<rparr>, c_peer := d'\<rparr>)"
      by (simp add: set_comm_def)
    finally show ?thesis .
  qed
  moreover have "roomy ?c" using fits bl(1,3) by (simp add: roomy_def building_def)
  ultimately show thesis using that o(3) h(3) by blast
qed

text \<open>A parameter of the answer.\<close>

lemma accept_step:
  assumes r: "reading gs k (comm_of st)" and k: "k < length gs" "gs ! k = (ty, bs)"
    and u: "reads client_unload ty (value_at p st) n bs d"
  obtains c where "accept ty (of_nat k) p n bad (r, st) = do { st \<leftarrow> store_at p d (set_comm c st); Some (True, r, st) }"
    "reading gs (Suc k) c" "buf c = buf (comm_of st)"
proof -
  obtain c where c: "get_data client_unload ty (of_nat k) (value_at p st) n (comm_of st) (c_mem st) = Some ((TSS_SUCCESS, d), c, c_mem st)"
    "reading gs (Suc k) c" using get_step [OF r k u] by blast
  have "accept ty (of_nat k) p n bad (r, st) = do { st \<leftarrow> store_at p d (set_comm c st); Some (True, r, st) }"
    using c(1) by (simp add: accept_def get_data_both)
  then show thesis using that c(2) get_data_buf [OF c(1)] by blast
qed

lemma accept_array_step:
  assumes "reading gs k (comm_of st)" "k < length gs" "gs ! k = (ty, a)"
    and "ty \<in> {PT_NONCE, PT_DIGEST, PT_ENCAUTH, PT_AUTH_DATA}" "length a = 32" "length (m_D (c_mem st) l) = 32"
  obtains c where "accept_array ty (of_nat k) l bad (r, st)
      = Some (True, r, set_comm c (st\<lparr>c_mem := (c_mem st)\<lparr>m_D := (m_D (c_mem st))(l := a)\<rparr>\<rparr>))" "reading gs (Suc k) c" "buf c = buf (comm_of st)"
proof -
  have "reads client_unload ty (value_at (PArr l) st) 0 a (DA a)"
    by (rule client_reads) (use assms(4-6) in \<open>auto simp: wire_def place_for_def as_defs\<close>)
  then show thesis
  proof (rule accept_step [OF assms(1-3), of _ _ _ bad r])
    fix c
    assume "accept ty (of_nat k) (PArr l) 0 bad (r, st) = do { st \<leftarrow> store_at (PArr l) (DA a) (set_comm c st); Some (True, r, st) }"
      "reading gs (Suc k) c" "buf c = buf (comm_of st)"
    then show thesis by (intro that [of c]; cases st) (simp_all add: store_at_def as_defs set_comm_def Let_def)
  qed
qed

lemma accept_32_step:
  assumes "reading gs k (comm_of st)" "k < length gs" "gs ! k = (PT_UINT32, be32 x)"
  obtains c where "accept_32 (of_nat k) l bad (r, st)
      = Some (True, r, set_comm c (st\<lparr>c_mem := (c_mem st)\<lparr>m_32 := (m_32 (c_mem st))(l := x)\<rparr>\<rparr>))" "reading gs (Suc k) c" "buf c = buf (comm_of st)"
proof -
  have "reads client_unload PT_UINT32 (value_at (P32 l) st) 0 (be32 x) (D32 x)"
    by (rule client_reads) (auto simp: wire_def place_for_def as_defs)
  then show thesis
  proof (rule accept_step [OF assms(1-3), of _ _ _ bad r])
    fix c
    assume "accept PT_UINT32 (of_nat k) (P32 l) 0 bad (r, st) = do { st \<leftarrow> store_at (P32 l) (D32 x) (set_comm c st); Some (True, r, st) }"
      "reading gs (Suc k) c" "buf c = buf (comm_of st)"
    then show thesis by (intro that [of c]; cases st) (simp_all add: store_at_def as_defs set_comm_def Let_def)
  qed
qed

end
