(* ===== verification/Rpc_Client_Properties.thy ===== *)
theory Rpc_Client_Properties
  imports Rpc_Client_Calls Rpc_Remote
begin

text \<open>
  The properties of the remote calls of the client library: a call reaches the function of the daemon that it
  names, and its results come back; what a call does to the table of connections; calls without a connection.
\<close>

section \<open>A call to a daemon\<close>

text \<open>A thread of a daemon on the other side; when it dies the connection breaks.\<close>

definition daemon_net :: "'t rpc_env \<Rightarrow> 't served net" where
  "daemon_net r = \<lparr>n_connect = (\<lambda>host d. (Connected, d)),
     n_send = (\<lambda>out d. case serve_request r out d of
        None \<Rightarrow> (None, d) | Some (None, d) \<Rightarrow> (Some [], d) | Some (Some (reply, go, rest), d) \<Rightarrow> (Some reply, d))\<rparr>"

text \<open>A connection that is in order, and a daemon that is.\<close>

definition linked :: "u32 \<Rightarrow> 'p client \<Rightarrow> host_table_entry \<Rightarrow> bool" where
  "linked tspContext st e \<longleftrightarrow> List.find (\<lambda>e. ht_tspContext e = tspContext) (c_table st) = Some e \<and> \<not> ht_locked e
     \<and> ht_type e = CONNECTION_TYPE_TCP_PERSISTANT \<and> roomy (ht_comm e) \<and> ht_socket e = Some [] \<and> (\<forall>j. m_ok (c_mem st) j)"

definition ready :: "'t rpc_env \<Rightarrow> 't served \<Rightarrow> bool" where
  "ready r d \<longleftrightarrow> idle_daemon r \<and> roomy (sv_comm d) \<and> (\<forall>j. m_ok (mem d) j)"

lemma linked_call:
  assumes "linked tspContext st e"
  shows "call result tspContext f st = map_option (\<lambda>(x, st). (x, put_table_entry st))
    (f (st\<lparr>c_table := replace_entry (e\<lparr>ht_locked := True\<rparr>) (c_table st), c_hte := e\<lparr>ht_locked := True\<rparr>\<rparr>))"
  using assms by (simp add: linked_def call_def get_table_entry_def Let_def map_option_case split: option.splits prod.splits Option.bind_splits)

text \<open>Through the connection, in one step.\<close>

lemma daemon_request:
  assumes ps: "list_all2 (\<lambda>(ty, n, d) (ty', bs). ty' = ty \<and> writes tspi_loadData ty d n bs) ps gs" "ps \<noteq> []"
      "28 + length ps + span gs \<le> 1024" and ord: "ord \<noteq> TCSD_ORD_OPENCONTEXT" "ord < 124"
    and st: "roomy (comm_of st)" "\<forall>j. m_ok (c_mem st) j" "ht_socket (c_hte st) = Some []" and d: "ready r (c_peer st)"
    and f: "\<And>s c. s = (c_peer st)\<lparr>sv_comm := c\<rparr> \<Longrightarrow> reading gs 0 c \<Longrightarrow> roomy c \<Longrightarrow>
      \<exists>c' s'. (tcs_func_table r ! unat ord) s = Some (TSS_SUCCESS, s') \<and> answers u outs ((c_peer st)\<lparr>sv_comm := c', sv_d := d'\<rparr>) s'"
    and room: "28 + length outs + span outs \<le> 1024"
  shows "\<exists>c p j k.
    (\<forall>ss. steps (begin_request (of_nat (length ps)) ord # send_all 0 ps @ exchange (daemon_net r) # ss) (x, st)
      = steps ss (u, set_comm c (st\<lparr>c_mem := (c_mem st)\<lparr>m_count := j\<rparr>, c_peer := p\<rparr>)))
    \<and> sv_d p = d'\<lparr>d_mem := (d_mem d')\<lparr>m_count := k\<rparr>\<rparr> \<and> (u = 0 \<longrightarrow> outs \<noteq> [] \<longrightarrow> reading outs 0 c) \<and> roomy c"
proof -
  have gs: "gs \<noteq> []" "length ps = length gs" using ps(1,2) by (auto dest: list_all2_lengthD)
  have net: "\<exists>out p. n_send (daemon_net r) q (c_peer st) = (Some out, p) \<and> says out u (if u = 0 then outs else [])
      \<and> (\<exists>k. sv_d p = d'\<lparr>d_mem := (d_mem d')\<lparr>m_count := k\<rparr>\<rparr>)" if q: "says q ord gs" for q
  proof -
    have l: "length q \<le> length (buf (sv_comm (c_peer st)))" "roomy (sv_comm (c_peer st))" "idle_daemon r"
      using q d ps(3) gs(2) by (simp_all add: says_def ready_def roomy_def)
    show ?thesis
    proof (rule daemon_answers [OF q l ord(2) gs(1), of u outs d'])
      fix s c assume "s = (c_peer st)\<lparr>sv_comm := c\<rparr>" "reading gs 0 c" "length (buf c) = length (buf (sv_comm (c_peer st)))"
      then show "\<exists>c' s'. (tcs_func_table r ! unat ord) s = Some (TSS_SUCCESS, s') \<and> answers u outs ((c_peer st)\<lparr>sv_comm := c', sv_d := d'\<rparr>) s'"
        using f l(2) by (simp add: roomy_def)
    next
      fix out p k
      assume "serve_request r q (c_peer st) = Some (Some (out, r_sent r \<and> \<not> r_shutdown r, []), p)"
        "says out u (if u = 0 then outs else [])" "sv_d p = d'\<lparr>d_mem := (d_mem d')\<lparr>m_count := k\<rparr>\<rparr>"
      then show ?thesis by (auto simp: daemon_net_def)
    qed
  qed
  show ?thesis
  proof (rule request_answered [OF ps ord(1) st, where Q = "\<lambda>p. \<exists>k. sv_d p = d'\<lparr>d_mem := (d_mem d')\<lparr>m_count := k\<rparr>\<rparr>"])
    show "\<exists>out p. n_send (daemon_net r) q (c_peer st) = (Some out, p) \<and> says out u (if u = 0 then outs else [])
      \<and> (\<exists>k. sv_d p = d'\<lparr>d_mem := (d_mem d')\<lparr>m_count := k\<rparr>\<rparr>)" if "says q ord gs" for q by (rule net [OF that])
    show "28 + length (if u = 0 then outs else []) + span (if u = 0 then outs else []) \<le> 1024" using room by simp
  next
    fix c p j
    assume a: "\<And>ss. steps (begin_request (of_nat (length ps)) ord # send_all 0 ps @ exchange (daemon_net r) # ss) (x, st)
        = steps ss (u, set_comm c (st\<lparr>c_mem := (c_mem st)\<lparr>m_count := j\<rparr>, c_peer := p\<rparr>))"
      and b: "\<exists>k. sv_d p = d'\<lparr>d_mem := (d_mem d')\<lparr>m_count := k\<rparr>\<rparr>"
      and c: "(if u = 0 then outs else []) \<noteq> [] \<Longrightarrow> reading (if u = 0 then outs else []) 0 c" and rm: "roomy c"
    from b obtain k where k: "sv_d p = d'\<lparr>d_mem := (d_mem d')\<lparr>m_count := k\<rparr>\<rparr>" by blast
    have c2: "u = 0 \<longrightarrow> outs \<noteq> [] \<longrightarrow> reading outs 0 c" using c by auto
    show ?thesis by (rule exI [of _ c], rule exI [of _ p], rule exI [of _ j], rule exI [of _ k]) (use a k c2 rm in blast)
  qed
qed

lemma drop_blobs_nil [simp]: "drop_blobs [] st = st"
  by (cases st) (simp add: drop_blobs_def set_mem_def)

lemma words_written:
  "writes tspi_loadData PT_UINT32 (D32 x) n (be32 x)"
  "length a = 32 \<Longrightarrow> writes tspi_loadData PT_DIGEST (DA a) n a"
  by (rule client_writes; simp add: wire_def)+

text \<open>The handler of \<open>TCSD_ORD_EXTEND\<close>.\<close>

lemma extend_handler:
  assumes c: "reading [(PT_UINT32, be32 h), (PT_UINT32, be32 x), (PT_DIGEST, a)] 0 (sv_comm s)" "roomy (sv_comm s)" "length a = 32"
    and run: "TCSP_Extend_Internal env h x a (Some 0) (sv_d s) = Some (result, d)" "\<forall>j. m_ok (d_mem d) j"
      "result = 0 \<Longrightarrow> length (m_D (d_mem d) 0) = 32"
  shows "\<exists>c' s'. tcs_wrap_Extend env s = Some (TSS_SUCCESS, s')
    \<and> answers result [(PT_DIGEST, m_D (d_mem d) 0)] (s\<lparr>sv_comm := c', sv_d := d\<rparr>) s'"
proof -
  let ?gs = "[(PT_UINT32, be32 h), (PT_UINT32, be32 x), (PT_DIGEST, a)]"
  define k2 where "k2 = (\<lambda>result. respond result 1 (\<lambda>m. [put_array m PT_DIGEST 0 []]) :: 'a wrap)"
  define k1 where "k1 = (\<lambda>h x a. run (TCSP_Extend_Internal env h x a (Some 0)) [] k2)"
  have w: "tcs_wrap_Extend env = recv_32 [] (of_nat 0) (\<lambda>h. recv_32 [] (of_nat 1) (\<lambda>x. recv_array [] PT_DIGEST (of_nat 2) (\<lambda>a. k1 h x a)))"
    by (simp add: tcs_wrap_Extend_def k1_def k2_def)
  obtain c1 where 1: "recv_32 [] (of_nat 0) (\<lambda>h. recv_32 [] (of_nat 1) (\<lambda>x. recv_array [] PT_DIGEST (of_nat 2) (\<lambda>a. k1 h x a))) s
      = recv_32 [] (of_nat 1) (\<lambda>x. recv_array [] PT_DIGEST (of_nat 2) (\<lambda>a. k1 h x a)) (s\<lparr>sv_comm := c1\<rparr>)"
    "reading ?gs (Suc 0) c1" "buf c1 = buf (sv_comm s)"
    by (rule recv_32_step [OF c(1)]) simp_all
  obtain c2 where 2: "recv_32 [] (of_nat 1) (\<lambda>x. recv_array [] PT_DIGEST (of_nat 2) (\<lambda>a. k1 h x a)) (s\<lparr>sv_comm := c1\<rparr>)
      = recv_array [] PT_DIGEST (of_nat 2) (\<lambda>a. k1 h x a) (s\<lparr>sv_comm := c2\<rparr>)"
    "reading ?gs (Suc 1) c2" "buf c2 = buf c1"
    by (rule recv_32_step [of ?gs 1 "s\<lparr>sv_comm := c1\<rparr>" x]) (use 1(2) in simp_all)
  obtain c3 where 3: "recv_array [] PT_DIGEST (of_nat 2) (\<lambda>a. k1 h x a) (s\<lparr>sv_comm := c2\<rparr>) = k1 h x a (s\<lparr>sv_comm := c3\<rparr>)"
    "buf c3 = buf c2"
    by (rule recv_array_step [of ?gs 2 "s\<lparr>sv_comm := c2\<rparr>" PT_DIGEST a]) (use 2(2) c(3) in \<open>simp_all add: numeral_2_eq_2\<close>)
  let ?s = "s\<lparr>sv_comm := c3, sv_d := d\<rparr>"
  have "tcs_wrap_Extend env s = k1 h x a (s\<lparr>sv_comm := c3\<rparr>)" using 1(1) 2(1) 3(1) by (simp only: w)
  also have "\<dots> = k2 result ?s" using run(1) by (simp add: k1_def run_def)
  finally have e: "tcs_wrap_Extend env s = respond result (of_nat 1) (\<lambda>m. [put_array m PT_DIGEST 0 []]) ?s" by (simp add: k2_def)
  have r: "roomy (sv_comm ?s)" using c(2) 1(3) 2(3) 3(2) by (simp add: roomy_def)
  obtain s' where "respond result (of_nat 1) (\<lambda>m. [put_array m PT_DIGEST 0 []]) ?s = Some (TSS_SUCCESS, s')"
    "answers result [(PT_DIGEST, m_D (d_mem d) 0)] ?s s'"
  proof (rule respond_answers [OF r])
    show "\<forall>j. m_ok (mem ?s) j" using run(2) by simp
    show "puts [put_array (mem ?s) PT_DIGEST 0 []] [(PT_DIGEST, m_D (d_mem d) 0)]" if "result = 0"
      using daemon_writes [of PT_DIGEST 0 "DA (m_D (d_mem d) 0)"] run(3) [OF that] by (simp add: puts_def wire_def)
    show "28 + 1 + span [(PT_DIGEST, m_D (d_mem d) 0)] < 2 ^ 31" if "result = 0" using run(3) [OF that] by simp
  qed simp_all
  then show ?thesis using e by (intro exI [of _ c3] exI [of _ s']) simp
qed

lemma steps_request_context:
  "steps (begin_request n ord # send_context i # ss) (r, st) = steps (begin_request n ord # send_32 i (ht_tcsContext (c_hte st)) # ss) (r, st)"
  by (simp add: Let_def)

text \<open>The table around a call.\<close>

lemma find_replace:
  "List.find (\<lambda>e. ht_tspContext e = ht_tspContext x) (replace_entry x es)
    = (if \<exists>e \<in> set es. ht_tspContext e = ht_tspContext x then Some x else None)"
  by (induction es) auto

lemma linked_after:
  assumes l: "linked tspContext st e" and e: "ht_tspContext x = tspContext" "ht_type x = ht_type e" "ht_socket x = Some []"
    "roomy (ht_comm x)" and st: "c_hte st' = x" "map ht_tspContext (c_table st') = map ht_tspContext (c_table st)"
    "\<forall>j. m_ok (c_mem st') j"
  shows "linked tspContext (put_table_entry st') (x\<lparr>ht_locked := False\<rparr>)"
proof -
  have "tspContext \<in> set (map ht_tspContext (c_table st'))"
    using l found_member [of tspContext "c_table st" e] unfolding st(2) linked_def by auto
  then have "\<exists>e \<in> set (c_table st'). ht_tspContext e = ht_tspContext (x\<lparr>ht_locked := False\<rparr>)" using e(1) by auto
  then show ?thesis using find_replace [of "x\<lparr>ht_locked := False\<rparr>" "c_table st'"] l e st
    by (simp add: linked_def put_table_entry_def note_entry_def)
qed

text \<open>C4: A remote extension of a register is the extension by the daemon: the call returns the code of
  \<open>TCSP_Extend_Internal\<close> and the digest that it computed, the daemon is in the state that function left, and the
  connection is ready for the next call.\<close>

theorem remote_extend:
  assumes l: "linked tspContext st e" "ready r (c_peer st)"
    and a: "length inDigest = 32" "length (m_D (c_mem st) outDigest) = 32"
    and run: "TCSP_Extend_Internal (r_env r) (ht_tcsContext e) pcrNum inDigest (Some 0) (sv_d (c_peer st)) = Some (result, d)"
      "\<forall>j. m_ok (d_mem d) j" "length (m_D (d_mem d) 0) = 32"
  shows "\<exists>st' k e'. RPC_Extend (daemon_net r) tspContext pcrNum inDigest outDigest st = Some (result, st')
    \<and> sv_d (c_peer st') = d\<lparr>d_mem := (d_mem d)\<lparr>m_count := k\<rparr>\<rparr>
    \<and> m_D (c_mem st') = (if result = 0 then (m_D (c_mem st))(outDigest := m_D (d_mem d) 0) else m_D (c_mem st))
    \<and> linked tspContext st' e' \<and> ht_tcsContext e' = ht_tcsContext e"
proof -
  let ?e = "e\<lparr>ht_locked := True\<rparr>"
  let ?st = "st\<lparr>c_table := replace_entry ?e (c_table st), c_hte := ?e\<rparr>"
  let ?ps = "[(PT_UINT32, 0 :: u32, D32 (ht_tcsContext e)), (PT_UINT32, 0, D32 pcrNum), (PT_DIGEST, 0, DA inDigest)]"
  let ?gs = "[(PT_UINT32, be32 (ht_tcsContext e)), (PT_UINT32, be32 pcrNum), (PT_DIGEST, inDigest)]"
  let ?os = "[(PT_DIGEST, m_D (d_mem d) 0)]"
  let ?ss = "[on_success [accept_array PT_DIGEST 0 outDigest (go_on BAD [])]]"
  have ps: "list_all2 (\<lambda>(ty, n, d) (ty', bs). ty' = ty \<and> writes tspi_loadData ty d n bs) ?ps ?gs"
    using words_written a(1) by simp
  have st: "roomy (comm_of ?st)" "\<forall>j. m_ok (c_mem ?st) j" "ht_socket (c_hte ?st) = Some []" "ready r (c_peer ?st)"
    using l by (simp_all add: linked_def)
  have small: "?ps \<noteq> []" "28 + length ?ps + span ?gs \<le> 1024" "(TCSD_ORD_EXTEND :: u32) \<noteq> TCSD_ORD_OPENCONTEXT"
    "(TCSD_ORD_EXTEND :: u32) < 124" "28 + length ?os + span ?os \<le> 1024" using a(1) run(3) by simp_all
  obtain c p j k where 1:
    "\<forall>ss. steps (begin_request (of_nat (length ?ps)) TCSD_ORD_EXTEND # send_all 0 ?ps @ exchange (daemon_net r) # ss) (TSS_SUCCESS, ?st)
      = steps ss (result, set_comm c (?st\<lparr>c_mem := (c_mem ?st)\<lparr>m_count := j\<rparr>, c_peer := p\<rparr>))"
    "sv_d p = d\<lparr>d_mem := (d_mem d)\<lparr>m_count := k\<rparr>\<rparr>" "result = 0 \<longrightarrow> ?os \<noteq> [] \<longrightarrow> reading ?os 0 c" "roomy c"
  proof (atomize_elim, rule daemon_request [where x = TSS_SUCCESS, OF ps small(1-4) st _ small(5)])
    fix s c assume s: "s = (c_peer ?st)\<lparr>sv_comm := c\<rparr>" "reading ?gs 0 c" "roomy c"
    have "\<exists>c' s'. tcs_wrap_Extend (r_env r) s = Some (TSS_SUCCESS, s') \<and> answers result ?os (s\<lparr>sv_comm := c', sv_d := d\<rparr>) s'"
      by (rule extend_handler [of "ht_tcsContext e" pcrNum inDigest]) (use s a(1) run in simp_all)
    then show "\<exists>c' s'. (tcs_func_table r ! unat (TCSD_ORD_EXTEND :: u32)) s = Some (TSS_SUCCESS, s')
        \<and> answers result ?os ((c_peer ?st)\<lparr>sv_comm := c', sv_d := d\<rparr>) s'"
      using s(1) by (simp add: tcs_func_table_def Let_def)
  qed
  let ?st1 = "set_comm c (?st\<lparr>c_mem := (c_mem ?st)\<lparr>m_count := j\<rparr>, c_peer := p\<rparr>)"
  have l3: "send_all 0 ?ps @ ss = send_32 0 (ht_tcsContext e) # send_32 1 pcrNum # send_array PT_DIGEST 2 inDigest # ss"
    and n3: "(of_nat (length ?ps) :: u32) = 3" and ctx: "ht_tcsContext (c_hte ?st) = ht_tcsContext e" for ss :: "'a served stmt list"
    by simp_all
  have t0: "RPC_Extend_TP (daemon_net r) pcrNum inDigest outDigest ?st = do { (go, x, st) \<leftarrow> steps ?ss (result, ?st1); Some (x, st) }"
    using spec [OF 1(1), of ?ss] by (simp only: RPC_Extend_TP_def procedure_def steps_request_context l3 n3 ctx)
  obtain c2 D where t1: "do { (go, x, st) \<leftarrow> steps ?ss (result, ?st1); Some (x, st) } = Some (result, set_comm c2 (?st1\<lparr>c_mem := (c_mem ?st1)\<lparr>m_D := D\<rparr>\<rparr>))" and c2: "roomy c2"
    and D: "D = (if result = 0 then (m_D (c_mem st))(outDigest := m_D (d_mem d) 0) else m_D (c_mem st))"
  proof (cases "result = 0")
    case False
    then show ?thesis by (intro that [of c "m_D (c_mem st)"]) (use 1(4) in \<open>simp_all add: set_comm_def\<close>)
  next
    case True
    have rd: "reading ?os 0 (comm_of ?st1)" "length (m_D (c_mem ?st1) outDigest) = 32" using 1(3) True a(2) by simp_all
    show ?thesis
    proof (rule accept_array_step [of ?os 0 ?st1 PT_DIGEST "m_D (d_mem d) 0" outDigest "go_on BAD []" result, OF rd(1) _ _ _ _ rd(2)])
      fix c2
      assume "accept_array PT_DIGEST (of_nat 0) outDigest (go_on BAD []) (result, ?st1)
          = Some (True, result, set_comm c2 (?st1\<lparr>c_mem := (c_mem ?st1)\<lparr>m_D := (m_D (c_mem ?st1))(outDigest := m_D (d_mem d) 0)\<rparr>\<rparr>))"
        and b: "buf c2 = buf (comm_of ?st1)"
      then show ?thesis
        by (intro that [of c2 "(m_D (c_mem st))(outDigest := m_D (d_mem d) 0)"]) (use 1(4) b True in \<open>simp_all add: roomy_def\<close>)
    qed (use run(3) in simp_all)
  qed
  have tp: "RPC_Extend_TP (daemon_net r) pcrNum inDigest outDigest ?st
      = Some (result, set_comm c2 (?st1\<lparr>c_mem := (c_mem ?st1)\<lparr>m_D := D\<rparr>\<rparr>))" using t0 t1 by (rule trans)
  let ?st2 = "set_comm c2 (?st1\<lparr>c_mem := (c_mem ?st1)\<lparr>m_D := D\<rparr>\<rparr>)"
  have "linked tspContext (put_table_entry ?st2) ((c_hte ?st2)\<lparr>ht_locked := False\<rparr>)"
    by (rule linked_after [OF l(1)])
      (use l(1) found_member [of tspContext "c_table st" e] c2 in \<open>auto simp: linked_def set_comm_def replace_contexts\<close>)
  moreover have "RPC_Extend (daemon_net r) tspContext pcrNum inDigest outDigest st = Some (result, put_table_entry ?st2)"
    using tp by (simp add: RPC_Extend_def linked_call [OF l(1)])
  ultimately show ?thesis using 1(2) D
    by (intro exI [of _ "put_table_entry ?st2"] exI [of _ k] exI [of _ "(c_hte ?st2)\<lparr>ht_locked := False\<rparr>"])
      (simp add: put_table_entry_def note_entry_def set_comm_def)
qed

section \<open>The table of connections\<close>

text \<open>What an application does: connections are opened, and calls made.\<close>

inductive client_step :: "'p net \<Rightarrow> 'p client \<times> u32 obj_state \<Rightarrow> 'p client \<times> u32 obj_state \<Rightarrow> bool" for nw :: "'p net" where
  step_open: "RPC_OpenContext nw v t c host ty (st, obs) = Some (r, st', obs') \<Longrightarrow> client_step nw (st, obs) (st', obs')"
| step_call: "tsp_call nw c f \<Longrightarrow> f st = Some (r, st') \<Longrightarrow> client_step nw (st, obs) (st', obs)"

lemma step_ok:
  assumes "client_step nw x y" "table_ok (c_table (fst x))"
  shows "table_ok (c_table (fst y))"
  using assms(1)
proof cases
  case (step_open v t c host ty st obs r st' obs')
  then show ?thesis using open_ok [OF step_open(3)] assms(2) by simp
next
  case (step_call c f st r st' obs)
  have t: "table_ok (c_table st)" using assms(2) step_call(1) by simp
  from tsp_call_shape [OF step_call(3)] have "table_ok (c_table st')"
  proof
    assume "f = RPC_CloseContext nw c"
    then have "RPC_CloseContext nw c st = Some (r, st')" using step_call(4) by (simp only:)
    then show ?thesis using t by (rule close_ok)
  next
    assume "\<exists>d g. f = call d c g \<and> keeps_link g"
    then obtain d g where g: "f = call d c g" "keeps_link g" by blast
    then have "call d c g st = Some (r, st')" using step_call(4) by (simp only:)
    from call_keeps_table [OF this g(2) t] show ?thesis by (rule conjunct1)
  qed
  then show ?thesis by (simp add: step_call(2))
qed

text \<open>C14: Whatever connections an application opens and closes and whatever calls it makes, a context has at most
  one connection, no connection stays locked behind a call, and so no call waits for a lock for ever.\<close>

theorem client_table_invariant:
  assumes "(client_step nw)\<^sup>*\<^sup>* (st, obs) (st', obs')" "c_table st = []"
  shows "distinct (map ht_tspContext (c_table st')) \<and> (\<forall>e \<in> set (c_table st'). \<not> ht_locked e)
    \<and> (\<forall>c. get_table_entry c st' \<noteq> None)"
proof -
  have "table_ok (c_table (fst x)) \<Longrightarrow> table_ok (c_table (fst y))" if "(client_step nw)\<^sup>*\<^sup>* x y" for x y
    using that by (induction rule: rtranclp_induct) (auto dest: step_ok)
  from this [OF assms(1)] assms(2) have t: "table_ok (c_table st')" by (simp add: table_ok_def)
  have "get_table_entry c st' \<noteq> None" for c
  proof (cases "List.find (\<lambda>e. ht_tspContext e = c) (c_table st')")
    case (Some e)
    then have "\<not> ht_locked e" using t found_member [OF Some] by (simp add: table_ok_def)
    then show ?thesis using Some by (simp add: get_table_entry_def Let_def)
  qed (simp add: get_table_entry_def)
  then show ?thesis using t by (simp add: table_ok_def)
qed


lemma new_entry_context: "ht_tspContext (new_entry c host ty) = c"
  by (simp add: new_entry_def)

lemma replace_last:
  "ht_tspContext x \<notin> set (map ht_tspContext es) \<Longrightarrow> ht_tspContext y = ht_tspContext x \<Longrightarrow> replace_entry x (es @ [y]) = es @ [x]"
  by (induction es) auto

lemma find_last:
  "c \<notin> set (map ht_tspContext es) \<Longrightarrow> ht_tspContext y = c \<Longrightarrow> List.find (\<lambda>e. ht_tspContext e = c) (es @ [y]) = Some y"
  by (induction es) auto

text \<open>A context that was opened with a type of connection that the library does not have gets an error, and
  yet it counts as connected from then on: it cannot be opened again nor closed, and setting the secret of the
  operator reports success although nothing was sent.\<close>

theorem unknown_type_stays:
  assumes o: "RPC_OpenContext nw v t c host ty (st, obs) = Some (r, st', obs')" and ty: "ty \<noteq> CONNECTION_TYPE_TCP_PERSISTANT"
    and st: "\<forall>j. m_ok (c_mem st) j" "c \<notin> set (map ht_tspContext (c_table st))"
  shows "r = TSPERR TSS_E_INTERNAL_ERROR \<and> c_peer st' = c_peer st
    \<and> (\<exists>s. RPC_OpenContext nw v' t' c host' ty' (st', obs') = Some (TSPERR TSS_E_CONNECTION_FAILED, s, obs')
      \<and> c_table s = c_table st')
    \<and> (\<exists>s. RPC_CloseContext nw c st' = Some (TSPERR TSS_E_INTERNAL_ERROR, s) \<and> c_table s = c_table st')
    \<and> (\<exists>s. RPC_SetOperatorAuth nw c a st' = Some (TSS_SUCCESS, s) \<and> c_peer s = c_peer st)"
proof -
  let ?e = "new_entry c host ty"
  have last: "replace_entry ?e (c_table st @ [y]) = c_table st @ [?e]" if "ht_tspContext y = c" for y
    by (rule replace_last) (use st(2) that in \<open>simp_all add: new_entry_context\<close>)
  have s: "r = BAD" "c_table st' = c_table st @ [?e]" "c_peer st' = c_peer st" "\<forall>j. m_ok (c_mem st') j"
    using o ty st last [OF new_entry_context]
    by (auto simp: RPC_OpenContext_def add_table_entry_def malloc_mem_def connected_def note_entry_def Let_def split: if_splits)
  have e: "\<not> ht_locked ?e" "ht_type ?e = ty" "ht_tspContext ?e = c" by (simp_all add: new_entry_def)
  have found: "List.find (\<lambda>e. ht_tspContext e = c) (c_table st') = Some ?e"
    unfolding s(2) by (rule find_last) (use st(2) in \<open>auto simp: new_entry_def\<close>)
  have unlock: "?e\<lparr>ht_locked := False\<rparr> = ?e" by (simp add: new_entry_def)
  have same: "replace_entry (?e\<lparr>ht_locked := False\<rparr>) (replace_entry (?e\<lparr>ht_locked := True\<rparr>) (c_table st')) = c_table st'"
    unfolding unlock s(2) by (subst replace_twice) (simp_all add: last new_entry_context)
  have c: "connected c st'" by (simp add: connected_def s(2) new_entry_context)
  have t: "ty \<noteq> 1" using ty .
  have 1: "\<exists>s. RPC_OpenContext nw v' t' c host' ty' (st', obs') = Some (TSPERR TSS_E_CONNECTION_FAILED, s, obs') \<and> c_table s = c_table st'"
    using s(4) c by (simp add: RPC_OpenContext_def add_table_entry_def malloc_mem_def connected_def Let_def)
  have 2: "\<exists>s. RPC_CloseContext nw c st' = Some (TSPERR TSS_E_INTERNAL_ERROR, s) \<and> c_table s = c_table st'"
    using e t same by (simp add: RPC_CloseContext_def get_table_entry_def found put_table_entry_def note_entry_def Let_def)
  have 3: "\<exists>s. RPC_SetOperatorAuth nw c a st' = Some (TSS_SUCCESS, s) \<and> c_peer s = c_peer st"
    using e t s(3) by (simp add: RPC_SetOperatorAuth_def call_def get_table_entry_def found put_table_entry_def note_entry_def Let_def)
  show ?thesis using s(1,3) 1 2 3 by blast
qed

section \<open>Concrete instances\<close>

definition ex_host :: host_table_entry where
  "ex_host = (new_entry 7 ''h'' CONNECTION_TYPE_TCP_PERSISTANT)\<lparr>ht_tcsContext := 0xA0000000, ht_socket := Some []\<rparr>"

definition ex_digests :: rsp_mem where
  "ex_digests = ex_mem\<lparr>m_D := (\<lambda>_. replicate 32 0)\<rparr>"

definition ex_server :: "unit served" where
  "ex_server = ex_served\<lparr>sv_comm := ex_comm, sv_d := (ex_daemon [] calm_tddl)\<lparr>d_mem := ex_digests\<rparr>\<rparr>"

definition ex_client :: "host_table_entry list \<Rightarrow> unit served client" where
  "ex_client es = \<lparr>c_table = es, c_hte = ex_host, c_mem = ex_digests, c_uuid = (\<lambda>_. zero_UUID), c_64 = (\<lambda>_. 0),
     c_loadkey = (\<lambda>_. \<lparr>li_keyUUID = zero_UUID, li_parentKeyUUID = zero_UUID, li_paramDigest = replicate 32 0, li_authData = null_auth\<rparr>), c_peer = ex_server\<rparr>"

text \<open>The register 8 belongs to the kernel in this daemon.\<close>

lemma remote_extend_witness:
  "\<exists>st'. RPC_Extend (daemon_net ex_rpc) 7 8 (replicate 32 1) 0 (ex_client [ex_host]) = Some (TCSERR TSS_E_FAIL, st')"
proof -
  have l: "linked 7 (ex_client [ex_host]) ex_host"
    by (simp add: linked_def ex_client_def ex_host_def new_entry_def roomy_def ex_digests_def ex_mem_def)
  have r: "ready ex_rpc (c_peer (ex_client [ex_host]))"
    by (simp add: ready_def idle_daemon_def roomy_def ex_client_def ex_server_def ex_comm_def ex_rpc_def rd_def read_at_def
        ex_digests_def ex_mem_def)
  have run: "TCSP_Extend_Internal (r_env ex_rpc) (ht_tcsContext ex_host) 8 (replicate 32 1) (Some 0)
      (sv_d (c_peer (ex_client [ex_host]))) = Some (TCSERR TSS_E_FAIL, (ex_daemon [] calm_tddl)\<lparr>d_mem := ex_digests\<rparr>)"
    by (simp add: TCSP_Extend_Internal_def plain_def checked_def verify_def ex_context ex_env_def pcr_masked_def ex_rpc_def
        ex_host_def ex_client_def ex_server_def)
  from remote_extend [OF l r _ _ run] show ?thesis by (force simp: ex_client_def ex_digests_def ex_mem_def)
qed

definition ex_objects :: "u32 obj_state" where
  "ex_objects = \<lparr>nextObjectHandle = 0, ob_list = (\<lambda>_. []), ob_locked = (\<lambda>_. False), ob_ok = (\<lambda>_. True), ob_count = 0, ob_freed = []\<rparr>"

text \<open>The first connection of an application, of a type that the library does not have.\<close>

lemma ex_open:
  obtains st where "RPC_OpenContext (daemon_net ex_rpc) 0 1 9 ''h'' 2 (ex_client [], ex_objects) = Some (TSPERR TSS_E_INTERNAL_ERROR, st, ex_objects)"
    "map ht_tspContext (c_table st) = [9]"
proof
  let ?st = "(ex_client [])\<lparr>c_table := [new_entry 9 ''h'' 2], c_hte := new_entry 9 ''h'' 2,
    c_mem := ex_digests\<lparr>m_count := 2, m_live := 2\<rparr>\<rparr>"
  show "RPC_OpenContext (daemon_net ex_rpc) 0 1 9 ''h'' 2 (ex_client [], ex_objects) = Some (TSPERR TSS_E_INTERNAL_ERROR, ?st, ex_objects)"
    by (simp add: RPC_OpenContext_def add_table_entry_def malloc_mem_def ex_client_def ex_digests_def ex_mem_def connected_def
        note_entry_def Let_def numeral_2_eq_2)
  show "map ht_tspContext (c_table ?st) = [9]" by (simp add: new_entry_def)
qed

lemma client_table_invariant_witness:
  "\<exists>st'. (client_step (daemon_net ex_rpc))\<^sup>*\<^sup>* (ex_client [], ex_objects) (st', ex_objects)
    \<and> map ht_tspContext (c_table st') = [9] \<and> get_table_entry 9 st' \<noteq> None"
proof -
  obtain st where s: "RPC_OpenContext (daemon_net ex_rpc) 0 1 9 ''h'' 2 (ex_client [], ex_objects) = Some (TSPERR TSS_E_INTERNAL_ERROR, st, ex_objects)"
    "map ht_tspContext (c_table st) = [9]" by (rule ex_open)
  have "(client_step (daemon_net ex_rpc))\<^sup>*\<^sup>* (ex_client [], ex_objects) (st, ex_objects)"
    using step_open [OF s(1)] by (rule r_into_rtranclp)
  from this client_table_invariant [OF this] s(2) show ?thesis by (auto simp: ex_client_def)
qed

lemma unknown_type_stays_witness:
  "\<exists>st s. RPC_OpenContext (daemon_net ex_rpc) 0 1 9 ''h'' 2 (ex_client [], ex_objects) = Some (TSPERR TSS_E_INTERNAL_ERROR, st, ex_objects)
    \<and> RPC_SetOperatorAuth (daemon_net ex_rpc) 9 (replicate 32 0) st = Some (TSS_SUCCESS, s)"
proof -
  obtain st where s: "RPC_OpenContext (daemon_net ex_rpc) 0 1 9 ''h'' 2 (ex_client [], ex_objects) = Some (TSPERR TSS_E_INTERNAL_ERROR, st, ex_objects)"
    by (rule ex_open)
  have "\<forall>j. m_ok (c_mem (ex_client [])) j" "9 \<notin> set (map ht_tspContext (c_table (ex_client [])))"
    by (simp_all add: ex_client_def ex_digests_def ex_mem_def)
  with unknown_type_stays [OF s, of 0 1 "''h''" 1 "replicate 32 0"] s show ?thesis by auto
qed


end
