(* ===== verification/Spec2Isabelle.thy ===== *)
theory Spec2Isabelle
  imports Tsm_Prelude Sms4 Sch Tcm_Hash Trspi_Blob Trspi_Structs Trspi_Keys Trspi_Delegate
    Trspi_Hash Trspi_Properties Tcs_Key_Cache Tcs_Context Tcs_Req_Mgr Tcs_Pbg
    Tcs_Rsp Tcs_Auth_Mgr Tcs_Evlog Tspi_Obj Tspi_Mem
    Tcsi_Core Tcsi_Keys Tcsi_Admin Tcsi_Resources Tcsi_Key_Commands Tcsi_Transport
    Tcsi_Session Tcsi_Sessions Tcsi_Properties
    Rpc_Packet Rpc_Roundtrip Rpc_Writers Rpc_Server Rpc_Wrap_Tpm Rpc_Wrap_Keys Rpc_Dispatch Rpc_Handlers
    Rpc_Service Rpc_Parameters Rpc_Transfer Rpc_Properties
    Rpc_Client Rpc_Client_Tpm Rpc_Client_Keys Rpc_Client_Api Rpc_Client_Calls Rpc_Remote Rpc_Client_Properties
begin

text \<open>
  A verification library for the TCM software stack under \<open>src/tcmtool/svn/tsm/src\<close>.

  The program is a port of the TrouSerS stack to the Chinese TCM.  An application calls the
  client library (\<open>tspi/\<close>), which marshals structures (\<open>trspi/\<close>), hashes and encrypts them
  (\<open>tcmalg/\<close>) and calls the daemon (\<open>tcsd/\<close>, \<open>tcs/\<close>).  The daemon keeps contexts, a cache of the
  keys loaded into the TPM and the authorization sessions, and sends commands through the request
  manager and the driver library (\<open>tddl/\<close>) to the device.

  Theories, from the bottom:
  \<^item> \<open>Tsm_Prelude\<close>: machine integers, result codes, checked byte buffers, big-endian strings.
  \<^item> \<open>Sms4\<close> (\<open>tcmalg/sms4.c\<close>, \<open>tcm_sms4.c\<close>): the block cipher, ECB and CBC, padding; refinement of
    the block functions to the standard, CBC as a recursion on blocks, round trip, known answer.
  \<^item> \<open>Sch\<close>, \<open>Tcm_Hash\<close> (\<open>tcmalg/sch.c\<close>, \<open>tcm_hash.c\<close>): the streaming hash, with the locale
    \<open>hash_stream\<close> as the contract of init, update and finish; key derivation and HMAC proved
    against their specifications over the hash of a whole message.
  \<^item> \<open>Trspi_Blob\<close>: the load and unload primitives, an allocator that can fail, and the locales
    \<open>blob_writer\<close>, \<open>blob_reader\<close> and \<open>blob_codec\<close>: what every marshalled structure promises, with
    measuring, exact writing, round trip, injectivity proved once.
  \<^item> \<open>Trspi_Structs\<close>, \<open>Trspi_Keys\<close>, \<open>Trspi_Delegate\<close> (\<open>trspi/trousers.c\<close>): one record, writer,
    reader and NULL reader per structure, each with an interpretation of the locales.
  \<^item> \<open>Trspi_Hash\<close>: hashing of structures field by field; \<open>Trspi_Properties\<close>: their properties.
  \<^item> \<open>Tcs_Key_Cache\<close> (\<open>tcs/tcs_key_mem_cache.c\<close>): the list of cached keys with handles, reference
    counts and time stamps; an accounting invariant for heap objects on every error path.
  \<^item> \<open>Tcs_Context\<close> (\<open>tcs/tcs_context.c\<close>, \<open>tcs_context_key.c\<close>): contexts and their loaded keys over
    the cache; the locale \<open>ref_counter\<close> is the contract of the reference counts; the step
    relation \<open>tcs_step\<close> and the invariant \<open>refs_ok\<close> of all reachable states.
  \<^item> \<open>Tcs_Req_Mgr\<close> (\<open>tcs/tcs_req_mgr.c\<close>, \<open>tddl/tddl.c\<close>, parts of \<open>tcs_utils.c\<close>,
    \<open>tcsi_auth.c\<close>): from a command to the device and back; a submission returns when the device
    answers.
  \<^item> \<open>Tcs_Pbg\<close>, \<open>Tcs_Rsp\<close> (\<open>tcs/tcs_pbg.c\<close>, helpers of \<open>tcs/tcs_utils.c\<close>): \<open>tpm_rqu_build\<close> and
    \<open>tpm_rsp_parse\<close>, one definition per case of the switch, the switch as a table, variable arguments as
    lists of typed values; every request is well formed, responses are parsed back.
  \<^item> \<open>Tcs_Auth_Mgr\<close> (\<open>tcs/tcs_auth_mgr.c\<close>): the table of authorization sessions, swapping sessions out
    of the device, and the ring of sleeping threads, which refines a queue (locale \<open>fifo_queue\<close>); the
    accounting of open sessions over the step relation \<open>auth_step\<close>.
  \<^item> \<open>Tcs_Evlog\<close> (\<open>tcs/tcs_evlog.c\<close>, \<open>tcsi_evlog.c\<close>): the lists of PCR events, related to a history of
    events by \<open>logged\<close>; the parsers of external logs are functions in the configuration record.
  \<^item> \<open>Tcsi_Core\<close>: what the commands of the daemon are made of.  The state \<open>tcsd\<close> joins the contexts and
    keys, the session manager with the device, and the places of inputs and outputs; the environment
    \<open>tcsd_env\<close> holds the driver, the configuration, the other threads and the key store.
  \<^item> \<open>Tcsi_Keys\<close> (\<open>tcs/tcs_key.c\<close>, the loading part of \<open>tcs_key_mem_cache.c\<close> and \<open>tcsi_key.c\<close>): the
    structures of keys, making room in the device, loading a key and its parents (\<open>LoadKeyShim\<close>, a partial
    function, since it calls itself for the parent).
  \<^item> \<open>Tcsi_Admin\<close>, \<open>Tcsi_Resources\<close>, \<open>Tcsi_Key_Commands\<close>, \<open>Tcsi_Transport\<close> (\<open>tcs/tcsi_*.c\<close>): one
    definition per command.  \<open>Done\<close> and \<open>Return\<close> are \<open>goto done\<close>, after which \<open>releasing\<close> releases the
    sessions, and \<open>return\<close>.
  \<^item> \<open>Tcsi_Session\<close>: the locale \<open>session_invariant\<close>, whose theorem \<open>call_keeps\<close> says that an invariant of
    the session manager that its steps keep is kept by all 110 calls of the daemon (\<open>tcs_call\<close>).
  \<^item> \<open>Tcsi_Sessions\<close>, \<open>Tcsi_Properties\<close>: its interpretations, the states the daemon reaches (\<open>tcs_runs\<close>), which
    commands free their sessions and which do not, whose keys a client can use, the types of the
    arguments of \<open>tpm_rsp_parse\<close>.
  \<^item> \<open>Rpc_Packet\<close> (\<open>tcs/rpc/tcstp/rpc.c\<close>, \<open>tspi/rpc/tcstp/rpc.c\<close>): the packets between the client and the
    daemon, with both implementations of \<open>initData\<close>, \<open>loadData\<close>, \<open>setData\<close> and \<open>getData\<close>.
    \<open>Rpc_Roundtrip\<close>, \<open>Rpc_Writers\<close>, \<open>Rpc_Parameters\<close>, \<open>Rpc_Transfer\<close>: what \<open>building\<close> a packet keeps, the
    reference encoding \<open>wire\<close> of the parameters, and lists of parameters from one side to the other.
  \<^item> \<open>Rpc_Server\<close>, \<open>Rpc_Wrap_Tpm\<close>, \<open>Rpc_Wrap_Keys\<close> (\<open>tcs/rpc/tcstp/rpc_*.c\<close>): the handlers
    \<open>tcs_wrap_*\<close>, each a composition of receiving parameters, running the command and responding.
  \<^item> \<open>Rpc_Dispatch\<close> (\<open>tcs/rpc/tcstp/rpc.c\<close>, \<open>tcsd/tcsd_threads.c\<close>): the table of handlers, the access
    control, the dispatcher and the loop of a thread over the requests of its connection.
  \<^item> \<open>Rpc_Handlers\<close>, \<open>Rpc_Service\<close>, \<open>Rpc_Properties\<close>: what all handlers keep, in the context of the
    locale \<open>session_invariant\<close>; every answer of a connection is well framed; where client and daemon
    misunderstand each other.
  \<^item> \<open>Rpc_Client\<close>, \<open>Rpc_Client_Tpm\<close>, \<open>Rpc_Client_Keys\<close> (\<open>tspi/rpc/tcstp/rpc.c\<close>, \<open>rpc_*.c\<close>): the remote calls of
    the client, each a list of statements that build the request, exchange it and take the answer apart; the
    other side of a connection is a state with the functions of \<open>net\<close>.
  \<^item> \<open>Rpc_Client_Api\<close>, \<open>Rpc_Client_Calls\<close> (\<open>tspi/rpc/hosttable.c\<close>, \<open>tspi/rpc/tcs_api.c\<close>): the table of connections and
    the calls of the library, together the relation \<open>tsp_call\<close>; what they keep.
  \<^item> \<open>Rpc_Remote\<close>, \<open>Rpc_Client_Properties\<close>: a call from one end to the other, with the daemon of \<open>Rpc_Dispatch\<close> on the
    other side; the table of connections in all states an application reaches.
  \<^item> \<open>Tspi_Obj\<close> (\<open>tspi/obj.c\<close>, policy operations of \<open>tspi/obj_*.c\<close>): the object lists of the client, each
    with a lock; sequences of calls (\<open>obj_run\<close>) and the invariant \<open>obj_inv\<close>.
  \<^item> \<open>Tspi_Mem\<close> (\<open>tspi/tsp_context_mem.c\<close>): the memory given to the application, by context.

  Conventions.  A C function on a buffer is a HOL function on byte lists with explicit offsets; an
  access outside a buffer, a use after free or a NULL dereference is \<open>None\<close>.  Structures are
  records with the fields of the C structure; integers are words of their width, so that they wrap
  as in C.  Result codes are the 32-bit codes of the code.  Loops are structural recursion or
  have a termination proof; the one bound is the retry loop of the request manager, five
  transmissions, which is the bound of the code.  Third-party code (OpenSSL, the kernel driver,
  \<open>malloc\<close>, \<open>rand\<close>) is a parameter.

  Not modelled: sockets (a connection is the list of its bytes; the peer does not see it close), the six remote
  calls whose answers are arrays of structures or memory of the context (\<open>RPC_GetCapability\<close>, \<open>RPC_GetPcrEvent\<close>,
  \<open>RPC_GetPcrEventsByPcr\<close>, \<open>RPC_GetPcrEventLog\<close>, \<open>RPC_EnumRegisteredKeys\<close>, \<open>RPC_EnumRegisteredKeys2\<close>),
  the handlers of the daemon for the persistent key store, the event log and its own capabilities (they are
  functions of the environment \<open>rpc_env\<close>), the persistent key store, threads (each operation is one
  step; the locks of the object lists are in the model), the elliptic-curve part of \<open>tcmalg\<close> and its
  vendored big numbers, DAA, the kernel drivers, and the user interfaces.  Of the objects of the
  client library, the attributes other than policies are not modelled.  Of the commands of the daemon
  those on the persistent key store (\<open>tcs/tcsi_ps.c\<close>) and the capabilities of the daemon itself
  (\<open>tcs/tcsi_caps.c\<close>) are not modelled; what the key store does for the others is in the environment.
\<close>

end
